(* ===== verification/Prelude.thy ===== *)
theory Prelude
  imports Complex_Main "HOL-Library.Sublist" "HOL-Library.Multiset" "HOL-Library.Product_Lexorder"
begin

text \<open>
  Shared vocabulary of the development.

  \<^item> \<open>uuid\<close>: a 128-bit identifier read as the natural number PostgreSQL orders it by.
  \<^item> \<open>timestamp\<close>: microseconds since the epoch, the resolution of a PostgreSQL
    \<open>timestamptz\<close>; the database clock is an argument of every operation that reads it.
  \<^item> \<open>pystr\<close>: a Python \<open>str\<close> as its list of code points (free user text);
    identifiers the program itself spells (step names, error codes) are HOL strings.
  \<^item> \<open>json\<close>: the values stored in JSONB columns.
  \<^item> Tables are lists of rows with a key function; \<open>row_get\<close>, \<open>row_put\<close> and
    \<open>row_upd\<close> are the single-row statements the repositories issue, and the locale
    \<open>row_store\<close> is the contract the services rely on.
\<close>

named_theorems row_simps "laws of single-row table access"
named_theorems model_defs "definitions unfolded by the component proofs"

type_synonym uuid = nat
type_synonym timestamp = int
type_synonym pystr = "nat list"

text \<open>The code points of an ASCII literal of the source.\<close>

definition ascii :: "string \<Rightarrow> pystr" where
  "ascii s = map of_char s"

datatype json =
    JNull
  | JBool bool
  | JInt int
  | JReal rat
  | JStr pystr
  | JArr "json list"
  | JObj "(pystr \<times> json) list"

text \<open>An empty JSON object, the default of every JSONB column the program writes.\<close>

definition json_empty :: json where
  "json_empty = JObj []"

definition json_str :: "string \<Rightarrow> json" where
  "json_str s = JStr (ascii s)"

text \<open>\<open>str(UUID)\<close>: 32 lower-case hex digits in groups of 8, 4, 4, 4 and 12.\<close>

definition hex_char :: "nat \<Rightarrow> char" where
  "hex_char n = ''0123456789abcdef'' ! n"

fun hex_digits :: "nat \<Rightarrow> nat \<Rightarrow> string" where
  "hex_digits 0 u = []"
| "hex_digits (Suc n) u = hex_digits n (u div 16) @ [hex_char (u mod 16)]"

definition uuid_str :: "uuid \<Rightarrow> string" where
  "uuid_str u =
     (let h = hex_digits 32 u in
      take 8 h @ ''-'' @ take 4 (drop 8 h) @ ''-'' @ take 4 (drop 12 h) @ ''-''
      @ take 4 (drop 16 h) @ ''-'' @ drop 20 h)"

definition uuid_text :: "uuid \<Rightarrow> pystr" where
  "uuid_text u = ascii (uuid_str u)"

subsection \<open>Errors as values\<close>

fun bindE :: "'e + 'a \<Rightarrow> ('a \<Rightarrow> 'e + 'b) \<Rightarrow> 'e + 'b" where
  "bindE (Inl e) f = Inl e"
| "bindE (Inr x) f = f x"

lemma bindE_eq_Inr_iff:
  "bindE m f = Inr y \<longleftrightarrow> (\<exists>x. m = Inr x \<and> f x = Inr y)"
  by (cases m) auto

lemma bindE_eq_Inl_iff:
  "bindE m f = Inl e \<longleftrightarrow> m = Inl e \<or> (\<exists>x. m = Inr x \<and> f x = Inl e)"
  by (cases m) auto

definition isOk :: "'e + 'a \<Rightarrow> bool" where
  "isOk r = (case r of Inl _ \<Rightarrow> False | Inr _ \<Rightarrow> True)"

lemma isOk_simps [simp]: "isOk (Inr x)" "\<not> isOk (Inl e)"
  by (simp_all add: isOk_def)

subsection \<open>Tables\<close>

definition row_get :: "('r \<Rightarrow> uuid) \<Rightarrow> uuid \<Rightarrow> 'r list \<Rightarrow> 'r option" where
  "row_get key k rows = List.find (\<lambda>r. key r = k) rows"

definition row_put :: "('r \<Rightarrow> uuid) \<Rightarrow> 'r \<Rightarrow> 'r list \<Rightarrow> 'r list" where
  "row_put key r rows = map (\<lambda>x. if key x = key r then r else x) rows"

definition row_upd :: "('r \<Rightarrow> bool) \<Rightarrow> ('r \<Rightarrow> 'r) \<Rightarrow> 'r list \<Rightarrow> 'r list" where
  "row_upd P f rows = map (\<lambda>x. if P x then f x else x) rows"

definition keyed :: "('r \<Rightarrow> uuid) \<Rightarrow> 'r list \<Rightarrow> bool" where
  "keyed key rows = distinct (map key rows)"

lemma row_get_Nil [row_simps, simp]: "row_get key k [] = None"
  by (simp add: row_get_def)

lemma row_get_Cons [row_simps]:
  "row_get key k (r # rows) = (if key r = k then Some r else row_get key k rows)"
  by (simp add: row_get_def)

lemma row_get_SomeD: "row_get key k rows = Some r \<Longrightarrow> r \<in> set rows \<and> key r = k"
  by (auto simp: row_get_def find_Some_iff in_set_conv_nth)

lemma row_get_key: "row_get key k rows = Some r \<Longrightarrow> key r = k"
  by (simp add: row_get_SomeD)

lemma row_get_None_iff: "row_get key k rows = None \<longleftrightarrow> k \<notin> key ` set rows"
  by (auto simp: row_get_def find_None_iff)

lemma row_get_keyed:
  "keyed key rows \<Longrightarrow> r \<in> set rows \<Longrightarrow> row_get key (key r) rows = Some r"
  by (induction rows) (auto simp: keyed_def row_get_Cons)

lemma row_get_put_same:
  "key r \<in> key ` set rows \<Longrightarrow> row_get key (key r) (row_put key r rows) = Some r"
  by (induction rows) (auto simp: row_put_def row_get_Cons)

lemma row_get_put_other [row_simps]:
  "k \<noteq> key r \<Longrightarrow> row_get key k (row_put key r rows) = row_get key k rows"
  by (induction rows) (auto simp: row_put_def row_get_Cons)

lemma keys_row_put [row_simps, simp]: "map key (row_put key r rows) = map key rows"
  by (induction rows) (auto simp: row_put_def)

lemma key_set_row_put [simp]: "key ` set (row_put key r rows) = key ` set rows"
  by (metis keys_row_put list.set_map)

lemma keyed_row_put [simp]: "keyed key (row_put key r rows) = keyed key rows"
  by (simp add: keyed_def)

lemma row_put_absent: "key r \<notin> key ` set rows \<Longrightarrow> row_put key r rows = rows"
  by (induction rows) (auto simp: row_put_def)

lemma row_put_put [simp]: "key r = key r' \<Longrightarrow> row_put key r' (row_put key r rows) = row_put key r' rows"
  by (induction rows) (auto simp: row_put_def)

lemma length_row_put [simp]: "length (row_put key r rows) = length rows"
  by (simp add: row_put_def)

lemma set_row_put_cases:
  "x \<in> set (row_put key r rows) \<Longrightarrow> x = r \<or> (x \<in> set rows \<and> key x \<noteq> key r)"
  by (induction rows) (auto simp: row_put_def split: if_splits)

lemma set_row_put:
  "key r \<in> key ` set rows \<Longrightarrow>
   set (row_put key r rows) = insert r {x \<in> set rows. key x \<noteq> key r}"
  by (induction rows) (auto simp: row_put_def)

lemma list_all_row_put:
  "\<lbrakk>list_all P rows; P r\<rbrakk> \<Longrightarrow> list_all P (row_put key r rows)"
  by (induction rows) (auto simp: row_put_def)

lemma row_put_same:
  "\<lbrakk>keyed key rows; r \<in> set rows\<rbrakk> \<Longrightarrow> row_put key r rows = rows"
  unfolding row_put_def keyed_def
  by (rule map_idI) (metis distinct_map inj_on_def)

subsection \<open>The row-store interface\<close>

text \<open>
  What the services need of a table: they read a row by primary key, write one row back,
  and enumerate the rows.  The provider promises that a write is seen by the next read of
  that key, by no other key, and that a write never creates or removes a key.
\<close>

locale row_store =
  fixes get :: "uuid \<Rightarrow> 'db \<Rightarrow> 'r option"
    and put :: "'r \<Rightarrow> 'db \<Rightarrow> 'db"
    and key :: "'r \<Rightarrow> uuid"
    and keys :: "'db \<Rightarrow> uuid list"
  assumes get_put: "key r \<in> set (keys db) \<Longrightarrow> get (key r) (put r db) = Some r"
    and get_put_diff: "k \<noteq> key r \<Longrightarrow> get k (put r db) = get k db"
    and keys_put: "keys (put r db) = keys db"
    and get_mem: "get k db = Some r \<Longrightarrow> key r = k \<and> k \<in> set (keys db)"
begin

definition put_all :: "'r list \<Rightarrow> 'db \<Rightarrow> 'db" where
  "put_all rs db = fold put rs db"

lemma put_all_simps [simp]: "put_all [] db = db" "put_all (r # rs) db = put_all rs (put r db)"
  by (simp_all add: put_all_def)

lemma keys_put_all: "keys (put_all rs db) = keys db"
  by (induction rs arbitrary: db) (simp_all add: keys_put)

lemma get_after_put:
  "get k0 db = Some r0 \<Longrightarrow> key r = k0 \<Longrightarrow> get k0 (put r db) = Some r"
  using get_mem get_put by blast

lemma get_put_all_frame: "k \<notin> key ` set rs \<Longrightarrow> get k (put_all rs db) = get k db"
  by (induction rs arbitrary: db) (simp_all add: get_put_diff)

lemma get_put_all:
  assumes "distinct (map key rs)" "r \<in> set rs" "key r \<in> set (keys db)"
  shows "get (key r) (put_all rs db) = Some r"
  using assms
proof (induction rs arbitrary: db)
  case (Cons a rs)
  show ?case
  proof (cases "r = a")
    case True
    with Cons.prems show ?thesis
      by (simp add: get_put_all_frame get_put)
  next
    case False
    with Cons show ?thesis by (simp add: keys_put)
  qed
qed simp

end

interpretation list_store: row_store "row_get key" "row_put key" key "map key" for key :: "'r \<Rightarrow> uuid"
  by unfold_locales
    (auto simp: row_get_put_same row_simps dest: row_get_SomeD)

subsection \<open>Sorting and scanning\<close>

lemma find_set: "List.find P xs = Some x \<Longrightarrow> x \<in> set xs \<and> P x"
  by (auto simp: find_Some_iff in_set_conv_nth)

lemma find_distinct: "distinct (map f xs) \<Longrightarrow> x \<in> set xs \<Longrightarrow> List.find (\<lambda>y. f y = f x) xs = Some x"
  by (induction xs) auto

lemma length_takeWhile_lt: "x \<in> set xs \<Longrightarrow> \<not> P x \<Longrightarrow> length (takeWhile P xs) < length xs"
  by (induction xs) auto

lemma find_snoc:
  "List.find P (xs @ [x]) = (case List.find P xs of None \<Rightarrow> if P x then Some x else None | Some y \<Rightarrow> Some y)"
  by (induction xs) auto

lemma hd_sort_key_min:
  assumes "y \<in> set xs"
  shows "f (hd (sort_key f xs)) \<le> f y"
proof -
  have "set (sort_key f xs) \<noteq> {}" using assms by auto
  then obtain z zs where eq: "sort_key f xs = z # zs"
    by (cases "sort_key f xs") simp_all
  have "sorted (map f (z # zs))" using sorted_sort_key[of f xs] by (simp only: eq)
  moreover have "y \<in> set (z # zs)" using assms set_sort[of f xs] by (simp only: eq)
  ultimately show ?thesis by (auto simp: eq)
qed

lemma distinct_sort_key [simp]: "distinct (map g (sort_key f xs)) = distinct (map g xs)"
  by (rule mset_eq_imp_distinct_iff) (simp add: mset_map)

subsection \<open>Insertion-ordered dictionaries\<close>

text \<open>A Python dict keeps the order of first insertion: \<open>first_per f\<close> keeps the first element of each key
  (\<open>setdefault\<close>), \<open>dict_fromkeys\<close> is \<open>list(dict.fromkeys(xs))\<close>, \<open>group_by\<close> collects a list per key.\<close>

fun first_per :: "('a \<Rightarrow> 'k) \<Rightarrow> 'a list \<Rightarrow> 'a list" where
  "first_per f [] = []"
| "first_per f (x # xs) = x # filter (\<lambda>y. f y \<noteq> f x) (first_per f xs)"

definition dict_fromkeys :: "'a list \<Rightarrow> 'a list" where
  "dict_fromkeys xs = first_per (\<lambda>x. x) xs"

definition group_by :: "('a \<Rightarrow> 'k) \<Rightarrow> 'a list \<Rightarrow> 'a list list" where
  "group_by f xs = map (\<lambda>k. filter (\<lambda>x. f x = k) xs) (dict_fromkeys (map f xs))"

lemma first_per_subset: "set (first_per f xs) \<subseteq> set xs"
  by (induction xs) auto

lemma first_per_keys [simp]: "f ` set (first_per f xs) = f ` set xs"
proof (induction xs)
  case (Cons x xs)
  have "f ` set (filter (\<lambda>y. f y \<noteq> f x) ys) = f ` set ys - {f x}" for ys by auto
  then show ?case using Cons by simp
qed simp

lemma distinct_map_filter_key: "distinct (map f xs) \<Longrightarrow> distinct (map f (filter P xs))"
  by (induction xs) auto

lemma distinct_first_per [simp]: "distinct (map f (first_per f xs))"
  by (induction xs) (auto simp: distinct_map_filter_key)

lemma first_per_mem: "x \<in> set xs \<Longrightarrow> \<exists>y \<in> set (first_per f xs). f y = f x"
  by (metis first_per_keys imageE imageI)

lemma set_dict_fromkeys [simp]: "set (dict_fromkeys xs) = set xs"
  using first_per_keys[of "\<lambda>x. x" xs] by (simp add: dict_fromkeys_def)

lemma distinct_dict_fromkeys [simp]: "distinct (dict_fromkeys xs)"
  using distinct_first_per[of "\<lambda>x. x" xs] by (simp add: dict_fromkeys_def)

lemma set_group_by: "\<Union> (set ` set (group_by f xs)) = set xs"
  by (auto simp: group_by_def)

subsection \<open>Guarded bulk updates\<close>

lemma row_upd_Nil [simp]: "row_upd P f [] = []"
  by (simp add: row_upd_def)

lemma keys_row_upd: "(\<And>x. key (f x) = key x) \<Longrightarrow> map key (row_upd P f rows) = map key rows"
  by (simp add: row_upd_def)

lemma row_get_upd:
  "(\<And>x. key (f x) = key x) \<Longrightarrow>
   row_get key k (row_upd P f rows) = map_option (\<lambda>x. if P x then f x else x) (row_get key k rows)"
  by (induction rows) (auto simp: row_upd_def row_get_Cons)

lemma set_row_upd: "set (row_upd P f rows) = (\<lambda>x. if P x then f x else x) ` set rows"
  by (simp add: row_upd_def)

end
