(* ===== verification/Domain_Enums.thy ===== *)
theory Domain_Enums
  imports Prelude
begin

text \<open>
  The closed enumerations of \<open>domain/enums.py\<close> that the modelled components use, with
  their persisted string values, and the error values of the program: one constructor per
  exception class raised by the modelled code.
\<close>

datatype dataset_status = Dataset_ACTIVE | Dataset_DELETING | Dataset_DELETED

datatype source_kind = Kind_TEXT | Kind_FILE | Kind_URL

datatype source_status =
  Source_PENDING | Source_PROCESSING | Source_ACTIVE | Source_FAILED | Source_DELETING | Source_DELETED

datatype summary_target_type = Target_DOCUMENT | Target_ENTITY | Target_DATASET | Target_CLUSTER

datatype pipeline_type = REMEMBER | COGNIFY | IMPROVE | FORGET | DATASET_DELETE

datatype run_status =
  Run_QUEUED | Run_RUNNING | Run_SUCCEEDED | Run_FAILED | Run_CANCELLING | Run_CANCELLED

datatype step_status =
  Step_QUEUED | Step_RUNNING | Step_SUCCEEDED | Step_FAILED | Step_CANCELLING | Step_CANCELLED

datatype graph_outbox_operation = Outbox_UPSERT | Outbox_DELETE

datatype graph_outbox_status = Outbox_PENDING | Outbox_PROCESSING | Outbox_DONE | Outbox_FAILED

datatype cognitive_memory_type = PROFILE | SEMANTIC

datatype cognitive_memory_lifecycle = Mem_ACTIVE | Mem_SUPERSEDED | Mem_FORGOTTEN

datatype cognitive_memory_origin_kind =
  USER_ASSERTED | TOOL_OBSERVED | IMPORTED | INFERRED | ASSISTANT_GENERATED

datatype cognitive_memory_operation = Op_CREATE | Op_SUPERSEDE | Op_FORGET

fun source_status_value :: "source_status \<Rightarrow> string" where
  "source_status_value Source_PENDING = ''pending''"
| "source_status_value Source_PROCESSING = ''processing''"
| "source_status_value Source_ACTIVE = ''active''"
| "source_status_value Source_FAILED = ''failed''"
| "source_status_value Source_DELETING = ''deleting''"
| "source_status_value Source_DELETED = ''deleted''"

fun pipeline_type_value :: "pipeline_type \<Rightarrow> string" where
  "pipeline_type_value REMEMBER = ''remember''"
| "pipeline_type_value COGNIFY = ''cognify''"
| "pipeline_type_value IMPROVE = ''improve''"
| "pipeline_type_value FORGET = ''forget''"
| "pipeline_type_value DATASET_DELETE = ''dataset_delete''"

fun run_status_value :: "run_status \<Rightarrow> string" where
  "run_status_value Run_QUEUED = ''queued''"
| "run_status_value Run_RUNNING = ''running''"
| "run_status_value Run_SUCCEEDED = ''succeeded''"
| "run_status_value Run_FAILED = ''failed''"
| "run_status_value Run_CANCELLING = ''cancelling''"
| "run_status_value Run_CANCELLED = ''cancelled''"

fun step_status_value :: "step_status \<Rightarrow> string" where
  "step_status_value Step_QUEUED = ''queued''"
| "step_status_value Step_RUNNING = ''running''"
| "step_status_value Step_SUCCEEDED = ''succeeded''"
| "step_status_value Step_FAILED = ''failed''"
| "step_status_value Step_CANCELLING = ''cancelling''"
| "step_status_value Step_CANCELLED = ''cancelled''"

text \<open>The stable public error codes of \<open>schemas/common.py\<close>.\<close>

datatype error_code =
    INVALID_REQUEST | MISSING_API_KEY | INVALID_API_KEY | CONFIGURATION_ERROR
  | DEPENDENCY_UNAVAILABLE | REQUEST_TOO_LARGE | INTERNAL_ERROR | IDEMPOTENCY_CONFLICT
  | RESERVED_IDEMPOTENCY_KEY_NAMESPACE | WORKER_DISABLED | RUN_NOT_RETRYABLE
  | MAIN_DATASET_DELETE_FORBIDDEN | DATASET_DELETING | DATASET_DELETED | SESSION_ARCHIVED
  | MEMORY_NOT_FOUND | MEMORY_STATE_CONFLICT

text \<open>Every exception the modelled code raises.  \<open>Sofias_Memory_Error\<close> carries the code
  and HTTP status of the raised \<open>SofiasMemoryError\<close>; messages are fixed by the code.\<close>

datatype exn =
    Run_Transition_Error run_status run_status
  | Step_Transition_Error step_status step_status
  | Lifecycle_Transition_Error cognitive_memory_lifecycle cognitive_memory_lifecycle
  | Progress_Out_Of_Bounds rat
  | Unknown_Pipeline_Type pipeline_type
  | Value_Error
  | Key_Error
  | Assertion_Error
  | Engine_Invariant_Error
  | Integrity_Error string
  | Run_Not_Found_During_Wait uuid
  | Projection_Validation_Error
  | Outbox_Payload_Mismatch_Error
  | Outbox_Event_Not_Found_Error
  | Outbox_Attempts_Exhausted_Error
  | Projection_Apply_Error
  | Invalid_Session_Id_Error
  | Invalid_External_Id_Error
  | Invalid_Skill_Name_Error
  | Invalid_Agent_Name_Error
  | Invalid_Agent_Profile_Error
  | Invalid_Skill_Revision_Content_Error
  | Invalid_Memory_Content_Error
  | Invalid_Memory_Confidence_Error
  | Invalid_Memory_Provenance_Error
  | Invalid_Memory_Timestamp_Error
  | Invalid_Memory_Validity_Window_Error
  | Invalid_Memory_Scope_Error
  | Overflow_Error
  | Sofias_Memory_Error error_code nat

end
