(* ===== verification/Schema.thy ===== *)
theory Schema
  imports Domain_Enums
begin

text \<open>
  The persisted rows of the durable pipeline runtime and the database state they live in:
  \<open>pipeline_runs\<close>, \<open>pipeline_steps\<close> and the part of \<open>datasets\<close> the runtime reads
  (\<open>infrastructure/postgres/models\<close>).  The CHECK constraints and unique indexes the
  tables declare are the predicates \<open>run_row_ok\<close>, \<open>step_row_ok\<close> and \<open>db_ok\<close>.
\<close>

record pipeline_run =
  run_id :: uuid
  run_pipeline_type :: pipeline_type
  run_dataset_id :: "uuid option"
  run_source_id :: "uuid option"
  run_status :: run_status
  run_idempotency_key :: "string option"
  run_payload_hash :: string
  run_input :: json
  run_progress :: rat
  run_current_step :: "string option"
  run_attempt :: int
  run_worker_id :: "string option"
  run_heartbeat_at :: "timestamp option"
  run_config_fingerprint :: string
  run_error_code :: "string option"
  run_error_message :: "string option"
  run_metrics :: json
  run_created_at :: timestamp
  run_started_at :: "timestamp option"
  run_finished_at :: "timestamp option"
  run_next_attempt_at :: "timestamp option"
  run_retry_of_run_id :: "uuid option"
  run_session_id :: "uuid option"

record pipeline_step =
  step_id :: uuid
  step_run_id :: uuid
  step_name :: string
  step_ordinal :: int
  step_status :: step_status
  step_attempt :: int
  step_input_hash :: "string option"
  step_output :: json
  step_metrics :: json
  step_error :: "json option"
  step_started_at :: "timestamp option"
  step_finished_at :: "timestamp option"

record dataset =
  dataset_id :: uuid
  dataset_slug :: string
  dataset_status :: dataset_status
  dataset_active_generation :: int

record db =
  pipeline_runs :: "pipeline_run list"
  pipeline_steps :: "pipeline_step list"
  datasets :: "dataset list"

text \<open>A status that owns its scope: the predicate of the partial unique index
  \<open>uq_pipeline_runs_dataset_id_operational\<close>.\<close>

definition operational :: "run_status \<Rightarrow> bool" where
  "operational s \<longleftrightarrow> s = Run_RUNNING \<or> s = Run_CANCELLING"

definition sha256_hex :: "string \<Rightarrow> bool" where
  "sha256_hex s \<longleftrightarrow> length s = 64 \<and> list_all (\<lambda>c. c \<in> set ''0123456789abcdef'') s"

definition run_row_ok :: "pipeline_run \<Rightarrow> bool" where
  "run_row_ok r \<longleftrightarrow> sha256_hex (run_payload_hash r) \<and> sha256_hex (run_config_fingerprint r)
     \<and> 0 \<le> run_attempt r"

definition step_row_ok :: "pipeline_step \<Rightarrow> bool" where
  "step_row_ok s \<longleftrightarrow> 0 \<le> step_attempt s
     \<and> (case step_input_hash s of None \<Rightarrow> True | Some h \<Rightarrow> sha256_hex h)"

definition operational_datasets :: "pipeline_run list \<Rightarrow> uuid list" where
  "operational_datasets rs =
     map (\<lambda>r. the (run_dataset_id r))
       (filter (\<lambda>r. run_dataset_id r \<noteq> None \<and> operational (run_status r)) rs)"

definition idempotency_keys :: "pipeline_run list \<Rightarrow> string list" where
  "idempotency_keys rs = map (\<lambda>r. the (run_idempotency_key r))
     (filter (\<lambda>r. run_idempotency_key r \<noteq> None) rs)"

definition run_table_ok :: "pipeline_run list \<Rightarrow> bool" where
  "run_table_ok rs \<longleftrightarrow> keyed run_id rs \<and> list_all run_row_ok rs
     \<and> distinct (idempotency_keys rs) \<and> distinct (operational_datasets rs)"

definition step_table_ok :: "pipeline_step list \<Rightarrow> bool" where
  "step_table_ok ss \<longleftrightarrow> keyed step_id ss \<and> list_all step_row_ok ss
     \<and> distinct (map (\<lambda>s. (step_run_id s, step_ordinal s)) ss)"

definition db_ok :: "db \<Rightarrow> bool" where
  "db_ok d \<longleftrightarrow> run_table_ok (pipeline_runs d) \<and> step_table_ok (pipeline_steps d)
     \<and> keyed dataset_id (datasets d)"

subsection \<open>Single-row statements of the repositories\<close>

definition get_run :: "uuid \<Rightarrow> db \<Rightarrow> pipeline_run option" where
  "get_run k d = row_get run_id k (pipeline_runs d)"

definition put_run :: "pipeline_run \<Rightarrow> db \<Rightarrow> db" where
  "put_run r d = d\<lparr>pipeline_runs := row_put run_id r (pipeline_runs d)\<rparr>"

definition get_step :: "uuid \<Rightarrow> db \<Rightarrow> pipeline_step option" where
  "get_step k d = row_get step_id k (pipeline_steps d)"

definition put_step :: "pipeline_step \<Rightarrow> db \<Rightarrow> db" where
  "put_step s d = d\<lparr>pipeline_steps := row_put step_id s (pipeline_steps d)\<rparr>"

definition get_dataset :: "uuid \<Rightarrow> db \<Rightarrow> dataset option" where
  "get_dataset k d = row_get dataset_id k (datasets d)"

definition run_ids :: "db \<Rightarrow> uuid list" where
  "run_ids d = map run_id (pipeline_runs d)"

definition step_ids :: "db \<Rightarrow> uuid list" where
  "step_ids d = map step_id (pipeline_steps d)"

text \<open>\<open>SELECT ... WHERE run_id = ... ORDER BY ordinal, id\<close>.\<close>

definition list_for_run :: "uuid \<Rightarrow> db \<Rightarrow> pipeline_step list" where
  "list_for_run k d = sort_key (\<lambda>s. (step_ordinal s, step_id s))
     (filter (\<lambda>s. step_run_id s = k) (pipeline_steps d))"

interpretation runs: row_store get_run put_run run_id run_ids
  by unfold_locales
    (auto simp: get_run_def put_run_def run_ids_def row_get_put_same row_simps dest: row_get_SomeD)

interpretation steps: row_store get_step put_step step_id step_ids
  by unfold_locales
    (auto simp: get_step_def put_step_def step_ids_def row_get_put_same row_simps
      dest: row_get_SomeD)

lemma put_run_frame [simp]:
  "pipeline_steps (put_run r d) = pipeline_steps d"
  "datasets (put_run r d) = datasets d"
  "get_step k (put_run r d) = get_step k d"
  "list_for_run k (put_run r d) = list_for_run k d"
  by (simp_all add: put_run_def get_step_def list_for_run_def)

lemma put_step_frame [simp]:
  "pipeline_runs (put_step s d) = pipeline_runs d"
  "datasets (put_step s d) = datasets d"
  "get_run k (put_step s d) = get_run k d"
  by (simp_all add: put_step_def get_run_def)

lemma set_list_for_run:
  "set (list_for_run k d) = {s \<in> set (pipeline_steps d). step_run_id s = k}"
  by (auto simp: list_for_run_def)

lemma sorted_list_for_run: "sorted (map (\<lambda>s. (step_ordinal s, step_id s)) (list_for_run k d))"
  by (simp add: list_for_run_def)

lemma distinct_list_for_run:
  "keyed step_id (pipeline_steps d) \<Longrightarrow> distinct (map step_id (list_for_run k d))"
  by (simp add: list_for_run_def keyed_def distinct_map_filter)

lemma get_step_list_for_run:
  "keyed step_id (pipeline_steps d) \<Longrightarrow> s \<in> set (list_for_run k d) \<Longrightarrow>
   get_step (step_id s) d = Some s"
  by (simp add: set_list_for_run get_step_def row_get_keyed)

lemma get_run_keyed:
  "keyed run_id (pipeline_runs d) \<Longrightarrow> r \<in> set (pipeline_runs d) \<Longrightarrow> get_run (run_id r) d = Some r"
  by (simp add: get_run_def row_get_keyed)

lemma get_run_SomeD: "get_run k d = Some r \<Longrightarrow> r \<in> set (pipeline_runs d) \<and> run_id r = k"
  by (simp add: get_run_def row_get_SomeD)

lemma get_step_SomeD: "get_step k d = Some s \<Longrightarrow> s \<in> set (pipeline_steps d) \<and> step_id s = k"
  by (simp add: get_step_def row_get_SomeD)

lemma operational_simps [simp]:
  "operational Run_RUNNING" "operational Run_CANCELLING" "\<not> operational Run_QUEUED"
  "\<not> operational Run_SUCCEEDED" "\<not> operational Run_FAILED" "\<not> operational Run_CANCELLED"
  by (simp_all add: operational_def)


subsection \<open>A write to one step in the ordered list of its run\<close>

lemma insort_key_map:
  "(\<And>y. y \<in> set (x # xs) \<Longrightarrow> f (g y) = f y) \<Longrightarrow>
   insort_key f (g x) (map g xs) = map g (insort_key f x xs)"
  by (induction xs) auto

lemma sort_key_map:
  "(\<And>y. y \<in> set xs \<Longrightarrow> f (g y) = f y) \<Longrightarrow> sort_key f (map g xs) = map g (sort_key f xs)"
proof (induction xs)
  case (Cons x xs)
  then have "sort_key f (map g (x # xs)) = insort_key f (g x) (map g (sort_key f xs))" by simp
  also have "\<dots> = map g (insort_key f x (sort_key f xs))"
    using Cons.prems by (intro insort_key_map) auto
  finally show ?case by simp
qed simp

lemma list_for_run_put_step:
  assumes keyed: "keyed step_id (pipeline_steps d)" and s: "s \<in> set (pipeline_steps d)"
    and s': "step_id s' = step_id s" "step_run_id s' = step_run_id s" "step_ordinal s' = step_ordinal s"
  shows "list_for_run k (put_step s' d) = row_put step_id s' (list_for_run k d)"
proof -
  let ?g = "\<lambda>x. if step_id x = step_id s' then s' else x"
  have eq: "x \<in> set (pipeline_steps d) \<Longrightarrow> step_id x = step_id s' \<Longrightarrow> x = s" for x
    using keyed s s'(1) by (metis option.inject row_get_keyed)
  have "filter (\<lambda>x. step_run_id x = k) (map ?g (pipeline_steps d))
      = map ?g (filter (\<lambda>x. step_run_id x = k) (pipeline_steps d))"
    unfolding filter_map o_def using s' by (intro arg_cong[where f = "map ?g"] filter_cong) (auto dest: eq)
  moreover have "sort_key (\<lambda>s. (step_ordinal s, step_id s)) (map ?g (filter (\<lambda>x. step_run_id x = k) (pipeline_steps d)))
      = map ?g (sort_key (\<lambda>s. (step_ordinal s, step_id s)) (filter (\<lambda>x. step_run_id x = k) (pipeline_steps d)))"
    using s' by (intro sort_key_map) (auto dest: eq)
  ultimately show ?thesis by (simp add: list_for_run_def put_step_def row_put_def)
qed

lemma get_run_put_run: "run_id r \<in> set (run_ids d) \<Longrightarrow> get_run (run_id r) (put_run r d) = Some r"
  by (rule runs.get_put)

lemma get_run_in_ids: "get_run k d = Some r \<Longrightarrow> k \<in> set (run_ids d)"
  by (auto dest: runs.get_mem)

lemma run_ids_simps [simp]: "run_ids (put_run r d) = run_ids d" "run_ids (put_step s d) = run_ids d"
  "step_ids (put_run r d) = step_ids d" "step_ids (put_step s d) = step_ids d"
  by (simp_all add: runs.keys_put steps.keys_put) (simp_all add: run_ids_def step_ids_def)

lemma keyed_put [simp]: "keyed run_id (pipeline_runs (put_run r d)) = keyed run_id (pipeline_runs d)"
  "keyed step_id (pipeline_steps (put_step s d)) = keyed step_id (pipeline_steps d)"
  by (simp_all add: put_run_def put_step_def)

end
