(* ===== verification/Lifecycle.thy ===== *)
theory Lifecycle
  imports Schema
begin

text \<open>
  The run and step state machines of ADR-0009 (\<open>domain/pipeline_lifecycle.py\<close>) and the
  primitives that apply an allowed transition to a persisted row
  (\<open>services/pipeline_lifecycle.py\<close>).  Locale \<open>transition_matrix\<close> is the contract of a
  validated transition relation; locale \<open>guarded_row\<close> adds a row the transitions are
  applied to, and proves once that any sequence of accepted applications is a path of
  the matrix and that a terminal row never changes its status again.
\<close>

subsection \<open>The transition matrices\<close>

definition RUN_TRANSITIONS :: "(run_status \<times> run_status) list" where
  "RUN_TRANSITIONS =
     [(Run_QUEUED, Run_RUNNING),
      (Run_QUEUED, Run_CANCELLED),
      (Run_RUNNING, Run_SUCCEEDED),
      (Run_RUNNING, Run_QUEUED),
      (Run_RUNNING, Run_FAILED),
      (Run_RUNNING, Run_CANCELLING),
      (Run_CANCELLING, Run_CANCELLED),
      (Run_CANCELLING, Run_FAILED)]"

definition TERMINAL_RUN_STATUSES :: "run_status list" where
  "TERMINAL_RUN_STATUSES = [Run_SUCCEEDED, Run_FAILED, Run_CANCELLED]"

definition STEP_TRANSITIONS :: "(step_status \<times> step_status) list" where
  "STEP_TRANSITIONS =
     [(Step_QUEUED, Step_RUNNING),
      (Step_QUEUED, Step_CANCELLED),
      (Step_RUNNING, Step_SUCCEEDED),
      (Step_RUNNING, Step_FAILED),
      (Step_RUNNING, Step_QUEUED),
      (Step_RUNNING, Step_CANCELLED)]"

definition validate_run_transition :: "run_status \<Rightarrow> run_status \<Rightarrow> exn + unit" where
  "validate_run_transition current target =
     (if (current, target) \<notin> set RUN_TRANSITIONS then Inl (Run_Transition_Error current target)
      else Inr ())"

definition validate_step_transition :: "step_status \<Rightarrow> step_status \<Rightarrow> exn + unit" where
  "validate_step_transition current target =
     (if (current, target) \<notin> set STEP_TRANSITIONS then Inl (Step_Transition_Error current target)
      else Inr ())"

definition validate_progress :: "rat \<Rightarrow> exn + unit" where
  "validate_progress value =
     (if value < 0 \<or> value > 1 then Inl (Progress_Out_Of_Bounds value) else Inr ())"

subsection \<open>The contract of a validated state machine\<close>

locale transition_matrix =
  fixes allowed :: "('s \<times> 's) list"
    and validate :: "'s \<Rightarrow> 's \<Rightarrow> exn + unit"
    and terminal :: "'s \<Rightarrow> bool"
  assumes validate_ok: "validate s t = Inr () \<longleftrightarrow> (s, t) \<in> set allowed"
    and terminal_stuck: "terminal s \<Longrightarrow> (s, t) \<in> set allowed \<Longrightarrow> t = s"
    and nonterminal_moves: "\<not> terminal s \<Longrightarrow> (\<exists>t. (s, t) \<in> set allowed) \<or> (\<forall>u. (u, s) \<notin> set allowed)"
begin

fun path_ok :: "'s \<Rightarrow> 's list \<Rightarrow> bool" where
  "path_ok s [] = True"
| "path_ok s (t # ts) = ((s, t) \<in> set allowed \<and> path_ok t ts)"

definition reachable :: "'s \<Rightarrow> 's \<Rightarrow> bool" where
  "reachable s t \<longleftrightarrow> (s, t) \<in> (set allowed)\<^sup>*"

lemma path_reachable: "path_ok s ts \<Longrightarrow> reachable s (last (s # ts))"
  unfolding reachable_def
  by (induction ts arbitrary: s) (auto intro: converse_rtrancl_into_rtrancl)

lemma terminal_reach: "reachable s t \<Longrightarrow> terminal s \<Longrightarrow> t = s"
  unfolding reachable_def
proof (induction rule: rtrancl_induct)
  case (step y z)
  then have "y = s" by simp
  with step show ?case using terminal_stuck[of y z] by simp
qed simp

lemma terminal_path: "terminal s \<Longrightarrow> path_ok s ts \<Longrightarrow> t \<in> set ts \<Longrightarrow> t = s"
  by (induction ts arbitrary: s) (auto dest: terminal_stuck)

end

locale guarded_row = transition_matrix allowed validate terminal
  for allowed :: "('s \<times> 's) list" and validate :: "'s \<Rightarrow> 's \<Rightarrow> exn + unit"
    and terminal :: "'s \<Rightarrow> bool" +
  fixes status :: "'r \<Rightarrow> 's" and apply_to :: "'r \<Rightarrow> 's \<Rightarrow> 'arg \<Rightarrow> exn + 'r"
  assumes apply_validates: "isOk (apply_to r t a) \<longleftrightarrow> isOk (validate (status r) t)"
    and apply_status: "apply_to r t a = Inr r' \<Longrightarrow> status r' = t"
begin

fun apply_all :: "'r \<Rightarrow> ('s \<times> 'arg) list \<Rightarrow> exn + 'r" where
  "apply_all r [] = Inr r"
| "apply_all r ((t, a) # ts) = bindE (apply_to r t a) (\<lambda>r'. apply_all r' ts)"

lemma apply_allowed: "apply_to r t a = Inr r' \<Longrightarrow> (status r, t) \<in> set allowed"
  using apply_validates[of r t a] validate_ok[of "status r" t]
  by (cases "validate (status r) t") auto

lemma apply_progress: "(status r, t) \<in> set allowed \<Longrightarrow> \<exists>r'. apply_to r t a = Inr r' \<and> status r' = t"
  using apply_validates[of r t a] validate_ok[of "status r" t] apply_status
  by (cases "apply_to r t a") auto

lemma apply_all_path: "apply_all r ts = Inr r' \<Longrightarrow>
    path_ok (status r) (map fst ts) \<and> status r' = last (status r # map fst ts)"
proof (induction r ts rule: apply_all.induct)
  case (2 r t a ts)
  from 2(2) obtain r1 where r1: "apply_to r t a = Inr r1" and rest: "apply_all r1 ts = Inr r'"
    by (auto simp: bindE_eq_Inr_iff)
  from 2(1)[OF rest] apply_status[OF r1] apply_allowed[OF r1] show ?case by simp
qed simp

lemma apply_all_terminal:
  "apply_all r ts = Inr r' \<Longrightarrow> terminal (status r) \<Longrightarrow> status r' = status r"
  using apply_all_path path_reachable terminal_reach by metis

end

subsection \<open>Applying a transition to a row\<close>

definition transition_run ::
  "pipeline_run \<Rightarrow> run_status \<Rightarrow> timestamp \<Rightarrow> string option \<Rightarrow> timestamp option \<Rightarrow>
   string option \<Rightarrow> string option \<Rightarrow> exn + pipeline_run" where
  "transition_run run target now worker_id next_attempt_at error_code error_message =
     bindE (validate_run_transition (run_status run) target) (\<lambda>_.
       Inr (
         (case target of
            Run_RUNNING \<Rightarrow>
              run\<lparr>run_attempt := run_attempt run + 1,
                  run_started_at := (case run_started_at run of None \<Rightarrow> Some now | Some t \<Rightarrow> Some t),
                  run_worker_id := worker_id,
                  run_heartbeat_at := Some now,
                  run_next_attempt_at := None\<rparr>
          | Run_QUEUED \<Rightarrow> run\<lparr>run_next_attempt_at := next_attempt_at\<rparr>
          | Run_SUCCEEDED \<Rightarrow> run\<lparr>run_finished_at := Some now, run_next_attempt_at := None\<rparr>
          | Run_FAILED \<Rightarrow>
              run\<lparr>run_finished_at := Some now, run_next_attempt_at := None,
                  run_error_code := error_code, run_error_message := error_message\<rparr>
          | Run_CANCELLED \<Rightarrow> run\<lparr>run_finished_at := Some now, run_next_attempt_at := None\<rparr>
          | Run_CANCELLING \<Rightarrow> run)
         \<lparr>run_status := target\<rparr>))"

definition upd_opt :: "'a option \<Rightarrow> 'a \<Rightarrow> 'a" where
  "upd_opt new old = (case new of None \<Rightarrow> old | Some v \<Rightarrow> v)"

definition transition_step ::
  "pipeline_step \<Rightarrow> step_status \<Rightarrow> timestamp \<Rightarrow> json option \<Rightarrow> json option \<Rightarrow> json option \<Rightarrow>
   exn + pipeline_step" where
  "transition_step s target now output metrics error =
     bindE (validate_step_transition (step_status s) target) (\<lambda>_.
       Inr (
         (case target of
            Step_RUNNING \<Rightarrow>
              s\<lparr>step_attempt := step_attempt s + 1, step_started_at := Some now,
                step_finished_at := None\<rparr>
          | Step_SUCCEEDED \<Rightarrow>
              s\<lparr>step_finished_at := Some now, step_output := upd_opt output (step_output s),
                step_metrics := upd_opt metrics (step_metrics s)\<rparr>
          | Step_FAILED \<Rightarrow>
              s\<lparr>step_finished_at := Some now,
                step_error := (case error of None \<Rightarrow> step_error s | Some e \<Rightarrow> Some e),
                step_metrics := upd_opt metrics (step_metrics s)\<rparr>
          | Step_CANCELLED \<Rightarrow> s\<lparr>step_finished_at := Some now\<rparr>
          | Step_QUEUED \<Rightarrow>
              s\<lparr>step_started_at := None, step_finished_at := None,
                step_error := (case error of None \<Rightarrow> step_error s | Some e \<Rightarrow> Some e)\<rparr>
          | Step_CANCELLING \<Rightarrow> s)
         \<lparr>step_status := target\<rparr>))"

definition apply_run_progress :: "pipeline_run \<Rightarrow> rat \<Rightarrow> exn + pipeline_run" where
  "apply_run_progress run value =
     bindE (validate_progress value) (\<lambda>_. Inr (run\<lparr>run_progress := value\<rparr>))"


text \<open>A step has no declared terminal set in the code; these are the targets its matrix
  never leaves.  \<open>Step_CANCELLING\<close> is not a state of the matrix at all.\<close>

definition terminal_step :: "step_status \<Rightarrow> bool" where
  "terminal_step s \<longleftrightarrow> s = Step_SUCCEEDED \<or> s = Step_FAILED \<or> s = Step_CANCELLED"

definition terminal_run :: "run_status \<Rightarrow> bool" where
  "terminal_run s \<longleftrightarrow> s \<in> set TERMINAL_RUN_STATUSES"

type_synonym run_args =
  "timestamp \<times> string option \<times> timestamp option \<times> string option \<times> string option"

type_synonym step_args = "timestamp \<times> json option \<times> json option \<times> json option"

definition transition_run_args :: "pipeline_run \<Rightarrow> run_status \<Rightarrow> run_args \<Rightarrow> exn + pipeline_run" where
  "transition_run_args r t a = (case a of (now, w, n, c, m) \<Rightarrow> transition_run r t now w n c m)"

definition transition_step_args ::
  "pipeline_step \<Rightarrow> step_status \<Rightarrow> step_args \<Rightarrow> exn + pipeline_step" where
  "transition_step_args s t a = (case a of (now, out, m, e) \<Rightarrow> transition_step s t now out m e)"

lemmas transition_defs = transition_run_def transition_step_def validate_run_transition_def
  validate_step_transition_def transition_run_args_def transition_step_args_def

lemmas matrix_defs = RUN_TRANSITIONS_def STEP_TRANSITIONS_def TERMINAL_RUN_STATUSES_def
  terminal_run_def terminal_step_def

interpretation run_machine: guarded_row RUN_TRANSITIONS validate_run_transition terminal_run
    run_status transition_run_args
proof unfold_locales
  fix s t :: run_status
  show "(validate_run_transition s t = Inr ()) = ((s, t) \<in> set RUN_TRANSITIONS)"
    by (simp add: validate_run_transition_def)
  show "terminal_run s \<Longrightarrow> (s, t) \<in> set RUN_TRANSITIONS \<Longrightarrow> t = s"
    by (auto simp: matrix_defs)
  show "\<not> terminal_run s \<Longrightarrow>
      (\<exists>t. (s, t) \<in> set RUN_TRANSITIONS) \<or> (\<forall>u. (u, s) \<notin> set RUN_TRANSITIONS)"
    by (cases s) (auto simp: matrix_defs)
next
  fix r r' :: pipeline_run and t a
  show "isOk (transition_run_args r t a) = isOk (validate_run_transition (run_status r) t)"
    by (cases a) (simp add: transition_defs)
  show "transition_run_args r t a = Inr r' \<Longrightarrow> run_status r' = t"
    by (cases a) (auto simp: transition_defs bindE_eq_Inr_iff)
qed

interpretation step_machine: guarded_row STEP_TRANSITIONS validate_step_transition terminal_step
    step_status transition_step_args
proof unfold_locales
  fix s t :: step_status
  show "(validate_step_transition s t = Inr ()) = ((s, t) \<in> set STEP_TRANSITIONS)"
    by (simp add: validate_step_transition_def)
  show "terminal_step s \<Longrightarrow> (s, t) \<in> set STEP_TRANSITIONS \<Longrightarrow> t = s"
    by (auto simp: matrix_defs)
  show "\<not> terminal_step s \<Longrightarrow>
      (\<exists>t. (s, t) \<in> set STEP_TRANSITIONS) \<or> (\<forall>u. (u, s) \<notin> set STEP_TRANSITIONS)"
    by (cases s) (auto simp: matrix_defs)
next
  fix r r' :: pipeline_step and t a
  show "isOk (transition_step_args r t a) = isOk (validate_step_transition (step_status r) t)"
    by (cases a) (simp add: transition_defs)
  show "transition_step_args r t a = Inr r' \<Longrightarrow> step_status r' = t"
    by (cases a) (auto simp: transition_defs bindE_eq_Inr_iff)
qed

subsection \<open>Facts about single transitions\<close>

lemma transition_run_ok:
  "transition_run r t now w n c m = Inr r' \<Longrightarrow> (run_status r, t) \<in> set RUN_TRANSITIONS"
  unfolding transition_run_def validate_run_transition_def
  by (cases "(run_status r, t) \<in> set RUN_TRANSITIONS") simp_all

lemma transition_step_ok:
  "transition_step s t now out m e = Inr s' \<Longrightarrow> (step_status s, t) \<in> set STEP_TRANSITIONS"
  unfolding transition_step_def validate_step_transition_def
  by (cases "(step_status s, t) \<in> set STEP_TRANSITIONS") simp_all

lemma transition_run_error:
  "transition_run r t now w n c m = Inl e \<longleftrightarrow>
     (run_status r, t) \<notin> set RUN_TRANSITIONS \<and> e = Run_Transition_Error (run_status r) t"
  unfolding transition_run_def validate_run_transition_def
  by (cases "(run_status r, t) \<in> set RUN_TRANSITIONS") auto

lemma transition_step_error:
  "transition_step s t now out m e = Inl x \<longleftrightarrow>
     (step_status s, t) \<notin> set STEP_TRANSITIONS \<and> x = Step_Transition_Error (step_status s) t"
  unfolding transition_step_def validate_step_transition_def
  by (cases "(step_status s, t) \<in> set STEP_TRANSITIONS") auto

text \<open>What no transition of a run or step ever touches.\<close>

definition same_run_identity :: "pipeline_run \<Rightarrow> pipeline_run \<Rightarrow> bool" where
  "same_run_identity r r' \<longleftrightarrow> run_id r' = run_id r \<and> run_pipeline_type r' = run_pipeline_type r
     \<and> run_dataset_id r' = run_dataset_id r \<and> run_source_id r' = run_source_id r
     \<and> run_idempotency_key r' = run_idempotency_key r \<and> run_payload_hash r' = run_payload_hash r
     \<and> run_input r' = run_input r \<and> run_created_at r' = run_created_at r
     \<and> run_config_fingerprint r' = run_config_fingerprint r
     \<and> run_retry_of_run_id r' = run_retry_of_run_id r \<and> run_session_id r' = run_session_id r"

lemma same_run_identity_refl [simp]: "same_run_identity r r"
  by (simp add: same_run_identity_def)

lemma same_run_identity_trans:
  "same_run_identity r r' \<Longrightarrow> same_run_identity r' r'' \<Longrightarrow> same_run_identity r r''"
  by (simp add: same_run_identity_def)

lemma transition_run_identity:
  "transition_run r t now w n c m = Inr r' \<Longrightarrow> same_run_identity r r'"
  by (cases t) (auto simp: transition_run_def bindE_eq_Inr_iff same_run_identity_def)

lemma transition_run_id:
  "transition_run r t now w n c m = Inr r' \<Longrightarrow> run_id r' = run_id r"
  using transition_run_identity by (simp add: same_run_identity_def)

lemma transition_run_status:
  "transition_run r t now w n c m = Inr r' \<Longrightarrow> run_status r' = t"
  by (auto simp: transition_run_def bindE_eq_Inr_iff)

lemma transition_run_attempt:
  "transition_run r t now w n c m = Inr r' \<Longrightarrow>
   run_attempt r' = (if t = Run_RUNNING then run_attempt r + 1 else run_attempt r)"
  by (cases t) (auto simp: transition_run_def bindE_eq_Inr_iff)

lemma transition_run_owner:
  "transition_run r t now w n c m = Inr r' \<Longrightarrow> t \<noteq> Run_RUNNING \<Longrightarrow>
   run_worker_id r' = run_worker_id r \<and> run_attempt r' = run_attempt r
   \<and> run_heartbeat_at r' = run_heartbeat_at r"
  by (cases t) (auto simp: transition_run_def bindE_eq_Inr_iff)

lemma transition_step_frame:
  "transition_step s t now out m e = Inr s' \<Longrightarrow>
   step_id s' = step_id s \<and> step_run_id s' = step_run_id s \<and> step_name s' = step_name s
   \<and> step_ordinal s' = step_ordinal s \<and> step_input_hash s' = step_input_hash s
   \<and> step_status s' = t"
  by (cases t) (auto simp: transition_step_def bindE_eq_Inr_iff)

lemma transition_step_attempt:
  "transition_step s t now out m e = Inr s' \<Longrightarrow>
   step_attempt s' = (if t = Step_RUNNING then step_attempt s + 1 else step_attempt s)"
  by (cases t) (auto simp: transition_step_def bindE_eq_Inr_iff)

end
