(* ===== verification/Hashing.thy ===== *)
theory Hashing
  imports Domain_Enums "HOL-Library.List_Lexorder"
begin

text \<open>
  \<open>pipelines/hashing.py\<close>: the canonical JSON encodings behind step input hashes
  (\<open>ensure_ascii=True\<close>) and work payload hashes (\<open>ensure_ascii=False\<close>).  The encoder is
  Python's \<open>json.dumps(sort_keys=True, separators=(',', ':'))\<close> on the values JSONB can hold;
  the text of a float is the standard library's \<open>repr\<close>, and SHA-256 is \<open>hashlib\<close>'s: both
  are the parameters collected in \<open>py_env\<close>.
\<close>

record py_env =
  sha256_hexdigest :: "nat list \<Rightarrow> string"
  float_repr :: "rat \<Rightarrow> pystr"

subsection \<open>json.dumps\<close>

definition hex_digit :: "nat \<Rightarrow> nat" where
  "hex_digit d = (if d < 10 then 48 + d else 87 + d)"

definition hex4 :: "nat \<Rightarrow> pystr" where
  "hex4 c = [hex_digit (c div 4096 mod 16), hex_digit (c div 256 mod 16),
             hex_digit (c div 16 mod 16), hex_digit (c mod 16)]"

definition u_escape :: "nat \<Rightarrow> pystr" where
  "u_escape c = [92, 117] @ hex4 c"

definition short_escape :: "nat \<Rightarrow> pystr option" where
  "short_escape c =
     (if c = 34 then Some [92, 34] else if c = 92 then Some [92, 92]
      else if c = 10 then Some [92, 110] else if c = 13 then Some [92, 114]
      else if c = 9 then Some [92, 116] else if c = 12 then Some [92, 102]
      else if c = 8 then Some [92, 98] else None)"

text \<open>\<open>py_encode_basestring_ascii\<close>: everything outside blank to tilde is escaped, code points
  above the basic plane as a surrogate pair.\<close>

definition escape_ascii :: "nat \<Rightarrow> pystr" where
  "escape_ascii c =
     (case short_escape c of
        Some e \<Rightarrow> e
      | None \<Rightarrow>
          if 32 \<le> c \<and> c \<le> 126 then [c]
          else if c < 65536 then u_escape c
          else u_escape (55296 + (c - 65536) div 1024) @ u_escape (56320 + (c - 65536) mod 1024))"

text \<open>\<open>py_encode_basestring\<close>: only control characters, quote and backslash.\<close>

definition escape_unicode :: "nat \<Rightarrow> pystr" where
  "escape_unicode c =
     (case short_escape c of Some e \<Rightarrow> e | None \<Rightarrow> if c < 32 then u_escape c else [c])"

fun dec_nat :: "nat \<Rightarrow> pystr" where
  "dec_nat n = (if n < 10 then [48 + n] else dec_nat (n div 10) @ [48 + n mod 10])"

declare dec_nat.simps [simp del]

definition dec_int :: "int \<Rightarrow> pystr" where
  "dec_int i = (if i < 0 then 45 # dec_nat (nat (- i)) else dec_nat (nat i))"

fun join_commas :: "pystr list \<Rightarrow> pystr" where
  "join_commas [] = []"
| "join_commas [x] = x"
| "join_commas (x # y # zs) = x @ 44 # join_commas (y # zs)"

definition quoted :: "(nat \<Rightarrow> pystr) \<Rightarrow> pystr \<Rightarrow> pystr" where
  "quoted esc s = 34 # concat (map esc s) @ [34]"

text \<open>Members are sorted by key; a dict has no duplicate keys, so sorting the encoded members
  is sorting the items.\<close>

fun dumps :: "py_env \<Rightarrow> (nat \<Rightarrow> pystr) \<Rightarrow> json \<Rightarrow> pystr" where
  "dumps E esc JNull = ascii ''null''"
| "dumps E esc (JBool b) = ascii (if b then ''true'' else ''false'')"
| "dumps E esc (JInt i) = dec_int i"
| "dumps E esc (JReal q) = float_repr E q"
| "dumps E esc (JStr s) = quoted esc s"
| "dumps E esc (JArr xs) = 91 # join_commas (map (dumps E esc) xs) @ [93]"
| "dumps E esc (JObj kvs) =
     123 # join_commas (map (\<lambda>(k, v). quoted esc k @ 58 # v)
       (sort_key fst (map (\<lambda>kv. (fst kv, dumps E esc (snd kv))) kvs))) @ [125]"

definition canonical_json :: "py_env \<Rightarrow> json \<Rightarrow> pystr" where
  "canonical_json E payload = dumps E escape_ascii payload"

subsection \<open>UTF-8 and the two hashes\<close>

text \<open>\<open>str.encode('utf-8')\<close>; a lone surrogate raises \<open>UnicodeEncodeError\<close>, a \<open>ValueError\<close>.\<close>

definition utf8_char :: "nat \<Rightarrow> nat list option" where
  "utf8_char c =
     (if c < 128 then Some [c]
      else if c < 2048 then Some [192 + c div 64, 128 + c mod 64]
      else if 55296 \<le> c \<and> c < 57344 then None
      else if c < 65536 then Some [224 + c div 4096, 128 + c div 64 mod 64, 128 + c mod 64]
      else Some [240 + c div 262144, 128 + c div 4096 mod 64, 128 + c div 64 mod 64, 128 + c mod 64])"

fun utf8 :: "pystr \<Rightarrow> nat list option" where
  "utf8 [] = Some []"
| "utf8 (c # cs) =
     (case utf8_char c of None \<Rightarrow> None
      | Some bs \<Rightarrow> (case utf8 cs of None \<Rightarrow> None | Some rest \<Rightarrow> Some (bs @ rest)))"

definition canonical_step_input_hash :: "py_env \<Rightarrow> string \<Rightarrow> json \<Rightarrow> exn + string" where
  "canonical_step_input_hash E definition_id semantic_input =
     (let envelope = JObj [(ascii ''definition_id'', json_str definition_id),
                           (ascii ''input'', semantic_input)] in
      case utf8 (canonical_json E envelope) of
        None \<Rightarrow> Inl Value_Error
      | Some bs \<Rightarrow> Inr (sha256_hexdigest E bs))"

definition canonical_work_payload_hash :: "py_env \<Rightarrow> json \<Rightarrow> exn + string" where
  "canonical_work_payload_hash E work_input =
     (case utf8 (dumps E escape_unicode work_input) of
        None \<Rightarrow> Inl Value_Error
      | Some bs \<Rightarrow> Inr (sha256_hexdigest E bs))"

subsection \<open>The step encoding is ASCII, so its hash never fails\<close>

definition ascii_only :: "pystr \<Rightarrow> bool" where
  "ascii_only s \<longleftrightarrow> list_all (\<lambda>c. c < 128) s"

lemma ascii_only_simps [simp]:
  "ascii_only []" "ascii_only (c # s) = (c < 128 \<and> ascii_only s)"
  "ascii_only (s @ t) = (ascii_only s \<and> ascii_only t)"
  by (simp_all add: ascii_only_def)

lemma hex_digit_bound: "hex_digit (n mod 16) < 128"
  using mod_less_divisor[of 16 n] by (auto simp: hex_digit_def)

lemma ascii_u_escape [simp]: "ascii_only (u_escape c)"
  by (simp add: u_escape_def hex4_def hex_digit_bound)

lemma ascii_escape: "ascii_only (escape_ascii c)"
  by (simp add: escape_ascii_def short_escape_def)

lemma ascii_concat: "(\<And>x. x \<in> set xs \<Longrightarrow> ascii_only (f x)) \<Longrightarrow> ascii_only (concat (map f xs))"
  by (induction xs) auto

lemma ascii_join: "(\<And>x. x \<in> set xs \<Longrightarrow> ascii_only x) \<Longrightarrow> ascii_only (join_commas xs)"
  by (induction xs rule: join_commas.induct) auto

lemma ascii_quoted: "ascii_only (quoted escape_ascii s)"
  by (simp add: quoted_def ascii_concat ascii_escape)

lemma ascii_dec_nat: "ascii_only (dec_nat n)"
  by (induction n rule: dec_nat.induct) (subst dec_nat.simps, auto)

lemma ascii_dumps:
  assumes "\<And>q. ascii_only (float_repr E q)"
  shows "ascii_only (dumps E escape_ascii j)"
proof (induction j)
  case (JObj kvs)
  have "ascii_only (dumps E escape_ascii v)" if "(k, v) \<in> set kvs" for k v
    using JObj.IH[of "(k, v)" v] that by (simp add: snds.simps)
  then show ?case
    by (auto intro!: ascii_join simp: ascii_quoted)
qed (auto simp: ascii_def dec_int_def ascii_dec_nat ascii_quoted assms intro!: ascii_join)

lemma utf8_ascii: "ascii_only s \<Longrightarrow> utf8 s = Some s"
  by (induction s) (auto simp: utf8_char_def)

lemma step_hash_total:
  assumes "\<And>q. ascii_only (float_repr E q)"
  shows "\<exists>h. canonical_step_input_hash E d j = Inr h"
  unfolding canonical_step_input_hash_def canonical_json_def Let_def
  by (simp add: utf8_ascii ascii_dumps assms del: dumps.simps)

subsection \<open>Dict order never reaches the encoding\<close>

text \<open>Two JSON values are the same payload when they differ only in the order of object members
  (Python's \<open>==\<close> on dicts); members of a dict have distinct keys.\<close>

fun wf_json :: "json \<Rightarrow> bool" where
  "wf_json (JArr xs) = list_all wf_json xs"
| "wf_json (JObj kvs) = (distinct (map fst kvs) \<and> list_all (\<lambda>kv. wf_json (snd kv)) kvs)"
| "wf_json _ = True"

inductive same_payload :: "json \<Rightarrow> json \<Rightarrow> bool" where
  same_refl: "same_payload j j"
| same_arr: "list_all2 same_payload xs ys \<Longrightarrow> same_payload (JArr xs) (JArr ys)"
| same_obj: "mset kvs = mset kvs' \<Longrightarrow> same_payload (JObj kvs) (JObj kvs')"
| same_member: "list_all2 (\<lambda>a b. fst a = fst b \<and> same_payload (snd a) (snd b)) kvs kvs' \<Longrightarrow>
    same_payload (JObj kvs) (JObj kvs')"
| same_trans: "same_payload a b \<Longrightarrow> same_payload b c \<Longrightarrow> same_payload a c"

lemma filter_eq_single: "distinct zs \<Longrightarrow> k \<in> set zs \<Longrightarrow> filter (\<lambda>x. x = k) zs = [k]"
  by (induction zs) (auto simp: filter_empty_conv)

lemma sort_key_perm:
  assumes "mset xs = mset ys" "distinct (map f xs)"
  shows "sort_key f xs = sort_key f ys"
proof (rule properties_for_sort_key)
  show "mset (sort_key f ys) = mset xs" using assms by simp
  show "sorted (map f (sort_key f ys))" by simp
  fix k assume k: "k \<in> set (sort_key f ys)"
  have inj: "inj_on f (set ys)" and dist: "distinct ys"
    using assms mset_eq_imp_distinct_iff[of "map f xs" "map f ys"]
    by (auto simp: distinct_map mset_map dest: mset_eq_setD mset_eq_imp_distinct_iff)
  have one: "filter (\<lambda>x. f k = f x) zs = [k]" if "mset zs = mset ys" for zs
  proof -
    have "filter (\<lambda>x. f k = f x) zs = filter (\<lambda>x. x = k) zs"
      using inj k that by (intro filter_cong) (auto dest: inj_onD mset_eq_setD)
    moreover have "distinct zs" using that dist mset_eq_imp_distinct_iff by blast
    moreover have "k \<in> set zs" using k that mset_eq_setD by fastforce
    ultimately show ?thesis
      by (simp add: filter_eq_single)
  qed
  show "filter (\<lambda>x. f k = f x) (sort_key f ys) = filter (\<lambda>x. f k = f x) xs"
    using one[of "sort_key f ys"] one[of xs] assms by simp
qed

lemma dumps_obj_perm:
  assumes "mset kvs = mset kvs'" "distinct (map fst kvs)"
  shows "dumps E esc (JObj kvs) = dumps E esc (JObj kvs')"
proof -
  let ?enc = "map (\<lambda>kv. (fst kv, dumps E esc (snd kv)))"
  have "sort_key fst (?enc kvs) = sort_key fst (?enc kvs')"
    using assms by (intro sort_key_perm) (simp_all add: mset_map o_def)
  then show ?thesis by simp
qed

lemma encoded_members:
  assumes "list_all2 (\<lambda>a b. fst a = fst b \<and> dumps E esc (snd a) = dumps E esc (snd b)) kvs kvs'"
  shows "map (\<lambda>kv. (fst kv, dumps E esc (snd kv))) kvs = map (\<lambda>kv. (fst kv, dumps E esc (snd kv))) kvs'"
  using assms by (induction rule: list_all2_induct) simp_all

lemma dumps_same_payload:
  "same_payload a b \<Longrightarrow> wf_json a \<Longrightarrow> wf_json b \<and> dumps E esc a = dumps E esc b"
proof (induction rule: same_payload.induct)
  case (same_arr xs ys)
  then have "list_all2 (\<lambda>x y. wf_json y \<and> dumps E esc x = dumps E esc y) xs ys"
    by (auto simp: list_all2_conv_all_nth list_all_length)
  then have "list_all wf_json ys \<and> map (dumps E esc) xs = map (dumps E esc) ys"
    by (induction rule: list_all2_induct) auto
  then show ?case by simp
next
  case (same_obj kvs kvs')
  then have "distinct (map fst kvs')"
    using mset_eq_imp_distinct_iff[of "map fst kvs" "map fst kvs'"] by (simp add: mset_map)
  moreover have "list_all (\<lambda>kv. wf_json (snd kv)) kvs'"
    using same_obj by (auto simp: list_all_iff dest: mset_eq_setD)
  ultimately show ?case using same_obj dumps_obj_perm[of kvs kvs' E esc]
    by (simp del: dumps.simps)
next
  case (same_member kvs kvs')
  then have pair: "list_all2 (\<lambda>a b. fst a = fst b \<and> wf_json (snd b) \<and>
      dumps E esc (snd a) = dumps E esc (snd b)) kvs kvs'"
    by (auto simp: list_all2_conv_all_nth list_all_length)
  then have "map fst kvs = map fst kvs' \<and> list_all (\<lambda>kv. wf_json (snd kv)) kvs'"
    by (induction rule: list_all2_induct) auto
  moreover have "map (\<lambda>kv. (fst kv, dumps E esc (snd kv))) kvs = map (\<lambda>kv. (fst kv, dumps E esc (snd kv))) kvs'"
    using pair by (intro encoded_members) (auto elim: list_all2_mono)
  ultimately show ?case using same_member.prems by simp
qed auto

end
