(* ===== verification/Registry.thy ===== *)
theory Registry
  imports Lifecycle Hashing
begin

text \<open>
  \<open>pipelines/registry.py\<close>, \<open>pipelines/retry_policy.py\<close> and the run materialization of
  \<open>services/pipeline_lifecycle.py\<close>: step definitions and their construction checks, the closed
  registry, the step plan of a new run, the backoff policy, and the insertion of a queued run
  with its queued steps.  A step's own code (\<open>execute\<close>, \<open>persist\<close>, input deriver,
  reconcile callback) is a function-valued field, exactly as the registry stores it.
\<close>

subsection \<open>Retry policy\<close>

definition MAX_RUN_ATTEMPTS :: int where "MAX_RUN_ATTEMPTS = 5"
definition BACKOFF_BASE_SECONDS :: rat where "BACKOFF_BASE_SECONDS = 1"
definition BACKOFF_CAP_SECONDS :: rat where "BACKOFF_CAP_SECONDS = 60"
definition BACKOFF_JITTER_MAX_SECONDS :: rat where "BACKOFF_JITTER_MAX_SECONDS = 1"

record retry_policy =
  max_run_attempts :: int
  backoff_base_seconds :: rat
  backoff_cap_seconds :: rat
  jitter_source :: rat

definition default_retry_policy :: "rat \<Rightarrow> retry_policy" where
  "default_retry_policy jitter =
     \<lparr>max_run_attempts = MAX_RUN_ATTEMPTS, backoff_base_seconds = BACKOFF_BASE_SECONDS,
      backoff_cap_seconds = BACKOFF_CAP_SECONDS, jitter_source = jitter\<rparr>"

definition has_attempts_remaining :: "retry_policy \<Rightarrow> int \<Rightarrow> bool" where
  "has_attempts_remaining p attempt \<longleftrightarrow> attempt < max_run_attempts p"

definition backoff_seconds :: "retry_policy \<Rightarrow> int \<Rightarrow> rat" where
  "backoff_seconds p attempt =
     (let exponent = nat (max (attempt - 1) 0);
          base_delay = min (backoff_cap_seconds p) (backoff_base_seconds p * 2 ^ exponent)
      in base_delay + jitter_source p)"

text \<open>\<open>timedelta(seconds=x)\<close> in microseconds: rounded to nearest, ties to even.\<close>

definition timedelta_us :: "rat \<Rightarrow> int" where
  "timedelta_us x =
     (let y = x * 1000000; f = \<lfloor>y\<rfloor>; d = y - of_int f in
      if d < 1/2 then f else if d > 1/2 then f + 1 else if even f then f else f + 1)"

subsection \<open>Step contract\<close>

datatype step_exception =
    Retryable_Step_Error string string
  | Permanent_Step_Error string string
  | Other_Exception

record step_result =
  result_output :: json
  result_metrics :: json

record pipeline_context =
  ctx_run_id :: uuid
  ctx_pipeline_type :: pipeline_type
  ctx_dataset_id :: "uuid option"
  ctx_source_id :: "uuid option"
  ctx_run_input :: json
  ctx_step_outputs :: "string \<Rightarrow> json option"

datatype cancellation_recovery_mode = ATOMIC | RECONCILABLE | AMBIGUOUS

datatype cancellation_recovery_outcome = SAFE | INCONCLUSIVE

record cancellation_recovery_context =
  rec_run_id :: uuid
  rec_pipeline_type :: pipeline_type
  rec_dataset_id :: "uuid option"
  rec_source_id :: "uuid option"
  rec_run_input :: json
  rec_step_id :: uuid
  rec_step_name :: string
  rec_step_attempt :: int
  rec_input_hash :: "string option"
  rec_output :: json
  rec_metrics :: json

text \<open>A reconcile callback may raise; \<open>None\<close> is a raised exception.\<close>

type_synonym reconcile_callback =
  "cancellation_recovery_context \<Rightarrow> db \<Rightarrow> cancellation_recovery_outcome option \<times> db"

record step_definition =
  sd_name :: string
  sd_definition_id :: string
  sd_execute :: "pipeline_context \<Rightarrow> step_exception + step_result"
  sd_persist :: "pipeline_context \<Rightarrow> step_result \<Rightarrow> db \<Rightarrow> step_exception + db"
  sd_input_deriver :: "json \<Rightarrow> (string \<Rightarrow> json option) \<Rightarrow> json option"
  sd_recovery_mode :: cancellation_recovery_mode
  sd_reconcile :: "reconcile_callback option"

record pipeline_definition =
  pd_pipeline_type :: pipeline_type
  pd_steps :: "step_definition list"

text \<open>\<open>__post_init__\<close> of the two dataclasses.\<close>

definition check_step_definition :: "step_definition \<Rightarrow> exn + unit" where
  "check_step_definition sd =
     (if sd_name sd = [] then Inl Value_Error
      else if sd_definition_id sd = [] then Inl Value_Error
      else if sd_recovery_mode sd = RECONCILABLE \<and> sd_reconcile sd = None then Inl Value_Error
      else Inr ())"

definition check_pipeline_definition :: "pipeline_definition \<Rightarrow> exn + unit" where
  "check_pipeline_definition pd =
     (if pd_steps pd = [] then Inl Value_Error
      else if length (map sd_name (pd_steps pd)) \<noteq> card (set (map sd_name (pd_steps pd)))
      then Inl Value_Error
      else Inr ())"

definition wf_definition :: "pipeline_definition \<Rightarrow> bool" where
  "wf_definition pd \<longleftrightarrow> isOk (check_pipeline_definition pd)
     \<and> list_all (\<lambda>sd. isOk (check_step_definition sd)) (pd_steps pd)"

definition no_op_persist :: "pipeline_context \<Rightarrow> step_result \<Rightarrow> db \<Rightarrow> step_exception + db" where
  "no_op_persist context result d = Inr d"

definition compute_input_hash ::
  "py_env \<Rightarrow> step_definition \<Rightarrow> json \<Rightarrow> (string \<Rightarrow> json option) \<Rightarrow> exn + string option" where
  "compute_input_hash E sd run_inp step_outputs =
     (case sd_input_deriver sd run_inp step_outputs of
        None \<Rightarrow> Inr None
      | Some semantic_input \<Rightarrow>
          bindE (canonical_step_input_hash E (sd_definition_id sd) semantic_input)
            (\<lambda>h. Inr (Some h)))"

subsection \<open>The registry\<close>

type_synonym registry = "(pipeline_type \<times> pipeline_definition) list"

fun registry_init :: "pipeline_definition list \<Rightarrow> registry \<Rightarrow> exn + registry" where
  "registry_init [] by_type = Inr by_type"
| "registry_init (d # ds) by_type =
     (if map_of by_type (pd_pipeline_type d) \<noteq> None then Inl Value_Error
      else registry_init ds ((pd_pipeline_type d, d) # by_type))"

definition pipeline_registry :: "pipeline_definition list \<Rightarrow> exn + registry" where
  "pipeline_registry definitions = registry_init definitions []"

definition registry_get :: "registry \<Rightarrow> pipeline_type \<Rightarrow> exn + pipeline_definition" where
  "registry_get reg t =
     (case map_of reg t of None \<Rightarrow> Inl (Unknown_Pipeline_Type t) | Some d \<Rightarrow> Inr d)"

record step_plan =
  plan_name :: string
  plan_ordinal :: int
  plan_input_hash :: "string option"

fun plan_steps :: "py_env \<Rightarrow> json \<Rightarrow> int \<Rightarrow> step_definition list \<Rightarrow> exn + step_plan list" where
  "plan_steps E inp n [] = Inr []"
| "plan_steps E inp n (sd # sds) =
     bindE (compute_input_hash E sd inp (\<lambda>_. None)) (\<lambda>h.
       bindE (plan_steps E inp (n + 1) sds) (\<lambda>rest.
         Inr (\<lparr>plan_name = sd_name sd, plan_ordinal = n, plan_input_hash = h\<rparr> # rest)))"

definition build_step_plan :: "py_env \<Rightarrow> registry \<Rightarrow> pipeline_type \<Rightarrow> json \<Rightarrow> exn + step_plan list" where
  "build_step_plan E reg t inp =
     bindE (registry_get reg t) (\<lambda>d. plan_steps E inp 0 (pd_steps d))"

subsection \<open>Materializing a run\<close>

text \<open>A flush that violates a constraint raises \<open>IntegrityError\<close> naming it.\<close>

definition insert_run :: "pipeline_run \<Rightarrow> db \<Rightarrow> exn + db" where
  "insert_run r d =
     (if run_id r \<in> set (run_ids d) then Inl (Integrity_Error ''pk_pipeline_runs'')
      else if \<not> run_row_ok r then Inl (Integrity_Error ''ck_pipeline_runs'')
      else if run_idempotency_key r \<noteq> None
        \<and> the (run_idempotency_key r) \<in> set (idempotency_keys (pipeline_runs d))
      then Inl (Integrity_Error ''uq_pipeline_runs_idempotency_key'')
      else if run_dataset_id r \<noteq> None \<and> operational (run_status r)
        \<and> the (run_dataset_id r) \<in> set (operational_datasets (pipeline_runs d))
      then Inl (Integrity_Error ''uq_pipeline_runs_dataset_id_operational'')
      else Inr (d\<lparr>pipeline_runs := pipeline_runs d @ [r]\<rparr>))"

definition insert_steps :: "pipeline_step list \<Rightarrow> db \<Rightarrow> exn + db" where
  "insert_steps ss d =
     (let all = pipeline_steps d @ ss in
      if \<not> distinct (map step_id all) then Inl (Integrity_Error ''pk_pipeline_steps'')
      else if \<not> list_all step_row_ok ss then Inl (Integrity_Error ''ck_pipeline_steps'')
      else if \<not> distinct (map (\<lambda>s. (step_run_id s, step_ordinal s)) all)
      then Inl (Integrity_Error ''uq_pipeline_steps_run_id_ordinal'')
      else Inr (d\<lparr>pipeline_steps := all\<rparr>))"

definition new_run ::
  "uuid \<Rightarrow> timestamp \<Rightarrow> pipeline_type \<Rightarrow> uuid option \<Rightarrow> uuid option \<Rightarrow> string option \<Rightarrow> string \<Rightarrow>
   json \<Rightarrow> string \<Rightarrow> uuid option \<Rightarrow> uuid option \<Rightarrow> pipeline_run" where
  "new_run rid db_now ptype ds src key phash inp fingerprint retry_of session =
     \<lparr>run_id = rid, run_pipeline_type = ptype, run_dataset_id = ds, run_source_id = src,
      run_status = Run_QUEUED, run_idempotency_key = key, run_payload_hash = phash,
      run_input = inp, run_progress = 0, run_current_step = None, run_attempt = 0,
      run_worker_id = None, run_heartbeat_at = None, run_config_fingerprint = fingerprint,
      run_error_code = None, run_error_message = None, run_metrics = json_empty,
      run_created_at = db_now, run_started_at = None, run_finished_at = None,
      run_next_attempt_at = None, run_retry_of_run_id = retry_of, run_session_id = session\<rparr>"

definition new_step :: "uuid \<Rightarrow> uuid \<Rightarrow> step_plan \<Rightarrow> pipeline_step" where
  "new_step sid rid plan =
     \<lparr>step_id = sid, step_run_id = rid, step_name = plan_name plan,
      step_ordinal = plan_ordinal plan, step_status = Step_QUEUED, step_attempt = 0,
      step_input_hash = plan_input_hash plan, step_output = json_empty,
      step_metrics = json_empty, step_error = None, step_started_at = None,
      step_finished_at = None\<rparr>"

text \<open>The ids \<open>uuid4()\<close> draws are arguments: \<open>rid\<close> for the run, \<open>sid i\<close> for its \<open>i\<close>-th step.\<close>

definition create_run_with_steps ::
  "uuid \<Rightarrow> (nat \<Rightarrow> uuid) \<Rightarrow> timestamp \<Rightarrow> pipeline_type \<Rightarrow> uuid option \<Rightarrow> uuid option \<Rightarrow>
   string option \<Rightarrow> string \<Rightarrow> json \<Rightarrow> string \<Rightarrow> step_plan list \<Rightarrow> uuid option \<Rightarrow> uuid option \<Rightarrow>
   db \<Rightarrow> exn + (pipeline_run \<times> db)" where
  "create_run_with_steps rid sid db_now ptype ds src key phash inp fingerprint plans retry_of
     session d =
     (let run = new_run rid db_now ptype ds src key phash inp fingerprint retry_of session;
          step_rows = map (\<lambda>(i, plan). new_step (sid i) rid plan) (enumerate 0 plans)
      in bindE (insert_run run d) (\<lambda>d1.
           if step_rows \<noteq> [] then bindE (insert_steps step_rows d1) (\<lambda>d2. Inr (run, d2))
           else Inr (run, d1)))"


subsection \<open>Facts\<close>

lemma backoff_bounds:
  assumes "0 \<le> jitter_source p" "jitter_source p < j"
    "0 < backoff_base_seconds p" "backoff_base_seconds p \<le> backoff_cap_seconds p"
  shows "backoff_base_seconds p \<le> backoff_seconds p a" "backoff_seconds p a < backoff_cap_seconds p + j"
proof -
  have "1 \<le> (2::rat) ^ nat (max (a - 1) 0)" by simp
  then have "backoff_base_seconds p * 1 \<le> backoff_base_seconds p * 2 ^ nat (max (a - 1) 0)"
    using assms(3) by (intro mult_left_mono) auto
  then show "backoff_base_seconds p \<le> backoff_seconds p a"
    using assms unfolding backoff_seconds_def Let_def min_def by (split if_split) linarith
  show "backoff_seconds p a < backoff_cap_seconds p + j"
    using assms by (auto simp: backoff_seconds_def Let_def min_def)
qed

lemma backoff_mono:
  assumes "0 \<le> backoff_base_seconds p" "a \<le> b"
  shows "backoff_seconds p a \<le> backoff_seconds p b"
proof -
  have "(2::rat) ^ nat (max (a - 1) 0) \<le> 2 ^ nat (max (b - 1) 0)"
    using assms(2) by (intro power_increasing) auto
  then have "backoff_base_seconds p * 2 ^ nat (max (a - 1) 0) \<le> backoff_base_seconds p * 2 ^ nat (max (b - 1) 0)"
    using assms(1) by (rule mult_left_mono)
  then show ?thesis unfolding backoff_seconds_def Let_def min_def by (auto split: if_split)
qed

lemma timedelta_us_ge: "of_int n \<le> x \<Longrightarrow> n * 1000000 \<le> timedelta_us x"
proof -
  assume "of_int n \<le> x"
  then have "of_int (n * 1000000) \<le> x * 1000000" by simp
  then have "n * 1000000 \<le> \<lfloor>x * 1000000\<rfloor>" by (simp add: le_floor_iff)
  then show ?thesis by (auto simp: timedelta_us_def Let_def)
qed

lemma check_pipeline_definition_distinct:
  "isOk (check_pipeline_definition pd) \<longleftrightarrow> pd_steps pd \<noteq> [] \<and> distinct (map sd_name (pd_steps pd))"
  by (auto simp: check_pipeline_definition_def intro: card_distinct dest: distinct_card)

lemma wf_definition_names:
  "wf_definition pd \<Longrightarrow> pd_steps pd \<noteq> [] \<and> distinct (map sd_name (pd_steps pd))"
  by (simp add: wf_definition_def check_pipeline_definition_distinct)

lemma registry_init_distinct:
  "registry_init ds acc = Inr reg \<Longrightarrow> distinct (map fst acc) \<Longrightarrow> distinct (map fst reg)"
  by (induction ds acc rule: registry_init.induct)
    (auto simp: map_of_eq_None_iff split: if_splits)

lemma registry_init_keys:
  "registry_init ds acc = Inr reg \<Longrightarrow> \<forall>(t, d) \<in> set acc. pd_pipeline_type d = t \<Longrightarrow>
   \<forall>(t, d) \<in> set reg. pd_pipeline_type d = t"
  by (induction ds acc rule: registry_init.induct) (auto split: if_splits)

lemma registry_init_total:
  "distinct (map pd_pipeline_type ds @ map fst acc) \<Longrightarrow>
   registry_init ds acc = Inr (rev (map (\<lambda>d. (pd_pipeline_type d, d)) ds) @ acc)"
  by (induction ds arbitrary: acc) (auto simp: map_of_eq_None_iff)

lemma plan_steps_shape:
  "plan_steps E inp n sds = Inr plans \<Longrightarrow>
   map plan_name plans = map sd_name sds \<and> map plan_ordinal plans = map (\<lambda>i. n + int i) [0..<length sds]"
proof (induction sds arbitrary: n plans)
  case (Cons sd sds)
  from Cons.prems obtain h rest where
    rest: "plan_steps E inp (n + 1) sds = Inr rest"
    and plans: "plans = \<lparr>plan_name = sd_name sd, plan_ordinal = n, plan_input_hash = h\<rparr> # rest"
    by (auto simp: bindE_eq_Inr_iff)
  have "map (\<lambda>i. n + int i) [0..<Suc (length sds)] = n # map (\<lambda>i. n + 1 + int i) [0..<length sds]"
    by (simp add: upt_conv_Cons map_Suc_upt[symmetric] del: upt_Suc)
  with Cons.IH[OF rest] plans show ?case by (simp del: upt_Suc)
qed simp

lemma insert_run_ok:
  assumes "insert_run r d = Inr d'" "db_ok d"
  shows "db_ok d'" "pipeline_runs d' = pipeline_runs d @ [r]" "pipeline_steps d' = pipeline_steps d"
    "datasets d' = datasets d"
proof -
  have d': "d' = d\<lparr>pipeline_runs := pipeline_runs d @ [r]\<rparr>"
    and new: "run_id r \<notin> set (run_ids d)" "run_row_ok r"
      "run_idempotency_key r \<noteq> None \<Longrightarrow>
         the (run_idempotency_key r) \<notin> set (idempotency_keys (pipeline_runs d))"
      "run_dataset_id r \<noteq> None \<Longrightarrow> operational (run_status r) \<Longrightarrow>
         the (run_dataset_id r) \<notin> set (operational_datasets (pipeline_runs d))"
    using assms(1) by (auto simp: insert_run_def split: if_splits)
  show "pipeline_runs d' = pipeline_runs d @ [r]" "pipeline_steps d' = pipeline_steps d"
    "datasets d' = datasets d" by (simp_all add: d')
  show "db_ok d'"
    using assms(2) new
    by (auto simp: d' db_ok_def run_table_ok_def keyed_def run_ids_def idempotency_keys_def
      operational_datasets_def)
qed

lemma insert_steps_ok:
  assumes "insert_steps ss d = Inr d'" "db_ok d"
  shows "db_ok d'" "pipeline_runs d' = pipeline_runs d" "pipeline_steps d' = pipeline_steps d @ ss"
    "datasets d' = datasets d"
  using assms by (auto simp: insert_steps_def Let_def db_ok_def step_table_ok_def keyed_def
      split: if_splits)

lemma create_run_with_steps_ok:
  assumes "create_run_with_steps rid sid now pt ds src key ph inp fp plans rt ses d = Inr (run, d')"
    and "db_ok d"
  shows "db_ok d' \<and> run = new_run rid now pt ds src key ph inp fp rt ses
    \<and> pipeline_runs d' = pipeline_runs d @ [run]
    \<and> pipeline_steps d' = pipeline_steps d @ map (\<lambda>(i, p). new_step (sid i) rid p) (enumerate 0 plans)
    \<and> datasets d' = datasets d"
proof -
  let ?ss = "map (\<lambda>(i, p). new_step (sid i) rid p) (enumerate 0 plans)"
  obtain d1 where run: "run = new_run rid now pt ds src key ph inp fp rt ses"
    and d1: "insert_run run d = Inr d1"
    and d2: "(?ss \<noteq> [] \<and> insert_steps ?ss d1 = Inr d') \<or> (?ss = [] \<and> d' = d1)"
    using assms(1) unfolding create_run_with_steps_def Let_def
    by (auto simp: bindE_eq_Inr_iff split: if_splits)
  note i1 = insert_run_ok[OF d1 assms(2)]
  from d2 show ?thesis
  proof
    assume "?ss \<noteq> [] \<and> insert_steps ?ss d1 = Inr d'"
    with insert_steps_ok[of ?ss d1 d'] i1 run show ?thesis by simp
  next
    assume "?ss = [] \<and> d' = d1"
    with i1 run show ?thesis by simp
  qed
qed

end
