(* ===== verification/Run_Repository.thy ===== *)
theory Run_Repository
  imports Registry
begin

text \<open>
  The queries of \<open>infrastructure/postgres/repositories/pipeline_runs.py\<close> as functions of the
  table contents and the transaction's \<open>now()\<close>.  SQL's \<open>ORDER BY created_at, id\<close> is
  \<open>oldest_first\<close>, the descending order is its reverse (ids are unique), \<open>LIMIT 1\<close> is
  \<open>first_of\<close> and \<open>DISTINCT ON\<close> keeps the first row of each group.
\<close>

definition claim_order :: "pipeline_run \<Rightarrow> timestamp \<times> uuid" where
  "claim_order r = (run_created_at r, run_id r)"

definition oldest_first :: "(pipeline_run \<Rightarrow> bool) \<Rightarrow> db \<Rightarrow> pipeline_run list" where
  "oldest_first P d = sort_key claim_order (filter P (pipeline_runs d))"

definition newest_first :: "(pipeline_run \<Rightarrow> bool) \<Rightarrow> db \<Rightarrow> pipeline_run list" where
  "newest_first P d = rev (oldest_first P d)"

definition first_of :: "'a list \<Rightarrow> 'a option" where
  "first_of xs = (case xs of [] \<Rightarrow> None | x # _ \<Rightarrow> Some x)"

fun distinct_on :: "('a \<Rightarrow> 'k) \<Rightarrow> 'a list \<Rightarrow> 'a list" where
  "distinct_on k [] = []"
| "distinct_on k (x # xs) = x # filter (\<lambda>y. k y \<noteq> k x) (distinct_on k xs)"

definition limit_rows :: "nat option \<Rightarrow> 'a list \<Rightarrow> 'a list" where
  "limit_rows n xs = (case n of None \<Rightarrow> xs | Some k \<Rightarrow> take k xs)"

subsection \<open>Listing\<close>

definition list_page_filter ::
  "run_status list option \<Rightarrow> uuid option \<Rightarrow> pipeline_type option \<Rightarrow> uuid option \<Rightarrow> pipeline_run \<Rightarrow> bool" where
  "list_page_filter statuses ds ptype session r \<longleftrightarrow>
     (case statuses of None \<Rightarrow> True | Some ss \<Rightarrow> ss = [] \<or> run_status r \<in> set ss)
     \<and> (ds = None \<or> run_dataset_id r = ds)
     \<and> (case ptype of None \<Rightarrow> True | Some t \<Rightarrow> run_pipeline_type r = t)
     \<and> (session = None \<or> run_session_id r = session)"

definition list_by_status :: "run_status \<Rightarrow> nat option \<Rightarrow> db \<Rightarrow> pipeline_run list" where
  "list_by_status s limit d = limit_rows limit (oldest_first (\<lambda>r. run_status r = s) d)"

definition list_page ::
  "run_status list option \<Rightarrow> uuid option \<Rightarrow> pipeline_type option \<Rightarrow> uuid option \<Rightarrow> nat \<Rightarrow> nat \<Rightarrow> db \<Rightarrow>
   pipeline_run list" where
  "list_page statuses ds ptype session limit offset d =
     take limit (drop offset (newest_first (list_page_filter statuses ds ptype session) d))"

definition count_page ::
  "run_status list option \<Rightarrow> uuid option \<Rightarrow> pipeline_type option \<Rightarrow> uuid option \<Rightarrow> db \<Rightarrow> nat" where
  "count_page statuses ds ptype session d =
     length (filter (list_page_filter statuses ds ptype session) (pipeline_runs d))"

subsection \<open>Queue claiming\<close>

definition eligible :: "timestamp \<Rightarrow> pipeline_run \<Rightarrow> bool" where
  "eligible now r \<longleftrightarrow> run_status r = Run_QUEUED
     \<and> (case run_next_attempt_at r of None \<Rightarrow> True | Some t \<Rightarrow> t \<le> now)"

definition conflicts_with :: "pipeline_run \<Rightarrow> pipeline_run \<Rightarrow> bool" where
  "conflicts_with c r \<longleftrightarrow> operational (run_status c) \<and>
     ((run_dataset_id r \<noteq> None \<and> run_dataset_id c = run_dataset_id r)
      \<or> (run_dataset_id r \<noteq> None \<and> run_dataset_id c = None)
      \<or> (run_dataset_id r = None \<and> run_dataset_id c \<noteq> None)
      \<or> (run_dataset_id r = None \<and> run_dataset_id c = None \<and> run_id c \<noteq> run_id r))"

definition no_known_conflict :: "pipeline_run \<Rightarrow> db \<Rightarrow> bool" where
  "no_known_conflict r d \<longleftrightarrow> \<not> list_ex (\<lambda>c. conflicts_with c r) (pipeline_runs d)"

definition representatives :: "timestamp \<Rightarrow> db \<Rightarrow> pipeline_run list" where
  "representatives now d =
     distinct_on run_dataset_id (oldest_first (\<lambda>r. eligible now r \<and> no_known_conflict r d) d)"

definition list_eligible_candidate_ids :: "timestamp \<Rightarrow> nat \<Rightarrow> db \<Rightarrow> uuid list" where
  "list_eligible_candidate_ids now limit d =
     map run_id (take limit (sort_key claim_order (representatives now d)))"

text \<open>\<open>FOR UPDATE SKIP LOCKED\<close>: a row another transaction holds is not returned.\<close>

definition get_eligible_for_update :: "(uuid \<Rightarrow> bool) \<Rightarrow> timestamp \<Rightarrow> uuid \<Rightarrow> db \<Rightarrow> pipeline_run option" where
  "get_eligible_for_update row_locked now k d =
     (if row_locked k then None
      else case get_run k d of None \<Rightarrow> None | Some r \<Rightarrow> if eligible now r then Some r else None)"

definition exists_dataset_conflict :: "uuid \<Rightarrow> db \<Rightarrow> bool" where
  "exists_dataset_conflict ds d \<longleftrightarrow>
     list_ex (\<lambda>r. run_dataset_id r = Some ds \<and> operational (run_status r)) (pipeline_runs d)"

definition exists_any_dataset_scoped_conflict :: "db \<Rightarrow> bool" where
  "exists_any_dataset_scoped_conflict d \<longleftrightarrow>
     list_ex (\<lambda>r. run_dataset_id r \<noteq> None \<and> operational (run_status r)) (pipeline_runs d)"

definition exists_other_global_conflict :: "uuid \<Rightarrow> db \<Rightarrow> bool" where
  "exists_other_global_conflict exclude d \<longleftrightarrow>
     list_ex (\<lambda>r. run_dataset_id r = None \<and> run_id r \<noteq> exclude \<and> operational (run_status r))
       (pipeline_runs d)"

definition exists_eligible_global_with_precedence ::
  "timestamp \<Rightarrow> timestamp \<Rightarrow> uuid \<Rightarrow> db \<Rightarrow> bool" where
  "exists_eligible_global_with_precedence now before_created_at before_id d \<longleftrightarrow>
     list_ex (\<lambda>r. run_dataset_id r = None \<and> eligible now r
       \<and> (run_created_at r, run_id r) < (before_created_at, before_id)) (pipeline_runs d)"

subsection \<open>Forget lineage\<close>

definition FORGET_TARGET_CONFLICT_ERROR_CODE :: string where
  "FORGET_TARGET_CONFLICT_ERROR_CODE = ''FORGET_TARGET_CONFLICT''"

definition AUTHORITATIVE_MUTATION_STEP_NAMES :: "pipeline_type \<Rightarrow> string option" where
  "AUTHORITATIVE_MUTATION_STEP_NAMES t =
     (case t of FORGET \<Rightarrow> Some ''authoritative_mutation''
      | DATASET_DELETE \<Rightarrow> Some ''deactivate_authoritative'' | _ \<Rightarrow> None)"

definition not_target_conflict :: "pipeline_run \<Rightarrow> bool" where
  "not_target_conflict r \<longleftrightarrow> run_error_code r \<noteq> Some FORGET_TARGET_CONFLICT_ERROR_CODE"

definition find_latest_forget_for_source_except :: "uuid \<Rightarrow> uuid \<Rightarrow> db \<Rightarrow> pipeline_run option" where
  "find_latest_forget_for_source_except src excluded d =
     first_of (newest_first (\<lambda>r. run_source_id r = Some src \<and> run_pipeline_type r = FORGET
       \<and> run_id r \<noteq> excluded \<and> not_target_conflict r) d)"

definition forget_touches_dataset :: "uuid \<Rightarrow> uuid list \<Rightarrow> pipeline_run \<Rightarrow> bool" where
  "forget_touches_dataset ds source_ids r \<longleftrightarrow>
     run_dataset_id r = Some ds
     \<or> (run_dataset_id r = None \<and> run_source_id r = None)
     \<or> (case run_source_id r of None \<Rightarrow> False | Some s \<Rightarrow> s \<in> set source_ids)"

definition find_running_forget_for_dataset_except ::
  "uuid \<Rightarrow> uuid list \<Rightarrow> uuid \<Rightarrow> db \<Rightarrow> pipeline_run option" where
  "find_running_forget_for_dataset_except ds source_ids excluded d =
     first_of (oldest_first (\<lambda>r. run_pipeline_type r = FORGET \<and> run_status r = Run_RUNNING
       \<and> run_id r \<noteq> excluded \<and> forget_touches_dataset ds source_ids r) d)"

definition find_latest_forget_for_dataset_except ::
  "uuid \<Rightarrow> uuid list \<Rightarrow> uuid \<Rightarrow> db \<Rightarrow> pipeline_run option" where
  "find_latest_forget_for_dataset_except ds source_ids excluded d =
     first_of (newest_first (\<lambda>r. run_pipeline_type r = FORGET \<and> run_id r \<noteq> excluded
       \<and> not_target_conflict r \<and> forget_touches_dataset ds source_ids r) d)"

subsection \<open>Heartbeats and staleness\<close>

definition is_owner :: "pipeline_run \<Rightarrow> string \<Rightarrow> int \<Rightarrow> bool" where
  "is_owner r w a \<longleftrightarrow> run_worker_id r = Some w \<and> run_attempt r = a"

definition heartbeat_if_owned :: "timestamp \<Rightarrow> uuid \<Rightarrow> string \<Rightarrow> int \<Rightarrow> db \<Rightarrow> bool \<times> db" where
  "heartbeat_if_owned now k w a d =
     (let P = (\<lambda>r. run_id r = k \<and> run_worker_id r = Some w \<and> run_attempt r = a
                 \<and> operational (run_status r)) in
      (list_ex P (pipeline_runs d),
       d\<lparr>pipeline_runs := row_upd P (run_heartbeat_at_update (\<lambda>_. Some now)) (pipeline_runs d)\<rparr>))"

definition heartbeat_stale :: "timestamp \<Rightarrow> int \<Rightarrow> bool \<Rightarrow> pipeline_run \<Rightarrow> bool" where
  "heartbeat_stale now stale_us include_null r \<longleftrightarrow>
     (case run_heartbeat_at r of None \<Rightarrow> include_null | Some t \<Rightarrow> t < now - stale_us)"

definition list_stale_candidate_ids :: "timestamp \<Rightarrow> int \<Rightarrow> bool \<Rightarrow> nat \<Rightarrow> db \<Rightarrow> uuid list" where
  "list_stale_candidate_ids now stale_us include_null limit d =
     map run_id (take limit (oldest_first
       (\<lambda>r. operational (run_status r) \<and> heartbeat_stale now stale_us include_null r) d))"

definition get_stale_for_update :: "(uuid \<Rightarrow> bool) \<Rightarrow> uuid \<Rightarrow> db \<Rightarrow> pipeline_run option" where
  "get_stale_for_update row_locked k d = (if row_locked k then None else get_run k d)"

definition get_by_idempotency_key :: "string \<Rightarrow> db \<Rightarrow> pipeline_run option" where
  "get_by_idempotency_key key d = List.find (\<lambda>r. run_idempotency_key r = Some key) (pipeline_runs d)"

subsection \<open>Dataset deletion\<close>

definition nonterminal_run :: "run_status \<Rightarrow> bool" where
  "nonterminal_run s \<longleftrightarrow> s = Run_QUEUED \<or> s = Run_RUNNING \<or> s = Run_CANCELLING"

definition find_nonterminal_dataset_delete_for_dataset :: "uuid \<Rightarrow> db \<Rightarrow> pipeline_run option" where
  "find_nonterminal_dataset_delete_for_dataset ds d =
     first_of (newest_first (\<lambda>r. run_dataset_id r = Some ds \<and> run_pipeline_type r = DATASET_DELETE
       \<and> nonterminal_run (run_status r)) d)"

definition find_latest_dataset_delete_for_dataset :: "uuid \<Rightarrow> db \<Rightarrow> pipeline_run option" where
  "find_latest_dataset_delete_for_dataset ds d =
     first_of (newest_first (\<lambda>r. run_dataset_id r = Some ds
       \<and> run_pipeline_type r = DATASET_DELETE) d)"

definition step_succeeded :: "uuid \<Rightarrow> string \<Rightarrow> db \<Rightarrow> bool" where
  "step_succeeded rid name d \<longleftrightarrow>
     list_ex (\<lambda>s. step_run_id s = rid \<and> step_status s = Step_SUCCEEDED \<and> step_name s = name)
       (pipeline_steps d)"

definition authoritative_mutation_succeeded :: "uuid \<Rightarrow> pipeline_type \<Rightarrow> db \<Rightarrow> bool" where
  "authoritative_mutation_succeeded rid ptype d \<longleftrightarrow>
     (case AUTHORITATIVE_MUTATION_STEP_NAMES ptype of
        None \<Rightarrow> False | Some name \<Rightarrow> step_succeeded rid name d)"

definition find_compatible_destructive_lineage :: "uuid \<Rightarrow> uuid \<Rightarrow> db \<Rightarrow> pipeline_run option" where
  "find_compatible_destructive_lineage ds src d =
     first_of (newest_first (\<lambda>r.
       ((run_pipeline_type r = FORGET
         \<and> (run_source_id r = Some src
            \<or> (run_dataset_id r = Some ds \<and> run_source_id r = None)
            \<or> (run_dataset_id r = None \<and> run_source_id r = None))
         \<and> not_target_conflict r)
        \<or> (run_pipeline_type r = DATASET_DELETE \<and> run_dataset_id r = Some ds))
       \<and> authoritative_mutation_succeeded (run_id r) (run_pipeline_type r) d) d)"

definition exists_administrative_delete_ownership :: "uuid \<Rightarrow> db \<Rightarrow> bool" where
  "exists_administrative_delete_ownership ds d \<longleftrightarrow>
     list_ex (\<lambda>r. run_dataset_id r = Some ds \<and> run_pipeline_type r = DATASET_DELETE
       \<and> step_succeeded (run_id r) ''begin_delete'' d) (pipeline_runs d)"

definition list_incompatible_queued_for_dataset :: "uuid \<Rightarrow> uuid \<Rightarrow> db \<Rightarrow> pipeline_run list" where
  "list_incompatible_queued_for_dataset ds exclude d =
     oldest_first (\<lambda>r. run_dataset_id r = Some ds \<and> run_status r = Run_QUEUED
       \<and> run_pipeline_type r \<noteq> DATASET_DELETE \<and> run_id r \<noteq> exclude) d"

subsection \<open>Facts shared by the services\<close>

lemma set_oldest_first [simp]: "set (oldest_first P d) = {r \<in> set (pipeline_runs d). P r}"
  by (auto simp: oldest_first_def)

lemma set_newest_first [simp]: "set (newest_first P d) = {r \<in> set (pipeline_runs d). P r}"
  by (simp add: newest_first_def)

lemma first_of_SomeD: "first_of xs = Some x \<Longrightarrow> x \<in> set xs"
  by (auto simp: first_of_def split: list.splits)

lemma first_of_None [simp]: "first_of xs = None \<longleftrightarrow> xs = []"
  by (simp add: first_of_def split: list.splits)

lemma newest_first_Nil_iff: "newest_first P d = [] \<longleftrightarrow> (\<forall>r \<in> set (pipeline_runs d). \<not> P r)"
  using set_newest_first[of P d] by (auto simp: set_empty[symmetric] simp del: set_empty)

lemma first_of_newest:
  "first_of (newest_first P d) = Some r \<Longrightarrow> r \<in> set (pipeline_runs d) \<and> P r"
  by (drule first_of_SomeD) simp

lemma first_of_newest_None:
  "first_of (newest_first P d) = None \<longleftrightarrow> (\<forall>r \<in> set (pipeline_runs d). \<not> P r)"
  by (simp add: newest_first_Nil_iff)

lemma newest_first_is_newest:
  assumes "first_of (newest_first P d) = Some r" "r' \<in> set (pipeline_runs d)" "P r'"
  shows "claim_order r' \<le> claim_order r"
proof -
  have s: "sorted (map claim_order (oldest_first P d))" by (simp add: oldest_first_def)
  obtain rs where "newest_first P d = r # rs"
    using assms(1) by (auto simp: first_of_def split: list.splits)
  then have eq: "oldest_first P d = rev rs @ [r]" by (simp add: newest_first_def rev_eq_Cons_iff)
  have "r' \<in> set (rev rs @ [r])" using assms(2,3) set_oldest_first[of P d] by (simp add: eq[symmetric])
  with s show ?thesis by (auto simp: eq sorted_append)
qed

lemma set_distinct_on: "set (distinct_on k xs) \<subseteq> set xs"
  by (induction k xs rule: distinct_on.induct) auto

lemma distinct_on_keys: "distinct (map k (distinct_on k xs))"
  by (induction k xs rule: distinct_on.induct) (auto simp: distinct_map_filter)

lemma distinct_on_covers: "x \<in> set xs \<Longrightarrow> \<exists>y \<in> set (distinct_on k xs). k y = k x"
  by (induction k xs rule: distinct_on.induct) fastforce+

lemma distinct_on_first:
  "\<lbrakk>sorted (map f xs); y \<in> set (distinct_on k xs); x \<in> set xs; k x = k y\<rbrakk> \<Longrightarrow> f y \<le> f x"
  by (induction k xs rule: distinct_on.induct) (auto dest: set_distinct_on[THEN subsetD])

lemma claim_order_inj:
  "claim_order r = claim_order r' \<Longrightarrow> run_id r = run_id r'"
  by (simp add: claim_order_def)

end
