(* ===== verification/Claimer.thy ===== *)
theory Claimer
  imports Run_Repository "HOL-Library.Word"
begin

unbundle bit_operations_syntax

text \<open>
  Queue claiming: the process state and claim policy (\<open>services/process_state.py\<close>), the
  advisory-lock keys (\<open>infrastructure/postgres/advisory_lock_keys.py\<close>) and the claim
  algorithm (\<open>services/pipeline_queue_claimer.py\<close>).  A claim attempt is one transaction; the
  environment \<open>claim_env\<close> supplies what the transaction finds when it runs: its \<open>now()\<close>, the rows
  and advisory locks other sessions hold, and what they committed since the last transaction.
\<close>

subsection \<open>Process state\<close>

datatype process_state = BOOTSTRAP_MAINTENANCE | STORAGE_CONVERGING | OPERATIONAL

datatype claim_policy = Claim_NONE | Claim_RECOVERY_ONLY | Claim_NORMAL

definition claim_policy_for_state :: "process_state \<Rightarrow> claim_policy" where
  "claim_policy_for_state st =
     (if st = OPERATIONAL then Claim_NORMAL
      else if st = STORAGE_CONVERGING then Claim_RECOVERY_ONLY
      else Claim_NONE)"

record process_state_holder =
  holder_state :: process_state
  holder_detail :: "string option"
  holder_recovery_owned_run_ids :: "uuid set"

definition initial_holder :: process_state_holder where
  "initial_holder = \<lparr>holder_state = BOOTSTRAP_MAINTENANCE, holder_detail = None,
     holder_recovery_owned_run_ids = {}\<rparr>"

definition holder_claim_policy :: "process_state_holder \<Rightarrow> claim_policy" where
  "holder_claim_policy h = claim_policy_for_state (holder_state h)"

definition is_operational :: "process_state_holder \<Rightarrow> bool" where
  "is_operational h \<longleftrightarrow> holder_state h = OPERATIONAL"

definition holder_transition :: "process_state \<Rightarrow> string option \<Rightarrow> process_state_holder \<Rightarrow> process_state_holder" where
  "holder_transition st detail h = h\<lparr>holder_state := st, holder_detail := detail\<rparr>"

definition set_recovery_owned_run_ids :: "uuid list \<Rightarrow> process_state_holder \<Rightarrow> process_state_holder" where
  "set_recovery_owned_run_ids ids h = h\<lparr>holder_recovery_owned_run_ids := set ids\<rparr>"

subsection \<open>Advisory lock keys\<close>

definition DATASET_KEY_MASK :: int where "DATASET_KEY_MASK = 2 ^ 63 - 1"

definition DATASET_NAMESPACE_PREFIX :: "nat list" where
  "DATASET_NAMESPACE_PREFIX = ascii ''sofias_memory:adr-0009:pipeline_runs:dataset:''"

definition GLOBAL_BARRIER_KEY :: int where "GLOBAL_BARRIER_KEY = - 1"

definition MIGRATION_BOOTSTRAP_KEY :: int where "MIGRATION_BOOTSTRAP_KEY = - 2"

fun be_bytes :: "nat \<Rightarrow> nat \<Rightarrow> nat list" where
  "be_bytes 0 x = []"
| "be_bytes (Suc n) x = be_bytes n (x div 256) @ [x mod 256]"

definition from_be_bytes :: "nat list \<Rightarrow> nat" where
  "from_be_bytes bs = foldl (\<lambda>acc b. acc * 256 + b) 0 bs"

text \<open>The raw digest of \<open>hashlib.sha256\<close> is a parameter.\<close>

definition dataset_lock_key :: "(nat list \<Rightarrow> nat list) \<Rightarrow> uuid \<Rightarrow> int" where
  "dataset_lock_key sha256_digest ds =
     (let digest = take 8 (sha256_digest (DATASET_NAMESPACE_PREFIX @ be_bytes 16 ds));
          value = int (from_be_bytes digest)
      in value AND DATASET_KEY_MASK)"

lemma dataset_lock_key_range:
  "0 \<le> dataset_lock_key sha ds" "dataset_lock_key sha ds \<le> 2 ^ 63 - 1"
  by (simp_all add: dataset_lock_key_def DATASET_KEY_MASK_def Let_def AND_upper2)

lemma lock_keys_disjoint:
  "dataset_lock_key sha ds \<noteq> GLOBAL_BARRIER_KEY" "dataset_lock_key sha ds \<noteq> MIGRATION_BOOTSTRAP_KEY"
  "GLOBAL_BARRIER_KEY \<noteq> MIGRATION_BOOTSTRAP_KEY"
  using dataset_lock_key_range(1)[of sha ds]
  by (auto simp: GLOBAL_BARRIER_KEY_def MIGRATION_BOOTSTRAP_KEY_def)

subsection \<open>One claim attempt\<close>

record claim_env =
  env_now :: timestamp
  env_row_locked :: "uuid \<Rightarrow> bool"
  env_lock_shared :: "int \<Rightarrow> bool"
  env_lock_exclusive :: "int \<Rightarrow> bool"
  env_interfere :: "db \<Rightarrow> db"

record claimed_run =
  claimed_run_id :: uuid
  claimed_dataset_id :: "uuid option"
  claimed_pipeline_type :: pipeline_type
  claimed_worker_id :: string
  claimed_attempt :: int

definition DEFAULT_CANDIDATE_SCAN_LIMIT :: nat where "DEFAULT_CANDIDATE_SCAN_LIMIT = 20"

definition claimed_from_model :: "pipeline_run \<Rightarrow> exn + claimed_run" where
  "claimed_from_model r =
     (case run_worker_id r of
        None \<Rightarrow> Inl Assertion_Error
      | Some w \<Rightarrow> Inr \<lparr>claimed_run_id = run_id r, claimed_dataset_id = run_dataset_id r,
          claimed_pipeline_type = run_pipeline_type r, claimed_worker_id = w,
          claimed_attempt = run_attempt r\<rparr>)"

definition allowed_under_policy :: "pipeline_run \<Rightarrow> claim_policy \<Rightarrow> uuid set \<Rightarrow> db \<Rightarrow> bool" where
  "allowed_under_policy r policy owned d =
     (if policy = Claim_NORMAL then True
      else if policy = Claim_NONE then False
      else if \<not> (run_pipeline_type r = FORGET \<or> run_pipeline_type r = DATASET_DELETE) then False
      else if run_id r \<notin> owned then False
      else authoritative_mutation_succeeded (run_id r) (run_pipeline_type r) d)"

definition arbitrate_dataset_scoped ::
  "(nat list \<Rightarrow> nat list) \<Rightarrow> claim_env \<Rightarrow> pipeline_run \<Rightarrow> uuid \<Rightarrow> db \<Rightarrow> bool" where
  "arbitrate_dataset_scoped sha e r ds d =
     (if exists_eligible_global_with_precedence (env_now e) (run_created_at r) (run_id r) d then False
      else if \<not> env_lock_shared e GLOBAL_BARRIER_KEY then False
      else if \<not> env_lock_exclusive e (dataset_lock_key sha ds) then False
      else if exists_dataset_conflict ds d then False
      else \<not> exists_other_global_conflict (run_id r) d)"

definition arbitrate_global :: "claim_env \<Rightarrow> pipeline_run \<Rightarrow> db \<Rightarrow> bool" where
  "arbitrate_global e r d =
     (if \<not> env_lock_exclusive e GLOBAL_BARRIER_KEY then False
      else if exists_any_dataset_scoped_conflict d then False
      else \<not> exists_other_global_conflict (run_id r) d)"

definition arbitrate :: "(nat list \<Rightarrow> nat list) \<Rightarrow> claim_env \<Rightarrow> pipeline_run \<Rightarrow> db \<Rightarrow> bool" where
  "arbitrate sha e r d =
     (case run_dataset_id r of
        Some ds \<Rightarrow> arbitrate_dataset_scoped sha e r ds d
      | None \<Rightarrow> arbitrate_global e r d)"

text \<open>The result of a transaction: its value or exception, and the committed database; a
  transaction that returns without committing, or raises, leaves the database as it was.\<close>

type_synonym 'a tx = "(exn + 'a) \<times> db"

definition try_claim_candidate ::
  "(nat list \<Rightarrow> nat list) \<Rightarrow> claim_env \<Rightarrow> uuid \<Rightarrow> string \<Rightarrow> claim_policy \<Rightarrow> uuid set \<Rightarrow> db \<Rightarrow>
   claimed_run option tx" where
  "try_claim_candidate sha e candidate w policy owned d0 =
     (let d = env_interfere e d0 in
      case get_eligible_for_update (env_row_locked e) (env_now e) candidate d of
        None \<Rightarrow> (Inr None, d)
      | Some r \<Rightarrow>
          if \<not> allowed_under_policy r policy owned d then (Inr None, d)
          else if \<not> arbitrate sha e r d then (Inr None, d)
          else (case transition_run r Run_RUNNING (env_now e) (Some w) None None None of
                  Inl x \<Rightarrow> (Inl x, d)
                | Inr r' \<Rightarrow> (bindE (claimed_from_model r') (\<lambda>c. Inr (Some c)), put_run r' d)))"

fun try_candidates ::
  "(nat list \<Rightarrow> nat list) \<Rightarrow> (nat \<Rightarrow> claim_env) \<Rightarrow> nat \<Rightarrow> uuid list \<Rightarrow> string \<Rightarrow> claim_policy \<Rightarrow> uuid set \<Rightarrow>
   db \<Rightarrow> claimed_run option tx" where
  "try_candidates sha env i [] w policy owned d = (Inr None, d)"
| "try_candidates sha env i (k # ks) w policy owned d =
     (case try_claim_candidate sha (env i) k w policy owned d of
        (Inl x, d') \<Rightarrow> (Inl x, d')
      | (Inr (Some c), d') \<Rightarrow> (Inr (Some c), d')
      | (Inr None, d') \<Rightarrow> try_candidates sha env (Suc i) ks w policy owned d')"

definition try_claim_one ::
  "(nat list \<Rightarrow> nat list) \<Rightarrow> (nat \<Rightarrow> claim_env) \<Rightarrow> nat \<Rightarrow> process_state_holder \<Rightarrow> string \<Rightarrow> db \<Rightarrow>
   claimed_run option tx" where
  "try_claim_one sha env scan_limit h w d =
     (let policy = holder_claim_policy h in
      if policy = Claim_NONE then (Inr None, d)
      else
        let owned = (if policy = Claim_RECOVERY_ONLY then holder_recovery_owned_run_ids h else {});
            d1 = env_interfere (env 0) d;
            candidates = list_eligible_candidate_ids (env_now (env 0)) scan_limit d1
        in try_candidates sha env 1 candidates w policy owned d1)"


subsection \<open>Exclusive ownership\<close>

text \<open>ADR-0009's serialization: operational runs have pairwise different datasets, and an
  operational global run is the only operational run.\<close>

definition operational_runs :: "pipeline_run list \<Rightarrow> pipeline_run list" where
  "operational_runs rs = filter (\<lambda>r. operational (run_status r)) rs"

definition claim_exclusive :: "pipeline_run list \<Rightarrow> bool" where
  "claim_exclusive rs \<longleftrightarrow> distinct (operational_datasets rs)
     \<and> (list_ex (\<lambda>r. run_dataset_id r = None) (operational_runs rs) \<longrightarrow> length (operational_runs rs) = 1)"

text \<open>What a run needs to become operational next to the runs \<open>rs\<close>.\<close>

definition scope_free :: "pipeline_run \<Rightarrow> pipeline_run list \<Rightarrow> bool" where
  "scope_free r rs \<longleftrightarrow>
     (case run_dataset_id r of
        None \<Rightarrow> list_all (\<lambda>c. operational (run_status c) \<longrightarrow> run_id c = run_id r) rs
      | Some ds \<Rightarrow> list_all (\<lambda>c. operational (run_status c) \<longrightarrow>
          run_id c = run_id r \<or> (run_dataset_id c \<noteq> None \<and> run_dataset_id c \<noteq> Some ds)) rs)"

lemma filter_row_put_start:
  assumes "keyed run_id rs" "r \<in> set rs" "\<not> P r" "run_id r' = run_id r" "P r'"
  shows "mset (filter P (row_put run_id r' rs)) = add_mset r' (mset (filter P rs))"
  using assms
proof (induction rs)
  case (Cons a rs)
  show ?case
  proof (cases "run_id a = run_id r'")
    case True
    then have "a = r" using Cons.prems by (force simp: keyed_def)
    have "run_id r' \<notin> run_id ` set rs" using Cons.prems True by (auto simp: keyed_def)
    then have "row_put run_id r' rs = rs" by (rule row_put_absent)
    with \<open>a = r\<close> Cons.prems show ?thesis by (simp add: row_put_def)
  next
    case False
    with Cons show ?thesis by (auto simp: row_put_def keyed_def)
  qed
qed simp

lemma operational_runs_start:
  assumes "keyed run_id rs" "r \<in> set rs" "\<not> operational (run_status r)"
    "run_id r' = run_id r" "operational (run_status r')"
  shows "mset (operational_runs (row_put run_id r' rs)) = add_mset r' (mset (operational_runs rs))"
  unfolding operational_runs_def
  using filter_row_put_start[of rs r "\<lambda>r. operational (run_status r)" r'] assms by simp

lemma operational_datasets_start:
  assumes "keyed run_id rs" "r \<in> set rs" "\<not> operational (run_status r)"
    "run_id r' = run_id r" "operational (run_status r')" "run_dataset_id r' = Some ds"
  shows "mset (operational_datasets (row_put run_id r' rs)) = add_mset ds (mset (operational_datasets rs))"
  unfolding operational_datasets_def
  using filter_row_put_start[of rs r "\<lambda>r. run_dataset_id r \<noteq> None \<and> operational (run_status r)" r'] assms
  by (simp add: mset_map)

lemma operational_datasets_mem:
  "ds \<in> set (operational_datasets rs) \<longleftrightarrow>
   (\<exists>c \<in> set rs. run_dataset_id c = Some ds \<and> operational (run_status c))"
  by (force simp: operational_datasets_def)

lemma operational_datasets_global:
  "\<lbrakk>keyed run_id rs; run_id r' = run_id r; r \<in> set rs; run_dataset_id r' = None; run_dataset_id r = None\<rbrakk> \<Longrightarrow>
   operational_datasets (row_put run_id r' rs) = operational_datasets rs"
proof (induction rs)
  case (Cons a rs)
  show ?case
  proof (cases "run_id a = run_id r'")
    case True
    then have "a = r" using Cons.prems by (force simp: keyed_def)
    moreover have "run_id r' \<notin> run_id ` set rs" using Cons.prems True by (auto simp: keyed_def)
    then have "row_put run_id r' rs = rs" by (rule row_put_absent)
    ultimately show ?thesis using Cons.prems by (simp add: row_put_def operational_datasets_def)
  next
    case False
    with Cons show ?thesis by (auto simp: row_put_def keyed_def operational_datasets_def)
  qed
qed simp

lemma start_exclusive:
  assumes k: "keyed run_id rs" and r: "r \<in> set rs" "\<not> operational (run_status r)"
    and r': "run_id r' = run_id r" "operational (run_status r')" "run_dataset_id r' = run_dataset_id r"
    and free: "scope_free r rs" and ex: "claim_exclusive rs"
  shows "claim_exclusive (row_put run_id r' rs)"
proof -
  have self: "\<And>c. c \<in> set rs \<Longrightarrow> operational (run_status c) \<Longrightarrow> run_id c \<noteq> run_id r"
    using k r by (metis row_get_keyed option.inject)
  have ops: "mset (operational_runs (row_put run_id r' rs)) = add_mset r' (mset (operational_runs rs))"
    using operational_runs_start k r r' by blast
  then have len: "length (operational_runs (row_put run_id r' rs)) = Suc (length (operational_runs rs))"
    by (metis size_add_mset size_mset)
  have set: "set (operational_runs (row_put run_id r' rs)) = insert r' (set (operational_runs rs))"
    using ops by (metis set_mset_add_mset_insert set_mset_mset)
  show ?thesis
  proof (cases "run_dataset_id r")
    case None
    then have none: "operational_runs rs = []"
      using free self by (auto simp: scope_free_def operational_runs_def list_all_iff filter_empty_conv)
    moreover have "operational_datasets (row_put run_id r' rs) = operational_datasets rs"
      using operational_datasets_global k r r' None by metis
    ultimately show ?thesis using ex len by (simp add: claim_exclusive_def)
  next
    case (Some ds)
    have "ds \<notin> set (operational_datasets rs)"
      using free self Some by (auto simp: operational_datasets_mem scope_free_def list_all_iff)
    moreover have m: "mset (operational_datasets (row_put run_id r' rs)) = add_mset ds (mset (operational_datasets rs))"
      using operational_datasets_start k r r' Some by metis
    ultimately have "distinct (operational_datasets (row_put run_id r' rs))"
      using ex mset_eq_imp_distinct_iff[of "operational_datasets (row_put run_id r' rs)" "ds # operational_datasets rs"]
      by (simp add: claim_exclusive_def)
    moreover have "\<not> list_ex (\<lambda>r. run_dataset_id r = None) (operational_runs (row_put run_id r' rs))"
      unfolding list_ex_iff set
      using free self Some r' by (auto simp: scope_free_def list_all_iff operational_runs_def)
    ultimately show ?thesis by (simp add: claim_exclusive_def)
  qed
qed

subsection \<open>What a claim attempt does\<close>

lemma arbitrate_scope_free: "arbitrate sha e r d \<Longrightarrow> scope_free r (pipeline_runs d)"
  unfolding arbitrate_def arbitrate_dataset_scoped_def arbitrate_global_def scope_free_def
    exists_dataset_conflict_def exists_any_dataset_scoped_conflict_def
    exists_other_global_conflict_def list_all_iff list_ex_iff
  by (cases "run_dataset_id r") (auto split: if_splits, fastforce+)

definition started :: "pipeline_run \<Rightarrow> timestamp \<Rightarrow> string \<Rightarrow> pipeline_run" where
  "started r now w = r\<lparr>run_attempt := run_attempt r + 1,
     run_started_at := (case run_started_at r of None \<Rightarrow> Some now | Some t \<Rightarrow> Some t),
     run_worker_id := Some w, run_heartbeat_at := Some now, run_next_attempt_at := None,
     run_status := Run_RUNNING\<rparr>"

lemma started_simps [simp]:
  "run_id (started r now w) = run_id r" "run_status (started r now w) = Run_RUNNING"
  "run_dataset_id (started r now w) = run_dataset_id r" "run_attempt (started r now w) = run_attempt r + 1"
  "run_worker_id (started r now w) = Some w" "run_pipeline_type (started r now w) = run_pipeline_type r"
  "run_heartbeat_at (started r now w) = Some now"
  by (simp_all add: started_def)

lemma started_identity: "same_run_identity r (started r now w)"
  by (simp add: same_run_identity_def started_def)

lemma transition_run_start:
  "run_status r = Run_QUEUED \<Longrightarrow>
   transition_run r Run_RUNNING now (Some w) None None None = Inr (started r now w)"
  by (simp add: transition_run_def validate_run_transition_def RUN_TRANSITIONS_def started_def)

definition claim_of :: "pipeline_run \<Rightarrow> string \<Rightarrow> claimed_run" where
  "claim_of r w = \<lparr>claimed_run_id = run_id r, claimed_dataset_id = run_dataset_id r,
     claimed_pipeline_type = run_pipeline_type r, claimed_worker_id = w,
     claimed_attempt = run_attempt r + 1\<rparr>"

lemma claimed_started: "claimed_from_model (started r now w) = Inr (claim_of r w)"
  by (simp add: claimed_from_model_def claim_of_def)

definition claimable ::
  "(nat list \<Rightarrow> nat list) \<Rightarrow> claim_env \<Rightarrow> claim_policy \<Rightarrow> uuid set \<Rightarrow> pipeline_run \<Rightarrow> db \<Rightarrow> bool" where
  "claimable sha e policy owned r d \<longleftrightarrow> eligible (env_now e) r \<and> \<not> env_row_locked e (run_id r)
     \<and> allowed_under_policy r policy owned d \<and> arbitrate sha e r d"

lemma try_claim_candidate_cases:
  "try_claim_candidate sha e k w policy owned d0 =
     (let d = env_interfere e d0 in
      case get_run k d of
        None \<Rightarrow> (Inr None, d)
      | Some r \<Rightarrow> if claimable sha e policy owned r d
                  then (Inr (Some (claim_of r w)), put_run (started r (env_now e) w) d)
                  else (Inr None, d))"
proof (cases "get_run k (env_interfere e d0)")
  case (Some r)
  then have "run_id r = k" by (simp add: get_run_SomeD)
  moreover have "eligible (env_now e) r \<Longrightarrow> run_status r = Run_QUEUED"
    by (simp add: eligible_def)
  ultimately show ?thesis using Some
    by (simp add: try_claim_candidate_def Let_def get_eligible_for_update_def claimable_def
        transition_run_start claimed_started)
qed (simp add: try_claim_candidate_def Let_def get_eligible_for_update_def)

lemma try_claim_candidate_some:
  assumes "try_claim_candidate sha e k w policy owned d0 = (Inr (Some c), d')"
  obtains r where "get_run k (env_interfere e d0) = Some r"
    "claimable sha e policy owned r (env_interfere e d0)" "c = claim_of r w"
    "d' = put_run (started r (env_now e) w) (env_interfere e d0)"
  using assms by (auto simp: try_claim_candidate_cases Let_def split: option.splits if_splits)

lemma try_claim_candidate_none:
  "try_claim_candidate sha e k w policy owned d0 = (Inr None, d') \<Longrightarrow> d' = env_interfere e d0"
  by (auto simp: try_claim_candidate_cases Let_def split: option.splits if_splits)

lemma try_claim_candidate_total: "\<exists>c d'. try_claim_candidate sha e k w policy owned d0 = (Inr c, d')"
  by (simp add: try_claim_candidate_cases Let_def split: option.splits)

lemma pipeline_runs_put_run: "pipeline_runs (put_run r d) = row_put run_id r (pipeline_runs d)"
  by (simp add: put_run_def)

lemma claim_keeps_exclusive:
  assumes "get_run k d = Some r" "claimable sha e policy owned r d"
    "keyed run_id (pipeline_runs d)" "claim_exclusive (pipeline_runs d)"
  shows "claim_exclusive (pipeline_runs (put_run (started r now w) d))"
proof -
  have "\<not> operational (run_status r)" using assms(2) by (simp add: claimable_def eligible_def)
  moreover have "scope_free r (pipeline_runs d)"
    using assms(2) by (intro arbitrate_scope_free[of sha e]) (simp add: claimable_def)
  ultimately show ?thesis
    using start_exclusive[of "pipeline_runs d" r "started r now w"] assms get_run_SomeD[OF assms(1)]
    by (simp add: pipeline_runs_put_run)
qed


subsection \<open>The scan\<close>

definition env_keeps :: "(nat \<Rightarrow> claim_env) \<Rightarrow> (db \<Rightarrow> bool) \<Rightarrow> bool" where
  "env_keeps env I \<longleftrightarrow> (\<forall>i d. I d \<longrightarrow> I (env_interfere (env i) d))"

text \<open>Every property the environment keeps carries over from \<open>d\<close> to \<open>d'\<close>.\<close>

definition env_reach :: "(nat \<Rightarrow> claim_env) \<Rightarrow> db \<Rightarrow> db \<Rightarrow> bool" where
  "env_reach env d d' \<longleftrightarrow> (\<forall>I. env_keeps env I \<longrightarrow> I d \<longrightarrow> I d')"

lemma env_reach_refl [simp]: "env_reach env d d"
  by (simp add: env_reach_def)

lemma env_reach_step [simp]: "env_reach env d (env_interfere (env i) d)"
  by (simp add: env_reach_def env_keeps_def)

lemma env_reachD: "env_reach env d d' \<Longrightarrow> env_keeps env I \<Longrightarrow> I d \<Longrightarrow> I d'"
  unfolding env_reach_def by (drule spec, drule (1) mp, drule (1) mp)

lemma env_reach_trans: "env_reach env a b \<Longrightarrow> env_reach env b c \<Longrightarrow> env_reach env a c"
proof (unfold env_reach_def[of env a c], intro allI impI)
  fix I assume "env_reach env a b" "env_reach env b c" and I: "env_keeps env I" "I a"
  from env_reachD[OF \<open>env_reach env a b\<close> I] show "I c"
    by (rule env_reachD[OF \<open>env_reach env b c\<close> I(1)])
qed

lemma try_candidates_total: "\<exists>c d'. try_candidates sha env i ks w policy owned d = (Inr c, d')"
proof (induction ks arbitrary: i d)
  case (Cons k ks)
  obtain c d1 where "try_claim_candidate sha (env i) k w policy owned d = (Inr c, d1)"
    using try_claim_candidate_total by blast
  with Cons[of "Suc i" d1] show ?case by (cases c) auto
qed simp

lemma try_candidates_some:
  "try_candidates sha env i ks w policy owned d = (Inr (Some c), d') \<Longrightarrow>
   \<exists>j k d0 r. i \<le> j \<and> k \<in> set ks
     \<and> get_run k (env_interfere (env j) d0) = Some r
     \<and> claimable sha (env j) policy owned r (env_interfere (env j) d0)
     \<and> c = claim_of r w \<and> d' = put_run (started r (env_now (env j)) w) (env_interfere (env j) d0)
     \<and> env_reach env d (env_interfere (env j) d0)"
proof (induction ks arbitrary: i d)
  case (Cons k ks)
  obtain c1 d1 where t: "try_claim_candidate sha (env i) k w policy owned d = (Inr c1, d1)"
    using try_claim_candidate_total by blast
  show ?case
  proof (cases c1)
    case None
    with t have d1: "d1 = env_interfere (env i) d" by (simp add: try_claim_candidate_none)
    from Cons.prems t None have "try_candidates sha env (Suc i) ks w policy owned d1 = (Inr (Some c), d')"
      by simp
    from Cons.IH[OF this] obtain j k1 d0 r where *: "Suc i \<le> j" "k1 \<in> set ks"
      "get_run k1 (env_interfere (env j) d0) = Some r"
      "claimable sha (env j) policy owned r (env_interfere (env j) d0)"
      "c = claim_of r w" "d' = put_run (started r (env_now (env j)) w) (env_interfere (env j) d0)"
      "env_reach env d1 (env_interfere (env j) d0)" by blast
    moreover have "env_reach env d (env_interfere (env j) d0)"
      using *(7) unfolding d1 by (rule env_reach_trans[OF env_reach_step])
    ultimately show ?thesis
      by (intro exI[of _ j] exI[of _ k1] exI[of _ d0] exI[of _ r]) simp
  next
    case (Some c2)
    with Cons.prems t have "try_claim_candidate sha (env i) k w policy owned d = (Inr (Some c), d')" by simp
    then show ?thesis
      by (rule try_claim_candidate_some) (intro exI[of _ i] exI[of _ k] exI[of _ d] exI, simp)
  qed
qed simp

lemma try_candidates_none:
  "try_candidates sha env i ks w policy owned d = (Inr None, d') \<Longrightarrow> env_reach env d d'"
proof (induction ks arbitrary: i d)
  case (Cons k ks)
  obtain c1 d1 where t: "try_claim_candidate sha (env i) k w policy owned d = (Inr c1, d1)"
    using try_claim_candidate_total by blast
  with Cons.prems have "c1 = None" by (cases c1) auto
  with t have d1: "d1 = env_interfere (env i) d" by (simp add: try_claim_candidate_none)
  with Cons t \<open>c1 = None\<close> have "env_reach env d1 d'" by simp
  then show ?case unfolding d1 by (rule env_reach_trans[OF env_reach_step])
qed simp

lemma candidate_ids:
  "k \<in> set (list_eligible_candidate_ids now n d) \<Longrightarrow>
   \<exists>r \<in> set (pipeline_runs d). run_id r = k \<and> eligible now r \<and> no_known_conflict r d"
  using set_distinct_on[of run_dataset_id]
  by (fastforce simp: list_eligible_candidate_ids_def representatives_def dest: in_set_takeD)

lemma set_representatives:
  "r \<in> set (representatives now d) \<Longrightarrow>
   r \<in> set (pipeline_runs d) \<and> eligible now r \<and> no_known_conflict r d"
  using set_distinct_on[of run_dataset_id] by (fastforce simp: representatives_def)

lemma representatives_oldest:
  assumes "r \<in> set (representatives now d)" "r' \<in> set (pipeline_runs d)"
    "eligible now r'" "no_known_conflict r' d" "run_dataset_id r' = run_dataset_id r"
  shows "claim_order r \<le> claim_order r'"
proof -
  let ?xs = "oldest_first (\<lambda>r. eligible now r \<and> no_known_conflict r d) d"
  have "sorted (map claim_order ?xs)" by (simp add: oldest_first_def)
  moreover have "r \<in> set (distinct_on run_dataset_id ?xs)" using assms(1) by (simp add: representatives_def)
  moreover have "r' \<in> set ?xs" using assms by simp
  ultimately show ?thesis using assms(5) by (rule distinct_on_first)
qed

lemma representatives_cover:
  assumes "r' \<in> set (pipeline_runs d)" "eligible now r'" "no_known_conflict r' d"
  shows "\<exists>r \<in> set (representatives now d). run_dataset_id r = run_dataset_id r'
    \<and> claim_order r \<le> claim_order r'"
proof -
  have "\<exists>r \<in> set (representatives now d). run_dataset_id r = run_dataset_id r'"
    unfolding representatives_def by (rule distinct_on_covers) (simp add: assms)
  then show ?thesis using representatives_oldest assms by metis
qed

lemma scopes_distinct: "distinct (map run_dataset_id (representatives now d))"
  by (simp add: representatives_def distinct_on_keys)

text \<open>With every lock free and nothing else committing, the scan sees a fixed database.\<close>

definition quiet_env :: "timestamp \<Rightarrow> claim_env" where
  "quiet_env now = \<lparr>env_now = now, env_row_locked = (\<lambda>_. False), env_lock_shared = (\<lambda>_. True),
     env_lock_exclusive = (\<lambda>_. True), env_interfere = (\<lambda>d. d)\<rparr>"

lemma quiet_env_simps [simp]:
  "env_now (quiet_env now) = now" "env_row_locked (quiet_env now) k = False"
  "env_lock_shared (quiet_env now) k' = True" "env_lock_exclusive (quiet_env now) k' = True"
  "env_interfere (quiet_env now) d = d"
  by (simp_all add: quiet_env_def)

lemma idle_claims_oldest:
  assumes keyed: "keyed run_id (pipeline_runs d)" and n: "0 < n"
    and idle: "operational_runs (pipeline_runs d) = []"
    and r: "r \<in> set (pipeline_runs d)" "eligible now r"
    and oldest: "\<And>r'. r' \<in> set (pipeline_runs d) \<Longrightarrow> eligible now r' \<Longrightarrow> claim_order r \<le> claim_order r'"
    and h: "holder_state h = OPERATIONAL"
  shows "try_claim_one sha (\<lambda>_. quiet_env now) n h w d =
     (Inr (Some (claim_of r w)), put_run (started r now w) d)"
proof -
  have nocon: "no_known_conflict x d" for x
    using idle by (auto simp: no_known_conflict_def list_ex_iff conflicts_with_def
        operational_runs_def filter_empty_conv)
  obtain r0 where r0: "r0 \<in> set (representatives now d)" "claim_order r0 \<le> claim_order r"
    using representatives_cover[OF r nocon] by blast
  have min: "claim_order (hd (sort_key claim_order (representatives now d))) \<le> claim_order r"
    using hd_sort_key_min[OF r0(1), of claim_order] r0(2) by simp
  obtain x xs where xs: "sort_key claim_order (representatives now d) = x # xs"
    using r0(1) by (metis empty_iff list.exhaust list.set(1) set_sort)
  then have x: "x \<in> set (pipeline_runs d)" "eligible now x"
    using set_representatives[of x now d] by (metis list.set_intros(1) set_sort)+
  then have "claim_order x = claim_order r"
    using min xs oldest[OF x] by simp
  then have "x = r"
    using claim_order_inj keyed x(1) r(1) by (metis option.inject row_get_keyed)
  moreover have "arbitrate sha (quiet_env now) r d"
  proof -
    have "\<not> exists_eligible_global_with_precedence now (run_created_at r) (run_id r) d"
      using oldest by (auto simp: exists_eligible_global_with_precedence_def list_ex_iff
          claim_order_def simp flip: not_le)
    moreover have "\<not> exists_dataset_conflict ds d" "\<not> exists_any_dataset_scoped_conflict d"
      "\<not> exists_other_global_conflict k d" for ds k
      using idle by (auto simp: exists_dataset_conflict_def exists_any_dataset_scoped_conflict_def
          exists_other_global_conflict_def list_ex_iff operational_runs_def filter_empty_conv)
    ultimately show ?thesis
      by (simp add: arbitrate_def arbitrate_dataset_scoped_def arbitrate_global_def split: option.split)
  qed
  then have claim: "claimable sha (quiet_env now) Claim_NORMAL {} r d"
    using r by (simp add: claimable_def allowed_under_policy_def)
  obtain m where m: "n = Suc m" using n by (cases n) auto
  have "list_eligible_candidate_ids now n d = run_id r # map run_id (take m xs)"
    using \<open>x = r\<close> by (simp add: list_eligible_candidate_ids_def xs m)
  moreover have "get_run (run_id r) d = Some r" using keyed r(1) by (rule get_run_keyed)
  ultimately show ?thesis using claim
    by (simp add: try_claim_one_def h holder_claim_policy_def claim_policy_for_state_def Let_def
        try_claim_candidate_cases)
qed


lemma try_claim_one_total: "\<exists>c d'. try_claim_one sha env n h w d = (Inr c, d')"
  using try_candidates_total by (simp add: try_claim_one_def Let_def)

lemma try_claim_one_some:
  assumes "try_claim_one sha env n h w d = (Inr (Some c), d')"
  shows "\<exists>j d0 r. get_run (run_id r) (env_interfere (env j) d0) = Some r
     \<and> claimable sha (env j) (holder_claim_policy h)
         (if holder_claim_policy h = Claim_RECOVERY_ONLY then holder_recovery_owned_run_ids h else {})
         r (env_interfere (env j) d0)
     \<and> c = claim_of r w \<and> d' = put_run (started r (env_now (env j)) w) (env_interfere (env j) d0)
     \<and> env_reach env d (env_interfere (env j) d0)"
proof -
  let ?ow = "if holder_claim_policy h = Claim_RECOVERY_ONLY then holder_recovery_owned_run_ids h else {}"
  let ?d1 = "env_interfere (env 0) d"
  let ?ks = "list_eligible_candidate_ids (env_now (env 0)) n ?d1"
  have "try_candidates sha env 1 ?ks w (holder_claim_policy h) ?ow ?d1 = (Inr (Some c), d')"
    using assms by (simp add: try_claim_one_def Let_def split: if_splits)
  from try_candidates_some[OF this] obtain j k d0 r where
    *: "get_run k (env_interfere (env j) d0) = Some r"
       "claimable sha (env j) (holder_claim_policy h) ?ow r (env_interfere (env j) d0)"
       "c = claim_of r w" "d' = put_run (started r (env_now (env j)) w) (env_interfere (env j) d0)"
       "env_reach env ?d1 (env_interfere (env j) d0)" by blast
  have "env_reach env d (env_interfere (env j) d0)"
    using *(5) by (rule env_reach_trans[OF env_reach_step])
  with * get_run_SomeD[OF *(1)] show ?thesis by blast
qed

lemma try_claim_one_none: "try_claim_one sha env n h w d = (Inr None, d') \<Longrightarrow> env_reach env d d'"
  using env_reach_trans[OF env_reach_step try_candidates_none]
  by (auto simp: try_claim_one_def Let_def split: if_splits)

subsection \<open>Properties\<close>

text \<open>A successful claim moves exactly one run that the transaction found QUEUED, due and
  unlocked to RUNNING: its attempt is incremented, the claiming worker becomes its owner, its
  heartbeat is the transaction's now(), the returned token is that owner and attempt, and every
  other row is what the environment had committed.\<close>

theorem claim_moves_one_eligible_run:
  assumes "try_claim_one sha env n h w d = (Inr (Some c), d')"
  shows "\<exists>now d0 r. env_reach env d d0 \<and> get_run (claimed_run_id c) d0 = Some r \<and> eligible now r
     \<and> scope_free r (pipeline_runs d0) \<and> d' = put_run (started r now w) d0
     \<and> claimed_worker_id c = w \<and> claimed_attempt c = run_attempt r + 1"
proof -
  from try_claim_one_some[OF assms] obtain j d0 r where
    *: "get_run (run_id r) (env_interfere (env j) d0) = Some r"
       "claimable sha (env j) (holder_claim_policy h)
         (if holder_claim_policy h = Claim_RECOVERY_ONLY then holder_recovery_owned_run_ids h else {})
         r (env_interfere (env j) d0)"
       "c = claim_of r w" "d' = put_run (started r (env_now (env j)) w) (env_interfere (env j) d0)"
       "env_reach env d (env_interfere (env j) d0)" by blast
  from *(2) have "eligible (env_now (env j)) r" "scope_free r (pipeline_runs (env_interfere (env j) d0))"
    by (auto simp: claimable_def intro: arbitrate_scope_free)
  with * show ?thesis
    by (intro exI[of _ "env_now (env j)"] exI[of _ "env_interfere (env j) d0"] exI[of _ r])
      (simp add: claim_of_def)
qed

definition demo_run :: "uuid \<Rightarrow> pipeline_type \<Rightarrow> uuid option \<Rightarrow> pipeline_run" where
  "demo_run k t ds = new_run k 0 t ds None None [] json_empty [] None None"

definition demo_db :: "pipeline_run list \<Rightarrow> db" where
  "demo_db rs = \<lparr>pipeline_runs = rs, pipeline_steps = [], datasets = []\<rparr>"

definition demo_holder :: process_state_holder where
  "demo_holder = holder_transition OPERATIONAL None initial_holder"

lemma demo_claim:
  "try_claim_one (\<lambda>_. []) (\<lambda>_. quiet_env 9) 20 demo_holder ''wk''
     (demo_db [demo_run 1 REMEMBER (Some 7)]) =
   (Inr (Some (claim_of (demo_run 1 REMEMBER (Some 7)) ''wk'')),
    put_run (started (demo_run 1 REMEMBER (Some 7)) 9 ''wk'') (demo_db [demo_run 1 REMEMBER (Some 7)]))"
  by (rule idle_claims_oldest)
    (auto simp: demo_db_def demo_run_def new_run_def keyed_def operational_runs_def eligible_def
      demo_holder_def holder_transition_def)

theorem claim_moves_one_eligible_run_witness:
  "\<exists>now d0 r. get_run 1 d0 = Some r \<and> eligible now r \<and> scope_free r (pipeline_runs d0)"
  using claim_moves_one_eligible_run[OF demo_claim]
  by (auto simp: claim_of_def demo_run_def new_run_def)

text \<open>Claiming obeys the process state.  During bootstrap nothing is claimed and nothing is
  written.  During storage convergence only a FORGET or DATASET_DELETE run that the latest
  convergence pass owns, and whose authoritative mutation step has durably succeeded, is ever
  claimed.\<close>

theorem claim_obeys_process_state:
  assumes "try_claim_one sha env n h w d = (res, d')"
  shows "(holder_state h = BOOTSTRAP_MAINTENANCE \<longrightarrow> res = Inr None \<and> d' = d)
    \<and> (holder_state h = STORAGE_CONVERGING \<longrightarrow> (\<forall>c. res = Inr (Some c) \<longrightarrow>
       claimed_pipeline_type c \<in> {FORGET, DATASET_DELETE}
       \<and> claimed_run_id c \<in> holder_recovery_owned_run_ids h
       \<and> (\<exists>d0. env_reach env d d0
            \<and> authoritative_mutation_succeeded (claimed_run_id c) (claimed_pipeline_type c) d0)))"
proof
  show "holder_state h = BOOTSTRAP_MAINTENANCE \<longrightarrow> res = Inr None \<and> d' = d"
    using assms by (auto simp: try_claim_one_def holder_claim_policy_def claim_policy_for_state_def)
  show "holder_state h = STORAGE_CONVERGING \<longrightarrow> (\<forall>c. res = Inr (Some c) \<longrightarrow>
       claimed_pipeline_type c \<in> {FORGET, DATASET_DELETE}
       \<and> claimed_run_id c \<in> holder_recovery_owned_run_ids h
       \<and> (\<exists>d0. env_reach env d d0
            \<and> authoritative_mutation_succeeded (claimed_run_id c) (claimed_pipeline_type c) d0))"
  proof (intro impI allI)
    fix c assume st: "holder_state h = STORAGE_CONVERGING" and "res = Inr (Some c)"
    with assms have "try_claim_one sha env n h w d = (Inr (Some c), d')" by simp
    from try_claim_one_some[OF this] st obtain j d0 r where
      "claimable sha (env j) Claim_RECOVERY_ONLY (holder_recovery_owned_run_ids h) r
         (env_interfere (env j) d0)"
      "c = claim_of r w" "env_reach env d (env_interfere (env j) d0)"
      by (auto simp: holder_claim_policy_def claim_policy_for_state_def)
    then show "claimed_pipeline_type c \<in> {FORGET, DATASET_DELETE}
       \<and> claimed_run_id c \<in> holder_recovery_owned_run_ids h
       \<and> (\<exists>d0. env_reach env d d0
            \<and> authoritative_mutation_succeeded (claimed_run_id c) (claimed_pipeline_type c) d0)"
      by (auto simp: claimable_def allowed_under_policy_def claim_of_def split: if_splits)
  qed
qed


definition demo_destructive :: db where
  "demo_destructive = (demo_db [demo_run 1 DATASET_DELETE (Some 7)])\<lparr>pipeline_steps :=
     [(new_step 4 1 \<lparr>plan_name = ''deactivate_authoritative'', plan_ordinal = 0,
        plan_input_hash = None\<rparr>)\<lparr>step_status := Step_SUCCEEDED\<rparr>]\<rparr>"

definition demo_converging :: process_state_holder where
  "demo_converging =
     set_recovery_owned_run_ids [1] (holder_transition STORAGE_CONVERGING None initial_holder)"

lemma demo_converging_claim:
  "try_claim_one (\<lambda>_. []) (\<lambda>_. quiet_env 9) 20 demo_converging ''wk'' demo_destructive =
   (Inr (Some (claim_of (demo_run 1 DATASET_DELETE (Some 7)) ''wk'')),
    put_run (started (demo_run 1 DATASET_DELETE (Some 7)) 9 ''wk'') demo_destructive)"
  by code_simp

theorem claim_obeys_process_state_witness:
  "\<exists>d0. authoritative_mutation_succeeded 1 DATASET_DELETE d0"
  using claim_obeys_process_state[OF demo_converging_claim]
  by (auto simp: demo_converging_def holder_transition_def set_recovery_owned_run_ids_def
      claim_of_def demo_run_def new_run_def)

definition claims_ok :: "db \<Rightarrow> bool" where
  "claims_ok d \<longleftrightarrow> keyed run_id (pipeline_runs d) \<and> claim_exclusive (pipeline_runs d)"

text \<open>Claiming keeps the serialization of ADR-0009: if no two operational runs share a scope
  before the scan, and other sessions keep it so, none do afterwards, whatever the outcome.\<close>

theorem claim_keeps_serialization:
  assumes "try_claim_one sha env n h w d = (res, d')" "env_keeps env claims_ok" "claims_ok d"
  shows "claims_ok d'"
proof -
  obtain c where c: "res = Inr c"
    using try_claim_one_total[of sha env n h w d] assms(1) by auto
  show ?thesis
  proof (cases c)
    case None
    then have "env_reach env d d'" using assms(1) c by (auto intro: try_claim_one_none)
    then show ?thesis using assms(2,3) by (rule env_reachD)
  next
    case (Some cl)
    with assms(1) c have "try_claim_one sha env n h w d = (Inr (Some cl), d')" by simp
    from try_claim_one_some[OF this] obtain j d0 r P own where
      *: "get_run (run_id r) (env_interfere (env j) d0) = Some r"
         "claimable sha (env j) P own r (env_interfere (env j) d0)"
         "d' = put_run (started r (env_now (env j)) w) (env_interfere (env j) d0)"
         "env_reach env d (env_interfere (env j) d0)" by blast
    have "claims_ok (env_interfere (env j) d0)"
      using *(4) assms(2,3) by (rule env_reachD)
    then show ?thesis
      using claim_keeps_exclusive[OF *(1,2)] *(3) by (simp add: claims_ok_def pipeline_runs_put_run)
  qed
qed

lemma demo_claims_ok: "claims_ok (demo_db [demo_run 1 REMEMBER (Some 7)])"
  by (simp add: claims_ok_def demo_db_def demo_run_def new_run_def keyed_def claim_exclusive_def
      operational_datasets_def operational_runs_def)

theorem claim_keeps_serialization_witness:
  "claims_ok (put_run (started (demo_run 1 REMEMBER (Some 7)) 9 ''wk'')
     (demo_db [demo_run 1 REMEMBER (Some 7)]))"
  by (rule claim_keeps_serialization[OF demo_claim _ demo_claims_ok]) (simp add: env_keeps_def)

text \<open>An operational process with no operational run and no contention claims the oldest
  eligible run, whatever its scope: the queue cannot stall and the claim order is
  (created_at, id).\<close>

theorem idle_queue_claims_oldest:
  assumes "keyed run_id (pipeline_runs d)" "operational_runs (pipeline_runs d) = []"
    and "r \<in> set (pipeline_runs d)" "eligible now r"
    and "\<And>r'. r' \<in> set (pipeline_runs d) \<Longrightarrow> eligible now r' \<Longrightarrow> claim_order r \<le> claim_order r'"
  shows "try_claim_one sha (\<lambda>_. quiet_env now) DEFAULT_CANDIDATE_SCAN_LIMIT
       (holder_transition OPERATIONAL detail h) w d
     = (Inr (Some (claim_of r w)), put_run (started r now w) d)"
  using assms by (intro idle_claims_oldest) (simp_all add: DEFAULT_CANDIDATE_SCAN_LIMIT_def holder_transition_def)

theorem idle_queue_claims_oldest_witness:
  "try_claim_one (\<lambda>_. []) (\<lambda>_. quiet_env 9) DEFAULT_CANDIDATE_SCAN_LIMIT
     (holder_transition OPERATIONAL None initial_holder) ''wk''
     (demo_db [demo_run 2 FORGET None, demo_run 1 REMEMBER (Some 7)])
   = (Inr (Some (claim_of (demo_run 1 REMEMBER (Some 7)) ''wk'')),
      put_run (started (demo_run 1 REMEMBER (Some 7)) 9 ''wk'')
        (demo_db [demo_run 2 FORGET None, demo_run 1 REMEMBER (Some 7)]))"
  by (rule idle_queue_claims_oldest)
    (auto simp: demo_db_def demo_run_def new_run_def keyed_def operational_runs_def eligible_def
      claim_order_def)

text \<open>Candidate discovery names at most one run per serialization scope, each of them
  eligible, free of committed conflicts and the oldest such run of its scope, and no scope with
  an eligible conflict-free run is left out.\<close>

theorem candidates_one_per_scope:
  "distinct (map run_dataset_id (representatives now d))
   \<and> (\<forall>r \<in> set (representatives now d). r \<in> set (pipeline_runs d) \<and> eligible now r
        \<and> scope_free r (pipeline_runs d)
        \<and> (\<forall>r' \<in> set (pipeline_runs d). eligible now r' \<longrightarrow> no_known_conflict r' d \<longrightarrow>
             run_dataset_id r' = run_dataset_id r \<longrightarrow> claim_order r \<le> claim_order r'))
   \<and> (\<forall>r' \<in> set (pipeline_runs d). eligible now r' \<longrightarrow> no_known_conflict r' d \<longrightarrow>
        run_dataset_id r' \<in> run_dataset_id ` set (representatives now d))"
proof -
  have free: "scope_free r (pipeline_runs d)" if "no_known_conflict r d" for r
    using that unfolding no_known_conflict_def list_ex_iff conflicts_with_def scope_free_def list_all_iff
    by (cases "run_dataset_id r") fastforce+
  then show ?thesis
    using scopes_distinct set_representatives representatives_oldest representatives_cover
    by (intro conjI ballI impI) (blast | metis image_eqI)+
qed

theorem candidates_one_per_scope_witness:
  "run_dataset_id (demo_run 1 REMEMBER (Some 7)) \<in>
     run_dataset_id ` set (representatives 9 (demo_db [demo_run 2 FORGET None, demo_run 1 REMEMBER (Some 7)]))"
  using candidates_one_per_scope[of 9 "demo_db [demo_run 2 FORGET None, demo_run 1 REMEMBER (Some 7)]"]
  by (simp add: demo_db_def demo_run_def new_run_def eligible_def no_known_conflict_def conflicts_with_def)

end
