(* ===== verification/Claim_Concurrency.thy ===== *)
theory Claim_Concurrency
  imports Claimer
begin

text \<open>
  The claim transaction of \<open>services/pipeline_queue_claimer.py\<close> statement by statement, for any
  number of sessions that interleave freely.  A session's program counter says which row and
  advisory locks it holds (PostgreSQL releases all of them at commit or rollback), so the lock
  table is a function of the program counters.  Between two statements any other part of the
  program may commit, as long as it respects row locks and starts no run: submissions, engine
  and recovery transactions, cancellations and heartbeats are all such commits, because only a
  claim moves a run to RUNNING.
\<close>

datatype claim_pc =
    Idle
  | Row_Locked pipeline_run
  | Fair pipeline_run
  | Barrier_Held pipeline_run
  | Dataset_Held pipeline_run
  | Scope_Checked pipeline_run
  | Ready pipeline_run

record claim_world =
  world_db :: db
  world_pc :: "nat \<Rightarrow> claim_pc"

fun held_run :: "claim_pc \<Rightarrow> pipeline_run option" where
  "held_run Idle = None"
| "held_run (Row_Locked r) = Some r"
| "held_run (Fair r) = Some r"
| "held_run (Barrier_Held r) = Some r"
| "held_run (Dataset_Held r) = Some r"
| "held_run (Scope_Checked r) = Some r"
| "held_run (Ready r) = Some r"

fun past_barrier :: "claim_pc \<Rightarrow> bool" where
  "past_barrier (Barrier_Held r) = True"
| "past_barrier (Dataset_Held r) = True"
| "past_barrier (Scope_Checked r) = True"
| "past_barrier (Ready r) = True"
| "past_barrier _ = False"

fun past_dataset_lock :: "claim_pc \<Rightarrow> bool" where
  "past_dataset_lock (Dataset_Held r) = True"
| "past_dataset_lock (Scope_Checked r) = True"
| "past_dataset_lock (Ready r) = True"
| "past_dataset_lock _ = False"

definition row_held :: "uuid \<Rightarrow> claim_pc \<Rightarrow> bool" where
  "row_held k pc \<longleftrightarrow> (\<exists>r. held_run pc = Some r \<and> run_id r = k)"

definition holds_shared :: "int \<Rightarrow> claim_pc \<Rightarrow> bool" where
  "holds_shared key pc \<longleftrightarrow> key = GLOBAL_BARRIER_KEY \<and> past_barrier pc
     \<and> (\<exists>r. held_run pc = Some r \<and> run_dataset_id r \<noteq> None)"

definition holds_exclusive :: "(nat list \<Rightarrow> nat list) \<Rightarrow> int \<Rightarrow> claim_pc \<Rightarrow> bool" where
  "holds_exclusive sha key pc \<longleftrightarrow>
     (\<exists>r. held_run pc = Some r \<and>
       (case run_dataset_id r of
          None \<Rightarrow> past_barrier pc \<and> key = GLOBAL_BARRIER_KEY
        | Some ds \<Rightarrow> past_dataset_lock pc \<and> key = dataset_lock_key sha ds))"

text \<open>A commit of another part of the program.\<close>

definition starts_nothing :: "db \<Rightarrow> db \<Rightarrow> bool" where
  "starts_nothing d d' \<longleftrightarrow> keyed run_id (pipeline_runs d') \<and>
     (\<forall>r' \<in> set (pipeline_runs d'). operational (run_status r') \<longrightarrow>
        (\<exists>r \<in> set (pipeline_runs d). run_id r = run_id r' \<and> run_dataset_id r = run_dataset_id r'
           \<and> operational (run_status r)))"

inductive claim_step :: "(nat list \<Rightarrow> nat list) \<Rightarrow> claim_world \<Rightarrow> claim_world \<Rightarrow> bool" for sha where
  lock_row:
    "\<lbrakk>pc s = Idle; get_eligible_for_update (\<lambda>k. \<exists>s'. row_held k (pc s')) now k d = Some r\<rbrakk> \<Longrightarrow>
     claim_step sha \<lparr>world_db = d, world_pc = pc\<rparr> \<lparr>world_db = d, world_pc = pc(s := Row_Locked r)\<rparr>"
| abandon:
    "claim_step sha \<lparr>world_db = d, world_pc = pc\<rparr> \<lparr>world_db = d, world_pc = pc(s := Idle)\<rparr>"
| fairness:
    "\<lbrakk>pc s = Row_Locked r; run_dataset_id r = Some ds;
      \<not> exists_eligible_global_with_precedence now (run_created_at r) (run_id r) d\<rbrakk> \<Longrightarrow>
     claim_step sha \<lparr>world_db = d, world_pc = pc\<rparr> \<lparr>world_db = d, world_pc = pc(s := Fair r)\<rparr>"
| barrier_shared:
    "\<lbrakk>pc s = Fair r; run_dataset_id r = Some ds;
      \<forall>s'. s' \<noteq> s \<longrightarrow> \<not> holds_exclusive sha GLOBAL_BARRIER_KEY (pc s')\<rbrakk> \<Longrightarrow>
     claim_step sha \<lparr>world_db = d, world_pc = pc\<rparr> \<lparr>world_db = d, world_pc = pc(s := Barrier_Held r)\<rparr>"
| barrier_exclusive:
    "\<lbrakk>pc s = Row_Locked r; run_dataset_id r = None;
      \<forall>s'. s' \<noteq> s \<longrightarrow> \<not> holds_exclusive sha GLOBAL_BARRIER_KEY (pc s')
                     \<and> \<not> holds_shared GLOBAL_BARRIER_KEY (pc s')\<rbrakk> \<Longrightarrow>
     claim_step sha \<lparr>world_db = d, world_pc = pc\<rparr> \<lparr>world_db = d, world_pc = pc(s := Barrier_Held r)\<rparr>"
| dataset_lock:
    "\<lbrakk>pc s = Barrier_Held r; run_dataset_id r = Some ds;
      \<forall>s'. s' \<noteq> s \<longrightarrow> \<not> holds_exclusive sha (dataset_lock_key sha ds) (pc s')
                     \<and> \<not> holds_shared (dataset_lock_key sha ds) (pc s')\<rbrakk> \<Longrightarrow>
     claim_step sha \<lparr>world_db = d, world_pc = pc\<rparr> \<lparr>world_db = d, world_pc = pc(s := Dataset_Held r)\<rparr>"
| check_dataset:
    "\<lbrakk>pc s = Dataset_Held r; run_dataset_id r = Some ds; \<not> exists_dataset_conflict ds d\<rbrakk> \<Longrightarrow>
     claim_step sha \<lparr>world_db = d, world_pc = pc\<rparr> \<lparr>world_db = d, world_pc = pc(s := Scope_Checked r)\<rparr>"
| check_any_dataset:
    "\<lbrakk>pc s = Barrier_Held r; run_dataset_id r = None; \<not> exists_any_dataset_scoped_conflict d\<rbrakk> \<Longrightarrow>
     claim_step sha \<lparr>world_db = d, world_pc = pc\<rparr> \<lparr>world_db = d, world_pc = pc(s := Scope_Checked r)\<rparr>"
| check_other_global:
    "\<lbrakk>pc s = Scope_Checked r; \<not> exists_other_global_conflict (run_id r) d\<rbrakk> \<Longrightarrow>
     claim_step sha \<lparr>world_db = d, world_pc = pc\<rparr> \<lparr>world_db = d, world_pc = pc(s := Ready r)\<rparr>"
| commit:
    "\<lbrakk>pc s = Ready r; transition_run r Run_RUNNING now (Some w) None None None = Inr r'\<rbrakk> \<Longrightarrow>
     claim_step sha \<lparr>world_db = d, world_pc = pc\<rparr> \<lparr>world_db = put_run r' d, world_pc = pc(s := Idle)\<rparr>"
| other_commit:
    "\<lbrakk>starts_nothing d d';
      \<forall>s r. held_run (pc s) = Some r \<longrightarrow> get_run (run_id r) d' = get_run (run_id r) d\<rbrakk> \<Longrightarrow>
     claim_step sha \<lparr>world_db = d, world_pc = pc\<rparr> \<lparr>world_db = d', world_pc = pc\<rparr>"

inductive claim_reachable :: "(nat list \<Rightarrow> nat list) \<Rightarrow> db \<Rightarrow> claim_world \<Rightarrow> bool" for sha d0 where
  start: "claim_reachable sha d0 \<lparr>world_db = d0, world_pc = (\<lambda>_. Idle)\<rparr>"
| step: "\<lbrakk>claim_reachable sha d0 w; claim_step sha w w'\<rbrakk> \<Longrightarrow> claim_reachable sha d0 w'"

subsection \<open>Exclusive ownership, pair by pair\<close>

definition compatible :: "pipeline_run \<Rightarrow> pipeline_run \<Rightarrow> bool" where
  "compatible a b \<longleftrightarrow> run_dataset_id a \<noteq> None \<and> run_dataset_id b \<noteq> None
     \<and> run_dataset_id a \<noteq> run_dataset_id b"

definition pairwise_exclusive :: "pipeline_run set \<Rightarrow> bool" where
  "pairwise_exclusive R \<longleftrightarrow> (\<forall>a \<in> R. \<forall>b \<in> R. operational (run_status a) \<longrightarrow>
     operational (run_status b) \<longrightarrow> run_id a \<noteq> run_id b \<longrightarrow> compatible a b)"

lemma keyed_ConsD: "keyed run_id (r # rs) \<Longrightarrow> keyed run_id rs \<and> (\<forall>x \<in> set rs. run_id x \<noteq> run_id r)"
  by (auto simp: keyed_def image_iff)

lemma claim_exclusive_Cons:
  "claim_exclusive (r # rs) \<longleftrightarrow>
     (if operational (run_status r)
      then claim_exclusive rs \<and> (\<forall>c \<in> set rs. operational (run_status c) \<longrightarrow> compatible r c)
      else claim_exclusive rs)"
proof (cases "operational (run_status r)")
  case False
  then show ?thesis
    by (simp add: claim_exclusive_def operational_datasets_def operational_runs_def)
next
  case True
  have mem: "ds \<in> set (operational_datasets rs) \<longleftrightarrow>
      (\<exists>c \<in> set rs. run_dataset_id c = Some ds \<and> operational (run_status c))" for ds
    by (rule operational_datasets_mem)
  show ?thesis
  proof (cases "run_dataset_id r")
    case None
    have "claim_exclusive (r # rs) \<longleftrightarrow> operational_runs rs = []"
      using True None
      by (auto simp: claim_exclusive_def operational_datasets_def operational_runs_def filter_empty_conv)
    moreover have "operational_runs rs = [] \<Longrightarrow> claim_exclusive rs"
      by (auto simp: claim_exclusive_def operational_datasets_def operational_runs_def filter_empty_conv)
    ultimately show ?thesis using True None
      by (auto simp: compatible_def operational_runs_def filter_empty_conv)
  next
    case (Some ds)
    have "claim_exclusive (r # rs) \<longleftrightarrow>
        ds \<notin> set (operational_datasets rs) \<and> distinct (operational_datasets rs)
        \<and> \<not> list_ex (\<lambda>r. run_dataset_id r = None) (operational_runs rs)"
      using True Some
      by (auto simp: claim_exclusive_def operational_datasets_def operational_runs_def list_ex_iff
          filter_empty_conv)
    then show ?thesis using True Some
      by (auto simp: mem compatible_def claim_exclusive_def list_ex_iff operational_runs_def)
  qed
qed

lemma claim_exclusive_iff:
  "keyed run_id rs \<Longrightarrow> claim_exclusive rs \<longleftrightarrow> pairwise_exclusive (set rs)"
proof (induction rs)
  case Nil
  show ?case by (simp add: claim_exclusive_def operational_datasets_def operational_runs_def
      pairwise_exclusive_def)
next
  case (Cons r rs)
  have "pairwise_exclusive (set (r # rs)) \<longleftrightarrow> pairwise_exclusive (set rs) \<and>
      (operational (run_status r) \<longrightarrow> (\<forall>c \<in> set rs. operational (run_status c) \<longrightarrow> compatible r c))"
    using keyed_ConsD[OF Cons.prems] unfolding pairwise_exclusive_def compatible_def by auto
  then show ?case using Cons keyed_ConsD[OF Cons.prems] by (auto simp: claim_exclusive_Cons)
qed

text \<open>Every part of the program that starts no run keeps the serialization.\<close>

lemma starts_nothing_exclusive:
  assumes "starts_nothing d d'" "claims_ok d"
  shows "claims_ok d'"
proof -
  have k: "keyed run_id (pipeline_runs d')" using assms(1) by (simp add: starts_nothing_def)
  have p: "pairwise_exclusive (set (pipeline_runs d))"
    using assms(2) claim_exclusive_iff by (auto simp: claims_ok_def)
  have "compatible a b" if ab: "a \<in> set (pipeline_runs d')" "b \<in> set (pipeline_runs d')"
      "operational (run_status a)" "operational (run_status b)" "run_id a \<noteq> run_id b" for a b
  proof -
    obtain a0 b0 where "a0 \<in> set (pipeline_runs d)" "run_id a0 = run_id a"
      "run_dataset_id a0 = run_dataset_id a" "operational (run_status a0)"
      "b0 \<in> set (pipeline_runs d)" "run_id b0 = run_id b"
      "run_dataset_id b0 = run_dataset_id b" "operational (run_status b0)"
      using assms(1) ab by (meson starts_nothing_def)
    with p ab(5) have "compatible a0 b0" by (simp add: pairwise_exclusive_def)
    with \<open>run_dataset_id a0 = _\<close> \<open>run_dataset_id b0 = _\<close> show ?thesis by (simp add: compatible_def)
  qed
  then show ?thesis using k claim_exclusive_iff[OF k] by (simp add: claims_ok_def pairwise_exclusive_def)
qed


subsection \<open>The inductive invariant\<close>

definition scope_checked :: "pipeline_run \<Rightarrow> db \<Rightarrow> bool" where
  "scope_checked r d \<longleftrightarrow>
     (case run_dataset_id r of None \<Rightarrow> \<not> exists_any_dataset_scoped_conflict d
      | Some ds \<Rightarrow> \<not> exists_dataset_conflict ds d)"

definition rows_known :: "db \<Rightarrow> (nat \<Rightarrow> claim_pc) \<Rightarrow> bool" where
  "rows_known d pc \<longleftrightarrow> (\<forall>s r. held_run (pc s) = Some r \<longrightarrow>
     get_run (run_id r) d = Some r \<and> run_status r = Run_QUEUED)"

definition rows_distinct :: "(nat \<Rightarrow> claim_pc) \<Rightarrow> bool" where
  "rows_distinct pc \<longleftrightarrow> (\<forall>s s' r r'. s \<noteq> s' \<longrightarrow> held_run (pc s) = Some r \<longrightarrow>
     held_run (pc s') = Some r' \<longrightarrow> run_id r \<noteq> run_id r')"

definition lock_clash :: "(nat list \<Rightarrow> nat list) \<Rightarrow> claim_pc \<Rightarrow> claim_pc \<Rightarrow> bool" where
  "lock_clash sha p q \<longleftrightarrow> (\<exists>k. (holds_exclusive sha k p \<and> (holds_exclusive sha k q \<or> holds_shared k q))
     \<or> (holds_shared k p \<and> holds_exclusive sha k q))"

definition locks_ok :: "(nat list \<Rightarrow> nat list) \<Rightarrow> (nat \<Rightarrow> claim_pc) \<Rightarrow> bool" where
  "locks_ok sha pc \<longleftrightarrow> (\<forall>s s'. s \<noteq> s' \<longrightarrow> \<not> lock_clash sha (pc s) (pc s'))"

definition checks_hold :: "db \<Rightarrow> (nat \<Rightarrow> claim_pc) \<Rightarrow> bool" where
  "checks_hold d pc \<longleftrightarrow> (\<forall>s r. (pc s = Scope_Checked r \<or> pc s = Ready r \<longrightarrow> scope_checked r d)
     \<and> (pc s = Ready r \<longrightarrow> \<not> exists_other_global_conflict (run_id r) d))"

definition claim_inv :: "(nat list \<Rightarrow> nat list) \<Rightarrow> claim_world \<Rightarrow> bool" where
  "claim_inv sha w \<longleftrightarrow> claims_ok (world_db w) \<and> rows_known (world_db w) (world_pc w)
     \<and> rows_distinct (world_pc w) \<and> locks_ok sha (world_pc w) \<and> checks_hold (world_db w) (world_pc w)"

lemma lock_clash_sym: "lock_clash sha p q \<longleftrightarrow> lock_clash sha q p"
  by (auto simp: lock_clash_def)

lemma locks_ok_upd:
  "locks_ok sha pc \<Longrightarrow> (\<And>s'. s' \<noteq> s \<Longrightarrow> \<not> lock_clash sha X (pc s')) \<Longrightarrow> locks_ok sha (pc(s := X))"
  unfolding locks_ok_def using lock_clash_sym by auto

lemma lock_clash_mono:
  assumes "\<And>k. holds_exclusive sha k X \<Longrightarrow> holds_exclusive sha k P"
    and "\<And>k. holds_shared k X \<Longrightarrow> holds_shared k P" and "\<not> lock_clash sha P q"
  shows "\<not> lock_clash sha X q"
  using assms by (auto simp: lock_clash_def)

lemma locks_ok_same:
  assumes "locks_ok sha pc" "\<And>k. holds_exclusive sha k X \<Longrightarrow> holds_exclusive sha k (pc s)"
    "\<And>k. holds_shared k X \<Longrightarrow> holds_shared k (pc s)"
  shows "locks_ok sha (pc(s := X))"
proof (rule locks_ok_upd[OF assms(1)])
  fix s' assume "s' \<noteq> s"
  with assms(1) have "\<not> lock_clash sha (pc s) (pc s')" by (simp add: locks_ok_def)
  with assms(2,3) show "\<not> lock_clash sha X (pc s')" by (rule lock_clash_mono)
qed

text \<open>A step of session \<open>s\<close> that keeps its row and only adds what it has just checked.\<close>

lemma same_row_step:
  assumes inv: "claim_inv sha \<lparr>world_db = d, world_pc = pc\<rparr>"
    and row: "held_run X = held_run (pc s)" and locks: "locks_ok sha (pc(s := X))"
    and checks: "\<And>r. X = Scope_Checked r \<or> X = Ready r \<Longrightarrow> scope_checked r d"
      "\<And>r. X = Ready r \<Longrightarrow> \<not> exists_other_global_conflict (run_id r) d"
  shows "claim_inv sha \<lparr>world_db = d, world_pc = pc(s := X)\<rparr>"
  using assms unfolding claim_inv_def rows_known_def rows_distinct_def checks_hold_def
  by (auto split: if_splits)

lemma locks_simps [simp]:
  "\<not> holds_exclusive sha k Idle" "\<not> holds_shared k Idle"
  "\<not> holds_exclusive sha k (Row_Locked r)" "\<not> holds_shared k (Row_Locked r)"
  "\<not> holds_exclusive sha k (Fair r)" "\<not> holds_shared k (Fair r)"
  by (auto simp: holds_exclusive_def holds_shared_def split: option.splits)

lemma idle_no_clash [simp]: "\<not> lock_clash sha Idle q" "\<not> lock_clash sha (Row_Locked r) q"
  "\<not> lock_clash sha (Fair r) q"
  by (auto simp: lock_clash_def)

lemma claim_inv_start: "claims_ok d0 \<Longrightarrow> claim_inv sha \<lparr>world_db = d0, world_pc = (\<lambda>_. Idle)\<rparr>"
  by (simp add: claim_inv_def rows_known_def rows_distinct_def locks_ok_def checks_hold_def)

lemma scope_checked_free:
  "scope_checked r d \<Longrightarrow> \<not> exists_other_global_conflict (run_id r) d \<Longrightarrow> scope_free r (pipeline_runs d)"
  unfolding scope_checked_def scope_free_def exists_any_dataset_scoped_conflict_def
    exists_dataset_conflict_def exists_other_global_conflict_def list_all_iff list_ex_iff
  by (cases "run_dataset_id r") (auto, fastforce+)

lemma row_put_mem: "c \<in> set (pipeline_runs (put_run r' d)) \<Longrightarrow> c = r' \<or> c \<in> set (pipeline_runs d)"
  by (auto simp: pipeline_runs_put_run dest: set_row_put_cases)

text \<open>The heart of the argument: while \<open>s\<close> commits, no other session has already checked a
  scope that the committed run would enter, because one of the two would lack its lock.\<close>

lemma commit_keeps_checks:
  assumes inv: "claim_inv sha \<lparr>world_db = d, world_pc = pc\<rparr>" and s: "pc s = Ready r"
    and r': "run_dataset_id r' = run_dataset_id r" "run_id r' = run_id r"
    and s': "s' \<noteq> s" "pc s' = Scope_Checked q \<or> pc s' = Ready q"
  shows "scope_checked q (put_run r' d)" "pc s' = Ready q \<Longrightarrow> \<not> exists_other_global_conflict (run_id q) (put_run r' d)"
proof -
  have clash: "\<not> lock_clash sha (pc s) (pc s')" using inv s'(1) by (simp add: claim_inv_def locks_ok_def)
  have both: "\<exists>ds dq. run_dataset_id r = Some ds \<and> run_dataset_id q = Some dq \<and> ds \<noteq> dq"
    using clash s s'(2)
    by (cases "run_dataset_id r"; cases "run_dataset_id q")
      (auto simp: lock_clash_def holds_exclusive_def holds_shared_def)
  have sc: "scope_checked q d" using inv s'(2) by (auto simp: claim_inv_def checks_hold_def)
  show "scope_checked q (put_run r' d)"
    using both sc r' by (auto simp: scope_checked_def exists_dataset_conflict_def list_ex_iff
        dest!: row_put_mem)
  assume "pc s' = Ready q"
  then have "\<not> exists_other_global_conflict (run_id q) d"
    using inv by (simp add: claim_inv_def checks_hold_def)
  then show "\<not> exists_other_global_conflict (run_id q) (put_run r' d)"
    using both r' by (auto simp: exists_other_global_conflict_def list_ex_iff dest!: row_put_mem)
qed


lemma starts_nothing_conflicts:
  assumes "starts_nothing d d'"
  shows "exists_dataset_conflict ds d' \<Longrightarrow> exists_dataset_conflict ds d"
    "exists_any_dataset_scoped_conflict d' \<Longrightarrow> exists_any_dataset_scoped_conflict d"
    "exists_other_global_conflict k d' \<Longrightarrow> exists_other_global_conflict k d"
  using assms unfolding starts_nothing_def exists_dataset_conflict_def
    exists_any_dataset_scoped_conflict_def exists_other_global_conflict_def list_ex_iff
  by metis+

lemma inv_lock_row:
  assumes inv: "claim_inv sha \<lparr>world_db = d, world_pc = pc\<rparr>" and s: "pc s = Idle"
    and r: "get_eligible_for_update (\<lambda>k. \<exists>s'. row_held k (pc s')) now k d = Some r"
  shows "claim_inv sha \<lparr>world_db = d, world_pc = pc(s := Row_Locked r)\<rparr>"
proof -
  have g: "get_run k d = Some r" "run_status r = Run_QUEUED" "\<And>s'. \<not> row_held k (pc s')" "run_id r = k"
    using r by (auto simp: get_eligible_for_update_def eligible_def get_run_SomeD
        split: if_splits option.splits)
  have "locks_ok sha (pc(s := Row_Locked r))"
    using inv by (intro locks_ok_upd) (simp_all add: claim_inv_def)
  moreover have "rows_distinct (pc(s := Row_Locked r))"
    using inv g(3,4) unfolding claim_inv_def rows_distinct_def row_held_def
    by (auto split: if_splits) metis+
  ultimately show ?thesis using inv g
    by (auto simp: claim_inv_def rows_known_def checks_hold_def)
qed

lemma inv_abandon:
  assumes inv: "claim_inv sha \<lparr>world_db = d, world_pc = pc\<rparr>"
  shows "claim_inv sha \<lparr>world_db = d, world_pc = pc(s := Idle)\<rparr>"
proof -
  have "locks_ok sha (pc(s := Idle))"
    using inv by (intro locks_ok_upd) (simp_all add: claim_inv_def)
  then show ?thesis using inv
    by (auto simp: claim_inv_def rows_known_def rows_distinct_def checks_hold_def split: if_splits)
qed

lemma inv_other_commit:
  assumes inv: "claim_inv sha \<lparr>world_db = d, world_pc = pc\<rparr>" and sn: "starts_nothing d d'"
    and rows: "\<forall>s r. held_run (pc s) = Some r \<longrightarrow> get_run (run_id r) d' = get_run (run_id r) d"
  shows "claim_inv sha \<lparr>world_db = d', world_pc = pc\<rparr>"
  unfolding claim_inv_def
proof (simp, intro conjI)
  show "claims_ok d'" using inv starts_nothing_exclusive[OF sn] by (simp add: claim_inv_def)
  show "rows_known d' pc" using inv rows by (simp add: claim_inv_def rows_known_def)
  show "rows_distinct pc" "locks_ok sha pc" using inv by (simp_all add: claim_inv_def)
  have sc: "scope_checked r d \<Longrightarrow> scope_checked r d'" for r
    using starts_nothing_conflicts[OF sn] by (cases "run_dataset_id r") (auto simp: scope_checked_def)
  have "checks_hold d pc" using inv by (simp add: claim_inv_def)
  then show "checks_hold d' pc"
    unfolding checks_hold_def using sc starts_nothing_conflicts(3)[OF sn] by blast
qed

lemma inv_commit:
  assumes inv: "claim_inv sha \<lparr>world_db = d, world_pc = pc\<rparr>" and s: "pc s = Ready r"
    and t: "transition_run r Run_RUNNING now (Some w) None None None = Inr r'"
  shows "claim_inv sha \<lparr>world_db = put_run r' d, world_pc = pc(s := Idle)\<rparr>"
proof -
  have "held_run (pc s) = Some r" by (simp add: s)
  then have known: "get_run (run_id r) d = Some r" "run_status r = Run_QUEUED"
    using inv unfolding claim_inv_def rows_known_def by auto
  then have r': "r' = started r now w" using t transition_run_start by simp
  have "scope_free r (pipeline_runs d)"
    using inv s by (intro scope_checked_free) (auto simp: claim_inv_def checks_hold_def)
  then have "claims_ok (put_run r' d)"
    using start_exclusive[of "pipeline_runs d" r r'] inv known get_run_SomeD[OF known(1)]
    by (simp add: r' claim_inv_def claims_ok_def pipeline_runs_put_run)
  moreover have "rows_known (put_run r' d) (pc(s := Idle))"
    unfolding rows_known_def
  proof (intro allI impI)
    fix s' q assume q: "held_run ((pc(s := Idle)) s') = Some q"
    then have "s' \<noteq> s" "held_run (pc s') = Some q" by (auto split: if_splits)
    moreover have "held_run (pc s) = Some r" by (simp add: s)
    ultimately have "run_id q \<noteq> run_id r" "get_run (run_id q) d = Some q \<and> run_status q = Run_QUEUED"
      using inv unfolding claim_inv_def rows_distinct_def rows_known_def by auto
    then show "get_run (run_id q) (put_run r' d) = Some q \<and> run_status q = Run_QUEUED"
      by (simp add: runs.get_put_diff r')
  qed
  moreover have "checks_hold (put_run r' d) (pc(s := Idle))"
    using commit_keeps_checks[OF inv s, of r'] unfolding checks_hold_def by (auto simp: r')
  moreover have "rows_distinct (pc(s := Idle))" "locks_ok sha (pc(s := Idle))"
    using inv_abandon[OF inv, of s] by (simp_all add: claim_inv_def)
  ultimately show ?thesis by (simp add: claim_inv_def)
qed

lemma claim_step_inv: "claim_step sha w w' \<Longrightarrow> claim_inv sha w \<Longrightarrow> claim_inv sha w'"
proof (induction rule: claim_step.induct)
  case (fairness pc s r ds now d)
  then show ?case
    by (intro same_row_step locks_ok_upd) (auto simp: claim_inv_def)
next
  case (barrier_shared pc s r ds d)
  have "locks_ok sha (pc(s := Barrier_Held r))"
    using barrier_shared
    by (intro locks_ok_upd)
      (auto simp: claim_inv_def lock_clash_def holds_shared_def holds_exclusive_def[of _ _ "Barrier_Held r"])
  with barrier_shared show ?case by (intro same_row_step) auto
next
  case (barrier_exclusive pc s r d)
  have "locks_ok sha (pc(s := Barrier_Held r))"
    using barrier_exclusive
    by (intro locks_ok_upd)
      (auto simp: claim_inv_def lock_clash_def holds_shared_def[of _ "Barrier_Held r"]
        holds_exclusive_def[of _ _ "Barrier_Held r"])
  with barrier_exclusive show ?case by (intro same_row_step) auto
next
  case (dataset_lock pc s r ds d)
  have "\<not> lock_clash sha (Dataset_Held r) (pc s')" if "s' \<noteq> s" for s'
  proof -
    have "locks_ok sha pc" using dataset_lock.prems by (simp add: claim_inv_def)
    then have "\<not> lock_clash sha (pc s) (pc s')" using that unfolding locks_ok_def by metis
    with dataset_lock that show ?thesis
      by (auto simp: lock_clash_def holds_shared_def[of _ "Dataset_Held r"]
          holds_shared_def[of _ "Barrier_Held r"] holds_exclusive_def[of _ _ "Dataset_Held r"])
  qed
  then have "locks_ok sha (pc(s := Dataset_Held r))"
    using dataset_lock by (intro locks_ok_upd) (auto simp: claim_inv_def)
  with dataset_lock show ?case by (intro same_row_step) auto
next
  case (check_dataset pc s r ds d)
  then have "locks_ok sha (pc(s := Scope_Checked r))"
    by (intro locks_ok_same) (auto simp: claim_inv_def holds_shared_def holds_exclusive_def
        split: option.splits)
  with check_dataset show ?case by (intro same_row_step) (auto simp: scope_checked_def)
next
  case (check_any_dataset pc s r d)
  then have "locks_ok sha (pc(s := Scope_Checked r))"
    by (intro locks_ok_same) (auto simp: claim_inv_def holds_shared_def holds_exclusive_def
        split: option.splits)
  with check_any_dataset show ?case by (intro same_row_step) (auto simp: scope_checked_def)
next
  case (check_other_global pc s r d)
  then have "locks_ok sha (pc(s := Ready r))"
    by (intro locks_ok_same) (auto simp: claim_inv_def holds_shared_def holds_exclusive_def
        split: option.splits)
  with check_other_global show ?case
    by (intro same_row_step) (auto simp: claim_inv_def checks_hold_def)
qed (auto intro: inv_lock_row inv_abandon inv_commit inv_other_commit)

lemma claim_reachable_inv: "claim_reachable sha d0 w \<Longrightarrow> claims_ok d0 \<Longrightarrow> claim_inv sha w"
  by (induction rule: claim_reachable.induct) (auto intro: claim_inv_start claim_step_inv)

text \<open>C3: Any interleaving of any number of claiming sessions with each other and with the rest of
  the program keeps the serialization: never two operational runs of one dataset, never an
  operational global run beside any other operational run.  In particular the partial unique
  index on operational datasets is never violated.\<close>

theorem concurrent_claims_exclusive:
  assumes "claim_reachable sha d0 w" "claims_ok d0"
  shows "claim_exclusive (pipeline_runs (world_db w))
    \<and> distinct (operational_datasets (pipeline_runs (world_db w)))"
  using claim_reachable_inv[OF assms] by (simp add: claim_inv_def claims_ok_def claim_exclusive_def)


definition demo_world :: "claim_pc \<Rightarrow> claim_world" where
  "demo_world p = \<lparr>world_db = demo_db [demo_run 1 REMEMBER (Some 7)], world_pc = (\<lambda>_. Idle)(0 := p)\<rparr>"

lemma demo_world_step:
  assumes "claim_reachable sha (demo_db [demo_run 1 REMEMBER (Some 7)]) (demo_world p)"
    and "\<And>pc. pc 0 = p \<Longrightarrow> \<forall>s'. s' \<noteq> 0 \<longrightarrow> pc s' = Idle \<Longrightarrow> claim_step sha
       \<lparr>world_db = demo_db [demo_run 1 REMEMBER (Some 7)], world_pc = pc\<rparr>
       \<lparr>world_db = demo_db [demo_run 1 REMEMBER (Some 7)], world_pc = pc(0 := q)\<rparr>"
  shows "claim_reachable sha (demo_db [demo_run 1 REMEMBER (Some 7)]) (demo_world q)"
proof -
  have "claim_step sha (demo_world p) (demo_world q)"
    using assms(2)[of "(\<lambda>_. Idle)(0 := p)"] by (simp add: demo_world_def)
  with assms(1) show ?thesis by (rule claim_reachable.step)
qed

lemmas demo_defs = demo_db_def demo_run_def new_run_def

lemma demo_ready:
  "claim_reachable sha (demo_db [demo_run 1 REMEMBER (Some 7)]) (demo_world (Ready (demo_run 1 REMEMBER (Some 7))))"
proof -
  let ?r = "demo_run 1 REMEMBER (Some 7)"
  have "demo_world Idle = \<lparr>world_db = demo_db [?r], world_pc = (\<lambda>_. Idle)\<rparr>"
    by (auto simp: demo_world_def)
  then have 0: "claim_reachable sha (demo_db [?r]) (demo_world Idle)"
    using claim_reachable.start[of sha "demo_db [?r]"] by metis
  have 1: "claim_reachable sha (demo_db [?r]) (demo_world (Row_Locked ?r))"
    by (rule demo_world_step[OF 0], rule claim_step.lock_row[where now = 9 and k = 1])
      (auto simp: get_eligible_for_update_def get_run_def row_get_def demo_defs eligible_def row_held_def,
        metis gr_zeroI held_run.simps(1) option.distinct(1))
  have 2: "claim_reachable sha (demo_db [?r]) (demo_world (Fair ?r))"
    by (rule demo_world_step[OF 1], rule claim_step.fairness[where now = 9 and ds = 7])
      (auto simp: exists_eligible_global_with_precedence_def demo_defs)
  have 3: "claim_reachable sha (demo_db [?r]) (demo_world (Barrier_Held ?r))"
    by (rule demo_world_step[OF 2], rule claim_step.barrier_shared[where ds = 7]) (auto simp: demo_defs)
  have 4: "claim_reachable sha (demo_db [?r]) (demo_world (Dataset_Held ?r))"
    by (rule demo_world_step[OF 3], rule claim_step.dataset_lock[where ds = 7]) (auto simp: demo_defs)
  have 5: "claim_reachable sha (demo_db [?r]) (demo_world (Scope_Checked ?r))"
    by (rule demo_world_step[OF 4], rule claim_step.check_dataset[where ds = 7])
      (auto simp: demo_defs exists_dataset_conflict_def)
  show ?thesis
    by (rule demo_world_step[OF 5], rule claim_step.check_other_global)
      (auto simp: demo_defs exists_other_global_conflict_def)
qed

lemma demo_committed:
  "claim_reachable sha (demo_db [demo_run 1 REMEMBER (Some 7)])
     \<lparr>world_db = put_run (started (demo_run 1 REMEMBER (Some 7)) 9 ''wk'') (demo_db [demo_run 1 REMEMBER (Some 7)]),
      world_pc = ((\<lambda>_. Idle)(0 := Ready (demo_run 1 REMEMBER (Some 7))))(0 := Idle)\<rparr>"
  by (rule claim_reachable.step[OF demo_ready], unfold demo_world_def,
      rule claim_step.commit[where r = "demo_run 1 REMEMBER (Some 7)" and now = 9 and w = "''wk''"])
    (simp_all add: transition_run_start demo_run_def new_run_def)

theorem concurrent_claims_exclusive_witness:
  "claim_exclusive (pipeline_runs (put_run (started (demo_run 1 REMEMBER (Some 7)) 9 ''wk'')
     (demo_db [demo_run 1 REMEMBER (Some 7)])))"
  using concurrent_claims_exclusive[OF demo_committed[of "\<lambda>_. []"] demo_claims_ok] by simp

lemma ready_arbitrates:
  assumes "claim_inv sha w" "world_pc w s = Ready r"
    and "run_dataset_id r = None \<or>
      \<not> exists_eligible_global_with_precedence now (run_created_at r) (run_id r) (world_db w)"
  shows "arbitrate sha (quiet_env now) r (world_db w)"
proof -
  have "scope_checked r (world_db w)" "\<not> exists_other_global_conflict (run_id r) (world_db w)"
    using assms(1,2) by (auto simp: claim_inv_def checks_hold_def)
  with assms(3) show ?thesis
    by (cases "run_dataset_id r")
      (auto simp: scope_checked_def arbitrate_def arbitrate_global_def arbitrate_dataset_scoped_def)
qed



end
