(* ===== verification/Engine.thy ===== *)
theory Engine
  imports Claim_Concurrency
begin

text \<open>
  The resumable pipeline engine (\<open>pipelines/engine.py\<close>): one already-claimed run is executed
  through short transactions (plan validation, a checkpoint before each step, the step outcome),
  with each step's own code running between them.  \<open>engine_env\<close> supplies what each transaction
  finds: its \<open>now()\<close>, whatever other sessions committed since the previous transaction
  (\<open>eng_interfere\<close>, an arbitrary function), and the shutdown signal.  A transaction body returns
  \<open>exn + outcome \<times> db\<close>; \<open>run_tx\<close> is the unit of work: an exception rolls back.
\<close>

datatype engine_phase = Ph_Prepare | Ph_Checkpoint int | Ph_Success int | Ph_Failure int

record engine_env =
  eng_now :: "engine_phase \<Rightarrow> timestamp"
  eng_interfere :: "engine_phase \<Rightarrow> db \<Rightarrow> db"
  eng_stop :: "int \<Rightarrow> bool"
  eng_py :: py_env
  eng_retry :: retry_policy

definition STEP_INPUT_DRIFT_ERROR_CODE :: string where
  "STEP_INPUT_DRIFT_ERROR_CODE = ''STEP_INPUT_DRIFT''"
definition STEP_INPUT_UNRESOLVABLE_ERROR_CODE :: string where
  "STEP_INPUT_UNRESOLVABLE_ERROR_CODE = ''STEP_INPUT_UNRESOLVABLE''"
definition UNEXPECTED_STEP_ERROR_CODE :: string where
  "UNEXPECTED_STEP_ERROR_CODE = ''STEP_UNEXPECTED_ERROR''"
definition STEP_INPUT_DRIFT_MESSAGE :: string where
  "STEP_INPUT_DRIFT_MESSAGE = ''The persisted step plan no longer matches the registered pipeline.''"
definition STEP_INPUT_UNRESOLVABLE_MESSAGE :: string where
  "STEP_INPUT_UNRESOLVABLE_MESSAGE = ''A pipeline step's input could not be resolved.''"
definition UNEXPECTED_STEP_ERROR_MESSAGE :: string where
  "UNEXPECTED_STEP_ERROR_MESSAGE = ''An unexpected internal error occurred while executing this step.''"

record step_snapshot =
  snap_id :: uuid
  snap_name :: string
  snap_ordinal :: int
  snap_status :: step_status
  snap_input_hash :: "string option"
  snap_output :: json

definition snapshot_of :: "pipeline_step \<Rightarrow> step_snapshot" where
  "snapshot_of s = \<lparr>snap_id = step_id s, snap_name = step_name s, snap_ordinal = step_ordinal s,
     snap_status = step_status s, snap_input_hash = step_input_hash s, snap_output = step_output s\<rparr>"

datatype step_outcome =
    Outcome_Success step_result
  | Outcome_Retryable string string
  | Outcome_Permanent string string

datatype prepare_outcome =
    Prep_Abandoned
  | Prep_Terminal run_status
  | Prep_Ready json "uuid option" "string \<Rightarrow> json option" "step_snapshot list"

datatype checkpoint_outcome =
    Check_Abandoned
  | Check_Paused
  | Check_Terminal run_status
  | Check_Attempt int

datatype persist_outcome =
    Persist_Abandoned
  | Persist_Terminal run_status
  | Persist_Output json

datatype execution_result =
    Exec_Abandoned
  | Exec_Paused
  | Exec_Status run_status

definition run_tx :: "(db \<Rightarrow> exn + ('a \<times> db)) \<Rightarrow> db \<Rightarrow> 'a tx" where
  "run_tx body d = (case body d of Inl e \<Rightarrow> (Inl e, d) | Inr (x, d') \<Rightarrow> (Inr x, d'))"

definition owns :: "claimed_run \<Rightarrow> pipeline_run \<Rightarrow> bool" where
  "owns c r \<longleftrightarrow> is_owner r (claimed_worker_id c) (claimed_attempt c)"

subsection \<open>Plan validation\<close>

definition drift :: "string \<times> string" where
  "drift = (STEP_INPUT_DRIFT_ERROR_CODE, STEP_INPUT_DRIFT_MESSAGE)"

type_synonym plan_result = "(string \<times> string) option \<times> (string \<Rightarrow> json option) \<times> nat option"

fun validate_steps ::
  "py_env \<Rightarrow> json \<Rightarrow> nat \<Rightarrow> step_snapshot list \<Rightarrow> step_definition list \<Rightarrow> (string \<Rightarrow> json option) \<Rightarrow>
   bool \<Rightarrow> nat option \<Rightarrow> exn + plan_result" where
  "validate_steps E inp index (s # ss) (sd # sds) outs seen_pending first_pending =
     (if snap_ordinal s \<noteq> int index \<or> snap_name s \<noteq> sd_name sd then Inr (Some drift, outs, None)
      else bindE (compute_input_hash E sd inp outs) (\<lambda>expected_hash.
        if snap_input_hash s \<noteq> None \<and> (expected_hash = None \<or> snap_input_hash s \<noteq> expected_hash)
        then Inr (Some drift, outs, None)
        else if snap_status s = Step_SUCCEEDED then
          (if seen_pending then Inl Engine_Invariant_Error
           else validate_steps E inp (Suc index) ss sds (outs(snap_name s \<mapsto> snap_output s))
                  seen_pending first_pending)
        else if snap_status s \<noteq> Step_QUEUED then Inl Engine_Invariant_Error
        else validate_steps E inp (Suc index) ss sds outs True
               (if first_pending = None then Some index else first_pending)))"
| "validate_steps E inp index _ _ outs seen_pending first_pending = Inr (None, outs, first_pending)"

definition validate_plan ::
  "py_env \<Rightarrow> pipeline_definition \<Rightarrow> step_snapshot list \<Rightarrow> json \<Rightarrow> exn + plan_result" where
  "validate_plan E pd steps inp =
     (if length steps \<noteq> length (pd_steps pd) then Inr (Some drift, (\<lambda>_. None), None)
      else validate_steps E inp 0 steps (pd_steps pd) (\<lambda>_. None) False None)"

fun cancel_queued :: "timestamp \<Rightarrow> pipeline_step list \<Rightarrow> db \<Rightarrow> exn + db" where
  "cancel_queued now [] d = Inr d"
| "cancel_queued now (s # ss) d =
     (if step_status s = Step_QUEUED
      then bindE (transition_step s Step_CANCELLED now None None None)
             (\<lambda>s'. cancel_queued now ss (put_step s' d))
      else cancel_queued now ss d)"

subsection \<open>Phase 0\<close>

definition prepare_body ::
  "engine_env \<Rightarrow> claimed_run \<Rightarrow> pipeline_definition \<Rightarrow> db \<Rightarrow> exn + (prepare_outcome \<times> db)" where
  "prepare_body env c pd d =
     (let now = eng_now env Ph_Prepare in
      case get_run (claimed_run_id c) d of
        None \<Rightarrow> Inl Engine_Invariant_Error
      | Some run \<Rightarrow>
        if \<not> owns c run then Inr (Prep_Abandoned, d)
        else
          (let steps = list_for_run (run_id run) d;
               snaps = map snapshot_of steps;
               inp = run_input run in
           bindE (validate_plan (eng_py env) pd snaps inp) (\<lambda>(issue, outs, first_pending).
             case issue of
               Some (code, message) \<Rightarrow>
                 bindE (transition_run run Run_FAILED now None None (Some code) (Some message))
                   (\<lambda>run'. Inr (Prep_Terminal Run_FAILED, put_run run' d))
             | None \<Rightarrow>
               if run_status run = Run_CANCELLING then
                 bindE (cancel_queued now steps d) (\<lambda>d1.
                   bindE (if first_pending = None then apply_run_progress run 1 else Inr run) (\<lambda>run1.
                     bindE (transition_run run1 Run_CANCELLED now None None None None)
                       (\<lambda>run2. Inr (Prep_Terminal Run_CANCELLED, put_run run2 d1))))
               else (case first_pending of
                 None \<Rightarrow>
                   bindE (apply_run_progress run 1) (\<lambda>run1.
                     bindE (transition_run run1 Run_SUCCEEDED now None None None None)
                       (\<lambda>run2. Inr (Prep_Terminal Run_SUCCEEDED, put_run run2 d)))
               | Some k \<Rightarrow>
                   if run_status run \<noteq> Run_RUNNING then Inl Engine_Invariant_Error
                   else Inr (Prep_Ready inp (run_source_id run) outs (drop k snaps), d)))))"

subsection \<open>The checkpoint before a step\<close>

definition checkpoint_body ::
  "engine_env \<Rightarrow> claimed_run \<Rightarrow> step_snapshot \<Rightarrow> step_definition \<Rightarrow> json \<Rightarrow> (string \<Rightarrow> json option) \<Rightarrow>
   db \<Rightarrow> exn + (checkpoint_outcome \<times> db)" where
  "checkpoint_body env c snap sd inp outs d =
     (let now = eng_now env (Ph_Checkpoint (snap_ordinal snap)) in
      case get_run (claimed_run_id c) d of
        None \<Rightarrow> Inl Engine_Invariant_Error
      | Some run \<Rightarrow>
        if \<not> owns c run then Inr (Check_Abandoned, d)
        else (case get_step (snap_id snap) d of
          None \<Rightarrow> Inl Engine_Invariant_Error
        | Some s \<Rightarrow>
          if step_status s \<noteq> Step_QUEUED then Inl Engine_Invariant_Error
          else if run_status run = Run_CANCELLING then
            bindE (cancel_queued now (list_for_run (run_id run) d) d) (\<lambda>d1.
              bindE (transition_run run Run_CANCELLED now None None None None)
                (\<lambda>run'. Inr (Check_Terminal Run_CANCELLED, put_run run' d1)))
          else if run_status run \<noteq> Run_RUNNING then Inl Engine_Invariant_Error
          else if eng_stop env (snap_ordinal snap) then Inr (Check_Paused, d)
          else bindE (compute_input_hash (eng_py env) sd inp outs) (\<lambda>expected_hash.
            case expected_hash of
              None \<Rightarrow>
                bindE (transition_run run Run_FAILED now None None
                        (Some STEP_INPUT_UNRESOLVABLE_ERROR_CODE) (Some STEP_INPUT_UNRESOLVABLE_MESSAGE))
                  (\<lambda>run'. Inr (Check_Terminal Run_FAILED, put_run run' d))
            | Some h \<Rightarrow>
              if step_input_hash s \<noteq> None \<and> step_input_hash s \<noteq> Some h then
                bindE (transition_run run Run_FAILED now None None
                        (Some STEP_INPUT_DRIFT_ERROR_CODE) (Some STEP_INPUT_DRIFT_MESSAGE))
                  (\<lambda>run'. Inr (Check_Terminal Run_FAILED, put_run run' d))
              else
                (let s1 = (if step_input_hash s = None then s\<lparr>step_input_hash := Some h\<rparr> else s);
                     run1 = run\<lparr>run_current_step := Some (step_name s)\<rparr> in
                 bindE (transition_step s1 Step_RUNNING now None None None)
                   (\<lambda>s2. Inr (Check_Attempt (step_attempt s2), put_step s2 (put_run run1 d)))))))"

subsection \<open>Executing and persisting a step\<close>

definition run_step :: "step_definition \<Rightarrow> pipeline_context \<Rightarrow> step_outcome" where
  "run_step sd context =
     (case sd_execute sd context of
        Inr result \<Rightarrow> Outcome_Success result
      | Inl (Retryable_Step_Error code message) \<Rightarrow> Outcome_Retryable code message
      | Inl (Permanent_Step_Error code message) \<Rightarrow> Outcome_Permanent code message
      | Inl Other_Exception \<Rightarrow>
          Outcome_Permanent UNEXPECTED_STEP_ERROR_CODE UNEXPECTED_STEP_ERROR_MESSAGE)"

record fenced_step =
  fenced_run :: pipeline_run
  fenced_row :: pipeline_step
  fenced_cancelling :: bool

definition load_fenced_running_step ::
  "claimed_run \<Rightarrow> uuid \<Rightarrow> int \<Rightarrow> db \<Rightarrow> exn + fenced_step option" where
  "load_fenced_running_step c sid expected_attempt d =
     (case get_run (claimed_run_id c) d of
        None \<Rightarrow> Inl Engine_Invariant_Error
      | Some run \<Rightarrow>
        if \<not> owns c run then Inr None
        else (case get_step sid d of
          None \<Rightarrow> Inl Engine_Invariant_Error
        | Some s \<Rightarrow>
          if step_status s \<noteq> Step_RUNNING \<or> step_attempt s \<noteq> expected_attempt then Inr None
          else if run_status run \<noteq> Run_RUNNING \<and> run_status run \<noteq> Run_CANCELLING
          then Inl Engine_Invariant_Error
          else Inr (Some \<lparr>fenced_run = run, fenced_row = s,
                          fenced_cancelling = (run_status run = Run_CANCELLING)\<rparr>)))"

definition persist_failure_outcome :: "step_exception \<Rightarrow> step_outcome" where
  "persist_failure_outcome x =
     (case x of
        Retryable_Step_Error code message \<Rightarrow> Outcome_Retryable code message
      | Permanent_Step_Error code message \<Rightarrow> Outcome_Permanent code message
      | Other_Exception \<Rightarrow>
          Outcome_Permanent UNEXPECTED_STEP_ERROR_CODE UNEXPECTED_STEP_ERROR_MESSAGE)"

text \<open>\<open>_commit_success\<close>; a \<open>_StepPersistFailure\<close> rolls the transaction back and is returned as
  \<open>Inl\<close> of the outcome to record.\<close>

definition commit_success_body ::
  "engine_env \<Rightarrow> claimed_run \<Rightarrow> uuid \<Rightarrow> int \<Rightarrow> step_result \<Rightarrow> nat \<Rightarrow> nat \<Rightarrow> step_definition \<Rightarrow>
   pipeline_context \<Rightarrow> timestamp \<Rightarrow> db \<Rightarrow> exn + ((step_outcome + persist_outcome) \<times> db)" where
  "commit_success_body env c sid expected_attempt result succeeded_count total_steps sd context now d =
     bindE (load_fenced_running_step c sid expected_attempt d) (\<lambda>fenced.
       case fenced of
         None \<Rightarrow> Inr (Inr Persist_Abandoned, d)
       | Some f \<Rightarrow>
         (case sd_persist sd context result d of
            Inl x \<Rightarrow> Inr (Inl (persist_failure_outcome x), d)
          | Inr d1 \<Rightarrow>
            bindE (transition_step (fenced_row f) Step_SUCCEEDED now (Some (result_output result))
                    (Some (result_metrics result)) None) (\<lambda>s'.
            bindE (apply_run_progress (fenced_run f) (of_nat (succeeded_count + 1) / of_nat total_steps))
              (\<lambda>run1.
            (let d2 = put_step s' d1 in
             if fenced_cancelling f then
               bindE (cancel_queued now (list_for_run (run_id (fenced_run f)) d2) d2) (\<lambda>d3.
                 bindE (transition_run run1 Run_CANCELLED now None None None None)
                   (\<lambda>run2. Inr (Inr (Persist_Terminal Run_CANCELLED), put_run run2 d3)))
             else if succeeded_count + 1 = total_steps then
               bindE (transition_run run1 Run_SUCCEEDED now None None None None)
                 (\<lambda>run2. Inr (Inr (Persist_Terminal Run_SUCCEEDED), put_run run2 d2))
             else Inr (Inr (Persist_Output (result_output result)), put_run run1 d2))))))"

definition error_payload :: "string \<Rightarrow> string \<Rightarrow> json" where
  "error_payload code message = JObj [(ascii ''code'', json_str code), (ascii ''message'', json_str message)]"

definition commit_failure_body ::
  "engine_env \<Rightarrow> claimed_run \<Rightarrow> uuid \<Rightarrow> int \<Rightarrow> bool \<Rightarrow> string \<Rightarrow> string \<Rightarrow> timestamp \<Rightarrow> db \<Rightarrow>
   exn + (persist_outcome \<times> db)" where
  "commit_failure_body env c sid expected_attempt retryable code message now d =
     bindE (load_fenced_running_step c sid expected_attempt d) (\<lambda>fenced.
       case fenced of
         None \<Rightarrow> Inr (Persist_Abandoned, d)
       | Some f \<Rightarrow>
         (let error = Some (error_payload code message); run = fenced_run f; s = fenced_row f in
          if fenced_cancelling f then
            (if \<not> retryable then
               bindE (transition_step s Step_FAILED now None None error) (\<lambda>s'.
                 bindE (transition_run run Run_FAILED now None None (Some code) (Some message))
                   (\<lambda>run'. Inr (Persist_Terminal Run_FAILED, put_run run' (put_step s' d))))
             else
               bindE (transition_step s Step_QUEUED now None None error) (\<lambda>s1.
                 bindE (transition_step s1 Step_CANCELLED now None None None) (\<lambda>s2.
                   (let d1 = put_step s2 d in
                    bindE (cancel_queued now (list_for_run (run_id run) d1) d1) (\<lambda>d2.
                      bindE (transition_run run Run_CANCELLED now None None None None)
                        (\<lambda>run'. Inr (Persist_Terminal Run_CANCELLED, put_run run' d2)))))))
          else if retryable \<and> has_attempts_remaining (eng_retry env) (run_attempt run) then
            bindE (transition_step s Step_QUEUED now None None error) (\<lambda>s'.
              (let delay = backoff_seconds (eng_retry env) (run_attempt run) in
               bindE (transition_run run Run_QUEUED now None (Some (now + timedelta_us delay)) None None)
                 (\<lambda>run'. Inr (Persist_Terminal Run_QUEUED, put_run run' (put_step s' d)))))
          else
            bindE (transition_step s Step_FAILED now None None error) (\<lambda>s'.
              bindE (transition_run run Run_FAILED now None None (Some code) (Some message))
                (\<lambda>run'. Inr (Persist_Terminal Run_FAILED, put_run run' (put_step s' d))))))"

definition commit_failure ::
  "engine_env \<Rightarrow> claimed_run \<Rightarrow> step_snapshot \<Rightarrow> int \<Rightarrow> bool \<Rightarrow> string \<Rightarrow> string \<Rightarrow> db \<Rightarrow> persist_outcome tx" where
  "commit_failure env c snap expected_attempt retryable code message d =
     (let ph = Ph_Failure (snap_ordinal snap) in
      run_tx (commit_failure_body env c (snap_id snap) expected_attempt retryable code message
                (eng_now env ph)) (eng_interfere env ph d))"

definition record_failure ::
  "engine_env \<Rightarrow> claimed_run \<Rightarrow> step_snapshot \<Rightarrow> int \<Rightarrow> step_outcome \<Rightarrow> db \<Rightarrow> persist_outcome tx" where
  "record_failure env c snap expected_attempt outcome d =
     (case outcome of
        Outcome_Success r \<Rightarrow> (Inl Assertion_Error, d)
      | Outcome_Retryable code message \<Rightarrow> commit_failure env c snap expected_attempt True code message d
      | Outcome_Permanent code message \<Rightarrow> commit_failure env c snap expected_attempt False code message d)"

definition persist_step_outcome ::
  "engine_env \<Rightarrow> claimed_run \<Rightarrow> step_snapshot \<Rightarrow> int \<Rightarrow> step_outcome \<Rightarrow> nat \<Rightarrow> nat \<Rightarrow> step_definition \<Rightarrow>
   pipeline_context \<Rightarrow> db \<Rightarrow> persist_outcome tx" where
  "persist_step_outcome env c snap expected_attempt outcome succeeded_count total_steps sd context d =
     (case outcome of
        Outcome_Success result \<Rightarrow>
          (let ph = Ph_Success (snap_ordinal snap) in
           case run_tx (commit_success_body env c (snap_id snap) expected_attempt result succeeded_count
                         total_steps sd context (eng_now env ph)) (eng_interfere env ph d) of
             (Inl e, d') \<Rightarrow> (Inl e, d')
           | (Inr (Inr out), d') \<Rightarrow> (Inr out, d')
           | (Inr (Inl failure), d') \<Rightarrow> record_failure env c snap expected_attempt failure d')
      | _ \<Rightarrow> record_failure env c snap expected_attempt outcome d)"

subsection \<open>The loop\<close>

definition context_of ::
  "claimed_run \<Rightarrow> uuid option \<Rightarrow> json \<Rightarrow> (string \<Rightarrow> json option) \<Rightarrow> pipeline_context" where
  "context_of c src inp outs =
     \<lparr>ctx_run_id = claimed_run_id c, ctx_pipeline_type = claimed_pipeline_type c,
      ctx_dataset_id = claimed_dataset_id c, ctx_source_id = src, ctx_run_input = inp,
      ctx_step_outputs = outs\<rparr>"

definition step_by_name :: "step_definition list \<Rightarrow> string \<Rightarrow> step_definition option" where
  "step_by_name sds name = map_of (rev (map (\<lambda>sd. (sd_name sd, sd)) sds)) name"

fun run_pending ::
  "engine_env \<Rightarrow> claimed_run \<Rightarrow> pipeline_definition \<Rightarrow> uuid option \<Rightarrow> json \<Rightarrow> step_snapshot list \<Rightarrow>
   (string \<Rightarrow> json option) \<Rightarrow> nat \<Rightarrow> db \<Rightarrow> execution_result tx" where
  "run_pending env c pd src inp [] outs succeeded_count d = (Inl Engine_Invariant_Error, d)"
| "run_pending env c pd src inp (snap # rest) outs succeeded_count d =
     (case step_by_name (pd_steps pd) (snap_name snap) of
        None \<Rightarrow> (Inl Key_Error, d)
      | Some sd \<Rightarrow>
        (case run_tx (checkpoint_body env c snap sd inp outs)
                (eng_interfere env (Ph_Checkpoint (snap_ordinal snap)) d) of
           (Inl e, d1) \<Rightarrow> (Inl e, d1)
         | (Inr Check_Abandoned, d1) \<Rightarrow> (Inr Exec_Abandoned, d1)
         | (Inr Check_Paused, d1) \<Rightarrow> (Inr Exec_Paused, d1)
         | (Inr (Check_Terminal st), d1) \<Rightarrow> (Inr (Exec_Status st), d1)
         | (Inr (Check_Attempt a), d1) \<Rightarrow>
             (let context = context_of c src inp outs;
                  outcome = run_step sd context in
              case persist_step_outcome env c snap a outcome succeeded_count (length (pd_steps pd)) sd
                     context d1 of
                (Inl e, d2) \<Rightarrow> (Inl e, d2)
              | (Inr Persist_Abandoned, d2) \<Rightarrow> (Inr Exec_Abandoned, d2)
              | (Inr (Persist_Terminal st), d2) \<Rightarrow> (Inr (Exec_Status st), d2)
              | (Inr (Persist_Output out), d2) \<Rightarrow>
                  run_pending env c pd src inp rest (outs(snap_name snap \<mapsto> out))
                    (succeeded_count + 1) d2)))"

definition execute :: "engine_env \<Rightarrow> registry \<Rightarrow> claimed_run \<Rightarrow> db \<Rightarrow> execution_result tx" where
  "execute env reg c d =
     (case registry_get reg (claimed_pipeline_type c) of
        Inl e \<Rightarrow> (Inl e, d)
      | Inr pd \<Rightarrow>
        (case run_tx (prepare_body env c pd) (eng_interfere env Ph_Prepare d) of
           (Inl e, d1) \<Rightarrow> (Inl e, d1)
         | (Inr Prep_Abandoned, d1) \<Rightarrow> (Inr Exec_Abandoned, d1)
         | (Inr (Prep_Terminal st), d1) \<Rightarrow> (Inr (Exec_Status st), d1)
         | (Inr (Prep_Ready inp src outs pending), d1) \<Rightarrow>
             run_pending env c pd src inp pending outs (length (pd_steps pd) - length pending) d1))"

end
