(* ===== verification/Lease.thy ===== *)
theory Lease
  imports Prelude
begin

text \<open>
  Ownership fencing, once for every kind of claimed row.  A claim hands out a token and stamps the
  row with a larger number; every other update leaves the stamp alone; a token owns a row only
  while the row still carries the token's stamp.  Then a token that was superseded by a later
  claim never owns the row again, however the row evolves: the argument behind the
  \<open>(worker_id, attempt)\<close> checks of the engine and of the graph outbox.
\<close>

locale fenced_lease =
  fixes stamp :: "'row \<Rightarrow> int"
    and token_stamp :: "'token \<Rightarrow> int"
    and owns_row :: "'token \<Rightarrow> 'row \<Rightarrow> bool"
    and claim_row :: "'row \<Rightarrow> 'arg \<Rightarrow> ('row \<times> 'token) option"
    and other_update :: "'row \<Rightarrow> 'row \<Rightarrow> bool"
  assumes owner_stamp: "owns_row t r \<Longrightarrow> stamp r = token_stamp t"
    and claim_owner: "claim_row r a = Some (r', t) \<Longrightarrow> owns_row t r'"
    and claim_stamp: "claim_row r a = Some (r', t) \<Longrightarrow> stamp r < stamp r'"
    and other_stamp: "other_update r r' \<Longrightarrow> stamp r' = stamp r"
begin

inductive evolves :: "'row \<Rightarrow> 'row \<Rightarrow> bool" where
  evolves_refl: "evolves r r"
| evolves_claim: "\<lbrakk>evolves r r'; claim_row r' a = Some (r'', t)\<rbrakk> \<Longrightarrow> evolves r r''"
| evolves_other: "\<lbrakk>evolves r r'; other_update r' r''\<rbrakk> \<Longrightarrow> evolves r r''"

lemma stamp_mono: "evolves r r' \<Longrightarrow> stamp r \<le> stamp r'"
  by (induction rule: evolves.induct) (auto dest: claim_stamp other_stamp)

theorem superseded_never_owns:
  assumes "owns_row t r" "evolves r r1" "claim_row r1 a = Some (r2, t2)" "evolves r2 r3"
  shows "\<not> owns_row t r3"
proof -
  have "token_stamp t = stamp r" using assms(1) owner_stamp by simp
  also have "\<dots> \<le> stamp r1" using assms(2) by (rule stamp_mono)
  also have "\<dots> < stamp r2" using assms(3) by (rule claim_stamp)
  also have "\<dots> \<le> stamp r3" using assms(4) by (rule stamp_mono)
  finally show ?thesis using owner_stamp by force
qed

lemma at_most_one_claim_owner:
  assumes "claim_row r a = Some (r1, t1)" "evolves r1 r2" "claim_row r2 b = Some (r3, t2)"
  shows "owns_row t2 r3 \<and> \<not> owns_row t1 r3"
  using superseded_never_owns[OF claim_owner[OF assms(1)] assms(2,3) evolves_refl]
    claim_owner[OF assms(3)] by simp

end

end
