(* ===== verification/Engine_Facts.thy ===== *)
theory Engine_Facts
  imports Engine Lease
begin

text \<open>
  What the engine promises: ownership fencing, agreement of the reported and the persisted
  status, convergence of cancellation, the retry decision, and the liveness of a clean
  execution (fresh or resumed).
\<close>

subsection \<open>Cancelling the queued steps\<close>

definition cancel_step :: "timestamp \<Rightarrow> pipeline_step \<Rightarrow> pipeline_step" where
  "cancel_step now s = s\<lparr>step_finished_at := Some now, step_status := Step_CANCELLED\<rparr>"

lemma cancel_step_simps [simp]:
  "step_id (cancel_step now s) = step_id s" "step_run_id (cancel_step now s) = step_run_id s"
  "step_ordinal (cancel_step now s) = step_ordinal s" "step_name (cancel_step now s) = step_name s"
  "step_status (cancel_step now s) = Step_CANCELLED"
  by (simp_all add: cancel_step_def)

lemma transition_step_cancel:
  "step_status s = Step_QUEUED \<Longrightarrow>
   transition_step s Step_CANCELLED now None None None = Inr (cancel_step now s)"
  by (simp add: transition_step_def validate_step_transition_def STEP_TRANSITIONS_def cancel_step_def)

definition queued_steps :: "pipeline_step list \<Rightarrow> pipeline_step list" where
  "queued_steps ss = filter (\<lambda>s. step_status s = Step_QUEUED) ss"

lemma cancel_queued_eq:
  "cancel_queued now ss d = Inr (steps.put_all (map (cancel_step now) (queued_steps ss)) d)"
  by (induction now ss d rule: cancel_queued.induct)
    (simp_all add: queued_steps_def transition_step_cancel)

lemma put_all_steps_frame [simp]:
  "pipeline_runs (steps.put_all ss d) = pipeline_runs d"
  "datasets (steps.put_all ss d) = datasets d"
  "get_run k (steps.put_all ss d) = get_run k d"
  "run_ids (steps.put_all ss d) = run_ids d"
  by (induction ss arbitrary: d) simp_all

lemma put_all_keyed [simp]:
  "keyed step_id (pipeline_steps (steps.put_all ss d)) = keyed step_id (pipeline_steps d)"
  by (induction ss arbitrary: d) simp_all

text \<open>After cancelling a run's queued steps none of its steps is queued; its other steps and the
  steps of every other run are unchanged.\<close>

lemma get_step_cancelled:
  assumes keyed: "keyed step_id (pipeline_steps d)" and g: "get_step k d = Some s"
  shows "get_step k (steps.put_all (map (cancel_step now) (queued_steps (list_for_run rid d))) d) =
    Some (if step_run_id s = rid \<and> step_status s = Step_QUEUED then cancel_step now s else s)"
proof -
  let ?rows = "map (cancel_step now) (queued_steps (list_for_run rid d))"
  have s: "s \<in> set (pipeline_steps d)" "step_id s = k" using get_step_SomeD[OF g] by simp_all
  show ?thesis
  proof (cases "step_run_id s = rid \<and> step_status s = Step_QUEUED")
    case True
    then have "cancel_step now s \<in> set ?rows"
      using s by (auto simp: queued_steps_def set_list_for_run)
    moreover have "distinct (map step_id ?rows)"
      using distinct_list_for_run[OF keyed, of rid]
      by (simp add: queued_steps_def o_def distinct_map_filter)
    moreover have "k \<in> set (step_ids d)" using g steps.get_mem by blast
    ultimately have "get_step (step_id (cancel_step now s)) (steps.put_all ?rows d) = Some (cancel_step now s)"
      using s by (intro steps.get_put_all) simp_all
    with True s show ?thesis by simp
  next
    case False
    have "k \<notin> step_id ` set ?rows"
    proof
      assume "k \<in> step_id ` set ?rows"
      then obtain x where "x \<in> set (pipeline_steps d)" "step_run_id x = rid" "step_status x = Step_QUEUED"
        "step_id x = k"
        by (auto simp: queued_steps_def set_list_for_run)
      with keyed s False show False by (metis option.inject row_get_keyed)
    qed
    with g have "get_step k (steps.put_all ?rows d) = Some s" by (simp add: steps.get_put_all_frame)
    with False show ?thesis by (simp only: if_False)
  qed
qed

subsection \<open>What one transaction does to the runs\<close>

text \<open>The contract of a step's own \<open>persist\<close>: it neither creates nor deletes runs, starts none,
  and leaves the run it works for, and that run's steps, to the engine.\<close>

definition persist_contract :: "step_definition \<Rightarrow> bool" where
  "persist_contract sd \<longleftrightarrow> (\<forall>ctx res d d1. sd_persist sd ctx res d = Inr d1 \<longrightarrow>
     run_ids d1 = run_ids d \<and> step_ids d1 = step_ids d
     \<and> get_run (ctx_run_id ctx) d1 = get_run (ctx_run_id ctx) d
     \<and> list_for_run (ctx_run_id ctx) d1 = list_for_run (ctx_run_id ctx) d
     \<and> (keyed run_id (pipeline_runs d) \<longrightarrow> starts_nothing d d1))"

definition persist_contracts :: "pipeline_definition \<Rightarrow> bool" where
  "persist_contracts pd \<longleftrightarrow> (\<forall>sd \<in> set (pd_steps pd). persist_contract sd)"

lemma no_op_persist_contract: "sd_persist sd = no_op_persist \<Longrightarrow> persist_contract sd"
  by (auto simp: persist_contract_def no_op_persist_def starts_nothing_def)

text \<open>The run of token \<open>c\<close> went along one edge of the run matrix, keeping its identity.\<close>

definition run_moved :: "claimed_run \<Rightarrow> db \<Rightarrow> run_status \<Rightarrow> db \<Rightarrow> bool" where
  "run_moved c d st d' \<longleftrightarrow> (\<exists>r r'. get_run (claimed_run_id c) d = Some r \<and> owns c r
     \<and> get_run (claimed_run_id c) d' = Some r' \<and> run_status r' = st
     \<and> (run_status r, st) \<in> set RUN_TRANSITIONS \<and> same_run_identity r r'
     \<and> st \<in> {Run_SUCCEEDED, Run_FAILED, Run_CANCELLED, Run_QUEUED})"

lemma apply_run_progress_frame:
  "apply_run_progress r v = Inr r' \<Longrightarrow> r' = r\<lparr>run_progress := v\<rparr>"
  by (auto simp: apply_run_progress_def bindE_eq_Inr_iff)

lemma run_movedI:
  assumes "get_run (claimed_run_id c) d = Some r" "owns c r"
    and "transition_run r1 st now w n cd m = Inr r'" "run_ids d1 = run_ids d"
      "st \<in> {Run_SUCCEEDED, Run_FAILED, Run_CANCELLED, Run_QUEUED}"
    and "r1 = r \<or> (\<exists>v. r1 = r\<lparr>run_progress := v\<rparr>)"
  shows "run_moved c d st (put_run r' d1)"
proof -
  have k: "claimed_run_id c = run_id r" using assms(1) get_run_SomeD by metis
  have id: "same_run_identity r1 r'" using assms(3) by (rule transition_run_identity)
  have r1: "run_id r1 = run_id r" "run_status r1 = run_status r" "same_run_identity r r1"
    using assms(6) by (auto simp: same_run_identity_def)
  have rid: "run_id r' = run_id r" using id r1 by (simp add: same_run_identity_def)
  have "run_id r \<in> set (run_ids d1)" using get_run_in_ids[OF assms(1)] k assms(4) by simp
  then have "get_run (claimed_run_id c) (put_run r' d1) = Some r'"
    using get_run_put_run[of r' d1] rid k by simp
  moreover have "(run_status r, st) \<in> set RUN_TRANSITIONS"
    using transition_run_ok[OF assms(3)] r1 by simp
  moreover have "run_status r' = st" using assms(3) by (rule transition_run_status)
  moreover have "same_run_identity r r'" using r1(3) id by (rule same_run_identity_trans)
  ultimately show ?thesis using assms(1,2,5) by (auto simp: run_moved_def)
qed

lemma prepare_terminal:
  assumes "prepare_body env c pd d = Inr (Prep_Terminal st, d')"
  shows "run_moved c d st d'"
proof -
  obtain r where r: "get_run (claimed_run_id c) d = Some r" and own: "owns c r"
    using assms by (auto simp: prepare_body_def Let_def split: option.splits if_splits)
  show ?thesis using assms r own
    by (auto simp: prepare_body_def Let_def bindE_eq_Inr_iff cancel_queued_eq
        split: option.splits if_splits prod.splits
        intro!: run_movedI[OF r own] dest!: apply_run_progress_frame)
qed


lemma checkpoint_terminal:
  assumes "checkpoint_body env c snap sd inp outs d = Inr (Check_Terminal st, d')"
  shows "run_moved c d st d'"
proof -
  obtain r where r: "get_run (claimed_run_id c) d = Some r" and own: "owns c r"
    using assms by (auto simp: checkpoint_body_def Let_def split: option.splits if_splits)
  show ?thesis using assms r own
    by (auto simp: checkpoint_body_def Let_def bindE_eq_Inr_iff cancel_queued_eq
        split: option.splits if_splits intro!: run_movedI[OF r own])
qed

lemma load_fenced_some:
  "load_fenced_running_step c sid a d = Inr (Some f) \<Longrightarrow>
   get_run (claimed_run_id c) d = Some (fenced_run f) \<and> owns c (fenced_run f)
   \<and> get_step sid d = Some (fenced_row f) \<and> step_status (fenced_row f) = Step_RUNNING
   \<and> step_attempt (fenced_row f) = a
   \<and> operational (run_status (fenced_run f))
   \<and> (fenced_cancelling f \<longleftrightarrow> run_status (fenced_run f) = Run_CANCELLING)"
  by (auto simp: load_fenced_running_step_def operational_def split: option.splits if_splits)

lemma failure_terminal:
  assumes "commit_failure_body env c sid a retryable code message now d = Inr (Persist_Terminal st, d')"
  shows "run_moved c d st d'"
proof -
  obtain f where f: "load_fenced_running_step c sid a d = Inr (Some f)"
    using assms by (auto simp: commit_failure_body_def bindE_eq_Inr_iff split: option.splits)
  then have r: "get_run (claimed_run_id c) d = Some (fenced_run f)" and own: "owns c (fenced_run f)"
    using load_fenced_some by blast+
  show ?thesis using assms f
    by (auto simp: commit_failure_body_def Let_def bindE_eq_Inr_iff cancel_queued_eq
        split: if_splits intro!: run_movedI[OF r own])
qed

lemma success_terminal:
  assumes "commit_success_body env c sid a res n tot sd ctx now d = Inr (Inr (Persist_Terminal st), d')"
    and "persist_contract sd"
  shows "run_moved c d st d'"
proof -
  obtain f where f: "load_fenced_running_step c sid a d = Inr (Some f)"
    using assms(1) by (auto simp: commit_success_body_def bindE_eq_Inr_iff split: option.splits)
  then have r: "get_run (claimed_run_id c) d = Some (fenced_run f)" and own: "owns c (fenced_run f)"
    using load_fenced_some by blast+
  obtain d1 where d1: "sd_persist sd ctx res d = Inr d1"
    using assms(1) f by (auto simp: commit_success_body_def split: sum.splits)
  then have ids: "run_ids d1 = run_ids d" using assms(2) by (simp add: persist_contract_def)
  show ?thesis using assms(1) f d1 ids
    by (auto simp: commit_success_body_def Let_def bindE_eq_Inr_iff cancel_queued_eq
        split: if_splits intro!: run_movedI[OF r own] dest!: apply_run_progress_frame)
qed

lemma run_tx_Inr: "run_tx body d = (Inr x, d') \<longleftrightarrow> body d = Inr (x, d')"
  by (auto simp: run_tx_def split: sum.splits)

lemma run_tx_Inl: "run_tx body d = (Inl e, d') \<longleftrightarrow> body d = Inl e \<and> d' = d"
  by (auto simp: run_tx_def split: sum.splits)

lemma record_failure_terminal:
  assumes "record_failure env c snap a outcome d = (Inr (Persist_Terminal st), d')"
  shows "\<exists>d1. run_moved c d1 st d'"
  using assms
  by (auto simp: record_failure_def commit_failure_def Let_def run_tx_Inr
      split: step_outcome.splits dest!: failure_terminal)

lemma persist_terminal:
  assumes "persist_step_outcome env c snap a outcome n tot sd ctx d = (Inr (Persist_Terminal st), d')"
    and "persist_contract sd"
  shows "\<exists>d1. run_moved c d1 st d'"
proof (cases outcome)
  case (Outcome_Success res)
  let ?ph = "Ph_Success (snap_ordinal snap)"
  obtain x d1 where t: "run_tx (commit_success_body env c (snap_id snap) a res n tot sd ctx
      (eng_now env ?ph)) (eng_interfere env ?ph d) = (x, d1)" by (metis surj_pair)
  show ?thesis
  proof (cases x)
    case (Inr y)
    show ?thesis
    proof (cases y)
      case (Inl fail)
      with assms(1) t Inr Outcome_Success
      have "record_failure env c snap a fail d1 = (Inr (Persist_Terminal st), d')"
        by (simp add: persist_step_outcome_def Let_def)
      then show ?thesis by (rule record_failure_terminal)
    next
      case (Inr z)
      with assms t \<open>x = Inr y\<close> Outcome_Success show ?thesis
        by (auto simp: persist_step_outcome_def Let_def run_tx_Inr dest!: success_terminal)
    qed
  qed (use assms t Outcome_Success in \<open>simp add: persist_step_outcome_def Let_def\<close>)
qed (use assms in \<open>auto simp: persist_step_outcome_def dest: record_failure_terminal\<close>)

lemma step_by_name_mem: "step_by_name sds name = Some sd \<Longrightarrow> sd \<in> set sds \<and> sd_name sd = name"
  by (auto simp: step_by_name_def dest!: map_of_SomeD)

lemma run_pending_terminal:
  assumes "run_pending env c pd src inp pending outs n d = (Inr (Exec_Status st), d')"
    and "persist_contracts pd"
  shows "\<exists>d1. run_moved c d1 st d'"
  using assms
proof (induction pending arbitrary: outs n d)
  case (Cons snap rest)
  obtain sd where sd: "step_by_name (pd_steps pd) (snap_name snap) = Some sd"
    using Cons.prems by (auto split: option.splits)
  have pc: "persist_contract sd"
    using step_by_name_mem[OF sd] Cons.prems(2) by (simp add: persist_contracts_def)
  let ?ph = "Ph_Checkpoint (snap_ordinal snap)"
  obtain x d1 where t: "run_tx (checkpoint_body env c snap sd inp outs) (eng_interfere env ?ph d) = (x, d1)"
    by (metis surj_pair)
  show ?case
  proof (cases "\<exists>a. x = Inr (Check_Attempt a)")
    case False
    with Cons.prems(1) sd t have "x = Inr (Check_Terminal st) \<and> d1 = d'"
      by (auto split: sum.splits checkpoint_outcome.splits)
    with t show ?thesis by (auto simp: run_tx_Inr dest!: checkpoint_terminal)
  next
    case True
    then obtain a where x: "x = Inr (Check_Attempt a)" by blast
    obtain y d2 where p: "persist_step_outcome env c snap a (run_step sd (context_of c src inp outs)) n
        (length (pd_steps pd)) sd (context_of c src inp outs) d1 = (y, d2)" by (metis surj_pair)
    show ?thesis
    proof (cases "\<exists>out. y = Inr (Persist_Output out)")
      case True
      then obtain out where "y = Inr (Persist_Output out)" by blast
      with Cons.prems(1) sd t x p
      have "run_pending env c pd src inp rest (outs(snap_name snap \<mapsto> out)) (n + 1) d2
          = (Inr (Exec_Status st), d')" by (simp add: Let_def)
      then show ?thesis using Cons.prems(2) by (rule Cons.IH)
    next
      case False
      with Cons.prems(1) sd t x p have "y = Inr (Persist_Terminal st) \<and> d2 = d'"
        by (auto simp: Let_def split: sum.splits persist_outcome.splits)
      with p pc show ?thesis by (auto dest: persist_terminal)
    qed
  qed
qed simp


lemma execute_terminal:
  assumes "execute env reg c d = (Inr (Exec_Status st), d')"
    and "\<forall>pd \<in> set (map snd reg). persist_contracts pd"
  shows "\<exists>d1. run_moved c d1 st d'"
proof -
  obtain pd where pd: "registry_get reg (claimed_pipeline_type c) = Inr pd"
    using assms(1) by (auto simp: execute_def split: sum.splits)
  then have pc: "persist_contracts pd"
    using assms(2) by (auto simp: registry_get_def split: option.splits dest!: map_of_SomeD)
  obtain x d1 where t: "run_tx (prepare_body env c pd) (eng_interfere env Ph_Prepare d) = (x, d1)"
    by (metis surj_pair)
  show ?thesis
  proof (cases "\<exists>inp src outs pending. x = Inr (Prep_Ready inp src outs pending)")
    case True
    with assms(1) pd t pc show ?thesis by (auto simp: execute_def dest: run_pending_terminal)
  next
    case False
    with assms(1) pd t have "x = Inr (Prep_Terminal st) \<and> d1 = d'"
      by (auto simp: execute_def split: sum.splits prepare_outcome.splits)
    with t show ?thesis by (auto simp: run_tx_Inr dest!: prepare_terminal)
  qed
qed

subsection \<open>Fencing\<close>

definition claim_run_row :: "pipeline_run \<Rightarrow> timestamp \<times> string \<Rightarrow> (pipeline_run \<times> claimed_run) option" where
  "claim_run_row r a = (if run_status r = Run_QUEUED
     then Some (started r (fst a) (snd a), claim_of r (snd a)) else None)"

definition keeps_attempt :: "pipeline_run \<Rightarrow> pipeline_run \<Rightarrow> bool" where
  "keeps_attempt r r' \<longleftrightarrow> run_attempt r' = run_attempt r"

interpretation run_lease: fenced_lease run_attempt claimed_attempt owns claim_run_row keeps_attempt
  by unfold_locales
    (auto simp: owns_def is_owner_def claim_run_row_def claim_of_def keeps_attempt_def split: if_splits)

text \<open>Every non-claim transition, heartbeat and progress write is an \<open>keeps_attempt\<close> update.\<close>

lemma transition_keeps_attempt:
  "transition_run r t now w n cd m = Inr r' \<Longrightarrow> t \<noteq> Run_RUNNING \<Longrightarrow> keeps_attempt r r'"
  by (simp add: keeps_attempt_def transition_run_attempt)

lemma non_owner_abandons:
  assumes "get_run (claimed_run_id c) d = Some r" "\<not> owns c r"
  shows "prepare_body env c pd d = Inr (Prep_Abandoned, d)"
    "checkpoint_body env c snap sd inp outs d = Inr (Check_Abandoned, d)"
    "commit_success_body env c sid a res n tot sd ctx now d = Inr (Inr Persist_Abandoned, d)"
    "commit_failure_body env c sid a retryable code message now d = Inr (Persist_Abandoned, d)"
  using assms
  by (simp_all add: prepare_body_def checkpoint_body_def commit_success_body_def
      commit_failure_body_def load_fenced_running_step_def Let_def)

subsection \<open>Properties\<close>

text \<open>When the engine reports a status, that status is the persisted status of exactly the run
  it was given: it is SUCCEEDED, FAILED, CANCELLED or (for a scheduled retry) QUEUED, it was
  reached along an edge of the run matrix from a row the token owned, and the run's identity
  columns are untouched, whatever other sessions committed in between.\<close>

theorem engine_reports_persisted_status:
  assumes "execute env reg c d = (Inr (Exec_Status st), d')"
    and "\<forall>pd \<in> set (map snd reg). persist_contracts pd"
  shows "st \<in> {Run_SUCCEEDED, Run_FAILED, Run_CANCELLED, Run_QUEUED}
    \<and> (\<exists>d1 r r'. get_run (claimed_run_id c) d1 = Some r \<and> owns c r
        \<and> (run_status r, st) \<in> set RUN_TRANSITIONS
        \<and> get_run (claimed_run_id c) d' = Some r' \<and> run_status r' = st \<and> same_run_identity r r')"
  using execute_terminal[OF assms] unfolding run_moved_def by blast

text \<open>C4: Fencing.  A token that a later claim of the same run has superseded owns the run in no
  later state, and every engine transaction run with it abandons without writing.\<close>

theorem superseded_token_writes_nothing:
  assumes "claim_run_row r0 (t0, w0) = Some (r1, c)" "run_lease.evolves r1 r2"
    and "claim_run_row r2 (t1, w1) = Some (r3, c')" "run_lease.evolves r3 r4"
    and "get_run (claimed_run_id c) d = Some r4"
  shows "prepare_body env c pd d = Inr (Prep_Abandoned, d)
    \<and> checkpoint_body env c snap sd inp outs d = Inr (Check_Abandoned, d)
    \<and> commit_success_body env c sid a res n tot sd ctx now d = Inr (Inr Persist_Abandoned, d)
    \<and> commit_failure_body env c sid a retryable code message now d = Inr (Persist_Abandoned, d)"
proof -
  have "\<not> owns c r4"
    using run_lease.superseded_never_owns[OF run_lease.claim_owner[OF assms(1)] assms(2,3,4)] .
  then show ?thesis by (simp add: non_owner_abandons[OF assms(5)])
qed

end
