(* ===== verification/Submission.thy ===== *)
theory Submission
  imports Engine_Facts
begin

text \<open>
  Durable submission: the delete-intent barrier (\<open>services/dataset_delete_barrier.py\<close>) and
  the idempotent resolve-or-create of a run (\<open>services/pipeline_submission.py\<close>).  Each unit of
  work is one transaction; \<open>sub_interfere i\<close> is what other sessions committed before the
  submission's \<open>i\<close>-th transaction (0 first lookup, 1 creation, 2 lookup after a lost race,
  3 the fresh read after the commit).
\<close>

definition OK :: nat where "OK = 200"
definition ACCEPTED :: nat where "ACCEPTED = 202"
definition BAD_REQUEST :: nat where "BAD_REQUEST = 400"
definition NOT_FOUND :: nat where "NOT_FOUND = 404"
definition CONFLICT :: nat where "CONFLICT = 409"
definition INTERNAL_SERVER_ERROR :: nat where "INTERNAL_SERVER_ERROR = 500"
definition SERVICE_UNAVAILABLE :: nat where "SERVICE_UNAVAILABLE = 503"

subsection \<open>The barrier\<close>

definition dataset_deleting_conflict_error :: exn where
  "dataset_deleting_conflict_error = Sofias_Memory_Error DATASET_DELETING CONFLICT"

definition dataset_deleted_conflict_error :: exn where
  "dataset_deleted_conflict_error = Sofias_Memory_Error DATASET_DELETED CONFLICT"

definition raise_if_dataset_administratively_blocked :: "uuid option \<Rightarrow> db \<Rightarrow> exn + unit" where
  "raise_if_dataset_administratively_blocked ds d =
     (case ds of
        None \<Rightarrow> Inr ()
      | Some k \<Rightarrow>
        (case get_dataset k d of
           None \<Rightarrow> Inr ()
         | Some dataset \<Rightarrow>
           if dataset_status dataset = Dataset_DELETED then Inl dataset_deleted_conflict_error
           else if find_nonterminal_dataset_delete_for_dataset k d \<noteq> None
           then Inl dataset_deleting_conflict_error
           else if dataset_status dataset = Dataset_DELETING \<and> exists_administrative_delete_ownership k d
           then Inl dataset_deleting_conflict_error
           else Inr ()))"

subsection \<open>Submission\<close>

definition RESERVED_IDEMPOTENCY_KEY_PREFIX :: string where
  "RESERVED_IDEMPOTENCY_KEY_PREFIX = ''sys:''"

definition IDEMPOTENCY_KEY_UNIQUE_CONSTRAINT :: string where
  "IDEMPOTENCY_KEY_UNIQUE_CONSTRAINT = ''uq_pipeline_runs_idempotency_key''"

definition reserved_idempotency_key_namespace_error :: exn where
  "reserved_idempotency_key_namespace_error =
     Sofias_Memory_Error RESERVED_IDEMPOTENCY_KEY_NAMESPACE BAD_REQUEST"

definition idempotency_conflict_error :: exn where
  "idempotency_conflict_error = Sofias_Memory_Error IDEMPOTENCY_CONFLICT CONFLICT"

definition worker_disabled_error :: exn where
  "worker_disabled_error = Sofias_Memory_Error WORKER_DISABLED SERVICE_UNAVAILABLE"

fun is_idempotency_key_unique_violation :: "exn \<Rightarrow> bool" where
  "is_idempotency_key_unique_violation (Integrity_Error c) = (c = IDEMPOTENCY_KEY_UNIQUE_CONSTRAINT)"
| "is_idempotency_key_unique_violation _ = False"

record submission_targets =
  target_dataset_id :: "uuid option"
  target_source_id :: "uuid option"
  target_session_id :: "uuid option"

text \<open>\<open>_RunSnapshot\<close>.\<close>

record run_snapshot =
  rs_id :: uuid
  rs_pipeline_type :: pipeline_type
  rs_dataset_id :: "uuid option"
  rs_source_id :: "uuid option"
  rs_session_id :: "uuid option"
  rs_status :: run_status
  rs_payload_hash :: string
  rs_input :: json
  rs_retry_of_run_id :: "uuid option"

definition run_snapshot_of :: "pipeline_run \<Rightarrow> run_snapshot" where
  "run_snapshot_of r = \<lparr>rs_id = run_id r, rs_pipeline_type = run_pipeline_type r,
     rs_dataset_id = run_dataset_id r, rs_source_id = run_source_id r,
     rs_session_id = run_session_id r, rs_status = run_status r,
     rs_payload_hash = run_payload_hash r, rs_input = run_input r,
     rs_retry_of_run_id = run_retry_of_run_id r\<rparr>"

record submission_outcome =
  out_run_id :: uuid
  out_pipeline_type :: pipeline_type
  out_dataset_id :: "uuid option"
  out_source_id :: "uuid option"
  out_status :: run_status
  out_created :: bool
  out_session_id :: "uuid option"
  out_retry_of_run_id :: "uuid option"

definition outcome_of :: "run_snapshot \<Rightarrow> bool \<Rightarrow> submission_outcome" where
  "outcome_of s created = \<lparr>out_run_id = rs_id s, out_pipeline_type = rs_pipeline_type s,
     out_dataset_id = rs_dataset_id s, out_source_id = rs_source_id s, out_status = rs_status s,
     out_created = created, out_session_id = rs_session_id s,
     out_retry_of_run_id = rs_retry_of_run_id s\<rparr>"

type_synonym preparation_hook = "db \<Rightarrow> exn + (submission_targets \<times> db)"
type_synonym legacy_intent_equivalent = "json \<Rightarrow> json \<Rightarrow> bool"

record submission_service =
  sub_registry :: registry
  sub_config_fingerprint :: string

record submission_env =
  sub_py :: py_env
  sub_now :: timestamp
  sub_interfere :: "nat \<Rightarrow> db \<Rightarrow> db"
  sub_fresh_run_id :: uuid
  sub_fresh_step_id :: "nat \<Rightarrow> uuid"
  sub_worker_enabled :: bool
  sub_worker_operational :: bool

record submission_request =
  req_pipeline_type :: pipeline_type
  req_work_input :: json
  req_idempotency_key :: "string option"
  req_prepare :: preparation_hook
  req_run_id :: "uuid option"
  req_legacy :: "legacy_intent_equivalent option"
  req_retry_of_run_id :: "uuid option"

definition resolve_existing ::
  "submission_request \<Rightarrow> string \<Rightarrow> run_snapshot \<Rightarrow> exn + submission_outcome" where
  "resolve_existing req payload_hash existing =
     (if rs_pipeline_type existing \<noteq> req_pipeline_type req then Inl idempotency_conflict_error
      else if rs_payload_hash existing \<noteq> payload_hash
        \<and> (case req_legacy req of
             None \<Rightarrow> True
           | Some equivalent \<Rightarrow> \<not> equivalent (rs_input existing) (req_work_input req))
      then Inl idempotency_conflict_error
      else Inr (outcome_of existing False))"

definition create_new_run_body ::
  "submission_service \<Rightarrow> submission_env \<Rightarrow> submission_request \<Rightarrow> string \<Rightarrow> step_plan list \<Rightarrow> db \<Rightarrow>
   exn + (uuid \<times> db)" where
  "create_new_run_body svc env req payload_hash plans d =
     bindE (req_prepare req d) (\<lambda>(targets, d1).
       bindE (if req_pipeline_type req \<noteq> DATASET_DELETE
              then raise_if_dataset_administratively_blocked (target_dataset_id targets) d1
              else Inr ()) (\<lambda>_.
         bindE (create_run_with_steps
                  (case req_run_id req of Some k \<Rightarrow> k | None \<Rightarrow> sub_fresh_run_id env)
                  (sub_fresh_step_id env) (sub_now env) (req_pipeline_type req)
                  (target_dataset_id targets) (target_source_id targets) (req_idempotency_key req)
                  payload_hash (req_work_input req) (sub_config_fingerprint svc) plans
                  (req_retry_of_run_id req) (target_session_id targets) d1)
           (\<lambda>(run, d2). Inr (run_id run, d2))))"

definition find_by_idempotency_key :: "string \<Rightarrow> db \<Rightarrow> run_snapshot option" where
  "find_by_idempotency_key k d = map_option run_snapshot_of (get_by_idempotency_key k d)"

definition find_by_id :: "uuid \<Rightarrow> db \<Rightarrow> run_snapshot option" where
  "find_by_id k d = map_option run_snapshot_of (get_run k d)"

definition create_new_run ::
  "submission_service \<Rightarrow> submission_env \<Rightarrow> submission_request \<Rightarrow> string \<Rightarrow> step_plan list \<Rightarrow> db \<Rightarrow>
   submission_outcome tx" where
  "create_new_run svc env req payload_hash plans d =
     (case run_tx (create_new_run_body svc env req payload_hash plans) (sub_interfere env 1 d) of
        (Inl e, d1) \<Rightarrow> (Inl e, d1)
      | (Inr rid, d1) \<Rightarrow>
          (let d2 = sub_interfere env 3 d1 in
           case find_by_id rid d2 of
             None \<Rightarrow> (Inl Assertion_Error, d2)
           | Some current \<Rightarrow> (Inr (outcome_of current True), d2)))"

definition worker_available :: "submission_env \<Rightarrow> bool" where
  "worker_available env \<longleftrightarrow> sub_worker_enabled env \<and> sub_worker_operational env"

text \<open>\<open>_submit\<close>.\<close>

definition submit_work ::
  "submission_service \<Rightarrow> submission_env \<Rightarrow> submission_request \<Rightarrow> db \<Rightarrow> submission_outcome tx" where
  "submit_work svc env req d =
     (case canonical_work_payload_hash (sub_py env) (req_work_input req) of
        Inl e \<Rightarrow> (Inl e, d)
      | Inr payload_hash \<Rightarrow>
        (let d1 = (case req_idempotency_key req of None \<Rightarrow> d | Some _ \<Rightarrow> sub_interfere env 0 d);
             existing = (case req_idempotency_key req of
                           None \<Rightarrow> None | Some k \<Rightarrow> find_by_idempotency_key k d1)
         in case existing of
              Some s \<Rightarrow> (resolve_existing req payload_hash s, d1)
            | None \<Rightarrow>
              if \<not> worker_available env then (Inl worker_disabled_error, d1)
              else (case build_step_plan (sub_py env) (sub_registry svc) (req_pipeline_type req)
                           (req_work_input req) of
                      Inl e \<Rightarrow> (Inl e, d1)
                    | Inr plans \<Rightarrow>
                      (case create_new_run svc env req payload_hash plans d1 of
                         (Inr outcome, d2) \<Rightarrow> (Inr outcome, d2)
                       | (Inl e, d2) \<Rightarrow>
                         (case req_idempotency_key req of
                            None \<Rightarrow> (Inl e, d2)
                          | Some k \<Rightarrow>
                            if \<not> is_idempotency_key_unique_violation e then (Inl e, d2)
                            else (let d3 = sub_interfere env 2 d2 in
                                  case find_by_idempotency_key k d3 of
                                    None \<Rightarrow> (Inl e, d3)
                                  | Some s \<Rightarrow> (resolve_existing req payload_hash s, d3)))))))"

definition submit ::
  "submission_service \<Rightarrow> submission_env \<Rightarrow> submission_request \<Rightarrow> db \<Rightarrow> submission_outcome tx" where
  "submit svc env req d =
     (case req_idempotency_key req of
        Some k \<Rightarrow>
          if prefix RESERVED_IDEMPOTENCY_KEY_PREFIX k
          then (Inl reserved_idempotency_key_namespace_error, d)
          else submit_work svc env (req\<lparr>req_retry_of_run_id := None\<rparr>) d
      | None \<Rightarrow> submit_work svc env (req\<lparr>req_retry_of_run_id := None\<rparr>) d)"

definition submit_trusted_internal ::
  "submission_service \<Rightarrow> submission_env \<Rightarrow> submission_request \<Rightarrow> db \<Rightarrow> submission_outcome tx" where
  "submit_trusted_internal svc env req d =
     (case req_idempotency_key req of
        None \<Rightarrow> (Inl Value_Error, d)
      | Some k \<Rightarrow>
          if \<not> prefix RESERVED_IDEMPOTENCY_KEY_PREFIX k then (Inl Value_Error, d)
          else submit_work svc env (req\<lparr>req_legacy := None\<rparr>) d)"

end
