(* ===== verification/Run_Control.thy ===== *)
theory Run_Control
  imports Submission
begin

text \<open>
  The services a client drives a run with: the public projections and queries of
  \<open>services/runs.py\<close>, cancellation and manual retry (\<open>services/run_control.py\<close>, with the
  ingress staging of \<open>services/remember.py\<close> a Remember retry needs), the administrative dataset
  delete (\<open>services/dataset_delete.py\<close>) and the bounded wait (\<open>services/pipeline_waiter.py\<close>).
\<close>

subsection \<open>Public projections\<close>

definition run_not_found_error :: exn where
  "run_not_found_error = Sofias_Memory_Error INVALID_REQUEST NOT_FOUND"

fun json_get :: "string \<Rightarrow> json \<Rightarrow> json option" where
  "json_get k (JObj kvs) = map_of kvs (ascii k)"
| "json_get k _ = None"

record run_summary =
  sum_run_id :: uuid
  sum_pipeline_type :: pipeline_type
  sum_dataset_id :: "uuid option"
  sum_source_id :: "uuid option"
  sum_session_uuid :: "uuid option"
  sum_status :: run_status
  sum_progress :: rat
  sum_current_step :: "string option"
  sum_attempt :: int
  sum_created_at :: timestamp
  sum_started_at :: "timestamp option"
  sum_finished_at :: "timestamp option"
  sum_error_code :: "string option"
  sum_error_message :: "string option"
  sum_metrics :: json

definition run_summary_result :: "pipeline_run \<Rightarrow> run_summary" where
  "run_summary_result r = \<lparr>sum_run_id = run_id r, sum_pipeline_type = run_pipeline_type r,
     sum_dataset_id = run_dataset_id r, sum_source_id = run_source_id r,
     sum_session_uuid = run_session_id r, sum_status = run_status r, sum_progress = run_progress r,
     sum_current_step = run_current_step r, sum_attempt = run_attempt r,
     sum_created_at = run_created_at r, sum_started_at = run_started_at r,
     sum_finished_at = run_finished_at r, sum_error_code = run_error_code r,
     sum_error_message = run_error_message r, sum_metrics = run_metrics r\<rparr>"

record step_error_result =
  err_code :: "pystr option"
  err_message :: "pystr option"

fun str_or_none :: "json option \<Rightarrow> pystr option" where
  "str_or_none (Some (JStr s)) = Some s"
| "str_or_none _ = None"

definition run_step_error_result :: "json option \<Rightarrow> step_error_result option" where
  "run_step_error_result err =
     (case err of
        None \<Rightarrow> None
      | Some e \<Rightarrow> Some \<lparr>err_code = str_or_none (json_get ''code'' e),
                        err_message = str_or_none (json_get ''message'' e)\<rparr>)"

record run_step_summary =
  rst_step_id :: uuid
  rst_name :: string
  rst_ordinal :: int
  rst_status :: step_status
  rst_attempt :: int
  rst_metrics :: json
  rst_error :: "step_error_result option"
  rst_started_at :: "timestamp option"
  rst_finished_at :: "timestamp option"

definition run_step_result :: "pipeline_step \<Rightarrow> run_step_summary" where
  "run_step_result s = \<lparr>rst_step_id = step_id s, rst_name = step_name s,
     rst_ordinal = step_ordinal s, rst_status = step_status s, rst_attempt = step_attempt s,
     rst_metrics = step_metrics s, rst_error = run_step_error_result (step_error s),
     rst_started_at = step_started_at s, rst_finished_at = step_finished_at s\<rparr>"

record run_detail =
  detail_summary :: run_summary
  detail_steps :: "run_step_summary list"

definition run_detail_result :: "pipeline_run \<Rightarrow> pipeline_step list \<Rightarrow> run_detail" where
  "run_detail_result r steps =
     \<lparr>detail_summary = run_summary_result r, detail_steps = map run_step_result steps\<rparr>"

text \<open>\<open>RunService\<close>: the page and its total, and one run.\<close>

record run_list =
  list_items :: "run_summary list"
  list_limit :: nat
  list_offset :: nat
  list_total :: nat

definition list_runs ::
  "run_status list option \<Rightarrow> uuid option \<Rightarrow> pipeline_type option \<Rightarrow> uuid option \<Rightarrow> nat \<Rightarrow> nat \<Rightarrow> db \<Rightarrow> run_list" where
  "list_runs statuses ds ptype session lm off d =
     \<lparr>list_items = map run_summary_result (list_page statuses ds ptype session lm off d),
      list_limit = lm, list_offset = off, list_total = count_page statuses ds ptype session d\<rparr>"

definition get_run_detail :: "uuid \<Rightarrow> db \<Rightarrow> exn + run_detail" where
  "get_run_detail k d =
     (case get_run k d of
        None \<Rightarrow> Inl run_not_found_error
      | Some r \<Rightarrow> Inr (run_detail_result r (list_for_run k d)))"

subsection \<open>Cancellation\<close>

record control_result =
  ctl_detail :: run_detail
  ctl_http_status :: nat

definition run_not_retryable_error :: exn where
  "run_not_retryable_error = Sofias_Memory_Error RUN_NOT_RETRYABLE CONFLICT"

definition internal_lifecycle_error :: exn where
  "internal_lifecycle_error = Sofias_Memory_Error INTERNAL_ERROR INTERNAL_SERVER_ERROR"

definition control_of :: "pipeline_run \<Rightarrow> nat \<Rightarrow> db \<Rightarrow> exn + (control_result \<times> db)" where
  "control_of r http d =
     Inr (\<lparr>ctl_detail = run_detail_result r (list_for_run (run_id r) d), ctl_http_status = http\<rparr>, d)"

definition cancel_body :: "uuid \<Rightarrow> timestamp \<Rightarrow> db \<Rightarrow> exn + (control_result \<times> db)" where
  "cancel_body k now d =
     (case get_run k d of
        None \<Rightarrow> Inl run_not_found_error
      | Some run \<Rightarrow>
        if run_status run = Run_QUEUED then
          (let steps = list_for_run (run_id run) d in
           if list_ex (\<lambda>s. step_status s = Step_RUNNING) steps then Inl internal_lifecycle_error
           else bindE (cancel_queued now steps d) (\<lambda>d1.
                  bindE (transition_run run Run_CANCELLED now None None None None) (\<lambda>run'.
                    control_of run' OK (put_run run' d1))))
        else if run_status run = Run_RUNNING then
          bindE (transition_run run Run_CANCELLING now None None None None) (\<lambda>run'.
            control_of run' ACCEPTED (put_run run' d))
        else if run_status run = Run_CANCELLING then control_of run ACCEPTED d
        else control_of run OK d)"

definition cancel :: "uuid \<Rightarrow> timestamp \<Rightarrow> db \<Rightarrow> control_result tx" where
  "cancel k now d = run_tx (cancel_body k now) d"

subsection \<open>Remember ingress\<close>

text \<open>The ingress directories: for each run id, the staged bytes and file name.  \<open>sources\<close> rows
  and the storage router (\<open>SourceStorageError\<close> is \<open>None\<close>) are parameters of the staging.\<close>

type_synonym ingress_store = "uuid \<Rightarrow> (nat list \<times> pystr option) option"

record stored_source =
  sts_storage_uri :: "string option"
  sts_dataset_id :: "uuid option"
  sts_content_sha256 :: "string option"
  sts_byte_size :: "int option"

definition SOURCE_KIND_URL :: pystr where "SOURCE_KIND_URL = ascii ''url''"

definition ingress_artifact_exists :: "ingress_store \<Rightarrow> uuid \<Rightarrow> bool" where
  "ingress_artifact_exists fs k \<longleftrightarrow> fs k \<noteq> None"

definition write_ingress_bytes :: "ingress_store \<Rightarrow> uuid \<Rightarrow> nat list \<Rightarrow> pystr option \<Rightarrow> ingress_store" where
  "write_ingress_bytes fs k bs filename =
     fs(k \<mapsto> (bs, case filename of
                     Some f \<Rightarrow> Some f
                   | None \<Rightarrow> (case fs k of None \<Rightarrow> None | Some (_, f) \<Rightarrow> f)))"

definition delete_ingress_artifact :: "ingress_store \<Rightarrow> uuid \<Rightarrow> ingress_store" where
  "delete_ingress_artifact fs k = fs(k := None)"

definition prepare_remember_retry_ingress ::
  "(uuid \<Rightarrow> stored_source option) \<Rightarrow> (uuid \<Rightarrow> stored_source \<Rightarrow> nat list option) \<Rightarrow>
   uuid \<Rightarrow> uuid option \<Rightarrow> uuid \<Rightarrow> pystr \<Rightarrow> ingress_store \<Rightarrow> bool \<times> ingress_store" where
  "prepare_remember_retry_ingress sources storage original_run_id original_source_id candidate kind fs =
     (case fs original_run_id of
        Some (bs, filename) \<Rightarrow> (True, write_ingress_bytes fs candidate bs filename)
      | None \<Rightarrow>
        if kind = SOURCE_KIND_URL \<and> original_source_id = None then (True, fs)
        else (case original_source_id of
                None \<Rightarrow> (False, fs)
              | Some sid \<Rightarrow>
                (case sources sid of
                   None \<Rightarrow> (False, fs)
                 | Some src \<Rightarrow>
                   if sts_storage_uri src = None \<or> sts_dataset_id src = None
                     \<or> sts_content_sha256 src = None \<or> sts_byte_size src = None then (False, fs)
                   else (case storage sid src of
                           None \<Rightarrow> (False, fs)
                         | Some bs \<Rightarrow> (True, write_ingress_bytes fs candidate bs None)))))"

subsection \<open>Manual retry\<close>

definition RETRY_IDEMPOTENCY_KEY_PREFIX :: string where
  "RETRY_IDEMPOTENCY_KEY_PREFIX = ''sys:retry:''"

definition retry_key :: "uuid \<Rightarrow> string" where
  "retry_key k = RETRY_IDEMPOTENCY_KEY_PREFIX @ uuid_str k"

definition RETRYABLE_STATUSES :: "run_status list" where
  "RETRYABLE_STATUSES = [Run_FAILED, Run_CANCELLED]"

definition is_legitimate_global_run :: "pipeline_type \<Rightarrow> json \<Rightarrow> bool" where
  "is_legitimate_global_run t inp \<longleftrightarrow> t = FORGET \<and> json_get ''scope'' inp = Some (json_str ''everything'')"

record original_snapshot =
  org_id :: uuid
  org_pipeline_type :: pipeline_type
  org_dataset_id :: "uuid option"
  org_source_id :: "uuid option"
  org_session_id :: "uuid option"
  org_input :: json

definition load_retryable_original :: "uuid \<Rightarrow> db \<Rightarrow> exn + original_snapshot" where
  "load_retryable_original k d =
     (case get_run k d of
        None \<Rightarrow> Inl run_not_found_error
      | Some r \<Rightarrow>
        if run_status r \<notin> set RETRYABLE_STATUSES then Inl run_not_retryable_error
        else if run_dataset_id r = None \<and> \<not> is_legitimate_global_run (run_pipeline_type r) (run_input r)
        then Inl run_not_retryable_error
        else Inr \<lparr>org_id = run_id r, org_pipeline_type = run_pipeline_type r,
                  org_dataset_id = run_dataset_id r, org_source_id = run_source_id r,
                  org_session_id = run_session_id r, org_input = run_input r\<rparr>)"

definition existing_retry_child :: "string \<Rightarrow> uuid \<Rightarrow> db \<Rightarrow> exn + uuid option" where
  "existing_retry_child key original d =
     (case get_by_idempotency_key key d of
        None \<Rightarrow> Inr None
      | Some r \<Rightarrow> if run_retry_of_run_id r \<noteq> Some original then Inl run_not_retryable_error
                  else Inr (Some (run_id r)))"

definition respond :: "uuid \<Rightarrow> db \<Rightarrow> exn + control_result" where
  "respond k d =
     (case get_run k d of
        None \<Rightarrow> Inl Assertion_Error
      | Some r \<Rightarrow> Inr \<lparr>ctl_detail = run_detail_result r (list_for_run k d),
                       ctl_http_status = (if run_status r \<in> set TERMINAL_RUN_STATUSES then OK else ACCEPTED)\<rparr>)"

definition retry_preparation_hook :: "original_snapshot \<Rightarrow> preparation_hook" where
  "retry_preparation_hook original d =
     Inr (\<lparr>target_dataset_id = org_dataset_id original, target_source_id = org_source_id original,
           target_session_id = org_session_id original\<rparr>, d)"

definition source_kind_of :: "json \<Rightarrow> pystr" where
  "source_kind_of inp = (case json_get ''source_kind'' inp of Some (JStr s) \<Rightarrow> s | _ \<Rightarrow> [])"

text \<open>\<open>ret_interfere i\<close> is what other sessions committed before the \<open>i\<close>-th unit of work of the
  retry itself (0 load, 1 child lookup, 2 barrier, 3 response); the submission has its own.\<close>

record retry_env =
  ret_submission :: submission_env
  ret_interfere :: "nat \<Rightarrow> db \<Rightarrow> db"
  ret_candidate_id :: uuid
  ret_sources :: "uuid \<Rightarrow> stored_source option"
  ret_storage :: "uuid \<Rightarrow> stored_source \<Rightarrow> nat list option"

definition retry_request :: "original_snapshot \<Rightarrow> uuid \<Rightarrow> submission_request" where
  "retry_request original candidate =
     \<lparr>req_pipeline_type = org_pipeline_type original, req_work_input = org_input original,
      req_idempotency_key = Some (retry_key (org_id original)),
      req_prepare = retry_preparation_hook original, req_run_id = Some candidate, req_legacy = None,
      req_retry_of_run_id = Some (org_id original)\<rparr>"

definition retry_submit ::
  "submission_service \<Rightarrow> retry_env \<Rightarrow> uuid \<Rightarrow> original_snapshot \<Rightarrow> ingress_store \<Rightarrow> db \<Rightarrow>
   (exn + uuid) \<times> db \<times> ingress_store" where
  "retry_submit svc e k original fs d =
     (let candidate = ret_candidate_id e;
          remember = (org_pipeline_type original = REMEMBER);
          cleanup = (\<lambda>fs. if remember then delete_ingress_artifact fs candidate else fs);
          (staged, fs1) =
            (if remember then
               prepare_remember_retry_ingress (ret_sources e) (ret_storage e) (org_id original)
                 (org_source_id original) candidate (source_kind_of (org_input original)) fs
             else (True, fs))
      in if \<not> staged then (Inl run_not_retryable_error, d, fs1)
         else (case submit_trusted_internal svc (ret_submission e) (retry_request original candidate) d of
                 (Inl x, d1) \<Rightarrow> (Inl x, d1, cleanup fs1)
               | (Inr outcome, d1) \<Rightarrow>
                   if out_created outcome then (Inr (out_run_id outcome), d1, fs1)
                   else if out_retry_of_run_id outcome \<noteq> Some k
                   then (Inl run_not_retryable_error, d1, cleanup fs1)
                   else (Inr (out_run_id outcome), d1, cleanup fs1)))"

definition retry ::
  "submission_service \<Rightarrow> retry_env \<Rightarrow> uuid \<Rightarrow> ingress_store \<Rightarrow> db \<Rightarrow>
   (exn + control_result) \<times> db \<times> ingress_store" where
  "retry svc e k fs d =
     (let d0 = ret_interfere e 0 d;
          answer = (\<lambda>i d fs. let d' = ret_interfere e 3 d in (respond i d', d', fs))
      in case load_retryable_original k d0 of
           Inl x \<Rightarrow> (Inl x, d0, fs)
         | Inr original \<Rightarrow>
           (let d1 = ret_interfere e 1 d0 in
            case existing_retry_child (retry_key k) k d1 of
              Inl x \<Rightarrow> (Inl x, d1, fs)
            | Inr (Some i) \<Rightarrow> answer i d1 fs
            | Inr None \<Rightarrow>
              (let d2 = (if org_pipeline_type original \<noteq> DATASET_DELETE then ret_interfere e 2 d1 else d1);
                   barrier = (if org_pipeline_type original \<noteq> DATASET_DELETE
                              then raise_if_dataset_administratively_blocked (org_dataset_id original) d2
                              else Inr ())
               in case barrier of
                    Inl x \<Rightarrow> (Inl x, d2, fs)
                  | Inr _ \<Rightarrow>
                    (case retry_submit svc e k original fs d2 of
                       (Inl x, d3, fs') \<Rightarrow> (Inl x, d3, fs')
                     | (Inr i, d3, fs') \<Rightarrow> answer i d3 fs'))))"

subsection \<open>Administrative dataset delete\<close>

definition DEFAULT_DATASET_SLUG :: string where "DEFAULT_DATASET_SLUG = ''main''"

definition DATASET_DELETE_RESULT_METRIC_KEY :: string where
  "DATASET_DELETE_RESULT_METRIC_KEY = ''dataset_delete_result''"

definition dataset_not_found_error :: exn where
  "dataset_not_found_error = Sofias_Memory_Error INVALID_REQUEST NOT_FOUND"

definition main_dataset_delete_forbidden_error :: exn where
  "main_dataset_delete_forbidden_error = Sofias_Memory_Error MAIN_DATASET_DELETE_FORBIDDEN CONFLICT"

definition dataset_deleting_awaiting_retry_error :: exn where
  "dataset_deleting_awaiting_retry_error = Sofias_Memory_Error DATASET_DELETING CONFLICT"

record dataset_delete_result =
  ddr_run_id :: uuid
  ddr_dataset_id :: uuid
  ddr_status :: run_status
  ddr_counters :: "json option"
  ddr_http_status :: nat

text \<open>The metric object the counters are read from; the conversion of its nine counters to
  \<open>int\<close> is not modelled.\<close>

definition counters_from_metrics :: "pipeline_run \<Rightarrow> json option" where
  "counters_from_metrics r =
     (if run_status r \<noteq> Run_SUCCEEDED then None
      else (case json_get DATASET_DELETE_RESULT_METRIC_KEY (run_metrics r) of
              Some (JObj kvs) \<Rightarrow> Some (JObj kvs)
            | _ \<Rightarrow> None))"

definition delete_run_result :: "pipeline_run \<Rightarrow> nat \<Rightarrow> exn + dataset_delete_result" where
  "delete_run_result r http =
     (case run_dataset_id r of
        None \<Rightarrow> Inl Assertion_Error
      | Some ds \<Rightarrow> Inr \<lparr>ddr_run_id = run_id r, ddr_dataset_id = ds, ddr_status = run_status r,
          ddr_counters = counters_from_metrics r, ddr_http_status = http\<rparr>)"

text \<open>The deciding transaction: an answer about an existing run, or the id of a new one.\<close>

definition request_delete_body ::
  "submission_service \<Rightarrow> submission_env \<Rightarrow> uuid \<Rightarrow> db \<Rightarrow>
   exn + ((dataset_delete_result + uuid) \<times> db)" where
  "request_delete_body svc env ds d =
     (case get_dataset ds d of
        None \<Rightarrow> Inl dataset_not_found_error
      | Some dataset \<Rightarrow>
        if dataset_slug dataset = DEFAULT_DATASET_SLUG then Inl main_dataset_delete_forbidden_error
        else if dataset_status dataset = Dataset_DELETED then
          (case find_latest_dataset_delete_for_dataset ds d of
             None \<Rightarrow> Inl Assertion_Error
           | Some latest \<Rightarrow> bindE (delete_run_result latest OK) (\<lambda>res. Inr (Inl res, d)))
        else
          (case find_nonterminal_dataset_delete_for_dataset ds d of
             Some existing \<Rightarrow> bindE (delete_run_result existing ACCEPTED) (\<lambda>res. Inr (Inl res, d))
           | None \<Rightarrow>
             if dataset_status dataset = Dataset_DELETING then Inl dataset_deleting_awaiting_retry_error
             else if \<not> worker_available env then Inl worker_disabled_error
             else
               (let work_input = JObj [(ascii ''dataset_id'', json_str (uuid_str ds))] in
                bindE (build_step_plan (sub_py env) (sub_registry svc) DATASET_DELETE work_input) (\<lambda>plans.
                bindE (canonical_work_payload_hash (sub_py env) work_input) (\<lambda>payload_hash.
                bindE (create_run_with_steps (sub_fresh_run_id env) (sub_fresh_step_id env) (sub_now env)
                         DATASET_DELETE (Some ds) None None payload_hash work_input
                         (sub_config_fingerprint svc) plans None None d)
                  (\<lambda>(run, d'). Inr (Inr (run_id run), d')))))))"

definition request_delete ::
  "submission_service \<Rightarrow> submission_env \<Rightarrow> uuid \<Rightarrow> db \<Rightarrow> dataset_delete_result tx" where
  "request_delete svc env ds d =
     (case run_tx (request_delete_body svc env ds) (sub_interfere env 1 d) of
        (Inl e, d1) \<Rightarrow> (Inl e, d1)
      | (Inr (Inl res), d1) \<Rightarrow> (Inr res, d1)
      | (Inr (Inr k), d1) \<Rightarrow>
          (let d2 = sub_interfere env 3 d1 in
           case get_run k d2 of
             None \<Rightarrow> (Inl Assertion_Error, d2)
           | Some r \<Rightarrow> (delete_run_result r ACCEPTED, d2)))"

subsection \<open>Waiting for a terminal state\<close>

text \<open>The \<open>i\<close>-th iteration reads the database \<open>wt_db i\<close> and then the loop clock
  \<open>wt_clock i\<close>, in seconds; the first argument is fuel, and \<open>None\<close> is a loop still waiting.\<close>

record wait_env =
  wt_db :: "nat \<Rightarrow> db"
  wt_start :: rat
  wt_clock :: "nat \<Rightarrow> rat"

record wait_outcome =
  wo_run_id :: uuid
  wo_status :: run_status
  wo_timed_out :: bool

definition read_status :: "uuid \<Rightarrow> db \<Rightarrow> run_status option" where
  "read_status k d = map_option run_status (get_run k d)"

fun wait_loop :: "nat \<Rightarrow> nat \<Rightarrow> wait_env \<Rightarrow> uuid \<Rightarrow> rat \<Rightarrow> (exn + wait_outcome) option" where
  "wait_loop 0 i e k deadline = None"
| "wait_loop (Suc fuel) i e k deadline =
     (case read_status k (wt_db e i) of
        None \<Rightarrow> Some (Inl (Run_Not_Found_During_Wait k))
      | Some st \<Rightarrow>
        if st \<in> set TERMINAL_RUN_STATUSES
        then Some (Inr \<lparr>wo_run_id = k, wo_status = st, wo_timed_out = False\<rparr>)
        else if deadline - wt_clock e i \<le> 0
        then Some (Inr \<lparr>wo_run_id = k, wo_status = st, wo_timed_out = True\<rparr>)
        else wait_loop fuel (Suc i) e k deadline)"

definition wait_for_terminal :: "nat \<Rightarrow> wait_env \<Rightarrow> uuid \<Rightarrow> rat \<Rightarrow> (exn + wait_outcome) option" where
  "wait_for_terminal fuel e k timeout_seconds = wait_loop fuel 0 e k (wt_start e + timeout_seconds)"

end
