(* ===== verification/Engine_Liveness.thy ===== *)
theory Engine_Liveness
  imports Engine_Facts
begin

text \<open>
  Liveness of the engine: a run whose plan has been validated and whose pending steps are clean
  (their inputs resolve, their code succeeds, their writes succeed) is driven to SUCCEEDED, with
  every step SUCCEEDED and progress 1, whether it starts fresh or resumes after any number of
  already succeeded steps.
\<close>

lemma row_put_middle:
  "distinct (map key (xs @ y # ys)) \<Longrightarrow> key r = key y \<Longrightarrow> row_put key r (xs @ y # ys) = xs @ r # ys"
proof -
  assume d: "distinct (map key (xs @ y # ys))" and k: "key r = key y"
  then have "row_put key r xs = xs" "row_put key r ys = ys" by (auto intro!: row_put_absent simp: image_iff)
  with k show ?thesis by (simp add: row_put_def)
qed

definition quiet_engine :: "engine_env \<Rightarrow> bool" where
  "quiet_engine env \<longleftrightarrow> (\<forall>ph d. eng_interfere env ph d = d) \<and> (\<forall>n. \<not> eng_stop env n)"

text \<open>The pending steps run clean from the outputs accumulated so far.\<close>

fun clean_steps ::
  "py_env \<Rightarrow> claimed_run \<Rightarrow> uuid option \<Rightarrow> json \<Rightarrow> pipeline_step list \<Rightarrow> step_definition list \<Rightarrow>
   (string \<Rightarrow> json option) \<Rightarrow> bool" where
  "clean_steps E c src inp [] [] outs = True"
| "clean_steps E c src inp (s # ss) (sd # sds) outs =
     (case compute_input_hash E sd inp outs of
        Inr (Some h) \<Rightarrow>
          (step_input_hash s = None \<or> step_input_hash s = Some h) \<and> step_name s = sd_name sd
          \<and> (case sd_execute sd (context_of c src inp outs) of
               Inr res \<Rightarrow>
                 (\<forall>d. isOk (sd_persist sd (context_of c src inp outs) res d))
                 \<and> clean_steps E c src inp ss sds (outs(step_name s \<mapsto> result_output res))
             | Inl _ \<Rightarrow> False)
      | _ \<Rightarrow> False)"
| "clean_steps E c src inp _ _ outs = False"

definition mid_run :: "claimed_run \<Rightarrow> db \<Rightarrow> pipeline_step list \<Rightarrow> pipeline_step list \<Rightarrow> bool" where
  "mid_run c d fin pending \<longleftrightarrow>
     (\<exists>run. get_run (claimed_run_id c) d = Some run \<and> owns c run \<and> run_status run = Run_RUNNING)
     \<and> keyed run_id (pipeline_runs d) \<and> keyed step_id (pipeline_steps d)
     \<and> list_for_run (claimed_run_id c) d = fin @ pending
     \<and> (\<forall>s \<in> set fin. step_status s = Step_SUCCEEDED)
     \<and> (\<forall>s \<in> set pending. step_status s = Step_QUEUED)"

definition step_started :: "timestamp \<Rightarrow> string \<Rightarrow> pipeline_step \<Rightarrow> pipeline_step" where
  "step_started now h s = s\<lparr>step_input_hash := Some h, step_attempt := step_attempt s + 1,
     step_started_at := Some now, step_finished_at := None, step_status := Step_RUNNING\<rparr>"

definition step_done :: "timestamp \<Rightarrow> step_result \<Rightarrow> pipeline_step \<Rightarrow> pipeline_step" where
  "step_done now res s = s\<lparr>step_finished_at := Some now, step_output := result_output res,
     step_metrics := result_metrics res, step_status := Step_SUCCEEDED\<rparr>"

lemma step_started_simps [simp]:
  "step_id (step_started now h s) = step_id s" "step_run_id (step_started now h s) = step_run_id s"
  "step_ordinal (step_started now h s) = step_ordinal s" "step_name (step_started now h s) = step_name s"
  "step_status (step_started now h s) = Step_RUNNING" "step_attempt (step_started now h s) = step_attempt s + 1"
  by (simp_all add: step_started_def)

lemma step_done_simps [simp]:
  "step_id (step_done now res s) = step_id s" "step_run_id (step_done now res s) = step_run_id s"
  "step_ordinal (step_done now res s) = step_ordinal s" "step_status (step_done now res s) = Step_SUCCEEDED"
  "step_name (step_done now res s) = step_name s" "step_output (step_done now res s) = result_output res"
  by (simp_all add: step_done_def)

lemma snapshot_simps [simp]:
  "snap_id (snapshot_of s) = step_id s" "snap_name (snapshot_of s) = step_name s"
  "snap_ordinal (snapshot_of s) = step_ordinal s" "snap_status (snapshot_of s) = step_status s"
  "snap_input_hash (snapshot_of s) = step_input_hash s" "snap_output (snapshot_of s) = step_output s"
  by (simp_all add: snapshot_of_def)

lemma checkpoint_starts:
  assumes run: "get_run (claimed_run_id c) d = Some run" "owns c run" "run_status run = Run_RUNNING"
    and s: "get_step (snap_id snap) d = Some s" "step_status s = Step_QUEUED"
    and h: "compute_input_hash (eng_py env) sd inp outs = Inr (Some h)"
      "step_input_hash s = None \<or> step_input_hash s = Some h"
    and go: "\<not> eng_stop env (snap_ordinal snap)"
  shows "checkpoint_body env c snap sd inp outs d =
    Inr (Check_Attempt (step_attempt s + 1),
      put_step (step_started (eng_now env (Ph_Checkpoint (snap_ordinal snap))) h s)
        (put_run (run\<lparr>run_current_step := Some (step_name s)\<rparr>) d))"
  using assms
  by (cases s) (auto simp: checkpoint_body_def Let_def transition_step_def validate_step_transition_def
      STEP_TRANSITIONS_def step_started_def)

lemma transition_step_done:
  "step_status s = Step_RUNNING \<Longrightarrow>
   transition_step s Step_SUCCEEDED now (Some (result_output res)) (Some (result_metrics res)) None
     = Inr (step_done now res s)"
  by (simp add: transition_step_def validate_step_transition_def STEP_TRANSITIONS_def step_done_def upd_opt_def)

lemma success_commits:
  assumes f: "load_fenced_running_step c sid a d = Inr (Some \<lparr>fenced_run = run, fenced_row = s, fenced_cancelling = False\<rparr>)"
    and s: "step_status s = Step_RUNNING" and p: "sd_persist sd ctx res d = Inr d1"
    and n: "n + 1 \<le> tot"
  shows "commit_success_body env c sid a res n tot sd ctx now d =
    (let run1 = run\<lparr>run_progress := of_nat (n + 1) / of_nat tot\<rparr>; d2 = put_step (step_done now res s) d1 in
     if n + 1 = tot
     then bindE (transition_run run1 Run_SUCCEEDED now None None None None)
            (\<lambda>run2. Inr (Inr (Persist_Terminal Run_SUCCEEDED), put_run run2 d2))
     else Inr (Inr (Persist_Output (result_output res)), put_run run1 d2))"
proof -
  have "apply_run_progress run (of_nat (n + 1) / of_nat tot) = Inr (run\<lparr>run_progress := of_nat (n + 1) / of_nat tot\<rparr>)"
    using n by (simp add: apply_run_progress_def validate_progress_def divide_le_eq_1 not_less del: of_nat_Suc of_nat_add)
  then show ?thesis
    by (simp add: commit_success_body_def f p transition_step_done[OF s] Let_def
        del: of_nat_Suc of_nat_add)
qed

lemma keyed_of_ids:
  "run_ids d1 = run_ids d \<Longrightarrow> keyed run_id (pipeline_runs d1) = keyed run_id (pipeline_runs d)"
  "step_ids d1 = step_ids d \<Longrightarrow> keyed step_id (pipeline_steps d1) = keyed step_id (pipeline_steps d)"
  by (simp_all add: keyed_def run_ids_def step_ids_def)

lemma put_middle:
  assumes "keyed step_id (pipeline_steps d)" "list_for_run k d = xs @ s # ys"
    "step_id s' = step_id s" "step_run_id s' = step_run_id s" "step_ordinal s' = step_ordinal s"
  shows "list_for_run k (put_step s' d) = xs @ s' # ys"
proof -
  have "s \<in> set (list_for_run k d)" using assms(2) by simp
  then have "s \<in> set (pipeline_steps d)" by (simp add: set_list_for_run)
  then have "list_for_run k (put_step s' d) = row_put step_id s' (xs @ s # ys)"
    using list_for_run_put_step[OF assms(1) _ assms(3-5)] assms(2) by simp
  also have "\<dots> = xs @ s' # ys"
    using distinct_list_for_run[OF assms(1), of k] assms(2,3) by (intro row_put_middle) simp_all
  finally show ?thesis .
qed

text \<open>One clean step: the checkpoint starts it, its outcome is committed.\<close>

lemma clean_step:
  assumes inv: "mid_run c d fin (s # rest)" and q: "quiet_engine env"
    and h: "compute_input_hash (eng_py env) sd inp outs = Inr (Some h)"
      "step_input_hash s = None \<or> step_input_hash s = Some h"
    and x: "sd_execute sd (context_of c src inp outs) = Inr res"
    and p: "\<forall>d. isOk (sd_persist sd (context_of c src inp outs) res d)"
    and pc: "persist_contract sd"
    and n: "n = length fin" "tot = length fin + length (s # rest)"
  obtains d1 a where "run_tx (checkpoint_body env c (snapshot_of s) sd inp outs) d = (Inr (Check_Attempt a), d1)"
    and "rest \<noteq> [] \<Longrightarrow> \<exists>d2 s'. persist_step_outcome env c (snapshot_of s) a
           (run_step sd (context_of c src inp outs)) n tot sd (context_of c src inp outs) d1
           = (Inr (Persist_Output (result_output res)), d2) \<and> mid_run c d2 (fin @ [s']) rest"
    and "rest = [] \<Longrightarrow> \<exists>d2 r'. persist_step_outcome env c (snapshot_of s) a
           (run_step sd (context_of c src inp outs)) n tot sd (context_of c src inp outs) d1
           = (Inr (Persist_Terminal Run_SUCCEEDED), d2) \<and> get_run (claimed_run_id c) d2 = Some r'
           \<and> run_status r' = Run_SUCCEEDED \<and> run_progress r' = 1
           \<and> (\<forall>s \<in> set (list_for_run (claimed_run_id c) d2). step_status s = Step_SUCCEEDED)"
proof -
  let ?k = "claimed_run_id c" and ?ctx = "context_of c src inp outs"
  obtain run where run: "get_run ?k d = Some run" "owns c run" "run_status run = Run_RUNNING"
    and keyed: "keyed run_id (pipeline_runs d)" "keyed step_id (pipeline_steps d)"
    and lst: "list_for_run ?k d = fin @ s # rest"
    and fin: "\<forall>s \<in> set fin. step_status s = Step_SUCCEEDED"
    and pend: "\<forall>s \<in> set (s # rest). step_status s = Step_QUEUED"
    using inv by (auto simp: mid_run_def)
  have sd: "s \<in> set (list_for_run ?k d)" using lst by simp
  then have gs: "get_step (step_id s) d = Some s" using get_step_list_for_run keyed(2) by blast
  define s1 where "s1 = step_started (eng_now env (Ph_Checkpoint (step_ordinal s))) h s"
  define run1 where "run1 = run\<lparr>run_current_step := Some (step_name s)\<rparr>"
  define d1 where "d1 = put_step s1 (put_run run1 d)"
  have rid: "run_id run = ?k" using run(1) get_run_SomeD by blast
  have cp: "run_tx (checkpoint_body env c (snapshot_of s) sd inp outs) d = (Inr (Check_Attempt (step_attempt s + 1)), d1)"
    unfolding run_tx_Inr d1_def s1_def run1_def
    using checkpoint_starts[OF run, of "snapshot_of s" s env sd inp outs h] gs h q pend
    by (simp add: quiet_engine_def)
  have r1: "get_run ?k d1 = Some run1"
    using get_run_put_run[of run1 d] get_run_in_ids[OF run(1)] rid by (simp add: d1_def run1_def)
  have k1: "keyed run_id (pipeline_runs d1)" "keyed step_id (pipeline_steps d1)"
    using keyed by (simp_all add: d1_def)
  have l1: "list_for_run ?k d1 = fin @ s1 # rest"
    unfolding d1_def using keyed lst by (intro put_middle) (simp_all add: s1_def)
  then have "s1 \<in> set (list_for_run ?k d1)" by simp
  then have g1: "get_step (step_id s) d1 = Some s1"
    using get_step_list_for_run[OF k1(2)] by (fastforce simp: s1_def)
  have own1: "owns c run1" "run_status run1 = Run_RUNNING" "run_id run1 = ?k"
    using run rid by (auto simp: owns_def is_owner_def run1_def)
  have fenced: "load_fenced_running_step c (step_id s) (step_attempt s + 1) d1 =
      Inr (Some \<lparr>fenced_run = run1, fenced_row = s1, fenced_cancelling = False\<rparr>)"
    using r1 g1 own1 by (simp add: load_fenced_running_step_def s1_def)
  obtain d2 where p2: "sd_persist sd ?ctx res d1 = Inr d2"
    using p by (metis isOk_simps(2) sum.exhaust)
  have ctx: "ctx_run_id ?ctx = ?k" by (simp add: context_of_def)
  have fr: "run_ids d2 = run_ids d1" "step_ids d2 = step_ids d1" "list_for_run ?k d2 = list_for_run ?k d1"
    "get_run ?k d2 = get_run ?k d1"
    using pc p2 unfolding persist_contract_def by (metis ctx)+
  define now where "now = eng_now env (Ph_Success (step_ordinal s))"
  define d3 where "d3 = put_step (step_done now res s1) d2"
  have k2: "keyed run_id (pipeline_runs d2)" "keyed step_id (pipeline_steps d2)"
    using k1 fr(1,2) keyed_of_ids by blast+
  have l3: "list_for_run ?k d3 = fin @ step_done now res s1 # rest"
    unfolding d3_def using k2 fr(3) l1 by (intro put_middle) simp_all
  have ids3: "?k \<in> set (run_ids d3)"
    using get_run_in_ids[OF r1] fr(1) by (simp add: d3_def)
  have commit: "commit_success_body env c (step_id s) (step_attempt s + 1) res n tot sd ?ctx now d1 =
     (let run2 = run1\<lparr>run_progress := of_nat (n + 1) / of_nat tot\<rparr> in
      if n + 1 = tot
      then bindE (transition_run run2 Run_SUCCEEDED now None None None None)
             (\<lambda>r. Inr (Inr (Persist_Terminal Run_SUCCEEDED), put_run r d3))
      else Inr (Inr (Persist_Output (result_output res)), put_run run2 d3))"
    using success_commits[OF fenced _ p2, of n tot env now] n by (simp add: s1_def d3_def Let_def)
  have persist: "persist_step_outcome env c (snapshot_of s) (step_attempt s + 1) (run_step sd ?ctx) n tot sd ?ctx d1
      = (case run_tx (commit_success_body env c (step_id s) (step_attempt s + 1) res n tot sd ?ctx now) d1 of
           (Inl e, d') \<Rightarrow> (Inl e, d') | (Inr (Inr out), d') \<Rightarrow> (Inr out, d')
         | (Inr (Inl failure), d') \<Rightarrow> record_failure env c (snapshot_of s) (step_attempt s + 1) failure d')"
    using q x by (simp add: persist_step_outcome_def run_step_def Let_def quiet_engine_def now_def)
  show ?thesis
  proof (rule that[OF cp])
    assume "rest \<noteq> []"
    then have "n + 1 \<noteq> tot" using n by simp
    define run2 where "run2 = run1\<lparr>run_progress := of_nat (n + 1) / of_nat tot\<rparr>"
    have "get_run ?k (put_run run2 d3) = Some run2"
      using get_run_put_run[of run2 d3] ids3 own1 by (simp add: run2_def)
    moreover have "owns c run2" "run_status run2 = Run_RUNNING"
      using own1 by (auto simp: owns_def is_owner_def run2_def)
    ultimately have "mid_run c (put_run run2 d3) (fin @ [step_done now res s1]) rest"
      using k2 l3 fin pend by (auto simp: mid_run_def d3_def)
    with persist commit \<open>n + 1 \<noteq> tot\<close> show "\<exists>d2 s'. persist_step_outcome env c (snapshot_of s)
        (step_attempt s + 1) (run_step sd ?ctx) n tot sd ?ctx d1
           = (Inr (Persist_Output (result_output res)), d2) \<and> mid_run c d2 (fin @ [s']) rest"
      by (auto simp: run_tx_def Let_def run2_def)
  next
    assume "rest = []"
    then have tot: "n + 1 = tot" using n by simp
    define run2 where "run2 = run1\<lparr>run_progress := of_nat (n + 1) / of_nat tot\<rparr>"
    have prog: "run_progress run2 = 1" using tot by (simp add: run2_def)
    define run3 where "run3 = run2\<lparr>run_finished_at := Some now, run_next_attempt_at := None, run_status := Run_SUCCEEDED\<rparr>"
    have tr: "transition_run run2 Run_SUCCEEDED now None None None None = Inr run3"
      using own1 by (simp add: transition_run_def validate_run_transition_def RUN_TRANSITIONS_def run2_def run3_def)
    have "get_run ?k (put_run run3 d3) = Some run3"
      using get_run_put_run[of run3 d3] ids3 own1 by (simp add: run3_def run2_def)
    with persist commit tot tr prog l3 fin \<open>rest = []\<close> show "\<exists>d2 r'. persist_step_outcome env c (snapshot_of s)
        (step_attempt s + 1) (run_step sd ?ctx) n tot sd ?ctx d1
           = (Inr (Persist_Terminal Run_SUCCEEDED), d2) \<and> get_run ?k d2 = Some r'
           \<and> run_status r' = Run_SUCCEEDED \<and> run_progress r' = 1
           \<and> (\<forall>s \<in> set (list_for_run ?k d2). step_status s = Step_SUCCEEDED)"
      by (auto simp: run_tx_def Let_def run2_def run3_def)
  qed
qed


lemma step_by_name_distinct:
  assumes "distinct (map sd_name sds)" "sd \<in> set sds"
  shows "step_by_name sds (sd_name sd) = Some sd"
proof -
  have "map fst (map (\<lambda>sd. (sd_name sd, sd)) sds) = map sd_name sds" by simp
  with assms(1) have "map_of (rev (map (\<lambda>sd. (sd_name sd, sd)) sds)) = map_of (map (\<lambda>sd. (sd_name sd, sd)) sds)"
    by (intro map_of_inject_set[THEN iffD2]) (simp_all add: rev_map[symmetric] o_def)
  moreover have "map_of (map (\<lambda>sd. (sd_name sd, sd)) sds) (sd_name sd) = Some sd"
    using assms by (intro map_of_is_SomeI) (auto simp: o_def)
  ultimately show ?thesis by (simp add: step_by_name_def)
qed

definition finished_ok :: "claimed_run \<Rightarrow> db \<Rightarrow> bool" where
  "finished_ok c d \<longleftrightarrow> (\<exists>r. get_run (claimed_run_id c) d = Some r \<and> run_status r = Run_SUCCEEDED
     \<and> run_progress r = 1)
     \<and> (\<forall>s \<in> set (list_for_run (claimed_run_id c) d). step_status s = Step_SUCCEEDED)"

lemma run_pending_clean:
  assumes q: "quiet_engine env" and names: "distinct (map sd_name (pd_steps pd))"
    and pc: "persist_contracts pd"
    and "mid_run c d fin pending" "pending \<noteq> []"
    and "clean_steps (eng_py env) c src inp pending (drop (length fin) (pd_steps pd)) outs"
    and "length fin + length pending = length (pd_steps pd)"
  shows "\<exists>d'. run_pending env c pd src inp (map snapshot_of pending) outs (length fin) d
      = (Inr (Exec_Status Run_SUCCEEDED), d') \<and> finished_ok c d'"
  using assms(4-)
proof (induction pending arbitrary: fin d outs)
  case (Cons s rest)
  obtain sd sds where sds: "drop (length fin) (pd_steps pd) = sd # sds"
    using Cons.prems(4) by (cases "drop (length fin) (pd_steps pd)") auto
  have rest_sds: "drop (Suc (length fin)) (pd_steps pd) = sds"
    using sds by (metis drop_Suc list.sel(3) tl_drop)
  have mem: "sd \<in> set (pd_steps pd)" using sds by (metis in_set_dropD list.set_intros(1))
  obtain h res where
    h: "compute_input_hash (eng_py env) sd inp outs = Inr (Some h)"
       "step_input_hash s = None \<or> step_input_hash s = Some h" "step_name s = sd_name sd"
    and x: "sd_execute sd (context_of c src inp outs) = Inr res"
    and p: "\<forall>d. isOk (sd_persist sd (context_of c src inp outs) res d)"
    and cs: "clean_steps (eng_py env) c src inp rest sds (outs(step_name s \<mapsto> result_output res))"
    using Cons.prems(3) by (auto simp: sds split: sum.splits option.splits)
  have by_name: "step_by_name (pd_steps pd) (step_name s) = Some sd"
    using step_by_name_distinct[OF names mem] h(3) by simp
  have pcs: "persist_contract sd" using pc mem by (simp add: persist_contracts_def)
  have tot: "length (pd_steps pd) = length fin + length (s # rest)" using Cons.prems(4) by simp
  have int: "\<And>ph d. eng_interfere env ph d = d" using q by (simp add: quiet_engine_def)
  obtain d1 a where cp: "run_tx (checkpoint_body env c (snapshot_of s) sd inp outs) d = (Inr (Check_Attempt a), d1)"
    and more: "rest \<noteq> [] \<Longrightarrow> \<exists>d2 s'. persist_step_outcome env c (snapshot_of s) a
           (run_step sd (context_of c src inp outs)) (length fin) (length (pd_steps pd)) sd (context_of c src inp outs) d1
           = (Inr (Persist_Output (result_output res)), d2) \<and> mid_run c d2 (fin @ [s']) rest"
    and last: "rest = [] \<Longrightarrow> \<exists>d2 r'. persist_step_outcome env c (snapshot_of s) a
           (run_step sd (context_of c src inp outs)) (length fin) (length (pd_steps pd)) sd (context_of c src inp outs) d1
           = (Inr (Persist_Terminal Run_SUCCEEDED), d2) \<and> get_run (claimed_run_id c) d2 = Some r'
           \<and> run_status r' = Run_SUCCEEDED \<and> run_progress r' = 1
           \<and> (\<forall>s \<in> set (list_for_run (claimed_run_id c) d2). step_status s = Step_SUCCEEDED)"
    by (rule clean_step[OF Cons.prems(1) q h(1,2) x p pcs refl tot]) (rule that, assumption+)
  show ?case
  proof (cases "rest = []")
    case True
    with last cp by_name show ?thesis by (force simp: int Let_def finished_ok_def)
  next
    case False
    then obtain d2 s' where ps: "persist_step_outcome env c (snapshot_of s) a
           (run_step sd (context_of c src inp outs)) (length fin) (length (pd_steps pd)) sd (context_of c src inp outs) d1
           = (Inr (Persist_Output (result_output res)), d2)" and mid: "mid_run c d2 (fin @ [s']) rest"
      using more by blast
    have "\<exists>d'. run_pending env c pd src inp (map snapshot_of rest) (outs(step_name s \<mapsto> result_output res))
        (length (fin @ [s'])) d2 = (Inr (Exec_Status Run_SUCCEEDED), d') \<and> finished_ok c d'"
    proof (rule Cons.IH[OF mid False])
      show "clean_steps (eng_py env) c src inp rest (drop (length (fin @ [s'])) (pd_steps pd))
          (outs(step_name s \<mapsto> result_output res))"
        unfolding length_append_singleton rest_sds by (rule cs)
    qed (use Cons.prems(4) in simp)
    with cp ps by_name show ?thesis by (simp add: int Let_def)
  qed
qed simp

lemma prepare_ready:
  assumes "mid_run c d fin pending" "get_run (claimed_run_id c) d = Some run"
    and "validate_plan (eng_py env) pd (map snapshot_of (fin @ pending)) (run_input run)
      = Inr (None, outs, Some (length fin))"
  shows "prepare_body env c pd d = Inr (Prep_Ready (run_input run) (run_source_id run) outs
    (map snapshot_of pending), d)"
proof -
  have "run_id run = claimed_run_id c" using assms(2) get_run_SomeD by blast
  moreover have "owns c run" "run_status run = Run_RUNNING"
    "list_for_run (claimed_run_id c) d = fin @ pending"
    using assms(1,2) by (auto simp: mid_run_def)
  ultimately show ?thesis using assms(2,3)
    by (simp add: prepare_body_def Let_def drop_map)
qed

lemma execute_clean:
  assumes "quiet_engine env" "registry_get reg (claimed_pipeline_type c) = Inr pd"
    "wf_definition pd" "persist_contracts pd"
    and "mid_run c d fin pending" "pending \<noteq> []" "get_run (claimed_run_id c) d = Some run"
    and "validate_plan (eng_py env) pd (map snapshot_of (fin @ pending)) (run_input run)
      = Inr (None, outs, Some (length fin))"
    and "clean_steps (eng_py env) c (run_source_id run) (run_input run) pending
      (drop (length fin) (pd_steps pd)) outs"
    and "length fin + length pending = length (pd_steps pd)"
  shows "\<exists>d'. execute env reg c d = (Inr (Exec_Status Run_SUCCEEDED), d') \<and> finished_ok c d'"
proof -
  have "length (pd_steps pd) - length (map snapshot_of pending) = length fin" using assms(10) by simp
  moreover have "run_tx (prepare_body env c pd) (eng_interfere env Ph_Prepare d) =
      (Inr (Prep_Ready (run_input run) (run_source_id run) outs (map snapshot_of pending)), d)"
    using prepare_ready[OF assms(5,7,8)] assms(1) by (simp add: run_tx_Inr quiet_engine_def)
  moreover have "\<exists>d'. run_pending env c pd (run_source_id run) (run_input run) (map snapshot_of pending)
      outs (length fin) d = (Inr (Exec_Status Run_SUCCEEDED), d') \<and> finished_ok c d'"
    using wf_definition_names[OF assms(3)] assms by (intro run_pending_clean) auto
  ultimately show ?thesis using assms(2) by (simp add: execute_def)
qed

subsection \<open>A fresh plan always validates\<close>

definition plan_rows :: "uuid \<Rightarrow> (nat \<Rightarrow> uuid) \<Rightarrow> nat \<Rightarrow> step_plan list \<Rightarrow> pipeline_step list" where
  "plan_rows rid sid n plans = map (\<lambda>(i, p). new_step (sid i) rid p) (enumerate n plans)"

lemma plan_rows_simps [simp]:
  "plan_rows rid sid n [] = []"
  "plan_rows rid sid n (p # ps) = new_step (sid n) rid p # plan_rows rid sid (Suc n) ps"
  by (simp_all add: plan_rows_def)

lemma validate_fresh:
  "plan_steps E inp (int n) sds = Inr plans \<Longrightarrow>
   validate_steps E inp n (map snapshot_of (plan_rows rid sid n plans)) sds (\<lambda>_. None) seen first =
     Inr (None, (\<lambda>_. None), if first = None \<and> sds \<noteq> [] then Some n else first)"
proof (induction sds arbitrary: n plans seen first)
  case Nil
  then show ?case by simp
next
  case (Cons sd sds)
  obtain h rest where h: "compute_input_hash E sd inp (\<lambda>_. None) = Inr h"
    and rest: "plan_steps E inp (int (Suc n)) sds = Inr rest"
    and plans: "plans = \<lparr>plan_name = sd_name sd, plan_ordinal = int n, plan_input_hash = h\<rparr> # rest"
    using Cons.prems by (auto simp: bindE_eq_Inr_iff add.commute)
  show ?case using Cons.IH[OF rest] by (auto simp: plans h new_step_def)
qed

lemma plan_rows_length: "length (plan_rows rid sid n plans) = length plans"
  by (simp add: plan_rows_def)

lemma validate_fresh_plan:
  assumes "plan_steps E inp 0 (pd_steps pd) = Inr plans" "pd_steps pd \<noteq> []"
  shows "validate_plan E pd (map snapshot_of (plan_rows rid sid 0 plans)) inp = Inr (None, (\<lambda>_. None), Some 0)"
proof -
  have "length plans = length (pd_steps pd)"
    using plan_steps_shape[OF assms(1)] by (metis length_map)
  then show ?thesis
    using validate_fresh[of E inp 0 "pd_steps pd" plans] assms
    by (simp add: validate_plan_def plan_rows_length)
qed


subsection \<open>A concrete pipeline\<close>

definition demo_result :: step_result where
  "demo_result = \<lparr>result_output = JObj [(ascii ''n'', JInt 1)], result_metrics = json_empty\<rparr>"

definition demo_step :: "string \<Rightarrow> (pipeline_context \<Rightarrow> step_exception + step_result) \<Rightarrow> step_definition" where
  "demo_step name ex = \<lparr>sd_name = name, sd_definition_id = name @ ''.v1'', sd_execute = ex,
     sd_persist = no_op_persist, sd_input_deriver = (\<lambda>inp outs. Some inp),
     sd_recovery_mode = ATOMIC, sd_reconcile = None\<rparr>"

definition demo_pipeline :: pipeline_definition where
  "demo_pipeline = \<lparr>pd_pipeline_type = REMEMBER,
     pd_steps = [demo_step ''parse'' (\<lambda>_. Inr demo_result), demo_step ''embed'' (\<lambda>_. Inr demo_result)]\<rparr>"

definition demo_py :: py_env where
  "demo_py = \<lparr>sha256_hexdigest = (\<lambda>bs. ''h''), float_repr = (\<lambda>_. [])\<rparr>"

definition demo_engine :: engine_env where
  "demo_engine = \<lparr>eng_now = (\<lambda>_. 10), eng_interfere = (\<lambda>_ d. d), eng_stop = (\<lambda>_. False),
     eng_py = demo_py, eng_retry = default_retry_policy 0\<rparr>"

definition demo_token :: claimed_run where
  "demo_token = claim_of (demo_run 1 REMEMBER (Some 7)) ''wk''"

text \<open>The first step already succeeded before a crash; the second is still queued.\<close>

definition demo_fin :: pipeline_step where
  "demo_fin = step_done 9 demo_result (step_started 9 ''h''
     (new_step 20 1 \<lparr>plan_name = ''parse'', plan_ordinal = 0, plan_input_hash = Some ''h''\<rparr>))"

definition demo_pending :: pipeline_step where
  "demo_pending = new_step 21 1 \<lparr>plan_name = ''embed'', plan_ordinal = 1, plan_input_hash = None\<rparr>"

definition demo_claimed_db :: db where
  "demo_claimed_db = (demo_db [started (demo_run 1 REMEMBER (Some 7)) 9 ''wk''])
     \<lparr>pipeline_steps := [demo_fin, demo_pending]\<rparr>"

lemma demo_pipeline_ok: "wf_definition demo_pipeline" "persist_contracts demo_pipeline"
  by (code_simp, auto simp: persist_contracts_def demo_pipeline_def demo_step_def
      intro!: no_op_persist_contract)

lemma demo_list: "list_for_run 1 demo_claimed_db = [demo_fin] @ [demo_pending]"
  by code_simp

lemma demo_get: "get_run 1 demo_claimed_db = Some (started (demo_run 1 REMEMBER (Some 7)) 9 ''wk'')"
  by code_simp

lemma demo_token_id [simp]: "claimed_run_id demo_token = 1" "claimed_pipeline_type demo_token = REMEMBER"
  by code_simp+

lemma demo_mid: "mid_run demo_token demo_claimed_db [demo_fin] [demo_pending]"
  unfolding mid_run_def demo_token_id demo_list demo_get
  by (simp add: demo_claimed_db_def demo_db_def keyed_def) code_simp

lemma demo_validated:
  "validate_plan demo_py demo_pipeline (map snapshot_of ([demo_fin] @ [demo_pending])) json_empty
   = Inr (None, (\<lambda>_. None)(''parse'' \<mapsto> result_output demo_result), Some 1)"
  by (simp add: validate_plan_def demo_pipeline_def demo_step_def demo_fin_def demo_pending_def
      new_step_def compute_input_hash_def canonical_step_input_hash_def demo_py_def
      canonical_json_def utf8_ascii ascii_dumps Let_def step_done_def step_started_def)


subsection \<open>Properties\<close>

text \<open>A run that owns its scope, whose persisted plan validates against the registry after any
  number of already succeeded steps, and whose remaining steps resolve, execute and persist, is
  driven to SUCCEEDED: the engine returns that status, the run row has it with progress 1, and
  every step is SUCCEEDED.  No step that had already succeeded is executed again.\<close>

theorem clean_run_succeeds:
  assumes "quiet_engine env" "registry_get reg (claimed_pipeline_type c) = Inr pd"
    and "wf_definition pd" "persist_contracts pd"
    and "mid_run c d fin pending" "pending \<noteq> []" "get_run (claimed_run_id c) d = Some run"
    and "validate_plan (eng_py env) pd (map snapshot_of (fin @ pending)) (run_input run)
      = Inr (None, outs, Some (length fin))"
    and "clean_steps (eng_py env) c (run_source_id run) (run_input run) pending
      (drop (length fin) (pd_steps pd)) outs"
    and "length fin + length pending = length (pd_steps pd)"
  shows "\<exists>d' r. execute env reg c d = (Inr (Exec_Status Run_SUCCEEDED), d')
    \<and> get_run (claimed_run_id c) d' = Some r \<and> run_status r = Run_SUCCEEDED \<and> run_progress r = 1
    \<and> (\<forall>s \<in> set (list_for_run (claimed_run_id c) d'). step_status s = Step_SUCCEEDED)"
  using execute_clean[OF assms] unfolding finished_ok_def by blast

definition demo_registry :: registry where
  "demo_registry = [(REMEMBER, demo_pipeline)]"

lemma demo_quiet: "quiet_engine demo_engine"
  by (simp add: quiet_engine_def demo_engine_def)

lemma demo_clean:
  "clean_steps demo_py demo_token None json_empty [demo_pending] (drop 1 (pd_steps demo_pipeline))
     ((\<lambda>_. None)(''parse'' \<mapsto> result_output demo_result))"
  by (simp add: demo_pipeline_def demo_step_def demo_pending_def new_step_def compute_input_hash_def
      canonical_step_input_hash_def demo_py_def canonical_json_def utf8_ascii ascii_dumps Let_def
      no_op_persist_def)

lemma demo_started_fields [simp]:
  "run_input (started (demo_run k t ds) now w) = json_empty"
  "run_source_id (started (demo_run k t ds) now w) = None"
  by (simp_all add: started_def demo_run_def new_run_def)

theorem clean_run_succeeds_witness:
  "\<exists>d'. execute demo_engine demo_registry demo_token demo_claimed_db = (Inr (Exec_Status Run_SUCCEEDED), d')"
proof -
  have py: "eng_py demo_engine = demo_py" by (simp add: demo_engine_def)
  have reg: "registry_get demo_registry (claimed_pipeline_type demo_token) = Inr demo_pipeline"
    by (simp add: registry_get_def demo_registry_def)
  have get: "get_run (claimed_run_id demo_token) demo_claimed_db = Some (started (demo_run 1 REMEMBER (Some 7)) 9 ''wk'')"
    by (simp only: demo_token_id demo_get)
  have v: "validate_plan (eng_py demo_engine) demo_pipeline (map snapshot_of ([demo_fin] @ [demo_pending]))
      (run_input (started (demo_run 1 REMEMBER (Some 7)) 9 ''wk''))
      = Inr (None, (\<lambda>_. None)(''parse'' \<mapsto> result_output demo_result), Some (length [demo_fin]))"
    using demo_validated by (simp only: py demo_started_fields list.size add_0 One_nat_def)
  have cl: "clean_steps (eng_py demo_engine) demo_token (run_source_id (started (demo_run 1 REMEMBER (Some 7)) 9 ''wk''))
      (run_input (started (demo_run 1 REMEMBER (Some 7)) 9 ''wk'')) [demo_pending]
      (drop (length [demo_fin]) (pd_steps demo_pipeline)) ((\<lambda>_. None)(''parse'' \<mapsto> result_output demo_result))"
    using demo_clean by (simp only: py demo_started_fields list.size add_0 One_nat_def)
  have ne: "[demo_pending] \<noteq> []" and len: "length [demo_fin] + length [demo_pending] = length (pd_steps demo_pipeline)"
    by (simp_all add: demo_pipeline_def)
  show ?thesis
    using clean_run_succeeds[OF demo_quiet reg demo_pipeline_ok demo_mid ne get v cl len] by blast
qed

lemma demo_execution:
  "execute demo_engine demo_registry demo_token demo_claimed_db =
   (Inr (Exec_Status Run_SUCCEEDED), snd (execute demo_engine demo_registry demo_token demo_claimed_db))"
proof -
  have "fst (execute demo_engine demo_registry demo_token demo_claimed_db) = Inr (Exec_Status Run_SUCCEEDED)"
    by code_simp
  then show ?thesis by (metis prod.collapse)
qed

theorem engine_reports_persisted_status_witness:
  "\<exists>r'. get_run 1 (snd (execute demo_engine demo_registry demo_token demo_claimed_db)) = Some r'
     \<and> run_status r' = Run_SUCCEEDED"
  using engine_reports_persisted_status[OF demo_execution] demo_pipeline_ok(2)
  by (auto simp: demo_registry_def)

definition demo_requeued :: pipeline_run where
  "demo_requeued = (started (demo_run 1 REMEMBER (Some 7)) 9 ''wk'')\<lparr>run_status := Run_QUEUED\<rparr>"

theorem superseded_token_writes_nothing_witness:
  "prepare_body demo_engine demo_token demo_pipeline (demo_db [started demo_requeued 20 ''wk''])
   = Inr (Prep_Abandoned, demo_db [started demo_requeued 20 ''wk''])"
proof -
  have "run_lease.evolves (started (demo_run 1 REMEMBER (Some 7)) 9 ''wk'') demo_requeued"
    by (rule run_lease.evolves_other[OF run_lease.evolves_refl]) (simp add: keeps_attempt_def demo_requeued_def)
  moreover have "claim_run_row (demo_run 1 REMEMBER (Some 7)) (9, ''wk'')
      = Some (started (demo_run 1 REMEMBER (Some 7)) 9 ''wk'', demo_token)"
    by (simp add: claim_run_row_def demo_token_def demo_run_def new_run_def)
  moreover have "claim_run_row demo_requeued (20, ''wk'') = Some (started demo_requeued 20 ''wk'', claim_of demo_requeued ''wk'')"
    by (simp add: claim_run_row_def demo_requeued_def)
  moreover have "get_run (claimed_run_id demo_token) (demo_db [started demo_requeued 20 ''wk'']) = Some (started demo_requeued 20 ''wk'')"
    by code_simp
  ultimately show ?thesis
    by (intro superseded_token_writes_nothing[OF _ _ _ run_lease.evolves_refl, THEN conjunct1])
qed

subsection \<open>Failure and retry\<close>

lemma failure_found:
  assumes "load_fenced_running_step c sid a d = Inr (Some f)"
  shows "claimed_run_id c = run_id (fenced_run f)" "sid = step_id (fenced_row f)"
    "sid \<in> set (step_ids d)" "claimed_run_id c \<in> set (run_ids d)"
proof -
  have r: "get_run (claimed_run_id c) d = Some (fenced_run f)" "get_step sid d = Some (fenced_row f)"
    using load_fenced_some[OF assms] by auto
  then show "claimed_run_id c = run_id (fenced_run f)" "sid = step_id (fenced_row f)"
    using get_run_SomeD get_step_SomeD by metis+
  show "sid \<in> set (step_ids d)" "claimed_run_id c \<in> set (run_ids d)"
    using r steps.get_mem get_run_in_ids by metis+
qed

text \<open>The retry decision.  A failed step of an owned RUNNING run is requeued only when the error
  is retryable and the run has attempts left; the run then waits exactly the policy's backoff and
  carries no error, while the step keeps the error of its last attempt.  In every other case both
  the step and the run become FAILED with that error, and no further attempt is scheduled.\<close>

theorem retry_decision:
  assumes "load_fenced_running_step c sid a d = Inr (Some f)" "\<not> fenced_cancelling f"
  shows "\<exists>d' r' s'. commit_failure_body env c sid a retryable code message now d
      = Inr (Persist_Terminal (run_status r'), d')
    \<and> get_run (claimed_run_id c) d' = Some r' \<and> get_step sid d' = Some s'
    \<and> step_error s' = Some (error_payload code message)
    \<and> (if retryable \<and> has_attempts_remaining (eng_retry env) (run_attempt (fenced_run f))
       then run_status r' = Run_QUEUED \<and> step_status s' = Step_QUEUED
         \<and> run_next_attempt_at r' = Some (now + timedelta_us (backoff_seconds (eng_retry env) (run_attempt (fenced_run f))))
         \<and> run_error_code r' = run_error_code (fenced_run f)
       else run_status r' = Run_FAILED \<and> step_status s' = Step_FAILED
         \<and> run_next_attempt_at r' = None \<and> run_error_code r' = Some code \<and> run_finished_at r' = Some now)"
proof -
  let ?r = "fenced_run f" and ?s = "fenced_row f" and ?e = "Some (error_payload code message)"
  note found = failure_found[OF assms(1)]
  have st: "run_status ?r = Run_RUNNING" "step_status ?s = Step_RUNNING"
    using load_fenced_some[OF assms(1)] assms(2) by (auto simp: operational_def)
  have put: "get_run (claimed_run_id c) (put_run r' (put_step s' d)) = Some r'
      \<and> get_step sid (put_run r' (put_step s' d)) = Some s'"
    if "run_id r' = run_id ?r" "step_id s' = step_id ?s" for r' s'
    using that found get_run_put_run[of r' "put_step s' d"] steps.get_put[of s' d] by simp
  show ?thesis
  proof (cases "retryable \<and> has_attempts_remaining (eng_retry env) (run_attempt ?r)")
    case True
    obtain s1 where s1: "transition_step ?s Step_QUEUED now None None ?e = Inr s1"
      "step_id s1 = step_id ?s" "step_status s1 = Step_QUEUED" "step_error s1 = ?e"
      using st by (simp add: transition_step_def validate_step_transition_def STEP_TRANSITIONS_def)
    let ?at = "Some (now + timedelta_us (backoff_seconds (eng_retry env) (run_attempt ?r)))"
    obtain r1 where r1: "transition_run ?r Run_QUEUED now None ?at None None = Inr r1"
      "run_id r1 = run_id ?r" "run_status r1 = Run_QUEUED" "run_next_attempt_at r1 = ?at"
      "run_error_code r1 = run_error_code ?r"
      using st by (simp add: transition_run_def validate_run_transition_def RUN_TRANSITIONS_def)
    show ?thesis using True assms s1 r1 put[of r1 s1]
      by (intro exI[of _ "put_run r1 (put_step s1 d)"] exI[of _ r1] exI[of _ s1])
        (simp add: commit_failure_body_def Let_def)
  next
    case False
    obtain s1 where s1: "transition_step ?s Step_FAILED now None None ?e = Inr s1"
      "step_id s1 = step_id ?s" "step_status s1 = Step_FAILED" "step_error s1 = ?e"
      using st by (simp add: transition_step_def validate_step_transition_def STEP_TRANSITIONS_def)
    obtain r1 where r1: "transition_run ?r Run_FAILED now None None (Some code) (Some message) = Inr r1"
      "run_id r1 = run_id ?r" "run_status r1 = Run_FAILED" "run_next_attempt_at r1 = None"
      "run_error_code r1 = Some code" "run_finished_at r1 = Some now"
      using st by (simp add: transition_run_def validate_run_transition_def RUN_TRANSITIONS_def)
    show ?thesis using False assms s1 r1 put[of r1 s1]
      by (intro exI[of _ "put_run r1 (put_step s1 d)"] exI[of _ r1] exI[of _ s1])
        (simp add: commit_failure_body_def Let_def, argo?)
  qed
qed


definition demo_running :: pipeline_step where
  "demo_running = step_started 9 ''h'' demo_pending"

definition demo_failing_db :: "run_status \<Rightarrow> db" where
  "demo_failing_db st = (demo_db [(started (demo_run 1 REMEMBER (Some 7)) 9 ''wk'')\<lparr>run_status := st\<rparr>])
     \<lparr>pipeline_steps := [demo_fin, demo_running]\<rparr>"

definition demo_fenced :: "run_status \<Rightarrow> fenced_step" where
  "demo_fenced st = \<lparr>fenced_run = (started (demo_run 1 REMEMBER (Some 7)) 9 ''wk'')\<lparr>run_status := st\<rparr>,
     fenced_row = demo_running, fenced_cancelling = (st = Run_CANCELLING)\<rparr>"

lemma demo_load:
  "load_fenced_running_step demo_token 21 1 (demo_failing_db Run_RUNNING) = Inr (Some (demo_fenced Run_RUNNING))"
  "load_fenced_running_step demo_token 21 1 (demo_failing_db Run_CANCELLING) = Inr (Some (demo_fenced Run_CANCELLING))"
  by code_simp+

theorem retry_decision_witness:
  "\<exists>d' r'. commit_failure_body demo_engine demo_token 21 1 True ''E'' ''m'' 10 (demo_failing_db Run_RUNNING)
      = Inr (Persist_Terminal Run_QUEUED, d') \<and> get_run 1 d' = Some r'
      \<and> run_next_attempt_at r' = Some (10 + timedelta_us (backoff_seconds (default_retry_policy 0) 1))"
proof -
  have "\<not> fenced_cancelling (demo_fenced Run_RUNNING)"
    "has_attempts_remaining (eng_retry demo_engine) (run_attempt (fenced_run (demo_fenced Run_RUNNING)))"
    "eng_retry demo_engine = default_retry_policy 0" "run_attempt (fenced_run (demo_fenced Run_RUNNING)) = 1"
    by (simp_all add: demo_fenced_def demo_engine_def demo_run_def new_run_def has_attempts_remaining_def
        default_retry_policy_def MAX_RUN_ATTEMPTS_def)
  then show ?thesis
    using retry_decision[OF demo_load(1), of demo_engine True "''E''" "''m''" 10] by fastforce
qed

subsection \<open>Cancellation\<close>

definition none_queued :: "uuid \<Rightarrow> db \<Rightarrow> bool" where
  "none_queued k d \<longleftrightarrow> list_all (\<lambda>s. step_run_id s = k \<longrightarrow> step_status s \<noteq> Step_QUEUED) (pipeline_steps d)"

lemma none_queued_after_cancel:
  assumes "keyed step_id (pipeline_steps d)"
  shows "none_queued k (steps.put_all (map (cancel_step now) (queued_steps (list_for_run k d))) d)"
  unfolding none_queued_def list_all_iff
proof (intro ballI impI)
  let ?d = "steps.put_all (map (cancel_step now) (queued_steps (list_for_run k d))) d"
  fix s assume s: "s \<in> set (pipeline_steps ?d)" "step_run_id s = k"
  have "keyed step_id (pipeline_steps ?d)" using assms by simp
  then have g: "get_step (step_id s) ?d = Some s" using s(1) by (simp add: get_step_def row_get_keyed)
  then have "step_id s \<in> set (step_ids ?d)" using steps.get_mem by blast
  then have "step_id s \<in> set (step_ids d)" by (simp add: steps.keys_put_all)
  then obtain s0 where s0: "get_step (step_id s) d = Some s0"
    by (metis get_step_def image_set list.set_map not_None_eq row_get_None_iff step_ids_def)
  from get_step_cancelled[OF assms s0, of now k] g s(2) show "step_status s \<noteq> Step_QUEUED"
    by (auto split: if_splits)
qed

lemma none_queued_put_run [simp]: "none_queued k (put_run r d) = none_queued k d"
  by (simp add: none_queued_def)

lemma cancelling_to_cancelled:
  "run_status r = Run_CANCELLING \<Longrightarrow> transition_run r Run_CANCELLED now None None None None =
    Inr (r\<lparr>run_finished_at := Some now, run_next_attempt_at := None, run_status := Run_CANCELLED\<rparr>)"
  by (simp add: transition_run_def validate_run_transition_def RUN_TRANSITIONS_def)

definition cancelled_ok :: "claimed_run \<Rightarrow> db \<Rightarrow> bool" where
  "cancelled_ok c d \<longleftrightarrow> none_queued (claimed_run_id c) d
     \<and> (case get_run (claimed_run_id c) d of None \<Rightarrow> False | Some r \<Rightarrow> run_status r = Run_CANCELLED)"

lemma cancelled_ok_intro:
  assumes "keyed step_id (pipeline_steps d1)" "claimed_run_id c \<in> set (run_ids d1)" "run_id r = claimed_run_id c"
    "run_status r = Run_CANCELLED"
  shows "cancelled_ok c (put_run r (steps.put_all (map (cancel_step now) (queued_steps (list_for_run (claimed_run_id c) d1))) d1))"
  using assms none_queued_after_cancel[OF assms(1)] get_run_put_run[of r]
  by (simp add: cancelled_ok_def)



lemma demo_cancelling_get:
  "get_run 1 (demo_failing_db Run_CANCELLING) = Some (fenced_run (demo_fenced Run_CANCELLING))"
  "get_step 21 (demo_failing_db Run_CANCELLING) = Some demo_running"
  by code_simp+


subsection \<open>A step without a hash contract cannot run\<close>

text \<open>An input deriver that has no input for a step at its checkpoint ends the run FAILED with
  STEP_INPUT_UNRESOLVABLE and starts nothing.  Plan validation accepts such a step as having no
  hash contract by design, but the checkpoint never lets it run.\<close>

theorem unresolved_input_fails_run:
  assumes "get_run (claimed_run_id c) d = Some run" "owns c run" "run_status run = Run_RUNNING"
    and "get_step (snap_id snap) d = Some s" "step_status s = Step_QUEUED"
    and "sd_input_deriver sd inp outs = None" "\<not> eng_stop env (snap_ordinal snap)"
  shows "\<exists>run'. checkpoint_body env c snap sd inp outs d = Inr (Check_Terminal Run_FAILED, put_run run' d)
    \<and> run_status run' = Run_FAILED \<and> run_error_code run' = Some STEP_INPUT_UNRESOLVABLE_ERROR_CODE"
  using assms
  by (simp add: checkpoint_body_def Let_def compute_input_hash_def transition_run_def
      validate_run_transition_def RUN_TRANSITIONS_def) (intro exI conjI, rule refl, simp_all)

definition demo_no_hash :: step_definition where
  "demo_no_hash = (demo_step ''embed'' (\<lambda>_. Inr demo_result))\<lparr>sd_input_deriver := (\<lambda>_ _. None)\<rparr>"

lemma demo_get_pending: "get_step (snap_id (snapshot_of demo_pending)) demo_claimed_db = Some demo_pending"
  by code_simp

theorem unresolved_input_fails_run_witness:
  "\<exists>run'. checkpoint_body demo_engine demo_token (snapshot_of demo_pending) demo_no_hash json_empty (\<lambda>_. None)
      demo_claimed_db = Inr (Check_Terminal Run_FAILED, put_run run' demo_claimed_db)
    \<and> run_error_code run' = Some STEP_INPUT_UNRESOLVABLE_ERROR_CODE"
proof -
  have "owns demo_token (started (demo_run 1 REMEMBER (Some 7)) 9 ''wk'')" by code_simp
  moreover have "step_status demo_pending = Step_QUEUED" by code_simp
  ultimately show ?thesis
    using unresolved_input_fails_run[OF demo_get[folded demo_token_id(1)] _ _ demo_get_pending,
        of demo_no_hash json_empty "\<lambda>_. None" demo_engine]
    by (auto simp: demo_no_hash_def demo_engine_def)
qed

end
