(* ===== verification/Submission_Facts.thy ===== *)
theory Submission_Facts
  imports Submission Engine_Liveness
begin

text \<open>
  Facts of durable submission.  The locale \<open>idempotent_ledger\<close> is the contract a keyed
  resolve-or-create gives its callers; it is interpreted on \<open>submit_work\<close>.  Other sessions may
  commit anything that keeps the rows of \<open>pipeline_runs\<close> and their identity (\<open>keeps_runs\<close>), which
  every operation of the program on runs does.
\<close>

subsection \<open>The idempotency contract\<close>

locale idempotent_ledger =
  fixes good :: "'db \<Rightarrow> bool"
    and lookup :: "'k \<Rightarrow> 'db \<Rightarrow> 'r option"
    and same :: "'r \<Rightarrow> 'r \<Rightarrow> bool"
    and attempt :: "'q \<Rightarrow> 'db \<Rightarrow> ('e + 'o) \<times> 'db"
    and legal :: "'k \<Rightarrow> 'q \<Rightarrow> bool"
    and names :: "'o \<Rightarrow> 'r \<Rightarrow> bool"
    and created :: "'o \<Rightarrow> bool"
  assumes good_attempt: "\<lbrakk>legal k q; good d\<rbrakk> \<Longrightarrow> good (snd (attempt q d))"
    and same_trans: "\<lbrakk>same a b; same b c\<rbrakk> \<Longrightarrow> same a c"
    and same_refl: "same a a"
    and kept: "\<lbrakk>legal k q; good d; lookup k d = Some r\<rbrakk> \<Longrightarrow>
      \<exists>r'. lookup k (snd (attempt q d)) = Some r' \<and> same r r'"
    and named: "\<lbrakk>legal k q; good d; fst (attempt q d) = Inr out\<rbrakk> \<Longrightarrow>
      \<exists>r. lookup k (snd (attempt q d)) = Some r \<and> names out r"
    and fresh: "\<lbrakk>legal k q; good d; fst (attempt q d) = Inr out; created out\<rbrakk> \<Longrightarrow> lookup k d = None"
    and names_same: "\<lbrakk>names out r; same r r'\<rbrakk> \<Longrightarrow> names out r'"
begin

fun attempts :: "'q list \<Rightarrow> 'db \<Rightarrow> ('e + 'o) list \<times> 'db" where
  "attempts [] d = ([], d)"
| "attempts (q # qs) d =
     (let (res, d1) = attempt q d; (rest, d2) = attempts qs d1 in (res # rest, d2))"

definition outcomes :: "('e + 'o) list \<Rightarrow> 'o list" where
  "outcomes rs = concat (map (\<lambda>r. case r of Inl _ \<Rightarrow> [] | Inr x \<Rightarrow> [x]) rs)"

lemma attempts_kept:
  "\<lbrakk>\<forall>q \<in> set qs. legal k q; good d; lookup k d = Some r\<rbrakk> \<Longrightarrow>
   \<exists>r'. lookup k (snd (attempts qs d)) = Some r' \<and> same r r'"
proof (induction qs arbitrary: d r)
  case Nil
  then show ?case by (simp add: same_refl)
next
  case (Cons q qs)
  obtain r1 where "lookup k (snd (attempt q d)) = Some r1" "same r r1"
    using kept[of k q d r] Cons.prems by auto
  moreover have "good (snd (attempt q d))" using good_attempt[of k q d] Cons.prems by auto
  ultimately obtain r2 where "lookup k (snd (attempts qs (snd (attempt q d)))) = Some r2" "same r r2"
    using Cons.IH[of "snd (attempt q d)" r1] Cons.prems same_trans by auto
  then show ?case by (simp add: Let_def split_beta)
qed

lemma attempts_good: "\<lbrakk>\<forall>q \<in> set qs. legal k q; good d\<rbrakk> \<Longrightarrow> good (snd (attempts qs d))"
proof (induction qs arbitrary: d)
  case (Cons q qs)
  then show ?case using good_attempt[of k q d] by (simp add: Let_def split_beta)
qed simp

lemma outcomes_name_one_record:
  "\<lbrakk>\<forall>q \<in> set qs. legal k q; good d; out \<in> set (outcomes (fst (attempts qs d)))\<rbrakk> \<Longrightarrow>
   \<exists>r. lookup k (snd (attempts qs d)) = Some r \<and> names out r"
proof (induction qs arbitrary: d)
  case (Cons q qs)
  have g: "good (snd (attempt q d))" using good_attempt[of k q d] Cons.prems by auto
  have "Inr out = fst (attempt q d) \<or> out \<in> set (outcomes (fst (attempts qs (snd (attempt q d)))))"
    using Cons.prems(3) by (auto simp: outcomes_def Let_def split_beta split: sum.splits)
  then show ?case
  proof
    assume "Inr out = fst (attempt q d)"
    then obtain r where "lookup k (snd (attempt q d)) = Some r" "names out r"
      using named[of k q d out] Cons.prems by auto
    then show ?thesis using attempts_kept[of qs k "snd (attempt q d)" r] g Cons.prems names_same
      by (auto simp: Let_def split_beta)
  next
    assume "out \<in> set (outcomes (fst (attempts qs (snd (attempt q d)))))"
    then show ?thesis using Cons.IH[OF _ g] Cons.prems by (simp add: Let_def split_beta)
  qed
qed (simp add: outcomes_def)

lemma no_creation_after:
  "\<lbrakk>\<forall>q \<in> set qs. legal k q; good d; lookup k d = Some r\<rbrakk> \<Longrightarrow>
   filter created (outcomes (fst (attempts qs d))) = []"
proof (induction qs arbitrary: d r)
  case (Cons q qs)
  obtain r1 where "lookup k (snd (attempt q d)) = Some r1"
    using kept[of k q d r] Cons.prems by auto
  moreover have "good (snd (attempt q d))" using good_attempt[of k q d] Cons.prems by auto
  moreover have "\<not> created out" if "fst (attempt q d) = Inr out" for out
    using fresh[of k q d out] that Cons.prems by auto
  ultimately show ?case using Cons.IH[of "snd (attempt q d)" r1] Cons.prems
    by (auto simp: outcomes_def Let_def split_beta split: sum.splits)
qed (simp add: outcomes_def)

lemma one_creation:
  "\<lbrakk>\<forall>q \<in> set qs. legal k q; good d\<rbrakk> \<Longrightarrow> length (filter created (outcomes (fst (attempts qs d)))) \<le> 1"
proof (induction qs arbitrary: d)
  case (Cons q qs)
  have g: "good (snd (attempt q d))" using good_attempt[of k q d] Cons.prems by auto
  show ?case
  proof (cases "fst (attempt q d)")
    case (Inl e)
    then show ?thesis using Cons.IH[OF _ g] Cons.prems by (simp add: outcomes_def Let_def split_beta)
  next
    case (Inr out)
    then obtain r where "lookup k (snd (attempt q d)) = Some r" using named[of k q d out] Cons.prems by auto
    then have "filter created (outcomes (fst (attempts qs (snd (attempt q d))))) = []"
      using no_creation_after[of qs k] g Cons.prems by auto
    then show ?thesis using Inr by (simp add: outcomes_def Let_def split_beta)
  qed
qed (simp add: outcomes_def)

end

subsection \<open>What other sessions keep\<close>

definition extends_runs :: "db \<Rightarrow> db \<Rightarrow> bool" where
  "extends_runs d d' \<longleftrightarrow> db_ok d'
     \<and> (\<forall>k r. get_run k d = Some r \<longrightarrow> (\<exists>r'. get_run k d' = Some r' \<and> same_run_identity r r'))"

definition keeps_runs :: "(db \<Rightarrow> db) \<Rightarrow> bool" where
  "keeps_runs f \<longleftrightarrow> (\<forall>d. db_ok d \<longrightarrow> extends_runs d (f d))"

lemma extends_runs_refl: "db_ok d \<Longrightarrow> extends_runs d d"
  by (auto simp: extends_runs_def)

lemma extends_runs_trans: "extends_runs a b \<Longrightarrow> extends_runs b c \<Longrightarrow> extends_runs a c"
  unfolding extends_runs_def by (meson same_run_identity_trans)

lemma extends_runs_ok: "extends_runs d d' \<Longrightarrow> db_ok d'"
  by (simp add: extends_runs_def)

lemma extends_runs_get:
  "extends_runs d d' \<Longrightarrow> get_run k d = Some r \<Longrightarrow> \<exists>r'. get_run k d' = Some r' \<and> same_run_identity r r'"
  by (simp add: extends_runs_def)

lemma keeps_runs_id [simp]: "keeps_runs (\<lambda>d. d)"
  by (simp add: keeps_runs_def extends_runs_refl)

lemma keeps_runs_step: "\<lbrakk>keeps_runs f; extends_runs d d'\<rbrakk> \<Longrightarrow> extends_runs d (f d')"
  using extends_runs_trans extends_runs_ok by (auto simp: keeps_runs_def)

lemma get_by_key_SomeD:
  "get_by_idempotency_key k d = Some r \<Longrightarrow> r \<in> set (pipeline_runs d) \<and> run_idempotency_key r = Some k"
  by (auto simp: get_by_idempotency_key_def dest: find_set)

lemma get_by_key_None_iff:
  "get_by_idempotency_key k d = None \<longleftrightarrow> k \<notin> set (idempotency_keys (pipeline_runs d))"
  by (force simp: get_by_idempotency_key_def find_None_iff idempotency_keys_def)

lemma keyed_runs_unique:
  "\<lbrakk>distinct (idempotency_keys rs); r \<in> set rs; run_idempotency_key r = Some k\<rbrakk> \<Longrightarrow>
   List.find (\<lambda>r. run_idempotency_key r = Some k) rs = Some r"
proof (induction rs)
  case (Cons a rs)
  have "k \<in> set (idempotency_keys rs)" if "r \<in> set rs"
    using that Cons.prems(3) by (force simp: idempotency_keys_def)
  with Cons show ?case by (cases "run_idempotency_key a") (auto simp: idempotency_keys_def)
qed simp

lemma get_by_key_unique:
  "\<lbrakk>db_ok d; r \<in> set (pipeline_runs d); run_idempotency_key r = Some k\<rbrakk> \<Longrightarrow>
   get_by_idempotency_key k d = Some r"
  by (simp add: get_by_idempotency_key_def db_ok_def run_table_ok_def keyed_runs_unique)

lemma get_run_member: "db_ok d \<Longrightarrow> r \<in> set (pipeline_runs d) \<Longrightarrow> get_run (run_id r) d = Some r"
  by (simp add: get_run_keyed db_ok_def run_table_ok_def)

lemma get_by_key_get_run:
  "\<lbrakk>db_ok d; get_run i d = Some r; run_idempotency_key r = Some k\<rbrakk> \<Longrightarrow> get_by_idempotency_key k d = Some r"
  using get_by_key_unique get_run_SomeD by blast

lemma ledger_kept:
  assumes "extends_runs d d'" "db_ok d" "get_by_idempotency_key k d = Some r"
  shows "\<exists>r'. get_by_idempotency_key k d' = Some r' \<and> same_run_identity r r'"
proof -
  have r: "get_run (run_id r) d = Some r" "run_idempotency_key r = Some k"
    using assms get_by_key_SomeD get_run_member by blast+
  then obtain r' where "get_run (run_id r) d' = Some r'" "same_run_identity r r'"
    using extends_runs_get assms by blast
  moreover have "run_idempotency_key r' = Some k" using calculation r by (simp add: same_run_identity_def)
  ultimately show ?thesis using get_by_key_get_run extends_runs_ok assms by blast
qed

text \<open>A preparation hook writes nothing but its own targets.\<close>

definition prepare_contract :: "preparation_hook \<Rightarrow> bool" where
  "prepare_contract p \<longleftrightarrow> (\<forall>d t d'. p d = Inr (t, d') \<longrightarrow>
     pipeline_runs d' = pipeline_runs d \<and> pipeline_steps d' = pipeline_steps d
     \<and> (db_ok d \<longrightarrow> db_ok d'))"

definition submission_env_ok :: "submission_env \<Rightarrow> bool" where
  "submission_env_ok env \<longleftrightarrow> (\<forall>i. keeps_runs (sub_interfere env i))"

subsection \<open>One submission\<close>

lemma create_body_ok:
  assumes "create_new_run_body svc env req h plans d = Inr (rid, d')" "prepare_contract (req_prepare req)" "db_ok d"
  shows "\<exists>r (t::submission_targets). db_ok d' \<and> pipeline_runs d' = pipeline_runs d @ [r] \<and> run_id r = rid
    \<and> r = new_run (case req_run_id req of Some k \<Rightarrow> k | None \<Rightarrow> sub_fresh_run_id env) (sub_now env)
            (req_pipeline_type req) (target_dataset_id t) (target_source_id t) (req_idempotency_key req)
            h (req_work_input req) (sub_config_fingerprint svc) (req_retry_of_run_id req) (target_session_id t)
    \<and> pipeline_steps d' = pipeline_steps d @ plan_rows rid (sub_fresh_step_id env) 0 plans
    \<and> isOk (req_prepare req d) \<and> fst (projr (req_prepare req d)) = t"
proof -
  obtain t d1 run where p: "req_prepare req d = Inr (t, d1)"
    and c: "create_run_with_steps (case req_run_id req of Some k \<Rightarrow> k | None \<Rightarrow> sub_fresh_run_id env)
        (sub_fresh_step_id env) (sub_now env) (req_pipeline_type req) (target_dataset_id t)
        (target_source_id t) (req_idempotency_key req) h (req_work_input req)
        (sub_config_fingerprint svc) plans (req_retry_of_run_id req) (target_session_id t) d1 = Inr (run, d')"
    and rid: "rid = run_id run"
    using assms(1) by (auto simp: create_new_run_body_def bindE_eq_Inr_iff)
  have "pipeline_runs d1 = pipeline_runs d" "pipeline_steps d1 = pipeline_steps d" "db_ok d1"
    using p assms(2,3) unfolding prepare_contract_def by blast+
  note frame = this
  have "run_id run = (case req_run_id req of Some k \<Rightarrow> k | None \<Rightarrow> sub_fresh_run_id env)"
    using create_run_with_steps_ok[OF c] frame by (simp add: new_run_def)
  with frame have all: "db_ok d'" "pipeline_runs d' = pipeline_runs d @ [run]"
    "pipeline_steps d' = pipeline_steps d @ plan_rows rid (sub_fresh_step_id env) 0 plans"
    using create_run_with_steps_ok[OF c] rid by (simp_all add: plan_rows_def)
  have "run = new_run (case req_run_id req of Some k \<Rightarrow> k | None \<Rightarrow> sub_fresh_run_id env) (sub_now env)
            (req_pipeline_type req) (target_dataset_id t) (target_source_id t) (req_idempotency_key req)
            h (req_work_input req) (sub_config_fingerprint svc) (req_retry_of_run_id req) (target_session_id t)"
    using create_run_with_steps_ok[OF c] frame by simp
  moreover have "isOk (req_prepare req d) \<and> fst (projr (req_prepare req d)) = t" by (simp add: p)
  ultimately show ?thesis using all rid by blast
qed

lemma extends_runs_append:
  assumes "db_ok d'" "pipeline_runs d' = pipeline_runs d @ rs"
  shows "extends_runs d d'"
  unfolding extends_runs_def
proof (intro conjI allI impI assms(1))
  fix k r assume "get_run k d = Some r"
  then have "get_run k d' = Some r" using get_run_SomeD[of k d r] get_run_member[OF assms(1), of r] assms(2) by auto
  then show "\<exists>r'. get_run k d' = Some r' \<and> same_run_identity r r'" by simp
qed

lemma create_new_run_extends:
  assumes env: "submission_env_ok env" "prepare_contract (req_prepare req)" and ok: "db_ok d"
  shows "extends_runs d (snd (create_new_run svc env req h plans d))"
proof -
  have i: "keeps_runs (sub_interfere env n)" for n using env by (simp add: submission_env_ok_def)
  have e1: "extends_runs d (sub_interfere env 1 d)"
    using i[of 1] ok by (simp add: keeps_runs_def)
  show ?thesis
  proof (cases "create_new_run_body svc env req h plans (sub_interfere env 1 d)")
    case (Inl e)
    then show ?thesis using e1 by (simp add: create_new_run_def run_tx_def)
  next
    case (Inr p)
    obtain rid d1 where p: "p = (rid, d1)" by (cases p)
    have "extends_runs (sub_interfere env 1 d) d1"
      using create_body_ok[of svc env req h plans _ rid d1] Inr p env extends_runs_append extends_runs_ok[OF e1]
      by metis
    then have "extends_runs d (sub_interfere env 3 d1)"
      using keeps_runs_step[OF i] extends_runs_trans[OF e1] by blast
    then show ?thesis using Inr p
      by (simp add: create_new_run_def run_tx_def Let_def split: option.splits)
  qed
qed

lemma create_new_run_outcome:
  assumes "submission_env_ok env" "prepare_contract (req_prepare req)" "db_ok d"
    and "create_new_run svc env req h plans d = (Inr out, d')"
  shows "\<exists>r. get_run (out_run_id out) d' = Some r \<and> out = outcome_of (run_snapshot_of r) True
    \<and> run_pipeline_type r = req_pipeline_type req \<and> run_payload_hash r = h
    \<and> run_idempotency_key r = req_idempotency_key req \<and> run_input r = req_work_input req
    \<and> run_retry_of_run_id r = req_retry_of_run_id req"
proof -
  let ?d1 = "sub_interfere env 1 d"
  have i: "keeps_runs (sub_interfere env n)" for n using assms(1) by (simp add: submission_env_ok_def)
  obtain rid d1 where b: "create_new_run_body svc env req h plans ?d1 = Inr (rid, d1)"
    using assms(4) by (cases "create_new_run_body svc env req h plans ?d1") (auto simp: create_new_run_def run_tx_def)
  then obtain r where f: "get_run rid (sub_interfere env 3 d1) = Some r"
    and out: "out = outcome_of (run_snapshot_of r) True" and d': "d' = sub_interfere env 3 d1"
    using assms(4)
    by (cases "get_run rid (sub_interfere env 3 d1)") (simp_all add: create_new_run_def run_tx_def Let_def find_by_id_def)
  have ok1: "db_ok ?d1" using i assms(3) extends_runs_ok by (auto simp: keeps_runs_def)
  obtain r0 and t :: submission_targets where c: "db_ok d1" "pipeline_runs d1 = pipeline_runs ?d1 @ [r0]"
    "run_id r0 = rid"
    and new: "r0 = new_run (case req_run_id req of Some k \<Rightarrow> k | None \<Rightarrow> sub_fresh_run_id env) (sub_now env)
            (req_pipeline_type req) (target_dataset_id t) (target_source_id t) (req_idempotency_key req)
            h (req_work_input req) (sub_config_fingerprint svc) (req_retry_of_run_id req) (target_session_id t)"
    using create_body_ok[OF b assms(2) ok1] by blast
  have r0: "r0 \<in> set (pipeline_runs d1)" "run_id r0 = rid" "db_ok d1"
    using c by auto
  have fields: "run_pipeline_type r0 = req_pipeline_type req" "run_payload_hash r0 = h"
    "run_idempotency_key r0 = req_idempotency_key req" "run_input r0 = req_work_input req"
    "run_retry_of_run_id r0 = req_retry_of_run_id req"
    by (simp_all add: new new_run_def)
  have "get_run rid d1 = Some r0" using get_run_member[OF r0(3,1)] r0(2) by simp
  then obtain r' where "get_run rid (sub_interfere env 3 d1) = Some r'" "same_run_identity r0 r'"
    using extends_runs_get i[of 3] r0(3) unfolding keeps_runs_def by blast
  then have "same_run_identity r0 r" using f by simp
  moreover have "out_run_id out = rid"
    using out get_run_SomeD[OF f] by (simp add: outcome_of_def run_snapshot_of_def)
  ultimately show ?thesis using f out d' r0 fields by (simp add: same_run_identity_def)
qed

text \<open>What the outcome of a submission says of a run.\<close>

definition names_run :: "submission_outcome \<Rightarrow> pipeline_run \<Rightarrow> bool" where
  "names_run out r \<longleftrightarrow> out_run_id out = run_id r \<and> out_pipeline_type out = run_pipeline_type r
     \<and> out_dataset_id out = run_dataset_id r \<and> out_source_id out = run_source_id r
     \<and> out_session_id out = run_session_id r \<and> out_retry_of_run_id out = run_retry_of_run_id r"

lemma names_run_outcome [simp]: "names_run (outcome_of (run_snapshot_of r) b) r"
  by (simp add: names_run_def outcome_of_def run_snapshot_of_def)

lemma names_run_same: "names_run out r \<Longrightarrow> same_run_identity r r' \<Longrightarrow> names_run out r'"
  by (simp add: names_run_def same_run_identity_def)

lemma outcome_created [simp]: "out_created (outcome_of s b) = b" "out_run_id (outcome_of s b) = rs_id s"
  by (simp_all add: outcome_of_def)

lemma rs_id_snapshot [simp]: "rs_id (run_snapshot_of r) = run_id r"
  by (simp add: run_snapshot_of_def)

text \<open>Replay accepts a run for a request when it is the same work.\<close>

definition same_work :: "submission_request \<Rightarrow> string \<Rightarrow> pipeline_run \<Rightarrow> bool" where
  "same_work req h r \<longleftrightarrow> run_pipeline_type r = req_pipeline_type req
     \<and> (run_payload_hash r = h
        \<or> (\<exists>equivalent. req_legacy req = Some equivalent \<and> equivalent (run_input r) (req_work_input req)))"

lemma resolve_existing_iff:
  "resolve_existing req h (run_snapshot_of r) =
     (if same_work req h r then Inr (outcome_of (run_snapshot_of r) False) else Inl idempotency_conflict_error)"
  by (auto simp: resolve_existing_def same_work_def run_snapshot_of_def split: option.splits)

lemma submit_work_cases:
  assumes "canonical_work_payload_hash (sub_py env) (req_work_input req) = Inr h"
    and "req_idempotency_key req = Some k"
  shows "submit_work svc env req d =
    (let d1 = sub_interfere env 0 d in
     case get_by_idempotency_key k d1 of
       Some r \<Rightarrow> (resolve_existing req h (run_snapshot_of r), d1)
     | None \<Rightarrow>
       if \<not> worker_available env then (Inl worker_disabled_error, d1)
       else (case build_step_plan (sub_py env) (sub_registry svc) (req_pipeline_type req) (req_work_input req) of
               Inl e \<Rightarrow> (Inl e, d1)
             | Inr plans \<Rightarrow>
               (case create_new_run svc env req h plans d1 of
                  (Inr outcome, d2) \<Rightarrow> (Inr outcome, d2)
                | (Inl e, d2) \<Rightarrow>
                   if \<not> is_idempotency_key_unique_violation e then (Inl e, d2)
                   else (let d3 = sub_interfere env 2 d2 in
                         case get_by_idempotency_key k d3 of
                           None \<Rightarrow> (Inl e, d3)
                         | Some r \<Rightarrow> (resolve_existing req h (run_snapshot_of r), d3)))))"
  unfolding submit_work_def assms Let_def find_by_idempotency_key_def
  by (cases "get_by_idempotency_key k (sub_interfere env 0 d)")
    (auto split: sum.splits prod.splits option.splits)

text \<open>The hypotheses under which a submission is judged: the environment and the hook keep their
  contracts.\<close>

definition submission_ok :: "string \<Rightarrow> submission_env \<times> submission_request \<Rightarrow> bool" where
  "submission_ok k q \<longleftrightarrow> submission_env_ok (fst q) \<and> prepare_contract (req_prepare (snd q))
     \<and> req_idempotency_key (snd q) = Some k"

lemma submit_work_extends:
  assumes "submission_ok k (env, req)" and ok: "db_ok d"
  shows "extends_runs d (snd (submit_work svc env req d))"
proof (cases "canonical_work_payload_hash (sub_py env) (req_work_input req)")
  case (Inl e)
  then show ?thesis by (simp add: submit_work_def extends_runs_refl ok)
next
  case (Inr h)
  have env: "submission_env_ok env" "prepare_contract (req_prepare req)" "req_idempotency_key req = Some k"
    and i: "keeps_runs (sub_interfere env n)" for n
    using assms by (simp_all add: submission_ok_def submission_env_ok_def)
  have e0: "extends_runs d (sub_interfere env 0 d)" using i ok by (simp add: keeps_runs_def)
  have e1: "extends_runs d (snd (create_new_run svc env req h plans (sub_interfere env 0 d)))" for plans
    using create_new_run_extends[OF env(1,2)] extends_runs_ok[OF e0] extends_runs_trans[OF e0] by blast
  have e2: "extends_runs d (sub_interfere env 2 (snd (create_new_run svc env req h plans (sub_interfere env 0 d))))" for plans
    by (rule keeps_runs_step[OF i e1])
  show ?thesis
    unfolding submit_work_cases[OF Inr env(3)] Let_def
    using e0 e1 e2 by (auto split: sum.splits prod.splits option.splits) (metis snd_conv)+
qed


lemma create_conflict_free:
  assumes "create_new_run svc env req h plans d = (Inr out, d')"
  shows "out_created out"
  using assms by (auto simp: create_new_run_def Let_def split: sum.splits prod.splits option.splits)

lemma submit_work_result:
  assumes ok: "submission_ok k (env, req)" "db_ok d" and s: "submit_work svc env req d = (Inr out, d')"
  shows "\<exists>h r. canonical_work_payload_hash (sub_py env) (req_work_input req) = Inr h
    \<and> get_by_idempotency_key k d' = Some r \<and> names_run out r \<and> same_work req h r
    \<and> out_status out = run_status r \<and> (out_created out \<longrightarrow> get_by_idempotency_key k d = None
         \<and> worker_available env \<and> run_payload_hash r = h \<and> run_input r = req_work_input req
         \<and> run_retry_of_run_id r = req_retry_of_run_id req)"
proof -
  have env: "submission_env_ok env" "prepare_contract (req_prepare req)" "req_idempotency_key req = Some k"
    and i: "keeps_runs (sub_interfere env n)" for n
    using ok by (simp_all add: submission_ok_def submission_env_ok_def)
  obtain h where h: "canonical_work_payload_hash (sub_py env) (req_work_input req) = Inr h"
    using s by (auto simp: submit_work_def split: sum.splits)
  let ?d1 = "sub_interfere env 0 d"
  note cases = submit_work_cases[OF h env(3), of svc d, unfolded s Let_def]
  have e1: "extends_runs d ?d1" using i ok by (simp add: keeps_runs_def)
  have replay: ?thesis if "get_by_idempotency_key k e = Some r" "resolve_existing req h (run_snapshot_of r) = Inr out"
    "d' = e" for e r
  proof -
    have "same_work req h r" "out = outcome_of (run_snapshot_of r) False"
      using that(2) by (simp_all add: resolve_existing_iff split: if_splits)
    then show ?thesis using that h by (auto simp: outcome_of_def run_snapshot_of_def names_run_def)
  qed
  show ?thesis
  proof (cases "get_by_idempotency_key k ?d1")
    case (Some r)
    then show ?thesis using cases replay[of ?d1 r] by simp
  next
    case None
    obtain plans where w: "worker_available env"
      and plans: "build_step_plan (sub_py env) (sub_registry svc) (req_pipeline_type req) (req_work_input req) = Inr plans"
      using cases None by (auto split: sum.splits if_splits)
    obtain x d2 where c: "create_new_run svc env req h plans ?d1 = (x, d2)"
      by (cases "create_new_run svc env req h plans ?d1") auto
    show ?thesis
    proof (cases x)
      case (Inr outcome)
      then have eq: "out = outcome" "d' = d2" using cases None w plans c by auto
      obtain r where r: "get_run (out_run_id out) d2 = Some r" "out = outcome_of (run_snapshot_of r) True"
        "run_pipeline_type r = req_pipeline_type req" "run_payload_hash r = h"
        "run_idempotency_key r = Some k" "run_input r = req_work_input req"
        "run_retry_of_run_id r = req_retry_of_run_id req"
        using create_new_run_outcome[OF env(1,2) extends_runs_ok[OF e1] c[unfolded Inr]] eq env(3) by auto
      have "db_ok d2" using create_new_run_extends[OF env(1,2) extends_runs_ok[OF e1], of svc h plans] c
        by (simp add: extends_runs_ok)
      then have "get_by_idempotency_key k d2 = Some r" using get_by_key_get_run r by blast
      moreover have "get_by_idempotency_key k d = None"
        using ledger_kept[OF e1 ok(2), of k] None by (cases "get_by_idempotency_key k d") auto
      ultimately show ?thesis using r h w eq
        by (auto simp: same_work_def outcome_of_def run_snapshot_of_def names_run_def)
    next
      case (Inl e)
      then have v: "is_idempotency_key_unique_violation e"
        and r: "get_by_idempotency_key k (sub_interfere env 2 d2) = Some r \<Longrightarrow>
          resolve_existing req h (run_snapshot_of r) = Inr out \<and> d' = sub_interfere env 2 d2"
        and some: "get_by_idempotency_key k (sub_interfere env 2 d2) \<noteq> None" for r
        using cases None w plans c by (auto split: if_splits option.splits)
      then show ?thesis using replay by blast
    qed
  qed
qed

text \<open>Submissions one after the other, each with its own environment.\<close>

definition submit_pair :: "submission_service \<Rightarrow> submission_env \<times> submission_request \<Rightarrow> db \<Rightarrow> submission_outcome tx" where
  "submit_pair svc q d = submit_work svc (fst q) (snd q) d"

interpretation ledger: idempotent_ledger db_ok get_by_idempotency_key same_run_identity
  "submit_pair svc" submission_ok names_run out_created for svc
proof unfold_locales
  fix k q d assume "submission_ok k q" "db_ok d"
  then show "db_ok (snd (submit_pair svc q d))"
    using extends_runs_ok[OF submit_work_extends[of k "fst q" "snd q"]] by (simp add: submit_pair_def)
next
  fix a b c assume "same_run_identity a b" "same_run_identity b c"
  then show "same_run_identity a c" by (rule same_run_identity_trans)
next
  fix k q d r assume "submission_ok k q" "db_ok d" "get_by_idempotency_key k d = Some r"
  then show "\<exists>r'. get_by_idempotency_key k (snd (submit_pair svc q d)) = Some r' \<and> same_run_identity r r'"
    using ledger_kept[OF submit_work_extends[of k "fst q" "snd q"]] by (simp add: submit_pair_def)
next
  fix k q d out assume a: "submission_ok k q" "db_ok d" "fst (submit_pair svc q d) = Inr out"
  then have eq: "submit_work svc (fst q) (snd q) d = (Inr out, snd (submit_pair svc q d))"
    by (simp add: submit_pair_def prod_eq_iff)
  obtain r where "get_by_idempotency_key k (snd (submit_pair svc q d)) = Some r" "names_run out r"
    "out_created out \<longrightarrow> get_by_idempotency_key k d = None"
    using submit_work_result[OF _ a(2) eq, of k] a(1) by auto
  note result = this
  then show "\<exists>r. get_by_idempotency_key k (snd (submit_pair svc q d)) = Some r \<and> names_run out r" by blast
  assume "out_created out"
  with result show "get_by_idempotency_key k d = None" by blast
qed (auto intro: names_run_same)

fun submissions ::
  "submission_service \<Rightarrow> (submission_env \<times> submission_request) list \<Rightarrow> db \<Rightarrow> (exn + submission_outcome) list \<times> db" where
  "submissions svc [] d = ([], d)"
| "submissions svc (q # qs) d =
     (let (res, d1) = submit_pair svc q d; (rest, d2) = submissions svc qs d1 in (res # rest, d2))"

lemma submissions_attempts: "submissions svc qs d = ledger.attempts svc qs d"
  by (induction qs arbitrary: d) (simp_all add: split_beta)

lemma in_outcomes_iff: "out \<in> set (ledger.outcomes rs) \<longleftrightarrow> Inr out \<in> set rs"
  by (force simp: ledger.outcomes_def split: sum.splits)

definition created_count :: "(exn + submission_outcome) list \<Rightarrow> nat" where
  "created_count res = length (filter (\<lambda>r. case r of Inl _ \<Rightarrow> False | Inr out \<Rightarrow> out_created out) res)"

lemma created_count_outcomes: "created_count res = length (filter out_created (ledger.outcomes res))"
  by (induction res) (simp_all add: created_count_def ledger.outcomes_def split: sum.splits)

subsection \<open>A concrete submission\<close>

definition sub_demo_py :: py_env where
  "sub_demo_py = \<lparr>sha256_hexdigest = (\<lambda>bs. replicate 64 (CHR ''a'')), float_repr = (\<lambda>_. [])\<rparr>"

definition sub_demo_service :: submission_service where
  "sub_demo_service = \<lparr>sub_registry = demo_registry, sub_config_fingerprint = replicate 64 (CHR ''0'')\<rparr>"

definition sub_demo_env :: "uuid \<Rightarrow> submission_env" where
  "sub_demo_env i = \<lparr>sub_py = sub_demo_py, sub_now = 5, sub_interfere = (\<lambda>_ d. d), sub_fresh_run_id = i,
     sub_fresh_step_id = (\<lambda>n. 100 * i + n), sub_worker_enabled = True, sub_worker_operational = True\<rparr>"

definition sub_demo_request :: "pipeline_type \<Rightarrow> string \<Rightarrow> int \<Rightarrow> submission_request" where
  "sub_demo_request t k n = \<lparr>req_pipeline_type = t, req_work_input = JInt n, req_idempotency_key = Some k,
     req_prepare = (\<lambda>d. Inr (\<lparr>target_dataset_id = Some 7, target_source_id = None, target_session_id = None\<rparr>, d)),
     req_run_id = None, req_legacy = None, req_retry_of_run_id = None\<rparr>"

lemma sub_demo_ok: "submission_ok k (sub_demo_env i, sub_demo_request t k n)"
  by (simp add: submission_ok_def submission_env_ok_def sub_demo_env_def sub_demo_request_def prepare_contract_def)

lemma empty_db_ok: "db_ok (demo_db [])"
  by (simp add: db_ok_def demo_db_def run_table_ok_def step_table_ok_def keyed_def
      idempotency_keys_def operational_datasets_def)

subsection \<open>Properties\<close>


definition demo_submissions :: "(submission_env \<times> submission_request) list" where
  "demo_submissions = [(sub_demo_env 1, sub_demo_request REMEMBER ''k'' 5),
     (sub_demo_env 2, sub_demo_request REMEMBER ''k'' 5), (sub_demo_env 3, sub_demo_request FORGET ''k'' 5)]"


text \<open>What creating a run adds.\<close>

definition submission_effect :: "submission_service \<Rightarrow> submission_env \<Rightarrow> submission_request \<Rightarrow> db \<Rightarrow> db \<Rightarrow> bool" where
  "submission_effect svc env req d d' \<longleftrightarrow> (\<exists>r plans.
     pipeline_runs d' = pipeline_runs d @ [r] \<and> run_status r = Run_QUEUED \<and> run_attempt r = 0
     \<and> run_pipeline_type r = req_pipeline_type req \<and> run_input r = req_work_input req
     \<and> run_idempotency_key r = req_idempotency_key req \<and> run_next_attempt_at r = None
     \<and> run_retry_of_run_id r = req_retry_of_run_id req \<and> run_config_fingerprint r = sub_config_fingerprint svc
     \<and> isOk (req_prepare req d) \<and> (let t = fst (projr (req_prepare req d)) in
          run_dataset_id r = target_dataset_id t \<and> run_source_id r = target_source_id t
          \<and> run_session_id r = target_session_id t)
     \<and> build_step_plan (sub_py env) (sub_registry svc) (req_pipeline_type req) (req_work_input req) = Inr plans
     \<and> pipeline_steps d' = pipeline_steps d @ plan_rows (run_id r) (sub_fresh_step_id env) 0 plans)"

definition quiet_submission :: "submission_env \<Rightarrow> bool" where
  "quiet_submission env \<longleftrightarrow> (\<forall>i d. sub_interfere env i d = d)"

lemma create_new_run_quiet:
  assumes q: "quiet_submission env" and p: "prepare_contract (req_prepare req)" and ok: "db_ok d"
    and plans: "build_step_plan (sub_py env) (sub_registry svc) (req_pipeline_type req) (req_work_input req) = Inr plans"
  shows "(\<exists>e. create_new_run svc env req h plans d = (Inl e, d))
    \<or> (\<exists>out d'. create_new_run svc env req h plans d = (Inr out, d') \<and> out_created out
         \<and> submission_effect svc env req d d')"
proof (cases "create_new_run_body svc env req h plans d")
  case (Inl e)
  then show ?thesis using q by (simp add: create_new_run_def run_tx_def quiet_submission_def)
next
  case (Inr p')
  then obtain rid d' where b: "create_new_run_body svc env req h plans d = Inr (rid, d')" by (cases p') auto
  obtain r and t :: submission_targets where c: "db_ok d'" "pipeline_runs d' = pipeline_runs d @ [r]" "run_id r = rid"
    and r: "r = new_run (case req_run_id req of Some k \<Rightarrow> k | None \<Rightarrow> sub_fresh_run_id env) (sub_now env)
            (req_pipeline_type req) (target_dataset_id t) (target_source_id t) (req_idempotency_key req)
            h (req_work_input req) (sub_config_fingerprint svc) (req_retry_of_run_id req) (target_session_id t)"
    and st: "pipeline_steps d' = pipeline_steps d @ plan_rows rid (sub_fresh_step_id env) 0 plans"
    and t: "isOk (req_prepare req d)" "fst (projr (req_prepare req d)) = t"
    using create_body_ok[OF b p ok] by blast
  have g: "get_run rid d' = Some r" using get_run_member[OF c(1), of r] c by simp
  have "create_new_run svc env req h plans d = (Inr (outcome_of (run_snapshot_of r) True), d')"
    using q b g by (simp add: create_new_run_def run_tx_def quiet_submission_def find_by_id_def)
  moreover have "submission_effect svc env req d d'"
    unfolding submission_effect_def using c st plans t
    by (intro exI[of _ r] exI[of _ plans]) (simp add: r new_run_def)
  ultimately show ?thesis by auto
qed

lemma resolve_existing_not_created: "resolve_existing req h s = Inr out \<Longrightarrow> \<not> out_created out"
  by (auto simp: resolve_existing_def split: if_splits)

lemma submission_writes_its_run:
  assumes "quiet_submission env" "prepare_contract (req_prepare req)" "db_ok d"
  shows "case submit_work svc env req d of
      (Inl e, d') \<Rightarrow> d' = d
    | (Inr out, d') \<Rightarrow> if out_created out then submission_effect svc env req d d' else d' = d"
proof (cases "canonical_work_payload_hash (sub_py env) (req_work_input req)")
  case (Inl e)
  then show ?thesis by (simp add: submit_work_def)
next
  case (Inr h)
  note q = assms(1)[unfolded quiet_submission_def, rule_format]
  let ?plans = "build_step_plan (sub_py env) (sub_registry svc) (req_pipeline_type req) (req_work_input req)"
  have new: "case create_new_run svc env req h plans d of (Inl e, d') \<Rightarrow> d' = d
      | (Inr out, d') \<Rightarrow> out_created out \<and> submission_effect svc env req d d'" if "?plans = Inr plans" for plans
    using create_new_run_quiet[OF assms that, of h] by auto
  show ?thesis
  proof (cases "case req_idempotency_key req of None \<Rightarrow> None | Some k \<Rightarrow> find_by_idempotency_key k d")
    case None
    then show ?thesis using new
      by (cases "req_idempotency_key req"; cases ?plans)
        (auto simp: submit_work_def Inr q Let_def dest: resolve_existing_not_created
          split: sum.splits prod.splits option.splits)
  next
    case (Some s)
    then show ?thesis
      by (cases "req_idempotency_key req")
        (auto simp: submit_work_def Inr q Let_def dest: resolve_existing_not_created split: sum.splits)
  qed
qed

lemma submission_created:
  assumes "quiet_submission env" "prepare_contract (req_prepare req)" "db_ok d"
    and "submit_work svc env req d = (Inr out, d')" "out_created out"
  shows "db_ok d' \<and> out_run_id out = run_id (last (pipeline_runs d'))"
proof -
  obtain h where h: "canonical_work_payload_hash (sub_py env) (req_work_input req) = Inr h"
    using assms(4) by (auto simp: submit_work_def split: sum.splits)
  have q: "sub_interfere env i e = e" for i e using assms(1) by (simp add: quiet_submission_def)
  obtain plans where c: "create_new_run svc env req h plans d = (Inr out, d')"
    using assms(4,5)
    by (cases "req_idempotency_key req")
      (auto simp: submit_work_def h q Let_def dest: resolve_existing_not_created
        split: option.splits sum.splits prod.splits if_splits)
  obtain rid where b: "create_new_run_body svc env req h plans d = Inr (rid, d')"
    using c by (cases "create_new_run_body svc env req h plans d")
      (auto simp: create_new_run_def run_tx_def q Let_def split: option.splits)
  obtain r where r: "db_ok d'" "pipeline_runs d' = pipeline_runs d @ [r]" "run_id r = rid"
    using create_body_ok[OF b assms(2,3)] by blast
  have "get_run rid d' = Some r" using get_run_member[OF r(1), of r] r by simp
  then show ?thesis using c b r by (auto simp: create_new_run_def run_tx_def q Let_def find_by_id_def)
qed

text \<open>A submission never leaves anything behind but the run it created: undisturbed, a
  submission that raises or replays changes no row, and one that creates appends one QUEUED run
  with attempt 0 for the requested work and the prepared targets, and its planned QUEUED steps.\<close>

theorem submission_writes_its_run_only:
  assumes "quiet_submission env" "prepare_contract (req_prepare req)" "db_ok d"
  shows "case submit_work svc env req d of
      (Inl e, d') \<Rightarrow> d' = d
    | (Inr out, d') \<Rightarrow> if out_created out then submission_effect svc env req d d' else d' = d"
  by (rule submission_writes_its_run[OF assms])

theorem submission_writes_its_run_only_witness:
  "case submit_work sub_demo_service (sub_demo_env 1) (sub_demo_request REMEMBER ''k'' 5) (demo_db []) of
      (Inl e, d') \<Rightarrow> d' = demo_db []
    | (Inr out, d') \<Rightarrow> if out_created out
        then submission_effect sub_demo_service (sub_demo_env 1) (sub_demo_request REMEMBER ''k'' 5) (demo_db []) d'
        else d' = demo_db []"
  by (rule submission_writes_its_run_only[OF _ _ empty_db_ok])
    (simp_all add: quiet_submission_def sub_demo_env_def sub_demo_request_def prepare_contract_def)


definition admits_new_work :: "uuid \<Rightarrow> db \<Rightarrow> bool" where
  "admits_new_work k d \<longleftrightarrow> (\<forall>ds. get_dataset k d = Some ds \<longrightarrow>
     dataset_status ds \<noteq> Dataset_DELETED
     \<and> (\<forall>r \<in> set (pipeline_runs d). run_dataset_id r = Some k \<and> run_pipeline_type r = DATASET_DELETE \<longrightarrow>
          run_status r \<in> set TERMINAL_RUN_STATUSES
          \<and> (dataset_status ds = Dataset_DELETING \<longrightarrow> \<not> step_succeeded (run_id r) ''begin_delete'' d)))"

lemma terminal_iff: "run_status r \<in> set TERMINAL_RUN_STATUSES \<longleftrightarrow> \<not> nonterminal_run (run_status r)"
  by (cases "run_status r") (auto simp: TERMINAL_RUN_STATUSES_def nonterminal_run_def)

lemma barrier_iff:
  "raise_if_dataset_administratively_blocked (Some k) d = Inr () \<longleftrightarrow> admits_new_work k d"
proof (cases "get_dataset k d")
  case None
  then show ?thesis by (simp add: raise_if_dataset_administratively_blocked_def admits_new_work_def)
next
  case (Some ds)
  have n: "find_nonterminal_dataset_delete_for_dataset k d = None \<longleftrightarrow> (\<forall>r \<in> set (pipeline_runs d).
      run_dataset_id r = Some k \<and> run_pipeline_type r = DATASET_DELETE \<longrightarrow> run_status r \<in> set TERMINAL_RUN_STATUSES)"
    by (auto simp: find_nonterminal_dataset_delete_for_dataset_def newest_first_Nil_iff terminal_iff)
  have o: "exists_administrative_delete_ownership k d \<longleftrightarrow> (\<exists>r \<in> set (pipeline_runs d).
      run_dataset_id r = Some k \<and> run_pipeline_type r = DATASET_DELETE \<and> step_succeeded (run_id r) ''begin_delete'' d)"
    by (simp add: exists_administrative_delete_ownership_def list_ex_iff)
  show ?thesis unfolding raise_if_dataset_administratively_blocked_def admits_new_work_def
    by (simp add: Some n o del: not_None_eq) blast
qed

lemma barrier_error:
  "raise_if_dataset_administratively_blocked ds d \<noteq> Inr () \<Longrightarrow>
   raise_if_dataset_administratively_blocked ds d \<in> {Inl dataset_deleted_conflict_error, Inl dataset_deleting_conflict_error}"
  by (auto simp: raise_if_dataset_administratively_blocked_def split: option.splits if_splits)

text \<open>The delete-intent barrier.  Outside DATASET_DELETE, a submission creates a run for an
  existing dataset only when the dataset is not DELETED, no DATASET_DELETE run of it is
  nonterminal, and it is not a DELETING dataset that an administrative delete owns; when one of
  these fails, the submission raises the DATASET_DELETED or DATASET_DELETING conflict.\<close>

theorem delete_barrier:
  assumes "quiet_submission env" "req_pipeline_type req \<noteq> DATASET_DELETE"
    and "req_prepare req d = Inr (t, d1)" "target_dataset_id t = Some k"
    and "create_new_run svc env req h plans d = (res, d')"
  shows "if admits_new_work k d1
    then res \<notin> {Inl dataset_deleted_conflict_error, Inl dataset_deleting_conflict_error}
    else res \<in> {Inl dataset_deleted_conflict_error, Inl dataset_deleting_conflict_error} \<and> d' = d"
proof (cases "admits_new_work k d1")
  case True
  then have "raise_if_dataset_administratively_blocked (Some k) d1 = Inr ()" by (simp add: barrier_iff)
  moreover have "create_run_with_steps i sid now pt ds src key ph inp fp ps rt ses d1 \<noteq> Inl (Sofias_Memory_Error c n)"
    for i sid now pt ds src key ph inp fp ps rt ses c n
    by (auto simp: create_run_with_steps_def Let_def insert_run_def insert_steps_def bindE_eq_Inl_iff split: if_splits)
  ultimately show ?thesis using assms True
    by (auto simp: create_new_run_def run_tx_def create_new_run_body_def quiet_submission_def
        dataset_deleted_conflict_error_def dataset_deleting_conflict_error_def bindE_eq_Inl_iff Let_def
        split: sum.splits option.splits)
next
  case False
  then have "raise_if_dataset_administratively_blocked (Some k) d1 \<noteq> Inr ()" by (simp add: barrier_iff)
  note err = barrier_error[OF this]
  then obtain e where "raise_if_dataset_administratively_blocked (Some k) d1 = Inl e"
    "e \<in> {dataset_deleted_conflict_error, dataset_deleting_conflict_error}" by auto
  then show ?thesis using assms False
    by (auto simp: create_new_run_def run_tx_def create_new_run_body_def quiet_submission_def)
qed

definition demo_deleting_db :: db where
  "demo_deleting_db = (demo_db [demo_run 1 DATASET_DELETE (Some 7)])
     \<lparr>datasets := [\<lparr>dataset_id = 7, dataset_slug = ''x'', dataset_status = Dataset_ACTIVE, dataset_active_generation = 1\<rparr>]\<rparr>"

theorem delete_barrier_witness:
  "fst (create_new_run sub_demo_service (sub_demo_env 2) (sub_demo_request REMEMBER ''k'' 5) [] [] demo_deleting_db)
     \<in> {Inl dataset_deleted_conflict_error, Inl dataset_deleting_conflict_error}"
proof -
  have "\<not> admits_new_work 7 demo_deleting_db"
    by (simp add: barrier_iff[symmetric]) code_simp
  then show ?thesis
    using delete_barrier[of "sub_demo_env 2" "sub_demo_request REMEMBER ''k'' 5" demo_deleting_db _ _ 7,
        OF _ _ _ _ prod.collapse[symmetric]]
    by (simp add: quiet_submission_def sub_demo_env_def sub_demo_request_def)
qed

text \<open>The reserved namespace.  A public submission never creates a run under a \<open>sys:\<close> key or as
  a retry of another run, and a key of that namespace is refused before any row is read.\<close>

theorem reserved_namespace_is_internal:
  assumes "quiet_submission env" "prepare_contract (req_prepare req)" "db_ok d"
    and "submit svc env req d = (res, d')"
  shows "(\<forall>k. req_idempotency_key req = Some k \<and> prefix RESERVED_IDEMPOTENCY_KEY_PREFIX k \<longrightarrow>
      res = Inl reserved_idempotency_key_namespace_error \<and> d' = d)
    \<and> (\<forall>r \<in> set (pipeline_runs d') - set (pipeline_runs d).
         \<forall>k. run_idempotency_key r = Some k \<longrightarrow> \<not> prefix RESERVED_IDEMPOTENCY_KEY_PREFIX k)"
proof (cases "\<exists>k. req_idempotency_key req = Some k \<and> prefix RESERVED_IDEMPOTENCY_KEY_PREFIX k")
  case True
  then show ?thesis using assms(4) by (auto simp: submit_def)
next
  case False
  let ?req = "req\<lparr>req_retry_of_run_id := None\<rparr>"
  have s: "submit_work svc env ?req d = (res, d')"
    using assms(4) False by (auto simp: submit_def split: option.splits)
  have "prepare_contract (req_prepare ?req)" using assms(2) by simp
  from submission_writes_its_run[OF assms(1) this assms(3), of svc]
  have "d' = d \<or> submission_effect svc env ?req d d'"
    by (auto simp: s split: sum.splits if_splits)
  then show ?thesis using False by (auto simp: submission_effect_def)
qed

theorem reserved_namespace_is_internal_witness:
  "fst (submit sub_demo_service (sub_demo_env 2) (sub_demo_request REMEMBER ''sys:retry:1'' 5) (demo_db []))
     = Inl reserved_idempotency_key_namespace_error"
proof -
  have "quiet_submission (sub_demo_env 2)" by (simp add: quiet_submission_def sub_demo_env_def)
  moreover have "prepare_contract (req_prepare (sub_demo_request REMEMBER ''sys:retry:1'' 5))"
    by (simp add: prepare_contract_def sub_demo_request_def)
  moreover have "req_idempotency_key (sub_demo_request REMEMBER ''sys:retry:1'' 5) = Some ''sys:retry:1''
      \<and> prefix RESERVED_IDEMPOTENCY_KEY_PREFIX ''sys:retry:1''"
    by (simp add: sub_demo_request_def RESERVED_IDEMPOTENCY_KEY_PREFIX_def)
  ultimately show ?thesis
    using reserved_namespace_is_internal[OF _ _ empty_db_ok prod.collapse[symmetric], of "sub_demo_env 2"
        "sub_demo_request REMEMBER ''sys:retry:1'' 5" sub_demo_service] by blast
qed

end
