(* ===== verification/Run_Control_Facts.thy ===== *)
theory Run_Control_Facts
  imports Run_Control Submission_Facts
begin

text \<open>
  Facts of cancellation, manual retry, the administrative dataset delete and the bounded wait.
\<close>

subsection \<open>Cancellation\<close>

text \<open>\<open>finish_cancel\<close> is the row of a QUEUED run after its cancellation.\<close>

definition finish_cancel :: "timestamp \<Rightarrow> pipeline_run \<Rightarrow> pipeline_run" where
  "finish_cancel now r = r\<lparr>run_finished_at := Some now, run_next_attempt_at := None, run_status := Run_CANCELLED\<rparr>"

lemma transition_run_cancel:
  "run_status r = Run_QUEUED \<Longrightarrow> transition_run r Run_CANCELLED now None None None None = Inr (finish_cancel now r)"
  by (simp add: transition_defs matrix_defs finish_cancel_def)

lemma transition_run_cancelling:
  "run_status r = Run_RUNNING \<Longrightarrow>
   transition_run r Run_CANCELLING now None None None None = Inr (r\<lparr>run_status := Run_CANCELLING\<rparr>)"
  by (simp add: transition_defs matrix_defs)

lemma finish_cancel_simps [simp]:
  "run_id (finish_cancel now r) = run_id r" "run_status (finish_cancel now r) = Run_CANCELLED"
  by (simp_all add: finish_cancel_def)

abbreviation cancelled_steps :: "uuid \<Rightarrow> timestamp \<Rightarrow> db \<Rightarrow> db" where
  "cancelled_steps k now d \<equiv> steps.put_all (map (cancel_step now) (queued_steps (list_for_run k d))) d"

lemma cancel_queued_run:
  assumes "get_run k d = Some r" "run_status r = Run_QUEUED"
    and "\<not> list_ex (\<lambda>s. step_status s = Step_RUNNING) (list_for_run k d)"
  shows "\<exists>res. cancel k now d = (Inr res, put_run (finish_cancel now r) (cancelled_steps k now d))
    \<and> ctl_http_status res = OK
    \<and> ctl_detail res = run_detail_result (finish_cancel now r)
        (list_for_run k (put_run (finish_cancel now r) (cancelled_steps k now d)))"
  using assms get_run_SomeD[OF assms(1)]
  by (auto simp: cancel_def run_tx_def cancel_body_def Let_def cancel_queued_eq transition_run_cancel control_of_def)

text \<open>C8: Cancellation.  Cancelling a QUEUED run with no running step finishes the run and exactly
  its queued steps as CANCELLED (200); cancelling a RUNNING run only flips it to CANCELLING (202);
  any other run is left as it is (202 while CANCELLING, else 200); a QUEUED run that owns a
  RUNNING step is refused with INTERNAL_ERROR; and an unknown run is a 404.  Nothing else changes.\<close>

theorem cancel_semantics:
  assumes "keyed step_id (pipeline_steps d)"
  shows "case get_run k d of
      None \<Rightarrow> cancel k now d = (Inl run_not_found_error, d)
    | Some r \<Rightarrow>
       (if run_status r = Run_QUEUED then
          (if list_ex (\<lambda>s. step_status s = Step_RUNNING) (list_for_run k d)
           then cancel k now d = (Inl internal_lifecycle_error, d)
           else \<exists>res d'. cancel k now d = (Inr res, d') \<and> ctl_http_status res = OK
             \<and> pipeline_runs d' = row_put run_id (finish_cancel now r) (pipeline_runs d)
             \<and> datasets d' = datasets d
             \<and> (\<forall>i s. get_step i d = Some s \<longrightarrow> get_step i d' =
                  Some (if step_run_id s = k \<and> step_status s = Step_QUEUED then cancel_step now s else s)))
        else if run_status r = Run_RUNNING then
          \<exists>res. cancel k now d = (Inr res, put_run (r\<lparr>run_status := Run_CANCELLING\<rparr>) d)
            \<and> ctl_http_status res = ACCEPTED
        else \<exists>res. cancel k now d = (Inr res, d)
            \<and> ctl_http_status res = (if run_status r = Run_CANCELLING then ACCEPTED else OK))"
proof (cases "get_run k d")
  case None
  then show ?thesis by (simp add: cancel_def run_tx_def cancel_body_def)
next
  case (Some r)
  note id = get_run_SomeD[OF Some, THEN conjunct2]
  show ?thesis
  proof (cases "run_status r = Run_QUEUED \<and> \<not> list_ex (\<lambda>s. step_status s = Step_RUNNING) (list_for_run k d)")
    case True
    then show ?thesis
      using cancel_queued_run[OF Some, of now] get_step_cancelled[OF assms, of _ _ now k]
      by (auto simp: Some put_run_def get_step_def)
  next
    case False
    then show ?thesis
      using Some id
      by (cases "run_status r")
        (auto simp: cancel_def run_tx_def cancel_body_def control_of_def transition_run_cancelling)
  qed
qed

text \<open>Cancellation is idempotent: repeating a cancel that succeeded returns the same answer and
  writes nothing, at any later time.\<close>

theorem cancel_idempotent:
  assumes "cancel k now d = (Inr res, d')"
  shows "cancel k later d' = (Inr res, d')"
proof -
  obtain r where r: "get_run k d = Some r"
    using assms by (auto simp: cancel_def run_tx_def cancel_body_def split: option.splits sum.splits)
  note id = get_run_SomeD[OF r, THEN conjunct2] and mem = get_run_in_ids[OF r]
  show ?thesis
  proof (cases "run_status r = Run_QUEUED")
    case True
    then have nr: "\<not> list_ex (\<lambda>s. step_status s = Step_RUNNING) (list_for_run k d)"
      using assms r id by (auto simp: cancel_def run_tx_def cancel_body_def split: if_splits)
    obtain res' where c: "cancel k now d = (Inr res', put_run (finish_cancel now r) (cancelled_steps k now d))"
      "ctl_http_status res' = OK" "ctl_detail res' = run_detail_result (finish_cancel now r)
        (list_for_run k (put_run (finish_cancel now r) (cancelled_steps k now d)))"
      using cancel_queued_run[OF r True nr] by blast
    then have eq: "res' = res" "d' = put_run (finish_cancel now r) (cancelled_steps k now d)"
      using assms by auto
    have "get_run k d' = Some (finish_cancel now r)"
      using mem id get_run_put_run[of "finish_cancel now r" "cancelled_steps k now d"] by (simp add: eq)
    then have "cancel k later d' = (Inr \<lparr>ctl_detail = run_detail_result (finish_cancel now r) (list_for_run k d'),
        ctl_http_status = OK\<rparr>, d')"
      by (simp add: cancel_def run_tx_def cancel_body_def control_of_def id)
    then show ?thesis using c eq by (cases res) simp
  next
    case False
    have "get_run k (put_run (r\<lparr>run_status := Run_CANCELLING\<rparr>) d) = Some (r\<lparr>run_status := Run_CANCELLING\<rparr>)"
      using mem id get_run_put_run[of "r\<lparr>run_status := Run_CANCELLING\<rparr>" d] by simp
    with False show ?thesis using assms r id
      by (cases "run_status r")
        (auto simp: cancel_def run_tx_def cancel_body_def control_of_def transition_run_cancelling)
  qed
qed

definition demo_queued_db :: db where
  "demo_queued_db = (demo_db [demo_run 1 REMEMBER (Some 7)])\<lparr>pipeline_steps := [demo_fin, demo_pending]\<rparr>"

theorem cancel_semantics_witness:
  "\<exists>res d'. cancel 1 9 demo_queued_db = (Inr res, d') \<and> ctl_http_status res = OK"
proof -
  have "keyed step_id (pipeline_steps demo_queued_db)" by code_simp
  moreover have "get_run 1 demo_queued_db = Some (demo_run 1 REMEMBER (Some 7))" by code_simp
  moreover have "\<not> list_ex (\<lambda>s. step_status s = Step_RUNNING) (list_for_run 1 demo_queued_db)" by code_simp
  moreover have "run_status (demo_run 1 REMEMBER (Some 7)) = Run_QUEUED" by code_simp
  ultimately show ?thesis using cancel_semantics[of demo_queued_db 1 9] by auto
qed

lemma demo_cancel: "\<exists>res. cancel 1 9 demo_queued_db = (Inr res, snd (cancel 1 9 demo_queued_db))"
proof -
  have "isOk (fst (cancel 1 9 demo_queued_db))" by code_simp
  then show ?thesis by (cases "cancel 1 9 demo_queued_db") (auto simp: isOk_def split: sum.splits)
qed

theorem cancel_idempotent_witness:
  "fst (cancel 1 50 (snd (cancel 1 9 demo_queued_db))) = fst (cancel 1 9 demo_queued_db)"
proof -
  obtain res where r: "cancel 1 9 demo_queued_db = (Inr res, snd (cancel 1 9 demo_queued_db))"
    using demo_cancel by blast
  have "cancel 1 50 (snd (cancel 1 9 demo_queued_db)) = (Inr res, snd (cancel 1 9 demo_queued_db))"
    using cancel_idempotent[OF r] by blast
  then show ?thesis using r by (metis fst_conv)
qed

subsection \<open>Waiting\<close>

text \<open>\<open>asyncio.sleep(min(interval, remaining))\<close> takes at least that long on the loop clock.\<close>

definition sleeps_through :: "wait_env \<Rightarrow> rat \<Rightarrow> rat \<Rightarrow> bool" where
  "sleeps_through e interval deadline \<longleftrightarrow> wt_start e \<le> wt_clock e 0
     \<and> (\<forall>i. wt_clock e i + min interval (deadline - wt_clock e i) \<le> wt_clock e (Suc i))"

lemma clock_progress:
  assumes "sleeps_through e p deadline" "0 < p"
  shows "min deadline (wt_start e + rat_of_nat i * p) \<le> wt_clock e i"
proof (induction i)
  case 0
  then show ?case using assms(1) by (simp add: sleeps_through_def min_le_iff_disj)
next
  case (Suc i)
  have "wt_clock e i + min p (deadline - wt_clock e i) \<le> wt_clock e (Suc i)"
    using assms by (simp add: sleeps_through_def)
  moreover have "rat_of_nat (Suc i) * p = rat_of_nat i * p + p" by (simp add: algebra_simps)
  ultimately show ?case using Suc assms(2) by (auto simp: min_def split: if_splits)
qed

text \<open>What the outcome of a wait says of the reads it made.\<close>

fun wait_says :: "wait_env \<Rightarrow> uuid \<Rightarrow> rat \<Rightarrow> nat \<Rightarrow> exn + wait_outcome \<Rightarrow> bool" where
  "wait_says e k deadline n (Inl x) = (x = Run_Not_Found_During_Wait k \<and> (\<exists>i\<le>n. get_run k (wt_db e i) = None))"
| "wait_says e k deadline n (Inr out) = (wo_run_id out = k
     \<and> (\<exists>i\<le>n. read_status k (wt_db e i) = Some (wo_status out) \<and> (wo_timed_out out \<longrightarrow> deadline \<le> wt_clock e i))
     \<and> (wo_timed_out out \<longleftrightarrow> wo_status out \<notin> set TERMINAL_RUN_STATUSES))"

lemma wait_loop_ends:
  assumes "i \<le> n" "deadline \<le> wt_clock e n" "n - i < fuel"
  shows "\<exists>x. wait_loop fuel i e k deadline = Some x \<and> wait_says e k deadline n x"
  using assms
proof (induction fuel arbitrary: i)
  case (Suc fuel)
  show ?case
  proof (cases "read_status k (wt_db e i)")
    case None
    then show ?thesis using Suc.prems by (auto simp: read_status_def)
  next
    case (Some st)
    show ?thesis
    proof (cases "st \<in> set TERMINAL_RUN_STATUSES \<or> deadline - wt_clock e i \<le> 0")
      case True
      then show ?thesis using Some Suc.prems by auto
    next
      case False
      then have "i \<noteq> n" using Suc.prems by auto
      then show ?thesis using Some False Suc by auto
    qed
  qed
qed simp

text \<open>A bounded wait ends.  With a sleep of at least the poll interval or the remaining time,
  the loop returns within the number of intervals in the timeout, plus one; it reports a terminal
  status it read, or a timeout with the non-terminal status it read after the deadline, or that
  the run does not exist.\<close>

theorem wait_terminates:
  assumes "sleeps_through e p (wt_start e + timeout)" "0 < p" "timeout \<le> rat_of_nat n * p"
  shows "\<exists>x. wait_for_terminal (Suc n) e k timeout = Some x \<and> wait_says e k (wt_start e + timeout) n x"
  using wait_loop_ends[of 0 n "wt_start e + timeout" e "Suc n" k] clock_progress[OF assms(1,2), of n] assms(3)
  by (auto simp: wait_for_terminal_def min_def split: if_splits)

definition demo_wait :: wait_env where
  "demo_wait = \<lparr>wt_db = (\<lambda>i. demo_queued_db), wt_start = 0, wt_clock = (\<lambda>i. rat_of_nat i / 10)\<rparr>"

theorem wait_terminates_witness:
  "\<exists>x. wait_for_terminal (Suc 2) demo_wait 1 (1/10) = Some x"
proof -
  have "rat_of_nat i / 10 + min (1/20) x \<le> rat_of_nat (Suc i) / 10" for i x
    using min.cobounded1[of "1/20" x] by (simp only: of_nat_Suc add_divide_distrib)
  then have "sleeps_through demo_wait (1/20) (wt_start demo_wait + 1/10)"
    by (simp add: sleeps_through_def demo_wait_def del: of_nat_Suc)
  moreover have "(1/10::rat) \<le> rat_of_nat 2 * (1/20)" by simp
  ultimately show ?thesis using wait_terminates[of demo_wait "1/20" "1/10" 2 1] by auto
qed


subsection \<open>Manual retry\<close>

definition quiet_retry :: "retry_env \<Rightarrow> bool" where
  "quiet_retry e \<longleftrightarrow> (\<forall>i d. ret_interfere e i d = d) \<and> quiet_submission (ret_submission e)"

lemma quiet_env_ok: "quiet_submission env \<Longrightarrow> submission_env_ok env"
proof -
  assume "quiet_submission env"
  then have "sub_interfere env i = (\<lambda>d. d)" for i by (auto simp: quiet_submission_def)
  then show ?thesis by (simp add: submission_env_ok_def)
qed

lemma retry_key_reserved: "prefix RESERVED_IDEMPOTENCY_KEY_PREFIX (retry_key k)"
  by (simp add: retry_key_def RETRY_IDEMPOTENCY_KEY_PREFIX_def RESERVED_IDEMPOTENCY_KEY_PREFIX_def)

lemma retry_prepare: "prepare_contract (retry_preparation_hook original)"
  by (simp add: prepare_contract_def retry_preparation_hook_def)

lemma load_original:
  "load_retryable_original k d = Inr original \<longleftrightarrow>
   (\<exists>r. get_run k d = Some r \<and> run_status r \<in> set RETRYABLE_STATUSES
     \<and> \<not> (run_dataset_id r = None \<and> \<not> is_legitimate_global_run (run_pipeline_type r) (run_input r))
     \<and> original = \<lparr>org_id = run_id r, org_pipeline_type = run_pipeline_type r,
          org_dataset_id = run_dataset_id r, org_source_id = run_source_id r,
          org_session_id = run_session_id r, org_input = run_input r\<rparr>)"
  by (auto simp: load_retryable_original_def split: option.splits)

text \<open>A retry submission while no run holds the key either fails, writing nothing, or creates.\<close>

lemma retry_submission:
  assumes q: "quiet_submission env" and ok: "db_ok d"
    and none: "get_by_idempotency_key (retry_key (org_id original)) d = None"
  shows "(\<exists>x. submit_trusted_internal svc env (retry_request original c) d = (Inl x, d))
    \<or> (\<exists>out d' r. submit_trusted_internal svc env (retry_request original c) d = (Inr out, d')
        \<and> out_created out \<and> db_ok d' \<and> submission_effect svc env (retry_request original c) d d'
        \<and> get_run (out_run_id out) d' = Some r \<and> pipeline_runs d' = pipeline_runs d @ [r])"
proof -
  let ?req = "retry_request original c" and ?key = "retry_key (org_id original)"
  have t: "submit_trusted_internal svc env ?req d = submit_work svc env ?req d"
    by (simp add: submit_trusted_internal_def retry_request_def retry_key_reserved)
  have p: "prepare_contract (req_prepare ?req)" by (simp add: retry_request_def retry_prepare)
  have sok: "submission_ok ?key (env, ?req)"
    using quiet_env_ok[OF q] p by (simp add: submission_ok_def retry_request_def)
  obtain x d' where x: "submit_work svc env ?req d = (x, d')" by (cases "submit_work svc env ?req d") auto
  show ?thesis
  proof (cases x)
    case (Inl e)
    then show ?thesis using submission_writes_its_run[OF q p ok, of svc] x t by simp
  next
    case (Inr out)
    obtain r where r: "get_by_idempotency_key ?key d' = Some r" "names_run out r"
      using submit_work_result[OF sok ok x[unfolded Inr]] by blast
    have c: "out_created out \<and> submission_effect svc env ?req d d'"
      using submission_writes_its_run[OF q p ok, of svc] x Inr r none by (auto split: if_splits)
    obtain r0 where r0: "pipeline_runs d' = pipeline_runs d @ [r0]" "run_idempotency_key r0 = Some ?key"
      using c by (auto simp: submission_effect_def retry_request_def)
    have ok': "db_ok d'" using submit_work_extends[OF sok ok, of svc] x by (simp add: extends_runs_ok)
    have "r = r0" using get_by_key_unique[OF ok', of r0 ?key] r0 r by simp
    moreover have "get_run (run_id r) d' = Some r" using get_run_member[OF ok'] get_by_key_SomeD[OF r(1)] by blast
    ultimately show ?thesis using x Inr c ok' r r0 t by (auto simp: names_run_def)
  qed
qed


definition child_of :: "pipeline_run \<Rightarrow> pipeline_run \<Rightarrow> bool" where
  "child_of r c \<longleftrightarrow> run_retry_of_run_id c = Some (run_id r)
     \<and> run_idempotency_key c = Some (retry_key (run_id r))
     \<and> run_pipeline_type c = run_pipeline_type r \<and> run_input c = run_input r
     \<and> run_dataset_id c = run_dataset_id r \<and> run_source_id c = run_source_id r
     \<and> run_session_id c = run_session_id r"

lemma staged_store:
  assumes "prepare_remember_retry_ingress srcs st k sid cand kind fs = (b, fs1)"
  shows "(\<not> b \<longrightarrow> fs1 = fs) \<and> (fs cand = None \<longrightarrow> fs1(cand := None) = fs)"
  using assms
  by (auto simp: prepare_remember_retry_ingress_def write_ingress_bytes_def split: option.splits if_splits prod.splits)

lemma retry_submit_quiet:
  assumes q: "quiet_retry e" and ok: "db_ok d" and org: "load_retryable_original k d = Inr original"
    and none: "get_by_idempotency_key (retry_key k) d = None" and r: "get_run k d = Some r"
  shows "(\<exists>x fs'. retry_submit svc e k original fs d = (Inl x, d, fs') \<and> (fs (ret_candidate_id e) = None \<longrightarrow> fs' = fs))
    \<or> (\<exists>d' fs' c. retry_submit svc e k original fs d = (Inr (run_id c), d', fs') \<and> db_ok d'
        \<and> pipeline_runs d' = pipeline_runs d @ [c] \<and> get_run (run_id c) d' = Some c
        \<and> run_status c = Run_QUEUED \<and> run_attempt c = 0 \<and> child_of r c)"
proof -
  have id: "org_id original = k" "org_pipeline_type original = run_pipeline_type r" "org_input original = run_input r"
    "org_dataset_id original = run_dataset_id r" "org_source_id original = run_source_id r"
    "org_session_id original = run_session_id r" "run_id r = k"
    using org r get_run_SomeD[OF r] by (auto simp: load_original)
  let ?c = "ret_candidate_id e"
  obtain b fs1 where stage: "(if org_pipeline_type original = REMEMBER then
      prepare_remember_retry_ingress (ret_sources e) (ret_storage e) (org_id original)
        (org_source_id original) ?c (source_kind_of (org_input original)) fs else (True, fs)) = (b, fs1)"
    by fastforce
  have st: "(\<not> b \<longrightarrow> fs1 = fs)" "fs ?c = None \<longrightarrow> org_pipeline_type original = REMEMBER \<longrightarrow> fs1(?c := None) = fs"
    "org_pipeline_type original \<noteq> REMEMBER \<longrightarrow> fs1 = fs"
    using stage staged_store[of "ret_sources e" "ret_storage e"] by (auto split: if_splits)
  show ?thesis
  proof (cases b)
    case False
    then show ?thesis using stage st by (auto simp: retry_submit_def Let_def)
  next
    case True
    have "quiet_submission (ret_submission e)" using q by (simp add: quiet_retry_def)
    from retry_submission[OF this ok, of original svc ?c]
    consider (fail) x where "submit_trusted_internal svc (ret_submission e) (retry_request original ?c) d = (Inl x, d)"
      | (new) out d' c where "submit_trusted_internal svc (ret_submission e) (retry_request original ?c) d = (Inr out, d')"
        "out_created out" "db_ok d'" "submission_effect svc (ret_submission e) (retry_request original ?c) d d'"
        "get_run (out_run_id out) d' = Some c" "pipeline_runs d' = pipeline_runs d @ [c]"
      using none id by auto
    then show ?thesis
    proof cases
      case fail
      then show ?thesis using True stage st
        by (auto simp: retry_submit_def Let_def delete_ingress_artifact_def)
    next
      case new
      have "out_run_id out = run_id c" using new get_run_SomeD by auto
      moreover have "run_status c = Run_QUEUED \<and> run_attempt c = 0 \<and> child_of r c"
        using new(4,6) id
        by (auto simp: submission_effect_def child_of_def retry_request_def retry_preparation_hook_def)
      ultimately have "retry_submit svc e k original fs d = (Inr (run_id c), d', fs1) \<and> db_ok d'
        \<and> pipeline_runs d' = pipeline_runs d @ [c] \<and> get_run (run_id c) d' = Some c
        \<and> run_status c = Run_QUEUED \<and> run_attempt c = 0 \<and> child_of r c"
        using new True stage by (simp add: retry_submit_def Let_def)
      then show ?thesis by blast
    qed
  qed
qed

lemma retry_quiet:
  assumes "quiet_retry e"
  shows "retry svc e k fs d =
    (case load_retryable_original k d of
       Inl x \<Rightarrow> (Inl x, d, fs)
     | Inr original \<Rightarrow>
       (case existing_retry_child (retry_key k) k d of
          Inl x \<Rightarrow> (Inl x, d, fs)
        | Inr (Some i) \<Rightarrow> (respond i d, d, fs)
        | Inr None \<Rightarrow>
          (case (if org_pipeline_type original \<noteq> DATASET_DELETE
                 then raise_if_dataset_administratively_blocked (org_dataset_id original) d else Inr ()) of
             Inl x \<Rightarrow> (Inl x, d, fs)
           | Inr _ \<Rightarrow>
             (case retry_submit svc e k original fs d of
                (Inl x, d3, fs') \<Rightarrow> (Inl x, d3, fs')
              | (Inr i, d3, fs') \<Rightarrow> (respond i d3, d3, fs')))))"
proof -
  have i: "ret_interfere e i = (\<lambda>d. d)" for i using assms by (auto simp: quiet_retry_def)
  show ?thesis unfolding retry_def Let_def i if_cancel by (rule refl)
qed

text \<open>What a successful or failed undisturbed retry is.\<close>

lemma retry_outcome:
  assumes q: "quiet_retry e" and ok: "db_ok d"
  shows "(\<exists>x fs'. retry svc e k fs d = (Inl x, d, fs') \<and> (fs (ret_candidate_id e) = None \<longrightarrow> fs' = fs))
    \<or> (\<exists>d' fs' r c. retry svc e k fs d = (respond (run_id c) d', d', fs') \<and> get_run k d = Some r
        \<and> run_status r \<in> set RETRYABLE_STATUSES \<and> load_retryable_original k d \<noteq> Inl run_not_found_error
        \<and> isOk (load_retryable_original k d)
        \<and> get_run (run_id c) d' = Some c \<and> run_idempotency_key c = Some (retry_key k)
        \<and> run_retry_of_run_id c = Some k \<and> db_ok d'
        \<and> (if get_by_idempotency_key (retry_key k) d = None
           then pipeline_runs d' = pipeline_runs d @ [c] \<and> child_of r c \<and> run_status c = Run_QUEUED \<and> run_attempt c = 0
           else d' = d \<and> fs' = fs))"
proof (cases "load_retryable_original k d")
  case (Inl x)
  then show ?thesis by (simp add: retry_quiet[OF q])
next
  case (Inr original)
  then obtain r where r: "get_run k d = Some r" "run_status r \<in> set RETRYABLE_STATUSES"
    by (auto simp: load_original)
  show ?thesis
  proof (cases "get_by_idempotency_key (retry_key k) d")
    case (Some c)
    then show ?thesis using Inr r ok get_run_member[OF ok, of c] get_by_key_SomeD[OF Some]
      by (auto simp: retry_quiet[OF q] existing_retry_child_def)
  next
    case None
    show ?thesis
    proof (cases "if org_pipeline_type original \<noteq> DATASET_DELETE
                 then raise_if_dataset_administratively_blocked (org_dataset_id original) d else Inr ()")
      case (Inl x)
      then show ?thesis using Inr None by (simp add: retry_quiet[OF q] existing_retry_child_def cong: if_cong)
    next
      case pass: (Inr u)
      have eq: "retry svc e k fs d = (case retry_submit svc e k original fs d of
                (Inl x, d3, fs') \<Rightarrow> (Inl x, d3, fs') | (Inr i, d3, fs') \<Rightarrow> (respond i d3, d3, fs'))"
        unfolding retry_quiet[OF q] Inr existing_retry_child_def None option.case sum.case pass by (rule refl)
      have rid: "run_id r = k" using get_run_SomeD[OF r(1)] by simp
      from retry_submit_quiet[OF q ok Inr None r(1), of svc fs]
      show ?thesis
      proof
        assume "\<exists>x fs'. retry_submit svc e k original fs d = (Inl x, d, fs') \<and> (fs (ret_candidate_id e) = None \<longrightarrow> fs' = fs)"
        then show ?thesis using eq by auto
      next
        assume "\<exists>d' fs' c. retry_submit svc e k original fs d = (Inr (run_id c), d', fs') \<and> db_ok d'
          \<and> pipeline_runs d' = pipeline_runs d @ [c] \<and> get_run (run_id c) d' = Some c
          \<and> run_status c = Run_QUEUED \<and> run_attempt c = 0 \<and> child_of r c"
        then obtain d' fs' c where "retry_submit svc e k original fs d = (Inr (run_id c), d', fs')" "db_ok d'"
          "pipeline_runs d' = pipeline_runs d @ [c]" "get_run (run_id c) d' = Some c"
          "run_status c = Run_QUEUED" "run_attempt c = 0" "child_of r c" by blast
        then show ?thesis using eq r None Inr rid
          by (intro disjI2 exI[of _ d'] exI[of _ fs'] exI[of _ r] exI[of _ c]) (simp add: child_of_def)
      qed
    qed
  qed
qed


text \<open>C9: Manual retry creates one faithful child.  Undisturbed, the first successful retry of a run
  is of a FAILED or CANCELLED run; it appends exactly one QUEUED run with attempt 0 that carries
  the original's work, targets and retry key, and answers 202 for it; a retry that fails leaves
  the database, and the ingress store but for the fresh candidate, as they were.\<close>

theorem retry_creates_child:
  assumes "quiet_retry e" "db_ok d" "fs (ret_candidate_id e) = None"
    and "get_by_idempotency_key (retry_key k) d = None" and "retry svc e k fs d = (res, d', fs')"
  shows "case res of
      Inl x \<Rightarrow> d' = d \<and> fs' = fs
    | Inr out \<Rightarrow> \<exists>r c. get_run k d = Some r \<and> (run_status r = Run_FAILED \<or> run_status r = Run_CANCELLED)
        \<and> pipeline_runs d' = pipeline_runs d @ [c] \<and> child_of r c \<and> run_status c = Run_QUEUED
        \<and> run_attempt c = 0 \<and> ctl_http_status out = ACCEPTED
        \<and> sum_run_id (detail_summary (ctl_detail out)) = run_id c"
proof -
  have resp: "respond (run_id c) d' = Inr \<lparr>ctl_detail = run_detail_result c (list_for_run (run_id c) d'),
      ctl_http_status = ACCEPTED\<rparr>" if "get_run (run_id c) d' = Some c" "run_status c = Run_QUEUED" for c d'
    using that by (simp add: respond_def TERMINAL_RUN_STATUSES_def)
  from retry_outcome[OF assms(1,2), of svc k fs] show ?thesis
  proof
    assume "\<exists>x fs'. retry svc e k fs d = (Inl x, d, fs') \<and> (fs (ret_candidate_id e) = None \<longrightarrow> fs' = fs)"
    then show ?thesis using assms by auto
  next
    assume "\<exists>d' fs' r c. retry svc e k fs d = (respond (run_id c) d', d', fs') \<and> get_run k d = Some r
        \<and> run_status r \<in> set RETRYABLE_STATUSES \<and> load_retryable_original k d \<noteq> Inl run_not_found_error
        \<and> isOk (load_retryable_original k d)
        \<and> get_run (run_id c) d' = Some c \<and> run_idempotency_key c = Some (retry_key k)
        \<and> run_retry_of_run_id c = Some k \<and> db_ok d'
        \<and> (if get_by_idempotency_key (retry_key k) d = None
           then pipeline_runs d' = pipeline_runs d @ [c] \<and> child_of r c \<and> run_status c = Run_QUEUED \<and> run_attempt c = 0
           else d' = d \<and> fs' = fs)"
    then obtain r c where "retry svc e k fs d = (respond (run_id c) d', d', fs')" "get_run k d = Some r"
      "run_status r \<in> set RETRYABLE_STATUSES" "get_run (run_id c) d' = Some c"
      "pipeline_runs d' = pipeline_runs d @ [c]" "child_of r c" "run_status c = Run_QUEUED" "run_attempt c = 0"
      using assms(4,5) by auto
    then show ?thesis using assms(5) resp
      by (auto simp: RETRYABLE_STATUSES_def run_detail_result_def run_summary_result_def)
  qed
qed

text \<open>Manual retry is idempotent: after a retry of a run succeeded, any later retry of it, by any
  process, answers for the same child and writes neither rows nor ingress files.\<close>

theorem retry_idempotent:
  assumes "quiet_retry e" "quiet_retry e'" "db_ok d" and "retry svc e k fs d = (Inr res, d', fs1)"
  shows "retry svc' e' k fs2 d' = (Inr res, d', fs2)"
proof -
  have "\<not> (\<exists>x fs'. retry svc e k fs d = (Inl x, d, fs') \<and> (fs (ret_candidate_id e) = None \<longrightarrow> fs' = fs))"
    using assms(4) by simp
  with retry_outcome[OF assms(1,3), of svc k fs] obtain d1 fs' r c where
    c: "retry svc e k fs d = (respond (run_id c) d1, d1, fs')" "get_run k d = Some r"
    "isOk (load_retryable_original k d)"
    "get_run (run_id c) d1 = Some c" "run_idempotency_key c = Some (retry_key k)" "run_retry_of_run_id c = Some k"
    "db_ok d1" and app: "pipeline_runs d1 = pipeline_runs d @ [c] \<or> d1 = d"
    by (auto split: if_splits)
  have d1: "d1 = d'" "respond (run_id c) d' = Inr res" using c(1) assms(4) by auto
  have "get_run k d' = Some r"
    using app c(2,7) get_run_SomeD[OF c(2)] get_run_member[OF c(7), of r] d1 by auto
  then have load: "load_retryable_original k d' = load_retryable_original k d"
    using c(2) by (simp add: load_retryable_original_def)
  have key: "get_by_idempotency_key (retry_key k) d' = Some c"
    using get_by_key_get_run[OF c(7,4,5)] d1 by simp
  show ?thesis
    using c(3,6) key d1 load
    by (auto simp: retry_quiet[OF assms(2)] existing_retry_child_def isOk_def split: sum.splits)
qed

definition demo_failed_run :: pipeline_run where
  "demo_failed_run = (new_run 1 0 REMEMBER (Some 7) None None (replicate 64 (CHR ''a''))
     (JObj [(ascii ''source_kind'', json_str ''url'')]) (replicate 64 (CHR ''0'')) None None)
     \<lparr>run_status := Run_FAILED\<rparr>"

definition demo_retry_env :: "uuid \<Rightarrow> retry_env" where
  "demo_retry_env c = \<lparr>ret_submission = sub_demo_env c, ret_interfere = (\<lambda>_ d. d), ret_candidate_id = c,
     ret_sources = (\<lambda>_. None), ret_storage = (\<lambda>_ _. None)\<rparr>"

lemma demo_retry_quiet: "quiet_retry (demo_retry_env c)"
  by (simp add: quiet_retry_def demo_retry_env_def quiet_submission_def sub_demo_env_def)

lemma demo_failed_ok: "db_ok (demo_db [demo_failed_run])"
  by (simp add: db_ok_def demo_db_def run_table_ok_def step_table_ok_def keyed_def idempotency_keys_def
      operational_datasets_def demo_failed_run_def new_run_def) code_simp

lemma demo_retry_runs: "isOk (fst (retry sub_demo_service (demo_retry_env 2) 1 (\<lambda>_. None) (demo_db [demo_failed_run])))"
  by code_simp

theorem retry_creates_child_witness:
  "\<exists>c. pipeline_runs (fst (snd (retry sub_demo_service (demo_retry_env 2) 1 (\<lambda>_. None) (demo_db [demo_failed_run]))))
     = [demo_failed_run, c] \<and> child_of demo_failed_run c"
proof -
  obtain res d' fs' where r: "retry sub_demo_service (demo_retry_env 2) 1 (\<lambda>_. None) (demo_db [demo_failed_run]) = (res, d', fs')"
    by (metis prod.collapse)
  then obtain out where "res = Inr out" using demo_retry_runs by (cases res) simp_all
  moreover have "get_by_idempotency_key (retry_key 1) (demo_db [demo_failed_run]) = None"
    by (simp add: get_by_idempotency_key_def demo_db_def demo_failed_run_def new_run_def)
  moreover have "get_run 1 (demo_db [demo_failed_run]) = Some demo_failed_run" by code_simp
  moreover have "pipeline_runs (demo_db [demo_failed_run]) = [demo_failed_run]" by (simp add: demo_db_def)
  ultimately show ?thesis
    using retry_creates_child[OF demo_retry_quiet demo_failed_ok _ _ r] r by auto
qed

theorem retry_idempotent_witness:
  "let first = retry sub_demo_service (demo_retry_env 2) 1 (\<lambda>_. None) (demo_db [demo_failed_run]);
       second = retry sub_demo_service (demo_retry_env 3) 1 (\<lambda>_. None) (fst (snd first))
   in fst second = fst first \<and> fst (snd second) = fst (snd first)"
proof -
  obtain res d' fs' where r: "retry sub_demo_service (demo_retry_env 2) 1 (\<lambda>_. None) (demo_db [demo_failed_run]) = (res, d', fs')"
    by (metis prod.collapse)
  then obtain out where "res = Inr out" using demo_retry_runs by (cases res) simp_all
  with r have r2: "retry sub_demo_service (demo_retry_env 2) 1 (\<lambda>_. None) (demo_db [demo_failed_run]) = (Inr out, d', fs')" by simp
  show ?thesis
    using retry_idempotent[OF demo_retry_quiet demo_retry_quiet demo_failed_ok r2, of sub_demo_service 3 "\<lambda>_. None"] r2
    by (simp add: Let_def)
qed

text \<open>Retrying a finished DATASET_DELETE run bypasses the delete-intent barrier: while another
  DATASET_DELETE run of the dataset is nonterminal, the retry appends a second one.\<close>

theorem retry_starts_second_deletion:
  assumes "quiet_retry e" "db_ok d" "fs (ret_candidate_id e) = None"
    and "get_by_idempotency_key (retry_key k) d = None" and "retry svc e k fs d = (Inr res, d', fs')"
    and "get_run k d = Some r" "run_pipeline_type r = DATASET_DELETE" "run_dataset_id r = Some ds"
    and "find_nonterminal_dataset_delete_for_dataset ds d = Some other"
  shows "\<exists>c. {other, c} \<subseteq> set (pipeline_runs d') \<and> run_id c \<noteq> run_id other
    \<and> (\<forall>x \<in> {other, c}. run_pipeline_type x = DATASET_DELETE \<and> run_dataset_id x = Some ds \<and> nonterminal_run (run_status x))"
proof -
  have n: "\<not> (\<exists>x fs'. retry svc e k fs d = (Inl x, d, fs') \<and> (fs (ret_candidate_id e) = None \<longrightarrow> fs' = fs))"
    using assms(5) by simp
  from retry_outcome[OF assms(1,2), of svc k fs] n assms(4,5,6) obtain c where
    c: "pipeline_runs d' = pipeline_runs d @ [c]" "child_of r c" "run_status c = Run_QUEUED" "db_ok d'" by auto
  have o: "other \<in> set (pipeline_runs d)" "run_pipeline_type other = DATASET_DELETE" "run_dataset_id other = Some ds"
    "nonterminal_run (run_status other)"
    using assms(9) by (auto simp: find_nonterminal_dataset_delete_for_dataset_def dest!: first_of_newest)
  have "distinct (map run_id (pipeline_runs d'))" using c(4) by (simp add: db_ok_def run_table_ok_def keyed_def)
  then have "run_id c \<noteq> run_id other" using c(1) o(1) by auto
  then show ?thesis using c o assms(7,8) by (auto simp: child_of_def nonterminal_run_def)
qed


definition demo_delete_registry :: registry where
  "demo_delete_registry = [(DATASET_DELETE, demo_pipeline\<lparr>pd_pipeline_type := DATASET_DELETE\<rparr>)]"

definition demo_delete_service :: submission_service where
  "demo_delete_service = \<lparr>sub_registry = demo_delete_registry, sub_config_fingerprint = replicate 64 (CHR ''0'')\<rparr>"

definition demo_delete_run :: "uuid \<Rightarrow> run_status \<Rightarrow> pipeline_run" where
  "demo_delete_run k st = (new_run k (int k) DATASET_DELETE (Some 7) None None (replicate 64 (CHR ''a''))
     json_empty (replicate 64 (CHR ''0'')) None None)\<lparr>run_status := st\<rparr>"

definition demo_delete_db :: "pipeline_run list \<Rightarrow> db" where
  "demo_delete_db rs = (demo_db rs)
     \<lparr>datasets := [\<lparr>dataset_id = 7, dataset_slug = ''x'', dataset_status = Dataset_ACTIVE, dataset_active_generation = 1\<rparr>]\<rparr>"

lemma demo_delete_ok:
  "db_ok (demo_delete_db [demo_delete_run 1 Run_CANCELLED, demo_delete_run 2 Run_QUEUED])"
  "db_ok (demo_delete_db [])"
  by (simp_all add: db_ok_def demo_db_def run_table_ok_def step_table_ok_def keyed_def idempotency_keys_def
      operational_datasets_def demo_delete_db_def demo_delete_run_def new_run_def) code_simp+

theorem retry_starts_second_deletion_witness:
  "\<exists>c. let d' = fst (snd (retry demo_delete_service (demo_retry_env 3) 1 (\<lambda>_. None)
        (demo_delete_db [demo_delete_run 1 Run_CANCELLED, demo_delete_run 2 Run_QUEUED])))
     in {demo_delete_run 2 Run_QUEUED, c} \<subseteq> set (pipeline_runs d') \<and> run_id c \<noteq> 2
        \<and> nonterminal_run (run_status c)"
proof -
  let ?d = "demo_delete_db [demo_delete_run 1 Run_CANCELLED, demo_delete_run 2 Run_QUEUED]"
  let ?x = "retry demo_delete_service (demo_retry_env 3) 1 (\<lambda>_. None) ?d"
  have "isOk (fst ?x)" by code_simp
  then obtain out where r: "?x = (Inr out, fst (snd ?x), snd (snd ?x))"
    by (metis isOk_simps(2) prod.collapse sum.exhaust)
  have fs: "(\<lambda>_. None) (ret_candidate_id (demo_retry_env 3)) = None" by simp
  have key: "get_by_idempotency_key (retry_key 1) ?d = None"
    by (simp add: get_by_idempotency_key_def demo_db_def demo_delete_db_def demo_delete_run_def new_run_def)
  have g: "get_run 1 ?d = Some (demo_delete_run 1 Run_CANCELLED)" by code_simp
  have f: "run_pipeline_type (demo_delete_run 1 Run_CANCELLED) = DATASET_DELETE"
    "run_dataset_id (demo_delete_run 1 Run_CANCELLED) = Some 7" "run_id (demo_delete_run 2 Run_QUEUED) = 2"
    by (simp_all add: demo_delete_run_def new_run_def)
  have n: "find_nonterminal_dataset_delete_for_dataset 7 ?d = Some (demo_delete_run 2 Run_QUEUED)" by code_simp
  show ?thesis
    using retry_starts_second_deletion[OF demo_retry_quiet demo_delete_ok(1) fs key r g f(1,2) n] f(3)
    by (auto simp: Let_def)
qed

subsection \<open>Administrative delete\<close>

definition open_deletions :: "uuid \<Rightarrow> db \<Rightarrow> pipeline_run list" where
  "open_deletions ds d = filter (\<lambda>r. run_dataset_id r = Some ds \<and> run_pipeline_type r = DATASET_DELETE
     \<and> nonterminal_run (run_status r)) (pipeline_runs d)"

lemma find_nonterminal_open:
  "find_nonterminal_dataset_delete_for_dataset ds d = None \<longleftrightarrow> open_deletions ds d = []"
  by (simp add: find_nonterminal_dataset_delete_for_dataset_def newest_first_Nil_iff open_deletions_def filter_empty_conv)

lemma find_nonterminal_single:
  "open_deletions ds d = [c] \<Longrightarrow> find_nonterminal_dataset_delete_for_dataset ds d = Some c"
  by (simp add: find_nonterminal_dataset_delete_for_dataset_def newest_first_def oldest_first_def
      open_deletions_def first_of_def)

lemma request_delete_quiet:
  assumes "quiet_submission env"
  shows "request_delete svc env ds d =
    (case request_delete_body svc env ds d of
       Inl e \<Rightarrow> (Inl e, d)
     | Inr (Inl res, d1) \<Rightarrow> (Inr res, d1)
     | Inr (Inr k, d1) \<Rightarrow> (case get_run k d1 of
           None \<Rightarrow> (Inl Assertion_Error, d1) | Some r \<Rightarrow> (delete_run_result r ACCEPTED, d1)))"
proof -
  have i: "sub_interfere env i = (\<lambda>d. d)" for i using assms by (auto simp: quiet_submission_def)
  show ?thesis unfolding request_delete_def i run_tx_def Let_def
    by (auto split: sum.splits prod.splits)
qed

text \<open>The deciding transaction either answers about existing rows, writing nothing and not
  consulting the worker, or appends the first open deletion of an ACTIVE dataset.\<close>

lemma request_delete_cases:
  assumes "request_delete_body svc env ds d = Inr (x, d')" and ok: "db_ok d"
  shows "(\<exists>res. x = Inl res \<and> d' = d \<and> (\<forall>svc' env'. request_delete_body svc' env' ds d = Inr (Inl res, d)))
    \<or> (\<exists>c. x = Inr (run_id c) \<and> get_run (run_id c) d' = Some c \<and> run_dataset_id c = Some ds
        \<and> run_pipeline_type c = DATASET_DELETE \<and> run_status c = Run_QUEUED
        \<and> pipeline_runs d' = pipeline_runs d @ [c] \<and> datasets d' = datasets d \<and> db_ok d'
        \<and> open_deletions ds d = [] \<and> (\<exists>row. get_dataset ds d = Some row \<and> dataset_slug row \<noteq> DEFAULT_DATASET_SLUG
           \<and> dataset_status row = Dataset_ACTIVE))"
proof -
  obtain row where row: "get_dataset ds d = Some row" "dataset_slug row \<noteq> DEFAULT_DATASET_SLUG"
    using assms(1) by (auto simp: request_delete_body_def split: option.splits if_splits)
  show ?thesis
  proof (cases "dataset_status row = Dataset_DELETED \<or> find_nonterminal_dataset_delete_for_dataset ds d \<noteq> None")
    case True
    then show ?thesis using assms(1) row
      by (auto simp: request_delete_body_def bindE_eq_Inr_iff split: option.splits if_splits)
  next
    case False
    then obtain plans h run where act: "dataset_status row = Dataset_ACTIVE" and x: "x = Inr (run_id run)"
      and c: "create_run_with_steps (sub_fresh_run_id env) (sub_fresh_step_id env) (sub_now env) DATASET_DELETE
        (Some ds) None None h (JObj [(ascii ''dataset_id'', json_str (uuid_str ds))])
        (sub_config_fingerprint svc) plans None None d = Inr (run, d')"
      using assms(1) row by (cases "dataset_status row")
        (auto simp: request_delete_body_def Let_def bindE_eq_Inr_iff split: if_splits)
    note facts = create_run_with_steps_ok[OF c ok]
    then have "get_run (run_id run) d' = Some run" using get_run_member[of d' run] by simp
    then show ?thesis using facts x row act False by (auto simp: find_nonterminal_open new_run_def)
  qed
qed

text \<open>Administrative deletion requests converge: after one succeeded, a repeated request, with or
  without a worker, returns the same answer and writes nothing, and a request never raises the
  number of open deletion runs of the dataset above one.\<close>

theorem delete_requests_converge:
  assumes "quiet_submission env" "quiet_submission env'" "db_ok d"
    and "request_delete svc env ds d = (Inr res, d')"
  shows "request_delete svc' env' ds d' = (Inr res, d')
    \<and> length (open_deletions ds d') \<le> max 1 (length (open_deletions ds d))"
proof -
  obtain x d1 where b: "request_delete_body svc env ds d = Inr (x, d1)"
    using assms(4) by (cases "request_delete_body svc env ds d") (auto simp: request_delete_quiet[OF assms(1)])
  from request_delete_cases[OF b assms(3)] show ?thesis
  proof
    assume "\<exists>res. x = Inl res \<and> d1 = d \<and> (\<forall>svc' env'. request_delete_body svc' env' ds d = Inr (Inl res, d))"
    then show ?thesis using assms(4) b
      by (auto simp: request_delete_quiet[OF assms(1)] request_delete_quiet[OF assms(2)])
  next
    assume "\<exists>c. x = Inr (run_id c) \<and> get_run (run_id c) d1 = Some c \<and> run_dataset_id c = Some ds
        \<and> run_pipeline_type c = DATASET_DELETE \<and> run_status c = Run_QUEUED
        \<and> pipeline_runs d1 = pipeline_runs d @ [c] \<and> datasets d1 = datasets d \<and> db_ok d1
        \<and> open_deletions ds d = [] \<and> (\<exists>row. get_dataset ds d = Some row \<and> dataset_slug row \<noteq> DEFAULT_DATASET_SLUG
           \<and> dataset_status row = Dataset_ACTIVE)"
    then obtain c row where c: "x = Inr (run_id c)" "get_run (run_id c) d1 = Some c" "run_dataset_id c = Some ds"
      "run_pipeline_type c = DATASET_DELETE" "run_status c = Run_QUEUED" "pipeline_runs d1 = pipeline_runs d @ [c]"
      "datasets d1 = datasets d" "open_deletions ds d = []" "get_dataset ds d = Some row"
      "dataset_slug row \<noteq> DEFAULT_DATASET_SLUG" "dataset_status row = Dataset_ACTIVE" by blast
    have eq: "d' = d1" "delete_run_result c ACCEPTED = Inr res"
      using assms(4) b c(1,2) by (auto simp: request_delete_quiet[OF assms(1)])
    have one: "open_deletions ds d1 = [c]" using c by (simp add: open_deletions_def nonterminal_run_def)
    have "get_dataset ds d1 = Some row" using c by (simp add: get_dataset_def)
    then have "request_delete_body svc' env' ds d1 = Inr (Inl res, d1)"
      using c find_nonterminal_single[OF one] eq by (simp add: request_delete_body_def)
    then show ?thesis using eq one by (simp add: request_delete_quiet[OF assms(2)])
  qed
qed

theorem delete_requests_converge_witness:
  "let first = request_delete demo_delete_service (sub_demo_env 3) 7 (demo_delete_db []);
       second = request_delete demo_delete_service ((sub_demo_env 4)\<lparr>sub_worker_enabled := False\<rparr>) 7 (snd first)
   in isOk (fst first) \<and> second = first"
proof -
  let ?x = "request_delete demo_delete_service (sub_demo_env 3) 7 (demo_delete_db [])"
  have ok: "isOk (fst ?x)" by code_simp
  then obtain res where r: "?x = (Inr res, snd ?x)" by (metis isOk_simps(2) prod.collapse sum.exhaust)
  have q: "quiet_submission (sub_demo_env 3)" "quiet_submission ((sub_demo_env 4)\<lparr>sub_worker_enabled := False\<rparr>)"
    by (simp_all add: quiet_submission_def sub_demo_env_def)
  show ?thesis
    using delete_requests_converge[OF q demo_delete_ok(2) r, of demo_delete_service] r ok
    by (simp add: Let_def)
qed

end
