(* ===== verification/Recovery.thy ===== *)
theory Recovery
  imports Engine_Facts
begin

text \<open>
  Startup recovery of stale runs (\<open>services/pipeline_recovery.py\<close>): discovery in batches, one
  short transaction per candidate that re-validates staleness and reconciles the run and its
  steps, repeated until a batch recovers nothing.  The environment of a transaction is the
  \<open>claim_env\<close> of the claimer (its \<open>now()\<close>, locked rows and foreign commits).
\<close>

definition DEFAULT_RECOVERY_SCAN_LIMIT :: nat where "DEFAULT_RECOVERY_SCAN_LIMIT = 100"

definition CONFIG_FINGERPRINT_MISMATCH_ERROR_CODE :: string where
  "CONFIG_FINGERPRINT_MISMATCH_ERROR_CODE = ''CONFIG_FINGERPRINT_MISMATCH''"
definition WORKER_LOST_ERROR_CODE :: string where
  "WORKER_LOST_ERROR_CODE = ''WORKER_LOST''"
definition CANCEL_RECOVERY_AMBIGUOUS_ERROR_CODE :: string where
  "CANCEL_RECOVERY_AMBIGUOUS_ERROR_CODE = ''CANCEL_RECOVERY_AMBIGUOUS''"
definition CONFIG_FINGERPRINT_MISMATCH_MESSAGE :: string where
  "CONFIG_FINGERPRINT_MISMATCH_MESSAGE =
     ''Configuration changed since this run was claimed; it cannot be safely resumed.''"
definition WORKER_LOST_NO_ATTEMPTS_MESSAGE :: string where
  "WORKER_LOST_NO_ATTEMPTS_MESSAGE =
     ''The worker that owned this run was lost and no attempts remain.''"
definition WORKER_LOST_NO_PLAN_MESSAGE :: string where
  "WORKER_LOST_NO_PLAN_MESSAGE =
     ''This run has no durable step plan to resume (legacy pre-B5 execution).''"
definition WORKER_LOST_NO_LIVENESS_EVIDENCE_MESSAGE :: string where
  "WORKER_LOST_NO_LIVENESS_EVIDENCE_MESSAGE =
     ''This run has no valid liveness evidence (heartbeat) to determine whether it is genuinely stale, even though a step plan exists.''"
definition WORKER_LOST_INVARIANT_MESSAGE :: string where
  "WORKER_LOST_INVARIANT_MESSAGE = ''Persisted step state is inconsistent for this run.''"
definition CANCEL_RECOVERY_AMBIGUOUS_MESSAGE :: string where
  "CANCEL_RECOVERY_AMBIGUOUS_MESSAGE =
     ''Cancellation could not be safely confirmed for this run's in-flight step.''"

record recovery_service =
  svc_registry :: registry
  svc_stale_after_us :: int
  svc_config_fingerprint :: string
  svc_retry_policy :: retry_policy
  svc_scan_limit :: nat

definition is_stale :: "pipeline_run \<Rightarrow> timestamp \<Rightarrow> int \<Rightarrow> bool \<Rightarrow> bool" where
  "is_stale run now stale_us include_null \<longleftrightarrow>
     (if \<not> (run_status run = Run_RUNNING \<or> run_status run = Run_CANCELLING) then False
      else (case run_heartbeat_at run of
              None \<Rightarrow> include_null
            | Some t \<Rightarrow> t < now - stale_us))"

fun fail_running_step :: "timestamp \<Rightarrow> string \<Rightarrow> string \<Rightarrow> pipeline_step list \<Rightarrow> db \<Rightarrow> exn + db" where
  "fail_running_step now code message [] d = Inr d"
| "fail_running_step now code message (s # ss) d =
     (if step_status s = Step_RUNNING
      then bindE (transition_step s Step_FAILED now None None (Some (error_payload code message)))
             (\<lambda>s'. fail_running_step now code message ss (put_step s' d))
      else fail_running_step now code message ss d)"

definition fail_run :: "pipeline_run \<Rightarrow> timestamp \<Rightarrow> string \<Rightarrow> string \<Rightarrow> db \<Rightarrow> exn + db" where
  "fail_run run now code message d =
     bindE (transition_run run Run_FAILED now None None (Some code) (Some message))
       (\<lambda>run'. Inr (put_run run' d))"

definition fail_step_and_run ::
  "pipeline_run \<Rightarrow> pipeline_step list \<Rightarrow> timestamp \<Rightarrow> string \<Rightarrow> string \<Rightarrow> db \<Rightarrow> exn + db" where
  "fail_step_and_run run steps now code message d =
     bindE (fail_running_step now code message steps d) (\<lambda>d1. fail_run run now code message d1)"

definition running_of :: "pipeline_step list \<Rightarrow> pipeline_step list" where
  "running_of steps = filter (\<lambda>s. step_status s = Step_RUNNING) steps"

definition succeeded_count_of :: "pipeline_step list \<Rightarrow> nat" where
  "succeeded_count_of steps = length (filter (\<lambda>s. step_status s = Step_SUCCEEDED) steps)"

definition recover_running ::
  "recovery_service \<Rightarrow> pipeline_run \<Rightarrow> pipeline_step list \<Rightarrow> timestamp \<Rightarrow> db \<Rightarrow> exn + db" where
  "recover_running svc run steps now d =
     (if run_config_fingerprint run \<noteq> svc_config_fingerprint svc then
        fail_step_and_run run steps now CONFIG_FINGERPRINT_MISMATCH_ERROR_CODE
          CONFIG_FINGERPRINT_MISMATCH_MESSAGE d
      else if run_heartbeat_at run = None then
        fail_step_and_run run steps now WORKER_LOST_ERROR_CODE
          (if steps = [] then WORKER_LOST_NO_PLAN_MESSAGE
           else WORKER_LOST_NO_LIVENESS_EVIDENCE_MESSAGE) d
      else if \<not> has_attempts_remaining (svc_retry_policy svc) (run_attempt run) then
        fail_step_and_run run steps now WORKER_LOST_ERROR_CODE WORKER_LOST_NO_ATTEMPTS_MESSAGE d
      else if steps = [] then
        fail_run run now WORKER_LOST_ERROR_CODE WORKER_LOST_NO_PLAN_MESSAGE d
      else if length (running_of steps) > 1 \<or> succeeded_count_of steps = length steps then
        fail_step_and_run run steps now WORKER_LOST_ERROR_CODE WORKER_LOST_INVARIANT_MESSAGE d
      else
        bindE (case running_of steps of
                 [s] \<Rightarrow> bindE (transition_step s Step_QUEUED now None None None) (\<lambda>s'. Inr (put_step s' d))
               | _ \<Rightarrow> Inr d)
          (\<lambda>d1. bindE (transition_run run Run_QUEUED now None
                    (Some (now + timedelta_us (backoff_seconds (svc_retry_policy svc) (run_attempt run)))) None None)
                  (\<lambda>run'. Inr (put_run run' d1))))"

definition find_step_definition :: "registry \<Rightarrow> pipeline_type \<Rightarrow> string \<Rightarrow> step_definition option" where
  "find_step_definition reg ptype name =
     (case registry_get reg ptype of
        Inl _ \<Rightarrow> None
      | Inr pd \<Rightarrow> List.find (\<lambda>sd. sd_name sd = name) (pd_steps pd))"

definition build_cancellation_context :: "pipeline_run \<Rightarrow> pipeline_step \<Rightarrow> cancellation_recovery_context" where
  "build_cancellation_context run s =
     \<lparr>rec_run_id = run_id run, rec_pipeline_type = run_pipeline_type run,
      rec_dataset_id = run_dataset_id run, rec_source_id = run_source_id run,
      rec_run_input = run_input run, rec_step_id = step_id s, rec_step_name = step_name s,
      rec_step_attempt = step_attempt s, rec_input_hash = step_input_hash s,
      rec_output = step_output s, rec_metrics = step_metrics s\<rparr>"

definition finalize_cancelled ::
  "pipeline_run \<Rightarrow> pipeline_step \<Rightarrow> pipeline_step list \<Rightarrow> timestamp \<Rightarrow> db \<Rightarrow> exn + db" where
  "finalize_cancelled run orphan steps now d =
     bindE (transition_step orphan Step_CANCELLED now None None None) (\<lambda>s'.
       bindE (cancel_queued now steps (put_step s' d)) (\<lambda>d1.
         bindE (transition_run run Run_CANCELLED now None None None None)
           (\<lambda>run'. Inr (put_run run' d1))))"

text \<open>\<open>steps\<close> are the ORM objects of the open session, so the test on all steps after
  \<open>_cancel_queued_steps\<close> sees the statuses just written.\<close>

definition settled_after_cancel :: "pipeline_step list \<Rightarrow> bool" where
  "settled_after_cancel steps \<longleftrightarrow>
     list_all (\<lambda>s. let st = (if step_status s = Step_QUEUED then Step_CANCELLED else step_status s)
                   in st = Step_SUCCEEDED \<or> st = Step_CANCELLED) steps"

definition recover_cancelling ::
  "recovery_service \<Rightarrow> pipeline_run \<Rightarrow> pipeline_step list \<Rightarrow> timestamp \<Rightarrow> db \<Rightarrow> exn + db" where
  "recover_cancelling svc run steps now d =
     (if run_heartbeat_at run = None then
        fail_step_and_run run steps now CANCEL_RECOVERY_AMBIGUOUS_ERROR_CODE
          CANCEL_RECOVERY_AMBIGUOUS_MESSAGE d
      else if steps = [] then
        fail_run run now CANCEL_RECOVERY_AMBIGUOUS_ERROR_CODE CANCEL_RECOVERY_AMBIGUOUS_MESSAGE d
      else if length (running_of steps) > 1 then
        fail_step_and_run run steps now CANCEL_RECOVERY_AMBIGUOUS_ERROR_CODE
          WORKER_LOST_INVARIANT_MESSAGE d
      else (case running_of steps of
        [] \<Rightarrow>
          bindE (cancel_queued now steps d) (\<lambda>d1.
            bindE (if settled_after_cancel steps then apply_run_progress run 1 else Inr run) (\<lambda>run1.
              bindE (transition_run run1 Run_CANCELLED now None None None None)
                (\<lambda>run'. Inr (put_run run' d1))))
      | orphan # _ \<Rightarrow>
          (let sdef = find_step_definition (svc_registry svc) (run_pipeline_type run) (step_name orphan);
               mode = (case sdef of Some sd \<Rightarrow> sd_recovery_mode sd | None \<Rightarrow> AMBIGUOUS);
               ambiguous = (\<lambda>d1.
                 bindE (transition_step orphan Step_FAILED now None None
                         (Some (error_payload CANCEL_RECOVERY_AMBIGUOUS_ERROR_CODE CANCEL_RECOVERY_AMBIGUOUS_MESSAGE)))
                   (\<lambda>s'. fail_run run now CANCEL_RECOVERY_AMBIGUOUS_ERROR_CODE
                           CANCEL_RECOVERY_AMBIGUOUS_MESSAGE (put_step s' d1)))
           in if mode = ATOMIC then finalize_cancelled run orphan steps now d
              else if mode = RECONCILABLE then
                (case sdef of
                   None \<Rightarrow> Inl Assertion_Error
                 | Some sd \<Rightarrow>
                   (case sd_reconcile sd of
                      None \<Rightarrow> Inl Assertion_Error
                    | Some reconcile \<Rightarrow>
                      (let (answer, d1) = reconcile (build_cancellation_context run orphan) d;
                           outcome = (case answer of Some out \<Rightarrow> out | None \<Rightarrow> INCONCLUSIVE)
                       in if outcome = SAFE then finalize_cancelled run orphan steps now d1
                          else ambiguous d1)))
              else ambiguous d)))"

definition recover_one_body ::
  "recovery_service \<Rightarrow> claim_env \<Rightarrow> bool \<Rightarrow> uuid \<Rightarrow> db \<Rightarrow> exn + (bool \<times> db)" where
  "recover_one_body svc e include_null k d =
     (case get_stale_for_update (env_row_locked e) k d of
        None \<Rightarrow> Inr (False, d)
      | Some run \<Rightarrow>
        if \<not> is_stale run (env_now e) (svc_stale_after_us svc) include_null then Inr (False, d)
        else
          (let steps = list_for_run (run_id run) d in
           bindE (if run_status run = Run_CANCELLING
                  then recover_cancelling svc run steps (env_now e) d
                  else recover_running svc run steps (env_now e) d)
             (\<lambda>d'. Inr (True, d'))))"

definition recover_one :: "recovery_service \<Rightarrow> claim_env \<Rightarrow> bool \<Rightarrow> uuid \<Rightarrow> db \<Rightarrow> bool tx" where
  "recover_one svc e include_null k d =
     run_tx (recover_one_body svc e include_null k) (env_interfere e d)"

fun recover_candidates ::
  "recovery_service \<Rightarrow> (nat \<Rightarrow> claim_env) \<Rightarrow> nat \<Rightarrow> bool \<Rightarrow> uuid list \<Rightarrow> nat \<Rightarrow> db \<Rightarrow> nat tx" where
  "recover_candidates svc env i include_null [] n d = (Inr n, d)"
| "recover_candidates svc env i include_null (k # ks) n d =
     (case recover_one svc (env i) include_null k d of
        (Inl e, d') \<Rightarrow> (Inl e, d')
      | (Inr b, d') \<Rightarrow>
          recover_candidates svc env (Suc i) include_null ks (if b then n + 1 else n) d')"

text \<open>A batch: the scan transaction, then one transaction per candidate.  \<open>i\<close> numbers the
  transactions; the batch uses \<open>i\<close> and the following ones.\<close>

definition recover_batch ::
  "recovery_service \<Rightarrow> (nat \<Rightarrow> claim_env) \<Rightarrow> nat \<Rightarrow> bool \<Rightarrow> db \<Rightarrow> nat tx" where
  "recover_batch svc env i include_null d =
     (let d1 = env_interfere (env i) d;
          ks = list_stale_candidate_ids (env_now (env i)) (svc_stale_after_us svc) include_null
                 (svc_scan_limit svc) d1
      in recover_candidates svc env (Suc i) include_null ks 0 d1)"

text \<open>The \<open>while True\<close> loop of \<open>recover_startup\<close> with fuel; \<open>None\<close> is a loop that has not
  ended yet.\<close>

fun recover_startup :: "recovery_service \<Rightarrow> (nat \<Rightarrow> claim_env) \<Rightarrow> nat \<Rightarrow> nat \<Rightarrow> nat \<Rightarrow> db \<Rightarrow> nat tx option" where
  "recover_startup svc env 0 i tot d = None"
| "recover_startup svc env (Suc fuel) i tot d =
     (case recover_batch svc env i True d of
        (Inl e, d') \<Rightarrow> Some (Inl e, d')
      | (Inr recovered, d') \<Rightarrow>
          if recovered = 0 then Some (Inr tot, d')
          else recover_startup svc env fuel (i + svc_scan_limit svc + 1) (tot + recovered) d')"

end
