(* ===== verification/Recovery_Facts.thy ===== *)
theory Recovery_Facts
  imports Recovery Engine_Liveness
begin

text \<open>
  What startup recovery promises: every stale run is reconciled into a state the claimer and the
  engine can continue from, live runs are left alone, only safely resumable runs are requeued,
  and the startup loop ends with nothing stale left.
\<close>

subsection \<open>Step writes under a run\<close>

definition run_steps_sat :: "uuid \<Rightarrow> (pipeline_step \<Rightarrow> bool) \<Rightarrow> db \<Rightarrow> bool" where
  "run_steps_sat k Q d \<longleftrightarrow> list_all (\<lambda>s. step_run_id s = k \<longrightarrow> Q s) (pipeline_steps d)"

lemma run_steps_sat_put_run [simp]: "run_steps_sat k Q (put_run r d) = run_steps_sat k Q d"
  by (simp add: run_steps_sat_def)

lemma mem_put_step:
  "x \<in> set (pipeline_steps (put_step s d)) \<Longrightarrow> x = s \<or> (x \<in> set (pipeline_steps d) \<and> step_id x \<noteq> step_id s)"
  by (auto simp: put_step_def dest: set_row_put_cases)

lemma mem_put_all:
  "x \<in> set (pipeline_steps (steps.put_all ss d)) \<Longrightarrow>
   x \<in> set ss \<or> (x \<in> set (pipeline_steps d) \<and> step_id x \<notin> step_id ` set ss)"
  by (induction ss arbitrary: d) (auto dest: mem_put_step)

lemma sat_put_step:
  assumes "Q s'" "\<And>x. x \<in> set (list_for_run k d) \<Longrightarrow> step_id x \<noteq> step_id s' \<Longrightarrow> Q x"
  shows "run_steps_sat k Q (put_step s' d)"
  using assms unfolding run_steps_sat_def list_all_iff
  by (auto simp: set_list_for_run dest!: mem_put_step)

lemma sat_put_all: "run_steps_sat k Q d \<Longrightarrow> (\<And>s. s \<in> set ss \<Longrightarrow> Q s) \<Longrightarrow> run_steps_sat k Q (steps.put_all ss d)"
  unfolding run_steps_sat_def list_all_iff by (auto dest!: mem_put_all)

lemma sat_put_map:
  assumes "\<And>s. step_id (f s) = step_id s"
    and "\<And>s. s \<in> set (list_for_run k d) \<Longrightarrow> P s \<Longrightarrow> Q (f s)"
    and "\<And>s. s \<in> set (list_for_run k d) \<Longrightarrow> \<not> P s \<Longrightarrow> Q s"
  shows "run_steps_sat k Q (steps.put_all (map f (filter P (list_for_run k d))) d)"
  unfolding run_steps_sat_def list_all_iff
proof (intro ballI impI)
  fix x assume x: "x \<in> set (pipeline_steps (steps.put_all (map f (filter P (list_for_run k d))) d))"
    "step_run_id x = k"
  from mem_put_all[OF x(1)] show "Q x"
  proof
    assume "x \<in> set (map f (filter P (list_for_run k d)))"
    then show ?thesis using assms(2) by auto
  next
    assume a: "x \<in> set (pipeline_steps d) \<and> step_id x \<notin> step_id ` set (map f (filter P (list_for_run k d)))"
    then have m: "x \<in> set (list_for_run k d)" using x(2) by (simp add: set_list_for_run)
    moreover have "\<not> P x" using a m assms(1) by (force simp: image_iff)
    ultimately show ?thesis by (rule assms(3))
  qed
qed

abbreviation none_running :: "uuid \<Rightarrow> db \<Rightarrow> bool" where
  "none_running k d \<equiv> run_steps_sat k (\<lambda>s. step_status s \<noteq> Step_RUNNING) d"

definition failed_step :: "timestamp \<Rightarrow> json \<Rightarrow> pipeline_step \<Rightarrow> pipeline_step" where
  "failed_step now e s = s\<lparr>step_finished_at := Some now, step_error := Some e, step_status := Step_FAILED\<rparr>"

lemma failed_step_simps [simp]:
  "step_id (failed_step now e s) = step_id s" "step_status (failed_step now e s) = Step_FAILED"
  by (simp_all add: failed_step_def)

lemma transition_step_fail:
  "step_status s = Step_RUNNING \<Longrightarrow>
   transition_step s Step_FAILED now None None (Some e) = Inr (failed_step now e s)"
  by (simp add: transition_step_def validate_step_transition_def STEP_TRANSITIONS_def failed_step_def upd_opt_def)

lemma fail_running_step_eq:
  "fail_running_step now code message ss d =
   Inr (steps.put_all (map (failed_step now (error_payload code message)) (running_of ss)) d)"
  by (induction now code message ss d rule: fail_running_step.induct)
    (simp_all add: running_of_def transition_step_fail)

subsection \<open>Reconciling one run\<close>

text \<open>A reconcile callback only reads or repairs business rows: it leaves the runs, and the steps
  of the run it is asked about, to recovery.\<close>

definition reconcile_contract :: "step_definition \<Rightarrow> bool" where
  "reconcile_contract sd \<longleftrightarrow> (\<forall>rc ctx d. sd_reconcile sd = Some rc \<longrightarrow>
     (let d1 = snd (rc ctx d) in pipeline_runs d1 = pipeline_runs d
        \<and> list_for_run (rec_run_id ctx) d1 = list_for_run (rec_run_id ctx) d))"

definition registry_ok :: "registry \<Rightarrow> bool" where
  "registry_ok reg \<longleftrightarrow> (\<forall>pd \<in> set (map snd reg). wf_definition pd \<and> (\<forall>sd \<in> set (pd_steps pd). reconcile_contract sd))"

text \<open>Recovery left the run \<open>k\<close> in one of the statuses \<open>S\<close>, with no step RUNNING.\<close>

definition reconciled :: "uuid \<Rightarrow> run_status set \<Rightarrow> pipeline_run \<Rightarrow> db \<Rightarrow> db \<Rightarrow> bool" where
  "reconciled k S run d d' \<longleftrightarrow> none_running k d'
     \<and> (\<exists>run'. get_run k d' = Some run' \<and> run_status run' \<in> S \<and> same_run_identity run run'
          \<and> pipeline_runs d' = row_put run_id run' (pipeline_runs d))"

lemma reconciledI:
  assumes "transition_run run1 st now w n cd m = Inr run'" "run1 = run \<or> (\<exists>v. run1 = run\<lparr>run_progress := v\<rparr>)"
    and "run_id run = k" "k \<in> set (run_ids d)" "pipeline_runs d1 = pipeline_runs d" "none_running k d1" "st \<in> S"
  shows "reconciled k S run d (put_run run' d1)"
proof -
  have id: "same_run_identity run1 run'" using assms(1) by (rule transition_run_identity)
  have r1: "same_run_identity run run1" using assms(2) by (auto simp: same_run_identity_def)
  have "same_run_identity run run'" using r1 id by (rule same_run_identity_trans)
  moreover from this have "run_id run' = k" using assms(3) by (simp add: same_run_identity_def)
  moreover from this have "get_run k (put_run run' d1) = Some run'"
    using get_run_put_run[of run' d1] assms(4,5) by (simp add: run_ids_def)
  moreover have "run_status run' = st" using assms(1) by (rule transition_run_status)
  ultimately show ?thesis using assms(5,6,7)
    by (auto simp: reconciled_def pipeline_runs_put_run)
qed

lemma transition_run_total:
  "(run_status r, t) \<in> set RUN_TRANSITIONS \<Longrightarrow> \<exists>r'. transition_run r t now w n c m = Inr r'"
  by (simp add: transition_run_def validate_run_transition_def)

lemma operational_to_failed: "operational (run_status r) \<Longrightarrow> (run_status r, Run_FAILED) \<in> set RUN_TRANSITIONS"
  by (auto simp: operational_def RUN_TRANSITIONS_def)

lemma fail_step_and_run_reconciles:
  assumes "operational (run_status run)" "run_id run = k" "k \<in> set (run_ids d)" "Run_FAILED \<in> S"
  shows "\<exists>d'. fail_step_and_run run (list_for_run k d) now code message d = Inr d' \<and> reconciled k S run d d'"
proof -
  obtain run' where t: "transition_run run Run_FAILED now None None (Some code) (Some message) = Inr run'"
    using transition_run_total operational_to_failed[OF assms(1)] by blast
  let ?d1 = "steps.put_all (map (failed_step now (error_payload code message)) (running_of (list_for_run k d))) d"
  have "none_running k ?d1"
    unfolding running_of_def by (rule sat_put_map) simp_all
  then have "reconciled k S run d (put_run run' ?d1)"
    using t assms by (intro reconciledI[OF t]) simp_all
  with t show ?thesis by (simp add: fail_step_and_run_def fail_running_step_eq fail_run_def)
qed

lemma fail_run_reconciles:
  assumes "operational (run_status run)" "run_id run = k" "k \<in> set (run_ids d)" "Run_FAILED \<in> S"
    "pipeline_runs d1 = pipeline_runs d" "none_running k d1"
  shows "\<exists>d'. fail_run run now code message d1 = Inr d' \<and> reconciled k S run d d'"
proof -
  obtain run' where t: "transition_run run Run_FAILED now None None (Some code) (Some message) = Inr run'"
    using transition_run_total operational_to_failed[OF assms(1)] by blast
  have "reconciled k S run d (put_run run' d1)" using assms by (intro reconciledI[OF t]) simp_all
  with t show ?thesis by (simp add: fail_run_def)
qed

lemma none_running_empty: "list_for_run k d = [] \<Longrightarrow> none_running k d"
  using set_list_for_run[of k d] by (auto simp: run_steps_sat_def list_all_iff)

lemma running_of_single:
  assumes "running_of (list_for_run k d) = [s]" "x \<in> set (list_for_run k d)" "step_id x \<noteq> step_id s"
  shows "step_status x \<noteq> Step_RUNNING"
proof
  assume "step_status x = Step_RUNNING"
  then have "x \<in> set (running_of (list_for_run k d))" using assms(2) by (simp add: running_of_def)
  with assms(1,3) show False by simp
qed

lemma running_of_mem: "s \<in> set (running_of ss) \<Longrightarrow> step_status s = Step_RUNNING \<and> s \<in> set ss"
  by (simp add: running_of_def)

lemma recover_running_reconciles:
  assumes "run_status run = Run_RUNNING" "run_id run = k" "k \<in> set (run_ids d)"
  shows "\<exists>d'. recover_running svc run (list_for_run k d) now d = Inr d'
    \<and> reconciled k {Run_QUEUED, Run_FAILED} run d d'"
proof -
  have op: "operational (run_status run)" using assms(1) by simp
  note fsr = fail_step_and_run_reconciles[OF op assms(2,3), of "{Run_QUEUED, Run_FAILED}"]
  let ?ss = "list_for_run k d"
  consider (bad) "run_config_fingerprint run \<noteq> svc_config_fingerprint svc \<or> run_heartbeat_at run = None
      \<or> \<not> has_attempts_remaining (svc_retry_policy svc) (run_attempt run)
      \<or> (?ss \<noteq> [] \<and> (length (running_of ?ss) > 1 \<or> succeeded_count_of ?ss = length ?ss))"
    | (noplan) "run_config_fingerprint run = svc_config_fingerprint svc" "run_heartbeat_at run \<noteq> None"
        "has_attempts_remaining (svc_retry_policy svc) (run_attempt run)" "?ss = []"
    | (requeue) "run_config_fingerprint run = svc_config_fingerprint svc" "run_heartbeat_at run \<noteq> None"
        "has_attempts_remaining (svc_retry_policy svc) (run_attempt run)" "?ss \<noteq> []"
        "\<not> (length (running_of ?ss) > 1 \<or> succeeded_count_of ?ss = length ?ss)"
    by blast
  then show ?thesis
  proof cases
    case bad
    then show ?thesis using fsr by (auto simp: recover_running_def)
  next
    case noplan
    then show ?thesis
      using fail_run_reconciles[OF op assms(2,3), of "{Run_QUEUED, Run_FAILED}" d] none_running_empty
      by (auto simp: recover_running_def)
  next
    case requeue
    let ?at = "Some (now + timedelta_us (backoff_seconds (svc_retry_policy svc) (run_attempt run)))"
    have "(run_status run, Run_QUEUED) \<in> set RUN_TRANSITIONS" using assms(1) by (simp add: RUN_TRANSITIONS_def)
    then obtain run' where t: "transition_run run Run_QUEUED now None ?at None None = Inr run'"
      using transition_run_total by blast
    show ?thesis
    proof (cases "running_of ?ss")
      case Nil
      then have "none_running k d"
        by (auto simp: run_steps_sat_def list_all_iff running_of_def filter_empty_conv set_list_for_run)
      then have "reconciled k {Run_QUEUED, Run_FAILED} run d (put_run run' d)"
        using assms by (intro reconciledI[OF t]) simp_all
      with requeue Nil t show ?thesis by (auto simp: recover_running_def)
    next
      case (Cons s rest)
      then have one: "running_of ?ss = [s]" using requeue(5) by (cases rest) auto
      then have st: "step_status s = Step_RUNNING" using running_of_mem[of s ?ss] by simp
      obtain s' where s': "transition_step s Step_QUEUED now None None None = Inr s'"
        using st by (simp add: transition_step_def validate_step_transition_def STEP_TRANSITIONS_def)
      have sf: "step_id s' = step_id s" "step_status s' = Step_QUEUED"
        using transition_step_frame[OF s'] by simp_all
      have "none_running k (put_step s' d)"
        using running_of_single[OF one] sf by (intro sat_put_step) auto
      then have "reconciled k {Run_QUEUED, Run_FAILED} run d (put_run run' (put_step s' d))"
        using assms by (intro reconciledI[OF t]) simp_all
      with requeue one t s' show ?thesis by (auto simp: recover_running_def)
    qed
  qed
qed


lemma finalize_reconciles:
  assumes run: "run_status run = Run_CANCELLING" "run_id run = k" "k \<in> set (run_ids d)"
    and one: "running_of (list_for_run k d) = [s]"
    and d1: "pipeline_runs d1 = pipeline_runs d" "list_for_run k d1 = list_for_run k d"
  shows "\<exists>d'. finalize_cancelled run s (list_for_run k d) now d1 = Inr d'
    \<and> reconciled k {Run_FAILED, Run_CANCELLED} run d d'"
proof -
  have st: "step_status s = Step_RUNNING" using running_of_mem[of s "list_for_run k d"] one by simp
  obtain s' where s': "transition_step s Step_CANCELLED now None None None = Inr s'"
    using st by (simp add: transition_step_def validate_step_transition_def STEP_TRANSITIONS_def)
  have sf: "step_id s' = step_id s" "step_status s' = Step_CANCELLED"
    using transition_step_frame[OF s'] by simp_all
  obtain run' where t: "transition_run run Run_CANCELLED now None None None None = Inr run'"
    using cancelling_to_cancelled[OF run(1)] by blast
  let ?d2 = "steps.put_all (map (cancel_step now) (queued_steps (list_for_run k d))) (put_step s' d1)"
  have "none_running k (put_step s' d1)"
    using running_of_single[OF one] sf d1(2) by (intro sat_put_step) auto
  then have "none_running k ?d2" by (rule sat_put_all) auto
  then have "reconciled k {Run_FAILED, Run_CANCELLED} run d (put_run run' ?d2)"
    using run d1 by (intro reconciledI[OF t]) simp_all
  with s' t show ?thesis by (simp add: finalize_cancelled_def cancel_queued_eq)
qed

lemma ambiguous_reconciles:
  assumes run: "run_status run = Run_CANCELLING" "run_id run = k" "k \<in> set (run_ids d)"
    and one: "running_of (list_for_run k d) = [s]"
    and d1: "pipeline_runs d1 = pipeline_runs d" "list_for_run k d1 = list_for_run k d"
  shows "\<exists>d'. bindE (transition_step s Step_FAILED now None None (Some e))
      (\<lambda>s'. fail_run run now code message (put_step s' d1)) = Inr d'
    \<and> reconciled k {Run_FAILED, Run_CANCELLED} run d d'"
proof -
  have st: "step_status s = Step_RUNNING" using running_of_mem[of s "list_for_run k d"] one by simp
  have "none_running k (put_step (failed_step now e s) d1)"
    using running_of_single[OF one] d1(2) by (intro sat_put_step) auto
  then show ?thesis
    using fail_run_reconciles[of run k d "{Run_FAILED, Run_CANCELLED}" "put_step (failed_step now e s) d1"]
      run d1 by (simp add: transition_step_fail[OF st])
qed

lemma find_step_definition_ok:
  assumes "find_step_definition reg t name = Some sd" "registry_ok reg"
  shows "reconcile_contract sd \<and> isOk (check_step_definition sd)"
  using assms
  by (auto simp: find_step_definition_def registry_get_def registry_ok_def wf_definition_def list_all_iff
      split: option.splits dest!: map_of_SomeD find_set)

lemma recover_cancelling_reconciles:
  assumes run: "run_status run = Run_CANCELLING" "run_id run = k" "k \<in> set (run_ids d)"
    and reg: "registry_ok (svc_registry svc)"
  shows "\<exists>d'. recover_cancelling svc run (list_for_run k d) now d = Inr d'
    \<and> reconciled k {Run_FAILED, Run_CANCELLED} run d d'"
proof -
  have op: "operational (run_status run)" using run(1) by simp
  let ?S = "{Run_FAILED, Run_CANCELLED}" and ?ss = "list_for_run k d"
  note fsr = fail_step_and_run_reconciles[OF op run(2,3), of ?S]
  note fr = fail_run_reconciles[OF op run(2,3), of ?S d]
  consider (bad) "run_heartbeat_at run = None \<or> (?ss \<noteq> [] \<and> length (running_of ?ss) > 1)"
    | (noplan) "run_heartbeat_at run \<noteq> None" "?ss = []"
    | (idle) "run_heartbeat_at run \<noteq> None" "?ss \<noteq> []" "running_of ?ss = []"
    | (orphan) s where "run_heartbeat_at run \<noteq> None" "?ss \<noteq> []" "running_of ?ss = [s]"
    by (cases "running_of ?ss"; cases "tl (running_of ?ss)"; force)
  then show ?thesis
  proof cases
    case bad
    then show ?thesis using fsr by (auto simp: recover_cancelling_def)
  next
    case noplan
    then show ?thesis using fr none_running_empty by (auto simp: recover_cancelling_def)
  next
    case idle
    define run1 where "run1 = (if settled_after_cancel ?ss then run\<lparr>run_progress := 1\<rparr> else run)"
    have r1: "run1 = run \<or> (\<exists>v. run1 = run\<lparr>run_progress := v\<rparr>)" "run_status run1 = Run_CANCELLING"
      using run(1) by (auto simp: run1_def)
    obtain run' where t: "transition_run run1 Run_CANCELLED now None None None None = Inr run'"
      using cancelling_to_cancelled[OF r1(2)] by blast
    have p: "(if settled_after_cancel ?ss then apply_run_progress run 1 else Inr run) = Inr run1"
      by (simp add: run1_def apply_run_progress_def validate_progress_def)
    let ?d2 = "steps.put_all (map (cancel_step now) (queued_steps ?ss)) d"
    have "none_running k d"
      using idle(3) by (auto simp: run_steps_sat_def list_all_iff running_of_def filter_empty_conv set_list_for_run)
    then have "none_running k ?d2" by (rule sat_put_all) auto
    then have "reconciled k ?S run d (put_run run' ?d2)"
      using run r1 by (intro reconciledI[OF t]) simp_all
    with idle t p show ?thesis
      by (auto simp: recover_cancelling_def cancel_queued_eq)
  next
    case (orphan s)
    let ?ctx = "build_cancellation_context run s"
    let ?sdef = "find_step_definition (svc_registry svc) (run_pipeline_type run) (step_name s)"
    note fin = finalize_reconciles[OF run orphan(3)] and amb = ambiguous_reconciles[OF run orphan(3)]
    have ctx: "rec_run_id ?ctx = k" using run(2) by (simp add: build_cancellation_context_def)
    show ?thesis
    proof (cases ?sdef)
      case None
      then show ?thesis using orphan amb[of d] by (auto simp: recover_cancelling_def Let_def)
    next
      case (Some sd)
      note ok = find_step_definition_ok[OF Some reg]
      show ?thesis
      proof (cases "sd_recovery_mode sd")
        case ATOMIC
        then show ?thesis using Some orphan fin[of d] by (auto simp: recover_cancelling_def Let_def)
      next
        case AMBIGUOUS
        then show ?thesis using Some orphan amb[of d] by (auto simp: recover_cancelling_def Let_def)
      next
        case RECONCILABLE
        then obtain rc where rc: "sd_reconcile sd = Some rc"
          using ok by (auto simp: check_step_definition_def split: if_splits)
        obtain answer d1 where a: "rc ?ctx d = (answer, d1)" by (metis surj_pair)
        have d1: "pipeline_runs d1 = pipeline_runs d" "list_for_run k d1 = list_for_run k d"
          using ok rc a ctx unfolding reconcile_contract_def Let_def by (metis snd_conv)+
        show ?thesis using Some orphan RECONCILABLE rc a fin[OF d1] amb[OF d1]
          by (cases "answer = Some SAFE") (auto simp: recover_cancelling_def Let_def split: option.splits)
      qed
    qed
  qed
qed

lemma recover_one_stale:
  assumes "get_run k d = Some run" "\<not> env_row_locked e k"
    and "is_stale run (env_now e) (svc_stale_after_us svc) include_null" "registry_ok (svc_registry svc)"
  shows "\<exists>d'. recover_one_body svc e include_null k d = Inr (True, d')
    \<and> reconciled k (if run_status run = Run_RUNNING then {Run_QUEUED, Run_FAILED}
                     else {Run_FAILED, Run_CANCELLED}) run d d'"
proof -
  have st: "run_status run = Run_RUNNING \<or> run_status run = Run_CANCELLING"
    using assms(3) by (auto simp: is_stale_def split: if_splits)
  have k: "run_id run = k" "k \<in> set (run_ids d)"
    using assms(1) get_run_SomeD get_run_in_ids by auto
  show ?thesis
    using st recover_running_reconciles[OF _ k, of svc "env_now e"]
      recover_cancelling_reconciles[OF _ k assms(4), of "env_now e"] assms(1-3) k(1)
    by (auto simp: recover_one_body_def get_stale_for_update_def)
qed

lemma recover_one_fresh:
  assumes "get_run k d = None \<or> env_row_locked e k
    \<or> \<not> is_stale (the (get_run k d)) (env_now e) (svc_stale_after_us svc) include_null"
  shows "recover_one_body svc e include_null k d = Inr (False, d)"
  using assms by (auto simp: recover_one_body_def get_stale_for_update_def split: option.splits)


subsection \<open>The startup loop\<close>

definition op_count :: "db \<Rightarrow> nat" where
  "op_count d = length (operational_runs (pipeline_runs d))"

text \<open>Nothing else commits and no row is locked while the process starts; its clock advances.\<close>

definition quiet_startup :: "(nat \<Rightarrow> claim_env) \<Rightarrow> bool" where
  "quiet_startup env \<longleftrightarrow> (\<forall>i d. env_interfere (env i) d = d) \<and> (\<forall>i k. \<not> env_row_locked (env i) k)
     \<and> (\<forall>i j. i \<le> j \<longrightarrow> env_now (env i) \<le> env_now (env j))"

lemma filter_row_put_stop:
  assumes "keyed run_id rs" "r \<in> set rs" "P r" "run_id r' = run_id r" "\<not> P r'"
  shows "Suc (length (filter P (row_put run_id r' rs))) = length (filter P rs)"
  using assms
proof (induction rs)
  case (Cons a rs)
  show ?case
  proof (cases "run_id a = run_id r'")
    case True
    then have "a = r" using Cons.prems by (force simp: keyed_def)
    have "run_id r' \<notin> run_id ` set rs" using Cons.prems True by (auto simp: keyed_def)
    then have "row_put run_id r' rs = rs" by (rule row_put_absent)
    with \<open>a = r\<close> Cons.prems show ?thesis by (simp add: row_put_def)
  next
    case False
    with Cons show ?thesis by (auto simp: row_put_def keyed_def)
  qed
qed simp

lemma reconciled_count:
  assumes "reconciled k S run d d'" "get_run k d = Some run" "operational (run_status run)"
    "keyed run_id (pipeline_runs d)" "S \<inter> {Run_RUNNING, Run_CANCELLING} = {}"
  shows "Suc (op_count d') = op_count d \<and> keyed run_id (pipeline_runs d')"
proof -
  obtain run' where r: "run_status run' \<in> S" "same_run_identity run run'"
    "pipeline_runs d' = row_put run_id run' (pipeline_runs d)"
    using assms(1) by (auto simp: reconciled_def)
  have "\<not> operational (run_status run')" using r(1) assms(5) by (auto simp: operational_def)
  then show ?thesis
    using filter_row_put_stop[of "pipeline_runs d" run "\<lambda>r. operational (run_status r)" run'] assms r
      get_run_SomeD[OF assms(2)] by (simp add: op_count_def operational_runs_def same_run_identity_def)
qed

lemma recover_one_count:
  assumes "quiet_startup env" "registry_ok (svc_registry svc)" "keyed run_id (pipeline_runs d)"
  shows "\<exists>b d'. recover_one svc (env i) inc k d = (Inr b, d') \<and> keyed run_id (pipeline_runs d')
    \<and> (if b then 1 else 0) + op_count d' = op_count d
    \<and> (b \<longleftrightarrow> (\<exists>run. get_run k d = Some run \<and> is_stale run (env_now (env i)) (svc_stale_after_us svc) inc))
    \<and> (\<not> b \<longrightarrow> d' = d)"
proof (cases "\<exists>run. get_run k d = Some run \<and> is_stale run (env_now (env i)) (svc_stale_after_us svc) inc")
  case True
  then obtain run where run: "get_run k d = Some run" "is_stale run (env_now (env i)) (svc_stale_after_us svc) inc"
    by blast
  have op: "operational (run_status run)" using run(2) by (auto simp: is_stale_def operational_def split: if_splits)
  obtain d' where d': "recover_one_body svc (env i) inc k d = Inr (True, d')"
    "reconciled k (if run_status run = Run_RUNNING then {Run_QUEUED, Run_FAILED} else {Run_FAILED, Run_CANCELLED}) run d d'"
    using recover_one_stale[OF run(1) _ run(2) assms(2)] assms(1) by (auto simp: quiet_startup_def)
  have "Suc (op_count d') = op_count d \<and> keyed run_id (pipeline_runs d')"
    using reconciled_count[OF d'(2) run(1) op assms(3)] by (simp split: if_splits)
  with d'(1) True assms(1) show ?thesis
    by (auto simp: recover_one_def run_tx_def quiet_startup_def)
next
  case False
  then have "recover_one_body svc (env i) inc k d = Inr (False, d)"
    by (intro recover_one_fresh) (auto split: option.splits)
  with False assms show ?thesis by (auto simp: recover_one_def run_tx_def quiet_startup_def)
qed

lemma recover_candidates_count:
  assumes "quiet_startup env" "registry_ok (svc_registry svc)"
  shows "keyed run_id (pipeline_runs d) \<Longrightarrow>
    \<exists>n' d'. recover_candidates svc env i inc ks n d = (Inr n', d') \<and> keyed run_id (pipeline_runs d')
      \<and> n' + op_count d' = n + op_count d \<and> n \<le> n'"
proof (induction ks arbitrary: i n d)
  case (Cons k ks)
  obtain b d1 where one: "recover_one svc (env i) inc k d = (Inr b, d1)" "keyed run_id (pipeline_runs d1)"
    "(if b then 1 else 0) + op_count d1 = op_count d"
    using recover_one_count[OF assms Cons.prems, of i inc k] by blast
  obtain n' d' where "recover_candidates svc env (Suc i) inc ks (if b then n + 1 else n) d1 = (Inr n', d')"
    "keyed run_id (pipeline_runs d')" "n' + op_count d' = (if b then n + 1 else n) + op_count d1"
    "(if b then n + 1 else n) \<le> n'"
    using Cons.IH[OF one(2), of "Suc i" "if b then n + 1 else n"] by blast
  with one show ?case by (cases b) auto
qed simp

definition stale_row :: "recovery_service \<Rightarrow> timestamp \<Rightarrow> pipeline_run \<Rightarrow> bool" where
  "stale_row svc now r \<longleftrightarrow> is_stale r now (svc_stale_after_us svc) True"

lemma stale_row_alt:
  "stale_row svc now r \<longleftrightarrow> operational (run_status r) \<and> heartbeat_stale now (svc_stale_after_us svc) True r"
  by (auto simp: stale_row_def is_stale_def operational_def heartbeat_stale_def)

lemma stale_row_mono: "stale_row svc t r \<Longrightarrow> t \<le> t' \<Longrightarrow> stale_row svc t' r"
  by (auto simp: stale_row_alt heartbeat_stale_def split: option.splits)

lemma recover_batch_count:
  assumes q: "quiet_startup env" and reg: "registry_ok (svc_registry svc)" and lim: "0 < svc_scan_limit svc"
    and keyed: "keyed run_id (pipeline_runs d)"
  shows "\<exists>n d'. recover_batch svc env i True d = (Inr n, d') \<and> keyed run_id (pipeline_runs d')
    \<and> n + op_count d' = op_count d
    \<and> (n = 0 \<longrightarrow> d' = d \<and> (\<forall>r \<in> set (pipeline_runs d). \<not> stale_row svc (env_now (env i)) r))"
proof -
  let ?P = "\<lambda>r. operational (run_status r) \<and> heartbeat_stale (env_now (env i)) (svc_stale_after_us svc) True r"
  let ?ks = "list_stale_candidate_ids (env_now (env i)) (svc_stale_after_us svc) True (svc_scan_limit svc) d"
  have int: "\<And>i d. env_interfere (env i) d = d" using q by (simp add: quiet_startup_def)
  obtain n d' where b: "recover_candidates svc env (Suc i) True ?ks 0 d = (Inr n, d')"
    "keyed run_id (pipeline_runs d')" "n + op_count d' = op_count d"
    using recover_candidates_count[OF q reg keyed, of "Suc i" True ?ks 0] by auto
  have "d' = d \<and> (\<forall>r \<in> set (pipeline_runs d). \<not> stale_row svc (env_now (env i)) r)" if "n = 0"
  proof (cases "oldest_first ?P d")
    case Nil
    then have "?ks = []" by (simp add: list_stale_candidate_ids_def)
    moreover have "\<forall>r \<in> set (pipeline_runs d). \<not> ?P r"
      using Nil set_oldest_first[of ?P d] by auto
    ultimately show ?thesis using b by (auto simp: stale_row_alt)
  next
    case (Cons r rs)
    obtain m where m: "svc_scan_limit svc = Suc m" using lim by (cases "svc_scan_limit svc") auto
    have r: "r \<in> set (pipeline_runs d)" "?P r"
      using set_oldest_first[of ?P d] Cons by auto
    have "stale_row svc (env_now (env (Suc i))) r"
      using r(2) q stale_row_mono[of svc "env_now (env i)"] by (auto simp: stale_row_alt quiet_startup_def)
    then have st: "is_stale r (env_now (env (Suc i))) (svc_stale_after_us svc) True" by (simp add: stale_row_def)
    obtain b1 d1 where one: "recover_one svc (env (Suc i)) True (run_id r) d = (Inr b1, d1)"
      "keyed run_id (pipeline_runs d1)" "b1"
      using recover_one_count[OF q reg keyed, of "Suc i" True "run_id r"] get_run_keyed[OF keyed r(1)] st by blast
    have ks: "?ks = run_id r # map run_id (take m rs)"
      by (simp add: list_stale_candidate_ids_def Cons m)
    obtain n2 d2 where "recover_candidates svc env (Suc (Suc i)) True (map run_id (take m rs)) 1 d1 = (Inr n2, d2)" "1 \<le> n2"
      using recover_candidates_count[OF q reg one(2), of "Suc (Suc i)" True "map run_id (take m rs)" 1] by blast
    with b(1) one ks that show ?thesis by simp
  qed
  with b show ?thesis by (auto simp: recover_batch_def int)
qed

lemma recover_startup_terminates:
  assumes q: "quiet_startup env" and reg: "registry_ok (svc_registry svc)" and lim: "0 < svc_scan_limit svc"
  shows "keyed run_id (pipeline_runs d) \<Longrightarrow> op_count d < fuel \<Longrightarrow>
    \<exists>n d' j. recover_startup svc env fuel i tot d = Some (Inr n, d') \<and> i \<le> j
      \<and> n + op_count d' = tot + op_count d
      \<and> (\<forall>r \<in> set (pipeline_runs d'). \<not> stale_row svc (env_now (env j)) r)"
proof (induction fuel arbitrary: i tot d)
  case (Suc fuel)
  obtain n d1 where b: "recover_batch svc env i True d = (Inr n, d1)" "keyed run_id (pipeline_runs d1)"
    "n + op_count d1 = op_count d"
    "n = 0 \<longrightarrow> d1 = d \<and> (\<forall>r \<in> set (pipeline_runs d). \<not> stale_row svc (env_now (env i)) r)"
    using recover_batch_count[OF q reg lim Suc.prems(1)] by blast
  show ?case
  proof (cases "n = 0")
    case True
    with b show ?thesis by auto
  next
    case False
    then have "op_count d1 < fuel" using b(3) Suc.prems(2) by linarith
    from Suc.IH[OF b(2) this, of "i + svc_scan_limit svc + 1" "tot + n"] obtain n2 d2 j where
      "recover_startup svc env fuel (i + svc_scan_limit svc + 1) (tot + n) d1 = Some (Inr n2, d2)"
      "i + svc_scan_limit svc + 1 \<le> j" "n2 + op_count d2 = (tot + n) + op_count d1"
      "\<forall>r \<in> set (pipeline_runs d2). \<not> stale_row svc (env_now (env j)) r" by blast
    with b False show ?thesis
      by (intro exI[of _ n2] exI[of _ d2] exI[of _ j]) auto
  qed
qed simp


subsection \<open>Properties\<close>

text \<open>C7: Recovering one candidate never raises, and it acts exactly on an unlocked run that is
  RUNNING or CANCELLING with a stale or missing heartbeat: a stale RUNNING run ends QUEUED or
  FAILED, a stale CANCELLING run CANCELLED or FAILED, none of its steps stays RUNNING and no other
  run row changes.  A live, terminal, locked or vanished run is left exactly as found.\<close>

theorem recovery_reconciles_stale_runs:
  assumes "registry_ok (svc_registry svc)"
  shows "case get_stale_for_update (env_row_locked e) k d of
      Some run \<Rightarrow>
        if is_stale run (env_now e) (svc_stale_after_us svc) include_null
        then \<exists>d' run'. recover_one_body svc e include_null k d = Inr (True, d')
          \<and> pipeline_runs d' = row_put run_id run' (pipeline_runs d) \<and> get_run k d' = Some run'
          \<and> same_run_identity run run' \<and> none_running k d'
          \<and> run_status run' \<in> (if run_status run = Run_RUNNING then {Run_QUEUED, Run_FAILED}
                               else {Run_FAILED, Run_CANCELLED})
        else recover_one_body svc e include_null k d = Inr (False, d)
    | None \<Rightarrow> recover_one_body svc e include_null k d = Inr (False, d)"
proof (cases "get_stale_for_update (env_row_locked e) k d")
  case None
  then show ?thesis by (simp add: recover_one_body_def)
next
  case (Some run)
  then have g: "get_run k d = Some run" "\<not> env_row_locked e k"
    by (auto simp: get_stale_for_update_def split: if_splits)
  show ?thesis
  proof (cases "is_stale run (env_now e) (svc_stale_after_us svc) include_null")
    case True
    from recover_one_stale[OF g True assms] show ?thesis
      using Some True by (auto simp: reconciled_def simp del: set_simps)
  next
    case False
    with Some g show ?thesis by (simp add: recover_one_fresh)
  qed
qed

definition demo_service :: recovery_service where
  "demo_service = \<lparr>svc_registry = demo_registry, svc_stale_after_us = 60000000,
     svc_config_fingerprint = [], svc_retry_policy = default_retry_policy 0,
     svc_scan_limit = DEFAULT_RECOVERY_SCAN_LIMIT\<rparr>"

lemma demo_registry_ok: "registry_ok (svc_registry demo_service)"
  using demo_pipeline_ok(1)
  by (auto simp: demo_service_def demo_registry_def registry_ok_def reconcile_contract_def
      demo_pipeline_def demo_step_def)

lemma demo_stale:
  "get_stale_for_update (env_row_locked (quiet_env 90000000)) 1 (demo_failing_db Run_RUNNING)
     = Some (fenced_run (demo_fenced Run_RUNNING))"
  "is_stale (fenced_run (demo_fenced Run_RUNNING)) (env_now (quiet_env 90000000)) (svc_stale_after_us demo_service) False"
  by code_simp+

theorem recovery_reconciles_stale_runs_witness:
  "\<exists>d' run'. recover_one_body demo_service (quiet_env 90000000) False 1 (demo_failing_db Run_RUNNING) = Inr (True, d')
     \<and> get_run 1 d' = Some run' \<and> run_status run' \<in> {Run_QUEUED, Run_FAILED}"
  using recovery_reconciles_stale_runs[OF demo_registry_ok, of "quiet_env 90000000" False 1 "demo_failing_db Run_RUNNING"]
    demo_stale by (auto simp: demo_fenced_def)

text \<open>C6: Startup recovery terminates: one pass per operational run, plus one, is enough fuel.  It
  returns the number of runs it reconciled, and when it returns no stale run is left.\<close>

theorem startup_recovery_terminates:
  assumes "quiet_startup env" "registry_ok (svc_registry svc)" "0 < svc_scan_limit svc"
    and "keyed run_id (pipeline_runs d)" "op_count d < fuel"
  shows "\<exists>n d' j. recover_startup svc env fuel 0 0 d = Some (Inr n, d')
    \<and> n + length (operational_runs (pipeline_runs d')) = length (operational_runs (pipeline_runs d))
    \<and> (\<forall>r \<in> set (pipeline_runs d'). \<not> is_stale r (env_now (env j)) (svc_stale_after_us svc) True)"
  using recover_startup_terminates[OF assms, of 0 0] by (auto simp: op_count_def stale_row_def)

theorem startup_recovery_terminates_witness:
  "\<exists>n d'. recover_startup demo_service (\<lambda>_. quiet_env 90000000) 2 0 0 (demo_failing_db Run_RUNNING) = Some (Inr n, d')"
proof -
  have "quiet_startup (\<lambda>_. quiet_env 90000000)" by (simp add: quiet_startup_def)
  moreover have "0 < svc_scan_limit demo_service"
    by (simp add: demo_service_def DEFAULT_RECOVERY_SCAN_LIMIT_def)
  moreover have "keyed run_id (pipeline_runs (demo_failing_db Run_RUNNING))"
    by (simp add: demo_failing_db_def demo_db_def keyed_def)
  moreover have "op_count (demo_failing_db Run_RUNNING) < 2"
    by (simp add: op_count_def operational_runs_def demo_failing_db_def demo_db_def)
  ultimately show ?thesis using startup_recovery_terminates demo_registry_ok by blast
qed

text \<open>Recovery requeues a run only when it is safely resumable: same configuration fingerprint,
  a heartbeat to judge it by, attempts left under the retry policy, a step plan with at most one
  orphaned step and unfinished work; the next attempt then waits the policy's backoff.\<close>

theorem requeue_only_resumable:
  assumes "recover_running svc run (list_for_run (run_id run) d) now d = Inr d'"
    and "get_run (run_id run) d = Some run" "get_run (run_id run) d' = Some run'" "run_status run' = Run_QUEUED"
    and "run_status run = Run_RUNNING"
  shows "run_config_fingerprint run = svc_config_fingerprint svc \<and> run_heartbeat_at run \<noteq> None
    \<and> has_attempts_remaining (svc_retry_policy svc) (run_attempt run)
    \<and> list_for_run (run_id run) d \<noteq> []
    \<and> length (running_of (list_for_run (run_id run) d)) \<le> 1
    \<and> succeeded_count_of (list_for_run (run_id run) d) \<noteq> length (list_for_run (run_id run) d)
    \<and> run_next_attempt_at run'
        = Some (now + timedelta_us (backoff_seconds (svc_retry_policy svc) (run_attempt run)))"
proof -
  let ?ss = "list_for_run (run_id run) d"
  have mem: "run_id run \<in> set (run_ids d)" using assms(2) by (rule get_run_in_ids)
  have failed: False if "fail_run run now code message d1 = Inr d'" "run_ids d1 = run_ids d" for code message d1
  proof -
    note given = that
    obtain r where t: "transition_run run Run_FAILED now None None (Some code) (Some message) = Inr r"
      and "d' = put_run r d1" using given(1) by (auto simp: fail_run_def bindE_eq_Inr_iff)
    moreover have "run_id r = run_id run" using t by (rule transition_run_id)
    ultimately have "get_run (run_id run) d' = Some r"
      using get_run_put_run[of r d1] mem given(2) by simp
    with assms(3,4) transition_run_status[OF t] show False by simp
  qed
  have failed2: False if "fail_step_and_run run ?ss now code message d = Inr d'" for code message
    using that by (auto simp: fail_step_and_run_def fail_running_step_eq intro: failed)
  have ok: "run_config_fingerprint run = svc_config_fingerprint svc" "run_heartbeat_at run \<noteq> None"
    "has_attempts_remaining (svc_retry_policy svc) (run_attempt run)" "?ss \<noteq> []"
    "\<not> length (running_of ?ss) > 1" "succeeded_count_of ?ss \<noteq> length ?ss"
    using assms(1) failed2 failed[of _ _ d] unfolding recover_running_def
    by (auto split: if_splits)
  then obtain d1 r where t: "transition_run run Run_QUEUED now None
      (Some (now + timedelta_us (backoff_seconds (svc_retry_policy svc) (run_attempt run)))) None None = Inr r"
    and d': "d' = put_run r d1" "run_ids d1 = run_ids d"
    using assms(1) unfolding recover_running_def
    by (auto simp: bindE_eq_Inr_iff split: list.splits)
  have "run_id r = run_id run" using t by (rule transition_run_id)
  then have "get_run (run_id run) d' = Some r" using get_run_put_run[of r d1] mem d' by simp
  then have "run' = r" using assms(3) by simp
  with t ok show ?thesis by (auto simp: transition_run_def bindE_eq_Inr_iff)
qed


lemma demo_requeue:
  "recover_running demo_service (fenced_run (demo_fenced Run_RUNNING))
     (list_for_run (run_id (fenced_run (demo_fenced Run_RUNNING))) (demo_failing_db Run_RUNNING)) 90000000
     (demo_failing_db Run_RUNNING)
   = Inr (put_run ((fenced_run (demo_fenced Run_RUNNING))\<lparr>run_next_attempt_at := Some 91000000, run_status := Run_QUEUED\<rparr>)
       (put_step (demo_running\<lparr>step_started_at := None, step_finished_at := None, step_status := Step_QUEUED\<rparr>)
         (demo_failing_db Run_RUNNING)))"
  by code_simp

theorem requeue_only_resumable_witness:
  "has_attempts_remaining (default_retry_policy 0) (run_attempt (fenced_run (demo_fenced Run_RUNNING)))"
proof -
  have "get_run (run_id (fenced_run (demo_fenced Run_RUNNING))) (demo_failing_db Run_RUNNING)
      = Some (fenced_run (demo_fenced Run_RUNNING))" by code_simp
  moreover have "run_status (fenced_run (demo_fenced Run_RUNNING)) = Run_RUNNING" by code_simp
  ultimately show ?thesis
    using requeue_only_resumable[OF demo_requeue, of
        "(fenced_run (demo_fenced Run_RUNNING))\<lparr>run_next_attempt_at := Some 91000000, run_status := Run_QUEUED\<rparr>"]
      get_run_put_run[of "(fenced_run (demo_fenced Run_RUNNING))\<lparr>run_next_attempt_at := Some 91000000, run_status := Run_QUEUED\<rparr>"
        "put_step (demo_running\<lparr>step_started_at := None, step_finished_at := None, step_status := Step_QUEUED\<rparr>) (demo_failing_db Run_RUNNING)"]
    by (simp add: get_run_in_ids demo_service_def)
qed

text \<open>Progress after recovered cancellation.  A stale CANCELLING run none of whose steps ever
  executed is recovered as CANCELLED with progress 1: the test for a finished plan is made after
  the queued steps have been turned into CANCELLED ones, so it counts unexecuted steps as done.
  The engine's own cancellation path leaves the progress of such a run as it was.\<close>

theorem recovered_cancellation_reports_full_progress:
  assumes "run_status run = Run_CANCELLING" "run_heartbeat_at run \<noteq> None"
    and "get_run (run_id run) d = Some run" "list_for_run (run_id run) d \<noteq> []"
    and "\<forall>s \<in> set (list_for_run (run_id run) d). step_status s = Step_QUEUED"
  shows "\<exists>d' run'. recover_cancelling svc run (list_for_run (run_id run) d) now d = Inr d'
    \<and> get_run (run_id run) d' = Some run' \<and> run_status run' = Run_CANCELLED \<and> run_progress run' = 1"
proof -
  let ?ss = "list_for_run (run_id run) d"
  have none: "running_of ?ss = []" using assms(5) by (auto simp: running_of_def filter_empty_conv)
  have set: "settled_after_cancel ?ss" using assms(5) by (auto simp: settled_after_cancel_def list_all_iff)
  let ?r1 = "run\<lparr>run_progress := 1\<rparr>"
  have p: "apply_run_progress run 1 = Inr ?r1" by (simp add: apply_run_progress_def validate_progress_def)
  let ?r2 = "?r1\<lparr>run_finished_at := Some now, run_next_attempt_at := None, run_status := Run_CANCELLED\<rparr>"
  have t: "transition_run ?r1 Run_CANCELLED now None None None None = Inr ?r2"
    using assms(1) by (intro cancelling_to_cancelled) simp
  let ?d1 = "steps.put_all (map (cancel_step now) (queued_steps ?ss)) d"
  have "get_run (run_id run) (put_run ?r2 ?d1) = Some ?r2"
    using get_run_put_run[of ?r2 ?d1] get_run_in_ids[OF assms(3)] by simp
  moreover have "recover_cancelling svc run ?ss now d = Inr (put_run ?r2 ?d1)"
    using assms(2,4) none set p t by (auto simp: recover_cancelling_def cancel_queued_eq)
  ultimately show ?thesis by auto
qed

definition demo_cancelling_run :: pipeline_run where
  "demo_cancelling_run = (started (demo_run 1 REMEMBER (Some 7)) 9 ''wk'')\<lparr>run_status := Run_CANCELLING\<rparr>"

definition demo_cancelling_db :: db where
  "demo_cancelling_db = (demo_db [demo_cancelling_run])\<lparr>pipeline_steps := [demo_pending]\<rparr>"

theorem recovered_cancellation_reports_full_progress_witness:
  "run_progress demo_cancelling_run = 0
   \<and> (\<exists>d' run'. recover_cancelling demo_service demo_cancelling_run (list_for_run 1 demo_cancelling_db) 90000000
        demo_cancelling_db = Inr d' \<and> get_run 1 d' = Some run' \<and> run_progress run' = 1)"
proof
  show "run_progress demo_cancelling_run = 0"
    by (simp add: demo_cancelling_run_def started_def demo_run_def new_run_def)
  have id: "run_id demo_cancelling_run = 1" "run_status demo_cancelling_run = Run_CANCELLING"
    "run_heartbeat_at demo_cancelling_run \<noteq> None"
    by (simp_all add: demo_cancelling_run_def demo_run_def new_run_def)
  have l: "list_for_run 1 demo_cancelling_db = [demo_pending]" by code_simp
  have g: "get_run 1 demo_cancelling_db = Some demo_cancelling_run" by code_simp
  have q: "step_status demo_pending = Step_QUEUED" by code_simp
  show "\<exists>d' run'. recover_cancelling demo_service demo_cancelling_run (list_for_run 1 demo_cancelling_db) 90000000
        demo_cancelling_db = Inr d' \<and> get_run 1 d' = Some run' \<and> run_progress run' = 1"
    using recovered_cancellation_reports_full_progress[OF id(2,3), of demo_cancelling_db demo_service 90000000]
    unfolding id(1) l g using q by auto
qed

end
