(* ===== verification/End_To_End.thy ===== *)
theory End_To_End
  imports Run_Control_Facts Recovery_Facts
begin

text \<open>
  The runtime as a whole: what a client submits is claimed by an operational worker and driven
  to SUCCEEDED when its steps run clean.
\<close>

subsection \<open>A pipeline that runs clean from its input\<close>

fun clean_pipeline ::
  "py_env \<Rightarrow> claimed_run \<Rightarrow> uuid option \<Rightarrow> json \<Rightarrow> step_definition list \<Rightarrow> (string \<Rightarrow> json option) \<Rightarrow> bool" where
  "clean_pipeline E c src inp [] outs = True"
| "clean_pipeline E c src inp (sd # sds) outs =
     (case compute_input_hash E sd inp outs of
        Inr (Some h) \<Rightarrow>
          (compute_input_hash E sd inp (\<lambda>_. None) = Inr None \<or> compute_input_hash E sd inp (\<lambda>_. None) = Inr (Some h))
          \<and> (case sd_execute sd (context_of c src inp outs) of
               Inr res \<Rightarrow>
                 (\<forall>d. isOk (sd_persist sd (context_of c src inp outs) res d))
                 \<and> clean_pipeline E c src inp sds (outs(sd_name sd \<mapsto> result_output res))
             | Inl _ \<Rightarrow> False)
      | _ \<Rightarrow> False)"

lemma clean_pipeline_steps:
  "\<lbrakk>clean_pipeline E c src inp sds outs; plan_steps E inp n sds = Inr plans\<rbrakk> \<Longrightarrow>
   clean_steps E c src inp (plan_rows rid sid i plans) sds outs"
proof (induction sds arbitrary: outs n i plans)
  case (Cons sd sds)
  obtain h rest where h: "compute_input_hash E sd inp (\<lambda>_. None) = Inr h"
    and rest: "plan_steps E inp (n + 1) sds = Inr rest"
    and plans: "plans = \<lparr>plan_name = sd_name sd, plan_ordinal = n, plan_input_hash = h\<rparr> # rest"
    using Cons.prems(2) by (auto simp: bindE_eq_Inr_iff)
  obtain h' res where h': "compute_input_hash E sd inp outs = Inr (Some h')" "h = None \<or> h = Some h'"
    and ex: "sd_execute sd (context_of c src inp outs) = Inr res"
    and p: "\<forall>d. isOk (sd_persist sd (context_of c src inp outs) res d)"
    and cl: "clean_pipeline E c src inp sds (outs(sd_name sd \<mapsto> result_output res))"
    using Cons.prems(1) h by (auto split: sum.splits option.splits)
  have "clean_steps E c src inp (plan_rows rid sid (Suc i) rest) sds (outs(sd_name sd \<mapsto> result_output res))"
    by (rule Cons.IH[OF cl rest])
  then show ?case using h' ex p by (auto simp: plans new_step_def)
qed simp

lemma plan_rows_ordinals:
  "map step_ordinal (plan_rows rid sid n plans) = map plan_ordinal plans"
  by (induction plans arbitrary: n) (simp_all add: new_step_def)

lemma plan_rows_run: "s \<in> set (plan_rows rid sid n plans) \<Longrightarrow> step_run_id s = rid \<and> step_status s = Step_QUEUED"
  by (induction plans arbitrary: n) (auto simp: new_step_def)

lemma list_for_run_planned:
  assumes "pipeline_steps d = ss @ plan_rows rid sid 0 plans" "\<forall>s \<in> set ss. step_run_id s \<noteq> rid"
    and "plan_steps E inp 0 sds = Inr plans"
  shows "list_for_run rid d = plan_rows rid sid 0 plans"
proof -
  let ?rows = "plan_rows rid sid 0 plans"
  have f: "filter (\<lambda>s. step_run_id s = rid) (pipeline_steps d) = ?rows"
    using assms(1,2) plan_rows_run by (auto simp: filter_empty_conv intro!: filter_id_conv[THEN iffD2])
  have "map step_ordinal ?rows = map int [0..<length sds]"
    using plan_steps_shape[OF assms(3)] by (simp add: plan_rows_ordinals)
  then have "sorted_wrt (<) (map step_ordinal ?rows)"
    by (simp add: sorted_wrt_map)
  then have "sorted (map (\<lambda>s. (step_ordinal s, step_id s)) ?rows)"
    by (auto simp: sorted_wrt_map less_eq_prod_def elim: sorted_wrt_mono_rel[rotated])
  then show ?thesis by (simp add: list_for_run_def f sort_key_id_if_sorted)
qed


lemma created_run_executes:
  assumes q: "quiet_engine eng" "eng_py eng = E" and ok: "db_ok d1"
    and runs: "pipeline_runs d1 = rs @ [r]" and steps: "pipeline_steps d1 = ss @ plan_rows (run_id r) sid 0 plans"
    and old: "\<forall>s \<in> set ss. step_run_id s \<noteq> run_id r"
    and r: "run_attempt r = 0"
    and reg: "registry_get reg (run_pipeline_type r) = Inr pd" and wf: "wf_definition pd" "persist_contracts pd"
    and plan: "plan_steps E (run_input r) 0 (pd_steps pd) = Inr plans"
    and clean: "\<And>c src. clean_pipeline E c src (run_input r) (pd_steps pd) (\<lambda>_. None)"
  shows "\<exists>d3. execute eng reg (claim_of r w) (put_run (started r now w) d1) = (Inr (Exec_Status Run_SUCCEEDED), d3)
    \<and> finished_ok (claim_of r w) d3"
proof -
  let ?c = "claim_of r w" and ?d2 = "put_run (started r now w) d1" and ?rows = "plan_rows (run_id r) sid 0 plans"
  have ne: "pd_steps pd \<noteq> []" using wf_definition_names[OF wf(1)] by simp
  have len: "length plans = length (pd_steps pd)" using plan_steps_shape[OF plan] by (metis length_map)
  have id: "claimed_run_id ?c = run_id r" "claimed_pipeline_type ?c = run_pipeline_type r"
    by (simp_all add: claim_of_def)
  have g1: "get_run (run_id r) d1 = Some r" using get_run_member[OF ok, of r] runs by simp
  have g2: "get_run (run_id r) ?d2 = Some (started r now w)"
    using get_run_put_run[of "started r now w" d1] get_run_in_ids[OF g1] by simp
  have rows: "list_for_run (run_id r) ?d2 = [] @ ?rows"
    using list_for_run_planned[OF steps old plan] by simp
  have mid: "mid_run ?c ?d2 [] ?rows"
    unfolding mid_run_def id rows
    using g2 ok plan_rows_run[of _ "run_id r" sid 0 plans] r
    by (auto simp: owns_def is_owner_def claim_of_def started_def db_ok_def run_table_ok_def step_table_ok_def)
  have v: "validate_plan (eng_py eng) pd (map snapshot_of ([] @ ?rows)) (run_input (started r now w))
      = Inr (None, (\<lambda>_. None), Some (length ([] :: pipeline_step list)))"
    using validate_fresh_plan[OF plan ne, of "run_id r" sid] q(2) by (simp add: started_def)
  have cl: "clean_steps (eng_py eng) ?c (run_source_id (started r now w)) (run_input (started r now w)) ?rows
      (drop (length ([] :: pipeline_step list)) (pd_steps pd)) (\<lambda>_. None)"
    using clean_pipeline_steps[OF clean plan] q(2) by (simp add: started_def)
  have nr: "?rows \<noteq> []" using len ne plan_rows_length[of "run_id r" sid 0 plans] by auto
  have g3: "get_run (claimed_run_id ?c) ?d2 = Some (started r now w)" using g2 id by simp
  have r3: "registry_get reg (claimed_pipeline_type ?c) = Inr pd" using reg id by simp
  have ln: "length ([] :: pipeline_step list) + length ?rows = length (pd_steps pd)"
    using len by (simp add: plan_rows_length)
  show ?thesis by (rule execute_clean[OF q(1) r3 wf mid nr g3 v cl ln])
qed



end
