(* ===== verification/Projection.thy ===== *)
theory Projection
  imports Domain_Enums
begin

text \<open>
  The graph projection commands of \<open>ports/graph_projection.py\<close>: the ten builders, the payload
  stored in \<open>graph_outbox.payload\<close>, and the parser and validator the consumer runs before any
  write to the graph.  A Python dict is the list of its items; ids are given as \<open>str(id)\<close>.
\<close>

definition GRAPH_PROJECTION_SCHEMA_VERSION :: int where "GRAPH_PROJECTION_SCHEMA_VERSION = 1"

definition ALLOWED_AGGREGATE_TYPES :: "pystr list" where
  "ALLOWED_AGGREGATE_TYPES =
     map ascii [''entity'', ''chunk'', ''relation'', ''entity_mention'', ''chunk_next'']"

definition ALLOWED_OPERATIONS :: "pystr list" where
  "ALLOWED_OPERATIONS = map ascii [''upsert'', ''delete'']"

definition ENTITY_PROPERTIES :: "pystr list" where
  "ENTITY_PROPERTIES = map ascii [''id'', ''dataset_id'', ''name'', ''entity_type'', ''description'',
     ''importance_weight'', ''generation'']"

definition CHUNK_PROPERTIES :: "pystr list" where
  "CHUNK_PROPERTIES = map ascii [''id'', ''dataset_id'', ''source_id'', ''document_id'', ''ordinal'',
     ''generation'']"

definition RELATION_PROPERTIES :: "pystr list" where
  "RELATION_PROPERTIES = map ascii [''relation_id'', ''predicate'', ''description'', ''confidence'',
     ''importance_weight'', ''generation'']"

definition ENTITY_MENTION_PROPERTIES :: "pystr list" where
  "ENTITY_MENTION_PROPERTIES = map ascii [''mention_id'', ''confidence'']"

definition CHUNK_NEXT_PROPERTIES :: "pystr list" where "CHUNK_NEXT_PROPERTIES = []"

record projection_command =
  pc_schema_version :: int
  pc_aggregate_type :: pystr
  pc_operation :: pystr
  pc_dataset_id :: pystr
  pc_aggregate_id :: pystr
  pc_identity :: "(pystr \<times> pystr) list"
  pc_endpoints :: "(pystr \<times> pystr) list"
  pc_properties :: "(pystr \<times> json) list"

subsection \<open>Field parsers\<close>

definition invalid :: "exn + 'a" where "invalid = Inl Projection_Validation_Error"

fun parse_schema_version :: "json option \<Rightarrow> exn + int" where
  "parse_schema_version (Some (JInt v)) =
     (if v \<noteq> GRAPH_PROJECTION_SCHEMA_VERSION then invalid else Inr v)"
| "parse_schema_version _ = invalid"

fun parse_member :: "pystr list \<Rightarrow> json option \<Rightarrow> exn + pystr" where
  "parse_member allowed (Some (JStr s)) = (if s \<in> set allowed then Inr s else invalid)"
| "parse_member allowed _ = invalid"

fun string_value :: "json option \<Rightarrow> exn + pystr" where
  "string_value (Some (JStr s)) = (if s \<noteq> [] then Inr s else invalid)"
| "string_value _ = invalid"

fun string_items :: "(pystr \<times> json) list \<Rightarrow> exn + (pystr \<times> pystr) list" where
  "string_items [] = Inr []"
| "string_items ((k, v) # kvs) =
     bindE (string_value (Some v)) (\<lambda>s. bindE (string_items kvs) (\<lambda>rest. Inr ((k, s) # rest)))"

fun string_mapping :: "json option \<Rightarrow> exn + (pystr \<times> pystr) list" where
  "string_mapping (Some (JObj kvs)) = string_items kvs"
| "string_mapping _ = invalid"

definition is_identifier_property :: "pystr \<Rightarrow> bool" where
  "is_identifier_property k \<longleftrightarrow> k = ascii ''id'' \<or> suffix (ascii ''_id'') k
     \<or> k \<in> {ascii ''relation_id'', ascii ''mention_id''}"

fun scalar :: "json \<Rightarrow> bool" where
  "scalar (JArr _) = False"
| "scalar (JObj _) = False"
| "scalar _ = True"

definition property_value :: "pystr \<Rightarrow> json \<Rightarrow> exn + json" where
  "property_value k v =
     (if is_identifier_property k then bindE (string_value (Some v)) (\<lambda>s. Inr (JStr s))
      else if scalar v then Inr v else invalid)"

fun property_items :: "(pystr \<times> json) list \<Rightarrow> exn + (pystr \<times> json) list" where
  "property_items [] = Inr []"
| "property_items ((k, v) # kvs) =
     bindE (property_value k v) (\<lambda>x. bindE (property_items kvs) (\<lambda>rest. Inr ((k, x) # rest)))"

definition expected_properties :: "pystr \<Rightarrow> exn + pystr list" where
  "expected_properties t =
     (if t = ascii ''entity'' then Inr ENTITY_PROPERTIES
      else if t = ascii ''chunk'' then Inr CHUNK_PROPERTIES
      else if t = ascii ''relation'' then Inr RELATION_PROPERTIES
      else if t = ascii ''entity_mention'' then Inr ENTITY_MENTION_PROPERTIES
      else if t = ascii ''chunk_next'' then Inr CHUNK_NEXT_PROPERTIES
      else invalid)"

definition parse_properties :: "json \<Rightarrow> pystr \<Rightarrow> pystr \<Rightarrow> exn + (pystr \<times> json) list" where
  "parse_properties value t op =
     (case (if value = JNull then JObj [] else value) of
        JObj kvs \<Rightarrow>
          if op = ascii ''delete'' then (if kvs \<noteq> [] then invalid else Inr [])
          else bindE (expected_properties t) (\<lambda>expected.
                 if set (map fst kvs) \<noteq> set expected then invalid else property_items kvs)
      | _ \<Rightarrow> invalid)"

subsection \<open>Validation\<close>

definition require_identity :: "projection_command \<Rightarrow> string list \<Rightarrow> exn + unit" where
  "require_identity c keys = (if set (map fst (pc_identity c)) \<noteq> set (map ascii keys) then invalid else Inr ())"

definition require_endpoints :: "projection_command \<Rightarrow> string list \<Rightarrow> exn + unit" where
  "require_endpoints c keys = (if set (map fst (pc_endpoints c)) \<noteq> set (map ascii keys) then invalid else Inr ())"

definition require_no_endpoints :: "projection_command \<Rightarrow> exn + unit" where
  "require_no_endpoints c = (if pc_endpoints c \<noteq> [] then invalid else Inr ())"

definition require_aggregate_identity :: "projection_command \<Rightarrow> string \<Rightarrow> exn + unit" where
  "require_aggregate_identity c k =
     (case map_of (pc_identity c) (ascii k) of
        None \<Rightarrow> Inl Key_Error
      | Some v \<Rightarrow> if pc_aggregate_id c \<noteq> v then invalid else Inr ())"

definition require_endpoint_matches_identity :: "projection_command \<Rightarrow> string \<Rightarrow> exn + unit" where
  "require_endpoint_matches_identity c k =
     (case (map_of (pc_endpoints c) (ascii k), map_of (pc_identity c) (ascii k)) of
        (Some e, Some v) \<Rightarrow> if e \<noteq> v then invalid else Inr ()
      | _ \<Rightarrow> Inl Key_Error)"

definition seqE :: "exn + unit \<Rightarrow> exn + 'a \<Rightarrow> exn + 'a" where
  "seqE a b = bindE a (\<lambda>_. b)"

definition validate_projection_command :: "projection_command \<Rightarrow> exn + projection_command" where
  "validate_projection_command c =
     (if pc_schema_version c \<noteq> GRAPH_PROJECTION_SCHEMA_VERSION then invalid
      else if pc_aggregate_type c \<notin> set ALLOWED_AGGREGATE_TYPES then invalid
      else if pc_operation c \<notin> set ALLOWED_OPERATIONS then invalid
      else seqE
        (if pc_aggregate_type c \<in> {ascii ''entity'', ascii ''chunk''} then
           seqE (require_identity c [''id'']) (seqE (require_no_endpoints c)
             (require_aggregate_identity c ''id''))
         else if pc_aggregate_type c = ascii ''relation'' then
           seqE (require_identity c [''relation_id''])
             (seqE (require_endpoints c [''source_entity_id'', ''target_entity_id''])
               (require_aggregate_identity c ''relation_id''))
         else if pc_aggregate_type c = ascii ''entity_mention'' then
           seqE (require_identity c [''mention_id'']) (seqE (require_endpoints c [''entity_id'', ''chunk_id''])
             (require_aggregate_identity c ''mention_id''))
         else if pc_aggregate_type c = ascii ''chunk_next'' then
           seqE (require_identity c [''from_chunk_id'', ''to_chunk_id''])
             (seqE (require_endpoints c [''from_chunk_id'', ''to_chunk_id''])
               (seqE (require_aggregate_identity c ''from_chunk_id'')
                 (seqE (require_endpoint_matches_identity c ''from_chunk_id'')
                   (require_endpoint_matches_identity c ''to_chunk_id''))))
         else Inr ())
        (Inr c))"

subsection \<open>Payloads\<close>

definition string_object :: "(pystr \<times> pystr) list \<Rightarrow> json" where
  "string_object kvs = JObj (map (\<lambda>(k, v). (k, JStr v)) kvs)"

definition to_payload :: "projection_command \<Rightarrow> exn + (pystr \<times> json) list" where
  "to_payload command =
     bindE (validate_projection_command command) (\<lambda>c. Inr
       [(ascii ''schema_version'', JInt (pc_schema_version c)),
        (ascii ''aggregate_type'', JStr (pc_aggregate_type c)),
        (ascii ''operation'', JStr (pc_operation c)),
        (ascii ''dataset_id'', JStr (pc_dataset_id c)),
        (ascii ''aggregate_id'', JStr (pc_aggregate_id c)),
        (ascii ''identity'', string_object (pc_identity c)),
        (ascii ''endpoints'', string_object (pc_endpoints c)),
        (ascii ''properties'', JObj (pc_properties c))])"

definition pget :: "(pystr \<times> json) list \<Rightarrow> string \<Rightarrow> json option" where
  "pget payload k = map_of payload (ascii k)"

definition or_empty :: "json option \<Rightarrow> json" where
  "or_empty v = (case v of None \<Rightarrow> JObj [] | Some x \<Rightarrow> x)"

definition projection_command_from_payload :: "(pystr \<times> json) list \<Rightarrow> exn + projection_command" where
  "projection_command_from_payload payload =
     bindE (parse_schema_version (pget payload ''schema_version'')) (\<lambda>version.
     bindE (parse_member ALLOWED_AGGREGATE_TYPES (pget payload ''aggregate_type'')) (\<lambda>atype.
     bindE (parse_member ALLOWED_OPERATIONS (pget payload ''operation'')) (\<lambda>operation.
     bindE (string_value (pget payload ''dataset_id'')) (\<lambda>ds.
     bindE (string_value (pget payload ''aggregate_id'')) (\<lambda>aid.
     bindE (string_mapping (pget payload ''identity'')) (\<lambda>identity.
     bindE (string_mapping (Some (or_empty (pget payload ''endpoints'')))) (\<lambda>endpoints.
     bindE (parse_properties (or_empty (pget payload ''properties'')) atype operation) (\<lambda>properties.
       validate_projection_command
         \<lparr>pc_schema_version = version, pc_aggregate_type = atype, pc_operation = operation,
          pc_dataset_id = ds, pc_aggregate_id = aid, pc_identity = identity,
          pc_endpoints = endpoints, pc_properties = properties\<rparr>))))))))"

subsection \<open>The builders\<close>

definition command ::
  "string \<Rightarrow> string \<Rightarrow> pystr \<Rightarrow> pystr \<Rightarrow> (string \<times> pystr) list \<Rightarrow> (string \<times> pystr) list \<Rightarrow>
   (string \<times> json) list \<Rightarrow> projection_command" where
  "command t op ds aid identity endpoints properties =
     \<lparr>pc_schema_version = GRAPH_PROJECTION_SCHEMA_VERSION, pc_aggregate_type = ascii t,
      pc_operation = ascii op, pc_dataset_id = ds, pc_aggregate_id = aid,
      pc_identity = map (\<lambda>(k, v). (ascii k, v)) identity,
      pc_endpoints = map (\<lambda>(k, v). (ascii k, v)) endpoints,
      pc_properties = map (\<lambda>(k, v). (ascii k, v)) properties\<rparr>"

definition entity_upsert_command ::
  "pystr \<Rightarrow> pystr \<Rightarrow> pystr \<Rightarrow> pystr \<Rightarrow> pystr \<Rightarrow> rat \<Rightarrow> int \<Rightarrow> projection_command" where
  "entity_upsert_command e ds name entity_type description importance_weight generation =
     command ''entity'' ''upsert'' ds e [(''id'', e)] []
       [(''id'', JStr e), (''dataset_id'', JStr ds), (''name'', JStr name),
        (''entity_type'', JStr entity_type), (''description'', JStr description),
        (''importance_weight'', JReal importance_weight), (''generation'', JInt generation)]"

definition entity_delete_command :: "pystr \<Rightarrow> pystr \<Rightarrow> projection_command" where
  "entity_delete_command e ds = command ''entity'' ''delete'' ds e [(''id'', e)] [] []"

definition chunk_upsert_command ::
  "pystr \<Rightarrow> pystr \<Rightarrow> pystr \<Rightarrow> pystr \<Rightarrow> int \<Rightarrow> int \<Rightarrow> projection_command" where
  "chunk_upsert_command c ds source document ordinal generation =
     command ''chunk'' ''upsert'' ds c [(''id'', c)] []
       [(''id'', JStr c), (''dataset_id'', JStr ds), (''source_id'', JStr source),
        (''document_id'', JStr document), (''ordinal'', JInt ordinal), (''generation'', JInt generation)]"

definition chunk_delete_command :: "pystr \<Rightarrow> pystr \<Rightarrow> projection_command" where
  "chunk_delete_command c ds = command ''chunk'' ''delete'' ds c [(''id'', c)] [] []"

definition relation_upsert_command ::
  "pystr \<Rightarrow> pystr \<Rightarrow> pystr \<Rightarrow> pystr \<Rightarrow> pystr \<Rightarrow> pystr \<Rightarrow> rat \<Rightarrow> rat \<Rightarrow> int \<Rightarrow> projection_command" where
  "relation_upsert_command r ds source target predicate description confidence importance_weight generation =
     command ''relation'' ''upsert'' ds r [(''relation_id'', r)]
       [(''source_entity_id'', source), (''target_entity_id'', target)]
       [(''relation_id'', JStr r), (''predicate'', JStr predicate), (''description'', JStr description),
        (''confidence'', JReal confidence), (''importance_weight'', JReal importance_weight),
        (''generation'', JInt generation)]"

definition relation_delete_command :: "pystr \<Rightarrow> pystr \<Rightarrow> pystr \<Rightarrow> pystr \<Rightarrow> projection_command" where
  "relation_delete_command r ds source target =
     command ''relation'' ''delete'' ds r [(''relation_id'', r)]
       [(''source_entity_id'', source), (''target_entity_id'', target)] []"

definition entity_mention_upsert_command ::
  "pystr \<Rightarrow> pystr \<Rightarrow> pystr \<Rightarrow> pystr \<Rightarrow> rat \<Rightarrow> projection_command" where
  "entity_mention_upsert_command m ds e c confidence =
     command ''entity_mention'' ''upsert'' ds m [(''mention_id'', m)] [(''entity_id'', e), (''chunk_id'', c)]
       [(''mention_id'', JStr m), (''confidence'', JReal confidence)]"

definition entity_mention_delete_command :: "pystr \<Rightarrow> pystr \<Rightarrow> pystr \<Rightarrow> pystr \<Rightarrow> projection_command" where
  "entity_mention_delete_command m ds e c =
     command ''entity_mention'' ''delete'' ds m [(''mention_id'', m)] [(''entity_id'', e), (''chunk_id'', c)] []"

definition chunk_next_upsert_command :: "pystr \<Rightarrow> pystr \<Rightarrow> pystr \<Rightarrow> projection_command" where
  "chunk_next_upsert_command ds from_chunk to_chunk =
     command ''chunk_next'' ''upsert'' ds from_chunk
       [(''from_chunk_id'', from_chunk), (''to_chunk_id'', to_chunk)]
       [(''from_chunk_id'', from_chunk), (''to_chunk_id'', to_chunk)] []"

definition chunk_next_delete_command :: "pystr \<Rightarrow> pystr \<Rightarrow> pystr \<Rightarrow> projection_command" where
  "chunk_next_delete_command ds from_chunk to_chunk =
     command ''chunk_next'' ''delete'' ds from_chunk
       [(''from_chunk_id'', from_chunk), (''to_chunk_id'', to_chunk)]
       [(''from_chunk_id'', from_chunk), (''to_chunk_id'', to_chunk)] []"

end
