(* ===== verification/Graph_Outbox.thy ===== *)
theory Graph_Outbox
  imports Projection
begin

text \<open>
  The graph outbox: its row (\<open>infrastructure/postgres/models/graph_outbox.py\<close>), its repository
  (\<open>repositories/graph_outbox.py\<close>), the one-row processor and the dataset drain
  (\<open>services/graph_outbox_processor.py\<close>, \<open>graph_outbox_batch_processor.py\<close>).  The table is the
  list of its rows.  The environment gives, for the \<open>i\<close>-th unit of work, its \<open>now()\<close>, the rows
  other sessions hold locked and what they committed before it; the graph store is a state of any
  type with the port's \<open>apply\<close>, which answers whether it succeeded.
\<close>

record outbox_event =
  ob_id :: nat
  ob_dataset_id :: uuid
  ob_aggregate_type :: pystr
  ob_aggregate_id :: uuid
  ob_operation :: graph_outbox_operation
  ob_payload :: "(pystr \<times> json) list"
  ob_status :: graph_outbox_status
  ob_attempt :: int
  ob_created_at :: timestamp
  ob_processed_at :: "timestamp option"
  ob_processing_started_at :: "timestamp option"
  ob_worker_id :: "string option"

type_synonym outbox = "outbox_event list"

fun graph_outbox_operation_value :: "graph_outbox_operation \<Rightarrow> string" where
  "graph_outbox_operation_value Outbox_UPSERT = ''upsert''"
| "graph_outbox_operation_value Outbox_DELETE = ''delete''"

record claimed_outbox =
  co_outbox_id :: nat
  co_dataset_id :: pystr
  co_aggregate_type :: pystr
  co_aggregate_id :: pystr
  co_operation :: pystr
  co_payload :: "(pystr \<times> json) list"
  co_worker_id :: string
  co_attempt :: int
  co_processing_started_at :: timestamp

definition claimed_outbox_of :: "outbox_event \<Rightarrow> exn + claimed_outbox" where
  "claimed_outbox_of e =
     (case (ob_worker_id e, ob_processing_started_at e) of
        (Some w, Some t) \<Rightarrow> Inr \<lparr>co_outbox_id = ob_id e, co_dataset_id = uuid_text (ob_dataset_id e),
          co_aggregate_type = ob_aggregate_type e, co_aggregate_id = uuid_text (ob_aggregate_id e),
          co_operation = ascii (graph_outbox_operation_value (ob_operation e)),
          co_payload = ob_payload e, co_worker_id = w, co_attempt = ob_attempt e,
          co_processing_started_at = t\<rparr>
      | _ \<Rightarrow> Inl Assertion_Error)"

subsection \<open>Repository\<close>

definition is_claim_eligible :: "timestamp \<Rightarrow> int \<Rightarrow> int \<Rightarrow> outbox_event \<Rightarrow> bool" where
  "is_claim_eligible now stale_us max_attempts e =
     (case ob_status e of
        Outbox_PENDING \<Rightarrow> True
      | Outbox_PROCESSING \<Rightarrow>
          (case ob_processing_started_at e of None \<Rightarrow> True | Some t \<Rightarrow> t < now - stale_us)
      | Outbox_FAILED \<Rightarrow> ob_attempt e < max_attempts
      | Outbox_DONE \<Rightarrow> False)"

definition unsettled :: "int \<Rightarrow> outbox_event \<Rightarrow> bool" where
  "unsettled max_attempts e \<longleftrightarrow> ob_status e = Outbox_PENDING \<or> ob_status e = Outbox_PROCESSING
     \<or> (ob_status e = Outbox_FAILED \<and> ob_attempt e < max_attempts)"

definition has_blocking_upsert :: "uuid \<Rightarrow> int \<Rightarrow> outbox \<Rightarrow> bool" where
  "has_blocking_upsert ds max_attempts rows \<longleftrightarrow>
     list_ex (\<lambda>e. ob_dataset_id e = ds \<and> ob_operation e = Outbox_UPSERT \<and> unsettled max_attempts e) rows"

definition list_claimable_ids :: "timestamp \<Rightarrow> int \<Rightarrow> int \<Rightarrow> nat \<Rightarrow> outbox \<Rightarrow> nat list" where
  "list_claimable_ids now stale_us max_attempts n rows =
     take n (sort (map ob_id (filter (\<lambda>e. is_claim_eligible now stale_us max_attempts e
       \<and> (ob_operation e \<noteq> Outbox_DELETE \<or> \<not> has_blocking_upsert (ob_dataset_id e) max_attempts rows)) rows)))"

definition claim_event :: "outbox_event \<Rightarrow> timestamp \<Rightarrow> string \<Rightarrow> outbox_event" where
  "claim_event e now w = e\<lparr>ob_status := Outbox_PROCESSING, ob_processing_started_at := Some now,
     ob_worker_id := Some w, ob_attempt := ob_attempt e + 1, ob_processed_at := None\<rparr>"

definition outbox_get :: "nat \<Rightarrow> outbox \<Rightarrow> outbox_event option" where
  "outbox_get k rows = row_get ob_id k rows"

definition outbox_put :: "outbox_event \<Rightarrow> outbox \<Rightarrow> outbox" where
  "outbox_put e rows = row_put ob_id e rows"

definition claim_one ::
  "(nat \<Rightarrow> bool) \<Rightarrow> nat \<Rightarrow> string \<Rightarrow> timestamp \<Rightarrow> int \<Rightarrow> int \<Rightarrow> outbox \<Rightarrow> exn + (claimed_outbox option \<times> outbox)" where
  "claim_one row_locked k w now stale_us max_attempts rows =
     (case (if row_locked k then None else outbox_get k rows) of
        None \<Rightarrow> Inr (None, rows)
      | Some e \<Rightarrow>
        if \<not> is_claim_eligible now stale_us max_attempts e then Inr (None, rows)
        else if ob_operation e = Outbox_DELETE \<and> has_blocking_upsert (ob_dataset_id e) max_attempts rows
        then Inr (None, rows)
        else (let e' = claim_event e now w in
              bindE (claimed_outbox_of e') (\<lambda>c. Inr (Some c, outbox_put e' rows))))"

definition finalize_if_owned ::
  "nat \<Rightarrow> string \<Rightarrow> int \<Rightarrow> graph_outbox_status \<Rightarrow> timestamp option \<Rightarrow> outbox \<Rightarrow> bool \<times> outbox" where
  "finalize_if_owned k w a next_status processed_at rows =
     (case outbox_get k rows of
        None \<Rightarrow> (False, rows)
      | Some e \<Rightarrow>
        if ob_worker_id e = Some w \<and> ob_attempt e = a \<and> ob_status e = Outbox_PROCESSING
        then (True, outbox_put (e\<lparr>ob_status := next_status, ob_processed_at := processed_at\<rparr>) rows)
        else (False, rows))"

definition mark_done_if_owned :: "nat \<Rightarrow> string \<Rightarrow> int \<Rightarrow> timestamp \<Rightarrow> outbox \<Rightarrow> bool \<times> outbox" where
  "mark_done_if_owned k w a now rows = finalize_if_owned k w a Outbox_DONE (Some now) rows"

definition mark_failed_if_owned :: "nat \<Rightarrow> string \<Rightarrow> int \<Rightarrow> outbox \<Rightarrow> bool \<times> outbox" where
  "mark_failed_if_owned k w a rows = finalize_if_owned k w a Outbox_FAILED None rows"

text \<open>\<open>UUID(...)\<close> of a builder's id text is the id itself; the two ids are arguments.\<close>

definition add_projection_command ::
  "nat \<Rightarrow> timestamp \<Rightarrow> uuid \<Rightarrow> uuid \<Rightarrow> projection_command \<Rightarrow> outbox \<Rightarrow> exn + outbox" where
  "add_projection_command k now ds aid c rows =
     bindE (to_payload c) (\<lambda>payload. Inr (rows @
       [\<lparr>ob_id = k, ob_dataset_id = ds, ob_aggregate_type = pc_aggregate_type c, ob_aggregate_id = aid,
         ob_operation = (if pc_operation c = ascii ''upsert'' then Outbox_UPSERT else Outbox_DELETE),
         ob_payload = payload, ob_status = Outbox_PENDING, ob_attempt = 0, ob_created_at = now,
         ob_processed_at = None, ob_processing_started_at = None, ob_worker_id = None\<rparr>]))"

definition position :: "pystr list \<Rightarrow> pystr \<Rightarrow> nat" where
  "position order t = length (takeWhile (\<lambda>x. x \<noteq> t) order)"

definition upsert_aggregate_order :: "pystr list" where
  "upsert_aggregate_order = map ascii [''entity'', ''chunk'', ''entity_mention'', ''relation'', ''chunk_next'']"

definition delete_aggregate_order :: "pystr list" where
  "delete_aggregate_order = map ascii [''chunk_next'', ''relation'', ''entity_mention'', ''chunk'', ''entity'']"

definition drain_order :: "outbox_event \<Rightarrow> nat \<times> nat \<times> nat" where
  "drain_order e =
     (case ob_operation e of
        Outbox_UPSERT \<Rightarrow> (0, position upsert_aggregate_order (ob_aggregate_type e), ob_id e)
      | Outbox_DELETE \<Rightarrow> (1, position delete_aggregate_order (ob_aggregate_type e), ob_id e))"

definition processable_for_dataset :: "uuid \<Rightarrow> int \<Rightarrow> outbox \<Rightarrow> outbox_event list" where
  "processable_for_dataset ds max_attempts rows =
     sort_key drain_order (filter (\<lambda>e. ob_dataset_id e = ds \<and> unsettled max_attempts e) rows)"

definition list_processable_ids_for_dataset :: "uuid \<Rightarrow> int \<Rightarrow> outbox \<Rightarrow> nat list" where
  "list_processable_ids_for_dataset ds max_attempts rows =
     map ob_id (processable_for_dataset ds max_attempts rows)"

definition list_status_by_ids :: "nat list \<Rightarrow> outbox \<Rightarrow> nat \<rightharpoonup> graph_outbox_status \<times> int" where
  "list_status_by_ids ids rows =
     (if ids = [] then Map.empty
      else map_of (map (\<lambda>e. (ob_id e, ob_status e, ob_attempt e)) (filter (\<lambda>e. ob_id e \<in> set ids) rows)))"

subsection \<open>Processor\<close>

definition DEFAULT_GRAPH_OUTBOX_MAX_ATTEMPTS :: int where "DEFAULT_GRAPH_OUTBOX_MAX_ATTEMPTS = 5"

record outbox_env =
  obe_now :: "nat \<Rightarrow> timestamp"
  obe_row_locked :: "nat \<Rightarrow> nat \<Rightarrow> bool"
  obe_interfere :: "nat \<Rightarrow> outbox \<Rightarrow> outbox"

record 'g outbox_processor =
  obp_worker_id :: string
  obp_max_attempts :: int
  obp_stale_after_us :: int
  obp_apply :: "projection_command \<Rightarrow> 'g \<Rightarrow> bool \<times> 'g"

record process_result =
  pr_outbox_id :: nat
  pr_status :: graph_outbox_status
  pr_attempt :: int
  pr_already_done :: bool

type_synonym 'g processed = "(exn + process_result) \<times> outbox \<times> 'g"

definition validate_row_matches_command :: "claimed_outbox \<Rightarrow> projection_command \<Rightarrow> exn + unit" where
  "validate_row_matches_command s c =
     (if co_dataset_id s \<noteq> pc_dataset_id c then Inl Outbox_Payload_Mismatch_Error
      else if co_aggregate_type s \<noteq> pc_aggregate_type c then Inl Outbox_Payload_Mismatch_Error
      else if co_aggregate_id s \<noteq> pc_aggregate_id c then Inl Outbox_Payload_Mismatch_Error
      else if co_operation s \<noteq> pc_operation c then Inl Outbox_Payload_Mismatch_Error
      else Inr ())"

definition matched_command :: "claimed_outbox \<Rightarrow> exn + projection_command" where
  "matched_command s =
     bindE (projection_command_from_payload (co_payload s)) (\<lambda>c.
       bindE (validate_row_matches_command s c) (\<lambda>_. Inr c))"

text \<open>\<open>_apply_and_finalize\<close> of a fresh claim; the finalization is unit of work \<open>i\<close>.\<close>

definition apply_and_finalize ::
  "outbox_env \<Rightarrow> 'g outbox_processor \<Rightarrow> nat \<Rightarrow> claimed_outbox \<Rightarrow> outbox \<Rightarrow> 'g \<Rightarrow> 'g processed" where
  "apply_and_finalize e p i s rows g =
     (let (failure, g') =
            (case matched_command s of
               Inl x \<Rightarrow> (Some x, g)
             | Inr c \<Rightarrow> (let (ok, g1) = obp_apply p c g in
                        (if ok then None else Some Projection_Apply_Error, g1)));
          rows1 = obe_interfere e i rows
      in case failure of
           Some x \<Rightarrow> (Inl x, snd (mark_failed_if_owned (co_outbox_id s) (obp_worker_id p) (co_attempt s) rows1), g')
         | None \<Rightarrow>
           (Inr \<lparr>pr_outbox_id = co_outbox_id s, pr_status = Outbox_DONE, pr_attempt = co_attempt s,
                 pr_already_done = False\<rparr>,
            snd (mark_done_if_owned (co_outbox_id s) (obp_worker_id p) (co_attempt s) (obe_now e i) rows1), g'))"

text \<open>\<open>_claim_specific\<close>, \<open>_read_terminal_or_wait\<close> and the loop of \<open>process\<close>, with fuel for the
  iterations; \<open>None\<close> is a loop still observing another owner's lease.\<close>

definition claim_specific ::
  "outbox_env \<Rightarrow> 'g outbox_processor \<Rightarrow> nat \<Rightarrow> nat \<Rightarrow> outbox \<Rightarrow> exn + (claimed_outbox option \<times> outbox)" where
  "claim_specific e p i k rows =
     claim_one (obe_row_locked e i) k (obp_worker_id p) (obe_now e i) (obp_stale_after_us p) (obp_max_attempts p)
       rows"

definition read_terminal_or_wait :: "'g outbox_processor \<Rightarrow> nat \<Rightarrow> outbox \<Rightarrow> exn + process_result option" where
  "read_terminal_or_wait p k rows =
     (case outbox_get k rows of
        None \<Rightarrow> Inl Outbox_Event_Not_Found_Error
      | Some e \<Rightarrow>
        if ob_status e = Outbox_DONE
        then Inr (Some \<lparr>pr_outbox_id = ob_id e, pr_status = Outbox_DONE, pr_attempt = ob_attempt e,
                        pr_already_done = True\<rparr>)
        else if ob_status e = Outbox_FAILED \<and> obp_max_attempts p \<le> ob_attempt e
        then Inl Outbox_Attempts_Exhausted_Error
        else Inr None)"

fun process ::
  "outbox_env \<Rightarrow> 'g outbox_processor \<Rightarrow> nat \<Rightarrow> nat \<Rightarrow> nat \<Rightarrow> outbox \<Rightarrow> 'g \<Rightarrow> 'g processed option" where
  "process e p 0 i k rows g = None"
| "process e p (Suc fuel) i k rows g =
     (let rows1 = obe_interfere e i rows in
      case claim_specific e p i k rows1 of
        Inl x \<Rightarrow> Some (Inl x, rows1, g)
      | Inr (Some s, rows2) \<Rightarrow> Some (apply_and_finalize e p (i + 1) s rows2 g)
      | Inr (None, _) \<Rightarrow>
          (let rows2 = obe_interfere e (i + 1) rows1 in
           case read_terminal_or_wait p k rows2 of
             Inl x \<Rightarrow> Some (Inl x, rows2, g)
           | Inr (Some r) \<Rightarrow> Some (Inr r, rows2, g)
           | Inr None \<Rightarrow> process e p fuel (i + 2) k rows2 g))"

text \<open>\<open>claim_and_process_one\<close> of the autonomous consumer: scan, claim, apply.\<close>

definition claim_and_process_one ::
  "outbox_env \<Rightarrow> 'g outbox_processor \<Rightarrow> nat \<Rightarrow> outbox \<Rightarrow> 'g \<Rightarrow> (exn + process_result option) \<times> outbox \<times> 'g" where
  "claim_and_process_one e p i rows g =
     (let rows1 = obe_interfere e i rows in
      case list_claimable_ids (obe_now e i) (obp_stale_after_us p) (obp_max_attempts p) 1 rows1 of
        [] \<Rightarrow> (Inr None, rows1, g)
      | k # _ \<Rightarrow>
        (let rows2 = obe_interfere e (i + 1) rows1 in
         case claim_specific e p (i + 1) k rows2 of
           Inl x \<Rightarrow> (Inl x, rows2, g)
         | Inr (None, _) \<Rightarrow> (Inr None, rows2, g)
         | Inr (Some s, rows3) \<Rightarrow>
             (case apply_and_finalize e p (i + 2) s rows3 g of
                (Inl x, out) \<Rightarrow> (Inl x, out)
              | (Inr r, out) \<Rightarrow> (Inr (Some r), out))))"

text \<open>The drain: the processor of each id in turn; an exception ends it.\<close>

fun drain_ids ::
  "outbox_env \<Rightarrow> 'g outbox_processor \<Rightarrow> nat \<Rightarrow> nat \<Rightarrow> nat list \<Rightarrow> nat \<Rightarrow> outbox \<Rightarrow> 'g \<Rightarrow>
   ((exn + nat) \<times> outbox \<times> 'g) option" where
  "drain_ids e p fuel i [] n rows g = Some (Inr n, rows, g)"
| "drain_ids e p fuel i (k # ks) n rows g =
     (case process e p fuel i k rows g of
        None \<Rightarrow> None
      | Some (Inl x, rows', g') \<Rightarrow> Some (Inl x, rows', g')
      | Some (Inr _, rows', g') \<Rightarrow> drain_ids e p fuel (i + 2 * fuel) ks (n + 1) rows' g')"

definition process_dataset ::
  "outbox_env \<Rightarrow> 'g outbox_processor \<Rightarrow> nat \<Rightarrow> uuid \<Rightarrow> outbox \<Rightarrow> 'g \<Rightarrow>
   ((exn + nat) \<times> outbox \<times> 'g) option" where
  "process_dataset e p fuel ds rows g =
     (let rows1 = obe_interfere e 0 rows in
      drain_ids e p fuel 1 (list_processable_ids_for_dataset ds (obp_max_attempts p) rows1) 0 rows1 g)"

end
