(* ===== verification/Projection_Facts.thy ===== *)
theory Projection_Facts
  imports Projection
begin

text \<open>
  Round trips of projection commands: what a producer stores in the outbox is what the consumer
  parses, and parsing is idempotent.
\<close>

lemma ascii_inj [simp]: "ascii s = ascii t \<longleftrightarrow> s = t"
  by (simp add: ascii_def inj_map_eq_map inj_on_def)

lemma suffix_ascii [simp]: "suffix (ascii s) (ascii t) \<longleftrightarrow> suffix s t"
proof
  assume "suffix (ascii s) (ascii t)"
  then obtain zs where "ascii t = zs @ ascii s" by (auto simp: suffix_def)
  then obtain us vs where "t = us @ vs" "ascii vs = ascii s"
    by (auto simp: ascii_def map_eq_append_conv)
  then show "suffix s t" by (simp add: suffix_def)
qed (auto simp: suffix_def ascii_def)

lemma validate_id: "validate_projection_command c = Inr c' \<Longrightarrow> c' = c"
  by (auto simp: validate_projection_command_def seqE_def bindE_eq_Inr_iff invalid_def split: if_splits)

definition text_values :: "(pystr \<times> pystr) list \<Rightarrow> bool" where
  "text_values kvs \<longleftrightarrow> list_all (\<lambda>kv. snd kv \<noteq> []) kvs"

lemma string_items_render:
  "text_values kvs \<Longrightarrow> string_items (map (\<lambda>(k, v). (k, JStr v)) kvs) = Inr kvs"
  by (induction kvs) (auto simp: text_values_def)

lemma string_value_Inr: "string_value v = Inr s \<longleftrightarrow> v = Some (JStr s) \<and> s \<noteq> []"
  by (cases v rule: string_value.cases) (auto simp: invalid_def)

lemma string_items_text: "string_items kvs = Inr r \<Longrightarrow> text_values r"
  by (induction kvs arbitrary: r rule: string_items.induct)
    (auto simp: bindE_eq_Inr_iff string_value_Inr text_values_def invalid_def split: if_splits)

lemma string_mapping_text: "string_mapping v = Inr r \<Longrightarrow> text_values r"
  by (cases v rule: string_mapping.cases) (auto simp: invalid_def dest: string_items_text)

lemma property_value_idem: "property_value k v = Inr x \<Longrightarrow> property_value k x = Inr x"
  by (auto simp: property_value_def bindE_eq_Inr_iff string_value_Inr invalid_def split: if_splits)

definition property_values :: "(pystr \<times> json) list \<Rightarrow> bool" where
  "property_values kvs \<longleftrightarrow> list_all (\<lambda>kv. property_value (fst kv) (snd kv) = Inr (snd kv)) kvs"

lemma property_items_render: "property_values kvs \<Longrightarrow> property_items kvs = Inr kvs"
  by (induction kvs rule: property_items.induct) (auto simp: property_values_def)

lemma property_items_values:
  "property_items kvs = Inr r \<Longrightarrow> property_values r \<and> map fst r = map fst kvs"
  by (induction kvs arbitrary: r rule: property_items.induct)
    (auto simp: bindE_eq_Inr_iff property_values_def dest: property_value_idem)

text \<open>A command the consumer accepts.\<close>

definition conforming :: "projection_command \<Rightarrow> bool" where
  "conforming c \<longleftrightarrow> validate_projection_command c = Inr c
     \<and> pc_dataset_id c \<noteq> [] \<and> pc_aggregate_id c \<noteq> []
     \<and> text_values (pc_identity c) \<and> text_values (pc_endpoints c)
     \<and> parse_properties (JObj (pc_properties c)) (pc_aggregate_type c) (pc_operation c) = Inr (pc_properties c)"

lemma validated_header:
  "validate_projection_command c = Inr c \<Longrightarrow> pc_schema_version c = GRAPH_PROJECTION_SCHEMA_VERSION
     \<and> pc_aggregate_type c \<in> set ALLOWED_AGGREGATE_TYPES \<and> pc_operation c \<in> set ALLOWED_OPERATIONS"
  by (auto simp: validate_projection_command_def invalid_def split: if_splits)

lemma parse_render:
  assumes "conforming c"
  shows "\<exists>p. to_payload c = Inr p \<and> projection_command_from_payload p = Inr c"
proof -
  have v: "validate_projection_command c = Inr c" using assms by (simp add: conforming_def)
  note head = validated_header[OF v]
  have "projection_command_from_payload (projr (to_payload c)) = validate_projection_command
      \<lparr>pc_schema_version = pc_schema_version c, pc_aggregate_type = pc_aggregate_type c,
       pc_operation = pc_operation c, pc_dataset_id = pc_dataset_id c, pc_aggregate_id = pc_aggregate_id c,
       pc_identity = pc_identity c, pc_endpoints = pc_endpoints c, pc_properties = pc_properties c\<rparr>"
    using assms head v
    by (simp add: conforming_def to_payload_def projection_command_from_payload_def pget_def or_empty_def
        string_object_def string_items_render)
  also have "\<dots> = Inr c" using v by (cases c) simp
  finally show ?thesis using v by (simp add: to_payload_def)
qed

lemma parse_properties_idem:
  assumes "parse_properties v t op = Inr r"
  shows "parse_properties (JObj r) t op = Inr r"
proof (cases "op = ascii ''delete''")
  case True
  then show ?thesis using assms by (auto simp: parse_properties_def invalid_def split: json.splits if_splits)
next
  case False
  obtain kvs expected where kvs: "expected_properties t = Inr expected" "set (map fst kvs) = set expected"
    "property_items kvs = Inr r"
    using assms False
    by (auto simp: parse_properties_def bindE_eq_Inr_iff invalid_def split: json.splits if_splits)
  note r = property_items_values[OF kvs(3)]
  have "set (map fst r) = set expected" using kvs(2) r by simp
  then show ?thesis using False kvs(1) r by (simp add: parse_properties_def property_items_render)
qed

lemma parsed_conforming:
  assumes "projection_command_from_payload p = Inr c"
  shows "conforming c"
proof -
  obtain v t op ds aid ident ends props where
    f: "string_value (pget p ''dataset_id'') = Inr ds" "string_value (pget p ''aggregate_id'') = Inr aid"
      "string_mapping (pget p ''identity'') = Inr ident"
      "string_mapping (Some (or_empty (pget p ''endpoints''))) = Inr ends"
      "parse_properties (or_empty (pget p ''properties'')) t op = Inr props"
    and c: "validate_projection_command \<lparr>pc_schema_version = v, pc_aggregate_type = t, pc_operation = op,
          pc_dataset_id = ds, pc_aggregate_id = aid, pc_identity = ident, pc_endpoints = ends,
          pc_properties = props\<rparr> = Inr c"
    using assms unfolding projection_command_from_payload_def bindE_eq_Inr_iff by blast
  note eq = validate_id[OF c]
  show ?thesis using c f string_mapping_text[OF f(3)] string_mapping_text[OF f(4)] parse_properties_idem[OF f(5)]
    unfolding conforming_def eq string_value_Inr by simp
qed

text \<open>Parsing a stored payload is idempotent: a payload the consumer accepts yields a command that
  validates, and storing that command again yields a payload that parses to the same command.\<close>

theorem parsed_command_round_trip:
  assumes "projection_command_from_payload p = Inr c"
  shows "validate_projection_command c = Inr c
    \<and> (\<exists>p'. to_payload c = Inr p' \<and> projection_command_from_payload p' = Inr c)"
  using parse_render[OF parsed_conforming[OF assms]] parsed_conforming[OF assms]
  by (simp add: conforming_def)

definition built_commands ::
  "pystr \<Rightarrow> pystr \<Rightarrow> pystr \<Rightarrow> pystr \<Rightarrow> pystr \<Rightarrow> pystr \<Rightarrow> pystr \<Rightarrow> rat \<Rightarrow> rat \<Rightarrow> int \<Rightarrow> int \<Rightarrow> projection_command set" where
  "built_commands k ds a b name kind descr x y n g =
     {entity_upsert_command k ds name kind descr x g, entity_delete_command k ds,
      chunk_upsert_command k ds a b n g, chunk_delete_command k ds,
      relation_upsert_command k ds a b name descr x y g, relation_delete_command k ds a b,
      entity_mention_upsert_command k ds a b x, entity_mention_delete_command k ds a b,
      chunk_next_upsert_command ds a b, chunk_next_delete_command ds a b}"

lemmas builder_defs = entity_upsert_command_def entity_delete_command_def chunk_upsert_command_def
  chunk_delete_command_def relation_upsert_command_def relation_delete_command_def
  entity_mention_upsert_command_def entity_mention_delete_command_def chunk_next_upsert_command_def
  chunk_next_delete_command_def

lemmas contract_defs = ALLOWED_AGGREGATE_TYPES_def ALLOWED_OPERATIONS_def ENTITY_PROPERTIES_def
  CHUNK_PROPERTIES_def RELATION_PROPERTIES_def ENTITY_MENTION_PROPERTIES_def CHUNK_NEXT_PROPERTIES_def
  expected_properties_def parse_properties_def property_value_def is_identifier_property_def

lemmas require_defs = require_identity_def require_endpoints_def require_no_endpoints_def
  require_aggregate_identity_def require_endpoint_matches_identity_def seqE_def

lemma builders_conforming:
  assumes "k \<noteq> []" "ds \<noteq> []" "a \<noteq> []" "b \<noteq> []"
  shows "\<forall>c \<in> built_commands k ds a b name kind descr x y n g. conforming c"
  using assms
  by (simp add: built_commands_def builder_defs command_def conforming_def text_values_def
      validate_projection_command_def require_defs contract_defs suffix_Cons)

text \<open>Every command the ten builders make, from non-empty ids, is stored by \<open>to_payload\<close> and read
  back unchanged by the consumer, so no event a builder enqueues is rejected at projection time.\<close>

theorem built_commands_round_trip:
  assumes "k \<noteq> []" "ds \<noteq> []" "a \<noteq> []" "b \<noteq> []"
    and "c \<in> built_commands k ds a b name kind descr x y n g"
  shows "\<exists>p. to_payload c = Inr p \<and> projection_command_from_payload p = Inr c"
  using builders_conforming[OF assms(1-4)] assms(5) parse_render by blast

theorem parsed_command_round_trip_witness:
  "validate_projection_command (entity_delete_command (ascii ''e'') (ascii ''d''))
     = Inr (entity_delete_command (ascii ''e'') (ascii ''d''))"
proof -
  have "projection_command_from_payload
     [(ascii ''schema_version'', JInt 1), (ascii ''aggregate_type'', json_str ''entity''),
      (ascii ''operation'', json_str ''delete''), (ascii ''dataset_id'', json_str ''d''),
      (ascii ''aggregate_id'', json_str ''e''), (ascii ''identity'', JObj [(ascii ''id'', json_str ''e'')])]
     = Inr (entity_delete_command (ascii ''e'') (ascii ''d''))"
    by code_simp
  from parsed_command_round_trip[OF this] show ?thesis by blast
qed

theorem built_commands_round_trip_witness:
  "\<exists>p. to_payload (chunk_next_upsert_command (ascii ''d'') (ascii ''a'') (ascii ''b'')) = Inr p"
  using built_commands_round_trip[of "ascii ''k''" "ascii ''d''" "ascii ''a''" "ascii ''b''"
      "chunk_next_upsert_command (ascii ''d'') (ascii ''a'') (ascii ''b'')" "[]" "[]" "[]" 0 0 0 0]
  by (auto simp: built_commands_def ascii_def)

end
