(* ===== verification/Graph_Outbox_Facts.thy ===== *)
theory Graph_Outbox_Facts
  imports Graph_Outbox Projection_Facts Lease
begin

text \<open>
  The graph outbox: leases are fenced (the locale \<open>fenced_lease\<close>, interpreted on the outbox row),
  discovery agrees with the claim, the drained snapshot is complete and dependency-ordered, and an
  undisturbed drain applies exactly the outstanding commands of its dataset.
\<close>

subsection \<open>Rows\<close>

definition outbox_keyed :: "outbox \<Rightarrow> bool" where
  "outbox_keyed rows \<longleftrightarrow> distinct (map ob_id rows)"

lemma outbox_get_put_same [simp]:
  "outbox_get (ob_id e) rows = Some e0 \<Longrightarrow> ob_id e' = ob_id e \<Longrightarrow> outbox_get (ob_id e) (outbox_put e' rows) = Some e'"
  unfolding outbox_get_def outbox_put_def using list_store.get_after_put[of ob_id "ob_id e" rows e0 e'] by simp

lemma outbox_get_put_other [simp]:
  "k \<noteq> ob_id e \<Longrightarrow> outbox_get k (outbox_put e rows) = outbox_get k rows"
  by (simp add: outbox_get_def outbox_put_def row_get_put_other)

lemma outbox_get_SomeD: "outbox_get k rows = Some e \<Longrightarrow> e \<in> set rows \<and> ob_id e = k"
  by (auto simp: outbox_get_def dest: row_get_SomeD)

lemma outbox_get_mem: "outbox_keyed rows \<Longrightarrow> e \<in> set rows \<Longrightarrow> outbox_get (ob_id e) rows = Some e"
  by (simp add: outbox_get_def outbox_keyed_def row_get_keyed keyed_def)

lemma outbox_keyed_put [simp]: "outbox_keyed (outbox_put e rows) = outbox_keyed rows"
  by (simp add: outbox_keyed_def outbox_put_def)

lemma set_outbox_put:
  "outbox_get (ob_id e) rows = Some e0 \<Longrightarrow>
   set (outbox_put e rows) = insert e {x \<in> set rows. ob_id x \<noteq> ob_id e}"
  unfolding outbox_put_def by (rule set_row_put) (metis imageI outbox_get_SomeD)

lemma ids_outbox_put [simp]: "map ob_id (outbox_put e rows) = map ob_id rows"
  by (simp add: outbox_put_def)

subsection \<open>The lease of a row\<close>

definition outbox_token_owns :: "claimed_outbox \<Rightarrow> outbox_event \<Rightarrow> bool" where
  "outbox_token_owns c e \<longleftrightarrow> ob_worker_id e = Some (co_worker_id c) \<and> ob_attempt e = co_attempt c
     \<and> ob_status e = Outbox_PROCESSING"

definition outbox_claim :: "outbox_event \<Rightarrow> timestamp \<times> string \<Rightarrow> (outbox_event \<times> claimed_outbox) option" where
  "outbox_claim e a =
     (case claimed_outbox_of (claim_event e (fst a) (snd a)) of
        Inl _ \<Rightarrow> None
      | Inr c \<Rightarrow> Some (claim_event e (fst a) (snd a), c))"

definition outbox_other_update :: "outbox_event \<Rightarrow> outbox_event \<Rightarrow> bool" where
  "outbox_other_update e e' \<longleftrightarrow> ob_attempt e' = ob_attempt e"

lemma claimed_outbox_of_claim:
  "claimed_outbox_of (claim_event e now w) = Inr \<lparr>co_outbox_id = ob_id e,
     co_dataset_id = uuid_text (ob_dataset_id e), co_aggregate_type = ob_aggregate_type e,
     co_aggregate_id = uuid_text (ob_aggregate_id e),
     co_operation = ascii (graph_outbox_operation_value (ob_operation e)), co_payload = ob_payload e,
     co_worker_id = w, co_attempt = ob_attempt e + 1, co_processing_started_at = now\<rparr>"
  by (simp add: claimed_outbox_of_def claim_event_def)

interpretation outbox_lease: fenced_lease ob_attempt co_attempt outbox_token_owns outbox_claim outbox_other_update
proof (unfold_locales, goal_cases)
  case (2 r a r' t)
  then show ?case
    by (auto simp: outbox_claim_def claimed_outbox_of_claim outbox_token_owns_def) (simp_all add: claim_event_def)
next
  case (3 r a r' t)
  then show ?case by (auto simp: outbox_claim_def claimed_outbox_of_claim) (simp add: claim_event_def)
qed (auto simp: outbox_token_owns_def outbox_other_update_def)

lemma claim_one_cases:
  assumes "claim_one rl k w now st mx rows = Inr (Some c, rows')"
  obtains e where "outbox_get k rows = Some e" "\<not> rl k" "is_claim_eligible now st mx e"
    "ob_operation e = Outbox_DELETE \<longrightarrow> \<not> has_blocking_upsert (ob_dataset_id e) mx rows"
    "outbox_claim e (now, w) = Some (claim_event e now w, c)"
    "rows' = outbox_put (claim_event e now w) rows" "co_outbox_id c = k" "co_worker_id c = w"
    "co_attempt c = ob_attempt e + 1"
  using assms
  by (auto simp: claim_one_def claimed_outbox_of_claim outbox_claim_def Let_def
      dest: outbox_get_SomeD split: if_splits option.splits)

lemma finalize_owned_iff:
  "fst (finalize_if_owned k w a st t rows) \<longleftrightarrow>
     (\<exists>e. outbox_get k rows = Some e \<and> ob_worker_id e = Some w \<and> ob_attempt e = a \<and> ob_status e = Outbox_PROCESSING)"
  by (auto simp: finalize_if_owned_def split: option.splits)

lemma finalize_not_owned: "\<not> fst (finalize_if_owned k w a st t rows) \<Longrightarrow> snd (finalize_if_owned k w a st t rows) = rows"
  by (auto simp: finalize_if_owned_def split: option.splits if_splits)

text \<open>Everything any session commits to the table: a claim, a finalization, a new event.\<close>

inductive outbox_step :: "outbox \<Rightarrow> outbox \<Rightarrow> bool" where
  step_claim: "claim_one rl k w now st mx rows = Inr (c, rows') \<Longrightarrow> outbox_step rows rows'"
| step_finalize: "outbox_step rows (snd (finalize_if_owned k w a st t rows))"
| step_add: "\<lbrakk>add_projection_command k now ds aid c rows = Inr rows'; k \<notin> ob_id ` set rows\<rbrakk> \<Longrightarrow> outbox_step rows rows'"

lemma outbox_get_append_fresh:
  "outbox_get k rows = Some e \<Longrightarrow> outbox_get k (rows @ rows') = Some e"
  by (induction rows) (auto simp: outbox_get_def row_get_Cons split: if_splits)

lemma outbox_step_evolves:
  assumes "outbox_step rows rows'" "outbox_get k rows = Some e"
  shows "\<exists>e'. outbox_get k rows' = Some e' \<and> outbox_lease.evolves e e'"
  using assms(1)
proof cases
  case (step_claim rl j w now st mx c)
  show ?thesis
  proof (cases c)
    case None
    then have "rows' = rows" using step_claim
      by (auto simp: claim_one_def claimed_outbox_of_claim Let_def split: if_splits option.splits)
    then show ?thesis using assms(2) outbox_lease.evolves_refl by blast
  next
    case (Some s)
    from claim_one_cases[OF step_claim[unfolded Some]] obtain e0 where
      e0: "outbox_get j rows = Some e0" "outbox_claim e0 (now, w) = Some (claim_event e0 now w, s)"
        "rows' = outbox_put (claim_event e0 now w) rows" by metis
    have id: "ob_id (claim_event e0 now w) = ob_id e0" "ob_id e0 = j"
      using e0(1) by (auto simp: claim_event_def dest: outbox_get_SomeD)
    show ?thesis
    proof (cases "k = j")
      case True
      then have "e0 = e" using e0(1) assms(2) by simp
      then show ?thesis using True e0 id outbox_get_put_same[of e0 rows e0 "claim_event e0 now w"]
          outbox_lease.evolves_claim[OF outbox_lease.evolves_refl e0(2)] by auto
    next
      case False
      then show ?thesis using assms(2) e0(3) id outbox_lease.evolves_refl by auto
    qed
  qed
next
  case (step_finalize j w a st t)
  show ?thesis
  proof (cases "fst (finalize_if_owned j w a st t rows)")
    case False
    then show ?thesis using step_finalize finalize_not_owned assms(2) outbox_lease.evolves_refl by metis
  next
    case True
    then obtain e0 where e0: "outbox_get j rows = Some e0"
      "rows' = outbox_put (e0\<lparr>ob_status := st, ob_processed_at := t\<rparr>) rows"
      using step_finalize by (auto simp: finalize_if_owned_def split: option.splits if_splits)
    have id: "ob_id e0 = j" using e0(1) by (auto dest: outbox_get_SomeD)
    show ?thesis
    proof (cases "k = j")
      case True
      then have "e0 = e" using e0(1) assms(2) by simp
      moreover have "outbox_other_update e (e\<lparr>ob_status := st, ob_processed_at := t\<rparr>)"
        by (simp add: outbox_other_update_def)
      ultimately show ?thesis using True e0 id
          outbox_get_put_same[of e0 rows e0 "e0\<lparr>ob_status := st, ob_processed_at := t\<rparr>"]
          outbox_lease.evolves_other[OF outbox_lease.evolves_refl] by auto
    next
      case False
      then show ?thesis using assms(2) e0(2) id outbox_lease.evolves_refl by auto
    qed
  qed
next
  case (step_add j now ds aid c)
  then show ?thesis using assms(2) outbox_lease.evolves_refl outbox_get_append_fresh
    by (fastforce simp: add_projection_command_def bindE_eq_Inr_iff)
qed

lemma outbox_steps_evolve:
  assumes "outbox_step\<^sup>*\<^sup>* rows rows'" "outbox_get k rows = Some e"
  shows "\<exists>e'. outbox_get k rows' = Some e' \<and> outbox_lease.evolves e e'"
  using assms
proof (induction rule: rtranclp_induct)
  case base
  then show ?case using outbox_lease.evolves_refl by blast
next
  case (step rows1 rows2)
  then obtain e1 where e1: "outbox_get k rows1 = Some e1" "outbox_lease.evolves e e1" by blast
  obtain e2 where e2: "outbox_get k rows2 = Some e2" "outbox_lease.evolves e1 e2"
    using outbox_step_evolves[OF step.hyps(2) e1(1)] by blast
  have "outbox_lease.evolves e e2" using e2(2) e1(2)
    by (induction rule: outbox_lease.evolves.induct)
      (auto intro: outbox_lease.evolves_claim outbox_lease.evolves_other)
  then show ?case using e2(1) by blast
qed

lemma claim_one_row:
  assumes "claim_one rl k w now st mx rows = Inr (Some c, rows')"
  obtains e e' where "outbox_get k rows = Some e" "outbox_claim e (now, w) = Some (e', c)"
    "outbox_get k rows' = Some e'" "outbox_token_owns c e'"
proof -
  from claim_one_cases[OF assms] obtain e where e: "outbox_get k rows = Some e"
    "outbox_claim e (now, w) = Some (claim_event e now w, c)" "rows' = outbox_put (claim_event e now w) rows"
    by metis
  have "ob_id e = k" "ob_id (claim_event e now w) = ob_id e"
    using e(1) by (auto simp: claim_event_def dest: outbox_get_SomeD)
  then have "outbox_get k rows' = Some (claim_event e now w)"
    using e outbox_get_put_same[of e rows e "claim_event e now w"] by simp
  then show thesis using that e outbox_lease.claim_owner[OF e(2)] by blast
qed

text \<open>Fencing of outbox leases.  Once a lease on a row has been superseded by a later claim of the same
  row, whatever claims, finalizations and insertions any session commits before, between and after,
  neither finalization of the superseded lease changes anything.\<close>

theorem superseded_outbox_lease:
  assumes "claim_one rl1 k w1 t1 st1 mx1 rows0 = Inr (Some c1, rows1)"
    and "outbox_step\<^sup>*\<^sup>* rows1 rows2"
    and "claim_one rl2 k w2 t2 st2 mx2 rows2 = Inr (Some c2, rows3)"
    and "outbox_step\<^sup>*\<^sup>* rows3 rows4"
  shows "mark_done_if_owned k w1 (co_attempt c1) now rows4 = (False, rows4)
    \<and> mark_failed_if_owned k w1 (co_attempt c1) rows4 = (False, rows4)"
proof -
  obtain e1 where e1: "outbox_get k rows1 = Some e1" "outbox_token_owns c1 e1"
    using claim_one_row[OF assms(1)] by metis
  have w1: "co_worker_id c1 = w1" using claim_one_cases[OF assms(1)] by metis
  obtain e2 where e2: "outbox_get k rows2 = Some e2" "outbox_lease.evolves e1 e2"
    using outbox_steps_evolve[OF assms(2) e1(1)] by blast
  obtain e3 where e3: "outbox_claim e2 (t2, w2) = Some (e3, c2)" "outbox_get k rows3 = Some e3"
    using claim_one_row[OF assms(3)] e2(1) by (metis option.inject)
  obtain e4 where e4: "outbox_get k rows4 = Some e4" "outbox_lease.evolves e3 e4"
    using outbox_steps_evolve[OF assms(4) e3(2)] by blast
  have "\<not> outbox_token_owns c1 e4"
    by (rule outbox_lease.superseded_never_owns[OF e1(2) e2(2) e3(1) e4(2)])
  then have "\<not> fst (finalize_if_owned k w1 (co_attempt c1) st t rows4)" for st t
    using e4(1) w1 by (auto simp: finalize_owned_iff outbox_token_owns_def)
  then show ?thesis unfolding mark_done_if_owned_def mark_failed_if_owned_def
    by (metis finalize_not_owned prod.collapse)
qed

text \<open>Demonstration rows: an entity's upsert and a chunk's delete of one dataset.\<close>

definition demo_event :: "nat \<Rightarrow> graph_outbox_operation \<Rightarrow> projection_command \<Rightarrow> outbox_event" where
  "demo_event k op c = \<lparr>ob_id = k, ob_dataset_id = 7, ob_aggregate_type = pc_aggregate_type c, ob_aggregate_id = k,
     ob_operation = op, ob_payload = (case to_payload c of Inr p \<Rightarrow> p | Inl _ \<Rightarrow> []),
     ob_status = Outbox_PENDING, ob_attempt = 0, ob_created_at = 0, ob_processed_at = None,
     ob_processing_started_at = None, ob_worker_id = None\<rparr>"

definition demo_outbox :: outbox where
  "demo_outbox =
     [demo_event 3 Outbox_DELETE (chunk_delete_command (uuid_text 3) (uuid_text 7)),
      demo_event 2 Outbox_UPSERT (entity_upsert_command (uuid_text 2) (uuid_text 7) [5] [6] [7] 1 0)]"

theorem superseded_outbox_lease_witness:
  "\<exists>c1 rows1 c2 rows2. claim_one (\<lambda>_. False) 2 ''a'' 10 5 3 demo_outbox = Inr (Some c1, rows1)
     \<and> claim_one (\<lambda>_. False) 2 ''b'' 20 5 3 rows1 = Inr (Some c2, rows2)
     \<and> mark_done_if_owned 2 ''a'' (co_attempt c1) 21 rows2 = (False, rows2)"
proof -
  have get: "outbox_get 2 demo_outbox = Some (demo_event 2 Outbox_UPSERT
      (entity_upsert_command (uuid_text 2) (uuid_text 7) [5] [6] [7] 1 0))" (is "_ = Some ?e")
    by (simp add: demo_outbox_def outbox_get_def row_get_Cons demo_event_def)
  have e: "ob_status ?e = Outbox_PENDING" "ob_operation ?e = Outbox_UPSERT" "ob_id ?e = 2" "ob_attempt ?e = 0"
    by (simp_all add: demo_event_def)
  define r1 where "r1 = outbox_put (claim_event ?e 10 ''a'') demo_outbox"
  have c1: "\<exists>c1. claim_one (\<lambda>_. False) 2 ''a'' 10 5 3 demo_outbox = Inr (Some c1, r1) \<and> co_attempt c1 = 1"
    by (simp add: claim_one_def get is_claim_eligible_def e claimed_outbox_of_claim r1_def Let_def)
  have g1: "outbox_get 2 r1 = Some (claim_event ?e 10 ''a'')"
    using outbox_get_put_same[of ?e demo_outbox ?e "claim_event ?e 10 ''a''"] get e
    by (simp add: r1_def claim_event_def)
  have c2: "\<exists>c2 r2. claim_one (\<lambda>_. False) 2 ''b'' 20 5 3 r1 = Inr (Some c2, r2)"
    by (simp add: claim_one_def g1 is_claim_eligible_def claim_event_def e claimed_outbox_of_def Let_def)
  show ?thesis using c1 c2 superseded_outbox_lease[OF _ rtranclp.rtrancl_refl _ rtranclp.rtrancl_refl] by meson
qed

subsection \<open>Discovery and claim\<close>

definition unlocked :: "nat \<Rightarrow> bool" where "unlocked k = False"

lemma claim_one_succeeds_iff:
  "(\<exists>c rows'. claim_one unlocked k w now st mx rows = Inr (Some c, rows')) \<longleftrightarrow>
   (\<exists>e. outbox_get k rows = Some e \<and> is_claim_eligible now st mx e
      \<and> (ob_operation e \<noteq> Outbox_DELETE \<or> \<not> has_blocking_upsert (ob_dataset_id e) mx rows))"
  by (auto simp: claim_one_def unlocked_def claimed_outbox_of_claim Let_def split: option.splits)

text \<open>Discovery and claim agree.  On one state of the outbox with distinct ids, and when no other
  session holds a row, the discovery scan lists, in insertion order and without repetition, exactly
  the rows a claim at the same instant would lease; in particular a DELETE is never leased while an
  UPSERT of its dataset is outstanding.\<close>

theorem discovery_agrees_with_claim:
  assumes "outbox_keyed rows"
  shows "(k \<in> set (list_claimable_ids now st mx (length rows) rows) \<longleftrightarrow>
           (\<exists>c rows'. claim_one unlocked k w now st mx rows = Inr (Some c, rows')))
    \<and> sorted_wrt (<) (list_claimable_ids now st mx n rows)
    \<and> (\<forall>c rows' e. claim_one rl k w now st mx rows = Inr (Some c, rows') \<and> outbox_get k rows = Some e
         \<and> ob_operation e = Outbox_DELETE \<longrightarrow>
         (\<forall>e' \<in> set rows. ob_dataset_id e' = ob_dataset_id e \<and> ob_operation e' = Outbox_UPSERT \<longrightarrow> \<not> unsettled mx e'))"
proof (intro conjI allI impI)
  let ?P = "\<lambda>e. is_claim_eligible now st mx e
    \<and> (ob_operation e \<noteq> Outbox_DELETE \<or> \<not> has_blocking_upsert (ob_dataset_id e) mx rows)"
  have "k \<in> set (list_claimable_ids now st mx (length rows) rows) \<longleftrightarrow> k \<in> ob_id ` {e \<in> set rows. ?P e}"
    by (simp add: list_claimable_ids_def)
  also have "\<dots> \<longleftrightarrow> (\<exists>e. outbox_get k rows = Some e \<and> ?P e)"
    using outbox_get_mem[OF assms] outbox_get_SomeD by fastforce
  finally show "k \<in> set (list_claimable_ids now st mx (length rows) rows) \<longleftrightarrow>
     (\<exists>c rows'. claim_one unlocked k w now st mx rows = Inr (Some c, rows'))"
    by (simp only: claim_one_succeeds_iff)
  have "distinct (map ob_id (filter ?P rows))"
    using assms by (simp add: outbox_keyed_def distinct_map_filter)
  then have "sorted_wrt (<) (sort (map ob_id (filter ?P rows)))"
    by (simp add: strict_sorted_iff)
  then show "sorted_wrt (<) (list_claimable_ids now st mx n rows)"
    by (simp add: list_claimable_ids_def sorted_wrt_take)
next
  fix c rows' e
  assume "claim_one rl k w now st mx rows = Inr (Some c, rows') \<and> outbox_get k rows = Some e
     \<and> ob_operation e = Outbox_DELETE"
  then have "\<not> has_blocking_upsert (ob_dataset_id e) mx rows" by (metis claim_one_cases option.inject)
  then show "\<forall>e' \<in> set rows. ob_dataset_id e' = ob_dataset_id e \<and> ob_operation e' = Outbox_UPSERT \<longrightarrow> \<not> unsettled mx e'"
    by (auto simp: has_blocking_upsert_def list_ex_iff)
qed

theorem discovery_agrees_with_claim_witness:
  "2 \<in> set (list_claimable_ids 10 5 3 2 demo_outbox) \<and> 3 \<notin> set (list_claimable_ids 10 5 3 2 demo_outbox)"
proof -
  have keyed: "outbox_keyed demo_outbox" by (simp add: outbox_keyed_def demo_outbox_def demo_event_def)
  have len: "length demo_outbox = 2" by (simp add: demo_outbox_def)
  note agree = discovery_agrees_with_claim[OF keyed, of _ 10 5 3 "''a''", unfolded len, THEN conjunct1]
  show ?thesis unfolding agree claim_one_succeeds_iff
    by (simp add: demo_outbox_def outbox_get_def row_get_Cons demo_event_def is_claim_eligible_def
        has_blocking_upsert_def unsettled_def)
qed

subsection \<open>The drain\<close>

definition outbox_quiet :: "outbox_env \<Rightarrow> bool" where
  "outbox_quiet env \<longleftrightarrow> (\<forall>i rows. obe_interfere env i rows = rows) \<and> (\<forall>i k. \<not> obe_row_locked env i k)"

text \<open>The command a row carries, once its payload parses and agrees with its columns.\<close>

definition row_command :: "outbox_event \<Rightarrow> exn + projection_command" where
  "row_command e = matched_command
     \<lparr>co_outbox_id = ob_id e, co_dataset_id = uuid_text (ob_dataset_id e), co_aggregate_type = ob_aggregate_type e,
      co_aggregate_id = uuid_text (ob_aggregate_id e),
      co_operation = ascii (graph_outbox_operation_value (ob_operation e)), co_payload = ob_payload e,
      co_worker_id = [], co_attempt = 0, co_processing_started_at = 0\<rparr>"

lemma matched_command_cong:
  "\<lbrakk>co_payload s = co_payload s'; co_dataset_id s = co_dataset_id s'; co_aggregate_type s = co_aggregate_type s';
    co_aggregate_id s = co_aggregate_id s'; co_operation s = co_operation s'\<rbrakk> \<Longrightarrow>
   matched_command s = matched_command s'"
  unfolding matched_command_def validate_row_matches_command_def by (simp cong: if_cong)

lemma matched_command_claim:
  "outbox_claim e a = Some (e', c) \<Longrightarrow> matched_command c = row_command e"
  unfolding row_command_def
  by (rule matched_command_cong) (auto simp: outbox_claim_def claimed_outbox_of_claim)

definition settled_as :: "graph_outbox_status \<Rightarrow> outbox_event \<Rightarrow> outbox_event \<Rightarrow> bool" where
  "settled_as st e e' \<longleftrightarrow> ob_id e' = ob_id e \<and> ob_dataset_id e' = ob_dataset_id e \<and> ob_operation e' = ob_operation e
     \<and> ob_status e' = st \<and> ob_attempt e' = ob_attempt e + 1 \<and> ob_payload e' = ob_payload e"

text \<open>A row this drain can claim now: eligible, and not a DELETE behind an outstanding UPSERT.\<close>

definition row_claimable :: "outbox_env \<Rightarrow> 'g outbox_processor \<Rightarrow> outbox \<Rightarrow> outbox_event \<Rightarrow> bool" where
  "row_claimable env p rows e \<longleftrightarrow>
     (\<forall>i. is_claim_eligible (obe_now env i) (obp_stale_after_us p) (obp_max_attempts p) e)
     \<and> (ob_operation e = Outbox_DELETE \<longrightarrow> \<not> has_blocking_upsert (ob_dataset_id e) (obp_max_attempts p) rows)"

definition delivered :: "'g outbox_processor \<Rightarrow> outbox_event \<Rightarrow> 'g \<Rightarrow> exn option \<times> 'g" where
  "delivered p e g =
     (case row_command e of
        Inl x \<Rightarrow> (Some x, g)
      | Inr c \<Rightarrow> (if fst (obp_apply p c g) then None else Some Projection_Apply_Error, snd (obp_apply p c g)))"

lemma process_claimable:
  assumes q: "outbox_quiet env" and e: "outbox_get k rows = Some e" and cl: "row_claimable env p rows e"
    and d: "delivered p e g = (fault, g')"
  shows "\<exists>e' r. process env p (Suc fuel) i k rows g = Some (r, outbox_put e' rows, g')
    \<and> (case fault of Some x \<Rightarrow> r = Inl x \<and> settled_as Outbox_FAILED e e'
         | None \<Rightarrow> isOk r \<and> settled_as Outbox_DONE e e')"
proof -
  have id: "ob_id e = k" using e by (auto dest: outbox_get_SomeD)
  define e1 where "e1 = claim_event e (obe_now env i) (obp_worker_id p)"
  have e1: "ob_id e1 = k" "ob_worker_id e1 = Some (obp_worker_id p)" "ob_attempt e1 = ob_attempt e + 1"
    "ob_status e1 = Outbox_PROCESSING"
    using id by (simp_all add: e1_def claim_event_def)
  obtain s where s: "outbox_claim e (obe_now env i, obp_worker_id p) = Some (e1, s)"
    by (simp add: outbox_claim_def claimed_outbox_of_claim e1_def)
  have sid: "co_outbox_id s = k" "co_attempt s = ob_attempt e + 1"
    using s id by (auto simp: outbox_claim_def claimed_outbox_of_claim)
  have c: "claim_specific env p i k rows = Inr (Some s, outbox_put e1 rows)"
    using q e cl s by (auto simp: claim_specific_def claim_one_def outbox_quiet_def row_claimable_def Let_def
        claimed_outbox_of_claim outbox_claim_def e1_def)
  have g1: "outbox_get k (outbox_put e1 rows) = Some e1"
    using outbox_get_put_same[of e rows e e1] e e1(1) id by simp
  have fin: "snd (finalize_if_owned k (obp_worker_id p) (ob_attempt e + 1) st t (outbox_put e1 rows))
      = outbox_put (e1\<lparr>ob_status := st, ob_processed_at := t\<rparr>) rows" for st t
    using g1 e1 by (simp add: finalize_if_owned_def outbox_put_def)
  have settled: "settled_as st e (e1\<lparr>ob_status := st, ob_processed_at := t\<rparr>)" for st t
    by (simp add: settled_as_def e1_def claim_event_def)
  have pr: "process env p (Suc fuel) i k rows g
      = Some (apply_and_finalize env p (i + 1) s (outbox_put e1 rows) g)"
    using q c by (simp add: outbox_quiet_def)
  show ?thesis
  proof (cases fault)
    case None
    then obtain cmd where "row_command e = Inr cmd" "obp_apply p cmd g = (True, g')"
      using d by (auto simp: delivered_def split: sum.splits if_splits) (metis prod.collapse)
    then have "apply_and_finalize env p (i + 1) s (outbox_put e1 rows) g =
        (Inr \<lparr>pr_outbox_id = k, pr_status = Outbox_DONE, pr_attempt = ob_attempt e + 1, pr_already_done = False\<rparr>,
         outbox_put (e1\<lparr>ob_status := Outbox_DONE, ob_processed_at := Some (obe_now env (i + 1))\<rparr>) rows, g')"
      using q by (simp add: apply_and_finalize_def matched_command_claim[OF s] outbox_quiet_def
          mark_done_if_owned_def sid fin)
    then show ?thesis using None pr settled by fastforce
  next
    case (Some x)
    then have "(case row_command e of Inl x \<Rightarrow> (Some x, g)
        | Inr c \<Rightarrow> (let (ok, g1) = obp_apply p c g in (if ok then None else Some Projection_Apply_Error, g1))) = (Some x, g')"
      using d by (cases "row_command e") (simp_all add: delivered_def split_beta)
    then have "apply_and_finalize env p (i + 1) s (outbox_put e1 rows) g =
        (Inl x, outbox_put (e1\<lparr>ob_status := Outbox_FAILED, ob_processed_at := None\<rparr>) rows, g')"
      using q by (simp add: apply_and_finalize_def matched_command_claim[OF s] outbox_quiet_def
          mark_failed_if_owned_def sid fin)
    then show ?thesis using Some pr settled by fastforce
  qed
qed

lemma process_delivers:
  assumes "outbox_quiet env" "outbox_get k rows = Some e" "row_claimable env p rows e" "fst (delivered p e g) = None"
  obtains e' r where "process env p (Suc fuel) i k rows g = Some (Inr r, outbox_put e' rows, snd (delivered p e g))"
    "settled_as Outbox_DONE e e'"
proof -
  have "delivered p e g = (None, snd (delivered p e g))" using assms(4) by (metis prod.collapse)
  from process_claimable[OF assms(1-3) this, of fuel i] obtain e' r where
    "process env p (Suc fuel) i k rows g = Some (r, outbox_put e' rows, snd (delivered p e g))" "isOk r"
    "settled_as Outbox_DONE e e'" by (auto simp del: process.simps)
  then show thesis using that by (cases r) (auto simp del: process.simps)
qed

lemma process_fails:
  assumes "outbox_quiet env" "outbox_get k rows = Some e" "row_claimable env p rows e" "fst (delivered p e g) = Some x"
  obtains e' where "process env p (Suc fuel) i k rows g = Some (Inl x, outbox_put e' rows, snd (delivered p e g))"
    "settled_as Outbox_FAILED e e'"
proof -
  have "delivered p e g = (Some x, snd (delivered p e g))" using assms(4) by (metis prod.collapse)
  from process_claimable[OF assms(1-3) this, of fuel i] show thesis
    using that by (auto simp del: process.simps)
qed

text \<open>What is left to settle of a dataset, and a snapshot that covers it with UPSERTs first.\<close>

definition outstanding :: "uuid \<Rightarrow> int \<Rightarrow> outbox \<Rightarrow> outbox_event set" where
  "outstanding ds mx rows = {e \<in> set rows. ob_dataset_id e = ds \<and> unsettled mx e}"

definition upserts_first :: "outbox_event list \<Rightarrow> bool" where
  "upserts_first es \<longleftrightarrow> sorted_wrt (\<lambda>e e'. ob_operation e = Outbox_DELETE \<longrightarrow> ob_operation e' = Outbox_DELETE) es"

lemma blocking_outstanding:
  "has_blocking_upsert ds mx rows \<longleftrightarrow> (\<exists>e \<in> outstanding ds mx rows. ob_operation e = Outbox_UPSERT)"
  by (auto simp: has_blocking_upsert_def outstanding_def list_ex_iff)

lemma head_not_blocked:
  assumes "upserts_first (e # es)" "outstanding ds mx rows = set (e # es)" "ob_operation e = Outbox_DELETE"
  shows "\<not> has_blocking_upsert ds mx rows"
  using assms by (auto simp: blocking_outstanding upserts_first_def)

lemma outstanding_put_done:
  assumes "outbox_get (ob_id e) rows = Some e" "settled_as Outbox_DONE e e'" "outbox_keyed rows"
  shows "outstanding ds mx (outbox_put e' rows) = outstanding ds mx rows - {e}"
proof -
  have "set (outbox_put e' rows) = insert e' {x \<in> set rows. ob_id x \<noteq> ob_id e}"
    using set_outbox_put[of e' rows e] assms by (simp add: settled_as_def)
  moreover have "\<not> unsettled mx e'" using assms(2) by (simp add: unsettled_def settled_as_def)
  moreover have "x \<in> set rows \<Longrightarrow> ob_id x = ob_id e \<longleftrightarrow> x = e" for x
    using outbox_get_mem[OF assms(3)] assms(1) by (metis option.inject)
  ultimately show ?thesis by (auto simp: outstanding_def)
qed

definition apply_rows :: "'g outbox_processor \<Rightarrow> outbox_event list \<Rightarrow> 'g \<Rightarrow> 'g" where
  "apply_rows p es g = fold (\<lambda>e g. snd (delivered p e g)) es g"

fun all_delivered :: "'g outbox_processor \<Rightarrow> outbox_event list \<Rightarrow> 'g \<Rightarrow> bool" where
  "all_delivered p [] g \<longleftrightarrow> True"
| "all_delivered p (e # es) g \<longleftrightarrow> fst (delivered p e g) = None \<and> all_delivered p es (snd (delivered p e g))"

definition drained :: "outbox_event list \<Rightarrow> outbox \<Rightarrow> outbox \<Rightarrow> bool" where
  "drained es rows rows' \<longleftrightarrow> map ob_id rows' = map ob_id rows
     \<and> (\<forall>k. k \<notin> ob_id ` set es \<longrightarrow> outbox_get k rows' = outbox_get k rows)
     \<and> (\<forall>e \<in> set es. \<exists>e'. outbox_get (ob_id e) rows' = Some e' \<and> settled_as Outbox_DONE e e')"

lemma drain_prefix:
  assumes "outbox_quiet env" "outbox_keyed rows"
    and "distinct (map ob_id (xs @ ys))" "upserts_first (xs @ ys)"
    and "outstanding ds (obp_max_attempts p) rows = set (xs @ ys)"
    and "\<forall>e \<in> set xs. \<forall>i. is_claim_eligible (obe_now env i) (obp_stale_after_us p) (obp_max_attempts p) e"
    and "all_delivered p xs g"
  shows "\<exists>rows'. drain_ids env p (Suc f) i (map ob_id xs) n rows g
      = Some (Inr (n + length xs), rows', apply_rows p xs g)
    \<and> drained xs rows rows' \<and> outstanding ds (obp_max_attempts p) rows' = set ys"
  using assms
proof (induction xs arbitrary: i n rows g)
  case Nil
  then show ?case by (simp add: apply_rows_def drained_def)
next
  case (Cons e xs)
  let ?mx = "obp_max_attempts p"
  have mem: "e \<in> outstanding ds ?mx rows" using Cons.prems(5) by simp
  then have e: "outbox_get (ob_id e) rows = Some e" "ob_dataset_id e = ds"
    using outbox_get_mem[OF Cons.prems(2)] by (simp_all add: outstanding_def)
  have "row_claimable env p rows e"
    using Cons.prems(6) head_not_blocked[of e "xs @ ys"] Cons.prems(4,5) e(2)
    by (simp add: row_claimable_def)
  moreover have "fst (delivered p e g) = None" using Cons.prems(7) by simp
  ultimately obtain e' r where pr: "process env p (Suc f) i (ob_id e) rows g
      = Some (Inr r, outbox_put e' rows, snd (delivered p e g))" and st: "settled_as Outbox_DONE e e'"
    using process_delivers[OF Cons.prems(1) e(1)] by metis
  have id: "ob_id e' = ob_id e" using st by (simp add: settled_as_def)
  have out: "outstanding ds ?mx (outbox_put e' rows) = set (xs @ ys)"
    using outstanding_put_done[OF e(1) st Cons.prems(2)] Cons.prems(3,5) by auto
  obtain rows' where ih: "drain_ids env p (Suc f) (i + 2 * Suc f) (map ob_id xs) (n + 1) (outbox_put e' rows)
        (snd (delivered p e g)) = Some (Inr (n + 1 + length xs), rows', apply_rows p xs (snd (delivered p e g)))"
    "drained xs (outbox_put e' rows) rows'" "outstanding ds ?mx rows' = set ys"
    using Cons.IH[of "outbox_put e' rows" "snd (delivered p e g)" "i + 2 * Suc f" "n + 1"] Cons.prems out
    by (auto simp: upserts_first_def)
  have "ob_id e \<notin> ob_id ` set xs" using Cons.prems(3) by auto
  then have "outbox_get (ob_id e) rows' = Some e'"
    using ih(2) outbox_get_put_same[OF e(1) id] by (simp add: drained_def)
  then have "drained (e # xs) rows rows'" using ih(2) st id by (auto simp: drained_def)
  then show ?case using pr ih by (simp add: apply_rows_def del: process.simps)
qed

lemma outstanding_snapshot:
  "set (processable_for_dataset ds mx rows) = outstanding ds mx rows"
  by (auto simp: processable_for_dataset_def outstanding_def)

lemma snapshot_sorted:
  "sorted_wrt (\<lambda>e e'. drain_order e \<le> drain_order e') (processable_for_dataset ds mx rows)"
  unfolding processable_for_dataset_def
  by (rule sorted_map[THEN iffD1]) (rule sorted_sort_key)

lemma snapshot_upserts_first: "upserts_first (processable_for_dataset ds mx rows)"
  unfolding upserts_first_def
  by (rule sorted_wrt_mono_rel[OF _ snapshot_sorted])
    (auto simp: drain_order_def split: graph_outbox_operation.splits)

lemma distinct_snapshot: "outbox_keyed rows \<Longrightarrow> distinct (map ob_id (processable_for_dataset ds mx rows))"
  by (simp add: processable_for_dataset_def outbox_keyed_def distinct_map_filter)

lemma drain_ids_append:
  "drain_ids env p f i ks n rows g = Some (Inr m, rows', g') \<Longrightarrow>
   drain_ids env p f i (ks @ js) n rows g = drain_ids env p f (i + 2 * f * length ks) js m rows' g'"
  by (induction ks arbitrary: i n rows g) (auto simp: algebra_simps split: option.splits sum.splits)

definition node_type :: "pystr \<Rightarrow> bool" where
  "node_type t \<longleftrightarrow> t = ascii ''entity'' \<or> t = ascii ''chunk''"

definition edge_type :: "pystr \<Rightarrow> bool" where
  "edge_type t \<longleftrightarrow> t = ascii ''entity_mention'' \<or> t = ascii ''relation'' \<or> t = ascii ''chunk_next''"

definition dependency_ordered :: "outbox_event \<Rightarrow> outbox_event \<Rightarrow> bool" where
  "dependency_ordered e e' \<longleftrightarrow>
     \<not> (ob_operation e = Outbox_DELETE \<and> ob_operation e' = Outbox_UPSERT)
     \<and> \<not> (ob_operation e = Outbox_UPSERT \<and> ob_operation e' = Outbox_UPSERT
           \<and> edge_type (ob_aggregate_type e) \<and> node_type (ob_aggregate_type e'))
     \<and> \<not> (ob_operation e = Outbox_DELETE \<and> ob_operation e' = Outbox_DELETE
           \<and> node_type (ob_aggregate_type e) \<and> edge_type (ob_aggregate_type e'))"

lemma drain_order_dependency: "drain_order e \<le> drain_order e' \<Longrightarrow> dependency_ordered e e'"
  by (auto simp: dependency_ordered_def drain_order_def node_type_def edge_type_def position_def
      upsert_aggregate_order_def delete_aggregate_order_def split: graph_outbox_operation.splits)

text \<open>The drained snapshot lists every row of the dataset that is not yet terminal, each once, all UPSERTs
  before all DELETEs; among UPSERTs an entity or chunk precedes every mention, relation and chunk link, and
  among DELETEs those precede the entities and chunks they hang on.\<close>

theorem drain_snapshot_ordered:
  assumes "outbox_keyed rows"
  shows "set (list_processable_ids_for_dataset ds mx rows)
      = ob_id ` {e \<in> set rows. ob_dataset_id e = ds \<and> unsettled mx e}
    \<and> distinct (list_processable_ids_for_dataset ds mx rows)
    \<and> sorted_wrt dependency_ordered (map (\<lambda>k. the (outbox_get k rows)) (list_processable_ids_for_dataset ds mx rows))"
proof -
  let ?es = "processable_for_dataset ds mx rows"
  have "sorted_wrt dependency_ordered ?es"
    by (rule sorted_wrt_mono_rel[OF _ snapshot_sorted]) (rule drain_order_dependency)
  moreover have "map (\<lambda>k. the (outbox_get k rows)) (map ob_id ?es) = ?es"
    using outstanding_snapshot[of ds mx rows] outbox_get_mem[OF assms]
    by (auto simp: outstanding_def intro!: map_idI)
  ultimately show ?thesis using outstanding_snapshot[of ds mx rows] distinct_snapshot[OF assms]
    by (simp add: list_processable_ids_for_dataset_def outstanding_def del: map_map)
qed

text \<open>C11: An undisturbed drain of a dataset whose outstanding rows are claimable applies exactly their commands,
  in the snapshot's order, marks every one of them DONE with one more attempt, and leaves every other
  row and the set of rows as they were; nothing of the dataset is outstanding afterwards.\<close>

theorem drain_settles_dataset:
  assumes "outbox_quiet env" "outbox_keyed rows"
    and "\<forall>e \<in> set rows. ob_dataset_id e = ds \<and> unsettled (obp_max_attempts p) e \<longrightarrow>
      (\<forall>i. is_claim_eligible (obe_now env i) (obp_stale_after_us p) (obp_max_attempts p) e)"
    and "all_delivered p (processable_for_dataset ds (obp_max_attempts p) rows) g"
  shows "\<exists>rows'. process_dataset env p (Suc f) ds rows g
      = Some (Inr (length (processable_for_dataset ds (obp_max_attempts p) rows)), rows',
              apply_rows p (processable_for_dataset ds (obp_max_attempts p) rows) g)
    \<and> drained (processable_for_dataset ds (obp_max_attempts p) rows) rows rows'
    \<and> list_processable_ids_for_dataset ds (obp_max_attempts p) rows' = []"
proof -
  let ?mx = "obp_max_attempts p" let ?es = "processable_for_dataset ds ?mx rows"
  have "\<forall>e \<in> set ?es. \<forall>i. is_claim_eligible (obe_now env i) (obp_stale_after_us p) ?mx e"
    using assms(3) outstanding_snapshot[of ds ?mx rows] by (simp add: outstanding_def)
  then obtain rows' where r: "drain_ids env p (Suc f) 1 (map ob_id ?es) 0 rows g
      = Some (Inr (length ?es), rows', apply_rows p ?es g)" "drained ?es rows rows'" "outstanding ds ?mx rows' = {}"
    using drain_prefix[of env rows ?es "[]" ds p g f 1 0] assms(1,2,4) snapshot_upserts_first distinct_snapshot
      outstanding_snapshot by fastforce
  have "set (processable_for_dataset ds ?mx rows') = {}" using r(3) outstanding_snapshot by simp
  then show ?thesis using r assms(1)
    by (auto simp: process_dataset_def list_processable_ids_for_dataset_def outbox_quiet_def)
qed

text \<open>A drain stops at the first event it cannot deliver: the error of that event is raised, the events
  before it are DONE, it is FAILED with one more attempt, and no later row of the dataset is touched.\<close>

theorem drain_stops_at_failure:
  assumes "outbox_quiet env" "outbox_keyed rows"
    and "\<forall>e \<in> set rows. ob_dataset_id e = ds \<and> unsettled (obp_max_attempts p) e \<longrightarrow>
      (\<forall>i. is_claim_eligible (obe_now env i) (obp_stale_after_us p) (obp_max_attempts p) e)"
    and "processable_for_dataset ds (obp_max_attempts p) rows = xs @ e # ys" "all_delivered p xs g"
    and "fst (delivered p e (apply_rows p xs g)) = Some x"
  shows "\<exists>rows'. process_dataset env p (Suc f) ds rows g
      = Some (Inl x, rows', snd (delivered p e (apply_rows p xs g)))
    \<and> (\<forall>e1 \<in> set xs. \<exists>e'. outbox_get (ob_id e1) rows' = Some e' \<and> settled_as Outbox_DONE e1 e')
    \<and> (\<exists>e'. outbox_get (ob_id e) rows' = Some e' \<and> settled_as Outbox_FAILED e e')
    \<and> (\<forall>e1 \<in> set ys. outbox_get (ob_id e1) rows' = Some e1)"
proof -
  let ?mx = "obp_max_attempts p" let ?g = "apply_rows p xs g"
  note snap = outstanding_snapshot[of ds ?mx rows, unfolded assms(4)]
  have dist: "distinct (map ob_id (xs @ e # ys))" using distinct_snapshot[OF assms(2)] assms(4) by metis
  have uf: "upserts_first (xs @ e # ys)" using snapshot_upserts_first assms(4) by metis
  have el: "\<forall>e1 \<in> set (xs @ e # ys). \<forall>i. is_claim_eligible (obe_now env i) (obp_stale_after_us p) ?mx e1"
    using assms(3) unfolding snap outstanding_def by blast
  obtain rows1 where r1: "drain_ids env p (Suc f) 1 (map ob_id xs) 0 rows g = Some (Inr (length xs), rows1, ?g)"
    "drained xs rows rows1" "outstanding ds ?mx rows1 = set (e # ys)"
    using drain_prefix[OF assms(1,2) dist uf snap[symmetric] _ assms(5), of f 1 0] el by auto
  have keyed1: "outbox_keyed rows1" using assms(2) r1(2) by (simp add: outbox_keyed_def drained_def)
  have mem: "outbox_get (ob_id e1) rows1 = Some e1 \<and> ob_dataset_id e1 = ds" if "e1 \<in> set (e # ys)" for e1
    using r1(3) that outbox_get_mem[OF keyed1] by (auto simp: outstanding_def)
  have "upserts_first (e # ys)" using uf by (simp only: upserts_first_def sorted_wrt_append simp_thms)
  then have "row_claimable env p rows1 e"
    using el mem[of e] head_not_blocked[OF _ r1(3)] unfolding row_claimable_def by (metis in_set_conv_decomp list.set_intros(1))
  then obtain e' where pr: "process env p (Suc f) (1 + 2 * Suc f * length xs) (ob_id e) rows1 ?g
      = Some (Inl x, outbox_put e' rows1, snd (delivered p e ?g))" and st: "settled_as Outbox_FAILED e e'"
    using process_fails[OF assms(1) _ _ assms(6)] mem[of e] by (metis list.set_intros(1))
  have id: "ob_id e' = ob_id e" using st by (simp add: settled_as_def)
  have "process_dataset env p (Suc f) ds rows g = Some (Inl x, outbox_put e' rows1, snd (delivered p e ?g))"
    using assms(1,4) drain_ids_append[OF r1(1), of "map ob_id (e # ys)"] pr
    by (simp add: process_dataset_def outbox_quiet_def list_processable_ids_for_dataset_def del: process.simps)
  moreover have "ob_id e1 \<noteq> ob_id e" if "e1 \<in> set xs \<union> set ys" for e1
    using dist that by (auto simp: image_iff)
  ultimately show ?thesis using r1(2) mem st id outbox_get_put_same[of e rows1 e e']
    by (intro exI[of _ "outbox_put e' rows1"]) (simp add: drained_def)
qed

text \<open>An undisturbed drain of the demonstration rows by a processor recording what it applied.\<close>

definition demo_outbox_env :: outbox_env where
  "demo_outbox_env = \<lparr>obe_now = int, obe_row_locked = (\<lambda>_ _. False), obe_interfere = (\<lambda>_ rows. rows)\<rparr>"

definition demo_processor :: "(projection_command \<Rightarrow> bool) \<Rightarrow> projection_command list outbox_processor" where
  "demo_processor ok = \<lparr>obp_worker_id = ''explicit'', obp_max_attempts = DEFAULT_GRAPH_OUTBOX_MAX_ATTEMPTS,
     obp_stale_after_us = 300, obp_apply = (\<lambda>c g. (ok c, if ok c then g @ [c] else g))\<rparr>"

definition demo_upsert :: outbox_event where
  "demo_upsert = demo_event 2 Outbox_UPSERT (entity_upsert_command (uuid_text 2) (uuid_text 7) [5] [6] [7] 1 0)"

definition demo_delete :: outbox_event where
  "demo_delete = demo_event 3 Outbox_DELETE (chunk_delete_command (uuid_text 3) (uuid_text 7))"

lemma demo_outbox_facts:
  "outbox_quiet demo_outbox_env" "outbox_keyed demo_outbox" "demo_outbox = [demo_delete, demo_upsert]"
  "processable_for_dataset 7 DEFAULT_GRAPH_OUTBOX_MAX_ATTEMPTS demo_outbox = [demo_upsert, demo_delete]"
  "row_command demo_upsert = Inr (entity_upsert_command (uuid_text 2) (uuid_text 7) [5] [6] [7] 1 0)"
  "row_command demo_delete = Inr (chunk_delete_command (uuid_text 3) (uuid_text 7))"
  "e \<in> set demo_outbox \<Longrightarrow> is_claim_eligible now st mx e"
proof -
  show d: "demo_outbox = [demo_delete, demo_upsert]"
    by (simp add: demo_outbox_def demo_delete_def demo_upsert_def)
  show "processable_for_dataset 7 DEFAULT_GRAPH_OUTBOX_MAX_ATTEMPTS demo_outbox = [demo_upsert, demo_delete]"
    by (simp add: d processable_for_dataset_def drain_order_def demo_delete_def demo_upsert_def demo_event_def
        unsettled_def)
  show "outbox_keyed demo_outbox" by (simp add: d outbox_keyed_def demo_delete_def demo_upsert_def demo_event_def)
  show "row_command demo_upsert = Inr (entity_upsert_command (uuid_text 2) (uuid_text 7) [5] [6] [7] 1 0)"
    "row_command demo_delete = Inr (chunk_delete_command (uuid_text 3) (uuid_text 7))" by code_simp+
  show "e \<in> set demo_outbox \<Longrightarrow> is_claim_eligible now st mx e"
    by (auto simp: d is_claim_eligible_def demo_delete_def demo_upsert_def demo_event_def)
qed (simp add: outbox_quiet_def demo_outbox_env_def)

lemma demo_processor_max [simp]: "obp_max_attempts (demo_processor ok) = DEFAULT_GRAPH_OUTBOX_MAX_ATTEMPTS"
  by (simp add: demo_processor_def)

theorem drain_snapshot_ordered_witness:
  "dependency_ordered demo_upsert demo_delete
   \<and> list_processable_ids_for_dataset 7 DEFAULT_GRAPH_OUTBOX_MAX_ATTEMPTS demo_outbox = [2, 3]"
proof -
  have ids: "list_processable_ids_for_dataset 7 DEFAULT_GRAPH_OUTBOX_MAX_ATTEMPTS demo_outbox = [2, 3]"
    by (simp add: list_processable_ids_for_dataset_def demo_outbox_facts(4)) (simp add: demo_upsert_def demo_delete_def demo_event_def)
  have get: "outbox_get 2 demo_outbox = Some demo_upsert" "outbox_get 3 demo_outbox = Some demo_delete"
    by (simp_all add: demo_outbox_facts(3) outbox_get_def row_get_Cons)
      (simp_all add: demo_upsert_def demo_delete_def demo_event_def)
  show ?thesis using drain_snapshot_ordered[OF demo_outbox_facts(2), of 7 DEFAULT_GRAPH_OUTBOX_MAX_ATTEMPTS]
    by (simp add: ids get)
qed

theorem drain_settles_dataset_witness:
  "\<exists>rows'. process_dataset demo_outbox_env (demo_processor (\<lambda>_. True)) 1 7 demo_outbox []
     = Some (Inr 2, rows', [entity_upsert_command (uuid_text 2) (uuid_text 7) [5] [6] [7] 1 0,
                            chunk_delete_command (uuid_text 3) (uuid_text 7)])"
proof -
  let ?p = "demo_processor (\<lambda>_. True)"
  have del: "all_delivered ?p [demo_upsert, demo_delete] []"
    "apply_rows ?p [demo_upsert, demo_delete] [] = [entity_upsert_command (uuid_text 2) (uuid_text 7) [5] [6] [7] 1 0,
       chunk_delete_command (uuid_text 3) (uuid_text 7)]"
    by (simp_all add: apply_rows_def delivered_def demo_outbox_facts demo_processor_def)
  show ?thesis
    using drain_settles_dataset[OF demo_outbox_facts(1,2), of 7 ?p "[]" 0] demo_outbox_facts(7) del
    by (auto simp: demo_outbox_facts(4) simp del: all_delivered.simps)
qed

theorem drain_stops_at_failure_witness:
  "\<exists>rows'. process_dataset demo_outbox_env (demo_processor (\<lambda>c. pc_operation c \<noteq> ascii ''delete'')) 1 7 demo_outbox []
     = Some (Inl Projection_Apply_Error, rows', [entity_upsert_command (uuid_text 2) (uuid_text 7) [5] [6] [7] 1 0])"
proof -
  let ?p = "demo_processor (\<lambda>c. pc_operation c \<noteq> ascii ''delete'')"
  have del: "all_delivered ?p [demo_upsert] []"
    "apply_rows ?p [demo_upsert] [] = [entity_upsert_command (uuid_text 2) (uuid_text 7) [5] [6] [7] 1 0]"
    "delivered ?p demo_delete [entity_upsert_command (uuid_text 2) (uuid_text 7) [5] [6] [7] 1 0]
      = (Some Projection_Apply_Error, [entity_upsert_command (uuid_text 2) (uuid_text 7) [5] [6] [7] 1 0])"
    by (simp_all add: apply_rows_def delivered_def demo_outbox_facts demo_processor_def builder_defs command_def)
  show ?thesis
    using drain_stops_at_failure[OF demo_outbox_facts(1,2), of 7 ?p "[demo_upsert]" demo_delete "[]" "[]"
        Projection_Apply_Error 0] demo_outbox_facts(7) del
    by (auto simp: demo_outbox_facts(4) simp del: all_delivered.simps)
qed

text \<open>A lease that goes stale while its projection is being applied, and is reclaimed by another worker.\<close>

definition reclaimed_env :: outbox_env where
  "reclaimed_env = \<lparr>obe_now = int, obe_row_locked = (\<lambda>_ _. False), obe_interfere = (\<lambda>i rows.
     if i = 1 then (case claim_one unlocked 2 ''other'' 1000 300 5 rows of Inr (_, rows') \<Rightarrow> rows' | Inl _ \<Rightarrow> rows)
     else rows)\<rparr>"

lemma reclaimed_env_steps: "outbox_step\<^sup>*\<^sup>* rows (obe_interfere reclaimed_env i rows)"
  by (auto simp: reclaimed_env_def intro!: step_claim r_into_rtranclp split: sum.splits)

text \<open>\<open>process\<close> may report DONE for a row that is not terminal: when another worker reclaims the stale lease
  while the projection is applied, the guarded finalization writes nothing and its answer is ignored.\<close>

theorem process_reports_unsettled_done:
  "(case process reclaimed_env (demo_processor (\<lambda>_. True)) 1 0 2 [demo_upsert] [] of
      Some (Inr r, rows, g) \<Rightarrow> pr_status r = Outbox_DONE \<and> \<not> pr_already_done r
        \<and> map (\<lambda>e. (ob_status e, ob_worker_id e, ob_attempt e)) rows = [(Outbox_PROCESSING, Some ''other'', 2)]
    | _ \<Rightarrow> False)"
  by code_simp

end
