(* ===== verification/Domain_Text.thy ===== *)
theory Domain_Text
  imports Hashing
begin

text \<open>
  The pure text rules of \<open>domain/\<close>: Python's \<open>str.strip\<close> and newline normalization, the names and
  external identifiers of sessions, entries, skills and agents, the fields of an agent profile and of
  a skill revision with its canonical hash, and the selection of session context.  A value a
  validator rejects is the exception it raises.
\<close>

subsection \<open>Python strings\<close>

text \<open>\<open>str.isspace\<close> of one code point.\<close>

definition py_space :: "nat \<Rightarrow> bool" where
  "py_space c \<longleftrightarrow> 9 \<le> c \<and> c \<le> 13 \<or> 28 \<le> c \<and> c \<le> 32 \<or> c = 133 \<or> c = 160 \<or> c = 5760
     \<or> 8192 \<le> c \<and> c \<le> 8202 \<or> c = 8232 \<or> c = 8233 \<or> c = 8239 \<or> c = 8287 \<or> c = 12288"

definition py_lstrip :: "pystr \<Rightarrow> pystr" where
  "py_lstrip s = dropWhile py_space s"

definition py_rstrip :: "pystr \<Rightarrow> pystr" where
  "py_rstrip s = rev (dropWhile py_space (rev s))"

definition py_strip :: "pystr \<Rightarrow> pystr" where
  "py_strip s = py_lstrip (py_rstrip s)"

text \<open>\<open>value.replace('\r\n', '\n')\<close>, then \<open>.replace('\r', '\n')\<close>.\<close>

fun replace_crlf :: "pystr \<Rightarrow> pystr" where
  "replace_crlf [] = []"
| "replace_crlf [c] = [c]"
| "replace_crlf (c # d # s) = (if c = 13 \<and> d = 10 then 10 # replace_crlf s else c # replace_crlf (d # s))"

definition normalize_newlines :: "pystr \<Rightarrow> pystr" where
  "normalize_newlines s = map (\<lambda>c. if c = 13 then 10 else c) (replace_crlf s)"

fun py_join :: "pystr \<Rightarrow> pystr list \<Rightarrow> pystr" where
  "py_join sep [] = []"
| "py_join sep [x] = x"
| "py_join sep (x # y # zs) = x @ sep @ py_join sep (y # zs)"

text \<open>\<open>[a-z0-9]\<close> and \<open>^[a-z0-9]+(-[a-z0-9]+)*$\<close> by \<open>fullmatch\<close>.\<close>

definition lower_alnum :: "nat \<Rightarrow> bool" where
  "lower_alnum c \<longleftrightarrow> 97 \<le> c \<and> c \<le> 122 \<or> 48 \<le> c \<and> c \<le> 57"

fun slug_rest :: "bool \<Rightarrow> pystr \<Rightarrow> bool" where
  "slug_rest after_alnum [] = after_alnum"
| "slug_rest after_alnum (c # s) =
     (if lower_alnum c then slug_rest True s else c = 45 \<and> after_alnum \<and> slug_rest False s)"

definition slug_pattern :: "pystr \<Rightarrow> bool" where
  "slug_pattern s = slug_rest False s"

subsection \<open>Identifiers\<close>

definition SESSION_ID_MAX_LENGTH :: nat where "SESSION_ID_MAX_LENGTH = 255"

definition normalize_session_id :: "pystr option \<Rightarrow> exn + pystr option" where
  "normalize_session_id value =
     (case value of
        None \<Rightarrow> Inr None
      | Some v \<Rightarrow>
        (let stripped = py_strip v in
         if stripped = [] then Inl Invalid_Session_Id_Error
         else if length stripped > SESSION_ID_MAX_LENGTH then Inl Invalid_Session_Id_Error
         else Inr (Some stripped)))"

definition SESSION_ENTRY_EXTERNAL_ID_MAX_LENGTH :: nat where "SESSION_ENTRY_EXTERNAL_ID_MAX_LENGTH = 255"

definition normalize_session_entry_external_id :: "pystr option \<Rightarrow> exn + pystr option" where
  "normalize_session_entry_external_id value =
     (case value of
        None \<Rightarrow> Inr None
      | Some v \<Rightarrow>
        (let stripped = py_strip v in
         if stripped = [] then Inl Invalid_External_Id_Error
         else if length stripped > SESSION_ENTRY_EXTERNAL_ID_MAX_LENGTH then Inl Invalid_External_Id_Error
         else Inr (Some stripped)))"

definition SKILL_NAME_MAX_LENGTH :: nat where "SKILL_NAME_MAX_LENGTH = 64"

definition validate_skill_name :: "pystr \<Rightarrow> exn + pystr" where
  "validate_skill_name value =
     (if value = [] then Inl Invalid_Skill_Name_Error
      else if length value > SKILL_NAME_MAX_LENGTH then Inl Invalid_Skill_Name_Error
      else if \<not> slug_pattern value then Inl Invalid_Skill_Name_Error
      else Inr value)"

definition AGENT_NAME_MAX_LENGTH :: nat where "AGENT_NAME_MAX_LENGTH = 64"

definition validate_agent_name :: "pystr \<Rightarrow> exn + pystr" where
  "validate_agent_name value =
     (if value = [] then Inl Invalid_Agent_Name_Error
      else if length value > AGENT_NAME_MAX_LENGTH then Inl Invalid_Agent_Name_Error
      else if \<not> slug_pattern value then Inl Invalid_Agent_Name_Error
      else Inr value)"

subsection \<open>Agent profile\<close>

definition AGENT_DISPLAY_NAME_MAX_LENGTH :: nat where "AGENT_DISPLAY_NAME_MAX_LENGTH = 120"
definition AGENT_DESCRIPTION_MAX_LENGTH :: nat where "AGENT_DESCRIPTION_MAX_LENGTH = 1024"
definition AGENT_INSTRUCTIONS_MAX_LENGTH :: nat where "AGENT_INSTRUCTIONS_MAX_LENGTH = 65536"

definition validate_agent_display_name :: "pystr option \<Rightarrow> exn + pystr option" where
  "validate_agent_display_name value =
     (case value of
        None \<Rightarrow> Inr None
      | Some v \<Rightarrow>
        (let stripped = py_strip v in
         if stripped = [] then Inl Invalid_Agent_Profile_Error
         else if length stripped > AGENT_DISPLAY_NAME_MAX_LENGTH then Inl Invalid_Agent_Profile_Error
         else Inr (Some stripped)))"

definition validate_agent_description :: "pystr option \<Rightarrow> exn + pystr option" where
  "validate_agent_description value =
     (case value of
        None \<Rightarrow> Inr None
      | Some v \<Rightarrow>
        if \<not> (1 \<le> length v \<and> length v \<le> AGENT_DESCRIPTION_MAX_LENGTH) then Inl Invalid_Agent_Profile_Error
        else Inr (Some v))"

definition normalize_validate_agent_instructions :: "pystr option \<Rightarrow> exn + pystr option" where
  "normalize_validate_agent_instructions value =
     (case value of
        None \<Rightarrow> Inr None
      | Some v \<Rightarrow>
        (let normalized = normalize_newlines v in
         if length normalized > AGENT_INSTRUCTIONS_MAX_LENGTH then Inl Invalid_Agent_Profile_Error
         else if py_strip normalized = [] then Inl Invalid_Agent_Profile_Error
         else Inr (Some normalized)))"

subsection \<open>Skill revisions\<close>

definition DESCRIPTION_MAX_LENGTH :: nat where "DESCRIPTION_MAX_LENGTH = 1024"
definition COMPATIBILITY_MAX_LENGTH :: nat where "COMPATIBILITY_MAX_LENGTH = 500"
definition PROCEDURE_MAX_LENGTH :: nat where "PROCEDURE_MAX_LENGTH = 65536"
definition SOFIAS_MEMORY_TAGS_METADATA_KEY :: pystr where
  "SOFIAS_MEMORY_TAGS_METADATA_KEY = ascii ''sofias-memory.tags''"

definition validate_description :: "pystr \<Rightarrow> exn + pystr" where
  "validate_description value =
     (if \<not> (1 \<le> length value \<and> length value \<le> DESCRIPTION_MAX_LENGTH)
      then Inl Invalid_Skill_Revision_Content_Error else Inr value)"

definition validate_compatibility :: "pystr option \<Rightarrow> exn + pystr option" where
  "validate_compatibility value =
     (case value of
        None \<Rightarrow> Inr None
      | Some v \<Rightarrow>
        if \<not> (1 \<le> length v \<and> length v \<le> COMPATIBILITY_MAX_LENGTH)
        then Inl Invalid_Skill_Revision_Content_Error else Inr (Some v))"

definition validate_procedure :: "pystr \<Rightarrow> exn + pystr" where
  "validate_procedure value =
     (let normalized = normalize_newlines value in
      if length normalized > PROCEDURE_MAX_LENGTH then Inl Invalid_Skill_Revision_Content_Error
      else if py_strip normalized = [] then Inl Invalid_Skill_Revision_Content_Error
      else Inr normalized)"

fun string_values :: "(pystr \<times> json) list \<Rightarrow> exn + (pystr \<times> pystr) list" where
  "string_values [] = Inr []"
| "string_values ((k, JStr s) # kvs) = bindE (string_values kvs) (\<lambda>rest. Inr ((k, s) # rest))"
| "string_values _ = Inl Invalid_Skill_Revision_Content_Error"

definition validate_metadata :: "(pystr \<times> json) list option \<Rightarrow> exn + (pystr \<times> pystr) list" where
  "validate_metadata value =
     (case value of
        None \<Rightarrow> Inr []
      | Some kvs \<Rightarrow>
        if SOFIAS_MEMORY_TAGS_METADATA_KEY \<in> set (map fst kvs) then Inl Invalid_Skill_Revision_Content_Error
        else string_values kvs)"

fun nonempty_strings :: "json list \<Rightarrow> exn + pystr list" where
  "nonempty_strings [] = Inr []"
| "nonempty_strings (JStr s # xs) =
     (if s = [] then Inl Invalid_Skill_Revision_Content_Error
      else bindE (nonempty_strings xs) (\<lambda>rest. Inr (s # rest)))"
| "nonempty_strings _ = Inl Invalid_Skill_Revision_Content_Error"

definition canonicalize_tags :: "json list option \<Rightarrow> exn + pystr list" where
  "canonicalize_tags value =
     (case value of None \<Rightarrow> Inr [] | Some xs \<Rightarrow> bindE (nonempty_strings xs) (\<lambda>ts. Inr (sort (remdups ts))))"

definition validate_declared_tools :: "json list option \<Rightarrow> exn + pystr list" where
  "validate_declared_tools value = (case value of None \<Rightarrow> Inr [] | Some xs \<Rightarrow> nonempty_strings xs)"

record skill_revision_content =
  sc_description :: pystr
  sc_procedure :: pystr
  sc_license :: "pystr option"
  sc_compatibility :: "pystr option"
  sc_metadata :: "(pystr \<times> pystr) list"
  sc_tags :: "pystr list"
  sc_declared_tools :: "pystr list"

fun opt_str :: "pystr option \<Rightarrow> json" where
  "opt_str None = JNull"
| "opt_str (Some s) = JStr s"

definition build_canonical_object :: "pystr \<Rightarrow> skill_revision_content \<Rightarrow> json" where
  "build_canonical_object name c = JObj
     [(ascii ''name'', JStr name), (ascii ''description'', JStr (sc_description c)),
      (ascii ''procedure'', JStr (sc_procedure c)), (ascii ''license'', opt_str (sc_license c)),
      (ascii ''compatibility'', opt_str (sc_compatibility c)),
      (ascii ''metadata'', JObj (map (\<lambda>(k, v). (k, JStr v)) (sc_metadata c))),
      (ascii ''tags'', JArr (map JStr (sc_tags c))),
      (ascii ''declared_tools'', JArr (map JStr (sort (sc_declared_tools c))))]"

definition compute_content_sha256 :: "py_env \<Rightarrow> pystr \<Rightarrow> skill_revision_content \<Rightarrow> exn + string" where
  "compute_content_sha256 E name c =
     (case utf8 (dumps E escape_unicode (build_canonical_object name c)) of
        None \<Rightarrow> Inl Value_Error
      | Some bs \<Rightarrow> Inr (sha256_hexdigest E bs))"

definition build_skill_resolution_text :: "pystr \<Rightarrow> pystr \<Rightarrow> pystr list \<Rightarrow> pystr" where
  "build_skill_resolution_text name description tags =
     py_join [10] ([name, description] @ (if tags \<noteq> [] then [py_join (ascii '', '') tags] else []))"

subsection \<open>Session context\<close>

definition SESSION_CONTEXT_BLOCK_SEPARATOR :: pystr where "SESSION_CONTEXT_BLOCK_SEPARATOR = [10, 10]"

record session_context_candidate =
  ctx_entry_id :: uuid
  ctx_role :: pystr
  ctx_content :: pystr

definition render_session_context_entry :: "session_context_candidate \<Rightarrow> pystr" where
  "render_session_context_entry c = ascii ''role: '' @ ctx_role c @ 10 # ascii ''content: '' @ ctx_content c"

fun select_newest :: "session_context_candidate list \<Rightarrow> int \<Rightarrow> int \<Rightarrow> session_context_candidate list \<Rightarrow> int \<Rightarrow>
    session_context_candidate list" where
  "select_newest [] max_entries max_chars selected used = selected"
| "select_newest (c # cs) max_entries max_chars selected used =
     (if int (length selected) \<ge> max_entries then selected
      else (let block = render_session_context_entry c;
                additional = (if selected = [] then int (length block)
                              else int (length block) + int (length SESSION_CONTEXT_BLOCK_SEPARATOR))
            in if used + additional > max_chars then selected
               else select_newest cs max_entries max_chars (selected @ [c]) (used + additional)))"

definition select_session_context ::
  "session_context_candidate list \<Rightarrow> int \<Rightarrow> int \<Rightarrow> session_context_candidate list" where
  "select_session_context candidates max_entries max_chars =
     rev (select_newest candidates max_entries max_chars [] 0)"

definition render_session_context_block :: "session_context_candidate list \<Rightarrow> pystr" where
  "render_session_context_block selected =
     py_join SESSION_CONTEXT_BLOCK_SEPARATOR (map render_session_context_entry selected)"

end
