(* ===== verification/Memory_Domain.thy ===== *)
theory Memory_Domain
  imports Domain_Text
begin

text \<open>
  The validation rules of native cognitive memory (\<open>domain/cognitive_memory.py\<close>,
  \<open>cognitive_memory_scope.py\<close>, \<open>cognitive_memory_idempotency.py\<close>) and the request schemas built on
  them (\<open>schemas/memories.py\<close>).  A \<open>datetime\<close> is naive or carries its UTC offset; instants are
  microseconds since the epoch within the range \<open>datetime\<close> can hold.
\<close>

definition COGNITIVE_MEMORY_CONTENT_MAX_LENGTH :: nat where "COGNITIVE_MEMORY_CONTENT_MAX_LENGTH = 16384"
definition COGNITIVE_MEMORY_SOURCE_SYSTEM_MAX_LENGTH :: nat where "COGNITIVE_MEMORY_SOURCE_SYSTEM_MAX_LENGTH = 64"
definition COGNITIVE_MEMORY_EXTERNAL_REF_MAX_LENGTH :: nat where "COGNITIVE_MEMORY_EXTERNAL_REF_MAX_LENGTH = 255"
definition COGNITIVE_MEMORY_RECALL_QUERY_MAX_LENGTH :: nat where "COGNITIVE_MEMORY_RECALL_QUERY_MAX_LENGTH = 8192"

definition normalize_cognitive_memory_recall_query :: "pystr \<Rightarrow> exn + pystr" where
  "normalize_cognitive_memory_recall_query value =
     (let normalized = py_strip (normalize_newlines value) in
      if \<not> (1 \<le> length normalized \<and> length normalized \<le> COGNITIVE_MEMORY_RECALL_QUERY_MAX_LENGTH)
      then Inl Invalid_Memory_Content_Error else Inr normalized)"

definition normalize_cognitive_memory_content :: "pystr \<Rightarrow> exn + pystr" where
  "normalize_cognitive_memory_content value =
     (let normalized = py_strip (normalize_newlines value) in
      if \<not> (1 \<le> length normalized \<and> length normalized \<le> COGNITIVE_MEMORY_CONTENT_MAX_LENGTH)
      then Inl Invalid_Memory_Content_Error else Inr normalized)"

definition validate_cognitive_memory_confidence ::
  "rat option \<Rightarrow> cognitive_memory_origin_kind \<Rightarrow> exn + rat option" where
  "validate_cognitive_memory_confidence value origin_kind =
     (case value of
        Some v \<Rightarrow> if \<not> (0 \<le> v \<and> v \<le> 1) then Inl Invalid_Memory_Confidence_Error else Inr value
      | None \<Rightarrow> if origin_kind = INFERRED then Inl Invalid_Memory_Confidence_Error else Inr value)"

definition validate_cognitive_memory_source_system :: "pystr \<Rightarrow> exn + pystr" where
  "validate_cognitive_memory_source_system value =
     (if \<not> (1 \<le> length value \<and> length value \<le> COGNITIVE_MEMORY_SOURCE_SYSTEM_MAX_LENGTH)
      then Inl Invalid_Memory_Provenance_Error
      else if \<not> slug_pattern value then Inl Invalid_Memory_Provenance_Error
      else Inr value)"

definition validate_cognitive_memory_external_ref :: "pystr \<Rightarrow> exn + pystr" where
  "validate_cognitive_memory_external_ref value =
     (let trimmed = py_strip value in
      if \<not> (1 \<le> length trimmed \<and> length trimmed \<le> COGNITIVE_MEMORY_EXTERNAL_REF_MAX_LENGTH)
      then Inl Invalid_Memory_Provenance_Error else Inr trimmed)"

text \<open>A \<open>datetime\<close>: the wall clock in microseconds and, when aware, its offset; \<open>astimezone\<close> raises
  \<open>OverflowError\<close> outside \<open>datetime.min\<close> to \<open>datetime.max\<close>.\<close>

datatype py_datetime = Naive_Datetime int | Aware_Datetime int int

definition DATETIME_MIN :: int where "DATETIME_MIN = - 62135596800000000"
definition DATETIME_MAX :: int where "DATETIME_MAX = 253402300799999999"

fun normalize_cognitive_memory_timestamp :: "py_datetime \<Rightarrow> exn + timestamp" where
  "normalize_cognitive_memory_timestamp (Naive_Datetime _) = Inl Invalid_Memory_Timestamp_Error"
| "normalize_cognitive_memory_timestamp (Aware_Datetime t offset) =
     (if t - offset < DATETIME_MIN \<or> DATETIME_MAX < t - offset then Inl Overflow_Error else Inr (t - offset))"

definition validate_cognitive_memory_validity_window ::
  "timestamp option \<Rightarrow> timestamp option \<Rightarrow> exn + unit" where
  "validate_cognitive_memory_validity_window valid_from valid_until =
     (case (valid_from, valid_until) of
        (Some f, Some u) \<Rightarrow> if u \<le> f then Inl Invalid_Memory_Validity_Window_Error else Inr ()
      | _ \<Rightarrow> Inr ())"

definition validate_cognitive_memory_provenance_origin_requirements ::
  "cognitive_memory_origin_kind \<Rightarrow> uuid option \<Rightarrow> uuid option \<Rightarrow> pystr option \<Rightarrow> timestamp option \<Rightarrow> exn + unit" where
  "validate_cognitive_memory_provenance_origin_requirements origin_kind turn_uuid task_uuid source_ref observed_at =
     (case origin_kind of
        USER_ASSERTED \<Rightarrow>
          if turn_uuid = None \<and> source_ref = None then Inl Invalid_Memory_Provenance_Error else Inr ()
      | TOOL_OBSERVED \<Rightarrow>
          if source_ref = None \<or> observed_at = None then Inl Invalid_Memory_Provenance_Error else Inr ()
      | IMPORTED \<Rightarrow> if source_ref = None then Inl Invalid_Memory_Provenance_Error else Inr ()
      | INFERRED \<Rightarrow>
          if turn_uuid = None \<and> task_uuid = None \<and> source_ref = None
          then Inl Invalid_Memory_Provenance_Error else Inr ()
      | ASSISTANT_GENERATED \<Rightarrow>
          if turn_uuid = None \<and> task_uuid = None \<and> source_ref = None
          then Inl Invalid_Memory_Provenance_Error else Inr ())"

subsection \<open>Scope\<close>

definition GLOBAL_SCOPE :: pystr where "GLOBAL_SCOPE = ascii ''global''"
definition PROJECT_SCOPE_PREFIX :: pystr where "PROJECT_SCOPE_PREFIX = ascii ''project:''"

text \<open>\<open>^[a-z0-9][a-z0-9._-]{0,127}$\<close>.\<close>

definition project_key_char :: "nat \<Rightarrow> bool" where
  "project_key_char c \<longleftrightarrow> lower_alnum c \<or> c = 46 \<or> c = 95 \<or> c = 45"

fun project_key_pattern :: "pystr \<Rightarrow> bool" where
  "project_key_pattern [] = False"
| "project_key_pattern (c # s) \<longleftrightarrow> lower_alnum c \<and> list_all project_key_char s \<and> length s \<le> 127"

definition normalize_cognitive_memory_scope :: "pystr \<Rightarrow> exn + pystr" where
  "normalize_cognitive_memory_scope value =
     (let trimmed = py_strip value in
      if trimmed = [] then Inl Invalid_Memory_Scope_Error
      else if trimmed = GLOBAL_SCOPE then Inr trimmed
      else if prefix PROJECT_SCOPE_PREFIX trimmed then
        (if \<not> project_key_pattern (drop (length PROJECT_SCOPE_PREFIX) trimmed)
         then Inl Invalid_Memory_Scope_Error else Inr trimmed)
      else Inl Invalid_Memory_Scope_Error)"

subsection \<open>Idempotency digest\<close>

fun cognitive_memory_operation_value :: "cognitive_memory_operation \<Rightarrow> string" where
  "cognitive_memory_operation_value Op_CREATE = ''create''"
| "cognitive_memory_operation_value Op_SUPERSEDE = ''supersede''"
| "cognitive_memory_operation_value Op_FORGET = ''forget''"

fun cognitive_memory_type_value :: "cognitive_memory_type \<Rightarrow> string" where
  "cognitive_memory_type_value PROFILE = ''profile''"
| "cognitive_memory_type_value SEMANTIC = ''semantic''"

fun origin_kind_value :: "cognitive_memory_origin_kind \<Rightarrow> string" where
  "origin_kind_value USER_ASSERTED = ''user_asserted''"
| "origin_kind_value TOOL_OBSERVED = ''tool_observed''"
| "origin_kind_value IMPORTED = ''imported''"
| "origin_kind_value INFERRED = ''inferred''"
| "origin_kind_value ASSISTANT_GENERATED = ''assistant_generated''"

definition is_reserved_idempotency_key :: "string \<Rightarrow> bool" where
  "is_reserved_idempotency_key k = prefix ''sys:'' k"

definition CANONICAL_REQUEST_DOMAIN :: string where
  "CANONICAL_REQUEST_DOMAIN = ''sofias-memory.cognitive-memory.idempotency''"

definition CANONICAL_REQUEST_VERSION :: int where "CANONICAL_REQUEST_VERSION = 1"

record cognitive_memory_idempotency_request =
  ir_operation :: cognitive_memory_operation
  ir_target_memory_id :: "uuid option"
  ir_payload :: json

definition build_canonical_request ::
  "py_env \<Rightarrow> cognitive_memory_idempotency_request \<Rightarrow> exn + pystr" where
  "build_canonical_request E r =
     (if ir_operation r = Op_CREATE \<and> ir_target_memory_id r \<noteq> None then Inl Value_Error
      else if ir_operation r \<noteq> Op_CREATE \<and> ir_target_memory_id r = None then Inl Value_Error
      else Inr (dumps E escape_unicode (JObj
        [(ascii ''domain'', json_str CANONICAL_REQUEST_DOMAIN), (ascii ''version'', JInt CANONICAL_REQUEST_VERSION),
         (ascii ''operation'', json_str (cognitive_memory_operation_value (ir_operation r))),
         (ascii ''target_memory_id'', opt_str (map_option uuid_text (ir_target_memory_id r))),
         (ascii ''payload'', ir_payload r)])))"

text \<open>HMAC-SHA-256 is the standard library's, as SHA-256: the argument \<open>hmac\<close>, secret first.\<close>

definition compute_request_digest ::
  "(nat list \<Rightarrow> nat list \<Rightarrow> string) \<Rightarrow> nat list \<Rightarrow> pystr \<Rightarrow> exn + string" where
  "compute_request_digest hmac secret canonical_request =
     (case utf8 canonical_request of None \<Rightarrow> Inl Value_Error | Some bs \<Rightarrow> Inr (hmac secret bs))"

subsection \<open>Requests\<close>

record 't provenance_fields =
  pf_origin_kind :: cognitive_memory_origin_kind
  pf_source_system :: pystr
  pf_conversation_uuid :: "uuid option"
  pf_turn_uuid :: "uuid option"
  pf_task_uuid :: "uuid option"
  pf_confirmation_ref :: "pystr option"
  pf_source_ref :: "pystr option"
  pf_observed_at :: "'t option"

record 't content_fields =
  cf_content :: pystr
  cf_confidence :: "rat option"
  cf_valid_from :: "'t option"
  cf_valid_until :: "'t option"
  cf_provenance :: "'t provenance_fields"

type_synonym provenance_create_request = "timestamp provenance_fields"
type_synonym memory_supersede_request = "timestamp content_fields"

record memory_create_request =
  cr_memory_type :: cognitive_memory_type
  cr_scope :: pystr
  cr_fields :: memory_supersede_request

text \<open>A model is rejected when a field is; an \<open>OverflowError\<close> is not a validation error and propagates.\<close>

definition opt_field :: "('a \<Rightarrow> exn + 'b) \<Rightarrow> 'a option \<Rightarrow> exn + 'b option" where
  "opt_field f v = (case v of None \<Rightarrow> Inr None | Some x \<Rightarrow> bindE (f x) (\<lambda>y. Inr (Some y)))"

fun field_error :: "exn + 'a \<Rightarrow> exn list" where
  "field_error (Inl e) = [e]"
| "field_error (Inr _) = []"

definition model_errors :: "exn list \<Rightarrow> exn + unit" where
  "model_errors es = (if Overflow_Error \<in> set es then Inl Overflow_Error
     else case es of [] \<Rightarrow> Inr () | e # _ \<Rightarrow> Inl e)"

definition validate_provenance :: "py_datetime provenance_fields \<Rightarrow> exn + provenance_create_request" where
  "validate_provenance r =
     (let source_system = validate_cognitive_memory_source_system (pf_source_system r);
          confirmation_ref = opt_field validate_cognitive_memory_external_ref (pf_confirmation_ref r);
          source_ref = opt_field validate_cognitive_memory_external_ref (pf_source_ref r);
          observed_at = opt_field normalize_cognitive_memory_timestamp (pf_observed_at r)
      in bindE (model_errors (field_error source_system @ field_error confirmation_ref
                  @ field_error source_ref @ field_error observed_at)) (\<lambda>_.
           Inr \<lparr>pf_origin_kind = pf_origin_kind r, pf_source_system = projr source_system,
             pf_conversation_uuid = pf_conversation_uuid r, pf_turn_uuid = pf_turn_uuid r,
             pf_task_uuid = pf_task_uuid r, pf_confirmation_ref = projr confirmation_ref,
             pf_source_ref = projr source_ref, pf_observed_at = projr observed_at\<rparr>))"

definition validate_cross_field_rules :: "memory_supersede_request \<Rightarrow> exn + unit" where
  "validate_cross_field_rules r =
     (let p = cf_provenance r in
      bindE (validate_cognitive_memory_confidence (cf_confidence r) (pf_origin_kind p)) (\<lambda>_.
      bindE (validate_cognitive_memory_provenance_origin_requirements (pf_origin_kind p) (pf_turn_uuid p)
               (pf_task_uuid p) (pf_source_ref p) (pf_observed_at p)) (\<lambda>_.
        validate_cognitive_memory_validity_window (cf_valid_from r) (cf_valid_until r))))"

definition content_errors :: "py_datetime content_fields \<Rightarrow> exn list" where
  "content_errors r = field_error (normalize_cognitive_memory_content (cf_content r))
     @ field_error (opt_field normalize_cognitive_memory_timestamp (cf_valid_from r))
     @ field_error (opt_field normalize_cognitive_memory_timestamp (cf_valid_until r))
     @ field_error (validate_provenance (cf_provenance r))"

definition content_value :: "py_datetime content_fields \<Rightarrow> memory_supersede_request" where
  "content_value r = \<lparr>cf_content = projr (normalize_cognitive_memory_content (cf_content r)),
     cf_confidence = cf_confidence r,
     cf_valid_from = projr (opt_field normalize_cognitive_memory_timestamp (cf_valid_from r)),
     cf_valid_until = projr (opt_field normalize_cognitive_memory_timestamp (cf_valid_until r)),
     cf_provenance = projr (validate_provenance (cf_provenance r))\<rparr>"

definition validate_supersede_request :: "py_datetime content_fields \<Rightarrow> exn + memory_supersede_request" where
  "validate_supersede_request r =
     bindE (model_errors (content_errors r)) (\<lambda>_.
       bindE (validate_cross_field_rules (content_value r)) (\<lambda>_. Inr (content_value r)))"

definition validate_create_request ::
  "cognitive_memory_type \<Rightarrow> pystr \<Rightarrow> py_datetime content_fields \<Rightarrow> exn + memory_create_request" where
  "validate_create_request memory_type scope r =
     bindE (model_errors (content_errors r @ field_error (normalize_cognitive_memory_scope scope))) (\<lambda>_.
       bindE (validate_cross_field_rules (content_value r)) (\<lambda>_.
         Inr \<lparr>cr_memory_type = memory_type, cr_scope = projr (normalize_cognitive_memory_scope scope),
              cr_fields = content_value r\<rparr>))"

definition MEMORY_RECALL_MAX_SCOPES :: nat where "MEMORY_RECALL_MAX_SCOPES = 16"
definition MEMORY_RECALL_MAX_TOP_K :: int where "MEMORY_RECALL_MAX_TOP_K = 50"

record 't memory_recall_request =
  mr_query :: pystr
  mr_memory_types :: "cognitive_memory_type list"
  mr_scopes :: "pystr list"
  mr_top_k :: int
  mr_as_of :: 't
  mr_include_superseded :: bool
  mr_min_relevance :: "rat option"

fun map_fields :: "('a \<Rightarrow> exn + 'b) \<Rightarrow> 'a list \<Rightarrow> exn + 'b list" where
  "map_fields f [] = Inr []"
| "map_fields f (x # xs) = bindE (f x) (\<lambda>y. bindE (map_fields f xs) (\<lambda>ys. Inr (y # ys)))"

definition normalize_as_of :: "timestamp \<Rightarrow> py_datetime \<Rightarrow> exn + timestamp" where
  "normalize_as_of utc_now value =
     bindE (normalize_cognitive_memory_timestamp value) (\<lambda>t. if t > utc_now then Inl Value_Error else Inr t)"

definition normalize_scopes :: "pystr list \<Rightarrow> exn + pystr list" where
  "normalize_scopes scopes =
     (if \<not> (1 \<le> length scopes \<and> length scopes \<le> MEMORY_RECALL_MAX_SCOPES) then Inl Value_Error
      else bindE (map_fields normalize_cognitive_memory_scope scopes) (\<lambda>s. Inr (dict_fromkeys s)))"

definition validate_recall_request ::
  "timestamp \<Rightarrow> py_datetime memory_recall_request \<Rightarrow> exn + timestamp memory_recall_request" where
  "validate_recall_request utc_now r =
     (let query = normalize_cognitive_memory_recall_query (mr_query r);
          scopes = normalize_scopes (mr_scopes r);
          top_k = (if \<not> (1 \<le> mr_top_k r \<and> mr_top_k r \<le> MEMORY_RECALL_MAX_TOP_K) then Inl Value_Error else Inr ());
          as_of = normalize_as_of utc_now (mr_as_of r);
          min_relevance = (case mr_min_relevance r of None \<Rightarrow> Inr ()
            | Some v \<Rightarrow> if \<not> (- 1 \<le> v \<and> v \<le> 1) then Inl Value_Error else Inr ())
      in bindE (model_errors (field_error query @ field_error scopes @ field_error top_k @ field_error as_of
                  @ field_error min_relevance)) (\<lambda>_.
           Inr \<lparr>mr_query = projr query, mr_memory_types = mr_memory_types r, mr_scopes = projr scopes,
             mr_top_k = mr_top_k r, mr_as_of = projr as_of, mr_include_superseded = mr_include_superseded r,
             mr_min_relevance = mr_min_relevance r\<rparr>))"

end
