(* ===== verification/Memory_Store.thy ===== *)
theory Memory_Store
  imports Memory_Domain Submission
begin

text \<open>
  The tables of native cognitive memory with their constraints
  (\<open>infrastructure/postgres/models/memory_item.py\<close>, \<open>memory_provenance.py\<close>,
  \<open>cognitive_memory_idempotency.py\<close>) and their repositories.  A statement that violates a
  constraint is the \<open>IntegrityError\<close> carrying the constraint's name.  What PostgreSQL decides is a
  parameter in \<open>mem_env\<close>: its whitespace class, the rounding of \<open>REAL\<close>, the cosine distance of
  pgvector and the transaction's \<open>now()\<close>; so are the HMAC, the embedding provider and fresh UUIDs.
\<close>

record memory_item =
  mi_id :: uuid
  mi_memory_type :: cognitive_memory_type
  mi_scope :: "pystr option"
  mi_content :: "pystr option"
  mi_embedding :: "rat list option"
  mi_lifecycle :: cognitive_memory_lifecycle
  mi_confidence :: "rat option"
  mi_valid_from :: "timestamp option"
  mi_valid_until :: "timestamp option"
  mi_created_at :: timestamp
  mi_superseded_at :: "timestamp option"
  mi_superseded_by :: "uuid option"
  mi_forgotten_at :: "timestamp option"

record memory_provenance =
  mp_memory_id :: uuid
  mp_fields :: provenance_create_request

record memory_ledger_entry =
  ml_id :: uuid
  ml_idempotency_key :: string
  ml_operation :: cognitive_memory_operation
  ml_request_digest :: string
  ml_target_memory_id :: "uuid option"
  ml_result_memory_id :: "uuid option"

record mem_db =
  memory_items :: "memory_item list"
  memory_provenances :: "memory_provenance list"
  memory_ledger :: "memory_ledger_entry list"

type_synonym 'a mem_tx = "(exn + 'a) \<times> mem_db"

record mem_env =
  me_py :: py_env
  me_hmac :: "nat list \<Rightarrow> nat list \<Rightarrow> string"
  me_secret :: "nat list"
  me_embed :: "pystr \<Rightarrow> exn + rat list list"
  me_dimensions :: nat
  me_pg_space :: "nat \<Rightarrow> bool"
  me_real :: "rat \<Rightarrow> rat"
  me_cosine_distance :: "rat list \<Rightarrow> rat list \<Rightarrow> rat"
  me_now :: timestamp
  me_utc_now :: timestamp
  me_uuid :: "nat \<Rightarrow> uuid"
  me_interfere :: "nat \<Rightarrow> mem_db \<Rightarrow> mem_db"

subsection \<open>Constraints\<close>

definition opt_all :: "('a \<Rightarrow> bool) \<Rightarrow> 'a option \<Rightarrow> bool" where
  "opt_all P v = (case v of None \<Rightarrow> True | Some x \<Rightarrow> P x)"

lemma opt_all_simps [simp]: "opt_all P None" "opt_all P (Some x) = P x"
  by (simp_all add: opt_all_def)

definition scope_grammar :: "pystr \<Rightarrow> bool" where
  "scope_grammar s \<longleftrightarrow> s = GLOBAL_SCOPE
     \<or> prefix PROJECT_SCOPE_PREFIX s \<and> project_key_pattern (drop (length PROJECT_SCOPE_PREFIX) s)"

definition memory_item_row_ok :: "(nat \<Rightarrow> bool) \<Rightarrow> memory_item \<Rightarrow> bool" where
  "memory_item_row_ok pg_space i \<longleftrightarrow>
     opt_all (\<lambda>c. 0 \<le> c \<and> c \<le> 1) (mi_confidence i)
     \<and> opt_all (\<lambda>u. opt_all (\<lambda>f. u > f) (mi_valid_from i)) (mi_valid_until i)
     \<and> mi_superseded_by i \<noteq> Some (mi_id i)
     \<and> opt_all (\<lambda>c. list_ex (\<lambda>x. \<not> pg_space x) c) (mi_content i)
     \<and> opt_all (\<lambda>c. length c \<le> COGNITIVE_MEMORY_CONTENT_MAX_LENGTH) (mi_content i)
     \<and> opt_all scope_grammar (mi_scope i)
     \<and> (mi_lifecycle i = Mem_FORGOTTEN \<or> mi_scope i \<noteq> None \<and> mi_content i \<noteq> None \<and> mi_embedding i \<noteq> None)
     \<and> (mi_lifecycle i \<noteq> Mem_ACTIVE
         \<or> mi_superseded_at i = None \<and> mi_superseded_by i = None \<and> mi_forgotten_at i = None)
     \<and> (mi_lifecycle i \<noteq> Mem_SUPERSEDED
         \<or> mi_superseded_at i \<noteq> None \<and> mi_superseded_by i \<noteq> None \<and> mi_forgotten_at i = None)
     \<and> (mi_lifecycle i \<noteq> Mem_FORGOTTEN
         \<or> mi_forgotten_at i \<noteq> None \<and> mi_scope i = None \<and> mi_content i = None \<and> mi_embedding i = None
           \<and> mi_confidence i = None \<and> mi_valid_from i = None \<and> mi_valid_until i = None)"

definition memory_provenance_row_ok :: "memory_provenance \<Rightarrow> bool" where
  "memory_provenance_row_ok p \<longleftrightarrow>
     slug_pattern (pf_source_system (mp_fields p))
     \<and> length (pf_source_system (mp_fields p)) \<le> COGNITIVE_MEMORY_SOURCE_SYSTEM_MAX_LENGTH
     \<and> opt_all (\<lambda>s. 1 \<le> length s \<and> length s \<le> COGNITIVE_MEMORY_EXTERNAL_REF_MAX_LENGTH)
         (pf_confirmation_ref (mp_fields p))
     \<and> opt_all (\<lambda>s. 1 \<le> length s \<and> length s \<le> COGNITIVE_MEMORY_EXTERNAL_REF_MAX_LENGTH)
         (pf_source_ref (mp_fields p))"

definition memory_ledger_row_ok :: "memory_ledger_entry \<Rightarrow> bool" where
  "memory_ledger_row_ok l \<longleftrightarrow> sha256_hex (ml_request_digest l)
     \<and> (ml_operation l = Op_CREATE \<and> ml_target_memory_id l = None
         \<or> ml_operation l \<noteq> Op_CREATE \<and> ml_target_memory_id l \<noteq> None)"

text \<open>The unique index on \<open>superseded_by\<close> is partial.\<close>

definition superseded_bys :: "memory_item list \<Rightarrow> uuid list" where
  "superseded_bys rows = map (\<lambda>i. the (mi_superseded_by i)) (filter (\<lambda>i. mi_superseded_by i \<noteq> None) rows)"

subsection \<open>Repositories\<close>

definition get_item :: "uuid \<Rightarrow> mem_db \<Rightarrow> memory_item option" where
  "get_item k d = row_get mi_id k (memory_items d)"

definition get_provenance :: "uuid \<Rightarrow> mem_db \<Rightarrow> memory_provenance option" where
  "get_provenance k d = row_get mp_memory_id k (memory_provenances d)"

definition get_ledger :: "string \<Rightarrow> mem_db \<Rightarrow> memory_ledger_entry option" where
  "get_ledger k d = List.find (\<lambda>l. ml_idempotency_key l = k) (memory_ledger d)"

definition item_exists :: "mem_db \<Rightarrow> uuid option \<Rightarrow> bool" where
  "item_exists d k \<longleftrightarrow> opt_all (\<lambda>x. get_item x d \<noteq> None) k"

text \<open>A row as the database keeps it: \<open>REAL\<close> rounds the confidence, \<open>VECTOR\<close> the embedding.\<close>

definition stored_item :: "mem_env \<Rightarrow> memory_item \<Rightarrow> memory_item" where
  "stored_item env i = i\<lparr>mi_confidence := map_option (me_real env) (mi_confidence i),
     mi_embedding := map_option (map (me_real env)) (mi_embedding i)\<rparr>"

definition add_item :: "mem_env \<Rightarrow> memory_item \<Rightarrow> mem_db \<Rightarrow> exn + mem_db" where
  "add_item env i d =
     (let row = stored_item env i in
      if \<not> memory_item_row_ok (me_pg_space env) row then Inl (Integrity_Error ''ck_memory_items'')
      else if mi_id row \<in> mi_id ` set (memory_items d) then Inl (Integrity_Error ''pk_memory_items'')
      else if opt_all (\<lambda>k. k \<in> set (superseded_bys (memory_items d))) (mi_superseded_by row) \<and> mi_superseded_by row \<noteq> None
      then Inl (Integrity_Error ''uq_memory_items_superseded_by'')
      else if \<not> item_exists d (mi_superseded_by row)
      then Inl (Integrity_Error ''fk_memory_items_superseded_by'')
      else Inr (d\<lparr>memory_items := memory_items d @ [row]\<rparr>))"

definition update_item :: "mem_env \<Rightarrow> memory_item \<Rightarrow> mem_db \<Rightarrow> exn + mem_db" where
  "update_item env i d =
     (if \<not> memory_item_row_ok (me_pg_space env) i then Inl (Integrity_Error ''ck_memory_items'')
      else if \<not> distinct (superseded_bys (row_put mi_id i (memory_items d)))
      then Inl (Integrity_Error ''uq_memory_items_superseded_by'')
      else if \<not> item_exists d (mi_superseded_by i)
      then Inl (Integrity_Error ''fk_memory_items_superseded_by'')
      else Inr (d\<lparr>memory_items := row_put mi_id i (memory_items d)\<rparr>))"

definition add_provenance :: "memory_provenance \<Rightarrow> mem_db \<Rightarrow> exn + mem_db" where
  "add_provenance p d =
     (if \<not> memory_provenance_row_ok p then Inl (Integrity_Error ''ck_memory_provenance'')
      else if mp_memory_id p \<in> mp_memory_id ` set (memory_provenances d)
      then Inl (Integrity_Error ''pk_memory_provenance'')
      else if get_item (mp_memory_id p) d = None then Inl (Integrity_Error ''fk_memory_provenance_memory_id'')
      else Inr (d\<lparr>memory_provenances := memory_provenances d @ [p]\<rparr>))"

definition update_provenance :: "memory_provenance \<Rightarrow> mem_db \<Rightarrow> exn + mem_db" where
  "update_provenance p d =
     (if \<not> memory_provenance_row_ok p then Inl (Integrity_Error ''ck_memory_provenance'')
      else Inr (d\<lparr>memory_provenances := row_put mp_memory_id p (memory_provenances d)\<rparr>))"

definition COGNITIVE_IDEMPOTENCY_KEY_UNIQUE_CONSTRAINT :: string where
  "COGNITIVE_IDEMPOTENCY_KEY_UNIQUE_CONSTRAINT = ''uq_cognitive_memory_idempotency_idempotency_key''"

definition add_ledger :: "memory_ledger_entry \<Rightarrow> mem_db \<Rightarrow> exn + mem_db" where
  "add_ledger l d =
     (if \<not> memory_ledger_row_ok l then Inl (Integrity_Error ''ck_cognitive_memory_idempotency'')
      else if ml_id l \<in> ml_id ` set (memory_ledger d) then Inl (Integrity_Error ''pk_cognitive_memory_idempotency'')
      else if ml_idempotency_key l \<in> ml_idempotency_key ` set (memory_ledger d)
      then Inl (Integrity_Error COGNITIVE_IDEMPOTENCY_KEY_UNIQUE_CONSTRAINT)
      else if \<not> item_exists d (ml_target_memory_id l) \<or> \<not> item_exists d (ml_result_memory_id l)
      then Inl (Integrity_Error ''fk_cognitive_memory_idempotency'')
      else Inr (d\<lparr>memory_ledger := memory_ledger d @ [l]\<rparr>))"

definition update_ledger :: "memory_ledger_entry \<Rightarrow> mem_db \<Rightarrow> exn + mem_db" where
  "update_ledger l d =
     (if \<not> item_exists d (ml_result_memory_id l) then Inl (Integrity_Error ''fk_cognitive_memory_idempotency'')
      else Inr (d\<lparr>memory_ledger := row_put ml_id l (memory_ledger d)\<rparr>))"

subsection \<open>Typed recall\<close>

definition temporal_validity_predicate :: "timestamp \<Rightarrow> memory_item \<Rightarrow> bool" where
  "temporal_validity_predicate as_of i \<longleftrightarrow>
     opt_all (\<lambda>f. f \<le> as_of) (mi_valid_from i) \<and> opt_all (\<lambda>u. u > as_of) (mi_valid_until i)"

definition supersession_currentness_predicate :: "timestamp \<Rightarrow> memory_item \<Rightarrow> bool" where
  "supersession_currentness_predicate as_of i \<longleftrightarrow> opt_all (\<lambda>t. t > as_of) (mi_superseded_at i)"

definition current_truth_predicate :: "timestamp \<Rightarrow> memory_item \<Rightarrow> bool" where
  "current_truth_predicate as_of i \<longleftrightarrow>
     temporal_validity_predicate as_of i \<and> supersession_currentness_predicate as_of i"

record typed_recall_hit =
  th_item :: memory_item
  th_provenance :: memory_provenance
  th_relevance :: rat
  th_is_current_truth :: bool

definition relevance_of :: "mem_env \<Rightarrow> rat list \<Rightarrow> memory_item \<Rightarrow> rat" where
  "relevance_of env query_embedding i =
     1 - me_cosine_distance env (case mi_embedding i of Some v \<Rightarrow> v | None \<Rightarrow> []) query_embedding"

definition recall_eligible ::
  "mem_env \<Rightarrow> rat list \<Rightarrow> timestamp memory_recall_request \<Rightarrow> memory_item \<Rightarrow> bool" where
  "recall_eligible env query_embedding r i \<longleftrightarrow>
     mi_lifecycle i \<noteq> Mem_FORGOTTEN \<and> mi_content i \<noteq> None \<and> mi_embedding i \<noteq> None
     \<and> mi_created_at i \<le> mr_as_of r \<and> mi_memory_type i \<in> set (mr_memory_types r)
     \<and> (\<exists>s \<in> set (mr_scopes r). mi_scope i = Some s) \<and> temporal_validity_predicate (mr_as_of r) i
     \<and> (mr_include_superseded r \<or> supersession_currentness_predicate (mr_as_of r) i)
     \<and> opt_all (\<lambda>m. relevance_of env query_embedding i \<ge> m) (mr_min_relevance r)"

definition recall_order :: "typed_recall_hit \<Rightarrow> rat \<times> int \<times> nat" where
  "recall_order h = (- th_relevance h, - mi_created_at (th_item h), mi_id (th_item h))"

definition joined :: "mem_db \<Rightarrow> (memory_item \<times> memory_provenance) list" where
  "joined d = concat (map (\<lambda>i. map (\<lambda>p. (i, p)) (filter (\<lambda>p. mp_memory_id p = mi_id i) (memory_provenances d)))
     (memory_items d))"

definition typed_recall ::
  "mem_env \<Rightarrow> rat list \<Rightarrow> timestamp memory_recall_request \<Rightarrow> mem_db \<Rightarrow> typed_recall_hit list" where
  "typed_recall env query_embedding r d =
     take (nat (mr_top_k r)) (sort_key recall_order
       (map (\<lambda>(i, p). \<lparr>th_item = i, th_provenance = p, th_relevance = relevance_of env query_embedding i,
                        th_is_current_truth = current_truth_predicate (mr_as_of r) i\<rparr>)
         (filter (\<lambda>(i, p). recall_eligible env query_embedding r i) (joined d))))"

end
