(* ===== verification/Memory_Service.thy ===== *)
theory Memory_Service
  imports Memory_Store
begin

text \<open>
  \<open>services/cognitive_memory.py\<close> and \<open>services/cognitive_memory_recall.py\<close>: create, get, supersede,
  forget and typed recall.  A unit of work is one transaction; \<open>me_interfere i\<close> is what other
  sessions committed before the operation's \<open>i\<close>-th transaction (0 the pre-check, 1 the
  authoritative one).  A savepoint that fails leaves the state it started from.
\<close>

definition memory_not_found_error :: exn where
  "memory_not_found_error = Sofias_Memory_Error MEMORY_NOT_FOUND NOT_FOUND"

definition memory_state_conflict_error :: exn where
  "memory_state_conflict_error = Sofias_Memory_Error MEMORY_STATE_CONFLICT CONFLICT"

definition lost_winner_error :: exn where
  "lost_winner_error = Sofias_Memory_Error INTERNAL_ERROR INTERNAL_SERVER_ERROR"

definition embedding_unavailable_error :: exn where
  "embedding_unavailable_error = Sofias_Memory_Error DEPENDENCY_UNAVAILABLE SERVICE_UNAVAILABLE"

fun is_cognitive_idempotency_key_unique_violation :: "exn \<Rightarrow> bool" where
  "is_cognitive_idempotency_key_unique_violation (Integrity_Error c) = (c = COGNITIVE_IDEMPOTENCY_KEY_UNIQUE_CONSTRAINT)"
| "is_cognitive_idempotency_key_unique_violation _ = False"

subsection \<open>\<open>datetime.isoformat\<close> of a UTC instant\<close>

definition digits2 :: "int \<Rightarrow> pystr" where
  "digits2 n = [48 + nat (n div 10 mod 10), 48 + nat (n mod 10)]"

definition digits4 :: "int \<Rightarrow> pystr" where
  "digits4 n = digits2 (n div 100) @ digits2 (n mod 100)"

definition digits6 :: "int \<Rightarrow> pystr" where
  "digits6 n = digits2 (n div 10000) @ digits4 (n mod 10000)"

text \<open>Year, month and day of a day number counted from 1970-01-01 in the proleptic Gregorian calendar.\<close>

definition civil_from_days :: "int \<Rightarrow> int \<times> int \<times> int" where
  "civil_from_days days =
     (let z = days + 719468; era = z div 146097; doe = z mod 146097;
          yoe = (doe - doe div 1460 + doe div 36524 - doe div 146096) div 365;
          doy = doe - (365 * yoe + yoe div 4 - yoe div 100);
          mp = (5 * doy + 2) div 153;
          m = (if mp < 10 then mp + 3 else mp - 9)
      in (yoe + era * 400 + (if m \<le> 2 then 1 else 0), m, doy - (153 * mp + 2) div 5 + 1))"

definition isoformat :: "timestamp \<Rightarrow> pystr" where
  "isoformat t =
     (let (y, m, d) = civil_from_days (t div 86400000000); us = t mod 86400000000; s = us div 1000000 in
      digits4 y @ [45] @ digits2 m @ [45] @ digits2 d @ [84]
      @ digits2 (s div 3600) @ [58] @ digits2 (s div 60 mod 60) @ [58] @ digits2 (s mod 60)
      @ (if us mod 1000000 = 0 then [] else 46 # digits6 (us mod 1000000)) @ ascii ''+00:00'')"

subsection \<open>Canonical payloads and digests\<close>

definition timestamp_or_none :: "timestamp option \<Rightarrow> json" where
  "timestamp_or_none v = opt_str (map_option isoformat v)"

definition uuid_or_none :: "uuid option \<Rightarrow> json" where
  "uuid_or_none v = opt_str (map_option uuid_text v)"

definition canonical_provenance_payload :: "provenance_create_request \<Rightarrow> json" where
  "canonical_provenance_payload p = JObj
     [(ascii ''origin_kind'', json_str (origin_kind_value (pf_origin_kind p))),
      (ascii ''source_system'', JStr (pf_source_system p)),
      (ascii ''conversation_uuid'', uuid_or_none (pf_conversation_uuid p)),
      (ascii ''turn_uuid'', uuid_or_none (pf_turn_uuid p)),
      (ascii ''task_uuid'', uuid_or_none (pf_task_uuid p)),
      (ascii ''confirmation_ref'', opt_str (pf_confirmation_ref p)),
      (ascii ''source_ref'', opt_str (pf_source_ref p)),
      (ascii ''observed_at'', timestamp_or_none (pf_observed_at p))]"

definition canonical_content_items :: "memory_supersede_request \<Rightarrow> (pystr \<times> json) list" where
  "canonical_content_items r =
     [(ascii ''content'', JStr (cf_content r)),
      (ascii ''confidence'', (case cf_confidence r of None \<Rightarrow> JNull | Some c \<Rightarrow> JReal c)),
      (ascii ''valid_from'', timestamp_or_none (cf_valid_from r)),
      (ascii ''valid_until'', timestamp_or_none (cf_valid_until r)),
      (ascii ''provenance'', canonical_provenance_payload (cf_provenance r))]"

definition canonical_create_payload :: "memory_create_request \<Rightarrow> json" where
  "canonical_create_payload r = JObj
     ((ascii ''memory_type'', json_str (cognitive_memory_type_value (cr_memory_type r)))
      # (ascii ''scope'', JStr (cr_scope r)) # canonical_content_items (cr_fields r))"

definition canonical_supersede_payload :: "memory_supersede_request \<Rightarrow> json" where
  "canonical_supersede_payload r = JObj (canonical_content_items r)"

definition digest_for :: "mem_env \<Rightarrow> cognitive_memory_operation \<Rightarrow> uuid option \<Rightarrow> json \<Rightarrow> exn + string" where
  "digest_for env op target payload =
     bindE (build_canonical_request (me_py env)
              \<lparr>ir_operation = op, ir_target_memory_id = target, ir_payload = payload\<rparr>)
       (compute_request_digest (me_hmac env) (me_secret env))"

definition create_digest :: "mem_env \<Rightarrow> memory_create_request \<Rightarrow> exn + string" where
  "create_digest env r = digest_for env Op_CREATE None (canonical_create_payload r)"

definition supersede_digest :: "mem_env \<Rightarrow> uuid \<Rightarrow> memory_supersede_request \<Rightarrow> exn + string" where
  "supersede_digest env k r = digest_for env Op_SUPERSEDE (Some k) (canonical_supersede_payload r)"

definition forget_digest :: "mem_env \<Rightarrow> uuid \<Rightarrow> exn + string" where
  "forget_digest env k = digest_for env Op_FORGET (Some k) (JObj [])"

subsection \<open>Results\<close>

record memory_item_result =
  res_memory_id :: uuid
  res_memory_type :: cognitive_memory_type
  res_scope :: "pystr option"
  res_content :: "pystr option"
  res_lifecycle :: cognitive_memory_lifecycle
  res_confidence :: "rat option"
  res_valid_from :: "timestamp option"
  res_valid_until :: "timestamp option"
  res_created_at :: timestamp
  res_superseded_at :: "timestamp option"
  res_superseded_by :: "uuid option"
  res_forgotten_at :: "timestamp option"
  res_provenance :: provenance_create_request

definition memory_item_result :: "memory_item \<Rightarrow> memory_provenance \<Rightarrow> memory_item_result" where
  "memory_item_result i p = \<lparr>res_memory_id = mi_id i, res_memory_type = mi_memory_type i, res_scope = mi_scope i,
     res_content = mi_content i, res_lifecycle = mi_lifecycle i, res_confidence = mi_confidence i,
     res_valid_from = mi_valid_from i, res_valid_until = mi_valid_until i, res_created_at = mi_created_at i,
     res_superseded_at = mi_superseded_at i, res_superseded_by = mi_superseded_by i,
     res_forgotten_at = mi_forgotten_at i, res_provenance = mp_fields p\<rparr>"

definition require_same_operation_and_digest ::
  "memory_ledger_entry \<Rightarrow> cognitive_memory_operation \<Rightarrow> string \<Rightarrow> exn + unit" where
  "require_same_operation_and_digest l operation digest =
     (if ml_operation l \<noteq> operation \<or> ml_request_digest l \<noteq> digest then Inl idempotency_conflict_error else Inr ())"

definition hydrate :: "mem_db \<Rightarrow> uuid option \<Rightarrow> exn + memory_item_result" where
  "hydrate d memory_id =
     (case memory_id of
        None \<Rightarrow> Inl lost_winner_error
      | Some k \<Rightarrow>
        (case (get_item k d, get_provenance k d) of
           (Some i, Some p) \<Rightarrow> Inr (memory_item_result i p)
         | _ \<Rightarrow> Inl lost_winner_error))"

definition hydrate_supersede :: "mem_db \<Rightarrow> uuid \<Rightarrow> uuid option \<Rightarrow> exn + (memory_item_result \<times> memory_item_result)" where
  "hydrate_supersede d old_id replacement_id =
     (case replacement_id of
        None \<Rightarrow> Inl lost_winner_error
      | Some k \<Rightarrow>
        (case (get_item old_id d, get_provenance old_id d, get_item k d, get_provenance k d) of
           (Some old, Some old_p, Some new, Some new_p) \<Rightarrow>
             Inr (memory_item_result old old_p, memory_item_result new new_p)
         | _ \<Rightarrow> Inl lost_winner_error))"

text \<open>\<open>_resolve_existing_*_winner\<close>: the committed entry of the key decides.\<close>

definition resolve_winner ::
  "mem_db \<Rightarrow> string \<Rightarrow> cognitive_memory_operation \<Rightarrow> string \<Rightarrow> (memory_ledger_entry \<Rightarrow> exn + 'a) \<Rightarrow> exn + 'a" where
  "resolve_winner d key operation digest answer =
     (case get_ledger key d of
        None \<Rightarrow> Inl lost_winner_error
      | Some l \<Rightarrow> bindE (require_same_operation_and_digest l operation digest) (\<lambda>_. answer l))"

text \<open>\<open>_pre_check*\<close>: \<open>None\<close> when the key is free.\<close>

definition pre_check ::
  "mem_db \<Rightarrow> string \<Rightarrow> cognitive_memory_operation \<Rightarrow> string \<Rightarrow> (memory_ledger_entry \<Rightarrow> exn + 'a) \<Rightarrow> exn + 'a option" where
  "pre_check d key operation digest answer =
     (case get_ledger key d of
        None \<Rightarrow> Inr None
      | Some l \<Rightarrow> bindE (require_same_operation_and_digest l operation digest) (\<lambda>_.
          bindE (answer l) (\<lambda>x. Inr (Some x))))"

definition embed_content :: "mem_env \<Rightarrow> pystr \<Rightarrow> exn + rat list" where
  "embed_content env content =
     (case me_embed env content of
        Inl (Sofias_Memory_Error code status) \<Rightarrow> Inl (Sofias_Memory_Error code status)
      | Inl _ \<Rightarrow> Inl embedding_unavailable_error
      | Inr embeddings \<Rightarrow>
          if length embeddings \<noteq> 1 \<or> length (embeddings ! 0) \<noteq> me_dimensions env
          then Inl embedding_unavailable_error else Inr (embeddings ! 0))"

definition mem_transaction :: "(mem_db \<Rightarrow> exn + ('a \<times> mem_db)) \<Rightarrow> mem_db \<Rightarrow> 'a mem_tx" where
  "mem_transaction body d = (case body d of Inl e \<Rightarrow> (Inl e, d) | Inr (x, d') \<Rightarrow> (Inr x, d'))"

text \<open>The frame of the three mutations: the reserved namespace, the digest and pre-check of a key, then
  the external embedding (when there is one) and the authoritative transaction.\<close>

definition keyed_mutation ::
  "mem_env \<Rightarrow> string option \<Rightarrow> (exn + string) \<Rightarrow> cognitive_memory_operation \<Rightarrow>
   (mem_db \<Rightarrow> memory_ledger_entry \<Rightarrow> exn + 'a) \<Rightarrow> (exn + 'x) \<Rightarrow>
   ((string \<times> string) option \<Rightarrow> 'x \<Rightarrow> mem_db \<Rightarrow> exn + ('a \<times> mem_db)) \<Rightarrow> mem_db \<Rightarrow> 'a mem_tx" where
  "keyed_mutation env key digest operation answer prepare body d =
     (let claim = (\<lambda>claimed d0.
            (case prepare of
               Inl e \<Rightarrow> (Inl e, d0)
             | Inr x \<Rightarrow> mem_transaction (body claimed x) (me_interfere env 1 d0)))
      in case key of
           None \<Rightarrow> claim None d
         | Some k \<Rightarrow>
           if is_reserved_idempotency_key k then (Inl reserved_idempotency_key_namespace_error, d)
           else (case digest of
                   Inl e \<Rightarrow> (Inl e, d)
                 | Inr h \<Rightarrow>
                   (let d0 = me_interfere env 0 d in
                    case pre_check d0 k operation h (answer d0) of
                      Inl e \<Rightarrow> (Inl e, d0)
                    | Inr (Some r) \<Rightarrow> (Inr r, d0)
                    | Inr None \<Rightarrow> claim (Some (k, h)) d0)))"

subsection \<open>Create and get\<close>

definition new_item ::
  "mem_env \<Rightarrow> cognitive_memory_type \<Rightarrow> pystr option \<Rightarrow> memory_supersede_request \<Rightarrow> rat list \<Rightarrow> memory_item" where
  "new_item env memory_type scope r embedding = \<lparr>mi_id = me_uuid env 0, mi_memory_type = memory_type, mi_scope = scope,
     mi_content = Some (cf_content r), mi_embedding = Some embedding, mi_lifecycle = Mem_ACTIVE,
     mi_confidence = cf_confidence r, mi_valid_from = cf_valid_from r, mi_valid_until = cf_valid_until r,
     mi_created_at = me_now env, mi_superseded_at = None, mi_superseded_by = None, mi_forgotten_at = None\<rparr>"

definition new_provenance :: "mem_env \<Rightarrow> memory_supersede_request \<Rightarrow> memory_provenance" where
  "new_provenance env r = \<lparr>mp_memory_id = me_uuid env 0, mp_fields = cf_provenance r\<rparr>"

definition create_body ::
  "mem_env \<Rightarrow> memory_create_request \<Rightarrow> (string \<times> string) option \<Rightarrow> rat list \<Rightarrow> mem_db \<Rightarrow>
   exn + (memory_item_result \<times> mem_db)" where
  "create_body env r claimed embedding d =
     (let item = new_item env (cr_memory_type r) (Some (cr_scope r)) (cr_fields r) embedding;
          provenance = new_provenance env (cr_fields r)
      in case claimed of
           None \<Rightarrow>
             bindE (add_item env item d) (\<lambda>d1. bindE (add_provenance provenance d1) (\<lambda>d2.
               Inr (memory_item_result item provenance, d2)))
         | Some (key, digest) \<Rightarrow>
             (case bindE (add_item env item d) (\<lambda>d1. bindE (add_provenance provenance d1) (\<lambda>d2.
                     add_ledger \<lparr>ml_id = me_uuid env 1, ml_idempotency_key = key, ml_operation = Op_CREATE,
                       ml_request_digest = digest, ml_target_memory_id = None,
                       ml_result_memory_id = Some (mi_id item)\<rparr> d2)) of
                Inr d3 \<Rightarrow> Inr (memory_item_result item provenance, d3)
              | Inl e \<Rightarrow>
                  if \<not> is_cognitive_idempotency_key_unique_violation e then Inl e
                  else bindE (resolve_winner d key Op_CREATE digest (\<lambda>l. hydrate d (ml_result_memory_id l)))
                         (\<lambda>result. Inr (result, d))))"

definition create_memory ::
  "mem_env \<Rightarrow> memory_create_request \<Rightarrow> string option \<Rightarrow> mem_db \<Rightarrow> memory_item_result mem_tx" where
  "create_memory env r key d =
     keyed_mutation env key (create_digest env r) Op_CREATE (\<lambda>d0 l. hydrate d0 (ml_result_memory_id l))
       (embed_content env (cf_content (cr_fields r))) (create_body env r) d"

definition get_memory :: "uuid \<Rightarrow> mem_db \<Rightarrow> exn + memory_item_result" where
  "get_memory memory_id d =
     (case get_item memory_id d of
        None \<Rightarrow> Inl memory_not_found_error
      | Some i \<Rightarrow>
        (case get_provenance memory_id d of
           None \<Rightarrow> Inl Assertion_Error
         | Some p \<Rightarrow> Inr (memory_item_result i p)))"

subsection \<open>Supersede\<close>

definition claim_ledger ::
  "mem_env \<Rightarrow> cognitive_memory_operation \<Rightarrow> uuid \<Rightarrow> (string \<times> string) option \<Rightarrow> memory_ledger_entry option" where
  "claim_ledger env operation memory_id claimed =
     map_option (\<lambda>(key, digest). \<lparr>ml_id = me_uuid env 1, ml_idempotency_key = key, ml_operation = operation,
       ml_request_digest = digest, ml_target_memory_id = Some memory_id, ml_result_memory_id = None\<rparr>) claimed"

definition record_outcome :: "memory_ledger_entry option \<Rightarrow> uuid \<Rightarrow> mem_db \<Rightarrow> exn + mem_db" where
  "record_outcome entry result d =
     (case entry of
        None \<Rightarrow> Inr d
      | Some l \<Rightarrow> update_ledger (l\<lparr>ml_result_memory_id := Some result\<rparr>) d)"

definition supersede_target ::
  "mem_env \<Rightarrow> uuid \<Rightarrow> memory_supersede_request \<Rightarrow> rat list \<Rightarrow> memory_ledger_entry option \<Rightarrow> memory_item \<Rightarrow> mem_db \<Rightarrow>
   exn + ((memory_item_result \<times> memory_item_result) \<times> mem_db)" where
  "supersede_target env memory_id r embedding entry old d =
     (if mi_lifecycle old \<noteq> Mem_ACTIVE then Inl memory_state_conflict_error
      else case get_provenance memory_id d of
             None \<Rightarrow> Inl Assertion_Error
           | Some old_provenance \<Rightarrow>
             (let replacement = new_item env (mi_memory_type old) (mi_scope old) r embedding;
                  replacement_provenance = new_provenance env r;
                  old' = old\<lparr>mi_lifecycle := Mem_SUPERSEDED, mi_superseded_at := Some (me_utc_now env),
                            mi_superseded_by := Some (mi_id replacement)\<rparr>
              in bindE (add_item env replacement d) (\<lambda>d1.
                 bindE (add_provenance replacement_provenance d1) (\<lambda>d2.
                 bindE (update_item env old' d2) (\<lambda>d3.
                 bindE (record_outcome entry (mi_id replacement) d3) (\<lambda>d4.
                   Inr ((memory_item_result old' old_provenance,
                         memory_item_result replacement replacement_provenance), d4)))))))"

definition supersede_body ::
  "mem_env \<Rightarrow> uuid \<Rightarrow> memory_supersede_request \<Rightarrow> (string \<times> string) option \<Rightarrow> rat list \<Rightarrow> mem_db \<Rightarrow>
   exn + ((memory_item_result \<times> memory_item_result) \<times> mem_db)" where
  "supersede_body env memory_id r claimed embedding d =
     (case get_item memory_id d of
        None \<Rightarrow> Inl memory_not_found_error
      | Some old \<Rightarrow>
        (case claim_ledger env Op_SUPERSEDE memory_id claimed of
           None \<Rightarrow> supersede_target env memory_id r embedding None old d
         | Some l \<Rightarrow>
           (case add_ledger l d of
              Inr d1 \<Rightarrow> supersede_target env memory_id r embedding (Some l) old d1
            | Inl e \<Rightarrow>
              if \<not> is_cognitive_idempotency_key_unique_violation e then Inl e
              else bindE (resolve_winner d (ml_idempotency_key l) Op_SUPERSEDE (ml_request_digest l)
                            (\<lambda>w. hydrate_supersede d memory_id (ml_result_memory_id w)))
                     (\<lambda>result. Inr (result, d)))))"

definition supersede_memory ::
  "mem_env \<Rightarrow> uuid \<Rightarrow> memory_supersede_request \<Rightarrow> string option \<Rightarrow> mem_db \<Rightarrow>
   (memory_item_result \<times> memory_item_result) mem_tx" where
  "supersede_memory env memory_id r key d =
     keyed_mutation env key (supersede_digest env memory_id r) Op_SUPERSEDE
       (\<lambda>d0 l. hydrate_supersede d0 memory_id (ml_result_memory_id l)) (embed_content env (cf_content r))
       (supersede_body env memory_id r) d"

subsection \<open>Forget\<close>

definition forgotten_item :: "mem_env \<Rightarrow> memory_item \<Rightarrow> memory_item" where
  "forgotten_item env i = i\<lparr>mi_content := None, mi_embedding := None, mi_scope := None, mi_confidence := None,
     mi_valid_from := None, mi_valid_until := None, mi_lifecycle := Mem_FORGOTTEN,
     mi_forgotten_at := Some (me_utc_now env)\<rparr>"

definition scrubbed_provenance :: "memory_provenance \<Rightarrow> memory_provenance" where
  "scrubbed_provenance p = p\<lparr>mp_fields := (mp_fields p)\<lparr>pf_conversation_uuid := None, pf_turn_uuid := None,
     pf_task_uuid := None, pf_confirmation_ref := None, pf_source_ref := None, pf_observed_at := None\<rparr>\<rparr>"

definition forget_target ::
  "mem_env \<Rightarrow> uuid \<Rightarrow> memory_ledger_entry option \<Rightarrow> memory_item \<Rightarrow> memory_provenance \<Rightarrow> mem_db \<Rightarrow>
   exn + (memory_item_result \<times> mem_db)" where
  "forget_target env memory_id entry item provenance d =
     (let forget = (mi_lifecycle item \<noteq> Mem_FORGOTTEN);
          item' = (if forget then forgotten_item env item else item);
          provenance' = (if forget then scrubbed_provenance provenance else provenance)
      in bindE (if forget then bindE (update_item env item' d) (update_provenance provenance') else Inr d) (\<lambda>d1.
         bindE (record_outcome entry memory_id d1) (\<lambda>d2.
           Inr (memory_item_result item' provenance', d2))))"

definition forget_body ::
  "mem_env \<Rightarrow> uuid \<Rightarrow> (string \<times> string) option \<Rightarrow> unit \<Rightarrow> mem_db \<Rightarrow> exn + (memory_item_result \<times> mem_db)" where
  "forget_body env memory_id claimed _ d =
     (case get_item memory_id d of
        None \<Rightarrow> Inl memory_not_found_error
      | Some item \<Rightarrow>
        (case get_provenance memory_id d of
           None \<Rightarrow> Inl Assertion_Error
         | Some provenance \<Rightarrow>
           (case claim_ledger env Op_FORGET memory_id claimed of
              None \<Rightarrow> forget_target env memory_id None item provenance d
            | Some l \<Rightarrow>
              (case add_ledger l d of
                 Inr d1 \<Rightarrow> forget_target env memory_id (Some l) item provenance d1
               | Inl e \<Rightarrow>
                 if \<not> is_cognitive_idempotency_key_unique_violation e then Inl e
                 else bindE (resolve_winner d (ml_idempotency_key l) Op_FORGET (ml_request_digest l)
                               (\<lambda>_. hydrate d (Some memory_id)))
                        (\<lambda>result. Inr (result, d))))))"

definition forget_memory :: "mem_env \<Rightarrow> uuid \<Rightarrow> string option \<Rightarrow> mem_db \<Rightarrow> memory_item_result mem_tx" where
  "forget_memory env memory_id key d =
     keyed_mutation env key (forget_digest env memory_id) Op_FORGET (\<lambda>d0 _. hydrate d0 (Some memory_id))
       (Inr ()) (forget_body env memory_id) d"

subsection \<open>Recall\<close>

record memory_recall_item =
  ri_memory :: memory_item_result
  ri_relevance :: rat
  ri_is_current_truth :: bool

definition recall_memory ::
  "mem_env \<Rightarrow> timestamp memory_recall_request \<Rightarrow> mem_db \<Rightarrow> exn + memory_recall_item list" where
  "recall_memory env r d =
     bindE (embed_content env (mr_query r)) (\<lambda>query_embedding.
       Inr (map (\<lambda>h. \<lparr>ri_memory = memory_item_result (th_item h) (th_provenance h), ri_relevance = th_relevance h,
                      ri_is_current_truth = th_is_current_truth h\<rparr>)
              (typed_recall env query_embedding r d)))"

end
