(* ===== verification/Domain_Text_Facts.thy ===== *)
theory Domain_Text_Facts
  imports Domain_Text
begin

text \<open>
  Facts of the text rules: normalization is idempotent and keeps the declared bounds, the slug
  pattern is the regular expression of the source, the skill hash depends on the meaning of a
  revision only, and session context is the longest recent suffix that fits its budget.
\<close>

subsection \<open>Stripping and newlines\<close>

lemma dropWhile_fixed: "s = [] \<or> \<not> P (hd s) \<Longrightarrow> dropWhile P s = s"
  by (cases s) auto

lemma hd_dropWhile_not: "dropWhile P s = [] \<or> \<not> P (hd (dropWhile P s))"
  by (metis hd_dropWhile)

lemma py_rstrip_Cons: "\<not> py_space c \<Longrightarrow> py_rstrip (c # s) = c # py_rstrip s"
  by (simp add: py_rstrip_def dropWhile_append)

lemma py_rstrip_idem [simp]: "py_rstrip (py_rstrip s) = py_rstrip s"
  unfolding py_rstrip_def using hd_dropWhile_not[of py_space "rev s"] by (simp add: dropWhile_fixed)

lemma py_lstrip_idem [simp]: "py_lstrip (py_lstrip s) = py_lstrip s"
  unfolding py_lstrip_def using hd_dropWhile_not[of py_space s] by (simp add: dropWhile_fixed)

lemma last_suffix: "suffix t s \<Longrightarrow> t \<noteq> [] \<Longrightarrow> last t = last s"
  by (auto simp: suffix_def)

lemma rstripped_iff: "py_rstrip s = s \<longleftrightarrow> s = [] \<or> \<not> py_space (last s)"
proof
  assume "py_rstrip s = s"
  then have "dropWhile py_space (rev s) = rev s" unfolding py_rstrip_def by (metis rev_rev_ident)
  then show "s = [] \<or> \<not> py_space (last s)" using hd_dropWhile_not[of py_space "rev s"] by (auto simp: hd_rev)
next
  assume "s = [] \<or> \<not> py_space (last s)"
  then show "py_rstrip s = s" unfolding py_rstrip_def by (auto simp: dropWhile_fixed hd_rev)
qed

lemma py_strip_idem [simp]: "py_strip (py_strip s) = py_strip s"
proof -
  have "suffix (py_strip s) (py_rstrip s)" by (simp add: py_strip_def py_lstrip_def suffix_dropWhile)
  then have "py_rstrip (py_strip s) = py_strip s"
    using rstripped_iff[of "py_rstrip s"] rstripped_iff[of "py_strip s"] last_suffix
    by (metis py_rstrip_idem suffix_Nil)
  then show ?thesis by (simp add: py_strip_def)
qed

lemma py_strip_ends:
  "py_strip s \<noteq> [] \<Longrightarrow> \<not> py_space (hd (py_strip s)) \<and> \<not> py_space (last (py_strip s))"
proof
  assume ne: "py_strip s \<noteq> []"
  show "\<not> py_space (hd (py_strip s))"
    using ne unfolding py_strip_def py_lstrip_def by (rule hd_dropWhile)
  have "suffix (py_strip s) (py_rstrip s)" by (simp add: py_strip_def py_lstrip_def suffix_dropWhile)
  then show "\<not> py_space (last (py_strip s))"
    using ne rstripped_iff[of "py_rstrip s"] last_suffix by (metis py_rstrip_idem suffix_Nil)
qed

lemma set_py_strip: "set (py_strip s) \<subseteq> set s"
  by (auto simp: py_strip_def py_lstrip_def py_rstrip_def dest!: set_dropWhileD)

lemma normalize_newlines_no_cr: "13 \<notin> set (normalize_newlines s)"
  by (auto simp: normalize_newlines_def)

lemma replace_crlf_no_cr: "13 \<notin> set s \<Longrightarrow> replace_crlf s = s"
  by (induction s rule: replace_crlf.induct) auto

lemma normalize_newlines_fixed: "13 \<notin> set s \<Longrightarrow> normalize_newlines s = s"
  by (auto simp: normalize_newlines_def replace_crlf_no_cr intro!: map_idI)

lemma normalize_newlines_idem [simp]: "normalize_newlines (normalize_newlines s) = normalize_newlines s"
  by (simp add: normalize_newlines_fixed normalize_newlines_no_cr)

lemma length_replace_crlf: "length (replace_crlf s) \<le> length s"
  by (induction s rule: replace_crlf.induct) auto

lemma length_normalize_newlines: "length (normalize_newlines s) \<le> length s"
  by (simp add: normalize_newlines_def length_replace_crlf)

subsection \<open>The slug pattern is \<open>^[a-z0-9]+(-[a-z0-9]+)*$\<close>\<close>

inductive slug_language :: "pystr \<Rightarrow> bool" where
  slug_word: "\<lbrakk>w \<noteq> []; list_all lower_alnum w\<rbrakk> \<Longrightarrow> slug_language w"
| slug_dash: "\<lbrakk>w \<noteq> []; list_all lower_alnum w; slug_language s\<rbrakk> \<Longrightarrow> slug_language (w @ 45 # s)"

lemma slug_rest_word: "list_all lower_alnum w \<Longrightarrow> w \<noteq> [] \<Longrightarrow> slug_rest b (w @ s) = slug_rest True s"
proof (induction w arbitrary: b)
  case (Cons c w)
  then show ?case by (cases w) auto
qed simp

lemma not_alnum_dash: "\<not> lower_alnum 45"
  by (simp add: lower_alnum_def)

lemma slug_rest_span:
  "slug_rest b s \<Longrightarrow> (takeWhile lower_alnum s \<noteq> [] \<or> b) \<and> (dropWhile lower_alnum s = []
     \<or> (\<exists>t. dropWhile lower_alnum s = 45 # t \<and> slug_rest False t))"
  by (induction b s rule: slug_rest.induct) (auto split: if_splits)

lemma slug_split:
  assumes "slug_rest False s"
  obtains (word) "s \<noteq> []" "list_all lower_alnum s"
  | (dash) w t where "w \<noteq> []" "list_all lower_alnum w" "slug_rest False t" "s = w @ 45 # t"
proof -
  have s: "s = takeWhile lower_alnum s @ dropWhile lower_alnum s" by simp
  have w: "list_all lower_alnum (takeWhile lower_alnum s)" by (auto simp: list_all_iff dest: set_takeWhileD)
  note span = slug_rest_span[OF assms]
  show thesis
  proof (cases "dropWhile lower_alnum s = []")
    case True
    then have "takeWhile lower_alnum s = s" using s by simp
    then show thesis using word span w by metis
  next
    case False
    then show thesis using dash span w s by metis
  qed
qed

lemma slug_pattern_language: "slug_pattern s \<longleftrightarrow> slug_language s"
proof
  show "slug_pattern s \<Longrightarrow> slug_language s"
    unfolding slug_pattern_def
  proof (induction s rule: length_induct)
    case (1 s)
    from 1(2) show ?case
    proof (cases rule: slug_split)
      case word
      then show ?thesis by (rule slug_language.slug_word)
    next
      case (dash w t)
      then have "slug_language t" using 1(1) by simp
      then show ?thesis using dash slug_language.slug_dash by blast
    qed
  qed
next
  show "slug_language s \<Longrightarrow> slug_pattern s"
    unfolding slug_pattern_def
  proof (induction rule: slug_language.induct)
    case (slug_word w)
    then show ?case using slug_rest_word[of w False "[]"] by auto
  next
    case (slug_dash w s)
    then show ?case using slug_rest_word[of w False "45 # s"] not_alnum_dash by auto
  qed
qed

subsection \<open>Validators\<close>

lemmas text_validators = normalize_session_id_def normalize_session_entry_external_id_def validate_skill_name_def
  validate_agent_name_def validate_agent_display_name_def normalize_validate_agent_instructions_def
  validate_procedure_def Let_def

definition accepts_only :: "('a \<Rightarrow> exn + 'a) \<Rightarrow> ('a \<Rightarrow> bool) \<Rightarrow> bool" where
  "accepts_only f P \<longleftrightarrow> (\<forall>v w. f v = Inr w \<longrightarrow> f w = Inr w \<and> P w)"

definition bounded_text :: "nat \<Rightarrow> pystr option \<Rightarrow> bool" where
  "bounded_text n v = (case v of None \<Rightarrow> True | Some s \<Rightarrow> 1 \<le> length s \<and> length s \<le> n)"

definition stripped :: "pystr option \<Rightarrow> bool" where
  "stripped v = (case v of None \<Rightarrow> True | Some s \<Rightarrow> py_strip s = s)"

definition clean_text :: "pystr option \<Rightarrow> bool" where
  "clean_text v = (case v of None \<Rightarrow> True | Some s \<Rightarrow> 13 \<notin> set s \<and> py_strip s \<noteq> [])"

text \<open>The domain text validators are idempotent normalizations with exactly the declared bounds: session and
  entry identifiers and display names come out trimmed with 1 to 255 (120) characters, names match the slug
  grammar with 1 to 64, and instructions and procedures contain no carriage return, are not blank and have at
  most 65536 characters.\<close>

theorem text_validators_bounded:
  "accepts_only normalize_session_id (\<lambda>v. bounded_text 255 v \<and> stripped v)
   \<and> accepts_only normalize_session_entry_external_id (\<lambda>v. bounded_text 255 v \<and> stripped v)
   \<and> accepts_only validate_skill_name (\<lambda>s. bounded_text 64 (Some s) \<and> slug_language s)
   \<and> accepts_only validate_agent_name (\<lambda>s. bounded_text 64 (Some s) \<and> slug_language s)
   \<and> accepts_only validate_agent_display_name (\<lambda>v. bounded_text 120 v \<and> stripped v)
   \<and> accepts_only normalize_validate_agent_instructions (\<lambda>v. bounded_text 65536 v \<and> clean_text v)
   \<and> accepts_only validate_procedure (\<lambda>s. bounded_text 65536 (Some s) \<and> clean_text (Some s))"
proof -
  have ne: "py_strip s \<noteq> [] \<Longrightarrow> s \<noteq> []" for s by (auto simp: py_strip_def py_lstrip_def py_rstrip_def)
  have bounds: "SESSION_ID_MAX_LENGTH = 255" "SESSION_ENTRY_EXTERNAL_ID_MAX_LENGTH = 255" "SKILL_NAME_MAX_LENGTH = 64"
    "AGENT_NAME_MAX_LENGTH = 64" "AGENT_DISPLAY_NAME_MAX_LENGTH = 120" "AGENT_INSTRUCTIONS_MAX_LENGTH = 65536"
    "PROCEDURE_MAX_LENGTH = 65536"
    by (simp_all add: SESSION_ID_MAX_LENGTH_def SESSION_ENTRY_EXTERNAL_ID_MAX_LENGTH_def SKILL_NAME_MAX_LENGTH_def
        AGENT_NAME_MAX_LENGTH_def AGENT_DISPLAY_NAME_MAX_LENGTH_def AGENT_INSTRUCTIONS_MAX_LENGTH_def
        PROCEDURE_MAX_LENGTH_def)
  show ?thesis unfolding accepts_only_def text_validators bounds
    using normalize_newlines_no_cr
    by (intro conjI)
      (auto simp: bounded_text_def clean_text_def stripped_def Suc_le_eq slug_pattern_language dest: ne split: option.splits if_splits)
qed

subsection \<open>The hash of a skill revision\<close>

definition wf_content :: "skill_revision_content \<Rightarrow> bool" where
  "wf_content c \<longleftrightarrow> distinct (map fst (sc_metadata c))"

lemma wf_canonical: "wf_content c \<Longrightarrow> wf_json (build_canonical_object name c)"
proof -
  assume wf: "wf_content c"
  have opt: "wf_json (opt_str x)" for x by (cases x) simp_all
  have arr: "list_all wf_json (map JStr xs)" for xs by (induction xs) simp_all
  have vals: "list_all (\<lambda>kv. wf_json (snd kv)) (map (\<lambda>(k, v). (k, JStr v)) kvs)"
    and keys: "map fst (map (\<lambda>(k, v). (k, JStr v)) kvs) = map fst kvs" for kvs :: "(pystr \<times> pystr) list"
    by (induction kvs) auto
  show ?thesis using wf
    by (simp only: build_canonical_object_def wf_json.simps list.pred_inject snd_conv opt arr vals keys wf_content_def simp_thms)
      (simp add: ascii_def)
qed

text \<open>Two raw revisions that mean the same: newline variants of the procedure, the same set of tags, the same
  declared tools and metadata in any order.\<close>

definition same_revision ::
  "skill_revision_content \<Rightarrow> skill_revision_content \<Rightarrow> bool" where
  "same_revision a b \<longleftrightarrow> sc_description a = sc_description b \<and> sc_procedure a = sc_procedure b
     \<and> sc_license a = sc_license b \<and> sc_compatibility a = sc_compatibility b
     \<and> mset (sc_metadata a) = mset (sc_metadata b) \<and> sc_tags a = sc_tags b
     \<and> mset (sc_declared_tools a) = mset (sc_declared_tools b)"

lemma same_revision_payload:
  assumes "same_revision a b"
  shows "same_payload (build_canonical_object name a) (build_canonical_object name b)"
proof -
  have tools: "sort (sc_declared_tools a) = sort (sc_declared_tools b)"
    using assms by (metis same_revision_def properties_for_sort sorted_sort mset_sort)
  have meta: "same_payload (JObj (map (\<lambda>(k, v). (k, JStr v)) (sc_metadata a)))
      (JObj (map (\<lambda>(k, v). (k, JStr v)) (sc_metadata b)))"
    using assms by (intro same_obj) (simp add: same_revision_def)
  show ?thesis unfolding build_canonical_object_def
    by (rule same_member) (use assms tools meta in \<open>simp add: same_revision_def same_refl\<close>)
qed

lemma nonempty_strings_set: "nonempty_strings xs = Inr ts \<Longrightarrow> set ts = {s. JStr s \<in> set xs}"
  by (induction xs arbitrary: ts rule: nonempty_strings.induct) (auto simp: bindE_eq_Inr_iff split: if_splits)

lemma canonicalize_tags_set:
  assumes "canonicalize_tags (Some xs) = Inr ts" "canonicalize_tags (Some ys) = Inr us" "set xs = set ys"
  shows "ts = us"
proof -
  obtain t u where "nonempty_strings xs = Inr t" "ts = sort (remdups t)" "nonempty_strings ys = Inr u" "us = sort (remdups u)"
    using assms(1,2) by (auto simp: canonicalize_tags_def bindE_eq_Inr_iff)
  then show ?thesis using nonempty_strings_set assms(3)
    by (metis sorted_list_of_set_sort_remdups)
qed

text \<open>C17: The content hash of a skill revision is a function of its meaning: the same description, license and
  compatibility, procedures that differ in newline style only, the same set of tags, and metadata and declared
  tools in any order give the same hash (or the same encoding error), so safe replay recognises every
  re-submission of the same content.\<close>

theorem content_hash_canonical:
  assumes "normalize_newlines p = normalize_newlines q"
    and "validate_procedure p = Inr p'" "validate_procedure q = Inr q'"
    and "set tags = set tags'" "canonicalize_tags (Some tags) = Inr ts" "canonicalize_tags (Some tags') = Inr ts'"
    and "mset meta = mset meta'" "distinct (map fst meta)" "mset tools = mset tools'"
  shows "compute_content_sha256 E name \<lparr>sc_description = d, sc_procedure = p', sc_license = l, sc_compatibility = c,
      sc_metadata = meta, sc_tags = ts, sc_declared_tools = tools\<rparr>
    = compute_content_sha256 E name \<lparr>sc_description = d, sc_procedure = q', sc_license = l, sc_compatibility = c,
      sc_metadata = meta', sc_tags = ts', sc_declared_tools = tools'\<rparr>" 
proof -
  let ?a = "\<lparr>sc_description = d, sc_procedure = p', sc_license = l, sc_compatibility = c,
      sc_metadata = meta, sc_tags = ts, sc_declared_tools = tools\<rparr>"
  let ?b = "\<lparr>sc_description = d, sc_procedure = q', sc_license = l, sc_compatibility = c,
      sc_metadata = meta', sc_tags = ts', sc_declared_tools = tools'\<rparr>"
  have "p' = q'" using assms(1-3) by (auto simp: validate_procedure_def Let_def split: if_splits)
  moreover have "ts = ts'" using canonicalize_tags_set assms(4-6) by blast
  ultimately have "same_revision ?a ?b" using assms(7,9) by (simp add: same_revision_def)
  moreover have "wf_content ?a" using assms(8) by (simp add: wf_content_def simp_thms)
  ultimately show ?thesis
    using dumps_same_payload[OF same_revision_payload wf_canonical] by (simp add: compute_content_sha256_def)
qed

theorem content_hash_canonical_witness:
  "compute_content_sha256 \<lparr>sha256_hexdigest = (\<lambda>bs. map char_of bs), float_repr = (\<lambda>_. [])\<rparr> [65]
     \<lparr>sc_description = [66], sc_procedure = [67, 10, 68], sc_license = None, sc_compatibility = None,
      sc_metadata = [([1], [2]), ([3], [4])], sc_tags = [[70], [71]], sc_declared_tools = [[80], [81]]\<rparr>
   = compute_content_sha256 \<lparr>sha256_hexdigest = (\<lambda>bs. map char_of bs), float_repr = (\<lambda>_. [])\<rparr> [65]
     \<lparr>sc_description = [66], sc_procedure = [67, 10, 68], sc_license = None, sc_compatibility = None,
      sc_metadata = [([3], [4]), ([1], [2])], sc_tags = [[70], [71]], sc_declared_tools = [[81], [80]]\<rparr>"
proof (rule content_hash_canonical)
  show "normalize_newlines [67, 13, 10, 68] = normalize_newlines [67, 10, 68]" by code_simp
  show "validate_procedure [67, 13, 10, 68] = Inr [67, 10, 68]" "validate_procedure [67, 10, 68] = Inr [67, 10, 68]"
    by (simp_all add: validate_procedure_def normalize_newlines_def PROCEDURE_MAX_LENGTH_def py_strip_def
        py_lstrip_def py_rstrip_def py_space_def)
  show "set [JStr [71], JStr [70], JStr [71]] = set [JStr [70], JStr [71]]" by auto
  show "canonicalize_tags (Some [JStr [71], JStr [70], JStr [71]]) = Inr [[70], [71]]"
    "canonicalize_tags (Some [JStr [70], JStr [71]]) = Inr [[70], [71]]"
    by code_simp+
qed simp_all

subsection \<open>Session context\<close>

lemma length_py_join: "xs \<noteq> [] \<Longrightarrow> length (py_join sep xs) = sum_list (map length xs) + (length xs - 1) * length sep"
  by (induction sep xs rule: py_join.induct) auto

definition context_size :: "session_context_candidate list \<Rightarrow> nat" where
  "context_size cs = length (render_session_context_block cs)"

lemma context_size_eq:
  "context_size cs = (if cs = [] then 0 else sum_list (map (length \<circ> render_session_context_entry) cs) + 2 * (length cs - 1))"
  by (auto simp: context_size_def render_session_context_block_def length_py_join SESSION_CONTEXT_BLOCK_SEPARATOR_def)

lemma context_size_rev [simp]: "context_size (rev cs) = context_size cs"
  by (simp add: context_size_eq rev_map[symmetric] sum_list_rev)

lemma context_size_snoc:
  "context_size (cs @ [c]) = context_size cs + length (render_session_context_entry c) + (if cs = [] then 0 else 2)"
  by (cases cs) (simp_all add: context_size_eq)

lemma select_newest_spec:
  assumes "used = int (context_size sel)" "sel = [] \<or> used \<le> m"
  shows "\<exists>k \<le> length cs. select_newest cs n m sel used = sel @ take k cs
    \<and> (k = 0 \<or> int (length sel + k) \<le> n)
    \<and> (sel @ take k cs = [] \<or> int (context_size (sel @ take k cs)) \<le> m)
    \<and> (k < length cs \<longrightarrow> n \<le> int (length sel + k) \<or> m < int (context_size (sel @ take (Suc k) cs)))"
  using assms
proof (induction cs arbitrary: sel used)
  case (Cons c cs)
  let ?add = "if sel = [] then int (length (render_session_context_entry c))
     else int (length (render_session_context_entry c)) + int (length SESSION_CONTEXT_BLOCK_SEPARATOR)"
  have size: "used + ?add = int (context_size (sel @ [c]))"
    using Cons.prems(1) by (simp add: context_size_snoc SESSION_CONTEXT_BLOCK_SEPARATOR_def)
  show ?case
  proof (cases "n \<le> int (length sel) \<or> m < used + ?add")
    case True
    then show ?thesis using Cons.prems size by (intro exI[of _ 0]) auto
  next
    case False
    then have step: "select_newest (c # cs) n m sel used = select_newest cs n m (sel @ [c]) (used + ?add)"
      by (auto simp: Let_def)
    obtain k where k: "k \<le> length cs" "select_newest cs n m (sel @ [c]) (used + ?add) = (sel @ [c]) @ take k cs"
      "k = 0 \<or> int (length (sel @ [c]) + k) \<le> n"
      "(sel @ [c]) @ take k cs = [] \<or> int (context_size ((sel @ [c]) @ take k cs)) \<le> m"
      "k < length cs \<longrightarrow> n \<le> int (length (sel @ [c]) + k) \<or> m < int (context_size ((sel @ [c]) @ take (Suc k) cs))"
      using Cons.IH[OF size] False by auto
    show ?thesis using False k unfolding step by (intro exI[of _ "Suc k"]) auto
  qed
qed auto

text \<open>Session context is the longest run of the newest entries that fits: the selection is the \<open>k\<close> newest
  candidates, oldest first, its rendered block has at most \<open>max_chars\<close> characters and at most \<open>max_entries\<close>
  entries, and unless every candidate was taken, the entry limit is reached or the next older entry, rendered in
  full, would exceed the budget.\<close>

theorem session_context_longest_fit:
  "\<exists>k \<le> length cs. select_session_context cs n m = rev (take k cs)
    \<and> (k = 0 \<or> int k \<le> n)
    \<and> (select_session_context cs n m = [] \<or> int (length (render_session_context_block (select_session_context cs n m))) \<le> m)
    \<and> (k = length cs \<or> n \<le> int k \<or> m < int (length (render_session_context_block (rev (take (Suc k) cs)))))"
proof -
  have "(0::int) = int (context_size [])" by (simp add: context_size_eq)
  from select_newest_spec[OF this, of m cs n] obtain k where
    "k \<le> length cs" "select_newest cs n m [] 0 = take k cs" "k = 0 \<or> int k \<le> n"
    "take k cs = [] \<or> int (context_size (take k cs)) \<le> m"
    "k < length cs \<longrightarrow> n \<le> int k \<or> m < int (context_size (take (Suc k) cs))" by auto
  then show ?thesis unfolding select_session_context_def context_size_def[symmetric]
    by (intro exI[of _ k]) (auto simp: nat_less_le)
qed

end
