(* ===== verification/Memory_Facts.thy ===== *)
theory Memory_Facts
  imports Memory_Service Submission_Facts Domain_Text_Facts
begin

text \<open>
  Facts of native cognitive memory: the table invariant and that every committed mutation keeps it,
  the linear lineage of supersession, the permanence of forgetting, the idempotency of keyed
  mutations (the locale \<open>idempotent_ledger\<close> interpreted on \<open>create_memory\<close>), and historical recall.
\<close>

subsection \<open>Single statements\<close>

named_theorems mem_ops "definitions of the statements of the memory tables"

lemma stored_item_simps [simp]:
  "mi_id (stored_item env i) = mi_id i" "mi_memory_type (stored_item env i) = mi_memory_type i"
  "mi_scope (stored_item env i) = mi_scope i" "mi_content (stored_item env i) = mi_content i"
  "mi_lifecycle (stored_item env i) = mi_lifecycle i" "mi_valid_from (stored_item env i) = mi_valid_from i"
  "mi_valid_until (stored_item env i) = mi_valid_until i" "mi_created_at (stored_item env i) = mi_created_at i"
  "mi_superseded_at (stored_item env i) = mi_superseded_at i"
  "mi_superseded_by (stored_item env i) = mi_superseded_by i"
  "mi_forgotten_at (stored_item env i) = mi_forgotten_at i"
  by (simp_all add: stored_item_def)

lemma add_item_Inr:
  "add_item env i d = Inr d' \<Longrightarrow> d' = d\<lparr>memory_items := memory_items d @ [stored_item env i]\<rparr>
     \<and> memory_item_row_ok (me_pg_space env) (stored_item env i) \<and> mi_id i \<notin> mi_id ` set (memory_items d)"
  by (auto simp: add_item_def Let_def split: if_splits)

lemma add_provenance_Inr:
  "add_provenance p d = Inr d' \<Longrightarrow> d' = d\<lparr>memory_provenances := memory_provenances d @ [p]\<rparr>
     \<and> memory_provenance_row_ok p"
  by (auto simp: add_provenance_def split: if_splits)

lemma add_ledger_Inr:
  "add_ledger l d = Inr d' \<Longrightarrow> d' = d\<lparr>memory_ledger := memory_ledger d @ [l]\<rparr> \<and> memory_ledger_row_ok l
     \<and> ml_id l \<notin> ml_id ` set (memory_ledger d) \<and> ml_idempotency_key l \<notin> ml_idempotency_key ` set (memory_ledger d)
     \<and> item_exists d (ml_target_memory_id l) \<and> item_exists d (ml_result_memory_id l)"
  by (auto simp: add_ledger_def split: if_splits)

lemma update_item_Inr:
  "update_item env i d = Inr d' \<Longrightarrow> d' = d\<lparr>memory_items := row_put mi_id i (memory_items d)\<rparr>
     \<and> memory_item_row_ok (me_pg_space env) i \<and> distinct (superseded_bys (row_put mi_id i (memory_items d)))
     \<and> item_exists d (mi_superseded_by i)"
  by (auto simp: update_item_def split: if_splits)

lemma update_provenance_Inr:
  "update_provenance p d = Inr d' \<Longrightarrow>
   d' = d\<lparr>memory_provenances := row_put mp_memory_id p (memory_provenances d)\<rparr> \<and> memory_provenance_row_ok p"
  by (auto simp: update_provenance_def split: if_splits)

lemma update_ledger_Inr:
  "update_ledger l d = Inr d' \<Longrightarrow> d' = d\<lparr>memory_ledger := row_put ml_id l (memory_ledger d)\<rparr>
     \<and> item_exists d (ml_result_memory_id l)"
  by (auto simp: update_ledger_def split: if_splits)

subsection \<open>The table invariant\<close>

text \<open>Supersession points forward in the order of insertion.\<close>

definition forward_lineage :: "memory_item list \<Rightarrow> bool" where
  "forward_lineage rows \<longleftrightarrow> sorted_wrt (\<lambda>a b. mi_superseded_by b \<noteq> Some (mi_id a)) rows"

definition scrubbed :: "memory_provenance \<Rightarrow> bool" where
  "scrubbed p \<longleftrightarrow> scrubbed_provenance p = p"

definition ledger_settled :: "mem_db \<Rightarrow> memory_ledger_entry \<Rightarrow> bool" where
  "ledger_settled d l \<longleftrightarrow> (\<exists>r. ml_result_memory_id l = Some r \<and> get_item r d \<noteq> None
     \<and> (case ml_operation l of
          Op_CREATE \<Rightarrow> True
        | Op_SUPERSEDE \<Rightarrow> (\<exists>k i. ml_target_memory_id l = Some k \<and> get_item k d = Some i \<and> mi_superseded_by i = Some r)
        | Op_FORGET \<Rightarrow> (\<exists>i. ml_target_memory_id l = Some r \<and> get_item r d = Some i \<and> mi_lifecycle i = Mem_FORGOTTEN)))"

definition mem_ok :: "(nat \<Rightarrow> bool) \<Rightarrow> mem_db \<Rightarrow> bool" where
  "mem_ok sp d \<longleftrightarrow>
     distinct (map mi_id (memory_items d)) \<and> list_all (memory_item_row_ok sp) (memory_items d)
     \<and> map mp_memory_id (memory_provenances d) = map mi_id (memory_items d)
     \<and> list_all memory_provenance_row_ok (memory_provenances d)
     \<and> distinct (superseded_bys (memory_items d)) \<and> forward_lineage (memory_items d)
     \<and> (\<forall>i \<in> set (memory_items d). item_exists d (mi_superseded_by i))
     \<and> (\<forall>i \<in> set (memory_items d). mi_lifecycle i = Mem_FORGOTTEN \<longrightarrow>
          (\<exists>p. get_provenance (mi_id i) d = Some p \<and> scrubbed p))
     \<and> distinct (map ml_id (memory_ledger d)) \<and> distinct (map ml_idempotency_key (memory_ledger d))
     \<and> list_all memory_ledger_row_ok (memory_ledger d) \<and> list_all (ledger_settled d) (memory_ledger d)"

lemma mem_okD:
  assumes "mem_ok sp d"
  shows "distinct (map mi_id (memory_items d))" "list_all (memory_item_row_ok sp) (memory_items d)"
    "map mp_memory_id (memory_provenances d) = map mi_id (memory_items d)"
    "list_all memory_provenance_row_ok (memory_provenances d)" "distinct (superseded_bys (memory_items d))"
    "forward_lineage (memory_items d)" "i \<in> set (memory_items d) \<Longrightarrow> item_exists d (mi_superseded_by i)"
    "\<lbrakk>i \<in> set (memory_items d); mi_lifecycle i = Mem_FORGOTTEN\<rbrakk> \<Longrightarrow> \<exists>p. get_provenance (mi_id i) d = Some p \<and> scrubbed p"
    "distinct (map ml_id (memory_ledger d))" "distinct (map ml_idempotency_key (memory_ledger d))"
    "list_all memory_ledger_row_ok (memory_ledger d)" "list_all (ledger_settled d) (memory_ledger d)"
  using assms unfolding mem_ok_def by blast+

lemma mem_okI:
  assumes "distinct (map mi_id (memory_items d))" "list_all (memory_item_row_ok sp) (memory_items d)"
    "map mp_memory_id (memory_provenances d) = map mi_id (memory_items d)"
    "list_all memory_provenance_row_ok (memory_provenances d)" "distinct (superseded_bys (memory_items d))"
    "forward_lineage (memory_items d)" "\<And>i. i \<in> set (memory_items d) \<Longrightarrow> item_exists d (mi_superseded_by i)"
    "\<And>i. \<lbrakk>i \<in> set (memory_items d); mi_lifecycle i = Mem_FORGOTTEN\<rbrakk> \<Longrightarrow> \<exists>p. get_provenance (mi_id i) d = Some p \<and> scrubbed p"
    "distinct (map ml_id (memory_ledger d))" "distinct (map ml_idempotency_key (memory_ledger d))"
    "list_all memory_ledger_row_ok (memory_ledger d)" "list_all (ledger_settled d) (memory_ledger d)"
  shows "mem_ok sp d"
  using assms unfolding mem_ok_def by blast

lemma get_item_SomeD: "get_item k d = Some i \<Longrightarrow> i \<in> set (memory_items d) \<and> mi_id i = k"
  by (auto simp: get_item_def dest: row_get_SomeD)

lemma get_item_None: "get_item k d = None \<longleftrightarrow> k \<notin> mi_id ` set (memory_items d)"
  by (simp add: get_item_def row_get_None_iff)

lemma get_item_mem: "mem_ok sp d \<Longrightarrow> i \<in> set (memory_items d) \<Longrightarrow> get_item (mi_id i) d = Some i"
  by (simp add: get_item_def mem_ok_def row_get_keyed keyed_def)

lemma get_provenance_SomeD: "get_provenance k d = Some p \<Longrightarrow> p \<in> set (memory_provenances d) \<and> mp_memory_id p = k"
  by (auto simp: get_provenance_def dest: row_get_SomeD)

lemma provenance_exists: "mem_ok sp d \<Longrightarrow> get_item k d = Some i \<Longrightarrow> \<exists>p. get_provenance k d = Some p"
proof -
  assume ok: "mem_ok sp d" and i: "get_item k d = Some i"
  have "k \<in> set (map mi_id (memory_items d))" using i by (auto dest: get_item_SomeD)
  then have "k \<in> set (map mp_memory_id (memory_provenances d))" using ok by (simp only: mem_ok_def)
  then have "get_provenance k d \<noteq> None" unfolding get_provenance_def row_get_None_iff by auto
  then show ?thesis by blast
qed

lemma get_ledger_SomeD: "get_ledger k d = Some l \<Longrightarrow> l \<in> set (memory_ledger d) \<and> ml_idempotency_key l = k"
  unfolding get_ledger_def by (rule find_set)

lemma get_ledger_mem: "mem_ok sp d \<Longrightarrow> l \<in> set (memory_ledger d) \<Longrightarrow> get_ledger (ml_idempotency_key l) d = Some l"
  unfolding get_ledger_def mem_ok_def by (simp add: find_distinct)

lemma get_ledger_None: "get_ledger k d = None \<longleftrightarrow> k \<notin> ml_idempotency_key ` set (memory_ledger d)"
  unfolding get_ledger_def find_None_iff by auto

subsection \<open>What a mutation keeps of every item\<close>

text \<open>Identity, type and creation time never change; content, scope, confidence and validity change only by
  being forgotten; a supersession and a tombstone are final.\<close>

definition item_kept :: "memory_item \<Rightarrow> memory_item \<Rightarrow> bool" where
  "item_kept i i' \<longleftrightarrow> mi_id i' = mi_id i \<and> mi_memory_type i' = mi_memory_type i \<and> mi_created_at i' = mi_created_at i
     \<and> (mi_superseded_by i \<noteq> None \<longrightarrow> mi_superseded_by i' = mi_superseded_by i \<and> mi_superseded_at i' = mi_superseded_at i)
     \<and> (mi_lifecycle i = Mem_FORGOTTEN \<longrightarrow> i' = i)
     \<and> (mi_lifecycle i' = Mem_FORGOTTEN \<or> mi_content i' = mi_content i \<and> mi_scope i' = mi_scope i
         \<and> mi_embedding i' = mi_embedding i \<and> mi_confidence i' = mi_confidence i
         \<and> mi_valid_from i' = mi_valid_from i \<and> mi_valid_until i' = mi_valid_until i)"

definition items_kept :: "mem_db \<Rightarrow> mem_db \<Rightarrow> bool" where
  "items_kept d d' \<longleftrightarrow> (\<forall>k i. get_item k d = Some i \<longrightarrow> (\<exists>i'. get_item k d' = Some i' \<and> item_kept i i'))"

lemma item_kept_refl [simp]: "item_kept i i" by (simp add: item_kept_def)

lemma item_kept_trans: "item_kept a b \<Longrightarrow> item_kept b c \<Longrightarrow> item_kept a c"
  unfolding item_kept_def by (cases "mi_lifecycle b = Mem_FORGOTTEN") auto

lemma items_kept_refl [simp]: "items_kept d d" by (simp add: items_kept_def)

lemma items_kept_trans: "items_kept a b \<Longrightarrow> items_kept b c \<Longrightarrow> items_kept a c"
  unfolding items_kept_def by (meson item_kept_trans)

lemma settled_kept: "items_kept d d' \<Longrightarrow> ledger_settled d l \<Longrightarrow> ledger_settled d' l"
  unfolding ledger_settled_def items_kept_def item_kept_def
  by (cases "ml_operation l") (auto, (metis option.distinct(1) option.inject)+)

lemma item_exists_kept: "items_kept d d' \<Longrightarrow> item_exists d k \<Longrightarrow> item_exists d' k"
  by (cases k) (auto simp: item_exists_def items_kept_def)

subsection \<open>The four shapes of a committed state\<close>

definition insert_pair :: "memory_item \<Rightarrow> memory_provenance \<Rightarrow> mem_db \<Rightarrow> mem_db" where
  "insert_pair i p d = d\<lparr>memory_items := memory_items d @ [i], memory_provenances := memory_provenances d @ [p]\<rparr>"

definition log_entry :: "memory_ledger_entry option \<Rightarrow> mem_db \<Rightarrow> mem_db" where
  "log_entry entry d = d\<lparr>memory_ledger := memory_ledger d @ (case entry of None \<Rightarrow> [] | Some l \<Rightarrow> [l])\<rparr>"

definition put_item :: "memory_item \<Rightarrow> mem_db \<Rightarrow> mem_db" where
  "put_item i d = d\<lparr>memory_items := row_put mi_id i (memory_items d)\<rparr>"

definition put_provenance :: "memory_provenance \<Rightarrow> mem_db \<Rightarrow> mem_db" where
  "put_provenance p d = d\<lparr>memory_provenances := row_put mp_memory_id p (memory_provenances d)\<rparr>"

lemma get_item_frames [simp]:
  "get_item k (log_entry e d) = get_item k d" "get_item k (put_provenance p d) = get_item k d"
  "get_provenance k (log_entry e d) = get_provenance k d" "get_provenance k (put_item i d) = get_provenance k d"
  "get_ledger key (insert_pair i p d) = get_ledger key d" "get_ledger key (put_item i d) = get_ledger key d"
  "get_ledger key (put_provenance p d) = get_ledger key d"
  by (simp_all add: get_item_def get_provenance_def get_ledger_def log_entry_def put_provenance_def put_item_def
      insert_pair_def)

lemma row_get_snoc: "row_get key k (rows @ [r]) = (case row_get key k rows of None \<Rightarrow> if key r = k then Some r else None | Some x \<Rightarrow> Some x)"
  by (induction rows) (auto simp: row_get_Cons)

lemma get_item_insert:
  "mi_id i \<notin> mi_id ` set (memory_items d) \<Longrightarrow>
   get_item k (insert_pair i p d) = (if k = mi_id i then Some i else get_item k d)"
  by (auto simp: get_item_def insert_pair_def row_get_snoc row_get_None_iff[symmetric] split: option.splits)

lemma get_provenance_insert:
  "mp_memory_id p \<notin> mp_memory_id ` set (memory_provenances d) \<Longrightarrow>
   get_provenance k (insert_pair i p d) = (if k = mp_memory_id p then Some p else get_provenance k d)"
  by (auto simp: get_provenance_def insert_pair_def row_get_snoc row_get_None_iff[symmetric] split: option.splits)

lemma get_item_put: "get_item (mi_id i) d = Some i0 \<Longrightarrow> get_item k (put_item i d) = (if k = mi_id i then Some i else get_item k d)"
  using list_store.get_after_put[of mi_id "mi_id i" "memory_items d" i0 i]
  by (simp add: get_item_def put_item_def row_get_put_other)

lemma get_provenance_put:
  "get_provenance (mp_memory_id p) d = Some p0 \<Longrightarrow>
   get_provenance k (put_provenance p d) = (if k = mp_memory_id p then Some p else get_provenance k d)"
  using list_store.get_after_put[of mp_memory_id "mp_memory_id p" "memory_provenances d" p0 p]
  by (simp add: get_provenance_def put_provenance_def row_get_put_other)

lemma get_ledger_log:
  "ml_idempotency_key l \<notin> ml_idempotency_key ` set (memory_ledger d) \<Longrightarrow>
   get_ledger key (log_entry (Some l) d) = (if key = ml_idempotency_key l then Some l else get_ledger key d)"
  unfolding get_ledger_def log_entry_def
  by (cases "List.find (\<lambda>l. ml_idempotency_key l = key) (memory_ledger d)")
    (auto simp: find_snoc image_iff dest!: find_set)

subsection \<open>Each shape keeps the invariant\<close>

lemma ledger_settled_frames: "list_all (ledger_settled d) ls \<Longrightarrow> items_kept d d' \<Longrightarrow> list_all (ledger_settled d') ls"
  by (auto simp: list_all_iff intro: settled_kept)

lemma superseded_bys_snoc:
  "superseded_bys (rows @ [i]) = superseded_bys rows @ (case mi_superseded_by i of None \<Rightarrow> [] | Some k \<Rightarrow> [k])"
  by (auto simp: superseded_bys_def split: option.splits)

lemma insert_kept:
  assumes "mi_id i \<notin> mi_id ` set (memory_items d)"
  shows "items_kept d (insert_pair i p d)"
proof -
  have "get_item (mi_id i) d = None" using assms by (simp add: get_item_None)
  then show ?thesis by (auto simp: items_kept_def get_item_insert[OF assms])
qed

lemma insert_ok:
  assumes ok: "mem_ok sp d" and row: "memory_item_row_ok sp i" "mi_lifecycle i = Mem_ACTIVE"
    and fresh: "mi_id i \<notin> mi_id ` set (memory_items d)"
    and p: "memory_provenance_row_ok p" "mp_memory_id p = mi_id i"
  shows "mem_ok sp (insert_pair i p d)"
proof -
  let ?d = "insert_pair i p d"
  note D = mem_okD[OF ok]
  have sel: "memory_items ?d = memory_items d @ [i]" "memory_provenances ?d = memory_provenances d @ [p]"
    "memory_ledger ?d = memory_ledger d" by (simp_all add: insert_pair_def)
  have sb: "mi_superseded_by i = None" using row by (simp add: memory_item_row_ok_def)
  have pfresh: "mp_memory_id p \<notin> mp_memory_id ` set (memory_provenances d)"
    using fresh p(2) D(3) by (metis list.set_map)
  have gp: "get_provenance k ?d = (if k = mi_id i then Some p else get_provenance k d)" for k
    using get_provenance_insert[OF pfresh] p(2) by simp
  note kept = insert_kept[OF fresh, of p]
  show ?thesis
  proof (rule mem_okI)
    show "forward_lineage (memory_items ?d)"
      using D(6) sb by (simp add: forward_lineage_def sel sorted_wrt_append)
    show "item_exists ?d (mi_superseded_by x)" if "x \<in> set (memory_items ?d)" for x
      using that D(7) sb item_exists_kept[OF kept] by (auto simp: sel item_exists_def[of _ None])
    show "\<exists>q. get_provenance (mi_id x) ?d = Some q \<and> scrubbed q"
      if "x \<in> set (memory_items ?d)" "mi_lifecycle x = Mem_FORGOTTEN" for x
    proof -
      have "x \<in> set (memory_items d)" using that row(2) by (auto simp: sel)
      moreover from this have "mi_id x \<noteq> mi_id i" using fresh by (metis imageI)
      ultimately show ?thesis using D(8)[of x] that(2) by (simp add: gp)
    qed
    show "list_all (ledger_settled ?d) (memory_ledger ?d)"
      using ledger_settled_frames[OF D(12) kept] by (simp add: sel)
  qed (use D fresh sb row p in \<open>simp_all add: sel superseded_bys_snoc\<close>)
qed

lemma log_ok:
  assumes ok: "mem_ok sp d" and l: "memory_ledger_row_ok l" "ledger_settled d l"
    "ml_id l \<notin> ml_id ` set (memory_ledger d)" "ml_idempotency_key l \<notin> ml_idempotency_key ` set (memory_ledger d)"
  shows "mem_ok sp (log_entry (Some l) d)"
proof -
  let ?d = "log_entry (Some l) d"
  note D = mem_okD[OF ok]
  have sel: "memory_items ?d = memory_items d" "memory_provenances ?d = memory_provenances d"
    "memory_ledger ?d = memory_ledger d @ [l]" by (simp_all add: log_entry_def)
  have kept: "items_kept d ?d" by (simp add: items_kept_def)
  have ex: "item_exists ?d k = item_exists d k" for k by (simp add: item_exists_def)
  show ?thesis
  proof (rule mem_okI)
    show "list_all (ledger_settled ?d) (memory_ledger ?d)"
      using ledger_settled_frames[OF D(12) kept] settled_kept[OF kept l(2)] by (simp add: sel)
  qed (use D l ex in \<open>simp_all add: sel\<close>)
qed

lemma row_put_snoc: "row_put key r (rows @ [x]) = row_put key r rows @ [if key x = key r then r else x]"
  by (simp add: row_put_def)

lemma forward_put:
  assumes "forward_lineage rows" "\<forall>a \<in> set rows. mi_superseded_by i \<noteq> Some (mi_id a) \<or> mi_superseded_by i = mi_superseded_by i0"
    and "i0 \<in> set rows" "mi_id i0 = mi_id i" "distinct (map mi_id rows)"
  shows "forward_lineage (row_put mi_id i rows)"
  using assms unfolding forward_lineage_def
proof (induction rows)
  case (Cons x rows)
  show ?case
  proof (cases "mi_id x = mi_id i")
    case True
    then have "mi_id i \<notin> mi_id ` set rows" using Cons.prems(5) by auto
    then have "row_put mi_id i (x # rows) = i # rows" using True by (simp add: row_put_def row_put_absent[unfolded row_put_def])
    then show ?thesis using Cons.prems True by simp
  next
    case False
    then have mem: "i0 \<in> set rows" using Cons.prems(3,4) by auto
    have "sorted_wrt (\<lambda>a b. mi_superseded_by b \<noteq> Some (mi_id a)) (row_put mi_id i rows)"
      using Cons mem by auto
    moreover have "mi_superseded_by b \<noteq> Some (mi_id x)" if "b \<in> set (row_put mi_id i rows)" for b
      using set_row_put_cases[OF that] Cons.prems(1,2) mem by auto
    ultimately show ?thesis using False by (simp add: row_put_def)
  qed
qed simp

text \<open>Linking a superseded item to its replacement.\<close>

lemma row_put_cases:
  assumes "row_get key (key r) rows = Some r0" "keyed key rows" "x \<in> set (row_put key r rows)"
  obtains "x = r" | "x \<in> set rows" "key x \<noteq> key r" "row_get key (key x) rows = Some x"
  using set_row_put_cases[OF assms(3)] row_get_keyed[OF assms(2)] by blast

lemma list_all_put: "list_all P rows \<Longrightarrow> P r \<Longrightarrow> list_all P (row_put key r rows)"
  by (rule list_all_row_put)

lemma put_item_sel [simp]:
  "memory_items (put_item i d) = row_put mi_id i (memory_items d)"
  "memory_provenances (put_item i d) = memory_provenances d" "memory_ledger (put_item i d) = memory_ledger d"
  by (simp_all add: put_item_def)

lemma put_provenance_sel [simp]:
  "memory_items (put_provenance p d) = memory_items d"
  "memory_provenances (put_provenance p d) = row_put mp_memory_id p (memory_provenances d)"
  "memory_ledger (put_provenance p d) = memory_ledger d"
  by (simp_all add: put_provenance_def)

lemma put_kept:
  assumes "get_item (mi_id i) d = Some i0" "item_kept i0 i"
  shows "items_kept d (put_item i d)"
  using assms by (auto simp: items_kept_def get_item_put)

lemma put_item_ok:
  assumes ok: "mem_ok sp d" and i0: "get_item (mi_id i) d = Some i0" and row: "memory_item_row_ok sp i"
    and kept: "item_kept i0 i" and uniq: "distinct (superseded_bys (row_put mi_id i (memory_items d)))"
    and ex: "item_exists d (mi_superseded_by i)"
    and link: "mi_superseded_by i = mi_superseded_by i0 \<or> (\<forall>a \<in> set (memory_items d). mi_superseded_by i \<noteq> Some (mi_id a))
      \<or> forward_lineage (row_put mi_id i (memory_items d))"
    and alive: "mi_lifecycle i = Mem_FORGOTTEN \<Longrightarrow> \<exists>p. get_provenance (mi_id i) d = Some p \<and> scrubbed p"
  shows "mem_ok sp (put_item i d)"
proof -
  let ?d = "put_item i d"
  note D = mem_okD[OF ok]
  have get: "row_get mi_id (mi_id i) (memory_items d) = Some i0" using i0 by (simp add: get_item_def)
  have i0m: "i0 \<in> set (memory_items d)" "mi_id i0 = mi_id i" using i0 by (auto dest: get_item_SomeD)
  have keyed: "keyed mi_id (memory_items d)" using D(1) by (simp add: keyed_def)
  note ik = put_kept[OF i0 kept]
  show ?thesis
  proof (rule mem_okI)
    show "forward_lineage (memory_items ?d)"
      using link forward_put[OF D(6) _ i0m D(1)] by auto
    show "item_exists ?d (mi_superseded_by x)" if "x \<in> set (memory_items ?d)" for x
      using row_put_cases[OF get keyed] that D(7) ex item_exists_kept[OF ik] by (metis put_item_sel(1))
    show "\<exists>q. get_provenance (mi_id x) ?d = Some q \<and> scrubbed q"
      if "x \<in> set (memory_items ?d)" "mi_lifecycle x = Mem_FORGOTTEN" for x
      using row_put_cases[OF get keyed] that D(8)[of x] alive by (metis put_item_sel(1) get_item_frames(4))
    show "list_all (ledger_settled ?d) (memory_ledger ?d)"
      using ledger_settled_frames[OF D(12) ik] by simp
  qed (use D row uniq in \<open>simp_all add: list_all_row_put\<close>)
qed

lemma put_provenance_ok:
  assumes ok: "mem_ok sp d" and p0: "get_provenance (mp_memory_id p) d = Some p0"
    and row: "memory_provenance_row_ok p" and scr: "scrubbed p"
  shows "mem_ok sp (put_provenance p d)"
proof -
  let ?d = "put_provenance p d"
  note D = mem_okD[OF ok]
  have kept: "items_kept d ?d" by (simp add: items_kept_def)
  have ex: "item_exists ?d k = item_exists d k" for k by (simp add: item_exists_def)
  show ?thesis
  proof (rule mem_okI)
    show "\<exists>q. get_provenance (mi_id x) ?d = Some q \<and> scrubbed q"
      if "x \<in> set (memory_items ?d)" "mi_lifecycle x = Mem_FORGOTTEN" for x
      using D(8)[of x] that scr by (auto simp: get_provenance_put[OF p0])
    show "list_all (ledger_settled ?d) (memory_ledger ?d)"
      using ledger_settled_frames[OF D(12) kept] by simp
  qed (use D row ex in \<open>simp_all add: list_all_row_put\<close>)
qed

lemma forward_link:
  assumes "forward_lineage rows" "distinct (map mi_id (rows @ [new]))" "mi_superseded_by new = None"
    and "old \<in> set rows" "mi_id old' = mi_id old" "mi_superseded_by old' = Some (mi_id new)"
  shows "forward_lineage (row_put mi_id old' (rows @ [new]))"
proof -
  have fresh: "\<forall>a \<in> set rows. mi_id a \<noteq> mi_id new" using assms(2) by (auto simp: image_iff)
  have "forward_lineage (row_put mi_id old' rows)"
  proof (rule forward_put)
    show "forward_lineage rows" "old \<in> set rows" "mi_id old = mi_id old'" using assms by simp_all
    show "\<forall>a \<in> set rows. mi_superseded_by old' \<noteq> Some (mi_id a) \<or> mi_superseded_by old' = mi_superseded_by old"
      using fresh assms(6) by auto
    show "distinct (map mi_id rows)" using assms(2) by simp
  qed
  moreover have "mi_id new \<noteq> mi_id old'" using fresh assms(4,5) by metis
  ultimately show ?thesis using assms(3) by (simp add: row_put_snoc forward_lineage_def sorted_wrt_append)
qed

subsection \<open>The bodies\<close>

definition fresh_entry :: "mem_db \<Rightarrow> memory_ledger_entry option \<Rightarrow> bool" where
  "fresh_entry d entry = opt_all (\<lambda>l. memory_ledger_row_ok l \<and> ml_id l \<notin> ml_id ` set (memory_ledger d)
     \<and> ml_idempotency_key l \<notin> ml_idempotency_key ` set (memory_ledger d)) entry"

definition entry_for ::
  "cognitive_memory_operation \<Rightarrow> uuid option \<Rightarrow> uuid \<Rightarrow> (string \<times> string) option \<Rightarrow> memory_ledger_entry option \<Rightarrow> bool" where
  "entry_for operation target result claimed entry \<longleftrightarrow>
     (case (claimed, entry) of
        (None, None) \<Rightarrow> True
      | (Some (key, digest), Some l) \<Rightarrow> ml_idempotency_key l = key \<and> ml_request_digest l = digest
          \<and> ml_operation l = operation \<and> ml_target_memory_id l = target \<and> ml_result_memory_id l = Some result
      | _ \<Rightarrow> False)"

lemma log_entry_None [simp]: "log_entry None d = d" by (simp add: log_entry_def)

lemma log_entry_ok:
  assumes "mem_ok sp d" "fresh_entry d0 entry" "memory_ledger d = memory_ledger d0"
    and "entry_for operation target result claimed entry" "\<And>l. entry = Some l \<Longrightarrow> ledger_settled d l"
  shows "mem_ok sp (log_entry entry d)"
  using assms log_ok by (cases entry) (auto simp: fresh_entry_def)

lemma resolve_winner_Inr:
  "resolve_winner d key operation digest answer = Inr x \<Longrightarrow>
   \<exists>l. get_ledger key d = Some l \<and> ml_operation l = operation \<and> ml_request_digest l = digest \<and> answer l = Inr x"
  by (auto simp: resolve_winner_def bindE_eq_Inr_iff require_same_operation_and_digest_def
      split: option.splits if_splits)

text \<open>Each body either replays the entry of its key and writes nothing, or commits one of the shapes.\<close>

lemma create_body_cases:
  assumes "create_body env r claimed embedding d = Inr (res, d')"
  obtains (replay) k h l where "d' = d" "claimed = Some (k, h)" "get_ledger k d = Some l"
      "ml_operation l = Op_CREATE" "ml_request_digest l = h" "hydrate d (ml_result_memory_id l) = Inr res"
  | (created) entry i where "i = stored_item env (new_item env (cr_memory_type r) (Some (cr_scope r)) (cr_fields r) embedding)"
      "d' = log_entry entry (insert_pair i (new_provenance env (cr_fields r)) d)"
      "memory_item_row_ok (me_pg_space env) i" "me_uuid env 0 \<notin> mi_id ` set (memory_items d)"
      "memory_provenance_row_ok (new_provenance env (cr_fields r))" "fresh_entry d entry"
      "entry_for Op_CREATE None (me_uuid env 0) claimed entry"
      "res = memory_item_result (new_item env (cr_memory_type r) (Some (cr_scope r)) (cr_fields r) embedding)
         (new_provenance env (cr_fields r))"
proof -
  let ?i = "new_item env (cr_memory_type r) (Some (cr_scope r)) (cr_fields r) embedding"
  let ?p = "new_provenance env (cr_fields r)"
  have id: "mi_id ?i = me_uuid env 0" by (simp add: new_item_def)
  show thesis
  proof (cases claimed)
    case None
    then obtain d1 where "add_item env ?i d = Inr d1" "add_provenance ?p d1 = Inr d'" "res = memory_item_result ?i ?p"
      using assms by (auto simp: create_body_def Let_def bindE_eq_Inr_iff)
    then show thesis
      using created[of "stored_item env ?i" None] None add_item_Inr[of env ?i d d1] add_provenance_Inr[of ?p d1 d'] id
      by (auto simp: fresh_entry_def entry_for_def insert_pair_def)
  next
    case (Some kh)
    obtain k h where kh: "claimed = Some (k, h)" using Some by (cases kh) auto
    define l where "l = \<lparr>ml_id = me_uuid env 1, ml_idempotency_key = k, ml_operation = Op_CREATE,
      ml_request_digest = h, ml_target_memory_id = None, ml_result_memory_id = Some (mi_id ?i)\<rparr>"
    show thesis
    proof (cases "bindE (add_item env ?i d) (\<lambda>d1. bindE (add_provenance ?p d1) (add_ledger l))")
      case (Inr d3)
      then obtain d1 d2 where d12: "add_item env ?i d = Inr d1" "add_provenance ?p d1 = Inr d2" "add_ledger l d2 = Inr d3"
        by (auto simp: bindE_eq_Inr_iff)
      have res: "d' = d3" "res = memory_item_result ?i ?p"
        using assms kh Inr by (simp_all add: create_body_def Let_def l_def)
      show thesis
        using created[of "stored_item env ?i" "Some l"] add_item_Inr[OF d12(1)] add_provenance_Inr[OF d12(2)]
          add_ledger_Inr[OF d12(3)] res id kh
        by (auto simp: fresh_entry_def entry_for_def insert_pair_def log_entry_def l_def)
    next
      case (Inl e)
      then have "is_cognitive_idempotency_key_unique_violation e"
        "bindE (resolve_winner d k Op_CREATE h (\<lambda>l. hydrate d (ml_result_memory_id l))) (\<lambda>result. Inr (result, d)) = Inr (res, d')"
        using assms kh by (auto simp: create_body_def Let_def l_def split: if_splits)
      then show thesis using replay kh by (auto simp: bindE_eq_Inr_iff dest!: resolve_winner_Inr)
    qed
  qed
qed

lemma put_ledger_log:
  assumes "ml_id l \<notin> ml_id ` set (memory_ledger d)" "memory_ledger d' = memory_ledger d @ [l]" "ml_id l' = ml_id l"
  shows "row_put ml_id l' (memory_ledger d') = memory_ledger d @ [l']"
  using assms by (simp add: row_put_snoc row_put_absent)

lemma record_outcome_cases:
  assumes "record_outcome entry result d1 = Inr d2"
    and "case entry of None \<Rightarrow> memory_ledger d1 = ls
      | Some l \<Rightarrow> memory_ledger d1 = ls @ [l] \<and> ml_id l \<notin> ml_id ` set ls"
  shows "d2 = d1\<lparr>memory_ledger := ls @ (case entry of None \<Rightarrow> [] | Some l \<Rightarrow> [l\<lparr>ml_result_memory_id := Some result\<rparr>])\<rparr>"
proof (cases entry)
  case None
  then show ?thesis using assms by (simp add: record_outcome_def)
next
  case (Some l)
  then have "d2 = d1\<lparr>memory_ledger := row_put ml_id (l\<lparr>ml_result_memory_id := Some result\<rparr>) (memory_ledger d1)\<rparr>"
    using assms(1) by (auto simp: record_outcome_def dest: update_ledger_Inr)
  then show ?thesis using Some assms(2) by (simp add: row_put_snoc row_put_absent)
qed

text \<open>The claim of a key inside a mutation of an existing item.\<close>

lemma claim_cases:
  assumes "(case claim_ledger env operation k claimed of
       None \<Rightarrow> body None d
     | Some l \<Rightarrow>
       (case add_ledger l d of
          Inr d1 \<Rightarrow> body (Some l) d1
        | Inl e \<Rightarrow> if \<not> is_cognitive_idempotency_key_unique_violation e then Inl e
            else bindE (resolve_winner d (ml_idempotency_key l) operation (ml_request_digest l) answer)
                   (\<lambda>result. Inr (result, d)))) = Inr (res, d')"
  obtains (replay) key h l where "d' = d" "claimed = Some (key, h)" "get_ledger key d = Some l"
      "ml_operation l = operation" "ml_request_digest l = h" "answer l = Inr res"
  | (claimed) entry d1 where "body entry d1 = Inr (res, d')" "entry = claim_ledger env operation k claimed"
      "d1 = log_entry entry d" "fresh_entry d entry"
proof (cases claimed)
  case None
  then show thesis using assms claimed[of None d] by (simp add: claim_ledger_def fresh_entry_def)
next
  case (Some kh)
  obtain key h where kh: "claimed = Some (key, h)" using Some by (cases kh) auto
  then obtain l where l: "claim_ledger env operation k claimed = Some l" "ml_idempotency_key l = key"
    "ml_request_digest l = h" by (simp add: claim_ledger_def)
  show thesis
  proof (cases "add_ledger l d")
    case (Inl e)
    then show thesis using assms l kh replay
      by (auto simp: bindE_eq_Inr_iff split: if_splits dest!: resolve_winner_Inr)
  next
    case (Inr d1)
    then have body: "body (Some l) d1 = Inr (res, d')" using assms l by simp
    show thesis using claimed[OF body l(1)[symmetric]] add_ledger_Inr[OF Inr]
      by (simp add: fresh_entry_def log_entry_def)
  qed
qed

definition settled_entry :: "mem_env \<Rightarrow> cognitive_memory_operation \<Rightarrow> uuid \<Rightarrow> uuid \<Rightarrow> (string \<times> string) option \<Rightarrow>
    memory_ledger_entry option" where
  "settled_entry env operation k result claimed =
     map_option (\<lambda>l. l\<lparr>ml_result_memory_id := Some result\<rparr>) (claim_ledger env operation k claimed)"

lemma settled_entry_for: "entry_for operation (Some k) result claimed (settled_entry env operation k result claimed)"
  by (cases claimed) (auto simp: entry_for_def settled_entry_def claim_ledger_def)

lemma fresh_settled: "fresh_entry d (claim_ledger env operation k claimed) \<Longrightarrow> operation \<noteq> Op_CREATE \<Longrightarrow>
    fresh_entry d (settled_entry env operation k result claimed)"
  by (cases claimed) (auto simp: fresh_entry_def settled_entry_def claim_ledger_def memory_ledger_row_ok_def)

lemma ledger_of_claim:
  "fresh_entry d entry \<Longrightarrow> case entry of None \<Rightarrow> memory_ledger (log_entry entry d) = memory_ledger d
     | Some l \<Rightarrow> memory_ledger (log_entry entry d) = memory_ledger d @ [l] \<and> ml_id l \<notin> ml_id ` set (memory_ledger d)"
  by (cases entry) (auto simp: log_entry_def fresh_entry_def)

lemma settled_ledger:
  "(case claim_ledger env operation k claimed of None \<Rightarrow> [] | Some l \<Rightarrow> [l\<lparr>ml_result_memory_id := Some result\<rparr>])
     = (case settled_entry env operation k result claimed of None \<Rightarrow> [] | Some l \<Rightarrow> [l])"
  by (cases claimed) (auto simp: settled_entry_def claim_ledger_def)

definition superseded_item :: "mem_env \<Rightarrow> memory_item \<Rightarrow> memory_item" where
  "superseded_item env old = old\<lparr>mi_lifecycle := Mem_SUPERSEDED, mi_superseded_at := Some (me_utc_now env),
     mi_superseded_by := Some (me_uuid env 0)\<rparr>"

lemma supersede_body_cases:
  assumes "supersede_body env k r claimed embedding d = Inr (res, d')"
  obtains (replay) key h l where "d' = d" "claimed = Some (key, h)" "get_ledger key d = Some l"
      "ml_operation l = Op_SUPERSEDE" "ml_request_digest l = h"
      "hydrate_supersede d k (ml_result_memory_id l) = Inr res"
  | (superseded) old old_p i p where "get_item k d = Some old" "mi_lifecycle old = Mem_ACTIVE"
      "get_provenance k d = Some old_p" "p = new_provenance env r"
      "i = stored_item env (new_item env (mi_memory_type old) (mi_scope old) r embedding)"
      "d' = log_entry (settled_entry env Op_SUPERSEDE k (me_uuid env 0) claimed)
              (put_item (superseded_item env old) (insert_pair i p d))"
      "memory_item_row_ok (me_pg_space env) i" "me_uuid env 0 \<notin> mi_id ` set (memory_items d)"
      "memory_provenance_row_ok p" "memory_item_row_ok (me_pg_space env) (superseded_item env old)"
      "distinct (superseded_bys (row_put mi_id (superseded_item env old) (memory_items d @ [i])))"
      "fresh_entry d (claim_ledger env Op_SUPERSEDE k claimed)"
      "res = (memory_item_result (superseded_item env old) old_p,
              memory_item_result (new_item env (mi_memory_type old) (mi_scope old) r embedding) p)"
proof -
  obtain old where old: "get_item k d = Some old"
    using assms by (auto simp: supersede_body_def split: option.splits)
  have "(case claim_ledger env Op_SUPERSEDE k claimed of
       None \<Rightarrow> (\<lambda>entry. supersede_target env k r embedding entry old) None d
     | Some l \<Rightarrow>
       (case add_ledger l d of
          Inr d1 \<Rightarrow> (\<lambda>entry. supersede_target env k r embedding entry old) (Some l) d1
        | Inl e \<Rightarrow> if \<not> is_cognitive_idempotency_key_unique_violation e then Inl e
            else bindE (resolve_winner d (ml_idempotency_key l) Op_SUPERSEDE (ml_request_digest l)
                   (\<lambda>w. hydrate_supersede d k (ml_result_memory_id w))) (\<lambda>result. Inr (result, d)))) = Inr (res, d')"
    using assms old unfolding supersede_body_def by simp
  then show thesis
  proof (cases rule: claim_cases)
    case (replay key h l)
    then show thesis using that(1) by blast
  next
    case (claimed entry d1)
    let ?new = "new_item env (mi_memory_type old) (mi_scope old) r embedding"
    let ?i = "stored_item env ?new" let ?p = "new_provenance env r" let ?old' = "superseded_item env old"
    have id: "mi_id ?new = me_uuid env 0" by (simp add: new_item_def)
    obtain old_p d2 d3 d4 where st: "mi_lifecycle old = Mem_ACTIVE" "get_provenance k d1 = Some old_p"
      "add_item env ?new d1 = Inr d2" "add_provenance ?p d2 = Inr d3" "update_item env ?old' d3 = Inr d4"
      "record_outcome entry (me_uuid env 0) d4 = Inr d'"
      "res = (memory_item_result ?old' old_p, memory_item_result ?new ?p)"
      using claimed(1) by (auto simp: supersede_target_def Let_def bindE_eq_Inr_iff superseded_item_def id
          split: if_splits option.splits)
    note a = add_item_Inr[OF st(3)] and b = add_provenance_Inr[OF st(4)] and c = update_item_Inr[OF st(5)]
    have led: "case entry of None \<Rightarrow> memory_ledger d4 = memory_ledger d
      | Some l \<Rightarrow> memory_ledger d4 = memory_ledger d @ [l] \<and> ml_id l \<notin> ml_id ` set (memory_ledger d)"
      using ledger_of_claim[OF claimed(4)] a b c claimed(3) by (cases entry) auto
    have d': "d' = log_entry (settled_entry env Op_SUPERSEDE k (me_uuid env 0) claimed) (put_item ?old' (insert_pair ?i ?p d))"
      using record_outcome_cases[OF st(6) led] a b c claimed(2,3)
      by (simp add: settled_ledger log_entry_def put_item_def insert_pair_def)
    have "get_provenance k d = Some old_p" using st(2) claimed(3) by simp
    moreover have "mi_id ?new \<notin> mi_id ` set (memory_items d)" using a claimed(3) by (simp add: log_entry_def)
    moreover have "distinct (superseded_bys (row_put mi_id ?old' (memory_items d @ [?i])))"
      using a b c claimed(3) by (simp add: log_entry_def)
    ultimately show thesis
      using that(2)[OF old st(1) _ refl refl d'] a b c claimed(2,4) id st(7) by simp
  qed
qed

lemma forget_body_cases:
  assumes "forget_body env k claimed u d = Inr (res, d')"
  obtains (replay) key h l where "d' = d" "claimed = Some (key, h)" "get_ledger key d = Some l"
      "ml_operation l = Op_FORGET" "ml_request_digest l = h" "hydrate d (Some k) = Inr res"
  | (again) i p where "get_item k d = Some i" "get_provenance k d = Some p" "mi_lifecycle i = Mem_FORGOTTEN"
      "d' = log_entry (settled_entry env Op_FORGET k k claimed) d" "fresh_entry d (claim_ledger env Op_FORGET k claimed)"
      "res = memory_item_result i p"
  | (forgotten) i p where "get_item k d = Some i" "get_provenance k d = Some p" "mi_lifecycle i \<noteq> Mem_FORGOTTEN"
      "d' = log_entry (settled_entry env Op_FORGET k k claimed)
              (put_item (forgotten_item env i) (put_provenance (scrubbed_provenance p) d))"
      "memory_item_row_ok (me_pg_space env) (forgotten_item env i)" "memory_provenance_row_ok (scrubbed_provenance p)"
      "distinct (superseded_bys (row_put mi_id (forgotten_item env i) (memory_items d)))"
      "fresh_entry d (claim_ledger env Op_FORGET k claimed)"
      "res = memory_item_result (forgotten_item env i) (scrubbed_provenance p)"
proof -
  obtain i p where ip: "get_item k d = Some i" "get_provenance k d = Some p"
    using assms by (auto simp: forget_body_def split: option.splits)
  have "(case claim_ledger env Op_FORGET k claimed of
       None \<Rightarrow> (\<lambda>entry. forget_target env k entry i p) None d
     | Some l \<Rightarrow>
       (case add_ledger l d of
          Inr d1 \<Rightarrow> (\<lambda>entry. forget_target env k entry i p) (Some l) d1
        | Inl e \<Rightarrow> if \<not> is_cognitive_idempotency_key_unique_violation e then Inl e
            else bindE (resolve_winner d (ml_idempotency_key l) Op_FORGET (ml_request_digest l)
                   (\<lambda>_. hydrate d (Some k))) (\<lambda>result. Inr (result, d)))) = Inr (res, d')"
    using assms ip unfolding forget_body_def by simp
  then show thesis
  proof (cases rule: claim_cases)
    case (replay key h l)
    then show thesis using that(1) by blast
  next
    case (claimed entry d1)
    note led1 = ledger_of_claim[OF claimed(4)]
    show thesis
    proof (cases "mi_lifecycle i = Mem_FORGOTTEN")
      case True
      then have r: "record_outcome entry k d1 = Inr d'" "res = memory_item_result i p"
        using claimed(1) by (auto simp: forget_target_def Let_def bindE_eq_Inr_iff)
      have led: "case entry of None \<Rightarrow> memory_ledger d1 = memory_ledger d
        | Some l \<Rightarrow> memory_ledger d1 = memory_ledger d @ [l] \<and> ml_id l \<notin> ml_id ` set (memory_ledger d)"
        using led1 claimed(3) by (cases entry) simp_all
      have "d' = log_entry (settled_entry env Op_FORGET k k claimed) d"
        using record_outcome_cases[OF r(1) led] claimed(2,3) by (simp add: settled_ledger log_entry_def)
      then show thesis using that(2)[OF ip True] claimed(2,4) r(2) by simp
    next
      case False
      then obtain d2 d3 where st: "update_item env (forgotten_item env i) d1 = Inr d2"
        "update_provenance (scrubbed_provenance p) d2 = Inr d3" "record_outcome entry k d3 = Inr d'"
        "res = memory_item_result (forgotten_item env i) (scrubbed_provenance p)"
        using claimed(1) by (auto simp: forget_target_def Let_def bindE_eq_Inr_iff)
      note a = update_item_Inr[OF st(1)] and b = update_provenance_Inr[OF st(2)]
      have led: "case entry of None \<Rightarrow> memory_ledger d3 = memory_ledger d
        | Some l \<Rightarrow> memory_ledger d3 = memory_ledger d @ [l] \<and> ml_id l \<notin> ml_id ` set (memory_ledger d)"
        using led1 a b claimed(3) by (cases entry) auto
      have d': "d' = log_entry (settled_entry env Op_FORGET k k claimed)
          (put_item (forgotten_item env i) (put_provenance (scrubbed_provenance p) d))"
        using record_outcome_cases[OF st(3) led] a b claimed(2,3)
        by (simp add: settled_ledger log_entry_def put_item_def put_provenance_def)
      have "distinct (superseded_bys (row_put mi_id (forgotten_item env i) (memory_items d)))"
        using a claimed(3) by (simp add: log_entry_def)
      then show thesis using that(3)[OF ip False d'] a b claimed(2,4) st(4) by simp
    qed
  qed
qed

subsection \<open>Committed mutations\<close>

inductive mem_commit :: "(nat \<Rightarrow> bool) \<Rightarrow> mem_db \<Rightarrow> mem_db \<Rightarrow> bool" for sp where
  commit_create: "\<lbrakk>create_body env r claimed embedding d = Inr (res, d'); me_pg_space env = sp\<rbrakk> \<Longrightarrow> mem_commit sp d d'"
| commit_supersede:
    "\<lbrakk>supersede_body env k sr claimed embedding d = Inr (res2, d'); me_pg_space env = sp\<rbrakk> \<Longrightarrow> mem_commit sp d d'"
| commit_forget: "\<lbrakk>forget_body env k claimed () d = Inr (res, d'); me_pg_space env = sp\<rbrakk> \<Longrightarrow> mem_commit sp d d'"

lemma log_entry_kept [simp]: "items_kept d (log_entry e d') = items_kept d d'"
  by (simp add: items_kept_def)

lemma log_sel [simp]: "memory_items (log_entry e d) = memory_items d"
  "memory_provenances (log_entry e d) = memory_provenances d"
  by (simp_all add: log_entry_def)

lemma insert_sel [simp]: "memory_items (insert_pair i p d) = memory_items d @ [i]"
  "memory_provenances (insert_pair i p d) = memory_provenances d @ [p]"
  "memory_ledger (insert_pair i p d) = memory_ledger d"
  by (simp_all add: insert_pair_def)

lemma entry_fresh_put: "fresh_entry d e \<Longrightarrow> memory_ledger d' = memory_ledger d \<Longrightarrow> fresh_entry d' e"
  by (simp add: fresh_entry_def)

lemma new_item_simps [simp]:
  "mi_id (new_item env t s r e) = me_uuid env 0" "mi_lifecycle (new_item env t s r e) = Mem_ACTIVE"
  "mi_superseded_by (new_item env t s r e) = None" "mp_memory_id (new_provenance env r) = me_uuid env 0"
  "mi_superseded_at (new_item env t s r e) = None" "mi_created_at (new_item env t s r e) = me_now env"
  "mi_memory_type (new_item env t s r e) = t" "mi_scope (new_item env t s r e) = s"
  by (simp_all add: new_item_def new_provenance_def)

lemma settled_in: "entry_for operation target result claimed entry \<Longrightarrow> entry = Some l \<Longrightarrow>
    ml_operation l = operation \<and> ml_target_memory_id l = target \<and> ml_result_memory_id l = Some result"
  by (auto simp: entry_for_def split: option.splits)

lemma create_commit_ok:
  assumes "create_body env r claimed embedding d = Inr (res, d')" "mem_ok (me_pg_space env) d"
  shows "mem_ok (me_pg_space env) d' \<and> items_kept d d'"
  using assms(1)
proof (cases rule: create_body_cases)
  case (created entry i)
  have fresh: "mi_id i \<notin> mi_id ` set (memory_items d)" using created(1,4) by simp
  let ?d = "insert_pair i (new_provenance env (cr_fields r)) d"
  have ok: "mem_ok (me_pg_space env) ?d"
    by (rule insert_ok[OF assms(2) created(3) _ fresh created(5)]) (simp_all add: created(1))
  have "ledger_settled ?d l" if "entry = Some l" for l
    using settled_in[OF created(7) that] get_item_insert[OF fresh] created(1)
    by (auto simp: ledger_settled_def)
  then have "mem_ok (me_pg_space env) d'"
    unfolding created(2) by (intro log_entry_ok[OF ok created(6) _ created(7)]) simp_all
  then show ?thesis using insert_kept[OF fresh] created(2) by simp
qed (use assms in simp_all)

lemma superseded_item_simps [simp]:
  "mi_id (superseded_item env i) = mi_id i" "mi_lifecycle (superseded_item env i) = Mem_SUPERSEDED"
  "mi_superseded_by (superseded_item env i) = Some (me_uuid env 0)"
  "mi_superseded_at (superseded_item env i) = Some (me_utc_now env)"
  by (simp_all add: superseded_item_def)

lemma item_row: "mem_ok sp d \<Longrightarrow> get_item k d = Some i \<Longrightarrow> memory_item_row_ok sp i"
  using mem_okD(2) get_item_SomeD by (auto simp: list_all_iff)

lemma active_clean: "memory_item_row_ok sp i \<Longrightarrow> mi_lifecycle i = Mem_ACTIVE \<Longrightarrow> mi_superseded_by i = None"
  by (simp add: memory_item_row_ok_def)

lemma supersede_commit_ok:
  assumes "supersede_body env k r claimed embedding d = Inr (res, d')" "mem_ok (me_pg_space env) d"
  shows "mem_ok (me_pg_space env) d' \<and> items_kept d d'"
  using assms(1)
proof (cases rule: supersede_body_cases)
  case (superseded old old_p i p)
  let ?old' = "superseded_item env old" let ?d1 = "insert_pair i p d" let ?d2 = "put_item ?old' ?d1"
  have i: "mi_id i = me_uuid env 0" "mi_lifecycle i = Mem_ACTIVE" "mi_superseded_by i = None" "mp_memory_id p = mi_id i"
    using superseded(4,5) by simp_all
  have fresh: "mi_id i \<notin> mi_id ` set (memory_items d)" using superseded(8) i by simp
  have ok1: "mem_ok (me_pg_space env) ?d1"
    by (rule insert_ok[OF assms(2) superseded(7) i(2) fresh superseded(9) i(4)])
  have old: "old \<in> set (memory_items d)" "mi_id old = k" using superseded(1) by (auto dest: get_item_SomeD)
  have ne: "k \<noteq> mi_id i" using old fresh by (metis imageI)
  have get_old: "get_item (mi_id ?old') ?d1 = Some old" using get_item_insert[OF fresh] superseded(1) old ne by simp
  have kept: "item_kept old ?old'"
    using superseded(2) active_clean[OF item_row[OF assms(2) superseded(1)]]
    by (simp add: item_kept_def superseded_item_def)
  have ok2: "mem_ok (me_pg_space env) ?d2"
  proof (rule put_item_ok[OF ok1 get_old superseded(10) kept])
    show "distinct (superseded_bys (row_put mi_id ?old' (memory_items ?d1)))" using superseded(11) by simp
    show "item_exists ?d1 (mi_superseded_by ?old')" using get_item_insert[OF fresh] i by (simp add: item_exists_def)
    have "forward_lineage (row_put mi_id ?old' (memory_items d @ [i]))"
      using forward_link[OF mem_okD(6)[OF assms(2)], of i old ?old'] mem_okD(1)[OF ok1] old i by simp
    then show "mi_superseded_by ?old' = mi_superseded_by old \<or> (\<forall>a \<in> set (memory_items ?d1). mi_superseded_by ?old' \<noteq> Some (mi_id a))
      \<or> forward_lineage (row_put mi_id ?old' (memory_items ?d1))" by simp
  qed simp
  have "items_kept d ?d2"
    using insert_kept[OF fresh] put_kept[OF get_old kept] items_kept_trans by blast
  moreover have "ledger_settled ?d2 l" if "settled_entry env Op_SUPERSEDE k (me_uuid env 0) claimed = Some l" for l
    using settled_in[OF settled_entry_for that] get_item_put[OF get_old] get_item_insert[OF fresh] i old ne
    by (auto simp: ledger_settled_def)
  note settled = this
  have "mem_ok (me_pg_space env) d'" unfolding superseded(6)
    by (rule log_entry_ok[OF ok2 fresh_settled[OF superseded(12)] _ settled_entry_for settled]) simp_all
  ultimately show ?thesis using superseded(6)
    by simp
qed (use assms in simp_all)

lemma forgotten_item_simps [simp]:
  "mi_id (forgotten_item env i) = mi_id i" "mi_lifecycle (forgotten_item env i) = Mem_FORGOTTEN"
  "mi_superseded_by (forgotten_item env i) = mi_superseded_by i"
  "mi_superseded_at (forgotten_item env i) = mi_superseded_at i"
  "mp_memory_id (scrubbed_provenance p) = mp_memory_id p"
  by (simp_all add: forgotten_item_def scrubbed_provenance_def)

lemma scrubbed_scrub [simp]: "scrubbed (scrubbed_provenance p)"
  by (simp add: scrubbed_def scrubbed_provenance_def)

lemma forget_commit_ok:
  assumes "forget_body env k claimed u d = Inr (res, d')" "mem_ok (me_pg_space env) d"
  shows "mem_ok (me_pg_space env) d' \<and> items_kept d d'"
  using assms(1)
proof (cases rule: forget_body_cases)
  case (again i p)
  have "ledger_settled d l" if "settled_entry env Op_FORGET k k claimed = Some l" for l
    using settled_in[OF settled_entry_for that] again by (auto simp: ledger_settled_def)
  then have "mem_ok (me_pg_space env) d'"
    unfolding again(4) using fresh_settled[OF again(5)]
    by (intro log_entry_ok[OF assms(2) _ refl settled_entry_for]) simp_all
  then show ?thesis using again(4) by simp
next
  case (forgotten i p)
  let ?p' = "scrubbed_provenance p" let ?i' = "forgotten_item env i"
  let ?d1 = "put_provenance ?p' d" let ?d2 = "put_item ?i' ?d1"
  have i: "i \<in> set (memory_items d)" "mi_id i = k" using forgotten(1) by (auto dest: get_item_SomeD)
  have p: "mp_memory_id p = k" using forgotten(2) by (auto dest: get_provenance_SomeD)
  have p0: "get_provenance (mp_memory_id ?p') d = Some p" using forgotten(2) p by simp
  have ok1: "mem_ok (me_pg_space env) ?d1"
    by (rule put_provenance_ok[OF assms(2) p0 forgotten(6)]) simp
  have get_i: "get_item (mi_id ?i') ?d1 = Some i" using forgotten(1) i by simp
  have kept: "item_kept i ?i'" using forgotten(3) by (simp add: item_kept_def forgotten_item_def)
  have ok2: "mem_ok (me_pg_space env) ?d2"
  proof (rule put_item_ok[OF ok1 get_i forgotten(5) kept])
    show "item_exists ?d1 (mi_superseded_by ?i')"
      using mem_okD(7)[OF ok1, of i] i by simp
    show "\<exists>q. get_provenance (mi_id ?i') ?d1 = Some q \<and> scrubbed q"
      using get_provenance_put[OF p0] p i by simp
  qed (use forgotten(7) in simp_all)
  have "items_kept d ?d2"
    using put_kept[OF get_i kept] by (simp add: items_kept_def)
  moreover have "ledger_settled ?d2 l" if "settled_entry env Op_FORGET k k claimed = Some l" for l
    using settled_in[OF settled_entry_for that] get_item_put[OF get_i] i by (auto simp: ledger_settled_def)
  note settled = this
  have "mem_ok (me_pg_space env) d'" unfolding forgotten(4)
    by (rule log_entry_ok[OF ok2 fresh_settled[OF forgotten(8)] _ settled_entry_for settled]) simp_all
  ultimately show ?thesis using forgotten(4)
    by simp
qed (use assms in simp_all)

lemma commit_ok: "mem_commit sp d d' \<Longrightarrow> mem_ok sp d \<Longrightarrow> mem_ok sp d' \<and> items_kept d d'"
  by (induction rule: mem_commit.induct)
    (use create_commit_ok supersede_commit_ok forget_commit_ok[where u = "()"] in metis)+

lemma commits_ok: "(mem_commit sp)\<^sup>*\<^sup>* d d' \<Longrightarrow> mem_ok sp d \<Longrightarrow> mem_ok sp d' \<and> items_kept d d'"
proof (induction rule: rtranclp_induct)
  case (step y z)
  then show ?case using commit_ok[OF step.hyps(2)] items_kept_trans by blast
qed simp

end
