(* ===== verification/Memory_Properties.thy ===== *)
theory Memory_Properties
  imports Memory_Facts "HOL-Library.Code_Target_Nat"
begin

text \<open>
  The properties of native cognitive memory.  Other sessions may commit any create, supersede or
  forget between the transactions of an operation (\<open>mem_env_ok\<close>).
\<close>

definition mem_env_ok :: "(nat \<Rightarrow> bool) \<Rightarrow> mem_env \<Rightarrow> bool" where
  "mem_env_ok sp env \<longleftrightarrow> me_pg_space env = sp \<and> (\<forall>i d. (mem_commit sp)\<^sup>*\<^sup>* d (me_interfere env i d))"

subsection \<open>Operations as commits\<close>

definition claims_key :: "string option \<Rightarrow> (exn + string) \<Rightarrow> (string \<times> string) option \<Rightarrow> bool" where
  "claims_key key digest claimed \<longleftrightarrow>
     (case claimed of None \<Rightarrow> key = None | Some (k, h) \<Rightarrow> key = Some k \<and> digest = Inr h)"

lemma keyed_mutation_result:
  assumes env: "mem_env_ok sp env"
    and eq: "keyed_mutation env key digest operation answer prepare body d = (r, d')"
  obtains (failed) e where "r = Inl e" "(mem_commit sp)\<^sup>*\<^sup>* d d'"
  | (replayed) k h l x where "r = Inr x" "(mem_commit sp)\<^sup>*\<^sup>* d d'" "key = Some k" "digest = Inr h"
      "get_ledger k d' = Some l" "ml_operation l = operation" "ml_request_digest l = h" "answer d' l = Inr x"
  | (ran) d1 claimed y x where "r = Inr x" "(mem_commit sp)\<^sup>*\<^sup>* d d1" "prepare = Inr y"
      "body claimed y d1 = Inr (x, d')" "claims_key key digest claimed"
proof -
  have reach: "(mem_commit sp)\<^sup>*\<^sup>* s (me_interfere env i s)" for i s using env by (simp add: mem_env_ok_def)
  have run: thesis
    if c: "(case prepare of Inl e \<Rightarrow> (Inl e, d0) | Inr x \<Rightarrow> mem_transaction (body claimed x) (me_interfere env 1 d0)) = (r, d')"
      and d0: "(mem_commit sp)\<^sup>*\<^sup>* d d0" and cl: "claims_key key digest claimed" for claimed d0
  proof (cases prepare)
    case (Inl e)
    then show thesis using c d0 failed by auto
  next
    case (Inr y)
    have d1: "(mem_commit sp)\<^sup>*\<^sup>* d (me_interfere env 1 d0)" using d0 reach by (meson rtranclp_trans)
    show thesis
    proof (cases "body claimed y (me_interfere env 1 d0)")
      case (Inl e)
      then show thesis using c Inr d1 failed by (auto simp: mem_transaction_def)
    next
      case (Inr q)
      then show thesis using c \<open>prepare = Inr y\<close> d1 ran[OF _ d1 _ _ cl]
        by (cases q) (auto simp: mem_transaction_def)
    qed
  qed
  show thesis
  proof (cases key)
    case None
    then show thesis using eq run[of d None] by (simp add: keyed_mutation_def claims_key_def)
  next
    case (Some k)
    show thesis
    proof (cases "is_reserved_idempotency_key k \<or> (\<exists>e. digest = Inl e)")
      case True
      then show thesis using eq Some failed by (auto simp: keyed_mutation_def split: if_splits)
    next
      case False
      then obtain h where h: "digest = Inr h" by (cases digest) auto
      let ?d0 = "me_interfere env 0 d"
      show thesis
      proof (cases "get_ledger k ?d0")
        case None
        then show thesis using eq Some False h run[of ?d0 "Some (k, h)"] reach
          by (simp add: keyed_mutation_def pre_check_def claims_key_def Let_def)
      next
        case (Some l)
        show thesis
        proof (cases "require_same_operation_and_digest l operation h")
          case (Inl e)
          then show thesis using eq \<open>key = Some k\<close> False h Some failed reach
            by (auto simp: keyed_mutation_def pre_check_def Let_def)
        next
          case (Inr u)
          then have l: "ml_operation l = operation" "ml_request_digest l = h"
            by (auto simp: require_same_operation_and_digest_def split: if_splits)
          have rd: "r = answer ?d0 l \<and> d' = ?d0" using eq \<open>key = Some k\<close> False h Some Inr
            by (cases "answer ?d0 l") (auto simp: keyed_mutation_def pre_check_def Let_def)
          show thesis
          proof (cases r)
            case (Inl e)
            then show thesis using failed rd reach by metis
          next
            case (Inr x)
            then show thesis using replayed[OF _ _ \<open>key = Some k\<close> h _ l] rd Some reach by metis
          qed
        qed
      qed
    qed
  qed
qed

lemma keyed_mutation_reach:
  assumes "mem_env_ok sp env" "keyed_mutation env key digest operation answer prepare body d = (r, d')"
    and "\<And>claimed y x d d'. body claimed y d = Inr (x, d') \<Longrightarrow> mem_commit sp d d'"
  shows "(mem_commit sp)\<^sup>*\<^sup>* d d'"
  using assms(1,2)
proof (cases rule: keyed_mutation_result)
  case (ran d1 claimed y x)
  then show ?thesis using assms(3) by (metis rtranclp.rtrancl_into_rtrancl)
qed

lemma create_reach:
  assumes "mem_env_ok sp env" "create_memory env r key d = (res, d')"
  shows "(mem_commit sp)\<^sup>*\<^sup>* d d'"
  by (rule keyed_mutation_reach[OF assms(1) assms(2)[unfolded create_memory_def]])
    (use assms(1) in \<open>auto simp: mem_env_ok_def intro: commit_create\<close>)

lemma supersede_reach:
  assumes "mem_env_ok sp env" "supersede_memory env k r key d = (res, d')"
  shows "(mem_commit sp)\<^sup>*\<^sup>* d d'"
  by (rule keyed_mutation_reach[OF assms(1) assms(2)[unfolded supersede_memory_def]])
    (use assms(1) in \<open>auto simp: mem_env_ok_def intro: commit_supersede\<close>)

lemma forget_reach:
  assumes "mem_env_ok sp env" "forget_memory env k key d = (res, d')"
  shows "(mem_commit sp)\<^sup>*\<^sup>* d d'"
  by (rule keyed_mutation_reach[OF assms(1) assms(2)[unfolded forget_memory_def]])
    (use assms(1) in \<open>auto simp: mem_env_ok_def intro: commit_forget\<close>)

lemma commit_ledger_kept:
  assumes "mem_commit sp d d'" "get_ledger key d = Some l"
  shows "get_ledger key d' = Some l"
proof -
  have keep: "get_ledger key (log_entry entry d1) = Some l"
    if "fresh_entry d entry" "memory_ledger d1 = memory_ledger d" for entry d1
  proof (cases entry)
    case None
    then show ?thesis using assms(2) that by (simp add: get_ledger_def)
  next
    case (Some l')
    have "key \<noteq> ml_idempotency_key l'"
      using that Some get_ledger_SomeD[OF assms(2)] by (auto simp: fresh_entry_def image_iff)
    moreover have "get_ledger key d1 = Some l" using assms(2) that by (simp add: get_ledger_def)
    ultimately show ?thesis using that Some get_ledger_log[of l' d1 key] by (simp add: fresh_entry_def)
  qed
  show ?thesis using assms(1)
  proof cases
    case (commit_create env r claimed embedding res)
    from commit_create(1) show ?thesis by (cases rule: create_body_cases) (use assms(2) keep in auto)
  next
    case (commit_supersede env k sr claimed embedding res2)
    from commit_supersede(1) show ?thesis
      by (cases rule: supersede_body_cases) (use assms(2) keep fresh_settled in auto)
  next
    case (commit_forget env k claimed res)
    from commit_forget(1) show ?thesis
      by (cases rule: forget_body_cases) (use assms(2) keep fresh_settled in auto)
  qed
qed

lemma commits_ledger_kept:
  "(mem_commit sp)\<^sup>*\<^sup>* d d' \<Longrightarrow> get_ledger key d = Some l \<Longrightarrow> get_ledger key d' = Some l"
  by (induction rule: rtranclp_induct) (auto intro: commit_ledger_kept)

subsection \<open>The tables stay valid\<close>

text \<open>C16: Every cognitive memory mutation, with any concurrent mutations between its transactions and whatever
  its outcome, keeps the table invariant (every CHECK, unique and foreign key, one provenance row per item,
  every ledger entry naming its outcome) and changes no item except by superseding or forgetting it.\<close>

theorem memory_mutations_keep_tables:
  assumes "mem_env_ok sp env" "mem_ok sp d"
  shows "mem_ok sp (snd (create_memory env r key d)) \<and> items_kept d (snd (create_memory env r key d))
    \<and> mem_ok sp (snd (supersede_memory env k sr key d)) \<and> items_kept d (snd (supersede_memory env k sr key d))
    \<and> mem_ok sp (snd (forget_memory env k key d)) \<and> items_kept d (snd (forget_memory env k key d))"
  using commits_ok[OF create_reach[OF assms(1) prod.collapse[symmetric]] assms(2)]
    commits_ok[OF supersede_reach[OF assms(1) prod.collapse[symmetric]] assms(2)]
    commits_ok[OF forget_reach[OF assms(1) prod.collapse[symmetric]] assms(2)]
  by blast

subsection \<open>Lineage\<close>

definition supersedes_into :: "mem_db \<Rightarrow> (uuid \<times> uuid) set" where
  "supersedes_into d = {(a, b). \<exists>i. get_item a d = Some i \<and> mi_superseded_by i = Some b}"

lemma forward_lineage_index:
  assumes "forward_lineage rows" "a < length rows" "b < length rows" "mi_superseded_by (rows ! a) = Some (mi_id (rows ! b))"
    "\<forall>i \<in> set rows. mi_superseded_by i \<noteq> Some (mi_id i)"
  shows "a < b"
proof (rule ccontr)
  assume "\<not> a < b"
  moreover have "a \<noteq> b" using assms(2,4,5) by auto
  ultimately have "b < a" by simp
  then show False using assms(1,2,4) by (simp add: forward_lineage_def sorted_wrt_iff_nth_less)
qed

definition item_index :: "mem_db \<Rightarrow> uuid \<Rightarrow> nat" where
  "item_index d k = length (takeWhile (\<lambda>i. mi_id i \<noteq> k) (memory_items d))"

lemma item_index_nth:
  assumes "get_item k d = Some i"
  shows "item_index d k < length (memory_items d) \<and> mi_id (memory_items d ! item_index d k) = k"
proof -
  have lt: "item_index d k < length (memory_items d)" unfolding item_index_def
    using get_item_SomeD[OF assms] by (intro length_takeWhile_lt[of i]) auto
  then show ?thesis using nth_length_takeWhile[of "\<lambda>i. mi_id i \<noteq> k" "memory_items d"] by (simp add: item_index_def)
qed

lemma supersedes_index:
  assumes ok: "mem_ok sp d" and e: "(a, b) \<in> supersedes_into d"
  shows "item_index d a < item_index d b"
proof -
  obtain i where i: "get_item a d = Some i" "mi_superseded_by i = Some b" using e by (auto simp: supersedes_into_def)
  have "item_exists d (Some b)" using mem_okD(7)[OF ok, of i] i get_item_SomeD by metis
  then obtain j where j: "get_item b d = Some j" by (auto simp: item_exists_def)
  note ia = item_index_nth[OF i(1)] and ib = item_index_nth[OF j]
  have "memory_items d ! item_index d a = i"
    using get_item_mem[OF ok, of "memory_items d ! item_index d a"] ia i(1) nth_mem by force
  moreover have "\<forall>x \<in> set (memory_items d). mi_superseded_by x \<noteq> Some (mi_id x)"
    using mem_okD(2)[OF ok] by (auto simp: list_all_iff memory_item_row_ok_def)
  ultimately show ?thesis
    using forward_lineage_index[OF mem_okD(6)[OF ok]] ia ib i(2) by simp
qed

lemma supersedes_trancl_index:
  assumes "mem_ok sp d" "(a, b) \<in> (supersedes_into d)\<^sup>+"
  shows "item_index d a < item_index d b"
  using assms(2) by (induction rule: trancl_induct) (use supersedes_index[OF assms(1)] less_trans in blast)+

lemma supersedes_single_pred:
  assumes ok: "mem_ok sp d" and "(a, c) \<in> supersedes_into d" "(b, c) \<in> supersedes_into d"
  shows "a = b"
proof -
  obtain i j where ij: "get_item a d = Some i" "mi_superseded_by i = Some c" "get_item b d = Some j" "mi_superseded_by j = Some c"
    using assms(2,3) by (auto simp: supersedes_into_def)
  let ?xs = "filter (\<lambda>i. mi_superseded_by i \<noteq> None) (memory_items d)"
  have "i \<in> set ?xs" "j \<in> set ?xs" using ij get_item_SomeD by fastforce+
  moreover have "inj_on (\<lambda>i. the (mi_superseded_by i)) (set ?xs)"
    using mem_okD(5)[OF ok] by (simp add: superseded_bys_def distinct_map)
  ultimately have "i = j" using ij by (metis inj_onD option.sel)
  then show ?thesis using ij get_item_SomeD by metis
qed

lemma lineage_head:
  assumes ok: "mem_ok sp d" and "get_item k d = Some i"
  shows "\<exists>h j. (k, h) \<in> (supersedes_into d)\<^sup>* \<and> get_item h d = Some j \<and> mi_superseded_by j = None"
  using assms(2)
proof (induction "length (memory_items d) - item_index d k" arbitrary: k i rule: less_induct)
  case less
  show ?case
  proof (cases "mi_superseded_by i")
    case None
    then show ?thesis using less.prems by blast
  next
    case (Some b)
    then have e: "(k, b) \<in> supersedes_into d" using less.prems by (auto simp: supersedes_into_def)
    have "item_exists d (Some b)" using mem_okD(7)[OF ok, of i] Some less.prems get_item_SomeD by metis
    then obtain j where j: "get_item b d = Some j" by (auto simp: item_exists_def)
    have "length (memory_items d) - item_index d b < length (memory_items d) - item_index d k"
      using supersedes_index[OF ok e] item_index_nth[OF j] by (intro diff_less_mono2) auto
    then show ?thesis using less.hyps[OF _ j] e by (meson converse_rtrancl_into_rtrancl)
  qed
qed


subsection \<open>Forgetting is permanent\<close>

definition tombstone :: "memory_item \<Rightarrow> memory_provenance \<Rightarrow> bool" where
  "tombstone i p \<longleftrightarrow> mi_lifecycle i = Mem_FORGOTTEN \<and> mi_content i = None \<and> mi_embedding i = None \<and> mi_scope i = None
     \<and> mi_confidence i = None \<and> mi_valid_from i = None \<and> mi_valid_until i = None \<and> scrubbed p"

lemma forgotten_tombstone:
  assumes ok: "mem_ok sp d" and i: "get_item k d = Some i" "mi_lifecycle i = Mem_FORGOTTEN"
  obtains p where "get_provenance k d = Some p" "tombstone i p"
proof -
  have "i \<in> set (memory_items d)" "mi_id i = k" using i(1) by (auto dest: get_item_SomeD)
  then obtain p where "get_provenance k d = Some p" "scrubbed p" using mem_okD(8)[OF ok, of i] i(2) by auto
  then show thesis using that item_row[OF ok i(1)] i(2) by (auto simp: tombstone_def memory_item_row_ok_def)
qed

lemma forget_result:
  assumes env: "mem_env_ok sp env" and ok: "mem_ok sp d" and eq: "forget_memory env k key d = (Inr res, d')"
    and bound: "\<And>l h. \<lbrakk>forget_digest env k = Inr h; l \<in> set (memory_ledger d'); ml_operation l = Op_FORGET;
        ml_request_digest l = h\<rbrakk> \<Longrightarrow> ml_target_memory_id l = Some k"
  shows "\<exists>i. get_item k d' = Some i \<and> mi_lifecycle i = Mem_FORGOTTEN"
proof -
  have ok': "mem_ok sp d'" using commits_ok[OF forget_reach[OF env eq] ok] by simp
  show ?thesis using env eq[unfolded forget_memory_def]
  proof (cases rule: keyed_mutation_result)
    case (replayed kk h l x)
    have l: "l \<in> set (memory_ledger d')" using replayed(5) get_ledger_SomeD by blast
    then have "ledger_settled d' l" using mem_okD(12)[OF ok'] by (simp add: list_all_iff)
    then show ?thesis using bound[OF replayed(4) l replayed(6,7)] replayed(6) by (auto simp: ledger_settled_def)
  next
    case (ran d1 claimed y x)
    have ok1: "mem_ok (me_pg_space env) d1" using commits_ok[OF ran(2) ok] env by (simp add: mem_env_ok_def)
    from ran(4) show ?thesis
    proof (cases rule: forget_body_cases)
      case (replay kk h l)
      have l: "l \<in> set (memory_ledger d')" using replay get_ledger_SomeD by blast
      then have "ledger_settled d' l" using mem_okD(12)[OF ok'] by (simp add: list_all_iff)
      then show ?thesis using bound[OF _ l replay(4), of h] ran(5) replay(2,4,5)
        by (auto simp: ledger_settled_def claims_key_def)
    next
      case (again i p)
      then show ?thesis by simp
    next
      case (forgotten i p)
      then have "get_item (mi_id (forgotten_item env i)) (put_provenance (scrubbed_provenance p) d1) = Some i"
        using get_item_SomeD by fastforce
      then show ?thesis using forgotten get_item_SomeD by (auto simp: get_item_put)
    qed
  qed auto
qed

lemma recall_hit_eligible:
  assumes "h \<in> set (typed_recall env q r d)"
  shows "th_item h \<in> set (memory_items d) \<and> recall_eligible env q r (th_item h)
    \<and> th_is_current_truth h = current_truth_predicate (mr_as_of r) (th_item h)
    \<and> th_relevance h = relevance_of env q (th_item h)"
proof -
  have "h \<in> set (map (\<lambda>(i, p). \<lparr>th_item = i, th_provenance = p, th_relevance = relevance_of env q i,
      th_is_current_truth = current_truth_predicate (mr_as_of r) i\<rparr>)
      (filter (\<lambda>(i, p). recall_eligible env q r i) (joined d)))"
    using in_set_takeD[OF assms[unfolded typed_recall_def]] by (simp only: set_sort)
  then obtain i p where "(i, p) \<in> set (joined d)" "recall_eligible env q r i"
    "h = \<lparr>th_item = i, th_provenance = p, th_relevance = relevance_of env q i,
      th_is_current_truth = current_truth_predicate (mr_as_of r) i\<rparr>" by auto
  moreover have "i \<in> set (memory_items d)" using calculation(1) by (auto simp: joined_def)
  ultimately show ?thesis by simp
qed

text \<open>No stored Forget digest of this request belongs to another target: the digest is keyed and covers the
  target, so two targets share one only by an HMAC collision.\<close>

definition forget_digest_binds :: "mem_env \<Rightarrow> uuid \<Rightarrow> mem_db \<Rightarrow> bool" where
  "forget_digest_binds env k d \<longleftrightarrow> (\<forall>l \<in> set (memory_ledger d). ml_operation l = Op_FORGET
     \<and> forget_digest env k = Inr (ml_request_digest l) \<longrightarrow> ml_target_memory_id l = Some k)"

text \<open>C13: Forgetting is permanent.  After a successful Forget, whatever mutations are committed later, the item is
  a tombstone without content, embedding, scope, confidence or validity, its provenance keeps only the origin
  and the source system, and no recall, present or historical, ever returns it.\<close>

theorem forget_is_permanent:
  assumes "mem_env_ok sp env" "mem_ok sp d" and "forget_memory env k key d = (Inr res, d')"
    and "forget_digest_binds env k d'" and "(mem_commit sp)\<^sup>*\<^sup>* d' d''"
  shows "\<exists>i p. get_item k d'' = Some i \<and> get_provenance k d'' = Some p \<and> tombstone i p
    \<and> (\<forall>renv q r. \<forall>h \<in> set (typed_recall renv q r d''). mi_id (th_item h) \<noteq> k)"
proof -
  have ok': "mem_ok sp d'" using commits_ok[OF forget_reach[OF assms(1,3)] assms(2)] by simp
  have ok: "mem_ok sp d''" and kept: "items_kept d' d''" using commits_ok[OF assms(5) ok'] by simp_all
  obtain i0 where i0: "get_item k d' = Some i0" "mi_lifecycle i0 = Mem_FORGOTTEN"
    using forget_result[OF assms(1-3)] assms(4) by (auto simp: forget_digest_binds_def)
  then obtain i where i: "get_item k d'' = Some i" "item_kept i0 i" using kept by (auto simp: items_kept_def)
  then have f: "mi_lifecycle i = Mem_FORGOTTEN" using i0(2) by (simp add: item_kept_def)
  obtain p where p: "get_provenance k d'' = Some p" "tombstone i p" using forgotten_tombstone[OF ok i(1) f] .
  have "mi_id (th_item h) \<noteq> k" if "h \<in> set (typed_recall renv q r d'')" for renv q r h
  proof
    assume "mi_id (th_item h) = k"
    then have "th_item h = i" using recall_hit_eligible[OF that] get_item_mem[OF ok] i(1) by (metis option.inject)
    then show False using recall_hit_eligible[OF that] f by (simp add: recall_eligible_def)
  qed
  then show ?thesis using i(1) p by blast
qed

subsection \<open>Idempotent creation\<close>

definition names_memory :: "memory_item_result \<times> bool \<Rightarrow> memory_ledger_entry \<Rightarrow> bool" where
  "names_memory out l \<longleftrightarrow> ml_result_memory_id l = Some (res_memory_id (fst out))"

text \<open>A keyed create with whether its key was free when it began.\<close>

definition create_attempt ::
  "mem_env \<times> memory_create_request \<times> string \<Rightarrow> mem_db \<Rightarrow> (exn + (memory_item_result \<times> bool)) \<times> mem_db" where
  "create_attempt q d =
     (case q of (env, r, k) \<Rightarrow>
        (case create_memory env r (Some k) d of
           (Inl e, d') \<Rightarrow> (Inl e, d')
         | (Inr res, d') \<Rightarrow> (Inr (res, get_ledger k d = None), d')))"

definition create_legal :: "(nat \<Rightarrow> bool) \<Rightarrow> string \<Rightarrow> mem_env \<times> memory_create_request \<times> string \<Rightarrow> bool" where
  "create_legal sp k q \<longleftrightarrow> snd (snd q) = k \<and> mem_env_ok sp (fst q)"

lemma hydrate_id: "hydrate d (Some k) = Inr res \<Longrightarrow> res_memory_id res = k"
  by (auto simp: hydrate_def memory_item_result_def split: option.splits dest: get_item_SomeD)

lemma create_names:
  assumes "mem_env_ok sp env" "mem_ok sp d" "create_memory env r (Some k) d = (Inr res, d')"
  shows "\<exists>l. get_ledger k d' = Some l \<and> ml_result_memory_id l = Some (res_memory_id res)"
  using assms(1) assms(3)[unfolded create_memory_def]
proof (cases rule: keyed_mutation_result)
  case (replayed kk h l x)
  then show ?thesis by (cases "ml_result_memory_id l") (auto simp: hydrate_def[of _ None] dest: hydrate_id)
next
  case (ran d1 claimed y x)
  obtain h where c: "claimed = Some (k, h)" using ran(5) by (auto simp: claims_key_def split: option.splits)
  from ran(4) show ?thesis
  proof (cases rule: create_body_cases)
    case (replay kk hh l)
    then show ?thesis using c ran(1) by (cases "ml_result_memory_id l") (auto simp: hydrate_def[of _ None] dest: hydrate_id)
  next
    case (created entry i)
    then obtain l where l: "entry = Some l" "ml_idempotency_key l = k" "ml_result_memory_id l = Some (me_uuid env 0)"
      using c by (auto simp: entry_for_def split: option.splits)
    have "ml_idempotency_key l \<notin> ml_idempotency_key ` set (memory_ledger (insert_pair i (new_provenance env (cr_fields r)) d1))"
      using created(6) l by (simp add: fresh_entry_def)
    then have "get_ledger k d' = Some l" using created(2) l get_ledger_log by simp
    moreover have "res_memory_id res = me_uuid env 0" using created(8) ran(1) by (simp add: memory_item_result_def)
    ultimately show ?thesis using l by simp
  qed
qed auto

interpretation mem_creates: idempotent_ledger "mem_ok sp" get_ledger "(=)" create_attempt "create_legal sp"
  names_memory snd for sp
proof (unfold_locales, goal_cases)
  case (1 k q d)
  obtain env r kk where q: "q = (env, r, kk)" by (cases q)
  have "(mem_commit sp)\<^sup>*\<^sup>* d (snd (create_attempt q d))"
    using 1(1) create_reach[of sp env r "Some kk" d] q
    by (auto simp: create_attempt_def create_legal_def split: prod.splits sum.splits)
  then show ?case using commits_ok 1(2) by blast
next
  case (4 k q d l)
  obtain env r kk where q: "q = (env, r, kk)" by (cases q)
  have "(mem_commit sp)\<^sup>*\<^sup>* d (snd (create_attempt q d))"
    using 4(1) create_reach[of sp env r "Some kk" d] q
    by (auto simp: create_attempt_def create_legal_def split: prod.splits sum.splits)
  then show ?case using commits_ledger_kept 4(3) by blast
next
  case (5 k q d out)
  obtain env r kk where q: "q = (env, r, kk)" by (cases q)
  obtain res d' where "create_memory env r (Some kk) d = (Inr res, d')" "fst out = res" "snd (create_attempt q d) = d'"
    using 5(3) q by (auto simp: create_attempt_def split: prod.splits sum.splits)
  then show ?case using create_names[of sp env d r kk res d'] 5(1,2) q by (auto simp: create_legal_def names_memory_def)
next
  case (6 k q d out)
  then show ?case by (auto simp: create_attempt_def create_legal_def split: prod.splits sum.splits)
qed auto

fun creates :: "(mem_env \<times> memory_create_request \<times> string) list \<Rightarrow> mem_db \<Rightarrow>
    (exn + (memory_item_result \<times> bool)) list \<times> mem_db" where
  "creates [] d = ([], d)"
| "creates (q # qs) d =
     (let (res, d1) = create_attempt q d; (rest, d2) = creates qs d1 in (res # rest, d2))"

lemma creates_attempts: "creates qs d = mem_creates.attempts qs d"
  by (induction qs arbitrary: d) (simp_all add: split_beta)

definition fresh_creations :: "(exn + (memory_item_result \<times> bool)) list \<Rightarrow> nat" where
  "fresh_creations res = length (filter (\<lambda>r. case r of Inl _ \<Rightarrow> False | Inr out \<Rightarrow> snd out) res)"

lemma fresh_creations_outcomes: "fresh_creations res = length (filter snd (mem_creates.outcomes res))"
  by (induction res) (simp_all add: fresh_creations_def mem_creates.outcomes_def split: sum.splits)

lemma in_create_outcomes: "out \<in> set (mem_creates.outcomes rs) \<longleftrightarrow> Inr out \<in> set rs"
proof (induction rs)
  case (Cons r rs)
  then show ?case by (cases r) (simp_all add: mem_creates.outcomes_def)
qed (simp add: mem_creates.outcomes_def)


subsection \<open>Demonstration\<close>

definition demo_mem_env :: "uuid \<Rightarrow> timestamp \<Rightarrow> timestamp \<Rightarrow> mem_env" where
  "demo_mem_env u now utc = \<lparr>me_py = sub_demo_py, me_hmac = (\<lambda>_ bs. replicate 63 (CHR ''a'') @ [if length bs mod 2 = 0 then CHR ''0'' else CHR ''1'']),
     me_secret = [1], me_embed = (\<lambda>_. Inr [[1]]), me_dimensions = 1, me_pg_space = py_space, me_real = (\<lambda>x. x),
     me_cosine_distance = (\<lambda>_ _. 0), me_now = now, me_utc_now = utc, me_uuid = (\<lambda>n. u + n), me_interfere = (\<lambda>_ d. d)\<rparr>"

definition demo_content :: "pystr \<Rightarrow> memory_supersede_request" where
  "demo_content c = \<lparr>cf_content = c, cf_confidence = None, cf_valid_from = None, cf_valid_until = None,
     cf_provenance = \<lparr>pf_origin_kind = USER_ASSERTED, pf_source_system = ascii ''assistant'', pf_conversation_uuid = None,
       pf_turn_uuid = Some 9, pf_task_uuid = None, pf_confirmation_ref = None, pf_source_ref = None, pf_observed_at = None\<rparr>\<rparr>"

definition demo_create :: memory_create_request where
  "demo_create = \<lparr>cr_memory_type = PROFILE, cr_scope = GLOBAL_SCOPE, cr_fields = demo_content (ascii ''tea'')\<rparr>"

definition empty_mem :: mem_db where
  "empty_mem = \<lparr>memory_items = [], memory_provenances = [], memory_ledger = []\<rparr>"

lemma demo_mem_env_ok: "mem_env_ok py_space (demo_mem_env u now utc)"
  by (simp add: mem_env_ok_def demo_mem_env_def)

lemma empty_mem_ok: "mem_ok sp empty_mem"
  by (simp add: mem_ok_def empty_mem_def superseded_bys_def forward_lineage_def)

definition demo_mem_db :: mem_db where
  "demo_mem_db = snd (create_memory (demo_mem_env 10 100 100) demo_create None empty_mem)"

lemma demo_mem_db_ok: "mem_ok py_space demo_mem_db"
  unfolding demo_mem_db_def
  using commits_ok[OF create_reach[OF demo_mem_env_ok prod.collapse[symmetric]] empty_mem_ok] by blast

theorem memory_mutations_keep_tables_witness:
  "mem_ok py_space (snd (forget_memory (demo_mem_env 20 200 200) 10 (Some ''f'') demo_mem_db))"
  using memory_mutations_keep_tables[OF demo_mem_env_ok demo_mem_db_ok] by blast


theorem forget_is_permanent_witness:
  "\<exists>i p. get_item 10 (snd (forget_memory (demo_mem_env 20 200 200) 10 (Some ''f'') demo_mem_db)) = Some i
     \<and> get_provenance 10 (snd (forget_memory (demo_mem_env 20 200 200) 10 (Some ''f'') demo_mem_db)) = Some p \<and> tombstone i p"
proof -
  let ?r = "forget_memory (demo_mem_env 20 200 200) 10 (Some ''f'') demo_mem_db"
  have "isOk (fst ?r)" by code_simp
  then obtain res where res: "?r = (Inr res, snd ?r)" by (cases "fst ?r") (auto simp: prod_eq_iff)
  have "map (\<lambda>l. (ml_operation l, ml_target_memory_id l)) (memory_ledger (snd ?r)) = [(Op_FORGET, Some 10)]" by code_simp
  then have "forget_digest_binds (demo_mem_env 20 200 200) 10 (snd ?r)" by (auto simp: forget_digest_binds_def)
  from forget_is_permanent[OF demo_mem_env_ok demo_mem_db_ok res this rtranclp.rtrancl_refl] show ?thesis by blast
qed


end
