(* ===== verification/Memory_Truth.thy ===== *)
theory Memory_Truth
  imports Memory_Properties
begin

text \<open>
  Supersession and historical recall: a supersession happens once, which instants see the old and
  the new item as current truth, and what later mutations leave of the past; and that a validated
  request never violates a table constraint.
\<close>

subsection \<open>One supersession per item\<close>

definition supersede_digest_binds :: "mem_env \<Rightarrow> uuid \<Rightarrow> memory_supersede_request \<Rightarrow> mem_db \<Rightarrow> bool" where
  "supersede_digest_binds env k r d \<longleftrightarrow> (\<forall>l \<in> set (memory_ledger d). ml_operation l = Op_SUPERSEDE
     \<and> supersede_digest env k r = Inr (ml_request_digest l) \<longrightarrow> ml_target_memory_id l = Some k)"

lemma hydrate_supersede_ids:
  "hydrate_supersede d k rep = Inr (old, new) \<Longrightarrow> rep = Some (res_memory_id new) \<and> res_memory_id old = k"
  by (auto simp: hydrate_supersede_def memory_item_result_def split: option.splits dest!: get_item_SomeD)

lemma replayed_supersession:
  assumes "mem_ok sp d" "get_ledger key d = Some l" "ml_operation l = Op_SUPERSEDE"
    and "ml_target_memory_id l = Some k" "hydrate_supersede d k (ml_result_memory_id l) = Inr (old, new)"
  shows "\<exists>i. get_item k d = Some i \<and> mi_superseded_by i = Some (res_memory_id new)"
proof -
  have "ledger_settled d l" using mem_okD(12)[OF assms(1)] get_ledger_SomeD[OF assms(2)] by (auto simp: list_all_iff)
  then show ?thesis using assms(3,4) hydrate_supersede_ids[OF assms(5)] by (auto simp: ledger_settled_def)
qed

lemma superseded_state:
  assumes "supersede_body env k r claimed embedding d1 = Inr ((old, new), d')" "mem_ok (me_pg_space env) d1"
    and "claimed = None \<or> (\<exists>key. claimed = Some (key, h) \<and> supersede_digest env k r = Inr h)"
    and "supersede_digest_binds env k r d'"
  shows "\<exists>i. get_item k d' = Some i \<and> mi_superseded_by i = Some (res_memory_id new)"
  using assms(1)
proof (cases rule: supersede_body_cases)
  case (replay key hh l)
  then have "l \<in> set (memory_ledger d')" using get_ledger_SomeD by blast
  then have "ml_target_memory_id l = Some k" using assms(3,4) replay by (auto simp: supersede_digest_binds_def)
  then show ?thesis using replayed_supersession[of "me_pg_space env" d' key l k old new] replay assms(2) by simp
next
  case (superseded olditem old_p i p)
  have fresh: "mi_id i \<notin> mi_id ` set (memory_items d1)" using superseded(5,8) by simp
  have k: "olditem \<in> set (memory_items d1)" "mi_id olditem = k" using superseded(1) by (auto dest: get_item_SomeD)
  then have "k \<noteq> mi_id i" using fresh by (metis imageI)
  then have "get_item (mi_id (superseded_item env olditem)) (insert_pair i p d1) = Some olditem"
    using get_item_insert[OF fresh] superseded(1) k by simp
  then show ?thesis using superseded k by (simp add: get_item_put memory_item_result_def)
qed

lemma supersede_result:
  assumes env: "mem_env_ok sp env" and ok: "mem_ok sp d" and eq: "supersede_memory env k r key d = (Inr (old, new), d')"
    and binds: "supersede_digest_binds env k r d'"
  shows "\<exists>i. get_item k d' = Some i \<and> mi_superseded_by i = Some (res_memory_id new)"
proof -
  have ok': "mem_ok sp d'" using commits_ok[OF supersede_reach[OF env eq] ok] by simp
  show ?thesis using env eq[unfolded supersede_memory_def]
  proof (cases rule: keyed_mutation_result)
    case (replayed kk h l x)
    then have "ml_target_memory_id l = Some k"
      using binds get_ledger_SomeD[OF replayed(5)] by (auto simp: supersede_digest_binds_def)
    then show ?thesis using replayed_supersession[OF ok' replayed(5,6)] replayed(1,8) by blast
  next
    case (ran d1 claimed y x)
    have "mem_ok (me_pg_space env) d1" using commits_ok[OF ran(2) ok] env by (simp add: mem_env_ok_def)
    then show ?thesis using superseded_state[of env k r claimed y d1 old new d'] ran binds
      by (cases claimed) (auto simp: claims_key_def)
  qed auto
qed

text \<open>A supersession that finds its target ACTIVE leaves it superseded by a new item; another key, or none, is
  then refused.\<close>

lemma second_supersession_replays:
  assumes env: "mem_env_ok sp env" and ok: "mem_ok sp d" and i: "get_item k d = Some i" "mi_superseded_by i = Some b"
    and eq: "supersede_memory env k r key d = (Inr (old, new), d')" and binds: "supersede_digest_binds env k r d'"
  shows "res_memory_id new = b \<and> key \<noteq> None"
proof -
  have r: "(mem_commit sp)\<^sup>*\<^sup>* d d'" by (rule supersede_reach[OF env eq])
  obtain j where j: "get_item k d' = Some j" "item_kept i j" using commits_ok[OF r ok] i by (auto simp: items_kept_def)
  then have "mi_superseded_by j = Some b" using i(2) by (simp add: item_kept_def)
  then have new: "res_memory_id new = b" using supersede_result[OF env ok eq binds] j(1) by auto
  have "key \<noteq> None" using env eq[unfolded supersede_memory_def]
  proof (cases rule: keyed_mutation_result)
    case (ran d1 claimed y x)
    have ok1: "mem_ok sp d1" and kept: "items_kept d d1" using commits_ok[OF ran(2) ok] by simp_all
    obtain i1 where i1: "get_item k d1 = Some i1" "item_kept i i1" using kept i(1) by (auto simp: items_kept_def)
    have "mi_superseded_by i1 = Some b" using i1(2) i(2) by (simp add: item_kept_def)
    then have "mi_lifecycle i1 \<noteq> Mem_ACTIVE" using active_clean[OF item_row[OF ok1 i1(1)]] by auto
    with ran(4) have "claimed \<noteq> None"
      using i1(1) by (cases rule: supersede_body_cases) auto
    then show ?thesis using ran(5) by (auto simp: claims_key_def)
  qed auto
  with new show ?thesis by simp
qed

text \<open>An item is superseded at most once.  If a supersession of an item succeeded, every later success of a
  supersession of that item, by any caller and after any committed mutations, is a replay under a key and names
  the same replacement; a request without a key, or one that is not the original, never succeeds again.\<close>

theorem supersede_once:
  assumes "mem_env_ok sp env1" "mem_env_ok sp env2" "mem_ok sp d"
    and "supersede_memory env1 k r1 key1 d = (Inr (old1, new1), d1)" "supersede_digest_binds env1 k r1 d1"
    and "(mem_commit sp)\<^sup>*\<^sup>* d1 d2"
    and "supersede_memory env2 k r2 key2 d2 = (Inr (old2, new2), d3)" "supersede_digest_binds env2 k r2 d3"
  shows "res_memory_id new2 = res_memory_id new1 \<and> key2 \<noteq> None"
proof -
  have ok1: "mem_ok sp d1" using commits_ok[OF supersede_reach[OF assms(1,4)] assms(3)] by simp
  obtain i where i: "get_item k d1 = Some i" "mi_superseded_by i = Some (res_memory_id new1)"
    using supersede_result[OF assms(1,3,4,5)] by blast
  have ok2: "mem_ok sp d2" and kept: "items_kept d1 d2" using commits_ok[OF assms(6) ok1] by simp_all
  obtain j where j: "get_item k d2 = Some j" "item_kept i j" using kept i(1) by (auto simp: items_kept_def)
  moreover have "mi_superseded_by j = Some (res_memory_id new1)" using j(2) i(2) by (simp add: item_kept_def)
  ultimately show ?thesis using second_supersession_replays[OF assms(2) ok2 _ _ assms(7,8)] by blast
qed

theorem supersede_once_witness:
  "\<exists>new1 new2 old1 old2 d1 d2.
     supersede_memory (demo_mem_env 20 200 200) 10 (demo_content (ascii ''coffee'')) (Some ''s'') demo_mem_db = (Inr (old1, new1), d1)
     \<and> supersede_memory (demo_mem_env 30 300 300) 10 (demo_content (ascii ''coffee'')) (Some ''s'') d1 = (Inr (old2, new2), d2)
     \<and> res_memory_id new2 = res_memory_id new1"
proof -
  let ?x = "supersede_memory (demo_mem_env 20 200 200) 10 (demo_content (ascii ''coffee'')) (Some ''s'') demo_mem_db"
  let ?y = "supersede_memory (demo_mem_env 30 300 300) 10 (demo_content (ascii ''coffee'')) (Some ''s'') (snd ?x)"
  have "isOk (fst ?x)" "isOk (fst ?y)" by code_simp+
  then obtain o1 n1 o2 n2 where xy: "?x = (Inr (o1, n1), snd ?x)" "?y = (Inr (o2, n2), snd ?y)"
    by (cases "fst ?x"; cases "fst ?y") (auto simp: prod_eq_iff)
  have "map ml_target_memory_id (memory_ledger (snd ?x)) = [Some 10]"
    "map ml_target_memory_id (memory_ledger (snd ?y)) = [Some 10]" by code_simp+
  then have "supersede_digest_binds e 10 r (snd ?x)" "supersede_digest_binds e 10 r (snd ?y)" for e r
    by (auto simp: supersede_digest_binds_def)
  from supersede_once[OF demo_mem_env_ok demo_mem_env_ok demo_mem_db_ok xy(1) this(1) rtranclp.rtrancl_refl xy(2) this(2)]
  show ?thesis using xy by blast
qed

subsection \<open>Which instants see which item\<close>

definition visible_truth :: "timestamp \<Rightarrow> memory_item \<Rightarrow> bool" where
  "visible_truth T i \<longleftrightarrow> mi_created_at i \<le> T \<and> current_truth_predicate T i"

text \<open>C15: A supersession leaves the old item SUPERSEDED by a new ACTIVE one of the same type and scope, and says
  exactly which instants see which: where both are valid, the old item is current truth before the service's
  \<open>utc_now()\<close> and the new one from the transaction's \<open>now()\<close> on.  The two clocks differ, so the instants between
  them see two current truths, or none when the process clock is behind.\<close>

theorem supersession_current_truth:
  assumes "mem_env_ok sp env" "mem_ok sp d" and "supersede_memory env k r None d = (Inr (old, new), d')"
  shows "\<exists>i j. get_item k d' = Some i \<and> get_item (res_memory_id new) d' = Some j
    \<and> mi_lifecycle i = Mem_SUPERSEDED \<and> mi_superseded_by i = Some (mi_id j) \<and> mi_lifecycle j = Mem_ACTIVE
    \<and> mi_memory_type j = mi_memory_type i \<and> mi_scope j = mi_scope i
    \<and> (\<forall>T. mi_created_at i \<le> T \<and> temporal_validity_predicate T i \<and> temporal_validity_predicate T j \<longrightarrow>
         (visible_truth T i \<longleftrightarrow> T < me_utc_now env) \<and> (visible_truth T j \<longleftrightarrow> me_now env \<le> T))"
  using assms(1) assms(3)[unfolded supersede_memory_def]
proof (cases rule: keyed_mutation_result)
  case (ran d1 claimed y x)
  have ok1: "mem_ok sp d1" using commits_ok[OF ran(2) assms(2)] by simp
  have none: "claimed = None" using ran(5) by (auto simp: claims_key_def split: option.splits)
  from ran(4) show ?thesis
  proof (cases rule: supersede_body_cases)
    case (superseded olditem old_p i p)
    let ?i = "superseded_item env olditem"
    have fresh: "mi_id i \<notin> mi_id ` set (memory_items d1)" using superseded(5,8) by (simp add: new_item_def)
    have k: "olditem \<in> set (memory_items d1)" "mi_id olditem = k" using superseded(1) by (auto dest: get_item_SomeD)
    then have ne: "k \<noteq> mi_id i" using fresh by (metis imageI)
    have got: "get_item (mi_id ?i) (insert_pair i p d1) = Some olditem"
      using get_item_insert[OF fresh] superseded(1) k ne by (simp add: superseded_item_def)
    have mid: "mi_id ?i = k" using k by (simp add: superseded_item_def)
    have gi: "get_item k d' = Some ?i" using superseded(6) get_item_put[OF got, of k] mid by simp
    have id: "mi_id i = res_memory_id new"
      using superseded(5,13) ran(1) by (simp add: memory_item_result_def new_item_def)
    have gj: "get_item (res_memory_id new) d' = Some i"
      using superseded(6) ne id get_item_insert[OF fresh] mid get_item_put[OF got, of "res_memory_id new"] by simp
    have j: "mi_lifecycle i = Mem_ACTIVE" "mi_memory_type i = mi_memory_type olditem" "mi_scope i = mi_scope olditem"
      "mi_created_at i = me_now env" "mi_superseded_at i = None" "mi_id i = me_uuid env 0"
      using superseded(5) by (simp_all add: new_item_def)
    show ?thesis using gi gj j
      by (intro exI[of _ ?i] exI[of _ i])
        (auto simp: superseded_item_def visible_truth_def current_truth_predicate_def supersession_currentness_predicate_def)
  qed (use none in simp)
qed auto

theorem supersession_current_truth_witness:
  "\<exists>i j. get_item 10 (snd (supersede_memory (demo_mem_env 20 200 205) 10 (demo_content (ascii ''coffee'')) None demo_mem_db)) = Some i
     \<and> get_item 20 (snd (supersede_memory (demo_mem_env 20 200 205) 10 (demo_content (ascii ''coffee'')) None demo_mem_db)) = Some j
     \<and> visible_truth 202 i \<and> visible_truth 202 j \<and> mi_superseded_by i = Some 20"
proof -
  let ?r = "supersede_memory (demo_mem_env 20 200 205) 10 (demo_content (ascii ''coffee'')) None demo_mem_db"
  have "isOk (fst ?r)" by code_simp
  then obtain old new where res: "?r = (Inr (old, new), snd ?r)" by (cases "fst ?r") (auto simp: prod_eq_iff)
  have "(case fst ?r of Inl _ \<Rightarrow> 0 | Inr on \<Rightarrow> res_memory_id (snd on)) = 20" by code_simp
  then have new: "res_memory_id new = 20" using arg_cong[OF res, of fst] by simp
  have valid: "map_option (\<lambda>i. (mi_created_at i \<le> 202, temporal_validity_predicate 202 i)) (get_item 10 (snd ?r)) = Some (True, True)"
    "map_option (\<lambda>i. (mi_id i, temporal_validity_predicate 202 i)) (get_item 20 (snd ?r)) = Some (20, True)" by code_simp+
  have clocks: "me_now (demo_mem_env 20 200 205) = 200" "me_utc_now (demo_mem_env 20 200 205) = 205"
    by (simp_all add: demo_mem_env_def)
  from supersession_current_truth[OF demo_mem_env_ok demo_mem_db_ok res] obtain i j where
    ij: "get_item 10 (snd ?r) = Some i" "get_item 20 (snd ?r) = Some j" "mi_superseded_by i = Some (mi_id j)"
    "\<forall>T. mi_created_at i \<le> T \<and> temporal_validity_predicate T i \<and> temporal_validity_predicate T j \<longrightarrow>
         (visible_truth T i \<longleftrightarrow> T < 205) \<and> (visible_truth T j \<longleftrightarrow> 200 \<le> T)"
    unfolding new clocks by blast
  have "visible_truth 202 i" "visible_truth 202 j" "mi_superseded_by i = Some 20" using ij valid by auto
  then show ?thesis using ij(1,2) by blast
qed

subsection \<open>A validated create violates no constraint\<close>

lemma model_errors_Inr: "model_errors es = Inr u \<longleftrightarrow> es = []"
  by (cases es) (auto simp: model_errors_def)

lemma field_error_Nil: "field_error m = [] \<longleftrightarrow> (\<exists>x. m = Inr x)"
  by (cases m) auto

lemma valid_content: "normalize_cognitive_memory_content s = Inr t \<Longrightarrow>
    t \<noteq> [] \<and> length t \<le> COGNITIVE_MEMORY_CONTENT_MAX_LENGTH \<and> \<not> py_space (hd t)"
  using py_strip_ends[of "normalize_newlines s"]
  by (cases "py_strip (normalize_newlines s) = []") (auto simp: normalize_cognitive_memory_content_def Let_def split: if_splits)

lemma valid_scope: "normalize_cognitive_memory_scope s = Inr t \<Longrightarrow> scope_grammar t"
  by (auto simp: normalize_cognitive_memory_scope_def scope_grammar_def Let_def split: if_splits)

lemma valid_ref: "opt_field validate_cognitive_memory_external_ref v = Inr w \<Longrightarrow>
    opt_all (\<lambda>s. 1 \<le> length s \<and> length s \<le> COGNITIVE_MEMORY_EXTERNAL_REF_MAX_LENGTH) w"
  by (auto simp: opt_field_def bindE_eq_Inr_iff validate_cognitive_memory_external_ref_def Let_def
      split: option.splits if_splits)

lemma valid_provenance:
  assumes "validate_provenance r = Inr p"
  shows "memory_provenance_row_ok \<lparr>mp_memory_id = k, mp_fields = p\<rparr>"
proof -
  obtain s c f o' where v: "validate_cognitive_memory_source_system (pf_source_system r) = Inr s"
    "opt_field validate_cognitive_memory_external_ref (pf_confirmation_ref r) = Inr c"
    "opt_field validate_cognitive_memory_external_ref (pf_source_ref r) = Inr f"
    "p = \<lparr>pf_origin_kind = pf_origin_kind r, pf_source_system = s, pf_conversation_uuid = pf_conversation_uuid r,
       pf_turn_uuid = pf_turn_uuid r, pf_task_uuid = pf_task_uuid r, pf_confirmation_ref = c, pf_source_ref = f,
       pf_observed_at = o'\<rparr>"
    using assms by (auto simp: validate_provenance_def Let_def bindE_eq_Inr_iff model_errors_Inr field_error_Nil)
  have "slug_pattern s \<and> length s \<le> COGNITIVE_MEMORY_SOURCE_SYSTEM_MAX_LENGTH"
    using v(1) by (auto simp: validate_cognitive_memory_source_system_def split: if_splits)
  then show ?thesis using v(4) valid_ref[OF v(2)] valid_ref[OF v(3)] by (simp add: memory_provenance_row_ok_def)
qed

text \<open>What a validated request guarantees, in the terms of the constraints.\<close>

definition create_valid :: "memory_create_request \<Rightarrow> bool" where
  "create_valid r \<longleftrightarrow> (\<exists>t s raw. validate_create_request t s raw = Inr r)"

lemma create_validD:
  assumes "create_valid r"
  shows "scope_grammar (cr_scope r)" "cf_content (cr_fields r) \<noteq> []" "\<not> py_space (hd (cf_content (cr_fields r)))"
    "length (cf_content (cr_fields r)) \<le> COGNITIVE_MEMORY_CONTENT_MAX_LENGTH"
    "opt_all (\<lambda>c. 0 \<le> c \<and> c \<le> 1) (cf_confidence (cr_fields r))"
    "opt_all (\<lambda>u. opt_all (\<lambda>f. u > f) (cf_valid_from (cr_fields r))) (cf_valid_until (cr_fields r))"
    "memory_provenance_row_ok (new_provenance env (cr_fields r))"
proof -
  obtain t s raw where v: "validate_create_request t s raw = Inr r" using assms by (auto simp: create_valid_def)
  obtain c sc vf vu p where f: "normalize_cognitive_memory_content (cf_content raw) = Inr c"
    "opt_field normalize_cognitive_memory_timestamp (cf_valid_from raw) = Inr vf"
    "opt_field normalize_cognitive_memory_timestamp (cf_valid_until raw) = Inr vu"
    "validate_provenance (cf_provenance raw) = Inr p" "normalize_cognitive_memory_scope s = Inr sc"
    and r: "r = \<lparr>cr_memory_type = t, cr_scope = sc, cr_fields = content_value raw\<rparr>"
    and cross: "validate_cross_field_rules (content_value raw) = Inr ()"
    using v by (auto simp: validate_create_request_def bindE_eq_Inr_iff model_errors_Inr content_errors_def field_error_Nil)
  have cv: "content_value raw = \<lparr>cf_content = c, cf_confidence = cf_confidence raw, cf_valid_from = vf,
      cf_valid_until = vu, cf_provenance = p\<rparr>" using f by (simp add: content_value_def)
  show "scope_grammar (cr_scope r)" using valid_scope[OF f(5)] r by simp
  show "cf_content (cr_fields r) \<noteq> []" "\<not> py_space (hd (cf_content (cr_fields r)))"
    "length (cf_content (cr_fields r)) \<le> COGNITIVE_MEMORY_CONTENT_MAX_LENGTH"
    using valid_content[OF f(1)] r cv by simp_all
  show "opt_all (\<lambda>c. 0 \<le> c \<and> c \<le> 1) (cf_confidence (cr_fields r))"
    using cross r cv by (auto simp: validate_cross_field_rules_def validate_cognitive_memory_confidence_def
        bindE_eq_Inr_iff Let_def opt_all_def split: option.splits if_splits)
  show "opt_all (\<lambda>u. opt_all (\<lambda>f. u > f) (cf_valid_from (cr_fields r))) (cf_valid_until (cr_fields r))"
    using cross r cv by (auto simp: validate_cross_field_rules_def validate_cognitive_memory_validity_window_def
        bindE_eq_Inr_iff Let_def opt_all_def split: option.splits if_splits)
  show "memory_provenance_row_ok (new_provenance env (cr_fields r))"
    using valid_provenance[OF f(4)] r cv by (simp add: new_provenance_def)
qed

definition database_env_ok :: "mem_env \<Rightarrow> bool" where
  "database_env_ok env \<longleftrightarrow> (\<forall>c. me_pg_space env c \<longrightarrow> py_space c)
     \<and> (\<forall>x. 0 \<le> x \<and> x \<le> 1 \<longrightarrow> 0 \<le> me_real env x \<and> me_real env x \<le> 1)"

lemma valid_item_row:
  assumes "create_valid r" "database_env_ok env"
  shows "memory_item_row_ok (me_pg_space env)
    (stored_item env (new_item env (cr_memory_type r) (Some (cr_scope r)) (cr_fields r) embedding))"
proof -
  note v = create_validD[OF assms(1)]
  have "hd (cf_content (cr_fields r)) \<in> set (cf_content (cr_fields r))" using v(2) by simp
  then have "\<exists>c \<in> set (cf_content (cr_fields r)). \<not> me_pg_space env c"
    using v(3) assms(2) unfolding database_env_ok_def by blast
  moreover have "opt_all (\<lambda>c. 0 \<le> c \<and> c \<le> 1) (map_option (me_real env) (cf_confidence (cr_fields r)))"
    using v(5) assms(2) by (cases "cf_confidence (cr_fields r)") (auto simp: database_env_ok_def)
  ultimately show ?thesis using v(1,4,6)
    by (simp add: memory_item_row_ok_def new_item_def stored_item_def list_ex_iff)
qed

lemma replay_found:
  assumes "mem_ok sp d" "get_ledger key d = Some l"
  shows "\<exists>res. hydrate d (ml_result_memory_id l) = Inr res"
proof -
  have "ledger_settled d l" using mem_okD(12)[OF assms(1)] get_ledger_SomeD[OF assms(2)] by (auto simp: list_all_iff)
  then obtain k i where k: "ml_result_memory_id l = Some k" "get_item k d = Some i" by (auto simp: ledger_settled_def)
  then obtain p where "get_provenance k d = Some p" using provenance_exists[OF assms(1)] by blast
  then show ?thesis using k by (simp add: hydrate_def)
qed

lemma pfresh:
  assumes "mem_ok sp d" "k \<notin> mi_id ` set (memory_items d)"
  shows "k \<notin> mp_memory_id ` set (memory_provenances d)"
  using assms mem_okD(3) by (metis list.set_map)

text \<open>A validated create violates no table constraint: with fresh identifiers and a well-formed digest its
  transaction commits the item (or replays the one of its key), and the only error is the conflict of a key that
  a different request holds.\<close>

theorem validated_create_commits:
  assumes "create_valid r" "database_env_ok env" "mem_ok sp d"
    and "me_uuid env 0 \<notin> mi_id ` set (memory_items d)" "me_uuid env 1 \<notin> ml_id ` set (memory_ledger d)"
    and "claimed = None \<or> (\<exists>key h. claimed = Some (key, h) \<and> sha256_hex h)"
  shows "case create_body env r claimed embedding d of
      Inr (res, d') \<Rightarrow> get_item (res_memory_id res) d' \<noteq> None
    | Inl e \<Rightarrow> e = idempotency_conflict_error \<and> (\<exists>key h l. claimed = Some (key, h) \<and> get_ledger key d = Some l
        \<and> (ml_operation l \<noteq> Op_CREATE \<or> ml_request_digest l \<noteq> h))"
proof -
  let ?i = "new_item env (cr_memory_type r) (Some (cr_scope r)) (cr_fields r) embedding"
  let ?p = "new_provenance env (cr_fields r)"
  let ?d1 = "d\<lparr>memory_items := memory_items d @ [stored_item env ?i]\<rparr>"
  let ?d2 = "?d1\<lparr>memory_provenances := memory_provenances d @ [?p]\<rparr>"
  have id: "mi_id ?i = me_uuid env 0" "mp_memory_id ?p = me_uuid env 0" "mi_superseded_by ?i = None"
    by (simp_all add: new_item_def new_provenance_def)
  have add1: "add_item env ?i d = Inr ?d1"
    using valid_item_row[OF assms(1,2)] assms(4) id by (simp add: add_item_def item_exists_def Let_def)
  have got: "get_item (me_uuid env 0) ?d1 = Some (stored_item env ?i)"
    using assms(4) id by (simp add: get_item_def row_get_snoc row_get_None_iff[THEN iffD2])
  have add2: "add_provenance ?p ?d1 = Inr ?d2"
    using create_validD(7)[OF assms(1), of env] pfresh[OF assms(3,4)] id got by (simp add: add_provenance_def)
  have got2: "get_item (me_uuid env 0) ?d2 = Some (stored_item env ?i)" using got by (simp add: get_item_def)
  have res: "res_memory_id (memory_item_result ?i ?p) = me_uuid env 0" by (simp add: memory_item_result_def id)
  show ?thesis
  proof (cases claimed)
    case None
    then show ?thesis using add1 add2 got2 res by (simp add: create_body_def Let_def)
  next
    case (Some kh)
    obtain key h where c: "claimed = Some (key, h)" and hex: "sha256_hex h" using Some assms(6) by auto
    let ?l = "\<lparr>ml_id = me_uuid env 1, ml_idempotency_key = key, ml_operation = Op_CREATE,
      ml_request_digest = h, ml_target_memory_id = None, ml_result_memory_id = Some (mi_id ?i)\<rparr>"
    have row: "memory_ledger_row_ok ?l" using hex by (simp add: memory_ledger_row_ok_def)
    show ?thesis
    proof (cases "get_ledger key d")
      case None
      then have "add_ledger ?l ?d2 = Inr (?d2\<lparr>memory_ledger := memory_ledger d @ [?l]\<rparr>)"
        using row assms(5) got2 id by (simp add: add_ledger_def get_ledger_None item_exists_def)
      moreover have "get_item (me_uuid env 0) (?d2\<lparr>memory_ledger := memory_ledger d @ [?l]\<rparr>) \<noteq> None"
        using got2 by (simp add: get_item_def)
      ultimately show ?thesis using add1 add2 res c by (simp add: create_body_def Let_def)
    next
      case (Some l)
      then have taken: "key \<in> ml_idempotency_key ` set (memory_ledger d)" using get_ledger_None by (metis option.distinct(1))
      then have viol: "add_ledger ?l ?d2 = Inl (Integrity_Error COGNITIVE_IDEMPOTENCY_KEY_UNIQUE_CONSTRAINT)"
        using row assms(5) by (simp add: add_ledger_def)
      obtain out where out: "hydrate d (ml_result_memory_id l) = Inr out" using replay_found[OF assms(3) Some] by blast
      then obtain k i p where "get_item k d = Some i" "out = memory_item_result i p"
        by (auto simp: hydrate_def split: option.splits)
      then have "get_item (res_memory_id out) d \<noteq> None"
        using get_item_SomeD[of k d i] by (simp add: memory_item_result_def)
      then show ?thesis using add1 add2 c viol Some out
        by (auto simp: create_body_def Let_def resolve_winner_def require_same_operation_and_digest_def)
    qed
  qed
qed

theorem validated_create_commits_witness:
  "(case create_body (demo_mem_env 20 200 200) demo_create (Some (''k'', replicate 64 (CHR ''a''))) [1] demo_mem_db of
      Inr (res, d') \<Rightarrow> get_item (res_memory_id res) d' \<noteq> None
    | Inl e \<Rightarrow> e = idempotency_conflict_error \<and> (\<exists>key h l. Some (''k'', replicate 64 (CHR ''a'')) = Some (key, h)
        \<and> get_ledger key demo_mem_db = Some l \<and> (ml_operation l \<noteq> Op_CREATE \<or> ml_request_digest l \<noteq> h)))
   \<and> isOk (create_body (demo_mem_env 20 200 200) demo_create (Some (''k'', replicate 64 (CHR ''a''))) [1] demo_mem_db)"
proof
  have "validate_create_request PROFILE (ascii ''global'') \<lparr>cf_content = ascii '' tea'', cf_confidence = None,
      cf_valid_from = None, cf_valid_until = None, cf_provenance = \<lparr>pf_origin_kind = USER_ASSERTED,
        pf_source_system = ascii ''assistant'', pf_conversation_uuid = None, pf_turn_uuid = Some 9,
        pf_task_uuid = None, pf_confirmation_ref = None, pf_source_ref = None, pf_observed_at = None\<rparr>\<rparr> = Inr demo_create"
    by code_simp
  then have "create_valid demo_create" unfolding create_valid_def by blast
  moreover have "database_env_ok (demo_mem_env 20 200 200)" by (simp add: database_env_ok_def demo_mem_env_def)
  moreover have "me_uuid (demo_mem_env 20 200 200) 0 \<notin> mi_id ` set (memory_items demo_mem_db)"
    "me_uuid (demo_mem_env 20 200 200) 1 \<notin> ml_id ` set (memory_ledger demo_mem_db)" by code_simp+
  moreover have "Some (''k'', replicate 64 (CHR ''a'')) = None \<or>
      (\<exists>key h. Some (''k'', replicate 64 (CHR ''a'')) = Some (key, h) \<and> sha256_hex h)" by (simp add: sha256_hex_def list_all_iff)
  ultimately show "case create_body (demo_mem_env 20 200 200) demo_create (Some (''k'', replicate 64 (CHR ''a''))) [1] demo_mem_db of
      Inr (res, d') \<Rightarrow> get_item (res_memory_id res) d' \<noteq> None
    | Inl e \<Rightarrow> e = idempotency_conflict_error \<and> (\<exists>key h l. Some (''k'', replicate 64 (CHR ''a'')) = Some (key, h)
        \<and> get_ledger key demo_mem_db = Some l \<and> (ml_operation l \<noteq> Op_CREATE \<or> ml_request_digest l \<noteq> h))"
    using validated_create_commits[OF _ _ demo_mem_db_ok] by blast
  show "isOk (create_body (demo_mem_env 20 200 200) demo_create (Some (''k'', replicate 64 (CHR ''a''))) [1] demo_mem_db)"
    by code_simp
qed

end
