(* ===== verification/Knowledge_Store.thy ===== *)
theory Knowledge_Store
  imports Run_Repository Graph_Outbox
begin

text \<open>
  The knowledge tables: sources, documents, chunks, entities with their mentions, relations with
  their evidence, summaries and the graph outbox (\<open>infrastructure/postgres/models\<close>), and the
  queries the destructive pipelines, recall and provenance read them with
  (\<open>infrastructure/postgres/repositories\<close>).  Generated columns of the full-text index are not
  modelled.
\<close>

subsection \<open>Rows\<close>

record source =
  src_id :: uuid
  src_dataset_id :: uuid
  src_kind :: source_kind
  src_name :: pystr
  src_mime_type :: pystr
  src_original_uri :: "pystr option"
  src_storage_uri :: "pystr option"
  src_content_sha256 :: string
  src_normalized_sha256 :: "string option"
  src_byte_size :: int
  src_metadata :: "(pystr \<times> json) list"
  src_status :: source_status
  src_version :: int
  src_created_at :: timestamp

record document =
  doc_id :: uuid
  doc_dataset_id :: uuid
  doc_source_id :: uuid
  doc_generation :: int
  doc_title :: pystr
  doc_language :: string
  doc_normalized_text :: pystr
  doc_text_sha256 :: string
  doc_token_count :: int
  doc_metadata :: "(pystr \<times> json) list"
  doc_is_active :: bool
  doc_created_at :: timestamp

record chunk =
  ch_id :: uuid
  ch_dataset_id :: uuid
  ch_document_id :: uuid
  ch_source_id :: uuid
  ch_generation :: int
  ch_ordinal :: int
  ch_text :: pystr
  ch_content_sha256 :: string
  ch_token_count :: int
  ch_start_char :: int
  ch_end_char :: int
  ch_section_path :: "pystr list"
  ch_metadata :: "(pystr \<times> json) list"
  ch_embedding :: "rat list"
  ch_is_active :: bool
  ch_created_at :: timestamp

record entity =
  ent_id :: uuid
  ent_dataset_id :: uuid
  ent_generation :: int
  ent_canonical_key :: pystr
  ent_name :: pystr
  ent_entity_type :: pystr
  ent_description :: pystr
  ent_aliases :: "pystr list"
  ent_properties :: json
  ent_confidence :: rat
  ent_importance_weight :: rat
  ent_embedding :: "rat list option"
  ent_is_active :: bool
  ent_created_at :: timestamp

record entity_mention =
  em_id :: uuid
  em_entity_id :: uuid
  em_chunk_id :: uuid
  em_surface_text :: pystr
  em_start_char :: "int option"
  em_end_char :: "int option"
  em_confidence :: rat

record relation =
  rel_id :: uuid
  rel_dataset_id :: uuid
  rel_generation :: int
  rel_source_entity_id :: uuid
  rel_target_entity_id :: uuid
  rel_predicate :: pystr
  rel_description :: pystr
  rel_properties :: json
  rel_confidence :: rat
  rel_importance_weight :: rat
  rel_embedding :: "rat list option"
  rel_is_active :: bool
  rel_created_at :: timestamp

record relation_evidence =
  ev_relation_id :: uuid
  ev_chunk_id :: uuid
  ev_quote :: pystr
  ev_confidence :: rat

record summary =
  sum_id :: uuid
  sum_dataset_id :: uuid
  sum_generation :: int
  sum_target_type :: summary_target_type
  sum_target_id :: "uuid option"
  sum_level :: int
  sum_text :: pystr
  sum_embedding :: "rat list"
  sum_is_active :: bool
  sum_created_at :: timestamp

text \<open>The pipeline tables and datasets of \<open>db\<close> with the knowledge tables.\<close>

record kdb =
  kb_runtime :: db
  kb_sources :: "source list"
  kb_documents :: "document list"
  kb_chunks :: "chunk list"
  kb_entities :: "entity list"
  kb_mentions :: "entity_mention list"
  kb_relations :: "relation list"
  kb_evidence :: "relation_evidence list"
  kb_summaries :: "summary list"
  kb_outbox :: outbox

definition kdb_keyed :: "kdb \<Rightarrow> bool" where
  "kdb_keyed k \<longleftrightarrow> keyed dataset_id (datasets (kb_runtime k)) \<and> keyed src_id (kb_sources k)
     \<and> keyed doc_id (kb_documents k) \<and> keyed ch_id (kb_chunks k) \<and> keyed ent_id (kb_entities k)
     \<and> keyed em_id (kb_mentions k) \<and> keyed rel_id (kb_relations k)
     \<and> distinct (map (\<lambda>e. (ev_relation_id e, ev_chunk_id e)) (kb_evidence k)) \<and> keyed sum_id (kb_summaries k)"

definition kb_dataset :: "uuid \<Rightarrow> kdb \<Rightarrow> dataset option" where
  "kb_dataset k d = get_dataset k (kb_runtime d)"

definition kb_source :: "uuid \<Rightarrow> kdb \<Rightarrow> source option" where
  "kb_source k d = row_get src_id k (kb_sources d)"

definition kb_document :: "uuid \<Rightarrow> kdb \<Rightarrow> document option" where
  "kb_document k d = row_get doc_id k (kb_documents d)"

definition kb_chunk :: "uuid \<Rightarrow> kdb \<Rightarrow> chunk option" where
  "kb_chunk k d = row_get ch_id k (kb_chunks d)"

definition kb_entity :: "uuid \<Rightarrow> kdb \<Rightarrow> entity option" where
  "kb_entity k d = row_get ent_id k (kb_entities d)"

definition kb_relation :: "uuid \<Rightarrow> kdb \<Rightarrow> relation option" where
  "kb_relation k d = row_get rel_id k (kb_relations d)"

definition some_row :: "'a option \<Rightarrow> ('a \<Rightarrow> bool) \<Rightarrow> bool" where
  "some_row r P = (case r of None \<Rightarrow> False | Some x \<Rightarrow> P x)"

lemma some_row_iff: "some_row r P \<longleftrightarrow> (\<exists>x. r = Some x \<and> P x)"
  by (simp add: some_row_def split: option.split)

subsection \<open>The conditions the queries join on\<close>

definition source_authoritative :: "uuid \<Rightarrow> kdb \<Rightarrow> uuid \<Rightarrow> bool" where
  "source_authoritative ds d k = some_row (kb_source k d) (\<lambda>s. src_dataset_id s = ds \<and> src_status s = Source_ACTIVE)"

definition document_authoritative :: "dataset \<Rightarrow> kdb \<Rightarrow> uuid \<Rightarrow> bool" where
  "document_authoritative ds d k = some_row (kb_document k d) (\<lambda>x. doc_dataset_id x = dataset_id ds
     \<and> doc_generation x = dataset_active_generation ds \<and> doc_is_active x)"

definition chunk_authoritative :: "dataset \<Rightarrow> kdb \<Rightarrow> chunk \<Rightarrow> bool" where
  "chunk_authoritative ds d c \<longleftrightarrow> dataset_status ds = Dataset_ACTIVE \<and> ch_dataset_id c = dataset_id ds
     \<and> ch_generation c = dataset_active_generation ds \<and> ch_is_active c
     \<and> document_authoritative ds d (ch_document_id c) \<and> source_authoritative (dataset_id ds) d (ch_source_id c)"

definition entity_current :: "dataset \<Rightarrow> entity \<Rightarrow> bool" where
  "entity_current ds e \<longleftrightarrow> ent_dataset_id e = dataset_id ds \<and> ent_generation e = dataset_active_generation ds
     \<and> ent_is_active e"

definition relation_row_current :: "dataset \<Rightarrow> relation \<Rightarrow> bool" where
  "relation_row_current ds r \<longleftrightarrow> rel_dataset_id r = dataset_id ds
     \<and> rel_generation r = dataset_active_generation ds \<and> rel_is_active r"

definition relation_current :: "dataset \<Rightarrow> kdb \<Rightarrow> relation \<Rightarrow> bool" where
  "relation_current ds d r \<longleftrightarrow> relation_row_current ds r
     \<and> some_row (kb_entity (rel_source_entity_id r) d) (entity_current ds)
     \<and> some_row (kb_entity (rel_target_entity_id r) d) (entity_current ds)"

definition with_dataset :: "uuid \<Rightarrow> kdb \<Rightarrow> dataset_status list \<Rightarrow> (dataset \<Rightarrow> 'a list) \<Rightarrow> 'a list" where
  "with_dataset k d statuses f = (case kb_dataset k d of None \<Rightarrow> []
     | Some ds \<Rightarrow> if dataset_status ds \<in> set statuses then f ds else [])"

subsection \<open>Repository queries\<close>

definition dataset_by_slug :: "pystr \<Rightarrow> kdb \<Rightarrow> dataset option" where
  "dataset_by_slug slug d = List.find (\<lambda>x. ascii (dataset_slug x) = slug) (datasets (kb_runtime d))"

definition list_ids_for_everything_forget :: "kdb \<Rightarrow> uuid list" where
  "list_ids_for_everything_forget d = sort (map dataset_id (filter (\<lambda>x.
     (dataset_status x = Dataset_ACTIVE \<or> dataset_status x = Dataset_DELETING)
     \<and> \<not> exists_administrative_delete_ownership (dataset_id x) (kb_runtime d)) (datasets (kb_runtime d))))"

definition list_sources_not_deleted :: "uuid \<Rightarrow> kdb \<Rightarrow> source list" where
  "list_sources_not_deleted ds d = sort_key src_id
     (filter (\<lambda>s. src_dataset_id s = ds \<and> src_status s \<noteq> Source_DELETED) (kb_sources d))"

definition list_documents_for_source_generation :: "uuid \<Rightarrow> int \<Rightarrow> kdb \<Rightarrow> document list" where
  "list_documents_for_source_generation src gen d = sort_key (\<lambda>x. (doc_created_at x, doc_id x))
     (filter (\<lambda>x. doc_source_id x = src \<and> doc_generation x = gen \<and> doc_is_active x) (kb_documents d))"

definition list_documents_current_for_dataset :: "uuid \<Rightarrow> int \<Rightarrow> kdb \<Rightarrow> document list" where
  "list_documents_current_for_dataset ds gen d = sort_key (\<lambda>x. (doc_source_id x, doc_created_at x, doc_id x))
     (filter (\<lambda>x. doc_dataset_id x = ds \<and> doc_generation x = gen \<and> doc_is_active x) (kb_documents d))"

definition list_chunks_for_source_generation :: "uuid \<Rightarrow> int \<Rightarrow> kdb \<Rightarrow> chunk list" where
  "list_chunks_for_source_generation src gen d = sort_key (\<lambda>c. (ch_ordinal c, ch_id c))
     (filter (\<lambda>c. ch_source_id c = src \<and> ch_generation c = gen \<and> ch_is_active c) (kb_chunks d))"

definition list_chunks_current_for_dataset :: "uuid \<Rightarrow> int \<Rightarrow> kdb \<Rightarrow> chunk list" where
  "list_chunks_current_for_dataset ds gen d = sort_key (\<lambda>c. (ch_document_id c, ch_ordinal c, ch_id c))
     (filter (\<lambda>c. ch_dataset_id c = ds \<and> ch_generation c = gen \<and> ch_is_active c) (kb_chunks d))"

definition list_mentions_for_chunks :: "uuid list \<Rightarrow> kdb \<Rightarrow> entity_mention list" where
  "list_mentions_for_chunks ids d = sort_key em_id (filter (\<lambda>m. em_chunk_id m \<in> set ids) (kb_mentions d))"

definition list_evidence_for_chunks :: "uuid list \<Rightarrow> kdb \<Rightarrow> relation_evidence list" where
  "list_evidence_for_chunks ids d = sort_key (\<lambda>e. (ev_relation_id e, ev_chunk_id e))
     (filter (\<lambda>e. ev_chunk_id e \<in> set ids) (kb_evidence d))"

definition relation_ids_with_authoritative_evidence :: "uuid \<Rightarrow> uuid list \<Rightarrow> kdb \<Rightarrow> uuid list" where
  "relation_ids_with_authoritative_evidence k ids d = with_dataset k d [Dataset_ACTIVE] (\<lambda>ds.
     remdups (map ev_relation_id (filter (\<lambda>e. ev_relation_id e \<in> set ids
       \<and> some_row (kb_relation (ev_relation_id e) d) (relation_row_current ds)
       \<and> some_row (kb_chunk (ev_chunk_id e) d) (chunk_authoritative ds d)) (kb_evidence d))))"

definition entity_ids_with_authoritative_mentions :: "uuid \<Rightarrow> uuid list \<Rightarrow> kdb \<Rightarrow> uuid list" where
  "entity_ids_with_authoritative_mentions k ids d = with_dataset k d [Dataset_ACTIVE] (\<lambda>ds.
     remdups (map em_entity_id (filter (\<lambda>m. em_entity_id m \<in> set ids
       \<and> some_row (kb_entity (em_entity_id m) d) (entity_current ds)
       \<and> some_row (kb_chunk (em_chunk_id m) d) (chunk_authoritative ds d)) (kb_mentions d))))"

definition relations_current_by_ids :: "uuid \<Rightarrow> uuid list \<Rightarrow> kdb \<Rightarrow> relation list" where
  "relations_current_by_ids k ids d = with_dataset k d [Dataset_ACTIVE] (\<lambda>ds.
     sort_key rel_id (filter (\<lambda>r. rel_id r \<in> set ids \<and> relation_current ds d r) (kb_relations d)))"

definition relations_current_for_dataset :: "uuid \<Rightarrow> kdb \<Rightarrow> relation list" where
  "relations_current_for_dataset k d = with_dataset k d [Dataset_ACTIVE, Dataset_DELETING] (\<lambda>ds.
     sort_key (\<lambda>r. (rel_created_at r, rel_id r)) (filter (relation_current ds d) (kb_relations d)))"

definition entities_current_by_ids :: "uuid \<Rightarrow> uuid list \<Rightarrow> kdb \<Rightarrow> entity list" where
  "entities_current_by_ids k ids d = with_dataset k d [Dataset_ACTIVE] (\<lambda>ds.
     sort_key (\<lambda>e. (ent_created_at e, ent_id e)) (filter (\<lambda>e. ent_id e \<in> set ids \<and> entity_current ds e) (kb_entities d)))"

definition entities_current_for_dataset :: "uuid \<Rightarrow> kdb \<Rightarrow> entity list" where
  "entities_current_for_dataset k d = with_dataset k d [Dataset_ACTIVE, Dataset_DELETING] (\<lambda>ds.
     sort_key ent_id (filter (entity_current ds) (kb_entities d)))"

definition incident_entity_ids :: "uuid \<Rightarrow> uuid list \<Rightarrow> kdb \<Rightarrow> uuid list" where
  "incident_entity_ids k ids d = with_dataset k d [Dataset_ACTIVE] (\<lambda>ds.
     filter (\<lambda>i. i \<in> set ids) (concat (map (\<lambda>r. [rel_source_entity_id r, rel_target_entity_id r])
       (filter (relation_current ds d) (kb_relations d)))))"

definition list_summaries_for_forget ::
  "uuid \<Rightarrow> int \<Rightarrow> uuid list \<Rightarrow> uuid list \<Rightarrow> bool \<Rightarrow> kdb \<Rightarrow> summary list" where
  "list_summaries_for_forget ds gen document_ids entity_ids include_dataset_summary d =
     filter (\<lambda>s. sum_dataset_id s = ds \<and> sum_generation s = gen \<and> sum_is_active s
       \<and> (sum_target_type s = Target_DOCUMENT \<and> (\<exists>t \<in> set document_ids. sum_target_id s = Some t)
         \<or> sum_target_type s = Target_ENTITY \<and> (\<exists>t \<in> set entity_ids. sum_target_id s = Some t)
         \<or> include_dataset_summary \<and> sum_target_type s = Target_DATASET \<and> sum_target_id s = Some ds))
       (kb_summaries d)"

subsection \<open>Single-row writes\<close>

definition put_dataset :: "dataset \<Rightarrow> kdb \<Rightarrow> kdb" where
  "put_dataset x d = d\<lparr>kb_runtime := (kb_runtime d)\<lparr>datasets := row_put dataset_id x (datasets (kb_runtime d))\<rparr>\<rparr>"

definition put_source :: "source \<Rightarrow> kdb \<Rightarrow> kdb" where
  "put_source x d = d\<lparr>kb_sources := row_put src_id x (kb_sources d)\<rparr>"

definition deactivate_documents :: "uuid list \<Rightarrow> kdb \<Rightarrow> kdb" where
  "deactivate_documents ids d = d\<lparr>kb_documents :=
     row_upd (\<lambda>x. doc_id x \<in> set ids) (\<lambda>x. x\<lparr>doc_is_active := False\<rparr>) (kb_documents d)\<rparr>"

definition deactivate_chunks :: "uuid list \<Rightarrow> kdb \<Rightarrow> kdb" where
  "deactivate_chunks ids d = d\<lparr>kb_chunks :=
     row_upd (\<lambda>x. ch_id x \<in> set ids) (\<lambda>x. x\<lparr>ch_is_active := False\<rparr>) (kb_chunks d)\<rparr>"

definition deactivate_relations :: "uuid list \<Rightarrow> kdb \<Rightarrow> kdb" where
  "deactivate_relations ids d = d\<lparr>kb_relations :=
     row_upd (\<lambda>x. rel_id x \<in> set ids) (\<lambda>x. x\<lparr>rel_is_active := False\<rparr>) (kb_relations d)\<rparr>"

definition deactivate_entities :: "uuid list \<Rightarrow> kdb \<Rightarrow> kdb" where
  "deactivate_entities ids d = d\<lparr>kb_entities :=
     row_upd (\<lambda>x. ent_id x \<in> set ids) (\<lambda>x. x\<lparr>ent_is_active := False\<rparr>) (kb_entities d)\<rparr>"

definition deactivate_summaries :: "uuid list \<Rightarrow> kdb \<Rightarrow> kdb" where
  "deactivate_summaries ids d = d\<lparr>kb_summaries :=
     row_upd (\<lambda>x. sum_id x \<in> set ids) (\<lambda>x. x\<lparr>sum_is_active := False\<rparr>) (kb_summaries d)\<rparr>"

end
