(* ===== verification/Forget_Mutation.thy ===== *)
theory Forget_Mutation
  imports Knowledge_Store Submission
begin

text \<open>
  \<open>services/forget.py\<close>: scope derivation, the work identity and its comparison, the authoritative
  mutations of source and dataset scope, and the projection deletes they enqueue.  A mutation gets
  the transaction's clock, fresh UUIDs and the sequence of outbox ids from \<open>forget_env\<close>.
\<close>

datatype forget_scope = Scope_SOURCE | Scope_DATASET | Scope_EVERYTHING

fun forget_scope_value :: "forget_scope \<Rightarrow> string" where
  "forget_scope_value Scope_SOURCE = ''source''"
| "forget_scope_value Scope_DATASET = ''dataset''"
| "forget_scope_value Scope_EVERYTHING = ''everything''"

definition EVERYTHING_CONFIRM_PHRASE :: pystr where
  "EVERYTHING_CONFIRM_PHRASE = ascii ''DELETE EVERYTHING''"

definition invalid_request_error :: exn where
  "invalid_request_error = Sofias_Memory_Error INVALID_REQUEST BAD_REQUEST"

definition determine_forget_scope ::
  "string set \<Rightarrow> uuid option \<Rightarrow> bool \<Rightarrow> pystr option \<Rightarrow> bool \<Rightarrow> exn + forget_scope" where
  "determine_forget_scope fields_set source_id everything confirm memory_only =
     (if everything then
        (if source_id \<noteq> None then Inl invalid_request_error
         else if ''dataset'' \<in> fields_set then Inl invalid_request_error
         else if memory_only then Inl invalid_request_error
         else if confirm \<noteq> Some EVERYTHING_CONFIRM_PHRASE then Inl invalid_request_error
         else Inr Scope_EVERYTHING)
      else if confirm \<noteq> None then Inl invalid_request_error
      else if source_id \<noteq> None then Inr Scope_SOURCE
      else if ''dataset'' \<notin> fields_set then Inl invalid_request_error
      else Inr Scope_DATASET)"

subsection \<open>Work identity and intent\<close>

definition forget_source_run_input :: "pystr \<Rightarrow> uuid \<Rightarrow> bool \<Rightarrow> json" where
  "forget_source_run_input dataset source_id memory_only = JObj
     [(ascii ''scope'', json_str ''source''), (ascii ''dataset'', JStr dataset),
      (ascii ''source_id'', JStr (uuid_text source_id)), (ascii ''memory_only'', JBool memory_only)]"

definition forget_dataset_run_input :: "pystr \<Rightarrow> bool \<Rightarrow> json" where
  "forget_dataset_run_input dataset memory_only = JObj
     [(ascii ''scope'', json_str ''dataset''), (ascii ''dataset'', JStr dataset),
      (ascii ''memory_only'', JBool memory_only)]"

definition forget_everything_run_input :: json where
  "forget_everything_run_input = JObj [(ascii ''scope'', json_str ''everything'')]"

record forget_semantic_intent =
  fi_scope :: forget_scope
  fi_dataset :: "pystr option"
  fi_source_id :: "pystr option"
  fi_memory_only :: bool

definition jget :: "json \<Rightarrow> string \<Rightarrow> json option" where
  "jget j k = (case j of JObj kvs \<Rightarrow> map_of kvs (ascii k) | _ \<Rightarrow> None)"

fun str_value :: "json option \<Rightarrow> pystr option" where
  "str_value (Some (JStr s)) = Some s"
| "str_value _ = None"

fun bool_default_false :: "json option \<Rightarrow> bool option" where
  "bool_default_false None = Some False"
| "bool_default_false (Some (JBool b)) = Some b"
| "bool_default_false _ = None"

definition parse_forget_scope :: "json option \<Rightarrow> forget_scope option" where
  "parse_forget_scope v = (case str_value v of None \<Rightarrow> None
     | Some s \<Rightarrow> List.find (\<lambda>c. ascii (forget_scope_value c) = s) [Scope_SOURCE, Scope_DATASET, Scope_EVERYTHING])"

definition forget_semantic_intent_from_run_input :: "json \<Rightarrow> forget_semantic_intent option" where
  "forget_semantic_intent_from_run_input run_inp =
     (case (parse_forget_scope (jget run_inp ''scope''), bool_default_false (jget run_inp ''memory_only'')) of
        (Some scope, Some memory_only) \<Rightarrow>
          (let dataset = str_value (jget run_inp ''dataset''); source_id = str_value (jget run_inp ''source_id'') in
           if scope \<noteq> Scope_EVERYTHING \<and> dataset = None then None
           else if scope = Scope_SOURCE \<and> source_id = None then None
           else Some \<lparr>fi_scope = scope, fi_dataset = (if scope = Scope_EVERYTHING then None else dataset),
                  fi_source_id = (if scope = Scope_SOURCE then source_id else None), fi_memory_only = memory_only\<rparr>)
      | _ \<Rightarrow> None)"

definition same_forget_intent :: "json \<Rightarrow> json \<Rightarrow> bool" where
  "same_forget_intent l r =
     (case (forget_semantic_intent_from_run_input l, forget_semantic_intent_from_run_input r) of
        (Some a, Some b) \<Rightarrow> a = b
      | _ \<Rightarrow> False)"

subsection \<open>Mutation counts\<close>

record forget_counts =
  fc_documents :: nat
  fc_chunks :: nat
  fc_summaries :: nat
  fc_entities :: nat
  fc_relations :: nat
  fc_mentions :: nat
  fc_evidence :: nat
  fc_events :: nat

definition zero_counts :: forget_counts where
  "zero_counts = \<lparr>fc_documents = 0, fc_chunks = 0, fc_summaries = 0, fc_entities = 0, fc_relations = 0,
     fc_mentions = 0, fc_evidence = 0, fc_events = 0\<rparr>"

record forget_mutation =
  fm_dataset_id :: uuid
  fm_generation :: int
  fm_source_id :: uuid
  fm_source_status :: string
  fm_storage_uri :: "pystr option"
  fm_counts :: forget_counts
  fm_reentrant_in_progress :: bool

record dataset_mutation_part =
  dm_dataset_id :: uuid
  dm_generation :: int
  dm_sources_touched :: nat
  dm_counts :: forget_counts
  dm_graph_outbox_ids :: "nat list"

definition empty_mutation :: "dataset \<Rightarrow> source \<Rightarrow> bool \<Rightarrow> forget_mutation" where
  "empty_mutation ds s reentrant = \<lparr>fm_dataset_id = dataset_id ds, fm_generation = dataset_active_generation ds,
     fm_source_id = src_id s, fm_source_status = source_status_value (src_status s), fm_storage_uri = src_storage_uri s,
     fm_counts = zero_counts, fm_reentrant_in_progress = reentrant\<rparr>"

definition empty_dataset_mutation_part :: "dataset \<Rightarrow> dataset_mutation_part" where
  "empty_dataset_mutation_part ds = \<lparr>dm_dataset_id = dataset_id ds, dm_generation = dataset_active_generation ds,
     dm_sources_touched = 0, dm_counts = zero_counts, dm_graph_outbox_ids = []\<rparr>"

subsection \<open>Reset documents\<close>

definition RESET_DOCUMENT_METADATA_KEY :: pystr where "RESET_DOCUMENT_METADATA_KEY = ascii ''forget_memory_reset''"
definition RESET_DOCUMENT_METADATA_VERSION :: pystr where "RESET_DOCUMENT_METADATA_VERSION = ascii ''v1''"
definition RESET_DOCUMENT_TOKEN_COUNT :: int where "RESET_DOCUMENT_TOKEN_COUNT = - 1"

definition RESET_DOCUMENT_TEXT_SHA256 :: "py_env \<Rightarrow> string" where
  "RESET_DOCUMENT_TEXT_SHA256 E = sha256_hexdigest E []"

record forget_env =
  fe_py :: py_env
  fe_now :: timestamp
  fe_uuid :: "nat \<Rightarrow> uuid"
  fe_outbox_id :: "outbox \<Rightarrow> nat"

definition reset_document_for_recognify :: "forget_env \<Rightarrow> nat \<Rightarrow> document \<Rightarrow> document" where
  "reset_document_for_recognify env n x = \<lparr>doc_id = fe_uuid env n, doc_dataset_id = doc_dataset_id x,
     doc_source_id = doc_source_id x, doc_generation = doc_generation x, doc_title = [], doc_language = ''und'',
     doc_normalized_text = [], doc_text_sha256 = RESET_DOCUMENT_TEXT_SHA256 (fe_py env),
     doc_token_count = RESET_DOCUMENT_TOKEN_COUNT,
     doc_metadata = [(RESET_DOCUMENT_METADATA_KEY, JObj [(ascii ''version'', JStr RESET_DOCUMENT_METADATA_VERSION)])],
     doc_is_active = True, doc_created_at = fe_now env\<rparr>"

definition add_documents :: "document list \<Rightarrow> kdb \<Rightarrow> kdb" where
  "add_documents xs d = d\<lparr>kb_documents := kb_documents d @ xs\<rparr>"

subsection \<open>Projection deletes\<close>

text \<open>A command with the id \<open>add_projection_command\<close> reads back from its aggregate id.\<close>

type_synonym addressed_command = "uuid \<times> projection_command"

definition forget_command_key :: "addressed_command \<Rightarrow> pystr \<times> pystr option \<times> pystr option" where
  "forget_command_key ac =
     (let c = snd ac in
      if pc_aggregate_type c = ascii ''chunk_next''
      then (pc_aggregate_type c, map_of (pc_identity c) (ascii ''from_chunk_id''), map_of (pc_identity c) (ascii ''to_chunk_id''))
      else (pc_aggregate_type c, Some (pc_aggregate_id c), None))"

definition consecutive_pairs :: "chunk list \<Rightarrow> (chunk \<times> chunk) list" where
  "consecutive_pairs cs = filter (\<lambda>(l, r). ch_ordinal r = ch_ordinal l + 1) (zip cs (tl cs))"

definition chunk_next_delete_commands :: "uuid \<Rightarrow> chunk list \<Rightarrow> addressed_command list" where
  "chunk_next_delete_commands ds chunks =
     concat (map (\<lambda>g. map (\<lambda>(l, r). (ch_id l, chunk_next_delete_command (uuid_text ds) (uuid_text (ch_id l)) (uuid_text (ch_id r))))
       (consecutive_pairs (sort_key (\<lambda>c. (ch_ordinal c, ch_id c)) g))) (group_by ch_document_id chunks))"

definition forget_projection_commands ::
  "uuid \<Rightarrow> chunk list \<Rightarrow> entity_mention list \<Rightarrow> relation list \<Rightarrow> entity list \<Rightarrow> addressed_command list" where
  "forget_projection_commands ds chunks mentions relations entities =
     first_per forget_command_key
       (map (\<lambda>c. (ch_id c, chunk_delete_command (uuid_text (ch_id c)) (uuid_text ds))) chunks
        @ chunk_next_delete_commands ds chunks
        @ map (\<lambda>m. (em_id m, entity_mention_delete_command (uuid_text (em_id m)) (uuid_text ds)
                 (uuid_text (em_entity_id m)) (uuid_text (em_chunk_id m)))) (sort_key em_id mentions)
        @ map (\<lambda>r. (rel_id r, relation_delete_command (uuid_text (rel_id r)) (uuid_text ds)
                 (uuid_text (rel_source_entity_id r)) (uuid_text (rel_target_entity_id r)))) (sort_key rel_id relations)
        @ map (\<lambda>e. (ent_id e, entity_delete_command (uuid_text (ent_id e)) (uuid_text ds))) (sort_key ent_id entities))"

fun enqueue_commands ::
  "(outbox \<Rightarrow> nat) \<Rightarrow> timestamp \<Rightarrow> uuid \<Rightarrow> addressed_command list \<Rightarrow> outbox \<Rightarrow> exn + (nat list \<times> outbox)" where
  "enqueue_commands next_id now ds [] rows = Inr ([], rows)"
| "enqueue_commands next_id now ds ((aid, c) # cs) rows =
     bindE (add_projection_command (next_id rows) now ds aid c rows) (\<lambda>rows1.
       bindE (enqueue_commands next_id now ds cs rows1) (\<lambda>(ks, rows2). Inr (next_id rows # ks, rows2)))"

definition enqueue :: "forget_env \<Rightarrow> uuid \<Rightarrow> addressed_command list \<Rightarrow> kdb \<Rightarrow> exn + (nat list \<times> kdb)" where
  "enqueue env ds commands d =
     bindE (enqueue_commands (fe_outbox_id env) (fe_now env) ds commands (kb_outbox d)) (\<lambda>(ks, rows).
       Inr (ks, d\<lparr>kb_outbox := rows\<rparr>))"

subsection \<open>Authoritative mutations\<close>

text \<open>What a source mutation decides, in the order of the code: the rows it retires and the state after each
  flush.\<close>

record source_retirement =
  rt_documents :: "document list"
  rt_chunks :: "chunk list"
  rt_mentions :: "entity_mention list"
  rt_evidence :: "relation_evidence list"
  rt_relations :: "relation list"
  rt_entities :: "entity list"
  rt_summaries :: "summary list"

definition retire_source :: "dataset \<Rightarrow> source \<Rightarrow> kdb \<Rightarrow> source_retirement \<times> kdb" where
  "retire_source ds s d =
     (let documents = list_documents_for_source_generation (src_id s) (dataset_active_generation ds) d;
          chunks = list_chunks_for_source_generation (src_id s) (dataset_active_generation ds) d;
          mentions = list_mentions_for_chunks (map ch_id chunks) d;
          evidence = list_evidence_for_chunks (map ch_id chunks) d;
          d1 = deactivate_chunks (map ch_id chunks) (deactivate_documents (map doc_id documents) d);
          relation_candidates = relations_current_by_ids (dataset_id ds) (map ev_relation_id evidence) d1;
          valid_relations = relation_ids_with_authoritative_evidence (dataset_id ds) (map rel_id relation_candidates) d1;
          relations = filter (\<lambda>r. rel_id r \<notin> set valid_relations) relation_candidates;
          d2 = deactivate_relations (map rel_id relations) d1;
          entity_candidates = entities_current_by_ids (dataset_id ds) (map em_entity_id mentions) d2;
          entity_ids = map ent_id entity_candidates;
          valid_mentions = entity_ids_with_authoritative_mentions (dataset_id ds) entity_ids d2;
          incident = incident_entity_ids (dataset_id ds) entity_ids d2;
          entities = filter (\<lambda>e. ent_id e \<notin> set valid_mentions \<and> ent_id e \<notin> set incident) entity_candidates;
          d3 = deactivate_entities (map ent_id entities) d2;
          summaries = list_summaries_for_forget (dataset_id ds) (dataset_active_generation ds) (map doc_id documents)
            (map ent_id entities) (documents \<noteq> [] \<or> chunks \<noteq> []) d3;
          d4 = deactivate_summaries (map sum_id summaries) d3
      in (\<lparr>rt_documents = documents, rt_chunks = chunks, rt_mentions = mentions, rt_evidence = evidence,
           rt_relations = relations, rt_entities = entities, rt_summaries = summaries\<rparr>, d4))"

definition retirement_commands :: "uuid \<Rightarrow> source_retirement \<Rightarrow> addressed_command list" where
  "retirement_commands ds t =
     forget_projection_commands ds (rt_chunks t) (rt_mentions t) (rt_relations t) (rt_entities t)"

definition retirement_counts :: "source_retirement \<Rightarrow> nat \<Rightarrow> forget_counts" where
  "retirement_counts t events = \<lparr>fc_documents = length (rt_documents t), fc_chunks = length (rt_chunks t),
     fc_summaries = length (rt_summaries t), fc_entities = length (rt_entities t), fc_relations = length (rt_relations t),
     fc_mentions = length (rt_mentions t), fc_evidence = length (rt_evidence t), fc_events = events\<rparr>"

definition apply_source_forget_mutation ::
  "forget_env \<Rightarrow> dataset \<Rightarrow> source \<Rightarrow> bool \<Rightarrow> kdb \<Rightarrow> exn + (forget_mutation \<times> kdb)" where
  "apply_source_forget_mutation env ds s memory_only d =
     (let (t, d1) = retire_source ds s d;
          d2 = (if memory_only \<and> rt_documents t \<noteq> []
                then add_documents [reset_document_for_recognify env 0 (last (rt_documents t))] d1 else d1);
          commands = retirement_commands (dataset_id ds) t
      in bindE (enqueue env (dataset_id ds) commands d2) (\<lambda>(_, d3).
           Inr (\<lparr>fm_dataset_id = dataset_id ds, fm_generation = dataset_active_generation ds, fm_source_id = src_id s,
                 fm_source_status = ''deleting'', fm_storage_uri = src_storage_uri s,
                 fm_counts = retirement_counts t (length commands), fm_reentrant_in_progress = False\<rparr>, d3)))"

definition retire_dataset :: "dataset \<Rightarrow> kdb \<Rightarrow> source_retirement \<times> kdb" where
  "retire_dataset ds d =
     (let documents = list_documents_current_for_dataset (dataset_id ds) (dataset_active_generation ds) d;
          chunks = list_chunks_current_for_dataset (dataset_id ds) (dataset_active_generation ds) d;
          mentions = list_mentions_for_chunks (map ch_id chunks) d;
          evidence = list_evidence_for_chunks (map ch_id chunks) d;
          entities = entities_current_for_dataset (dataset_id ds) d;
          relations = relations_current_for_dataset (dataset_id ds) d;
          d1 = deactivate_relations (map rel_id relations) (deactivate_entities (map ent_id entities)
                 (deactivate_chunks (map ch_id chunks) (deactivate_documents (map doc_id documents) d)));
          summaries = list_summaries_for_forget (dataset_id ds) (dataset_active_generation ds) (map doc_id documents)
            (map ent_id entities) True d1;
          d2 = deactivate_summaries (map sum_id summaries) d1
      in (\<lparr>rt_documents = documents, rt_chunks = chunks, rt_mentions = mentions, rt_evidence = evidence,
           rt_relations = relations, rt_entities = entities, rt_summaries = summaries\<rparr>, d2))"

definition reset_documents :: "forget_env \<Rightarrow> source list \<Rightarrow> document list \<Rightarrow> document list" where
  "reset_documents env sources documents =
     (let per_source = filter (\<lambda>xs. xs \<noteq> []) (map (\<lambda>s. filter (\<lambda>x. doc_source_id x = src_id s) documents) sources)
      in map (\<lambda>(n, xs). reset_document_for_recognify env n (last xs)) (zip [0..<length per_source] per_source))"

definition apply_dataset_forget_mutation ::
  "forget_env \<Rightarrow> dataset \<Rightarrow> source list \<Rightarrow> bool \<Rightarrow> kdb \<Rightarrow> exn + (dataset_mutation_part \<times> kdb)" where
  "apply_dataset_forget_mutation env ds sources memory_only d =
     (let (t, d1) = retire_dataset ds d;
          d2 = (if memory_only then add_documents (reset_documents env sources (rt_documents t)) d1 else d1);
          commands = retirement_commands (dataset_id ds) t
      in bindE (enqueue env (dataset_id ds) commands d2) (\<lambda>(ks, d3).
           Inr (\<lparr>dm_dataset_id = dataset_id ds, dm_generation = dataset_active_generation ds,
                 dm_sources_touched = length sources, dm_counts = retirement_counts t (length commands),
                 dm_graph_outbox_ids = ks\<rparr>, d3)))"

end
