(* ===== verification/Forget_Pipeline.thy ===== *)
theory Forget_Pipeline
  imports Forget_Mutation
begin

text \<open>
  The five steps of \<open>pipelines/steps/forget.py\<close> and their composition in the order of the
  registered definition.  The outputs the engine stores as JSON are records.  The drain and the
  source storage are function-valued resources acting on a state \<open>'w\<close> of the outside world; the
  environment's \<open>fe_interfere i\<close> is what other sessions commit before the \<open>i\<close>-th step.
\<close>

datatype storage_delete_status = NOT_REQUESTED | DELETED_NOW | ALREADY_ABSENT | UNRESOLVED

datatype source_storage_error =
  Storage_Unavailable | Invalid_Storage_Uri | Unsupported_Backend | Storage_Conflict | Storage_Path | Storage_Defect

record 'w forget_resources =
  fr_drain :: "(uuid \<Rightarrow> kdb \<Rightarrow> 'w \<Rightarrow> (exn + nat) \<times> kdb \<times> 'w) option"
  fr_storage_delete :: "uuid \<Rightarrow> uuid \<Rightarrow> pystr option \<Rightarrow> 'w \<Rightarrow> (source_storage_error + storage_delete_status) \<times> 'w"

definition scope_error :: "step_exception + 'a" where
  "scope_error = Inl (Permanent_Step_Error ''FORGET_RUN_SCOPE_INVALID'' ''Forget run scope/input is invalid.'')"

definition target_missing :: "step_exception + 'a" where
  "target_missing = Inl (Permanent_Step_Error ''FORGET_TARGET_MISSING'' ''Forget target no longer exists.'')"

definition target_conflict :: "string \<Rightarrow> step_exception + 'a" where
  "target_conflict message = Inl (Permanent_Step_Error FORGET_TARGET_CONFLICT_ERROR_CODE message)"

definition lift_exn :: "exn + 'a \<Rightarrow> step_exception + 'a" where
  "lift_exn r = (case r of Inl _ \<Rightarrow> Inl Other_Exception | Inr x \<Rightarrow> Inr x)"

text \<open>\<open>bool(run_input.get("memory_only", False))\<close>.\<close>

fun truthy :: "json option \<Rightarrow> bool" where
  "truthy None = False"
| "truthy (Some JNull) = False"
| "truthy (Some (JBool b)) = b"
| "truthy (Some (JInt n)) = (n \<noteq> 0)"
| "truthy (Some (JReal x)) = (x \<noteq> 0)"
| "truthy (Some (JStr s)) = (s \<noteq> [])"
| "truthy (Some (JArr xs)) = (xs \<noteq> [])"
| "truthy (Some (JObj kvs)) = (kvs \<noteq> [])"

definition run_memory_only :: "pipeline_context \<Rightarrow> bool" where
  "run_memory_only c = truthy (jget (ctx_run_input c) ''memory_only'')"

subsection \<open>1. \<open>authoritative_mutation\<close>\<close>

record source_mutation_output =
  so_dataset_id :: uuid
  so_source_id :: uuid
  so_proceed :: bool
  so_counts :: forget_counts

record dataset_mutation_output =
  do_dataset_id :: uuid
  do_proceed :: bool
  do_sources_touched :: nat
  do_counts :: forget_counts

datatype mutation_output =
    Out_Source source_mutation_output
  | Out_Targets forget_scope "dataset_mutation_output list"

definition source_mutation_output :: "forget_mutation \<Rightarrow> bool \<Rightarrow> mutation_output" where
  "source_mutation_output m proceed = Out_Source \<lparr>so_dataset_id = fm_dataset_id m, so_source_id = fm_source_id m,
     so_proceed = proceed, so_counts = fm_counts m\<rparr>"

definition dataset_mutation_output :: "dataset_mutation_part \<Rightarrow> bool \<Rightarrow> dataset_mutation_output" where
  "dataset_mutation_output p proceed = \<lparr>do_dataset_id = dm_dataset_id p, do_proceed = proceed,
     do_sources_touched = dm_sources_touched p, do_counts = dm_counts p\<rparr>"

definition mutate_source_target ::
  "forget_env \<Rightarrow> pipeline_context \<Rightarrow> dataset \<Rightarrow> source \<Rightarrow> kdb \<Rightarrow> step_exception + (mutation_output \<times> kdb)" where
  "mutate_source_target env c ds s d =
     (let memory_only = run_memory_only c; empty = empty_mutation ds s in
      if src_status s = Source_DELETED \<or> src_status s = Source_PENDING \<and> memory_only
      then Inr (source_mutation_output (empty False) True, d)
      else case find_running_forget_for_dataset_except (dataset_id ds) [src_id s] (ctx_run_id c) (kb_runtime d) of
        Some running \<Rightarrow>
          if \<not> same_forget_intent (run_input running) (ctx_run_input c)
          then target_conflict ''A conflicting forget operation is already running for this source.''
          else Inr (source_mutation_output (empty True) False, d)
      | None \<Rightarrow>
          if src_status s = Source_DELETING then
            (if (case find_latest_forget_for_source_except (src_id s) (ctx_run_id c) (kb_runtime d) of
                   None \<Rightarrow> False | Some prior \<Rightarrow> \<not> same_forget_intent (run_input prior) (ctx_run_input c))
             then target_conflict ''A prior forget attempt on this source used different options; retry with the same options to resume it.''
             else Inr (source_mutation_output (empty False) True, d))
          else lift_exn (bindE
                 (apply_source_forget_mutation env ds (s\<lparr>src_status := Source_DELETING\<rparr>) memory_only
                    (put_source (s\<lparr>src_status := Source_DELETING\<rparr>) d))
                 (\<lambda>(m, d1). Inr (source_mutation_output m True, d1))))"

definition mutate_source ::
  "forget_env \<Rightarrow> pipeline_context \<Rightarrow> kdb \<Rightarrow> step_exception + (mutation_output \<times> kdb)" where
  "mutate_source env c d =
     (case ctx_source_id c of
        None \<Rightarrow> scope_error
      | Some source_id \<Rightarrow>
        if ctx_dataset_id c = None then scope_error
        else case (case str_value (jget (ctx_run_input c) ''dataset'') of None \<Rightarrow> None | Some slug \<Rightarrow> dataset_by_slug slug d) of
          None \<Rightarrow> target_missing
        | Some ds \<Rightarrow>
          if dataset_status ds \<noteq> Dataset_ACTIVE then target_missing
          else case kb_source source_id d of
            None \<Rightarrow> target_missing
          | Some s \<Rightarrow> if src_dataset_id s \<noteq> dataset_id ds then target_missing else mutate_source_target env c ds s d)"

definition mark_sources_deleting :: "(source \<Rightarrow> bool) \<Rightarrow> uuid list \<Rightarrow> kdb \<Rightarrow> kdb" where
  "mark_sources_deleting P ids d = d\<lparr>kb_sources :=
     row_upd (\<lambda>s. src_id s \<in> set ids \<and> P s) (\<lambda>s. s\<lparr>src_status := Source_DELETING\<rparr>) (kb_sources d)\<rparr>"

definition mutate_one_dataset ::
  "forget_env \<Rightarrow> pipeline_context \<Rightarrow> uuid \<Rightarrow> bool \<Rightarrow> kdb \<Rightarrow> step_exception + (dataset_mutation_output \<times> kdb)" where
  "mutate_one_dataset env c k memory_only d =
     (case kb_dataset k d of
        None \<Rightarrow> target_missing
      | Some ds \<Rightarrow>
        if dataset_status ds \<noteq> Dataset_ACTIVE \<and> dataset_status ds \<noteq> Dataset_DELETING then target_missing
        else
          (let sources = list_sources_not_deleted k d; source_ids = map src_id sources in
           case find_running_forget_for_dataset_except k source_ids (ctx_run_id c) (kb_runtime d) of
             Some running \<Rightarrow>
               if \<not> same_forget_intent (run_input running) (ctx_run_input c)
               then target_conflict ''A conflicting forget operation is already running for one of the target datasets.''
               else Inr (dataset_mutation_output (empty_dataset_mutation_part ds) False, d)
           | None \<Rightarrow>
               if dataset_status ds = Dataset_DELETING then
                 (if (case find_latest_forget_for_dataset_except k source_ids (ctx_run_id c) (kb_runtime d) of
                        None \<Rightarrow> False | Some prior \<Rightarrow> \<not> same_forget_intent (run_input prior) (ctx_run_input c))
                  then target_conflict ''A prior forget attempt on this dataset used different options; retry with the same options to resume it.''
                  else Inr (dataset_mutation_output (empty_dataset_mutation_part ds) True, d))
               else
                 (let ds' = ds\<lparr>dataset_status := Dataset_DELETING\<rparr>;
                      d1 = mark_sources_deleting (\<lambda>_. True) source_ids (put_dataset ds' d)
                  in lift_exn (bindE (apply_dataset_forget_mutation env ds'
                       (map (\<lambda>s. s\<lparr>src_status := Source_DELETING\<rparr>) sources) memory_only d1)
                       (\<lambda>(p, d2). Inr (dataset_mutation_output p True, d2))))))"

fun mutate_targets ::
  "forget_env \<Rightarrow> pipeline_context \<Rightarrow> bool \<Rightarrow> uuid list \<Rightarrow> kdb \<Rightarrow> step_exception + (dataset_mutation_output list \<times> kdb)" where
  "mutate_targets env c memory_only [] d = Inr ([], d)"
| "mutate_targets env c memory_only (k # ks) d =
     bindE (mutate_one_dataset env c k memory_only d) (\<lambda>(t, d1).
       bindE (mutate_targets env c memory_only ks d1) (\<lambda>(ts, d2). Inr (t # ts, d2)))"

definition mutate_dataset ::
  "forget_env \<Rightarrow> pipeline_context \<Rightarrow> kdb \<Rightarrow> step_exception + (mutation_output \<times> kdb)" where
  "mutate_dataset env c d =
     (case ctx_dataset_id c of
        None \<Rightarrow> scope_error
      | Some k \<Rightarrow> bindE (mutate_one_dataset env c k (run_memory_only c) d) (\<lambda>(t, d1).
          Inr (Out_Targets Scope_DATASET [t], d1)))"

definition mutate_everything ::
  "forget_env \<Rightarrow> pipeline_context \<Rightarrow> kdb \<Rightarrow> step_exception + (mutation_output \<times> kdb)" where
  "mutate_everything env c d =
     bindE (mutate_targets env c False (list_ids_for_everything_forget d) d) (\<lambda>(ts, d1).
       Inr (Out_Targets Scope_EVERYTHING ts, d1))"

definition authoritative_mutation ::
  "forget_env \<Rightarrow> pipeline_context \<Rightarrow> kdb \<Rightarrow> step_exception + (mutation_output \<times> kdb)" where
  "authoritative_mutation env c d =
     (case parse_forget_scope (jget (ctx_run_input c) ''scope'') of
        None \<Rightarrow> scope_error
      | Some Scope_SOURCE \<Rightarrow> mutate_source env c d
      | Some Scope_DATASET \<Rightarrow> mutate_dataset env c d
      | Some Scope_EVERYTHING \<Rightarrow> mutate_everything env c d)"

subsection \<open>2. \<open>projection_convergence\<close>\<close>

fun proceeding_dataset_ids :: "mutation_output \<Rightarrow> uuid list" where
  "proceeding_dataset_ids (Out_Source o1) = (if so_proceed o1 then [so_dataset_id o1] else [])"
| "proceeding_dataset_ids (Out_Targets _ ts) = map do_dataset_id (filter do_proceed ts)"

fun drain_datasets ::
  "(uuid \<Rightarrow> kdb \<Rightarrow> 'w \<Rightarrow> (exn + nat) \<times> kdb \<times> 'w) \<Rightarrow> uuid list \<Rightarrow> nat \<Rightarrow> kdb \<Rightarrow> 'w \<Rightarrow> (step_exception + nat) \<times> kdb \<times> 'w" where
  "drain_datasets drain [] processed d w = (Inr processed, d, w)"
| "drain_datasets drain (k # ks) processed d w =
     (case drain k d w of
        (Inl _, d1, w1) \<Rightarrow> (Inl Other_Exception, d1, w1)
      | (Inr n, d1, w1) \<Rightarrow> drain_datasets drain ks (processed + n) d1 w1)"

definition projection_convergence ::
  "'w forget_resources \<Rightarrow> mutation_output \<Rightarrow> kdb \<Rightarrow> 'w \<Rightarrow> (step_exception + nat) \<times> kdb \<times> 'w" where
  "projection_convergence res m d w =
     (case proceeding_dataset_ids m of
        [] \<Rightarrow> (Inr 0, d, w)
      | ks \<Rightarrow> (case fr_drain res of None \<Rightarrow> (Inr 0, d, w) | Some drain \<Rightarrow> drain_datasets drain ks 0 d w))"

subsection \<open>3. \<open>storage_deletion\<close>\<close>

type_synonym storage_entries = "(uuid \<times> storage_delete_status) list"

definition delete_source_storage_result ::
  "'w forget_resources \<Rightarrow> uuid \<Rightarrow> uuid \<Rightarrow> pystr option \<Rightarrow> 'w \<Rightarrow> (step_exception + storage_delete_status) \<times> 'w" where
  "delete_source_storage_result res ds s uri w =
     (case fr_storage_delete res ds s uri w of
        (Inr status, w1) \<Rightarrow> (Inr status, w1)
      | (Inl e, w1) \<Rightarrow>
          (if e = Storage_Unavailable \<or> e = Invalid_Storage_Uri \<or> e = Unsupported_Backend
           then Inr UNRESOLVED else Inl Other_Exception, w1))"

fun delete_storages ::
  "'w forget_resources \<Rightarrow> uuid \<Rightarrow> source list \<Rightarrow> 'w \<Rightarrow> (step_exception + storage_entries) \<times> 'w" where
  "delete_storages res ds [] w = (Inr [], w)"
| "delete_storages res ds (s # ss) w =
     (if src_status s \<noteq> Source_DELETING then delete_storages res ds ss w
      else case delete_source_storage_result res ds (src_id s) (src_storage_uri s) w of
        (Inl e, w1) \<Rightarrow> (Inl e, w1)
      | (Inr status, w1) \<Rightarrow>
          (case delete_storages res ds ss w1 of
             (Inl e, w2) \<Rightarrow> (Inl e, w2)
           | (Inr entries, w2) \<Rightarrow> (Inr ((src_id s, status) # entries), w2)))"

fun delete_target_storages ::
  "'w forget_resources \<Rightarrow> dataset_mutation_output list \<Rightarrow> kdb \<Rightarrow> 'w \<Rightarrow> (step_exception + storage_entries) \<times> 'w" where
  "delete_target_storages res [] d w = (Inr [], w)"
| "delete_target_storages res (t # ts) d w =
     (if \<not> do_proceed t then delete_target_storages res ts d w
      else case delete_storages res (do_dataset_id t) (list_sources_not_deleted (do_dataset_id t) d) w of
        (Inl e, w1) \<Rightarrow> (Inl e, w1)
      | (Inr entries, w1) \<Rightarrow>
          (case delete_target_storages res ts d w1 of
             (Inl e, w2) \<Rightarrow> (Inl e, w2)
           | (Inr rest, w2) \<Rightarrow> (Inr (entries @ rest), w2)))"

definition storage_deletion ::
  "'w forget_resources \<Rightarrow> pipeline_context \<Rightarrow> mutation_output \<Rightarrow> kdb \<Rightarrow> 'w \<Rightarrow> (step_exception + storage_entries) \<times> 'w" where
  "storage_deletion res c m d w =
     (if run_memory_only c then (Inr [], w)
      else case m of
        Out_Source o1 \<Rightarrow>
          (if \<not> so_proceed o1 then (Inr [], w)
           else (case kb_source (so_source_id o1) d of
                   None \<Rightarrow> (Inr [], w)
                 | Some s \<Rightarrow> delete_storages res (so_dataset_id o1) [s] w))
      | Out_Targets _ ts \<Rightarrow> delete_target_storages res ts d w)"

definition storage_count :: "storage_delete_status \<Rightarrow> storage_entries \<Rightarrow> nat" where
  "storage_count status entries = length (filter (\<lambda>e. snd e = status) entries)"

subsection \<open>4. \<open>finalize_target\<close>\<close>

definition clears_uri :: "storage_delete_status \<Rightarrow> bool" where
  "clears_uri s \<longleftrightarrow> s = DELETED_NOW \<or> s = ALREADY_ABSENT \<or> s = NOT_REQUESTED"

definition storage_status_by_source :: "storage_entries \<Rightarrow> step_exception + (uuid \<rightharpoonup> storage_delete_status)" where
  "storage_status_by_source entries =
     (if \<not> distinct (map fst entries)
      then Inl (Permanent_Step_Error ''FORGET_STORAGE_RESULT_DUPLICATE''
             ''Forget storage deletion produced more than one result for the same Source.'')
      else Inr (map_of entries))"

definition require_storage_status :: "uuid \<Rightarrow> (uuid \<rightharpoonup> storage_delete_status) \<Rightarrow> step_exception + storage_delete_status" where
  "require_storage_status k statuses =
     (case statuses k of
        None \<Rightarrow> Inl (Permanent_Step_Error ''FORGET_STORAGE_RESULT_MISSING''
                  ''Forget storage deletion result is missing for a Source being finalized.'')
      | Some s \<Rightarrow> Inr s)"

definition finalized_source :: "storage_delete_status \<Rightarrow> source \<Rightarrow> source" where
  "finalized_source status s = s\<lparr>src_storage_uri := (if clears_uri status then None else src_storage_uri s),
     src_status := Source_DELETED\<rparr>"

record source_final =
  sf_source_status :: "source_status option"
  sf_storage_deleted :: bool
  sf_storage_status :: "storage_delete_status option"

record dataset_final =
  df_dataset_id :: uuid
  df_sources_affected :: nat
  df_sources_pending :: nat
  df_sources_deleted :: nat

datatype finalize_output = Final_Source source_final | Final_Targets "dataset_final list"

definition finalize_source_target ::
  "source_mutation_output \<Rightarrow> bool \<Rightarrow> (uuid \<rightharpoonup> storage_delete_status) \<Rightarrow> kdb \<Rightarrow> step_exception + (source_final \<times> kdb)" where
  "finalize_source_target m memory_only statuses d =
     (if \<not> so_proceed m
      then Inr (\<lparr>sf_source_status = None, sf_storage_deleted = False, sf_storage_status = None\<rparr>, d)
      else case kb_source (so_source_id m) d of
        None \<Rightarrow> target_missing
      | Some s \<Rightarrow>
        if src_status s \<noteq> Source_DELETING
        then Inr (\<lparr>sf_source_status = Some (src_status s), sf_storage_deleted = False, sf_storage_status = None\<rparr>, d)
        else if memory_only
        then Inr (\<lparr>sf_source_status = Some Source_PENDING, sf_storage_deleted = False, sf_storage_status = None\<rparr>,
                  put_source (s\<lparr>src_status := Source_PENDING\<rparr>) d)
        else bindE (require_storage_status (so_source_id m) statuses) (\<lambda>status.
          Inr (\<lparr>sf_source_status = Some Source_DELETED,
                 sf_storage_deleted = (status = DELETED_NOW \<or> status = ALREADY_ABSENT),
                 sf_storage_status = Some status\<rparr>,
               put_source (finalized_source status s) d)))"

fun finalize_sources ::
  "bool \<Rightarrow> (uuid \<rightharpoonup> storage_delete_status) \<Rightarrow> source list \<Rightarrow> nat \<times> nat \<Rightarrow> kdb \<Rightarrow> step_exception + ((nat \<times> nat) \<times> kdb)" where
  "finalize_sources memory_only statuses [] counts d = Inr (counts, d)"
| "finalize_sources memory_only statuses (s # ss) (pending, deleted) d =
     (if src_status s \<noteq> Source_DELETING then finalize_sources memory_only statuses ss (pending, deleted) d
      else if memory_only
      then finalize_sources memory_only statuses ss (Suc pending, deleted) (put_source (s\<lparr>src_status := Source_PENDING\<rparr>) d)
      else bindE (require_storage_status (src_id s) statuses) (\<lambda>status.
        finalize_sources memory_only statuses ss (pending, Suc deleted) (put_source (finalized_source status s) d)))"

definition finalize_dataset_target ::
  "bool \<Rightarrow> (uuid \<rightharpoonup> storage_delete_status) \<Rightarrow> dataset_mutation_output \<Rightarrow> kdb \<Rightarrow> step_exception + (dataset_final \<times> kdb)" where
  "finalize_dataset_target memory_only statuses t d =
     (let k = do_dataset_id t in
      if \<not> do_proceed t
      then Inr (\<lparr>df_dataset_id = k, df_sources_affected = 0, df_sources_pending = 0, df_sources_deleted = 0\<rparr>, d)
      else case kb_dataset k d of
        None \<Rightarrow> target_missing
      | Some ds \<Rightarrow>
        (let sources = list_sources_not_deleted k d in
         bindE (finalize_sources memory_only statuses sources (0, 0) d) (\<lambda>((pending, deleted), d1).
           let d2 = (if dataset_status ds = Dataset_DELETING \<and> \<not> exists_administrative_delete_ownership k (kb_runtime d1)
                     then put_dataset (ds\<lparr>dataset_status := Dataset_ACTIVE\<rparr>) d1 else d1)
           in Inr (\<lparr>df_dataset_id = k, df_sources_affected = length sources, df_sources_pending = pending,
                    df_sources_deleted = deleted\<rparr>, d2))))"

fun finalize_dataset_targets ::
  "bool \<Rightarrow> (uuid \<rightharpoonup> storage_delete_status) \<Rightarrow> dataset_mutation_output list \<Rightarrow> kdb \<Rightarrow>
   step_exception + (dataset_final list \<times> kdb)" where
  "finalize_dataset_targets memory_only statuses [] d = Inr ([], d)"
| "finalize_dataset_targets memory_only statuses (t # ts) d =
     bindE (finalize_dataset_target memory_only statuses t d) (\<lambda>(f, d1).
       bindE (finalize_dataset_targets memory_only statuses ts d1) (\<lambda>(fs, d2). Inr (f # fs, d2)))"

definition finalize_target ::
  "pipeline_context \<Rightarrow> mutation_output \<Rightarrow> storage_entries \<Rightarrow> kdb \<Rightarrow> step_exception + (finalize_output \<times> kdb)" where
  "finalize_target c m entries d =
     bindE (storage_status_by_source entries) (\<lambda>statuses.
       case m of
         Out_Source o1 \<Rightarrow> bindE (finalize_source_target o1 (run_memory_only c) statuses d) (\<lambda>(f, d1). Inr (Final_Source f, d1))
       | Out_Targets _ ts \<Rightarrow>
           bindE (finalize_dataset_targets (run_memory_only c) statuses ts d) (\<lambda>(fs, d1). Inr (Final_Targets fs, d1)))"

subsection \<open>5. \<open>finalize_result\<close>\<close>

fun storage_delete_status_value :: "storage_delete_status \<Rightarrow> string" where
  "storage_delete_status_value NOT_REQUESTED = ''not_requested''"
| "storage_delete_status_value DELETED_NOW = ''deleted_now''"
| "storage_delete_status_value ALREADY_ABSENT = ''already_absent''"
| "storage_delete_status_value UNRESOLVED = ''unresolved''"

definition jnat :: "nat \<Rightarrow> json" where "jnat n = JInt (int n)"

definition opt_json_str :: "string option \<Rightarrow> json" where
  "opt_json_str v = (case v of None \<Rightarrow> JNull | Some s \<Rightarrow> json_str s)"

definition count_items :: "forget_counts \<Rightarrow> (pystr \<times> json) list" where
  "count_items f =
     [(ascii ''documents_deactivated'', jnat (fc_documents f)), (ascii ''chunks_deactivated'', jnat (fc_chunks f)),
      (ascii ''summaries_deactivated'', jnat (fc_summaries f)), (ascii ''entities_deactivated'', jnat (fc_entities f)),
      (ascii ''relations_deactivated'', jnat (fc_relations f)),
      (ascii ''entity_mentions_unprojected'', jnat (fc_mentions f)),
      (ascii ''relation_evidence_unprojected'', jnat (fc_evidence f)),
      (ascii ''graph_events_enqueued'', jnat (fc_events f))]"

definition sum_counts :: "forget_counts list \<Rightarrow> forget_counts" where
  "sum_counts fs = \<lparr>fc_documents = sum_list (map fc_documents fs), fc_chunks = sum_list (map fc_chunks fs),
     fc_summaries = sum_list (map fc_summaries fs), fc_entities = sum_list (map fc_entities fs),
     fc_relations = sum_list (map fc_relations fs), fc_mentions = sum_list (map fc_mentions fs),
     fc_evidence = sum_list (map fc_evidence fs), fc_events = sum_list (map fc_events fs)\<rparr>"

definition storage_items :: "storage_entries \<Rightarrow> (pystr \<times> json) list" where
  "storage_items entries =
     [(ascii ''storage_unresolved'', jnat (storage_count UNRESOLVED entries)),
      (ascii ''storage_not_requested'', jnat (storage_count NOT_REQUESTED entries)),
      (ascii ''storage_cleanup_complete'', JBool (storage_count UNRESOLVED entries = 0))]"

definition storage_deleted_items :: "storage_entries \<Rightarrow> (pystr \<times> json) list" where
  "storage_deleted_items entries =
     [(ascii ''storage_deleted'', jnat (storage_count DELETED_NOW entries)),
      (ascii ''storage_already_absent'', jnat (storage_count ALREADY_ABSENT entries))]"

fun source_final_of :: "finalize_output \<Rightarrow> source_final" where
  "source_final_of (Final_Source f) = f"
| "source_final_of (Final_Targets _) = \<lparr>sf_source_status = None, sf_storage_deleted = False, sf_storage_status = None\<rparr>"

fun dataset_finals_of :: "finalize_output \<Rightarrow> dataset_final list" where
  "dataset_finals_of (Final_Targets fs) = fs"
| "dataset_finals_of (Final_Source _) = []"

text \<open>The finalization of a target by its dataset id; a later entry of the same id wins.\<close>

definition final_for :: "dataset_final list \<Rightarrow> uuid \<Rightarrow> dataset_final" where
  "final_for fs k = (case map_of (map (\<lambda>f. (df_dataset_id f, f)) (rev fs)) k of
     Some f \<Rightarrow> f
   | None \<Rightarrow> \<lparr>df_dataset_id = k, df_sources_affected = 0, df_sources_pending = 0, df_sources_deleted = 0\<rparr>)"

definition source_run_result ::
  "bool \<Rightarrow> source_mutation_output \<Rightarrow> nat \<Rightarrow> storage_entries \<Rightarrow> source_final \<Rightarrow> json" where
  "source_run_result memory_only m processed entries f = JObj
     ([(ascii ''dataset_id'', JStr (uuid_text (so_dataset_id m))), (ascii ''source_id'', JStr (uuid_text (so_source_id m))),
       (ascii ''memory_only'', JBool memory_only),
       (ascii ''source_status'', opt_json_str (map_option source_status_value (sf_source_status f)))]
      @ count_items (so_counts m)
      @ [(ascii ''graph_events_processed'', jnat processed), (ascii ''storage_deleted'', JBool (sf_storage_deleted f)),
         (ascii ''storage_status'', opt_json_str (map_option storage_delete_status_value (sf_storage_status f)))]
      @ storage_items entries)"

definition dataset_run_result ::
  "bool \<Rightarrow> dataset_mutation_output \<Rightarrow> nat \<Rightarrow> storage_entries \<Rightarrow> dataset_final \<Rightarrow> json" where
  "dataset_run_result memory_only t processed entries f = JObj
     ([(ascii ''dataset_id'', JStr (uuid_text (do_dataset_id t))), (ascii ''memory_only'', JBool memory_only),
       (ascii ''sources_affected'', jnat (df_sources_affected f)), (ascii ''sources_pending'', jnat (df_sources_pending f)),
       (ascii ''sources_deleted'', jnat (df_sources_deleted f))]
      @ count_items (do_counts t) @ [(ascii ''graph_events_processed'', jnat processed)]
      @ storage_deleted_items entries @ storage_items entries)"

definition everything_run_result ::
  "dataset_mutation_output list \<Rightarrow> nat \<Rightarrow> storage_entries \<Rightarrow> dataset_final list \<Rightarrow> json" where
  "everything_run_result ts processed entries fs =
     (let finals = map (\<lambda>t. final_for fs (do_dataset_id t)) ts in JObj
       ([(ascii ''datasets_affected'', jnat (length ts)),
         (ascii ''sources_affected'', jnat (sum_list (map df_sources_affected finals))),
         (ascii ''sources_pending'', JInt 0),
         (ascii ''sources_deleted'', jnat (sum_list (map df_sources_deleted finals)))]
        @ count_items (sum_counts (map do_counts ts)) @ [(ascii ''graph_events_processed'', jnat processed)]
        @ storage_deleted_items entries @ storage_items entries))"

text \<open>\<open>{**run.metrics, key: value}\<close>: an existing key keeps its place.\<close>

definition set_member :: "string \<Rightarrow> json \<Rightarrow> json \<Rightarrow> json" where
  "set_member k v metrics =
     (let kvs = (case metrics of JObj kvs \<Rightarrow> kvs | _ \<Rightarrow> []) in
      if ascii k \<in> set (map fst kvs) then JObj (map (\<lambda>(a, b). if a = ascii k then (a, v) else (a, b)) kvs)
      else JObj (kvs @ [(ascii k, v)]))"

definition put_kb_run :: "pipeline_run \<Rightarrow> kdb \<Rightarrow> kdb" where
  "put_kb_run r d = d\<lparr>kb_runtime := put_run r (kb_runtime d)\<rparr>"

definition finalize_result ::
  "pipeline_context \<Rightarrow> mutation_output \<Rightarrow> nat \<Rightarrow> storage_entries \<Rightarrow> finalize_output \<Rightarrow> kdb \<Rightarrow> step_exception + kdb" where
  "finalize_result c m processed entries fin d =
     (case get_run (ctx_run_id c) (kb_runtime d) of
        None \<Rightarrow> target_missing
      | Some run \<Rightarrow>
        Inr (put_kb_run
          (case m of
             Out_Source o1 \<Rightarrow> run\<lparr>run_dataset_id := Some (so_dataset_id o1), run_source_id := Some (so_source_id o1),
               run_metrics := set_member ''forget_result''
                 (source_run_result (run_memory_only c) o1 processed entries (source_final_of fin)) (run_metrics run)\<rparr>
           | Out_Targets Scope_EVERYTHING ts \<Rightarrow> run\<lparr>run_metrics := set_member ''forget_everything_result''
                 (everything_run_result ts processed entries (dataset_finals_of fin)) (run_metrics run)\<rparr>
           | Out_Targets _ ts \<Rightarrow>
               (case (ts, dataset_finals_of fin) of
                  (t # _, f # _) \<Rightarrow> run\<lparr>run_dataset_id := Some (do_dataset_id t),
                    run_metrics := set_member ''forget_dataset_result''
                      (dataset_run_result (run_memory_only c) t processed entries f) (run_metrics run)\<rparr>
                | _ \<Rightarrow> run)) d))"

subsection \<open>The pipeline\<close>

text \<open>A run executes the steps in order, each on the state the previous one committed and others changed; a step
  that raises ends it with nothing of its own committed.\<close>

definition run_forget ::
  "forget_env \<Rightarrow> (nat \<Rightarrow> kdb \<Rightarrow> kdb) \<Rightarrow> 'w forget_resources \<Rightarrow> pipeline_context \<Rightarrow> kdb \<Rightarrow> 'w \<Rightarrow>
   (step_exception + finalize_output) \<times> kdb \<times> 'w" where
  "run_forget env interfere res c d w =
     (let d0 = interfere 0 d in
      case authoritative_mutation env c d0 of
        Inl e \<Rightarrow> (Inl e, d0, w)
      | Inr (m, d1) \<Rightarrow>
        (case projection_convergence res m (interfere 1 d1) w of
           (Inl e, d2, w2) \<Rightarrow> (Inl e, d2, w2)
         | (Inr processed, d2, w2) \<Rightarrow>
           (let d3 = interfere 2 d2 in
            case storage_deletion res c m d3 w2 of
              (Inl e, w3) \<Rightarrow> (Inl e, d3, w3)
            | (Inr entries, w3) \<Rightarrow>
              (let d4 = interfere 3 d3 in
               case finalize_target c m entries d4 of
                 Inl e \<Rightarrow> (Inl e, d4, w3)
               | Inr (fin, d5) \<Rightarrow>
                 (let d6 = interfere 4 d5 in
                  case finalize_result c m processed entries fin d6 of
                    Inl e \<Rightarrow> (Inl e, d6, w3)
                  | Inr d7 \<Rightarrow> (Inr fin, d7, w3))))))"

end
