(* ===== verification/Dataset_Delete_Pipeline.thy ===== *)
theory Dataset_Delete_Pipeline
  imports Forget_Pipeline Engine
begin

text \<open>
  The five steps of \<open>pipelines/steps/dataset_delete.py\<close> and their composition, over the same
  knowledge tables and mutations as forget.  The drain and the source storage are function-valued
  resources; a drain that raises says whether an event had exhausted its attempts, the graph store
  was transiently unavailable, or something else went wrong.
\<close>

datatype drain_error = Drain_Attempts_Exhausted | Drain_Transient | Drain_Defect

record 'w delete_resources =
  dr_drain :: "(uuid \<Rightarrow> kdb \<Rightarrow> 'w \<Rightarrow> (drain_error + nat) \<times> kdb \<times> 'w) option"
  dr_storage_delete :: "uuid \<Rightarrow> uuid \<Rightarrow> pystr option \<Rightarrow> 'w \<Rightarrow> (source_storage_error + storage_delete_status) \<times> 'w"

definition delete_target_missing :: "step_exception + 'a" where
  "delete_target_missing = Inl (Permanent_Step_Error ''DATASET_DELETE_TARGET_MISSING''
     ''Dataset no longer exists or is in an unexpected state.'')"

definition delete_dependency_unavailable :: "step_exception + 'a" where
  "delete_dependency_unavailable = Inl (Retryable_Step_Error ''DATASET_DELETE_DEPENDENCY_UNAVAILABLE''
     ''A Dataset delete dependency was unavailable.'')"

definition delete_not_converged :: "step_exception + 'a" where
  "delete_not_converged = Inl (Permanent_Step_Error ''DATASET_DELETE_PROJECTION_NOT_CONVERGED''
     ''Graph projection for this administrative delete could not converge.'')"

definition require_dataset_id :: "pipeline_context \<Rightarrow> step_exception + uuid" where
  "require_dataset_id c = (case ctx_dataset_id c of None \<Rightarrow> delete_target_missing | Some k \<Rightarrow> Inr k)"

subsection \<open>1. \<open>begin_delete\<close>\<close>

fun cancel_incompatible :: "timestamp \<Rightarrow> pipeline_run list \<Rightarrow> db \<Rightarrow> exn + (uuid list \<times> db)" where
  "cancel_incompatible now [] d = Inr ([], d)"
| "cancel_incompatible now (r # rs) d =
     bindE (cancel_queued now (list_for_run (run_id r) d) d) (\<lambda>d1.
       bindE (transition_run r Run_CANCELLED now None None None None) (\<lambda>r'.
         bindE (cancel_incompatible now rs (put_run r' d1)) (\<lambda>(ks, d2). Inr (run_id r # ks, d2))))"

definition begin_delete ::
  "timestamp \<Rightarrow> pipeline_context \<Rightarrow> kdb \<Rightarrow> step_exception + (uuid list \<times> kdb)" where
  "begin_delete now c d =
     bindE (require_dataset_id c) (\<lambda>k.
       case kb_dataset k d of
         None \<Rightarrow> delete_target_missing
       | Some ds \<Rightarrow>
         if dataset_status ds \<noteq> Dataset_ACTIVE \<and> dataset_status ds \<noteq> Dataset_DELETING then delete_target_missing
         else
           (let d1 = (if dataset_status ds = Dataset_ACTIVE then put_dataset (ds\<lparr>dataset_status := Dataset_DELETING\<rparr>) d else d)
            in lift_exn (bindE (cancel_incompatible now
                 (list_incompatible_queued_for_dataset k (ctx_run_id c) (kb_runtime d1)) (kb_runtime d1))
                 (\<lambda>(ks, rt). Inr (ks, d1\<lparr>kb_runtime := rt\<rparr>)))))"

subsection \<open>2. \<open>deactivate_authoritative\<close>\<close>

definition deactivate_authoritative ::
  "forget_env \<Rightarrow> pipeline_context \<Rightarrow> kdb \<Rightarrow> step_exception + (dataset_mutation_part \<times> kdb)" where
  "deactivate_authoritative env c d =
     bindE (require_dataset_id c) (\<lambda>k.
       case kb_dataset k d of
         None \<Rightarrow> delete_target_missing
       | Some ds \<Rightarrow>
         if dataset_status ds \<noteq> Dataset_DELETING then delete_target_missing
         else
           (let sources = list_sources_not_deleted k d;
                d1 = mark_sources_deleting (\<lambda>s. src_status s \<noteq> Source_DELETED) (map src_id sources) d
            in lift_exn (apply_dataset_forget_mutation env ds
                 (map (\<lambda>s. if src_status s \<noteq> Source_DELETED then s\<lparr>src_status := Source_DELETING\<rparr> else s) sources) False d1)))"

subsection \<open>3. \<open>converge_projection\<close>\<close>

definition has_failed_at_ceiling :: "nat list \<Rightarrow> (nat \<rightharpoonup> graph_outbox_status \<times> int) \<Rightarrow> bool" where
  "has_failed_at_ceiling ids statuses \<longleftrightarrow> list_ex (\<lambda>i. case statuses i of
     None \<Rightarrow> False | Some (st, a) \<Rightarrow> st = Outbox_FAILED \<and> a \<ge> DEFAULT_GRAPH_OUTBOX_MAX_ATTEMPTS) ids"

definition has_unfinished :: "nat list \<Rightarrow> (nat \<rightharpoonup> graph_outbox_status \<times> int) \<Rightarrow> bool" where
  "has_unfinished ids statuses \<longleftrightarrow> list_ex (\<lambda>i. case statuses i of
     None \<Rightarrow> True | Some (st, a) \<Rightarrow> st \<noteq> Outbox_DONE) ids"

definition check_convergence :: "nat list \<Rightarrow> outbox \<Rightarrow> step_exception + nat" where
  "check_convergence ids rows =
     (let statuses = list_status_by_ids ids rows in
      if has_failed_at_ceiling ids statuses then delete_not_converged
      else if has_unfinished ids statuses then delete_dependency_unavailable
      else Inr (length ids))"

definition converge_projection ::
  "'w delete_resources \<Rightarrow> pipeline_context \<Rightarrow> nat list \<Rightarrow> kdb \<Rightarrow> 'w \<Rightarrow> (step_exception + nat) \<times> kdb \<times> 'w" where
  "converge_projection res c ids d w =
     (case require_dataset_id c of
        Inl e \<Rightarrow> (Inl e, d, w)
      | Inr k \<Rightarrow>
        if ids = [] then (Inr 0, d, w)
        else case dr_drain res of
          None \<Rightarrow> (delete_dependency_unavailable, d, w)
        | Some drain \<Rightarrow>
          (case drain k d w of
             (Inl Drain_Transient, d1, w1) \<Rightarrow> (delete_dependency_unavailable, d1, w1)
           | (Inl Drain_Defect, d1, w1) \<Rightarrow> (Inl Other_Exception, d1, w1)
           | (_, d1, w1) \<Rightarrow> (check_convergence ids (kb_outbox d1), d1, w1)))"

text \<open>\<open>converge_projection_reconcile\<close>, on the ids the persisted output of \<open>deactivate_authoritative\<close> holds
  (the JSON array of integers that step writes).\<close>

fun json_ids :: "json option \<Rightarrow> nat list" where
  "json_ids (Some (JArr xs)) = map (\<lambda>x. case x of JInt n \<Rightarrow> nat n | _ \<Rightarrow> 0) xs"
| "json_ids _ = []"

definition converge_projection_reconcile ::
  "cancellation_recovery_context \<Rightarrow> kdb \<Rightarrow> cancellation_recovery_outcome" where
  "converge_projection_reconcile rc d =
     (if rec_dataset_id rc = None then INCONCLUSIVE
      else case List.find (\<lambda>s. step_name s = ''deactivate_authoritative'') (list_for_run (rec_run_id rc) (kb_runtime d)) of
        None \<Rightarrow> SAFE
      | Some s \<Rightarrow>
        if step_status s \<noteq> Step_SUCCEEDED then SAFE
        else let ids = json_ids (jget (step_output s) ''graph_outbox_ids'') in
          if ids = [] then SAFE
          else if has_unfinished ids (list_status_by_ids ids (kb_outbox d)) then INCONCLUSIVE else SAFE)"

subsection \<open>4. \<open>delete_storage\<close>\<close>

definition storage_resources :: "'w delete_resources \<Rightarrow> 'w forget_resources" where
  "storage_resources res = \<lparr>fr_drain = None, fr_storage_delete = dr_storage_delete res\<rparr>"

definition delete_storage ::
  "'w delete_resources \<Rightarrow> pipeline_context \<Rightarrow> kdb \<Rightarrow> 'w \<Rightarrow> (step_exception + storage_entries) \<times> 'w" where
  "delete_storage res c d w =
     (case require_dataset_id c of
        Inl e \<Rightarrow> (Inl e, w)
      | Inr k \<Rightarrow> delete_storages (storage_resources res) k (list_sources_not_deleted k d) w)"

subsection \<open>5. \<open>finalize_tombstone\<close>\<close>

definition delete_storage_status_by_source :: "storage_entries \<Rightarrow> step_exception + (uuid \<rightharpoonup> storage_delete_status)" where
  "delete_storage_status_by_source entries =
     (if \<not> distinct (map fst entries)
      then Inl (Permanent_Step_Error ''DATASET_DELETE_STORAGE_RESULT_DUPLICATE''
             ''Dataset delete storage deletion produced more than one result for the same Source.'')
      else Inr (map_of entries))"

definition delete_require_storage_status ::
  "uuid \<Rightarrow> (uuid \<rightharpoonup> storage_delete_status) \<Rightarrow> step_exception + storage_delete_status" where
  "delete_require_storage_status k statuses =
     (case statuses k of
        None \<Rightarrow> Inl (Permanent_Step_Error ''DATASET_DELETE_STORAGE_RESULT_MISSING''
                  ''Dataset delete storage result is missing for a Source being finalized.'')
      | Some s \<Rightarrow> Inr s)"

fun tombstone_sources ::
  "(uuid \<rightharpoonup> storage_delete_status) \<Rightarrow> source list \<Rightarrow> nat \<Rightarrow> kdb \<Rightarrow> step_exception + (nat \<times> kdb)" where
  "tombstone_sources statuses [] n d = Inr (n, d)"
| "tombstone_sources statuses (s # ss) n d =
     (if src_status s \<noteq> Source_DELETING then tombstone_sources statuses ss n d
      else bindE (delete_require_storage_status (src_id s) statuses) (\<lambda>status.
        tombstone_sources statuses ss (Suc n) (put_source (finalized_source status s) d)))"

definition dataset_delete_run_result ::
  "uuid \<Rightarrow> nat \<Rightarrow> forget_counts \<Rightarrow> nat \<Rightarrow> storage_entries \<Rightarrow> json" where
  "dataset_delete_run_result k sources_deleted counts processed entries = JObj
     ([(ascii ''dataset_id'', JStr (uuid_text k)), (ascii ''sources_deleted'', jnat sources_deleted),
       (ascii ''documents_deactivated'', jnat (fc_documents counts)), (ascii ''chunks_deactivated'', jnat (fc_chunks counts)),
       (ascii ''summaries_deactivated'', jnat (fc_summaries counts)), (ascii ''entities_deactivated'', jnat (fc_entities counts)),
       (ascii ''relations_deactivated'', jnat (fc_relations counts)), (ascii ''graph_events_enqueued'', jnat (fc_events counts)),
       (ascii ''graph_events_processed'', jnat processed)]
      @ storage_deleted_items entries @ storage_items entries)"

definition finalize_tombstone ::
  "pipeline_context \<Rightarrow> forget_counts \<Rightarrow> nat \<Rightarrow> storage_entries \<Rightarrow> kdb \<Rightarrow> step_exception + (json \<times> kdb)" where
  "finalize_tombstone c counts processed entries d =
     bindE (require_dataset_id c) (\<lambda>k.
       case kb_dataset k d of
         None \<Rightarrow> delete_target_missing
       | Some ds \<Rightarrow>
         bindE (delete_storage_status_by_source entries) (\<lambda>statuses.
         bindE (tombstone_sources statuses (list_sources_not_deleted k d) 0 d) (\<lambda>(n, d1).
           let d2 = (if dataset_status ds = Dataset_DELETING then put_dataset (ds\<lparr>dataset_status := Dataset_DELETED\<rparr>) d1 else d1)
           in case get_run (ctx_run_id c) (kb_runtime d2) of
                None \<Rightarrow> delete_target_missing
              | Some run \<Rightarrow>
                (let j = dataset_delete_run_result k n counts processed entries in
                 Inr (j, put_kb_run (run\<lparr>run_metrics := set_member ''dataset_delete_result'' j (run_metrics run)\<rparr>) d2)))))"

subsection \<open>The pipeline\<close>

definition run_dataset_delete ::
  "(nat \<Rightarrow> forget_env) \<Rightarrow> (nat \<Rightarrow> kdb \<Rightarrow> kdb) \<Rightarrow> 'w delete_resources \<Rightarrow> pipeline_context \<Rightarrow> kdb \<Rightarrow> 'w \<Rightarrow>
   (step_exception + json) \<times> kdb \<times> 'w" where
  "run_dataset_delete env interfere res c d w =
     (let d0 = interfere 0 d in
      case begin_delete (fe_now (env 0)) c d0 of
        Inl e \<Rightarrow> (Inl e, d0, w)
      | Inr (_, d1) \<Rightarrow>
        (let d1' = interfere 1 d1 in
         case deactivate_authoritative (env 1) c d1' of
           Inl e \<Rightarrow> (Inl e, d1', w)
         | Inr (part, d2) \<Rightarrow>
           (case converge_projection res c (dm_graph_outbox_ids part) (interfere 2 d2) w of
              (Inl e, d3, w3) \<Rightarrow> (Inl e, d3, w3)
            | (Inr processed, d3, w3) \<Rightarrow>
              (let d3' = interfere 3 d3 in
               case delete_storage res c d3' w3 of
                 (Inl e, w4) \<Rightarrow> (Inl e, d3', w4)
               | (Inr entries, w4) \<Rightarrow>
                 (let d4 = interfere 4 d3' in
                  case finalize_tombstone c (dm_counts part) processed entries d4 of
                    Inl e \<Rightarrow> (Inl e, d4, w4)
                  | Inr (j, d5) \<Rightarrow> (Inr j, d5, w4))))))"

end
