(* ===== verification/Forget_Facts.thy ===== *)
theory Forget_Facts
  imports Forget_Pipeline Graph_Outbox_Facts
begin

text \<open>
  Facts of forgetting: what a retirement changes and keeps, that it leaves no unsupported knowledge
  behind, that the projection deletes cover it, and what the pipeline's steps do to the lifecycle of
  sources and datasets.
\<close>

subsection \<open>Reading through a deactivation\<close>

named_theorems kb_simps "reads of the knowledge tables through their writes"

lemmas kb_reads = kb_dataset_def kb_source_def kb_document_def kb_chunk_def kb_entity_def kb_relation_def

lemma kb_deactivate_documents [kb_simps]:
  "kb_dataset k (deactivate_documents ids d) = kb_dataset k d" "kb_source k (deactivate_documents ids d) = kb_source k d"
  "kb_document k (deactivate_documents ids d)
     = map_option (\<lambda>x. if doc_id x \<in> set ids then x\<lparr>doc_is_active := False\<rparr> else x) (kb_document k d)"
  "kb_chunk k (deactivate_documents ids d) = kb_chunk k d" "kb_entity k (deactivate_documents ids d) = kb_entity k d"
  "kb_relation k (deactivate_documents ids d) = kb_relation k d"
  "kb_mentions (deactivate_documents ids d) = kb_mentions d" "kb_evidence (deactivate_documents ids d) = kb_evidence d"
  "kb_entities (deactivate_documents ids d) = kb_entities d" "kb_relations (deactivate_documents ids d) = kb_relations d"
  "kb_chunks (deactivate_documents ids d) = kb_chunks d" "kb_runtime (deactivate_documents ids d) = kb_runtime d"
  "kb_outbox (deactivate_documents ids d) = kb_outbox d" "kb_sources (deactivate_documents ids d) = kb_sources d"
  "kb_summaries (deactivate_documents ids d) = kb_summaries d"
  by (simp_all add: kb_reads deactivate_documents_def row_get_upd)

lemma kb_deactivate_chunks [kb_simps]:
  "kb_dataset k (deactivate_chunks ids d) = kb_dataset k d" "kb_source k (deactivate_chunks ids d) = kb_source k d"
  "kb_document k (deactivate_chunks ids d) = kb_document k d"
  "kb_chunk k (deactivate_chunks ids d)
     = map_option (\<lambda>x. if ch_id x \<in> set ids then x\<lparr>ch_is_active := False\<rparr> else x) (kb_chunk k d)"
  "kb_entity k (deactivate_chunks ids d) = kb_entity k d" "kb_relation k (deactivate_chunks ids d) = kb_relation k d"
  "kb_mentions (deactivate_chunks ids d) = kb_mentions d" "kb_evidence (deactivate_chunks ids d) = kb_evidence d"
  "kb_entities (deactivate_chunks ids d) = kb_entities d" "kb_relations (deactivate_chunks ids d) = kb_relations d"
  "kb_documents (deactivate_chunks ids d) = kb_documents d" "kb_runtime (deactivate_chunks ids d) = kb_runtime d"
  "kb_outbox (deactivate_chunks ids d) = kb_outbox d" "kb_sources (deactivate_chunks ids d) = kb_sources d"
  "kb_summaries (deactivate_chunks ids d) = kb_summaries d"
  by (simp_all add: kb_reads deactivate_chunks_def row_get_upd)

lemma kb_deactivate_relations [kb_simps]:
  "kb_dataset k (deactivate_relations ids d) = kb_dataset k d" "kb_source k (deactivate_relations ids d) = kb_source k d"
  "kb_document k (deactivate_relations ids d) = kb_document k d" "kb_chunk k (deactivate_relations ids d) = kb_chunk k d"
  "kb_entity k (deactivate_relations ids d) = kb_entity k d"
  "kb_relation k (deactivate_relations ids d)
     = map_option (\<lambda>x. if rel_id x \<in> set ids then x\<lparr>rel_is_active := False\<rparr> else x) (kb_relation k d)"
  "kb_mentions (deactivate_relations ids d) = kb_mentions d" "kb_evidence (deactivate_relations ids d) = kb_evidence d"
  "kb_entities (deactivate_relations ids d) = kb_entities d" "kb_chunks (deactivate_relations ids d) = kb_chunks d"
  "kb_documents (deactivate_relations ids d) = kb_documents d" "kb_runtime (deactivate_relations ids d) = kb_runtime d"
  "kb_outbox (deactivate_relations ids d) = kb_outbox d" "kb_sources (deactivate_relations ids d) = kb_sources d"
  "kb_summaries (deactivate_relations ids d) = kb_summaries d"
  by (simp_all add: kb_reads deactivate_relations_def row_get_upd)

lemma kb_deactivate_entities [kb_simps]:
  "kb_dataset k (deactivate_entities ids d) = kb_dataset k d" "kb_source k (deactivate_entities ids d) = kb_source k d"
  "kb_document k (deactivate_entities ids d) = kb_document k d" "kb_chunk k (deactivate_entities ids d) = kb_chunk k d"
  "kb_entity k (deactivate_entities ids d)
     = map_option (\<lambda>x. if ent_id x \<in> set ids then x\<lparr>ent_is_active := False\<rparr> else x) (kb_entity k d)"
  "kb_relation k (deactivate_entities ids d) = kb_relation k d"
  "kb_mentions (deactivate_entities ids d) = kb_mentions d" "kb_evidence (deactivate_entities ids d) = kb_evidence d"
  "kb_relations (deactivate_entities ids d) = kb_relations d" "kb_chunks (deactivate_entities ids d) = kb_chunks d"
  "kb_documents (deactivate_entities ids d) = kb_documents d" "kb_runtime (deactivate_entities ids d) = kb_runtime d"
  "kb_outbox (deactivate_entities ids d) = kb_outbox d" "kb_sources (deactivate_entities ids d) = kb_sources d"
  "kb_summaries (deactivate_entities ids d) = kb_summaries d"
  by (simp_all add: kb_reads deactivate_entities_def row_get_upd)

lemma kb_deactivate_summaries [kb_simps]:
  "kb_dataset k (deactivate_summaries ids d) = kb_dataset k d" "kb_source k (deactivate_summaries ids d) = kb_source k d"
  "kb_document k (deactivate_summaries ids d) = kb_document k d" "kb_chunk k (deactivate_summaries ids d) = kb_chunk k d"
  "kb_entity k (deactivate_summaries ids d) = kb_entity k d" "kb_relation k (deactivate_summaries ids d) = kb_relation k d"
  "kb_mentions (deactivate_summaries ids d) = kb_mentions d" "kb_evidence (deactivate_summaries ids d) = kb_evidence d"
  "kb_relations (deactivate_summaries ids d) = kb_relations d" "kb_chunks (deactivate_summaries ids d) = kb_chunks d"
  "kb_documents (deactivate_summaries ids d) = kb_documents d" "kb_runtime (deactivate_summaries ids d) = kb_runtime d"
  "kb_outbox (deactivate_summaries ids d) = kb_outbox d" "kb_sources (deactivate_summaries ids d) = kb_sources d"
  "kb_entities (deactivate_summaries ids d) = kb_entities d"
  by (simp_all add: kb_reads deactivate_summaries_def)

lemma with_dataset_mem:
  "x \<in> set (with_dataset k d statuses f) \<longleftrightarrow>
   (\<exists>ds. kb_dataset k d = Some ds \<and> dataset_status ds \<in> set statuses \<and> x \<in> set (f ds))"
  by (cases "kb_dataset k d") (auto simp: with_dataset_def)

lemma kb_SomeD:
  "kb_source k d = Some x \<Longrightarrow> x \<in> set (kb_sources d) \<and> src_id x = k"
  "kb_document k d = Some y \<Longrightarrow> y \<in> set (kb_documents d) \<and> doc_id y = k"
  "kb_chunk k d = Some c \<Longrightarrow> c \<in> set (kb_chunks d) \<and> ch_id c = k"
  "kb_entity k d = Some e \<Longrightarrow> e \<in> set (kb_entities d) \<and> ent_id e = k"
  "kb_relation k d = Some r \<Longrightarrow> r \<in> set (kb_relations d) \<and> rel_id r = k"
  "kb_dataset k d = Some q \<Longrightarrow> q \<in> set (datasets (kb_runtime d)) \<and> dataset_id q = k"
  by (auto simp: kb_reads get_dataset_def dest: row_get_SomeD)

lemma kb_mem:
  assumes "kdb_keyed d"
  shows "y \<in> set (kb_documents d) \<Longrightarrow> kb_document (doc_id y) d = Some y"
    "c \<in> set (kb_chunks d) \<Longrightarrow> kb_chunk (ch_id c) d = Some c"
    "e \<in> set (kb_entities d) \<Longrightarrow> kb_entity (ent_id e) d = Some e"
    "r \<in> set (kb_relations d) \<Longrightarrow> kb_relation (rel_id r) d = Some r"
    "s \<in> set (kb_sources d) \<Longrightarrow> kb_source (src_id s) d = Some s"
  using assms by (simp_all add: kb_reads kdb_keyed_def row_get_keyed)

subsection \<open>Support\<close>

text \<open>A chunk, by id, that every authoritative query of the dataset joins.\<close>

definition authoritative :: "dataset \<Rightarrow> kdb \<Rightarrow> uuid \<Rightarrow> bool" where
  "authoritative ds d k = some_row (kb_chunk k d) (chunk_authoritative ds d)"

definition evidenced :: "dataset \<Rightarrow> kdb \<Rightarrow> uuid \<Rightarrow> bool" where
  "evidenced ds d k \<longleftrightarrow> (\<exists>ev \<in> set (kb_evidence d). ev_relation_id ev = k \<and> authoritative ds d (ev_chunk_id ev))"

definition mentioned :: "dataset \<Rightarrow> kdb \<Rightarrow> uuid \<Rightarrow> bool" where
  "mentioned ds d k \<longleftrightarrow> (\<exists>m \<in> set (kb_mentions d). em_entity_id m = k \<and> authoritative ds d (em_chunk_id m))"

definition incident :: "dataset \<Rightarrow> kdb \<Rightarrow> uuid \<Rightarrow> bool" where
  "incident ds d k \<longleftrightarrow> (\<exists>r \<in> set (kb_relations d). relation_current ds d r
     \<and> (rel_source_entity_id r = k \<or> rel_target_entity_id r = k))"

text \<open>No current relation without evidence a reader can see, no current entity without a mention or a current
  relation.\<close>

definition graph_supported :: "dataset \<Rightarrow> kdb \<Rightarrow> bool" where
  "graph_supported ds d \<longleftrightarrow>
     (\<forall>r \<in> set (kb_relations d). relation_current ds d r \<longrightarrow> evidenced ds d (rel_id r))
     \<and> (\<forall>e \<in> set (kb_entities d). entity_current ds e \<longrightarrow> mentioned ds d (ent_id e) \<or> incident ds d (ent_id e))"

text \<open>What cognify writes: a chunk belongs to its document's source, and a chunk that evidences a relation
  mentions both its entities.\<close>

definition chunks_consistent :: "kdb \<Rightarrow> bool" where
  "chunks_consistent d \<longleftrightarrow> (\<forall>c \<in> set (kb_chunks d).
     some_row (kb_document (ch_document_id c) d) (\<lambda>x. doc_source_id x = ch_source_id c))"

definition evidence_grounded :: "kdb \<Rightarrow> bool" where
  "evidence_grounded d \<longleftrightarrow> (\<forall>ev \<in> set (kb_evidence d). \<forall>r \<in> set (kb_relations d). rel_id r = ev_relation_id ev \<longrightarrow>
     (\<forall>k \<in> {rel_source_entity_id r, rel_target_entity_id r}.
        \<exists>m \<in> set (kb_mentions d). em_chunk_id m = ev_chunk_id ev \<and> em_entity_id m = k))"

lemma relation_evidence_query:
  assumes "kb_dataset k d = Some ds" "dataset_status ds = Dataset_ACTIVE"
  shows "i \<in> set (relation_ids_with_authoritative_evidence k ids d) \<longleftrightarrow>
    i \<in> set ids \<and> evidenced ds d i \<and> some_row (kb_relation i d) (relation_row_current ds)"
  using assms unfolding relation_ids_with_authoritative_evidence_def with_dataset_mem evidenced_def authoritative_def
  by auto

lemma entity_mention_query:
  assumes "kb_dataset k d = Some ds" "dataset_status ds = Dataset_ACTIVE"
  shows "i \<in> set (entity_ids_with_authoritative_mentions k ids d) \<longleftrightarrow>
    i \<in> set ids \<and> mentioned ds d i \<and> some_row (kb_entity i d) (entity_current ds)"
  using assms unfolding entity_ids_with_authoritative_mentions_def with_dataset_mem mentioned_def authoritative_def
  by auto

lemma incident_query:
  assumes "kb_dataset k d = Some ds" "dataset_status ds = Dataset_ACTIVE"
  shows "i \<in> set (incident_entity_ids k ids d) \<longleftrightarrow> i \<in> set ids \<and> incident ds d i"
  using assms unfolding incident_entity_ids_def with_dataset_mem incident_def by auto

lemma relation_candidates_query:
  assumes "kb_dataset k d = Some ds" "dataset_status ds = Dataset_ACTIVE"
  shows "r \<in> set (relations_current_by_ids k ids d) \<longleftrightarrow>
    r \<in> set (kb_relations d) \<and> rel_id r \<in> set ids \<and> relation_current ds d r"
  using assms unfolding relations_current_by_ids_def with_dataset_mem by auto

lemma entity_candidates_query:
  assumes "kb_dataset k d = Some ds" "dataset_status ds = Dataset_ACTIVE"
  shows "e \<in> set (entities_current_by_ids k ids d) \<longleftrightarrow>
    e \<in> set (kb_entities d) \<and> ent_id e \<in> set ids \<and> entity_current ds e"
  using assms unfolding entities_current_by_ids_def with_dataset_mem by auto

subsection \<open>Retiring a source keeps the graph supported\<close>

definition after_content :: "dataset \<Rightarrow> source \<Rightarrow> kdb \<Rightarrow> kdb" where
  "after_content ds s d =
     deactivate_chunks (map ch_id (list_chunks_for_source_generation (src_id s) (dataset_active_generation ds) d))
       (deactivate_documents (map doc_id (list_documents_for_source_generation (src_id s) (dataset_active_generation ds) d)) d)"

lemma authoritative_deactivate [kb_simps]:
  "authoritative ds (deactivate_relations ids d) = authoritative ds d"
  "authoritative ds (deactivate_entities ids d) = authoritative ds d"
  "authoritative ds (deactivate_summaries ids d) = authoritative ds d"
  by (simp_all add: fun_eq_iff authoritative_def some_row_iff chunk_authoritative_def document_authoritative_def
      source_authoritative_def kb_simps)

lemma kb_put_source [kb_simps]:
  "kb_dataset k (put_source x d) = kb_dataset k d" "kb_document k (put_source x d) = kb_document k d"
  "kb_chunk k (put_source x d) = kb_chunk k d" "kb_entity k (put_source x d) = kb_entity k d"
  "kb_relation k (put_source x d) = kb_relation k d" "kb_relations (put_source x d) = kb_relations d"
  "kb_mentions (put_source x d) = kb_mentions d" "kb_evidence (put_source x d) = kb_evidence d"
  "kb_entities (put_source x d) = kb_entities d" "kb_chunks (put_source x d) = kb_chunks d"
  "kb_documents (put_source x d) = kb_documents d" "kb_runtime (put_source x d) = kb_runtime d"
  "kb_outbox (put_source x d) = kb_outbox d" "kb_summaries (put_source x d) = kb_summaries d"
  by (simp_all add: kb_reads put_source_def)

lemma kb_source_put_source:
  assumes "kb_source (src_id s) d = Some s0"
  shows "kb_source j (put_source s d) = (if j = src_id s then Some s else kb_source j d)"
proof -
  have "src_id s \<in> src_id ` set (kb_sources d)"
    using assms row_get_None_iff[of src_id "src_id s" "kb_sources d"] by (simp add: kb_source_def)
  then show ?thesis by (simp add: kb_source_def put_source_def row_get_put_same row_get_put_other)
qed

lemma authoritative_put_source:
  assumes "kb_source (src_id s) d = Some s0" "src_status s \<noteq> Source_ACTIVE"
  shows "authoritative ds (put_source s d) k \<longleftrightarrow>
    authoritative ds d k \<and> some_row (kb_chunk k d) (\<lambda>c. ch_source_id c \<noteq> src_id s)"
proof -
  have src: "source_authoritative e (put_source s d) j \<longleftrightarrow> j \<noteq> src_id s \<and> source_authoritative e d j" for e j
    using assms(2) by (simp add: source_authoritative_def kb_source_put_source[OF assms(1)] some_row_def)
  have doc: "document_authoritative ds (put_source s d) j = document_authoritative ds d j" for j
    by (simp add: document_authoritative_def kb_simps)
  show ?thesis
    by (cases "kb_chunk k d") (auto simp: authoritative_def chunk_authoritative_def kb_simps src doc some_row_def)
qed

lemma authoritative_chunk_kept:
  assumes "kdb_keyed d" "chunks_consistent d" "kb_chunk k d = Some c" "chunk_authoritative ds d c"
    "ch_source_id c \<noteq> src_id s"
  shows "authoritative ds (after_content ds s d) k"
proof -
  have c: "c \<in> set (kb_chunks d)" "ch_id c = k" using assms(3) by (auto dest: kb_SomeD)
  obtain x where x: "kb_document (ch_document_id c) d = Some x" "doc_source_id x = ch_source_id c"
    using assms(2) c(1) by (auto simp: chunks_consistent_def some_row_iff)
  let ?C = "map ch_id (list_chunks_for_source_generation (src_id s) (dataset_active_generation ds) d)"
  let ?D = "map doc_id (list_documents_for_source_generation (src_id s) (dataset_active_generation ds) d)"
  have nc: "k \<notin> set ?C"
    using kb_mem(2)[OF assms(1)] assms(3,5) by (fastforce simp: list_chunks_for_source_generation_def)
  have nd: "doc_id x \<notin> set ?D"
    using kb_mem(1)[OF assms(1)] kb_SomeD(2)[OF x(1)] x assms(5)
    by (fastforce simp: list_documents_for_source_generation_def)
  let ?d = "after_content ds s d"
  have chunk: "kb_chunk k ?d = Some c"
    using assms(3) nc c(2) by (simp add: after_content_def kb_simps del: set_map)
  have doc: "kb_document (ch_document_id c) ?d = Some x"
    using x(1) nd by (simp add: after_content_def kb_simps del: set_map)
  have src: "kb_source j ?d = kb_source j d" for j by (simp add: after_content_def kb_simps)
  show ?thesis
    using assms(4) chunk doc src x(1)
    by (simp add: authoritative_def some_row_def chunk_authoritative_def document_authoritative_def source_authoritative_def)
qed

text \<open>The state after each flush of a source retirement, by name.\<close>

definition retired_state :: "dataset \<Rightarrow> source_retirement \<Rightarrow> kdb \<Rightarrow> kdb" where
  "retired_state ds t d1 = deactivate_summaries (map sum_id (rt_summaries t))
     (deactivate_entities (map ent_id (rt_entities t)) (deactivate_relations (map rel_id (rt_relations t)) d1))"

lemma retire_source_state:
  "snd (retire_source ds s d) = retired_state ds (fst (retire_source ds s d)) (after_content ds s d)"
  by (simp add: retire_source_def Let_def retired_state_def after_content_def)

lemma retire_source_sel:
  assumes "t = fst (retire_source ds s d)" "d1 = after_content ds s d"
  shows "rt_documents t = list_documents_for_source_generation (src_id s) (dataset_active_generation ds) d"
    "rt_chunks t = list_chunks_for_source_generation (src_id s) (dataset_active_generation ds) d"
    "rt_mentions t = list_mentions_for_chunks (map ch_id (rt_chunks t)) d"
    "rt_evidence t = list_evidence_for_chunks (map ch_id (rt_chunks t)) d"
    "rt_relations t = filter (\<lambda>r. rel_id r \<notin> set (relation_ids_with_authoritative_evidence (dataset_id ds)
        (map rel_id (relations_current_by_ids (dataset_id ds) (map ev_relation_id (rt_evidence t)) d1)) d1))
      (relations_current_by_ids (dataset_id ds) (map ev_relation_id (rt_evidence t)) d1)"
  unfolding assms after_content_def retire_source_def Let_def by simp_all

lemma retire_source_relations:
  assumes "kb_dataset (dataset_id ds) d = Some ds" "dataset_status ds = Dataset_ACTIVE"
    "t = fst (retire_source ds s d)" "d1 = after_content ds s d"
  shows "r \<in> set (rt_relations t) \<longleftrightarrow> r \<in> set (kb_relations d) \<and> relation_current ds d1 r
    \<and> rel_id r \<in> ev_relation_id ` set (rt_evidence t)
    \<and> \<not> (evidenced ds d1 (rel_id r) \<and> some_row (kb_relation (rel_id r) d1) (relation_row_current ds))"
proof -
  have ds1: "kb_dataset (dataset_id ds) d1 = Some ds" using assms(1,4) by (simp add: after_content_def kb_simps)
  have rels: "kb_relations d1 = kb_relations d" using assms(4) by (simp add: after_content_def kb_simps)
  note retire_source_sel(5)[OF assms(3,4)]
  then show ?thesis
    by (simp add: relation_evidence_query[OF ds1 assms(2)] relation_candidates_query[OF ds1 assms(2)] rels)
      (auto simp: relation_candidates_query[OF ds1 assms(2)] rels)
qed

lemma retire_source_entities:
  assumes "kb_dataset (dataset_id ds) d = Some ds" "dataset_status ds = Dataset_ACTIVE"
    "t = fst (retire_source ds s d)" "d2 = deactivate_relations (map rel_id (rt_relations t)) (after_content ds s d)"
  shows "e \<in> set (rt_entities t) \<longleftrightarrow> e \<in> set (kb_entities d) \<and> entity_current ds e
    \<and> ent_id e \<in> em_entity_id ` set (rt_mentions t) \<and> \<not> incident ds d2 (ent_id e)
    \<and> \<not> (mentioned ds d2 (ent_id e) \<and> some_row (kb_entity (ent_id e) d2) (entity_current ds))"
proof -
  have ds2: "kb_dataset (dataset_id ds) d2 = Some ds" using assms(1,4) by (simp add: after_content_def kb_simps)
  have ents: "kb_entities d2 = kb_entities d" using assms(4) by (simp add: after_content_def kb_simps)
  define C where "C = entities_current_by_ids (dataset_id ds) (map em_entity_id (rt_mentions t)) d2"
  have C: "x \<in> set C \<longleftrightarrow> x \<in> set (kb_entities d) \<and> ent_id x \<in> em_entity_id ` set (rt_mentions t) \<and> entity_current ds x" for x
    by (simp add: C_def entity_candidates_query[OF ds2 assms(2)] ents)
  have "rt_entities t = filter (\<lambda>e. ent_id e \<notin> set (entity_ids_with_authoritative_mentions (dataset_id ds) (map ent_id C) d2)
      \<and> ent_id e \<notin> set (incident_entity_ids (dataset_id ds) (map ent_id C) d2)) C"
    using assms(3,4) by (simp add: C_def retire_source_def Let_def after_content_def)
  then show ?thesis
    by (auto simp: entity_mention_query[OF ds2 assms(2)] incident_query[OF ds2 assms(2)] C)
qed

lemma authoritative_kept_or_retired:
  assumes "kdb_keyed d0" "chunks_consistent d0" "kb_source (src_id s) d0 = Some s0" "src_status s \<noteq> Source_ACTIVE"
    "authoritative ds d0 k" "t = fst (retire_source ds s (put_source s d0))"
  shows "authoritative ds (after_content ds s (put_source s d0)) k \<or> k \<in> ch_id ` set (rt_chunks t)"
proof -
  let ?d = "put_source s d0"
  obtain c where c: "kb_chunk k d0 = Some c" "chunk_authoritative ds d0 c"
    using assms(5) by (auto simp: authoritative_def some_row_iff)
  have inv: "kdb_keyed ?d" "chunks_consistent ?d"
    using assms(1,2) by (simp_all add: kdb_keyed_def chunks_consistent_def kb_simps) (simp_all add: put_source_def)
  show ?thesis
  proof (cases "ch_source_id c = src_id s")
    case True
    note retire_source_sel(2)[OF assms(6) refl]
    then have "c \<in> set (rt_chunks t)" using c(2) kb_SomeD(3)[OF c(1)] True
      by (simp add: list_chunks_for_source_generation_def kb_simps chunk_authoritative_def)
    then show ?thesis using kb_SomeD(3)[OF c(1)] by auto
  next
    case False
    then have "authoritative ds ?d k" using authoritative_put_source[OF assms(3,4)] assms(5) c(1) by (simp add: some_row_def)
    then have "chunk_authoritative ds ?d c" using c(1) by (simp add: authoritative_def kb_simps some_row_def)
    then show ?thesis using authoritative_chunk_kept[OF inv, of k c ds s] c(1) False by (simp add: kb_simps)
  qed
qed

lemma retired_relation_current:
  assumes "kdb_keyed d" "d1 = after_content ds s d" "r' \<in> set (kb_relations (retired_state ds t d1))"
    "relation_current ds (retired_state ds t d1) r'"
  shows "r' \<in> set (kb_relations d)" "rel_id r' \<notin> rel_id ` set (rt_relations t)" "relation_current ds d r'"
    "r' \<in> set (kb_relations (deactivate_relations (map rel_id (rt_relations t)) d1))"
proof -
  have act: "rel_is_active r'" using assms(4) by (simp add: relation_current_def relation_row_current_def)
  have rels: "kb_relations d1 = kb_relations d" using assms(2) by (simp add: after_content_def kb_simps)
  have mem: "r' \<in> set (kb_relations (deactivate_relations (map rel_id (rt_relations t)) d1))"
    using assms(3) by (simp add: retired_state_def kb_simps)
  then show "r' \<in> set (kb_relations (deactivate_relations (map rel_id (rt_relations t)) d1))" .
  show "r' \<in> set (kb_relations d)" "rel_id r' \<notin> rel_id ` set (rt_relations t)"
    using mem act rels by (auto simp: deactivate_relations_def set_row_upd split: if_splits)
  have "some_row (kb_entity k (retired_state ds t d1)) (entity_current ds) \<Longrightarrow> some_row (kb_entity k d) (entity_current ds)" for k
    using assms(2) by (auto simp: retired_state_def after_content_def kb_simps some_row_iff entity_current_def split: if_splits)
  then show "relation_current ds d r'" using assms(4) by (simp add: relation_current_def)
qed

lemma retire_source_provenance:
  assumes "t = fst (retire_source ds s (put_source s d0))"
  shows "set (rt_evidence t) = {ev \<in> set (kb_evidence d0). ev_chunk_id ev \<in> ch_id ` set (rt_chunks t)}"
    "set (rt_mentions t) = {m \<in> set (kb_mentions d0). em_chunk_id m \<in> ch_id ` set (rt_chunks t)}"
  by (simp_all add: retire_source_sel(3,4)[OF assms refl] list_evidence_for_chunks_def list_mentions_for_chunks_def kb_simps)

lemma evidenced_mono:
  "\<lbrakk>evidenced ds d k; \<And>j. authoritative ds d j \<Longrightarrow> authoritative ds d' j; kb_evidence d' = kb_evidence d\<rbrakk> \<Longrightarrow> evidenced ds d' k"
  by (auto simp: evidenced_def)

lemma mentioned_mono:
  "\<lbrakk>mentioned ds d k; \<And>j. authoritative ds d j \<Longrightarrow> authoritative ds d' j; kb_mentions d' = kb_mentions d\<rbrakk> \<Longrightarrow> mentioned ds d' k"
  by (auto simp: mentioned_def)

text \<open>An endpoint of a relation still current is not retired, so the relation stays current.\<close>

lemma incident_not_retired:
  assumes retired: "\<And>e. e \<in> set (rt_entities t) \<Longrightarrow> \<not> incident ds d2 (ent_id e)"
    and inc: "incident ds d2 k"
  shows "incident ds (deactivate_summaries ids (deactivate_entities (map ent_id (rt_entities t)) d2)) k"
proof -
  let ?d4 = "deactivate_summaries ids (deactivate_entities (map ent_id (rt_entities t)) d2)"
  obtain r where r: "r \<in> set (kb_relations d2)" "relation_current ds d2 r"
      "rel_source_entity_id r = k \<or> rel_target_entity_id r = k"
    using inc by (auto simp: incident_def)
  have "some_row (kb_entity j ?d4) (entity_current ds)" if j: "j = rel_source_entity_id r \<or> j = rel_target_entity_id r" for j
  proof -
    have "incident ds d2 j" using r(1,2) j by (auto simp: incident_def)
    then have "j \<notin> set (map ent_id (rt_entities t))" using retired by auto
    moreover obtain e where "kb_entity j d2 = Some e" "entity_current ds e"
      using r(2) j by (auto simp: relation_current_def some_row_iff)
    ultimately show ?thesis using kb_SomeD(4) by (auto simp: kb_simps some_row_def)
  qed
  then have "relation_current ds ?d4 r" using r(2) by (simp add: relation_current_def)
  then show ?thesis using r by (auto simp: incident_def kb_simps)
qed

lemma entity_keeps_support:
  assumes sup: "mentioned ds d0 k \<or> incident ds d0 k"
    and kept: "\<And>j. authoritative ds d0 j \<Longrightarrow> authoritative ds d1 j \<or> j \<in> J"
    and touched: "\<And>m. \<lbrakk>m \<in> set (kb_mentions d0); em_chunk_id m \<in> J; em_entity_id m = k\<rbrakk> \<Longrightarrow> mentioned ds d1 k \<or> incident ds d2 k"
    and rels: "\<And>r. \<lbrakk>r \<in> set (kb_relations d0); relation_current ds d0 r; rel_source_entity_id r = k \<or> rel_target_entity_id r = k\<rbrakk>
      \<Longrightarrow> r \<in> set (kb_relations d2) \<or> (\<exists>m \<in> set (kb_mentions d0). em_chunk_id m \<in> J \<and> em_entity_id m = k)"
    and same: "kb_mentions d1 = kb_mentions d0" "relation_current ds d2 = relation_current ds d0"
  shows "mentioned ds d1 k \<or> incident ds d2 k"
  using sup
proof
  assume "mentioned ds d0 k"
  then obtain m where "m \<in> set (kb_mentions d0)" "em_entity_id m = k" "authoritative ds d0 (em_chunk_id m)"
    by (auto simp: mentioned_def)
  then show ?thesis using kept touched same(1) by (force simp: mentioned_def)
next
  assume "incident ds d0 k"
  then obtain r where r: "r \<in> set (kb_relations d0)" "relation_current ds d0 r"
      "rel_source_entity_id r = k \<or> rel_target_entity_id r = k"
    by (auto simp: incident_def)
  from rels[OF r] show ?thesis
  proof
    assume "r \<in> set (kb_relations d2)"
    then show ?thesis using r same(2) by (auto simp: incident_def)
  qed (use touched in blast)
qed

lemma graph_supported_retire:
  assumes inv: "kdb_keyed d0" "chunks_consistent d0" "evidence_grounded d0"
    and ds: "kb_dataset (dataset_id ds) d0 = Some ds" "dataset_status ds = Dataset_ACTIVE"
    and s: "kb_source (src_id s) d0 = Some s0" "src_status s \<noteq> Source_ACTIVE"
    and sup: "graph_supported ds d0"
  shows "graph_supported ds (snd (retire_source ds s (put_source s d0)))"
proof -
  define d where "d = put_source s d0"
  define t where "t = fst (retire_source ds s d)"
  define d1 where "d1 = after_content ds s d"
  define d2 where "d2 = deactivate_relations (map rel_id (rt_relations t)) d1"
  define d4 where "d4 = retired_state ds t d1"
  have dsd: "kb_dataset (dataset_id ds) d = Some ds" using ds by (simp add: d_def kb_simps)
  have keyd: "kdb_keyed d" using inv(1) by (simp add: d_def kdb_keyed_def put_source_def)
  have same: "kb_relations d = kb_relations d0" "kb_entities d = kb_entities d0" "kb_entities d2 = kb_entities d0"
      "kb_mentions d1 = kb_mentions d0" "kb_evidence d1 = kb_evidence d0" "kb_relations d1 = kb_relations d0"
    by (simp_all add: d2_def d1_def d_def after_content_def kb_simps)
  have cur: "relation_current ds d = relation_current ds d0" "relation_current ds d1 = relation_current ds d0"
      "relation_current ds d2 = relation_current ds d0"
    by (simp_all add: fun_eq_iff relation_current_def d2_def d1_def d_def after_content_def kb_simps)
  note R = retire_source_relations[OF dsd ds(2) t_def d1_def, unfolded cur same]
  note Ent = retire_source_entities[OF dsd ds(2) t_def d2_def[unfolded d1_def], unfolded same]
  note kept = authoritative_kept_or_retired[OF inv(1,2) s _ t_def[unfolded d_def], folded d_def, folded d1_def]
  note prov = retire_source_provenance[OF t_def[unfolded d_def]]
  have auth4: "authoritative ds d4 = authoritative ds d1" and lists4: "kb_evidence d4 = kb_evidence d0" "kb_mentions d4 = kb_mentions d0"
    by (simp_all add: d4_def retired_state_def kb_simps same)
  have rel: "evidenced ds d4 (rel_id r)" if r: "r \<in> set (kb_relations d4)" "relation_current ds d4 r" for r
  proof -
    have r0: "r \<in> set (kb_relations d0)" "rel_id r \<notin> rel_id ` set (rt_relations t)" "relation_current ds d0 r"
      using retired_relation_current[OF keyd d1_def r[unfolded d4_def]] same cur by simp_all
    then obtain ev where ev: "ev \<in> set (kb_evidence d0)" "ev_relation_id ev = rel_id r" "authoritative ds d0 (ev_chunk_id ev)"
      using sup by (auto simp: graph_supported_def evidenced_def)
    show ?thesis
    proof (cases "authoritative ds d1 (ev_chunk_id ev)")
      case True
      then show ?thesis using ev auth4 lists4 by (auto simp: evidenced_def)
    next
      case False
      then have "ev \<in> set (rt_evidence t)" using kept ev(1,3) prov(1) by blast
      then have "evidenced ds d1 (rel_id r)" using R[of r] r0 ev(2) by force
      then show ?thesis using auth4 lists4 same by (simp add: evidenced_def)
    qed
  qed
  have ent: "mentioned ds d4 (ent_id e) \<or> incident ds d4 (ent_id e)"
    if e: "e \<in> set (kb_entities d4)" "entity_current ds e" for e
  proof -
    let ?k = "ent_id e" and ?J = "ch_id ` set (rt_chunks t)"
    have e0: "e \<in> set (kb_entities d0)" "e \<notin> set (rt_entities t)"
      using e same by (auto simp: d4_def retired_state_def kb_simps deactivate_entities_def d2_def[symmetric] set_row_upd
          entity_current_def split: if_splits)
    have touched: "mentioned ds d1 ?k \<or> incident ds d2 ?k" if "m \<in> set (kb_mentions d0)" "em_chunk_id m \<in> ?J" "em_entity_id m = ?k" for m
      using Ent[of e] e0 e(2) that prov(2) by (force simp: mentioned_def d2_def kb_simps)
    have rels: "r \<in> set (kb_relations d2) \<or> (\<exists>m \<in> set (kb_mentions d0). em_chunk_id m \<in> ?J \<and> em_entity_id m = ?k)"
      if r: "r \<in> set (kb_relations d0)" "relation_current ds d0 r" "rel_source_entity_id r = ?k \<or> rel_target_entity_id r = ?k" for r
    proof (cases "rel_id r \<in> rel_id ` set (rt_relations t)")
      case True
      then obtain r1 ev where "r1 \<in> set (rt_relations t)" "ev \<in> set (rt_evidence t)" "ev_relation_id ev = rel_id r"
        using R by force
      then show ?thesis using inv(3) prov(1) r unfolding evidence_grounded_def by fastforce
    next
      case False
      then show ?thesis using r(1) same by (force simp: d2_def deactivate_relations_def set_row_upd)
    qed
    have "mentioned ds d1 ?k \<or> incident ds d2 ?k"
      by (rule entity_keeps_support[OF _ kept touched rels]) (use sup e0 e(2) s(2) same cur in \<open>auto simp: graph_supported_def\<close>)
    then show ?thesis
    proof
      assume inc: "incident ds d2 ?k"
      have "\<not> incident ds d2 (ent_id x)" if "x \<in> set (rt_entities t)" for x using Ent that by blast
      from incident_not_retired[of t, OF this inc] show ?thesis by (simp add: d4_def retired_state_def d2_def)
    qed (auto simp: mentioned_def auth4 lists4 same)
  qed
  show ?thesis using rel ent by (simp add: graph_supported_def d4_def retire_source_state t_def d1_def d_def)
qed

subsection \<open>Projection deletes\<close>

lemma uuid_text_nonempty [simp]: "uuid_text u \<noteq> []"
  by (simp add: uuid_text_def uuid_str_def ascii_def Let_def)

text \<open>A pending DELETE row for the aggregate, with a command that names it.\<close>

definition deletes_projection :: "string \<Rightarrow> uuid \<Rightarrow> outbox_event \<Rightarrow> bool" where
  "deletes_projection t k e \<longleftrightarrow> ob_operation e = Outbox_DELETE \<and> ob_status e = Outbox_PENDING
     \<and> ob_aggregate_type e = ascii t
     \<and> (\<exists>c. to_payload c = Inr (ob_payload e) \<and> pc_operation c = ascii ''delete'' \<and> pc_aggregate_id c = uuid_text k)"

lemma conforming_chunk_delete: "k \<noteq> [] \<Longrightarrow> ds \<noteq> [] \<Longrightarrow> conforming (chunk_delete_command k ds)"
  by (rule builders_conforming[of k ds k k "[]" "[]" "[]" 0 0 0 0, THEN bspec]) (simp_all add: built_commands_def)

lemma conforming_entity_delete: "k \<noteq> [] \<Longrightarrow> ds \<noteq> [] \<Longrightarrow> conforming (entity_delete_command k ds)"
  by (rule builders_conforming[of k ds k k "[]" "[]" "[]" 0 0 0 0, THEN bspec]) (simp_all add: built_commands_def)

lemma conforming_relation_delete: "k \<noteq> [] \<Longrightarrow> ds \<noteq> [] \<Longrightarrow> a \<noteq> [] \<Longrightarrow> b \<noteq> [] \<Longrightarrow> conforming (relation_delete_command k ds a b)"
  by (rule builders_conforming[of k ds a b "[]" "[]" "[]" 0 0 0 0, THEN bspec]) (simp_all add: built_commands_def)

lemma conforming_mention_delete: "k \<noteq> [] \<Longrightarrow> ds \<noteq> [] \<Longrightarrow> a \<noteq> [] \<Longrightarrow> b \<noteq> [] \<Longrightarrow> conforming (entity_mention_delete_command k ds a b)"
  by (rule builders_conforming[of k ds a b "[]" "[]" "[]" 0 0 0 0, THEN bspec]) (simp_all add: built_commands_def)

lemma conforming_next_delete: "ds \<noteq> [] \<Longrightarrow> a \<noteq> [] \<Longrightarrow> b \<noteq> [] \<Longrightarrow> conforming (chunk_next_delete_command ds a b)"
  by (rule builders_conforming[of a ds a b "[]" "[]" "[]" 0 0 0 0, THEN bspec]) (simp_all add: built_commands_def)

lemmas delete_builders = conforming_chunk_delete conforming_entity_delete conforming_relation_delete
  conforming_mention_delete conforming_next_delete

lemma delete_builders_operation:
  "pc_operation (chunk_delete_command k ds) = ascii ''delete''" "pc_operation (entity_delete_command k ds) = ascii ''delete''"
  "pc_operation (relation_delete_command k ds a b) = ascii ''delete''"
  "pc_operation (entity_mention_delete_command k ds a b) = ascii ''delete''"
  "pc_operation (chunk_next_delete_command ds a b) = ascii ''delete''"
  by (simp_all add: builder_defs command_def)

lemma forget_commands_deletes:
  assumes "ac \<in> set (forget_projection_commands ds chunks mentions relations entities)"
  shows "conforming (snd ac) \<and> pc_operation (snd ac) = ascii ''delete''"
  using subsetD[OF first_per_subset assms[unfolded forget_projection_commands_def]]
  by (auto simp: chunk_next_delete_commands_def delete_builders delete_builders_operation)

lemma enqueue_commands_total:
  assumes "\<forall>ac \<in> set cs. conforming (snd ac) \<and> pc_operation (snd ac) = ascii ''delete''"
  shows "\<exists>ks events. enqueue_commands next_id now ds cs rows = Inr (ks, rows @ events)
    \<and> ks = map ob_id events
    \<and> list_all2 (\<lambda>ac e. ob_operation e = Outbox_DELETE \<and> ob_status e = Outbox_PENDING \<and> ob_dataset_id e = ds
         \<and> ob_aggregate_type e = pc_aggregate_type (snd ac) \<and> ob_aggregate_id e = fst ac
         \<and> to_payload (snd ac) = Inr (ob_payload e)) cs events"
  using assms
proof (induction cs arbitrary: rows)
  case (Cons ac cs)
  obtain aid c where ac: "ac = (aid, c)" by force
  obtain p where p: "to_payload c = Inr p" using Cons.prems parse_render[of c] ac by auto
  let ?e = "\<lparr>ob_id = next_id rows, ob_dataset_id = ds, ob_aggregate_type = pc_aggregate_type c, ob_aggregate_id = aid,
    ob_operation = Outbox_DELETE, ob_payload = p, ob_status = Outbox_PENDING, ob_attempt = 0, ob_created_at = now,
    ob_processed_at = None, ob_processing_started_at = None, ob_worker_id = None\<rparr>"
  from Cons.IH[of "rows @ [?e]"] Cons.prems obtain ks events where
    IH: "enqueue_commands next_id now ds cs (rows @ [?e]) = Inr (ks, rows @ [?e] @ events)" "ks = map ob_id events"
      "list_all2 (\<lambda>ac e. ob_operation e = Outbox_DELETE \<and> ob_status e = Outbox_PENDING \<and> ob_dataset_id e = ds
         \<and> ob_aggregate_type e = pc_aggregate_type (snd ac) \<and> ob_aggregate_id e = fst ac
         \<and> to_payload (snd ac) = Inr (ob_payload e)) cs events"
    by auto
  show ?case using IH p Cons.prems
    by (intro exI[of _ "next_id rows # ks"] exI[of _ "?e # events"])
      (simp add: ac add_projection_command_def ascii_def)
qed simp

lemma forget_command_for:
  assumes "x \<in> set (map (\<lambda>c. (ch_id c, chunk_delete_command (uuid_text (ch_id c)) (uuid_text ds))) chunks
        @ chunk_next_delete_commands ds chunks
        @ map (\<lambda>m. (em_id m, entity_mention_delete_command (uuid_text (em_id m)) (uuid_text ds)
                 (uuid_text (em_entity_id m)) (uuid_text (em_chunk_id m)))) (sort_key em_id mentions)
        @ map (\<lambda>r. (rel_id r, relation_delete_command (uuid_text (rel_id r)) (uuid_text ds)
                 (uuid_text (rel_source_entity_id r)) (uuid_text (rel_target_entity_id r)))) (sort_key rel_id relations)
        @ map (\<lambda>e. (ent_id e, entity_delete_command (uuid_text (ent_id e)) (uuid_text ds))) (sort_key ent_id entities))"
      (is "x \<in> set ?cs")
    and "pc_aggregate_type (snd x) \<noteq> ascii ''chunk_next''"
  shows "\<exists>ac \<in> set (forget_projection_commands ds chunks mentions relations entities).
    pc_aggregate_type (snd ac) = pc_aggregate_type (snd x) \<and> pc_aggregate_id (snd ac) = pc_aggregate_id (snd x)"
proof -
  obtain ac where "ac \<in> set (forget_projection_commands ds chunks mentions relations entities)"
      "forget_command_key ac = forget_command_key x"
    using first_per_mem[OF assms(1), of forget_command_key] unfolding forget_projection_commands_def by blast
  then show ?thesis using assms(2) by (intro bexI[of _ ac]) (auto simp: forget_command_key_def Let_def split: if_splits)
qed

text \<open>Which aggregates a retirement deletes from the projection.\<close>

definition retired_aggregates :: "source_retirement \<Rightarrow> (string \<times> uuid) set" where
  "retired_aggregates t = (\<lambda>c. (''chunk'', ch_id c)) ` set (rt_chunks t) \<union> (\<lambda>m. (''entity_mention'', em_id m)) ` set (rt_mentions t)
     \<union> (\<lambda>r. (''relation'', rel_id r)) ` set (rt_relations t) \<union> (\<lambda>e. (''entity'', ent_id e)) ` set (rt_entities t)"

lemma builder_headers:
  "pc_aggregate_type (chunk_delete_command k ds) = ascii ''chunk''" "pc_aggregate_id (chunk_delete_command k ds) = k"
  "pc_aggregate_type (entity_delete_command k ds) = ascii ''entity''" "pc_aggregate_id (entity_delete_command k ds) = k"
  "pc_aggregate_type (relation_delete_command k ds a b) = ascii ''relation''" "pc_aggregate_id (relation_delete_command k ds a b) = k"
  "pc_aggregate_type (entity_mention_delete_command k ds a b) = ascii ''entity_mention''"
  "pc_aggregate_id (entity_mention_delete_command k ds a b) = k"
  by (simp_all add: builder_defs command_def)

lemma retirement_command_for:
  assumes "(ty, k) \<in> retired_aggregates t"
  shows "\<exists>ac \<in> set (retirement_commands ds t). pc_aggregate_type (snd ac) = ascii ty \<and> pc_aggregate_id (snd ac) = uuid_text k"
proof -
  consider (c) c where "c \<in> set (rt_chunks t)" "ty = ''chunk''" "k = ch_id c"
    | (m) m where "m \<in> set (rt_mentions t)" "ty = ''entity_mention''" "k = em_id m"
    | (r) r where "r \<in> set (rt_relations t)" "ty = ''relation''" "k = rel_id r"
    | (e) e where "e \<in> set (rt_entities t)" "ty = ''entity''" "k = ent_id e"
    using assms by (auto simp: retired_aggregates_def)
  then show ?thesis
  proof cases
    case c
    then show ?thesis unfolding retirement_commands_def
      using forget_command_for[of "(ch_id c, chunk_delete_command (uuid_text (ch_id c)) (uuid_text ds))"]
      by (simp add: builder_headers)
  next
    case m
    then show ?thesis unfolding retirement_commands_def
      using forget_command_for[of "(em_id m, entity_mention_delete_command (uuid_text (em_id m)) (uuid_text ds)
                 (uuid_text (em_entity_id m)) (uuid_text (em_chunk_id m)))"]
      by (simp add: builder_headers)
  next
    case r
    then show ?thesis unfolding retirement_commands_def
      using forget_command_for[of "(rel_id r, relation_delete_command (uuid_text (rel_id r)) (uuid_text ds)
                 (uuid_text (rel_source_entity_id r)) (uuid_text (rel_target_entity_id r)))"]
      by (simp add: builder_headers)
  next
    case e
    then show ?thesis unfolding retirement_commands_def
      using forget_command_for[of "(ent_id e, entity_delete_command (uuid_text (ent_id e)) (uuid_text ds))"]
      by (simp add: builder_headers)
  qed
qed

lemma enqueue_retirement:
  "\<exists>events. enqueue env ds (retirement_commands ds t) d = Inr (map ob_id events, d\<lparr>kb_outbox := kb_outbox d @ events\<rparr>)
    \<and> length events = length (retirement_commands ds t)
    \<and> (\<forall>e \<in> set events. ob_operation e = Outbox_DELETE \<and> ob_status e = Outbox_PENDING \<and> ob_dataset_id e = ds)
    \<and> (\<forall>(ty, k) \<in> retired_aggregates t. \<exists>e \<in> set events. deletes_projection ty k e)"
proof -
  have ok: "\<forall>ac \<in> set (retirement_commands ds t). conforming (snd ac) \<and> pc_operation (snd ac) = ascii ''delete''"
    using forget_commands_deletes by (simp add: retirement_commands_def)
  from enqueue_commands_total[OF ok, of "fe_outbox_id env" "fe_now env" ds "kb_outbox d"] obtain events where
    ev: "enqueue_commands (fe_outbox_id env) (fe_now env) ds (retirement_commands ds t) (kb_outbox d)
        = Inr (map ob_id events, kb_outbox d @ events)"
    and rows: "list_all2 (\<lambda>ac e. ob_operation e = Outbox_DELETE \<and> ob_status e = Outbox_PENDING \<and> ob_dataset_id e = ds
         \<and> ob_aggregate_type e = pc_aggregate_type (snd ac) \<and> ob_aggregate_id e = fst ac
         \<and> to_payload (snd ac) = Inr (ob_payload e)) (retirement_commands ds t) events"
    by blast
  have "\<exists>e \<in> set events. deletes_projection ty k e" if mem: "(ty, k) \<in> retired_aggregates t" for ty k
  proof -
    obtain ac where ac: "ac \<in> set (retirement_commands ds t)" "pc_aggregate_type (snd ac) = ascii ty"
        "pc_aggregate_id (snd ac) = uuid_text k"
      using retirement_command_for[OF mem] by blast
    obtain i where i: "i < length (retirement_commands ds t)" "retirement_commands ds t ! i = ac"
      using ac(1) unfolding in_set_conv_nth by blast
    have "events ! i \<in> set events" using i(1) list_all2_lengthD[OF rows] by simp
    moreover have "deletes_projection ty k (events ! i)"
      unfolding deletes_projection_def using list_all2_nthD[OF rows i(1), unfolded i(2)] ac ok
      by (intro conjI exI[of _ "snd ac"]) simp_all
    ultimately show ?thesis by blast
  qed
  moreover have "\<forall>e \<in> set events. ob_operation e = Outbox_DELETE \<and> ob_status e = Outbox_PENDING \<and> ob_dataset_id e = ds"
    using rows by (auto simp: list_all2_conv_all_nth in_set_conv_nth)
  ultimately show ?thesis using ev list_all2_lengthD[OF rows] by (auto simp: enqueue_def)
qed

end
