(* ===== verification/Forget_Properties.thy ===== *)
theory Forget_Properties
  imports Forget_Facts
begin

text \<open>
  What forgetting guarantees: a source or dataset mutation always commits, withdraws exactly its
  scope, leaves no current relation or entity without support, and enqueues the projection delete of
  everything it withdrew in the same transaction; the later steps only move the targets they own.
\<close>

subsection \<open>The result of a source mutation\<close>

definition reset_rows :: "forget_env \<Rightarrow> bool \<Rightarrow> source_retirement \<Rightarrow> document list" where
  "reset_rows env memory_only t = (if memory_only \<and> rt_documents t \<noteq> []
     then [reset_document_for_recognify env 0 (last (rt_documents t))] else [])"

lemma source_mutation_result:
  assumes "t = fst (retire_source ds s d)" "d1 = snd (retire_source ds s d)"
  obtains m events where
    "apply_source_forget_mutation env ds s mo d
       = Inr (m, (add_documents (reset_rows env mo t) d1)\<lparr>kb_outbox := kb_outbox d @ events\<rparr>)"
    "fm_dataset_id m = dataset_id ds" "fm_source_id m = src_id s" "fm_counts m = retirement_counts t (length events)"
    "\<forall>e \<in> set events. ob_operation e = Outbox_DELETE \<and> ob_status e = Outbox_PENDING \<and> ob_dataset_id e = dataset_id ds"
    "\<forall>(ty, k) \<in> retired_aggregates t. \<exists>e \<in> set events. deletes_projection ty k e"
proof -
  have pair: "retire_source ds s d = (t, d1)" using assms by simp
  have ob: "kb_outbox d1 = kb_outbox d"
    unfolding assms(2) retire_source_state retired_state_def after_content_def by (simp add: kb_simps)
  let ?d2 = "add_documents (reset_rows env mo t) d1"
  have d2: "(if mo \<and> rt_documents t \<noteq> [] then add_documents [reset_document_for_recognify env 0 (last (rt_documents t))] d1
      else d1) = ?d2"
    by (simp add: reset_rows_def add_documents_def)
  have ob2: "kb_outbox ?d2 = kb_outbox d" using ob by (simp add: add_documents_def)
  from enqueue_retirement[of env "dataset_id ds" t ?d2] obtain events where
    "enqueue env (dataset_id ds) (retirement_commands (dataset_id ds) t) ?d2
       = Inr (map ob_id events, ?d2\<lparr>kb_outbox := kb_outbox d @ events\<rparr>)"
    "length events = length (retirement_commands (dataset_id ds) t)"
    "\<forall>e \<in> set events. ob_operation e = Outbox_DELETE \<and> ob_status e = Outbox_PENDING \<and> ob_dataset_id e = dataset_id ds"
    "\<forall>(ty, k) \<in> retired_aggregates t. \<exists>e \<in> set events. deletes_projection ty k e"
    unfolding ob2 by blast
  then show ?thesis
    by (intro that[of _ events], simp add: apply_source_forget_mutation_def pair d2) simp_all
qed

subsection \<open>A source forget keeps the graph supported\<close>

lemma kb_add_documents [kb_simps]:
  "kb_dataset k (add_documents xs d) = kb_dataset k d" "kb_source k (add_documents xs d) = kb_source k d"
  "kb_chunk k (add_documents xs d) = kb_chunk k d" "kb_entity k (add_documents xs d) = kb_entity k d"
  "kb_relation k (add_documents xs d) = kb_relation k d" "kb_mentions (add_documents xs d) = kb_mentions d"
  "kb_evidence (add_documents xs d) = kb_evidence d" "kb_relations (add_documents xs d) = kb_relations d"
  "kb_chunks (add_documents xs d) = kb_chunks d" "kb_entities (add_documents xs d) = kb_entities d"
  "kb_sources (add_documents xs d) = kb_sources d" "kb_documents (add_documents xs d) = kb_documents d @ xs"
  "kb_runtime (add_documents xs d) = kb_runtime d"
  by (simp_all add: add_documents_def kb_reads)

lemma kb_outbox_update [kb_simps]:
  "kb_dataset k (d\<lparr>kb_outbox := x\<rparr>) = kb_dataset k d" "kb_source k (d\<lparr>kb_outbox := x\<rparr>) = kb_source k d"
  "kb_document k (d\<lparr>kb_outbox := x\<rparr>) = kb_document k d" "kb_chunk k (d\<lparr>kb_outbox := x\<rparr>) = kb_chunk k d"
  "kb_entity k (d\<lparr>kb_outbox := x\<rparr>) = kb_entity k d" "kb_relation k (d\<lparr>kb_outbox := x\<rparr>) = kb_relation k d"
  by (simp_all add: kb_reads)

lemma row_get_append: "row_get key k xs = Some x \<Longrightarrow> row_get key k (xs @ ys) = Some x"
  by (induction xs) (auto simp: row_get_Cons)

lemma kb_document_append: "kb_document k d = Some x \<Longrightarrow> kb_document k (add_documents xs d) = Some x"
  by (simp add: kb_document_def add_documents_def row_get_append)

lemma graph_supported_more_rows:
  assumes "graph_supported ds d"
  shows "graph_supported ds ((add_documents xs d)\<lparr>kb_outbox := rows\<rparr>)"
proof -
  let ?d = "(add_documents xs d)\<lparr>kb_outbox := rows\<rparr>"
  have auth: "authoritative ds ?d j" if "authoritative ds d j" for j
    using that kb_document_append
    by (fastforce simp: authoritative_def some_row_iff chunk_authoritative_def document_authoritative_def
        source_authoritative_def kb_simps)
  have cur: "relation_current ds ?d = relation_current ds d" by (simp add: fun_eq_iff relation_current_def kb_simps)
  have inc: "incident ds ?d = incident ds d" by (simp add: fun_eq_iff incident_def cur kb_simps)
  show ?thesis using assms evidenced_mono[OF _ auth] mentioned_mono[OF _ auth]
    by (simp add: graph_supported_def cur inc kb_simps) blast
qed

text \<open>C18: Forgetting a source keeps the knowledge graph supported: when every current relation of the dataset had
  authoritative evidence, every current entity an authoritative mention or a current relation, and the tables are
  as cognify writes them, then after the mutation (the source DELETING, its documents and chunks withdrawn, the
  unsupported relations and entities retired) this still holds, whatever was shared with other sources.\<close>

theorem source_forget_keeps_graph_supported:
  assumes "kdb_keyed d" "chunks_consistent d" "evidence_grounded d" "graph_supported ds d"
    and "kb_dataset (dataset_id ds) d = Some ds" "dataset_status ds = Dataset_ACTIVE" "kb_source (src_id s) d = Some s"
    and "apply_source_forget_mutation env ds (s\<lparr>src_status := Source_DELETING\<rparr>) memory_only
           (put_source (s\<lparr>src_status := Source_DELETING\<rparr>) d) = Inr (m, d')"
  shows "graph_supported ds d'"
proof -
  let ?s = "s\<lparr>src_status := Source_DELETING\<rparr>"
  let ?d1 = "snd (retire_source ds ?s (put_source ?s d))"
  have src: "kb_source (src_id ?s) d = Some s" using assms(7) by simp
  have "graph_supported ds ?d1"
    using graph_supported_retire[OF assms(1-3,5,6) src _ assms(4)] by simp
  moreover obtain m' events where "apply_source_forget_mutation env ds ?s memory_only (put_source ?s d)
      = Inr (m', (add_documents (reset_rows env memory_only (fst (retire_source ds ?s (put_source ?s d)))) ?d1)
              \<lparr>kb_outbox := kb_outbox (put_source ?s d) @ events\<rparr>)"
    by (rule source_mutation_result[OF refl refl, where d = "put_source ?s d" and ds = ds])
  ultimately show ?thesis using graph_supported_more_rows assms(8) by auto
qed

subsection \<open>What a mutation withdraws\<close>

text \<open>The aggregates active before and no longer active after, and the mentions of the chunks among them.\<close>

definition withdrawn_chunks :: "kdb \<Rightarrow> kdb \<Rightarrow> uuid set" where
  "withdrawn_chunks d d' = {k. some_row (kb_chunk k d) ch_is_active \<and> some_row (kb_chunk k d') (\<lambda>c. \<not> ch_is_active c)}"

definition withdrawn :: "kdb \<Rightarrow> kdb \<Rightarrow> (string \<times> uuid) set" where
  "withdrawn d d' = Pair ''chunk'' ` withdrawn_chunks d d'
     \<union> {(''entity_mention'', em_id m) | m. m \<in> set (kb_mentions d) \<and> em_chunk_id m \<in> withdrawn_chunks d d'}
     \<union> {(''relation'', k) | k. some_row (kb_relation k d) rel_is_active \<and> some_row (kb_relation k d') (\<lambda>r. \<not> rel_is_active r)}
     \<union> {(''entity'', k) | k. some_row (kb_entity k d) ent_is_active \<and> some_row (kb_entity k d') (\<lambda>e. \<not> ent_is_active e)}"

definition unprojected_by :: "kdb \<Rightarrow> kdb \<Rightarrow> bool" where
  "unprojected_by d d' \<longleftrightarrow> (\<exists>events. kb_outbox d' = kb_outbox d @ events
     \<and> (\<forall>(ty, k) \<in> withdrawn d d'. \<exists>e \<in> set events. deletes_projection ty k e))"

lemma withdrawn_retired:
  assumes ch: "\<And>k. kb_chunk k d' = map_option (\<lambda>x. if ch_id x \<in> ch_id ` set (rt_chunks t) then x\<lparr>ch_is_active := False\<rparr> else x) (kb_chunk k d)"
    and rel: "\<And>k. kb_relation k d' = map_option (\<lambda>x. if rel_id x \<in> rel_id ` set (rt_relations t) then x\<lparr>rel_is_active := False\<rparr> else x) (kb_relation k d)"
    and ent: "\<And>k. kb_entity k d' = map_option (\<lambda>x. if ent_id x \<in> ent_id ` set (rt_entities t) then x\<lparr>ent_is_active := False\<rparr> else x) (kb_entity k d)"
    and ments: "{m \<in> set (kb_mentions d). em_chunk_id m \<in> ch_id ` set (rt_chunks t)} \<subseteq> set (rt_mentions t)"
  shows "withdrawn d d' \<subseteq> retired_aggregates t"
proof -
  have c: "k \<in> ch_id ` set (rt_chunks t)" if "k \<in> withdrawn_chunks d d'" for k
    using that kb_SomeD(3)[of k d] by (cases "kb_chunk k d") (auto simp: withdrawn_chunks_def some_row_def ch split: if_splits)
  have r: "k \<in> rel_id ` set (rt_relations t)"
    if "some_row (kb_relation k d) rel_is_active" "some_row (kb_relation k d') (\<lambda>r. \<not> rel_is_active r)" for k
    using that kb_SomeD(5)[of k d] by (cases "kb_relation k d") (auto simp: some_row_def rel split: if_splits)
  have e: "k \<in> ent_id ` set (rt_entities t)"
    if "some_row (kb_entity k d) ent_is_active" "some_row (kb_entity k d') (\<lambda>e. \<not> ent_is_active e)" for k
    using that kb_SomeD(4)[of k d] by (cases "kb_entity k d") (auto simp: some_row_def ent split: if_splits)
  show ?thesis
  proof
    fix x assume "x \<in> withdrawn d d'"
    then consider k where "x = (''chunk'', k)" "k \<in> withdrawn_chunks d d'"
      | m where "x = (''entity_mention'', em_id m)" "m \<in> set (kb_mentions d)" "em_chunk_id m \<in> withdrawn_chunks d d'"
      | k where "x = (''relation'', k)" "some_row (kb_relation k d) rel_is_active" "some_row (kb_relation k d') (\<lambda>r. \<not> rel_is_active r)"
      | k where "x = (''entity'', k)" "some_row (kb_entity k d) ent_is_active" "some_row (kb_entity k d') (\<lambda>e. \<not> ent_is_active e)"
      unfolding withdrawn_def by blast
    then show "x \<in> retired_aggregates t"
    proof cases
      case 1
      then show ?thesis using c by (auto simp: retired_aggregates_def)
    next
      case 2
      then show ?thesis using c ments by (auto simp: retired_aggregates_def)
    next
      case 3
      then show ?thesis using r[OF 3(2,3)] by (auto simp: retired_aggregates_def)
    next
      case 4
      then show ?thesis using e[OF 4(2,3)] by (auto simp: retired_aggregates_def)
    qed
  qed
qed

lemma retired_state_reads:
  assumes "t = fst (retire_source ds s d)" "d1 = snd (retire_source ds s d)"
  shows "kb_chunk k d1 = map_option (\<lambda>x. if ch_id x \<in> ch_id ` set (rt_chunks t) then x\<lparr>ch_is_active := False\<rparr> else x) (kb_chunk k d)"
    "kb_relation k d1 = map_option (\<lambda>x. if rel_id x \<in> rel_id ` set (rt_relations t) then x\<lparr>rel_is_active := False\<rparr> else x) (kb_relation k d)"
    "kb_entity k d1 = map_option (\<lambda>x. if ent_id x \<in> ent_id ` set (rt_entities t) then x\<lparr>ent_is_active := False\<rparr> else x) (kb_entity k d)"
    "kb_chunks d1 = row_upd (\<lambda>x. ch_id x \<in> ch_id ` set (rt_chunks t)) (\<lambda>x. x\<lparr>ch_is_active := False\<rparr>) (kb_chunks d)"
    "kb_documents d1 = row_upd (\<lambda>x. doc_id x \<in> doc_id ` set (rt_documents t)) (\<lambda>x. x\<lparr>doc_is_active := False\<rparr>) (kb_documents d)"
    "kb_mentions d1 = kb_mentions d" "kb_evidence d1 = kb_evidence d" "kb_runtime d1 = kb_runtime d" "kb_sources d1 = kb_sources d"
  unfolding assms(2) retire_source_state assms(1)[symmetric] retired_state_def after_content_def
    retire_source_sel(1,2)[OF assms(1) refl, symmetric]
  by (simp_all add: kb_simps) (simp_all add: deactivate_chunks_def deactivate_documents_def)

lemma key_not_in:
  "\<lbrakk>keyed key rows; x \<in> set rows; \<And>y. y \<in> ys \<Longrightarrow> y \<in> set rows \<and> y \<noteq> x\<rbrakk> \<Longrightarrow> key x \<notin> key ` ys"
  by (auto simp: keyed_def distinct_map inj_on_def)

lemma filter_row_upd:
  "\<lbrakk>\<forall>x \<in> set xs. Q x \<longrightarrow> \<not> P x; \<And>x. Q (f x) = Q x\<rbrakk> \<Longrightarrow> filter Q (row_upd P f xs) = filter Q xs"
  by (induction xs) (auto simp: row_upd_def)

lemma filter_outside:
  assumes "keyed key rows" "set ys \<subseteq> {x \<in> set rows. \<not> Q x}" "\<And>x. Q (f x) = Q x"
  shows "filter Q (row_upd (\<lambda>x. key x \<in> key ` set ys) f rows) = filter Q rows"
proof -
  have "key x \<notin> key ` set ys" if "x \<in> set rows" "Q x" for x
    by (rule key_not_in[OF assms(1) that(1)]) (use assms(2) that in auto)
  then show ?thesis using assms(3) by (intro filter_row_upd) auto
qed

lemma source_retraction:
  assumes "kdb_keyed d"
  shows "\<exists>m d'. apply_source_forget_mutation env ds s memory_only d = Inr (m, d')
     \<and> list_chunks_for_source_generation (src_id s) (dataset_active_generation ds) d' = []
     \<and> (\<exists>new. set (list_documents_for_source_generation (src_id s) (dataset_active_generation ds) d') \<subseteq> set new
          \<and> (new = [] \<or> memory_only \<and> (\<exists>x. new = [reset_document_for_recognify env 0 x])))
     \<and> filter (\<lambda>c. ch_source_id c \<noteq> src_id s) (kb_chunks d') = filter (\<lambda>c. ch_source_id c \<noteq> src_id s) (kb_chunks d)
     \<and> filter (\<lambda>x. doc_source_id x \<noteq> src_id s) (kb_documents d') = filter (\<lambda>x. doc_source_id x \<noteq> src_id s) (kb_documents d)
     \<and> kb_mentions d' = kb_mentions d \<and> kb_evidence d' = kb_evidence d \<and> kb_runtime d' = kb_runtime d
     \<and> unprojected_by d d' \<and> kb_sources d' = kb_sources d
     \<and> fm_dataset_id m = dataset_id ds \<and> fm_source_id m = src_id s"
proof -
  define t where "t = fst (retire_source ds s d)"
  define d1 where "d1 = snd (retire_source ds s d)"
  note R = retired_state_reads[OF t_def d1_def]
  note sel = retire_source_sel[OF t_def refl]
  obtain m events where res: "apply_source_forget_mutation env ds s memory_only d
       = Inr (m, (add_documents (reset_rows env memory_only t) d1)\<lparr>kb_outbox := kb_outbox d @ events\<rparr>)"
    and head: "fm_dataset_id m = dataset_id ds" "fm_source_id m = src_id s"
    and del: "\<forall>(ty, k) \<in> retired_aggregates t. \<exists>e \<in> set events. deletes_projection ty k e"
    by (rule source_mutation_result[OF t_def d1_def])
  let ?d' = "(add_documents (reset_rows env memory_only t) d1)\<lparr>kb_outbox := kb_outbox d @ events\<rparr>"
  have "withdrawn d ?d' \<subseteq> retired_aggregates t"
    by (rule withdrawn_retired) (auto simp: R kb_simps sel(3) list_mentions_for_chunks_def)
  then have "unprojected_by d ?d'" using del unfolding unprojected_by_def by (intro exI[of _ events]) auto
  moreover have "set (list_chunks_for_source_generation (src_id s) (dataset_active_generation ds) ?d') = {}"
    by (auto simp: list_chunks_for_source_generation_def kb_simps R set_row_upd sel(2) split: if_splits)
  moreover have "set (list_documents_for_source_generation (src_id s) (dataset_active_generation ds) ?d')
      \<subseteq> set (reset_rows env memory_only t)"
    by (auto simp: list_documents_for_source_generation_def kb_simps R set_row_upd sel(1) split: if_splits)
  moreover have "reset_rows env memory_only t = [] \<or> memory_only \<and> (\<exists>x. reset_rows env memory_only t = [reset_document_for_recognify env 0 x])"
    by (auto simp: reset_rows_def)
  moreover have "filter (\<lambda>c. ch_source_id c \<noteq> src_id s) (kb_chunks ?d') = filter (\<lambda>c. ch_source_id c \<noteq> src_id s) (kb_chunks d)"
    using assms by (simp add: kb_simps R) (intro filter_outside, auto simp: kdb_keyed_def sel(2) list_chunks_for_source_generation_def)
  moreover have "filter (\<lambda>x. doc_source_id x \<noteq> src_id s) (kb_documents ?d') = filter (\<lambda>x. doc_source_id x \<noteq> src_id s) (kb_documents d)"
  proof -
    have "filter (\<lambda>x. doc_source_id x \<noteq> src_id s) (kb_documents d1) = filter (\<lambda>x. doc_source_id x \<noteq> src_id s) (kb_documents d)"
      unfolding R using assms by (intro filter_outside) (auto simp: kdb_keyed_def sel(1) list_documents_for_source_generation_def)
    moreover have "filter (\<lambda>x. doc_source_id x \<noteq> src_id s) (reset_rows env memory_only t) = []"
      using last_in_set[of "rt_documents t"]
      by (auto simp: reset_rows_def reset_document_for_recognify_def sel(1) list_documents_for_source_generation_def)
    ultimately show ?thesis by (simp add: kb_simps)
  qed
  ultimately show ?thesis unfolding res
    by (intro exI[of _ m] exI[of _ ?d'] conjI exI[of _ "reset_rows env memory_only t"]) (auto simp: kb_simps R head)
qed

text \<open>Forgetting a source always commits, and withdraws exactly that source from the current generation: none of
  its chunks stays active, and no document but the reset marker of a memory-only forget; documents and chunks of other
  sources, mentions, evidence and the pipeline tables are untouched; and every chunk, mention, relation and entity it
  withdraws has its projection delete pending in the same transaction.\<close>

theorem source_forget_retracts:
  assumes "kdb_keyed d"
  shows "\<exists>m d'. apply_source_forget_mutation env ds s memory_only d = Inr (m, d')
     \<and> list_chunks_for_source_generation (src_id s) (dataset_active_generation ds) d' = []
     \<and> (\<exists>new. set (list_documents_for_source_generation (src_id s) (dataset_active_generation ds) d') \<subseteq> set new
          \<and> (new = [] \<or> memory_only \<and> (\<exists>x. new = [reset_document_for_recognify env 0 x])))
     \<and> filter (\<lambda>c. ch_source_id c \<noteq> src_id s) (kb_chunks d') = filter (\<lambda>c. ch_source_id c \<noteq> src_id s) (kb_chunks d)
     \<and> filter (\<lambda>x. doc_source_id x \<noteq> src_id s) (kb_documents d') = filter (\<lambda>x. doc_source_id x \<noteq> src_id s) (kb_documents d)
     \<and> kb_mentions d' = kb_mentions d \<and> kb_evidence d' = kb_evidence d \<and> kb_runtime d' = kb_runtime d
     \<and> unprojected_by d d'"
  using source_retraction[OF assms] by blast

subsection \<open>Dataset scope\<close>

lemma retire_dataset_sel:
  assumes "t = fst (retire_dataset ds d)"
  shows "rt_documents t = list_documents_current_for_dataset (dataset_id ds) (dataset_active_generation ds) d"
    "rt_chunks t = list_chunks_current_for_dataset (dataset_id ds) (dataset_active_generation ds) d"
    "rt_mentions t = list_mentions_for_chunks (map ch_id (rt_chunks t)) d"
    "rt_entities t = entities_current_for_dataset (dataset_id ds) d"
    "rt_relations t = relations_current_for_dataset (dataset_id ds) d"
  unfolding assms retire_dataset_def Let_def by simp_all

lemma retire_dataset_state:
  assumes "t = fst (retire_dataset ds d)"
  shows "snd (retire_dataset ds d) = deactivate_summaries (map sum_id (rt_summaries t))
    (deactivate_relations (map rel_id (rt_relations t)) (deactivate_entities (map ent_id (rt_entities t))
      (deactivate_chunks (map ch_id (rt_chunks t)) (deactivate_documents (map doc_id (rt_documents t)) d))))"
  unfolding assms retire_dataset_def Let_def by simp

lemma retire_dataset_reads:
  assumes "t = fst (retire_dataset ds d)" "d1 = snd (retire_dataset ds d)"
  shows "kb_chunk k d1 = map_option (\<lambda>x. if ch_id x \<in> ch_id ` set (rt_chunks t) then x\<lparr>ch_is_active := False\<rparr> else x) (kb_chunk k d)"
    "kb_relation k d1 = map_option (\<lambda>x. if rel_id x \<in> rel_id ` set (rt_relations t) then x\<lparr>rel_is_active := False\<rparr> else x) (kb_relation k d)"
    "kb_entity k d1 = map_option (\<lambda>x. if ent_id x \<in> ent_id ` set (rt_entities t) then x\<lparr>ent_is_active := False\<rparr> else x) (kb_entity k d)"
    "kb_chunks d1 = row_upd (\<lambda>x. ch_id x \<in> ch_id ` set (rt_chunks t)) (\<lambda>x. x\<lparr>ch_is_active := False\<rparr>) (kb_chunks d)"
    "kb_documents d1 = row_upd (\<lambda>x. doc_id x \<in> doc_id ` set (rt_documents t)) (\<lambda>x. x\<lparr>doc_is_active := False\<rparr>) (kb_documents d)"
    "kb_entities d1 = row_upd (\<lambda>x. ent_id x \<in> ent_id ` set (rt_entities t)) (\<lambda>x. x\<lparr>ent_is_active := False\<rparr>) (kb_entities d)"
    "kb_relations d1 = row_upd (\<lambda>x. rel_id x \<in> rel_id ` set (rt_relations t)) (\<lambda>x. x\<lparr>rel_is_active := False\<rparr>) (kb_relations d)"
    "kb_mentions d1 = kb_mentions d" "kb_evidence d1 = kb_evidence d" "kb_runtime d1 = kb_runtime d" "kb_outbox d1 = kb_outbox d"
    "kb_dataset k d1 = kb_dataset k d" "kb_sources d1 = kb_sources d" "kb_source k d1 = kb_source k d"
  unfolding assms(2) retire_dataset_state[OF assms(1)]
  by (simp_all add: kb_simps)
    (simp_all add: deactivate_chunks_def deactivate_documents_def deactivate_entities_def deactivate_relations_def
      deactivate_summaries_def)

definition dataset_reset_rows :: "forget_env \<Rightarrow> source list \<Rightarrow> bool \<Rightarrow> source_retirement \<Rightarrow> document list" where
  "dataset_reset_rows env sources mo t = (if mo then reset_documents env sources (rt_documents t) else [])"

lemma dataset_mutation_result:
  assumes "t = fst (retire_dataset ds d)" "d1 = snd (retire_dataset ds d)"
  obtains p events where
    "apply_dataset_forget_mutation env ds sources mo d
       = Inr (p, (add_documents (dataset_reset_rows env sources mo t) d1)\<lparr>kb_outbox := kb_outbox d @ events\<rparr>)"
    "dm_dataset_id p = dataset_id ds" "dm_graph_outbox_ids p = map ob_id events" "dm_sources_touched p = length sources"
    "length events = length (retirement_commands (dataset_id ds) t)"
    "\<forall>e \<in> set events. ob_operation e = Outbox_DELETE \<and> ob_status e = Outbox_PENDING \<and> ob_dataset_id e = dataset_id ds"
    "\<forall>(ty, k) \<in> retired_aggregates t. \<exists>e \<in> set events. deletes_projection ty k e"
proof -
  have pair: "retire_dataset ds d = (t, d1)" using assms by simp
  let ?d2 = "add_documents (dataset_reset_rows env sources mo t) d1"
  have d2: "(if mo then add_documents (reset_documents env sources (rt_documents t)) d1 else d1) = ?d2"
    by (simp add: dataset_reset_rows_def add_documents_def)
  have ob2: "kb_outbox ?d2 = kb_outbox d" using retire_dataset_reads(11)[OF assms] by (simp add: add_documents_def)
  from enqueue_retirement[of env "dataset_id ds" t ?d2] obtain events where
    "enqueue env (dataset_id ds) (retirement_commands (dataset_id ds) t) ?d2
       = Inr (map ob_id events, ?d2\<lparr>kb_outbox := kb_outbox d @ events\<rparr>)"
    "length events = length (retirement_commands (dataset_id ds) t)"
    "\<forall>e \<in> set events. ob_operation e = Outbox_DELETE \<and> ob_status e = Outbox_PENDING \<and> ob_dataset_id e = dataset_id ds"
    "\<forall>(ty, k) \<in> retired_aggregates t. \<exists>e \<in> set events. deletes_projection ty k e"
    unfolding ob2 by blast
  then show ?thesis
    by (intro that[of _ events], simp add: apply_dataset_forget_mutation_def pair d2) simp_all
qed

lemma retired_dataset_empty:
  assumes "t = fst (retire_dataset ds d)" "d1 = snd (retire_dataset ds d)"
    and "kb_dataset (dataset_id ds) d = Some ds" "dataset_status ds \<in> {Dataset_ACTIVE, Dataset_DELETING}"
  shows "set (list_chunks_current_for_dataset (dataset_id ds) (dataset_active_generation ds) d1) = {}"
    "set (list_documents_current_for_dataset (dataset_id ds) (dataset_active_generation ds) d1) = {}"
    "set (entities_current_for_dataset (dataset_id ds) d1) = {}" "set (relations_current_for_dataset (dataset_id ds) d1) = {}"
    "set (rt_entities t) = {e \<in> set (kb_entities d). entity_current ds e}"
    "set (rt_relations t) = {r \<in> set (kb_relations d). relation_current ds d r}"
proof -
  note R = retire_dataset_reads[OF assms(1,2)]
  note sel = retire_dataset_sel[OF assms(1)]
  show ents: "set (rt_entities t) = {e \<in> set (kb_entities d). entity_current ds e}"
    using assms(3,4) by (auto simp: sel(4) entities_current_for_dataset_def with_dataset_def)
  show "set (rt_relations t) = {r \<in> set (kb_relations d). relation_current ds d r}"
    using assms(3,4) by (auto simp: sel(5) relations_current_for_dataset_def with_dataset_def)
  show "set (list_chunks_current_for_dataset (dataset_id ds) (dataset_active_generation ds) d1) = {}"
    by (auto simp: list_chunks_current_for_dataset_def R set_row_upd sel(2) split: if_splits)
  show "set (list_documents_current_for_dataset (dataset_id ds) (dataset_active_generation ds) d1) = {}"
    by (auto simp: list_documents_current_for_dataset_def R set_row_upd sel(1) split: if_splits)
  show "set (entities_current_for_dataset (dataset_id ds) d1) = {}"
    by (auto simp: entities_current_for_dataset_def with_dataset_def R set_row_upd ents assms(3) entity_current_def split: if_splits)
  have dead: "\<not> some_row (kb_entity k d1) (entity_current ds)" for k
    using kb_SomeD(4)[of k d] ents
    by (cases "kb_entity k d") (auto simp: R some_row_def entity_current_def split: if_splits)
  show "set (relations_current_for_dataset (dataset_id ds) d1) = {}"
    using dead by (auto simp: relations_current_for_dataset_def with_dataset_def relation_current_def R assms(3))
qed

text \<open>Forgetting a dataset always commits and empties its current generation: no active chunk, no current entity or
  relation, and no active document but the reset markers of a memory-only forget; other datasets' documents, chunks,
  entities and relations, the provenance rows and the pipeline tables are untouched; everything withdrawn has its
  projection delete pending, and the outbox ids the mutation returns are exactly those of the rows it appended.\<close>

theorem dataset_forget_empties:
  assumes "kdb_keyed d" "kb_dataset (dataset_id ds) d = Some ds" "dataset_status ds \<in> {Dataset_ACTIVE, Dataset_DELETING}"
  shows "\<exists>p d' events. apply_dataset_forget_mutation env ds sources memory_only d = Inr (p, d')
     \<and> list_chunks_current_for_dataset (dataset_id ds) (dataset_active_generation ds) d' = []
     \<and> (\<not> memory_only \<longrightarrow> list_documents_current_for_dataset (dataset_id ds) (dataset_active_generation ds) d' = [])
     \<and> entities_current_for_dataset (dataset_id ds) d' = [] \<and> relations_current_for_dataset (dataset_id ds) d' = []
     \<and> filter (\<lambda>c. ch_dataset_id c \<noteq> dataset_id ds) (kb_chunks d') = filter (\<lambda>c. ch_dataset_id c \<noteq> dataset_id ds) (kb_chunks d)
     \<and> filter (\<lambda>e. ent_dataset_id e \<noteq> dataset_id ds) (kb_entities d') = filter (\<lambda>e. ent_dataset_id e \<noteq> dataset_id ds) (kb_entities d)
     \<and> filter (\<lambda>r. rel_dataset_id r \<noteq> dataset_id ds) (kb_relations d') = filter (\<lambda>r. rel_dataset_id r \<noteq> dataset_id ds) (kb_relations d)
     \<and> kb_mentions d' = kb_mentions d \<and> kb_evidence d' = kb_evidence d \<and> kb_runtime d' = kb_runtime d
     \<and> kb_outbox d' = kb_outbox d @ events \<and> dm_graph_outbox_ids p = map ob_id events
     \<and> (\<forall>(ty, k) \<in> withdrawn d d'. \<exists>e \<in> set events. deletes_projection ty k e)"
proof -
  define t where "t = fst (retire_dataset ds d)"
  define d1 where "d1 = snd (retire_dataset ds d)"
  note R = retire_dataset_reads[OF t_def d1_def]
  note sel = retire_dataset_sel[OF t_def]
  obtain p events where res: "apply_dataset_forget_mutation env ds sources memory_only d
       = Inr (p, (add_documents (dataset_reset_rows env sources memory_only t) d1)\<lparr>kb_outbox := kb_outbox d @ events\<rparr>)"
    and ids: "dm_graph_outbox_ids p = map ob_id events"
    and del: "\<forall>(ty, k) \<in> retired_aggregates t. \<exists>e \<in> set events. deletes_projection ty k e"
    by (rule dataset_mutation_result[OF t_def d1_def])
  let ?d' = "(add_documents (dataset_reset_rows env sources memory_only t) d1)\<lparr>kb_outbox := kb_outbox d @ events\<rparr>"
  have ws: "withdrawn d ?d' \<subseteq> retired_aggregates t"
    by (rule withdrawn_retired) (auto simp: R kb_simps sel(3) list_mentions_for_chunks_def)
  note empty = retired_dataset_empty[OF t_def d1_def assms(2,3)]
  have 1: "set (list_chunks_current_for_dataset (dataset_id ds) (dataset_active_generation ds) ?d') = {}"
    using empty(1) by (simp add: list_chunks_current_for_dataset_def kb_simps)
  have 2: "\<not> memory_only \<Longrightarrow> set (list_documents_current_for_dataset (dataset_id ds) (dataset_active_generation ds) ?d') = {}"
    using empty(2) by (simp add: list_documents_current_for_dataset_def kb_simps dataset_reset_rows_def)
  have 3: "set (entities_current_for_dataset (dataset_id ds) ?d') = {}"
    using empty(3) by (simp add: entities_current_for_dataset_def with_dataset_def kb_simps)
  have "relation_current ds ?d' = relation_current ds d1" by (simp add: fun_eq_iff relation_current_def kb_simps)
  then have 4: "set (relations_current_for_dataset (dataset_id ds) ?d') = {}"
    using empty(4) by (auto simp: relations_current_for_dataset_def with_dataset_def relation_current_def R kb_simps assms(2))
  have 5: "filter (\<lambda>c. ch_dataset_id c \<noteq> dataset_id ds) (kb_chunks d1) = filter (\<lambda>c. ch_dataset_id c \<noteq> dataset_id ds) (kb_chunks d)"
    unfolding R using assms(1) by (intro filter_outside) (auto simp: kdb_keyed_def sel(2) list_chunks_current_for_dataset_def)
  have 6: "filter (\<lambda>e. ent_dataset_id e \<noteq> dataset_id ds) (kb_entities d1) = filter (\<lambda>e. ent_dataset_id e \<noteq> dataset_id ds) (kb_entities d)"
    unfolding R using assms(1) by (intro filter_outside) (auto simp: kdb_keyed_def empty(5) entity_current_def)
  have 7: "filter (\<lambda>r. rel_dataset_id r \<noteq> dataset_id ds) (kb_relations d1) = filter (\<lambda>r. rel_dataset_id r \<noteq> dataset_id ds) (kb_relations d)"
    unfolding R using assms(1) by (intro filter_outside) (auto simp: kdb_keyed_def empty(6) relation_current_def relation_row_current_def)
  show ?thesis unfolding res
    by (intro exI[of _ p] exI[of _ ?d'] exI[of _ events] conjI) (use 1 2 3 4 5 6 7 ws del ids in \<open>auto simp: kb_simps R\<close>)
qed

subsection \<open>Finalization\<close>

text \<open>How finalization may move one source: a DELETING one back to PENDING by a memory-only forget, or to DELETED on
  the storage result recorded for it.\<close>

definition source_finalized :: "bool \<Rightarrow> (uuid \<rightharpoonup> storage_delete_status) \<Rightarrow> source \<Rightarrow> source \<Rightarrow> bool" where
  "source_finalized mo statuses s s' \<longleftrightarrow> s' = s \<or> src_status s = Source_DELETING \<and>
     (if mo then s' = s\<lparr>src_status := Source_PENDING\<rparr>
      else (\<exists>st. statuses (src_id s) = Some st \<and> s' = finalized_source st s))"

definition dataset_finalized :: "db \<Rightarrow> dataset \<Rightarrow> dataset \<Rightarrow> bool" where
  "dataset_finalized rt x x' \<longleftrightarrow> x' = x \<or> dataset_status x = Dataset_DELETING
     \<and> \<not> exists_administrative_delete_ownership (dataset_id x) rt \<and> x' = x\<lparr>dataset_status := Dataset_ACTIVE\<rparr>"

text \<open>The sources and datasets of \<open>d'\<close> are those of \<open>d\<close>, moved row by row; nothing else differs.\<close>

definition finalized :: "bool \<Rightarrow> (uuid \<rightharpoonup> storage_delete_status) \<Rightarrow> kdb \<Rightarrow> kdb \<Rightarrow> bool" where
  "finalized mo statuses d d' \<longleftrightarrow> (\<exists>ss dss. d' = d\<lparr>kb_sources := ss, kb_runtime := (kb_runtime d)\<lparr>datasets := dss\<rparr>\<rparr>
     \<and> list_all2 (source_finalized mo statuses) (kb_sources d) ss
     \<and> list_all2 (dataset_finalized (kb_runtime d)) (datasets (kb_runtime d)) dss)"

lemma list_all2_row_put:
  assumes "\<And>x. R x x" "\<And>x. x \<in> set rows \<Longrightarrow> key x = key y \<Longrightarrow> R x y"
  shows "list_all2 R rows (row_put key y rows)"
  using assms(2) by (induction rows) (auto simp: row_put_def assms(1))

lemma source_finalized_moves:
  "source_finalized mo st a b \<Longrightarrow> b = a \<or> src_status b \<noteq> Source_DELETING"
  by (cases mo) (auto simp: source_finalized_def finalized_source_def)

lemma source_finalized_trans:
  assumes "source_finalized mo st a b" "source_finalized mo st b c"
  shows "source_finalized mo st a c"
proof (cases "b = a")
  case False
  then have "c = b" using source_finalized_moves[OF assms(1)] assms(2) unfolding source_finalized_def by blast
  then show ?thesis using assms(1) by simp
qed (use assms(2) in simp)

lemma dataset_finalized_trans:
  "dataset_finalized rt a b \<Longrightarrow> dataset_finalized rt b c \<Longrightarrow> dataset_finalized rt a c"
  by (auto simp: dataset_finalized_def)

lemma ownership_ignores_datasets:
  "exists_administrative_delete_ownership k (rt\<lparr>datasets := x\<rparr>) = exists_administrative_delete_ownership k rt"
  by (simp add: exists_administrative_delete_ownership_def step_succeeded_def)

lemma finalized_refl: "finalized mo st d d"
  unfolding finalized_def
  by (intro exI[of _ "kb_sources d"] exI[of _ "datasets (kb_runtime d)"])
    (simp add: list_all2_same source_finalized_def dataset_finalized_def)

lemma finalized_trans:
  assumes "finalized mo st d d1" "finalized mo st d1 d2"
  shows "finalized mo st d d2"
proof -
  obtain s1 x1 where 1: "d1 = d\<lparr>kb_sources := s1, kb_runtime := (kb_runtime d)\<lparr>datasets := x1\<rparr>\<rparr>"
      "list_all2 (source_finalized mo st) (kb_sources d) s1"
      "list_all2 (dataset_finalized (kb_runtime d)) (datasets (kb_runtime d)) x1"
    using assms(1) by (auto simp: finalized_def)
  obtain s2 x2 where 2: "d2 = d1\<lparr>kb_sources := s2, kb_runtime := (kb_runtime d1)\<lparr>datasets := x2\<rparr>\<rparr>"
      "list_all2 (source_finalized mo st) (kb_sources d1) s2"
      "list_all2 (dataset_finalized (kb_runtime d1)) (datasets (kb_runtime d1)) x2"
    using assms(2) by (auto simp: finalized_def)
  have "dataset_finalized (kb_runtime d1) = dataset_finalized (kb_runtime d)"
    by (simp add: fun_eq_iff dataset_finalized_def 1(1) ownership_ignores_datasets)
  then show ?thesis unfolding finalized_def
    using 1 2 list_all2_trans[OF source_finalized_trans] list_all2_trans[OF dataset_finalized_trans]
    by (intro exI[of _ s2] exI[of _ x2]) (auto)
qed

lemma finalized_put_source:
  assumes "keyed src_id (kb_sources d)" "kb_source (src_id s) d = Some s" "source_finalized mo st s s'"
  shows "finalized mo st d (put_source s' d)"
proof -
  have k: "src_id s' = src_id s" using assms(3) by (auto simp: source_finalized_def finalized_source_def split: if_splits)
  have "list_all2 (source_finalized mo st) (kb_sources d) (row_put src_id s' (kb_sources d))"
  proof (rule list_all2_row_put)
    fix x assume "x \<in> set (kb_sources d)" "src_id x = src_id s'"
    then have "x = s" using row_get_keyed[OF assms(1), of x] assms(2) k by (simp add: kb_source_def)
    then show "source_finalized mo st x s'" using assms(3) by simp
  qed (simp add: source_finalized_def)
  then show ?thesis unfolding finalized_def put_source_def
    by (intro exI[of _ "row_put src_id s' (kb_sources d)"] exI[of _ "datasets (kb_runtime d)"])
      (simp add: list_all2_same dataset_finalized_def)
qed

lemma finalize_sources_finalized:
  assumes "finalize_sources mo st ss counts d = Inr (counts', d')" "keyed src_id (kb_sources d)"
    "distinct (map src_id ss)" "\<forall>s \<in> set ss. kb_source (src_id s) d = Some s"
  shows "finalized mo st d d' \<and> keyed src_id (kb_sources d') \<and> kb_runtime d' = kb_runtime d"
  using assms
proof (induction mo st ss counts d arbitrary: counts' d' rule: finalize_sources.induct)
  case (2 mo st s ss p q d)
  have others: "\<forall>x \<in> set ss. kb_source (src_id x) (put_source y d) = Some x" if "src_id y = src_id s" for y
  proof
    fix x assume x: "x \<in> set ss"
    then have "src_id x \<in> src_id ` set ss" by (rule imageI)
    then have "src_id x \<noteq> src_id y" using 2(6) that by auto
    then show "kb_source (src_id x) (put_source y d) = Some x"
      using 2(7) x by (simp add: kb_source_def put_source_def row_get_put_other)
  qed
  show ?case
  proof (cases "src_status s = Source_DELETING")
    case False
    have "finalize_sources mo st ss (p, q) d = Inr (counts', d')" using 2(4) False by simp
    from 2(1)[OF False this 2(5)] 2(6,7) show ?thesis by simp
  next
    case del: True
    show ?thesis
    proof (cases mo)
      case True
      have "finalized mo st d (put_source (s\<lparr>src_status := Source_PENDING\<rparr>) d)"
        by (rule finalized_put_source) (use 2(5,7) del True in \<open>auto simp: source_finalized_def\<close>)
      moreover have "finalized mo st (put_source (s\<lparr>src_status := Source_PENDING\<rparr>) d) d' \<and> keyed src_id (kb_sources d')
          \<and> kb_runtime d' = kb_runtime (put_source (s\<lparr>src_status := Source_PENDING\<rparr>) d)"
        by (rule 2(2)[OF _ True]) (use del True 2(4,5,6) others[of "s\<lparr>src_status := Source_PENDING\<rparr>"] in \<open>auto simp: put_source_def\<close>)
      ultimately show ?thesis using finalized_trans by (auto simp: put_source_def)
    next
      case False
      then obtain v where v: "st (src_id s) = Some v"
          "finalize_sources mo st ss (p, Suc q) (put_source (finalized_source v s) d) = Inr (counts', d')"
        using 2(4) del by (auto simp: require_storage_status_def bindE_eq_Inr_iff split: option.splits)
      have "finalized mo st d (put_source (finalized_source v s) d)"
        by (rule finalized_put_source) (use 2(5,7) del False v in \<open>auto simp: source_finalized_def\<close>)
      moreover have "finalized mo st (put_source (finalized_source v s) d) d' \<and> keyed src_id (kb_sources d')
          \<and> kb_runtime d' = kb_runtime (put_source (finalized_source v s) d)"
        by (rule 2(3)[OF _ False, of v, OF _ v(2)])
          (use del 2(5,6) others[of "finalized_source v s"] in \<open>auto simp: put_source_def finalized_source_def\<close>)
      ultimately show ?thesis using finalized_trans by (auto simp: put_source_def)
    qed
  qed
qed (auto simp: finalized_refl)

lemma finalized_put_dataset:
  assumes "keyed dataset_id (datasets (kb_runtime d))" "kb_dataset k d = Some x" "dataset_status x = Dataset_DELETING"
    "\<not> exists_administrative_delete_ownership k (kb_runtime d)"
  shows "finalized mo st d (put_dataset (x\<lparr>dataset_status := Dataset_ACTIVE\<rparr>) d)"
proof -
  have k: "dataset_id x = k" using assms(2) kb_SomeD(6) by blast
  have "list_all2 (dataset_finalized (kb_runtime d)) (datasets (kb_runtime d))
      (row_put dataset_id (x\<lparr>dataset_status := Dataset_ACTIVE\<rparr>) (datasets (kb_runtime d)))"
  proof (rule list_all2_row_put)
    fix y assume "y \<in> set (datasets (kb_runtime d))" "dataset_id y = dataset_id (x\<lparr>dataset_status := Dataset_ACTIVE\<rparr>)"
    then have "y = x" using row_get_keyed[OF assms(1), of y] assms(2) k by (simp add: kb_dataset_def get_dataset_def)
    then show "dataset_finalized (kb_runtime d) y (x\<lparr>dataset_status := Dataset_ACTIVE\<rparr>)"
      using assms(3,4) k by (simp add: dataset_finalized_def)
  qed (simp add: dataset_finalized_def)
  then show ?thesis unfolding finalized_def put_dataset_def
    by (intro exI[of _ "kb_sources d"] exI) (auto simp: list_all2_same source_finalized_def)
qed

lemma finalized_keyed:
  assumes "finalized mo st d d'"
  shows "keyed src_id (kb_sources d') = keyed src_id (kb_sources d)"
    "keyed dataset_id (datasets (kb_runtime d')) = keyed dataset_id (datasets (kb_runtime d))"
proof -
  obtain ss dss where d': "d' = d\<lparr>kb_sources := ss, kb_runtime := (kb_runtime d)\<lparr>datasets := dss\<rparr>\<rparr>"
    and s: "list_all2 (source_finalized mo st) (kb_sources d) ss"
    and x: "list_all2 (dataset_finalized (kb_runtime d)) (datasets (kb_runtime d)) dss"
    using assms by (auto simp: finalized_def)
  have "map src_id ss = map src_id (kb_sources d)"
    using s by (induction rule: list_all2_induct) (auto simp: source_finalized_def finalized_source_def split: if_splits)
  moreover have "map dataset_id dss = map dataset_id (datasets (kb_runtime d))"
    using x by (induction rule: list_all2_induct) (auto simp: dataset_finalized_def)
  ultimately show "keyed src_id (kb_sources d') = keyed src_id (kb_sources d)"
    "keyed dataset_id (datasets (kb_runtime d')) = keyed dataset_id (datasets (kb_runtime d))"
    using d' by (simp_all add: keyed_def)
qed

lemma listed_sources_read:
  assumes "keyed src_id (kb_sources d)"
  shows "distinct (map src_id (list_sources_not_deleted k d))"
    "\<forall>s \<in> set (list_sources_not_deleted k d). kb_source (src_id s) d = Some s"
  using assms row_get_keyed[OF assms]
  by (simp_all add: list_sources_not_deleted_def keyed_def distinct_map_filter_key kb_source_def)

lemma finalize_dataset_target_finalized:
  assumes "finalize_dataset_target mo st t d = Inr (f, d')" "keyed src_id (kb_sources d)"
    "keyed dataset_id (datasets (kb_runtime d))"
  shows "finalized mo st d d'"
proof (cases "do_proceed t")
  case True
  then obtain ds counts d1 where ds: "kb_dataset (do_dataset_id t) d = Some ds"
    and fs: "finalize_sources mo st (list_sources_not_deleted (do_dataset_id t) d) (0, 0) d = Inr (counts, d1)"
    and d': "d' = (if dataset_status ds = Dataset_DELETING \<and> \<not> exists_administrative_delete_ownership (do_dataset_id t) (kb_runtime d1)
                     then put_dataset (ds\<lparr>dataset_status := Dataset_ACTIVE\<rparr>) d1 else d1)"
    using assms(1) by (auto simp: finalize_dataset_target_def Let_def bindE_eq_Inr_iff target_missing_def split: option.splits)
  have 1: "finalized mo st d d1" "kb_runtime d1 = kb_runtime d"
    using finalize_sources_finalized[OF fs assms(2) listed_sources_read[OF assms(2)]] by auto
  have "finalized mo st d1 d'"
  proof (cases "dataset_status ds = Dataset_DELETING \<and> \<not> exists_administrative_delete_ownership (do_dataset_id t) (kb_runtime d1)")
    case True
    then show ?thesis using finalized_put_dataset[of d1 "do_dataset_id t" ds] assms(3) ds d' 1(2) by (simp add: kb_dataset_def)
  next
    case False
    then show ?thesis using d' finalized_refl by auto
  qed
  then show ?thesis using 1(1) finalized_trans by blast
next
  case False
  then show ?thesis using assms(1) finalized_refl by (auto simp: finalize_dataset_target_def Let_def)
qed

lemma finalize_dataset_targets_finalized:
  assumes "finalize_dataset_targets mo st ts d = Inr (fs, d')" "keyed src_id (kb_sources d)"
    "keyed dataset_id (datasets (kb_runtime d))"
  shows "finalized mo st d d'"
  using assms
proof (induction mo st ts d arbitrary: fs d' rule: finalize_dataset_targets.induct)
  case (2 mo st t ts d)
  then obtain f d1 gs where t: "finalize_dataset_target mo st t d = Inr (f, d1)"
    and ts: "finalize_dataset_targets mo st ts d1 = Inr (gs, d')"
    by (auto simp: bindE_eq_Inr_iff)
  have 1: "finalized mo st d d1" using finalize_dataset_target_finalized[OF t 2(3,4)] .
  from finalized_keyed[OF 1] 2(3,4) have "finalized mo st d1 d'" using 2(1)[OF ts] by simp
  then show ?case using 1 finalized_trans by blast
qed (auto simp: finalized_refl)

lemma finalize_source_target_finalized:
  assumes "finalize_source_target m mo st d = Inr (f, d')" "keyed src_id (kb_sources d)"
  shows "finalized mo st d d'"
proof (cases "\<exists>s. so_proceed m \<and> kb_source (so_source_id m) d = Some s \<and> src_status s = Source_DELETING")
  case True
  then obtain s where s: "so_proceed m" "kb_source (so_source_id m) d = Some s" "src_status s = Source_DELETING" by blast
  have k: "src_id s = so_source_id m" using s(2) kb_SomeD(1) by blast
  have "\<exists>s'. d' = put_source s' d \<and> source_finalized mo st s s'"
    using assms(1) s k
    by (cases mo) (auto simp: finalize_source_target_def source_finalized_def require_storage_status_def bindE_eq_Inr_iff
        split: option.splits)
  then obtain s' where "d' = put_source s' d" "source_finalized mo st s s'" by blast
  then show ?thesis using finalized_put_source[OF assms(2), of s mo st s'] s(2) k by simp
next
  case False
  then have "d' = d" using assms(1) by (auto simp: finalize_source_target_def target_missing_def split: option.splits if_splits)
  then show ?thesis using finalized_refl by simp
qed

text \<open>Finalization changes only the status and storage pointer of sources and the status of datasets, and only
  these ways: a DELETING source goes back to PENDING when the forget was memory-only, and to DELETED only on a storage
  result recorded for that very source, keeping its storage pointer exactly when the result is unresolved; a DELETING
  dataset becomes ACTIVE again only when no administrative deletion owns it.\<close>

theorem finalize_needs_evidence:
  assumes "finalize_target c m entries d = Inr (fin, d')" "kdb_keyed d"
  shows "distinct (map fst entries) \<and> finalized (run_memory_only c) (map_of entries) d d'"
proof -
  have keys: "keyed src_id (kb_sources d)" "keyed dataset_id (datasets (kb_runtime d))"
    using assms(2) by (simp_all add: kdb_keyed_def)
  show ?thesis using assms(1) finalize_source_target_finalized[OF _ keys(1)] finalize_dataset_targets_finalized[OF _ keys]
    by (cases m) (auto simp: finalize_target_def storage_status_by_source_def bindE_eq_Inr_iff split: if_splits)
qed

subsection \<open>A whole source forget\<close>

lemma source_run_input_reads:
  "parse_forget_scope (jget (forget_source_run_input slug sid mo) ''scope'') = Some Scope_SOURCE"
  "jget (forget_source_run_input slug sid mo) ''dataset'' = Some (JStr slug)"
  "jget (forget_source_run_input slug sid mo) ''memory_only'' = Some (JBool mo)"
  "jget (forget_source_run_input slug sid mo) ''source_id'' = Some (JStr (uuid_text sid))"
  by (simp_all add: forget_source_run_input_def jget_def parse_forget_scope_def json_str_def)

text \<open>The drain of a quiet environment succeeds and writes nothing but outbox rows.\<close>

definition outbox_drain :: "'w forget_resources \<Rightarrow> bool" where
  "outbox_drain res \<longleftrightarrow> (\<forall>drain. fr_drain res = Some drain \<longrightarrow>
     (\<forall>k d w. \<exists>n rows w'. drain k d w = (Inr n, d\<lparr>kb_outbox := rows\<rparr>, w')))"

lemma projection_convergence_outbox:
  assumes "outbox_drain res" "proceeding_dataset_ids m = [k]"
  obtains n rows w' where "projection_convergence res m d w = (Inr n, d\<lparr>kb_outbox := rows\<rparr>, w')"
proof (cases "fr_drain res")
  case None
  have "projection_convergence res m d w = (Inr 0, d\<lparr>kb_outbox := kb_outbox d\<rparr>, w)"
    using assms(2) None by (simp add: projection_convergence_def)
  then show ?thesis using that by blast
next
  case (Some drain)
  obtain n rows w' where "drain k d w = (Inr n, d\<lparr>kb_outbox := rows\<rparr>, w')"
    using assms(1) Some unfolding outbox_drain_def by blast
  then have "projection_convergence res m d w = (Inr n, d\<lparr>kb_outbox := rows\<rparr>, w')"
    using assms(2) Some by (simp add: projection_convergence_def)
  then show ?thesis using that by blast
qed

lemma finalize_result_source:
  assumes "get_run (ctx_run_id c) (kb_runtime d) = Some run"
  obtains run' where "finalize_result c (Out_Source o1) n entries fin d = Inr (put_kb_run run' d)" "run_id run' = run_id run"
    "run_metrics run' = set_member ''forget_result''
       (source_run_result (run_memory_only c) o1 n entries (source_final_of fin)) (run_metrics run)"
  using assms by (auto simp: finalize_result_def)

lemma kb_put_kb_run [kb_simps]:
  "kb_source k (put_kb_run r d) = kb_source k d" "kb_chunks (put_kb_run r d) = kb_chunks d"
  "kb_documents (put_kb_run r d) = kb_documents d"
  by (simp_all add: put_kb_run_def kb_reads)

text \<open>C19: A forget of one source completes when nothing interferes: for a source that is neither deleted nor already
  being deleted, in an active dataset no other forget works on, with a drain that only settles outbox rows, the run
  ends with the source DELETED, its storage pointer cleared unless the storage answer was unresolved, no active chunk
  of it left, and the result recorded in the run's metrics.\<close>

theorem source_forget_completes:
  assumes "ctx_source_id c = Some sid" "ctx_dataset_id c = Some k" "ctx_run_input c = forget_source_run_input slug sid False"
    and "kdb_keyed d" "dataset_by_slug slug d = Some ds" "dataset_status ds = Dataset_ACTIVE"
    and "kb_source sid d = Some s" "src_dataset_id s = dataset_id ds" "src_status s \<notin> {Source_DELETED, Source_DELETING}"
    and "find_running_forget_for_dataset_except (dataset_id ds) [sid] (ctx_run_id c) (kb_runtime d) = None"
    and "get_run (ctx_run_id c) (kb_runtime d) = Some run" "outbox_drain res"
    and "\<And>w. \<exists>w'. delete_source_storage_result res (dataset_id ds) sid (src_storage_uri s) w = (Inr st, w')"
  shows "\<exists>f d' w' entries o1 n. run_forget env (\<lambda>_ x. x) res c d w = (Inr (Final_Source f), d', w')
    \<and> sf_source_status f = Some Source_DELETED \<and> kb_source sid d' = Some (finalized_source st s)
    \<and> list_chunks_for_source_generation sid (dataset_active_generation ds) d' = []
    \<and> map_option run_metrics (get_run (ctx_run_id c) (kb_runtime d')) = Some
        (set_member ''forget_result'' (source_run_result False o1 n entries f) (run_metrics run))"
proof -
  let ?s = "s\<lparr>src_status := Source_DELETING\<rparr>"
  have sid: "src_id s = sid" using assms(7) kb_SomeD(1) by blast
  have mo: "\<not> run_memory_only c" by (simp add: run_memory_only_def assms(3) source_run_input_reads)
  have key: "kdb_keyed (put_source ?s d)" using assms(4) by (simp add: kdb_keyed_def put_source_def)
  obtain m d1 where m: "apply_source_forget_mutation env ds ?s False (put_source ?s d) = Inr (m, d1)"
    and chunks: "list_chunks_for_source_generation sid (dataset_active_generation ds) d1 = []"
    and rt: "kb_runtime d1 = kb_runtime d" and srcs: "kb_sources d1 = kb_sources (put_source ?s d)"
    and ids: "fm_dataset_id m = dataset_id ds" "fm_source_id m = sid"
    using source_retraction[OF key, of env ds ?s False] sid by (auto simp: kb_simps)
  define o1 where "o1 = \<lparr>so_dataset_id = dataset_id ds, so_source_id = sid, so_proceed = True, so_counts = fm_counts m\<rparr>"
  have step1: "authoritative_mutation env c d = Inr (Out_Source o1, d1)"
    using assms(1,2,5-10) sid mo m ids
    by (simp add: authoritative_mutation_def assms(3) source_run_input_reads mutate_source_def mutate_source_target_def
        source_mutation_output_def o1_def lift_exn_def Let_def)
  have s1: "kb_source j d1 = kb_source j (put_source ?s d)" for j using srcs by (simp add: kb_source_def)
  have s1: "kb_source sid d1 = Some ?s" using s1[of sid] kb_source_put_source[of ?s d s sid] assms(7) sid by simp
  obtain n rows w2 where step2: "projection_convergence res (Out_Source o1) d1 w = (Inr n, d1\<lparr>kb_outbox := rows\<rparr>, w2)"
    by (rule projection_convergence_outbox[OF assms(12), of "Out_Source o1" "dataset_id ds"]) (simp add: o1_def)
  define d2 where "d2 = d1\<lparr>kb_outbox := rows\<rparr>"
  obtain w3 where "delete_source_storage_result res (dataset_id ds) sid (src_storage_uri s) w2 = (Inr st, w3)"
    using assms(13) by blast
  then have step3: "storage_deletion res c (Out_Source o1) d2 w2 = (Inr [(sid, st)], w3)"
    using mo s1 sid by (simp add: storage_deletion_def o1_def d2_def kb_simps)
  define f where "f = \<lparr>sf_source_status = Some Source_DELETED, sf_storage_deleted = (st = DELETED_NOW \<or> st = ALREADY_ABSENT),
    sf_storage_status = Some st\<rparr>"
  define d3 where "d3 = put_source (finalized_source st s) d2"
  have step4: "finalize_target c (Out_Source o1) [(sid, st)] d2 = Inr (Final_Source f, d3)"
    using mo s1 by (simp add: finalize_target_def storage_status_by_source_def finalize_source_target_def o1_def d2_def d3_def
        kb_simps require_storage_status_def f_def finalized_source_def)
  have run3: "get_run (ctx_run_id c) (kb_runtime d3) = Some run" using assms(11) rt by (simp add: d3_def d2_def kb_simps)
  obtain run' where step5: "finalize_result c (Out_Source o1) n [(sid, st)] (Final_Source f) d3 = Inr (put_kb_run run' d3)"
      "run_id run' = run_id run" "run_metrics run' = set_member ''forget_result''
       (source_run_result (run_memory_only c) o1 n [(sid, st)] (source_final_of (Final_Source f))) (run_metrics run)"
    by (rule finalize_result_source[OF run3])
  have whole: "run_forget env (\<lambda>_ x. x) res c d w = (Inr (Final_Source f), put_kb_run run' d3, w3)"
    by (simp add: run_forget_def Let_def step1 step2 step3 d2_def[symmetric] step4 step5(1))
  have "kb_source sid (put_kb_run run' d3) = Some (finalized_source st s)"
    using kb_source_put_source[of "finalized_source st s" d2 ?s sid] s1 sid
    by (simp add: kb_simps d3_def d2_def finalized_source_def)
  moreover have "list_chunks_for_source_generation sid (dataset_active_generation ds) (put_kb_run run' d3) = []"
    using chunks by (simp add: list_chunks_for_source_generation_def kb_simps d3_def d2_def)
  moreover have "get_run (ctx_run_id c) (kb_runtime (put_kb_run run' d3)) = Some run'"
    using get_run_put_run[of run' "kb_runtime d3"] get_run_in_ids[OF run3] get_run_SomeD[OF run3] step5(2)
    by (simp add: put_kb_run_def)
  ultimately show ?thesis using step5(3) mo
    by (intro exI[of _ f] exI[of _ "put_kb_run run' d3"] exI[of _ w3] exI[of _ "[(sid, st)]"] exI[of _ o1] exI[of _ n])
      (simp add: whole, simp add: f_def)
qed

subsection \<open>A concrete dataset\<close>

text \<open>Two sources share entity 31; entity 32 and relation 41 rest on source 3 alone.\<close>

definition demo_kdataset :: dataset where
  "demo_kdataset = \<lparr>dataset_id = 7, dataset_slug = ''d'', dataset_status = Dataset_ACTIVE, dataset_active_generation = 1\<rparr>"

definition demo_source :: "uuid \<Rightarrow> source" where
  "demo_source k = \<lparr>src_id = k, src_dataset_id = 7, src_kind = Kind_TEXT, src_name = [], src_mime_type = [],
     src_original_uri = None, src_storage_uri = Some [k], src_content_sha256 = [], src_normalized_sha256 = None,
     src_byte_size = 1, src_metadata = [], src_status = Source_ACTIVE, src_version = 1, src_created_at = 0\<rparr>"

definition demo_document :: "uuid \<Rightarrow> uuid \<Rightarrow> document" where
  "demo_document k s = \<lparr>doc_id = k, doc_dataset_id = 7, doc_source_id = s, doc_generation = 1, doc_title = [],
     doc_language = [], doc_normalized_text = [65], doc_text_sha256 = [], doc_token_count = 1, doc_metadata = [],
     doc_is_active = True, doc_created_at = 0\<rparr>"

definition demo_chunk :: "uuid \<Rightarrow> uuid \<Rightarrow> uuid \<Rightarrow> int \<Rightarrow> chunk" where
  "demo_chunk k x s n = \<lparr>ch_id = k, ch_dataset_id = 7, ch_document_id = x, ch_source_id = s, ch_generation = 1,
     ch_ordinal = n, ch_text = [65], ch_content_sha256 = [], ch_token_count = 1, ch_start_char = 0, ch_end_char = 1,
     ch_section_path = [], ch_metadata = [], ch_embedding = [1], ch_is_active = True, ch_created_at = 0\<rparr>"

definition demo_entity :: "uuid \<Rightarrow> entity" where
  "demo_entity k = \<lparr>ent_id = k, ent_dataset_id = 7, ent_generation = 1, ent_canonical_key = [k], ent_name = [k],
     ent_entity_type = [], ent_description = [], ent_aliases = [], ent_properties = JObj [], ent_confidence = 1,
     ent_importance_weight = 1, ent_embedding = None, ent_is_active = True, ent_created_at = 0\<rparr>"

definition demo_mention :: "uuid \<Rightarrow> uuid \<Rightarrow> uuid \<Rightarrow> entity_mention" where
  "demo_mention k e c = \<lparr>em_id = k, em_entity_id = e, em_chunk_id = c, em_surface_text = [65], em_start_char = None,
     em_end_char = None, em_confidence = 1\<rparr>"

definition demo_relation :: "uuid \<Rightarrow> uuid \<Rightarrow> uuid \<Rightarrow> relation" where
  "demo_relation k a b = \<lparr>rel_id = k, rel_dataset_id = 7, rel_generation = 1, rel_source_entity_id = a,
     rel_target_entity_id = b, rel_predicate = [65], rel_description = [], rel_properties = JObj [], rel_confidence = 1,
     rel_importance_weight = 1, rel_embedding = None, rel_is_active = True, rel_created_at = 0\<rparr>"

definition demo_kdb :: kdb where
  "demo_kdb = \<lparr>kb_runtime = \<lparr>pipeline_runs = [], pipeline_steps = [], datasets = [demo_kdataset]\<rparr>,
     kb_sources = [demo_source 3, demo_source 4], kb_documents = [demo_document 11 3, demo_document 12 4],
     kb_chunks = [demo_chunk 21 11 3 0, demo_chunk 22 11 3 1, demo_chunk 23 12 4 0],
     kb_entities = [demo_entity 31, demo_entity 32],
     kb_mentions = [demo_mention 51 31 21, demo_mention 52 32 21, demo_mention 53 31 23],
     kb_relations = [demo_relation 41 31 32],
     kb_evidence = [\<lparr>ev_relation_id = 41, ev_chunk_id = 21, ev_quote = [], ev_confidence = 1\<rparr>],
     kb_summaries = [], kb_outbox = []\<rparr>"

lemma demo_kdb_ok: "kdb_keyed demo_kdb" "chunks_consistent demo_kdb" "evidence_grounded demo_kdb"
  "graph_supported demo_kdataset demo_kdb"
  by code_simp+

lemma demo_kdb_rows:
  "kb_dataset (dataset_id demo_kdataset) demo_kdb = Some demo_kdataset" "dataset_status demo_kdataset = Dataset_ACTIVE"
  "kb_source (src_id (demo_source 3)) demo_kdb = Some (demo_source 3)"
  by code_simp+

definition demo_fenv :: forget_env where
  "demo_fenv = \<lparr>fe_py = \<lparr>sha256_hexdigest = (\<lambda>bs. []), float_repr = (\<lambda>_. [])\<rparr>, fe_now = 5, fe_uuid = (\<lambda>n. 100 + n), fe_outbox_id = (\<lambda>rows. length rows + 1)\<rparr>"

theorem source_forget_keeps_graph_supported_witness:
  "\<exists>m d'. apply_source_forget_mutation demo_fenv demo_kdataset (demo_source 3\<lparr>src_status := Source_DELETING\<rparr>) False
      (put_source (demo_source 3\<lparr>src_status := Source_DELETING\<rparr>) demo_kdb) = Inr (m, d')
    \<and> graph_supported demo_kdataset d'"
proof -
  let ?s = "demo_source 3\<lparr>src_status := Source_DELETING\<rparr>"
  have "kdb_keyed (put_source ?s demo_kdb)" by code_simp
  then obtain m d' where res: "apply_source_forget_mutation demo_fenv demo_kdataset ?s False (put_source ?s demo_kdb) = Inr (m, d')"
    using source_retraction by blast
  from source_forget_keeps_graph_supported[OF demo_kdb_ok demo_kdb_rows res] res show ?thesis by blast
qed

theorem source_forget_retracts_witness:
  "\<exists>m d'. apply_source_forget_mutation demo_fenv demo_kdataset (demo_source 3) False demo_kdb = Inr (m, d')
     \<and> list_chunks_for_source_generation (src_id (demo_source 3)) (dataset_active_generation demo_kdataset) d' = []
     \<and> unprojected_by demo_kdb d'"
  using source_forget_retracts[OF demo_kdb_ok(1), of demo_fenv demo_kdataset "demo_source 3" False] by blast

theorem dataset_forget_empties_witness:
  "\<exists>p d' (events :: outbox). apply_dataset_forget_mutation demo_fenv demo_kdataset [demo_source 3, demo_source 4] True demo_kdb = Inr (p, d')
     \<and> relations_current_for_dataset (dataset_id demo_kdataset) d' = [] \<and> dm_graph_outbox_ids p = map ob_id events"
proof -
  have "dataset_status demo_kdataset \<in> {Dataset_ACTIVE, Dataset_DELETING}" by (simp add: demo_kdb_rows(2))
  from dataset_forget_empties[OF demo_kdb_ok(1) demo_kdb_rows(1) this, of demo_fenv "[demo_source 3, demo_source 4]" True]
  show ?thesis by blast
qed

definition demo_forget_context :: pipeline_context where
  "demo_forget_context = \<lparr>ctx_run_id = 9, ctx_pipeline_type = FORGET, ctx_dataset_id = Some 7, ctx_source_id = Some 3,
     ctx_run_input = forget_source_run_input (ascii ''d'') 3 False, ctx_step_outputs = (\<lambda>_. None)\<rparr>"

definition demo_source_output :: source_mutation_output where
  "demo_source_output = \<lparr>so_dataset_id = 7, so_source_id = 3, so_proceed = True, so_counts = zero_counts\<rparr>"

theorem finalize_needs_evidence_witness:
  "\<exists>fin d'. finalize_target demo_forget_context (Out_Source demo_source_output) [(3, UNRESOLVED)]
      (put_source (demo_source 3\<lparr>src_status := Source_DELETING\<rparr>) demo_kdb) = Inr (fin, d')
    \<and> finalized (run_memory_only demo_forget_context) (map_of [(3, UNRESOLVED)])
        (put_source (demo_source 3\<lparr>src_status := Source_DELETING\<rparr>) demo_kdb) d'"
proof -
  let ?d = "put_source (demo_source 3\<lparr>src_status := Source_DELETING\<rparr>) demo_kdb"
  have src: "kb_source 3 ?d = Some (demo_source 3\<lparr>src_status := Source_DELETING\<rparr>)" by code_simp
  have mo: "\<not> run_memory_only demo_forget_context"
    by (simp add: run_memory_only_def demo_forget_context_def source_run_input_reads)
  have "\<exists>fin d'. finalize_target demo_forget_context (Out_Source demo_source_output) [(3, UNRESOLVED)] ?d = Inr (fin, d')"
    by (simp add: finalize_target_def storage_status_by_source_def finalize_source_target_def demo_source_output_def
        src mo require_storage_status_def)
  moreover have "kdb_keyed ?d" by code_simp
  ultimately show ?thesis using finalize_needs_evidence by blast
qed

definition demo_forget_kdb :: kdb where
  "demo_forget_kdb = demo_kdb\<lparr>kb_runtime := (demo_db [demo_run 9 FORGET (Some 7)])\<lparr>datasets := [demo_kdataset]\<rparr>\<rparr>"

definition demo_forget_resources :: "nat forget_resources" where
  "demo_forget_resources = \<lparr>fr_drain = Some (\<lambda>k d w. (Inr (length (kb_outbox d)), d\<lparr>kb_outbox := []\<rparr>, w)),
     fr_storage_delete = (\<lambda>_ _ _ w. (Inr DELETED_NOW, Suc w))\<rparr>"

theorem source_forget_completes_witness:
  "\<exists>f d' w'. run_forget demo_fenv (\<lambda>_ x. x) demo_forget_resources demo_forget_context demo_forget_kdb 0 = (Inr (Final_Source f), d', w')
    \<and> kb_source 3 d' = Some (finalized_source DELETED_NOW (demo_source 3))"
proof -
  have ctx: "ctx_source_id demo_forget_context = Some 3" "ctx_dataset_id demo_forget_context = Some 7"
      "ctx_run_input demo_forget_context = forget_source_run_input (ascii ''d'') 3 False"
    by (simp_all add: demo_forget_context_def)
  have rows: "kdb_keyed demo_forget_kdb" "dataset_by_slug (ascii ''d'') demo_forget_kdb = Some demo_kdataset"
      "dataset_status demo_kdataset = Dataset_ACTIVE" "kb_source 3 demo_forget_kdb = Some (demo_source 3)"
      "src_dataset_id (demo_source 3) = dataset_id demo_kdataset" "src_status (demo_source 3) \<notin> {Source_DELETED, Source_DELETING}"
      "find_running_forget_for_dataset_except (dataset_id demo_kdataset) [3] (ctx_run_id demo_forget_context)
         (kb_runtime demo_forget_kdb) = None"
      "get_run (ctx_run_id demo_forget_context) (kb_runtime demo_forget_kdb) = Some (demo_run 9 FORGET (Some 7))"
    by code_simp+
  have drain: "outbox_drain demo_forget_resources"
    by (simp add: outbox_drain_def demo_forget_resources_def, intro allI exI, rule refl)
  have storage: "\<And>w. \<exists>w'. delete_source_storage_result demo_forget_resources (dataset_id demo_kdataset) 3
      (src_storage_uri (demo_source 3)) w = (Inr DELETED_NOW, w')"
    by (simp add: delete_source_storage_result_def demo_forget_resources_def)
  from source_forget_completes[OF ctx rows drain storage, of demo_fenv 0] show ?thesis by blast
qed

end
