(* ===== verification/Dataset_Delete_Facts.thy ===== *)
theory Dataset_Delete_Facts
  imports Dataset_Delete_Pipeline Forget_Properties
begin

text \<open>
  What the administrative deletion of a dataset guarantees: its tombstone rests on the exact
  projection deletes it enqueued being DONE, an undisturbed run completes, and a manual retry does
  not re-examine the deletes an earlier attempt left failed.
\<close>

subsection \<open>Convergence\<close>

lemma check_convergence_Inr:
  "check_convergence ids rows = Inr n \<longleftrightarrow>
    n = length ids \<and> (\<forall>i \<in> set ids. \<exists>a. list_status_by_ids ids rows i = Some (Outbox_DONE, a))"
proof -
  let ?s = "list_status_by_ids ids rows"
  have unfinished: "\<not> has_unfinished ids ?s \<longleftrightarrow> (\<forall>i \<in> set ids. \<exists>a. ?s i = Some (Outbox_DONE, a))"
    by (auto simp: has_unfinished_def list_ex_iff split: option.splits)
  have "\<not> has_unfinished ids ?s \<Longrightarrow> \<not> has_failed_at_ceiling ids ?s"
    unfolding unfinished by (fastforce simp: has_failed_at_ceiling_def list_ex_iff)
  then show ?thesis
    by (auto simp: check_convergence_def Let_def unfinished[symmetric] delete_not_converged_def delete_dependency_unavailable_def)
qed

lemma converge_projection_Inr:
  assumes "converge_projection res c ids d w = (Inr n, d', w')"
  shows "n = length ids \<and> (\<forall>i \<in> set ids. \<exists>a. list_status_by_ids ids (kb_outbox d') i = Some (Outbox_DONE, a))"
  using assms check_convergence_Inr
  by (auto simp: converge_projection_def delete_dependency_unavailable_def split: sum.splits if_splits option.splits
      prod.splits drain_error.splits)

text \<open>C20: A deletion run succeeds only when each projection delete its own deactivation enqueued was DONE, by its row
  id, right after the drain; an event that exhausted its attempts, or is still pending, ends the run instead.\<close>

theorem deletion_success_is_converged:
  assumes "run_dataset_delete env interfere res c d w = (Inr j, d', w')"
  shows "\<exists>d1 part d2 d3 w3. deactivate_authoritative (env 1) c (interfere 1 d1) = Inr (part, d2)
    \<and> converge_projection res c (dm_graph_outbox_ids part) (interfere 2 d2) w = (Inr (length (dm_graph_outbox_ids part)), d3, w3)
    \<and> (\<forall>i \<in> set (dm_graph_outbox_ids part).
         \<exists>a. list_status_by_ids (dm_graph_outbox_ids part) (kb_outbox d3) i = Some (Outbox_DONE, a))"
proof -
  obtain ks d1 part d2 n d3 w3 where
    deact: "deactivate_authoritative (env 1) c (interfere 1 d1) = Inr (part, d2)"
    and conv: "converge_projection res c (dm_graph_outbox_ids part) (interfere 2 d2) w = (Inr n, d3, w3)"
    using assms by (auto simp: run_dataset_delete_def Let_def split: sum.splits prod.splits)
  then show ?thesis using converge_projection_Inr[OF conv] by blast
qed

subsection \<open>The steps of an undisturbed run\<close>

lemma transition_queued_cancelled:
  "run_status r = Run_QUEUED \<Longrightarrow> \<exists>r'. transition_run r Run_CANCELLED now None None None None = Inr r'
     \<and> run_id r' = run_id r \<and> run_status r' = Run_CANCELLED"
  by (simp add: transition_run_def validate_run_transition_def RUN_TRANSITIONS_def)

lemma cancel_incompatible_total:
  assumes "\<forall>r \<in> set rs. run_status r = Run_QUEUED \<and> run_id r \<in> set (run_ids d)" "distinct (map run_id rs)"
  shows "\<exists>d'. cancel_incompatible now rs d = Inr (map run_id rs, d') \<and> datasets d' = datasets d
    \<and> run_ids d' = run_ids d \<and> (\<forall>k. k \<notin> run_id ` set rs \<longrightarrow> get_run k d' = get_run k d)
    \<and> (\<forall>k \<in> run_id ` set rs. \<exists>r. get_run k d' = Some r \<and> run_status r = Run_CANCELLED)"
  using assms
proof (induction rs arbitrary: d)
  case (Cons r rs)
  obtain r' where r': "transition_run r Run_CANCELLED now None None None None = Inr r'" "run_id r' = run_id r"
      "run_status r' = Run_CANCELLED"
    using transition_queued_cancelled Cons.prems by (metis list.set_intros(1))
  obtain d1 where d1: "cancel_queued now (list_for_run (run_id r) d) d = Inr d1"
      "datasets d1 = datasets d" "run_ids d1 = run_ids d" "\<And>k. get_run k d1 = get_run k d"
    by (simp add: cancel_queued_eq)
  let ?d2 = "put_run r' d1"
  have ids: "run_ids ?d2 = run_ids d" using d1(3) by simp
  from Cons.IH[of ?d2] Cons.prems ids obtain d' where d': "cancel_incompatible now rs ?d2 = Inr (map run_id rs, d')"
      "datasets d' = datasets ?d2" "run_ids d' = run_ids ?d2"
      "\<forall>k. k \<notin> run_id ` set rs \<longrightarrow> get_run k d' = get_run k ?d2"
      "\<forall>k \<in> run_id ` set rs. \<exists>r. get_run k d' = Some r \<and> run_status r = Run_CANCELLED"
    by auto
  have self: "get_run (run_id r) ?d2 = Some r'" using get_run_put_run[of r' d1] r'(2) d1(3) Cons.prems(1) by simp
  have others: "get_run k ?d2 = get_run k d" if "k \<noteq> run_id r" for k
    using runs.get_put_diff[of k r' d1] that r'(2) d1(4) by simp
  have "get_run (run_id r) d' = Some r'" using d'(4) self Cons.prems(2) by simp
  then show ?case using d' d1 r' ids others
    by (intro exI[of _ d']) auto
qed simp

lemma begin_delete_quiet:
  assumes "ctx_dataset_id c = Some k" "kb_dataset k d = Some ds" "dataset_status ds \<in> {Dataset_ACTIVE, Dataset_DELETING}"
    and "kdb_keyed d" "keyed run_id (pipeline_runs (kb_runtime d))"
  obtains ks rt where "begin_delete now c d = Inr (ks, (put_dataset (ds\<lparr>dataset_status := Dataset_DELETING\<rparr>) d)\<lparr>kb_runtime := rt\<rparr>)"
    "datasets rt = datasets (kb_runtime (put_dataset (ds\<lparr>dataset_status := Dataset_DELETING\<rparr>) d))"
    "get_run (ctx_run_id c) rt = get_run (ctx_run_id c) (kb_runtime d)"
    "set ks = run_id ` {r \<in> set (pipeline_runs (kb_runtime d)). run_dataset_id r = Some k \<and> run_status r = Run_QUEUED
       \<and> run_pipeline_type r \<noteq> DATASET_DELETE \<and> run_id r \<noteq> ctx_run_id c}"
    "\<forall>i \<in> set ks. \<exists>r. get_run i rt = Some r \<and> run_status r = Run_CANCELLED"
proof -
  let ?d1 = "put_dataset (ds\<lparr>dataset_status := Dataset_DELETING\<rparr>) d"
  let ?rs = "list_incompatible_queued_for_dataset k (ctx_run_id c) (kb_runtime ?d1)"
  have d1: "(if dataset_status ds = Dataset_ACTIVE then ?d1 else d) = ?d1"
  proof (cases "dataset_status ds = Dataset_ACTIVE")
    case False
    then have "ds\<lparr>dataset_status := Dataset_DELETING\<rparr> = ds" using assms(3) by simp
    moreover have "row_put dataset_id ds (datasets (kb_runtime d)) = datasets (kb_runtime d)"
      using row_put_same[of dataset_id "datasets (kb_runtime d)" ds] assms(2,4) kb_SomeD(6) by (simp add: kdb_keyed_def)
    ultimately show ?thesis using False by (simp add: put_dataset_def)
  qed simp
  have rs: "set ?rs = {r \<in> set (pipeline_runs (kb_runtime d)). run_dataset_id r = Some k \<and> run_status r = Run_QUEUED
       \<and> run_pipeline_type r \<noteq> DATASET_DELETE \<and> run_id r \<noteq> ctx_run_id c}"
    by (auto simp: list_incompatible_queued_for_dataset_def put_dataset_def)
  have dist: "distinct (map run_id ?rs)"
    using assms(5) by (simp add: list_incompatible_queued_for_dataset_def oldest_first_def put_dataset_def keyed_def distinct_map_filter_key)
  obtain rt where rt: "cancel_incompatible now ?rs (kb_runtime ?d1) = Inr (map run_id ?rs, rt)"
      "datasets rt = datasets (kb_runtime ?d1)" "\<forall>i. i \<notin> run_id ` set ?rs \<longrightarrow> get_run i rt = get_run i (kb_runtime ?d1)"
      "\<forall>i \<in> run_id ` set ?rs. \<exists>r. get_run i rt = Some r \<and> run_status r = Run_CANCELLED"
    using cancel_incompatible_total[OF _ dist, of "kb_runtime ?d1" now] rs by (auto simp: put_dataset_def run_ids_def)
  have "begin_delete now c d = Inr (map run_id ?rs, ?d1\<lparr>kb_runtime := rt\<rparr>)"
    using assms(1-3) rt(1) unfolding begin_delete_def require_dataset_id_def Let_def d1 by (auto simp: lift_exn_def d1)
  moreover have "ctx_run_id c \<notin> run_id ` set ?rs" unfolding rs by auto
  then have "get_run (ctx_run_id c) rt = get_run (ctx_run_id c) (kb_runtime d)"
    using rt(3) by (simp add: put_dataset_def get_run_def)
  ultimately show ?thesis using that[of "map run_id ?rs" rt] rt(2,4) rs by simp
qed

lemma deactivate_quiet:
  assumes "ctx_dataset_id c = Some k" "kb_dataset k d = Some ds" "dataset_status ds = Dataset_DELETING"
  obtains part events where
    "deactivate_authoritative env c d = Inr (part, (snd (retire_dataset ds
       (mark_sources_deleting (\<lambda>s. src_status s \<noteq> Source_DELETED) (map src_id (list_sources_not_deleted k d)) d)))
       \<lparr>kb_outbox := kb_outbox d @ events\<rparr>)"
    "dm_graph_outbox_ids part = map ob_id events"
    "\<forall>e \<in> set events. ob_operation e = Outbox_DELETE \<and> ob_status e = Outbox_PENDING \<and> ob_dataset_id e = k"
    "length events = length (retirement_commands k (fst (retire_dataset ds
       (mark_sources_deleting (\<lambda>s. src_status s \<noteq> Source_DELETED) (map src_id (list_sources_not_deleted k d)) d))))"
proof -
  let ?d1 = "mark_sources_deleting (\<lambda>s. src_status s \<noteq> Source_DELETED) (map src_id (list_sources_not_deleted k d)) d"
  have k: "dataset_id ds = k" using assms(2) kb_SomeD(6) by blast
  have ob: "kb_outbox ?d1 = kb_outbox d" by (simp add: mark_sources_deleting_def)
  have none: "add_documents (dataset_reset_rows env ss False t) d' = d'" for ss t d'
    by (simp add: dataset_reset_rows_def add_documents_def)
  note mutation = dataset_mutation_result[OF refl refl, where d = ?d1 and ds = ds and env = env and mo = False
      and sources = "map (\<lambda>s. if src_status s \<noteq> Source_DELETED then s\<lparr>src_status := Source_DELETING\<rparr> else s)
        (list_sources_not_deleted k d)", unfolded none ob]
  obtain p events where res: "apply_dataset_forget_mutation env ds
        (map (\<lambda>s. if src_status s \<noteq> Source_DELETED then s\<lparr>src_status := Source_DELETING\<rparr> else s) (list_sources_not_deleted k d)) False ?d1
      = Inr (p, (snd (retire_dataset ds ?d1))\<lparr>kb_outbox := kb_outbox d @ events\<rparr>)"
    "dm_graph_outbox_ids p = map ob_id events"
    "length events = length (retirement_commands (dataset_id ds) (fst (retire_dataset ds ?d1)))"
    "\<forall>e \<in> set events. ob_operation e = Outbox_DELETE \<and> ob_status e = Outbox_PENDING \<and> ob_dataset_id e = dataset_id ds"
    by (rule mutation) blast
  have "deactivate_authoritative env c d = Inr (p, (snd (retire_dataset ds ?d1))\<lparr>kb_outbox := kb_outbox d @ events\<rparr>)"
    using assms res(1) by (simp add: deactivate_authoritative_def require_dataset_id_def Let_def lift_exn_def)
  then show ?thesis using that res(2-4) k by blast
qed

text \<open>A source storage that answers every request with a status.\<close>

definition storage_answers :: "'w forget_resources \<Rightarrow> bool" where
  "storage_answers res \<longleftrightarrow> (\<forall>k s uri w. \<exists>st w'. delete_source_storage_result res k s uri w = (Inr st, w'))"

lemma delete_storages_total:
  assumes "storage_answers res"
  shows "\<exists>entries w'. delete_storages res k ss w = (Inr entries, w')
    \<and> map fst entries = map src_id (filter (\<lambda>s. src_status s = Source_DELETING) ss)"
  using assms
proof (induction res k ss w rule: delete_storages.induct)
  case (2 res k s ss w)
  show ?case
  proof (cases "src_status s = Source_DELETING")
    case True
    obtain st w1 where w1: "delete_source_storage_result res k (src_id s) (src_storage_uri s) w = (Inr st, w1)"
      using 2(3) unfolding storage_answers_def by blast
    from 2(2)[OF _ w1[symmetric] refl 2(3)] True w1 show ?thesis by auto
  qed (use 2 in auto)
qed simp

lemma row_upd_twice:
  assumes "\<And>x. x \<in> set rows \<Longrightarrow> (if P2 (if P1 x then f1 x else x) then f2 (if P1 x then f1 x else x) else (if P1 x then f1 x else x))
      = (if P x then f x else x)"
  shows "row_upd P2 f2 (row_upd P1 f1 rows) = row_upd P f rows"
  using assms by (simp add: row_upd_def)

lemma row_put_upd:
  assumes "keyed key rows" "x \<in> set rows" "key y = key x"
  shows "row_put key y rows = row_upd (\<lambda>z. key z = key x) (\<lambda>_. y) rows"
  using assms(3) by (simp add: row_put_def row_upd_def)

definition tombstoned :: "(uuid \<rightharpoonup> storage_delete_status) \<Rightarrow> source \<Rightarrow> source" where
  "tombstoned statuses s = finalized_source (the (statuses (src_id s))) s"

lemma tombstone_sources_total:
  assumes "keyed src_id (kb_sources d)" "distinct (map src_id ss)" "\<forall>s \<in> set ss. kb_source (src_id s) d = Some s"
    "\<forall>s \<in> set ss. src_status s = Source_DELETING \<longrightarrow> statuses (src_id s) \<noteq> None"
  shows "\<exists>m. tombstone_sources statuses ss n d = Inr (m, d\<lparr>kb_sources :=
    row_upd (\<lambda>s. src_id s \<in> src_id ` set ss \<and> src_status s = Source_DELETING) (tombstoned statuses) (kb_sources d)\<rparr>)"
  using assms
proof (induction statuses ss n d rule: tombstone_sources.induct)
  case (1 statuses n d)
  have "row_upd (\<lambda>s. False) (tombstoned statuses) rows = rows" for rows by (simp add: row_upd_def)
  then show ?case by simp
next
  case (2 statuses s ss n d)
  have s: "kb_source (src_id s) d = Some s" "s \<in> set (kb_sources d)" using 2(5) kb_SomeD(1) by auto
  have uniq: "x = s" if "x \<in> set (kb_sources d)" "src_id x = src_id s" for x
    using row_get_keyed[OF 2(3) that(1)] s(1) that(2) by (simp add: kb_source_def)
  show ?case
  proof (cases "src_status s = Source_DELETING")
    case False
    have "row_upd (\<lambda>x. src_id x \<in> src_id ` set (s # ss) \<and> src_status x = Source_DELETING) (tombstoned statuses) (kb_sources d)
        = row_upd (\<lambda>x. src_id x \<in> src_id ` set ss \<and> src_status x = Source_DELETING) (tombstoned statuses) (kb_sources d)"
      unfolding row_upd_def using uniq False by (intro map_cong) auto
    then show ?thesis using 2(1)[OF False 2(3)] 2(4-6) False by simp
  next
    case True
    then obtain st where st: "statuses (src_id s) = Some st" using 2(6) by auto
    let ?y = "finalized_source st s"
    have key: "src_id ?y = src_id s" by (simp add: finalized_source_def)
    have d1: "put_source ?y d = d\<lparr>kb_sources := row_upd (\<lambda>z. src_id z = src_id s) (\<lambda>_. ?y) (kb_sources d)\<rparr>"
      unfolding put_source_def row_put_upd[OF 2(3) s(2) key] ..
    have rows: "\<forall>x \<in> set ss. kb_source (src_id x) (put_source ?y d) = Some x"
    proof
      fix x assume x: "x \<in> set ss"
      then have "src_id x \<in> src_id ` set ss" by (rule imageI)
      then have "src_id x \<noteq> src_id ?y" using 2(4) key by auto
      then show "kb_source (src_id x) (put_source ?y d) = Some x"
        using 2(5) x by (simp add: kb_source_def put_source_def row_get_put_other)
    qed
    have kd: "keyed src_id (kb_sources (put_source ?y d))" using 2(3) by (simp add: put_source_def)
    from 2(2)[of st] True st kd rows 2(4,6) obtain m where
      m: "tombstone_sources statuses ss (Suc n) (put_source ?y d) = Inr (m, (put_source ?y d)\<lparr>kb_sources :=
        row_upd (\<lambda>x. src_id x \<in> src_id ` set ss \<and> src_status x = Source_DELETING) (tombstoned statuses) (kb_sources (put_source ?y d))\<rparr>)"
      by (auto simp: delete_require_storage_status_def)
    have "row_upd (\<lambda>x. src_id x \<in> src_id ` set ss \<and> src_status x = Source_DELETING) (tombstoned statuses)
          (row_upd (\<lambda>z. src_id z = src_id s) (\<lambda>_. ?y) (kb_sources d))
        = row_upd (\<lambda>x. src_id x \<in> src_id ` set (s # ss) \<and> src_status x = Source_DELETING) (tombstoned statuses) (kb_sources d)"
      by (rule row_upd_twice) (use uniq True st in \<open>auto simp: tombstoned_def finalized_source_def\<close>)
    then show ?thesis using True st m by (simp add: delete_require_storage_status_def d1)
  qed
qed

lemma kb_mark_sources [kb_simps]:
  "kb_dataset j (mark_sources_deleting P ids d) = kb_dataset j d" "kb_document j (mark_sources_deleting P ids d) = kb_document j d"
  "kb_chunk j (mark_sources_deleting P ids d) = kb_chunk j d" "kb_entity j (mark_sources_deleting P ids d) = kb_entity j d"
  "kb_runtime (mark_sources_deleting P ids d) = kb_runtime d" "kb_outbox (mark_sources_deleting P ids d) = kb_outbox d"
  "kb_chunks (mark_sources_deleting P ids d) = kb_chunks d" "kb_entities (mark_sources_deleting P ids d) = kb_entities d"
  "kb_relations (mark_sources_deleting P ids d) = kb_relations d" "kb_documents (mark_sources_deleting P ids d) = kb_documents d"
  by (simp_all add: mark_sources_deleting_def kb_reads)

lemma set_sources_not_deleted:
  "set (list_sources_not_deleted k d) = {s \<in> set (kb_sources d). src_dataset_id s = k \<and> src_status s \<noteq> Source_DELETED}"
  by (simp add: list_sources_not_deleted_def)

lemma marked_sources:
  assumes "s \<in> set (list_sources_not_deleted k (mark_sources_deleting (\<lambda>s. src_status s \<noteq> Source_DELETED)
    (map src_id (list_sources_not_deleted k d)) d))"
  shows "src_status s = Source_DELETING"
  using assms by (auto simp: set_sources_not_deleted mark_sources_deleting_def set_row_upd split: if_splits)

lemma kb_dataset_put_dataset:
  "kb_dataset (dataset_id x) d = Some y \<Longrightarrow> kb_dataset (dataset_id x) (put_dataset x d) = Some x"
  using row_get_None_iff[of dataset_id "dataset_id x" "datasets (kb_runtime d)"]
  by (simp add: kb_dataset_def get_dataset_def put_dataset_def row_get_put_same)

lemma finalize_tombstone_quiet:
  assumes "ctx_dataset_id c = Some k" "kb_dataset k d = Some ds" "dataset_status ds = Dataset_DELETING"
    and "get_run (ctx_run_id c) (kb_runtime d) = Some run" "keyed src_id (kb_sources d)"
    and "\<forall>s \<in> set (list_sources_not_deleted k d). src_status s = Source_DELETING"
    and "map fst entries = map src_id (list_sources_not_deleted k d)"
  shows "\<exists>j d'. finalize_tombstone c counts n entries d = Inr (j, d') \<and> kb_dataset k d' = Some (ds\<lparr>dataset_status := Dataset_DELETED\<rparr>)
    \<and> list_sources_not_deleted k d' = [] \<and> kb_outbox d' = kb_outbox d \<and> kb_chunks d' = kb_chunks d
    \<and> kb_documents d' = kb_documents d \<and> kb_entities d' = kb_entities d \<and> kb_relations d' = kb_relations d"
proof -
  let ?ss = "list_sources_not_deleted k d"
  have dist: "distinct (map fst entries)" using listed_sources_read(1)[OF assms(5)] assms(7) by simp
  have "map_of entries (src_id s) \<noteq> None" if "s \<in> set ?ss" for s
    using that assms(7) by (metis image_eqI list.set_map map_of_eq_None_iff)
  then obtain m where m: "tombstone_sources (map_of entries) ?ss 0 d = Inr (m, d\<lparr>kb_sources :=
      row_upd (\<lambda>s. src_id s \<in> src_id ` set ?ss \<and> src_status s = Source_DELETING) (tombstoned (map_of entries)) (kb_sources d)\<rparr>)"
    using tombstone_sources_total[OF assms(5) listed_sources_read[OF assms(5)]] by blast
  define d1 where "d1 = d\<lparr>kb_sources :=
      row_upd (\<lambda>s. src_id s \<in> src_id ` set ?ss \<and> src_status s = Source_DELETING) (tombstoned (map_of entries)) (kb_sources d)\<rparr>"
  let ?d2 = "put_dataset (ds\<lparr>dataset_status := Dataset_DELETED\<rparr>) d1"
  have id: "dataset_id ds = k" using assms(2) kb_SomeD(6) by blast
  have d1: "kb_dataset k d1 = Some ds" using assms(2) by (simp add: d1_def kb_dataset_def)
  have run: "get_run (ctx_run_id c) (kb_runtime ?d2) = Some run"
    using assms(4) by (simp add: d1_def put_dataset_def get_run_def)
  let ?j = "dataset_delete_run_result k m counts n entries"
  let ?r = "run\<lparr>run_metrics := set_member ''dataset_delete_result'' ?j (run_metrics run)\<rparr>"
  have res: "finalize_tombstone c counts n entries d = Inr (?j, put_kb_run ?r ?d2)"
    using assms(1-3) dist m run by (simp add: finalize_tombstone_def require_dataset_id_def
        delete_storage_status_by_source_def Let_def d1_def)
  have ds: "kb_dataset k (put_kb_run ?r ?d2) = Some (ds\<lparr>dataset_status := Dataset_DELETED\<rparr>)"
    using kb_dataset_put_dataset[of "ds\<lparr>dataset_status := Dataset_DELETED\<rparr>" d1 ds] d1 id
    by (simp add: put_kb_run_def kb_dataset_def get_dataset_def)
  have no: "list_sources_not_deleted k (put_kb_run ?r ?d2) = []"
  proof (rule ccontr)
    assume "list_sources_not_deleted k (put_kb_run ?r ?d2) \<noteq> []"
    then obtain x where "x \<in> set (list_sources_not_deleted k (put_kb_run ?r ?d2))" by (meson list.set_sel(1))
    then have x: "x \<in> set (kb_sources d1)" "src_dataset_id x = k" "src_status x \<noteq> Source_DELETED"
      by (simp_all add: set_sources_not_deleted put_kb_run_def put_dataset_def)
    then obtain y where y: "y \<in> set (kb_sources d)"
        "x = (if src_id y \<in> src_id ` set ?ss \<and> src_status y = Source_DELETING then tombstoned (map_of entries) y else y)"
      by (auto simp: d1_def set_row_upd)
    show False
    proof (cases "src_id y \<in> src_id ` set ?ss \<and> src_status y = Source_DELETING")
      case True
      then show False using y(2) x(3) by (simp add: tombstoned_def finalized_source_def)
    next
      case False
      then have "y = x" using y(2) by (simp only: if_False)
      then have "y \<in> set ?ss" using y(1) x by (simp add: set_sources_not_deleted)
      then show False using False assms(6) by blast
    qed
  qed
  show ?thesis using res ds no
    by (intro exI[of _ ?j] exI[of _ "put_kb_run ?r ?d2"]) (simp add: put_kb_run_def put_dataset_def d1_def)
qed

text \<open>An undisturbed deletion run, up to its projection convergence: what it deactivated and enqueued, and that it
  completes as soon as convergence succeeds.\<close>

definition dataset_emptied :: "dataset \<Rightarrow> kdb \<Rightarrow> bool" where
  "dataset_emptied ds d \<longleftrightarrow>
     list_chunks_current_for_dataset (dataset_id ds) (dataset_active_generation ds) d = []
     \<and> list_documents_current_for_dataset (dataset_id ds) (dataset_active_generation ds) d = []
     \<and> filter (entity_current ds) (kb_entities d) = [] \<and> filter (relation_current ds d) (kb_relations d) = []"

lemma dataset_emptied_cong:
  assumes "kb_chunks d' = kb_chunks d" "kb_documents d' = kb_documents d" "kb_entities d' = kb_entities d"
    "kb_relations d' = kb_relations d"
  shows "dataset_emptied ds d' = dataset_emptied ds d"
proof -
  have "relation_current ds d' = relation_current ds d"
    using assms(3) by (simp add: fun_eq_iff relation_current_def kb_entity_def)
  then show ?thesis using assms
    by (simp add: dataset_emptied_def list_chunks_current_for_dataset_def list_documents_current_for_dataset_def)
qed

lemma quiet_delete_run:
  assumes "ctx_dataset_id c = Some k" "kb_dataset k d = Some ds" "dataset_status ds \<in> {Dataset_ACTIVE, Dataset_DELETING}"
    and "kdb_keyed d" "keyed run_id (pipeline_runs (kb_runtime d))" "get_run (ctx_run_id c) (kb_runtime d) = Some run"
    and "storage_answers (storage_resources res)"
  obtains part :: dataset_mutation_part and events d2 where "dm_graph_outbox_ids part = map ob_id events" "kb_outbox d2 = kb_outbox d @ events"
    "\<forall>e \<in> set events. ob_operation e = Outbox_DELETE \<and> ob_status e = Outbox_PENDING \<and> ob_dataset_id e = k"
    "\<And>n rows w2. converge_projection res c (dm_graph_outbox_ids part) d2 w = (Inr n, d2\<lparr>kb_outbox := rows\<rparr>, w2) \<Longrightarrow>
       \<exists>j d' w'. run_dataset_delete (\<lambda>_. env) (\<lambda>_ x. x) res c d w = (Inr j, d', w')
         \<and> kb_dataset k d' = Some (ds\<lparr>dataset_status := Dataset_DELETED\<rparr>) \<and> list_sources_not_deleted k d' = []
         \<and> kb_outbox d' = rows \<and> dataset_emptied ds d'"
    "dataset_emptied ds d \<Longrightarrow> events = []"
proof -
  let ?ds = "ds\<lparr>dataset_status := Dataset_DELETING\<rparr>"
  have id: "dataset_id ds = k" using assms(2) kb_SomeD(6) by blast
  obtain ks rt where step1: "begin_delete (fe_now env) c d = Inr (ks, (put_dataset ?ds d)\<lparr>kb_runtime := rt\<rparr>)"
    and rt: "datasets rt = datasets (kb_runtime (put_dataset ?ds d))"
      "get_run (ctx_run_id c) rt = get_run (ctx_run_id c) (kb_runtime d)"
    by (rule begin_delete_quiet[OF assms(1-5), of "fe_now env"]) blast
  define d1 where "d1 = (put_dataset ?ds d)\<lparr>kb_runtime := rt\<rparr>"
  have ds1: "kb_dataset k d1 = Some ?ds"
    using kb_dataset_put_dataset[of ?ds d ds] assms(2) id rt(1) by (simp add: d1_def kb_dataset_def get_dataset_def)
  have st1: "dataset_status ?ds = Dataset_DELETING" by simp
  define dm where "dm = mark_sources_deleting (\<lambda>s. src_status s \<noteq> Source_DELETED) (map src_id (list_sources_not_deleted k d1)) d1"
  define t where "t = fst (retire_dataset ?ds dm)"
  define dr where "dr = snd (retire_dataset ?ds dm)"
  obtain part events where deact: "deactivate_authoritative env c d1 = Inr (part, dr\<lparr>kb_outbox := kb_outbox d1 @ events\<rparr>)"
    and ids: "dm_graph_outbox_ids part = map ob_id events"
    and del: "\<forall>e \<in> set events. ob_operation e = Outbox_DELETE \<and> ob_status e = Outbox_PENDING \<and> ob_dataset_id e = k"
    and len: "length events = length (retirement_commands k t)"
    by (rule deactivate_quiet[OF assms(1) ds1 st1, of env, folded dm_def, folded dr_def t_def]) blast
  define d2 where "d2 = dr\<lparr>kb_outbox := kb_outbox d1 @ events\<rparr>"
  note R = retire_dataset_reads[OF t_def dr_def]
  have ob: "kb_outbox d2 = kb_outbox d @ events" by (simp add: d2_def d1_def put_dataset_def)
  have dsm: "kb_dataset (dataset_id ?ds) dm = Some ?ds" using ds1 id by (simp add: dm_def kb_simps)
  have ecur: "entity_current ?ds = entity_current ds" by (simp add: fun_eq_iff entity_current_def)
  have cur: "relation_current ?ds = relation_current ds"
    by (simp add: fun_eq_iff relation_current_def relation_row_current_def ecur)
  have emptied: "dataset_emptied ds dr"
    using retired_dataset_empty(1-4)[OF t_def dr_def dsm] dsm
    by (simp add: dataset_emptied_def entities_current_for_dataset_def relations_current_for_dataset_def with_dataset_def R cur ecur)
  have rows_m: "kb_chunks dm = kb_chunks d" "kb_entities dm = kb_entities d" "kb_relations dm = kb_relations d"
      "relation_current ds dm = relation_current ds d"
    by (simp_all add: fun_eq_iff relation_current_def dm_def d1_def kb_simps put_dataset_def kb_entity_def mark_sources_deleting_def)
  have idle: "events = []" if "dataset_emptied ds d"
  proof -
    have "rt_chunks t = []" "rt_entities t = []" "rt_relations t = []"
      using that dsm id by (simp_all add: retire_dataset_sel[OF t_def] dataset_emptied_def rows_m cur ecur with_dataset_def
          list_chunks_current_for_dataset_def entities_current_for_dataset_def relations_current_for_dataset_def)
    then have "retirement_commands k t = []"
      by (simp add: retire_dataset_sel(3)[OF t_def] retirement_commands_def forget_projection_commands_def
          chunk_next_delete_commands_def list_mentions_for_chunks_def group_by_def dict_fromkeys_def)
    then show ?thesis using len by simp
  qed
  have fin: "\<exists>j d' w'. run_dataset_delete (\<lambda>_. env) (\<lambda>_ x. x) res c d w = (Inr j, d', w')
       \<and> kb_dataset k d' = Some (ds\<lparr>dataset_status := Dataset_DELETED\<rparr>) \<and> list_sources_not_deleted k d' = []
       \<and> kb_outbox d' = rows \<and> dataset_emptied ds d'"
    if conv: "converge_projection res c (dm_graph_outbox_ids part) d2 w = (Inr n, d2\<lparr>kb_outbox := rows\<rparr>, w2)" for n rows w2
  proof -
    define d3 where "d3 = d2\<lparr>kb_outbox := rows\<rparr>"
    have srcs: "kb_sources d3 = kb_sources dm" by (simp add: d3_def d2_def R)
    have listed: "list_sources_not_deleted k d3 = list_sources_not_deleted k dm" by (simp add: list_sources_not_deleted_def srcs)
    have del3: "\<forall>s \<in> set (list_sources_not_deleted k d3). src_status s = Source_DELETING"
      using marked_sources unfolding listed dm_def by blast
    obtain entries w3 where st: "delete_storages (storage_resources res) k (list_sources_not_deleted k d3) w2 = (Inr entries, w3)"
        "map fst entries = map src_id (filter (\<lambda>s. src_status s = Source_DELETING) (list_sources_not_deleted k d3))"
      using delete_storages_total[OF assms(7)] by blast
    have ents: "map fst entries = map src_id (list_sources_not_deleted k d3)" using st(2) del3 by simp
    have d3: "kb_dataset k d3 = Some ?ds" "get_run (ctx_run_id c) (kb_runtime d3) = Some run" "keyed src_id (kb_sources d3)"
      using dsm id rt(2) assms(4,6) by (simp_all add: d3_def d2_def R kb_simps srcs[unfolded d3_def] dm_def d1_def
          kdb_keyed_def mark_sources_deleting_def put_dataset_def keyed_def keys_row_upd)
    obtain j d' where fin: "finalize_tombstone c (dm_counts part) n entries d3 = Inr (j, d')"
        "kb_dataset k d' = Some (?ds\<lparr>dataset_status := Dataset_DELETED\<rparr>)" "list_sources_not_deleted k d' = []"
        "kb_outbox d' = kb_outbox d3" "kb_chunks d' = kb_chunks d3" "kb_documents d' = kb_documents d3"
        "kb_entities d' = kb_entities d3" "kb_relations d' = kb_relations d3"
      using finalize_tombstone_quiet[OF assms(1) d3(1) st1 d3(2,3) del3 ents] by blast
    have "run_dataset_delete (\<lambda>_. env) (\<lambda>_ x. x) res c d w = (Inr j, d', w3)"
      using assms(1) by (simp add: run_dataset_delete_def Let_def step1 d1_def[symmetric] deact d2_def[symmetric] conv
          d3_def[symmetric] delete_storage_def require_dataset_id_def st(1) fin(1))
    moreover have "dataset_emptied ds d'"
      using emptied fin(5-8) dataset_emptied_cong[of d' dr ds] by (simp add: d3_def d2_def)
    ultimately show ?thesis using fin(2-4) by (simp add: d3_def)
  qed
  show ?thesis
    by (rule that[OF ids ob del]) (erule fin, erule idle)
qed

subsection \<open>Completion, and the retry that skips the failed deletes\<close>

text \<open>A drain that succeeds, writes only outbox rows and leaves every row of its dataset DONE.\<close>

definition settling_drain :: "'w delete_resources \<Rightarrow> bool" where
  "settling_drain res \<longleftrightarrow> (\<exists>drain. dr_drain res = Some drain \<and> (\<forall>k d w. \<exists>n rows w'. drain k d w = (Inr n, d\<lparr>kb_outbox := rows\<rparr>, w')
     \<and> ob_id ` set rows = ob_id ` set (kb_outbox d)
     \<and> (\<forall>e \<in> set rows. \<forall>e0 \<in> set (kb_outbox d). ob_id e0 = ob_id e \<longrightarrow> ob_dataset_id e0 = k \<longrightarrow> ob_status e = Outbox_DONE)))"

lemma list_status_by_ids_member:
  assumes "i \<in> set ids" "i \<in> ob_id ` set rows"
  shows "\<exists>e \<in> set rows. ob_id e = i \<and> list_status_by_ids ids rows i = Some (ob_status e, ob_attempt e)"
proof -
  let ?l = "map (\<lambda>e. (ob_id e, ob_status e, ob_attempt e)) (filter (\<lambda>e. ob_id e \<in> set ids) rows)"
  obtain e where "e \<in> set rows" "ob_id e = i" using assms(2) by blast
  then have "i \<in> fst ` set ?l" using assms(1) by (force simp: image_iff)
  then have "map_of ?l i \<noteq> None" unfolding map_of_eq_None_iff by blast
  then obtain v where v: "map_of ?l i = Some v" by blast
  then have "(i, v) \<in> set ?l" by (rule map_of_SomeD)
  then show ?thesis using v assms(1) by (auto simp: list_status_by_ids_def)
qed

lemma settling_drain_converges:
  assumes "settling_drain res" "ctx_dataset_id c = Some k" "set ids \<subseteq> ob_id ` {e \<in> set (kb_outbox d). ob_dataset_id e = k}"
  shows "\<exists>n rows w'. converge_projection res c ids d w = (Inr n, d\<lparr>kb_outbox := rows\<rparr>, w')"
proof (cases "ids = []")
  case True
  have "converge_projection res c ids d w = (Inr 0, d\<lparr>kb_outbox := kb_outbox d\<rparr>, w)"
    using True assms(2) by (simp add: converge_projection_def require_dataset_id_def)
  then show ?thesis by blast
next
  case False
  obtain drain where drain: "dr_drain res = Some drain" "\<forall>k d w. \<exists>n rows w'. drain k d w = (Inr n, d\<lparr>kb_outbox := rows\<rparr>, w')
     \<and> ob_id ` set rows = ob_id ` set (kb_outbox d)
     \<and> (\<forall>e \<in> set rows. \<forall>e0 \<in> set (kb_outbox d). ob_id e0 = ob_id e \<longrightarrow> ob_dataset_id e0 = k \<longrightarrow> ob_status e = Outbox_DONE)"
    using assms(1) unfolding settling_drain_def by blast
  obtain n rows w' where r: "drain k d w = (Inr n, d\<lparr>kb_outbox := rows\<rparr>, w')" "ob_id ` set rows = ob_id ` set (kb_outbox d)"
     "\<forall>e \<in> set rows. \<forall>e0 \<in> set (kb_outbox d). ob_id e0 = ob_id e \<longrightarrow> ob_dataset_id e0 = k \<longrightarrow> ob_status e = Outbox_DONE"
    using drain(2) by blast
  have "\<exists>a. list_status_by_ids ids rows i = Some (Outbox_DONE, a)" if i: "i \<in> set ids" for i
  proof -
    obtain e0 where e0: "e0 \<in> set (kb_outbox d)" "ob_id e0 = i" "ob_dataset_id e0 = k" using assms(3) i by blast
    then have "i \<in> ob_id ` set rows" using r(2) by blast
    then obtain e where "e \<in> set rows" "ob_id e = i" "list_status_by_ids ids rows i = Some (ob_status e, ob_attempt e)"
      using list_status_by_ids_member[OF i] by blast
    then show ?thesis using r(3) e0 by auto
  qed
  then have "check_convergence ids rows = Inr (length ids)" unfolding check_convergence_Inr by blast
  then have "converge_projection res c ids d w = (Inr (length ids), d\<lparr>kb_outbox := rows\<rparr>, w')"
    using False assms(2) drain(1) r(1) by (simp add: converge_projection_def require_dataset_id_def)
  then show ?thesis by blast
qed

lemma undisturbed_delete:
  assumes "ctx_dataset_id c = Some k" "kb_dataset k d = Some ds" "dataset_status ds \<in> {Dataset_ACTIVE, Dataset_DELETING}"
    and "kdb_keyed d" "keyed run_id (pipeline_runs (kb_runtime d))" "get_run (ctx_run_id c) (kb_runtime d) = Some run"
    and "storage_answers (storage_resources res)" "settling_drain res"
  shows "\<exists>j d' w'. run_dataset_delete (\<lambda>_. env) (\<lambda>_ x. x) res c d w = (Inr j, d', w')
    \<and> kb_dataset k d' = Some (ds\<lparr>dataset_status := Dataset_DELETED\<rparr>) \<and> list_sources_not_deleted k d' = []
    \<and> dataset_emptied ds d'"
proof -
  obtain part :: dataset_mutation_part and events d2 where q: "dm_graph_outbox_ids part = map ob_id events" "kb_outbox d2 = kb_outbox d @ events"
    "\<forall>e \<in> set events. ob_operation e = Outbox_DELETE \<and> ob_status e = Outbox_PENDING \<and> ob_dataset_id e = k"
    and run: "\<And>n rows w2. converge_projection res c (dm_graph_outbox_ids part) d2 w = (Inr n, d2\<lparr>kb_outbox := rows\<rparr>, w2) \<Longrightarrow>
       \<exists>j d' w'. run_dataset_delete (\<lambda>_. env) (\<lambda>_ x. x) res c d w = (Inr j, d', w')
         \<and> kb_dataset k d' = Some (ds\<lparr>dataset_status := Dataset_DELETED\<rparr>) \<and> list_sources_not_deleted k d' = []
         \<and> kb_outbox d' = rows \<and> dataset_emptied ds d'"
    by (rule quiet_delete_run[OF assms(1-7), of w env]) blast
  have "set (dm_graph_outbox_ids part) \<subseteq> ob_id ` {e \<in> set (kb_outbox d2). ob_dataset_id e = k}"
    using q by auto
  then obtain n rows w2 where "converge_projection res c (dm_graph_outbox_ids part) d2 w = (Inr n, d2\<lparr>kb_outbox := rows\<rparr>, w2)"
    using settling_drain_converges[OF assms(8,1)] by blast
  from run[OF this] show ?thesis by blast
qed

text \<open>C21: An undisturbed deletion run completes: from an active or half-deleted dataset, with a drain that settles the
  dataset's outbox and a storage that answers, the dataset ends DELETED with every source of it deleted and nothing of
  its current generation left.\<close>

theorem dataset_delete_completes:
  assumes "ctx_dataset_id c = Some k" "kb_dataset k d = Some ds" "dataset_status ds \<in> {Dataset_ACTIVE, Dataset_DELETING}"
    and "kdb_keyed d" "keyed run_id (pipeline_runs (kb_runtime d))" "get_run (ctx_run_id c) (kb_runtime d) = Some run"
    and "storage_answers (storage_resources res)" "settling_drain res"
  shows "\<exists>j d' w'. run_dataset_delete (\<lambda>_. env) (\<lambda>_ x. x) res c d w = (Inr j, d', w')
    \<and> kb_dataset k d' = Some (ds\<lparr>dataset_status := Dataset_DELETED\<rparr>) \<and> list_sources_not_deleted k d' = []
    \<and> dataset_emptied ds d'"
  by (rule undisturbed_delete[OF assms])

text \<open>C22: A retried deletion forgets the projection deletes its predecessor left unapplied: once the current generation
  is deactivated, a new run enqueues nothing, so its convergence is vacuous and it tombstones the dataset without
  reading the outbox, whatever the drain is, even while rows of the first attempt are FAILED at their attempt ceiling.\<close>

theorem retried_delete_skips_failed_deletes:
  assumes "ctx_dataset_id c = Some k" "kb_dataset k d = Some ds" "dataset_status ds = Dataset_DELETING" "dataset_emptied ds d"
    and "kdb_keyed d" "keyed run_id (pipeline_runs (kb_runtime d))" "get_run (ctx_run_id c) (kb_runtime d) = Some run"
    and "storage_answers (storage_resources res)"
  shows "\<exists>j d' w'. run_dataset_delete (\<lambda>_. env) (\<lambda>_ x. x) res c d w = (Inr j, d', w')
    \<and> kb_dataset k d' = Some (ds\<lparr>dataset_status := Dataset_DELETED\<rparr>) \<and> kb_outbox d' = kb_outbox d"
proof -
  have st: "dataset_status ds \<in> {Dataset_ACTIVE, Dataset_DELETING}" using assms(3) by simp
  obtain part :: dataset_mutation_part and events d2 where q: "dm_graph_outbox_ids part = map ob_id events" "kb_outbox d2 = kb_outbox d @ events"
    and run: "\<And>n rows w2. converge_projection res c (dm_graph_outbox_ids part) d2 w = (Inr n, d2\<lparr>kb_outbox := rows\<rparr>, w2) \<Longrightarrow>
       \<exists>j d' w'. run_dataset_delete (\<lambda>_. env) (\<lambda>_ x. x) res c d w = (Inr j, d', w')
         \<and> kb_dataset k d' = Some (ds\<lparr>dataset_status := Dataset_DELETED\<rparr>) \<and> list_sources_not_deleted k d' = []
         \<and> kb_outbox d' = rows \<and> dataset_emptied ds d'"
    and none: "dataset_emptied ds d \<Longrightarrow> events = []"
    by (rule quiet_delete_run[OF assms(1,2) st assms(5-8), of w env]) blast
  have "converge_projection res c (dm_graph_outbox_ids part) d2 w = (Inr 0, d2\<lparr>kb_outbox := kb_outbox d\<rparr>, w)"
    using q none[OF assms(4)] assms(1) by (simp add: converge_projection_def require_dataset_id_def)
  from run[OF this] show ?thesis by blast
qed

subsection \<open>Witnesses\<close>

text \<open>The concrete dataset with a deletion run and a queued run it cancels.\<close>

definition demo_delete_kdb :: kdb where
  "demo_delete_kdb = demo_kdb\<lparr>kb_runtime :=
     (demo_db [demo_run 9 DATASET_DELETE (Some 7), demo_run 8 REMEMBER (Some 7)])\<lparr>datasets := [demo_kdataset]\<rparr>\<rparr>"

definition demo_delete_context :: pipeline_context where
  "demo_delete_context = \<lparr>ctx_run_id = 9, ctx_pipeline_type = DATASET_DELETE, ctx_dataset_id = Some 7, ctx_source_id = None,
     ctx_run_input = JObj [], ctx_step_outputs = (\<lambda>_. None)\<rparr>"

definition demo_delete_resources :: "nat delete_resources" where
  "demo_delete_resources = \<lparr>dr_drain = Some (\<lambda>k d w. (Inr 0, d\<lparr>kb_outbox := map (\<lambda>e. e\<lparr>ob_status := Outbox_DONE\<rparr>) (kb_outbox d)\<rparr>, w)),
     dr_storage_delete = (\<lambda>_ _ _ w. (Inl Storage_Unavailable, Suc w))\<rparr>"

lemma demo_delete_answers: "storage_answers (storage_resources demo_delete_resources)"
  by (simp add: storage_answers_def storage_resources_def demo_delete_resources_def delete_source_storage_result_def)

lemma demo_delete_drain: "settling_drain demo_delete_resources"
proof -
  let ?drain = "\<lambda>k d (w::nat). (Inr 0 :: drain_error + nat, d\<lparr>kb_outbox := map (\<lambda>e. e\<lparr>ob_status := Outbox_DONE\<rparr>) (kb_outbox d)\<rparr>, w)"
  have settles: "\<exists>n rows w'. ?drain k d w = (Inr n, d\<lparr>kb_outbox := rows\<rparr>, w') \<and> ob_id ` set rows = ob_id ` set (kb_outbox d)
     \<and> (\<forall>e \<in> set rows. \<forall>e0 \<in> set (kb_outbox d). ob_id e0 = ob_id e \<longrightarrow> ob_dataset_id e0 = k \<longrightarrow> ob_status e = Outbox_DONE)" for k d w
    by (intro exI[of _ 0] exI[of _ "map (\<lambda>e. e\<lparr>ob_status := Outbox_DONE\<rparr>) (kb_outbox d)"] exI[of _ w]) (auto simp: image_image)
  have "dr_drain demo_delete_resources = Some ?drain" by (simp add: demo_delete_resources_def)
  then show ?thesis unfolding settling_drain_def by (intro exI[of _ ?drain] conjI allI settles)
qed

lemma demo_delete_rows:
  "ctx_dataset_id demo_delete_context = Some 7" "kb_dataset 7 demo_delete_kdb = Some demo_kdataset"
  "dataset_status demo_kdataset \<in> {Dataset_ACTIVE, Dataset_DELETING}" "kdb_keyed demo_delete_kdb"
  "keyed run_id (pipeline_runs (kb_runtime demo_delete_kdb))"
  "get_run (ctx_run_id demo_delete_context) (kb_runtime demo_delete_kdb) = Some (demo_run 9 DATASET_DELETE (Some 7))"
  by code_simp+

theorem dataset_delete_completes_witness:
  "\<exists>j d' w'. run_dataset_delete (\<lambda>_. demo_fenv) (\<lambda>_ x. x) demo_delete_resources demo_delete_context demo_delete_kdb 0 = (Inr j, d', w')
    \<and> kb_dataset 7 d' = Some (demo_kdataset\<lparr>dataset_status := Dataset_DELETED\<rparr>) \<and> list_sources_not_deleted 7 d' = []"
  using dataset_delete_completes[OF demo_delete_rows demo_delete_answers demo_delete_drain] by blast

text \<open>A half-deleted dataset: everything inactive, one projection delete of the first attempt FAILED for good.\<close>

definition demo_failed_delete :: outbox_event where
  "demo_failed_delete = \<lparr>ob_id = 1, ob_dataset_id = 7, ob_aggregate_type = ascii ''chunk'', ob_aggregate_id = 21,
     ob_operation = Outbox_DELETE, ob_payload = [], ob_status = Outbox_FAILED, ob_attempt = 5, ob_created_at = 0,
     ob_processed_at = None, ob_processing_started_at = None, ob_worker_id = None\<rparr>"

definition demo_half_deleted :: kdb where
  "demo_half_deleted = \<lparr>kb_runtime = (demo_db [demo_run 9 DATASET_DELETE (Some 7)])
       \<lparr>datasets := [demo_kdataset\<lparr>dataset_status := Dataset_DELETING\<rparr>]\<rparr>,
     kb_sources = [demo_source 3\<lparr>src_status := Source_DELETING\<rparr>], kb_documents = [demo_document 11 3\<lparr>doc_is_active := False\<rparr>],
     kb_chunks = [demo_chunk 21 11 3 0\<lparr>ch_is_active := False\<rparr>], kb_entities = [], kb_mentions = [], kb_relations = [],
     kb_evidence = [], kb_summaries = [], kb_outbox = [demo_failed_delete]\<rparr>"

theorem retried_delete_skips_failed_deletes_witness:
  "check_convergence [1] (kb_outbox demo_half_deleted) = delete_not_converged
   \<and> (\<exists>j d' w'. run_dataset_delete (\<lambda>_. demo_fenv) (\<lambda>_ x. x) demo_delete_resources demo_delete_context demo_half_deleted 0 = (Inr j, d', w')
    \<and> kb_dataset 7 d' = Some (demo_kdataset\<lparr>dataset_status := Dataset_DELETED\<rparr>) \<and> kb_outbox d' = [demo_failed_delete])"
proof -
  have rows: "ctx_dataset_id demo_delete_context = Some 7"
      "kb_dataset 7 demo_half_deleted = Some (demo_kdataset\<lparr>dataset_status := Dataset_DELETING\<rparr>)"
      "dataset_status (demo_kdataset\<lparr>dataset_status := Dataset_DELETING\<rparr>) = Dataset_DELETING"
      "dataset_emptied (demo_kdataset\<lparr>dataset_status := Dataset_DELETING\<rparr>) demo_half_deleted" "kdb_keyed demo_half_deleted"
      "keyed run_id (pipeline_runs (kb_runtime demo_half_deleted))"
      "get_run (ctx_run_id demo_delete_context) (kb_runtime demo_half_deleted) = Some (demo_run 9 DATASET_DELETE (Some 7))"
    by code_simp+
  have "check_convergence [1] (kb_outbox demo_half_deleted) = delete_not_converged" by code_simp
  moreover have "kb_outbox demo_half_deleted = [demo_failed_delete]" by (simp add: demo_half_deleted_def)
  ultimately show ?thesis
    using retried_delete_skips_failed_deletes[OF rows demo_delete_answers, of demo_fenv 0] by auto
qed

theorem deletion_success_is_converged_witness:
  "\<exists>d1 part d2 d3 w3. deactivate_authoritative demo_fenv demo_delete_context d1 = Inr (part, d2)
    \<and> converge_projection demo_delete_resources demo_delete_context (dm_graph_outbox_ids part) d2 0
        = (Inr (length (dm_graph_outbox_ids part)), d3, w3)
    \<and> (\<forall>i \<in> set (dm_graph_outbox_ids part).
         \<exists>a. list_status_by_ids (dm_graph_outbox_ids part) (kb_outbox d3) i = Some (Outbox_DONE, a))"
proof -
  obtain j d' w' where "run_dataset_delete (\<lambda>_. demo_fenv) (\<lambda>_ x. x) demo_delete_resources demo_delete_context
      demo_delete_kdb 0 = (Inr j, d', w')"
    using undisturbed_delete[OF demo_delete_rows demo_delete_answers demo_delete_drain] by blast
  from deletion_success_is_converged[OF this] show ?thesis by blast
qed

end
