(* ===== verification/Session_Store.thy ===== *)
theory Session_Store
  imports Domain_Text
begin

text \<open>
  Sessions, their append-only entries and the query audit: the tables of \<open>models/session.py\<close>,
  \<open>models/session_entry.py\<close> and \<open>models/query.py\<close>, the request validators of \<open>schemas/sessions.py\<close>
  and \<open>schemas/session_entries.py\<close>, the repositories of \<open>repositories/sessions.py\<close>,
  \<open>session_entries.py\<close> and \<open>queries.py\<close>, and the services \<open>services/sessions.py\<close> and
  \<open>services/session_entries.py\<close>.  A service call is one transaction: it reads the committed tables
  and returns its result with the tables it commits, or the exception, which commits nothing.  Fresh
  identifiers and the clocks are arguments.
\<close>

subsection \<open>Rows\<close>

datatype session_status = Session_ACTIVE | Session_ARCHIVED

record session =
  ses_id :: uuid
  ses_key :: pystr
  ses_name :: "pystr option"
  ses_status :: session_status
  ses_metadata :: "(pystr \<times> json) list"
  ses_created_at :: timestamp
  ses_updated_at :: timestamp
  ses_archived_at :: "timestamp option"

record session_entry =
  se_id :: uuid
  se_session_id :: uuid
  se_external_id :: "pystr option"
  se_role :: pystr
  se_content :: pystr
  se_metadata :: "(pystr \<times> json) list"
  se_created_at :: timestamp

record query =
  q_id :: uuid
  q_query_text :: "pystr option"
  q_dataset_ids :: "uuid list"
  q_mode :: string
  q_answer :: "pystr option"
  q_references :: json
  q_timings :: "(string \<times> int) list"
  q_model :: "pystr option"
  q_session_id :: "uuid option"
  q_session_context_entry_ids :: "uuid list"
  q_created_at :: timestamp

record session_db =
  sdb_sessions :: "session list"
  sdb_entries :: "session_entry list"
  sdb_queries :: "query list"

text \<open>SQL \<open>btrim(text)\<close> strips spaces only.\<close>

definition btrim :: "pystr \<Rightarrow> pystr" where
  "btrim s = rev (dropWhile (\<lambda>c. c = 32) (rev (dropWhile (\<lambda>c. c = 32) s)))"

definition session_row_ok :: "session \<Rightarrow> bool" where
  "session_row_ok s \<longleftrightarrow> btrim (ses_key s) \<noteq> [] \<and> length (ses_key s) \<le> SESSION_ID_MAX_LENGTH
     \<and> (case ses_name s of None \<Rightarrow> True | Some n \<Rightarrow> length n \<le> 120)"

definition session_entry_row_ok :: "session_entry \<Rightarrow> bool" where
  "session_entry_row_ok e \<longleftrightarrow> (case se_external_id e of None \<Rightarrow> True
     | Some x \<Rightarrow> btrim x \<noteq> [] \<and> length x \<le> SESSION_ENTRY_EXTERNAL_ID_MAX_LENGTH \<and> x = btrim x)"

text \<open>The constraints of the three tables: keys, the unique session key, the partial unique index on
  \<open>(session_id, external_id)\<close>, the checks and the foreign keys.\<close>

definition external_ids :: "session_entry list \<Rightarrow> (uuid \<times> pystr) list" where
  "external_ids es = concat (map (\<lambda>e. case se_external_id e of None \<Rightarrow> [] | Some x \<Rightarrow> [(se_session_id e, x)]) es)"

definition query_fk_ok :: "uuid list \<Rightarrow> query \<Rightarrow> bool" where
  "query_fk_ok ids q \<longleftrightarrow> (case q_session_id q of None \<Rightarrow> True | Some k \<Rightarrow> k \<in> set ids)"

definition session_db_ok :: "session_db \<Rightarrow> bool" where
  "session_db_ok d \<longleftrightarrow> keyed ses_id (sdb_sessions d) \<and> distinct (map ses_key (sdb_sessions d))
     \<and> list_all session_row_ok (sdb_sessions d)
     \<and> keyed se_id (sdb_entries d) \<and> distinct (external_ids (sdb_entries d))
     \<and> list_all session_entry_row_ok (sdb_entries d)
     \<and> list_all (\<lambda>e. se_session_id e \<in> set (map ses_id (sdb_sessions d))) (sdb_entries d)
     \<and> keyed q_id (sdb_queries d)
     \<and> list_all (query_fk_ok (map ses_id (sdb_sessions d))) (sdb_queries d)"

subsection \<open>Repositories\<close>

definition session_by_id :: "uuid \<Rightarrow> session_db \<Rightarrow> session option" where
  "session_by_id k d = row_get ses_id k (sdb_sessions d)"

definition session_by_key :: "pystr \<Rightarrow> session_db \<Rightarrow> session option" where
  "session_by_key key d = List.find (\<lambda>s. ses_key s = key) (sdb_sessions d)"

definition put_session :: "session \<Rightarrow> session_db \<Rightarrow> session_db" where
  "put_session s d = d\<lparr>sdb_sessions := row_put ses_id s (sdb_sessions d)\<rparr>"

definition session_add :: "session \<Rightarrow> session_db \<Rightarrow> exn + session_db" where
  "session_add s d =
     (if ses_id s \<in> set (map ses_id (sdb_sessions d)) then Inl (Integrity_Error ''pk_sessions'')
      else if ses_key s \<in> set (map ses_key (sdb_sessions d)) then Inl (Integrity_Error ''uq_sessions_key'')
      else if \<not> session_row_ok s then Inl (Integrity_Error ''ck_sessions'')
      else Inr (d\<lparr>sdb_sessions := sdb_sessions d @ [s]\<rparr>))"

text \<open>\<open>INSERT ... ON CONFLICT (key) DO NOTHING\<close>: the clock columns take the server default; only a conflict on
  the key is ignored.\<close>

definition get_or_create_by_key :: "timestamp \<Rightarrow> session \<Rightarrow> session_db \<Rightarrow> exn + (session \<times> session_db)" where
  "get_or_create_by_key db_now candidate d =
     (let row = candidate\<lparr>ses_created_at := db_now, ses_updated_at := db_now, ses_archived_at := None\<rparr> in
      bindE (if \<not> session_row_ok row then Inl (Integrity_Error ''ck_sessions'')
             else if ses_key row \<in> set (map ses_key (sdb_sessions d)) then Inr d
             else session_add row d) (\<lambda>d.
      case session_by_key (ses_key candidate) d of
        None \<Rightarrow> Inl Assertion_Error
      | Some s \<Rightarrow> Inr (s, d)))"

definition sessions_page ::
  "nat \<Rightarrow> nat \<Rightarrow> session_status option \<Rightarrow> pystr option \<Rightarrow> session_db \<Rightarrow> session list \<times> nat" where
  "sessions_page lm off status key d =
     (let rows = filter (\<lambda>s. (case status of None \<Rightarrow> True | Some x \<Rightarrow> ses_status s = x)
                  \<and> (case key of None \<Rightarrow> True | Some k \<Rightarrow> ses_key s = k)) (sdb_sessions d) in
      (take lm (drop off (sort_key (\<lambda>s. (ses_created_at s, ses_id s)) rows)), length rows))"

definition entry_add :: "session_entry \<Rightarrow> session_db \<Rightarrow> exn + session_db" where
  "entry_add e d =
     (if se_id e \<in> set (map se_id (sdb_entries d)) then Inl (Integrity_Error ''pk_session_entries'')
      else if se_session_id e \<notin> set (map ses_id (sdb_sessions d)) then Inl (Integrity_Error ''fk_session_entries_session_id_sessions'')
      else if \<not> session_entry_row_ok e then Inl (Integrity_Error ''ck_session_entries'')
      else if (case se_external_id e of None \<Rightarrow> False | Some x \<Rightarrow> (se_session_id e, x) \<in> set (external_ids (sdb_entries d)))
        then Inl (Integrity_Error ''uq_session_entries_session_id_external_id'')
      else Inr (d\<lparr>sdb_entries := sdb_entries d @ [e]\<rparr>))"

definition entry_by_external_id :: "uuid \<Rightarrow> pystr \<Rightarrow> session_db \<Rightarrow> session_entry option" where
  "entry_by_external_id k x d = List.find (\<lambda>e. se_session_id e = k \<and> se_external_id e = Some x) (sdb_entries d)"

definition entries_of :: "uuid \<Rightarrow> session_db \<Rightarrow> session_entry list" where
  "entries_of k d = filter (\<lambda>e. se_session_id e = k) (sdb_entries d)"

definition entry_order :: "session_entry \<Rightarrow> timestamp \<times> uuid" where
  "entry_order e = (se_created_at e, se_id e)"

definition entries_by_session :: "uuid \<Rightarrow> nat \<Rightarrow> nat \<Rightarrow> bool \<Rightarrow> session_db \<Rightarrow> session_entry list" where
  "entries_by_session k lm off ascending d =
     (let rows = sort_key entry_order (entries_of k d) in
      take lm (drop off (if ascending then rows else rev rows)))"

definition count_entries :: "uuid \<Rightarrow> session_db \<Rightarrow> nat" where
  "count_entries k d = length (entries_of k d)"

definition entries_recent_for_context :: "uuid \<Rightarrow> nat \<Rightarrow> session_db \<Rightarrow> session_entry list" where
  "entries_recent_for_context k lm d = take lm (rev (sort_key entry_order (entries_of k d)))"

definition entries_by_ids :: "uuid \<Rightarrow> uuid list \<Rightarrow> session_db \<Rightarrow> session_entry list" where
  "entries_by_ids k ids d =
     (if ids = [] then [] else filter (\<lambda>e. se_session_id e = k \<and> se_id e \<in> set ids) (sdb_entries d))"

definition query_add :: "query \<Rightarrow> session_db \<Rightarrow> exn + session_db" where
  "query_add q d =
     (if q_id q \<in> set (map q_id (sdb_queries d)) then Inl (Integrity_Error ''pk_queries'')
      else if \<not> query_fk_ok (map ses_id (sdb_sessions d)) q
        then Inl (Integrity_Error ''fk_queries_session_id_sessions'')
      else Inr (d\<lparr>sdb_queries := sdb_queries d @ [q]\<rparr>))"

definition query_by_id :: "uuid \<Rightarrow> session_db \<Rightarrow> query option" where
  "query_by_id k d = row_get q_id k (sdb_queries d)"

definition queries_by_session :: "uuid \<Rightarrow> nat \<Rightarrow> nat \<Rightarrow> session_db \<Rightarrow> query list" where
  "queries_by_session k lm off d =
     take lm (drop off (sort_key (\<lambda>q. (q_created_at q, q_id q)) (filter (\<lambda>q. q_session_id q = Some k) (sdb_queries d))))"

definition count_queries :: "uuid \<Rightarrow> session_db \<Rightarrow> nat" where
  "count_queries k d = length (filter (\<lambda>q. q_session_id q = Some k) (sdb_queries d))"

subsection \<open>Requests\<close>

text \<open>A field of a PATCH payload is \<open>None\<close> when it is not in \<open>model_fields_set\<close>; a \<open>ValidationError\<close> is a
  \<open>ValueError\<close>.\<close>

definition SESSION_NAME_MAX_LENGTH :: nat where "SESSION_NAME_MAX_LENGTH = 120"
definition SESSION_ENTRY_CONTENT_MAX_LENGTH :: nat where "SESSION_ENTRY_CONTENT_MAX_LENGTH = 65536"

definition strip_name :: "pystr option \<Rightarrow> exn + pystr option" where
  "strip_name value = (case value of None \<Rightarrow> Inr None
     | Some v \<Rightarrow> (let stripped = py_strip v in if stripped = [] then Inl Value_Error else Inr (Some stripped)))"

definition session_name_field :: "pystr option \<Rightarrow> exn + pystr option" where
  "session_name_field value =
     (case value of None \<Rightarrow> Inr None
      | Some v \<Rightarrow> if length v > SESSION_NAME_MAX_LENGTH then Inl Value_Error else strip_name value)"

definition as_validation_error :: "exn + 'a \<Rightarrow> exn + 'a" where
  "as_validation_error r = (case r of Inl _ \<Rightarrow> Inl Value_Error | Inr x \<Rightarrow> Inr x)"

record session_create_request =
  scr_session_id :: "pystr option"
  scr_name :: "pystr option"
  scr_metadata :: "(pystr \<times> json) list"

definition validate_session_create :: "session_create_request \<Rightarrow> exn + session_create_request" where
  "validate_session_create r =
     bindE (as_validation_error (normalize_session_id (scr_session_id r))) (\<lambda>key.
     bindE (session_name_field (scr_name r)) (\<lambda>name.
     Inr (r\<lparr>scr_session_id := key, scr_name := name\<rparr>)))"

record session_update_request =
  sur_name :: "pystr option option"
  sur_metadata :: "(pystr \<times> json) list option option"

definition validate_session_update :: "session_update_request \<Rightarrow> exn + session_update_request" where
  "validate_session_update r =
     bindE (case sur_name r of None \<Rightarrow> Inr None
            | Some n \<Rightarrow> bindE (session_name_field n) (\<lambda>n. Inr (Some n))) (\<lambda>name.
     if name = None \<and> sur_metadata r = None then Inl Value_Error
     else if sur_metadata r = Some None then Inl Value_Error
     else Inr (r\<lparr>sur_name := name\<rparr>))"

record entry_create_request =
  ecr_external_id :: "pystr option"
  ecr_role :: pystr
  ecr_content :: pystr
  ecr_metadata :: "(pystr \<times> json) list"

definition validate_entry_create :: "entry_create_request \<Rightarrow> exn + entry_create_request" where
  "validate_entry_create r =
     bindE (as_validation_error (normalize_session_entry_external_id (ecr_external_id r))) (\<lambda>x.
     if ecr_role r = [] then Inl Value_Error
     else if ecr_content r = [] \<or> length (ecr_content r) > SESSION_ENTRY_CONTENT_MAX_LENGTH then Inl Value_Error
     else Inr (r\<lparr>ecr_external_id := x\<rparr>))"

text \<open>Python equality of JSON values: numbers and booleans by value, arrays in order, objects by key.\<close>

fun py_number :: "json \<Rightarrow> rat option" where
  "py_number (JBool b) = Some (if b then 1 else 0)"
| "py_number (JInt i) = Some (of_int i)"
| "py_number (JReal r) = Some r"
| "py_number _ = None"

fun py_eq :: "json \<Rightarrow> json \<Rightarrow> bool" and py_eq_list :: "json list \<Rightarrow> json list \<Rightarrow> bool"
  and py_eq_items :: "(pystr \<times> json) list \<Rightarrow> (pystr \<times> json) list \<Rightarrow> bool" where
  "py_eq JNull y = (y = JNull)"
| "py_eq (JBool b) y = (py_number y = py_number (JBool b))"
| "py_eq (JInt i) y = (py_number y = py_number (JInt i))"
| "py_eq (JReal r) y = (py_number y = py_number (JReal r))"
| "py_eq (JStr s) y = (y = JStr s)"
| "py_eq (JArr xs) y = (case y of JArr ys \<Rightarrow> py_eq_list xs ys | _ \<Rightarrow> False)"
| "py_eq (JObj xs) y = (case y of JObj ys \<Rightarrow> length xs = length ys \<and> py_eq_items xs ys | _ \<Rightarrow> False)"
| "py_eq_list [] ys = (ys = [])"
| "py_eq_list (x # xs) ys = (case ys of [] \<Rightarrow> False | y # ys \<Rightarrow> py_eq x y \<and> py_eq_list xs ys)"
| "py_eq_items [] ys = True"
| "py_eq_items ((k, x) # xs) ys = ((case map_of ys k of None \<Rightarrow> False | Some y \<Rightarrow> py_eq x y) \<and> py_eq_items xs ys)"

definition metadata_eq :: "(pystr \<times> json) list \<Rightarrow> (pystr \<times> json) list \<Rightarrow> bool" where
  "metadata_eq xs ys = py_eq (JObj xs) (JObj ys)"

end
