(* ===== verification/Session_Service.thy ===== *)
theory Session_Service
  imports Session_Store
begin

text \<open>
  \<open>services/sessions.py\<close> and \<open>services/session_entries.py\<close>: creating, listing, renaming, archiving and
  restoring sessions, and the admission protocol of an entry append.  Each call locks its session row, so
  it is one step on the committed tables.
\<close>

subsection \<open>Results and errors\<close>

record session_view =
  sv_session_uuid :: uuid
  sv_session_id :: pystr
  sv_name :: "pystr option"
  sv_status :: session_status
  sv_metadata :: "(pystr \<times> json) list"
  sv_created_at :: timestamp
  sv_updated_at :: timestamp
  sv_archived_at :: "timestamp option"

definition session_result :: "session \<Rightarrow> session_view" where
  "session_result s = \<lparr>sv_session_uuid = ses_id s, sv_session_id = ses_key s, sv_name = ses_name s,
     sv_status = ses_status s, sv_metadata = ses_metadata s, sv_created_at = ses_created_at s,
     sv_updated_at = ses_updated_at s, sv_archived_at = ses_archived_at s\<rparr>"

record 'a page =
  page_items :: "'a list"
  page_limit :: nat
  page_offset :: nat
  page_total :: nat

definition session_not_found_error :: exn where
  "session_not_found_error = Sofias_Memory_Error INVALID_REQUEST 404"

definition session_conflict_error :: exn where
  "session_conflict_error = Sofias_Memory_Error INVALID_REQUEST 409"

definition session_archived_error :: exn where
  "session_archived_error = Sofias_Memory_Error SESSION_ARCHIVED 409"

definition session_entry_idempotency_conflict_error :: exn where
  "session_entry_idempotency_conflict_error = Sofias_Memory_Error IDEMPOTENCY_CONFLICT 409"

definition normalize_filter_session_id :: "pystr option \<Rightarrow> exn + pystr option" where
  "normalize_filter_session_id k =
     (case normalize_session_id k of Inl _ \<Rightarrow> Inl (Sofias_Memory_Error INVALID_REQUEST 400) | Inr x \<Rightarrow> Inr x)"

definition require_session :: "uuid \<Rightarrow> session_db \<Rightarrow> exn + session" where
  "require_session k d = (case session_by_id k d of None \<Rightarrow> Inl session_not_found_error | Some s \<Rightarrow> Inr s)"

subsection \<open>Session lifecycle\<close>

definition create_session ::
  "uuid \<Rightarrow> timestamp \<Rightarrow> session_create_request \<Rightarrow> session_db \<Rightarrow> exn + (session_view \<times> session_db)" where
  "create_session new_id now r d =
     (let external_key = (case scr_session_id r of Some k \<Rightarrow> k | None \<Rightarrow> uuid_text new_id);
          s = \<lparr>ses_id = new_id, ses_key = external_key, ses_name = scr_name r, ses_status = Session_ACTIVE,
               ses_metadata = scr_metadata r, ses_created_at = now, ses_updated_at = now, ses_archived_at = None\<rparr>
      in case session_add s d of
           Inl (Integrity_Error _) \<Rightarrow> Inl session_conflict_error
         | Inl e \<Rightarrow> Inl e
         | Inr d \<Rightarrow> Inr (session_result s, d))"

definition list_sessions ::
  "nat \<Rightarrow> nat \<Rightarrow> session_status option \<Rightarrow> pystr option \<Rightarrow> session_db \<Rightarrow> exn + session_view page" where
  "list_sessions lm off status session_id d =
     bindE (normalize_filter_session_id session_id) (\<lambda>key.
     let (rows, n) = sessions_page lm off status key d in
     Inr \<lparr>page_items = map session_result rows, page_limit = lm, page_offset = off, page_total = n\<rparr>)"

definition get_session :: "uuid \<Rightarrow> session_db \<Rightarrow> exn + session_view" where
  "get_session k d = bindE (require_session k d) (\<lambda>s. Inr (session_result s))"

definition updated_session :: "session_update_request \<Rightarrow> timestamp \<Rightarrow> session \<Rightarrow> session" where
  "updated_session r now s =
     (let s1 = (case sur_name r of None \<Rightarrow> s | Some n \<Rightarrow> s\<lparr>ses_name := n\<rparr>);
          s2 = (case sur_metadata r of Some (Some m) \<Rightarrow> s1\<lparr>ses_metadata := m\<rparr> | _ \<Rightarrow> s1)
      in s2\<lparr>ses_updated_at := now\<rparr>)"

definition update_session ::
  "uuid \<Rightarrow> timestamp \<Rightarrow> session_update_request \<Rightarrow> session_db \<Rightarrow> exn + (session_view \<times> session_db)" where
  "update_session k now r d =
     bindE (require_session k d) (\<lambda>s.
     let s' = updated_session r now s in
     if session_row_ok s' then Inr (session_result s', put_session s' d) else Inl (Integrity_Error ''ck_sessions''))"

definition archive_session :: "uuid \<Rightarrow> timestamp \<Rightarrow> session_db \<Rightarrow> exn + (session_view \<times> session_db)" where
  "archive_session k now d =
     bindE (require_session k d) (\<lambda>s.
     let s' = (if ses_status s = Session_ACTIVE
               then s\<lparr>ses_status := Session_ARCHIVED, ses_archived_at := Some now, ses_updated_at := now\<rparr> else s) in
     Inr (session_result s', put_session s' d))"

definition restore_session :: "uuid \<Rightarrow> timestamp \<Rightarrow> session_db \<Rightarrow> exn + (session_view \<times> session_db)" where
  "restore_session k now d =
     bindE (require_session k d) (\<lambda>s.
     let s' = (if ses_status s = Session_ARCHIVED
               then s\<lparr>ses_status := Session_ACTIVE, ses_archived_at := None, ses_updated_at := now\<rparr> else s) in
     Inr (session_result s', put_session s' d))"

subsection \<open>Entries\<close>

record entry_view =
  ev_entry_id :: uuid
  ev_session_uuid :: uuid
  ev_external_id :: "pystr option"
  ev_role :: pystr
  ev_content :: pystr
  ev_metadata :: "(pystr \<times> json) list"
  ev_created_at :: timestamp

definition session_entry_result :: "session_entry \<Rightarrow> entry_view" where
  "session_entry_result e = \<lparr>ev_entry_id = se_id e, ev_session_uuid = se_session_id e,
     ev_external_id = se_external_id e, ev_role = se_role e, ev_content = se_content e,
     ev_metadata = se_metadata e, ev_created_at = se_created_at e\<rparr>"

record query_view =
  qv_query_id :: uuid
  qv_dataset_ids :: "uuid list"
  qv_mode :: string
  qv_query_text :: "pystr option"
  qv_answer :: "pystr option"
  qv_model :: "pystr option"
  qv_created_at :: timestamp

definition session_query_summary :: "query \<Rightarrow> query_view" where
  "session_query_summary q = \<lparr>qv_query_id = q_id q, qv_dataset_ids = q_dataset_ids q, qv_mode = q_mode q,
     qv_query_text = q_query_text q, qv_answer = q_answer q, qv_model = q_model q, qv_created_at = q_created_at q\<rparr>"

definition semantic_payload_matches :: "session_entry \<Rightarrow> entry_create_request \<Rightarrow> bool" where
  "semantic_payload_matches e r \<longleftrightarrow> se_role e = ecr_role r \<and> se_content e = ecr_content r
     \<and> metadata_eq (se_metadata e) (ecr_metadata r)"

definition admit_entry ::
  "uuid \<Rightarrow> timestamp \<Rightarrow> session \<Rightarrow> entry_create_request \<Rightarrow> session_db \<Rightarrow> exn + (entry_view \<times> session_db)" where
  "admit_entry new_id now s r d =
     (if ses_status s = Session_ARCHIVED then Inl session_archived_error
      else (let e = \<lparr>se_id = new_id, se_session_id = ses_id s, se_external_id = ecr_external_id r, se_role = ecr_role r,
                     se_content = ecr_content r, se_metadata = ecr_metadata r, se_created_at = now\<rparr> in
            bindE (entry_add e d) (\<lambda>d. Inr (session_entry_result e, d))))"

definition append_entry ::
  "uuid \<Rightarrow> timestamp \<Rightarrow> uuid \<Rightarrow> entry_create_request \<Rightarrow> session_db \<Rightarrow> exn + (entry_view \<times> session_db)" where
  "append_entry new_id now k r d =
     bindE (require_session k d) (\<lambda>s.
     case ecr_external_id r of
       None \<Rightarrow> admit_entry new_id now s r d
     | Some x \<Rightarrow>
       (case entry_by_external_id (ses_id s) x d of
          None \<Rightarrow> admit_entry new_id now s r d
        | Some existing \<Rightarrow>
          if semantic_payload_matches existing r then Inr (session_entry_result existing, d)
          else Inl session_entry_idempotency_conflict_error))"

definition list_entries :: "uuid \<Rightarrow> nat \<Rightarrow> nat \<Rightarrow> bool \<Rightarrow> session_db \<Rightarrow> exn + entry_view page" where
  "list_entries k lm off ascending d =
     bindE (require_session k d) (\<lambda>s.
     Inr \<lparr>page_items = map session_entry_result (entries_by_session (ses_id s) lm off ascending d),
          page_limit = lm, page_offset = off, page_total = count_entries (ses_id s) d\<rparr>)"

definition list_queries :: "uuid \<Rightarrow> nat \<Rightarrow> nat \<Rightarrow> session_db \<Rightarrow> exn + query_view page" where
  "list_queries k lm off d =
     bindE (require_session k d) (\<lambda>s.
     Inr \<lparr>page_items = map session_query_summary (queries_by_session (ses_id s) lm off d),
          page_limit = lm, page_offset = off, page_total = count_queries (ses_id s) d\<rparr>)"

end
