(* ===== verification/Loaders.thy ===== *)
theory Loaders
  imports Domain_Text
begin

text \<open>
  \<open>loaders/text.py\<close>: the deterministic preparation of uploaded text.  Parameters, collected in
  \<open>loader_env\<close>, are SHA-256, \<open>str.lower\<close>, \<open>json.loads\<close> with its indented \<open>json.dumps\<close>,
  the strict CSV reader and the callbacks of \<open>HTMLParser\<close> of the standard library, and what pypdf
  and python-docx read from a file.
\<close>

subsection \<open>Python text\<close>

text \<open>\<open>str.split()\<close>: the maximal runs of non-space characters.\<close>

fun py_words :: "pystr \<Rightarrow> pystr \<Rightarrow> pystr list" where
  "py_words w [] = (if w = [] then [] else [rev w])"
| "py_words w (c # s) = (if py_space c then (if w = [] then py_words [] s else rev w # py_words [] s) else py_words (c # w) s)"

definition py_split :: "pystr \<Rightarrow> pystr list" where
  "py_split s = py_words [] s"

text \<open>\<open>text.rsplit(c, 1)[-1]\<close> and the index of the last \<open>c\<close>.\<close>

definition after_last :: "nat \<Rightarrow> pystr \<Rightarrow> pystr" where
  "after_last c s = rev (takeWhile (\<lambda>x. x \<noteq> c) (rev s))"

definition path_suffix :: "pystr \<Rightarrow> pystr" where
  "path_suffix name =
     (let e = after_last 46 name in
      if length e < length name \<and> e \<noteq> [] \<and> Suc (length e) < length name then 46 # e else [])"

text \<open>\<open>bytes.decode('utf-8')\<close>, strict.\<close>

definition cont :: "nat \<Rightarrow> bool" where "cont b \<longleftrightarrow> 128 \<le> b \<and> b < 192"

fun utf8_decode :: "nat list \<Rightarrow> pystr option" where
  "utf8_decode [] = Some []"
| "utf8_decode (b # bs) =
     (if b < 128 then map_option ((#) b) (utf8_decode bs)
      else if 194 \<le> b \<and> b < 224 then
        (case bs of x # bs' \<Rightarrow> if cont x then map_option ((#) ((b - 192) * 64 + (x - 128))) (utf8_decode bs') else None
         | _ \<Rightarrow> None)
      else if 224 \<le> b \<and> b < 240 then
        (case bs of x # y # bs' \<Rightarrow>
           (let c = (b - 224) * 4096 + (x - 128) * 64 + (y - 128) in
            if cont x \<and> cont y \<and> 2048 \<le> c \<and> \<not> (55296 \<le> c \<and> c < 57344) then map_option ((#) c) (utf8_decode bs') else None)
         | _ \<Rightarrow> None)
      else if 240 \<le> b \<and> b < 245 then
        (case bs of x # y # z # bs' \<Rightarrow>
           (let c = (b - 240) * 262144 + (x - 128) * 4096 + (y - 128) * 64 + (z - 128) in
            if cont x \<and> cont y \<and> cont z \<and> 65536 \<le> c \<and> c < 1114112 then map_option ((#) c) (utf8_decode bs') else None)
         | _ \<Rightarrow> None)
      else None)"

text \<open>\<open>utf-8-sig\<close> drops one leading byte order mark.\<close>

definition utf8_sig_decode :: "nat list \<Rightarrow> pystr option" where
  "utf8_sig_decode bs = utf8_decode (if take 3 bs = [239, 187, 191] then drop 3 bs else bs)"

subsection \<open>The library boundary\<close>

datatype loader_exn = Text_File_Load_Error | Loader_Recursion_Error | Loader_Unicode_Error

datatype html_event = Start_Tag pystr | End_Tag pystr | Html_Data pystr

datatype pdf_file = Pdf_Locked | Pdf_Pages "pystr list"

datatype docx_block = Docx_Paragraph pystr | Docx_Table "pystr list list"

record loader_env =
  ld_sha256 :: "nat list \<Rightarrow> string"
  ld_lower :: "pystr \<Rightarrow> pystr"
  ld_json_loads :: "pystr \<Rightarrow> loader_exn + json"
  ld_json_dumps :: "json \<Rightarrow> pystr"
  ld_csv_rows :: "pystr \<Rightarrow> pystr list list option"
  ld_html_events :: "pystr \<Rightarrow> html_event list option"
  ld_pdf :: "nat list \<Rightarrow> pdf_file option"
  ld_docx :: "nat list \<Rightarrow> docx_block list option"

subsection \<open>File kinds\<close>

definition CSV_FILE_MIME_TYPE :: pystr where "CSV_FILE_MIME_TYPE = ascii ''text/csv''"
definition DOCX_FILE_MIME_TYPE :: pystr where
  "DOCX_FILE_MIME_TYPE = ascii ''application/vnd.openxmlformats-officedocument.wordprocessingml.document''"
definition HTML_FILE_MIME_TYPE :: pystr where "HTML_FILE_MIME_TYPE = ascii ''text/html''"
definition JSON_FILE_MIME_TYPE :: pystr where "JSON_FILE_MIME_TYPE = ascii ''application/json''"
definition PDF_FILE_MIME_TYPE :: pystr where "PDF_FILE_MIME_TYPE = ascii ''application/pdf''"
definition TEXT_FILE_MIME_TYPE :: pystr where "TEXT_FILE_MIME_TYPE = ascii ''text/plain''"
definition MARKDOWN_FILE_MIME_TYPE :: pystr where "MARKDOWN_FILE_MIME_TYPE = ascii ''text/markdown''"

definition STORAGE_EXTENSION_BY_SOURCE_EXTENSION :: "(pystr \<times> pystr) list" where
  "STORAGE_EXTENSION_BY_SOURCE_EXTENSION = map (\<lambda>(a, b). (ascii a, ascii b))
     [(''.txt'', ''.txt''), (''.md'', ''.md''), (''.markdown'', ''.md''), (''.json'', ''.json''), (''.csv'', ''.csv''),
      (''.html'', ''.html''), (''.htm'', ''.html''), (''.pdf'', ''.pdf''), (''.docx'', ''.docx'')]"

definition MIME_TYPE_BY_SOURCE_EXTENSION :: "(pystr \<times> pystr) list" where
  "MIME_TYPE_BY_SOURCE_EXTENSION = map (\<lambda>(a, m). (ascii a, m))
     [(''.txt'', TEXT_FILE_MIME_TYPE), (''.md'', MARKDOWN_FILE_MIME_TYPE), (''.markdown'', MARKDOWN_FILE_MIME_TYPE),
      (''.json'', JSON_FILE_MIME_TYPE), (''.csv'', CSV_FILE_MIME_TYPE), (''.html'', HTML_FILE_MIME_TYPE),
      (''.htm'', HTML_FILE_MIME_TYPE), (''.pdf'', PDF_FILE_MIME_TYPE), (''.docx'', DOCX_FILE_MIME_TYPE)]"

definition SUPPORTED_TEXT_FILE_EXTENSIONS :: "pystr list" where
  "SUPPORTED_TEXT_FILE_EXTENSIONS = map ascii
     [''.txt'', ''.md'', ''.markdown'', ''.json'', ''.csv'', ''.html'', ''.htm'', ''.pdf'', ''.docx'']"

text \<open>The import-time derivation of the canonical storage extension of a MIME type; None is its \<open>AssertionError\<close>.\<close>

fun extension_mapping :: "(pystr \<times> pystr) list \<Rightarrow> (pystr \<times> pystr) list \<Rightarrow> (pystr \<times> pystr) list option" where
  "extension_mapping [] mapping = Some mapping"
| "extension_mapping ((extension, mime) # rest) mapping =
     (case map_of STORAGE_EXTENSION_BY_SOURCE_EXTENSION extension of
        None \<Rightarrow> None
      | Some storage \<Rightarrow>
          (case map_of mapping mime of
             None \<Rightarrow> extension_mapping rest (mapping @ [(mime, storage)])
           | Some existing \<Rightarrow> if existing \<noteq> storage then None else extension_mapping rest mapping))"

definition build_storage_extension_by_mime_type :: "(pystr \<times> pystr) list option" where
  "build_storage_extension_by_mime_type = extension_mapping MIME_TYPE_BY_SOURCE_EXTENSION []"

definition canonical_storage_extension_for_mime_type :: "pystr \<Rightarrow> exn + pystr" where
  "canonical_storage_extension_for_mime_type mime =
     (case build_storage_extension_by_mime_type of
        None \<Rightarrow> Inl Assertion_Error
      | Some mapping \<Rightarrow> (case map_of mapping mime of None \<Rightarrow> Inl Value_Error | Some e \<Rightarrow> Inr e))"

definition HTML_BLOCK_TAGS :: "pystr list" where
  "HTML_BLOCK_TAGS = map ascii [''address'', ''article'', ''aside'', ''blockquote'', ''br'', ''caption'', ''dd'', ''div'',
     ''dl'', ''dt'', ''figcaption'', ''figure'', ''footer'', ''h1'', ''h2'', ''h3'', ''h4'', ''h5'', ''h6'', ''header'',
     ''hr'', ''li'', ''main'', ''nav'', ''ol'', ''p'', ''pre'', ''section'', ''table'', ''tbody'', ''td'', ''tfoot'',
     ''th'', ''thead'', ''tr'', ''ul'']"

definition HTML_IGNORED_TAGS :: "pystr list" where
  "HTML_IGNORED_TAGS = map ascii [''script'', ''style'', ''noscript'']"

subsection \<open>Prepared text\<close>

record prepared_text =
  pt_original_bytes :: "nat list"
  pt_normalized_text :: pystr
  pt_content_sha256 :: string
  pt_normalized_sha256 :: string
  pt_byte_size :: int

record prepared_text_file =
  pf_original_filename :: pystr
  pf_storage_extension :: pystr
  pf_mime_type :: pystr
  pf_text :: prepared_text

definition prepare_text_bytes :: "loader_env \<Rightarrow> nat list \<Rightarrow> pystr \<Rightarrow> loader_exn + prepared_text" where
  "prepare_text_bytes env original decoded =
     (let normalized = normalize_newlines decoded in
      case utf8 normalized of
        None \<Rightarrow> Inl Loader_Unicode_Error
      | Some bs \<Rightarrow> Inr \<lparr>pt_original_bytes = original, pt_normalized_text = normalized,
          pt_content_sha256 = ld_sha256 env original, pt_normalized_sha256 = ld_sha256 env bs,
          pt_byte_size = int (length original)\<rparr>)"

definition prepare_text_content :: "loader_env \<Rightarrow> pystr \<Rightarrow> loader_exn + prepared_text" where
  "prepare_text_content env content =
     (case utf8 content of None \<Rightarrow> Inl Loader_Unicode_Error | Some bs \<Rightarrow> prepare_text_bytes env bs content)"

definition contains_disallowed_control_characters :: "pystr \<Rightarrow> bool" where
  "contains_disallowed_control_characters s \<longleftrightarrow> list_ex (\<lambda>c. c < 32 \<and> c \<notin> {9, 10, 13, 12}) s"

definition sanitize_upload_filename :: "pystr option \<Rightarrow> loader_exn + pystr" where
  "sanitize_upload_filename filename =
     (let raw = (case filename of None \<Rightarrow> [] | Some f \<Rightarrow> f);
          last_part = after_last 47 (map (\<lambda>c. if c = 92 then 47 else c) raw);
          candidate = py_strip (filter (\<lambda>c. c \<noteq> 0) last_part)
      in if candidate = [] \<or> candidate \<in> {ascii ''.'', ascii ''..''} then Inl Text_File_Load_Error else Inr candidate)"

definition decode_utf8_text :: "nat list \<Rightarrow> loader_exn + pystr" where
  "decode_utf8_text original = (case utf8_sig_decode original of None \<Rightarrow> Inl Text_File_Load_Error | Some s \<Rightarrow> Inr s)"

definition without_nul :: "pystr \<Rightarrow> pystr" where "without_nul s = filter (\<lambda>c. c \<noteq> 0) s"

definition normalize_json_text :: "loader_env \<Rightarrow> pystr \<Rightarrow> loader_exn + pystr" where
  "normalize_json_text env decoded = bindE (ld_json_loads env decoded) (\<lambda>j. Inr (ld_json_dumps env j @ [10]))"

definition normalize_csv_text :: "loader_env \<Rightarrow> pystr \<Rightarrow> loader_exn + pystr" where
  "normalize_csv_text env decoded =
     (let normalized = normalize_newlines (without_nul decoded) in
      if py_strip normalized = [] then Inl Text_File_Load_Error
      else case ld_csv_rows env normalized of
          None \<Rightarrow> Inl Text_File_Load_Error
        | Some rows \<Rightarrow>
            if rows = [] then Inl Text_File_Load_Error
            else if contains_disallowed_control_characters normalized then Inl Text_File_Load_Error
            else Inr normalized)"

subsection \<open>Visible HTML text\<close>

text \<open>\<open>VisibleHTMLTextParser\<close>: the parts collected and the depth of ignored elements.\<close>

record html_state =
  hs_parts :: "pystr list"
  hs_ignored_depth :: nat

definition html_separator :: "html_state \<Rightarrow> html_state" where
  "html_separator st = (if hs_parts st \<noteq> [] \<and> last (hs_parts st) \<noteq> [10] then st\<lparr>hs_parts := hs_parts st @ [[10]]\<rparr> else st)"

fun handle_event :: "loader_env \<Rightarrow> html_event \<Rightarrow> html_state \<Rightarrow> html_state" where
  "handle_event env (Start_Tag tag) st =
     (if ld_lower env tag \<in> set HTML_IGNORED_TAGS then st\<lparr>hs_ignored_depth := Suc (hs_ignored_depth st)\<rparr>
      else if ld_lower env tag \<in> set HTML_BLOCK_TAGS then html_separator st else st)"
| "handle_event env (End_Tag tag) st =
     (if ld_lower env tag \<in> set HTML_IGNORED_TAGS \<and> hs_ignored_depth st > 0
      then st\<lparr>hs_ignored_depth := hs_ignored_depth st - 1\<rparr>
      else if ld_lower env tag \<in> set HTML_BLOCK_TAGS then html_separator st else st)"
| "handle_event env (Html_Data s) st =
     (if hs_ignored_depth st > 0 then st
      else let collapsed = py_join [32] (py_split s) in
           if collapsed = [] then st else st\<lparr>hs_parts := hs_parts st @ [collapsed]\<rparr>)"

definition join_inline_text :: "pystr list \<Rightarrow> pystr" where
  "join_inline_text parts = foldl (\<lambda>acc part.
     if acc = [] then part
     else if part \<noteq> [] \<and> hd part \<in> set (ascii ''.,;:!?)]}'') then acc @ part
     else acc @ [32] @ part) [] parts"

fun html_lines :: "pystr list \<Rightarrow> pystr list \<Rightarrow> pystr list" where
  "html_lines current [] = (if current = [] then [] else [join_inline_text current])"
| "html_lines current (part # parts) =
     (if part = [10] then (if current = [] then html_lines [] parts else join_inline_text current # html_lines [] parts)
      else html_lines (current @ [part]) parts)"

definition visible_text :: "html_state \<Rightarrow> pystr" where
  "visible_text st = py_strip (py_join [10] (filter (\<lambda>l. l \<noteq> []) (html_lines [] (hs_parts st))))"

definition normalize_html_text :: "loader_env \<Rightarrow> pystr \<Rightarrow> loader_exn + pystr" where
  "normalize_html_text env decoded =
     (let s = without_nul decoded in
      if contains_disallowed_control_characters s then Inl Text_File_Load_Error
      else case ld_html_events env s of
          None \<Rightarrow> Inl Text_File_Load_Error
        | Some events \<Rightarrow>
            (let t = visible_text (fold (handle_event env) events \<lparr>hs_parts = [], hs_ignored_depth = 0\<rparr>) in
             if t = [] then Inl Text_File_Load_Error else Inr t))"

definition normalized_text_for_extension :: "loader_env \<Rightarrow> pystr \<Rightarrow> pystr \<Rightarrow> loader_exn + pystr" where
  "normalized_text_for_extension env ext decoded =
     (if ext = ascii ''.json'' then normalize_json_text env decoded
      else if ext = ascii ''.csv'' then normalize_csv_text env decoded
      else if ext \<in> {ascii ''.html'', ascii ''.htm''} then normalize_html_text env decoded
      else let s = without_nul decoded in
           if contains_disallowed_control_characters s then Inl Text_File_Load_Error else Inr (normalize_newlines s))"

subsection \<open>PDF and DOCX\<close>

definition extract_pdf_text :: "loader_env \<Rightarrow> nat list \<Rightarrow> loader_exn + pystr" where
  "extract_pdf_text env original =
     (case ld_pdf env original of
        None \<Rightarrow> Inl Text_File_Load_Error
      | Some Pdf_Locked \<Rightarrow> Inl Text_File_Load_Error
      | Some (Pdf_Pages pages) \<Rightarrow>
          (let texts = map (\<lambda>p. py_strip (normalize_newlines p)) pages;
               extracted = py_join [10, 10] (filter (\<lambda>p. p \<noteq> []) texts)
           in if extracted = [] then Inl Text_File_Load_Error else Inr extracted))"

definition normalize_docx_cell_text :: "pystr \<Rightarrow> pystr" where
  "normalize_docx_cell_text s = py_join [32] (py_split (normalize_newlines s))"

definition docx_table_text :: "pystr list list \<Rightarrow> pystr" where
  "docx_table_text rows = py_join [10] (concat (map (\<lambda>cells.
     let cell_texts = map normalize_docx_cell_text (filter (\<lambda>c. py_strip c \<noteq> []) cells) in
     if cell_texts = [] then [] else [py_join [9] cell_texts]) rows))"

fun docx_element_text :: "docx_block \<Rightarrow> pystr list" where
  "docx_element_text (Docx_Table rows) = (if py_strip (docx_table_text rows) \<noteq> [] then [docx_table_text rows] else [])"
| "docx_element_text (Docx_Paragraph s) = (if py_strip s \<noteq> [] then [py_strip s] else [])"

definition extract_docx_text :: "loader_env \<Rightarrow> nat list \<Rightarrow> loader_exn + pystr" where
  "extract_docx_text env original =
     (case ld_docx env original of
        None \<Rightarrow> Inl Text_File_Load_Error
      | Some elements \<Rightarrow>
          (let blocks = concat (map docx_element_text elements);
               extracted = py_strip (py_join [10] (filter (\<lambda>b. py_strip b \<noteq> []) blocks))
           in if extracted = [] then Inl Text_File_Load_Error else Inr (normalize_newlines extracted)))"

definition prepare_text_file_content :: "loader_env \<Rightarrow> pystr option \<Rightarrow> nat list \<Rightarrow> loader_exn + prepared_text_file" where
  "prepare_text_file_content env filename original =
     bindE (sanitize_upload_filename filename) (\<lambda>name.
       let ext = ld_lower env (path_suffix name) in
       if ext \<notin> set SUPPORTED_TEXT_FILE_EXTENSIONS then Inl Text_File_Load_Error
       else bindE (if ext = ascii ''.pdf'' then extract_pdf_text env original
                   else if ext = ascii ''.docx'' then extract_docx_text env original
                   else bindE (decode_utf8_text original) (normalized_text_for_extension env ext)) (\<lambda>normalized.
         if normalized = [] then Inl Text_File_Load_Error
         else if contains_disallowed_control_characters normalized then Inl Text_File_Load_Error
         else bindE (prepare_text_bytes env original normalized) (\<lambda>t.
           Inr \<lparr>pf_original_filename = name,
                pf_storage_extension = the (map_of STORAGE_EXTENSION_BY_SOURCE_EXTENSION ext),
                pf_mime_type = the (map_of MIME_TYPE_BY_SOURCE_EXTENSION ext), pf_text = t\<rparr>)))"

end
