(* ===== verification/Chunking.thy ===== *)
theory Chunking
  imports Domain_Text
begin

text \<open>
  \<open>pipelines/chunking.py\<close>: the deterministic, offset-preserving split of a normalized document into
  chunks.  The tiktoken encoding, \<open>uuid5\<close> and SHA-256 are parameters; an encoding may raise
  (tiktoken refuses the text of a special token with a \<open>ValueError\<close>).  Positions are Python
  integers.
\<close>

record chunk_env =
  cke_py :: py_env
  cke_uuid5 :: "uuid \<Rightarrow> pystr \<Rightarrow> uuid"
  cke_encode :: "pystr \<Rightarrow> exn + nat list"

record text_chunk =
  tc_id :: uuid
  tc_ordinal :: int
  tc_text :: pystr
  tc_content_sha256 :: string
  tc_token_count :: int
  tc_start_char :: int
  tc_end_char :: int
  tc_section_path :: "pystr list"

definition CHUNK_ALGORITHM_VERSION :: pystr where "CHUNK_ALGORITHM_VERSION = ascii ''1''"
definition CHUNK_HASH_SEPARATOR :: pystr where "CHUNK_HASH_SEPARATOR = [31]"

definition NAMESPACE_URL :: uuid where "NAMESPACE_URL = 0x6ba7b8119dad11d180b400c04fd430c8"

definition CHUNK_ID_NAMESPACE :: "chunk_env \<Rightarrow> uuid" where
  "CHUNK_ID_NAMESPACE env = cke_uuid5 env NAMESPACE_URL (ascii ''sofias-memory:chunk:v1'')"

definition tok_count :: "chunk_env \<Rightarrow> pystr \<Rightarrow> exn + int" where
  "tok_count env text = (if text = [] then Inr 0 else bindE (cke_encode env text) (\<lambda>ts. Inr (int (length ts))))"

definition document_token_count :: "chunk_env \<Rightarrow> pystr \<Rightarrow> exn + int" where
  "document_token_count env text = tok_count env text"

text \<open>\<open>text[a:b]\<close> and \<open>text.rfind(sub, lo, hi)\<close> at non-negative positions.\<close>

definition py_slice :: "pystr \<Rightarrow> int \<Rightarrow> int \<Rightarrow> pystr" where
  "py_slice text a b = drop (nat a) (take (nat b) text)"

definition py_rfind :: "pystr \<Rightarrow> pystr \<Rightarrow> int \<Rightarrow> int \<Rightarrow> int" where
  "py_rfind text sub lo hi =
     (case List.find (\<lambda>i. py_slice text i (i + int (length sub)) = sub)
             (rev [lo..min hi (int (length text)) - int (length sub)]) of
        None \<Rightarrow> -1 | Some i \<Rightarrow> i)"

lemma bindE_cong [fundef_cong]:
  "m = m' \<Longrightarrow> (\<And>x. m' = Inr x \<Longrightarrow> f x = f' x) \<Longrightarrow> bindE m f = bindE m' f'"
  by (cases m') auto

subsection \<open>Where a chunk ends\<close>

function max_end_search :: "chunk_env \<Rightarrow> pystr \<Rightarrow> int \<Rightarrow> int \<Rightarrow> int \<Rightarrow> int \<Rightarrow> int \<Rightarrow> exn + int" where
  "max_end_search env text start max_tokens low high best =
     (if low \<le> high then
        let mid = (low + high) div 2 in
        bindE (tok_count env (py_slice text start mid)) (\<lambda>n.
          if n \<le> max_tokens then max_end_search env text start max_tokens (mid + 1) high mid
          else max_end_search env text start max_tokens low (mid - 1) best)
      else Inr best)"
  by pat_completeness auto
termination
  by (relation "measure (\<lambda>(_, _, _, _, low, high, _). nat (high - low + 1))") auto

declare max_end_search.simps [simp del]

definition max_end_for_token_limit :: "chunk_env \<Rightarrow> pystr \<Rightarrow> int \<Rightarrow> int \<Rightarrow> exn + int" where
  "max_end_for_token_limit env text start max_tokens =
     bindE (tok_count env (py_slice text start (int (length text)))) (\<lambda>n.
       if n \<le> max_tokens then Inr (int (length text))
       else max_end_search env text start max_tokens (start + 1) (int (length text)) (start + 1))"

definition preferred_cut :: "pystr \<Rightarrow> int \<Rightarrow> int \<Rightarrow> int" where
  "preferred_cut text start max_end =
     (let p = py_rfind text [10, 10] (start + 1) (max_end + 1) in
      if p > start then p + 2
      else let q = py_rfind text [10] (start + 1) (max_end + 1) in
           if q > start then q + 1 else max_end)"

subsection \<open>Where the next chunk starts\<close>

function overlap_search :: "chunk_env \<Rightarrow> pystr \<Rightarrow> int \<Rightarrow> int \<Rightarrow> int \<Rightarrow> int \<Rightarrow> int \<Rightarrow> exn + int" where
  "overlap_search env text stop overlap_tokens low high best =
     (if low \<le> high then
        let mid = (low + high) div 2 in
        bindE (tok_count env (py_slice text mid stop)) (\<lambda>n.
          if n \<le> overlap_tokens then overlap_search env text stop overlap_tokens low (mid - 1) mid
          else overlap_search env text stop overlap_tokens (mid + 1) high best)
      else Inr best)"
  by pat_completeness auto
termination
  by (relation "measure (\<lambda>(_, _, _, _, low, high, _). nat (high - low + 1))") auto

declare overlap_search.simps [simp del]

definition overlap_start :: "chunk_env \<Rightarrow> pystr \<Rightarrow> int \<Rightarrow> int \<Rightarrow> int \<Rightarrow> exn + int" where
  "overlap_start env text start stop overlap_tokens =
     (if overlap_tokens = 0 then Inr stop
      else bindE (tok_count env (py_slice text start stop)) (\<lambda>n.
        if n \<le> overlap_tokens then Inr stop
        else overlap_search env text stop overlap_tokens start stop stop))"

text \<open>A character of a \<open>str\<close> is a string of length one, so the loop of \<open>_next_non_empty_start\<close> never
  advances.\<close>

definition next_non_empty_start :: "pystr \<Rightarrow> int \<Rightarrow> int" where
  "next_non_empty_start text start = start"

subsection \<open>The spans\<close>

function chunk_spans :: "chunk_env \<Rightarrow> pystr \<Rightarrow> int \<Rightarrow> int \<Rightarrow> int \<Rightarrow> exn + (int \<times> int) list" where
  "chunk_spans env text max_tokens overlap_tokens start =
     (if start < int (length text) then
        bindE (max_end_for_token_limit env text start max_tokens) (\<lambda>max_end.
          if max_end \<le> start then Inr []
          else
            let cut = (if max_end = int (length text) then int (length text) else preferred_cut text start max_end);
                stop = (if cut \<le> start then max_end else cut);
                here = (if py_slice text start stop \<noteq> [] then [(start, stop)] else [])
            in if stop \<ge> int (length text) then Inr here
               else bindE (overlap_start env text start stop overlap_tokens) (\<lambda>next_start0.
                 let next_start = (if next_start0 \<le> start then stop else next_start0) in
                 bindE (chunk_spans env text max_tokens overlap_tokens (next_non_empty_start text next_start))
                   (\<lambda>rest. Inr (here @ rest))))
      else Inr [])"
  by pat_completeness auto
termination
  by (relation "measure (\<lambda>(_, text, _, _, start). nat (int (length text) - start))")
     (auto simp: next_non_empty_start_def split: if_splits)

declare chunk_spans.simps [simp del]

definition merge_small_tail ::
  "chunk_env \<Rightarrow> pystr \<Rightarrow> (int \<times> int) list \<Rightarrow> int \<Rightarrow> int \<Rightarrow> exn + (int \<times> int) list" where
  "merge_small_tail env text spans max_tokens min_tokens =
     (if length spans < 2 then Inr spans
      else
        let (last_start, last_end) = last spans; previous_start = fst (last (butlast spans)) in
        bindE (tok_count env (py_slice text last_start last_end)) (\<lambda>n.
          if n \<ge> min_tokens then Inr spans
          else bindE (tok_count env (py_slice text previous_start last_end)) (\<lambda>m.
            if m \<le> max_tokens then Inr (butlast (butlast spans) @ [(previous_start, last_end)])
            else Inr spans)))"

subsection \<open>Chunks\<close>

definition chunk_content_hash :: "chunk_env \<Rightarrow> pystr \<Rightarrow> exn + string" where
  "chunk_content_hash env text =
     (case utf8 (CHUNK_ALGORITHM_VERSION @ CHUNK_HASH_SEPARATOR @ text) of
        None \<Rightarrow> Inl Value_Error
      | Some bs \<Rightarrow> Inr (sha256_hexdigest (cke_py env) bs))"

definition text_chunk_id :: "chunk_env \<Rightarrow> uuid \<Rightarrow> int \<Rightarrow> int \<Rightarrow> string \<Rightarrow> uuid" where
  "text_chunk_id env document_id generation ordinal digest = cke_uuid5 env (CHUNK_ID_NAMESPACE env)
     (uuid_text document_id @ [58] @ dec_int generation @ [58] @ dec_int ordinal @ [58] @ ascii digest)"

fun materialize_chunks ::
  "chunk_env \<Rightarrow> pystr \<Rightarrow> uuid \<Rightarrow> int \<Rightarrow> int \<Rightarrow> (int \<times> int) list \<Rightarrow> exn + text_chunk list" where
  "materialize_chunks env text document_id generation ordinal [] = Inr []"
| "materialize_chunks env text document_id generation ordinal ((start, stop) # spans) =
     (let chunk_text = py_slice text start stop in
      if chunk_text = [] then materialize_chunks env text document_id generation (ordinal + 1) spans
      else bindE (chunk_content_hash env chunk_text) (\<lambda>digest.
        bindE (tok_count env chunk_text) (\<lambda>n.
          bindE (materialize_chunks env text document_id generation (ordinal + 1) spans) (\<lambda>rest.
            Inr (\<lparr>tc_id = text_chunk_id env document_id generation ordinal digest, tc_ordinal = ordinal,
                  tc_text = chunk_text, tc_content_sha256 = digest, tc_token_count = n,
                  tc_start_char = start, tc_end_char = stop, tc_section_path = []\<rparr> # rest)))))"

definition chunk_document_text ::
  "chunk_env \<Rightarrow> pystr \<Rightarrow> uuid \<Rightarrow> int \<Rightarrow> int \<Rightarrow> int \<Rightarrow> int \<Rightarrow> exn + text_chunk list" where
  "chunk_document_text env text document_id generation max_tokens overlap_tokens min_tokens =
     (if max_tokens \<le> 0 then Inl Value_Error
      else if overlap_tokens < 0 \<or> overlap_tokens \<ge> max_tokens then Inl Value_Error
      else if min_tokens \<le> 0 \<or> min_tokens > max_tokens then Inl Value_Error
      else bindE (chunk_spans env text max_tokens overlap_tokens (next_non_empty_start text 0)) (\<lambda>spans.
        bindE (merge_small_tail env text spans max_tokens min_tokens) (\<lambda>spans'.
          materialize_chunks env text document_id generation 0 spans')))"

end
