(* ===== verification/Knowledge_Extraction.thy ===== *)
theory Knowledge_Extraction
  imports Loaders
begin

text \<open>
  \<open>schemas/knowledge.py\<close>: the extraction contract of one chunk, its validators and the canonical
  identities of entities and relations.  NFKC normalization, case folding and the word characters of
  \<open>re\<close> are the Unicode tables of the standard library, parameters of \<open>text_tables\<close>.
\<close>

record text_tables =
  tt_nfkc :: "pystr \<Rightarrow> pystr"
  tt_casefold :: "pystr \<Rightarrow> pystr"
  tt_word :: "nat \<Rightarrow> bool"

record extracted_entity =
  xe_local_id :: pystr
  xe_name :: pystr
  xe_entity_type :: pystr
  xe_description :: pystr
  xe_aliases :: "pystr list"
  xe_confidence :: rat

record extracted_relation =
  xr_source_local_id :: pystr
  xr_target_local_id :: pystr
  xr_predicate :: pystr
  xr_description :: pystr
  xr_confidence :: rat
  xr_evidence :: pystr

record chunk_extraction =
  kx_summary :: pystr
  kx_entities :: "extracted_entity list"
  kx_relations :: "extracted_relation list"

subsection \<open>Canonical identities\<close>

definition normalize_identity_text :: "text_tables \<Rightarrow> pystr \<Rightarrow> pystr" where
  "normalize_identity_text tt value = tt_casefold tt (py_join [32] (py_split (py_strip (tt_nfkc tt value))))"

definition canonical_entity_key :: "text_tables \<Rightarrow> pystr \<Rightarrow> pystr \<Rightarrow> exn + pystr" where
  "canonical_entity_key tt entity_type name =
     (let t = normalize_identity_text tt entity_type; n = normalize_identity_text tt name in
      if t = [] \<or> n = [] then Inl Value_Error else Inr (t @ [58] @ n))"

text \<open>\<open>re.sub(r'[...]+', '_', s)\<close>: every maximal run of a character class is one replacement.\<close>

fun sub_runs :: "(nat \<Rightarrow> bool) \<Rightarrow> nat \<Rightarrow> bool \<Rightarrow> pystr \<Rightarrow> pystr" where
  "sub_runs P r inside [] = []"
| "sub_runs P r inside (c # s) =
     (if P c then (if inside then sub_runs P r True s else r # sub_runs P r True s) else c # sub_runs P r False s)"

definition strip_chars :: "(nat \<Rightarrow> bool) \<Rightarrow> pystr \<Rightarrow> pystr" where
  "strip_chars P s = dropWhile P (rev (dropWhile P (rev s)))"

definition normalize_relation_predicate :: "text_tables \<Rightarrow> pystr \<Rightarrow> pystr" where
  "normalize_relation_predicate tt predicate =
     (let a = tt_casefold tt (py_strip (tt_nfkc tt predicate));
          b = sub_runs (\<lambda>c. py_space c \<or> c = 45) 95 False a;
          c = sub_runs (\<lambda>x. \<not> tt_word tt x) 95 False b
      in strip_chars (\<lambda>x. x = 95) c)"

subsection \<open>Validators\<close>

definition strip_required_text :: "pystr \<Rightarrow> exn + pystr" where
  "strip_required_text value = (let s = py_strip value in if s = [] then Inl Value_Error else Inr s)"

definition normalize_aliases :: "pystr list \<Rightarrow> pystr list" where
  "normalize_aliases values = dict_fromkeys (map py_strip (filter (\<lambda>v. py_strip v \<noteq> []) values))"

definition unit_interval :: "rat \<Rightarrow> bool" where "unit_interval q \<longleftrightarrow> 0 \<le> q \<and> q \<le> 1"

definition validate_extracted_entity :: "extracted_entity \<Rightarrow> exn + extracted_entity" where
  "validate_extracted_entity e =
     bindE (strip_required_text (xe_local_id e)) (\<lambda>l. bindE (strip_required_text (xe_name e)) (\<lambda>n.
     bindE (strip_required_text (xe_entity_type e)) (\<lambda>t. bindE (strip_required_text (xe_description e)) (\<lambda>d.
       if \<not> unit_interval (xe_confidence e) then Inl Value_Error
       else Inr \<lparr>xe_local_id = l, xe_name = n, xe_entity_type = t, xe_description = d,
              xe_aliases = normalize_aliases (xe_aliases e), xe_confidence = xe_confidence e\<rparr>))))"

definition validate_extracted_relation :: "text_tables \<Rightarrow> extracted_relation \<Rightarrow> exn + extracted_relation" where
  "validate_extracted_relation tt r =
     bindE (strip_required_text (xr_source_local_id r)) (\<lambda>s. bindE (strip_required_text (xr_target_local_id r)) (\<lambda>t.
     bindE (strip_required_text (xr_predicate r)) (\<lambda>p. bindE (strip_required_text (xr_description r)) (\<lambda>d.
     bindE (strip_required_text (xr_evidence r)) (\<lambda>ev.
       if normalize_relation_predicate tt p = [] then Inl Value_Error
       else if \<not> unit_interval (xr_confidence r) then Inl Value_Error
       else Inr \<lparr>xr_source_local_id = s, xr_target_local_id = t, xr_predicate = p, xr_description = d,
              xr_confidence = xr_confidence r, xr_evidence = ev\<rparr>)))))"

definition validate_local_graph :: "chunk_extraction \<Rightarrow> exn + chunk_extraction" where
  "validate_local_graph x =
     (let ids = map xe_local_id (kx_entities x) in
      if \<not> distinct ids then Inl Value_Error
      else if list_ex (\<lambda>r. xr_source_local_id r \<notin> set ids \<or> xr_target_local_id r \<notin> set ids
             \<or> xr_source_local_id r = xr_target_local_id r) (kx_relations x) then Inl Value_Error
      else Inr x)"

fun mapE :: "('a \<Rightarrow> exn + 'b) \<Rightarrow> 'a list \<Rightarrow> exn + 'b list" where
  "mapE f [] = Inr []"
| "mapE f (x # xs) = bindE (f x) (\<lambda>y. bindE (mapE f xs) (\<lambda>ys. Inr (y # ys)))"

definition validate_chunk_extraction :: "text_tables \<Rightarrow> chunk_extraction \<Rightarrow> exn + chunk_extraction" where
  "validate_chunk_extraction tt x =
     bindE (strip_required_text (kx_summary x)) (\<lambda>s.
     bindE (mapE validate_extracted_entity (kx_entities x)) (\<lambda>es.
     bindE (mapE (validate_extracted_relation tt) (kx_relations x)) (\<lambda>rs.
       validate_local_graph \<lparr>kx_summary = s, kx_entities = es, kx_relations = rs\<rparr>)))"

text \<open>\<open>sub in text\<close>.\<close>

definition py_contains :: "pystr \<Rightarrow> pystr \<Rightarrow> bool" where
  "py_contains sub t \<longleftrightarrow> list_ex (\<lambda>i. take (length sub) (drop i t) = sub) [0..<Suc (length t)]"

definition validate_extraction_for_chunk :: "chunk_extraction \<Rightarrow> pystr \<Rightarrow> exn + chunk_extraction" where
  "validate_extraction_for_chunk x chunk_text =
     (if list_ex (\<lambda>e. list_ex (\<lambda>a. \<not> py_contains a chunk_text) (xe_aliases e)) (kx_entities x) then Inl Value_Error
      else if list_ex (\<lambda>r. \<not> py_contains (xr_evidence r) chunk_text) (kx_relations x) then Inl Value_Error
      else Inr x)"

subsection \<open>Facts of the contract\<close>

lemma mapE_Inr: "mapE f xs = Inr ys \<longleftrightarrow> list_all2 (\<lambda>x y. f x = Inr y) xs ys"
  by (induction xs arbitrary: ys) (auto simp: bindE_eq_Inr_iff list_all2_Cons1)

lemma mapE_mem: "mapE f xs = Inr ys \<Longrightarrow> y \<in> set ys \<Longrightarrow> \<exists>x \<in> set xs. f x = Inr y"
  by (induction xs arbitrary: ys) (auto simp: bindE_eq_Inr_iff)

lemma strip_required_Inr: "strip_required_text v = Inr s \<Longrightarrow> s \<noteq> []"
  by (auto simp: strip_required_text_def Let_def split: if_splits)

lemma validated_entity:
  assumes "validate_extracted_entity e = Inr e'"
  shows "xe_name e' \<noteq> [] \<and> xe_entity_type e' \<noteq> [] \<and> unit_interval (xe_confidence e')"
  using assms by (auto simp: validate_extracted_entity_def bindE_eq_Inr_iff dest!: strip_required_Inr split: if_splits)

lemma validated_relation:
  assumes "validate_extracted_relation tt r = Inr r'"
  shows "normalize_relation_predicate tt (xr_predicate r') \<noteq> [] \<and> unit_interval (xr_confidence r')"
  using assms by (auto simp: validate_extracted_relation_def bindE_eq_Inr_iff split: if_splits)

text \<open>What a validated extraction promises its consumers.\<close>

definition extraction_ok :: "text_tables \<Rightarrow> chunk_extraction \<Rightarrow> bool" where
  "extraction_ok tt x \<longleftrightarrow> kx_summary x \<noteq> [] \<and> distinct (map xe_local_id (kx_entities x))
     \<and> (\<forall>e \<in> set (kx_entities x). xe_name e \<noteq> [] \<and> xe_entity_type e \<noteq> [] \<and> unit_interval (xe_confidence e))
     \<and> (\<forall>r \<in> set (kx_relations x). xr_source_local_id r \<in> xe_local_id ` set (kx_entities x)
          \<and> xr_target_local_id r \<in> xe_local_id ` set (kx_entities x) \<and> xr_source_local_id r \<noteq> xr_target_local_id r
          \<and> normalize_relation_predicate tt (xr_predicate r) \<noteq> [] \<and> unit_interval (xr_confidence r))"

lemma validated_extraction_ok:
  assumes "validate_chunk_extraction tt x = Inr y"
  shows "extraction_ok tt y"
proof -
  from assms obtain s es rs where r: "strip_required_text (kx_summary x) = Inr s" "mapE validate_extracted_entity (kx_entities x) = Inr es"
    "mapE (validate_extracted_relation tt) (kx_relations x) = Inr rs"
    "validate_local_graph \<lparr>kx_summary = s, kx_entities = es, kx_relations = rs\<rparr> = Inr y"
    by (auto simp: validate_chunk_extraction_def bindE_eq_Inr_iff)
  have y: "y = \<lparr>kx_summary = s, kx_entities = es, kx_relations = rs\<rparr>" "distinct (map xe_local_id es)"
    "\<forall>r \<in> set rs. xr_source_local_id r \<in> set (map xe_local_id es) \<and> xr_target_local_id r \<in> set (map xe_local_id es)
       \<and> xr_source_local_id r \<noteq> xr_target_local_id r"
    using r(4) by (auto simp: validate_local_graph_def Let_def list_ex_iff split: if_splits)
  have "\<forall>e \<in> set es. xe_name e \<noteq> [] \<and> xe_entity_type e \<noteq> [] \<and> unit_interval (xe_confidence e)"
    using mapE_mem[OF r(2)] validated_entity by blast
  moreover have "\<forall>q \<in> set rs. normalize_relation_predicate tt (xr_predicate q) \<noteq> [] \<and> unit_interval (xr_confidence q)"
    using mapE_mem[OF r(3)] validated_relation by blast
  moreover have "s \<noteq> []" using strip_required_Inr[OF r(1)] .
  ultimately show ?thesis using y by (simp add: extraction_ok_def)
qed

text \<open>The colon that joins type and name is not excluded from either, so the key does not determine the pair.\<close>

lemma canonical_key_collision:
  assumes "tt_nfkc tt = id" "tt_casefold tt = id"
  shows "canonical_entity_key tt (ascii ''a'') (ascii ''b:c'') = canonical_entity_key tt (ascii ''a:b'') (ascii ''c'')"
  using assms by (simp add: canonical_entity_key_def normalize_identity_text_def py_split_def py_strip_def py_lstrip_def
      py_rstrip_def py_space_def ascii_def)

end
