(* ===== verification/Cognify_Prepare.thy ===== *)
theory Cognify_Prepare
  imports Chunking Knowledge_Extraction Forget_Mutation
begin

text \<open>
  The external phase of \<open>services/cognify.py\<close>: selecting and deciding the sources of a run,
  chunking, calling the embedding, extraction and summary clients and the source storage, and
  resolving canonical identities against the tables and the rest of the batch.  It writes nothing.
  Clients are function-valued and answer per source; each short read-only transaction sees its own
  state of the tables.
\<close>

definition dependency_unavailable_error :: exn where
  "dependency_unavailable_error = Sofias_Memory_Error DEPENDENCY_UNAVAILABLE 503"

definition snapshot_persistence_error :: exn where
  "snapshot_persistence_error = Sofias_Memory_Error INTERNAL_ERROR 500"

definition cognify_dataset_not_found_error :: exn where
  "cognify_dataset_not_found_error = Sofias_Memory_Error INVALID_REQUEST 404"

definition invalid_run_input_error :: exn where
  "invalid_run_input_error = Sofias_Memory_Error INTERNAL_ERROR 500"

fun is_sofias_error :: "exn \<Rightarrow> bool" where
  "is_sofias_error (Sofias_Memory_Error _ _) = True"
| "is_sofias_error _ = False"

subsection \<open>Versions and markers\<close>

definition KNOWLEDGE_EXTRACTION_VERSION :: pystr where "KNOWLEDGE_EXTRACTION_VERSION = ascii ''v1''"
definition GRAPH_EXTRACTION_PROMPT_VERSION :: pystr where "GRAPH_EXTRACTION_PROMPT_VERSION = ascii ''v1''"
definition DOCUMENT_SUMMARY_VERSION :: pystr where "DOCUMENT_SUMMARY_VERSION = ascii ''v1''"
definition DOCUMENT_SUMMARY_PROMPT_VERSION :: pystr where "DOCUMENT_SUMMARY_PROMPT_VERSION = ascii ''v1''"
definition UNDETERMINED_LANGUAGE :: string where "UNDETERMINED_LANGUAGE = ''und''"
definition REBUILD_DOCUMENT_NAMESPACE :: pystr where "REBUILD_DOCUMENT_NAMESPACE = ascii ''cognify-rebuild-document''"

definition SOURCE_EXTENSION_BY_MIME_TYPE :: "(pystr \<times> pystr) list" where
  "SOURCE_EXTENSION_BY_MIME_TYPE = map (\<lambda>(m, e). (m, ascii e))
     [(TEXT_FILE_MIME_TYPE, ''.txt''), (MARKDOWN_FILE_MIME_TYPE, ''.md''), (JSON_FILE_MIME_TYPE, ''.json''),
      (CSV_FILE_MIME_TYPE, ''.csv''), (HTML_FILE_MIME_TYPE, ''.html''), (PDF_FILE_MIME_TYPE, ''.pdf''),
      (DOCX_FILE_MIME_TYPE, ''.docx'')]"

text \<open>A JSONB object column is the list of its members.\<close>

definition mget :: "(pystr \<times> json) list \<Rightarrow> string \<Rightarrow> json option" where
  "mget m k = map_of m (ascii k)"

fun marker_members :: "json option \<Rightarrow> (pystr \<times> json) list option" where
  "marker_members (Some (JObj m)) = Some m"
| "marker_members _ = None"

definition has_text :: "(pystr \<times> json) list \<Rightarrow> string \<Rightarrow> pystr \<Rightarrow> bool" where
  "has_text m k v \<longleftrightarrow> mget m k = Some (JStr v)"

definition is_chunk_knowledge_extracted :: "(pystr \<times> json) list \<Rightarrow> bool" where
  "is_chunk_knowledge_extracted metadata \<longleftrightarrow> (case marker_members (mget metadata ''knowledge_extraction'') of
     None \<Rightarrow> False
   | Some m \<Rightarrow> has_text m ''version'' KNOWLEDGE_EXTRACTION_VERSION \<and> has_text m ''prompt_version'' GRAPH_EXTRACTION_PROMPT_VERSION)"

definition chunk_knowledge_summary :: "(pystr \<times> json) list \<Rightarrow> exn + pystr" where
  "chunk_knowledge_summary metadata = (case marker_members (mget metadata ''knowledge_extraction'') of
     None \<Rightarrow> Inl snapshot_persistence_error
   | Some m \<Rightarrow> (case mget m ''summary'' of
        Some (JStr s) \<Rightarrow> if py_strip s = [] then Inl snapshot_persistence_error else Inr (py_strip s)
      | _ \<Rightarrow> Inl snapshot_persistence_error))"

definition is_reset_document :: "document \<Rightarrow> bool" where
  "is_reset_document x \<longleftrightarrow> (case marker_members (map_of (doc_metadata x) RESET_DOCUMENT_METADATA_KEY) of
     None \<Rightarrow> False
   | Some m \<Rightarrow> has_text m ''version'' RESET_DOCUMENT_METADATA_VERSION \<and> doc_normalized_text x = [])"

subsection \<open>The environment and the clients\<close>

type_synonym relation_identity = "pystr \<times> pystr \<times> pystr"

record cognify_env =
  cg_chunk :: chunk_env
  cg_loader :: loader_env
  cg_text :: text_tables
  cg_parse_uuid :: "pystr \<Rightarrow> uuid option"
  cg_now :: timestamp
  cg_chunk_max_tokens :: int
  cg_chunk_overlap_tokens :: int
  cg_chunk_min_tokens :: int
  cg_embedding_dimensions :: nat
  cg_embedding_model :: pystr
  cg_llm_model :: pystr
  cg_config_fingerprint :: pystr
  cg_entity_id :: "pystr \<Rightarrow> uuid"
  cg_relation_id :: "relation_identity \<Rightarrow> uuid"
  cg_mention_id :: "uuid \<Rightarrow> uuid \<Rightarrow> uuid"
  cg_outbox_id :: "outbox \<Rightarrow> nat"

definition document_summary_id :: "cognify_env \<Rightarrow> uuid \<Rightarrow> int \<Rightarrow> uuid" where
  "document_summary_id env document_id generation = cke_uuid5 (cg_chunk env) document_id
     (ascii ''document-summary:'' @ dec_int generation @ [58] @ DOCUMENT_SUMMARY_PROMPT_VERSION)"

definition rebuild_document_id :: "cognify_env \<Rightarrow> uuid \<Rightarrow> int \<Rightarrow> uuid" where
  "rebuild_document_id env source_id generation = cke_uuid5 (cg_chunk env) source_id
     (REBUILD_DOCUMENT_NAMESPACE @ [58] @ dec_int generation)"

definition is_document_summary_complete :: "cognify_env \<Rightarrow> document \<Rightarrow> summary option \<Rightarrow> bool" where
  "is_document_summary_complete env x s \<longleftrightarrow>
     (case marker_members (mget (doc_metadata x) ''document_summary'') of
        None \<Rightarrow> False
      | Some m \<Rightarrow>
         (let expected = document_summary_id env (doc_id x) (doc_generation x) in
          has_text m ''version'' DOCUMENT_SUMMARY_VERSION \<and> has_text m ''prompt_version'' DOCUMENT_SUMMARY_PROMPT_VERSION
          \<and> has_text m ''summary_id'' (uuid_text expected)
          \<and> some_row s (\<lambda>y. sum_id y = expected \<and> sum_dataset_id y = doc_dataset_id x \<and> sum_generation y = doc_generation x
               \<and> sum_target_type y = Target_DOCUMENT \<and> sum_target_id y = Some (doc_id x) \<and> sum_level y = 0 \<and> sum_is_active y)))"

record chunk_snapshot =
  cs_id :: uuid
  cs_ordinal :: int
  cs_text :: pystr
  cs_metadata :: "(pystr \<times> json) list"

definition chunk_snapshot_of :: "chunk \<Rightarrow> chunk_snapshot" where
  "chunk_snapshot_of c = \<lparr>cs_id = ch_id c, cs_ordinal = ch_ordinal c, cs_text = ch_text c, cs_metadata = ch_metadata c\<rparr>"

definition chunk_snapshot_from_text_chunk :: "text_chunk \<Rightarrow> chunk_snapshot" where
  "chunk_snapshot_from_text_chunk c = \<lparr>cs_id = tc_id c, cs_ordinal = tc_ordinal c, cs_text = tc_text c, cs_metadata = []\<rparr>"

record source_work_item =
  wi_dataset_id :: uuid
  wi_source_id :: uuid
  wi_document_id :: uuid
  wi_generation :: int
  wi_normalized_text :: "pystr option"
  wi_source_name :: pystr
  wi_source_mime_type :: pystr
  wi_source_storage_uri :: "pystr option"
  wi_rehydrate_document :: bool
  wi_existing_chunks :: "chunk_snapshot list"
  wi_chunks_to_extract :: "chunk_snapshot list"
  wi_document_to_create :: "document option"

record source_decision =
  sd_work_item :: "source_work_item option"
  sd_activate :: bool

record cognify_clients =
  cl_embed :: "uuid \<Rightarrow> pystr list \<Rightarrow> exn + rat list list"
  cl_extract :: "uuid \<Rightarrow> nat \<Rightarrow> pystr \<Rightarrow> exn + chunk_extraction"
  cl_first_failure :: "uuid \<Rightarrow> nat"
  cl_summarize :: "uuid \<Rightarrow> pystr list \<Rightarrow> exn + pystr"
  cl_embed_summary :: "uuid \<Rightarrow> pystr \<Rightarrow> exn + rat list list"
  cl_read_source :: "source_work_item \<Rightarrow> nat list option"

record cognify_reads =
  rd_dataset :: kdb
  rd_select :: kdb
  rd_decide :: "uuid \<Rightarrow> kdb"
  rd_resolve :: "uuid \<Rightarrow> kdb"

subsection \<open>Selection\<close>

definition load_dataset_snapshot :: "uuid \<Rightarrow> kdb \<Rightarrow> exn + dataset" where
  "load_dataset_snapshot k d = (case kb_dataset k d of
     None \<Rightarrow> Inl cognify_dataset_not_found_error
   | Some ds \<Rightarrow> if dataset_status ds \<noteq> Dataset_ACTIVE then Inl cognify_dataset_not_found_error else Inr ds)"

definition list_sources_for_cognify :: "uuid \<Rightarrow> kdb \<Rightarrow> source list" where
  "list_sources_for_cognify ds d = sort_key (\<lambda>s. (src_created_at s, src_id s))
     (filter (\<lambda>s. src_dataset_id s = ds \<and> (src_status s = Source_PENDING \<or> src_status s = Source_ACTIVE)) (kb_sources d))"

fun load_requested_sources :: "dataset \<Rightarrow> uuid list \<Rightarrow> uuid list \<Rightarrow> kdb \<Rightarrow> exn + source list" where
  "load_requested_sources ds seen [] d = Inr []"
| "load_requested_sources ds seen (k # ks) d =
     (if k \<in> set seen then load_requested_sources ds seen ks d
      else case kb_source k d of
          None \<Rightarrow> Inl (Sofias_Memory_Error INVALID_REQUEST 404)
        | Some s \<Rightarrow>
            if src_dataset_id s \<noteq> dataset_id ds then Inl (Sofias_Memory_Error INVALID_REQUEST 400)
            else bindE (load_requested_sources ds (k # seen) ks d) (\<lambda>rest. Inr (s # rest)))"

definition select_source_ids :: "dataset \<Rightarrow> uuid list option \<Rightarrow> bool \<Rightarrow> kdb \<Rightarrow> exn + uuid list" where
  "select_source_ids ds source_ids rebuild d =
     bindE (case source_ids of
              Some ks \<Rightarrow> load_requested_sources ds [] ks d
            | None \<Rightarrow> Inr (if rebuild then list_sources_not_deleted (dataset_id ds) d
                           else list_sources_for_cognify (dataset_id ds) d))
       (\<lambda>sources. Inr (map src_id (filter (\<lambda>s. src_status s \<in> {Source_ACTIVE, Source_PENDING, Source_FAILED}) sources)))"

subsection \<open>Decision\<close>

text \<open>\<open>ORDER BY created_at DESC, id LIMIT 1\<close>.\<close>

definition get_document_for_source_generation :: "uuid \<Rightarrow> int \<Rightarrow> kdb \<Rightarrow> document option" where
  "get_document_for_source_generation src gen d =
     (case sort_key (\<lambda>x. (- doc_created_at x, doc_id x))
             (filter (\<lambda>x. doc_source_id x = src \<and> doc_generation x = gen \<and> doc_is_active x) (kb_documents d)) of
        [] \<Rightarrow> None | x # _ \<Rightarrow> Some x)"

definition resolve_target_generation_document ::
  "cognify_env \<Rightarrow> dataset \<Rightarrow> source \<Rightarrow> int \<Rightarrow> bool \<Rightarrow> kdb \<Rightarrow> document option \<times> document option" where
  "resolve_target_generation_document env ds s target rebuild d =
     (case get_document_for_source_generation (src_id s) target d of
        Some x \<Rightarrow> (Some x, None)
      | None \<Rightarrow>
        if \<not> rebuild then (None, None)
        else case get_document_for_source_generation (src_id s) (dataset_active_generation ds) d of
          None \<Rightarrow> (None, None)
        | Some base \<Rightarrow>
            (let planned = \<lparr>doc_id = rebuild_document_id env (src_id s) target, doc_dataset_id = dataset_id ds,
               doc_source_id = src_id s, doc_generation = target, doc_title = doc_title base, doc_language = doc_language base,
               doc_normalized_text = doc_normalized_text base, doc_text_sha256 = doc_text_sha256 base,
               doc_token_count = doc_token_count base,
               doc_metadata = (if is_reset_document base
                 then [(RESET_DOCUMENT_METADATA_KEY, the (map_of (doc_metadata base) RESET_DOCUMENT_METADATA_KEY))] else []),
               doc_is_active = True, doc_created_at = cg_now env\<rparr>
             in (Some planned, Some planned)))"

definition kb_summary :: "uuid \<Rightarrow> kdb \<Rightarrow> summary option" where
  "kb_summary k d = row_get sum_id k (kb_summaries d)"

definition decide_source_work_item ::
  "cognify_env \<Rightarrow> dataset \<Rightarrow> uuid \<Rightarrow> int \<Rightarrow> bool \<Rightarrow> bool \<Rightarrow> kdb \<Rightarrow> exn + source_decision" where
  "decide_source_work_item env ds k target allow_failed rebuild d =
     (case kb_source k d of
        None \<Rightarrow> Inl (Sofias_Memory_Error INVALID_REQUEST 404)
      | Some s \<Rightarrow>
        if src_dataset_id s \<noteq> dataset_id ds then Inl (Sofias_Memory_Error INVALID_REQUEST 404)
        else
          let chunks = list_chunks_for_source_generation k target d;
              (document, to_create) = resolve_target_generation_document env ds s target rebuild d
          in case document of
            None \<Rightarrow> Inl (Sofias_Memory_Error INVALID_REQUEST 400)
          | Some x \<Rightarrow>
            if chunks \<noteq> [] \<and> list_all (\<lambda>c. is_chunk_knowledge_extracted (ch_metadata c)) chunks
               \<and> is_document_summary_complete env x (kb_summary (document_summary_id env (doc_id x) (doc_generation x)) d)
            then Inr \<lparr>sd_work_item = None, sd_activate = (src_status s \<noteq> Source_ACTIVE)\<rparr>
            else if src_status s = Source_FAILED \<and> \<not> allow_failed then Inr \<lparr>sd_work_item = None, sd_activate = False\<rparr>
            else if src_status s \<notin> {Source_PENDING, Source_ACTIVE, Source_FAILED}
            then Inr \<lparr>sd_work_item = None, sd_activate = False\<rparr>
            else if chunks = [] \<and> src_status s = Source_ACTIVE \<and> \<not> rebuild then Inr \<lparr>sd_work_item = None, sd_activate = False\<rparr>
            else Inr \<lparr>sd_work_item = Some \<lparr>wi_dataset_id = dataset_id ds, wi_source_id = k, wi_document_id = doc_id x,
                 wi_generation = target, wi_normalized_text = (if chunks = [] then Some (doc_normalized_text x) else None),
                 wi_source_name = src_name s, wi_source_mime_type = src_mime_type s, wi_source_storage_uri = src_storage_uri s,
                 wi_rehydrate_document = is_reset_document x, wi_existing_chunks = map chunk_snapshot_of chunks,
                 wi_chunks_to_extract = map chunk_snapshot_of
                   (filter (\<lambda>c. \<not> is_chunk_knowledge_extracted (ch_metadata c)) chunks),
                 wi_document_to_create = to_create\<rparr>, sd_activate = False\<rparr>)"

subsection \<open>Preparing one source\<close>

text \<open>A client's own \<open>SofiasMemoryError\<close> passes, anything else it raises is a dependency outage.\<close>

definition client_result :: "exn + 'a \<Rightarrow> exn + 'a" where
  "client_result r = (case r of Inr x \<Rightarrow> Inr x
     | Inl e \<Rightarrow> Inl (if is_sofias_error e then e else dependency_unavailable_error))"

definition validate_embeddings :: "cognify_env \<Rightarrow> rat list list \<Rightarrow> nat \<Rightarrow> exn + rat list list" where
  "validate_embeddings env embeddings expected =
     (if length embeddings \<noteq> expected then Inl dependency_unavailable_error
      else if list_ex (\<lambda>v. length v \<noteq> cg_embedding_dimensions env) embeddings then Inl dependency_unavailable_error
      else Inr embeddings)"

definition embed_chunks :: "cognify_env \<Rightarrow> cognify_clients \<Rightarrow> uuid \<Rightarrow> text_chunk list \<Rightarrow> exn + rat list list" where
  "embed_chunks env cl k chunks =
     bindE (client_result (cl_embed cl k (map tc_text chunks))) (\<lambda>vs. validate_embeddings env vs (length chunks))"

text \<open>\<open>asyncio.gather\<close>: all results in order, or the exception of one of the calls that failed.\<close>

definition gather :: "nat \<Rightarrow> (exn + 'a) list \<Rightarrow> exn + 'a list" where
  "gather first rs =
     (let failures = concat (map (\<lambda>r. case r of Inl e \<Rightarrow> [e] | Inr _ \<Rightarrow> []) rs) in
      if failures = [] then Inr (concat (map (\<lambda>r. case r of Inl _ \<Rightarrow> [] | Inr x \<Rightarrow> [x]) rs))
      else Inl (failures ! (first mod length failures)))"

definition extract_chunk_knowledge ::
  "cognify_clients \<Rightarrow> uuid \<Rightarrow> chunk_snapshot list \<Rightarrow> exn + chunk_extraction list" where
  "extract_chunk_knowledge cl k chunks =
     client_result (gather (cl_first_failure cl k) (map (\<lambda>(i, c). cl_extract cl k i (cs_text c)) (zip [0..<length chunks] chunks)))"

definition summarize_document :: "cognify_clients \<Rightarrow> uuid \<Rightarrow> pystr list \<Rightarrow> exn + pystr" where
  "summarize_document cl k summaries = client_result (cl_summarize cl k summaries)"

definition embed_document_summary :: "cognify_env \<Rightarrow> cognify_clients \<Rightarrow> uuid \<Rightarrow> pystr \<Rightarrow> exn + rat list" where
  "embed_document_summary env cl k t =
     bindE (client_result (cl_embed_summary cl k t)) (\<lambda>vs. bindE (validate_embeddings env vs 1) (\<lambda>vs. Inr (hd vs)))"

text \<open>Loader exceptions other than \<open>TextFileLoadError\<close> propagate unclassified.\<close>

definition read_reset_document :: "cognify_env \<Rightarrow> cognify_clients \<Rightarrow> source_work_item \<Rightarrow> exn + prepared_text" where
  "read_reset_document env cl wi =
     (case wi_source_storage_uri wi of
        None \<Rightarrow> Inl dependency_unavailable_error
      | Some _ \<Rightarrow>
        (case cl_read_source cl wi of
           None \<Rightarrow> Inl dependency_unavailable_error
         | Some bytes \<Rightarrow>
           (case map_of SOURCE_EXTENSION_BY_MIME_TYPE (wi_source_mime_type wi) of
              None \<Rightarrow> Inl dependency_unavailable_error
            | Some ext \<Rightarrow>
              (case prepare_text_file_content (cg_loader env) (Some (ascii ''source'' @ ext)) bytes of
                 Inr p \<Rightarrow> Inr (pf_text p)
               | Inl Text_File_Load_Error \<Rightarrow> Inl dependency_unavailable_error
               | Inl _ \<Rightarrow> Inl Value_Error))))"

record prepared_source =
  ps_work_item :: source_work_item
  ps_document_tokens :: "int option"
  ps_refreshed_document :: "prepared_text option"
  ps_new_chunks :: "text_chunk list"
  ps_embeddings :: "rat list list"
  ps_extractions :: "(uuid \<times> chunk_extraction) list"
  ps_summary_id :: uuid
  ps_summary_text :: pystr
  ps_summary_embedding :: "rat list"

text \<open>Freshly cut and embedded chunks.  The \<open>RuntimeError\<close> of a work item without text is an
  \<open>Assertion_Error\<close>; the decision never builds such an item.\<close>

definition new_source_chunks ::
  "cognify_env \<Rightarrow> cognify_clients \<Rightarrow> source_work_item \<Rightarrow> exn + (int \<times> prepared_text option \<times> text_chunk list \<times> rat list list)" where
  "new_source_chunks env cl wi =
     bindE (if wi_rehydrate_document wi then bindE (read_reset_document env cl wi) (\<lambda>p. Inr (Some p)) else Inr None) (\<lambda>refreshed.
       case (case refreshed of Some p \<Rightarrow> Some (pt_normalized_text p) | None \<Rightarrow> wi_normalized_text wi) of
         None \<Rightarrow> Inl Assertion_Error
       | Some t \<Rightarrow>
         bindE (document_token_count (cg_chunk env) t) (\<lambda>tokens.
         bindE (chunk_document_text (cg_chunk env) t (wi_document_id wi) (wi_generation wi) (cg_chunk_max_tokens env)
                  (cg_chunk_overlap_tokens env) (cg_chunk_min_tokens env)) (\<lambda>chunks.
         bindE (embed_chunks env cl (wi_source_id wi) chunks) (\<lambda>vs. Inr (tokens, refreshed, chunks, vs)))))"

definition ordered_summaries ::
  "chunk_snapshot list \<Rightarrow> (uuid \<rightharpoonup> chunk_extraction) \<Rightarrow> exn + pystr list" where
  "ordered_summaries chunks extractions = mapE (\<lambda>c. case extractions (cs_id c) of
     Some x \<Rightarrow> Inr (kx_summary x) | None \<Rightarrow> chunk_knowledge_summary (cs_metadata c)) (sort_key (\<lambda>c. (cs_ordinal c, cs_id c)) chunks)"

definition prepare_source :: "cognify_env \<Rightarrow> cognify_clients \<Rightarrow> source_work_item \<Rightarrow> exn + prepared_source" where
  "prepare_source env cl wi =
     (if wi_rehydrate_document wi \<and> wi_existing_chunks wi \<noteq> [] then Inl dependency_unavailable_error
      else bindE (if wi_existing_chunks wi \<noteq> [] then Inr (None, None, [], [])
                  else bindE (new_source_chunks env cl wi) (\<lambda>(n, r, cs, vs). Inr (Some n, r, cs, vs))) (\<lambda>(tokens, refreshed, chunks, vs).
        let all_chunks = (if wi_existing_chunks wi \<noteq> [] then wi_existing_chunks wi else map chunk_snapshot_from_text_chunk chunks);
            to_extract = (if wi_existing_chunks wi \<noteq> [] then wi_chunks_to_extract wi else all_chunks)
        in bindE (extract_chunk_knowledge cl (wi_source_id wi) to_extract) (\<lambda>extractions.
           let pairs = zip (map cs_id to_extract) extractions in
           bindE (ordered_summaries all_chunks (map_of (rev pairs))) (\<lambda>summaries.
           bindE (summarize_document cl (wi_source_id wi) summaries) (\<lambda>t.
           bindE (embed_document_summary env cl (wi_source_id wi) t) (\<lambda>v.
             Inr \<lparr>ps_work_item = wi, ps_document_tokens = tokens, ps_refreshed_document = refreshed, ps_new_chunks = chunks,
                  ps_embeddings = vs, ps_extractions = pairs,
                  ps_summary_id = document_summary_id env (wi_document_id wi) (wi_generation wi),
                  ps_summary_text = t, ps_summary_embedding = v\<rparr>))))))"

end
