(* ===== verification/Recall_Store.thy ===== *)
theory Recall_Store
  imports Session_Service Knowledge_Store Loaders Cognify_Prepare "HOL-Library.AList"
begin

text \<open>
  What recall reads: the request of \<open>schemas/recall.py\<close> with its validators, the settings, the detached
  snapshots and the authoritative queries of \<open>repositories/chunks.py\<close>, \<open>entities.py\<close>,
  \<open>relations.py\<close>, \<open>relation_evidence.py\<close> and \<open>summaries.py\<close>.  The vector distance, the full-text match
  and rank and JSONB containment are PostgreSQL's and pgvector's, hence parameters; scores are exact
  rationals.
\<close>

subsection \<open>Requests\<close>

datatype recall_mode = Mode_CHUNKS | Mode_RAG | Mode_SUMMARIES | Mode_GRAPH | Mode_HYBRID | Mode_TRIPLETS

fun recall_mode_value :: "recall_mode \<Rightarrow> string" where
  "recall_mode_value Mode_CHUNKS = ''chunks''"
| "recall_mode_value Mode_RAG = ''rag''"
| "recall_mode_value Mode_SUMMARIES = ''summaries''"
| "recall_mode_value Mode_GRAPH = ''graph''"
| "recall_mode_value Mode_HYBRID = ''hybrid''"
| "recall_mode_value Mode_TRIPLETS = ''triplets''"

record recall_filters =
  rf_source_ids :: "uuid list"
  rf_created_after :: "timestamp option"
  rf_created_before :: "timestamp option"
  rf_metadata :: "(pystr \<times> json) list"

record recall_request =
  rq_query :: pystr
  rq_datasets :: "pystr list"
  rq_mode :: recall_mode
  rq_top_k :: "int option"
  rq_only_context :: bool
  rq_include_references :: bool
  rq_session_id :: "pystr option"
  rq_include_session_context :: bool
  rq_filters :: recall_filters

definition validate_date_range :: "recall_filters \<Rightarrow> exn + recall_filters" where
  "validate_date_range f =
     (case (rf_created_after f, rf_created_before f) of
        (Some a, Some b) \<Rightarrow> if a > b then Inl Value_Error else Inr f
      | _ \<Rightarrow> Inr f)"

fun normalize_dataset_slugs :: "pystr list \<Rightarrow> pystr list \<Rightarrow> exn + pystr list" where
  "normalize_dataset_slugs [] normalized = Inr normalized"
| "normalize_dataset_slugs (v # vs) normalized =
     (let slug = py_strip v in
      if slug = [] then Inl Value_Error
      else normalize_dataset_slugs vs (if slug \<in> set normalized then normalized else normalized @ [slug]))"

definition normalize_datasets :: "pystr list \<Rightarrow> exn + pystr list" where
  "normalize_datasets values =
     bindE (normalize_dataset_slugs values []) (\<lambda>xs. if xs = [] then Inl Value_Error else Inr xs)"

definition strip_query :: "pystr \<Rightarrow> exn + pystr" where
  "strip_query value = (let stripped = py_strip value in if stripped = [] then Inl Value_Error else Inr stripped)"

definition validate_search_request :: "recall_request \<Rightarrow> exn + recall_request" where
  "validate_search_request r =
     bindE (if rq_query r = [] \<or> length (rq_query r) > 4000 then Inl Value_Error else strip_query (rq_query r)) (\<lambda>q.
     bindE (if rq_datasets r = [] then Inl Value_Error else normalize_datasets (rq_datasets r)) (\<lambda>ds.
     bindE (case rq_top_k r of Some k \<Rightarrow> if k < 1 then Inl Value_Error else Inr () | None \<Rightarrow> Inr ()) (\<lambda>_.
     bindE (as_validation_error (normalize_session_id (rq_session_id r))) (\<lambda>sid.
     bindE (validate_date_range (rq_filters r)) (\<lambda>f.
     Inr (r\<lparr>rq_query := q, rq_datasets := ds, rq_session_id := sid, rq_filters := f\<rparr>))))))"

record recall_settings =
  rs_max_top_k :: int
  rs_default_top_k :: int
  rs_rrf_k :: int
  rs_vector_top_k :: int
  rs_lexical_top_k :: int
  rs_graph_seed_top_k :: int
  rs_graph_max_nodes :: int
  rs_embedding_dimensions :: nat
  rs_store_query_content :: bool
  rs_llm_model :: pystr
  rs_session_context_max_entries :: int
  rs_session_context_max_chars :: int

subsection \<open>Snapshots\<close>

record retrieved_chunk =
  rc_chunk_id :: uuid
  rc_dataset_id :: uuid
  rc_source_id :: uuid
  rc_source_name :: pystr
  rc_source_url :: "pystr option"
  rc_document_id :: uuid
  rc_ordinal :: int
  rc_text :: pystr
  rc_start_char :: int
  rc_end_char :: int

record recalled_entity =
  re_id :: uuid
  re_name :: pystr
  re_entity_type :: pystr
  re_description :: pystr
  re_importance_weight :: rat

record recalled_relation =
  rr_id :: uuid
  rr_source_entity_id :: uuid
  rr_target_entity_id :: uuid
  rr_predicate :: pystr
  rr_description :: pystr
  rr_confidence :: rat
  rr_importance_weight :: rat

record recalled_evidence =
  rv_relation_id :: uuid
  rv_chunk_id :: uuid
  rv_quote :: pystr
  rv_confidence :: rat
  rv_dataset_id :: uuid
  rv_source_id :: uuid
  rv_source_name :: pystr
  rv_source_url :: "pystr option"
  rv_document_id :: uuid
  rv_chunk_ordinal :: int
  rv_start_char :: int
  rv_end_char :: int

record recalled_document_summary =
  rds_document_id :: uuid
  rds_text :: pystr

record retrieved_document_summary =
  rts_summary_id :: uuid
  rts_dataset_id :: uuid
  rts_source_id :: uuid
  rts_source_name :: pystr
  rts_source_url :: "pystr option"
  rts_document_id :: uuid
  rts_text :: pystr
  rts_score :: rat

subsection \<open>The search engine\<close>

record search_engine =
  se_cosine_distance :: "rat list \<Rightarrow> rat list \<Rightarrow> rat"
  se_matches :: "pystr \<Rightarrow> pystr \<Rightarrow> bool"
  se_rank :: "pystr \<Rightarrow> pystr \<Rightarrow> rat"
  se_contains :: "(pystr \<times> json) list \<Rightarrow> (pystr \<times> json) list \<Rightarrow> bool"

definition source_passes :: "search_engine \<Rightarrow> recall_filters \<Rightarrow> source \<Rightarrow> bool" where
  "source_passes E f s \<longleftrightarrow> (rf_source_ids f \<noteq> [] \<longrightarrow> src_id s \<in> set (rf_source_ids f))
     \<and> (case rf_created_after f of None \<Rightarrow> True | Some t \<Rightarrow> src_created_at s \<ge> t)
     \<and> (case rf_created_before f of None \<Rightarrow> True | Some t \<Rightarrow> src_created_at s \<le> t)
     \<and> (rf_metadata f \<noteq> [] \<longrightarrow> se_contains E (src_metadata s) (rf_metadata f))"

text \<open>The joins and conditions of \<open>_base_recall_statement\<close>: the chunk's dataset is requested and its row is
  authoritative in it.\<close>

definition chunk_current :: "kdb \<Rightarrow> chunk \<Rightarrow> bool" where
  "chunk_current d c = some_row (kb_dataset (ch_dataset_id c) d) (\<lambda>ds. chunk_authoritative ds d c)"

definition chunk_recallable :: "search_engine \<Rightarrow> uuid list \<Rightarrow> recall_filters \<Rightarrow> kdb \<Rightarrow> chunk \<Rightarrow> bool" where
  "chunk_recallable E dataset_ids f d c \<longleftrightarrow> ch_dataset_id c \<in> set dataset_ids \<and> chunk_current d c
     \<and> some_row (kb_source (ch_source_id c) d) (source_passes E f)"

definition retrieved_of :: "kdb \<Rightarrow> chunk \<Rightarrow> retrieved_chunk list" where
  "retrieved_of d c = (case kb_source (ch_source_id c) d of None \<Rightarrow> []
     | Some s \<Rightarrow> [\<lparr>rc_chunk_id = ch_id c, rc_dataset_id = ch_dataset_id c, rc_source_id = ch_source_id c,
         rc_source_name = src_name s, rc_source_url = src_original_uri s, rc_document_id = ch_document_id c,
         rc_ordinal = ch_ordinal c, rc_text = ch_text c, rc_start_char = ch_start_char c, rc_end_char = ch_end_char c\<rparr>])"

definition base_recall_rows :: "search_engine \<Rightarrow> uuid list \<Rightarrow> recall_filters \<Rightarrow> kdb \<Rightarrow> chunk list" where
  "base_recall_rows E dataset_ids f d = filter (chunk_recallable E dataset_ids f d) (kb_chunks d)"

definition retrieved_chunks :: "kdb \<Rightarrow> chunk list \<Rightarrow> retrieved_chunk list" where
  "retrieved_chunks d cs = concat (map (retrieved_of d) cs)"

definition vector_search ::
  "search_engine \<Rightarrow> uuid list \<Rightarrow> rat list \<Rightarrow> int \<Rightarrow> recall_filters \<Rightarrow> kdb \<Rightarrow> retrieved_chunk list" where
  "vector_search E dataset_ids embedding lm f d = retrieved_chunks d (take (nat lm)
     (sort_key (\<lambda>c. (se_cosine_distance E (ch_embedding c) embedding, ch_id c)) (base_recall_rows E dataset_ids f d)))"

definition lexical_search ::
  "search_engine \<Rightarrow> uuid list \<Rightarrow> pystr \<Rightarrow> int \<Rightarrow> recall_filters \<Rightarrow> kdb \<Rightarrow> retrieved_chunk list" where
  "lexical_search E dataset_ids q lm f d = retrieved_chunks d (take (nat lm)
     (sort_key (\<lambda>c. (- se_rank E (ch_text c) q, ch_id c))
       (filter (\<lambda>c. se_matches E (ch_text c) q) (base_recall_rows E dataset_ids f d))))"

definition get_active_current_reference :: "uuid \<Rightarrow> kdb \<Rightarrow> retrieved_chunk option" where
  "get_active_current_reference k d = (case kb_chunk k d of None \<Rightarrow> None
     | Some c \<Rightarrow> if chunk_current d c then (case retrieved_of d c of [] \<Rightarrow> None | r # _ \<Rightarrow> Some r) else None)"

subsection \<open>Entities, relations, evidence and summaries\<close>

definition active_dataset_with :: "uuid \<Rightarrow> kdb \<Rightarrow> (dataset \<Rightarrow> bool) \<Rightarrow> bool" where
  "active_dataset_with k d P = some_row (kb_dataset k d) (\<lambda>ds. dataset_status ds = Dataset_ACTIVE \<and> P ds)"

definition entities_for_recall :: "uuid list \<Rightarrow> uuid list \<Rightarrow> kdb \<Rightarrow> recalled_entity list" where
  "entities_for_recall dataset_ids entity_ids d =
     (if dataset_ids = [] \<or> entity_ids = [] then []
      else map (\<lambda>e. \<lparr>re_id = ent_id e, re_name = ent_name e, re_entity_type = ent_entity_type e,
             re_description = ent_description e, re_importance_weight = ent_importance_weight e\<rparr>)
           (sort_key ent_id (filter (\<lambda>e. ent_id e \<in> set entity_ids \<and> ent_dataset_id e \<in> set dataset_ids
             \<and> active_dataset_with (ent_dataset_id e) d (\<lambda>ds. entity_current ds e)) (kb_entities d))))"

definition relations_for_recall :: "uuid list \<Rightarrow> uuid list \<Rightarrow> kdb \<Rightarrow> recalled_relation list" where
  "relations_for_recall dataset_ids relation_ids d =
     (if dataset_ids = [] \<or> relation_ids = [] then []
      else map (\<lambda>r. \<lparr>rr_id = rel_id r, rr_source_entity_id = rel_source_entity_id r,
             rr_target_entity_id = rel_target_entity_id r, rr_predicate = rel_predicate r,
             rr_description = rel_description r, rr_confidence = rel_confidence r,
             rr_importance_weight = rel_importance_weight r\<rparr>)
           (sort_key rel_id (filter (\<lambda>r. rel_id r \<in> set relation_ids \<and> rel_dataset_id r \<in> set dataset_ids
             \<and> active_dataset_with (rel_dataset_id r) d (\<lambda>ds. relation_current ds d r)) (kb_relations d))))"

text \<open>The evidence query checks the relation's own row, not its endpoints.\<close>

definition evidence_recallable ::
  "search_engine \<Rightarrow> uuid list \<Rightarrow> uuid list \<Rightarrow> recall_filters \<Rightarrow> kdb \<Rightarrow> relation_evidence \<Rightarrow> bool" where
  "evidence_recallable E dataset_ids relation_ids f d v \<longleftrightarrow> ev_relation_id v \<in> set relation_ids
     \<and> some_row (kb_chunk (ev_chunk_id v) d) (\<lambda>c. chunk_recallable E dataset_ids f d c
         \<and> some_row (kb_relation (ev_relation_id v) d) (\<lambda>r.
             some_row (kb_dataset (ch_dataset_id c) d) (\<lambda>ds. relation_row_current ds r)))"

definition evidence_snapshot :: "kdb \<Rightarrow> relation_evidence \<Rightarrow> recalled_evidence list" where
  "evidence_snapshot d v = (case kb_chunk (ev_chunk_id v) d of None \<Rightarrow> []
     | Some c \<Rightarrow> (case kb_source (ch_source_id c) d of None \<Rightarrow> []
       | Some s \<Rightarrow> [\<lparr>rv_relation_id = ev_relation_id v, rv_chunk_id = ev_chunk_id v, rv_quote = ev_quote v,
           rv_confidence = ev_confidence v, rv_dataset_id = ch_dataset_id c, rv_source_id = ch_source_id c,
           rv_source_name = src_name s, rv_source_url = src_original_uri s, rv_document_id = ch_document_id c,
           rv_chunk_ordinal = ch_ordinal c, rv_start_char = ch_start_char c, rv_end_char = ch_end_char c\<rparr>]))"

definition evidence_for_recall ::
  "search_engine \<Rightarrow> uuid list \<Rightarrow> uuid list \<Rightarrow> recall_filters \<Rightarrow> kdb \<Rightarrow> recalled_evidence list" where
  "evidence_for_recall E dataset_ids relation_ids f d =
     (if dataset_ids = [] \<or> relation_ids = [] then []
      else concat (map (evidence_snapshot d) (sort_key (\<lambda>v. (ev_relation_id v, - ev_confidence v, ev_chunk_id v))
             (filter (evidence_recallable E dataset_ids relation_ids f d) (kb_evidence d)))))"

definition document_summary_row :: "uuid list \<Rightarrow> kdb \<Rightarrow> summary \<Rightarrow> bool" where
  "document_summary_row dataset_ids d s \<longleftrightarrow> sum_dataset_id s \<in> set dataset_ids
     \<and> sum_target_type s = Target_DOCUMENT \<and> sum_level s = 0 \<and> sum_is_active s
     \<and> active_dataset_with (sum_dataset_id s) d (\<lambda>ds. sum_generation s = dataset_active_generation ds)"

text \<open>The newest summary of each document.\<close>

definition document_summaries_for_recall :: "uuid list \<Rightarrow> uuid list \<Rightarrow> kdb \<Rightarrow> recalled_document_summary list" where
  "document_summaries_for_recall dataset_ids document_ids d =
     (if dataset_ids = [] \<or> document_ids = [] then []
      else first_per rds_document_id (concat (map (\<lambda>s. case sum_target_id s of None \<Rightarrow> []
               | Some k \<Rightarrow> [\<lparr>rds_document_id = k, rds_text = sum_text s\<rparr>])
             (sort_key (\<lambda>s. (case sum_target_id s of None \<Rightarrow> 0 | Some k \<Rightarrow> k, - sum_created_at s, sum_id s))
               (filter (\<lambda>s. document_summary_row dataset_ids d s
                 \<and> (case sum_target_id s of None \<Rightarrow> False | Some k \<Rightarrow> k \<in> set document_ids)) (kb_summaries d))))))"

definition summary_document :: "kdb \<Rightarrow> summary \<Rightarrow> document option" where
  "summary_document d s = (case sum_target_id s of None \<Rightarrow> None | Some k \<Rightarrow> kb_document k d)"

definition summary_recallable :: "search_engine \<Rightarrow> uuid list \<Rightarrow> recall_filters \<Rightarrow> kdb \<Rightarrow> summary \<Rightarrow> bool" where
  "summary_recallable E dataset_ids f d s \<longleftrightarrow> document_summary_row dataset_ids d s
     \<and> some_row (kb_dataset (sum_dataset_id s) d) (\<lambda>ds. some_row (summary_document d s) (\<lambda>x.
         document_authoritative ds d (doc_id x) \<and> source_authoritative (dataset_id ds) d (doc_source_id x)
         \<and> some_row (kb_source (doc_source_id x) d) (source_passes E f)))"

definition retrieved_summary :: "search_engine \<Rightarrow> rat list \<Rightarrow> kdb \<Rightarrow> summary \<Rightarrow> retrieved_document_summary list" where
  "retrieved_summary E embedding d s = (case summary_document d s of None \<Rightarrow> []
     | Some x \<Rightarrow> (case kb_source (doc_source_id x) d of None \<Rightarrow> []
       | Some src \<Rightarrow> [\<lparr>rts_summary_id = sum_id s, rts_dataset_id = sum_dataset_id s, rts_source_id = src_id src,
           rts_source_name = src_name src, rts_source_url = src_original_uri src, rts_document_id = doc_id x,
           rts_text = sum_text s, rts_score = 1 - se_cosine_distance E (sum_embedding s) embedding\<rparr>]))"

definition vector_search_document_summaries ::
  "search_engine \<Rightarrow> uuid list \<Rightarrow> rat list \<Rightarrow> int \<Rightarrow> recall_filters \<Rightarrow> kdb \<Rightarrow> retrieved_document_summary list" where
  "vector_search_document_summaries E dataset_ids embedding lm f d =
     concat (map (retrieved_summary E embedding d) (take (nat lm)
       (sort_key (\<lambda>s. (se_cosine_distance E (sum_embedding s) embedding, sum_id s))
         (filter (summary_recallable E dataset_ids f d) (kb_summaries d)))))"

end
