(* ===== verification/Recall_Service.thy ===== *)
theory Recall_Service
  imports Recall_Store
begin

text \<open>
  \<open>services/recall.py\<close>: rank fusion, graph hydration, references, the text handed to the answer model,
  session admission, the audit row and the composed call.  The embedding, answer and graph clients are
  parameters; each transaction sees the tables other sessions have committed by then
  (\<open>rx_interfere i\<close> before the \<open>i\<close>-th), and what recall itself commits is an admitted session and
  one audit row.
\<close>

subsection \<open>Results\<close>

record recall_chunk_hit = retrieved_chunk +
  hit_vector_rank :: "int option"
  hit_lexical_rank :: "int option"
  hit_score :: rat

record recall_context_item =
  ci_chunk_id :: uuid
  ci_dataset_id :: uuid
  ci_source_id :: uuid
  ci_source_name :: pystr
  ci_document_id :: uuid
  ci_chunk_ordinal :: int
  ci_text :: pystr
  ci_start_char :: int
  ci_end_char :: int
  ci_score :: rat

record recall_summary_context_item =
  sci_summary_id :: uuid
  sci_dataset_id :: uuid
  sci_source_id :: uuid
  sci_source_name :: pystr
  sci_document_id :: uuid
  sci_text :: pystr
  sci_score :: rat
  sci_url :: "pystr option"

datatype context_entry = Chunk_Entry recall_context_item | Summary_Entry recall_summary_context_item

record recall_reference =
  rf_source_id :: uuid
  rf_source_name :: pystr
  rf_document_id :: uuid
  rf_chunk_id :: uuid
  rf_chunk_ordinal :: int
  rf_quote :: pystr
  rf_start_char :: int
  rf_end_char :: int
  rf_score :: rat
  rf_url :: "pystr option"

record recall_entity =
  ren_entity_id :: uuid
  ren_name :: pystr
  ren_entity_type :: pystr
  ren_description :: pystr
  ren_score :: rat

record recall_relation =
  rrn_relation_id :: uuid
  rrn_source_entity_id :: uuid
  rrn_target_entity_id :: uuid
  rrn_predicate :: pystr
  rrn_description :: pystr
  rrn_confidence :: rat
  rrn_score :: rat
  rrn_evidence :: "pystr option"
  rrn_evidence_chunk_id :: "uuid option"

record recall_result =
  rz_query_id :: uuid
  rz_mode :: string
  rz_answer :: "pystr option"
  rz_context :: "context_entry list"
  rz_references :: "recall_reference list"
  rz_entities :: "recall_entity list"
  rz_relations :: "recall_relation list"
  rz_timings_ms :: "(string \<times> int) list"
  rz_session_uuid :: "uuid option"

record graph_record =
  gr_seed_chunk_id :: uuid
  gr_seed_entity_id :: uuid
  gr_neighbor_entity_id :: "uuid option"
  gr_relation_id :: "uuid option"

record hydration =
  gh_entities :: "recall_entity list"
  gh_relations :: "recall_relation list"
  gh_evidence :: "recalled_evidence list"
  gh_summaries :: "recalled_document_summary list"

record dataset_snapshot =
  ds_id :: uuid
  ds_slug :: pystr

record session_admission =
  sa_session_uuid :: uuid
  sa_context_entry_ids :: "uuid list"
  sa_context_block :: "pystr option"

record recall_db =
  rdb_knowledge :: kdb
  rdb_sessions :: session_db

text \<open>The clients and what the call reads of its surroundings: fresh identifiers, PostgreSQL's clock and the
  readings of \<open>time.perf_counter\<close>.\<close>

record recall_env =
  rx_search :: search_engine
  rx_embed :: "pystr list \<Rightarrow> exn + rat list list"
  rx_answer :: "pystr \<Rightarrow> pystr \<Rightarrow> exn + pystr"
  rx_graph :: "(uuid list \<Rightarrow> uuid list \<Rightarrow> int \<Rightarrow> exn + graph_record list) option"
  rx_interfere :: "nat \<Rightarrow> recall_db \<Rightarrow> recall_db"
  rx_session_id :: uuid
  rx_query_id :: uuid
  rx_db_now :: "nat \<Rightarrow> timestamp"
  rx_perf :: "nat \<Rightarrow> rat"

definition NO_EVIDENCE_ANSWER :: pystr where
  "NO_EVIDENCE_ANSWER = ascii ''No sufficient evidence was found in memory to answer this query.''"

definition REFERENCE_QUOTE_MAX_CHARS :: nat where "REFERENCE_QUOTE_MAX_CHARS = 500"

subsection \<open>Validation and top-k\<close>

definition recall_request_error :: exn where
  "recall_request_error = Sofias_Memory_Error INVALID_REQUEST 400"

definition validate_include_session_context :: "recall_request \<Rightarrow> exn + unit" where
  "validate_include_session_context rq =
     (if \<not> rq_include_session_context rq then Inr ()
      else if rq_session_id rq = None \<or> rq_mode rq \<noteq> Mode_RAG \<or> rq_only_context rq then Inl recall_request_error
      else Inr ())"

definition validate_supported_mode :: "recall_settings \<Rightarrow> recall_request \<Rightarrow> exn + unit" where
  "validate_supported_mode st rq = (case rq_top_k rq of None \<Rightarrow> Inr ()
     | Some k \<Rightarrow> if k > rs_max_top_k st then Inl recall_request_error else Inr ())"

definition effective_top_k :: "recall_settings \<Rightarrow> recall_request \<Rightarrow> int" where
  "effective_top_k st rq = (case rq_top_k rq of Some k \<Rightarrow> k | None \<Rightarrow> rs_default_top_k st)"

subsection \<open>Datasets and session admission\<close>

definition recall_dataset_not_found_error :: exn where
  "recall_dataset_not_found_error = Sofias_Memory_Error INVALID_REQUEST 404"

fun recall_datasets :: "pystr list \<Rightarrow> kdb \<Rightarrow> exn + dataset_snapshot list" where
  "recall_datasets [] d = Inr []"
| "recall_datasets (slug # slugs) d =
     (case dataset_by_slug slug d of
        None \<Rightarrow> Inl recall_dataset_not_found_error
      | Some ds \<Rightarrow>
        if dataset_status ds \<noteq> Dataset_ACTIVE then Inl recall_dataset_not_found_error
        else bindE (recall_datasets slugs d) (\<lambda>rest. Inr (\<lparr>ds_id = dataset_id ds, ds_slug = ascii (dataset_slug ds)\<rparr> # rest)))"

definition context_candidate :: "session_entry \<Rightarrow> session_context_candidate" where
  "context_candidate e = \<lparr>ctx_entry_id = se_id e, ctx_role = se_role e, ctx_content = se_content e\<rparr>"

definition session_context :: "recall_settings \<Rightarrow> uuid \<Rightarrow> session_db \<Rightarrow> session_context_candidate list" where
  "session_context st k d = select_session_context
     (map context_candidate (entries_recent_for_context k (nat (rs_session_context_max_entries st)) d))
     (rs_session_context_max_entries st) (rs_session_context_max_chars st)"

definition admit_session ::
  "recall_env \<Rightarrow> recall_settings \<Rightarrow> recall_request \<Rightarrow> session_db \<Rightarrow> exn + (session_admission option \<times> session_db)" where
  "admit_session env st rq d =
     (case rq_session_id rq of
        None \<Rightarrow> Inr (None, d)
      | Some key \<Rightarrow>
        bindE (get_or_create_by_key (rx_db_now env 0)
                 \<lparr>ses_id = rx_session_id env, ses_key = key, ses_name = None, ses_status = Session_ACTIVE,
                  ses_metadata = [], ses_created_at = 0, ses_updated_at = 0, ses_archived_at = None\<rparr> d) (\<lambda>(resolved, d).
        case session_by_id (ses_id resolved) d of
          None \<Rightarrow> Inl Assertion_Error
        | Some s \<Rightarrow>
          if ses_status s = Session_ARCHIVED then Inl session_archived_error
          else (let selected = (if rq_include_session_context rq then session_context st (ses_id s) d else []) in
                Inr (Some \<lparr>sa_session_uuid = ses_id s, sa_context_entry_ids = map ctx_entry_id selected,
                           sa_context_block = (if selected = [] then None else Some (render_session_context_block selected))\<rparr>,
                     d))))"

definition embed_query :: "recall_env \<Rightarrow> recall_settings \<Rightarrow> pystr \<Rightarrow> exn + rat list" where
  "embed_query env st q =
     bindE (client_result (rx_embed env [q])) (\<lambda>vs.
     case vs of [v] \<Rightarrow> if length v \<noteq> rs_embedding_dimensions st then Inl dependency_unavailable_error else Inr v
              | _ \<Rightarrow> Inl dependency_unavailable_error)"

subsection \<open>Reciprocal rank fusion\<close>

text \<open>A dict is an association list in insertion order: an assignment replaces in place or appends.\<close>

type_synonym fusion_entry = "retrieved_chunk \<times> int option \<times> int option"

fun fuse_vector :: "int \<Rightarrow> retrieved_chunk list \<Rightarrow> (uuid \<times> fusion_entry) list \<Rightarrow> (uuid \<times> fusion_entry) list" where
  "fuse_vector rank [] by_chunk = by_chunk"
| "fuse_vector rank (r # rs) by_chunk =
     fuse_vector (rank + 1) rs (AList.update (rc_chunk_id r)
       (r, Some rank, case map_of by_chunk (rc_chunk_id r) of Some (_, _, l) \<Rightarrow> l | None \<Rightarrow> None) by_chunk)"

fun fuse_lexical :: "int \<Rightarrow> retrieved_chunk list \<Rightarrow> (uuid \<times> fusion_entry) list \<Rightarrow> (uuid \<times> fusion_entry) list" where
  "fuse_lexical rank [] by_chunk = by_chunk"
| "fuse_lexical rank (r # rs) by_chunk =
     fuse_lexical (rank + 1) rs (AList.update (rc_chunk_id r)
       (case map_of by_chunk (rc_chunk_id r) of Some (x, v, _) \<Rightarrow> (x, v, Some rank) | None \<Rightarrow> (r, None, Some rank)) by_chunk)"

definition rank_score :: "int \<Rightarrow> int option \<Rightarrow> rat" where
  "rank_score rrf_k rank = (case rank of None \<Rightarrow> 0 | Some r \<Rightarrow> if r = 0 then 0 else 1 / of_int (rrf_k + r))"

definition min_rank :: "int option \<Rightarrow> int option \<Rightarrow> int" where
  "min_rank a b = (case (a, b) of (Some x, Some y) \<Rightarrow> min x y | (Some x, None) \<Rightarrow> x | (None, Some y) \<Rightarrow> y | (None, None) \<Rightarrow> 0)"

definition chunk_hit :: "int \<Rightarrow> fusion_entry \<Rightarrow> recall_chunk_hit" where
  "chunk_hit rrf_k e = (case e of (r, v, l) \<Rightarrow>
     \<lparr>rc_chunk_id = rc_chunk_id r, rc_dataset_id = rc_dataset_id r, rc_source_id = rc_source_id r,
      rc_source_name = rc_source_name r, rc_source_url = rc_source_url r, rc_document_id = rc_document_id r,
      rc_ordinal = rc_ordinal r, rc_text = rc_text r, rc_start_char = rc_start_char r, rc_end_char = rc_end_char r,
      hit_vector_rank = v, hit_lexical_rank = l, hit_score = rank_score rrf_k v + rank_score rrf_k l\<rparr>)"

definition hit_order :: "recall_chunk_hit \<Rightarrow> rat \<times> int \<times> pystr" where
  "hit_order h = (- hit_score h, min_rank (hit_vector_rank h) (hit_lexical_rank h), uuid_text (rc_chunk_id h))"

definition reciprocal_rank_fusion :: "retrieved_chunk list \<Rightarrow> retrieved_chunk list \<Rightarrow> int \<Rightarrow> recall_chunk_hit list" where
  "reciprocal_rank_fusion vector_results lexical_results rrf_k =
     sort_key hit_order (map (chunk_hit rrf_k \<circ> snd) (fuse_lexical 1 lexical_results (fuse_vector 1 vector_results [])))"

subsection \<open>Context and references\<close>

definition context_item_from_hit :: "recall_chunk_hit \<Rightarrow> recall_context_item" where
  "context_item_from_hit h = \<lparr>ci_chunk_id = rc_chunk_id h, ci_dataset_id = rc_dataset_id h, ci_source_id = rc_source_id h,
     ci_source_name = rc_source_name h, ci_document_id = rc_document_id h, ci_chunk_ordinal = rc_ordinal h,
     ci_text = rc_text h, ci_start_char = rc_start_char h, ci_end_char = rc_end_char h, ci_score = hit_score h\<rparr>"

definition summary_context_item :: "retrieved_document_summary \<Rightarrow> recall_summary_context_item" where
  "summary_context_item s = \<lparr>sci_summary_id = rts_summary_id s, sci_dataset_id = rts_dataset_id s,
     sci_source_id = rts_source_id s, sci_source_name = rts_source_name s, sci_document_id = rts_document_id s,
     sci_text = rts_text s, sci_score = rts_score s, sci_url = rts_source_url s\<rparr>"

definition reference_quote :: "pystr \<Rightarrow> pystr" where
  "reference_quote t =
     (let collapsed = py_join [32] (py_split t) in
      if length collapsed \<le> REFERENCE_QUOTE_MAX_CHARS then collapsed
      else py_rstrip (take (REFERENCE_QUOTE_MAX_CHARS - 1) collapsed) @ [8230])"

definition reference_from_hit :: "recall_chunk_hit \<Rightarrow> recall_reference" where
  "reference_from_hit h = \<lparr>rf_source_id = rc_source_id h, rf_source_name = rc_source_name h,
     rf_document_id = rc_document_id h, rf_chunk_id = rc_chunk_id h, rf_chunk_ordinal = rc_ordinal h,
     rf_quote = reference_quote (rc_text h), rf_start_char = rc_start_char h, rf_end_char = rc_end_char h,
     rf_score = hit_score h, rf_url = rc_source_url h\<rparr>"

definition reference_from_evidence :: "recalled_evidence \<Rightarrow> rat \<Rightarrow> recall_reference" where
  "reference_from_evidence v score = \<lparr>rf_source_id = rv_source_id v, rf_source_name = rv_source_name v,
     rf_document_id = rv_document_id v, rf_chunk_id = rv_chunk_id v, rf_chunk_ordinal = rv_chunk_ordinal v,
     rf_quote = reference_quote (rv_quote v), rf_start_char = rv_start_char v, rf_end_char = rv_end_char v,
     rf_score = score, rf_url = rv_source_url v\<rparr>"

definition score_of :: "(uuid \<times> rat) list \<Rightarrow> uuid \<Rightarrow> rat" where
  "score_of scores k = (case map_of scores k of Some s \<Rightarrow> s | None \<Rightarrow> 0)"

definition dict_of :: "('k \<times> 'v) list \<Rightarrow> ('k \<times> 'v) list" where
  "dict_of kvs = fold (\<lambda>(k, v) m. AList.update k v m) kvs []"

fun add_evidence_references ::
  "(uuid \<times> rat) list \<Rightarrow> recalled_evidence list \<Rightarrow> (uuid \<times> recall_reference) list \<Rightarrow> (uuid \<times> recall_reference) list" where
  "add_evidence_references scores [] refs = refs"
| "add_evidence_references scores (v # vs) refs = add_evidence_references scores vs
     (if rv_chunk_id v \<in> fst ` set refs then refs
      else AList.update (rv_chunk_id v) (reference_from_evidence v (score_of scores (rv_relation_id v))) refs)"

definition recall_references ::
  "recall_chunk_hit list \<Rightarrow> recalled_evidence list \<Rightarrow> recall_relation list \<Rightarrow> recall_reference list" where
  "recall_references hits evidence relations =
     map snd (add_evidence_references (dict_of (map (\<lambda>r. (rrn_relation_id r, rrn_score r)) relations)) evidence
       (dict_of (map (\<lambda>h. (rc_chunk_id h, reference_from_hit h)) hits)))"

definition audit_references :: "recall_reference list \<Rightarrow> json" where
  "audit_references refs = JObj [(ascii ''items'', JArr (map (\<lambda>r. JObj
     [(ascii ''source_id'', JStr (uuid_text (rf_source_id r))), (ascii ''document_id'', JStr (uuid_text (rf_document_id r))),
      (ascii ''chunk_id'', JStr (uuid_text (rf_chunk_id r))), (ascii ''chunk_ordinal'', JInt (rf_chunk_ordinal r)),
      (ascii ''score'', JReal (rf_score r))]) refs))]"

end
