(* ===== verification/Recall_Call.thy ===== *)
theory Recall_Call
  imports Recall_Service
begin

text \<open>
  The graph half of \<open>services/recall.py\<close>, the text the answer model is given, and the composed call
  \<open>RecallService.recall\<close>.
\<close>

subsection \<open>Scores of the graph neighbourhood\<close>

definition raise_score :: "uuid \<Rightarrow> rat \<Rightarrow> (uuid \<times> rat) list \<Rightarrow> (uuid \<times> rat) list" where
  "raise_score k s scores = AList.update k (max (score_of scores k) s) scores"

fun graph_scores ::
  "graph_record list \<Rightarrow> (uuid \<times> rat) list \<Rightarrow> (uuid \<times> rat) list \<Rightarrow> (uuid \<times> rat) list \<Rightarrow> (uuid \<times> rat) list \<times> (uuid \<times> rat) list" where
  "graph_scores [] seeds es rs = (es, rs)"
| "graph_scores (g # gs) seeds es rs =
     (let seed = score_of seeds (gr_seed_chunk_id g);
          es1 = raise_score (gr_seed_entity_id g) seed es;
          rs1 = (case gr_relation_id g of None \<Rightarrow> rs | Some r \<Rightarrow> raise_score r seed rs);
          es2 = (case (gr_neighbor_entity_id g, gr_relation_id g) of
                   (Some n, Some r) \<Rightarrow> raise_score n (score_of rs1 r) es1
                 | _ \<Rightarrow> es1)
      in graph_scores gs seeds es2 rs1)"

definition ordered_ids_by_score :: "(uuid \<times> rat) list \<Rightarrow> uuid list" where
  "ordered_ids_by_score scores = map fst (sort_key (\<lambda>(k, s). (- s, uuid_text k)) scores)"

definition unique_ordered :: "uuid list \<Rightarrow> uuid list" where
  "unique_ordered items = dict_fromkeys items"

definition neighbour_ids :: "uuid list \<Rightarrow> graph_record list \<Rightarrow> uuid list" where
  "neighbour_ids relation_ids records = concat (map (\<lambda>g.
     if (case gr_relation_id g of None \<Rightarrow> False | Some r \<Rightarrow> r \<in> set relation_ids)
     then (case gr_neighbor_entity_id g of None \<Rightarrow> [] | Some n \<Rightarrow> [n]) @ [gr_seed_entity_id g] else []) records)"

definition ordered_entity_ids_for_recall :: "(uuid \<times> rat) list \<Rightarrow> uuid list \<Rightarrow> graph_record list \<Rightarrow> uuid list" where
  "ordered_entity_ids_for_recall entity_scores relation_ids records =
     unique_ordered (ordered_ids_by_score entity_scores @ neighbour_ids relation_ids records)"

definition sort_entities_by_score :: "recalled_entity list \<Rightarrow> (uuid \<times> rat) list \<Rightarrow> recalled_entity list" where
  "sort_entities_by_score entities scores = sort_key (\<lambda>e. (- score_of scores (re_id e), uuid_text (re_id e))) entities"

definition sort_relations_by_score :: "recalled_relation list \<Rightarrow> (uuid \<times> rat) list \<Rightarrow> recalled_relation list" where
  "sort_relations_by_score relations scores = sort_key (\<lambda>r. (- score_of scores (rr_id r), uuid_text (rr_id r))) relations"

definition first_evidence_by_relation_id :: "recalled_evidence list \<Rightarrow> recalled_evidence list" where
  "first_evidence_by_relation_id evidence = first_per rv_relation_id evidence"

definition evidence_of :: "recalled_evidence list \<Rightarrow> uuid \<Rightarrow> recalled_evidence option" where
  "evidence_of firsts k = List.find (\<lambda>v. rv_relation_id v = k) firsts"

definition recall_entity_from_snapshot :: "recalled_entity \<Rightarrow> rat \<Rightarrow> recall_entity" where
  "recall_entity_from_snapshot e score = \<lparr>ren_entity_id = re_id e, ren_name = re_name e,
     ren_entity_type = re_entity_type e, ren_description = re_description e, ren_score = score\<rparr>"

definition recall_relation_from_snapshot :: "recalled_relation \<Rightarrow> rat \<Rightarrow> recalled_evidence option \<Rightarrow> recall_relation" where
  "recall_relation_from_snapshot r score evidence = \<lparr>rrn_relation_id = rr_id r,
     rrn_source_entity_id = rr_source_entity_id r, rrn_target_entity_id = rr_target_entity_id r,
     rrn_predicate = rr_predicate r, rrn_description = rr_description r, rrn_confidence = rr_confidence r,
     rrn_score = score, rrn_evidence = map_option rv_quote evidence,
     rrn_evidence_chunk_id = map_option rv_chunk_id evidence\<rparr>"

definition max_relation_score :: "uuid \<Rightarrow> recall_relation list \<Rightarrow> rat" where
  "max_relation_score k relations =
     (let scores = map rrn_score (filter (\<lambda>r. rrn_source_entity_id r = k \<or> rrn_target_entity_id r = k) relations) in
      if scores = [] then 0 else fold max (tl scores) (hd scores))"

subsection \<open>Graph hydration\<close>

definition empty_hydration :: hydration where
  "empty_hydration = \<lparr>gh_entities = [], gh_relations = [], gh_evidence = [], gh_summaries = []\<rparr>"

text \<open>The one transaction of the hydration reads \<open>d\<close>.\<close>

definition hydrate_graph ::
  "search_engine \<Rightarrow> recall_settings \<Rightarrow> recall_request \<Rightarrow> uuid list \<Rightarrow> recall_chunk_hit list \<Rightarrow> (uuid \<times> rat) list \<Rightarrow>
   graph_record list \<Rightarrow> kdb \<Rightarrow> hydration" where
  "hydrate_graph E st rq dataset_ids hits seeds records d =
     (let (entity_scores, relation_scores) = graph_scores records seeds [] [];
          relation_ids = take (nat (effective_top_k st rq)) (ordered_ids_by_score relation_scores);
          entity_ids = ordered_entity_ids_for_recall entity_scores relation_ids records;
          document_ids = unique_ordered (map rc_document_id hits);
          entities = entities_for_recall dataset_ids entity_ids d;
          relations = relations_for_recall dataset_ids relation_ids d;
          evidence = evidence_for_recall E dataset_ids relation_ids (rq_filters rq) d;
          summaries = document_summaries_for_recall dataset_ids document_ids d;
          firsts = first_evidence_by_relation_id evidence;
          recalled_relations = map (\<lambda>r. recall_relation_from_snapshot r (score_of relation_scores (rr_id r)) (evidence_of firsts (rr_id r)))
            (sort_relations_by_score relations relation_scores);
          relation_entity_ids = concat (map (\<lambda>r. [rrn_source_entity_id r, rrn_target_entity_id r]) recalled_relations);
          recalled_entities = map (\<lambda>e. recall_entity_from_snapshot e
              (case map_of entity_scores (re_id e) of Some s \<Rightarrow> s | None \<Rightarrow> max_relation_score (re_id e) recalled_relations))
            (filter (\<lambda>e. re_id e \<in> fst ` set entity_scores \<or> re_id e \<in> set relation_entity_ids)
              (sort_entities_by_score entities entity_scores))
      in \<lparr>gh_entities = recalled_entities, gh_relations = recalled_relations, gh_evidence = evidence, gh_summaries = summaries\<rparr>)"

definition graph_mode :: "recall_mode \<Rightarrow> bool" where
  "graph_mode m \<longleftrightarrow> m \<in> {Mode_GRAPH, Mode_TRIPLETS, Mode_HYBRID}"

definition graph_hydration ::
  "recall_env \<Rightarrow> recall_settings \<Rightarrow> recall_request \<Rightarrow> uuid list \<Rightarrow> recall_chunk_hit list \<Rightarrow> kdb \<Rightarrow> exn + hydration" where
  "graph_hydration env st rq dataset_ids hits d =
     (if \<not> graph_mode (rq_mode rq) then Inr empty_hydration
      else case rx_graph env of
        None \<Rightarrow> Inl dependency_unavailable_error
      | Some retrieve \<Rightarrow>
        if hits = [] then Inr empty_hydration
        else (let seed_hits = take (nat (rs_graph_seed_top_k st)) hits;
                  seeds = dict_of (map (\<lambda>h. (rc_chunk_id h, hit_score h)) seed_hits) in
              bindE (client_result (retrieve (map rc_chunk_id seed_hits) dataset_ids (rs_graph_max_nodes st))) (\<lambda>records.
              Inr (hydrate_graph (rx_search env) st rq dataset_ids hits seeds records d))))"

subsection \<open>The text for the answer model\<close>

definition rag_context :: "recall_chunk_hit list \<Rightarrow> pystr" where
  "rag_context hits = py_join [10, 10] (map (\<lambda>h. ascii ''[chunk:'' @ uuid_text (rc_chunk_id h) @ ascii '']'' @ [10]
     @ ascii ''source: '' @ rc_source_name h @ [10] @ ascii ''text:'' @ [10] @ rc_text h) hits)"

definition entity_block :: "recall_entity \<Rightarrow> pystr" where
  "entity_block e = ascii ''Entity: '' @ ren_name e @ ascii '' ('' @ ren_entity_type e @ ascii '')'' @ [10]
     @ ascii ''Description: '' @ ren_description e"

definition relation_block :: "recall_relation \<Rightarrow> pystr" where
  "relation_block r = ascii ''Relation: '' @ uuid_text (rrn_source_entity_id r) @ ascii '' --'' @ rrn_predicate r
     @ ascii ''--> '' @ uuid_text (rrn_target_entity_id r) @ [10] @ ascii ''Description: '' @ rrn_description r @ [10]
     @ ascii ''Evidence: '' @ (case rrn_evidence r of Some (c # cs) \<Rightarrow> c # cs | _ \<Rightarrow> ascii ''No filtered evidence available.'')"

definition graph_context :: "hydration \<Rightarrow> pystr" where
  "graph_context g = py_join [10, 10]
     ((if gh_entities g = [] then [] else [ascii ''[ENTITIES]'' @ [10] @ py_join [10] (map entity_block (gh_entities g))])
      @ (if gh_relations g = [] then []
         else [ascii ''[RELATIONS/TRIPLETS]'' @ [10] @ py_join [10] (map relation_block (gh_relations g))]))"

definition hybrid_context :: "recall_chunk_hit list \<Rightarrow> hydration \<Rightarrow> pystr" where
  "hybrid_context hits g = py_join [10, 10] (filter (\<lambda>s. py_strip s \<noteq> [])
     ([ascii ''[CHUNKS]'' @ [10] @ rag_context hits]
      @ (if gh_summaries g = [] then []
         else [ascii ''[DOCUMENT SUMMARIES]'' @ [10] @ py_join [10, 10] (map (\<lambda>s.
                 ascii ''[document:'' @ uuid_text (rds_document_id s) @ ascii '']'' @ [10] @ rds_text s) (gh_summaries g))])
      @ (if graph_context g = [] then [] else [ascii ''[GRAPH]'' @ [10] @ graph_context g])))"

definition answer_context :: "recall_request \<Rightarrow> recall_chunk_hit list \<Rightarrow> hydration \<Rightarrow> pystr option \<Rightarrow> pystr" where
  "answer_context rq hits g block =
     (if rq_mode rq = Mode_GRAPH then graph_context g
      else if rq_mode rq = Mode_HYBRID then hybrid_context hits g
      else case block of
        None \<Rightarrow> rag_context hits
      | Some b \<Rightarrow> py_join [10, 10] ([ascii ''[SESSION CONTEXT]'' @ [10] @ b]
          @ (if rag_context hits = [] then [] else [ascii ''[KNOWLEDGE CONTEXT]'' @ [10] @ rag_context hits])))"

definition recall_answer ::
  "recall_env \<Rightarrow> recall_request \<Rightarrow> recall_chunk_hit list \<Rightarrow> hydration \<Rightarrow> session_admission option \<Rightarrow> exn + pystr option" where
  "recall_answer env rq hits g admission =
     (let block = (case admission of None \<Rightarrow> None | Some a \<Rightarrow> sa_context_block a) in
      if rq_mode rq \<in> {Mode_CHUNKS, Mode_TRIPLETS} \<or> rq_only_context rq then Inr None
      else if rq_mode rq = Mode_GRAPH \<and> gh_entities g = [] \<and> gh_relations g = [] then Inr (Some NO_EVIDENCE_ANSWER)
      else if rq_mode rq = Mode_HYBRID \<and> hits = [] then Inr (Some NO_EVIDENCE_ANSWER)
      else if rq_mode rq = Mode_RAG \<and> hits = [] \<and> block = None then Inr (Some NO_EVIDENCE_ANSWER)
      else bindE (client_result (rx_answer env (rq_query rq) (answer_context rq hits g block))) (\<lambda>a. Inr (Some a)))"

definition generated_with_llm :: "recall_request \<Rightarrow> pystr option \<Rightarrow> bool" where
  "generated_with_llm rq answer \<longleftrightarrow> answer \<noteq> None \<and> answer \<noteq> Some NO_EVIDENCE_ANSWER
     \<and> rq_mode rq \<in> {Mode_RAG, Mode_GRAPH, Mode_HYBRID} \<and> \<not> rq_only_context rq"

subsection \<open>Timings and the audit row\<close>

text \<open>Python's \<open>round\<close> rounds halves to even.\<close>

definition py_round :: "rat \<Rightarrow> int" where
  "py_round x = (let f = \<lfloor>x\<rfloor>; r = x - of_int f in
     if r < 1 / 2 then f else if r > 1 / 2 then f + 1 else if even f then f else f + 1)"

definition elapsed_ms :: "rat \<Rightarrow> rat \<Rightarrow> int" where
  "elapsed_ms started_at now = max 0 (py_round ((now - started_at) * 1000))"

definition audit_query ::
  "recall_env \<Rightarrow> recall_settings \<Rightarrow> recall_request \<Rightarrow> uuid list \<Rightarrow> pystr option \<Rightarrow> recall_reference list \<Rightarrow>
   (string \<times> int) list \<Rightarrow> session_admission option \<Rightarrow> query" where
  "audit_query env st rq dataset_ids answer references timings admission =
     \<lparr>q_id = rx_query_id env,
      q_query_text = (if rs_store_query_content st then Some (rq_query rq) else None),
      q_dataset_ids = dataset_ids, q_mode = recall_mode_value (rq_mode rq),
      q_answer = (if rs_store_query_content st then answer else None),
      q_references = audit_references references, q_timings = timings,
      q_model = (if generated_with_llm rq answer then Some (rs_llm_model st) else None),
      q_session_id = map_option sa_session_uuid admission,
      q_session_context_entry_ids = (case admission of None \<Rightarrow> [] | Some a \<Rightarrow> sa_context_entry_ids a),
      q_created_at = rx_db_now env 1\<rparr>"

definition persist_query_audit :: "query \<Rightarrow> recall_db \<Rightarrow> exn + (uuid \<times> recall_db)" where
  "persist_query_audit q w =
     bindE (query_add q (rdb_sessions w)) (\<lambda>s. Inr (q_id q, w\<lparr>rdb_sessions := s\<rparr>))"

subsection \<open>The call\<close>

definition recall_summaries ::
  "recall_env \<Rightarrow> recall_settings \<Rightarrow> recall_request \<Rightarrow> uuid list \<Rightarrow> rat list \<Rightarrow> session_admission option \<Rightarrow>
   recall_db \<Rightarrow> (exn + recall_result) \<times> recall_db" where
  "recall_summaries env st rq dataset_ids embedding admission w =
     (let w2 = rx_interfere env 2 w;
          found = vector_search_document_summaries (rx_search env) dataset_ids embedding (effective_top_k st rq)
                    (rq_filters rq) (rdb_knowledge w2);
          t = rx_perf env;
          timings = [(''embedding'', elapsed_ms (t 1) (t 2)), (''retrieval'', elapsed_ms (t 3) (t 4)), (''graph'', 0),
                     (''generation'', 0), (''total'', elapsed_ms (t 0) (t 9))];
          w5 = rx_interfere env 5 w2 in
      case persist_query_audit (audit_query env st rq dataset_ids None [] timings admission) w5 of
        Inl e \<Rightarrow> (Inl e, w5)
      | Inr (qid, w6) \<Rightarrow> (Inr \<lparr>rz_query_id = qid, rz_mode = recall_mode_value (rq_mode rq), rz_answer = None,
            rz_context = map (Summary_Entry \<circ> summary_context_item) found, rz_references = [], rz_entities = [],
            rz_relations = [], rz_timings_ms = timings, rz_session_uuid = map_option sa_session_uuid admission\<rparr>, w6))"

text \<open>The vector and the lexical search run concurrently, each in a transaction of its own.\<close>

definition recall_chunks ::
  "recall_env \<Rightarrow> recall_settings \<Rightarrow> recall_request \<Rightarrow> uuid list \<Rightarrow> rat list \<Rightarrow> session_admission option \<Rightarrow>
   recall_db \<Rightarrow> (exn + recall_result) \<times> recall_db" where
  "recall_chunks env st rq dataset_ids embedding admission w =
     (let hits = take (nat (effective_top_k st rq)) (reciprocal_rank_fusion
            (vector_search (rx_search env) dataset_ids embedding (rs_vector_top_k st) (rq_filters rq) (rdb_knowledge (rx_interfere env 2 w)))
            (lexical_search (rx_search env) dataset_ids (rq_query rq) (rs_lexical_top_k st) (rq_filters rq) (rdb_knowledge (rx_interfere env 3 w)))
            (rs_rrf_k st));
          w4 = rx_interfere env 4 w in
      case graph_hydration env st rq dataset_ids hits (rdb_knowledge w4) of
        Inl e \<Rightarrow> (Inl e, w4)
      | Inr g \<Rightarrow>
        (let references = recall_references hits (gh_evidence g) (gh_relations g) in
         case recall_answer env rq hits g admission of
           Inl e \<Rightarrow> (Inl e, w4)
         | Inr answer \<Rightarrow>
           (let t = rx_perf env;
                timings = [(''embedding'', elapsed_ms (t 1) (t 2)), (''retrieval'', elapsed_ms (t 3) (t 4)),
                           (''graph'', elapsed_ms (t 5) (t 6)), (''generation'', elapsed_ms (t 7) (t 8)),
                           (''total'', elapsed_ms (t 0) (t 9))];
                w5 = rx_interfere env 5 w4 in
            case persist_query_audit (audit_query env st rq dataset_ids answer references timings admission) w5 of
              Inl e \<Rightarrow> (Inl e, w5)
            | Inr (qid, w6) \<Rightarrow> (Inr \<lparr>rz_query_id = qid, rz_mode = recall_mode_value (rq_mode rq), rz_answer = answer,
                rz_context = map (Chunk_Entry \<circ> context_item_from_hit) hits,
                rz_references = (if rq_include_references rq then references else []),
                rz_entities = gh_entities g, rz_relations = gh_relations g, rz_timings_ms = timings,
                rz_session_uuid = map_option sa_session_uuid admission\<rparr>, w6))))"

definition recall :: "recall_env \<Rightarrow> recall_settings \<Rightarrow> recall_request \<Rightarrow> recall_db \<Rightarrow> (exn + recall_result) \<times> recall_db" where
  "recall env st rq w =
     (case bindE (validate_include_session_context rq) (\<lambda>_. validate_supported_mode st rq) of
        Inl e \<Rightarrow> (Inl e, w)
      | Inr _ \<Rightarrow>
        (let w0 = rx_interfere env 0 w in
         case recall_datasets (rq_datasets rq) (rdb_knowledge w0) of
           Inl e \<Rightarrow> (Inl e, w0)
         | Inr snapshots \<Rightarrow>
           (let w1 = rx_interfere env 1 w0 in
            case admit_session env st rq (rdb_sessions w1) of
              Inl e \<Rightarrow> (Inl e, w1)
            | Inr (admission, s) \<Rightarrow>
              (let w1' = w1\<lparr>rdb_sessions := s\<rparr> in
               case embed_query env st (rq_query rq) of
                 Inl e \<Rightarrow> (Inl e, w1')
               | Inr embedding \<Rightarrow>
                 (if rq_mode rq = Mode_SUMMARIES
                  then recall_summaries env st rq (map ds_id snapshots) embedding admission w1'
                  else recall_chunks env st rq (map ds_id snapshots) embedding admission w1')))))"

end
