(* ===== verification/Recall_Facts.thy ===== *)
theory Recall_Facts
  imports Recall_Call
begin

text \<open>
  Recall's building blocks: dictionaries built by assignment, rank fusion against its reference
  definition, and what the authoritative queries may return.
\<close>

subsection \<open>Dictionaries\<close>

lemma update_absent: "k \<notin> fst ` set m \<Longrightarrow> AList.update k v m = m @ [(k, v)]"
  by (induction m) auto

lemma update_present:
  "distinct (map fst m) \<Longrightarrow> k \<in> fst ` set m \<Longrightarrow> AList.update k v m = map (\<lambda>(j, x). if j = k then (j, v) else (j, x)) m"
proof (induction m)
  case (Cons p m)
  obtain j x where p: "p = (j, x)" by force
  show ?case
  proof (cases "j = k")
    case True
    then have "k \<notin> fst ` set m" using Cons.prems(1) p by auto
    then have "map (\<lambda>(j, x). if j = k then (j, v) else (j, x)) m = m" by (induction m) auto
    then show ?thesis using True p by simp
  qed (use Cons p in auto)
qed simp

lemma update_keys: "fst ` set (AList.update k v m) = insert k (fst ` set m)"
  by (induction m) auto

lemma dict_of_keys: "fst ` set (dict_of kvs) = fst ` set kvs" "distinct (map fst (dict_of kvs))"
proof -
  have "fst ` set (fold (\<lambda>(k, v) m. AList.update k v m) kvs m) = fst ` set kvs \<union> fst ` set m" for m
  proof (induction kvs arbitrary: m)
    case (Cons p kvs)
    then show ?case by (cases p) (simp add: update_keys)
  qed simp
  then show "fst ` set (dict_of kvs) = fst ` set kvs" by (simp add: dict_of_def)
  have "distinct (map fst m) \<Longrightarrow> distinct (map fst (fold (\<lambda>(k, v) m. AList.update k v m) kvs m))" for m
    by (induction kvs arbitrary: m) (auto simp: distinct_update)
  then show "distinct (map fst (dict_of kvs))" by (simp add: dict_of_def)
qed

lemma dict_of_distinct:
  assumes "distinct (map fst kvs)"
  shows "dict_of kvs = kvs"
proof -
  have "distinct (map fst (m @ kvs)) \<Longrightarrow> fold (\<lambda>(k, v) m. AList.update k v m) kvs m = m @ kvs" for m
  proof (induction kvs arbitrary: m)
    case (Cons p kvs)
    obtain k v where p: "p = (k, v)" by force
    have "AList.update k v m = m @ [(k, v)]" using Cons.prems p by (auto intro: update_absent)
    then show ?case using Cons.IH[of "m @ [(k, v)]"] Cons.prems p by simp
  qed simp
  from this[of "[]"] assms show ?thesis by (simp add: dict_of_def)
qed

subsection \<open>Rank fusion\<close>

fun rank_of :: "uuid \<Rightarrow> int \<Rightarrow> retrieved_chunk list \<Rightarrow> int option" where
  "rank_of k n [] = None"
| "rank_of k n (r # rs) = (if rc_chunk_id r = k then Some n else rank_of k (n + 1) rs)"

definition only_lexical :: "retrieved_chunk list \<Rightarrow> uuid set \<Rightarrow> retrieved_chunk list" where
  "only_lexical L ids = filter (\<lambda>r. rc_chunk_id r \<notin> ids) L"

definition rrf_reference :: "retrieved_chunk list \<Rightarrow> retrieved_chunk list \<Rightarrow> int \<Rightarrow> recall_chunk_hit list" where
  "rrf_reference V L rrf_k = sort_key hit_order (map (\<lambda>r. chunk_hit rrf_k (r, rank_of (rc_chunk_id r) 1 V, rank_of (rc_chunk_id r) 1 L))
     (V @ only_lexical L (rc_chunk_id ` set V)))"

lemma rank_of_None: "rank_of k n rs = None \<longleftrightarrow> k \<notin> rc_chunk_id ` set rs"
  by (induction rs arbitrary: n) auto

lemma rank_of_bound: "rank_of k n rs = Some i \<Longrightarrow> n \<le> i \<and> i < n + int (length rs)"
  by (induction rs arbitrary: n) (force split: if_splits)+

lemma fuse_vector_eq:
  "distinct (map rc_chunk_id rs) \<Longrightarrow> fst ` set D \<inter> rc_chunk_id ` set rs = {} \<Longrightarrow>
   fuse_vector n rs D = D @ map (\<lambda>r. (rc_chunk_id r, r, rank_of (rc_chunk_id r) n rs, None)) rs"
proof (induction rs arbitrary: n D)
  case (Cons r rs)
  have fresh: "rc_chunk_id r \<notin> fst ` set D" using Cons.prems(2) by auto
  then have none: "map_of D (rc_chunk_id r) = None" by (simp add: map_of_eq_None_iff)
  have "fuse_vector n (r # rs) D = fuse_vector (n + 1) rs (D @ [(rc_chunk_id r, r, Some n, None)])"
    using update_absent[OF fresh] none by simp
  also have "\<dots> = (D @ [(rc_chunk_id r, r, Some n, None)]) @ map (\<lambda>r. (rc_chunk_id r, r, rank_of (rc_chunk_id r) (n + 1) rs, None)) rs"
    using Cons.prems by (intro Cons.IH) auto
  also have "map (\<lambda>r. (rc_chunk_id r, r, rank_of (rc_chunk_id r) (n + 1) rs, None :: int option)) rs
      = map (\<lambda>x. (rc_chunk_id x, x, rank_of (rc_chunk_id x) n (r # rs), None)) rs"
    using Cons.prems(1) by (intro map_cong) (auto simp: image_iff)
  finally show ?case by simp
qed simp

definition with_lexical :: "int \<Rightarrow> retrieved_chunk list \<Rightarrow> uuid \<times> fusion_entry \<Rightarrow> uuid \<times> fusion_entry" where
  "with_lexical n rs = (\<lambda>(k, x, v, l). (k, x, v, case rank_of k n rs of None \<Rightarrow> l | Some i \<Rightarrow> Some i))"

lemma with_lexical_key [simp]: "fst (with_lexical n rs p) = fst p"
  by (cases p) (simp add: with_lexical_def)

lemma fuse_lexical_eq:
  "distinct (map rc_chunk_id rs) \<Longrightarrow> distinct (map fst D) \<Longrightarrow>
   fuse_lexical n rs D = map (with_lexical n rs) D
     @ map (\<lambda>r. (rc_chunk_id r, r, None, rank_of (rc_chunk_id r) n rs)) (only_lexical rs (fst ` set D))"
proof (induction rs arbitrary: n D)
  case Nil
  have "map (with_lexical n []) D = D" by (rule map_idI) (auto simp: with_lexical_def)
  then show ?case by (simp add: only_lexical_def)
next
  case (Cons r rs)
  let ?k = "rc_chunk_id r"
  have k: "?k \<notin> rc_chunk_id ` set rs" using Cons.prems(1) by simp
  then have ne: "\<forall>x \<in> set rs. rc_chunk_id x \<noteq> ?k" by (metis imageI)
  from k have rk: "rank_of ?k (n + 1) rs = None" by (simp add: rank_of_None)
  have shift: "only_lexical rs (insert ?k S) = only_lexical rs S" for S
    unfolding only_lexical_def using ne by (intro filter_cong) auto
  have lex: "map (\<lambda>r. (rc_chunk_id r, r, None :: int option, rank_of (rc_chunk_id r) (n + 1) rs)) (only_lexical rs S)
      = map (\<lambda>x. (rc_chunk_id x, x, None, rank_of (rc_chunk_id x) n (r # rs))) (only_lexical rs S)" for S
    using ne by (intro map_cong) (auto simp: only_lexical_def)
  show ?case
  proof (cases "?k \<in> fst ` set D")
    case True
    then obtain x v l where m: "map_of D ?k = Some (x, v, l)"
      by (metis map_of_eq_None_iff not_Some_eq prod_cases3)
    define D' where "D' = map (\<lambda>(j, y). if j = ?k then (j, x, v, Some n) else (j, y)) D"
    have u: "fuse_lexical n (r # rs) D = fuse_lexical (n + 1) rs D'"
      using update_present[OF Cons.prems(2) True, of "(x, v, Some n)"] m by (simp add: D'_def)
    have keys: "map fst D' = map fst D" by (auto simp: D'_def case_prod_unfold)
    have img: "fst ` set D' = fst ` set D" using keys by (metis list.set_map)
    have same: "(x', v', l') = (x, v, l)" if "(?k, x', v', l') \<in> set D" for x' v' l'
      using that m Cons.prems(2) by (metis map_of_is_SomeI option.inject)
    have wl: "map (with_lexical (n + 1) rs) D' = map (with_lexical n (r # rs)) D"
      unfolding D'_def map_map using rk same by (intro map_cong) (auto simp: with_lexical_def)
    have ol: "only_lexical (r # rs) (fst ` set D) = only_lexical rs (fst ` set D)"
      using True by (simp add: only_lexical_def)
    have "fuse_lexical (n + 1) rs D' = map (with_lexical (n + 1) rs) D'
        @ map (\<lambda>r. (rc_chunk_id r, r, None, rank_of (rc_chunk_id r) (n + 1) rs)) (only_lexical rs (fst ` set D'))"
      by (rule Cons.IH) (use Cons.prems keys in simp_all)
    then show ?thesis unfolding u wl img ol lex .
  next
    case False
    define D' where "D' = D @ [(?k, r, None :: int option, Some n)]"
    have none: "map_of D ?k = None" using False by (simp add: map_of_eq_None_iff)
    have u: "fuse_lexical n (r # rs) D = fuse_lexical (n + 1) rs D'"
      using update_absent[OF False] none by (simp add: D'_def)
    have "map (with_lexical (n + 1) rs) D = map (with_lexical n (r # rs)) D"
      using False by (intro map_cong) (auto simp: with_lexical_def image_iff)
    then have wl: "map (with_lexical (n + 1) rs) D' = map (with_lexical n (r # rs)) D @ [(?k, r, None, Some n)]"
      using rk by (simp add: D'_def with_lexical_def)
    have img: "fst ` set D' = insert ?k (fst ` set D)" by (simp add: D'_def)
    have ol: "only_lexical (r # rs) (fst ` set D) = r # only_lexical rs (fst ` set D)"
      using False by (simp add: only_lexical_def)
    have "fuse_lexical (n + 1) rs D' = map (with_lexical (n + 1) rs) D'
        @ map (\<lambda>r. (rc_chunk_id r, r, None, rank_of (rc_chunk_id r) (n + 1) rs)) (only_lexical rs (fst ` set D'))"
      by (rule Cons.IH) (use Cons.prems False in \<open>simp_all add: D'_def\<close>)
    then show ?thesis unfolding u wl img ol shift lex by simp
  qed
qed

lemma fusion_entries:
  assumes "distinct (map rc_chunk_id V)" "distinct (map rc_chunk_id L)"
  shows "map snd (fuse_lexical 1 L (fuse_vector 1 V [])) = map (\<lambda>r. (r, rank_of (rc_chunk_id r) 1 V, rank_of (rc_chunk_id r) 1 L))
     (V @ only_lexical L (rc_chunk_id ` set V))"
proof -
  let ?D = "map (\<lambda>r. (rc_chunk_id r, r, rank_of (rc_chunk_id r) 1 V, None :: int option)) V"
  have D: "fuse_vector 1 V [] = ?D" using fuse_vector_eq[OF assms(1), of "[]" 1] by simp
  have keys: "map fst ?D = map rc_chunk_id V" "fst ` set ?D = rc_chunk_id ` set V" by (auto simp: image_image)
  have "map snd (map (with_lexical 1 L) ?D) = map (\<lambda>r. (r, rank_of (rc_chunk_id r) 1 V, rank_of (rc_chunk_id r) 1 L)) V"
    by (simp add: with_lexical_def split: option.split)
  moreover have "rank_of (rc_chunk_id r) 1 V = None" if "r \<in> set (only_lexical L (rc_chunk_id ` set V))" for r
    using that by (simp add: only_lexical_def rank_of_None)
  ultimately show ?thesis using fuse_lexical_eq[OF assms(2), of ?D 1] assms(1) unfolding D keys by simp
qed

lemma rrf_eq:
  assumes "distinct (map rc_chunk_id V)" "distinct (map rc_chunk_id L)"
  shows "reciprocal_rank_fusion V L k = rrf_reference V L k"
proof -
  have "map (chunk_hit k \<circ> snd) (fuse_lexical 1 L (fuse_vector 1 V [])) = map (chunk_hit k)
      (map snd (fuse_lexical 1 L (fuse_vector 1 V [])))" by simp
  then show ?thesis unfolding reciprocal_rank_fusion_def rrf_reference_def fusion_entries[OF assms]
    by (simp add: comp_def)
qed


definition demo_retrieved :: "uuid \<Rightarrow> retrieved_chunk" where
  "demo_retrieved k = \<lparr>rc_chunk_id = k, rc_dataset_id = 3, rc_source_id = 4, rc_source_name = [110], rc_source_url = None,
     rc_document_id = 5, rc_ordinal = 0, rc_text = [116], rc_start_char = 0, rc_end_char = 1\<rparr>"


lemma fusion_ids:
  assumes "distinct (map rc_chunk_id V)" "distinct (map rc_chunk_id L)"
  shows "distinct (map rc_chunk_id (reciprocal_rank_fusion V L k))"
    "rc_chunk_id ` set (reciprocal_rank_fusion V L k) = rc_chunk_id ` set V \<union> rc_chunk_id ` set L"
proof -
  have id: "rc_chunk_id (chunk_hit k e) = rc_chunk_id (fst e)" for e by (cases e) (simp add: chunk_hit_def)
  have r: "reciprocal_rank_fusion V L k = sort_key hit_order (map (chunk_hit k) (map snd (fuse_lexical 1 L (fuse_vector 1 V []))))"
    by (simp add: reciprocal_rank_fusion_def)
  have ids: "map rc_chunk_id (map (chunk_hit k) (map snd (fuse_lexical 1 L (fuse_vector 1 V []))))
      = map rc_chunk_id (V @ only_lexical L (rc_chunk_id ` set V))"
    unfolding fusion_entries[OF assms] by (simp add: id comp_def)
  have "distinct (map rc_chunk_id (V @ only_lexical L (rc_chunk_id ` set V)))"
    using assms by (auto simp: only_lexical_def distinct_map_filter_key) (metis imageI)
  then show "distinct (map rc_chunk_id (reciprocal_rank_fusion V L k))"
    unfolding r distinct_sort_key ids .
  have "rc_chunk_id ` set (reciprocal_rank_fusion V L k) = set (map rc_chunk_id (V @ only_lexical L (rc_chunk_id ` set V)))"
    unfolding r by (subst ids[symmetric]) (simp add: image_image)
  then show "rc_chunk_id ` set (reciprocal_rank_fusion V L k) = rc_chunk_id ` set V \<union> rc_chunk_id ` set L"
    by (auto simp: only_lexical_def)
qed

end
