(* ===== verification/Session_Facts.thy ===== *)
theory Session_Facts
  imports Session_Service Domain_Text_Facts
begin

text \<open>
  Properties of sessions: every committed call keeps the constraints of the tables, an entry once
  admitted is never changed or lost, an append under an external identifier takes effect once, and an
  archived session admits nothing new.
\<close>

subsection \<open>Any committed activity\<close>

datatype session_op =
    Op_Create uuid timestamp session_create_request
  | Op_Update uuid timestamp session_update_request
  | Op_Archive uuid timestamp
  | Op_Restore uuid timestamp
  | Op_Append uuid timestamp uuid entry_create_request
  | Op_Lazy_Create timestamp session
  | Op_Audit query

definition committed :: "exn + ('a \<times> session_db) \<Rightarrow> session_db \<Rightarrow> session_db" where
  "committed r d = (case r of Inl _ \<Rightarrow> d | Inr (_, d') \<Rightarrow> d')"

fun apply_op :: "session_op \<Rightarrow> session_db \<Rightarrow> session_db" where
  "apply_op (Op_Create u t r) d = committed (create_session u t r d) d"
| "apply_op (Op_Update k t r) d = committed (update_session k t r d) d"
| "apply_op (Op_Archive k t) d = committed (archive_session k t d) d"
| "apply_op (Op_Restore k t) d = committed (restore_session k t d) d"
| "apply_op (Op_Append u t k r) d = committed (append_entry u t k r d) d"
| "apply_op (Op_Lazy_Create t s) d = committed (get_or_create_by_key t s d) d"
| "apply_op (Op_Audit q) d = (case query_add q d of Inl _ \<Rightarrow> d | Inr d' \<Rightarrow> d')"

definition apply_ops :: "session_op list \<Rightarrow> session_db \<Rightarrow> session_db" where
  "apply_ops ops d = fold apply_op ops d"

lemma committed_cases:
  assumes "P d" "\<And>x d'. r = Inr (x, d') \<Longrightarrow> P d'"
  shows "P (committed r d)"
  using assms by (auto simp: committed_def split: sum.split prod.split)

subsection \<open>What a call commits\<close>

definition session_grows :: "session_db \<Rightarrow> session_db \<Rightarrow> bool" where
  "session_grows d d' \<longleftrightarrow> (\<exists>es. sdb_entries d' = sdb_entries d @ es)
     \<and> (\<forall>k s. session_by_id k d = Some s \<longrightarrow> (\<exists>s'. session_by_id k d' = Some s' \<and> ses_key s' = ses_key s))"

lemma session_grows_refl [simp]: "session_grows d d"
  by (simp add: session_grows_def)

lemma session_grows_trans: "session_grows a b \<Longrightarrow> session_grows b c \<Longrightarrow> session_grows a c"
  unfolding session_grows_def by (metis append_assoc)

lemma session_by_id_props: "session_by_id k d = Some s \<Longrightarrow> ses_id s = k \<and> s \<in> set (sdb_sessions d)"
  unfolding session_by_id_def using row_get_SomeD by fastforce

lemma session_by_id_ids: "session_by_id k d = Some s \<Longrightarrow> k \<in> set (map ses_id (sdb_sessions d))"
  using session_by_id_props by force

lemma require_session_Inr: "require_session k d = Inr s \<longleftrightarrow> session_by_id k d = Some s"
  by (simp add: require_session_def split: option.split)

lemma session_add_Inr:
  assumes "session_add s d = Inr d'"
  shows "d' = d\<lparr>sdb_sessions := sdb_sessions d @ [s]\<rparr>" "ses_id s \<notin> set (map ses_id (sdb_sessions d))"
    "ses_key s \<notin> set (map ses_key (sdb_sessions d))" "session_row_ok s"
  using assms by (simp_all add: session_add_def split: if_splits)

lemma row_get_of_append:
  "row_get key k (xs @ ys) = (case row_get key k xs of None \<Rightarrow> row_get key k ys | Some r \<Rightarrow> Some r)"
  by (induction xs) (auto simp: row_get_Cons split: option.split)

lemma session_add_grows: "session_add s d = Inr d' \<Longrightarrow> session_grows d d'"
  using session_add_Inr(1)[of s d d'] by (auto simp: session_grows_def session_by_id_def row_get_of_append)

lemma session_add_ok: "session_add s d = Inr d' \<Longrightarrow> session_db_ok d \<Longrightarrow> session_db_ok d'"
  using session_add_Inr[of s d d']
  by (auto simp: session_db_ok_def keyed_def list_all_iff query_fk_ok_def split: option.splits)

lemma put_session_row:
  assumes "session_by_id k d = Some s" "ses_id s' = k" "ses_key s' = ses_key s"
  shows "session_by_id k (put_session s' d) = Some s'"
    "j \<noteq> k \<Longrightarrow> session_by_id j (put_session s' d) = session_by_id j d"
    "session_grows d (put_session s' d)"
proof -
  show 1: "session_by_id k (put_session s' d) = Some s'"
    using session_by_id_ids[OF assms(1)] assms(2) row_get_put_same[of ses_id s' "sdb_sessions d"]
    by (auto simp: session_by_id_def put_session_def)
  show 2: "session_by_id j (put_session s' d) = session_by_id j d" if "j \<noteq> k" for j
    using that assms(2) by (simp add: session_by_id_def put_session_def row_get_put_other)
  show "session_grows d (put_session s' d)"
    unfolding session_grows_def
  proof (intro conjI allI impI)
    show "\<exists>es. sdb_entries (put_session s' d) = sdb_entries d @ es" by (simp add: put_session_def)
    fix j r assume "session_by_id j d = Some r"
    then show "\<exists>r'. session_by_id j (put_session s' d) = Some r' \<and> ses_key r' = ses_key r"
      using 1 2[of j] assms by (cases "j = k") auto
  qed
qed

lemma keys_put_session:
  assumes "keyed ses_id rows" "row_get ses_id k rows = Some s" "ses_id s' = k" "ses_key s' = ses_key s"
  shows "map ses_key (row_put ses_id s' rows) = map ses_key rows"
  using assms
proof (induction rows)
  case (Cons a rows)
  then show ?case by (cases "ses_id a = k") (auto simp: row_put_def row_get_Cons keyed_def image_iff)
qed simp

lemma put_session_ok:
  assumes "session_db_ok d" "session_by_id k d = Some s" "ses_id s' = k" "ses_key s' = ses_key s" "session_row_ok s'"
  shows "session_db_ok (put_session s' d)"
  using assms keys_put_session[of "sdb_sessions d" k s s'] list_all_row_put[of session_row_ok "sdb_sessions d" s' ses_id]
  unfolding session_db_ok_def put_session_def session_by_id_def
  by (simp del: set_map)

lemma entry_add_Inr:
  assumes "entry_add e d = Inr d'"
  shows "d' = d\<lparr>sdb_entries := sdb_entries d @ [e]\<rparr>" "se_id e \<notin> set (map se_id (sdb_entries d))"
    "se_session_id e \<in> set (map ses_id (sdb_sessions d))" "session_entry_row_ok e"
    "se_external_id e = Some x \<Longrightarrow> (se_session_id e, x) \<notin> set (external_ids (sdb_entries d))"
  using assms by (simp_all add: entry_add_def split: if_splits)

lemma external_ids_append [simp]: "external_ids (xs @ ys) = external_ids xs @ external_ids ys"
  by (simp add: external_ids_def)

lemma entry_add_ok: "entry_add e d = Inr d' \<Longrightarrow> session_db_ok d \<Longrightarrow> session_db_ok d'"
  using entry_add_Inr[of e d d']
  by (cases "se_external_id e") (auto simp: session_db_ok_def keyed_def external_ids_def)

lemma entry_add_grows: "entry_add e d = Inr d' \<Longrightarrow> session_grows d d'"
  using entry_add_Inr(1)[of e d d'] by (auto simp: session_grows_def session_by_id_def)

lemma entry_added:
  assumes "admit_entry u t s r d = Inr (v, d')"
  obtains e where "entry_add e d = Inr d'" "v = session_entry_result e" "se_session_id e = ses_id s"
    "se_external_id e = ecr_external_id r" "se_role e = ecr_role r" "se_content e = ecr_content r"
    "se_metadata e = ecr_metadata r" "ses_status s = Session_ACTIVE"
proof -
  define e where "e = \<lparr>se_id = u, se_session_id = ses_id s, se_external_id = ecr_external_id r, se_role = ecr_role r,
    se_content = ecr_content r, se_metadata = ecr_metadata r, se_created_at = t\<rparr>"
  have "ses_status s \<noteq> Session_ARCHIVED" "entry_add e d = Inr d'" "v = session_entry_result e"
    using assms by (auto simp: admit_entry_def bindE_eq_Inr_iff Let_def simp flip: e_def split: if_splits)
  then show thesis using that[of e] by (cases "ses_status s") (simp_all add: e_def)
qed

text \<open>An append is a replay of the entry its external identifier names, or admits a new entry to a session that
  is active.\<close>

lemma append_cases:
  assumes "append_entry u t k r d = Inr (v, d')"
  obtains (replay) x e where "ecr_external_id r = Some x" "entry_by_external_id k x d = Some e"
      "semantic_payload_matches e r" "v = session_entry_result e" "d' = d"
  | (added) s where "session_by_id k d = Some s" "admit_entry u t s r d = Inr (v, d')"
      "\<And>x. ecr_external_id r = Some x \<Longrightarrow> entry_by_external_id k x d = None"
proof -
  from assms obtain s where s: "session_by_id k d = Some s"
    unfolding append_entry_def by (auto simp: bindE_eq_Inr_iff require_session_Inr)
  have k: "ses_id s = k" using session_by_id_props[OF s] by simp
  show thesis
  proof (cases "ecr_external_id r")
    case None
    then show thesis using assms s by (intro added[of s]) (simp_all add: append_entry_def require_session_def)
  next
    case (Some x)
    note ext = Some
    show thesis
    proof (cases "entry_by_external_id k x d")
      case None
      then show thesis using assms s ext k by (intro added[of s]) (simp_all add: append_entry_def require_session_def)
    next
      case (Some e)
      then show thesis using assms s ext k
        by (intro replay[of x e]) (simp_all add: append_entry_def require_session_def split: if_splits)
    qed
  qed
qed

lemma lazy_cases:
  assumes "get_or_create_by_key t c d = Inr (s, d')"
  shows "session_by_key (ses_key c) d' = Some s" "d' = d \<or> (\<exists>row. session_add row d = Inr d')"
  using assms by (auto simp: get_or_create_by_key_def bindE_eq_Inr_iff Let_def split: if_splits option.splits)

lemma updated_session_key [simp]: "ses_id (updated_session r t s) = ses_id s" "ses_key (updated_session r t s) = ses_key s"
  by (auto simp: updated_session_def Let_def split: option.split)

lemma lifecycle_cases:
  assumes "update_session k t r d = Inr (v, d') \<or> archive_session k t d = Inr (v, d') \<or> restore_session k t d = Inr (v, d')"
    "session_db_ok d"
  obtains s s' where "session_by_id k d = Some s" "d' = put_session s' d" "ses_id s' = k" "ses_key s' = ses_key s"
    "session_row_ok s'"
proof -
  have ok: "session_row_ok s" if "session_by_id k d = Some s" for s
    using session_by_id_props[OF that] assms(2) by (simp add: session_db_ok_def list_all_iff)
  from assms(1) show thesis
  proof (elim disjE)
    assume a: "update_session k t r d = Inr (v, d')"
    then obtain s where s: "session_by_id k d = Some s" by (auto simp: update_session_def bindE_eq_Inr_iff require_session_Inr)
    show thesis using that[OF s] a s session_by_id_props[OF s]
      by (auto simp: update_session_def require_session_def Let_def split: if_splits)
  next
    assume a: "archive_session k t d = Inr (v, d')"
    then obtain s where s: "session_by_id k d = Some s" by (auto simp: archive_session_def bindE_eq_Inr_iff require_session_Inr)
    show thesis using that[OF s] a s ok[OF s] session_by_id_props[OF s]
      by (auto simp: archive_session_def require_session_def session_row_ok_def Let_def split: if_splits)
  next
    assume a: "restore_session k t d = Inr (v, d')"
    then obtain s where s: "session_by_id k d = Some s" by (auto simp: restore_session_def bindE_eq_Inr_iff require_session_Inr)
    show thesis using that[OF s] a s ok[OF s] session_by_id_props[OF s]
      by (auto simp: restore_session_def require_session_def session_row_ok_def Let_def split: if_splits)
  qed
qed

lemma append_commits:
  assumes "append_entry u t k r d = Inr (v, d')"
  shows "d' = d \<or> (\<exists>e. entry_add e d = Inr d')"
  using assms by (cases rule: append_cases) (auto elim: entry_added)

lemma create_commits:
  assumes "create_session u t r d = Inr (v, d')"
  shows "\<exists>s. session_add s d = Inr d' \<and> v = session_result s"
  using assms by (auto simp: create_session_def Let_def split: sum.splits exn.splits)

text \<open>A row that a call commits keeps what is stored and the constraints of the tables.\<close>

lemma apply_op_step:
  assumes "session_db_ok d"
  shows "session_grows d (apply_op op d) \<and> session_db_ok (apply_op op d)"
proof -
  let ?P = "\<lambda>d'. session_grows d d' \<and> session_db_ok d'"
  have base: "?P d" using assms by simp
  have add: "?P d'" if "session_add s d = Inr d'" for s d'
    using session_add_grows[OF that] session_add_ok[OF that assms] by simp
  have put: "?P d'" if "update_session k t r d = Inr (v, d') \<or> archive_session k t d = Inr (v, d') \<or> restore_session k t d = Inr (v, d')"
    for k t r v d'
    using that assms
  proof (cases rule: lifecycle_cases)
    case (1 s s')
    then show ?thesis using put_session_row(3)[of k d s s'] put_session_ok[OF assms, of k s s'] by simp
  qed
  show ?thesis
  proof (cases op)
    case (Op_Create u t r)
    have "?P d'" if "create_session u t r d = Inr (v, d')" for v d'
      using create_commits[OF that] add by blast
    then show ?thesis using Op_Create base by (auto intro!: committed_cases[of ?P])
  next
    case (Op_Update k t r)
    show ?thesis unfolding apply_op.simps Op_Update
      by (intro committed_cases[of ?P] base) (rule put, blast)
  next
    case (Op_Archive k t)
    show ?thesis unfolding apply_op.simps Op_Archive
      by (intro committed_cases[of ?P] base) (rule put, blast)
  next
    case (Op_Restore k t)
    show ?thesis unfolding apply_op.simps Op_Restore
      by (intro committed_cases[of ?P] base) (rule put, blast)
  next
    case (Op_Append u t k r)
    have "?P d'" if "append_entry u t k r d = Inr (v, d')" for v d'
      using append_commits[OF that] base entry_add_ok[OF _ assms] entry_add_grows by blast
    then show ?thesis using Op_Append base by (auto intro!: committed_cases[of ?P])
  next
    case (Op_Lazy_Create t s)
    have "?P d'" if "get_or_create_by_key t s d = Inr (r, d')" for r d'
      using lazy_cases(2)[OF that] base add by blast
    then show ?thesis using Op_Lazy_Create base by (auto intro!: committed_cases[of ?P])
  next
    case (Op_Audit q)
    show ?thesis
    proof (cases "query_add q d")
      case (Inr d')
      then show ?thesis using assms Op_Audit
        by (auto simp: query_add_def session_db_ok_def session_grows_def session_by_id_def keyed_def split: if_splits)
    qed (use Op_Audit base in simp)
  qed
qed

lemma apply_ops_step:
  "session_db_ok d \<Longrightarrow> session_grows d (apply_ops ops d) \<and> session_db_ok (apply_ops ops d)"
  unfolding apply_ops_def
proof (induction ops arbitrary: d)
  case (Cons op ops)
  then show ?case using apply_op_step[OF Cons.prems, of op] session_grows_trans[of d "apply_op op d"] by simp
qed simp

end
