(* ===== verification/Session_Properties.thy ===== *)
theory Session_Properties
  imports Session_Facts
begin

text \<open>
  An append under an external identifier takes effect once, whatever is committed between its attempts, and
  an archived session is frozen until it is restored.
\<close>

subsection \<open>Reflexivity of the payload comparison\<close>

lemma py_eq_refl_aux:
  "wf_json x \<Longrightarrow> y = x \<Longrightarrow> py_eq x y"
  "list_all wf_json xs \<Longrightarrow> ys = xs \<Longrightarrow> py_eq_list xs ys"
  "list_all (\<lambda>kv. wf_json (snd kv)) kvs \<Longrightarrow> \<forall>(k, v) \<in> set kvs. map_of ms k = Some v \<Longrightarrow> py_eq_items kvs ms"
  by (induction x y and xs ys and kvs ms rule: py_eq_py_eq_list_py_eq_items.induct)
    (auto split: option.splits)

lemma metadata_eq_refl: "wf_json (JObj m) \<Longrightarrow> metadata_eq m m"
  unfolding metadata_eq_def by (rule py_eq_refl_aux(1)) simp_all

subsection \<open>An admitted entry stays\<close>

lemma find_append:
  "List.find P (xs @ ys) = (case List.find P xs of None \<Rightarrow> List.find P ys | Some x \<Rightarrow> Some x)"
  by (induction xs) auto

lemma entry_stays:
  "entry_by_external_id k x d = Some e \<Longrightarrow> session_grows d d' \<Longrightarrow> entry_by_external_id k x d' = Some e"
  by (auto simp: session_grows_def entry_by_external_id_def find_append)

lemma entry_add_found:
  assumes "entry_add e d = Inr d'" "se_external_id e = Some x" "entry_by_external_id (se_session_id e) x d = None"
  shows "entry_by_external_id (se_session_id e) x d' = Some e"
  using assms entry_add_Inr(1)[OF assms(1)] by (simp add: entry_by_external_id_def find_append)

lemma append_leaves_entry:
  assumes "append_entry u t k r d = Inr (v, d')" "ecr_external_id r = Some x" "wf_json (JObj (ecr_metadata r))"
  shows "\<exists>e. entry_by_external_id k x d' = Some e \<and> semantic_payload_matches e r \<and> v = session_entry_result e"
  using assms(1)
proof (cases rule: append_cases)
  case (replay y e)
  then show ?thesis using assms(2) by simp
next
  case (added s)
  note fresh = added(3)
  from added(2) show ?thesis
  proof (cases rule: entry_added)
    case (1 e)
    have "se_session_id e = k" using 1(3) session_by_id_props[OF added(1)] by simp
    then have "entry_by_external_id k x d' = Some e"
      using entry_add_found[OF 1(1)] 1(4) assms(2) fresh[OF assms(2)] by simp
    then show ?thesis using 1 metadata_eq_refl[OF assms(3)] by (auto simp: semantic_payload_matches_def)
  qed
qed

lemma append_with_entry:
  assumes "session_by_id k d = Some s" "ecr_external_id r = Some x" "entry_by_external_id k x d = Some e"
  shows "append_entry u t k r d = (if semantic_payload_matches e r then Inr (session_entry_result e, d)
                                   else Inl session_entry_idempotency_conflict_error)"
  using assms session_by_id_props[OF assms(1)] by (simp add: append_entry_def require_session_def)

lemma append_needs_session: "append_entry u t k r d = Inr (v, d') \<Longrightarrow> \<exists>s. session_by_id k d' = Some s"
  using append_commits[of u t k r d v d'] entry_add_grows[of _ d d']
  unfolding append_entry_def bindE_eq_Inr_iff require_session_Inr session_grows_def by blast

definition entries_named :: "uuid \<Rightarrow> pystr \<Rightarrow> session_db \<Rightarrow> session_entry list" where
  "entries_named k x d = filter (\<lambda>e. se_session_id e = k \<and> se_external_id e = Some x) (sdb_entries d)"

lemma entry_found:
  assumes "entry_by_external_id k x d = Some e"
  shows "e \<in> set (entries_named k x d)" "e \<in> set (entries_of k d)"
  using find_set[OF assms[unfolded entry_by_external_id_def]] by (simp_all add: entries_named_def entries_of_def)

lemma entries_named_external:
  "length (entries_named k x d) = length (filter (\<lambda>p. p = (k, x)) (external_ids (sdb_entries d)))"
proof -
  have "length (filter (\<lambda>e. se_session_id e = k \<and> se_external_id e = Some x) es)
      = length (filter (\<lambda>p. p = (k, x)) (external_ids es))" for es
    by (induction es) (auto simp: external_ids_def split: option.split)
  then show ?thesis by (simp add: entries_named_def)
qed

lemma distinct_filter_eq: "distinct xs \<Longrightarrow> length (filter (\<lambda>p. p = a) xs) \<le> 1"
  by (induction xs) (auto simp: filter_empty_conv)

lemma one_entry_named:
  assumes "session_db_ok d" "entry_by_external_id k x d = Some e"
  shows "entries_named k x d = [e]"
proof -
  have "e \<in> set (entries_named k x d)"
    using entry_found(1)[OF assms(2)] .
  moreover have "length (entries_named k x d) \<le> 1"
    using distinct_filter_eq[of "external_ids (sdb_entries d)" "(k, x)"] assms(1)
    by (simp add: entries_named_external session_db_ok_def)
  ultimately show ?thesis by (cases "entries_named k x d") auto
qed

lemma append_once:
  assumes "session_db_ok d" "ecr_external_id r = Some x" "wf_json (JObj (ecr_metadata r))"
    "append_entry u t k r d = Inr (v, d1)"
  shows "append_entry u' t' k r (apply_ops ops d1) = Inr (v, apply_ops ops d1)"
    and "length (entries_named k x (apply_ops ops d1)) = 1"
    and "\<forall>r' :: entry_create_request. ecr_external_id r' = Some x \<longrightarrow>
       append_entry u' t' k r' (apply_ops ops d1) = Inr (v, apply_ops ops d1)
       \<or> append_entry u' t' k r' (apply_ops ops d1) = Inl session_entry_idempotency_conflict_error
           \<and> (ecr_role r' \<noteq> ecr_role r \<or> ecr_content r' \<noteq> ecr_content r \<or> ecr_metadata r' \<noteq> ecr_metadata r)"
proof -
  let ?d = "apply_ops ops d1"
  obtain e where e: "entry_by_external_id k x d1 = Some e" "semantic_payload_matches e r" "v = session_entry_result e"
    using append_leaves_entry[OF assms(4,2,3)] by blast
  have ok: "session_db_ok d1" using append_commits[OF assms(4)] assms(1) entry_add_ok by blast
  note step = apply_ops_step[OF ok, of ops]
  have found: "entry_by_external_id k x ?d = Some e" using entry_stays[OF e(1)] step by blast
  obtain s where s: "session_by_id k ?d = Some s"
    using append_needs_session[OF assms(4)] step unfolding session_grows_def by blast
  show "append_entry u' t' k r ?d = Inr (v, ?d)" using append_with_entry[OF s assms(2) found] e by simp
  show "length (entries_named k x ?d) = 1" using one_entry_named[OF _ found] step by simp
  show "\<forall>r' :: entry_create_request. ecr_external_id r' = Some x \<longrightarrow> append_entry u' t' k r' ?d = Inr (v, ?d)
      \<or> append_entry u' t' k r' ?d = Inl session_entry_idempotency_conflict_error
        \<and> (ecr_role r' \<noteq> ecr_role r \<or> ecr_content r' \<noteq> ecr_content r \<or> ecr_metadata r' \<noteq> ecr_metadata r)"
  proof (intro allI impI)
    fix r' :: entry_create_request assume r': "ecr_external_id r' = Some x"
    have "semantic_payload_matches e r'" if "ecr_role r' = ecr_role r" "ecr_content r' = ecr_content r" "ecr_metadata r' = ecr_metadata r"
      using e(2) that by (simp add: semantic_payload_matches_def)
    then show "append_entry u' t' k r' ?d = Inr (v, ?d)
      \<or> append_entry u' t' k r' ?d = Inl session_entry_idempotency_conflict_error
        \<and> (ecr_role r' \<noteq> ecr_role r \<or> ecr_content r' \<noteq> ecr_content r \<or> ecr_metadata r' \<noteq> ecr_metadata r)"
      using append_with_entry[OF s r' found] e(3) by auto
  qed
qed


definition demo_session_request :: session_create_request where
  "demo_session_request = \<lparr>scr_session_id = Some [115], scr_name = None, scr_metadata = []\<rparr>"

definition demo_entry_request :: entry_create_request where
  "demo_entry_request = \<lparr>ecr_external_id = Some [101], ecr_role = [117], ecr_content = [104, 105],
     ecr_metadata = [([107], JInt 5)]\<rparr>"

definition demo_session_db :: session_db where
  "demo_session_db = \<lparr>sdb_sessions = [\<lparr>ses_id = 7, ses_key = [115], ses_name = None, ses_status = Session_ACTIVE,
      ses_metadata = [], ses_created_at = 10, ses_updated_at = 10, ses_archived_at = None\<rparr>],
    sdb_entries = [], sdb_queries = []\<rparr>"

lemma demo_session_db_ok: "session_db_ok demo_session_db"
  by (simp add: session_db_ok_def demo_session_db_def keyed_def session_row_ok_def btrim_def SESSION_ID_MAX_LENGTH_def
      external_ids_def)

lemma demo_session_created:
  "apply_ops [Op_Create 7 10 demo_session_request] \<lparr>sdb_sessions = [], sdb_entries = [], sdb_queries = []\<rparr> = demo_session_db"
  by (simp add: apply_ops_def committed_def create_session_def session_add_def session_row_ok_def btrim_def
      SESSION_ID_MAX_LENGTH_def demo_session_request_def demo_session_db_def session_result_def Let_def)


subsection \<open>Archived sessions\<close>

definition restores :: "uuid \<Rightarrow> session_op \<Rightarrow> bool" where
  "restores k op = (case op of Op_Restore j _ \<Rightarrow> j = k | _ \<Rightarrow> False)"

definition frozen_at :: "uuid \<Rightarrow> timestamp option \<Rightarrow> session_db \<Rightarrow> bool" where
  "frozen_at k t d = (case session_by_id k d of None \<Rightarrow> False
     | Some s \<Rightarrow> ses_status s = Session_ARCHIVED \<and> ses_archived_at s = t)"

definition frozen_history :: "uuid \<Rightarrow> timestamp option \<Rightarrow> session_entry list \<Rightarrow> session_db \<Rightarrow> bool" where
  "frozen_history k t es d \<longleftrightarrow> frozen_at k t d \<and> entries_of k d = es"

lemma frozen_at_iff: "frozen_at k t d \<longleftrightarrow>
    (\<exists>s. session_by_id k d = Some s \<and> ses_status s = Session_ARCHIVED \<and> ses_archived_at s = t)"
  by (auto simp: frozen_at_def split: option.split)

lemma frozen_session_add: "session_add s d = Inr d' \<Longrightarrow> frozen_history k t es d \<Longrightarrow> frozen_history k t es d'"
  using session_add_Inr(1)[of s d d']
  by (auto simp: frozen_history_def frozen_at_iff session_by_id_def row_get_of_append entries_of_def)

lemma frozen_put:
  assumes "session_by_id j d = Some s" "ses_id s' = j" "ses_key s' = ses_key s" "frozen_history k t es d"
    "j = k \<Longrightarrow> ses_status s' = ses_status s \<and> ses_archived_at s' = ses_archived_at s"
  shows "frozen_history k t es (put_session s' d)"
proof (cases "j = k")
  case True
  then show ?thesis using assms put_session_row(1)[OF assms(1-3)]
    by (auto simp: frozen_history_def frozen_at_iff put_session_def entries_of_def)
next
  case False
  then show ?thesis using assms(4) put_session_row(2)[OF assms(1-3), of k]
    by (auto simp: frozen_history_def frozen_at_iff put_session_def entries_of_def)
qed

lemma updated_session_keeps [simp]: "ses_status (updated_session r t s) = ses_status s"
    "ses_archived_at (updated_session r t s) = ses_archived_at s"
  by (auto simp: updated_session_def Let_def split: option.split)

lemma frozen_append:
  assumes "append_entry u t' j r d = Inr (v, d')" "frozen_history k t es d"
  shows "frozen_history k t es d'"
  using assms(1)
proof (cases rule: append_cases)
  case (replay x e)
  then show ?thesis using assms(2) by simp
next
  case (added s)
  from added(2) show ?thesis
  proof (cases rule: entry_added)
    case (1 e)
    have "j \<noteq> k" using assms(2) added(1) 1(8) by (auto simp: frozen_history_def frozen_at_iff)
    then have "se_session_id e \<noteq> k" using 1(3) session_by_id_props[OF added(1)] by simp
    then show ?thesis using assms(2) entry_add_Inr(1)[OF 1(1)]
      by (auto simp: frozen_history_def frozen_at_iff session_by_id_def entries_of_def)
  qed
qed

lemma frozen_op:
  assumes "frozen_history k t es d" "\<not> restores k op"
  shows "frozen_history k t es (apply_op op d)"
proof (cases op)
  case (Op_Create u t' r)
  have "frozen_history k t es d'" if "create_session u t' r d = Inr (v, d')" for v d'
    using create_commits[OF that] frozen_session_add assms(1) by blast
  then show ?thesis using Op_Create assms(1) by (auto intro!: committed_cases[of "frozen_history k t es"])
next
  case (Op_Update j t' r)
  have "frozen_history k t es d'" if res: "update_session j t' r d = Inr (v, d')" for v d'
  proof -
    obtain s where s: "session_by_id j d = Some s"
      using res by (auto simp: update_session_def bindE_eq_Inr_iff require_session_Inr)
    then have "d' = put_session (updated_session r t' s) d"
      using res by (simp add: update_session_def require_session_def Let_def split: if_splits)
    note s = s this
    then show ?thesis using frozen_put[of j d s "updated_session r t' s"] assms(1) session_by_id_props[of j d s] s by simp
  qed
  then show ?thesis using Op_Update assms(1) by (auto intro!: committed_cases[of "frozen_history k t es"])
next
  case (Op_Archive j t')
  have "frozen_history k t es d'" if res: "archive_session j t' d = Inr (v, d')" for v d'
  proof -
    obtain s where s: "session_by_id j d = Some s" "d' = put_session (if ses_status s = Session_ACTIVE
        then s\<lparr>ses_status := Session_ARCHIVED, ses_archived_at := Some t', ses_updated_at := t'\<rparr> else s) d"
      using res by (auto simp: archive_session_def bindE_eq_Inr_iff require_session_Inr Let_def)
    have "j = k \<Longrightarrow> ses_status s \<noteq> Session_ACTIVE" using assms(1) s(1) by (auto simp: frozen_history_def frozen_at_iff)
    then show ?thesis unfolding s(2) using session_by_id_props[OF s(1)]
      by (intro frozen_put[OF s(1) _ _ assms(1)]) auto
  qed
  then show ?thesis using Op_Archive assms(1) by (auto intro!: committed_cases[of "frozen_history k t es"])
next
  case (Op_Restore j t')
  have "frozen_history k t es d'" if res: "restore_session j t' d = Inr (v, d')" for v d'
  proof -
    obtain s where s: "session_by_id j d = Some s" "d' = put_session (if ses_status s = Session_ARCHIVED
        then s\<lparr>ses_status := Session_ACTIVE, ses_archived_at := None, ses_updated_at := t'\<rparr> else s) d"
      using res by (auto simp: restore_session_def bindE_eq_Inr_iff require_session_Inr Let_def)
    show ?thesis unfolding s(2) using session_by_id_props[OF s(1)] assms(2) Op_Restore
      by (intro frozen_put[OF s(1) _ _ assms(1)]) (auto simp: restores_def)
  qed
  then show ?thesis using Op_Restore assms(1) by (auto intro!: committed_cases[of "frozen_history k t es"])
next
  case (Op_Append u t' j r)
  then show ?thesis using assms(1) frozen_append by (auto intro!: committed_cases[of "frozen_history k t es"])
next
  case (Op_Lazy_Create t' s)
  have "frozen_history k t es d'" if "get_or_create_by_key t' s d = Inr (v, d')" for v d'
    using lazy_cases(2)[OF that] frozen_session_add assms(1) by blast
  then show ?thesis using Op_Lazy_Create assms(1) by (auto intro!: committed_cases[of "frozen_history k t es"])
next
  case (Op_Audit q)
  then show ?thesis using assms(1)
    by (auto simp: query_add_def frozen_history_def frozen_at_iff session_by_id_def entries_of_def split: sum.split if_splits)
qed

lemma archived_frozen:
  assumes "frozen_at k t d" "\<forall>op \<in> set ops. \<not> restores k op"
  shows "frozen_at k t (apply_ops ops d)" and "entries_of k (apply_ops ops d) = entries_of k d"
    and "append_entry u now k r (apply_ops ops d) = Inr (v, d') \<Longrightarrow>
      d' = apply_ops ops d \<and> v \<in> session_entry_result ` set (entries_of k d)"
proof -
  have "frozen_history k t (entries_of k d) (apply_ops ops d)"
    using assms unfolding apply_ops_def
  proof (induction ops rule: rev_induct)
    case (snoc op ops)
    then show ?case using frozen_op[of k t "entries_of k d" "fold apply_op ops d" op] by simp
  qed (simp add: frozen_history_def)
  then show f: "frozen_at k t (apply_ops ops d)" and es: "entries_of k (apply_ops ops d) = entries_of k d"
    by (simp_all add: frozen_history_def)
  assume "append_entry u now k r (apply_ops ops d) = Inr (v, d')"
  then show "d' = apply_ops ops d \<and> v \<in> session_entry_result ` set (entries_of k d)"
  proof (cases rule: append_cases)
    case (replay x e)
    then have "e \<in> set (entries_of k (apply_ops ops d))"
      using entry_found(2) by blast
    then show ?thesis using replay es by simp
  next
    case (added s)
    from added(2) show ?thesis using f added(1) by (cases rule: entry_added) (auto simp: frozen_at_iff)
  qed
qed

text \<open>An archived session is frozen.  From any tables in which a session is archived, whatever creations,
  updates, archivings, appends, lazy resolutions and audit rows any callers commit, as long as none restores that
  session, it stays archived with the same archiving time and its history holds exactly the same entries; a
  successful append to it is the replay of one of them.\<close>

theorem archived_session_frozen:
  assumes "frozen_at k t d" "\<forall>op \<in> set ops. \<not> restores k op"
  shows "frozen_at k t (apply_ops ops d) \<and> entries_of k (apply_ops ops d) = entries_of k d
    \<and> (\<forall>u now r v d'. append_entry u now k r (apply_ops ops d) = Inr (v, d') \<longrightarrow>
      d' = apply_ops ops d \<and> v \<in> session_entry_result ` set (entries_of k d))"
  using archived_frozen[OF assms] by blast

definition demo_archived_db :: session_db where
  "demo_archived_db = apply_ops [Op_Archive 7 12] demo_session_db"

theorem archived_session_frozen_witness:
  "entries_of 7 (apply_ops [Op_Append 20 30 7 demo_entry_request, Op_Update 7 31 \<lparr>sur_name = Some None, sur_metadata = None\<rparr>]
     demo_archived_db) = []"
proof -
  have db: "demo_archived_db = demo_session_db\<lparr>sdb_sessions := [\<lparr>ses_id = 7, ses_key = [115], ses_name = None,
      ses_status = Session_ARCHIVED, ses_metadata = [], ses_created_at = 10, ses_updated_at = 12, ses_archived_at = Some 12\<rparr>]\<rparr>"
    by (simp add: demo_archived_db_def apply_ops_def committed_def archive_session_def require_session_def session_by_id_def
        demo_session_db_def row_get_def put_session_def row_put_def Let_def)
  have "frozen_at 7 (Some 12) demo_archived_db"
    by (simp add: db frozen_at_def session_by_id_def row_get_def)
  from archived_session_frozen[OF this, of "[Op_Append 20 30 7 demo_entry_request,
    Op_Update 7 31 \<lparr>sur_name = Some None, sur_metadata = None\<rparr>]"]
  show ?thesis by (simp add: restores_def db demo_session_db_def entries_of_def del: apply_op.simps)
qed

end
