(* ===== verification/Recall_Properties.thy ===== *)
theory Recall_Properties
  imports Recall_Facts Session_Properties
begin

text \<open>
  What a successful recall may return, how much of it, what its references cover and what its audit row
  keeps.  \<open>snap i\<close> names the knowledge tables as committed when the \<open>i\<close>-th transaction reads them:
  0 resolves the datasets, 2 and 3 are the searches, 4 the graph hydration.
\<close>

subsection \<open>The searches\<close>

definition retrieved_from :: "search_engine \<Rightarrow> uuid list \<Rightarrow> recall_filters \<Rightarrow> kdb \<Rightarrow> retrieved_chunk \<Rightarrow> bool" where
  "retrieved_from E ids f d r \<longleftrightarrow> (\<exists>c \<in> set (kb_chunks d). chunk_recallable E ids f d c \<and> r \<in> set (retrieved_of d c))"

lemma retrieved_of_fields:
  "r \<in> set (retrieved_of d c) \<Longrightarrow> rc_chunk_id r = ch_id c \<and> rc_text r = ch_text c \<and> rc_document_id r = ch_document_id c
     \<and> rc_source_id r = ch_source_id c \<and> rc_dataset_id r = ch_dataset_id c"
  by (auto simp: retrieved_of_def split: option.splits)

lemma retrieved_chunks_ids: "distinct (map ch_id cs) \<Longrightarrow> distinct (map rc_chunk_id (retrieved_chunks d cs))"
proof (induction cs)
  case (Cons c cs)
  have rest: "set (map rc_chunk_id (retrieved_chunks d cs)) \<subseteq> ch_id ` set cs"
    by (auto simp: retrieved_chunks_def dest: retrieved_of_fields)
  have first: "set (map rc_chunk_id (retrieved_of d c)) \<subseteq> {ch_id c}" "distinct (map rc_chunk_id (retrieved_of d c))"
    by (auto simp: retrieved_of_def split: option.split)
  have "{ch_id c} \<inter> ch_id ` set cs = {}" using Cons.prems by simp
  then have "set (map rc_chunk_id (retrieved_of d c)) \<inter> set (map rc_chunk_id (retrieved_chunks d cs)) = {}"
    using Int_mono[OF first(1) rest] by (simp only: subset_empty)
  then show ?case using Cons first(2)
    by (simp add: retrieved_chunks_def)
qed (simp add: retrieved_chunks_def)

lemma retrieved_chunks_length: "length (retrieved_chunks d cs) \<le> length cs"
proof -
  have "length (retrieved_of d c) \<le> 1" for c by (simp add: retrieved_of_def split: option.split)
  then show ?thesis unfolding retrieved_chunks_def
    by (induction cs) (auto intro: order_trans[OF add_mono])
qed

lemma distinct_ids_take: "distinct (map f xs) \<Longrightarrow> distinct (map f (take n xs))"
  by (metis distinct_take take_map)

lemma search_props:
  assumes "keyed ch_id (kb_chunks d)"
  shows "distinct (map rc_chunk_id (vector_search E ids v lm f d))"
    "distinct (map rc_chunk_id (lexical_search E ids q lm f d))"
    "r \<in> set (vector_search E ids v lm f d) \<Longrightarrow> retrieved_from E ids f d r"
    "r \<in> set (lexical_search E ids q lm f d) \<Longrightarrow> retrieved_from E ids f d r"
proof -
  have keys: "distinct (map ch_id (take n (sort_key g (filter P (kb_chunks d)))))" for n P and g :: "chunk \<Rightarrow> rat \<times> uuid"
    using assms by (intro distinct_ids_take) (simp add: keyed_def distinct_map_filter_key)
  show "distinct (map rc_chunk_id (vector_search E ids v lm f d))"
    unfolding vector_search_def base_recall_rows_def by (intro retrieved_chunks_ids keys)
  show "distinct (map rc_chunk_id (lexical_search E ids q lm f d))"
    unfolding lexical_search_def base_recall_rows_def filter_filter by (intro retrieved_chunks_ids keys)
  show "r \<in> set (vector_search E ids v lm f d) \<Longrightarrow> retrieved_from E ids f d r"
    by (auto simp: vector_search_def retrieved_chunks_def base_recall_rows_def retrieved_from_def dest!: in_set_takeD)
  show "r \<in> set (lexical_search E ids q lm f d) \<Longrightarrow> retrieved_from E ids f d r"
    by (auto simp: lexical_search_def retrieved_chunks_def base_recall_rows_def retrieved_from_def dest!: in_set_takeD)
qed

lemma hit_truncate: "retrieved_chunk.truncate (chunk_hit k (r, v, l)) = retrieved_chunk.truncate r"
  by (simp add: chunk_hit_def retrieved_chunk.truncate_def)

lemma truncate_fields:
  "rc_chunk_id (retrieved_chunk.truncate h) = rc_chunk_id h" "rc_text (retrieved_chunk.truncate h) = rc_text h"
  "rc_document_id (retrieved_chunk.truncate h) = rc_document_id h" "rc_source_id (retrieved_chunk.truncate h) = rc_source_id h"
  "rc_dataset_id (retrieved_chunk.truncate h) = rc_dataset_id h"
  by (simp_all add: retrieved_chunk.truncate_def)

lemma hit_retrieved:
  assumes "distinct (map rc_chunk_id V)" "distinct (map rc_chunk_id L)" "h \<in> set (reciprocal_rank_fusion V L k)"
  obtains r where "r \<in> set V \<union> set L" "rc_chunk_id r = rc_chunk_id h" "rc_text r = rc_text h"
    "rc_document_id r = rc_document_id h" "rc_source_id r = rc_source_id h" "rc_dataset_id r = rc_dataset_id h"
proof -
  have "h \<in> (\<lambda>r. chunk_hit k (r, rank_of (rc_chunk_id r) 1 V, rank_of (rc_chunk_id r) 1 L))
      ` set (V @ only_lexical L (rc_chunk_id ` set V))"
    using assms(3) unfolding rrf_eq[OF assms(1,2)] rrf_reference_def by (simp add: image_Un)
  then obtain r where r: "r \<in> set (V @ only_lexical L (rc_chunk_id ` set V))"
      "h = chunk_hit k (r, rank_of (rc_chunk_id r) 1 V, rank_of (rc_chunk_id r) 1 L)" by blast
  show thesis
  proof (rule that[of r])
    show "r \<in> set V \<union> set L" using r(1) by (auto simp: only_lexical_def)
  qed (simp_all only: r(2) chunk_hit_def prod.case retrieved_chunk.simps)
qed

subsection \<open>A successful call\<close>

lemma recall_chunks_success:
  assumes "recall_chunks env st rq ids v adm w = (Inr z, w')"
  obtains hits g answer where
    "hits = take (nat (effective_top_k st rq)) (reciprocal_rank_fusion
       (vector_search (rx_search env) ids v (rs_vector_top_k st) (rq_filters rq) (rdb_knowledge (rx_interfere env 2 w)))
       (lexical_search (rx_search env) ids (rq_query rq) (rs_lexical_top_k st) (rq_filters rq) (rdb_knowledge (rx_interfere env 3 w)))
       (rs_rrf_k st))"
    "graph_hydration env st rq ids hits (rdb_knowledge (rx_interfere env 4 w)) = Inr g"
    "recall_answer env rq hits g adm = Inr answer"
    "rz_answer z = answer" "rz_context z = map (Chunk_Entry \<circ> context_item_from_hit) hits"
    "rz_references z = (if rq_include_references rq then recall_references hits (gh_evidence g) (gh_relations g) else [])"
    "rz_entities z = gh_entities g" "rz_relations z = gh_relations g" "rz_session_uuid z = map_option sa_session_uuid adm"
    "persist_query_audit (audit_query env st rq ids answer (recall_references hits (gh_evidence g) (gh_relations g)) (rz_timings_ms z) adm)
       (rx_interfere env 5 (rx_interfere env 4 w)) = Inr (rz_query_id z, w')"
proof -
  define hits where "hits = take (nat (effective_top_k st rq)) (reciprocal_rank_fusion
       (vector_search (rx_search env) ids v (rs_vector_top_k st) (rq_filters rq) (rdb_knowledge (rx_interfere env 2 w)))
       (lexical_search (rx_search env) ids (rq_query rq) (rs_lexical_top_k st) (rq_filters rq) (rdb_knowledge (rx_interfere env 3 w)))
       (rs_rrf_k st))"
  note res = assms[unfolded recall_chunks_def Let_def, folded hits_def]
  from res obtain g where g: "graph_hydration env st rq ids hits (rdb_knowledge (rx_interfere env 4 w)) = Inr g"
    by (cases "graph_hydration env st rq ids hits (rdb_knowledge (rx_interfere env 4 w))") simp_all
  from res g obtain answer where a: "recall_answer env rq hits g adm = Inr answer"
    by (cases "recall_answer env rq hits g adm") simp_all
  show thesis
    by (rule that[OF hits_def g a]) (use res g a in \<open>auto split: sum.splits\<close>)
qed

lemma recall_summaries_success:
  assumes "recall_summaries env st rq ids v adm w = (Inr z, w')"
  shows "rz_answer z = None"
    "rz_context z = map (Summary_Entry \<circ> summary_context_item) (vector_search_document_summaries (rx_search env) ids v
        (effective_top_k st rq) (rq_filters rq) (rdb_knowledge (rx_interfere env 2 w)))"
    "rz_references z = []" "rz_entities z = []" "rz_relations z = []" "rz_session_uuid z = map_option sa_session_uuid adm"
    "persist_query_audit (audit_query env st rq ids None [] (rz_timings_ms z) adm)
       (rx_interfere env 5 (rx_interfere env 2 w)) = Inr (rz_query_id z, w')"
  using assms by (auto simp: recall_summaries_def Let_def split: sum.splits)

definition admitted_world :: "recall_db \<Rightarrow> session_db \<Rightarrow> recall_db" where
  "admitted_world w s = w\<lparr>rdb_sessions := s\<rparr>"

lemma recall_success:
  assumes "recall env st rq w = (Inr z, w')"
  obtains snapshots adm s v where
    "validate_include_session_context rq = Inr ()" "validate_supported_mode st rq = Inr ()"
    "recall_datasets (rq_datasets rq) (rdb_knowledge (rx_interfere env 0 w)) = Inr snapshots"
    "admit_session env st rq (rdb_sessions (rx_interfere env 1 (rx_interfere env 0 w))) = Inr (adm, s)"
    "(if rq_mode rq = Mode_SUMMARIES then recall_summaries else recall_chunks) env st rq (map ds_id snapshots) v adm
       (admitted_world (rx_interfere env 1 (rx_interfere env 0 w)) s) = (Inr z, w')"
proof -
  note res = assms[unfolded recall_def Let_def]
  from res have 0: "validate_include_session_context rq = Inr ()" "validate_supported_mode st rq = Inr ()"
    by (cases "validate_include_session_context rq"; cases "validate_supported_mode st rq"; simp)+
  from res 0 obtain snapshots where 1: "recall_datasets (rq_datasets rq) (rdb_knowledge (rx_interfere env 0 w)) = Inr snapshots"
    by (cases "recall_datasets (rq_datasets rq) (rdb_knowledge (rx_interfere env 0 w))") simp_all
  from res 0 1 obtain adm s where 2: "admit_session env st rq (rdb_sessions (rx_interfere env 1 (rx_interfere env 0 w))) = Inr (adm, s)"
    by (cases "admit_session env st rq (rdb_sessions (rx_interfere env 1 (rx_interfere env 0 w)))") auto
  from res 0 1 2 obtain v where 3: "embed_query env st (rq_query rq) = Inr v"
    by (cases "embed_query env st (rq_query rq)") simp_all
  show thesis by (rule that[OF 0 1 2, of v]) (use res 0 1 2 3 in \<open>simp add: admitted_world_def split: if_splits\<close>)
qed

subsection \<open>What it may return\<close>

text \<open>The rows a response may rest on, spelt out over the tables.\<close>

definition active_dataset :: "kdb \<Rightarrow> uuid list \<Rightarrow> dataset \<Rightarrow> bool" where
  "active_dataset d ids ds \<longleftrightarrow> ds \<in> set (datasets (kb_runtime d)) \<and> dataset_status ds = Dataset_ACTIVE \<and> dataset_id ds \<in> set ids"

definition authoritative_chunk :: "search_engine \<Rightarrow> uuid list \<Rightarrow> recall_filters \<Rightarrow> kdb \<Rightarrow> chunk \<Rightarrow> bool" where
  "authoritative_chunk E ids f d c \<longleftrightarrow> c \<in> set (kb_chunks d) \<and> ch_is_active c
     \<and> (\<exists>ds \<in> set (datasets (kb_runtime d)). active_dataset d ids ds \<and> ch_dataset_id c = dataset_id ds
         \<and> ch_generation c = dataset_active_generation ds
         \<and> (\<exists>x \<in> set (kb_documents d). doc_id x = ch_document_id c \<and> doc_is_active x \<and> doc_dataset_id x = dataset_id ds
              \<and> doc_generation x = dataset_active_generation ds)
         \<and> (\<exists>s \<in> set (kb_sources d). src_id s = ch_source_id c \<and> src_status s = Source_ACTIVE \<and> src_dataset_id s = dataset_id ds
              \<and> (rf_source_ids f = [] \<or> src_id s \<in> set (rf_source_ids f))
              \<and> (\<forall>t. rf_created_after f = Some t \<longrightarrow> t \<le> src_created_at s)
              \<and> (\<forall>t. rf_created_before f = Some t \<longrightarrow> src_created_at s \<le> t)
              \<and> (rf_metadata f = [] \<or> se_contains E (src_metadata s) (rf_metadata f))))"

definition active_entity :: "dataset \<Rightarrow> entity \<Rightarrow> bool" where
  "active_entity ds e \<longleftrightarrow> ent_is_active e \<and> ent_dataset_id e = dataset_id ds \<and> ent_generation e = dataset_active_generation ds"

lemma kb_dataset_row: "kb_dataset k d = Some ds \<Longrightarrow> ds \<in> set (datasets (kb_runtime d)) \<and> dataset_id ds = k"
  using row_get_SomeD[of dataset_id k "datasets (kb_runtime d)" ds] by (simp add: kb_dataset_def get_dataset_def)

lemma kb_rows:
  "kb_source k d = Some s \<Longrightarrow> s \<in> set (kb_sources d) \<and> src_id s = k"
  "kb_document k d = Some x \<Longrightarrow> x \<in> set (kb_documents d) \<and> doc_id x = k"
  "kb_chunk k d = Some c \<Longrightarrow> c \<in> set (kb_chunks d) \<and> ch_id c = k"
  "kb_entity k d = Some e \<Longrightarrow> e \<in> set (kb_entities d) \<and> ent_id e = k"
  unfolding kb_source_def kb_document_def kb_chunk_def kb_entity_def by (drule row_get_SomeD, simp)+

lemma recallable_authoritative:
  assumes "chunk_recallable E ids f d c" "c \<in> set (kb_chunks d)"
  shows "authoritative_chunk E ids f d c"
proof -
  from assms(1) obtain ds where ds: "kb_dataset (ch_dataset_id c) d = Some ds" "chunk_authoritative ds d c" "ch_dataset_id c \<in> set ids"
    by (auto simp: chunk_recallable_def chunk_current_def some_row_iff)
  from ds(2) obtain x s where x: "kb_document (ch_document_id c) d = Some x" "doc_dataset_id x = dataset_id ds"
      "doc_generation x = dataset_active_generation ds" "doc_is_active x"
    and s: "kb_source (ch_source_id c) d = Some s" "src_dataset_id s = dataset_id ds" "src_status s = Source_ACTIVE"
    by (auto simp: chunk_authoritative_def document_authoritative_def source_authoritative_def some_row_iff)
  have passes: "source_passes E f s" using assms(1) s(1) by (simp add: chunk_recallable_def some_row_iff)
  have "\<exists>x \<in> set (kb_documents d). doc_id x = ch_document_id c \<and> doc_is_active x \<and> doc_dataset_id x = dataset_id ds
      \<and> doc_generation x = dataset_active_generation ds" using x kb_rows(2)[OF x(1)] by blast
  moreover have "\<exists>s \<in> set (kb_sources d). src_id s = ch_source_id c \<and> src_status s = Source_ACTIVE \<and> src_dataset_id s = dataset_id ds
      \<and> (rf_source_ids f = [] \<or> src_id s \<in> set (rf_source_ids f)) \<and> (\<forall>t. rf_created_after f = Some t \<longrightarrow> t \<le> src_created_at s)
      \<and> (\<forall>t. rf_created_before f = Some t \<longrightarrow> src_created_at s \<le> t)
      \<and> (rf_metadata f = [] \<or> se_contains E (src_metadata s) (rf_metadata f))"
    using s passes kb_rows(1)[OF s(1)] by (intro bexI[of _ s]) (auto simp: source_passes_def split: option.splits)
  moreover have "active_dataset d ids ds" "ch_is_active c" "ch_generation c = dataset_active_generation ds" "ch_dataset_id c = dataset_id ds"
    using ds kb_dataset_row[OF ds(1)] by (simp_all add: active_dataset_def chunk_authoritative_def)
  ultimately show ?thesis unfolding authoritative_chunk_def using assms(2) kb_dataset_row[OF ds(1)] by blast
qed

definition chunk_grounded :: "search_engine \<Rightarrow> uuid list \<Rightarrow> recall_filters \<Rightarrow> kdb \<Rightarrow> uuid \<Rightarrow> uuid \<Rightarrow> uuid \<Rightarrow> bool" where
  "chunk_grounded E ids f d k doc src \<longleftrightarrow> (\<exists>c \<in> set (kb_chunks d). authoritative_chunk E ids f d c
     \<and> ch_id c = k \<and> ch_document_id c = doc \<and> ch_source_id c = src)"

definition item_grounded :: "search_engine \<Rightarrow> uuid list \<Rightarrow> recall_filters \<Rightarrow> kdb \<Rightarrow> recall_context_item \<Rightarrow> bool" where
  "item_grounded E ids f d i \<longleftrightarrow> (\<exists>c \<in> set (kb_chunks d). authoritative_chunk E ids f d c \<and> ci_chunk_id i = ch_id c
     \<and> ci_text i = ch_text c \<and> ci_document_id i = ch_document_id c \<and> ci_source_id i = ch_source_id c
     \<and> ci_dataset_id i = ch_dataset_id c)"

definition reference_grounded :: "search_engine \<Rightarrow> uuid list \<Rightarrow> recall_filters \<Rightarrow> kdb \<Rightarrow> recall_reference \<Rightarrow> bool" where
  "reference_grounded E ids f d r = chunk_grounded E ids f d (rf_chunk_id r) (rf_document_id r) (rf_source_id r)"

definition summary_grounded :: "search_engine \<Rightarrow> uuid list \<Rightarrow> recall_filters \<Rightarrow> kdb \<Rightarrow> recall_summary_context_item \<Rightarrow> bool" where
  "summary_grounded E ids f d i \<longleftrightarrow> (\<exists>s \<in> set (kb_summaries d). summary_recallable E ids f d s \<and> sum_is_active s
     \<and> sci_summary_id i = sum_id s \<and> sci_text i = sum_text s \<and> sci_dataset_id i = sum_dataset_id s)"

definition entity_grounded :: "uuid list \<Rightarrow> kdb \<Rightarrow> recall_entity \<Rightarrow> bool" where
  "entity_grounded ids d x \<longleftrightarrow> (\<exists>e \<in> set (kb_entities d). ent_id e = ren_entity_id x \<and> ent_name e = ren_name x
     \<and> ent_description e = ren_description x
     \<and> (\<exists>ds \<in> set (datasets (kb_runtime d)). active_dataset d ids ds \<and> active_entity ds e))"

definition active_relation :: "kdb \<Rightarrow> dataset \<Rightarrow> relation \<Rightarrow> bool" where
  "active_relation d ds r \<longleftrightarrow> rel_is_active r \<and> rel_dataset_id r = dataset_id ds \<and> rel_generation r = dataset_active_generation ds
     \<and> (\<exists>e \<in> set (kb_entities d). ent_id e = rel_source_entity_id r \<and> active_entity ds e)
     \<and> (\<exists>e \<in> set (kb_entities d). ent_id e = rel_target_entity_id r \<and> active_entity ds e)"

lemma entity_current_active: "entity_current ds e = active_entity ds e"
  by (auto simp: entity_current_def active_entity_def)

lemma relation_current_active:
  assumes "relation_current ds d r"
  shows "active_relation d ds r"
proof -
  from assms obtain a b where "kb_entity (rel_source_entity_id r) d = Some a" "active_entity ds a"
      "kb_entity (rel_target_entity_id r) d = Some b" "active_entity ds b"
    by (auto simp: relation_current_def some_row_iff entity_current_active)
  moreover from this have "a \<in> set (kb_entities d)" "ent_id a = rel_source_entity_id r" "b \<in> set (kb_entities d)" "ent_id b = rel_target_entity_id r"
    using kb_rows(4) by simp_all
  ultimately show ?thesis using assms
    unfolding active_relation_def relation_current_def relation_row_current_def by blast
qed

lemma active_dataset_with_row:
  assumes "active_dataset_with k d P" "k \<in> set ids"
  shows "\<exists>ds \<in> set (datasets (kb_runtime d)). active_dataset d ids ds \<and> P ds"
proof -
  from assms(1) obtain ds where ds: "kb_dataset k d = Some ds" "dataset_status ds = Dataset_ACTIVE" "P ds"
    by (auto simp: active_dataset_with_def some_row_iff)
  then show ?thesis using kb_dataset_row[OF ds(1)] assms(2) by (auto simp: active_dataset_def)
qed

definition relation_grounded :: "search_engine \<Rightarrow> uuid list \<Rightarrow> recall_filters \<Rightarrow> kdb \<Rightarrow> recall_relation \<Rightarrow> bool" where
  "relation_grounded E ids f d x \<longleftrightarrow> (\<exists>r \<in> set (kb_relations d). rel_id r = rrn_relation_id x
       \<and> rel_source_entity_id r = rrn_source_entity_id x \<and> rel_target_entity_id r = rrn_target_entity_id x
       \<and> rel_predicate r = rrn_predicate x
       \<and> (\<exists>ds \<in> set (datasets (kb_runtime d)). active_dataset d ids ds \<and> active_relation d ds r))
     \<and> (\<forall>k q. rrn_evidence_chunk_id x = Some k \<longrightarrow> rrn_evidence x = Some q \<longrightarrow>
          (\<exists>v \<in> set (kb_evidence d). ev_relation_id v = rrn_relation_id x \<and> ev_chunk_id v = k \<and> ev_quote v = q
             \<and> (\<exists>doc src. chunk_grounded E ids f d k doc src)))"

definition evidence_row_grounded :: "search_engine \<Rightarrow> uuid list \<Rightarrow> recall_filters \<Rightarrow> kdb \<Rightarrow> recalled_evidence \<Rightarrow> bool" where
  "evidence_row_grounded E ids f d v \<longleftrightarrow> (\<exists>e \<in> set (kb_evidence d). ev_relation_id e = rv_relation_id v
     \<and> ev_chunk_id e = rv_chunk_id v \<and> ev_quote e = rv_quote v)
     \<and> chunk_grounded E ids f d (rv_chunk_id v) (rv_document_id v) (rv_source_id v)"

lemma evidence_for_recall_grounded:
  assumes "v \<in> set (evidence_for_recall E ids rels f d)"
  shows "evidence_row_grounded E ids f d v"
proof -
  from assms obtain e where e: "e \<in> set (kb_evidence d)" "evidence_recallable E ids rels f d e" "v \<in> set (evidence_snapshot d e)"
    by (auto simp: evidence_for_recall_def split: if_splits)
  from e(2) obtain c where c: "kb_chunk (ev_chunk_id e) d = Some c" "chunk_recallable E ids f d c"
    by (auto simp: evidence_recallable_def some_row_iff)
  have mem: "c \<in> set (kb_chunks d)" "ch_id c = ev_chunk_id e" using kb_rows(3)[OF c(1)] by simp_all
  have v: "rv_relation_id v = ev_relation_id e" "rv_chunk_id v = ev_chunk_id e" "rv_quote v = ev_quote e"
      "rv_document_id v = ch_document_id c" "rv_source_id v = ch_source_id c"
    using e(3) c(1) by (auto simp: evidence_snapshot_def split: option.splits)
  show ?thesis unfolding evidence_row_grounded_def chunk_grounded_def v using e(1) mem recallable_authoritative[OF c(2) mem(1)] by auto
qed

lemma hydration_shape:
  assumes "graph_hydration env st rq ids hits d = Inr g"
  shows "g = empty_hydration \<or> (\<exists>seeds records. g = hydrate_graph (rx_search env) st rq ids hits seeds records d)"
  using assms by (auto simp: graph_hydration_def bindE_eq_Inr_iff Let_def split: if_splits option.splits)

lemma hydrate_grounded:
  fixes E st rq ids hits seeds records d
  defines "g \<equiv> hydrate_graph E st rq ids hits seeds records d"
  shows "x \<in> set (gh_entities g) \<Longrightarrow> entity_grounded ids d x"
    and "y \<in> set (gh_relations g) \<Longrightarrow> relation_grounded E ids (rq_filters rq) d y"
    and "v \<in> set (gh_evidence g) \<Longrightarrow> evidence_row_grounded E ids (rq_filters rq) d v"
proof -
  obtain es rs where sc: "graph_scores records seeds [] [] = (es, rs)" by force
  define rels where "rels = take (nat (effective_top_k st rq)) (ordered_ids_by_score rs)"
  define ents where "ents = ordered_entity_ids_for_recall es rels records"
  have ent: "gh_entities g = map (\<lambda>e. recall_entity_from_snapshot e (case map_of es (re_id e) of Some s \<Rightarrow> s
        | None \<Rightarrow> max_relation_score (re_id e) (gh_relations g)))
      (filter (\<lambda>e. re_id e \<in> fst ` set es \<or> re_id e \<in> set (concat (map (\<lambda>r. [rrn_source_entity_id r, rrn_target_entity_id r]) (gh_relations g))))
        (sort_entities_by_score (entities_for_recall ids ents d) es))"
    and rel: "gh_relations g = map (\<lambda>r. recall_relation_from_snapshot r (score_of rs (rr_id r))
        (evidence_of (first_evidence_by_relation_id (gh_evidence g)) (rr_id r))) (sort_relations_by_score (relations_for_recall ids rels d) rs)"
    and ev: "gh_evidence g = evidence_for_recall E ids rels (rq_filters rq) d"
    unfolding g_def hydrate_graph_def sc Let_def prod.case rels_def ents_def hydration.simps by (rule refl)+
  show evg: "v \<in> set (gh_evidence g) \<Longrightarrow> evidence_row_grounded E ids (rq_filters rq) d v" for v
    unfolding ev by (rule evidence_for_recall_grounded)
  show "entity_grounded ids d x" if "x \<in> set (gh_entities g)"
  proof -
    from that obtain e where e: "e \<in> set (kb_entities d)" "ent_dataset_id e \<in> set ids"
        "active_dataset_with (ent_dataset_id e) d (\<lambda>ds. entity_current ds e)"
        "ren_entity_id x = ent_id e" "ren_name x = ent_name e" "ren_description x = ent_description e"
      unfolding ent by (auto simp: sort_entities_by_score_def entities_for_recall_def recall_entity_from_snapshot_def split: if_splits)
    then show ?thesis using active_dataset_with_row[OF e(3,2)]
      unfolding entity_grounded_def entity_current_active by (intro bexI[of _ e]) simp_all
  qed
  assume "y \<in> set (gh_relations g)"
  then obtain r where r: "r \<in> set (relations_for_recall ids rels d)" "y = recall_relation_from_snapshot r (score_of rs (rr_id r))
        (evidence_of (first_evidence_by_relation_id (gh_evidence g)) (rr_id r))"
    by (auto simp: rel sort_relations_by_score_def)
  from r(1) obtain q where q: "q \<in> set (kb_relations d)" "rel_dataset_id q \<in> set ids"
      "active_dataset_with (rel_dataset_id q) d (\<lambda>ds. relation_current ds d q)"
      "rr_id r = rel_id q" "rr_source_entity_id r = rel_source_entity_id q" "rr_target_entity_id r = rel_target_entity_id q"
      "rr_predicate r = rel_predicate q"
    by (auto simp: relations_for_recall_def split: if_splits)
  have row: "\<exists>q \<in> set (kb_relations d). rel_id q = rrn_relation_id y \<and> rel_source_entity_id q = rrn_source_entity_id y
      \<and> rel_target_entity_id q = rrn_target_entity_id y \<and> rel_predicate q = rrn_predicate y
      \<and> (\<exists>ds \<in> set (datasets (kb_runtime d)). active_dataset d ids ds \<and> active_relation d ds q)"
  proof (intro bexI[of _ q] conjI)
    show "\<exists>ds \<in> set (datasets (kb_runtime d)). active_dataset d ids ds \<and> active_relation d ds q"
      using active_dataset_with_row[OF q(3,2)] relation_current_active by blast
  qed (use q in \<open>simp_all add: r(2) recall_relation_from_snapshot_def\<close>)
  have "\<exists>w \<in> set (kb_evidence d). ev_relation_id w = rrn_relation_id y \<and> ev_chunk_id w = k \<and> ev_quote w = q
      \<and> (\<exists>doc src. chunk_grounded E ids (rq_filters rq) d k doc src)"
    if "rrn_evidence_chunk_id y = Some k" "rrn_evidence y = Some q" for k q
  proof -
    from that obtain w where w: "evidence_of (first_evidence_by_relation_id (gh_evidence g)) (rr_id r) = Some w" "k = rv_chunk_id w" "q = rv_quote w"
      by (auto simp: r(2) recall_relation_from_snapshot_def)
    have "w \<in> set (first_per rv_relation_id (gh_evidence g))" "rv_relation_id w = rr_id r"
      using find_set[OF w(1)[unfolded evidence_of_def]] by (simp_all add: first_evidence_by_relation_id_def)
    then have "w \<in> set (gh_evidence g)" "rv_relation_id w = rr_id r"
      using first_per_subset[of rv_relation_id "gh_evidence g"] by (simp_all add: subset_iff)
    with evg[of w] w show ?thesis
      by (auto simp: evidence_row_grounded_def r(2) recall_relation_from_snapshot_def)
  qed
  with row show "relation_grounded E ids (rq_filters rq) d y" unfolding relation_grounded_def by blast
qed

subsection \<open>References\<close>

lemma evidence_references_keys:
  assumes "distinct (map fst D)" "\<forall>(k, r) \<in> set D. rf_chunk_id r = k"
  shows "distinct (map fst (add_evidence_references sc vs D))"
    "\<forall>(k, r) \<in> set (add_evidence_references sc vs D). rf_chunk_id r = k"
    "fst ` set (add_evidence_references sc vs D) = fst ` set D \<union> rv_chunk_id ` set vs"
    "set (add_evidence_references sc vs D) \<subseteq> set D
       \<union> (\<lambda>v. (rv_chunk_id v, reference_from_evidence v (score_of sc (rv_relation_id v)))) ` set vs"
proof -
  have "distinct (map fst (add_evidence_references sc vs D)) \<and> (\<forall>(k, r) \<in> set (add_evidence_references sc vs D). rf_chunk_id r = k)
    \<and> fst ` set (add_evidence_references sc vs D) = fst ` set D \<union> rv_chunk_id ` set vs
    \<and> set (add_evidence_references sc vs D) \<subseteq> set D
       \<union> (\<lambda>v. (rv_chunk_id v, reference_from_evidence v (score_of sc (rv_relation_id v)))) ` set vs"
    using assms
  proof (induction vs arbitrary: D)
    case (Cons v vs)
    show ?case
    proof (cases "rv_chunk_id v \<in> fst ` set D")
      case True
      then show ?thesis using Cons.IH[OF Cons.prems] by auto
    next
      case False
      let ?D = "D @ [(rv_chunk_id v, reference_from_evidence v (score_of sc (rv_relation_id v)))]"
      have u: "AList.update (rv_chunk_id v) (reference_from_evidence v (score_of sc (rv_relation_id v))) D = ?D"
        by (rule update_absent[OF False])
      have D: "distinct (map fst ?D)" "\<forall>(k, r) \<in> set ?D. rf_chunk_id r = k"
        using Cons.prems False by (auto simp: reference_from_evidence_def)
      show ?thesis using Cons.IH[OF D] False by (simp add: u)
    qed
  qed simp
  then show "distinct (map fst (add_evidence_references sc vs D))"
    "\<forall>(k, r) \<in> set (add_evidence_references sc vs D). rf_chunk_id r = k"
    "fst ` set (add_evidence_references sc vs D) = fst ` set D \<union> rv_chunk_id ` set vs"
    "set (add_evidence_references sc vs D) \<subseteq> set D
       \<union> (\<lambda>v. (rv_chunk_id v, reference_from_evidence v (score_of sc (rv_relation_id v)))) ` set vs" by blast+
qed

lemma recall_references_props:
  assumes "distinct (map rc_chunk_id hits)"
  shows "distinct (map rf_chunk_id (recall_references hits evidence relations))"
    "rf_chunk_id ` set (recall_references hits evidence relations) = rc_chunk_id ` set hits \<union> rv_chunk_id ` set evidence"
    "r \<in> set (recall_references hits evidence relations) \<Longrightarrow>
       (\<exists>h \<in> set hits. r = reference_from_hit h) \<or> (\<exists>v \<in> set evidence. \<exists>s. r = reference_from_evidence v s)"
proof -
  let ?D = "map (\<lambda>h. (rc_chunk_id h, reference_from_hit h)) hits"
  define sc where "sc = dict_of (map (\<lambda>r. (rrn_relation_id r, rrn_score r)) relations)"
  have keys: "map fst ?D = map rc_chunk_id hits" by simp
  have D: "dict_of ?D = ?D" "distinct (map fst ?D)" "\<forall>(k, r) \<in> set ?D. rf_chunk_id r = k"
    using dict_of_distinct[of ?D] assms unfolding keys by (auto simp: reference_from_hit_def)
  have eq: "recall_references hits evidence relations = map snd (add_evidence_references sc evidence ?D)"
    by (simp add: recall_references_def sc_def D(1))
  note p = evidence_references_keys[OF D(2,3), of sc evidence]
  have ids: "map rf_chunk_id (recall_references hits evidence relations) = map fst (add_evidence_references sc evidence ?D)"
    unfolding eq map_map using p(2) by (intro map_cong) auto
  show "distinct (map rf_chunk_id (recall_references hits evidence relations))" unfolding ids by (rule p(1))
  have "rf_chunk_id ` set (recall_references hits evidence relations) = fst ` set (add_evidence_references sc evidence ?D)"
    using ids by (metis list.set_map)
  moreover have "fst ` set ?D = rc_chunk_id ` set hits" by (simp add: image_image)
  ultimately show "rf_chunk_id ` set (recall_references hits evidence relations) = rc_chunk_id ` set hits \<union> rv_chunk_id ` set evidence"
    by (simp only: p(3))
  show "r \<in> set (recall_references hits evidence relations) \<Longrightarrow>
       (\<exists>h \<in> set hits. r = reference_from_hit h) \<or> (\<exists>v \<in> set evidence. \<exists>s. r = reference_from_evidence v s)"
    unfolding eq using p(4) by fastforce
qed

end
