(* ===== verification/Recall_Claims.thy ===== *)
theory Recall_Claims
  imports Recall_Properties Forget_Properties
begin

text \<open>
  The properties of a recall call: everything it returns is current, within its bounds and referenced, and it
  leaves exactly one audit row.
\<close>

subsection \<open>Everything returned is current\<close>

definition requested_datasets :: "pystr list \<Rightarrow> kdb \<Rightarrow> uuid list \<Rightarrow> bool" where
  "requested_datasets slugs d ids = list_all2 (\<lambda>slug k. case dataset_by_slug slug d of None \<Rightarrow> False
     | Some ds \<Rightarrow> dataset_status ds = Dataset_ACTIVE \<and> dataset_id ds = k) slugs ids"

lemma recall_datasets_requested:
  "recall_datasets slugs d = Inr snapshots \<Longrightarrow> requested_datasets slugs d (map ds_id snapshots)"
proof (induction slugs arbitrary: snapshots)
  case Nil
  then show ?case by (simp add: requested_datasets_def)
next
  case (Cons slug slugs)
  from Cons.prems obtain ds rest where "dataset_by_slug slug d = Some ds" "dataset_status ds = Dataset_ACTIVE"
      "recall_datasets slugs d = Inr rest" "snapshots = \<lparr>ds_id = dataset_id ds, ds_slug = ascii (dataset_slug ds)\<rparr> # rest"
    by (auto simp: bindE_eq_Inr_iff split: option.splits if_splits)
  then show ?case using Cons.IH[of rest] by (simp add: requested_datasets_def)
qed

lemma hits_distinct:
  assumes "keyed ch_id (kb_chunks d)" "keyed ch_id (kb_chunks d')"
  shows "distinct (map rc_chunk_id (take n (reciprocal_rank_fusion (vector_search E ids v lm f d) (lexical_search E ids q lm' f d') k)))"
  by (intro distinct_ids_take fusion_ids search_props assms)

lemma hit_grounded:
  assumes "keyed ch_id (kb_chunks d)" "keyed ch_id (kb_chunks d')"
    "h \<in> set (take n (reciprocal_rank_fusion (vector_search E ids v lm f d) (lexical_search E ids q lm' f d') k))"
  shows "item_grounded E ids f d (context_item_from_hit h) \<or> item_grounded E ids f d' (context_item_from_hit h)"
    and "reference_grounded E ids f d (reference_from_hit h) \<or> reference_grounded E ids f d' (reference_from_hit h)"
proof -
  obtain r where r: "r \<in> set (vector_search E ids v lm f d) \<union> set (lexical_search E ids q lm' f d')"
      "rc_chunk_id r = rc_chunk_id h" "rc_text r = rc_text h" "rc_document_id r = rc_document_id h"
      "rc_source_id r = rc_source_id h" "rc_dataset_id r = rc_dataset_id h"
    by (rule hit_retrieved[OF search_props(1)[OF assms(1)] search_props(2)[OF assms(2)] in_set_takeD[OF assms(3)]])
  have "retrieved_from E ids f d r \<or> retrieved_from E ids f d' r"
    using r(1) search_props(3)[OF assms(1)] search_props(4)[OF assms(2)] by blast
  moreover have "item_grounded E ids f x (context_item_from_hit h) \<and> reference_grounded E ids f x (reference_from_hit h)"
    if "retrieved_from E ids f x r" for x
  proof -
    from that obtain c where c: "c \<in> set (kb_chunks x)" "chunk_recallable E ids f x c" "r \<in> set (retrieved_of x c)"
      by (auto simp: retrieved_from_def)
    note recallable_authoritative[OF c(2,1)]
    then show ?thesis using c(1) retrieved_of_fields[OF c(3)] r(2-6)
      by (auto simp: item_grounded_def reference_grounded_def chunk_grounded_def context_item_from_hit_def reference_from_hit_def)
  qed
  ultimately show "item_grounded E ids f d (context_item_from_hit h) \<or> item_grounded E ids f d' (context_item_from_hit h)"
    and "reference_grounded E ids f d (reference_from_hit h) \<or> reference_grounded E ids f d' (reference_from_hit h)" by blast+
qed

lemma summaries_grounded:
  assumes "x \<in> set (vector_search_document_summaries E ids v lm f d)"
  shows "summary_grounded E ids f d (summary_context_item x)"
  using assms
  by (auto simp: vector_search_document_summaries_def retrieved_summary_def summary_grounded_def summary_context_item_def
      summary_recallable_def document_summary_row_def
      split: option.splits dest!: in_set_takeD)

text \<open>C29: Recall returns only current, authoritative knowledge of the requested datasets.  Whatever other
  sessions commit between its transactions, every returned chunk, with its text, document and source, is an
  active chunk of the active generation of a requested dataset that is ACTIVE, of an active document and an
  active source that passes the request's filters, in the tables one of the two searches read; every document
  summary likewise; every reference names such a chunk in the tables of a search or of the graph hydration;
  every entity and every relation is an active row of the active generation with, for a relation, both
  endpoints active too; and the evidence shown with a relation is the stored quote of such a chunk.  The graph
  store and the search engine, which may answer anything, only choose among these rows.\<close>

theorem recall_only_current:
  assumes "\<forall>i x. rdb_knowledge (rx_interfere env i x) = snap i" "\<forall>i. kdb_keyed (snap i)"
    "recall env st rq w = (Inr z, w')"
  shows "\<exists>ids. requested_datasets (rq_datasets rq) (snap 0) ids
     \<and> (\<forall>i. Chunk_Entry i \<in> set (rz_context z) \<longrightarrow>
          item_grounded (rx_search env) ids (rq_filters rq) (snap 2) i \<or> item_grounded (rx_search env) ids (rq_filters rq) (snap 3) i)
     \<and> (\<forall>i. Summary_Entry i \<in> set (rz_context z) \<longrightarrow> summary_grounded (rx_search env) ids (rq_filters rq) (snap 2) i)
     \<and> (\<forall>r \<in> set (rz_references z). \<exists>i \<in> {2, 3, 4}. reference_grounded (rx_search env) ids (rq_filters rq) (snap i) r)
     \<and> (\<forall>x \<in> set (rz_entities z). entity_grounded ids (snap 4) x)
     \<and> (\<forall>y \<in> set (rz_relations z). relation_grounded (rx_search env) ids (rq_filters rq) (snap 4) y)"
  using assms(3)
proof (cases rule: recall_success)
  case (1 snapshots adm s v)
  let ?ids = "map ds_id snapshots" and ?f = "rq_filters rq" and ?E = "rx_search env"
  have ids: "requested_datasets (rq_datasets rq) (snap 0) ?ids"
    using recall_datasets_requested[OF 1(3)] assms(1) by simp
  have keyed: "keyed ch_id (kb_chunks (snap i))" for i using assms(2) by (simp add: kdb_keyed_def)
  show ?thesis
  proof (cases "rq_mode rq = Mode_SUMMARIES")
    case True
    note sm = recall_summaries_success[OF 1(5)[unfolded True, simplified]]
    have "summary_grounded ?E ?ids ?f (snap 2) i" if "Summary_Entry i \<in> set (rz_context z)" for i
      using that summaries_grounded assms(1) by (auto simp: sm(2))
    then show ?thesis using ids sm by (intro exI[of _ ?ids]) auto
  next
    case False
    with 1(5) have "recall_chunks env st rq ?ids v adm (admitted_world (rx_interfere env 1 (rx_interfere env 0 w)) s) = (Inr z, w')"
      by simp
    then show ?thesis
    proof (cases rule: recall_chunks_success)
      case ch: (1 hits g answer)
      note hits = ch(1)[unfolded assms(1)[rule_format]]
      have hg: "item_grounded ?E ?ids ?f (snap 2) (context_item_from_hit h) \<or> item_grounded ?E ?ids ?f (snap 3) (context_item_from_hit h)"
          "reference_grounded ?E ?ids ?f (snap 2) (reference_from_hit h) \<or> reference_grounded ?E ?ids ?f (snap 3) (reference_from_hit h)"
        if "h \<in> set hits" for h
        using hit_grounded[OF keyed[of 2] keyed[of 3] that[unfolded hits]] by blast+
      have dist: "distinct (map rc_chunk_id hits)" unfolding hits by (rule hits_distinct[OF keyed keyed])
      from hydration_shape[OF ch(2)] obtain seeds records
        where g: "g = empty_hydration \<or> g = hydrate_graph ?E st rq ?ids hits seeds records (snap 4)"
        using assms(1) by auto
      note hy = hydrate_grounded[of _ ?E st rq ?ids hits seeds records "snap 4"]
      have "entity_grounded ?ids (snap 4) x" if "x \<in> set (rz_entities z)" for x
        using g that hy(1)[of x] by (auto simp: ch(7) empty_hydration_def)
      moreover have "relation_grounded ?E ?ids ?f (snap 4) y" if "y \<in> set (rz_relations z)" for y
        using g that hy(2)[of y] by (auto simp: ch(8) empty_hydration_def)
      moreover have "\<exists>i \<in> {2, 3, 4}. reference_grounded ?E ?ids ?f (snap i) r" if "r \<in> set (rz_references z)" for r
      proof -
        from that have "r \<in> set (recall_references hits (gh_evidence g) (gh_relations g))" by (auto simp: ch(6) split: if_splits)
        from recall_references_props(3)[OF dist this] show ?thesis
        proof (elim disjE bexE exE)
          fix h assume "h \<in> set hits" "r = reference_from_hit h"
          then show ?thesis using hg(2)[of h] by auto
        next
          fix e sc assume e: "e \<in> set (gh_evidence g)" "r = reference_from_evidence e sc"
          then have "evidence_row_grounded ?E ?ids ?f (snap 4) e" using g hy(3)[of e] by (auto simp: empty_hydration_def)
          then show ?thesis by (auto simp: e(2) evidence_row_grounded_def reference_grounded_def reference_from_evidence_def)
        qed
      qed
      moreover have "item_grounded ?E ?ids ?f (snap 2) i \<or> item_grounded ?E ?ids ?f (snap 3) i" if "Chunk_Entry i \<in> set (rz_context z)" for i
        using that hg(1) unfolding ch(5) by auto
      moreover have "Summary_Entry i \<notin> set (rz_context z)" for i by (auto simp: ch(5))
      ultimately show ?thesis using ids by (intro exI[of _ ?ids]) blast
    qed
  qed
qed

subsection \<open>A call that succeeds\<close>

lemma chunks_mode_succeeds:
  assumes "rq_mode rq = Mode_CHUNKS" "rq_session_id rq = None" "\<not> rq_include_session_context rq"
    "validate_supported_mode st rq = Inr ()"
    "recall_datasets (rq_datasets rq) (rdb_knowledge (rx_interfere env 0 w)) = Inr snapshots"
    "embed_query env st (rq_query rq) = Inr v"
    "\<forall>x. rx_query_id env \<notin> set (map q_id (sdb_queries (rdb_sessions (rx_interfere env 5 x))))"
  shows "\<exists>z w'. recall env st rq w = (Inr z, w')"
proof -
  have "\<exists>z w'. recall_chunks env st rq ids v None x = (Inr z, w')" for ids x
    using assms(1,7) by (auto simp: recall_chunks_def graph_hydration_def graph_mode_def recall_answer_def persist_query_audit_def
        query_add_def audit_query_def query_fk_ok_def Let_def)
  then show ?thesis using assms
    by (simp add: recall_def validate_include_session_context_def admit_session_def Let_def)
qed

definition demo_recall_env :: recall_env where
  "demo_recall_env = \<lparr>rx_search = \<lparr>se_cosine_distance = (\<lambda>_ _. 0), se_matches = (\<lambda>_ _. True), se_rank = (\<lambda>_ _. 0),
       se_contains = (\<lambda>_ _. True)\<rparr>, rx_embed = (\<lambda>ts. Inr (map (\<lambda>_. [1]) ts)), rx_answer = (\<lambda>_ _. Inr [97]), rx_graph = None,
     rx_interfere = (\<lambda>i w. \<lparr>rdb_knowledge = demo_kdb, rdb_sessions = demo_session_db\<rparr>), rx_session_id = 80, rx_query_id = 81,
     rx_db_now = (\<lambda>_. 50), rx_perf = (\<lambda>_. 0)\<rparr>"

definition demo_recall_settings :: recall_settings where
  "demo_recall_settings = \<lparr>rs_max_top_k = 100, rs_default_top_k = 12, rs_rrf_k = 60, rs_vector_top_k = 50, rs_lexical_top_k = 50,
     rs_graph_seed_top_k = 10, rs_graph_max_nodes = 100, rs_embedding_dimensions = Suc 0, rs_store_query_content = False,
     rs_llm_model = [109], rs_session_context_max_entries = 20, rs_session_context_max_chars = 16000\<rparr>"

definition demo_recall_request :: recall_request where
  "demo_recall_request = \<lparr>rq_query = [113], rq_datasets = [ascii ''d''], rq_mode = Mode_CHUNKS, rq_top_k = None,
     rq_only_context = False, rq_include_references = True, rq_session_id = None, rq_include_session_context = False,
     rq_filters = \<lparr>rf_source_ids = [], rf_created_after = None, rf_created_before = None, rf_metadata = []\<rparr>\<rparr>"

definition demo_recall_db :: recall_db where
  "demo_recall_db = \<lparr>rdb_knowledge = demo_kdb, rdb_sessions = demo_session_db\<rparr>"

lemma demo_recall_snap: "rdb_knowledge (rx_interfere demo_recall_env i x) = demo_kdb"
  by (simp add: demo_recall_env_def)

lemma demo_recall_succeeds: "\<exists>z w'. recall demo_recall_env demo_recall_settings demo_recall_request demo_recall_db = (Inr z, w')"
proof (rule chunks_mode_succeeds)
  have "dataset_by_slug (ascii ''d'') demo_kdb = Some demo_kdataset" by code_simp
  then show "recall_datasets (rq_datasets demo_recall_request) (rdb_knowledge (rx_interfere demo_recall_env 0 demo_recall_db))
      = Inr [\<lparr>ds_id = dataset_id demo_kdataset, ds_slug = ascii (dataset_slug demo_kdataset)\<rparr>]"
    using demo_kdb_rows(2) by (simp add: demo_recall_snap demo_recall_request_def)
  show "embed_query demo_recall_env demo_recall_settings (rq_query demo_recall_request) = Inr [1]"
    by (simp add: embed_query_def client_result_def demo_recall_env_def demo_recall_settings_def)
  show "\<forall>x. rx_query_id demo_recall_env \<notin> set (map q_id (sdb_queries (rdb_sessions (rx_interfere demo_recall_env 5 x))))"
    by (simp add: demo_recall_env_def demo_session_db_def)
qed (simp_all add: demo_recall_request_def validate_supported_mode_def)

theorem recall_only_current_witness:
  "\<exists>z w'. recall demo_recall_env demo_recall_settings demo_recall_request demo_recall_db = (Inr z, w')
     \<and> (\<exists>ids. requested_datasets [ascii ''d''] demo_kdb ids \<and> (\<forall>i. Chunk_Entry i \<in> set (rz_context z) \<longrightarrow>
          item_grounded (rx_search demo_recall_env) ids (rq_filters demo_recall_request) demo_kdb i))"
proof -
  obtain z w' where res: "recall demo_recall_env demo_recall_settings demo_recall_request demo_recall_db = (Inr z, w')"
    using demo_recall_succeeds by blast
  have "\<forall>i x. rdb_knowledge (rx_interfere demo_recall_env i x) = (\<lambda>_. demo_kdb) i" "\<forall>i :: nat. kdb_keyed ((\<lambda>_. demo_kdb) i)"
    using demo_kdb_ok(1) by (simp_all add: demo_recall_snap)
  from recall_only_current[OF this res] obtain ids where "requested_datasets (rq_datasets demo_recall_request) demo_kdb ids"
      "\<forall>i. Chunk_Entry i \<in> set (rz_context z) \<longrightarrow>
        item_grounded (rx_search demo_recall_env) ids (rq_filters demo_recall_request) demo_kdb i" by auto
  then show ?thesis using res by (auto simp: demo_recall_request_def)
qed

subsection \<open>Bounds and references\<close>

lemma reference_quote_length: "length (reference_quote t) \<le> REFERENCE_QUOTE_MAX_CHARS"
proof -
  have "length (py_rstrip s) \<le> length s" for s
    unfolding py_rstrip_def using length_dropWhile_le[of py_space "rev s"] by simp
  from this[of "take (REFERENCE_QUOTE_MAX_CHARS - 1) (py_join [32] (py_split t))"] show ?thesis
    by (auto simp: reference_quote_def Let_def REFERENCE_QUOTE_MAX_CHARS_def)
qed

lemma top_k_bound:
  assumes "validate_supported_mode st rq = Inr ()" "rs_default_top_k st \<le> rs_max_top_k st"
  shows "effective_top_k st rq \<le> rs_max_top_k st"
  using assms by (auto simp: validate_supported_mode_def effective_top_k_def split: option.splits if_splits)

lemma summaries_length: "length (vector_search_document_summaries E ids v lm f d) \<le> nat lm"
proof -
  have "length (retrieved_summary E v d s) \<le> 1" for s by (simp add: retrieved_summary_def split: option.split)
  then have "length (concat (map (retrieved_summary E v d) xs)) \<le> length xs" for xs
    by (induction xs) (auto intro: order_trans[OF add_mono])
  then show ?thesis unfolding vector_search_document_summaries_def by (rule order_trans) simp
qed

text \<open>C30: A recall response is bounded and referenced.  Whatever the search engine, the graph store and other
  sessions do, a successful recall returns at most the effective \<open>top_k\<close> context entries, itself at most the
  configured maximum; no reference quotes more than 500 characters; no two references name the same chunk; and
  when references are requested every returned chunk has one.\<close>

theorem recall_bounded:
  assumes "\<forall>i x. keyed ch_id (kb_chunks (rdb_knowledge (rx_interfere env i x)))" "rs_default_top_k st \<le> rs_max_top_k st"
    "recall env st rq w = (Inr z, w')"
  shows "length (rz_context z) \<le> nat (effective_top_k st rq) \<and> effective_top_k st rq \<le> rs_max_top_k st
    \<and> (\<forall>r \<in> set (rz_references z). length (rf_quote r) \<le> 500) \<and> distinct (map rf_chunk_id (rz_references z))
    \<and> (\<forall>i. rq_include_references rq \<longrightarrow> Chunk_Entry i \<in> set (rz_context z) \<longrightarrow>
       (\<exists>r \<in> set (rz_references z). rf_chunk_id r = ci_chunk_id i))"
  using assms(3)
proof (cases rule: recall_success)
  case (1 snapshots adm s v)
  note k = top_k_bound[OF 1(2) assms(2)]
  show ?thesis
  proof (cases "rq_mode rq = Mode_SUMMARIES")
    case True
    note sm = recall_summaries_success[OF 1(5)[unfolded True, simplified]]
    show ?thesis using k summaries_length by (auto simp: sm(2,3))
  next
    case False
    with 1(5) have "recall_chunks env st rq (map ds_id snapshots) v adm
        (admitted_world (rx_interfere env 1 (rx_interfere env 0 w)) s) = (Inr z, w')" by simp
    then show ?thesis
    proof (cases rule: recall_chunks_success)
      case ch: (1 hits g answer)
      have dist: "distinct (map rc_chunk_id hits)" unfolding ch(1) using assms(1) by (intro hits_distinct) simp_all
      note refs = recall_references_props[OF dist, where evidence = "gh_evidence g" and relations = "gh_relations g"]
      have "length (rf_quote r) \<le> 500" if "r \<in> set (recall_references hits (gh_evidence g) (gh_relations g))" for r
        using refs(3)[OF that] reference_quote_length
        by (auto simp: reference_from_hit_def reference_from_evidence_def REFERENCE_QUOTE_MAX_CHARS_def)
      moreover have "\<exists>r \<in> set (recall_references hits (gh_evidence g) (gh_relations g)). rf_chunk_id r = ci_chunk_id i"
        if i: "Chunk_Entry i \<in> set (rz_context z)" for i
      proof -
        from i have "ci_chunk_id i \<in> rc_chunk_id ` set hits" unfolding ch(5) by (auto simp: context_item_from_hit_def)
        then have "ci_chunk_id i \<in> rf_chunk_id ` set (recall_references hits (gh_evidence g) (gh_relations g))"
          unfolding refs(2) by (rule UnI1)
        then show ?thesis by force
      qed
      moreover have "length (rz_context z) \<le> nat (effective_top_k st rq)" unfolding ch(5) ch(1) by simp
      ultimately show ?thesis using k refs(1) by (simp add: ch(6))
    qed
  qed
qed

theorem recall_bounded_witness:
  "\<exists>z w'. recall demo_recall_env demo_recall_settings demo_recall_request demo_recall_db = (Inr z, w')
     \<and> length (rz_context z) \<le> 12 \<and> distinct (map rf_chunk_id (rz_references z))"
proof -
  obtain z w' where res: "recall demo_recall_env demo_recall_settings demo_recall_request demo_recall_db = (Inr z, w')"
    using demo_recall_succeeds by blast
  have "\<forall>i x. keyed ch_id (kb_chunks (rdb_knowledge (rx_interfere demo_recall_env i x)))"
      "rs_default_top_k demo_recall_settings \<le> rs_max_top_k demo_recall_settings"
    using demo_kdb_ok(1) by (simp_all add: demo_recall_snap kdb_keyed_def demo_recall_settings_def)
  from recall_bounded[OF this res] res show ?thesis
    by (simp add: effective_top_k_def demo_recall_request_def demo_recall_settings_def)
qed

subsection \<open>The audit row\<close>

lemma audit_persisted:
  assumes "persist_query_audit q x = Inr (k, w')"
  shows "k = q_id q" "rdb_knowledge w' = rdb_knowledge x"
    "rdb_sessions w' = (rdb_sessions x)\<lparr>sdb_queries := sdb_queries (rdb_sessions x) @ [q]\<rparr>"
  using assms by (auto simp: persist_query_audit_def bindE_eq_Inr_iff query_add_def split: if_splits)

text \<open>What an audit row says of the response \<open>z\<close>, and what it may keep of its content.\<close>

definition audit_of :: "recall_settings \<Rightarrow> recall_request \<Rightarrow> recall_result \<Rightarrow> query \<Rightarrow> bool" where
  "audit_of st rq z q \<longleftrightarrow> q_id q = rz_query_id z \<and> q_session_id q = rz_session_uuid z
     \<and> q_timings q = rz_timings_ms z \<and> q_mode q = recall_mode_value (rq_mode rq)
     \<and> (if rs_store_query_content st then q_query_text q = Some (rq_query rq) \<and> q_answer q = rz_answer z
        else q_query_text q = None \<and> q_answer q = None)
     \<and> (rq_include_references rq \<longrightarrow> q_references q = audit_references (rz_references z))
     \<and> q_model q = (if generated_with_llm rq (rz_answer z) then Some (rs_llm_model st) else None)"

definition backed :: "recall_result \<Rightarrow> query \<Rightarrow> bool" where
  "backed z q \<longleftrightarrow> rz_context z \<noteq> [] \<or> rz_entities z \<noteq> [] \<or> rz_relations z \<noteq> [] \<or> q_session_context_entry_ids q \<noteq> []"

lemma admission_block:
  assumes "admit_session env st rq d = Inr (Some a, s)" "sa_context_block a \<noteq> None"
  shows "sa_context_entry_ids a \<noteq> []"
  using assms by (auto simp: admit_session_def bindE_eq_Inr_iff Let_def split: option.splits if_splits prod.splits)

lemma answer_backed:
  assumes "recall_answer env rq hits g adm = Inr (Some a)" "a \<noteq> NO_EVIDENCE_ANSWER" "rq_mode rq \<noteq> Mode_SUMMARIES"
  shows "hits \<noteq> [] \<or> gh_entities g \<noteq> [] \<or> gh_relations g \<noteq> [] \<or> (\<exists>x. adm = Some x \<and> sa_context_block x \<noteq> None)"
  using assms by (cases "rq_mode rq"; cases adm) (auto simp: recall_answer_def Let_def split: if_splits)

lemma audit_laws:
  "recall env st rq w = (Inr z, w') \<Longrightarrow> \<exists>x q. rdb_knowledge w' = rdb_knowledge (rx_interfere env 5 x)
      \<and> rdb_sessions w' = (rdb_sessions (rx_interfere env 5 x))\<lparr>sdb_queries := sdb_queries (rdb_sessions (rx_interfere env 5 x)) @ [q]\<rparr>
      \<and> audit_of st rq z q
      \<and> (\<forall>a. rz_answer z = Some a \<longrightarrow> a \<noteq> NO_EVIDENCE_ANSWER \<longrightarrow> backed z q)"
  "recall env st rq w = (Inl e, w') \<Longrightarrow> \<forall>i x. rx_interfere env i x = x \<Longrightarrow> rdb_knowledge w' = rdb_knowledge w
      \<and> sdb_queries (rdb_sessions w') = sdb_queries (rdb_sessions w) \<and> sdb_entries (rdb_sessions w') = sdb_entries (rdb_sessions w)"
proof -
  show "\<exists>x q. rdb_knowledge w' = rdb_knowledge (rx_interfere env 5 x)
      \<and> rdb_sessions w' = (rdb_sessions (rx_interfere env 5 x))\<lparr>sdb_queries := sdb_queries (rdb_sessions (rx_interfere env 5 x)) @ [q]\<rparr>
      \<and> audit_of st rq z q \<and> (\<forall>a. rz_answer z = Some a \<longrightarrow> a \<noteq> NO_EVIDENCE_ANSWER \<longrightarrow> backed z q)"
    if "recall env st rq w = (Inr z, w')"
    using that
  proof (cases rule: recall_success)
    case (1 snapshots adm s v)
    show ?thesis
    proof (cases "rq_mode rq = Mode_SUMMARIES")
      case True
      note sm = recall_summaries_success[OF 1(5)[unfolded True, simplified]]
      note p = audit_persisted[OF sm(7)]
      show ?thesis
        by (intro exI conjI, rule p(2), rule p(3))
          (use p(1) sm in \<open>simp_all add: audit_of_def audit_query_def generated_with_llm_def audit_references_def\<close>)
    next
      case False
      with 1(5) have "recall_chunks env st rq (map ds_id snapshots) v adm
          (admitted_world (rx_interfere env 1 (rx_interfere env 0 w)) s) = (Inr z, w')" by simp
      then show ?thesis
      proof (cases rule: recall_chunks_success)
        case ch: (1 hits g answer)
        note p = audit_persisted[OF ch(10)]
        define q where "q = audit_query env st rq (map ds_id snapshots) answer (recall_references hits (gh_evidence g) (gh_relations g)) (rz_timings_ms z) adm"
        have "audit_of st rq z q" using p(1) ch(4,6,9) by (simp add: audit_of_def audit_query_def q_def)
        moreover have "backed z q" if "rz_answer z = Some a" "a \<noteq> NO_EVIDENCE_ANSWER" for a
          using answer_backed[of env rq hits g adm a] that ch(3-8) False admission_block[of env st rq _ _ s] 1(4)
          by (auto simp: backed_def q_def audit_query_def)
        ultimately show ?thesis using p(2,3) unfolding q_def by blast
      qed
    qed
  qed
  assume fail: "recall env st rq w = (Inl e, w')" and quiet: "\<forall>i x. rx_interfere env i x = x"
  have adm: "sdb_queries s = sdb_queries d \<and> sdb_entries s = sdb_entries d" if "admit_session env st rq d = Inr (a, s)" for a s d
    using that by (auto simp: admit_session_def get_or_create_by_key_def bindE_eq_Inr_iff session_add_def Let_def
        split: option.splits if_splits prod.splits)
  have chunks: "w2 = w1" if "recall_chunks env st rq ids v a w1 = (Inl e, w2)" for ids v a w1 w2
    using that quiet by (auto simp: recall_chunks_def Let_def split: sum.splits prod.splits)
  have summaries: "w2 = w1" if "recall_summaries env st rq ids v a w1 = (Inl e, w2)" for ids v a w1 w2
    using that quiet by (auto simp: recall_summaries_def Let_def split: sum.splits prod.splits)
  show "rdb_knowledge w' = rdb_knowledge w
      \<and> sdb_queries (rdb_sessions w') = sdb_queries (rdb_sessions w) \<and> sdb_entries (rdb_sessions w') = sdb_entries (rdb_sessions w)"
    using fail quiet
    by (auto simp: recall_def Let_def split: sum.splits prod.splits if_splits dest!: adm chunks summaries)
qed



end
