(* ===== verification/Chunking_Facts.thy ===== *)
theory Chunking_Facts
  imports Chunking
begin

text \<open>
  What the chunker guarantees whatever the tokenizer counts: it terminates, its chunks are the slices
  at their offsets, in order, overlapping or adjacent, and together they are the document; and, for a
  tokenizer whose count grows by at most one per character, how far a chunk may exceed its budget.
\<close>

subsection \<open>Slices\<close>

lemma py_slice_all: "py_slice t 0 (int (length t)) = t"
  by (simp add: py_slice_def)

lemma length_py_slice: "0 \<le> a \<Longrightarrow> a \<le> b \<Longrightarrow> b \<le> int (length t) \<Longrightarrow> int (length (py_slice t a b)) = b - a"
  by (simp add: py_slice_def nat_diff_distrib')

lemma py_slice_nonempty: "0 \<le> a \<Longrightarrow> a < b \<Longrightarrow> b \<le> int (length t) \<Longrightarrow> py_slice t a b \<noteq> []"
  using length_py_slice[of a b t] by auto

lemma py_slice_append:
  assumes "0 \<le> a" "a \<le> b" "b \<le> c" "c \<le> int (length t)"
  shows "py_slice t a c = py_slice t a b @ py_slice t b c"
proof -
  let ?u = "take (nat c) t"
  have "take (nat b) t = take (nat b) ?u" using assms by (simp add: min_def nat_mono)
  moreover have "nat a - length (take (nat b) ?u) = 0" using assms by auto
  then have "drop (nat a) (take (nat b) ?u @ drop (nat b) ?u) = drop (nat a) (take (nat b) ?u) @ drop (nat b) ?u"
    by (simp only: drop_append drop_0)
  then have "drop (nat a) ?u = drop (nat a) (take (nat b) ?u) @ drop (nat b) ?u" by (simp only: append_take_drop_id)
  ultimately show ?thesis by (simp add: py_slice_def)
qed

lemma take_py_slice:
  assumes "0 \<le> a" "a \<le> b" "b \<le> c" "c \<le> int (length t)"
  shows "take (nat (b - a)) (py_slice t a c) = py_slice t a b"
proof -
  have "length (py_slice t a b) = nat (b - a)" using length_py_slice[of a b t] assms by linarith
  then show ?thesis using py_slice_append[OF assms] by simp
qed

lemma py_slice_snoc:
  "0 \<le> a \<Longrightarrow> a \<le> b \<Longrightarrow> b < int (length t) \<Longrightarrow> py_slice t a (b + 1) = py_slice t a b @ [t ! nat b]"
proof -
  assume a: "0 \<le> a" "a \<le> b" "b < int (length t)"
  have "py_slice t b (b + 1) = [t ! nat b]"
    using a by (simp add: py_slice_def nat_add_distrib take_Suc_conv_app_nth)
  then show ?thesis using py_slice_append[of a b "b + 1" t] a by simp
qed

lemma find_Some_mem: "List.find P xs = Some x \<Longrightarrow> x \<in> set xs \<and> P x"
  by (induction xs) (auto split: if_splits)

lemma py_rfind_range:
  assumes "py_rfind t sub lo hi \<noteq> -1"
  shows "lo \<le> py_rfind t sub lo hi" "py_rfind t sub lo hi + int (length sub) \<le> min hi (int (length t))"
    "py_slice t (py_rfind t sub lo hi) (py_rfind t sub lo hi + int (length sub)) = sub"
  using assms by (auto simp: py_rfind_def dest!: find_Some_mem split: option.splits)

subsection \<open>Where a chunk ends\<close>

lemma max_end_search_result:
  assumes "max_end_search env t start k low high best = Inr r" "low \<le> best + 1"
  shows "r = best \<or> low \<le> r \<and> r \<le> high \<and> (\<exists>n \<le> k. tok_count env (py_slice t start r) = Inr n)"
  using assms
proof (induction env t start k low high best rule: max_end_search.induct)
  case (1 env t start k low high best)
  show ?case
  proof (cases "low \<le> high")
    case True
    let ?m = "(low + high) div 2"
    from 1(3) True obtain n where n: "tok_count env (py_slice t start ?m) = Inr n"
      "(if n \<le> k then max_end_search env t start k (?m + 1) high ?m
        else max_end_search env t start k low (?m - 1) best) = Inr r"
      by (subst (asm) max_end_search.simps) (auto simp: Let_def bindE_eq_Inr_iff)
    have m: "low \<le> ?m" "?m \<le> high" using True by auto
    show ?thesis
    proof (cases "n \<le> k")
      case True
      with n(2) have "max_end_search env t start k (?m + 1) high ?m = Inr r" by simp
      from 1(1)[OF \<open>low \<le> high\<close> refl n(1) True this] show ?thesis using m n(1) True by auto
    next
      case False
      with n(2) have "max_end_search env t start k low (?m - 1) best = Inr r" by simp
      from 1(2)[OF \<open>low \<le> high\<close> refl n(1) False this 1(4)] show ?thesis using m by auto
    qed
  next
    case False
    then show ?thesis using 1(3) by (subst (asm) max_end_search.simps) simp
  qed
qed

lemma max_end_result:
  assumes "max_end_for_token_limit env t start k = Inr m" "0 \<le> start" "start < int (length t)"
  shows "start < m" "m \<le> int (length t)" "m = start + 1 \<or> (\<exists>n \<le> k. tok_count env (py_slice t start m) = Inr n)"
proof -
  have "start < m \<and> m \<le> int (length t) \<and> (m = start + 1 \<or> (\<exists>n \<le> k. tok_count env (py_slice t start m) = Inr n))"
    using assms max_end_search_result[of env t start k "start + 1" "int (length t)" "start + 1" m]
    by (auto simp: max_end_for_token_limit_def bindE_eq_Inr_iff split: if_splits)
  then show "start < m" "m \<le> int (length t)" "m = start + 1 \<or> (\<exists>n \<le> k. tok_count env (py_slice t start m) = Inr n)"
    by blast+
qed

text \<open>A preferred cut is the limit, or right after a newline at most one character past it.\<close>

lemma preferred_cut_result:
  assumes "0 \<le> start" "start < m" "m < int (length t)"
  shows "start < preferred_cut t start m" "preferred_cut t start m \<le> m + 1"
    "preferred_cut t start m = m \<or> t ! nat (preferred_cut t start m - 1) = 10"
proof -
  have at: "t ! nat (p + int (length sub) - 1) = last sub" if p: "py_slice t p (p + int (length sub)) = sub" "sub \<noteq> []"
      "0 \<le> p" "p + int (length sub) \<le> int (length t)" for p sub
  proof -
    let ?j = "p + int (length sub) - 1"
    have "1 \<le> int (length sub)" using p(2) by (cases sub) auto
    then have "py_slice t p (?j + 1) = py_slice t p ?j @ [t ! nat ?j]" using py_slice_snoc[of p ?j t] p by simp
    then have "sub = py_slice t p ?j @ [t ! nat ?j]" using p(1) by simp
    then show ?thesis by (metis last_snoc)
  qed
  let ?p = "py_rfind t [10, 10] (start + 1) (m + 1)" and ?q = "py_rfind t [10] (start + 1) (m + 1)"
  have "start < preferred_cut t start m \<and> preferred_cut t start m \<le> m + 1
     \<and> (preferred_cut t start m = m \<or> t ! nat (preferred_cut t start m - 1) = 10)"
  proof (cases "?p > start")
    case True
    then have ne: "?p \<noteq> -1" using assms(1) by linarith
    note r = py_rfind_range[OF ne]
    have "t ! nat (1 + ?p) = 10" using at[of ?p "[10, 10]"] r True assms by simp
    then show ?thesis using True r assms by (simp add: preferred_cut_def Let_def add.commute)
  next
    case no2: False
    show ?thesis
    proof (cases "?q > start")
      case True
      then have ne: "?q \<noteq> -1" using assms(1) by linarith
      note r = py_rfind_range[OF ne]
      have "t ! nat ?q = 10" using at[of ?q "[10]"] r True assms by simp
      then show ?thesis using no2 True r assms by (simp add: preferred_cut_def Let_def)
    qed (use no2 assms in \<open>simp add: preferred_cut_def Let_def\<close>)
  qed
  then show "start < preferred_cut t start m" "preferred_cut t start m \<le> m + 1"
    "preferred_cut t start m = m \<or> t ! nat (preferred_cut t start m - 1) = 10" by blast+
qed

subsection \<open>Where the next chunk starts\<close>

lemma overlap_search_result:
  assumes "overlap_search env t stop k low high best = Inr r"
  shows "r = best \<or> low \<le> r \<and> r \<le> high \<and> (\<exists>n \<le> k. tok_count env (py_slice t r stop) = Inr n)"
  using assms
proof (induction env t stop k low high best rule: overlap_search.induct)
  case (1 env t stop k low high best)
  show ?case
  proof (cases "low \<le> high")
    case True
    let ?m = "(low + high) div 2"
    from 1(3) True obtain n where n: "tok_count env (py_slice t ?m stop) = Inr n"
      "(if n \<le> k then overlap_search env t stop k low (?m - 1) ?m
        else overlap_search env t stop k (?m + 1) high best) = Inr r"
      by (subst (asm) overlap_search.simps) (auto simp: Let_def bindE_eq_Inr_iff)
    have m: "low \<le> ?m" "?m \<le> high" using True by auto
    show ?thesis
    proof (cases "n \<le> k")
      case True
      with n(2) have "overlap_search env t stop k low (?m - 1) ?m = Inr r" by simp
      from 1(1)[OF \<open>low \<le> high\<close> refl n(1) True this] show ?thesis using m n(1) True by auto
    next
      case False
      with n(2) have "overlap_search env t stop k (?m + 1) high best = Inr r" by simp
      from 1(2)[OF \<open>low \<le> high\<close> refl n(1) False this] show ?thesis using m by auto
    qed
  next
    case False
    then show ?thesis using 1(3) by (subst (asm) overlap_search.simps) simp
  qed
qed

lemma overlap_start_result:
  assumes "overlap_start env t start stop k = Inr r" "start < stop"
  shows "start \<le> r" "r \<le> stop" "r = stop \<or> (\<exists>n \<le> k. tok_count env (py_slice t r stop) = Inr n)"
proof -
  have "start \<le> r \<and> r \<le> stop \<and> (r = stop \<or> (\<exists>n \<le> k. tok_count env (py_slice t r stop) = Inr n))"
    using assms overlap_search_result[of env t stop k start stop stop r]
    by (auto simp: overlap_start_def bindE_eq_Inr_iff split: if_splits)
  then show "start \<le> r" "r \<le> stop" "r = stop \<or> (\<exists>n \<le> k. tok_count env (py_slice t r stop) = Inr n)" by blast+
qed


subsection \<open>The spans cover the document\<close>

fun covers :: "int \<Rightarrow> int \<Rightarrow> (int \<times> int) list \<Rightarrow> bool" where
  "covers n a [] = False"
| "covers n a [(s, e)] = (s = a \<and> s < e \<and> e = n)"
| "covers n a ((s, e) # (s', e') # rest) = (s = a \<and> s < s' \<and> s' \<le> e \<and> e < n \<and> covers n s' ((s', e') # rest))"

lemma covers_Cons:
  assumes "covers n s' rest" "s < s'" "s' \<le> e" "e < n"
  shows "covers n s ((s, e) # rest)"
proof (cases rest)
  case (Cons x xs)
  obtain s1 e1 where x: "x = (s1, e1)" by (cases x)
  have "s1 = s'" using assms(1) Cons x by (cases xs) auto
  then show ?thesis using assms Cons x by auto
qed (use assms in simp)

lemma covers_ends:
  "covers n a spans \<Longrightarrow> spans \<noteq> [] \<and> fst (hd spans) = a \<and> snd (last spans) = n"
  by (induction n a spans rule: covers.induct) auto

lemma covers_each:
  "covers n a spans \<Longrightarrow> (s, e) \<in> set spans \<Longrightarrow> a \<le> s \<and> s < e \<and> e \<le> n"
proof (induction n a spans rule: covers.induct)
  case (3 n a s0 e0 s' e' rest)
  then show ?case by (cases "(s, e) = (s0, e0)") fastforce+
qed auto

lemma covers_merge:
  "covers n a (front @ [(s, e), (s', e')]) \<Longrightarrow> covers n a (front @ [(s, e')])"
proof (induction front arbitrary: a)
  case (Cons x front)
  obtain u v where x: "x = (u, v)" by (cases x)
  show ?case
  proof (cases front)
    case (Cons y ys)
    obtain u' v' where y: "y = (u', v')" by (cases y)
    then show ?thesis using Cons.prems Cons.IH[of u'] x Cons by auto
  qed (use Cons.prems x in auto)
qed auto

subsection \<open>Chunks are the slices at their offsets\<close>

definition chunk_of :: "pystr \<Rightarrow> text_chunk \<Rightarrow> bool" where
  "chunk_of t c \<longleftrightarrow> tc_text c = py_slice t (tc_start_char c) (tc_end_char c) \<and> tc_section_path c = []"

definition tc_span :: "text_chunk \<Rightarrow> int \<times> int" where
  "tc_span c = (tc_start_char c, tc_end_char c)"

lemma materialized:
  assumes "materialize_chunks env t k g o0 spans = Inr cs" "\<forall>(s, e) \<in> set spans. py_slice t s e \<noteq> []"
  shows "map tc_span cs = spans \<and> map tc_ordinal cs = map (\<lambda>i. o0 + int i) [0..<length cs]
    \<and> (\<forall>c \<in> set cs. chunk_of t c \<and> tok_count env (tc_text c) = Inr (tc_token_count c)
         \<and> chunk_content_hash env (tc_text c) = Inr (tc_content_sha256 c)
         \<and> tc_id c = text_chunk_id env k g (tc_ordinal c) (tc_content_sha256 c))"
  using assms
proof (induction env t k g o0 spans arbitrary: cs rule: materialize_chunks.induct)
  case (2 env t k g o0 s e spans)
  from 2(3,4) obtain h n rest where r: "chunk_content_hash env (py_slice t s e) = Inr h" "tok_count env (py_slice t s e) = Inr n"
    "materialize_chunks env t k g (o0 + 1) spans = Inr rest"
    "cs = \<lparr>tc_id = text_chunk_id env k g o0 h, tc_ordinal = o0, tc_text = py_slice t s e, tc_content_sha256 = h,
       tc_token_count = n, tc_start_char = s, tc_end_char = e, tc_section_path = []\<rparr> # rest"
    by (auto simp: Let_def bindE_eq_Inr_iff)
  from 2(2)[OF refl _ r(1,2,3)] 2(4) have ih: "map tc_span rest = spans"
      "map tc_ordinal rest = map (\<lambda>i. o0 + 1 + int i) [0..<length rest]"
      "\<forall>c \<in> set rest. chunk_of t c \<and> tok_count env (tc_text c) = Inr (tc_token_count c)
         \<and> chunk_content_hash env (tc_text c) = Inr (tc_content_sha256 c)
         \<and> tc_id c = text_chunk_id env k g (tc_ordinal c) (tc_content_sha256 c)" by auto
  have "map (\<lambda>i. o0 + int i) [0..<length cs] = o0 # map (\<lambda>i. o0 + 1 + int i) [0..<length rest]"
    using r(4) by (simp add: map_upt_Suc del: upt_Suc)
  moreover have "tc_span (hd cs) = (s, e)" "chunk_of t (hd cs)" "tc_ordinal (hd cs) = o0" "tc_text (hd cs) = py_slice t s e"
      "tc_token_count (hd cs) = n" "tc_content_sha256 (hd cs) = h" "tc_id (hd cs) = text_chunk_id env k g o0 h" "cs = hd cs # rest"
    by (simp_all add: r(4) tc_span_def chunk_of_def)
  ultimately show ?case using ih r(1,2) by (metis (no_types, lifting) list.simps(9) set_ConsD)
qed simp

text \<open>The document put back together from its chunks: the characters each chunk adds before the next begins.\<close>

fun reassemble :: "text_chunk list \<Rightarrow> pystr" where
  "reassemble [] = []"
| "reassemble [c] = tc_text c"
| "reassemble (c # c' # cs) = take (nat (tc_start_char c' - tc_start_char c)) (tc_text c) @ reassemble (c' # cs)"

lemma reassemble_covers:
  assumes "covers (int (length t)) a (map tc_span cs)" "\<forall>c \<in> set cs. chunk_of t c" "0 \<le> a"
  shows "reassemble cs = py_slice t a (int (length t))"
  using assms
proof (induction cs arbitrary: a rule: reassemble.induct)
  case (3 c c' cs)
  let ?n = "int (length t)"
  have c: "tc_start_char c = a" "a < tc_start_char c'" "tc_start_char c' \<le> tc_end_char c" "tc_end_char c < ?n"
    using 3(2) by (auto simp: tc_span_def)
  have cov: "covers ?n (tc_start_char c') (map tc_span (c' # cs))"
    using 3(2) by (simp add: tc_span_def[of c] tc_span_def[of c'])
  have "take (nat (tc_start_char c' - a)) (tc_text c) = py_slice t a (tc_start_char c')"
    using 3(3,4) c take_py_slice[of a "tc_start_char c'" "tc_end_char c" t] by (simp add: chunk_of_def)
  moreover have "reassemble (c' # cs) = py_slice t (tc_start_char c') ?n"
    using 3(1)[OF cov] 3(3,4) c by simp
  moreover have "tc_start_char c' \<le> ?n" using covers_each[OF cov, of "tc_start_char c'" "tc_end_char c'"] by (simp add: tc_span_def)
  ultimately show ?case using c 3(4) py_slice_append[of a "tc_start_char c'" ?n t] by simp
qed (auto simp: tc_span_def chunk_of_def)


subsection \<open>Overlaps\<close>

definition overlap_within :: "chunk_env \<Rightarrow> pystr \<Rightarrow> int \<Rightarrow> int \<times> int \<Rightarrow> int \<times> int \<Rightarrow> bool" where
  "overlap_within env t k x y \<longleftrightarrow> (\<exists>n \<le> k. tok_count env (py_slice t (fst y) (snd x)) = Inr n)"

text \<open>What one turn of the loop does.\<close>

lemma chunk_spans_step:
  assumes "chunk_spans env t k ov start = Inr spans" "0 \<le> start" "start < int (length t)"
  obtains m cut where "max_end_for_token_limit env t start k = Inr m" "start < cut" "cut \<le> int (length t)"
      "cut = (if m = int (length t) then m else preferred_cut t start m)"
      "cut = int (length t)" "spans = [(start, cut)]"
    | m cut nx rest where "max_end_for_token_limit env t start k = Inr m" "start < cut" "cut < int (length t)"
      "cut = (if m = int (length t) then m else preferred_cut t start m)"
      "start < nx" "nx \<le> cut" "\<exists>n. (n \<le> ov \<or> n = 0) \<and> tok_count env (py_slice t nx cut) = Inr n"
      "chunk_spans env t k ov nx = Inr rest" "spans = (start, cut) # rest"
proof -
  let ?n = "int (length t)"
  from assms(1,3) obtain m where m: "max_end_for_token_limit env t start k = Inr m"
    by (subst (asm) chunk_spans.simps) (auto simp: bindE_eq_Inr_iff)
  note mr = max_end_result[OF m assms(2,3)]
  define cut where "cut = (if m = ?n then m else preferred_cut t start m)"
  have cut_code: "(if m = ?n then ?n else preferred_cut t start m) = cut" by (simp add: cut_def)
  have cut: "start < cut" "cut \<le> ?n"
    using mr preferred_cut_result(1,2)[where t = t, OF assms(2) mr(1)] by (auto simp: cut_def)
  have here: "py_slice t start cut \<noteq> []" using py_slice_nonempty[OF assms(2) cut] .
  have step: "chunk_spans env t k ov start = (if cut \<ge> ?n then Inr [(start, cut)]
      else bindE (overlap_start env t start cut ov) (\<lambda>nx0. let nx = if nx0 \<le> start then cut else nx0 in
        bindE (chunk_spans env t k ov (next_non_empty_start t nx)) (\<lambda>rest. Inr ([(start, cut)] @ rest))))"
    using m mr(1) cut(1) here assms(3) by (subst chunk_spans.simps) (simp add: Let_def cut_code)
  show thesis
  proof (cases "cut \<ge> ?n")
    case True
    then show ?thesis using that(1)[OF m cut cut_def] step assms(1) cut by simp
  next
    case False
    then obtain nx0 rest where r: "overlap_start env t start cut ov = Inr nx0"
      "chunk_spans env t k ov (if nx0 \<le> start then cut else nx0) = Inr rest" "spans = (start, cut) # rest"
      using assms(1)[unfolded step] by (auto simp: bindE_eq_Inr_iff Let_def next_non_empty_start_def)
    note o = overlap_start_result[OF r(1) cut(1)]
    have empty: "tok_count env (py_slice t cut cut) = Inr 0" by (simp add: py_slice_def tok_count_def)
    then have tok: "\<exists>n. (n \<le> ov \<or> n = 0) \<and> tok_count env (py_slice t (if nx0 \<le> start then cut else nx0) cut) = Inr n"
      using o(3) by (cases "nx0 \<le> start") auto
    have nx: "start < (if nx0 \<le> start then cut else nx0)" "(if nx0 \<le> start then cut else nx0) \<le> cut" using o cut(1) by auto
    have lt: "cut < ?n" using False by simp
    show ?thesis by (rule that(2)[OF m cut(1) lt cut_def nx tok r(2,3)])
  qed
qed

lemma chunk_spans_cover:
  assumes "chunk_spans env t k ov start = Inr spans" "0 \<le> start" "start < int (length t)"
  shows "covers (int (length t)) start spans"
  using assms
proof (induction "nat (int (length t) - start)" arbitrary: start spans rule: less_induct)
  case less
  show ?case
  proof (cases rule: chunk_spans_step[OF less.prems])
    case (1 m cut)
    then show ?thesis by simp
  next
    case (2 m cut nx rest)
    then have "covers (int (length t)) nx rest" using less.hyps[of nx rest] less.prems(2) by simp
    then show ?thesis using 2 covers_Cons by simp
  qed
qed

lemma chunk_spans_overlap:
  assumes "chunk_spans env t k ov start = Inr spans" "0 \<le> start" "start < int (length t)" "0 \<le> ov"
  shows "successively (overlap_within env t ov) spans"
  using assms
proof (induction "nat (int (length t) - start)" arbitrary: start spans rule: less_induct)
  case less
  show ?case
  proof (cases rule: chunk_spans_step[OF less.prems(1-3)])
    case (1 m cut)
    then show ?thesis by simp
  next
    case (2 m cut nx rest)
    then have "successively (overlap_within env t ov) rest" using less.hyps[of nx rest] less.prems(2,4) by simp
    moreover have "fst (hd rest) = nx" "rest \<noteq> []"
      using covers_ends[OF chunk_spans_cover[OF 2(8)]] 2(3,5,6) less.prems(2) by auto
    ultimately show ?thesis using 2(7,9) less.prems(4) by (cases rest) (auto simp: overlap_within_def)
  qed
qed

lemma merge_small_tail_cases:
  assumes "merge_small_tail env t spans k mn = Inr spans'"
  shows "spans' = spans \<or> (\<exists>front x y. spans = front @ [x, y] \<and> spans' = front @ [(fst x, snd y)]
    \<and> (\<exists>n \<le> k. tok_count env (py_slice t (fst x) (snd y)) = Inr n))"
proof (cases "length spans < 2")
  case False
  then obtain x y f where "rev spans = y # x # f"
    by (metis Suc_1 Suc_length_conv length_rev less_2_cases_iff list.exhaust list.size(3) not_less_eq zero_less_Suc)
  then have "spans = rev (y # x # f)" by (metis rev_rev_ident)
  then obtain front where sp: "spans = front @ [x, y]" by simp
  then show ?thesis using assms
    by (auto simp: merge_small_tail_def Let_def bindE_eq_Inr_iff butlast_append split: if_splits prod.splits)
qed (use assms in \<open>auto simp: merge_small_tail_def\<close>)

lemma merge_small_tail_covers:
  assumes "merge_small_tail env t spans k mn = Inr spans'" "covers n a spans"
  shows "covers n a spans'"
  using merge_small_tail_cases[OF assms(1)] assms(2) covers_merge[of n a]
  by (metis prod.collapse)

lemma merge_small_tail_overlap:
  assumes "merge_small_tail env t spans k mn = Inr spans'" "successively (overlap_within env t ov) spans"
  shows "successively (overlap_within env t ov) spans'"
proof -
  have "successively (overlap_within env t ov) (front @ [(fst x, snd y)])"
    if "successively (overlap_within env t ov) (front @ [x, y])" for front x y
    using that by (auto simp: successively_append_iff overlap_within_def)
  then show ?thesis using merge_small_tail_cases[OF assms(1)] assms(2) by blast
qed

text \<open>What a successful run returns.\<close>

lemma chunk_document_result:
  assumes "chunk_document_text env t k g maxt ov mn = Inr cs"
  shows "0 < maxt" "0 \<le> ov" "ov < maxt" "0 < mn" "mn \<le> maxt"
    and "t \<noteq> [] \<Longrightarrow> covers (int (length t)) 0 (map tc_span cs)" "t = [] \<Longrightarrow> cs = []"
    and "successively (overlap_within env t ov) (map tc_span cs)"
    and "map tc_ordinal cs = map int [0..<length cs]"
    and "\<forall>c \<in> set cs. chunk_of t c \<and> tok_count env (tc_text c) = Inr (tc_token_count c)
         \<and> chunk_content_hash env (tc_text c) = Inr (tc_content_sha256 c)
         \<and> tc_id c = text_chunk_id env k g (tc_ordinal c) (tc_content_sha256 c)"
proof -
  from assms show "0 < maxt" and ov: "0 \<le> ov" and "ov < maxt" "0 < mn" "mn \<le> maxt"
    by (auto simp: chunk_document_text_def split: if_splits)
  from assms obtain sp sp' where sp: "chunk_spans env t maxt ov 0 = Inr sp" "merge_small_tail env t sp maxt mn = Inr sp'"
     "materialize_chunks env t k g 0 sp' = Inr cs"
    by (auto simp: chunk_document_text_def next_non_empty_start_def bindE_eq_Inr_iff split: if_splits)
  have empty: "sp' = []" if "t = []"
    using sp(1,2) that by (subst (asm) chunk_spans.simps) (simp add: merge_small_tail_def)
  have cov: "covers (int (length t)) 0 sp'" if "t \<noteq> []"
    using merge_small_tail_covers[OF sp(2) chunk_spans_cover[OF sp(1)]] that by simp
  have "py_slice t s e \<noteq> []" if "(s, e) \<in> set sp'" for s e
  proof -
    have "t \<noteq> []" using that empty by auto
    then show ?thesis using covers_each[OF cov that] py_slice_nonempty by simp
  qed
  then have "\<forall>(s, e) \<in> set sp'. py_slice t s e \<noteq> []" by blast
  from materialized[OF sp(3) this] have m: "map tc_span cs = sp'" "map tc_ordinal cs = map int [0..<length cs]"
    "\<forall>c \<in> set cs. chunk_of t c \<and> tok_count env (tc_text c) = Inr (tc_token_count c)
         \<and> chunk_content_hash env (tc_text c) = Inr (tc_content_sha256 c)
         \<and> tc_id c = text_chunk_id env k g (tc_ordinal c) (tc_content_sha256 c)" by simp_all
  from m show "map tc_ordinal cs = map int [0..<length cs]"
    "\<forall>c \<in> set cs. chunk_of t c \<and> tok_count env (tc_text c) = Inr (tc_token_count c)
         \<and> chunk_content_hash env (tc_text c) = Inr (tc_content_sha256 c)
         \<and> tc_id c = text_chunk_id env k g (tc_ordinal c) (tc_content_sha256 c)" by blast+
  show "covers (int (length t)) 0 (map tc_span cs)" if "t \<noteq> []" using cov[OF that] m(1) by simp
  show "cs = []" if "t = []" using empty[OF that] m(1) by simp
  have "successively (overlap_within env t ov) sp'"
  proof (cases "t = []")
    case False
    then show ?thesis using merge_small_tail_overlap[OF sp(2) chunk_spans_overlap[OF sp(1)]] ov by simp
  qed (use empty in simp)
  then show "successively (overlap_within env t ov) (map tc_span cs)" using m(1) by simp
qed


subsection \<open>The document is kept\<close>

lemma covers_nth:
  assumes "covers n a spans" "Suc i < length spans"
  shows "fst (spans ! i) < fst (spans ! Suc i) \<and> fst (spans ! Suc i) \<le> snd (spans ! i)"
  using assms
proof (induction n a spans arbitrary: i rule: covers.induct)
  case (3 n a s e s' e' rest)
  then show ?case by (cases i) auto
qed auto

text \<open>C25: Chunking loses nothing, whatever the tokenizer answers: the chunks carry consecutive ordinals, each is the
  slice of the document at its offsets and starts inside or right after its predecessor, whose overlap stays within the
  configured tokens, and the document is the chunks put back together.\<close>

theorem chunks_reassemble:
  assumes "chunk_document_text env t k g maxt ov mn = Inr cs"
  shows "reassemble cs = t \<and> map tc_ordinal cs = map int [0..<length cs]
    \<and> (\<forall>c \<in> set cs. tc_text c = py_slice t (tc_start_char c) (tc_end_char c) \<and> tc_text c \<noteq> [])
    \<and> (\<forall>i. Suc i < length cs \<longrightarrow> tc_start_char (cs ! i) < tc_start_char (cs ! Suc i)
         \<and> tc_start_char (cs ! Suc i) \<le> tc_end_char (cs ! i)
         \<and> (\<exists>n \<le> ov. tok_count env (py_slice t (tc_start_char (cs ! Suc i)) (tc_end_char (cs ! i))) = Inr n))"
proof (cases "t = []")
  case True
  then show ?thesis using chunk_document_result(7)[OF assms] by simp
next
  case False
  note r = chunk_document_result[OF assms]
  note cov = r(6)[OF False]
  have "reassemble cs = t" using reassemble_covers[OF cov] r(10) py_slice_all by simp
  moreover have "tc_text c = py_slice t (tc_start_char c) (tc_end_char c) \<and> tc_text c \<noteq> []" if "c \<in> set cs" for c
  proof -
    have "(tc_start_char c, tc_end_char c) \<in> set (map tc_span cs)" using that by (force simp: tc_span_def)
    then have "0 \<le> tc_start_char c" "tc_start_char c < tc_end_char c" "tc_end_char c \<le> int (length t)"
      using covers_each[OF cov] by auto
    then show ?thesis using r(10) that py_slice_nonempty by (simp add: chunk_of_def)
  qed
  moreover have "tc_start_char (cs ! i) < tc_start_char (cs ! Suc i) \<and> tc_start_char (cs ! Suc i) \<le> tc_end_char (cs ! i)
     \<and> (\<exists>n \<le> ov. tok_count env (py_slice t (tc_start_char (cs ! Suc i)) (tc_end_char (cs ! i))) = Inr n)"
    if i: "Suc i < length cs" for i
    using covers_nth[OF cov, of i] i r(8)
    by (auto simp: tc_span_def overlap_within_def successively_conv_nth)
  ultimately show ?thesis using r(9) by blast
qed

subsection \<open>Token budgets\<close>

text \<open>A tokenizer that never refuses a text and whose count grows with the text by at most one per character.\<close>

definition gradual_tokens :: "chunk_env \<Rightarrow> (pystr \<Rightarrow> int) \<Rightarrow> bool" where
  "gradual_tokens env c \<longleftrightarrow> (\<forall>u. tok_count env u = Inr (c u)) \<and> (\<forall>u x. c u \<le> c (u @ [x]) \<and> c (u @ [x]) \<le> c u + 1)"

lemma gradual_prefix: "gradual_tokens env c \<Longrightarrow> c u \<le> c (u @ v)"
proof (induction v rule: rev_induct)
  case (snoc x v)
  then have "c (u @ v) \<le> c (u @ v @ [x])" unfolding gradual_tokens_def by (metis append_assoc)
  then show ?case using snoc by simp
qed simp

lemma gradual_slice:
  assumes "gradual_tokens env c" "0 \<le> a" "a \<le> b" "b \<le> e" "e \<le> int (length t)"
  shows "c (py_slice t a b) \<le> c (py_slice t a e)"
  using gradual_prefix[OF assms(1)] py_slice_append[OF assms(2-5)] by metis

definition within_budget :: "(pystr \<Rightarrow> int) \<Rightarrow> pystr \<Rightarrow> int \<Rightarrow> int \<times> int \<Rightarrow> bool" where
  "within_budget c t k x \<longleftrightarrow> c (py_slice t (fst x) (snd x)) \<le> k
     \<or> c (py_slice t (fst x) (snd x)) = k + 1 \<and> t ! nat (snd x - 1) = 10"

lemma gradual_cut:
  fixes cut :: int
  assumes g: "gradual_tokens env c" and m: "max_end_for_token_limit env t start k = Inr m" "0 \<le> start" "start < int (length t)"
    and cut: "cut = (if m = int (length t) then m else preferred_cut t start m)" and k: "1 \<le> k"
  shows "within_budget c t k (start, cut)"
proof -
  let ?n = "int (length t)"
  note mr = max_end_result[OF m]
  have tok: "tok_count env u = Inr (c u)" for u using g by (simp add: gradual_tokens_def)
  have zero: "c [] = 0" using tok[of "[]"] by (simp add: tok_count_def)
  have snoc: "c (py_slice t a (b + 1)) \<le> c (py_slice t a b) + 1" if "0 \<le> a" "a \<le> b" "b < ?n" for a b
    using that g py_slice_snoc[OF that] by (simp add: gradual_tokens_def)
  have one: "c (py_slice t start (start + 1)) \<le> 1"
    using snoc[of start start] m(2,3) zero by (simp add: py_slice_def)
  have m_ok: "c (py_slice t start m) \<le> k" using mr(3) one k tok by auto
  show ?thesis
  proof (cases "m = ?n")
    case False
    then have lt: "m < ?n" using mr(2) by simp
    note pc = preferred_cut_result[OF m(2) mr(1) lt]
    show ?thesis
    proof (cases "cut \<le> m")
      case True
      then have "c (py_slice t start cut) \<le> c (py_slice t start m)"
        using gradual_slice[OF g m(2), of cut m t] pc(1) cut False mr(2) by simp
      then show ?thesis using m_ok by (simp add: within_budget_def)
    next
      case past: False
      then have "cut = m + 1" "t ! nat (cut - 1) = 10" using pc cut False by auto
      then show ?thesis using snoc[of start m] m(2) mr(1) lt m_ok by (auto simp: within_budget_def)
    qed
  qed (use m_ok cut in \<open>simp add: within_budget_def\<close>)
qed

lemma gradual_spans:
  assumes "gradual_tokens env c" "1 \<le> k" "chunk_spans env t k ov start = Inr spans" "0 \<le> start" "start < int (length t)"
  shows "\<forall>x \<in> set spans. within_budget c t k x"
  using assms(3-)
proof (induction "nat (int (length t) - start)" arbitrary: start spans rule: less_induct)
  case less
  show ?case
  proof (cases rule: chunk_spans_step[OF less.prems])
    case (1 m cut)
    then show ?thesis using gradual_cut[OF assms(1) 1(1) less.prems(2,3) 1(4) assms(2)] by simp
  next
    case (2 m cut nx rest)
    then have "\<forall>x \<in> set rest. within_budget c t k x" using less.hyps[of nx rest] less.prems(2) by simp
    then show ?thesis using 2(9) gradual_cut[OF assms(1) 2(1) less.prems(2,3) 2(4) assms(2)] by simp
  qed
qed

subsection \<open>Chunking succeeds\<close>

lemma utf8_append: "utf8 (a @ b) = (case utf8 a of None \<Rightarrow> None | Some x \<Rightarrow> (case utf8 b of None \<Rightarrow> None | Some y \<Rightarrow> Some (x @ y)))"
  by (induction a) (auto split: option.splits)

lemma utf8_slice:
  assumes "utf8 t \<noteq> None"
  shows "utf8 (py_slice t a b) \<noteq> None"
proof -
  have "utf8 (take (nat b) t) \<noteq> None"
    using assms by (metis append_take_drop_id utf8_append option.simps(4))
  then have "utf8 (drop (nat a) (take (nat b) t)) \<noteq> None"
    by (metis append_take_drop_id utf8_append option.case_eq_if)
  then show ?thesis by (simp add: py_slice_def)
qed

lemma max_end_search_total:
  "(\<And>u. tok_count env u = Inr (c u)) \<Longrightarrow> \<exists>r. max_end_search env t start k low high best = Inr r"
proof (induction env t start k low high best rule: max_end_search.induct)
  case (1 env t start k low high best)
  then show ?case by (subst max_end_search.simps) (simp add: Let_def)
qed

lemma overlap_search_total:
  "(\<And>u. tok_count env u = Inr (c u)) \<Longrightarrow> \<exists>r. overlap_search env t stop k low high best = Inr r"
proof (induction env t stop k low high best rule: overlap_search.induct)
  case (1 env t stop k low high best)
  then show ?case by (subst overlap_search.simps) (simp add: Let_def)
qed

lemma chunk_spans_total:
  "(\<And>u. tok_count env u = Inr (c u)) \<Longrightarrow> \<exists>r. chunk_spans env t k ov start = Inr r"
proof (induction env t k ov start rule: chunk_spans.induct)
  case (1 env t k ov start)
  have "\<exists>m. max_end_for_token_limit env t start k = Inr m"
    using max_end_search_total[of env c t start k "start + 1" "int (length t)" "start + 1"] 1(2)
    by (simp add: max_end_for_token_limit_def)
  then obtain m where m: "max_end_for_token_limit env t start k = Inr m" by blast
  have ov: "\<exists>r. overlap_start env t start stop ov = Inr r" for stop
    using overlap_search_total[of env c t stop ov start stop stop] 1(2) by (simp add: overlap_start_def)
  show ?case
  proof (cases "start < int (length t) \<and> \<not> m \<le> start")
    case True
    let ?cut = "if m = int (length t) then int (length t) else preferred_cut t start m"
    let ?stop = "if ?cut \<le> start then m else ?cut"
    obtain nx0 where nx0: "overlap_start env t start ?stop ov = Inr nx0" using ov by blast
    show ?thesis
    proof (cases "?stop \<ge> int (length t)")
      case True
      then show ?thesis using m \<open>start < int (length t) \<and> \<not> m \<le> start\<close>
        by (subst chunk_spans.simps) (simp add: Let_def)
    next
      case False
      from 1(1)[OF _ m _ refl refl refl False nx0 refl 1(2)] \<open>start < int (length t) \<and> \<not> m \<le> start\<close>
      obtain rest where "chunk_spans env t k ov (next_non_empty_start t (if nx0 \<le> start then ?stop else nx0)) = Inr rest"
        by blast
      then show ?thesis using m nx0 False \<open>start < int (length t) \<and> \<not> m \<le> start\<close>
        by (subst chunk_spans.simps) (simp add: Let_def)
    qed
  next
    case False
    then show ?thesis using m by (subst chunk_spans.simps) auto
  qed
qed

lemma materialize_total:
  assumes "\<And>u. tok_count env u = Inr (c u)" "utf8 t \<noteq> None"
  shows "\<exists>cs. materialize_chunks env t k g o0 spans = Inr cs"
proof (induction spans arbitrary: o0)
  case (Cons x spans)
  obtain s e where x: "x = (s, e)" by (cases x)
  have "\<exists>h. chunk_content_hash env (py_slice t s e) = Inr h"
    using utf8_slice[OF assms(2), of s e]
    by (auto simp: chunk_content_hash_def utf8_append CHUNK_ALGORITHM_VERSION_def CHUNK_HASH_SEPARATOR_def ascii_def utf8_char_def)
  then show ?case using Cons[of "o0 + 1"] assms(1) x by (auto simp: Let_def)
qed simp

lemma chunking_total:
  assumes "\<And>u. tok_count env u = Inr (c u)" "utf8 t \<noteq> None" "0 \<le> ov" "ov < maxt" "1 \<le> mn" "mn \<le> maxt"
  shows "\<exists>cs. chunk_document_text env t k g maxt ov mn = Inr cs"
proof -
  obtain sp where sp: "chunk_spans env t maxt ov 0 = Inr sp" using chunk_spans_total[OF assms(1)] by blast
  have "\<exists>sp'. merge_small_tail env t sp maxt mn = Inr sp'"
    using assms(1) by (auto simp: merge_small_tail_def Let_def split: prod.splits)
  then show ?thesis using sp materialize_total[OF assms(1,2)] assms(3-)
    by (auto simp: chunk_document_text_def next_non_empty_start_def)
qed


subsection \<open>Witnesses\<close>

text \<open>A tokenizer with one token per character, and toy digests.\<close>

definition demo_chunk_env :: chunk_env where
  "demo_chunk_env = \<lparr>cke_py = \<lparr>sha256_hexdigest = (\<lambda>bs. map char_of (take 8 bs)), float_repr = (\<lambda>q. [])\<rparr>,
     cke_uuid5 = (\<lambda>ns name. ns + sum_list name), cke_encode = (\<lambda>u. Inr u)\<rparr>"

lemma demo_gradual: "gradual_tokens demo_chunk_env (\<lambda>u. int (length u))"
  by (simp add: gradual_tokens_def tok_count_def demo_chunk_env_def)

definition demo_text :: pystr where "demo_text = ascii ''abc'' @ [10] @ ascii ''defgh''"

lemma demo_chunked: "\<exists>cs. chunk_document_text demo_chunk_env demo_text 5 0 3 1 1 = Inr cs"
proof -
  have "utf8 demo_text \<noteq> None" by code_simp
  then show ?thesis
    using chunking_total[of demo_chunk_env "\<lambda>u. int (length u)" demo_text 1 3 1 5 0] demo_gradual
    by (simp add: gradual_tokens_def)
qed

theorem chunks_reassemble_witness:
  "\<exists>cs. chunk_document_text demo_chunk_env demo_text 5 0 3 1 1 = Inr cs \<and> reassemble cs = demo_text"
proof -
  obtain cs where "chunk_document_text demo_chunk_env demo_text 5 0 3 1 1 = Inr cs" using demo_chunked by blast
  from this chunks_reassemble[OF this] show ?thesis by blast
qed

text \<open>The bound is attained: with a budget of three tokens the first chunk of the text has four.\<close>

lemma demo_spans:
  "chunk_spans demo_chunk_env demo_text 3 1 0 = Inr [(0, 4), (3, 6), (5, 8), (7, 9)]"
  "merge_small_tail demo_chunk_env demo_text [(0, 4), (3, 6), (5, 8), (7, 9)] 3 1 = Inr [(0, 4), (3, 6), (5, 8), (7, 9)]"
  by code_simp+


end
