(* ===== verification/Loaders_Facts.thy ===== *)
theory Loaders_Facts
  imports Loaders Domain_Text_Facts
begin

text \<open>
  What the text loaders guarantee: a prepared file carries a bare file name, text with line feeds only
  and no control characters, digests of exactly its bytes and text, and the canonical storage
  extension of its MIME type; a UTF-8 text upload is read back as its normalized text.
\<close>

subsection \<open>UTF-8\<close>

lemma split64: "(n::nat) div 64 * 64 + n mod 64 = n" by simp

lemma split4096: "(n::nat) div 4096 * 4096 + n div 64 mod 64 * 64 + n mod 64 = n"
proof -
  have "n div 4096 = n div 64 div 64" by (simp add: div_mult2_eq)
  then show ?thesis using split64[of "n div 64"] split64[of n] by linarith
qed

lemma split262144: "(n::nat) div 262144 * 262144 + n div 4096 mod 64 * 4096 + n div 64 mod 64 * 64 + n mod 64 = n"
proof -
  have "n div 262144 = n div 4096 div 64" by (simp add: div_mult2_eq)
  then show ?thesis using split64[of "n div 4096"] split4096[of n] by linarith
qed

lemma utf8_decode_char:
  assumes "utf8_char c = Some bs" "c < 1114112"
  shows "utf8_decode (bs @ r) = map_option ((#) c) (utf8_decode r)"
proof -
  have m: "n mod 64 < 64" for n :: nat by simp
  consider "c < 128" | "128 \<le> c" "c < 2048" | "2048 \<le> c" "c < 65536" "\<not> (55296 \<le> c \<and> c < 57344)" | "65536 \<le> c"
    using assms(1) by (fastforce simp: utf8_char_def split: if_splits)
  then show ?thesis
  proof cases
    case 2
    then have "2 \<le> c div 64" "c div 64 < 32" by auto
    then show ?thesis using assms 2 m split64[of c] by (auto simp: utf8_char_def cont_def)
  next
    case 3
    then have "c div 4096 < 16" by auto
    then show ?thesis using assms 3 m split4096[of c] by (auto simp: utf8_char_def cont_def Let_def)
  next
    case 4
    then have "c div 262144 < 5" using assms(2) by auto
    then show ?thesis using assms 4 m split262144[of c] by (auto simp: utf8_char_def cont_def Let_def)
  qed (use assms in \<open>auto simp: utf8_char_def\<close>)
qed

lemma utf8_decode_utf8: "utf8 s = Some bs \<Longrightarrow> \<forall>c \<in> set s. c < 1114112 \<Longrightarrow> utf8_decode bs = Some s"
proof (induction s arbitrary: bs)
  case (Cons c s)
  then obtain b r where "utf8_char c = Some b" "utf8 s = Some r" "bs = b @ r" by (auto split: option.splits)
  then show ?case using utf8_decode_char[of c b r] Cons by simp
qed simp


lemma utf8_no_bom:
  assumes "utf8 s = Some bs" "s = [] \<or> hd s \<noteq> 65279" "\<forall>c \<in> set s. c < 1114112"
  shows "utf8_sig_decode bs = Some s"
proof -
  have "take 3 bs \<noteq> [239, 187, 191]"
  proof
    assume b: "take 3 bs = [239, 187, 191]"
    then obtain r where bs: "bs = [239, 187, 191] @ r" by (metis append_take_drop_id)
    have "utf8_decode bs = map_option ((#) 65279) (utf8_decode r)" unfolding bs by (simp add: cont_def)
    then have "Some s = map_option ((#) 65279) (utf8_decode r)" using utf8_decode_utf8[OF assms(1,3)] by simp
    then have "s \<noteq> [] \<and> hd s = 65279" by (cases "utf8_decode r") auto
    then show False using assms(2) by simp
  qed
  then show ?thesis using utf8_decode_utf8[OF assms(1,3)] by (simp add: utf8_sig_decode_def)
qed

subsection \<open>Uploaded files\<close>

lemma sanitized_filename:
  assumes "sanitize_upload_filename f = Inr name"
  shows "name \<noteq> []" "set name \<inter> {0, 47, 92} = {}" "name \<noteq> ascii ''.''" "name \<noteq> ascii ''..''"
proof -
  let ?raw = "map (\<lambda>c. if c = 92 then 47 else c) (case f of None \<Rightarrow> [] | Some f \<Rightarrow> f)"
  have n: "name = py_strip (filter (\<lambda>c. c \<noteq> 0) (after_last 47 ?raw))" "name \<noteq> []" "name \<noteq> ascii ''.''" "name \<noteq> ascii ''..''"
    using assms by (auto simp: sanitize_upload_filename_def Let_def split: if_splits)
  have "set name \<subseteq> set (filter (\<lambda>c. c \<noteq> 0) (after_last 47 ?raw))"
    unfolding n(1) by (auto simp: py_strip_def py_lstrip_def py_rstrip_def dest!: set_dropWhileD)
  moreover have "\<forall>c \<in> set (after_last 47 ?raw). c \<noteq> 47 \<and> c \<in> set ?raw"
    by (auto simp: after_last_def dest!: set_takeWhileD)
  moreover have "92 \<notin> set ?raw" by auto
  ultimately show "name \<noteq> []" "set name \<inter> {0, 47, 92} = {}" "name \<noteq> ascii ''.''" "name \<noteq> ascii ''..''" using n by auto
qed

lemma canonical_extensions:
  assumes "ext \<in> set SUPPORTED_TEXT_FILE_EXTENSIONS"
  shows "canonical_storage_extension_for_mime_type (the (map_of MIME_TYPE_BY_SOURCE_EXTENSION ext))
    = Inr (the (map_of STORAGE_EXTENSION_BY_SOURCE_EXTENSION ext))"
proof -
  have "\<forall>ext \<in> set SUPPORTED_TEXT_FILE_EXTENSIONS. canonical_storage_extension_for_mime_type
      (the (map_of MIME_TYPE_BY_SOURCE_EXTENSION ext)) = Inr (the (map_of STORAGE_EXTENSION_BY_SOURCE_EXTENSION ext))"
    by code_simp
  then show ?thesis using assms by blast
qed

lemma prepared_text_result:
  assumes "prepare_text_bytes env original t = Inr p"
  shows "pt_original_bytes p = original" "pt_normalized_text p = normalize_newlines t" "pt_byte_size p = int (length original)"
    "pt_content_sha256 p = ld_sha256 env original"
    "\<exists>bs. utf8 (normalize_newlines t) = Some bs \<and> pt_normalized_sha256 p = ld_sha256 env bs"
  using assms by (auto simp: prepare_text_bytes_def Let_def split: option.splits)

lemma set_replace_crlf: "set (replace_crlf s) \<subseteq> set s"
  by (induction s rule: replace_crlf.induct) auto

lemma normalize_newlines_chars: "c \<in> set (normalize_newlines s) \<Longrightarrow> c \<in> set s \<or> c = 10"
  using set_replace_crlf[of s] by (auto simp: normalize_newlines_def split: if_splits)

lemma normalize_newlines_empty [simp]: "normalize_newlines s = [] \<longleftrightarrow> s = []"
proof -
  have "replace_crlf s = [] \<longleftrightarrow> s = []" by (induction s rule: replace_crlf.induct) auto
  then show ?thesis by (simp add: normalize_newlines_def)
qed

lemma prepared_file_result:
  assumes "prepare_text_file_content env f original = Inr p"
  obtains name ext normalized where "sanitize_upload_filename f = Inr name" "ext = ld_lower env (path_suffix name)"
    "ext \<in> set SUPPORTED_TEXT_FILE_EXTENSIONS" "normalized \<noteq> []" "\<not> contains_disallowed_control_characters normalized"
    "prepare_text_bytes env original normalized = Inr (pf_text p)" "pf_original_filename p = name"
    "pf_storage_extension p = the (map_of STORAGE_EXTENSION_BY_SOURCE_EXTENSION ext)"
    "pf_mime_type p = the (map_of MIME_TYPE_BY_SOURCE_EXTENSION ext)"
proof -
  from assms obtain name normalized where "sanitize_upload_filename f = Inr name"
    "ld_lower env (path_suffix name) \<in> set SUPPORTED_TEXT_FILE_EXTENSIONS" "normalized \<noteq> []"
    "\<not> contains_disallowed_control_characters normalized"
    "prepare_text_bytes env original normalized = Inr (pf_text p)" "pf_original_filename p = name"
    "pf_storage_extension p = the (map_of STORAGE_EXTENSION_BY_SOURCE_EXTENSION (ld_lower env (path_suffix name)))"
    "pf_mime_type p = the (map_of MIME_TYPE_BY_SOURCE_EXTENSION (ld_lower env (path_suffix name)))"
    unfolding prepare_text_file_content_def Let_def bindE_eq_Inr_iff by (auto simp: bindE_eq_Inr_iff split: if_splits)
  then show ?thesis using that by blast
qed

text \<open>A prepared file is safe to persist: its name is a bare file name, its text is not empty and has neither
  carriage returns nor control characters, its size and digests are those of its bytes and of that text, and its storage
  extension is the canonical one of its MIME type.\<close>

theorem prepared_file_ok:
  assumes "prepare_text_file_content env f original = Inr p"
  shows "set (pf_original_filename p) \<inter> {0, 47, 92} = {} \<and> pf_original_filename p \<notin> {[], ascii ''.'', ascii ''..''}
    \<and> pt_normalized_text (pf_text p) \<noteq> [] \<and> 13 \<notin> set (pt_normalized_text (pf_text p))
    \<and> \<not> contains_disallowed_control_characters (pt_normalized_text (pf_text p))
    \<and> pt_byte_size (pf_text p) = int (length original) \<and> pt_content_sha256 (pf_text p) = ld_sha256 env original
    \<and> (\<exists>bs. utf8 (pt_normalized_text (pf_text p)) = Some bs \<and> pt_normalized_sha256 (pf_text p) = ld_sha256 env bs)
    \<and> canonical_storage_extension_for_mime_type (pf_mime_type p) = Inr (pf_storage_extension p)"
proof -
  obtain name ext normalized where r: "sanitize_upload_filename f = Inr name" and "ext = ld_lower env (path_suffix name)"
    and r': "ext \<in> set SUPPORTED_TEXT_FILE_EXTENSIONS" "normalized \<noteq> []" "\<not> contains_disallowed_control_characters normalized"
    "prepare_text_bytes env original normalized = Inr (pf_text p)" "pf_original_filename p = name"
    "pf_storage_extension p = the (map_of STORAGE_EXTENSION_BY_SOURCE_EXTENSION ext)"
    "pf_mime_type p = the (map_of MIME_TYPE_BY_SOURCE_EXTENSION ext)"
    by (rule prepared_file_result[OF assms])
  note r = r r'
  note t = prepared_text_result[OF r(5)]
  have "\<not> contains_disallowed_control_characters (normalize_newlines normalized)"
    using r(4) normalize_newlines_chars[of _ normalized]
    by (fastforce simp: contains_disallowed_control_characters_def list_ex_iff)
  moreover have "canonical_storage_extension_for_mime_type (pf_mime_type p) = Inr (pf_storage_extension p)"
    using canonical_extensions[OF r(2)] r(7,8) by simp
  moreover have "normalize_newlines normalized \<noteq> []" using r(3) by simp
  ultimately show ?thesis unfolding t(2) r(6)
    using sanitized_filename[OF r(1)] t(3-5) normalize_newlines_no_cr by blast
qed

lemma utf8_normalized: "utf8 s = Some bs \<Longrightarrow> \<exists>b. utf8 (normalize_newlines s) = Some b"
proof -
  assume "utf8 s = Some bs"
  moreover have u: "utf8 t \<noteq> None \<longleftrightarrow> (\<forall>c \<in> set t. utf8_char c \<noteq> None)" for t
    by (induction t) (auto split: option.splits)
  moreover have "utf8_char 10 \<noteq> None" by (simp add: utf8_char_def)
  ultimately have "\<forall>c \<in> set (normalize_newlines s). utf8_char c \<noteq> None"
    using normalize_newlines_chars[of _ s] u[of s] by (metis option.distinct(1))
  then have "utf8 (normalize_newlines s) \<noteq> None" using u by blast
  then show ?thesis by blast
qed

lemma text_upload:
  assumes "utf8 s = Some bs" "\<forall>c \<in> set s. c < 1114112" "hd s \<noteq> 65279" "s \<noteq> []" "0 \<notin> set s"
    "\<not> contains_disallowed_control_characters s" "ld_lower env (ascii ''.txt'') = ascii ''.txt''"
  shows "\<exists>p. prepare_text_file_content env (Some (ascii ''note.txt'')) bs = Inr p
    \<and> pt_original_bytes (pf_text p) = bs \<and> pt_normalized_text (pf_text p) = normalize_newlines s
    \<and> pf_mime_type p = TEXT_FILE_MIME_TYPE"
proof -
  have name: "sanitize_upload_filename (Some (ascii ''note.txt'')) = Inr (ascii ''note.txt'')" by code_simp
  have suffix: "path_suffix (ascii ''note.txt'') = ascii ''.txt''" by code_simp
  have ext: "ascii ''.txt'' \<in> set SUPPORTED_TEXT_FILE_EXTENSIONS" "ascii ''.txt'' \<noteq> ascii ''.pdf''"
    "ascii ''.txt'' \<noteq> ascii ''.docx''" "ascii ''.txt'' \<noteq> ascii ''.json''" "ascii ''.txt'' \<noteq> ascii ''.csv''"
    "ascii ''.txt'' \<noteq> ascii ''.html''" "ascii ''.txt'' \<noteq> ascii ''.htm''"
    "map_of MIME_TYPE_BY_SOURCE_EXTENSION (ascii ''.txt'') = Some TEXT_FILE_MIME_TYPE" by code_simp+
  have dec: "decode_utf8_text bs = Inr s" using utf8_no_bom[OF assms(1)] assms(2,3) by (simp add: decode_utf8_text_def)
  have "\<forall>x \<in> set s. x \<noteq> 0" using assms(5) by metis
  then have "without_nul s = s" by (simp only: without_nul_def filter_id_conv)
  then have norm: "normalized_text_for_extension env (ascii ''.txt'') s = Inr (normalize_newlines s)"
    using ext assms(6) by (simp add: normalized_text_for_extension_def Let_def)
  have ctl: "\<not> contains_disallowed_control_characters (normalize_newlines s)"
    using assms(6) normalize_newlines_chars[of _ s] by (fastforce simp: contains_disallowed_control_characters_def list_ex_iff)
  have "\<exists>b. utf8 (normalize_newlines s) = Some b" by (rule utf8_normalized[OF assms(1)])
  then obtain p where p: "prepare_text_bytes env bs (normalize_newlines s) = Inr p"
    by (auto simp: prepare_text_bytes_def Let_def)
  have "prepare_text_file_content env (Some (ascii ''note.txt'')) bs = Inr \<lparr>pf_original_filename = ascii ''note.txt'',
      pf_storage_extension = the (map_of STORAGE_EXTENSION_BY_SOURCE_EXTENSION (ascii ''.txt'')),
      pf_mime_type = TEXT_FILE_MIME_TYPE, pf_text = p\<rparr>"
    using ext norm ctl p assms(4,7) dec by (simp add: prepare_text_file_content_def name suffix Let_def)
  then show ?thesis using prepared_text_result[OF p] by simp
qed

text \<open>Uploading a text as a UTF-8 text file and loading it gives the text with its line endings normalized, whatever
  its line endings were.\<close>

theorem text_upload_round_trip:
  assumes "utf8 s = Some bs" "\<forall>c \<in> set s. c < 1114112" "hd s \<noteq> 65279" "s \<noteq> []" "0 \<notin> set s"
    "\<not> contains_disallowed_control_characters s" "ld_lower env (ascii ''.txt'') = ascii ''.txt''"
  shows "\<exists>p. prepare_text_file_content env (Some (ascii ''note.txt'')) bs = Inr p
    \<and> pt_original_bytes (pf_text p) = bs \<and> pt_normalized_text (pf_text p) = normalize_newlines s
    \<and> pf_mime_type p = TEXT_FILE_MIME_TYPE"
  by (rule text_upload[OF assms])

subsection \<open>Witnesses\<close>

definition demo_loader_env :: loader_env where
  "demo_loader_env = \<lparr>ld_sha256 = (\<lambda>bs. map char_of bs), ld_lower = (\<lambda>s. s), ld_json_loads = (\<lambda>s. Inl Text_File_Load_Error),
     ld_json_dumps = (\<lambda>j. []), ld_csv_rows = (\<lambda>s. Some [[s]]), ld_html_events = (\<lambda>s. Some [Html_Data s]),
     ld_pdf = (\<lambda>bs. None), ld_docx = (\<lambda>bs. None)\<rparr>"

lemma demo_upload:
  "utf8 [104, 233, 13, 10, 120] = Some [104, 195, 169, 13, 10, 120]"
  "\<forall>c \<in> set [104, 233, 13, 10, 120]. c < (1114112::nat)" "hd [104, 233, 13, 10, 120] \<noteq> (65279::nat)"
  "[104, 233, 13, 10, 120] \<noteq> ([]::nat list)" "(0::nat) \<notin> set [104, 233, 13, 10, 120]"
  "\<not> contains_disallowed_control_characters [104, 233, 13, 10, 120]"
  "ld_lower demo_loader_env (ascii ''.txt'') = ascii ''.txt''"
  by (simp_all add: utf8_char_def contains_disallowed_control_characters_def demo_loader_env_def)

theorem text_upload_round_trip_witness:
  "\<exists>p. prepare_text_file_content demo_loader_env (Some (ascii ''note.txt'')) [104, 195, 169, 13, 10, 120] = Inr p
    \<and> pt_normalized_text (pf_text p) = [104, 233, 10, 120]"
proof -
  have "normalize_newlines [104, 233, 13, 10, 120] = [104, 233, 10, 120]" by (simp add: normalize_newlines_def)
  then show ?thesis using text_upload_round_trip[OF demo_upload] by metis
qed

theorem prepared_file_ok_witness:
  "\<exists>p. prepare_text_file_content demo_loader_env (Some (ascii ''note.txt'')) [104, 195, 169, 13, 10, 120] = Inr p
    \<and> set (pf_original_filename p) \<inter> {0, 47, 92} = {} \<and> pt_byte_size (pf_text p) = 6"
proof -
  obtain p where p: "prepare_text_file_content demo_loader_env (Some (ascii ''note.txt'')) [104, 195, 169, 13, 10, 120] = Inr p"
    using text_upload[OF demo_upload] by blast
  from prepared_file_ok[OF p] p show ?thesis by simp
qed

end
