(* ===== verification/Cognify_Resolve.thy ===== *)
theory Cognify_Resolve
  imports Cognify_Prepare
begin

text \<open>
  Identity resolution and the batch of \<open>services/cognify.py\<close>: canonical entities and relations are
  looked up in the tables once per batch and deduplicated across its sources.  The resolver is
  mutable and shared, so what a failing source already planned stays in it: the loops return it on
  every path.
\<close>

record planned_entity =
  pe_canonical_key :: pystr
  pe_entity_id :: uuid
  pe_dataset_id :: uuid
  pe_generation :: int
  pe_name :: pystr
  pe_entity_type :: pystr
  pe_description :: pystr
  pe_aliases :: "pystr list"
  pe_confidence :: rat
  pe_is_new :: bool

record planned_relation =
  pr_identity :: relation_identity
  pr_relation_id :: uuid
  pr_dataset_id :: uuid
  pr_generation :: int
  pr_source_key :: pystr
  pr_target_key :: pystr
  pr_predicate :: pystr
  pr_description :: pystr
  pr_confidence :: rat
  pr_is_new :: bool

record resolver =
  rs_entities :: "pystr \<rightharpoonup> planned_entity"
  rs_relations :: "relation_identity \<rightharpoonup> planned_relation"

definition empty_resolver :: resolver where
  "empty_resolver = \<lparr>rs_entities = (\<lambda>_. None), rs_relations = (\<lambda>_. None)\<rparr>"

record chunk_knowledge_plan =
  cp_chunk_id :: uuid
  cp_summary :: pystr
  cp_entities :: "(pystr \<times> extracted_entity) list"
  cp_relations :: "(relation_identity \<times> extracted_relation) list"

record source_plan =
  sp_prepared :: prepared_source
  sp_chunk_plans :: "chunk_knowledge_plan list"
  sp_chunks_created :: nat
  sp_entities_created :: nat
  sp_relations_created :: nat

record prepared_batch =
  cb_dataset_id :: uuid
  cb_target_generation :: int
  cb_rebuild :: bool
  cb_sources :: "source_plan list"
  cb_sources_to_activate :: "uuid list"
  cb_failed_source_ids :: "uuid list"
  cb_entity_plans :: "pystr \<rightharpoonup> planned_entity"
  cb_relation_plans :: "relation_identity \<rightharpoonup> planned_relation"

record process_outcome =
  co_dataset_id :: uuid
  co_target_generation :: int
  co_rebuild :: bool
  co_sources_processed :: nat
  co_chunks :: nat
  co_entities :: nat
  co_relations :: nat

definition planned_outcome :: "prepared_batch \<Rightarrow> process_outcome" where
  "planned_outcome b = \<lparr>co_dataset_id = cb_dataset_id b, co_target_generation = cb_target_generation b,
     co_rebuild = cb_rebuild b, co_sources_processed = length (cb_sources b),
     co_chunks = sum_list (map sp_chunks_created (cb_sources b)), co_entities = sum_list (map sp_entities_created (cb_sources b)),
     co_relations = sum_list (map sp_relations_created (cb_sources b))\<rparr>"

subsection \<open>Lookups\<close>

definition get_active_by_canonical_key :: "uuid \<Rightarrow> pystr \<Rightarrow> kdb \<Rightarrow> entity option" where
  "get_active_by_canonical_key ds key d =
     List.find (\<lambda>e. ent_dataset_id e = ds \<and> ent_canonical_key e = key \<and> ent_is_active e) (kb_entities d)"

definition get_active_by_identity :: "uuid \<Rightarrow> uuid \<Rightarrow> pystr \<Rightarrow> int \<Rightarrow> kdb \<Rightarrow> relation option" where
  "get_active_by_identity s t predicate generation d =
     List.find (\<lambda>r. rel_source_entity_id r = s \<and> rel_target_entity_id r = t \<and> rel_predicate r = predicate
       \<and> rel_generation r = generation \<and> rel_is_active r) (kb_relations d)"

definition plan_entity :: "cognify_env \<Rightarrow> kdb \<Rightarrow> extracted_entity \<Rightarrow> pystr \<Rightarrow> uuid \<Rightarrow> int \<Rightarrow> planned_entity \<times> bool" where
  "plan_entity env d x key ds target =
     (case get_active_by_canonical_key ds key d of
        Some e \<Rightarrow> (\<lparr>pe_canonical_key = key, pe_entity_id = ent_id e, pe_dataset_id = ds, pe_generation = target,
             pe_name = ent_name e, pe_entity_type = ent_entity_type e, pe_description = ent_description e,
             pe_aliases = ent_aliases e, pe_confidence = ent_confidence e, pe_is_new = False\<rparr>, False)
      | None \<Rightarrow> (\<lparr>pe_canonical_key = key, pe_entity_id = cg_entity_id env key, pe_dataset_id = ds, pe_generation = target,
             pe_name = xe_name x, pe_entity_type = xe_entity_type x, pe_description = xe_description x,
             pe_aliases = [], pe_confidence = xe_confidence x, pe_is_new = True\<rparr>, True))"

definition plan_relation ::
  "cognify_env \<Rightarrow> kdb \<Rightarrow> extracted_relation \<Rightarrow> relation_identity \<Rightarrow> resolver \<Rightarrow> uuid \<Rightarrow> int \<Rightarrow> exn + (planned_relation \<times> bool)" where
  "plan_relation env d x identity rs ds target =
     (let (source_key, target_key, predicate) = identity in
      case (rs_entities rs source_key, rs_entities rs target_key) of
        (Some s, Some t) \<Rightarrow>
          (case (if \<not> pe_is_new s \<and> \<not> pe_is_new t
                 then get_active_by_identity (pe_entity_id s) (pe_entity_id t) predicate target d else None) of
             Some r \<Rightarrow> Inr (\<lparr>pr_identity = identity, pr_relation_id = rel_id r, pr_dataset_id = ds, pr_generation = target,
                  pr_source_key = source_key, pr_target_key = target_key, pr_predicate = predicate,
                  pr_description = rel_description r, pr_confidence = rel_confidence r, pr_is_new = False\<rparr>, False)
           | None \<Rightarrow> Inr (\<lparr>pr_identity = identity, pr_relation_id = cg_relation_id env identity, pr_dataset_id = ds,
                  pr_generation = target, pr_source_key = source_key, pr_target_key = target_key, pr_predicate = predicate,
                  pr_description = xr_description x, pr_confidence = xr_confidence x, pr_is_new = True\<rparr>, True))
      | _ \<Rightarrow> Inl Key_Error)"

subsection \<open>One source\<close>

type_synonym 'a resolving = "(exn + 'a) \<times> resolver"

definition bindR :: "'a resolving \<Rightarrow> ('a \<Rightarrow> resolver \<Rightarrow> 'b resolving) \<Rightarrow> 'b resolving" where
  "bindR m f = (case m of (Inl e, rs) \<Rightarrow> (Inl e, rs) | (Inr x, rs) \<Rightarrow> f x rs)"

fun resolve_entities ::
  "cognify_env \<Rightarrow> kdb \<Rightarrow> uuid \<Rightarrow> int \<Rightarrow> extracted_entity list \<Rightarrow> (pystr \<rightharpoonup> pystr) \<Rightarrow> resolver \<Rightarrow>
   ((pystr \<rightharpoonup> pystr) \<times> (pystr \<times> extracted_entity) list \<times> nat) resolving" where
  "resolve_entities env d ds target [] keys rs = (Inr (keys, [], 0), rs)"
| "resolve_entities env d ds target (x # xs) keys rs =
     (case canonical_entity_key (cg_text env) (xe_entity_type x) (xe_name x) of
        Inl e \<Rightarrow> (Inl e, rs)
      | Inr key \<Rightarrow>
        (let (plan, created) = (case rs_entities rs key of Some p \<Rightarrow> (p, False) | None \<Rightarrow> plan_entity env d x key ds target);
             plan' = plan\<lparr>pe_aliases := dict_fromkeys (pe_aliases plan @ xe_aliases x),
                          pe_confidence := max (pe_confidence plan) (xe_confidence x)\<rparr>
         in bindR (resolve_entities env d ds target xs (keys(xe_local_id x \<mapsto> key))
                     (rs\<lparr>rs_entities := (rs_entities rs)(key \<mapsto> plan')\<rparr>))
              (\<lambda>(keys', refs, n) rs'. (Inr (keys', (key, x) # refs, (if created then Suc n else n)), rs'))))"

fun resolve_relations ::
  "cognify_env \<Rightarrow> kdb \<Rightarrow> uuid \<Rightarrow> int \<Rightarrow> (pystr \<rightharpoonup> pystr) \<Rightarrow> extracted_relation list \<Rightarrow> resolver \<Rightarrow>
   ((relation_identity \<times> extracted_relation) list \<times> nat) resolving" where
  "resolve_relations env d ds target keys [] rs = (Inr ([], 0), rs)"
| "resolve_relations env d ds target keys (x # xs) rs =
     (case (keys (xr_source_local_id x), keys (xr_target_local_id x)) of
        (Some source_key, Some target_key) \<Rightarrow>
          (let identity = (source_key, target_key, normalize_relation_predicate (cg_text env) (xr_predicate x)) in
           case (case rs_relations rs identity of
                   Some p \<Rightarrow> Inr (p, False) | None \<Rightarrow> plan_relation env d x identity rs ds target) of
             Inl e \<Rightarrow> (Inl e, rs)
           | Inr (plan, created) \<Rightarrow>
             (let plan' = plan\<lparr>pr_confidence := max (pr_confidence plan) (xr_confidence x),
                    pr_description := (if pr_description plan = [] then xr_description x else pr_description plan)\<rparr>
              in bindR (resolve_relations env d ds target keys xs (rs\<lparr>rs_relations := (rs_relations rs)(identity \<mapsto> plan')\<rparr>))
                   (\<lambda>(refs, n) rs'. (Inr ((identity, x) # refs, (if created then Suc n else n)), rs'))))
      | _ \<Rightarrow> (Inl snapshot_persistence_error, rs))"

fun resolve_chunks ::
  "cognify_env \<Rightarrow> kdb \<Rightarrow> uuid \<Rightarrow> int \<Rightarrow> (uuid \<times> chunk_extraction) list \<Rightarrow> resolver \<Rightarrow>
   (chunk_knowledge_plan list \<times> nat \<times> nat) resolving" where
  "resolve_chunks env d ds target [] rs = (Inr ([], 0, 0), rs)"
| "resolve_chunks env d ds target ((k, x) # rest) rs =
     bindR (resolve_entities env d ds target (kx_entities x) (\<lambda>_. None) rs) (\<lambda>(keys, entities, n) rs1.
     bindR (resolve_relations env d ds target keys (kx_relations x) rs1) (\<lambda>(relations, m) rs2.
     bindR (resolve_chunks env d ds target rest rs2) (\<lambda>(plans, n', m') rs3.
       (Inr (\<lparr>cp_chunk_id = k, cp_summary = kx_summary x, cp_entities = entities, cp_relations = relations\<rparr> # plans,
             n + n', m + m'), rs3))))"

definition resolve_source_knowledge ::
  "cognify_env \<Rightarrow> kdb \<Rightarrow> prepared_source \<Rightarrow> uuid \<Rightarrow> int \<Rightarrow> resolver \<Rightarrow> source_plan resolving" where
  "resolve_source_knowledge env d prepared ds target rs =
     bindR (resolve_chunks env d ds target (ps_extractions prepared) rs) (\<lambda>(plans, n, m) rs'.
       (Inr \<lparr>sp_prepared = prepared, sp_chunk_plans = plans, sp_chunks_created = length (ps_new_chunks prepared),
             sp_entities_created = n, sp_relations_created = m\<rparr>, rs'))"

subsection \<open>The batch\<close>

fun prepare_sources ::
  "cognify_env \<Rightarrow> cognify_clients \<Rightarrow> cognify_reads \<Rightarrow> dataset \<Rightarrow> int \<Rightarrow> bool \<Rightarrow> bool \<Rightarrow> uuid list \<Rightarrow> resolver \<Rightarrow>
   (source_plan list \<times> uuid list \<times> uuid list) resolving" where
  "prepare_sources env cl reads ds target allow_failed rebuild [] rs = (Inr ([], [], []), rs)"
| "prepare_sources env cl reads ds target allow_failed rebuild (k # ks) rs =
     (case decide_source_work_item env ds k target allow_failed rebuild (rd_decide reads k) of
        Inl e \<Rightarrow> (Inl e, rs)
      | Inr decision \<Rightarrow>
        (let activated = (if sd_activate decision then [k] else []);
             outcome = (case sd_work_item decision of
               None \<Rightarrow> (Inr None, rs)
             | Some wi \<Rightarrow>
               bindR (prepare_source env cl wi, rs) (\<lambda>prepared rs0.
                 bindR (resolve_source_knowledge env (rd_resolve reads k) prepared (dataset_id ds) target rs0)
                   (\<lambda>plan rs1. (Inr (Some plan), rs1))))
         in case outcome of
              (Inr plan, rs') \<Rightarrow>
                bindR (prepare_sources env cl reads ds target allow_failed rebuild ks rs')
                  (\<lambda>(plans, act, failed) rs''. (Inr ((case plan of None \<Rightarrow> plans | Some p \<Rightarrow> p # plans), activated @ act, failed), rs''))
            | (Inl e, rs') \<Rightarrow>
                if e = dependency_unavailable_error \<or> \<not> is_sofias_error e then (Inl e, rs')
                else bindR (prepare_sources env cl reads ds target allow_failed rebuild ks rs')
                  (\<lambda>(plans, act, failed) rs''. (Inr (plans, activated @ act, k # failed), rs''))))"

definition prepare_batch ::
  "cognify_env \<Rightarrow> cognify_clients \<Rightarrow> cognify_reads \<Rightarrow> uuid \<Rightarrow> uuid list option \<Rightarrow> bool \<Rightarrow> exn + prepared_batch" where
  "prepare_batch env cl reads k source_ids rebuild =
     bindE (load_dataset_snapshot k (rd_dataset reads)) (\<lambda>ds.
       let target = (if rebuild then dataset_active_generation ds + 1 else dataset_active_generation ds) in
       bindE (select_source_ids ds source_ids rebuild (rd_select reads)) (\<lambda>selected.
         case prepare_sources env cl reads ds target (rebuild \<or> source_ids \<noteq> None) rebuild selected empty_resolver of
           (Inl e, _) \<Rightarrow> Inl e
         | (Inr (plans, act, failed), rs) \<Rightarrow>
             Inr \<lparr>cb_dataset_id = dataset_id ds, cb_target_generation = target, cb_rebuild = rebuild, cb_sources = plans,
                  cb_sources_to_activate = act, cb_failed_source_ids = failed,
                  cb_entity_plans = rs_entities rs, cb_relation_plans = rs_relations rs\<rparr>))"

end
