(* ===== verification/Cognify_Persist.thy ===== *)
theory Cognify_Persist
  imports Cognify_Resolve
begin

text \<open>
  The PostgreSQL-only phase of \<open>services/cognify.py\<close>: applying a prepared batch inside the engine's
  transaction, one SAVEPOINT per source.  Inserts raise \<open>IntegrityError\<close> on the primary keys, the
  unique indexes and the CHECK constraints of the models; foreign keys are not modelled (every
  referenced row was read in the same transaction), and REAL columns keep the value written.
\<close>

subsection \<open>Inserts\<close>

definition document_insert :: "document \<Rightarrow> kdb \<Rightarrow> exn + kdb" where
  "document_insert x d =
     (if doc_id x \<in> doc_id ` set (kb_documents d) then Inl (Integrity_Error ''documents_pkey'')
      else Inr (d\<lparr>kb_documents := kb_documents d @ [x]\<rparr>))"

definition chunk_row_ok :: "chunk \<Rightarrow> bool" where
  "chunk_row_ok c \<longleftrightarrow> 0 \<le> ch_generation c \<and> 0 \<le> ch_ordinal c \<and> 0 \<le> ch_token_count c \<and> 0 \<le> ch_start_char c
     \<and> ch_start_char c \<le> ch_end_char c"

definition chunk_key :: "chunk \<Rightarrow> uuid \<times> int \<times> int" where
  "chunk_key c = (ch_document_id c, ch_generation c, ch_ordinal c)"

definition chunks_insert :: "chunk list \<Rightarrow> kdb \<Rightarrow> exn + kdb" where
  "chunks_insert cs d =
     (let rows = kb_chunks d @ cs in
      if \<not> list_all chunk_row_ok cs then Inl (Integrity_Error ''char_offsets_valid'')
      else if \<not> distinct (map ch_id rows) then Inl (Integrity_Error ''chunks_pkey'')
      else if \<not> distinct (map chunk_key rows) then Inl (Integrity_Error ''uq_chunks_document_id_generation_ordinal'')
      else Inr (d\<lparr>kb_chunks := rows\<rparr>))"

definition entity_insert :: "entity \<Rightarrow> kdb \<Rightarrow> exn + kdb" where
  "entity_insert e d =
     (if \<not> (0 \<le> ent_generation e) then Inl (Integrity_Error ''generation_non_negative'')
      else if \<not> unit_interval (ent_confidence e) then Inl (Integrity_Error ''confidence_between_zero_and_one'')
      else if ent_id e \<in> ent_id ` set (kb_entities d) then Inl (Integrity_Error ''entities_pkey'')
      else if ent_is_active e \<and> list_ex (\<lambda>x. ent_is_active x \<and> ent_dataset_id x = ent_dataset_id e
                 \<and> ent_canonical_key x = ent_canonical_key e) (kb_entities d)
      then Inl (Integrity_Error ''uq_entities_dataset_id_canonical_key_active'')
      else Inr (d\<lparr>kb_entities := kb_entities d @ [e]\<rparr>))"

definition mention_insert :: "entity_mention \<Rightarrow> kdb \<Rightarrow> exn + kdb" where
  "mention_insert m d =
     (if \<not> unit_interval (em_confidence m) then Inl (Integrity_Error ''confidence_between_zero_and_one'')
      else if em_id m \<in> em_id ` set (kb_mentions d) then Inl (Integrity_Error ''entity_mentions_pkey'')
      else Inr (d\<lparr>kb_mentions := kb_mentions d @ [m]\<rparr>))"

definition relation_insert :: "relation \<Rightarrow> kdb \<Rightarrow> exn + kdb" where
  "relation_insert r d =
     (if \<not> (0 \<le> rel_generation r) then Inl (Integrity_Error ''generation_non_negative'')
      else if \<not> unit_interval (rel_confidence r) then Inl (Integrity_Error ''confidence_between_zero_and_one'')
      else if rel_id r \<in> rel_id ` set (kb_relations d) then Inl (Integrity_Error ''relations_pkey'')
      else Inr (d\<lparr>kb_relations := kb_relations d @ [r]\<rparr>))"

definition evidence_insert :: "relation_evidence \<Rightarrow> kdb \<Rightarrow> exn + kdb" where
  "evidence_insert e d =
     (if \<not> unit_interval (ev_confidence e) then Inl (Integrity_Error ''confidence_between_zero_and_one'')
      else if list_ex (\<lambda>x. ev_relation_id x = ev_relation_id e \<and> ev_chunk_id x = ev_chunk_id e) (kb_evidence d)
      then Inl (Integrity_Error ''relation_evidence_pkey'')
      else Inr (d\<lparr>kb_evidence := kb_evidence d @ [e]\<rparr>))"

definition summary_insert :: "summary \<Rightarrow> kdb \<Rightarrow> exn + kdb" where
  "summary_insert s d =
     (if \<not> (0 \<le> sum_generation s) then Inl (Integrity_Error ''generation_non_negative'')
      else if sum_id s \<in> sum_id ` set (kb_summaries d) then Inl (Integrity_Error ''summaries_pkey'')
      else Inr (d\<lparr>kb_summaries := kb_summaries d @ [s]\<rparr>))"

definition put_document :: "document \<Rightarrow> kdb \<Rightarrow> kdb" where
  "put_document x d = d\<lparr>kb_documents := row_put doc_id x (kb_documents d)\<rparr>"
definition put_chunk :: "chunk \<Rightarrow> kdb \<Rightarrow> kdb" where
  "put_chunk x d = d\<lparr>kb_chunks := row_put ch_id x (kb_chunks d)\<rparr>"
definition put_entity :: "entity \<Rightarrow> kdb \<Rightarrow> kdb" where
  "put_entity x d = d\<lparr>kb_entities := row_put ent_id x (kb_entities d)\<rparr>"
definition put_relation :: "relation \<Rightarrow> kdb \<Rightarrow> kdb" where
  "put_relation x d = d\<lparr>kb_relations := row_put rel_id x (kb_relations d)\<rparr>"
definition put_summary :: "summary \<Rightarrow> kdb \<Rightarrow> kdb" where
  "put_summary x d = d\<lparr>kb_summaries := row_put sum_id x (kb_summaries d)\<rparr>"

definition mention_exists :: "uuid \<Rightarrow> uuid \<Rightarrow> kdb \<Rightarrow> bool" where
  "mention_exists e c d = list_ex (\<lambda>m. em_entity_id m = e \<and> em_chunk_id m = c) (kb_mentions d)"

definition evidence_exists :: "uuid \<Rightarrow> uuid \<Rightarrow> kdb \<Rightarrow> bool" where
  "evidence_exists r c d = list_ex (\<lambda>x. ev_relation_id x = r \<and> ev_chunk_id x = c) (kb_evidence d)"

subsection \<open>Rows\<close>

definition chunk_model_from_text_chunk :: "cognify_env \<Rightarrow> source_work_item \<Rightarrow> text_chunk \<Rightarrow> rat list \<Rightarrow> chunk" where
  "chunk_model_from_text_chunk env wi c v = \<lparr>ch_id = tc_id c, ch_dataset_id = wi_dataset_id wi,
     ch_document_id = wi_document_id wi, ch_source_id = wi_source_id wi, ch_generation = wi_generation wi,
     ch_ordinal = tc_ordinal c, ch_text = tc_text c, ch_content_sha256 = tc_content_sha256 c, ch_token_count = tc_token_count c,
     ch_start_char = tc_start_char c, ch_end_char = tc_end_char c, ch_section_path = tc_section_path c,
     ch_metadata = [(ascii ''chunk_algorithm_version'', JStr CHUNK_ALGORITHM_VERSION),
                    (ascii ''embedding_model'', JStr (cg_embedding_model env)),
                    (ascii ''config_fingerprint'', JStr (cg_config_fingerprint env))],
     ch_embedding = v, ch_is_active = True, ch_created_at = cg_now env\<rparr>"

text \<open>\<open>metadata[key] = value\<close> on the items of a dict.\<close>

fun dict_put :: "'k \<Rightarrow> 'v \<Rightarrow> ('k \<times> 'v) list \<Rightarrow> ('k \<times> 'v) list" where
  "dict_put k v [] = [(k, v)]"
| "dict_put k v ((k', v') # kvs) = (if k' = k then (k, v) # kvs else (k', v') # dict_put k v kvs)"

definition knowledge_extraction_metadata :: "cognify_env \<Rightarrow> (pystr \<times> json) list \<Rightarrow> pystr \<Rightarrow> (pystr \<times> json) list" where
  "knowledge_extraction_metadata env existing s = dict_put (ascii ''knowledge_extraction'') (JObj
     [(ascii ''version'', JStr KNOWLEDGE_EXTRACTION_VERSION), (ascii ''prompt_version'', JStr GRAPH_EXTRACTION_PROMPT_VERSION),
      (ascii ''llm_model'', JStr (cg_llm_model env)), (ascii ''config_fingerprint'', JStr (cg_config_fingerprint env)),
      (ascii ''summary'', JStr s)]) existing"

definition document_summary_metadata :: "cognify_env \<Rightarrow> (pystr \<times> json) list \<Rightarrow> uuid \<Rightarrow> (pystr \<times> json) list" where
  "document_summary_metadata env existing k = dict_put (ascii ''document_summary'') (JObj
     [(ascii ''version'', JStr DOCUMENT_SUMMARY_VERSION), (ascii ''prompt_version'', JStr DOCUMENT_SUMMARY_PROMPT_VERSION),
      (ascii ''summary_id'', JStr (uuid_text k)), (ascii ''llm_model'', JStr (cg_llm_model env)),
      (ascii ''embedding_model'', JStr (cg_embedding_model env)),
      (ascii ''config_fingerprint'', JStr (cg_config_fingerprint env))]) existing"

text \<open>\<open>text.find(sub)\<close>: the first occurrence.\<close>

definition py_find :: "pystr \<Rightarrow> pystr \<Rightarrow> nat option" where
  "py_find t sub = List.find (\<lambda>i. take (length sub) (drop i t) = sub \<and> i + length sub \<le> length t) [0..<Suc (length t)]"

definition entity_mention_from_extraction :: "cognify_env \<Rightarrow> extracted_entity \<Rightarrow> uuid \<Rightarrow> chunk \<Rightarrow> entity_mention" where
  "entity_mention_from_extraction env x entity_id c =
     (let hit = List.find (\<lambda>candidate. py_find (ch_text c) candidate \<noteq> None) (xe_name x # xe_aliases x) in
      \<lparr>em_id = cg_mention_id env entity_id (ch_id c), em_entity_id = entity_id, em_chunk_id = ch_id c,
       em_surface_text = (case hit of None \<Rightarrow> xe_name x | Some s \<Rightarrow> s),
       em_start_char = (case hit of None \<Rightarrow> None | Some s \<Rightarrow> map_option int (py_find (ch_text c) s)),
       em_end_char = (case hit of None \<Rightarrow> None | Some s \<Rightarrow> map_option (\<lambda>i. int (i + length s)) (py_find (ch_text c) s)),
       em_confidence = xe_confidence x\<rparr>)"

subsection \<open>Materializing identities\<close>

definition apply_entity_plan :: "cognify_env \<Rightarrow> planned_entity \<Rightarrow> kdb \<Rightarrow> exn + (entity \<times> bool \<times> kdb)" where
  "apply_entity_plan env p d =
     (case get_active_by_canonical_key (pe_dataset_id p) (pe_canonical_key p) d of
        Some e \<Rightarrow>
          (let e' = e\<lparr>ent_aliases := dict_fromkeys (ent_aliases e @ pe_aliases p),
                      ent_confidence := max (ent_confidence e) (pe_confidence p)\<rparr>
           in if \<not> unit_interval (ent_confidence e') then Inl (Integrity_Error ''confidence_between_zero_and_one'')
              else Inr (e', False, put_entity e' d))
      | None \<Rightarrow>
          (let e = \<lparr>ent_id = pe_entity_id p, ent_dataset_id = pe_dataset_id p, ent_generation = pe_generation p,
             ent_canonical_key = pe_canonical_key p, ent_name = pe_name p, ent_entity_type = pe_entity_type p,
             ent_description = pe_description p, ent_aliases = pe_aliases p, ent_properties = JObj [],
             ent_confidence = pe_confidence p, ent_importance_weight = 1, ent_embedding = None, ent_is_active = True,
             ent_created_at = cg_now env\<rparr>
           in bindE (entity_insert e d) (\<lambda>d1. Inr (e, True, d1))))"

definition apply_relation_plan ::
  "cognify_env \<Rightarrow> planned_relation \<Rightarrow> uuid \<Rightarrow> uuid \<Rightarrow> kdb \<Rightarrow> exn + (relation \<times> bool \<times> kdb)" where
  "apply_relation_plan env p source_entity target_entity d =
     (case get_active_by_identity source_entity target_entity (pr_predicate p) (pr_generation p) d of
        Some r \<Rightarrow>
          (let r' = r\<lparr>rel_confidence := max (rel_confidence r) (pr_confidence p),
                      rel_description := (if rel_description r = [] then pr_description p else rel_description r)\<rparr>
           in if \<not> unit_interval (rel_confidence r') then Inl (Integrity_Error ''confidence_between_zero_and_one'')
              else Inr (r', False, put_relation r' d))
      | None \<Rightarrow>
          (let r = \<lparr>rel_id = pr_relation_id p, rel_dataset_id = pr_dataset_id p, rel_generation = pr_generation p,
             rel_source_entity_id = source_entity, rel_target_entity_id = target_entity, rel_predicate = pr_predicate p,
             rel_description = pr_description p, rel_properties = JObj [], rel_confidence = pr_confidence p,
             rel_importance_weight = 1, rel_embedding = None, rel_is_active = True, rel_created_at = cg_now env\<rparr>
           in bindE (relation_insert r d) (\<lambda>d1. Inr (r, True, d1))))"

subsection \<open>One chunk\<close>

text \<open>The state of the write loop: the tables, the counters and the three dicts of projection commands.\<close>

record persist_state =
  ps_db :: kdb
  ps_entities_created :: nat
  ps_relations_created :: nat
  ps_entity_commands :: "(uuid \<times> projection_command) list"
  ps_mention_commands :: "(uuid \<times> projection_command) list"
  ps_relation_commands :: "(uuid \<times> projection_command) list"

definition entity_upsert_of :: "entity \<Rightarrow> projection_command" where
  "entity_upsert_of e = entity_upsert_command (uuid_text (ent_id e)) (uuid_text (ent_dataset_id e)) (ent_name e)
     (ent_entity_type e) (ent_description e) (ent_importance_weight e) (ent_generation e)"

definition relation_upsert_of :: "relation \<Rightarrow> projection_command" where
  "relation_upsert_of r = relation_upsert_command (uuid_text (rel_id r)) (uuid_text (rel_dataset_id r))
     (uuid_text (rel_source_entity_id r)) (uuid_text (rel_target_entity_id r)) (rel_predicate r) (rel_description r)
     (rel_confidence r) (rel_importance_weight r) (rel_generation r)"

definition persist_entity ::
  "cognify_env \<Rightarrow> prepared_batch \<Rightarrow> uuid \<Rightarrow> chunk \<Rightarrow> pystr \<Rightarrow> extracted_entity \<Rightarrow> persist_state \<Rightarrow> exn + (uuid \<times> persist_state)" where
  "persist_entity env b ds c key x st =
     (case cb_entity_plans b key of
        None \<Rightarrow> Inl Key_Error
      | Some plan \<Rightarrow>
        bindE (apply_entity_plan env plan (ps_db st)) (\<lambda>(e, created, d1).
          let st1 = st\<lparr>ps_db := d1, ps_entities_created := ps_entities_created st + (if created then 1 else 0),
                       ps_entity_commands := dict_put (ent_id e) (entity_upsert_of e) (ps_entity_commands st)\<rparr>
          in if mention_exists (ent_id e) (ch_id c) d1 then Inr (ent_id e, st1)
             else let m = entity_mention_from_extraction env x (ent_id e) c in
               bindE (mention_insert m d1) (\<lambda>d2.
                 Inr (ent_id e, st1\<lparr>ps_db := d2, ps_mention_commands := dict_put (em_id m)
                   (entity_mention_upsert_command (uuid_text (em_id m)) (uuid_text ds)
                      (uuid_text (em_entity_id m)) (uuid_text (em_chunk_id m)) (em_confidence m)) (ps_mention_commands st1)\<rparr>))))"

fun persist_entities ::
  "cognify_env \<Rightarrow> prepared_batch \<Rightarrow> uuid \<Rightarrow> chunk \<Rightarrow> (pystr \<times> extracted_entity) list \<Rightarrow> (pystr \<rightharpoonup> uuid) \<Rightarrow> persist_state \<Rightarrow>
   exn + ((pystr \<rightharpoonup> uuid) \<times> persist_state)" where
  "persist_entities env b ds c [] ids st = Inr (ids, st)"
| "persist_entities env b ds c ((key, x) # xs) ids st =
     bindE (persist_entity env b ds c key x st) (\<lambda>(e, st1). persist_entities env b ds c xs (ids(key \<mapsto> e)) st1)"

definition persist_relation ::
  "cognify_env \<Rightarrow> prepared_batch \<Rightarrow> chunk \<Rightarrow> (pystr \<rightharpoonup> uuid) \<Rightarrow> relation_identity \<Rightarrow> extracted_relation \<Rightarrow> persist_state \<Rightarrow>
   exn + persist_state" where
  "persist_relation env b c ids identity x st =
     (case cb_relation_plans b identity of
        None \<Rightarrow> Inl Key_Error
      | Some plan \<Rightarrow>
        (case (ids (pr_source_key plan), ids (pr_target_key plan)) of
           (Some s, Some t) \<Rightarrow>
             bindE (apply_relation_plan env plan s t (ps_db st)) (\<lambda>(r, created, d1).
               let st1 = st\<lparr>ps_db := d1, ps_relations_created := ps_relations_created st + (if created then 1 else 0),
                            ps_relation_commands := dict_put (rel_id r) (relation_upsert_of r) (ps_relation_commands st)\<rparr>
               in if evidence_exists (rel_id r) (ch_id c) d1 then Inr st1
                  else bindE (evidence_insert \<lparr>ev_relation_id = rel_id r, ev_chunk_id = ch_id c, ev_quote = xr_evidence x,
                                ev_confidence = xr_confidence x\<rparr> d1) (\<lambda>d2. Inr (st1\<lparr>ps_db := d2\<rparr>)))
         | _ \<Rightarrow> Inl Key_Error))"

fun persist_relations ::
  "cognify_env \<Rightarrow> prepared_batch \<Rightarrow> chunk \<Rightarrow> (pystr \<rightharpoonup> uuid) \<Rightarrow> (relation_identity \<times> extracted_relation) list \<Rightarrow> persist_state \<Rightarrow>
   exn + persist_state" where
  "persist_relations env b c ids [] st = Inr st"
| "persist_relations env b c ids ((identity, x) # xs) st =
     bindE (persist_relation env b c ids identity x st) (persist_relations env b c ids xs)"

definition persist_chunk ::
  "cognify_env \<Rightarrow> prepared_batch \<Rightarrow> uuid \<Rightarrow> chunk_knowledge_plan \<Rightarrow> persist_state \<Rightarrow> exn + persist_state" where
  "persist_chunk env b ds p st =
     (case kb_chunk (cp_chunk_id p) (ps_db st) of
        None \<Rightarrow> Inl snapshot_persistence_error
      | Some c \<Rightarrow>
        bindE (persist_entities env b ds c (cp_entities p) (\<lambda>_. None) st) (\<lambda>(ids, st1).
        bindE (persist_relations env b c ids (cp_relations p) st1) (\<lambda>st2.
          Inr (st2\<lparr>ps_db := put_chunk (c\<lparr>ch_metadata := knowledge_extraction_metadata env (ch_metadata c) (cp_summary p)\<rparr>)
                 (ps_db st2)\<rparr>))))"

fun persist_chunks ::
  "cognify_env \<Rightarrow> prepared_batch \<Rightarrow> uuid \<Rightarrow> chunk_knowledge_plan list \<Rightarrow> persist_state \<Rightarrow> exn + persist_state" where
  "persist_chunks env b ds [] st = Inr st"
| "persist_chunks env b ds (p # ps) st = bindE (persist_chunk env b ds p st) (persist_chunks env b ds ps)"

subsection \<open>Projection commands\<close>

definition chunk_upsert_of :: "chunk \<Rightarrow> projection_command" where
  "chunk_upsert_of c = chunk_upsert_command (uuid_text (ch_id c)) (uuid_text (ch_dataset_id c)) (uuid_text (ch_source_id c))
     (uuid_text (ch_document_id c)) (ch_ordinal c) (ch_generation c)"

definition chunk_next_projection_commands :: "chunk list \<Rightarrow> addressed_command list" where
  "chunk_next_projection_commands chunks =
     concat (map (\<lambda>g. map (\<lambda>(l, r). (ch_id l, chunk_next_upsert_command (uuid_text (ch_dataset_id l))
           (uuid_text (ch_id l)) (uuid_text (ch_id r))))
         (consecutive_pairs (sort_key (\<lambda>c. (ch_ordinal c, ch_id c)) g)))
       (group_by (\<lambda>c. (ch_dataset_id c, ch_document_id c, ch_generation c)) (filter ch_is_active chunks)))"

text \<open>A dict keeps the position of a key's first insertion and the value of its last.\<close>

definition ordered_projection_commands :: "addressed_command list \<Rightarrow> addressed_command list" where
  "ordered_projection_commands commands =
     map snd (fold (\<lambda>c kvs. dict_put (forget_command_key c) c kvs) commands [])"

definition source_projection_commands :: "persist_state \<Rightarrow> chunk list \<Rightarrow> addressed_command list" where
  "source_projection_commands st active_chunks = ordered_projection_commands
     (ps_entity_commands st @ map (\<lambda>c. (ch_id c, chunk_upsert_of c)) active_chunks @ ps_mention_commands st
      @ ps_relation_commands st @ chunk_next_projection_commands active_chunks)"

subsection \<open>One source\<close>

record persisted_counts =
  pc_chunks :: nat
  pc_entities :: nat
  pc_relations :: nat

text \<open>The document row the writes go to: inserted for a rebuild, read otherwise, refreshed when it was reset.\<close>

definition source_document :: "prepared_source \<Rightarrow> kdb \<Rightarrow> exn + (document \<times> kdb)" where
  "source_document prepared d =
     (let wi = ps_work_item prepared in
      bindE (case wi_document_to_create wi of
               Some x \<Rightarrow> bindE (document_insert x d) (\<lambda>d1. Inr (x, d1))
             | None \<Rightarrow> (case kb_document (wi_document_id wi) d of
                 None \<Rightarrow> Inl snapshot_persistence_error | Some x \<Rightarrow> Inr (x, d))) (\<lambda>(x, d1).
        case ps_refreshed_document prepared of
          None \<Rightarrow> Inr (x, d1)
        | Some p \<Rightarrow>
            (let x' = x\<lparr>doc_title := wi_source_name wi, doc_language := UNDETERMINED_LANGUAGE,
               doc_normalized_text := pt_normalized_text p, doc_text_sha256 := pt_normalized_sha256 p, doc_metadata := []\<rparr>
             in Inr (x', put_document x' d1))))"

definition source_chunks :: "cognify_env \<Rightarrow> prepared_source \<Rightarrow> document \<Rightarrow> kdb \<Rightarrow> exn + (document \<times> kdb)" where
  "source_chunks env prepared x d =
     (if ps_new_chunks prepared = [] then Inr (x, d)
      else case ps_document_tokens prepared of
        None \<Rightarrow> Inl snapshot_persistence_error
      | Some n \<Rightarrow>
        if length (ps_new_chunks prepared) \<noteq> length (ps_embeddings prepared) then Inl Value_Error
        else bindE (chunks_insert (map (\<lambda>(c, v). chunk_model_from_text_chunk env (ps_work_item prepared) c v)
               (zip (ps_new_chunks prepared) (ps_embeddings prepared))) d) (\<lambda>d1.
          let x' = x\<lparr>doc_token_count := n\<rparr> in Inr (x', put_document x' d1)))"

definition source_summary :: "cognify_env \<Rightarrow> prepared_source \<Rightarrow> kdb \<Rightarrow> exn + kdb" where
  "source_summary env prepared d =
     (let wi = ps_work_item prepared in
      case kb_summary (ps_summary_id prepared) d of
        None \<Rightarrow> summary_insert \<lparr>sum_id = ps_summary_id prepared, sum_dataset_id = wi_dataset_id wi,
            sum_generation = wi_generation wi, sum_target_type = Target_DOCUMENT, sum_target_id = Some (wi_document_id wi),
            sum_level = 0, sum_text = ps_summary_text prepared, sum_embedding = ps_summary_embedding prepared,
            sum_is_active = True, sum_created_at = cg_now env\<rparr> d
      | Some s \<Rightarrow> Inr (put_summary (s\<lparr>sum_text := ps_summary_text prepared, sum_embedding := ps_summary_embedding prepared,
            sum_is_active := True\<rparr>) d))"

definition initial_state :: "kdb \<Rightarrow> persist_state" where
  "initial_state d = \<lparr>ps_db = d, ps_entities_created = 0, ps_relations_created = 0, ps_entity_commands = [],
     ps_mention_commands = [], ps_relation_commands = []\<rparr>"

definition persist_source_plan ::
  "cognify_env \<Rightarrow> prepared_batch \<Rightarrow> source_plan \<Rightarrow> kdb \<Rightarrow> exn + (persisted_counts \<times> kdb)" where
  "persist_source_plan env b plan d =
     (let prepared = sp_prepared plan; wi = ps_work_item prepared in
      case kb_source (wi_source_id wi) d of
        None \<Rightarrow> Inl snapshot_persistence_error
      | Some s \<Rightarrow>
        bindE (source_document prepared d) (\<lambda>(x, d1).
        bindE (source_chunks env prepared x d1) (\<lambda>(x, d2).
        bindE (persist_chunks env b (wi_dataset_id wi) (sp_chunk_plans plan) (initial_state d2)) (\<lambda>st.
        bindE (source_summary env prepared (ps_db st)) (\<lambda>d3.
          let d4 = put_document (x\<lparr>doc_metadata := document_summary_metadata env (doc_metadata x) (ps_summary_id prepared)\<rparr>) d3;
              active_chunks = list_chunks_for_source_generation (wi_source_id wi) (wi_generation wi) d4
          in bindE (enqueue_commands (cg_outbox_id env) (cg_now env) (wi_dataset_id wi)
                      (source_projection_commands st active_chunks) (kb_outbox d4)) (\<lambda>(_, rows).
               Inr (\<lparr>pc_chunks = length (ps_new_chunks prepared), pc_entities = ps_entities_created st,
                     pc_relations = ps_relations_created st\<rparr>,
                    put_source (s\<lparr>src_status := Source_ACTIVE\<rparr>) (d4\<lparr>kb_outbox := rows\<rparr>))))))))"

definition set_source_status :: "source_status \<Rightarrow> uuid \<Rightarrow> kdb \<Rightarrow> kdb" where
  "set_source_status st k d = (case kb_source k d of None \<Rightarrow> d | Some s \<Rightarrow> put_source (s\<lparr>src_status := st\<rparr>) d)"

definition mark_source_failed :: "uuid \<Rightarrow> kdb \<Rightarrow> kdb" where
  "mark_source_failed k d = set_source_status Source_FAILED k d"

subsection \<open>The batch\<close>

text \<open>The two classes a savepoint isolates: \<open>SofiasMemoryError\<close> and \<open>SQLAlchemyError\<close>.\<close>

fun isolated :: "exn \<Rightarrow> bool" where
  "isolated (Sofias_Memory_Error _ _) = True"
| "isolated (Integrity_Error _) = True"
| "isolated _ = False"

fun persist_sources ::
  "cognify_env \<Rightarrow> prepared_batch \<Rightarrow> source_plan list \<Rightarrow> persisted_counts \<times> nat \<Rightarrow> kdb \<Rightarrow> exn + ((persisted_counts \<times> nat) \<times> kdb)" where
  "persist_sources env b [] totals d = Inr (totals, d)"
| "persist_sources env b (plan # plans) totals d =
     (case persist_source_plan env b plan d of
        Inl e \<Rightarrow>
          if isolated e
          then persist_sources env b plans totals (mark_source_failed (wi_source_id (ps_work_item (sp_prepared plan))) d)
          else Inl e
      | Inr (p, d1) \<Rightarrow>
          persist_sources env b plans (\<lparr>pc_chunks = pc_chunks (fst totals) + pc_chunks p,
             pc_entities = pc_entities (fst totals) + pc_entities p,
             pc_relations = pc_relations (fst totals) + pc_relations p\<rparr>, Suc (snd totals)) d1)"

definition persist_batch :: "cognify_env \<Rightarrow> prepared_batch \<Rightarrow> kdb \<Rightarrow> exn + (process_outcome \<times> kdb)" where
  "persist_batch env b d =
     bindE (persist_sources env b (cb_sources b) (\<lparr>pc_chunks = 0, pc_entities = 0, pc_relations = 0\<rparr>, 0) d) (\<lambda>((totals, n), d1).
       let d2 = fold (set_source_status Source_ACTIVE) (cb_sources_to_activate b) d1;
           d3 = fold mark_source_failed (cb_failed_source_ids b) d2
       in Inr (\<lparr>co_dataset_id = cb_dataset_id b, co_target_generation = cb_target_generation b, co_rebuild = cb_rebuild b,
                co_sources_processed = n, co_chunks = pc_chunks totals, co_entities = pc_entities totals,
                co_relations = pc_relations totals\<rparr>, d3))"

end
