(* ===== verification/Cognify_Pipeline.thy ===== *)
theory Cognify_Pipeline
  imports Cognify_Persist Forget_Pipeline
begin

text \<open>
  The two steps of \<open>pipelines/steps/cognify.py\<close>: \<open>process_sources\<close>, whose computed batch waits in a
  process-local cache between \<open>execute\<close> and \<open>persist\<close>, and \<open>activate_generation\<close>.  Step outputs are
  records instead of their JSON objects.
\<close>

definition STAGED_BATCH_MAX_AGE_SECONDS :: rat where "STAGED_BATCH_MAX_AGE_SECONDS = 900"

type_synonym staged = "uuid \<rightharpoonup> rat \<times> prepared_batch"

definition cognify_scope_error :: "step_exception + 'a" where
  "cognify_scope_error = Inl (Permanent_Step_Error ''COGNIFY_RUN_SCOPE_INVALID'' ''Cognify run is not scoped to a dataset.'')"

definition cognify_activation_error :: "step_exception + 'a" where
  "cognify_activation_error = Inl (Permanent_Step_Error ''COGNIFY_ACTIVATION_TARGET_MISSING''
     ''Cognify generation activation target no longer exists.'')"

definition cognify_resource_missing :: "step_exception + 'a" where
  "cognify_resource_missing = Inl (Permanent_Step_Error ''COGNIFY_RESOURCE_MISSING''
     ''Cognify processing resources are not configured.'')"

text \<open>\<open>run_input.get("rebuild") is True\<close>.\<close>

definition rebuild_flag :: "json \<Rightarrow> bool" where
  "rebuild_flag inp \<longleftrightarrow> jget inp ''rebuild'' = Some (JBool True)"

definition cognify_run_input :: "pystr \<Rightarrow> uuid list option \<Rightarrow> bool \<Rightarrow> json" where
  "cognify_run_input ds source_ids rebuild = JObj
     [(ascii ''dataset'', JStr ds),
      (ascii ''source_ids'', case source_ids of None \<Rightarrow> JNull | Some ks \<Rightarrow> JArr (map (\<lambda>k. JStr (uuid_text k)) ks)),
      (ascii ''rebuild'', JBool rebuild)]"

text \<open>\<open>UUID(str(value))\<close>: only a string or an integer can spell 32 hex digits.\<close>

fun parse_uuid_value :: "(pystr \<Rightarrow> uuid option) \<Rightarrow> json \<Rightarrow> exn + uuid" where
  "parse_uuid_value parse (JStr s) = (case parse s of None \<Rightarrow> Inl invalid_run_input_error | Some k \<Rightarrow> Inr k)"
| "parse_uuid_value parse (JInt i) = (case parse (dec_int i) of None \<Rightarrow> Inl invalid_run_input_error | Some k \<Rightarrow> Inr k)"
| "parse_uuid_value parse _ = Inl invalid_run_input_error"

definition cognify_source_ids_from_run_input :: "(pystr \<Rightarrow> uuid option) \<Rightarrow> json \<Rightarrow> exn + uuid list option" where
  "cognify_source_ids_from_run_input parse inp =
     (case jget inp ''source_ids'' of
        None \<Rightarrow> Inr None
      | Some JNull \<Rightarrow> Inr None
      | Some (JArr xs) \<Rightarrow> bindE (mapE (parse_uuid_value parse) xs) (\<lambda>ks. Inr (Some ks))
      | Some _ \<Rightarrow> Inl invalid_run_input_error)"

definition classify_cognify_error :: "exn \<Rightarrow> step_exception" where
  "classify_cognify_error e =
     (if e = dependency_unavailable_error
      then Retryable_Step_Error ''COGNIFY_DEPENDENCY_UNAVAILABLE'' ''A Cognify dependency was unavailable.''
      else if is_sofias_error e
      then Permanent_Step_Error ''COGNIFY_REQUEST_REJECTED'' ''Cognify could not process the requested work.''
      else Other_Exception)"

definition evict_abandoned :: "rat \<Rightarrow> staged \<Rightarrow> staged" where
  "evict_abandoned now st = (\<lambda>k. case st k of None \<Rightarrow> None
     | Some (t, b) \<Rightarrow> if t < now - STAGED_BATCH_MAX_AGE_SECONDS then None else Some (t, b))"

definition process_sources_execute ::
  "cognify_env \<Rightarrow> cognify_clients option \<Rightarrow> cognify_reads \<Rightarrow> rat \<Rightarrow> pipeline_context \<Rightarrow> staged \<Rightarrow>
   (step_exception + process_outcome) \<times> staged" where
  "process_sources_execute env service reads now c st =
     (case service of
        None \<Rightarrow> (cognify_resource_missing, st)
      | Some cl \<Rightarrow>
        (case ctx_dataset_id c of
           None \<Rightarrow> (cognify_scope_error, st)
         | Some k \<Rightarrow>
           (case bindE (cognify_source_ids_from_run_input (cg_parse_uuid env) (ctx_run_input c)) (\<lambda>ids.
                   prepare_batch env cl reads k ids (rebuild_flag (ctx_run_input c))) of
              Inl e \<Rightarrow> (Inl (classify_cognify_error e), st)
            | Inr b \<Rightarrow> (Inr (planned_outcome b), (evict_abandoned now st)(ctx_run_id c \<mapsto> (now, b))))))"

definition process_sources_persist ::
  "cognify_env \<Rightarrow> cognify_clients option \<Rightarrow> pipeline_context \<Rightarrow> staged \<Rightarrow> kdb \<Rightarrow>
   (step_exception + (process_outcome \<times> kdb)) \<times> staged" where
  "process_sources_persist env service c st d =
     (let st1 = st(ctx_run_id c := None) in
      case st (ctx_run_id c) of
        None \<Rightarrow> (Inl (Permanent_Step_Error ''COGNIFY_PREPARED_BATCH_MISSING''
                   ''Cognify prepared batch is not available for this run.''), st1)
      | Some (_, b) \<Rightarrow>
        (case service of
           None \<Rightarrow> (cognify_resource_missing, st1)
         | Some _ \<Rightarrow> (lift_exn (persist_batch env b d), st1)))"

definition process_sources_compensate :: "pipeline_context \<Rightarrow> staged \<Rightarrow> staged" where
  "process_sources_compensate c st = st(ctx_run_id c := None)"

subsection \<open>Activation\<close>

definition advanced :: "uuid \<Rightarrow> int \<Rightarrow> entity \<Rightarrow> bool" where
  "advanced ds target e \<longleftrightarrow> ent_dataset_id e = ds \<and> ent_is_active e \<and> ent_generation e < target"

definition advance_active_generation :: "uuid \<Rightarrow> int \<Rightarrow> kdb \<Rightarrow> entity list \<times> kdb" where
  "advance_active_generation ds target d =
     (map (\<lambda>e. e\<lparr>ent_generation := target\<rparr>) (sort_key ent_id (filter (advanced ds target) (kb_entities d))),
      d\<lparr>kb_entities := row_upd (advanced ds target) (\<lambda>e. e\<lparr>ent_generation := target\<rparr>) (kb_entities d)\<rparr>)"

definition cognify_result :: "dataset \<Rightarrow> process_outcome \<Rightarrow> json" where
  "cognify_result ds o1 = JObj
     [(ascii ''dataset_id'', JStr (uuid_text (dataset_id ds))), (ascii ''generation'', JInt (co_target_generation o1)),
      (ascii ''sources_processed'', jnat (co_sources_processed o1)), (ascii ''chunks'', jnat (co_chunks o1)),
      (ascii ''entities'', jnat (co_entities o1)), (ascii ''relations'', jnat (co_relations o1))]"

definition activate_generation ::
  "cognify_env \<Rightarrow> pipeline_context \<Rightarrow> process_outcome \<Rightarrow> kdb \<Rightarrow> step_exception + kdb" where
  "activate_generation env c o1 d =
     (case ctx_dataset_id c of
        None \<Rightarrow> cognify_scope_error
      | Some k \<Rightarrow>
        (case kb_dataset k d of
           None \<Rightarrow> cognify_activation_error
         | Some ds \<Rightarrow>
           bindE (if co_rebuild o1 \<and> dataset_active_generation ds < co_target_generation o1
                  then let (entities, d1) = advance_active_generation (dataset_id ds) (co_target_generation o1) d in
                    lift_exn (bindE (enqueue_commands (cg_outbox_id env) (cg_now env) (dataset_id ds)
                        (map (\<lambda>e. (ent_id e, entity_upsert_of e)) entities) (kb_outbox d1)) (\<lambda>(_, rows).
                      Inr (put_dataset (ds\<lparr>dataset_active_generation := co_target_generation o1\<rparr>) (d1\<lparr>kb_outbox := rows\<rparr>))))
                  else Inr d) (\<lambda>d2.
             case get_run (ctx_run_id c) (kb_runtime d2) of
               None \<Rightarrow> cognify_activation_error
             | Some run \<Rightarrow> Inr (put_kb_run (run\<lparr>run_metrics :=
                 set_member ''cognify_result'' (cognify_result ds o1) (run_metrics run)\<rparr>) d2))))"

text \<open>The two step inputs.\<close>

definition or_null :: "json option \<Rightarrow> json" where
  "or_null v = (case v of None \<Rightarrow> JNull | Some j \<Rightarrow> j)"

definition process_sources_input :: "json \<Rightarrow> (string \<Rightarrow> json option) \<Rightarrow> json option" where
  "process_sources_input inp step_outputs = Some (JObj
     [(ascii ''dataset'', or_null (jget inp ''dataset'')), (ascii ''source_ids'', or_null (jget inp ''source_ids'')),
      (ascii ''rebuild'', or_null (jget inp ''rebuild''))])"

definition activate_generation_input :: "json \<Rightarrow> (string \<Rightarrow> json option) \<Rightarrow> json option" where
  "activate_generation_input inp step_outputs =
     (case step_outputs ''process_sources'' of
        None \<Rightarrow> None
      | Some upstream \<Rightarrow> Some (JObj [(ascii ''target_generation'', or_null (jget upstream ''target_generation'')),
          (ascii ''rebuild'', or_null (jget upstream ''rebuild''))]))"

text \<open>A whole run, uninterrupted: the batch is persisted by the attempt that computed it.\<close>

definition run_cognify ::
  "cognify_env \<Rightarrow> cognify_clients \<Rightarrow> cognify_reads \<Rightarrow> rat \<Rightarrow> pipeline_context \<Rightarrow> kdb \<Rightarrow> step_exception + (process_outcome \<times> kdb)" where
  "run_cognify env cl reads now c d =
     (case process_sources_execute env (Some cl) reads now c (\<lambda>_. None) of
        (Inl e, _) \<Rightarrow> Inl e
      | (Inr _, st) \<Rightarrow>
        (case process_sources_persist env (Some cl) c st d of
           (Inl e, _) \<Rightarrow> Inl e
         | (Inr (o1, d1), _) \<Rightarrow> bindE (activate_generation env c o1 d1) (\<lambda>d2. Inr (o1, d2))))"

end
