(* ===== verification/Cognify_Facts.thy ===== *)
theory Cognify_Facts
  imports Cognify_Pipeline Forget_Properties
begin

text \<open>
  The knowledge graph as cognify writes it.  The tables are read as sets of row cores (the columns no
  write of cognify changes); on them the invariant is that evidence is grounded in mentions, that
  relations and evidence refer to rows, and support is that
  every current relation has authoritative evidence and every current entity a mention or relation.
\<close>

subsection \<open>Row cores\<close>

definition ent_core :: "entity \<Rightarrow> uuid \<times> uuid \<times> int \<times> pystr \<times> bool" where
  "ent_core e = (ent_id e, ent_dataset_id e, ent_generation e, ent_canonical_key e, ent_is_active e)"

definition rel_core :: "relation \<Rightarrow> uuid \<times> uuid \<times> int \<times> uuid \<times> uuid \<times> pystr \<times> bool" where
  "rel_core r = (rel_id r, rel_dataset_id r, rel_generation r, rel_source_entity_id r, rel_target_entity_id r,
     rel_predicate r, rel_is_active r)"

definition ents :: "kdb \<Rightarrow> (uuid \<times> uuid \<times> int \<times> pystr \<times> bool) set" where
  "ents d = ent_core ` set (kb_entities d)"

definition rels :: "kdb \<Rightarrow> (uuid \<times> uuid \<times> int \<times> uuid \<times> uuid \<times> pystr \<times> bool) set" where
  "rels d = rel_core ` set (kb_relations d)"

definition ments :: "kdb \<Rightarrow> (uuid \<times> uuid) set" where
  "ments d = (\<lambda>m. (em_entity_id m, em_chunk_id m)) ` set (kb_mentions d)"

definition evs :: "kdb \<Rightarrow> (uuid \<times> uuid) set" where
  "evs d = (\<lambda>e. (ev_relation_id e, ev_chunk_id e)) ` set (kb_evidence d)"

lemma ents_update [simp]:
  "ents (d\<lparr>kb_relations := rr\<rparr>) = ents d" "ents (d\<lparr>kb_mentions := mm\<rparr>) = ents d" "ents (d\<lparr>kb_evidence := vv\<rparr>) = ents d"
  "ents (d\<lparr>kb_chunks := cc\<rparr>) = ents d" "ents (d\<lparr>kb_documents := xx\<rparr>) = ents d" "ents (d\<lparr>kb_sources := ss\<rparr>) = ents d"
  "ents (d\<lparr>kb_summaries := uu\<rparr>) = ents d" "ents (d\<lparr>kb_outbox := oo\<rparr>) = ents d" "ents (d\<lparr>kb_runtime := tt\<rparr>) = ents d"
  by (simp_all add: ents_def)

lemma rels_update [simp]:
  "rels (d\<lparr>kb_entities := rr\<rparr>) = rels d" "rels (d\<lparr>kb_mentions := mm\<rparr>) = rels d" "rels (d\<lparr>kb_evidence := vv\<rparr>) = rels d"
  "rels (d\<lparr>kb_chunks := cc\<rparr>) = rels d" "rels (d\<lparr>kb_documents := xx\<rparr>) = rels d" "rels (d\<lparr>kb_sources := ss\<rparr>) = rels d"
  "rels (d\<lparr>kb_summaries := uu\<rparr>) = rels d" "rels (d\<lparr>kb_outbox := oo\<rparr>) = rels d" "rels (d\<lparr>kb_runtime := tt\<rparr>) = rels d"
  by (simp_all add: rels_def)

lemma ments_update [simp]:
  "ments (d\<lparr>kb_entities := rr\<rparr>) = ments d" "ments (d\<lparr>kb_relations := mm\<rparr>) = ments d" "ments (d\<lparr>kb_evidence := vv\<rparr>) = ments d"
  "ments (d\<lparr>kb_chunks := cc\<rparr>) = ments d" "ments (d\<lparr>kb_documents := xx\<rparr>) = ments d" "ments (d\<lparr>kb_sources := ss\<rparr>) = ments d"
  "ments (d\<lparr>kb_summaries := uu\<rparr>) = ments d" "ments (d\<lparr>kb_outbox := oo\<rparr>) = ments d" "ments (d\<lparr>kb_runtime := tt\<rparr>) = ments d"
  by (simp_all add: ments_def)

lemma evs_update [simp]:
  "evs (d\<lparr>kb_entities := rr\<rparr>) = evs d" "evs (d\<lparr>kb_relations := mm\<rparr>) = evs d" "evs (d\<lparr>kb_mentions := vv\<rparr>) = evs d"
  "evs (d\<lparr>kb_chunks := cc\<rparr>) = evs d" "evs (d\<lparr>kb_documents := xx\<rparr>) = evs d" "evs (d\<lparr>kb_sources := ss\<rparr>) = evs d"
  "evs (d\<lparr>kb_summaries := uu\<rparr>) = evs d" "evs (d\<lparr>kb_outbox := oo\<rparr>) = evs d" "evs (d\<lparr>kb_runtime := tt\<rparr>) = evs d"
  by (simp_all add: evs_def)

lemma map_core_put:
  assumes "keyed key rows" "x \<in> set rows" "core y = core x" "key y = key x"
  shows "core ` set (row_put key y rows) = core ` set rows"
proof -
  have "core (if key z = key y then y else z) = core z" if "z \<in> set rows" for z
    using that assms row_get_keyed[OF assms(1)] by (metis option.inject)
  then have "(\<lambda>z. core (if key z = key y then y else z)) ` set rows = core ` set rows" by (intro image_cong) auto
  then show ?thesis by (simp only: row_put_def set_map image_image)
qed

subsection \<open>The invariant and support, on cores\<close>

definition well_linked where
  "well_linked E R M V \<longleftrightarrow> (\<forall>i c. (i, c) \<in> V \<longrightarrow> i \<in> fst ` R)
     \<and> (\<forall>i k g s t p a. (i, k, g, s, t, p, a) \<in> R \<longrightarrow> s \<in> fst ` E \<and> t \<in> fst ` E)
     \<and> (\<forall>i c k g s t p a. (i, c) \<in> V \<longrightarrow> (i, k, g, s, t, p, a) \<in> R \<longrightarrow> (s, c) \<in> M \<and> (t, c) \<in> M)"

text \<open>Active canonical keys are unique in a dataset, across generations.\<close>

definition canonical where
  "canonical E \<longleftrightarrow> (\<forall>i k g key. \<forall>j h. (i, k, g, key, True) \<in> E \<longrightarrow> (j, k, h, key, True) \<in> E \<longrightarrow> i = j)"

definition current_entity where
  "current_entity k g E s \<longleftrightarrow> (\<exists>key. (s, k, g, key, True) \<in> E)"

definition supported_graph where
  "supported_graph k g auth E R M V \<longleftrightarrow>
     (\<forall>i s t p. (i, k, g, s, t, p, True) \<in> R \<longrightarrow> current_entity k g E s \<longrightarrow> current_entity k g E t \<longrightarrow> (\<exists>c \<in> auth. (i, c) \<in> V))
     \<and> (\<forall>i. current_entity k g E i \<longrightarrow> (\<exists>c \<in> auth. (i, c) \<in> M)
          \<or> (\<exists>j s t p. (j, k, g, s, t, p, True) \<in> R \<and> current_entity k g E s \<and> current_entity k g E t \<and> (s = i \<or> t = i)))"

lemma grounded_if_linked:
  assumes "well_linked (ents d) (rels d) (ments d) (evs d)"
  shows "evidence_grounded d"
proof -
  have "\<exists>m \<in> set (kb_mentions d). em_chunk_id m = ev_chunk_id ev \<and> em_entity_id m = k"
    if "ev \<in> set (kb_evidence d)" "r \<in> set (kb_relations d)" "rel_id r = ev_relation_id ev"
       "k \<in> {rel_source_entity_id r, rel_target_entity_id r}" for ev r k
  proof -
    have "(ev_relation_id ev, ev_chunk_id ev) \<in> evs d" "rel_core r \<in> rels d" using that by (auto simp: evs_def rels_def)
    then have "(rel_source_entity_id r, ev_chunk_id ev) \<in> ments d \<and> (rel_target_entity_id r, ev_chunk_id ev) \<in> ments d"
      using assms that(3) unfolding well_linked_def rel_core_def by metis
    then have "(k, ev_chunk_id ev) \<in> ments d" using that(4) by blast
    then show ?thesis by (auto simp: ments_def)
  qed
  then show ?thesis by (auto simp: evidence_grounded_def)
qed

lemma some_row_entity:
  assumes "keyed ent_id (kb_entities d)"
  shows "some_row (kb_entity k d) (entity_current ds) \<longleftrightarrow> current_entity (dataset_id ds) (dataset_active_generation ds) (ents d) k"
proof
  assume "some_row (kb_entity k d) (entity_current ds)"
  then obtain e where "kb_entity k d = Some e" "entity_current ds e" by (auto simp: some_row_iff)
  then show "current_entity (dataset_id ds) (dataset_active_generation ds) (ents d) k"
    using kb_SomeD(4)[of k d e] by (force simp: current_entity_def ents_def ent_core_def entity_current_def image_iff)
next
  assume "current_entity (dataset_id ds) (dataset_active_generation ds) (ents d) k"
  then obtain e where e: "e \<in> set (kb_entities d)" "ent_id e = k" "entity_current ds e"
    by (auto simp: current_entity_def ents_def ent_core_def entity_current_def)
  then show "some_row (kb_entity k d) (entity_current ds)"
    using row_get_keyed[OF assms e(1)] by (simp add: some_row_def kb_entity_def)
qed

lemma relation_current_core:
  assumes "keyed ent_id (kb_entities d)"
  shows "relation_current ds d r \<longleftrightarrow> (\<exists>i s t p. rel_core r = (i, dataset_id ds, dataset_active_generation ds, s, t, p, True)
     \<and> current_entity (dataset_id ds) (dataset_active_generation ds) (ents d) s
     \<and> current_entity (dataset_id ds) (dataset_active_generation ds) (ents d) t)"
  by (auto simp: relation_current_def relation_row_current_def rel_core_def some_row_entity[OF assms])

lemma evidenced_core: "evidenced ds d i \<longleftrightarrow> (\<exists>c \<in> {c. authoritative ds d c}. (i, c) \<in> evs d)"
  by (auto simp: evidenced_def evs_def)

lemma mentioned_core: "mentioned ds d i \<longleftrightarrow> (\<exists>c \<in> {c. authoritative ds d c}. (i, c) \<in> ments d)"
  by (auto simp: mentioned_def ments_def)

lemma all_core_iff:
  "(\<forall>x \<in> A. (\<exists>i s t p. x = (i, k, g, s, t, p, True) \<and> P s \<and> P t) \<longrightarrow> Q (fst x))
   \<longleftrightarrow> (\<forall>i s t p. (i, k, g, s, t, p, True) \<in> A \<longrightarrow> P s \<longrightarrow> P t \<longrightarrow> Q i)"
  by fastforce

lemma ex_core_iff:
  "(\<exists>x \<in> A. (\<lambda>x. (\<exists>j s t p. x = (j, k, g, s, t, p, True) \<and> P s \<and> P t)
        \<and> (fst (snd (snd (snd x))) = i \<or> fst (snd (snd (snd (snd x)))) = i)) x)
   \<longleftrightarrow> (\<exists>j s t p. (j, k, g, s, t, p, True) \<in> A \<and> P s \<and> P t \<and> (s = i \<or> t = i))"
  by fastforce

lemma graph_supported_core:
  assumes "keyed ent_id (kb_entities d)"
  shows "graph_supported ds d \<longleftrightarrow> supported_graph (dataset_id ds) (dataset_active_generation ds) {c. authoritative ds d c}
     (ents d) (rels d) (ments d) (evs d)"
proof -
  let ?k = "dataset_id ds" and ?g = "dataset_active_generation ds"
  have ball: "(\<forall>r \<in> set (kb_relations d). P (rel_core r) \<longrightarrow> Q (fst (rel_core r))) \<longleftrightarrow> (\<forall>x \<in> rels d. P x \<longrightarrow> Q (fst x))" for P Q
    unfolding rels_def by blast
  have bex: "(\<exists>r \<in> set (kb_relations d). P (rel_core r)) \<longleftrightarrow> (\<exists>x \<in> rels d. P x)" for P
    unfolding rels_def by blast
  have rid: "rel_id r = fst (rel_core r)" for r by (simp add: rel_core_def)
  have rel: "(\<forall>r \<in> set (kb_relations d). relation_current ds d r \<longrightarrow> evidenced ds d (rel_id r)) \<longleftrightarrow>
    (\<forall>i s t p. (i, ?k, ?g, s, t, p, True) \<in> rels d \<longrightarrow> current_entity ?k ?g (ents d) s \<longrightarrow> current_entity ?k ?g (ents d) t \<longrightarrow>
       (\<exists>c \<in> {c. authoritative ds d c}. (i, c) \<in> evs d))"
  proof -
    have "(\<forall>r \<in> set (kb_relations d). relation_current ds d r \<longrightarrow> evidenced ds d (rel_id r)) \<longleftrightarrow>
      (\<forall>r \<in> set (kb_relations d). (\<lambda>x. \<exists>i s t p. x = (i, ?k, ?g, s, t, p, True) \<and> current_entity ?k ?g (ents d) s
         \<and> current_entity ?k ?g (ents d) t) (rel_core r) \<longrightarrow> (\<lambda>i. \<exists>c \<in> {c. authoritative ds d c}. (i, c) \<in> evs d) (fst (rel_core r)))"
      by (simp only: relation_current_core[OF assms] evidenced_core rid)
    also have "\<dots> \<longleftrightarrow> (\<forall>x \<in> rels d. (\<lambda>x. \<exists>i s t p. x = (i, ?k, ?g, s, t, p, True) \<and> current_entity ?k ?g (ents d) s
         \<and> current_entity ?k ?g (ents d) t) x \<longrightarrow> (\<lambda>i. \<exists>c \<in> {c. authoritative ds d c}. (i, c) \<in> evs d) (fst x))"
      by (rule ball)
    also note all_core_iff[of "rels d" ?k ?g "current_entity ?k ?g (ents d)" "\<lambda>i. \<exists>c \<in> {c. authoritative ds d c}. (i, c) \<in> evs d"]
    finally show ?thesis .
  qed
  have cur: "(\<exists>e \<in> set (kb_entities d). entity_current ds e \<and> ent_id e = i) \<longleftrightarrow> current_entity ?k ?g (ents d) i" for i
    by (auto simp: current_entity_def ents_def ent_core_def entity_current_def image_iff Bex_def)
  have inc: "incident ds d i \<longleftrightarrow> (\<exists>j s t p. (j, ?k, ?g, s, t, p, True) \<in> rels d \<and> current_entity ?k ?g (ents d) s
      \<and> current_entity ?k ?g (ents d) t \<and> (s = i \<or> t = i))" for i
  proof -
    have "incident ds d i \<longleftrightarrow> (\<exists>r \<in> set (kb_relations d). (\<lambda>x. (\<exists>j s t p. x = (j, ?k, ?g, s, t, p, True) \<and> current_entity ?k ?g (ents d) s
        \<and> current_entity ?k ?g (ents d) t) \<and> (fst (snd (snd (snd x))) = i \<or> fst (snd (snd (snd (snd x)))) = i)) (rel_core r))"
      unfolding incident_def relation_current_core[OF assms] by (simp add: rel_core_def)
    also note bex
    also note ex_core_iff[of "rels d" ?k ?g "current_entity ?k ?g (ents d)" i]
    finally show ?thesis .
  qed
  have "(\<forall>e \<in> set (kb_entities d). entity_current ds e \<longrightarrow> mentioned ds d (ent_id e) \<or> incident ds d (ent_id e)) \<longleftrightarrow>
    (\<forall>i. current_entity ?k ?g (ents d) i \<longrightarrow> mentioned ds d i \<or> incident ds d i)"
    using cur by metis
  then show ?thesis unfolding graph_supported_def supported_graph_def rel mentioned_core inc by simp
qed

lemma supported_more_authority:
  "supported_graph k g auth E R M V \<Longrightarrow> auth \<subseteq> auth' \<Longrightarrow> supported_graph k g auth' E R M V"
  unfolding supported_graph_def by (meson subsetD)

text \<open>An entity row that is new and current comes with a mention in an authoritative chunk.\<close>

lemma supported_add_entity:
  assumes "supported_graph k g auth E R M V" "well_linked E R M V"
    "e \<in> E \<or> (fst e \<notin> fst ` E \<and> (fst (snd (snd e)) = g \<longrightarrow> c \<in> auth))"
  shows "supported_graph k g auth (insert e E) R (insert (fst e, c) M) V"
proof -
  have old: "current_entity k g (insert e E) s \<longleftrightarrow> current_entity k g E s" if "s \<in> fst ` E" for s
    using that assms(3) by (cases e) (auto simp: current_entity_def insert_absorb)
  have ends: "s \<in> fst ` E \<and> t \<in> fst ` E" if "(i, k, g, s, t, p, True) \<in> R" for i s t p
    using that assms(2) unfolding well_linked_def by blast
  have new: "current_entity k g E i \<or> (i = fst e \<and> c \<in> auth)" if "current_entity k g (insert e E) i" for i
    using that assms(3) by (auto simp: current_entity_def)
  show ?thesis unfolding supported_graph_def
  proof (intro conjI allI impI)
    fix i s t p
    assume r: "(i, k, g, s, t, p, True) \<in> R" "current_entity k g (insert e E) s" "current_entity k g (insert e E) t"
    then show "\<exists>c \<in> auth. (i, c) \<in> V" using old ends[OF r(1)] assms(1) unfolding supported_graph_def by blast
  next
    fix i assume i: "current_entity k g (insert e E) i"
    show "(\<exists>c' \<in> auth. (i, c') \<in> insert (fst e, c) M) \<or> (\<exists>j s t p. (j, k, g, s, t, p, True) \<in> R \<and> current_entity k g (insert e E) s
        \<and> current_entity k g (insert e E) t \<and> (s = i \<or> t = i))"
    proof (cases "i = fst e \<and> c \<in> auth")
      case True
      then show ?thesis by blast
    next
      case False
      then have "current_entity k g E i" using new[OF i] by blast
      then consider "\<exists>c \<in> auth. (i, c) \<in> M" | "\<exists>j s t p. (j, k, g, s, t, p, True) \<in> R \<and> current_entity k g E s
          \<and> current_entity k g E t \<and> (s = i \<or> t = i)" using assms(1) unfolding supported_graph_def by blast
      then show ?thesis
      proof cases
        case 2
        then show ?thesis using old ends by metis
      qed blast
    qed
  qed
qed

lemma linked_add_entity:
  "well_linked E R M V \<Longrightarrow> well_linked (insert e E) R (insert m M) V"
  unfolding well_linked_def image_insert by blast

text \<open>A relation row that is new comes with evidence, in an authoritative chunk when it is current.\<close>

lemma supported_add_relation:
  assumes "supported_graph k g auth E R M V" "r \<in> R \<or> fst (snd (snd r)) \<noteq> g \<or> c \<in> auth"
  shows "supported_graph k g auth E (insert r R) M (insert (fst r, c) V)"
proof -
  have new: "(i, k, g, s, t, p, True) \<in> R \<or> (i = fst r \<and> c \<in> auth)" if "(i, k, g, s, t, p, True) \<in> insert r R" for i s t p
    using that assms(2) by auto
  show ?thesis unfolding supported_graph_def
  proof (intro conjI allI impI)
    fix i s t p assume "(i, k, g, s, t, p, True) \<in> insert r R" "current_entity k g E s" "current_entity k g E t"
    then show "\<exists>c' \<in> auth. (i, c') \<in> insert (fst r, c) V"
      using new assms(1) unfolding supported_graph_def by blast
  next
    fix i assume "current_entity k g E i"
    then show "(\<exists>c \<in> auth. (i, c) \<in> M) \<or> (\<exists>j s t p. (j, k, g, s, t, p, True) \<in> insert r R \<and> current_entity k g E s
      \<and> current_entity k g E t \<and> (s = i \<or> t = i))"
      using assms(1) unfolding supported_graph_def by blast
  qed
qed

lemma linked_add_relation:
  assumes "well_linked E R M V" "r = (i, k, g, s, t, p, a)" "r \<in> R \<or> i \<notin> fst ` R" "(s, c) \<in> M" "(t, c) \<in> M"
    "s \<in> fst ` E" "t \<in> fst ` E" "\<forall>x \<in> R. fst x = i \<longrightarrow> x = r"
  shows "well_linked E (insert r R) M (insert (i, c) V)"
proof -
  have none: "(i, x) \<notin> V" if "r \<notin> R" for x
    using assms(1,3) that unfolding well_linked_def by blast
  have L: "(\<forall>i c. (i, c) \<in> V \<longrightarrow> i \<in> fst ` R)" "(\<forall>i k g s t p a. (i, k, g, s, t, p, a) \<in> R \<longrightarrow> s \<in> fst ` E \<and> t \<in> fst ` E)"
    "(\<forall>i c k g s t p a. (i, c) \<in> V \<longrightarrow> (i, k, g, s, t, p, a) \<in> R \<longrightarrow> (s, c) \<in> M \<and> (t, c) \<in> M)"
    using assms(1) unfolding well_linked_def by blast+
  have one: "s' = s \<and> t' = t" if "(i, k', g', s', t', p', a') \<in> insert r R" for k' g' s' t' p' a'
  proof -
    have "(i, k', g', s', t', p', a') = r"
    proof (cases "(i, k', g', s', t', p', a') = r")
      case False
      then show ?thesis using that assms(8) by simp
    qed
    then show ?thesis using assms(2) by simp
  qed
  show ?thesis unfolding well_linked_def
  proof (intro conjI allI impI)
    fix j x assume "(j, x) \<in> insert (i, c) V"
    then show "j \<in> fst ` insert r R" using L(1) assms(2) by auto
  next
    fix j k' g' s' t' p' a' assume "(j, k', g', s', t', p', a') \<in> insert r R"
    then show "s' \<in> fst ` E" "t' \<in> fst ` E" using L(2) assms(2,6,7) by blast+
  next
    fix j x k' g' s' t' p' a'
    assume v: "(j, x) \<in> insert (i, c) V" and q: "(j, k', g', s', t', p', a') \<in> insert r R"
    have "(s', x) \<in> M \<and> (t', x) \<in> M"
    proof (cases "(j, x) = (i, c)")
      case True
      then show ?thesis using one q assms(4,5) by auto
    next
      case False
      then have v': "(j, x) \<in> V" using v by blast
      then have "(j, k', g', s', t', p', a') \<in> R" using q none assms(2) by blast
      then show ?thesis using L(3) v' by blast
    qed
    then show "(s', x) \<in> M" "(t', x) \<in> M" by blast+
  qed
qed

end
