(* ===== verification/Cognify_Writes.thy ===== *)
theory Cognify_Writes
  imports Cognify_Facts
begin

text \<open>
  What the write loop of \<open>persist_batch\<close> does to the knowledge graph: each operation adds one core or
  none, and \<open>graph_ok\<close>, the invariant on the four graph tables against a fixed set of authoritative
  chunks, holds across entities, relations, chunks and sources.
\<close>

subsection \<open>Rows that are only rewritten\<close>

lemma put_core:
  assumes "keyed key rows" "x \<in> set rows" "core y = core x" "key y = key x"
  shows "core ` set (row_put key y rows) = insert (core y) (core ` set rows)"
  using map_core_put[of key rows x core y] assms by (metis imageI insert_absorb)

lemma fst_ents [simp]: "fst ` ents d = ent_id ` set (kb_entities d)"
  by (simp add: ents_def image_image ent_core_def)

lemma fst_rels [simp]: "fst ` rels d = rel_id ` set (kb_relations d)"
  by (simp add: rels_def image_image rel_core_def)

definition graph_ok :: "uuid \<Rightarrow> int \<Rightarrow> uuid set \<Rightarrow> kdb \<Rightarrow> bool" where
  "graph_ok k g A d \<longleftrightarrow> keyed ent_id (kb_entities d) \<and> keyed em_id (kb_mentions d) \<and> keyed rel_id (kb_relations d)
     \<and> distinct (map (\<lambda>e. (ev_relation_id e, ev_chunk_id e)) (kb_evidence d))
     \<and> well_linked (ents d) (rels d) (ments d) (evs d) \<and> canonical (ents d)
     \<and> supported_graph k g A (ents d) (rels d) (ments d) (evs d)"

text \<open>The part of the tables the graph writes of one chunk leave alone.\<close>

definition same_base :: "kdb \<Rightarrow> kdb \<Rightarrow> bool" where
  "same_base d d' \<longleftrightarrow> kb_runtime d' = kb_runtime d \<and> kb_sources d' = kb_sources d \<and> kb_documents d' = kb_documents d
     \<and> kb_summaries d' = kb_summaries d \<and> kb_outbox d' = kb_outbox d \<and> kb_chunks d' = kb_chunks d
     \<and> ents d \<subseteq> ents d' \<and> rels d \<subseteq> rels d' \<and> ments d \<subseteq> ments d' \<and> evs d \<subseteq> evs d'"

lemma same_base_trans: "same_base d d1 \<Longrightarrow> same_base d1 d2 \<Longrightarrow> same_base d d2"
  unfolding same_base_def by (metis subset_trans)

text \<open>All plans of a batch are made for one generation.\<close>

definition plans_at :: "prepared_batch \<Rightarrow> int \<Rightarrow> bool" where
  "plans_at b target \<longleftrightarrow> (\<forall>q p. cb_entity_plans b q = Some p \<longrightarrow> pe_generation p = target)
     \<and> (\<forall>q p. cb_relation_plans b q = Some p \<longrightarrow> pr_generation p = target)"

lemma find_row: "List.find P xs = Some x \<Longrightarrow> x \<in> set xs \<and> P x"
  by (rule find_set)

subsection \<open>Entities\<close>

lemma entity_insert_eq:
  assumes "entity_insert e d = Inr d'"
  shows "d' = d\<lparr>kb_entities := kb_entities d @ [e]\<rparr>" "ent_id e \<notin> ent_id ` set (kb_entities d)"
  using assms by (auto simp: entity_insert_def split: if_splits)

lemma apply_entity_plan_eq:
  assumes "apply_entity_plan env p d = Inr (e, b, d')" "keyed ent_id (kb_entities d)"
  obtains rows where "d' = d\<lparr>kb_entities := rows\<rparr>" "keyed ent_id rows" "ent_core ` set rows = insert (ent_core e) (ents d)"
    "ent_core e \<in> ents d \<or> (ent_id e \<notin> ent_id ` set (kb_entities d) \<and> ent_generation e = pe_generation p
       \<and> (\<forall>j h. (j, ent_dataset_id e, h, ent_canonical_key e, True) \<notin> ents d))"
proof (cases "get_active_by_canonical_key (pe_dataset_id p) (pe_canonical_key p) d")
  case None
  then obtain i: "entity_insert e d = Inr d'" "ent_generation e = pe_generation p" "ent_dataset_id e = pe_dataset_id p"
      "ent_canonical_key e = pe_canonical_key p"
    using assms(1) by (auto simp: apply_entity_plan_def Let_def bindE_eq_Inr_iff)
  have none: "\<forall>j h. (j, ent_dataset_id e, h, ent_canonical_key e, True) \<notin> ents d"
    using None i(3,4) by (auto simp: get_active_by_canonical_key_def find_None_iff ents_def ent_core_def)
  show thesis using assms(2) entity_insert_eq[OF i(1)] none i(2)
    by (intro that[of "kb_entities d @ [e]"]) (auto simp: ents_def keyed_def)
next
  case (Some x)
  then have x: "x \<in> set (kb_entities d)" by (auto simp: get_active_by_canonical_key_def dest: find_row)
  have e: "ent_core e = ent_core x" "ent_id e = ent_id x" "d' = put_entity e d"
    using assms(1) Some by (auto simp: apply_entity_plan_def Let_def ent_core_def split: if_splits)
  have "ent_core ` set (row_put ent_id e (kb_entities d)) = insert (ent_core e) (ents d)"
    unfolding ents_def by (rule put_core[OF assms(2) x e(1,2)])
  then show thesis using e x assms(2) by (intro that[of "row_put ent_id e (kb_entities d)"]) (auto simp: put_entity_def ents_def)
qed

lemma mention_insert_eq:
  assumes "mention_insert m d = Inr d'"
  shows "d' = d\<lparr>kb_mentions := kb_mentions d @ [m]\<rparr>" "em_id m \<notin> em_id ` set (kb_mentions d)"
  using assms by (auto simp: mention_insert_def split: if_splits)

lemma mention_exists_iff: "mention_exists e c d \<longleftrightarrow> (e, c) \<in> ments d"
  by (auto simp: mention_exists_def ments_def list_ex_iff)

lemma mention_core [simp]:
  "em_entity_id (entity_mention_from_extraction env x e c) = e" "em_chunk_id (entity_mention_from_extraction env x e c) = ch_id c"
  by (simp_all add: entity_mention_from_extraction_def Let_def)

lemma persist_entity_ok:
  assumes "persist_entity env b ds c key x st = Inr (e, st')" "graph_ok k g A (ps_db st)"
    "plans_at b target" "target = g \<longrightarrow> ch_id c \<in> A"
  shows "graph_ok k g A (ps_db st')" "same_base (ps_db st) (ps_db st')" "(e, ch_id c) \<in> ments (ps_db st')"
    "e \<in> ent_id ` set (kb_entities (ps_db st'))"
proof -
  let ?d = "ps_db st" and ?d' = "ps_db st'"
  have K: "keyed ent_id (kb_entities ?d)" "keyed em_id (kb_mentions ?d)" using assms(2) by (auto simp: graph_ok_def)
  obtain p where p1: "cb_entity_plans b key = Some p" using assms(1) by (auto simp: persist_entity_def split: option.splits)
  obtain row cr d1 where p2: "apply_entity_plan env p ?d = Inr (row, cr, d1)"
    using assms(1) p1 by (auto simp: persist_entity_def bindE_eq_Inr_iff)
  have p: "ent_id row = e" "if mention_exists e (ch_id c) d1 then ?d' = d1
     else mention_insert (entity_mention_from_extraction env x e c) d1 = Inr ?d'"
    using assms(1) p1 p2 by (auto simp: persist_entity_def Let_def bindE_eq_Inr_iff split: if_splits)
  obtain rows where r: "d1 = ?d\<lparr>kb_entities := rows\<rparr>" "keyed ent_id rows" "ent_core ` set rows = insert (ent_core row) (ents ?d)"
    "ent_core row \<in> ents ?d \<or> (ent_id row \<notin> ent_id ` set (kb_entities ?d) \<and> ent_generation row = pe_generation p
       \<and> (\<forall>j h. (j, ent_dataset_id row, h, ent_canonical_key row, True) \<notin> ents ?d))"
    using apply_entity_plan_eq[OF p2 K(1)] by blast
  have E1: "ents d1 = insert (ent_core row) (ents ?d)" using r(1,3) by (simp add: ents_def)
  obtain ms where d': "?d' = d1\<lparr>kb_mentions := ms\<rparr>" "keyed em_id ms"
    "(\<lambda>m. (em_entity_id m, em_chunk_id m)) ` set ms = insert (e, ch_id c) (ments ?d)"
  proof (cases "mention_exists e (ch_id c) d1")
    case True
    then have "(e, ch_id c) \<in> ments ?d" using r(1) by (simp add: mention_exists_iff)
    then show ?thesis using p(2) True K(2) r(1) by (intro that[of "kb_mentions ?d"]) (auto simp: ments_def)
  next
    case False
    then have ins: "mention_insert (entity_mention_from_extraction env x e c) d1 = Inr ?d'" using p(2) False by simp
    show ?thesis using mention_insert_eq[OF ins] K(2) r(1)
      by (intro that[of "kb_mentions ?d @ [entity_mention_from_extraction env x e c]"]) (auto simp: ments_def keyed_def)
  qed
  have E: "ents ?d' = insert (ent_core row) (ents ?d)" "rels ?d' = rels ?d" "evs ?d' = evs ?d"
    "ments ?d' = insert (e, ch_id c) (ments ?d)"
    using E1 d'(1,3) r(1) by (simp_all add: ments_def)
  have idr: "fst (ent_core row) = e" "fst (snd (snd (ent_core row))) = ent_generation row" using p(1) by (simp_all add: ent_core_def)
  have fresh: "ent_core row \<in> ents ?d \<or> (fst (ent_core row) \<notin> fst ` ents ?d
      \<and> (fst (snd (snd (ent_core row))) = g \<longrightarrow> ch_id c \<in> A))"
    using r(4) idr assms(3,4) p1 p(1) by (auto simp: plans_at_def)
  have G: "supported_graph k g A (ents ?d) (rels ?d) (ments ?d) (evs ?d)" "well_linked (ents ?d) (rels ?d) (ments ?d) (evs ?d)"
    using assms(2) by (simp_all add: graph_ok_def)
  have "supported_graph k g A (ents ?d') (rels ?d') (ments ?d') (evs ?d')"
    using supported_add_entity[OF G fresh] E idr by simp
  moreover have "well_linked (ents ?d') (rels ?d') (ments ?d') (evs ?d')"
    unfolding E by (rule linked_add_entity[OF G(2)])
  moreover have "canonical (ents ?d')"
  proof (cases "ent_core row \<in> ents ?d")
    case True
    then show ?thesis using assms(2) E(1) by (simp add: graph_ok_def insert_absorb)
  next
    case False
    then show ?thesis using assms(2) r(4) unfolding E(1) graph_ok_def canonical_def ent_core_def by blast
  qed
  ultimately show "graph_ok k g A ?d'" using assms(2) r(1,2) d'(1,2) by (simp add: graph_ok_def)
  show "same_base ?d ?d'" using E d'(1) r(1) by (auto simp: same_base_def)
  show "(e, ch_id c) \<in> ments ?d'" using E by simp
  have "e \<in> fst ` ents ?d'" using E(1) idr by (metis image_insert insertI1)
  then show "e \<in> ent_id ` set (kb_entities ?d')" by simp
qed


definition mentioned_ids :: "(pystr \<rightharpoonup> uuid) \<Rightarrow> uuid \<Rightarrow> kdb \<Rightarrow> bool" where
  "mentioned_ids ids c d \<longleftrightarrow> (\<forall>q e. ids q = Some e \<longrightarrow> (e, c) \<in> ments d \<and> e \<in> ent_id ` set (kb_entities d))"

lemma mentioned_ids_base: "mentioned_ids ids c d \<Longrightarrow> same_base d d' \<Longrightarrow> mentioned_ids ids c d'"
  unfolding mentioned_ids_def same_base_def fst_ents[symmetric] by blast

lemma same_base_refl [simp]: "same_base d d"
  by (simp add: same_base_def)

lemma persist_entities_ok:
  assumes "persist_entities env b ds c xs ids st = Inr (ids', st')" "graph_ok k g A (ps_db st)"
    "plans_at b target" "target = g \<longrightarrow> ch_id c \<in> A" "mentioned_ids ids (ch_id c) (ps_db st)"
  shows "graph_ok k g A (ps_db st') \<and> same_base (ps_db st) (ps_db st') \<and> mentioned_ids ids' (ch_id c) (ps_db st')"
  using assms(1,2,5)
proof (induction xs arbitrary: ids st)
  case (Cons y xs)
  obtain q x where y: "y = (q, x)" by (cases y)
  obtain e st1 where e: "persist_entity env b ds c q x st = Inr (e, st1)"
    and rest: "persist_entities env b ds c xs (ids(q \<mapsto> e)) st1 = Inr (ids', st')"
    using Cons.prems(1) y by (auto simp: bindE_eq_Inr_iff)
  note step = persist_entity_ok[OF e Cons.prems(2) assms(3,4)]
  have "mentioned_ids (ids(q \<mapsto> e)) (ch_id c) (ps_db st1)"
    using mentioned_ids_base[OF Cons.prems(3) step(2)] step(3,4) by (simp add: mentioned_ids_def)
  then show ?case using Cons.IH[OF rest step(1)] same_base_trans[OF step(2)] by blast
qed simp

subsection \<open>Relations\<close>

lemma relation_insert_eq:
  assumes "relation_insert r d = Inr d'"
  shows "d' = d\<lparr>kb_relations := kb_relations d @ [r]\<rparr>" "rel_id r \<notin> rel_id ` set (kb_relations d)"
  using assms by (auto simp: relation_insert_def split: if_splits)

lemma evidence_insert_eq:
  assumes "evidence_insert x d = Inr d'"
  shows "d' = d\<lparr>kb_evidence := kb_evidence d @ [x]\<rparr>" "(ev_relation_id x, ev_chunk_id x) \<notin> evs d"
  using assms by (auto simp: evidence_insert_def evs_def list_ex_iff split: if_splits)

lemma evidence_exists_iff: "evidence_exists r c d \<longleftrightarrow> (r, c) \<in> evs d"
  by (auto simp: evidence_exists_def evs_def list_ex_iff)

lemma apply_relation_plan_eq:
  assumes "apply_relation_plan env p s t d = Inr (r, b, d')" "keyed rel_id (kb_relations d)"
  obtains rows where "d' = d\<lparr>kb_relations := rows\<rparr>" "keyed rel_id rows" "rel_core ` set rows = insert (rel_core r) (rels d)"
    "rel_core r \<in> rels d \<or> (rel_id r \<notin> rel_id ` set (kb_relations d) \<and> rel_generation r = pr_generation p)"
    "rel_source_entity_id r = s" "rel_target_entity_id r = t"
proof (cases "get_active_by_identity s t (pr_predicate p) (pr_generation p) d")
  case None
  then obtain "relation_insert r d = Inr d'" "rel_generation r = pr_generation p" "rel_source_entity_id r = s" "rel_target_entity_id r = t"
    using assms(1) by (auto simp: apply_relation_plan_def Let_def bindE_eq_Inr_iff)
  then show thesis using assms(2) relation_insert_eq[of r d d']
    by (intro that[of "kb_relations d @ [r]"]) (auto simp: rels_def keyed_def)
next
  case (Some x)
  then have x: "x \<in> set (kb_relations d)" "rel_source_entity_id x = s" "rel_target_entity_id x = t"
    by (auto simp: get_active_by_identity_def dest: find_row)
  have e: "rel_core r = rel_core x" "rel_id r = rel_id x" "d' = put_relation r d"
    using assms(1) Some by (auto simp: apply_relation_plan_def Let_def rel_core_def split: if_splits)
  have "rel_core ` set (row_put rel_id r (kb_relations d)) = insert (rel_core r) (rels d)"
    unfolding rels_def by (rule put_core[OF assms(2) x(1) e(1,2)])
  then show thesis using e x assms(2)
    by (intro that[of "row_put rel_id r (kb_relations d)"]) (auto simp: put_relation_def rels_def rel_core_def)
qed

lemma persist_relation_ok:
  assumes "persist_relation env b c ids identity x st = Inr st'" "graph_ok k g A (ps_db st)"
    "plans_at b target" "target = g \<longrightarrow> ch_id c \<in> A" "mentioned_ids ids (ch_id c) (ps_db st)"
  shows "graph_ok k g A (ps_db st')" "same_base (ps_db st) (ps_db st')"
proof -
  let ?d = "ps_db st" and ?d' = "ps_db st'"
  have K: "keyed rel_id (kb_relations ?d)" "distinct (map (\<lambda>e. (ev_relation_id e, ev_chunk_id e)) (kb_evidence ?d))"
    using assms(2) by (auto simp: graph_ok_def)
  obtain p s t where p: "cb_relation_plans b identity = Some p" "ids (pr_source_key p) = Some s" "ids (pr_target_key p) = Some t"
    using assms(1) by (auto simp: persist_relation_def split: option.splits)
  obtain row cr d1 where a: "apply_relation_plan env p s t ?d = Inr (row, cr, d1)"
    using assms(1) p by (auto simp: persist_relation_def bindE_eq_Inr_iff)
  have rest: "if evidence_exists (rel_id row) (ch_id c) d1 then ?d' = d1
     else evidence_insert \<lparr>ev_relation_id = rel_id row, ev_chunk_id = ch_id c, ev_quote = xr_evidence x,
            ev_confidence = xr_confidence x\<rparr> d1 = Inr ?d'"
    using assms(1) p a by (auto simp: persist_relation_def Let_def bindE_eq_Inr_iff split: if_splits)
  obtain rows where r: "d1 = ?d\<lparr>kb_relations := rows\<rparr>" "keyed rel_id rows" "rel_core ` set rows = insert (rel_core row) (rels ?d)"
    "rel_core row \<in> rels ?d \<or> (rel_id row \<notin> rel_id ` set (kb_relations ?d) \<and> rel_generation row = pr_generation p)"
    "rel_source_entity_id row = s" "rel_target_entity_id row = t"
    using apply_relation_plan_eq[OF a K(1)] by blast
  obtain vs where d': "?d' = d1\<lparr>kb_evidence := vs\<rparr>" "distinct (map (\<lambda>e. (ev_relation_id e, ev_chunk_id e)) vs)"
    "(\<lambda>e. (ev_relation_id e, ev_chunk_id e)) ` set vs = insert (rel_id row, ch_id c) (evs ?d)"
  proof (cases "evidence_exists (rel_id row) (ch_id c) d1")
    case True
    then have "(rel_id row, ch_id c) \<in> evs ?d" using r(1) by (simp add: evidence_exists_iff)
    then show ?thesis using rest True K(2) r(1) by (intro that[of "kb_evidence ?d"]) (auto simp: evs_def)
  next
    case False
    note ins = evidence_insert_eq[OF rest[unfolded if_not_P[OF False]]]
    show ?thesis using ins K(2) r(1) by (intro that[OF ins(1)]) (auto simp: evs_def)
  qed
  have R1: "rels d1 = insert (rel_core row) (rels ?d)" using r(1,3) by (simp add: rels_def)
  have E: "ents ?d' = ents ?d" "rels ?d' = insert (rel_core row) (rels ?d)" "ments ?d' = ments ?d"
    "evs ?d' = insert (rel_id row, ch_id c) (evs ?d)"
    using R1 d'(1,3) r(1) by (simp_all add: evs_def)
  have G: "supported_graph k g A (ents ?d) (rels ?d) (ments ?d) (evs ?d)" "well_linked (ents ?d) (rels ?d) (ments ?d) (evs ?d)"
    using assms(2) by (simp_all add: graph_ok_def)
  have core: "rel_core row = (rel_id row, rel_dataset_id row, rel_generation row, s, t, rel_predicate row, rel_is_active row)"
    using r(5,6) by (simp add: rel_core_def)
  have new: "rel_core row \<in> rels ?d \<or> fst (snd (snd (rel_core row))) \<noteq> g \<or> ch_id c \<in> A"
  proof -
    have "pr_generation p = target" using assms(3) p(1) unfolding plans_at_def by blast
    then show ?thesis using r(4) assms(4) core by auto
  qed
  have ends: "(s, ch_id c) \<in> ments ?d" "(t, ch_id c) \<in> ments ?d" "s \<in> fst ` ents ?d" "t \<in> fst ` ents ?d"
    using assms(5) p(2,3) unfolding mentioned_ids_def fst_ents by blast+
  have "\<forall>y \<in> insert (rel_core row) (rels ?d). fst y = rel_id row \<longrightarrow> y = rel_core row"
  proof -
    have "y = rel_core row" if y: "y \<in> rel_core ` set rows" "fst y = rel_id row" for y
    proof -
      obtain z where z: "z \<in> set rows" "y = rel_core z" using y(1) by blast
      obtain w where w: "w \<in> set rows" "rel_core row = rel_core w" using r(3) by blast
      have "rel_id z = rel_id w" using z(2) w(2) y(2) by (simp add: rel_core_def)
      then have "z = w" using r(2) z(1) w(1) by (auto simp: keyed_def distinct_map dest: inj_onD)
      then show ?thesis using z w by simp
    qed
    then show ?thesis using r(3) by metis
  qed
  then have one: "\<forall>y \<in> rels ?d. fst y = rel_id row \<longrightarrow> y = rel_core row" by blast
  have fresh: "rel_core row \<in> rels ?d \<or> rel_id row \<notin> fst ` rels ?d" using r(4) by auto
  have "well_linked (ents ?d') (rels ?d') (ments ?d') (evs ?d')"
    unfolding E by (rule linked_add_relation[OF G(2) core fresh ends one])
  moreover have "supported_graph k g A (ents ?d') (rels ?d') (ments ?d') (evs ?d')"
    using supported_add_relation[OF G(1) new] unfolding E by (simp add: rel_core_def)
  ultimately show "graph_ok k g A ?d'" using assms(2) r(1,2) d'(1,2) by (simp add: graph_ok_def)
  show "same_base ?d ?d'" using E d'(1) r(1) by (auto simp: same_base_def)
qed

lemma persist_relations_ok:
  assumes "persist_relations env b c ids xs st = Inr st'" "graph_ok k g A (ps_db st)"
    "plans_at b target" "target = g \<longrightarrow> ch_id c \<in> A" "mentioned_ids ids (ch_id c) (ps_db st)"
  shows "graph_ok k g A (ps_db st') \<and> same_base (ps_db st) (ps_db st')"
  using assms(1,2,5)
proof (induction xs arbitrary: st)
  case (Cons y xs)
  obtain q x where y: "y = (q, x)" by (cases y)
  obtain st1 where e: "persist_relation env b c ids q x st = Inr st1" and rest: "persist_relations env b c ids xs st1 = Inr st'"
    using Cons.prems(1) y by (auto simp: bindE_eq_Inr_iff)
  note step = persist_relation_ok[OF e Cons.prems(2) assms(3,4) Cons.prems(3)]
  show ?case using Cons.IH[OF rest step(1) mentioned_ids_base[OF Cons.prems(3) step(2)]] same_base_trans[OF step(2)] by blast
qed simp


subsection \<open>Chunks\<close>

text \<open>The columns of sources, documents and chunks that decide where a chunk belongs.\<close>

definition doc_core :: "document \<Rightarrow> uuid \<times> uuid \<times> uuid \<times> int \<times> bool" where
  "doc_core x = (doc_id x, doc_dataset_id x, doc_source_id x, doc_generation x, doc_is_active x)"

definition ch_core :: "chunk \<Rightarrow> uuid \<times> uuid \<times> uuid \<times> uuid \<times> int \<times> bool" where
  "ch_core c = (ch_id c, ch_dataset_id c, ch_document_id c, ch_source_id c, ch_generation c, ch_is_active c)"

definition docs :: "kdb \<Rightarrow> (uuid \<times> uuid \<times> uuid \<times> int \<times> bool) set" where
  "docs d = doc_core ` set (kb_documents d)"

definition chs :: "kdb \<Rightarrow> (uuid \<times> uuid \<times> uuid \<times> uuid \<times> int \<times> bool) set" where
  "chs d = ch_core ` set (kb_chunks d)"

text \<open>What stays in place while the chunks of a source are written.\<close>

definition same_place :: "kdb \<Rightarrow> kdb \<Rightarrow> bool" where
  "same_place d d' \<longleftrightarrow> kb_runtime d' = kb_runtime d \<and> kb_sources d' = kb_sources d \<and> kb_documents d' = kb_documents d
     \<and> kb_summaries d' = kb_summaries d \<and> kb_outbox d' = kb_outbox d \<and> chs d' = chs d
     \<and> ents d \<subseteq> ents d' \<and> rels d \<subseteq> rels d' \<and> ments d \<subseteq> ments d' \<and> evs d \<subseteq> evs d'
     \<and> keyed ch_id (kb_chunks d') = keyed ch_id (kb_chunks d)"

lemma same_place_trans: "same_place d d1 \<Longrightarrow> same_place d1 d2 \<Longrightarrow> same_place d d2"
  unfolding same_place_def by (metis subset_trans)

lemma same_base_place: "same_base d d' \<Longrightarrow> same_place d d'"
  by (simp add: same_base_def same_place_def chs_def)

lemma put_chunk_place:
  assumes "keyed ch_id (kb_chunks d)" "x \<in> set (kb_chunks d)" "ch_core c = ch_core x"
  shows "same_place d (put_chunk c d)"
proof -
  have i: "ch_id c = ch_id x" using assms(3) by (simp add: ch_core_def)
  have "chs (put_chunk c d) = insert (ch_core c) (chs d)"
    using put_core[OF assms(1,2,3) i] by (simp add: chs_def put_chunk_def)
  then have "chs (put_chunk c d) = chs d" using assms(2,3) by (auto simp: chs_def)
  then show ?thesis by (simp add: same_place_def put_chunk_def)
qed

lemma graph_ok_put [simp]:
  "graph_ok k g A (put_chunk c d) = graph_ok k g A d" "graph_ok k g A (put_document x d) = graph_ok k g A d"
  "graph_ok k g A (put_summary u d) = graph_ok k g A d" "graph_ok k g A (put_source s d) = graph_ok k g A d"
  "graph_ok k g A (d\<lparr>kb_outbox := rows\<rparr>) = graph_ok k g A d" "graph_ok k g A (d\<lparr>kb_documents := xs\<rparr>) = graph_ok k g A d"
  "graph_ok k g A (d\<lparr>kb_chunks := cs\<rparr>) = graph_ok k g A d" "graph_ok k g A (d\<lparr>kb_summaries := us\<rparr>) = graph_ok k g A d"
  by (simp_all add: graph_ok_def put_chunk_def put_document_def put_summary_def put_source_def)

lemma persist_chunk_ok:
  assumes "persist_chunk env b ds p st = Inr st'" "graph_ok k g A (ps_db st)" "keyed ch_id (kb_chunks (ps_db st))"
    "plans_at b target" "target = g \<longrightarrow> cp_chunk_id p \<in> A"
  shows "graph_ok k g A (ps_db st')" "same_place (ps_db st) (ps_db st')"
proof -
  obtain c where c: "kb_chunk (cp_chunk_id p) (ps_db st) = Some c" using assms(1) by (auto simp: persist_chunk_def split: option.splits)
  obtain ids st1 st2 where e: "persist_entities env b ds c (cp_entities p) (\<lambda>_. None) st = Inr (ids, st1)"
    and r: "persist_relations env b c ids (cp_relations p) st1 = Inr st2"
    and d': "ps_db st' = put_chunk (c\<lparr>ch_metadata := knowledge_extraction_metadata env (ch_metadata c) (cp_summary p)\<rparr>) (ps_db st2)"
    using assms(1) c by (auto simp: persist_chunk_def bindE_eq_Inr_iff)
  have mem: "c \<in> set (kb_chunks (ps_db st))" "ch_id c = cp_chunk_id p" using kb_SomeD(3)[OF c] by auto
  have a: "target = g \<longrightarrow> ch_id c \<in> A" using assms(5) mem(2) by simp
  have none: "mentioned_ids (\<lambda>_. None) (ch_id c) (ps_db st)" by (simp add: mentioned_ids_def)
  note E = persist_entities_ok[OF e assms(2,4) a none]
  note R = persist_relations_ok[OF r conjunct1[OF E] assms(4) a conjunct2[OF conjunct2[OF E]]]
  have sb: "same_base (ps_db st) (ps_db st2)" using E R same_base_trans by blast
  then have cs: "kb_chunks (ps_db st2) = kb_chunks (ps_db st)" by (simp add: same_base_def)
  show "graph_ok k g A (ps_db st')" using R d' by simp
  have "same_place (ps_db st2) (ps_db st')"
    unfolding d' by (rule put_chunk_place[of _ c]) (use mem cs assms(3) in \<open>simp_all add: ch_core_def\<close>)
  then show "same_place (ps_db st) (ps_db st')" using same_base_place[OF sb] same_place_trans by blast
qed

lemma persist_chunks_ok:
  assumes "persist_chunks env b ds ps st = Inr st'" "graph_ok k g A (ps_db st)" "keyed ch_id (kb_chunks (ps_db st))"
    "plans_at b target" "target = g \<longrightarrow> cp_chunk_id ` set ps \<subseteq> A"
  shows "graph_ok k g A (ps_db st') \<and> same_place (ps_db st) (ps_db st')"
  using assms(1,2,3,5)
proof (induction ps arbitrary: st)
  case (Cons p ps)
  obtain st1 where e: "persist_chunk env b ds p st = Inr st1" and rest: "persist_chunks env b ds ps st1 = Inr st'"
    using Cons.prems(1) by (auto simp: bindE_eq_Inr_iff)
  have a: "target = g \<longrightarrow> cp_chunk_id p \<in> A" "target = g \<longrightarrow> cp_chunk_id ` set ps \<subseteq> A" using Cons.prems(4) by auto
  note step = persist_chunk_ok[OF e Cons.prems(2,3) assms(4) a(1)]
  have K: "keyed ch_id (kb_chunks (ps_db st1))" using step(2) Cons.prems(3) by (simp add: same_place_def)
  show ?case using Cons.IH[OF rest step(1) K a(2)] same_place_trans[OF step(2)] by blast
qed (simp add: same_place_def)

end
