(* ===== verification/Cognify_Sources.thy ===== *)
theory Cognify_Sources
  imports Cognify_Writes
begin

text \<open>
  One source of a batch: where its document and chunks end up, and that persisting it keeps the tables
  consistent and the graph of the dataset supported, in the current generation and in the target of a
  rebuild alike.
\<close>

subsection \<open>Placement and authority\<close>

definition srcs :: "kdb \<Rightarrow> (uuid \<times> uuid) set" where
  "srcs d = (\<lambda>s. (src_id s, src_dataset_id s)) ` set (kb_sources d)"

definition active_srcs :: "kdb \<Rightarrow> (uuid \<times> uuid) set" where
  "active_srcs d = (\<lambda>s. (src_id s, src_dataset_id s)) ` {s \<in> set (kb_sources d). src_status s = Source_ACTIVE}"

definition placed :: "kdb \<Rightarrow> bool" where
  "placed d \<longleftrightarrow> (\<forall>k ds x s g a. (k, ds, x, s, g, a) \<in> chs d \<longrightarrow> (\<exists>b. (x, ds, s, g, b) \<in> docs d \<and> (a \<longrightarrow> b)))
     \<and> (\<forall>x ds s g a. (x, ds, s, g, a) \<in> docs d \<longrightarrow> (s, ds) \<in> srcs d)"

definition tables_ok :: "kdb \<Rightarrow> bool" where
  "tables_ok d \<longleftrightarrow> kdb_keyed d \<and> well_linked (ents d) (rels d) (ments d) (evs d) \<and> canonical (ents d) \<and> placed d"

definition authority :: "dataset \<Rightarrow> (uuid \<times> uuid \<times> uuid \<times> uuid \<times> int \<times> bool) set \<Rightarrow> (uuid \<times> uuid \<times> uuid \<times> int \<times> bool) set
    \<Rightarrow> (uuid \<times> uuid) set \<Rightarrow> uuid set" where
  "authority ds C X S = {k. dataset_status ds = Dataset_ACTIVE \<and> (\<exists>x s z. (k, dataset_id ds, x, s, dataset_active_generation ds, True) \<in> C
     \<and> (x, dataset_id ds, z, dataset_active_generation ds, True) \<in> X \<and> (s, dataset_id ds) \<in> S)}"

lemma authority_mono: "C \<subseteq> C' \<Longrightarrow> X \<subseteq> X' \<Longrightarrow> S \<subseteq> S' \<Longrightarrow> authority ds C X S \<subseteq> authority ds C' X' S'"
  unfolding authority_def by blast

lemma document_authoritative_core:
  assumes "keyed doc_id (kb_documents d)"
  shows "document_authoritative ds d x \<longleftrightarrow> (\<exists>z. (x, dataset_id ds, z, dataset_active_generation ds, True) \<in> docs d)"
proof
  assume "document_authoritative ds d x"
  then obtain y where y: "kb_document x d = Some y" "doc_dataset_id y = dataset_id ds" "doc_generation y = dataset_active_generation ds"
    "doc_is_active y" by (auto simp: document_authoritative_def some_row_iff)
  then have "doc_core y \<in> docs d" "doc_id y = x" using kb_SomeD(2)[OF y(1)] by (auto simp: docs_def)
  then show "\<exists>z. (x, dataset_id ds, z, dataset_active_generation ds, True) \<in> docs d" using y by (auto simp: doc_core_def)
next
  assume "\<exists>z. (x, dataset_id ds, z, dataset_active_generation ds, True) \<in> docs d"
  then obtain y where y: "y \<in> set (kb_documents d)" "doc_id y = x" "doc_dataset_id y = dataset_id ds"
    "doc_generation y = dataset_active_generation ds" "doc_is_active y" by (auto simp: docs_def doc_core_def)
  then have "kb_document x d = Some y" using row_get_keyed[OF assms y(1)] by (simp add: kb_document_def)
  then show "document_authoritative ds d x" using y by (simp add: document_authoritative_def some_row_def)
qed

lemma source_authoritative_core:
  assumes "keyed src_id (kb_sources d)"
  shows "source_authoritative k d s \<longleftrightarrow> (s, k) \<in> active_srcs d"
proof
  assume "source_authoritative k d s"
  then show "(s, k) \<in> active_srcs d"
    by (auto simp: source_authoritative_def some_row_iff active_srcs_def dest!: kb_SomeD(1))
next
  assume "(s, k) \<in> active_srcs d"
  then obtain y where y: "y \<in> set (kb_sources d)" "src_id y = s" "src_dataset_id y = k" "src_status y = Source_ACTIVE"
    by (auto simp: active_srcs_def)
  then have "kb_source s d = Some y" using row_get_keyed[OF assms y(1)] by (simp add: kb_source_def)
  then show "source_authoritative k d s" using y by (simp add: source_authoritative_def some_row_def)
qed

lemma authoritative_core:
  assumes "kdb_keyed d"
  shows "{k. authoritative ds d k} = authority ds (chs d) (docs d) (active_srcs d)"
proof -
  have K: "keyed doc_id (kb_documents d)" "keyed src_id (kb_sources d)" "keyed ch_id (kb_chunks d)"
    using assms by (simp_all add: kdb_keyed_def)
  have "authoritative ds d k \<longleftrightarrow> k \<in> authority ds (chs d) (docs d) (active_srcs d)" for k
  proof
    assume "authoritative ds d k"
    then obtain c where c: "kb_chunk k d = Some c" "chunk_authoritative ds d c" by (auto simp: authoritative_def some_row_iff)
    then have "ch_core c \<in> chs d" "ch_id c = k" using kb_SomeD(3)[OF c(1)] by (auto simp: chs_def)
    then show "k \<in> authority ds (chs d) (docs d) (active_srcs d)"
      using c(2) by (auto simp: chunk_authoritative_def ch_core_def authority_def document_authoritative_core[OF K(1)]
        source_authoritative_core[OF K(2)])
  next
    assume "k \<in> authority ds (chs d) (docs d) (active_srcs d)"
    then obtain x s z where q: "dataset_status ds = Dataset_ACTIVE" "(k, dataset_id ds, x, s, dataset_active_generation ds, True) \<in> chs d"
      "(x, dataset_id ds, z, dataset_active_generation ds, True) \<in> docs d" "(s, dataset_id ds) \<in> active_srcs d"
      unfolding authority_def by blast
    obtain c where c: "c \<in> set (kb_chunks d)" "ch_core c = (k, dataset_id ds, x, s, dataset_active_generation ds, True)"
      using q(2) by (force simp: chs_def)
    then have "chunk_authoritative ds d c" "ch_id c = k"
      using q by (auto simp: chunk_authoritative_def ch_core_def document_authoritative_core[OF K(1)] source_authoritative_core[OF K(2)])
    note c = c(1) this(2,1)
    then have "kb_chunk k d = Some c" using row_get_keyed[OF K(3) c(1)] by (simp add: kb_chunk_def)
    then show "authoritative ds d k" using c by (simp add: authoritative_def some_row_def)
  qed
  then show ?thesis by blast
qed

lemma tables_chunks_consistent:
  assumes "tables_ok d"
  shows "chunks_consistent d"
proof -
  have "some_row (kb_document (ch_document_id c) d) (\<lambda>x. doc_source_id x = ch_source_id c)" if c: "c \<in> set (kb_chunks d)" for c
  proof -
    have "ch_core c \<in> chs d" using c by (simp add: chs_def)
    then obtain b where "(ch_document_id c, ch_dataset_id c, ch_source_id c, ch_generation c, b) \<in> docs d"
      using assms unfolding tables_ok_def placed_def ch_core_def by blast
    then obtain y where y: "y \<in> set (kb_documents d)" "doc_id y = ch_document_id c" "doc_source_id y = ch_source_id c"
      by (auto simp: docs_def doc_core_def)
    moreover have "keyed doc_id (kb_documents d)" using assms by (simp add: tables_ok_def kdb_keyed_def)
    ultimately show ?thesis using row_get_keyed[of doc_id _ y] by (auto simp: kb_document_def some_row_def)
  qed
  then show ?thesis by (simp add: chunks_consistent_def)
qed


subsection \<open>What a plan expects of the tables\<close>

definition plan_fits :: "uuid \<Rightarrow> int \<Rightarrow> source_plan \<Rightarrow> kdb \<Rightarrow> bool" where
  "plan_fits k target plan d \<longleftrightarrow> (let prepared = sp_prepared plan; wi = ps_work_item prepared in
     wi_dataset_id wi = k \<and> wi_generation wi = target \<and> (wi_source_id wi, k) \<in> srcs d
     \<and> (case wi_document_to_create wi of
          Some x \<Rightarrow> doc_core x = (wi_document_id wi, k, wi_source_id wi, target, True)
        | None \<Rightarrow> (wi_document_id wi, k, wi_source_id wi, target, True) \<in> docs d)
     \<and> (\<forall>q \<in> set (sp_chunk_plans plan). cp_chunk_id q \<in> tc_id ` set (ps_new_chunks prepared)
          \<or> (\<exists>x. (cp_chunk_id q, k, x, wi_source_id wi, target, True) \<in> chs d)))"

definition grows :: "kdb \<Rightarrow> kdb \<Rightarrow> bool" where
  "grows d d' \<longleftrightarrow> srcs d \<subseteq> srcs d' \<and> docs d \<subseteq> docs d' \<and> chs d \<subseteq> chs d' \<and> active_srcs d \<subseteq> active_srcs d'
     \<and> ents d \<subseteq> ents d' \<and> rels d \<subseteq> rels d' \<and> ments d \<subseteq> ments d' \<and> evs d \<subseteq> evs d' \<and> kb_runtime d' = kb_runtime d"

lemma grows_trans: "grows d d1 \<Longrightarrow> grows d1 d2 \<Longrightarrow> grows d d2"
  unfolding grows_def by (metis subset_trans)

lemma grows_refl [simp]: "grows d d"
  by (simp add: grows_def)

lemma plan_fits_grows:
  assumes "plan_fits k target plan d" "grows d d'"
  shows "plan_fits k target plan d'"
proof -
  have s: "srcs d \<subseteq> srcs d'" "docs d \<subseteq> docs d'" "chs d \<subseteq> chs d'" using assms(2) by (simp_all add: grows_def)
  show ?thesis using assms(1) subsetD[OF s(1)] subsetD[OF s(2)] subsetD[OF s(3)]
    unfolding plan_fits_def Let_def by (fastforce split: option.splits)
qed

subsection \<open>The writes around the graph\<close>

lemma document_insert_eq:
  assumes "document_insert x d = Inr d'"
  shows "d' = d\<lparr>kb_documents := kb_documents d @ [x]\<rparr>" "doc_id x \<notin> doc_id ` set (kb_documents d)"
  using assms by (auto simp: document_insert_def split: if_splits)

lemma put_document_core:
  assumes "keyed doc_id (kb_documents d)" "doc_core x \<in> docs d"
  shows "docs (put_document x d) = docs d"
proof -
  obtain y where y: "y \<in> set (kb_documents d)" "doc_core x = doc_core y" using assms(2) by (auto simp: docs_def)
  have i: "doc_id x = doc_id y" using y(2) by (simp add: doc_core_def)
  show ?thesis using map_core_put[OF assms(1) y i] by (simp add: docs_def put_document_def)
qed

lemma source_document_ok:
  assumes "source_document prepared d = Inr (x, d')" "keyed doc_id (kb_documents d)" "wi = ps_work_item prepared"
    "case wi_document_to_create wi of
       Some y \<Rightarrow> doc_core y = (wi_document_id wi, k, wi_source_id wi, target, True)
     | None \<Rightarrow> (wi_document_id wi, k, wi_source_id wi, target, True) \<in> docs d"
  shows "doc_core x = (wi_document_id wi, k, wi_source_id wi, target, True)" "docs d' = insert (doc_core x) (docs d)"
    "keyed doc_id (kb_documents d')" "\<exists>xs. d' = d\<lparr>kb_documents := xs\<rparr>"
proof -
  let ?core = "(wi_document_id wi, k, wi_source_id wi, target, True)"
  obtain y d1 where y: "(case wi_document_to_create wi of
        Some x \<Rightarrow> bindE (document_insert x d) (\<lambda>d1. Inr (x, d1))
      | None \<Rightarrow> (case kb_document (wi_document_id wi) d of None \<Rightarrow> Inl snapshot_persistence_error | Some x \<Rightarrow> Inr (x, d))) = Inr (y, d1)"
    "(case ps_refreshed_document prepared of None \<Rightarrow> x = y \<and> d' = d1
      | Some p \<Rightarrow> doc_core x = doc_core y \<and> d' = put_document x d1)"
    using assms(1) unfolding source_document_def assms(3)[symmetric] Let_def bindE_eq_Inr_iff
    by (fastforce simp: doc_core_def split: option.splits)
  have d1: "doc_core y = ?core \<and> docs d1 = insert ?core (docs d) \<and> keyed doc_id (kb_documents d1) \<and> (\<exists>xs. d1 = d\<lparr>kb_documents := xs\<rparr>)"
  proof (cases "wi_document_to_create wi")
    case None
    then have row: "kb_document (wi_document_id wi) d = Some y" "d1 = d" "?core \<in> docs d"
      using y(1) assms(4) by (auto split: option.splits)
    obtain z where z: "z \<in> set (kb_documents d)" "doc_core z = ?core" using row(3) by (force simp: docs_def)
    have "kb_document (doc_id z) d = Some z" using row_get_keyed[OF assms(2) z(1)] by (simp add: kb_document_def)
    then have "z = y" using z(2) row(1) by (simp add: doc_core_def)
    then show ?thesis using z row assms(2) by (auto intro!: exI[of _ "kb_documents d"])
  next
    case (Some z)
    then have "document_insert y d = Inr d1" "z = y" using y(1) by (auto simp: bindE_eq_Inr_iff)
    then show ?thesis using document_insert_eq[of y d d1] Some assms(2,4) by (auto simp: docs_def keyed_def)
  qed
  have "doc_core x = ?core \<and> docs d' = docs d1 \<and> keyed doc_id (kb_documents d') \<and> (\<exists>xs. d' = d\<lparr>kb_documents := xs\<rparr>)"
  proof (cases "ps_refreshed_document prepared")
    case None
    then show ?thesis using y(2) d1 by auto
  next
    case (Some p)
    then have q: "doc_core x = doc_core y" "d' = put_document x d1" using y(2) by auto
    obtain xs where xs: "d1 = d\<lparr>kb_documents := xs\<rparr>" using d1 by blast
    have "d' = d\<lparr>kb_documents := row_put doc_id x xs\<rparr>" using q(2) xs by (simp add: put_document_def)
    moreover have "keyed doc_id (kb_documents d')" using q(2) d1 by (simp add: put_document_def)
    moreover have "docs d' = docs d1" using q d1 put_document_core[of d1 x] by simp
    moreover have "doc_core x = ?core" using q(1) conjunct1[OF d1] by simp
    ultimately show ?thesis by (intro conjI exI[of _ "row_put doc_id x xs"])
  qed
  then show "doc_core x = ?core" "docs d' = insert (doc_core x) (docs d)" "keyed doc_id (kb_documents d')"
    "\<exists>xs. d' = d\<lparr>kb_documents := xs\<rparr>" using d1 by simp_all
qed

lemma chunks_insert_eq:
  assumes "chunks_insert cs d = Inr d'"
  shows "d' = d\<lparr>kb_chunks := kb_chunks d @ cs\<rparr>" "keyed ch_id (kb_chunks d')"
  using assms by (auto simp: chunks_insert_def Let_def keyed_def split: if_splits)

lemma source_chunks_ok:
  assumes "source_chunks env prepared x d = Inr (x', d')" "keyed doc_id (kb_documents d)" "keyed ch_id (kb_chunks d)" "doc_core x \<in> docs d"
    "wi = ps_work_item prepared"
  shows "doc_core x' = doc_core x" "docs d' = docs d" "keyed doc_id (kb_documents d')" "keyed ch_id (kb_chunks d')"
    "chs d' = chs d \<union> (\<lambda>i. (i, wi_dataset_id wi, wi_document_id wi, wi_source_id wi, wi_generation wi, True)) ` tc_id ` set (ps_new_chunks prepared)"
    "\<exists>xs cs. d' = d\<lparr>kb_documents := xs, kb_chunks := cs\<rparr>"
proof -
  have "doc_core x' = doc_core x \<and> docs d' = docs d \<and> keyed doc_id (kb_documents d') \<and> keyed ch_id (kb_chunks d') \<and>
    chs d' = chs d \<union> (\<lambda>i. (i, wi_dataset_id wi, wi_document_id wi, wi_source_id wi, wi_generation wi, True)) ` tc_id ` set (ps_new_chunks prepared)
    \<and> (\<exists>xs cs. d' = d\<lparr>kb_documents := xs, kb_chunks := cs\<rparr>)"
  proof (cases "ps_new_chunks prepared = []")
    case True
    then have e: "x' = x" "d' = d" using assms(1) by (auto simp: source_chunks_def)
    have "d = d\<lparr>kb_documents := kb_documents d, kb_chunks := kb_chunks d\<rparr>" by simp
    then have "\<exists>xs cs. d = d\<lparr>kb_documents := xs, kb_chunks := cs\<rparr>" by blast
    then show ?thesis using True assms(2,3) e by simp
  next
    case False
    define cs where "cs = map (\<lambda>(c, v). chunk_model_from_text_chunk env wi c v) (zip (ps_new_chunks prepared) (ps_embeddings prepared))"
    obtain d1 n where i: "length (ps_new_chunks prepared) = length (ps_embeddings prepared)" "chunks_insert cs d = Inr d1"
      "x' = x\<lparr>doc_token_count := n\<rparr>" "d' = put_document x' d1"
      using assms(1,5) False by (auto simp: source_chunks_def cs_def Let_def bindE_eq_Inr_iff split: option.splits if_splits)
    note I = chunks_insert_eq[OF i(2)]
    have core: "doc_core x' = doc_core x" using i(3) by (simp add: doc_core_def)
    have X: "docs d' = docs d" "keyed doc_id (kb_documents d')"
      using put_document_core[of d1 x'] I(1) assms(2,4) core unfolding i(4) by (simp_all add: docs_def put_document_def)
    have "ch_core ` set cs = (\<lambda>i. (i, wi_dataset_id wi, wi_document_id wi, wi_source_id wi, wi_generation wi, True))
       ` tc_id ` fst ` set (zip (ps_new_chunks prepared) (ps_embeddings prepared))"
      by (auto simp: cs_def ch_core_def chunk_model_from_text_chunk_def image_iff split: prod.splits) force+
    also have "fst ` set (zip (ps_new_chunks prepared) (ps_embeddings prepared)) = set (ps_new_chunks prepared)"
      using i(1) by (metis map_fst_zip set_map)
    finally have C: "chs d' = chs d \<union> (\<lambda>i. (i, wi_dataset_id wi, wi_document_id wi, wi_source_id wi, wi_generation wi, True))
       ` tc_id ` set (ps_new_chunks prepared)" using I(1) i(4) by (auto simp: chs_def put_document_def)
    have "d' = d\<lparr>kb_documents := row_put doc_id x' (kb_documents d), kb_chunks := kb_chunks d @ cs\<rparr>"
      using I(1) i(4) by (simp add: put_document_def)
    moreover have "keyed ch_id (kb_chunks d')" using I(2) i(4) by (simp add: put_document_def)
    ultimately show ?thesis using core X C
      by (intro conjI exI[of _ "row_put doc_id x' (kb_documents d)"] exI[of _ "kb_chunks d @ cs"])
  qed
  then show "doc_core x' = doc_core x" "docs d' = docs d" "keyed doc_id (kb_documents d')" "keyed ch_id (kb_chunks d')"
    "chs d' = chs d \<union> (\<lambda>i. (i, wi_dataset_id wi, wi_document_id wi, wi_source_id wi, wi_generation wi, True)) ` tc_id ` set (ps_new_chunks prepared)"
    "\<exists>xs cs. d' = d\<lparr>kb_documents := xs, kb_chunks := cs\<rparr>" by blast+
qed

lemma source_summary_ok:
  assumes "source_summary env prepared d = Inr d'" "keyed sum_id (kb_summaries d)"
  shows "\<exists>us. d' = d\<lparr>kb_summaries := us\<rparr> \<and> keyed sum_id us"
proof (cases "kb_summary (ps_summary_id prepared) d")
  case None
  then show ?thesis using assms by (auto simp: source_summary_def summary_insert_def Let_def keyed_def split: if_splits)
next
  case (Some s)
  then obtain s' where "d' = put_summary s' d" using assms(1) by (auto simp: source_summary_def Let_def)
  then have "d' = d\<lparr>kb_summaries := row_put sum_id s' (kb_summaries d)\<rparr>" by (simp add: put_summary_def)
  moreover have "keyed sum_id (row_put sum_id s' (kb_summaries d))" using assms(2) by simp
  ultimately show ?thesis by (intro exI[of _ "row_put sum_id s' (kb_summaries d)"] conjI)
qed


subsection \<open>One source\<close>

lemma set_row_put_keyed:
  assumes "keyed key rows" "x \<in> set rows" "key y = key x"
  shows "set (row_put key y rows) = insert y (set rows - {x})"
proof -
  have "(if key z = key y then y else z) = (if z = x then y else z)" if "z \<in> set rows" for z
    using that assms row_get_keyed[OF assms(1)] by (metis option.inject)
  then have "(\<lambda>z. if key z = key y then y else z) ` set rows = (\<lambda>z. if z = x then y else z) ` set rows"
    by (intro image_cong) auto
  then show ?thesis using assms(2) by (auto simp: row_put_def)
qed

lemma image_active:
  "s \<in> S \<Longrightarrow> (\<lambda>s. (src_id s, src_dataset_id s)) ` {x. (x = s\<lparr>src_status := Source_ACTIVE\<rparr> \<or> x \<in> S \<and> x \<noteq> s) \<and> src_status x = Source_ACTIVE}
    = insert (src_id s, src_dataset_id s) ((\<lambda>s. (src_id s, src_dataset_id s)) ` {x. x \<in> S \<and> src_status x = Source_ACTIVE})"
proof -
  have "{x. (x = s\<lparr>src_status := Source_ACTIVE\<rparr> \<or> x \<in> S \<and> x \<noteq> s) \<and> src_status x = Source_ACTIVE}
    = insert (s\<lparr>src_status := Source_ACTIVE\<rparr>) ({x. x \<in> S \<and> src_status x = Source_ACTIVE} - {s})" by auto
  then show ?thesis by (auto simp: image_insert)
qed

lemma srcs_put_source:
  assumes "keyed src_id (kb_sources d)" "kb_source k d = Some s"
  shows "srcs (put_source (s\<lparr>src_status := Source_ACTIVE\<rparr>) d) = srcs d"
    "active_srcs (put_source (s\<lparr>src_status := Source_ACTIVE\<rparr>) d) = insert (src_id s, src_dataset_id s) (active_srcs d)"
proof -
  have mem: "s \<in> set (kb_sources d)" using kb_SomeD(1)[OF assms(2)] by simp
  have rows: "set (row_put src_id (s\<lparr>src_status := Source_ACTIVE\<rparr>) (kb_sources d))
     = insert (s\<lparr>src_status := Source_ACTIVE\<rparr>) (set (kb_sources d) - {s})"
    using set_row_put_keyed[OF assms(1) mem, of "s\<lparr>src_status := Source_ACTIVE\<rparr>"] by simp
  have p: "kb_sources (put_source (s\<lparr>src_status := Source_ACTIVE\<rparr>) d) = row_put src_id (s\<lparr>src_status := Source_ACTIVE\<rparr>) (kb_sources d)"
    by (simp add: put_source_def)
  show "srcs (put_source (s\<lparr>src_status := Source_ACTIVE\<rparr>) d) = srcs d"
    unfolding srcs_def p rows using mem by auto
  show "active_srcs (put_source (s\<lparr>src_status := Source_ACTIVE\<rparr>) d) = insert (src_id s, src_dataset_id s) (active_srcs d)"
    unfolding active_srcs_def p rows using image_active[OF mem] by simp
qed

lemma graph_supported_ok:
  assumes "tables_ok d"
  shows "graph_supported ds d \<longleftrightarrow> graph_ok (dataset_id ds) (dataset_active_generation ds) (authority ds (chs d) (docs d) (active_srcs d)) d"
proof -
  have K: "kdb_keyed d" "keyed ent_id (kb_entities d)" using assms by (simp_all add: tables_ok_def kdb_keyed_def)
  have "graph_supported ds d \<longleftrightarrow> supported_graph (dataset_id ds) (dataset_active_generation ds) (authority ds (chs d) (docs d) (active_srcs d))
     (ents d) (rels d) (ments d) (evs d)"
    unfolding graph_supported_core[OF K(2)] authoritative_core[OF K(1)] ..
  then show ?thesis using assms by (simp add: graph_ok_def tables_ok_def kdb_keyed_def)
qed

lemma graph_ok_more: "graph_ok k g A d \<Longrightarrow> A \<subseteq> A' \<Longrightarrow> graph_ok k g A' d"
  by (simp add: graph_ok_def supported_more_authority[of k g A])

lemma graph_ok_frame:
  "kb_entities d' = kb_entities d \<Longrightarrow> kb_mentions d' = kb_mentions d \<Longrightarrow> kb_relations d' = kb_relations d \<Longrightarrow>
   kb_evidence d' = kb_evidence d \<Longrightarrow> graph_ok k g A d' = graph_ok k g A d"
  by (simp add: graph_ok_def ents_def rels_def ments_def evs_def)

lemma persist_source_plan_writes:
  assumes "persist_source_plan env b plan d = Inr (n, d')" "tables_ok d" "plan_fits k target plan d"
  obtains d2 st x where
    "docs d2 = insert x (docs d)" "keyed doc_id (kb_documents d2)"
    "x = (wi_document_id (ps_work_item (sp_prepared plan)), k, wi_source_id (ps_work_item (sp_prepared plan)), target, True)"
    "chs d2 = chs d \<union> (\<lambda>i. (i, k, wi_document_id (ps_work_item (sp_prepared plan)), wi_source_id (ps_work_item (sp_prepared plan)), target, True))
        ` tc_id ` set (ps_new_chunks (sp_prepared plan))" "keyed ch_id (kb_chunks d2)"
    "\<exists>xs cs. d2 = d\<lparr>kb_documents := xs, kb_chunks := cs\<rparr>"
    "persist_chunks env b k (sp_chunk_plans plan) (initial_state d2) = Inr st"
    "same_place d2 (ps_db st) \<longrightarrow> kb_entities d' = kb_entities (ps_db st) \<and> kb_mentions d' = kb_mentions (ps_db st)
       \<and> kb_relations d' = kb_relations (ps_db st) \<and> kb_evidence d' = kb_evidence (ps_db st) \<and> kb_runtime d' = kb_runtime d
       \<and> docs d' = docs d2 \<and> chs d' = chs d2 \<and> srcs d' = srcs d
       \<and> active_srcs d' = insert (wi_source_id (ps_work_item (sp_prepared plan)), k) (active_srcs d)
       \<and> keyed src_id (kb_sources d') \<and> keyed doc_id (kb_documents d') \<and> keyed ch_id (kb_chunks d') \<and> keyed sum_id (kb_summaries d')"
proof -
  define prepared where "prepared = sp_prepared plan"
  define wi where "wi = ps_work_item prepared"
  have K: "keyed doc_id (kb_documents d)" "keyed src_id (kb_sources d)" "keyed ch_id (kb_chunks d)" "keyed sum_id (kb_summaries d)"
    using assms(2) by (simp_all add: tables_ok_def kdb_keyed_def)
  have fit: "wi_dataset_id wi = k" "wi_generation wi = target" "(wi_source_id wi, k) \<in> srcs d"
    "case wi_document_to_create wi of
       Some y \<Rightarrow> doc_core y = (wi_document_id wi, k, wi_source_id wi, target, True)
     | None \<Rightarrow> (wi_document_id wi, k, wi_source_id wi, target, True) \<in> docs d"
    using assms(3) unfolding plan_fits_def Let_def wi_def[symmetric] prepared_def[symmetric] by blast+
  obtain s x d1 x2 d2 st d3 rows where w:
    "kb_source (wi_source_id wi) d = Some s" "source_document prepared d = Inr (x, d1)" "source_chunks env prepared x d1 = Inr (x2, d2)"
    "persist_chunks env b k (sp_chunk_plans plan) (initial_state d2) = Inr st" "source_summary env prepared (ps_db st) = Inr d3"
    "d' = put_source (s\<lparr>src_status := Source_ACTIVE\<rparr>) ((put_document (x2\<lparr>doc_metadata :=
        document_summary_metadata env (doc_metadata x2) (ps_summary_id prepared)\<rparr>) d3)\<lparr>kb_outbox := rows\<rparr>)"
    using assms(1) fit(1) unfolding persist_source_plan_def prepared_def[symmetric] wi_def[symmetric] Let_def
    by (auto simp: bindE_eq_Inr_iff split: option.splits)
  note D = source_document_ok[OF w(2) K(1) wi_def fit(4)]
  have kc1: "keyed ch_id (kb_chunks d1)" "doc_core x \<in> docs d1" using D(2,4) K(3) by auto
  note C = source_chunks_ok[OF w(3) D(3) kc1 wi_def]
  have sdoc: "src_dataset_id s = k"
  proof -
    obtain y where y: "y \<in> set (kb_sources d)" "src_id y = wi_source_id wi" "src_dataset_id y = k"
      using fit(3) by (auto simp: srcs_def)
    then have "kb_source (wi_source_id wi) d = Some y" using row_get_keyed[OF K(2) y(1)] by (simp add: kb_source_def)
    then show ?thesis using w(1) y(3) by simp
  qed
  have sid: "src_id s = wi_source_id wi" using kb_SomeD(1)[OF w(1)] by simp
  obtain xs where d1: "d1 = d\<lparr>kb_documents := xs\<rparr>" using D(4) by blast
  have d2: "\<exists>xs cs. d2 = d\<lparr>kb_documents := xs, kb_chunks := cs\<rparr>" using C(6) d1 by auto
  have ch1: "chs d1 = chs d" using d1 by (simp add: chs_def)
  have post: "kb_entities d' = kb_entities (ps_db st) \<and> kb_mentions d' = kb_mentions (ps_db st)
       \<and> kb_relations d' = kb_relations (ps_db st) \<and> kb_evidence d' = kb_evidence (ps_db st) \<and> kb_runtime d' = kb_runtime d
       \<and> docs d' = docs d2 \<and> chs d' = chs d2 \<and> srcs d' = srcs d \<and> active_srcs d' = insert (wi_source_id wi, k) (active_srcs d)
       \<and> keyed src_id (kb_sources d') \<and> keyed doc_id (kb_documents d') \<and> keyed ch_id (kb_chunks d') \<and> keyed sum_id (kb_summaries d')"
    if sp: "same_place d2 (ps_db st)"
  proof -
    have q: "kb_runtime d2 = kb_runtime d" "kb_sources d2 = kb_sources d" "kb_summaries d2 = kb_summaries d" using d2 by auto
    obtain us where us: "d3 = (ps_db st)\<lparr>kb_summaries := us\<rparr>" "keyed sum_id us"
      using source_summary_ok[OF w(5)] sp K(4) q(3) by (auto simp: same_place_def)
    define d4 where "d4 = (put_document (x2\<lparr>doc_metadata := document_summary_metadata env (doc_metadata x2) (ps_summary_id prepared)\<rparr>) d3)\<lparr>kb_outbox := rows\<rparr>"
    have core: "doc_core (x2\<lparr>doc_metadata := document_summary_metadata env (doc_metadata x2) (ps_summary_id prepared)\<rparr>) = doc_core x2"
      by (simp add: doc_core_def)
    have "docs d3 = docs d2" "keyed doc_id (kb_documents d3)" using us(1) sp C(3) by (simp_all add: docs_def same_place_def)
    then have docs4: "docs d4 = docs d2" "keyed doc_id (kb_documents d4)"
      using put_document_core[of d3 "x2\<lparr>doc_metadata := document_summary_metadata env (doc_metadata x2) (ps_summary_id prepared)\<rparr>"]
        core C(1,2) kc1(2) by (simp_all add: d4_def docs_def put_document_def)
    have rest4: "kb_sources d4 = kb_sources d" "kb_runtime d4 = kb_runtime d" "chs d4 = chs d2" "keyed ch_id (kb_chunks d4)"
      "keyed sum_id (kb_summaries d4)" "kb_entities d4 = kb_entities (ps_db st)" "kb_mentions d4 = kb_mentions (ps_db st)"
      "kb_relations d4 = kb_relations (ps_db st)" "kb_evidence d4 = kb_evidence (ps_db st)"
      using us sp q C(4) by (simp_all add: d4_def put_document_def chs_def same_place_def)
    have d'4: "d' = put_source (s\<lparr>src_status := Source_ACTIVE\<rparr>) d4" using w(6) by (simp add: d4_def)
    have src4: "keyed src_id (kb_sources d4)" "kb_source (wi_source_id wi) d4 = Some s" using rest4(1) K(2) w(1) by (simp_all add: kb_source_def)
    have same: "srcs d4 = srcs d" "active_srcs d4 = active_srcs d" using rest4(1) by (simp_all add: srcs_def active_srcs_def)
    show ?thesis using srcs_put_source[OF src4] same sid sdoc rest4 docs4 src4(1) unfolding d'4
      by (simp add: put_source_def docs_def chs_def)
  qed
  show thesis
  proof (rule that[of d2 "doc_core x" st, OF _ C(3) _ _ C(4) d2 w(4)])
    show "docs d2 = insert (doc_core x) (docs d)" using C(2) D(2) by simp
    show "doc_core x = (wi_document_id (ps_work_item (sp_prepared plan)), k, wi_source_id (ps_work_item (sp_prepared plan)), target, True)"
      using D(1) by (simp add: wi_def prepared_def)
    show "chs d2 = chs d \<union> (\<lambda>i. (i, k, wi_document_id (ps_work_item (sp_prepared plan)), wi_source_id (ps_work_item (sp_prepared plan)), target, True))
        ` tc_id ` set (ps_new_chunks (sp_prepared plan))"
      using C(5) ch1 fit(1,2) by (simp add: wi_def prepared_def)
  qed (use post in \<open>simp add: wi_def prepared_def\<close>)
qed


lemma placed_insert:
  assumes "placed d" "docs d' = insert (x, k, s, g, True) (docs d)" "chs d' = chs d \<union> (\<lambda>i. (i, k, x, s, g, True)) ` N"
    "srcs d' = srcs d" "(s, k) \<in> srcs d"
  shows "placed d'"
  unfolding placed_def assms(2-4)
proof (intro conjI allI impI)
  fix i ds y z h a assume "(i, ds, y, z, h, a) \<in> chs d \<union> (\<lambda>i. (i, k, x, s, g, True)) ` N"
  then show "\<exists>b. (y, ds, z, h, b) \<in> insert (x, k, s, g, True) (docs d) \<and> (a \<longrightarrow> b)"
    using assms(1) unfolding placed_def by blast
next
  fix y ds z h a assume "(y, ds, z, h, a) \<in> insert (x, k, s, g, True) (docs d)"
  then show "(z, ds) \<in> srcs d" using assms(1,5) unfolding placed_def by blast
qed

lemma authority_new:
  assumes "dataset_status ds = Dataset_ACTIVE" "(i, dataset_id ds, x, s, dataset_active_generation ds, True) \<in> C"
    "\<forall>j e y z h a. (j, e, y, z, h, a) \<in> C \<longrightarrow> (\<exists>b. (y, e, z, h, b) \<in> X \<and> (a \<longrightarrow> b))" "(s, dataset_id ds) \<in> S"
  shows "i \<in> authority ds C X S"
proof -
  obtain b where "(x, dataset_id ds, s, dataset_active_generation ds, b) \<in> X" "True \<longrightarrow> b" using assms(2,3) by blast
  then have "(x, dataset_id ds, s, dataset_active_generation ds, True) \<in> X" by simp
  then show ?thesis using assms unfolding authority_def by blast
qed

lemma persist_source_plan_ok:
  assumes "persist_source_plan env b plan d = Inr (n, d')" "tables_ok d" "graph_supported ds d" "dataset_status ds = Dataset_ACTIVE"
    "plans_at b target" "plan_fits (dataset_id ds) target plan d"
  shows "tables_ok d'" "graph_supported ds d'" "grows d d'"
proof -
  let ?k = "dataset_id ds" and ?g = "dataset_active_generation ds"
  let ?wi = "ps_work_item (sp_prepared plan)"
  obtain d2 st x where w: "docs d2 = insert x (docs d)" "keyed doc_id (kb_documents d2)"
    "x = (wi_document_id ?wi, ?k, wi_source_id ?wi, target, True)"
    "chs d2 = chs d \<union> (\<lambda>i. (i, ?k, wi_document_id ?wi, wi_source_id ?wi, target, True)) ` tc_id ` set (ps_new_chunks (sp_prepared plan))"
    "keyed ch_id (kb_chunks d2)" "\<exists>xs cs. d2 = d\<lparr>kb_documents := xs, kb_chunks := cs\<rparr>"
    "persist_chunks env b ?k (sp_chunk_plans plan) (initial_state d2) = Inr st"
    "same_place d2 (ps_db st) \<longrightarrow> kb_entities d' = kb_entities (ps_db st) \<and> kb_mentions d' = kb_mentions (ps_db st)
       \<and> kb_relations d' = kb_relations (ps_db st) \<and> kb_evidence d' = kb_evidence (ps_db st) \<and> kb_runtime d' = kb_runtime d
       \<and> docs d' = docs d2 \<and> chs d' = chs d2 \<and> srcs d' = srcs d \<and> active_srcs d' = insert (wi_source_id ?wi, ?k) (active_srcs d)
       \<and> keyed src_id (kb_sources d') \<and> keyed doc_id (kb_documents d') \<and> keyed ch_id (kb_chunks d') \<and> keyed sum_id (kb_summaries d')"
    by (rule persist_source_plan_writes[OF assms(1,2,6)])
  define A where "A = authority ds (chs d2) (docs d2) (insert (wi_source_id ?wi, ?k) (active_srcs d))"
  have fit: "(wi_source_id ?wi, ?k) \<in> srcs d" "\<forall>q \<in> set (sp_chunk_plans plan). cp_chunk_id q \<in> tc_id ` set (ps_new_chunks (sp_prepared plan))
          \<or> (\<exists>x. (cp_chunk_id q, ?k, x, wi_source_id ?wi, target, True) \<in> chs d)"
    using assms(6) unfolding plan_fits_def Let_def by blast+
  have pl: "placed d" "kdb_keyed d" using assms(2) by (simp_all add: tables_ok_def)
  have sub: "docs d \<subseteq> docs d2" "chs d \<subseteq> chs d2" using w(1,4) by auto
  have G: "graph_ok ?k ?g A d"
  proof (rule graph_ok_more)
    show "graph_ok ?k ?g (authority ds (chs d) (docs d) (active_srcs d)) d" using assms(3) graph_supported_ok[OF assms(2)] by simp
    show "authority ds (chs d) (docs d) (active_srcs d) \<subseteq> A" unfolding A_def by (intro authority_mono sub subset_insertI)
  qed
  have "placed (d2\<lparr>kb_sources := kb_sources d\<rparr>)"
    by (rule placed_insert[OF pl(1), of _ "wi_document_id ?wi" ?k "wi_source_id ?wi" target "tc_id ` set (ps_new_chunks (sp_prepared plan))"])
      (use w(1,3,4) fit(1) in \<open>simp_all add: docs_def chs_def srcs_def\<close>)
  then have P2: "\<forall>j e y z h a. (j, e, y, z, h, a) \<in> chs d2 \<longrightarrow> (\<exists>b. (y, e, z, h, b) \<in> docs d2 \<and> (a \<longrightarrow> b))"
    "\<forall>y e z h a. (y, e, z, h, a) \<in> docs d2 \<longrightarrow> (z, e) \<in> srcs d"
    unfolding placed_def by (simp_all add: docs_def chs_def srcs_def)
  have ids: "target = ?g \<longrightarrow> cp_chunk_id ` set (sp_chunk_plans plan) \<subseteq> A"
  proof (intro impI subsetI)
    fix i assume t: "target = ?g" and "i \<in> cp_chunk_id ` set (sp_chunk_plans plan)"
    then obtain y where "(i, ?k, y, wi_source_id ?wi, ?g, True) \<in> chs d2" using fit(2) w(4) by blast
    then show "i \<in> A" unfolding A_def by (rule authority_new[OF assms(4) _ P2(1)]) simp
  qed
  have G2: "graph_ok ?k ?g A (ps_db (initial_state d2))" "keyed ch_id (kb_chunks (ps_db (initial_state d2)))"
    using G w(5,6) by (auto simp: initial_state_def)
  note loop = persist_chunks_ok[OF w(7) G2 assms(5) ids]
  have sp: "same_place d2 (ps_db st)" using conjunct2[OF loop] by (simp add: initial_state_def)
  note post = mp[OF w(8) sp]
  have G': "graph_ok ?k ?g A d'" using conjunct1[OF loop] graph_ok_frame[of d' "ps_db st" ?k ?g A] post by blast
  have "placed d'" unfolding placed_def using P2 post by simp
  moreover have "kdb_keyed d'" using G' pl(2) post unfolding kdb_keyed_def graph_ok_def by simp
  moreover have "well_linked (ents d') (rels d') (ments d') (evs d') \<and> canonical (ents d')" using G' unfolding graph_ok_def by blast
  ultimately show t': "tables_ok d'" by (simp add: tables_ok_def)
  show "graph_supported ds d'" using G' post unfolding graph_supported_ok[OF t'] A_def by simp
  have g2: "ents d2 = ents d" "rels d2 = rels d" "ments d2 = ments d" "evs d2 = evs d" using w(6) by auto
  have g': "ents d' = ents (ps_db st)" "rels d' = rels (ps_db st)" "ments d' = ments (ps_db st)" "evs d' = evs (ps_db st)"
    using post by (simp_all add: ents_def rels_def ments_def evs_def)
  show "grows d d'" using sub post sp g2 unfolding grows_def same_place_def g' by auto
qed

end
