(* ===== verification/Cognify_Batch.thy ===== *)
theory Cognify_Batch
  imports Cognify_Sources
begin

text \<open>
  A whole batch: what preparation guarantees of the plans it hands over (each fits the tables it was
  computed from, all are for one generation), and the persistence of all its sources.
\<close>

subsection \<open>Identity plans\<close>

definition resolver_at :: "resolver \<Rightarrow> int \<Rightarrow> bool" where
  "resolver_at rs target \<longleftrightarrow> (\<forall>q p. rs_entities rs q = Some p \<longrightarrow> pe_generation p = target)
     \<and> (\<forall>q p. rs_relations rs q = Some p \<longrightarrow> pr_generation p = target)"

lemma bindR_cases:
  assumes "bindR m f = (r, rs')"
  obtains (Err) e where "m = (Inl e, rs')" "r = Inl e" | (Ok) x rs where "m = (Inr x, rs)" "f x rs = (r, rs')"
  using assms by (auto simp: bindR_def split: prod.splits sum.splits)

lemma plan_entity_at: "plan_entity env d x key ds target = (p, b) \<Longrightarrow> pe_generation p = target"
  by (auto simp: plan_entity_def split: option.splits)

lemma plan_relation_at: "plan_relation env d x identity rs ds target = Inr (p, b) \<Longrightarrow> pr_generation p = target"
  by (auto simp: plan_relation_def Let_def split: prod.splits option.splits if_splits)

lemma resolve_entities_at:
  "resolve_entities env d ds target xs keys rs = (r, rs') \<Longrightarrow> resolver_at rs target \<Longrightarrow> resolver_at rs' target"
proof (induction xs arbitrary: keys rs r)
  case (Cons x xs)
  show ?case
  proof (cases "canonical_entity_key (cg_text env) (xe_entity_type x) (xe_name x)")
    case (Inl e)
    then show ?thesis using Cons.prems by simp
  next
    case (Inr key)
    obtain plan cr where p: "(case rs_entities rs key of Some p \<Rightarrow> (p, False) | None \<Rightarrow> plan_entity env d x key ds target) = (plan, cr)"
      by fastforce
    define plan' where "plan' = plan\<lparr>pe_aliases := dict_fromkeys (pe_aliases plan @ xe_aliases x),
      pe_confidence := max (pe_confidence plan) (xe_confidence x)\<rparr>"
    have "pe_generation plan = target"
      using p Cons.prems(2) by (auto simp: resolver_at_def split: option.splits dest: plan_entity_at)
    then have at: "resolver_at (rs\<lparr>rs_entities := (rs_entities rs)(key \<mapsto> plan')\<rparr>) target"
      using Cons.prems(2) by (auto simp: resolver_at_def plan'_def)
    have "bindR (resolve_entities env d ds target xs (keys(xe_local_id x \<mapsto> key)) (rs\<lparr>rs_entities := (rs_entities rs)(key \<mapsto> plan')\<rparr>))
       (\<lambda>(keys', refs, n) rs'. (Inr (keys', (key, x) # refs, (if cr then Suc n else n)), rs')) = (r, rs')"
      using Cons.prems(1) Inr p by (simp add: plan'_def Let_def)
    then show ?thesis by (cases rule: bindR_cases) (auto intro: Cons.IH[OF _ at] split: prod.splits)
  qed
qed auto

lemma resolve_relations_at:
  "resolve_relations env d ds target keys xs rs = (r, rs') \<Longrightarrow> resolver_at rs target \<Longrightarrow> resolver_at rs' target"
proof (induction xs arbitrary: rs r)
  case (Cons x xs)
  show ?case
  proof (cases "(keys (xr_source_local_id x), keys (xr_target_local_id x))")
    case (Pair a b)
    show ?thesis
    proof (cases "a \<noteq> None \<and> b \<noteq> None")
      case False
      then show ?thesis using Cons.prems Pair by (auto split: option.splits)
    next
      case True
      then obtain sk tk where k: "keys (xr_source_local_id x) = Some sk" "keys (xr_target_local_id x) = Some tk" using Pair by auto
      define idn where "idn = (sk, tk, normalize_relation_predicate (cg_text env) (xr_predicate x))"
      define m where "m = (case rs_relations rs idn of Some p \<Rightarrow> Inr (p, False) | None \<Rightarrow> plan_relation env d x idn rs ds target)"
      show ?thesis
      proof (cases m)
        case (Inl e)
        then show ?thesis using Cons.prems k unfolding m_def idn_def by (simp only: resolve_relations.simps k option.case prod.case Let_def sum.case) simp
      next
        case (Inr y)
        obtain plan cr where y: "y = (plan, cr)" by (cases y)
        define plan' where "plan' = plan\<lparr>pr_confidence := max (pr_confidence plan) (xr_confidence x),
          pr_description := (if pr_description plan = [] then xr_description x else pr_description plan)\<rparr>"
        have "pr_generation plan = target"
        proof (cases "rs_relations rs idn")
          case None
          then have "plan_relation env d x idn rs ds target = Inr (plan, cr)" using Inr y by (simp add: m_def)
          then show ?thesis by (rule plan_relation_at)
        next
          case (Some p)
          then have "p = plan" using Inr y by (simp add: m_def)
          then show ?thesis using Some Cons.prems(2) unfolding resolver_at_def by blast
        qed
        then have at: "resolver_at (rs\<lparr>rs_relations := (rs_relations rs)(idn \<mapsto> plan')\<rparr>) target"
          using Cons.prems(2) by (auto simp: resolver_at_def plan'_def)
        have "bindR (resolve_relations env d ds target keys xs (rs\<lparr>rs_relations := (rs_relations rs)(idn \<mapsto> plan')\<rparr>))
           (\<lambda>(refs, n) rs'. (Inr ((idn, x) # refs, (if cr then Suc n else n)), rs')) = (r, rs')"
          using Cons.prems(1) Inr y unfolding m_def idn_def
          by (simp only: resolve_relations.simps k option.case prod.case Let_def sum.case plan'_def)
        then show ?thesis by (cases rule: bindR_cases) (auto intro: Cons.IH[OF _ at] split: prod.splits)
      qed
    qed
  qed
qed auto

lemma resolve_chunks_at:
  "resolve_chunks env d ds target xs rs = (r, rs') \<Longrightarrow> resolver_at rs target \<Longrightarrow>
   resolver_at rs' target \<and> (\<forall>plans n m. r = Inr (plans, n, m) \<longrightarrow> map cp_chunk_id plans = map fst xs)"
proof (induction xs arbitrary: rs r rs')
  case (Cons y xs)
  obtain k x where y: "y = (k, x)" by (cases y)
  from Cons.prems(1)[unfolded y resolve_chunks.simps] show ?case
  proof (cases rule: bindR_cases)
    case (Err e)
    then show ?thesis using resolve_entities_at Cons.prems(2) by blast
  next
    case (Ok e rs1)
    obtain keys ents n where e: "e = (keys, ents, n)" by (cases e)
    have at1: "resolver_at rs1 target" using resolve_entities_at[OF Ok(1) Cons.prems(2)] .
    from Ok(2)[unfolded e prod.case] show ?thesis
    proof (cases rule: bindR_cases)
      case (Err e)
      then show ?thesis using resolve_relations_at at1 by blast
    next
      case (Ok f rs2)
      obtain rels m where f: "f = (rels, m)" by (cases f)
      have at2: "resolver_at rs2 target" using resolve_relations_at[OF Ok(1) at1] .
      from Ok(2)[unfolded f prod.case] show ?thesis
      proof (cases rule: bindR_cases)
        case (Err e)
        then show ?thesis using Cons.IH[OF Err(1) at2] by auto
      next
        case (Ok g rs3)
        then show ?thesis using Cons.IH[OF Ok(1) at2] y by (auto split: prod.splits)
      qed
    qed
  qed
qed auto

lemma resolve_source_knowledge_at:
  assumes "resolve_source_knowledge env d prepared ds target rs = (r, rs')" "resolver_at rs target"
  shows "resolver_at rs' target" "r = Inr plan \<Longrightarrow> sp_prepared plan = prepared \<and> map cp_chunk_id (sp_chunk_plans plan) = map fst (ps_extractions prepared)"
  using assms unfolding resolve_source_knowledge_def
  by (auto elim!: bindR_cases dest!: resolve_chunks_at split: prod.splits)


subsection \<open>Work items\<close>

text \<open>Every read of the preparation sees one state of the tables: nothing else writes the dataset.\<close>

definition reads_of :: "kdb \<Rightarrow> cognify_reads" where
  "reads_of d = \<lparr>rd_dataset = d, rd_select = d, rd_decide = (\<lambda>_. d), rd_resolve = (\<lambda>_. d)\<rparr>"

lemma doc_core_in: "x \<in> set (kb_documents d) \<Longrightarrow> doc_core x \<in> docs d"
  by (simp add: docs_def)

lemma get_document_mem:
  "get_document_for_source_generation k g d = Some x \<Longrightarrow>
   x \<in> set (kb_documents d) \<and> doc_source_id x = k \<and> doc_generation x = g \<and> doc_is_active x"
proof -
  let ?key = "\<lambda>x. (- doc_created_at x, doc_id x)"
  let ?xs = "filter (\<lambda>x. doc_source_id x = k \<and> doc_generation x = g \<and> doc_is_active x) (kb_documents d)"
  assume "get_document_for_source_generation k g d = Some x"
  then obtain ys where "sort_key ?key ?xs = x # ys"
    by (auto simp: get_document_for_source_generation_def split: list.splits)
  then have "x \<in> set (sort_key ?key ?xs)" by (simp only: list.set_intros)
  then show ?thesis by simp
qed

lemma source_dataset_unique:
  assumes "keyed src_id (kb_sources d)" "kb_source k d = Some s" "(k, e) \<in> srcs d"
  shows "src_dataset_id s = e"
proof -
  obtain y where y: "y \<in> set (kb_sources d)" "src_id y = k" "src_dataset_id y = e" using assms(3) by (auto simp: srcs_def)
  then have "kb_source k d = Some y" using row_get_keyed[OF assms(1) y(1)] by (simp add: kb_source_def)
  then show ?thesis using assms(2) y(3) by simp
qed

lemma decide_fits:
  assumes "decide_source_work_item env ds k target allow rebuild d = Inr dec" "sd_work_item dec = Some wi" "tables_ok d"
  shows "wi_dataset_id wi = dataset_id ds" "wi_source_id wi = k" "wi_generation wi = target" "(k, dataset_id ds) \<in> srcs d"
    "case wi_document_to_create wi of
       Some y \<Rightarrow> doc_core y = (wi_document_id wi, dataset_id ds, k, target, True)
     | None \<Rightarrow> (wi_document_id wi, dataset_id ds, k, target, True) \<in> docs d"
    "\<And>c. c \<in> set (wi_chunks_to_extract wi) \<Longrightarrow> \<exists>x. (cs_id c, dataset_id ds, x, k, target, True) \<in> chs d"
proof -
  have K: "keyed src_id (kb_sources d)" and pl: "placed d" using assms(3) by (simp_all add: tables_ok_def kdb_keyed_def)
  obtain s where s: "kb_source k d = Some s" "src_dataset_id s = dataset_id ds"
    using assms(1) by (auto simp: decide_source_work_item_def split: option.splits if_splits)
  obtain x y where doc: "resolve_target_generation_document env ds s target rebuild d = (Some x, y)"
    using assms(1) s by (auto simp: decide_source_work_item_def Let_def split: prod.splits option.splits)
  define chunks where "chunks = list_chunks_for_source_generation k target d"
  have wi: "wi_dataset_id wi = dataset_id ds" "wi_source_id wi = k" "wi_generation wi = target" "wi_document_id wi = doc_id x"
    "wi_document_to_create wi = y"
    "wi_chunks_to_extract wi = map chunk_snapshot_of (filter (\<lambda>c. \<not> is_chunk_knowledge_extracted (ch_metadata c)) chunks)"
    using assms(1,2) s doc by (auto simp: decide_source_work_item_def Let_def chunks_def split: if_splits)
  show "wi_dataset_id wi = dataset_id ds" "wi_source_id wi = k" "wi_generation wi = target" by (fact wi)+
  have sk: "src_id s = k" "s \<in> set (kb_sources d)" using kb_SomeD(1)[OF s(1)] by auto
  show ks: "(k, dataset_id ds) \<in> srcs d" using sk s(2) by (force simp: srcs_def)
  have found: "doc_core z = (doc_id z, dataset_id ds, k, g, True) \<and> doc_core z \<in> docs d"
    if "get_document_for_source_generation k g d = Some z" for z g
  proof -
    note z = get_document_mem[OF that]
    have m: "doc_core z \<in> docs d" using z by (simp add: docs_def)
    then have "(doc_source_id z, doc_dataset_id z) \<in> srcs d" using pl unfolding placed_def doc_core_def by blast
    then have "doc_dataset_id z = dataset_id ds" using source_dataset_unique[OF K s(1)] z s(2) by auto
    then show ?thesis using z m by (simp add: doc_core_def)
  qed
  show "case wi_document_to_create wi of
       Some y \<Rightarrow> doc_core y = (wi_document_id wi, dataset_id ds, k, target, True)
     | None \<Rightarrow> (wi_document_id wi, dataset_id ds, k, target, True) \<in> docs d"
  proof (cases "get_document_for_source_generation k target d")
    case (Some z)
    then have "x = z" "y = None" using doc sk(1) by (auto simp: resolve_target_generation_document_def)
    then show ?thesis using found[OF Some] wi(4,5) by (metis option.case(1))
  next
    case None
    then have "y = Some x" "doc_core x = (doc_id x, dataset_id ds, k, target, True)"
      using doc sk(1) by (auto simp: resolve_target_generation_document_def Let_def doc_core_def split: if_splits option.splits)
    then show ?thesis using wi(4,5) by simp
  qed
  fix c assume "c \<in> set (wi_chunks_to_extract wi)"
  then obtain r where r: "r \<in> set chunks" "cs_id c = ch_id r" unfolding wi(6) by (auto simp: chunk_snapshot_of_def)
  then have r': "ch_core r \<in> chs d" "ch_source_id r = k" "ch_generation r = target" "ch_is_active r"
    by (auto simp: chunks_def list_chunks_for_source_generation_def chs_def)
  then obtain b where "(ch_document_id r, ch_dataset_id r, k, target, b) \<in> docs d"
    using pl unfolding placed_def ch_core_def by blast
  then have "(k, ch_dataset_id r) \<in> srcs d" using pl unfolding placed_def by blast
  then have "ch_dataset_id r = dataset_id ds" using source_dataset_unique[OF K s(1)] s(2) by auto
  then show "\<exists>x. (cs_id c, dataset_id ds, x, k, target, True) \<in> chs d" using r' r(2) by (auto simp: ch_core_def)
qed

lemma prepare_source_ids:
  assumes "prepare_source env cl wi = Inr p"
  shows "ps_work_item p = wi" "fst ` set (ps_extractions p) \<subseteq> tc_id ` set (ps_new_chunks p) \<union> cs_id ` set (wi_chunks_to_extract wi)"
proof -
  show "ps_work_item p = wi"
    using assms by (auto simp: prepare_source_def Let_def bindE_eq_Inr_iff split: if_splits)
  have sub: "fst ` set (zip xs ys) \<subseteq> set xs" for xs :: "uuid list" and ys :: "chunk_extraction list"
    by (auto dest: set_zip_leftD)
  show "fst ` set (ps_extractions p) \<subseteq> tc_id ` set (ps_new_chunks p) \<union> cs_id ` set (wi_chunks_to_extract wi)"
  proof (cases "wi_existing_chunks wi = []")
    case True
    then obtain cs exs where "ps_new_chunks p = cs" "ps_extractions p = zip (map cs_id (map chunk_snapshot_from_text_chunk cs)) exs"
      using assms by (auto simp: prepare_source_def Let_def bindE_eq_Inr_iff split: if_splits prod.splits)
    moreover have "map cs_id (map chunk_snapshot_from_text_chunk cs) = map tc_id cs" by (simp add: chunk_snapshot_from_text_chunk_def)
    ultimately have e: "ps_extractions p = zip (map tc_id cs) exs" "ps_new_chunks p = cs" by (simp_all only:)
    show ?thesis unfolding e using sub[of "map tc_id cs" exs] by (simp only: set_map) blast
  next
    case False
    then obtain exs where "ps_extractions p = zip (map cs_id (wi_chunks_to_extract wi)) exs"
      using assms by (auto simp: prepare_source_def Let_def bindE_eq_Inr_iff split: if_splits)
    then show ?thesis using sub[of "map cs_id (wi_chunks_to_extract wi)" exs] by auto
  qed
qed

lemma prepare_sources_fit:
  assumes "prepare_sources env cl (reads_of d) ds target allow rebuild ks rs = (Inr (plans, act, failed), rs')"
    "resolver_at rs target" "tables_ok d"
  shows "resolver_at rs' target \<and> (\<forall>p \<in> set plans. plan_fits (dataset_id ds) target p d)"
  using assms(1,2)
proof (induction ks arbitrary: rs plans act failed)
  case (Cons k ks)
  obtain dec where dec: "decide_source_work_item env ds k target allow rebuild d = Inr dec"
    using Cons.prems(1) by (auto simp: reads_of_def split: sum.splits)
  define outcome where "outcome = (case sd_work_item dec of None \<Rightarrow> (Inr None, rs)
    | Some wi \<Rightarrow> bindR (prepare_source env cl wi, rs) (\<lambda>prepared rs0.
        bindR (resolve_source_knowledge env d prepared (dataset_id ds) target rs0) (\<lambda>plan rs1. (Inr (Some plan), rs1))))"
  have at: "resolver_at rs1 target \<and> (\<forall>p. r = Inr (Some p) \<longrightarrow> plan_fits (dataset_id ds) target p d)" if o: "outcome = (r, rs1)" for r rs1
  proof (cases "sd_work_item dec")
    case None
    then show ?thesis using o Cons.prems(2) by (auto simp: outcome_def)
  next
    case (Some wi)
    note W = decide_fits[OF dec Some assms(3)]
    show ?thesis
    proof (cases "prepare_source env cl wi")
      case (Inl e)
      then show ?thesis using o Some Cons.prems(2) by (auto simp: outcome_def bindR_def)
    next
      case (Inr prepared)
      note P = prepare_source_ids[OF Inr]
      obtain m rs2 where m: "resolve_source_knowledge env d prepared (dataset_id ds) target rs = (m, rs2)"
        by (cases "resolve_source_knowledge env d prepared (dataset_id ds) target rs")
      note R = resolve_source_knowledge_at[OF m Cons.prems(2)]
      have rr: "rs1 = rs2" "r = Inr (Some p) \<Longrightarrow> m = Inr p" for p
        using o Some Inr m by (auto simp: outcome_def bindR_def split: sum.splits)
      have "plan_fits (dataset_id ds) target p d" if "r = Inr (Some p)" for p
      proof -
        have S: "sp_prepared p = prepared" "map cp_chunk_id (sp_chunk_plans p) = map fst (ps_extractions prepared)"
          using R(2)[OF rr(2)[OF that]] by auto
        have ids: "cp_chunk_id ` set (sp_chunk_plans p) = fst ` set (ps_extractions prepared)" using S(2) by (metis set_map)
        have "cp_chunk_id q \<in> tc_id ` set (ps_new_chunks prepared) \<or> (\<exists>x. (cp_chunk_id q, dataset_id ds, x, k, target, True) \<in> chs d)"
          if "q \<in> set (sp_chunk_plans p)" for q
        proof -
          have "cp_chunk_id q \<in> cp_chunk_id ` set (sp_chunk_plans p)" using that by (rule imageI)
          then have "cp_chunk_id q \<in> tc_id ` set (ps_new_chunks prepared) \<union> cs_id ` set (wi_chunks_to_extract wi)"
            unfolding ids using P(2) by (rule rev_subsetD)
          then show ?thesis using W(6) by auto
        qed
        then show ?thesis unfolding plan_fits_def Let_def S(1) P(1) W(1,2,3) using W(4,5) by (intro conjI ballI) simp_all
      qed
      then show ?thesis using R(1) rr(1) by blast
    qed
  qed
  have sel: "rd_decide (reads_of d) k = d" "rd_resolve (reads_of d) k = d" by (simp_all add: reads_of_def)
  have step: "prepare_sources env cl (reads_of d) ds target allow rebuild (k # ks) rs =
     (case outcome of
        (Inr plan, rs') \<Rightarrow> bindR (prepare_sources env cl (reads_of d) ds target allow rebuild ks rs')
          (\<lambda>(plans, act, failed) rs''. (Inr ((case plan of None \<Rightarrow> plans | Some p \<Rightarrow> p # plans), (if sd_activate dec then [k] else []) @ act, failed), rs''))
      | (Inl e, rs') \<Rightarrow> if e = dependency_unavailable_error \<or> \<not> is_sofias_error e then (Inl e, rs')
          else bindR (prepare_sources env cl (reads_of d) ds target allow rebuild ks rs')
            (\<lambda>(plans, act, failed) rs''. (Inr (plans, (if sd_activate dec then [k] else []) @ act, k # failed), rs'')))"
    by (simp only: prepare_sources.simps sel dec sum.case Let_def outcome_def)
  obtain r rs1 where o: "outcome = (r, rs1)" by (cases outcome)
  note A = at[OF o]
  define more_sources where "more_sources = prepare_sources env cl (reads_of d) ds target allow rebuild ks rs1"
  have split: "\<exists>f. bindR more_sources f = (Inr (plans, act, failed), rs')
      \<and> (\<forall>ps a fl rs2. fst (f (ps, a, fl) rs2) = Inr (plans, act, failed) \<longrightarrow> plans = ps \<or> (\<exists>p. r = Inr (Some p) \<and> plans = p # ps))
      \<and> (\<forall>x rs2. snd (f x rs2) = rs2)"
  proof (cases r)
    case (Inl e)
    define f :: "source_plan list \<times> uuid list \<times> uuid list \<Rightarrow> resolver \<Rightarrow> (source_plan list \<times> uuid list \<times> uuid list) resolving"
      where "f = (\<lambda>(plans, act, failed) rs''. (Inr (plans, (if sd_activate dec then [k] else []) @ act, k # failed), rs''))"
    have "bindR more_sources f = (Inr (plans, act, failed), rs')"
      using Cons.prems(1) unfolding step o more_sources_def f_def Inl by (simp split: if_splits)
    moreover have "\<forall>ps a fl rs2. fst (f (ps, a, fl) rs2) = Inr (plans, act, failed) \<longrightarrow> plans = ps \<or> (\<exists>p. r = Inr (Some p) \<and> plans = p # ps)"
      "\<forall>x rs2. snd (f x rs2) = rs2" by (auto simp: f_def)
    ultimately show ?thesis by blast
  next
    case (Inr plan)
    define f :: "source_plan list \<times> uuid list \<times> uuid list \<Rightarrow> resolver \<Rightarrow> (source_plan list \<times> uuid list \<times> uuid list) resolving"
      where "f = (\<lambda>(plans, act, failed) rs''. (Inr ((case plan of None \<Rightarrow> plans | Some p \<Rightarrow> p # plans),
        (if sd_activate dec then [k] else []) @ act, failed), rs''))"
    have "bindR more_sources f = (Inr (plans, act, failed), rs')"
      using Cons.prems(1) unfolding step o more_sources_def f_def Inr by simp
    moreover have "\<forall>ps a fl rs2. fst (f (ps, a, fl) rs2) = Inr (plans, act, failed) \<longrightarrow> plans = ps \<or> (\<exists>p. r = Inr (Some p) \<and> plans = p # ps)"
      "\<forall>x rs2. snd (f x rs2) = rs2" using Inr by (auto simp: f_def split: option.splits)
    ultimately show ?thesis by blast
  qed
  obtain f where f: "bindR more_sources f = (Inr (plans, act, failed), rs')"
    "\<forall>ps a fl rs2. fst (f (ps, a, fl) rs2) = Inr (plans, act, failed) \<longrightarrow> plans = ps \<or> (\<exists>p. r = Inr (Some p) \<and> plans = p # ps)"
    "\<forall>x rs2. snd (f x rs2) = rs2" using split by blast
  obtain plans1 act1 failed1 where rest: "prepare_sources env cl (reads_of d) ds target allow rebuild ks rs1 = (Inr (plans1, act1, failed1), rs')"
    "plans = plans1 \<or> (\<exists>p. r = Inr (Some p) \<and> plans = p # plans1)"
    using f(1)
  proof (cases rule: bindR_cases)
    case (Ok x rs2)
    obtain ps a fl where x: "x = (ps, a, fl)" by (cases x)
    have "rs2 = rs'" "fst (f (ps, a, fl) rs2) = Inr (plans, act, failed)" using Ok(2) f(3) x by (metis snd_conv, simp)
    then show ?thesis using Ok(1) f(2) x that[of ps a fl] unfolding more_sources_def by blast
  qed simp
  show ?case using Cons.IH[OF rest(1) conjunct1[OF A]] A rest(2) by auto
qed (auto simp: resolver_at_def)


subsection \<open>Persisting the batch\<close>

lemma put_source_active_ok:
  assumes "tables_ok d" "graph_supported ds d" "kb_source k d = Some s"
  shows "tables_ok (put_source (s\<lparr>src_status := Source_ACTIVE\<rparr>) d)" "graph_supported ds (put_source (s\<lparr>src_status := Source_ACTIVE\<rparr>) d)"
    "grows d (put_source (s\<lparr>src_status := Source_ACTIVE\<rparr>) d)"
proof -
  let ?d = "put_source (s\<lparr>src_status := Source_ACTIVE\<rparr>) d"
  have K: "keyed src_id (kb_sources d)" using assms(1) by (simp add: tables_ok_def kdb_keyed_def)
  note S = srcs_put_source[OF K assms(3)]
  have same: "docs ?d = docs d" "chs ?d = chs d" "ents ?d = ents d" "rels ?d = rels d" "ments ?d = ments d" "evs ?d = evs d"
    by (simp_all add: put_source_def docs_def chs_def)
  have kk: "kdb_keyed ?d" using assms(1) by (simp add: tables_ok_def kdb_keyed_def put_source_def)
  show "grows d ?d" unfolding grows_def same S by (auto simp: put_source_def)
  show t: "tables_ok ?d" using assms(1) kk unfolding tables_ok_def placed_def same S(1) by blast
  have "graph_ok (dataset_id ds) (dataset_active_generation ds) (authority ds (chs d) (docs d) (active_srcs d)) d"
    using assms(2) graph_supported_ok[OF assms(1)] by simp
  moreover have "authority ds (chs d) (docs d) (active_srcs d) \<subseteq> authority ds (chs d) (docs d) (active_srcs ?d)"
    by (rule authority_mono) (use S(2) in auto)
  ultimately show "graph_supported ds ?d"
    unfolding graph_supported_ok[OF t] same graph_ok_put by (rule graph_ok_more)
qed

lemma set_source_active_ok:
  assumes "tables_ok d" "graph_supported ds d"
  shows "tables_ok (set_source_status Source_ACTIVE k d) \<and> graph_supported ds (set_source_status Source_ACTIVE k d)
    \<and> grows d (set_source_status Source_ACTIVE k d)"
  using assms put_source_active_ok by (simp add: set_source_status_def split: option.split)

lemma activate_sources_ok:
  "tables_ok d \<Longrightarrow> graph_supported ds d \<Longrightarrow>
   tables_ok (fold (set_source_status Source_ACTIVE) ks d) \<and> graph_supported ds (fold (set_source_status Source_ACTIVE) ks d)
   \<and> grows d (fold (set_source_status Source_ACTIVE) ks d)"
proof (induction ks arbitrary: d)
  case (Cons k ks)
  note step = set_source_active_ok[OF Cons.prems, of k]
  show ?case using Cons.IH[of "set_source_status Source_ACTIVE k d"] step grows_trans by auto
qed simp

lemma persist_sources_count:
  "persist_sources env b plans totals d = Inr ((t, n), d') \<Longrightarrow> n \<le> snd totals + length plans"
proof (induction plans arbitrary: totals d)
  case (Cons p plans)
  show ?case
  proof (cases "persist_source_plan env b p d")
    case (Inl e)
    then have "persist_sources env b plans totals (mark_source_failed (wi_source_id (ps_work_item (sp_prepared p))) d) = Inr ((t, n), d')"
      using Cons.prems by (simp split: if_splits)
    then show ?thesis using Cons.IH by fastforce
  next
    case (Inr r)
    then obtain totals1 d1 where "persist_sources env b plans totals1 d1 = Inr ((t, n), d')" "snd totals1 = Suc (snd totals)"
      using Cons.prems by (cases r) auto
    then show ?thesis using Cons.IH by fastforce
  qed
qed simp

lemma persist_sources_ok:
  assumes "persist_sources env b plans totals d = Inr ((t, n), d')" "n = snd totals + length plans" "tables_ok d" "graph_supported ds d"
    "dataset_status ds = Dataset_ACTIVE" "plans_at b target" "\<forall>p \<in> set plans. plan_fits (dataset_id ds) target p d"
  shows "tables_ok d' \<and> graph_supported ds d' \<and> grows d d'"
  using assms(1-4,7)
proof (induction plans arbitrary: totals d)
  case (Cons p plans)
  show ?case
  proof (cases "persist_source_plan env b p d")
    case (Inl e)
    then have "persist_sources env b plans totals (mark_source_failed (wi_source_id (ps_work_item (sp_prepared p))) d) = Inr ((t, n), d')"
      using Cons.prems(1) by (simp split: if_splits)
    then show ?thesis using persist_sources_count Cons.prems(2) by fastforce
  next
    case (Inr r)
    obtain c d1 where r: "r = (c, d1)" by (cases r)
    have ok: "persist_source_plan env b p d = Inr (c, d1)" "plan_fits (dataset_id ds) target p d" using Inr r Cons.prems(5) by simp_all
    note step = persist_source_plan_ok[OF ok(1) Cons.prems(3,4) assms(5,6) ok(2)]
    define totals1 where "totals1 = (\<lparr>pc_chunks = pc_chunks (fst totals) + pc_chunks c, pc_entities = pc_entities (fst totals) + pc_entities c,
      pc_relations = pc_relations (fst totals) + pc_relations c\<rparr>, Suc (snd totals))"
    have rest: "persist_sources env b plans totals1 d1 = Inr ((t, n), d')" "n = snd totals1 + length plans"
      using Cons.prems(1,2) ok(1) by (simp_all add: totals1_def)
    have "\<forall>q \<in> set plans. plan_fits (dataset_id ds) target q d1" using Cons.prems(5) plan_fits_grows[OF _ step(3)] by auto
    then show ?thesis using Cons.IH[OF rest step(1,2)] grows_trans[OF step(3)] by blast
  qed
qed simp

lemma prepare_batch_parts:
  assumes "prepare_batch env cl (reads_of d) k source_ids rebuild = Inr b"
  obtains ds target rs where "kb_dataset k d = Some ds" "dataset_status ds = Dataset_ACTIVE" "dataset_id ds = k"
    "target = (if rebuild then dataset_active_generation ds + 1 else dataset_active_generation ds)"
    "cb_target_generation b = target" "cb_dataset_id b = k" "cb_rebuild b = rebuild"
    "\<exists>selected. prepare_sources env cl (reads_of d) ds target (rebuild \<or> source_ids \<noteq> None) rebuild selected empty_resolver
      = (Inr (cb_sources b, cb_sources_to_activate b, cb_failed_source_ids b), rs)"
    "cb_entity_plans b = rs_entities rs" "cb_relation_plans b = rs_relations rs"
proof -
  obtain ds where ds: "kb_dataset k d = Some ds" "dataset_status ds = Dataset_ACTIVE"
    using assms by (auto simp: prepare_batch_def load_dataset_snapshot_def reads_of_def split: option.splits if_splits)
  have "rd_dataset (reads_of d) = d" by (simp add: reads_of_def)
  then have load: "load_dataset_snapshot k (rd_dataset (reads_of d)) = Inr ds" using ds by (simp add: load_dataset_snapshot_def)
  define target where "target = (if rebuild then dataset_active_generation ds + 1 else dataset_active_generation ds)"
  obtain sel where sel: "select_source_ids ds source_ids rebuild (rd_select (reads_of d)) = Inr sel"
    using assms load by (cases "select_source_ids ds source_ids rebuild (rd_select (reads_of d))") (simp_all add: prepare_batch_def Let_def)
  obtain r rs where r: "prepare_sources env cl (reads_of d) ds target (rebuild \<or> source_ids \<noteq> None) rebuild sel empty_resolver = (r, rs)"
    by (cases "prepare_sources env cl (reads_of d) ds target (rebuild \<or> source_ids \<noteq> None) rebuild sel empty_resolver")
  obtain x where x: "r = Inr x" using assms load sel r by (cases r) (simp_all add: prepare_batch_def Let_def target_def)
  obtain plans act failed where xx: "x = (plans, act, failed)" by (cases x)
  have b: "b = \<lparr>cb_dataset_id = dataset_id ds, cb_target_generation = target, cb_rebuild = rebuild, cb_sources = plans,
    cb_sources_to_activate = act, cb_failed_source_ids = failed, cb_entity_plans = rs_entities rs, cb_relation_plans = rs_relations rs\<rparr>"
    using assms load sel r x xx by (simp add: prepare_batch_def Let_def target_def)
  show thesis
    by (rule that[of ds target rs]) (use ds kb_SomeD(6)[OF ds(1)] b r x xx in \<open>auto simp: target_def\<close>)
qed

lemma persist_batch_ok:
  assumes "prepare_batch env cl (reads_of d) k source_ids rebuild = Inr b" "persist_batch env b d = Inr (o1, d')"
    "co_sources_processed o1 = length (cb_sources b)" "cb_failed_source_ids b = []"
    "tables_ok d" "kb_dataset k d = Some ds" "graph_supported ds d"
  shows "tables_ok d' \<and> graph_supported ds d' \<and> grows d d'"
proof -
  obtain ds0 target rs where q: "kb_dataset k d = Some ds0" "dataset_status ds0 = Dataset_ACTIVE" "dataset_id ds0 = k"
    "target = (if rebuild then dataset_active_generation ds0 + 1 else dataset_active_generation ds0)"
    "cb_target_generation b = target" "cb_dataset_id b = k" "cb_rebuild b = rebuild"
    "\<exists>sel. prepare_sources env cl (reads_of d) ds0 target (rebuild \<or> source_ids \<noteq> None) rebuild sel empty_resolver
      = (Inr (cb_sources b, cb_sources_to_activate b, cb_failed_source_ids b), rs)"
    "cb_entity_plans b = rs_entities rs" "cb_relation_plans b = rs_relations rs"
    by (rule prepare_batch_parts[OF assms(1)])
  have same: "ds0 = ds" using q(1) assms(6) by simp
  note p = q(2,3,8-10)[unfolded same]
  obtain sel where sel: "prepare_sources env cl (reads_of d) ds target (rebuild \<or> source_ids \<noteq> None) rebuild sel empty_resolver
      = (Inr (cb_sources b, cb_sources_to_activate b, cb_failed_source_ids b), rs)" using p(3) by blast
  have "resolver_at empty_resolver target" by (simp add: resolver_at_def empty_resolver_def)
  note fit = prepare_sources_fit[OF sel this assms(5)]
  have at: "plans_at b target" using fit p(4,5) by (simp add: plans_at_def resolver_at_def)
  obtain t n d1 where s: "persist_sources env b (cb_sources b) (\<lparr>pc_chunks = 0, pc_entities = 0, pc_relations = 0\<rparr>, 0) d = Inr ((t, n), d1)"
    "n = co_sources_processed o1" "d' = fold (set_source_status Source_ACTIVE) (cb_sources_to_activate b) d1"
    using assms(2,4) by (auto simp: persist_batch_def bindE_eq_Inr_iff Let_def)
  have "tables_ok d1 \<and> graph_supported ds d1 \<and> grows d d1"
    by (rule persist_sources_ok[OF s(1) _ assms(5,7) p(1) at]) (use s(2) assms(3) fit in auto)
  then show ?thesis unfolding s(3) using activate_sources_ok grows_trans by blast
qed

end
