(* ===== verification/Cognify_Properties.thy ===== *)
theory Cognify_Properties
  imports Cognify_Batch
begin

text \<open>
  The properties of cognify: what a batch keeps of the knowledge graph, what it never rewrites, and
  how the generations of a rebuild behave.
\<close>

text \<open>C23: a cognify batch none of whose sources fails, prepared and persisted with nothing else writing the dataset,
  keeps the tables consistent and the graph supported, normal run or rebuild: every current relation
  has evidence in an authoritative chunk and every current entity a mention there or a current relation,
  and every piece of evidence is grounded in mentions of both endpoints, which is what a later forget relies on.\<close>

theorem cognify_keeps_graph_supported:
  assumes "prepare_batch env cl (reads_of d) k source_ids rebuild = Inr b" "persist_batch env b d = Inr (o1, d')"
    "co_sources_processed o1 = length (cb_sources b)" "cb_failed_source_ids b = []"
    "tables_ok d" "kb_dataset k d = Some ds" "graph_supported ds d"
  shows "tables_ok d' \<and> graph_supported ds d' \<and> evidence_grounded d' \<and> chunks_consistent d'"
proof -
  have "tables_ok d' \<and> graph_supported ds d'" using persist_batch_ok[OF assms] by blast
  then show ?thesis using grounded_if_linked tables_chunks_consistent unfolding tables_ok_def by blast
qed


subsection \<open>The projection commands of a source are well formed\<close>

definition commands_ok :: "addressed_command list \<Rightarrow> bool" where
  "commands_ok cs \<longleftrightarrow> (\<forall>ac \<in> set cs. conforming (snd ac))"

definition state_ok :: "persist_state \<Rightarrow> bool" where
  "state_ok st \<longleftrightarrow> commands_ok (ps_entity_commands st @ ps_mention_commands st @ ps_relation_commands st)"

lemma set_dict_put: "set (dict_put k v kvs) \<subseteq> insert (k, v) (set kvs)"
  by (induction k v kvs rule: dict_put.induct) auto

lemma commands_ok_put: "commands_ok cs \<Longrightarrow> conforming c \<Longrightarrow> commands_ok (dict_put k c cs)"
  using set_dict_put[of k c cs] by (auto simp: commands_ok_def)

lemma commands_ok_append [simp]: "commands_ok (xs @ ys) \<longleftrightarrow> commands_ok xs \<and> commands_ok ys"
  by (auto simp: commands_ok_def)

lemma upserts_conform:
  "conforming (entity_upsert_of e)" "conforming (relation_upsert_of r)" "conforming (chunk_upsert_of c)"
  "conforming (entity_mention_upsert_command (uuid_text i) (uuid_text j) (uuid_text l) (uuid_text m) q)"
  "conforming (chunk_next_upsert_command (uuid_text i) (uuid_text j) (uuid_text l))"
proof -
  note B = builders_conforming[OF uuid_text_nonempty uuid_text_nonempty uuid_text_nonempty uuid_text_nonempty, THEN bspec]
  show "conforming (entity_upsert_of e)" unfolding entity_upsert_of_def
    by (rule B[of _ "ent_id e" "ent_dataset_id e" 0 0 "ent_name e" "ent_entity_type e" "ent_description e" "ent_importance_weight e" 0 0 "ent_generation e"])
      (simp add: built_commands_def)
  show "conforming (relation_upsert_of r)" unfolding relation_upsert_of_def
    by (rule B[of _ "rel_id r" "rel_dataset_id r" "rel_source_entity_id r" "rel_target_entity_id r" "rel_predicate r" "[]" "rel_description r"
          "rel_confidence r" "rel_importance_weight r" 0 "rel_generation r"]) (simp add: built_commands_def)
  show "conforming (chunk_upsert_of c)" unfolding chunk_upsert_of_def
    by (rule B[of _ "ch_id c" "ch_dataset_id c" "ch_source_id c" "ch_document_id c" "[]" "[]" "[]" 0 0 "ch_ordinal c" "ch_generation c"])
      (simp add: built_commands_def)
  show "conforming (entity_mention_upsert_command (uuid_text i) (uuid_text j) (uuid_text l) (uuid_text m) q)"
    by (rule B[of _ i j l m "[]" "[]" "[]" q 0 0 0]) (simp add: built_commands_def)
  show "conforming (chunk_next_upsert_command (uuid_text i) (uuid_text j) (uuid_text l))"
    by (rule B[of _ i i j l "[]" "[]" "[]" 0 0 0 0]) (simp add: built_commands_def)
qed

lemma persist_entity_state: "persist_entity env b ds c key x st = Inr (e, st') \<Longrightarrow> state_ok st \<Longrightarrow> state_ok st'"
  by (auto simp: persist_entity_def Let_def bindE_eq_Inr_iff state_ok_def commands_ok_put upserts_conform split: option.splits if_splits)

lemma persist_entities_state: "persist_entities env b ds c xs ids st = Inr (ids', st') \<Longrightarrow> state_ok st \<Longrightarrow> state_ok st'"
proof (induction xs arbitrary: ids st)
  case (Cons y xs)
  then show ?case by (cases y) (auto simp: bindE_eq_Inr_iff dest: persist_entity_state)
qed simp

lemma persist_relation_state: "persist_relation env b c ids identity x st = Inr st' \<Longrightarrow> state_ok st \<Longrightarrow> state_ok st'"
  by (auto simp: persist_relation_def Let_def bindE_eq_Inr_iff state_ok_def commands_ok_put upserts_conform split: option.splits if_splits)

lemma persist_relations_state: "persist_relations env b c ids xs st = Inr st' \<Longrightarrow> state_ok st \<Longrightarrow> state_ok st'"
proof (induction xs arbitrary: st)
  case (Cons y xs)
  then show ?case by (cases y) (auto simp: bindE_eq_Inr_iff dest: persist_relation_state)
qed simp

lemma persist_chunks_state: "persist_chunks env b ds ps st = Inr st' \<Longrightarrow> state_ok st \<Longrightarrow> state_ok st'"
proof (induction ps arbitrary: st)
  case (Cons p ps)
  have "state_ok st1" if q: "persist_chunk env b ds p st = Inr st1" for st1
  proof -
    obtain c ids st2 st3 where w: "persist_entities env b ds c (cp_entities p) (\<lambda>_. None) st = Inr (ids, st2)"
      "persist_relations env b c ids (cp_relations p) st2 = Inr st3"
      "ps_entity_commands st1 = ps_entity_commands st3" "ps_mention_commands st1 = ps_mention_commands st3"
      "ps_relation_commands st1 = ps_relation_commands st3"
      using q by (auto simp: persist_chunk_def bindE_eq_Inr_iff split: option.splits)
    have "state_ok st3" by (rule persist_relations_state[OF w(2) persist_entities_state[OF w(1) Cons.prems(2)]])
    then show ?thesis using w(3-5) by (simp add: state_ok_def)
  qed
  note step = this
  obtain st1 where s1: "persist_chunk env b ds p st = Inr st1" and rest: "persist_chunks env b ds ps st1 = Inr st'"
    using Cons.prems(1) by (auto simp: bindE_eq_Inr_iff)
  show ?case by (rule Cons.IH[OF rest step[OF s1]])
qed simp

lemma ordered_commands_subset: "set (ordered_projection_commands cs) \<subseteq> set cs"
proof -
  have "snd ` set (fold (\<lambda>c kvs. dict_put (forget_command_key c) c kvs) cs kvs) \<subseteq> set cs \<union> snd ` set kvs" for kvs
  proof (induction cs arbitrary: kvs)
    case (Cons c cs)
    have "snd ` set (dict_put (forget_command_key c) c kvs) \<subseteq> insert c (snd ` set kvs)"
      using image_mono[OF set_dict_put[of "forget_command_key c" c kvs], of snd] by simp
    then show ?case using Cons.IH[of "dict_put (forget_command_key c) c kvs"] by (simp only: fold_Cons comp_apply list.set) blast
  qed simp
  from this[of "[]"] show ?thesis by (simp add: ordered_projection_commands_def)
qed

lemma source_commands_ok:
  assumes "state_ok st"
  shows "commands_ok (source_projection_commands st chunks)"
proof -
  have "commands_ok (map (\<lambda>c. (ch_id c, chunk_upsert_of c)) chunks)" "commands_ok (chunk_next_projection_commands chunks)"
    by (auto simp: commands_ok_def upserts_conform chunk_next_projection_commands_def)
  then have "commands_ok (ps_entity_commands st @ map (\<lambda>c. (ch_id c, chunk_upsert_of c)) chunks @ ps_mention_commands st
      @ ps_relation_commands st @ chunk_next_projection_commands chunks)" using assms by (simp add: state_ok_def)
  then show ?thesis using ordered_commands_subset unfolding commands_ok_def source_projection_commands_def by blast
qed

lemma enqueue_conforming: "commands_ok cs \<Longrightarrow> \<exists>ks rows'. enqueue_commands next_id now ds cs rows = Inr (ks, rows')"
proof (induction cs arbitrary: rows)
  case (Cons ac cs)
  obtain aid c where ac: "ac = (aid, c)" by force
  obtain p where p: "to_payload c = Inr p" using Cons.prems parse_render[of c] ac by (auto simp: commands_ok_def)
  obtain rows1 where r: "add_projection_command (next_id rows) now ds aid c rows = Inr rows1" using p by (simp add: add_projection_command_def)
  obtain ks rows2 where "enqueue_commands next_id now ds cs rows1 = Inr (ks, rows2)"
    using Cons.IH[of rows1] Cons.prems by (auto simp: commands_ok_def)
  then show ?case using ac r by simp
qed simp

text \<open>So a source whose rows all go in commits: enqueueing its projection never fails.\<close>

lemma persist_source_plan_commits:
  assumes "kb_source (wi_source_id (ps_work_item (sp_prepared plan))) d = Some s" "source_document (sp_prepared plan) d = Inr (x, d1)"
    "source_chunks env (sp_prepared plan) x d1 = Inr (x2, d2)"
    "persist_chunks env b (wi_dataset_id (ps_work_item (sp_prepared plan))) (sp_chunk_plans plan) (initial_state d2) = Inr st"
    "source_summary env (sp_prepared plan) (ps_db st) = Inr d3"
  shows "\<exists>n d'. persist_source_plan env b plan d = Inr (n, d')"
proof -
  have "state_ok st" using persist_chunks_state[OF assms(4)] by (simp add: state_ok_def initial_state_def commands_ok_def)
  then have "\<exists>ks rows'. enqueue_commands (cg_outbox_id env) (cg_now env) (wi_dataset_id (ps_work_item (sp_prepared plan)))
      (source_projection_commands st chunks) rows = Inr (ks, rows')" for chunks rows
    using enqueue_conforming source_commands_ok by blast
  then show ?thesis using assms by (auto simp: persist_source_plan_def Let_def) (metis (no_types, lifting) bindE.simps(2) case_prod_conv)
qed

subsection \<open>A concrete run\<close>

definition demo_table :: text_tables where
  "demo_table = \<lparr>tt_nfkc = (\<lambda>s. s), tt_casefold = (\<lambda>s. s), tt_word = (\<lambda>c. True)\<rparr>"

definition demo_cognify_py :: py_env where
  "demo_cognify_py = \<lparr>sha256_hexdigest = (\<lambda>bs. []), float_repr = (\<lambda>_. [])\<rparr>"

definition demo_cenv :: cognify_env where
  "demo_cenv = \<lparr>cg_chunk = \<lparr>cke_py = demo_cognify_py, cke_uuid5 = (\<lambda>n s. 61), cke_encode = (\<lambda>s. Inr s)\<rparr>,
     cg_loader = \<lparr>ld_sha256 = (\<lambda>_. []), ld_lower = (\<lambda>s. s), ld_json_loads = (\<lambda>_. Inr JNull), ld_json_dumps = (\<lambda>_. []),
       ld_csv_rows = (\<lambda>_. None), ld_html_events = (\<lambda>_. None), ld_pdf = (\<lambda>_. None), ld_docx = (\<lambda>_. None)\<rparr>,
     cg_text = demo_table, cg_parse_uuid = (\<lambda>_. None), cg_now = 5, cg_chunk_max_tokens = 4, cg_chunk_overlap_tokens = 1,
     cg_chunk_min_tokens = 1, cg_embedding_dimensions = 1, cg_embedding_model = [], cg_llm_model = [], cg_config_fingerprint = [],
     cg_entity_id = (\<lambda>s. 70 + last s), cg_relation_id = (\<lambda>_. 80), cg_mention_id = (\<lambda>e c. 1000 * e + c), cg_outbox_id = (\<lambda>rows. length rows + 1)\<rparr>"

definition demo_xentity :: "nat \<Rightarrow> extracted_entity" where
  "demo_xentity n = \<lparr>xe_local_id = [n], xe_name = [n], xe_entity_type = [116], xe_description = [], xe_aliases = [], xe_confidence = 1\<rparr>"

definition demo_extraction :: chunk_extraction where
  "demo_extraction = \<lparr>kx_summary = [83], kx_entities = [demo_xentity 65, demo_xentity 66],
     kx_relations = [\<lparr>xr_source_local_id = [65], xr_target_local_id = [66], xr_predicate = [112], xr_description = [], xr_confidence = 1, xr_evidence = [65]\<rparr>]\<rparr>"

definition demo_clients :: cognify_clients where
  "demo_clients = \<lparr>cl_embed = (\<lambda>_ ts. Inr (map (\<lambda>_. [0]) ts)), cl_extract = (\<lambda>_ _ _. Inr demo_extraction), cl_first_failure = (\<lambda>_. 0),
     cl_summarize = (\<lambda>_ _. Inr [83]), cl_embed_summary = (\<lambda>_ _. Inr [[0]]), cl_read_source = (\<lambda>_. None)\<rparr>"

text \<open>The forget example with its second source still \<open>PENDING\<close>, and an entity of key \<open>t:A\<close> that an
  interrupted rebuild left in the next generation.\<close>

definition demo_pending_source :: source where
  "demo_pending_source = demo_source 4\<lparr>src_status := Source_PENDING\<rparr>"

definition demo_left :: entity where
  "demo_left = demo_entity 33\<lparr>ent_canonical_key := [116, 58, 65], ent_generation := 2\<rparr>"

definition demo_cdb :: kdb where
  "demo_cdb = demo_kdb\<lparr>kb_sources := [demo_source 3, demo_pending_source], kb_entities := [demo_entity 31, demo_entity 32, demo_left]\<rparr>"

lemma demo_rows [simp]:
  "src_id (demo_source k) = k" "src_dataset_id (demo_source k) = 7" "src_status (demo_source k) = Source_ACTIVE"
  "src_id demo_pending_source = 4" "src_dataset_id demo_pending_source = 7" "src_status demo_pending_source = Source_PENDING"
  "doc_id (demo_document k s) = k" "doc_dataset_id (demo_document k s) = 7" "doc_source_id (demo_document k s) = s"
  "doc_generation (demo_document k s) = 1" "doc_is_active (demo_document k s)" "doc_metadata (demo_document k s) = []"
  "doc_created_at (demo_document k s) = 0"
  "ch_id (demo_chunk k x s n) = k" "ch_dataset_id (demo_chunk k x s n) = 7" "ch_document_id (demo_chunk k x s n) = x"
  "ch_source_id (demo_chunk k x s n) = s" "ch_generation (demo_chunk k x s n) = 1" "ch_ordinal (demo_chunk k x s n) = n"
  "ch_is_active (demo_chunk k x s n)" "ch_metadata (demo_chunk k x s n) = []" "ch_text (demo_chunk k x s n) = [65]"
  "ent_id (demo_entity k) = k" "ent_dataset_id (demo_entity k) = 7" "ent_generation (demo_entity k) = 1"
  "ent_canonical_key (demo_entity k) = [k]" "ent_is_active (demo_entity k)"
  "ent_id demo_left = 33" "ent_dataset_id demo_left = 7" "ent_generation demo_left = 2" "ent_canonical_key demo_left = [116, 58, 65]"
  "ent_is_active demo_left" "ent_aliases demo_left = []" "ent_confidence demo_left = 1"
  "rel_id (demo_relation k a b) = k" "rel_source_entity_id (demo_relation k a b) = a" "rel_target_entity_id (demo_relation k a b) = b"
  "em_id (demo_mention k e c) = k" "em_entity_id (demo_mention k e c) = e" "em_chunk_id (demo_mention k e c) = c"
  "dataset_id demo_kdataset = 7" "dataset_status demo_kdataset = Dataset_ACTIVE" "dataset_active_generation demo_kdataset = 1"
  by (simp_all add: demo_source_def demo_pending_source_def demo_document_def demo_chunk_def demo_entity_def demo_left_def demo_relation_def
    demo_mention_def demo_kdataset_def)

lemma demo_tables [simp]:
  "kb_sources demo_cdb = [demo_source 3, demo_pending_source]" "kb_documents demo_cdb = [demo_document 11 3, demo_document 12 4]"
  "kb_chunks demo_cdb = [demo_chunk 21 11 3 0, demo_chunk 22 11 3 1, demo_chunk 23 12 4 0]"
  "kb_entities demo_cdb = [demo_entity 31, demo_entity 32, demo_left]"
  "kb_mentions demo_cdb = [demo_mention 51 31 21, demo_mention 52 32 21, demo_mention 53 31 23]"
  "kb_relations demo_cdb = [demo_relation 41 31 32]" "kb_summaries demo_cdb = []" "kb_dataset 7 demo_cdb = Some demo_kdataset"
  by (simp_all add: demo_cdb_def demo_kdb_def kb_dataset_def get_dataset_def row_get_def)

lemmas env_defs = demo_cenv_def demo_xentity_def demo_extraction_def demo_clients_def

lemmas text_defs = py_strip_def py_lstrip_def py_rstrip_def py_split_def py_space_def Let_def
lemma demo_keys:
  "canonical_entity_key demo_table [116] [65] = Inr [116,58,65]" "canonical_entity_key demo_table [116] [66] = Inr [116,58,66]"
  "normalize_relation_predicate demo_table [112] = [112]"
  by (simp_all add: canonical_entity_key_def normalize_identity_text_def normalize_relation_predicate_def demo_table_def
    strip_chars_def text_defs)

lemma reads_of_same: "rd_decide (reads_of d) k = d" "rd_resolve (reads_of d) k = d"  "rd_dataset (reads_of d) = d" "rd_select (reads_of d) = d"
  by (simp_all add: reads_of_def)

lemmas prepare_defs = prepare_batch_def load_dataset_snapshot_def select_source_ids_def reads_of_same decide_source_work_item_def kb_source_def row_get_def
  list_chunks_for_source_generation_def resolve_target_generation_document_def get_document_for_source_generation_def
  is_chunk_knowledge_extracted_def mget_def is_reset_document_def chunk_snapshot_of_def prepare_source_def bindR_def
  extract_chunk_knowledge_def client_result_def gather_def ordered_summaries_def summarize_document_def embed_document_summary_def
  validate_embeddings_def resolve_source_knowledge_def plan_entity_def plan_relation_def get_active_by_canonical_key_def demo_keys
  env_defs Let_def empty_resolver_def document_summary_id_def

lemma demo_persisted:
  "\<exists>b. prepare_batch demo_cenv demo_clients (reads_of demo_cdb) 7 (Some [4]) False = Inr b
     \<and> cb_failed_source_ids b = [] \<and> cb_sources_to_activate b = [] \<and> (\<exists>plan. cb_sources b = [plan]
       \<and> kb_source (wi_source_id (ps_work_item (sp_prepared plan))) demo_cdb = Some demo_pending_source
       \<and> source_document (sp_prepared plan) demo_cdb = Inr (demo_document 12 4, demo_cdb)
       \<and> source_chunks demo_cenv (sp_prepared plan) (demo_document 12 4) demo_cdb = Inr (demo_document 12 4, demo_cdb)
       \<and> (\<exists>st. persist_chunks demo_cenv b (wi_dataset_id (ps_work_item (sp_prepared plan))) (sp_chunk_plans plan) (initial_state demo_cdb) = Inr st
          \<and> (\<exists>d3. source_summary demo_cenv (sp_prepared plan) (ps_db st) = Inr d3)))"
  by (simp add: prepare_defs source_document_def source_chunks_def kb_document_def persist_chunk_def kb_chunk_def initial_state_def
    persist_entity_def apply_entity_plan_def put_entity_def row_put_def mention_exists_def mention_insert_def entity_mention_from_extraction_def
    persist_relation_def apply_relation_plan_def get_active_by_identity_def relation_insert_def entity_insert_def evidence_exists_def evidence_insert_def
    unit_interval_def source_summary_def kb_summary_def summary_insert_def put_chunk_def py_find_def)

lemma demo_cdb_ok: "tables_ok demo_cdb" "graph_supported demo_kdataset demo_cdb"
proof -
  have k: "kdb_keyed demo_cdb" by code_simp
  have w: "well_linked (ents demo_cdb) (rels demo_cdb) (ments demo_cdb) (evs demo_cdb)"
    by (auto simp: well_linked_def ents_def rels_def ments_def evs_def ent_core_def rel_core_def demo_cdb_def demo_kdb_def)
  have c: "canonical (ents demo_cdb)"
    by (auto simp: canonical_def ents_def ent_core_def)
  have p: "placed demo_cdb"
    by (auto simp: placed_def chs_def ch_core_def docs_def doc_core_def srcs_def)
  show "tables_ok demo_cdb" using k w c p by (simp add: tables_ok_def)
  show "graph_supported demo_kdataset demo_cdb" by code_simp
qed

lemma demo_cognify:
  "\<exists>b o1 d'. prepare_batch demo_cenv demo_clients (reads_of demo_cdb) 7 (Some [4]) False = Inr b
     \<and> persist_batch demo_cenv b demo_cdb = Inr (o1, d') \<and> co_sources_processed o1 = length (cb_sources b) \<and> cb_failed_source_ids b = []"
proof -
  obtain b plan st d3 where b: "prepare_batch demo_cenv demo_clients (reads_of demo_cdb) 7 (Some [4]) False = Inr b"
    "cb_failed_source_ids b = []" "cb_sources_to_activate b = []" "cb_sources b = [plan]"
    and p: "kb_source (wi_source_id (ps_work_item (sp_prepared plan))) demo_cdb = Some demo_pending_source"
      "source_document (sp_prepared plan) demo_cdb = Inr (demo_document 12 4, demo_cdb)"
      "source_chunks demo_cenv (sp_prepared plan) (demo_document 12 4) demo_cdb = Inr (demo_document 12 4, demo_cdb)"
      "persist_chunks demo_cenv b (wi_dataset_id (ps_work_item (sp_prepared plan))) (sp_chunk_plans plan) (initial_state demo_cdb) = Inr st"
      "source_summary demo_cenv (sp_prepared plan) (ps_db st) = Inr d3"
    using demo_persisted by blast
  obtain n d1 where "persist_source_plan demo_cenv b plan demo_cdb = Inr (n, d1)" using persist_source_plan_commits[OF p] by blast
  then have "\<exists>o1 d'. persist_batch demo_cenv b demo_cdb = Inr (o1, d') \<and> co_sources_processed o1 = 1"
    using b by (simp add: persist_batch_def Let_def)
  then show ?thesis using b by auto
qed

theorem cognify_keeps_graph_supported_witness:
  "\<exists>b o1 d'. prepare_batch demo_cenv demo_clients (reads_of demo_cdb) 7 (Some [4]) False = Inr b
     \<and> persist_batch demo_cenv b demo_cdb = Inr (o1, d') \<and> tables_ok d' \<and> graph_supported demo_kdataset d'"
  using demo_cognify cognify_keeps_graph_supported[OF _ _ _ _ demo_cdb_ok(1) _ demo_cdb_ok(2)] demo_tables(8) by blast


end
