(* ===== verification/Storage_Port.thy ===== *)
theory Storage_Port
  imports Forget_Pipeline
begin

text \<open>
  The source storage port of \<open>infrastructure/storage/port.py\<close>: the record of an adapter's methods over a
  state \<open>'w\<close> of the outside world, and the locale \<open>source_object_storage\<close>, the contract the pipelines rely
  on whatever the backend: finalize is an idempotent write of a deterministic target, what it wrote verifies
  and reads back, other sources are not touched, and what was deleted no longer verifies.  An exception that
  is not a \<open>SourceStorageError\<close> is \<open>Storage_Defect\<close>.
\<close>

record finalize_res =
  fz_storage_uri :: pystr
  fz_already_present :: bool

record 'w source_storage =
  st_finalize :: "uuid \<Rightarrow> uuid \<Rightarrow> pystr \<Rightarrow> nat list \<Rightarrow> 'w \<Rightarrow> (source_storage_error + finalize_res) \<times> 'w"
  st_deterministic_uri :: "uuid \<Rightarrow> uuid \<Rightarrow> pystr \<Rightarrow> source_storage_error + pystr"
  st_read :: "uuid \<Rightarrow> uuid \<Rightarrow> pystr \<Rightarrow> int \<Rightarrow> string \<Rightarrow> int \<Rightarrow> 'w \<Rightarrow> (source_storage_error + nat list) \<times> 'w"
  st_delete :: "uuid \<Rightarrow> uuid \<Rightarrow> pystr option \<Rightarrow> 'w \<Rightarrow> (source_storage_error + storage_delete_status) \<times> 'w"
  st_verify :: "uuid \<Rightarrow> uuid \<Rightarrow> pystr \<Rightarrow> string \<Rightarrow> 'w \<Rightarrow> (source_storage_error + bool) \<times> 'w"

text \<open>\<open>StorageDeleteResult.completed\<close>.\<close>

definition delete_completed :: "storage_delete_status \<Rightarrow> bool" where
  "delete_completed s \<longleftrightarrow> s \<in> {DELETED_NOW, ALREADY_ABSENT}"

locale source_object_storage =
  fixes storage :: "'w source_storage"
    and sha :: "nat list \<Rightarrow> string"
    and ready :: "'w \<Rightarrow> bool"
    and plain :: "pystr \<Rightarrow> bool"
    and valid_id :: "uuid \<Rightarrow> bool"
  assumes finalize_ready: "\<And>w ext ds s bs r w'. ready w \<Longrightarrow> plain ext \<Longrightarrow> st_finalize storage ds s ext bs w = (r, w') \<Longrightarrow> ready w'"
    and finalize_uri: "\<And>ds s ext bs w r w'. st_finalize storage ds s ext bs w = (Inr r, w') \<Longrightarrow>
      st_deterministic_uri storage ds s ext = Inr (fz_storage_uri r)"
    and finalize_verified: "\<And>w ext ds s bs r w'. ready w \<Longrightarrow> plain ext \<Longrightarrow> st_finalize storage ds s ext bs w = (Inr r, w') \<Longrightarrow>
      st_verify storage ds s (fz_storage_uri r) (sha bs) w' = (Inr True, w')"
    and finalize_replay: "\<And>w ext ds s bs r w'. ready w \<Longrightarrow> plain ext \<Longrightarrow> st_finalize storage ds s ext bs w = (Inr r, w') \<Longrightarrow>
      st_finalize storage ds s ext bs w' = (Inr \<lparr>fz_storage_uri = fz_storage_uri r, fz_already_present = True\<rparr>, w')"
    and finalize_written: "\<And>w ext ds s bs r w' max_bytes. ready w \<Longrightarrow> plain ext \<Longrightarrow> st_finalize storage ds s ext bs w = (Inr r, w') \<Longrightarrow>
      \<not> fz_already_present r \<Longrightarrow> int (length bs) \<le> max_bytes \<Longrightarrow>
      st_read storage ds s (fz_storage_uri r) (int (length bs)) (sha bs) max_bytes w' = (Inr bs, w')"
    and read_sound: "\<And>ds s u sz h max_bytes w bs w'. st_read storage ds s u sz h max_bytes w = (Inr bs, w') \<Longrightarrow>
      w' = w \<and> sha bs = h \<and> int (length bs) = sz \<and> sz \<le> max_bytes"
    and finalize_frame: "\<And>w ext ext' ds s ds' s' bs r w' u' h. ready w \<Longrightarrow> plain ext \<Longrightarrow> plain ext' \<Longrightarrow> valid_id ds \<Longrightarrow> valid_id s \<Longrightarrow> valid_id ds' \<Longrightarrow> valid_id s' \<Longrightarrow>
      (ds', s') \<noteq> (ds, s) \<Longrightarrow> st_finalize storage ds s ext bs w = (r, w') \<Longrightarrow>
      st_deterministic_uri storage ds' s' ext' = Inr u' \<Longrightarrow>
      fst (st_verify storage ds' s' u' h w') = fst (st_verify storage ds' s' u' h w)"
    and delete_gone: "\<And>w ext ds s u w' h. ready w \<Longrightarrow> plain ext \<Longrightarrow> st_deterministic_uri storage ds s ext = Inr u \<Longrightarrow>
      st_delete storage ds s (Some u) w = (Inr DELETED_NOW, w') \<Longrightarrow>
      ready w' \<and> st_verify storage ds s u h w' = (Inr False, w')"
begin

text \<open>A finalized source is found finalized by a later attempt, which verifies its deterministic target.\<close>

lemma finalized_target_verifies:
  assumes "ready w" "plain ext" "st_finalize storage ds s ext bs w = (Inr r, w')"
    and "st_deterministic_uri storage ds s ext = Inr u"
  shows "st_verify storage ds s u (sha bs) w' = (Inr True, w')"
  using finalize_verified[OF assms(1-3)] finalize_uri[OF assms(3)] assms(4) by simp

text \<open>Another source's finalization does not disturb it.\<close>

lemma finalized_survives_others:
  assumes w: "ready w" "plain ext" "st_finalize storage ds s ext bs w = (Inr r, w1)"
    and o: "plain ext'" "st_finalize storage ds' s' ext' bs' w1 = (r', w2)"
    and k: "valid_id ds" "valid_id s" "valid_id ds'" "valid_id s'" "(ds, s) \<noteq> (ds', s')"
  shows "fst (st_verify storage ds s (fz_storage_uri r) (sha bs) w2) = Inr True"
proof -
  have r1: "ready w1" using w finalize_ready by blast
  have "fst (st_verify storage ds s (fz_storage_uri r) (sha bs) w2) = fst (st_verify storage ds s (fz_storage_uri r) (sha bs) w1)"
    using finalize_frame[OF r1 o(1) w(2) k(3,4,1,2) k(5) o(2) finalize_uri[OF w(3)]] .
  then show ?thesis using finalize_verified[OF w] by simp
qed

text \<open>After a delete the same original can be written again and reads back.\<close>

lemma rewrite_after_delete:
  assumes w: "ready w" "plain ext" "st_deterministic_uri storage ds s ext = Inr u"
    and del: "st_delete storage ds s (Some u) w = (Inr DELETED_NOW, w1)"
    and fin: "st_finalize storage ds s ext bs w1 = (Inr r, w2)" "\<not> fz_already_present r" "int (length bs) \<le> max_bytes"
  shows "st_read storage ds s u (int (length bs)) (sha bs) max_bytes w2 = (Inr bs, w2)"
proof -
  have "ready w1" using delete_gone[OF w del] by simp
  from finalize_written[OF this w(2) fin] finalize_uri[OF fin(1)] w(3) show ?thesis by simp
qed

end

end
