(* ===== verification/Storage_Filesystem.thy ===== *)
theory Storage_Filesystem
  imports Storage_Port Loaders
begin

text \<open>
  The filesystem adapter of \<open>infrastructure/storage/filesystem.py\<close> on a POSIX file tree.  A path is the list of
  its components, a component the bytes the operating system sees; storage extensions are ASCII.  \<open>ft_denied\<close>
  marks the paths on which the operating system refuses a read, a write, a rename or an unlink (\<open>OSError\<close>, which
  only deletion translates).  Symbolic links are not part of the tree, so \<open>Path.resolve\<close> is the lexical normal
  form.  \<open>fc_lenient\<close> is Python's replacement decoding of malformed UTF-8 and \<open>fc_check_netloc\<close> the checks
  of \<open>urlsplit\<close> on a network location that raise \<open>ValueError\<close>.
\<close>

type_synonym path = "nat list list"

datatype node = File_Node "nat list" | Dir_Node

record file_tree =
  ft_nodes :: "path \<Rightarrow> node option"
  ft_denied :: "path \<Rightarrow> bool"

record fs_config =
  fc_data_directory :: path
  fc_cwd :: path
  fc_sha256 :: "nat list \<Rightarrow> string"
  fc_lenient :: "nat list \<Rightarrow> nat list"
  fc_check_netloc :: "pystr \<Rightarrow> bool"

subsection \<open>\<open>urllib.parse\<close> and \<open>pathlib\<close>\<close>

definition url_safe_byte :: "nat \<Rightarrow> bool" where
  "url_safe_byte b \<longleftrightarrow> 48 \<le> b \<and> b \<le> 57 \<or> 65 \<le> b \<and> b \<le> 90 \<or> 97 \<le> b \<and> b \<le> 122 \<or> b \<in> {95, 46, 45, 126, 47}"

definition upper_hex :: "nat \<Rightarrow> nat" where
  "upper_hex n = (if n < 10 then 48 + n else 55 + n)"

definition quote_byte :: "nat \<Rightarrow> pystr" where
  "quote_byte b = (if url_safe_byte b then [b] else [37, upper_hex (b div 16), upper_hex (b mod 16)])"

definition url_quote :: "nat list \<Rightarrow> pystr" where
  "url_quote bs = concat (map quote_byte bs)"

definition hex_value :: "nat \<Rightarrow> nat option" where
  "hex_value c = (if 48 \<le> c \<and> c \<le> 57 then Some (c - 48) else if 65 \<le> c \<and> c \<le> 70 then Some (c - 55)
     else if 97 \<le> c \<and> c \<le> 102 then Some (c - 87) else None)"

definition os_bytes :: "nat \<Rightarrow> nat list" where
  "os_bytes c = (case utf8_char c of Some bs \<Rightarrow> bs | None \<Rightarrow> [c])"

fun url_unquote_to_bytes :: "pystr \<Rightarrow> nat list" where
  "url_unquote_to_bytes [] = []"
| "url_unquote_to_bytes (c # cs) =
     (if c = 37 then
        (case cs of a # b # rest \<Rightarrow>
           (case (hex_value a, hex_value b) of
              (Some x, Some y) \<Rightarrow> (x * 16 + y) # url_unquote_to_bytes rest
            | _ \<Rightarrow> c # url_unquote_to_bytes cs)
         | _ \<Rightarrow> c # url_unquote_to_bytes cs)
      else os_bytes c @ url_unquote_to_bytes cs)"

text \<open>\<open>url2pathname\<close> on POSIX is \<open>unquote\<close>.\<close>

definition url2pathname :: "fs_config \<Rightarrow> pystr \<Rightarrow> nat list" where
  "url2pathname cfg s = (let bs = url_unquote_to_bytes s in if utf8_decode bs = None then fc_lenient cfg bs else bs)"

record parsed_url =
  pu_scheme :: pystr
  pu_netloc :: pystr
  pu_path :: pystr
  pu_query :: pystr
  pu_fragment :: pystr

definition ascii_alpha :: "nat \<Rightarrow> bool" where
  "ascii_alpha c \<longleftrightarrow> 65 \<le> c \<and> c \<le> 90 \<or> 97 \<le> c \<and> c \<le> 122"

definition scheme_char :: "nat \<Rightarrow> bool" where
  "scheme_char c \<longleftrightarrow> ascii_alpha c \<or> 48 \<le> c \<and> c \<le> 57 \<or> c \<in> {43, 45, 46}"

definition ascii_lower :: "nat \<Rightarrow> nat" where
  "ascii_lower c = (if 65 \<le> c \<and> c \<le> 90 then c + 32 else c)"

text \<open>\<open>str.split(sep, 1)\<close> into what stands before and after the first \<open>sep\<close>.\<close>

definition split_once :: "nat \<Rightarrow> pystr \<Rightarrow> pystr \<times> pystr" where
  "split_once sep s = (takeWhile (\<lambda>c. c \<noteq> sep) s, drop 1 (dropWhile (\<lambda>c. c \<noteq> sep) s))"

definition split_scheme :: "pystr \<Rightarrow> pystr \<times> pystr" where
  "split_scheme url =
     (let s = takeWhile (\<lambda>c. c \<noteq> 58) url in
      if length s < length url \<and> s \<noteq> [] \<and> ascii_alpha (hd s) \<and> list_all scheme_char s
      then (map ascii_lower s, drop (Suc (length s)) url) else ([], url))"

definition urlparse :: "(pystr \<Rightarrow> bool) \<Rightarrow> pystr \<Rightarrow> parsed_url option" where
  "urlparse check_netloc raw =
     (let url = filter (\<lambda>c. c \<notin> {9, 10, 13}) (dropWhile (\<lambda>c. c \<le> 32) raw);
          (scheme, rest) = split_scheme url;
          has_netloc = (take 2 rest = [47, 47]);
          netloc = (if has_netloc then takeWhile (\<lambda>c. c \<notin> {47, 63, 35}) (drop 2 rest) else []);
          rest1 = (if has_netloc then drop (2 + length netloc) rest else rest);
          (rest2, fragment) = split_once 35 rest1;
          (p, query) = split_once 63 rest2
      in if \<not> check_netloc netloc then None
         else Some \<lparr>pu_scheme = scheme, pu_netloc = netloc, pu_path = p, pu_query = query, pu_fragment = fragment\<rparr>)"

definition path_bytes :: "path \<Rightarrow> nat list" where
  "path_bytes p = (if p = [] then [47] else concat (map (\<lambda>c. 47 # c) p))"

fun split_slash :: "nat list \<Rightarrow> nat list list" where
  "split_slash [] = [[]]"
| "split_slash (c # cs) = (if c = 47 then [] # split_slash cs else (c # hd (split_slash cs)) # tl (split_slash cs))"

text \<open>\<open>Path(s)\<close> drops empty components and \<open>.\<close>; a relative path is taken from the working directory.\<close>

definition path_of_bytes :: "fs_config \<Rightarrow> nat list \<Rightarrow> path" where
  "path_of_bytes cfg bs =
     (let cs = filter (\<lambda>c. c \<noteq> [] \<and> c \<noteq> [46]) (split_slash bs) in if take 1 bs = [47] then cs else fc_cwd cfg @ cs)"

definition resolve_step :: "path \<Rightarrow> nat list \<Rightarrow> path" where
  "resolve_step acc c = (if c = [46, 46] then butlast acc else acc @ [c])"

definition resolve :: "path \<Rightarrow> path" where
  "resolve p = foldl resolve_step [] p"

definition is_relative_to :: "path \<Rightarrow> path \<Rightarrow> bool" where
  "is_relative_to p base \<longleftrightarrow> take (length base) p = base"

definition as_uri :: "path \<Rightarrow> pystr" where
  "as_uri p = ascii ''file://'' @ url_quote (path_bytes p)"

subsection \<open>File operations\<close>

text \<open>The kernel's walk along a path: every component but the last must be a directory.\<close>

fun path_walk :: "file_tree \<Rightarrow> path \<Rightarrow> path \<Rightarrow> bool" where
  "path_walk w cur [] = (cur = [] \<or> ft_nodes w cur \<noteq> None)"
| "path_walk w cur (c # cs) = ((cur = [] \<or> ft_nodes w cur = Some Dir_Node)
     \<and> path_walk w (if c = [46, 46] then butlast cur else cur @ [c]) cs)"

definition path_exists :: "path \<Rightarrow> file_tree \<Rightarrow> bool" where
  "path_exists p w = path_walk w [] p"

definition is_file :: "path \<Rightarrow> file_tree \<Rightarrow> bool" where
  "is_file p w = (case ft_nodes w p of Some (File_Node _) \<Rightarrow> True | _ \<Rightarrow> False)"

definition read_file :: "path \<Rightarrow> file_tree \<Rightarrow> nat list option" where
  "read_file p w = (if ft_denied w p then None else case ft_nodes w p of Some (File_Node bs) \<Rightarrow> Some bs | _ \<Rightarrow> None)"

definition set_node :: "path \<Rightarrow> node option \<Rightarrow> file_tree \<Rightarrow> file_tree" where
  "set_node p n w = w\<lparr>ft_nodes := (ft_nodes w)(p := n)\<rparr>"

definition write_file :: "path \<Rightarrow> nat list \<Rightarrow> file_tree \<Rightarrow> file_tree option" where
  "write_file p bs w = (if ft_denied w p \<or> ft_nodes w p = Some Dir_Node then None else Some (set_node p (Some (File_Node bs)) w))"

definition rename_file :: "path \<Rightarrow> path \<Rightarrow> file_tree \<Rightarrow> file_tree option" where
  "rename_file p q w = (if ft_denied w q \<or> ft_nodes w q = Some Dir_Node then None
     else Some (set_node q (ft_nodes w p) (set_node p None w)))"

text \<open>\<open>mkdir(parents=True, exist_ok=True)\<close>, shallowest directory first; False is the \<open>OSError\<close>.\<close>

fun make_directories :: "path list \<Rightarrow> file_tree \<Rightarrow> bool \<times> file_tree" where
  "make_directories [] w = (True, w)"
| "make_directories (p # ps) w =
     (case ft_nodes w p of
        Some Dir_Node \<Rightarrow> make_directories ps w
      | Some (File_Node _) \<Rightarrow> (False, w)
      | None \<Rightarrow> if ft_denied w p then (False, w) else make_directories ps (set_node p (Some Dir_Node) w))"

definition path_prefixes :: "path \<Rightarrow> path list" where
  "path_prefixes p = map (\<lambda>n. take (Suc n) p) [0..<length p]"

subsection \<open>Final storage\<close>

definition final_storage_directory :: "path \<Rightarrow> uuid \<Rightarrow> uuid \<Rightarrow> path" where
  "final_storage_directory base ds s = base @ [uuid_text ds, uuid_text s]"

definition final_storage_path :: "path \<Rightarrow> uuid \<Rightarrow> uuid \<Rightarrow> pystr \<Rightarrow> path" where
  "final_storage_path base ds s ext = final_storage_directory base ds s @ [ascii ''original'' @ ext]"

definition final_storage_uri :: "path \<Rightarrow> uuid \<Rightarrow> uuid \<Rightarrow> pystr \<Rightarrow> pystr" where
  "final_storage_uri base ds s ext = as_uri (final_storage_path base ds s ext)"

definition write_final_storage_bytes ::
  "fs_config \<Rightarrow> uuid \<Rightarrow> uuid \<Rightarrow> pystr \<Rightarrow> nat list \<Rightarrow> file_tree \<Rightarrow> (source_storage_error + pystr) \<times> file_tree" where
  "write_final_storage_bytes cfg ds s ext bs w =
     (let base = resolve (fc_data_directory cfg);
          directory = resolve (base @ [uuid_text ds, uuid_text s]);
          target = directory @ [ascii ''original'' @ ext];
          temporary = directory @ [ascii ''original'' @ ext @ ascii ''.tmp'']
      in if \<not> is_relative_to directory base then (Inl Storage_Path, w)
         else case make_directories (path_prefixes directory) w of
           (False, w1) \<Rightarrow> (Inl Storage_Defect, w1)
         | (True, w1) \<Rightarrow>
             (case write_file temporary bs w1 of
                None \<Rightarrow> (Inl Storage_Defect, w1)
              | Some w2 \<Rightarrow>
                  (case rename_file temporary target w2 of
                     None \<Rightarrow> (Inl Storage_Defect, w2)
                   | Some w3 \<Rightarrow> (Inr (final_storage_uri (fc_data_directory cfg) ds s ext), w3))))"

definition final_storage_content_matches :: "fs_config \<Rightarrow> path \<Rightarrow> string \<Rightarrow> file_tree \<Rightarrow> source_storage_error + bool" where
  "final_storage_content_matches cfg p h w =
     (if \<not> is_file p w then Inr False
      else case read_file p w of None \<Rightarrow> Inl Storage_Defect | Some bs \<Rightarrow> Inr (fc_sha256 cfg bs = h))"

definition source_storage_path ::
  "fs_config \<Rightarrow> uuid \<Rightarrow> uuid \<Rightarrow> pystr \<Rightarrow> file_tree \<Rightarrow> source_storage_error + path option" where
  "source_storage_path cfg ds s uri w =
     (case urlparse (fc_check_netloc cfg) uri of
        None \<Rightarrow> Inl Storage_Defect
      | Some u \<Rightarrow>
        if pu_scheme u \<noteq> ascii ''file'' \<or> pu_netloc u \<noteq> [] then Inl Invalid_Storage_Uri
        else
          (let base = resolve (fc_data_directory cfg);
               expected = resolve (base @ [uuid_text ds, uuid_text s]);
               raw = path_of_bytes cfg (url2pathname cfg (pu_path u));
               nominal = resolve raw
           in if \<not> is_relative_to expected base then Inl Invalid_Storage_Uri
              else if \<not> is_relative_to nominal expected then Inl Invalid_Storage_Uri
              else if \<not> path_exists raw w then Inr None
              else if \<not> is_file nominal w then Inl Invalid_Storage_Uri
              else Inr (Some nominal)))"

definition delete_source_storage ::
  "fs_config \<Rightarrow> uuid \<Rightarrow> uuid \<Rightarrow> pystr option \<Rightarrow> file_tree \<Rightarrow> (source_storage_error + storage_delete_status) \<times> file_tree" where
  "delete_source_storage cfg ds s uri w =
     (case uri of
        None \<Rightarrow> (Inr NOT_REQUESTED, w)
      | Some u \<Rightarrow>
        (case source_storage_path cfg ds s u w of
           Inl e \<Rightarrow> (Inl e, w)
         | Inr None \<Rightarrow> (Inr ALREADY_ABSENT, w)
         | Inr (Some p) \<Rightarrow> if ft_denied w p then (Inl Storage_Unavailable, w) else (Inr DELETED_NOW, set_node p None w)))"

subsection \<open>The adapter\<close>

definition fs_finalize ::
  "fs_config \<Rightarrow> uuid \<Rightarrow> uuid \<Rightarrow> pystr \<Rightarrow> nat list \<Rightarrow> file_tree \<Rightarrow> (source_storage_error + finalize_res) \<times> file_tree" where
  "fs_finalize cfg ds s ext bs w =
     (let base = fc_data_directory cfg; target = final_storage_path base ds s ext in
      case final_storage_content_matches cfg target (fc_sha256 cfg bs) w of
        Inl e \<Rightarrow> (Inl e, w)
      | Inr True \<Rightarrow> (Inr \<lparr>fz_storage_uri = final_storage_uri base ds s ext, fz_already_present = True\<rparr>, w)
      | Inr False \<Rightarrow>
          if path_exists target w then (Inl Storage_Conflict, w)
          else (case write_final_storage_bytes cfg ds s ext bs w of
                  (Inl e, w1) \<Rightarrow> (Inl e, w1)
                | (Inr u, w1) \<Rightarrow> (Inr \<lparr>fz_storage_uri = u, fz_already_present = False\<rparr>, w1)))"

definition fs_read ::
  "fs_config \<Rightarrow> uuid \<Rightarrow> uuid \<Rightarrow> pystr \<Rightarrow> int \<Rightarrow> string \<Rightarrow> int \<Rightarrow> file_tree \<Rightarrow> (source_storage_error + nat list) \<times> file_tree" where
  "fs_read cfg ds s u sz h max_bytes w =
     (case source_storage_path cfg ds s u w of
        Inl e \<Rightarrow> (Inl e, w)
      | Inr None \<Rightarrow> (Inl Storage_Unavailable, w)
      | Inr (Some p) \<Rightarrow>
        if sz > max_bytes then (Inl Storage_Unavailable, w)
        else (case read_file p w of
                None \<Rightarrow> (Inl Storage_Defect, w)
              | Some bs \<Rightarrow>
                  if int (length bs) \<noteq> sz then (Inl Storage_Unavailable, w)
                  else if fc_sha256 cfg bs \<noteq> h then (Inl Storage_Unavailable, w)
                  else (Inr bs, w)))"

definition fs_verify ::
  "fs_config \<Rightarrow> uuid \<Rightarrow> uuid \<Rightarrow> pystr \<Rightarrow> string \<Rightarrow> file_tree \<Rightarrow> (source_storage_error + bool) \<times> file_tree" where
  "fs_verify cfg ds s u h w =
     (case source_storage_path cfg ds s u w of
        Inl e \<Rightarrow> (Inl e, w)
      | Inr None \<Rightarrow> (Inr False, w)
      | Inr (Some p) \<Rightarrow> (final_storage_content_matches cfg p h w, w))"

definition filesystem_storage :: "fs_config \<Rightarrow> file_tree source_storage" where
  "filesystem_storage cfg =
     \<lparr>st_finalize = fs_finalize cfg, st_deterministic_uri = (\<lambda>ds s ext. Inr (final_storage_uri (fc_data_directory cfg) ds s ext)),
      st_read = fs_read cfg, st_delete = delete_source_storage cfg, st_verify = fs_verify cfg\<rparr>"

end
