(* ===== verification/Storage_S3.thy ===== *)
theory Storage_S3
  imports Storage_Filesystem
begin

text \<open>
  The S3 adapter of \<open>infrastructure/storage/s3.py\<close> and the router of \<open>infrastructure/storage/router.py\<close>.  The
  boto3 client is a record of calls on the state \<open>'w\<close> of the service; a call answers or raises.  An exception
  of the client that the adapter does not translate leaves it raw (\<open>Raw\<close>), which is no \<open>SourceStorageError\<close>.
  Semaphores, thread offloading and the closing of response bodies have no counterpart.
\<close>

subsection \<open>The client\<close>

datatype boto_error = Client_Error string "int option" | Boto_Core_Error

datatype s3_exn = Typed source_storage_error | Raw boto_error

record head_response =
  hr_content_length :: "int option"
  hr_metadata :: "(string \<times> string) list"

record object_response =
  or_content_length :: "int option"
  or_chunks :: "nat list list"

record version_page =
  vp_versions :: "(pystr \<times> string) list"
  vp_delete_markers :: "(pystr \<times> string) list"

record 'w s3_client =
  sc_head_object :: "pystr \<Rightarrow> pystr \<Rightarrow> 'w \<Rightarrow> (boto_error + head_response) \<times> 'w"
  sc_put_object :: "pystr \<Rightarrow> pystr \<Rightarrow> nat list \<Rightarrow> (string \<times> string) list \<Rightarrow> 'w \<Rightarrow> (boto_error + unit) \<times> 'w"
  sc_get_object :: "pystr \<Rightarrow> pystr \<Rightarrow> 'w \<Rightarrow> (boto_error + object_response) \<times> 'w"
  sc_delete_object :: "pystr \<Rightarrow> pystr \<Rightarrow> 'w \<Rightarrow> (boto_error + unit) \<times> 'w"
  sc_bucket_versioning :: "pystr \<Rightarrow> 'w \<Rightarrow> (boto_error + string option) \<times> 'w"
  sc_list_versions :: "pystr \<Rightarrow> pystr \<Rightarrow> 'w \<Rightarrow> (boto_error + version_page list) \<times> 'w"
  sc_delete_objects :: "pystr \<Rightarrow> (pystr \<times> string) list \<Rightarrow> 'w \<Rightarrow> (boto_error + bool) \<times> 'w"

record s3_config =
  s3_bucket :: pystr
  s3_prefix :: pystr
  s3_sha256 :: "nat list \<Rightarrow> string"
  s3_check_netloc :: "pystr \<Rightarrow> bool"

subsection \<open>Keys and URIs\<close>

definition DETERMINISTIC_KEY_ROOT :: pystr where "DETERMINISTIC_KEY_ROOT = ascii ''v1/sources''"
definition FINAL_OBJECT_FILENAME_PREFIX :: pystr where "FINAL_OBJECT_FILENAME_PREFIX = ascii ''original''"
definition SHA256_METADATA_KEY :: string where "SHA256_METADATA_KEY = ''sofias-memory-sha256''"
definition BYTE_SIZE_METADATA_KEY :: string where "BYTE_SIZE_METADATA_KEY = ''sofias-memory-byte-size''"
definition DELETE_BATCH_SIZE :: nat where "DELETE_BATCH_SIZE = 1000"

definition normalized_prefix_segments :: "pystr \<Rightarrow> pystr list" where
  "normalized_prefix_segments pre = (if pre \<noteq> [] then [pre] else [])"

definition s3_directory :: "pystr \<Rightarrow> uuid \<Rightarrow> uuid \<Rightarrow> pystr" where
  "s3_directory pre ds s =
     py_join [47] (normalized_prefix_segments pre @ [DETERMINISTIC_KEY_ROOT, uuid_text ds, uuid_text s])"

definition s3_object_key :: "pystr \<Rightarrow> uuid \<Rightarrow> uuid \<Rightarrow> pystr \<Rightarrow> pystr" where
  "s3_object_key pre ds s ext = s3_directory pre ds s @ 47 # FINAL_OBJECT_FILENAME_PREFIX @ ext"

definition s3_object_uri :: "pystr \<Rightarrow> pystr \<Rightarrow> pystr" where
  "s3_object_uri bucket key = ascii ''s3://'' @ bucket @ 47 # key"

definition starts_with :: "pystr \<Rightarrow> pystr \<Rightarrow> bool" where
  "starts_with p s \<longleftrightarrow> take (length p) s = p"

definition parse_s3_storage_uri :: "s3_config \<Rightarrow> pystr \<Rightarrow> uuid \<Rightarrow> uuid \<Rightarrow> source_storage_error + (pystr \<times> pystr)" where
  "parse_s3_storage_uri cfg uri ds s =
     (case urlparse (s3_check_netloc cfg) uri of
        None \<Rightarrow> Inl Storage_Defect
      | Some u \<Rightarrow>
        if pu_scheme u \<noteq> ascii ''s3'' \<or> pu_netloc u = [] \<or> pu_query u \<noteq> [] \<or> pu_fragment u \<noteq> [] then Inl Invalid_Storage_Uri
        else let key = dropWhile (\<lambda>c. c = 47) (pu_path u); directory = s3_directory (s3_prefix cfg) ds s in
          if key = [] then Inl Invalid_Storage_Uri
          else if list_ex (\<lambda>x. x \<in> {[], [46], [46, 46]}) (split_slash key) then Inl Invalid_Storage_Uri
          else if \<not> starts_with (directory @ [47]) key then Inl Invalid_Storage_Uri
          else let filename = drop (length directory + 1) key in
            if 47 \<in> set filename \<or> \<not> starts_with FINAL_OBJECT_FILENAME_PREFIX filename then Inl Invalid_Storage_Uri
            else Inr (pu_netloc u, key))"

subsection \<open>The synchronous operations\<close>

definition is_not_found :: "boto_error \<Rightarrow> bool" where
  "is_not_found e = (case e of
     Client_Error code status \<Rightarrow> code \<in> {''404'', ''NoSuchKey'', ''NotFound''} \<or> status = Some 404
   | Boto_Core_Error \<Rightarrow> False)"

record object_identity =
  oi_byte_size :: int
  oi_content_sha256 :: "string option"

definition char_lower :: "char \<Rightarrow> char" where
  "char_lower c = char_of (ascii_lower (of_char c))"

text \<open>A dict comprehension: the last of two keys that differ in case only wins.\<close>

definition lowered_metadata :: "(string \<times> string) list \<Rightarrow> string \<rightharpoonup> string" where
  "lowered_metadata kvs = map_of (rev (map (\<lambda>(k, v). (map char_lower k, v)) kvs))"

definition head_object_sync ::
  "'w s3_client \<Rightarrow> pystr \<Rightarrow> pystr \<Rightarrow> 'w \<Rightarrow> (boto_error + object_identity option) \<times> 'w" where
  "head_object_sync cl bucket key w =
     (case sc_head_object cl bucket key w of
        (Inl e, w1) \<Rightarrow> ((case e of Client_Error _ _ \<Rightarrow> if is_not_found e then Inr None else Inl e | _ \<Rightarrow> Inl e), w1)
      | (Inr r, w1) \<Rightarrow> (Inr (Some \<lparr>oi_byte_size = (case hr_content_length r of None \<Rightarrow> 0 | Some n \<Rightarrow> n),
          oi_content_sha256 = lowered_metadata (hr_metadata r) SHA256_METADATA_KEY\<rparr>), w1))"

definition identity_matches :: "object_identity \<Rightarrow> string \<Rightarrow> int \<Rightarrow> bool" where
  "identity_matches i h sz \<longleftrightarrow> oi_content_sha256 i = Some h \<and> oi_byte_size i = sz"

definition dec_str :: "int \<Rightarrow> string" where
  "dec_str n = map char_of (dec_int n)"

definition finalize_sync ::
  "s3_config \<Rightarrow> 'w s3_client \<Rightarrow> pystr \<Rightarrow> nat list \<Rightarrow> string \<Rightarrow> int \<Rightarrow> 'w \<Rightarrow> (s3_exn + bool) \<times> 'w" where
  "finalize_sync cfg cl key bs h sz w =
     (case head_object_sync cl (s3_bucket cfg) key w of
        (Inl e, w1) \<Rightarrow> (Inl (Raw e), w1)
      | (Inr (Some existing), w1) \<Rightarrow>
          if identity_matches existing h sz then (Inr True, w1) else (Inl (Typed Storage_Conflict), w1)
      | (Inr None, w1) \<Rightarrow>
        (case sc_put_object cl (s3_bucket cfg) key bs
             [(SHA256_METADATA_KEY, h), (BYTE_SIZE_METADATA_KEY, dec_str sz)] w1 of
           (Inl e, w2) \<Rightarrow>
             (case head_object_sync cl (s3_bucket cfg) key w2 of
                (Inl e2, w3) \<Rightarrow> (Inl (Raw e2), w3)
              | (Inr (Some i), w3) \<Rightarrow> if identity_matches i h sz then (Inr True, w3) else (Inl (Typed Storage_Conflict), w3)
              | (Inr None, w3) \<Rightarrow> (Inl (Typed Storage_Unavailable), w3))
         | (Inr _, w2) \<Rightarrow>
             (case head_object_sync cl (s3_bucket cfg) key w2 of
                (Inl e2, w3) \<Rightarrow> (Inl (Raw e2), w3)
              | (Inr (Some i), w3) \<Rightarrow> if identity_matches i h sz then (Inr False, w3) else (Inl (Typed Storage_Unavailable), w3)
              | (Inr None, w3) \<Rightarrow> (Inl (Typed Storage_Unavailable), w3))))"

text \<open>The body read in pieces; an empty piece ends it, and the limit holds whatever \<open>ContentLength\<close> said.\<close>

fun read_chunks :: "int \<Rightarrow> int \<Rightarrow> nat list list \<Rightarrow> nat list option" where
  "read_chunks max_bytes so_far [] = Some []"
| "read_chunks max_bytes so_far (c # cs) =
     (if c = [] then Some []
      else if so_far + int (length c) > max_bytes then None
      else map_option ((@) c) (read_chunks max_bytes (so_far + int (length c)) cs))"

definition get_object_bytes_sync :: "'w s3_client \<Rightarrow> pystr \<Rightarrow> pystr \<Rightarrow> int \<Rightarrow> 'w \<Rightarrow> (source_storage_error + nat list) \<times> 'w" where
  "get_object_bytes_sync cl bucket key max_bytes w =
     (case sc_get_object cl bucket key w of
        (Inl e, w1) \<Rightarrow> (Inl Storage_Unavailable, w1)
      | (Inr r, w1) \<Rightarrow>
          if (case or_content_length r of None \<Rightarrow> False | Some n \<Rightarrow> n > max_bytes) then (Inl Storage_Unavailable, w1)
          else (case read_chunks max_bytes 0 (or_chunks r) of
                  None \<Rightarrow> (Inl Storage_Unavailable, w1) | Some bs \<Rightarrow> (Inr bs, w1)))"

definition verify_sync :: "s3_config \<Rightarrow> 'w s3_client \<Rightarrow> pystr \<Rightarrow> pystr \<Rightarrow> string \<Rightarrow> 'w \<Rightarrow> bool \<times> 'w" where
  "verify_sync cfg cl bucket key h w =
     (case sc_get_object cl bucket key w of
        (Inl e, w1) \<Rightarrow> (False, w1)
      | (Inr r, w1) \<Rightarrow> (s3_sha256 cfg (concat (takeWhile (\<lambda>c. c \<noteq> []) (or_chunks r))) = h, w1))"

definition delete_unversioned_sync :: "'w s3_client \<Rightarrow> pystr \<Rightarrow> pystr \<Rightarrow> 'w \<Rightarrow> storage_delete_status \<times> 'w" where
  "delete_unversioned_sync cl bucket key w =
     (case head_object_sync cl bucket key w of
        (Inl e, w1) \<Rightarrow> (UNRESOLVED, w1)
      | (Inr None, w1) \<Rightarrow> (ALREADY_ABSENT, w1)
      | (Inr (Some _), w1) \<Rightarrow>
        (case sc_delete_object cl bucket key w1 of
           (Inl e, w2) \<Rightarrow> (UNRESOLVED, w2)
         | (Inr _, w2) \<Rightarrow>
           (case head_object_sync cl bucket key w2 of
              (Inl e, w3) \<Rightarrow> (UNRESOLVED, w3)
            | (Inr i, w3) \<Rightarrow> (if i = None then DELETED_NOW else UNRESOLVED, w3))))"

definition list_exact_key_versions_sync ::
  "'w s3_client \<Rightarrow> pystr \<Rightarrow> pystr \<Rightarrow> 'w \<Rightarrow> (boto_error + (string list \<times> string list)) \<times> 'w" where
  "list_exact_key_versions_sync cl bucket key w =
     (case sc_list_versions cl bucket key w of
        (Inl e, w1) \<Rightarrow> (Inl e, w1)
      | (Inr pages, w1) \<Rightarrow>
          (let exact = (\<lambda>f. map snd (filter (\<lambda>(k, _). k = key) (concat (map f pages)))) in
           (Inr (exact vp_versions, exact vp_delete_markers), w1)))"

function batches :: "'a list \<Rightarrow> 'a list list" where
  "batches [] = []"
| "batches (x # xs) = take DELETE_BATCH_SIZE (x # xs) # batches (drop DELETE_BATCH_SIZE (x # xs))"
  by pat_completeness auto
termination by (relation "measure length") (auto simp: DELETE_BATCH_SIZE_def)

text \<open>True when every batch answered without an error entry.\<close>

fun delete_batches :: "'w s3_client \<Rightarrow> pystr \<Rightarrow> pystr \<Rightarrow> string list list \<Rightarrow> 'w \<Rightarrow> bool \<times> 'w" where
  "delete_batches cl bucket key [] w = (True, w)"
| "delete_batches cl bucket key (b # bs) w =
     (case sc_delete_objects cl bucket (map (\<lambda>v. (key, v)) b) w of
        (Inl e, w1) \<Rightarrow> (False, w1)
      | (Inr errors, w1) \<Rightarrow> if errors then (False, w1) else delete_batches cl bucket key bs w1)"

definition delete_all_versions_sync :: "'w s3_client \<Rightarrow> pystr \<Rightarrow> pystr \<Rightarrow> 'w \<Rightarrow> storage_delete_status \<times> 'w" where
  "delete_all_versions_sync cl bucket key w =
     (case list_exact_key_versions_sync cl bucket key w of
        (Inl e, w1) \<Rightarrow> (UNRESOLVED, w1)
      | (Inr (versions, markers), w1) \<Rightarrow>
        if versions = [] \<and> markers = [] then (ALREADY_ABSENT, w1)
        else (case delete_batches cl bucket key (batches (versions @ markers)) w1 of
           (False, w2) \<Rightarrow> (UNRESOLVED, w2)
         | (True, w2) \<Rightarrow>
           (case list_exact_key_versions_sync cl bucket key w2 of
              (Inl e, w3) \<Rightarrow> (UNRESOLVED, w3)
            | (Inr (vs, ms), w3) \<Rightarrow> (if vs \<noteq> [] \<or> ms \<noteq> [] then UNRESOLVED else DELETED_NOW, w3))))"

definition delete_object_sync :: "'w s3_client \<Rightarrow> pystr \<Rightarrow> pystr \<Rightarrow> 'w \<Rightarrow> storage_delete_status \<times> 'w" where
  "delete_object_sync cl bucket key w =
     (case sc_bucket_versioning cl bucket w of
        (Inl e, w1) \<Rightarrow> (UNRESOLVED, w1)
      | (Inr status, w1) \<Rightarrow>
          if status \<in> {Some ''Enabled'', Some ''Suspended''} then delete_all_versions_sync cl bucket key w1
          else delete_unversioned_sync cl bucket key w1)"

subsection \<open>The adapter\<close>

definition s3_uri :: "s3_config \<Rightarrow> uuid \<Rightarrow> uuid \<Rightarrow> pystr \<Rightarrow> pystr" where
  "s3_uri cfg ds s ext = s3_object_uri (s3_bucket cfg) (s3_object_key (s3_prefix cfg) ds s ext)"

definition s3_finalize ::
  "s3_config \<Rightarrow> 'w s3_client \<Rightarrow> uuid \<Rightarrow> uuid \<Rightarrow> pystr \<Rightarrow> nat list \<Rightarrow> 'w \<Rightarrow> (s3_exn + finalize_res) \<times> 'w" where
  "s3_finalize cfg cl ds s ext bs w =
     (case finalize_sync cfg cl (s3_object_key (s3_prefix cfg) ds s ext) bs (s3_sha256 cfg bs) (int (length bs)) w of
        (Inl e, w1) \<Rightarrow> (Inl e, w1)
      | (Inr present, w1) \<Rightarrow> (Inr \<lparr>fz_storage_uri = s3_uri cfg ds s ext, fz_already_present = present\<rparr>, w1))"

definition s3_read ::
  "s3_config \<Rightarrow> 'w s3_client \<Rightarrow> uuid \<Rightarrow> uuid \<Rightarrow> pystr \<Rightarrow> int \<Rightarrow> string \<Rightarrow> int \<Rightarrow> 'w \<Rightarrow> (source_storage_error + nat list) \<times> 'w" where
  "s3_read cfg cl ds s uri sz h max_bytes w =
     (case parse_s3_storage_uri cfg uri ds s of
        Inl e \<Rightarrow> (Inl e, w)
      | Inr (bucket, key) \<Rightarrow>
        if sz > max_bytes then (Inl Storage_Unavailable, w)
        else (case get_object_bytes_sync cl bucket key max_bytes w of
                (Inl e, w1) \<Rightarrow> (Inl e, w1)
              | (Inr bs, w1) \<Rightarrow>
                  if int (length bs) \<noteq> sz then (Inl Storage_Unavailable, w1)
                  else if s3_sha256 cfg bs \<noteq> h then (Inl Storage_Unavailable, w1)
                  else (Inr bs, w1)))"

definition s3_delete ::
  "s3_config \<Rightarrow> 'w s3_client \<Rightarrow> uuid \<Rightarrow> uuid \<Rightarrow> pystr option \<Rightarrow> 'w \<Rightarrow> (source_storage_error + storage_delete_status) \<times> 'w" where
  "s3_delete cfg cl ds s uri w =
     (case uri of
        None \<Rightarrow> (Inr NOT_REQUESTED, w)
      | Some u \<Rightarrow>
        (case parse_s3_storage_uri cfg u ds s of
           Inl e \<Rightarrow> (Inl e, w)
         | Inr (bucket, key) \<Rightarrow> (case delete_object_sync cl bucket key w of (st, w1) \<Rightarrow> (Inr st, w1))))"

definition s3_verify ::
  "s3_config \<Rightarrow> 'w s3_client \<Rightarrow> uuid \<Rightarrow> uuid \<Rightarrow> pystr \<Rightarrow> string \<Rightarrow> 'w \<Rightarrow> (source_storage_error + bool) \<times> 'w" where
  "s3_verify cfg cl ds s uri h w =
     (case parse_s3_storage_uri cfg uri ds s of
        Inl e \<Rightarrow> (Inl e, w)
      | Inr (bucket, key) \<Rightarrow> (case verify_sync cfg cl bucket key h w of (ok, w1) \<Rightarrow> (Inr ok, w1)))"

text \<open>As a port: a raw exception of the client is no storage error of the port.\<close>

definition as_port_error :: "s3_exn \<Rightarrow> source_storage_error" where
  "as_port_error e = (case e of Typed x \<Rightarrow> x | Raw _ \<Rightarrow> Storage_Defect)"

definition s3_storage :: "s3_config \<Rightarrow> 'w s3_client \<Rightarrow> 'w source_storage" where
  "s3_storage cfg cl =
     \<lparr>st_finalize = (\<lambda>ds s ext bs w. case s3_finalize cfg cl ds s ext bs w of
         (Inl e, w1) \<Rightarrow> (Inl (as_port_error e), w1) | (Inr r, w1) \<Rightarrow> (Inr r, w1)),
      st_deterministic_uri = (\<lambda>ds s ext. Inr (s3_uri cfg ds s ext)),
      st_read = s3_read cfg cl, st_delete = s3_delete cfg cl, st_verify = s3_verify cfg cl\<rparr>"

text \<open>The startup probe: put, get, compare, and a best-effort delete that never raises.\<close>

definition PROBE_OBJECT_BODY :: "nat list" where "PROBE_OBJECT_BODY = ascii ''sofias-memory-storage-probe''"

definition probe_key :: "pystr \<Rightarrow> uuid \<Rightarrow> pystr" where
  "probe_key pre u = py_join [47] (normalized_prefix_segments pre @ [ascii ''v1/system/probe'']) @ 47 # uuid_text u"

definition probe_sync :: "s3_config \<Rightarrow> 'w s3_client \<Rightarrow> pystr \<Rightarrow> 'w \<Rightarrow> (source_storage_error + unit) \<times> 'w" where
  "probe_sync cfg cl key w =
     (let (r, w3) =
        (case sc_put_object cl (s3_bucket cfg) key PROBE_OBJECT_BODY [] w of
           (Inl e, w1) \<Rightarrow> (Inl Storage_Unavailable, w1)
         | (Inr _, w1) \<Rightarrow>
           (case sc_get_object cl (s3_bucket cfg) key w1 of
              (Inl e, w2) \<Rightarrow> (Inl Storage_Unavailable, w2)
            | (Inr o1, w2) \<Rightarrow>
                (if concat (takeWhile (\<lambda>c. c \<noteq> []) (or_chunks o1)) \<noteq> PROBE_OBJECT_BODY then Inl Storage_Unavailable else Inr (), w2)))
      in (r, snd (sc_delete_object cl (s3_bucket cfg) key w3)))"

subsection \<open>The router\<close>

text \<open>New originals go to the configured backend; everything else is routed by the scheme of the stored URI.
  \<open>s3\<close> is None when no bucket is configured, which the lazy construction of the adapter reports.\<close>

datatype storage_backend = Backend_Filesystem | Backend_S3

definition adapter_for_uri ::
  "(pystr \<Rightarrow> bool) \<Rightarrow> 'w source_storage \<Rightarrow> 'w source_storage option \<Rightarrow> pystr \<Rightarrow> source_storage_error + 'w source_storage" where
  "adapter_for_uri check fs s3 uri =
     (case urlparse check uri of
        None \<Rightarrow> Inl Storage_Defect
      | Some u \<Rightarrow>
        if pu_scheme u = ascii ''file'' then Inr fs
        else if pu_scheme u = ascii ''s3'' then (case s3 of None \<Rightarrow> Inl Unsupported_Backend | Some a \<Rightarrow> Inr a)
        else Inl Unsupported_Backend)"

definition write_adapter :: "storage_backend \<Rightarrow> 'w source_storage \<Rightarrow> 'w source_storage option \<Rightarrow> source_storage_error + 'w source_storage" where
  "write_adapter backend fs s3 = (case backend of
     Backend_Filesystem \<Rightarrow> Inr fs
   | Backend_S3 \<Rightarrow> (case s3 of None \<Rightarrow> Inl Unsupported_Backend | Some a \<Rightarrow> Inr a))"

definition routed :: "source_storage_error + 'a \<Rightarrow> ('a \<Rightarrow> 'w \<Rightarrow> (source_storage_error + 'b) \<times> 'w) \<Rightarrow> 'w \<Rightarrow> (source_storage_error + 'b) \<times> 'w" where
  "routed a f w = (case a of Inl e \<Rightarrow> (Inl e, w) | Inr x \<Rightarrow> f x w)"

definition storage_router ::
  "storage_backend \<Rightarrow> (pystr \<Rightarrow> bool) \<Rightarrow> 'w source_storage \<Rightarrow> 'w source_storage option \<Rightarrow> 'w source_storage" where
  "storage_router backend check fs s3 =
     \<lparr>st_finalize = (\<lambda>ds s ext bs. routed (write_adapter backend fs s3) (\<lambda>a. st_finalize a ds s ext bs)),
      st_deterministic_uri = (\<lambda>ds s ext. bindE (write_adapter backend fs s3) (\<lambda>a. st_deterministic_uri a ds s ext)),
      st_read = (\<lambda>ds s u sz h m. routed (adapter_for_uri check fs s3 u) (\<lambda>a. st_read a ds s u sz h m)),
      st_delete = (\<lambda>ds s u. case u of
          None \<Rightarrow> st_delete fs ds s None
        | Some x \<Rightarrow> routed (adapter_for_uri check fs s3 x) (\<lambda>a. st_delete a ds s u)),
      st_verify = (\<lambda>ds s u h. routed (adapter_for_uri check fs s3 u) (\<lambda>a. st_verify a ds s u h))\<rparr>"

end
