(* ===== verification/Remember_Pipeline.thy ===== *)
theory Remember_Pipeline
  imports Run_Control Session_Store Loaders Cognify_Pipeline Storage_S3 "HOL-Library.AList"
begin

text \<open>
  Remember: the work identity of \<open>services/remember.py\<close> and the four steps of
  \<open>pipelines/steps/remember.py\<close>, which turn a durable ingress artifact into a source with its document,
  finalize its original in the source storage, compose the Cognify phases and record the result.  The URL
  fetcher, the source storage and the local directory of an earlier filesystem backend are parameters on a
  state \<open>'w\<close> of the outside world; step outputs are records instead of their JSON objects.
\<close>

subsection \<open>Work identity\<close>

definition MODE_INGEST :: pystr where "MODE_INGEST = ascii ''ingest''"
definition MODE_FULL :: pystr where "MODE_FULL = ascii ''full''"
definition SOURCE_KIND_TEXT :: pystr where "SOURCE_KIND_TEXT = ascii ''text''"
definition SOURCE_KIND_FILE :: pystr where "SOURCE_KIND_FILE = ascii ''file''"
definition TEXT_MIME_TYPE :: pystr where "TEXT_MIME_TYPE = ascii ''text/plain''"
definition TEXT_STORAGE_EXTENSION :: pystr where "TEXT_STORAGE_EXTENSION = ascii ''.txt''"
definition UNTOKENIZED_SENTINEL :: int where "UNTOKENIZED_SENTINEL = -1"

definition validate_remember_mode :: "pystr \<Rightarrow> exn + unit" where
  "validate_remember_mode mode =
     (if mode \<notin> {MODE_INGEST, MODE_FULL} then Inl (Sofias_Memory_Error INVALID_REQUEST 400) else Inr ())"

definition opt_text :: "pystr option \<Rightarrow> json" where
  "opt_text v = (case v of None \<Rightarrow> JNull | Some s \<Rightarrow> JStr s)"

definition remember_options :: "(pystr \<times> json) list \<Rightarrow> pystr option \<Rightarrow> pystr \<Rightarrow> bool \<Rightarrow> (pystr \<times> json) list" where
  "remember_options metadata session_id mode force =
     [(ascii ''metadata'', JObj metadata), (ascii ''session_id'', opt_text session_id), (ascii ''mode'', JStr mode),
      (ascii ''force'', JBool force)]"

definition remember_text_run_input ::
  "pystr \<Rightarrow> string \<Rightarrow> pystr option \<Rightarrow> (pystr \<times> json) list \<Rightarrow> pystr option \<Rightarrow> pystr \<Rightarrow> bool \<Rightarrow> json" where
  "remember_text_run_input dataset sha name metadata session_id mode force = JObj
     ([(ascii ''source_kind'', JStr SOURCE_KIND_TEXT), (ascii ''dataset'', JStr dataset),
       (ascii ''content_sha256'', json_str sha), (ascii ''name'', opt_text name)] @ remember_options metadata session_id mode force)"

definition remember_file_run_input ::
  "pystr \<Rightarrow> string \<Rightarrow> pystr \<Rightarrow> (pystr \<times> json) list \<Rightarrow> pystr option \<Rightarrow> pystr \<Rightarrow> bool \<Rightarrow> json" where
  "remember_file_run_input dataset sha filename metadata session_id mode force = JObj
     ([(ascii ''source_kind'', JStr SOURCE_KIND_FILE), (ascii ''dataset'', JStr dataset),
       (ascii ''content_sha256'', json_str sha), (ascii ''filename'', JStr filename)] @ remember_options metadata session_id mode force)"

definition remember_url_run_input ::
  "pystr \<Rightarrow> pystr \<Rightarrow> (pystr \<times> json) list \<Rightarrow> pystr option \<Rightarrow> pystr \<Rightarrow> bool \<Rightarrow> json" where
  "remember_url_run_input dataset url metadata session_id mode force = JObj
     ([(ascii ''source_kind'', JStr SOURCE_KIND_URL), (ascii ''dataset'', JStr dataset), (ascii ''url'', JStr url)]
      @ remember_options metadata session_id mode force)"

text \<open>Python's \<open>str\<close> of a JSON value; \<open>rp\<close> spells numbers with a fraction, lists and dicts.\<close>

fun py_str :: "(json \<Rightarrow> pystr) \<Rightarrow> json \<Rightarrow> pystr" where
  "py_str rp JNull = ascii ''None''"
| "py_str rp (JBool b) = ascii (if b then ''True'' else ''False'')"
| "py_str rp (JInt i) = dec_int i"
| "py_str rp (JStr s) = s"
| "py_str rp j = rp j"

definition str_get :: "(json \<Rightarrow> pystr) \<Rightarrow> json \<Rightarrow> string \<Rightarrow> pystr" where
  "str_get rp inp key = py_str rp (or_null (jget inp key))"

record remember_intent =
  ri_source_kind :: pystr
  ri_dataset :: pystr
  ri_content_identity :: pystr
  ri_name :: "pystr option"
  ri_metadata :: "(pystr \<times> json) list"
  ri_session_id :: "pystr option"
  ri_mode :: pystr
  ri_force :: bool

text \<open>\<open>run_input.get("metadata") or {}\<close>, when it is a mapping.\<close>

definition metadata_member :: "json \<Rightarrow> (pystr \<times> json) list option" where
  "metadata_member inp = (case jget inp ''metadata'' of
     Some (JObj kvs) \<Rightarrow> Some kvs
   | m \<Rightarrow> if truthy m then None else Some [])"

definition optional_str :: "(json \<Rightarrow> pystr) \<Rightarrow> json \<Rightarrow> string \<Rightarrow> pystr option" where
  "optional_str rp inp key = (case jget inp key of None \<Rightarrow> None | Some JNull \<Rightarrow> None | Some j \<Rightarrow> Some (py_str rp j))"

definition intent_source_kind :: "json \<Rightarrow> json option" where
  "intent_source_kind inp = (case or_null (jget inp ''source_kind'') of
     JNull \<Rightarrow> (if jget inp ''url'' \<noteq> None then Some (JStr SOURCE_KIND_URL)
               else if jget inp ''filename'' \<noteq> None then Some (JStr SOURCE_KIND_FILE)
               else if jget inp ''content_sha256'' \<noteq> None then Some (JStr SOURCE_KIND_TEXT) else None)
   | j \<Rightarrow> Some j)"

definition intent_identity :: "(json \<Rightarrow> pystr) \<Rightarrow> json \<Rightarrow> json \<Rightarrow> (pystr \<times> pystr option) option" where
  "intent_identity rp kind inp =
     (if kind = JStr SOURCE_KIND_URL then map_option (\<lambda>u. (py_str rp u, None)) (jget inp ''url'')
      else if kind = JStr SOURCE_KIND_FILE then
        (case (jget inp ''content_sha256'', jget inp ''filename'') of
           (Some h, Some f) \<Rightarrow> Some (py_str rp h, Some (py_str rp f)) | _ \<Rightarrow> None)
      else if kind = JStr SOURCE_KIND_TEXT then
        map_option (\<lambda>h. (py_str rp h, optional_str rp inp ''name'')) (jget inp ''content_sha256'')
      else None)"

definition remember_semantic_intent_from_run_input :: "(json \<Rightarrow> pystr) \<Rightarrow> json option \<Rightarrow> remember_intent option" where
  "remember_semantic_intent_from_run_input rp inp =
     (case inp of
        None \<Rightarrow> None
      | Some j \<Rightarrow>
        (case (jget j ''dataset'', metadata_member j, jget j ''mode'', intent_source_kind j) of
           (Some ds, Some m, Some mode, Some kind) \<Rightarrow>
             (case intent_identity rp kind j of
                None \<Rightarrow> None
              | Some (identity, name) \<Rightarrow> Some \<lparr>ri_source_kind = py_str rp kind, ri_dataset = py_str rp ds,
                  ri_content_identity = identity, ri_name = name, ri_metadata = m,
                  ri_session_id = optional_str rp j ''session_id'', ri_mode = py_str rp mode,
                  ri_force = truthy (jget j ''force'')\<rparr>)
         | _ \<Rightarrow> None))"

definition same_intent :: "remember_intent \<Rightarrow> remember_intent \<Rightarrow> bool" where
  "same_intent a b \<longleftrightarrow> ri_source_kind a = ri_source_kind b \<and> ri_dataset a = ri_dataset b
     \<and> ri_content_identity a = ri_content_identity b \<and> ri_name a = ri_name b \<and> metadata_eq (ri_metadata a) (ri_metadata b)
     \<and> ri_session_id a = ri_session_id b \<and> ri_mode a = ri_mode b \<and> ri_force a = ri_force b"

definition same_remember_intent :: "(json \<Rightarrow> pystr) \<Rightarrow> json option \<Rightarrow> json option \<Rightarrow> bool" where
  "same_remember_intent rp left right =
     (case (remember_semantic_intent_from_run_input rp left, remember_semantic_intent_from_run_input rp right) of
        (Some a, Some b) \<Rightarrow> same_intent a b
      | _ \<Rightarrow> False)"

definition source_name :: "pystr option \<Rightarrow> string \<Rightarrow> pystr" where
  "source_name name sha = (case name of Some (c # cs) \<Rightarrow> c # cs | _ \<Rightarrow> ascii (''text-'' @ take 12 sha))"

definition document_metadata :: "(pystr \<times> json) list \<Rightarrow> pystr option \<Rightarrow> (pystr \<times> json) list" where
  "document_metadata metadata session_id = (case session_id of None \<Rightarrow> metadata
     | Some s \<Rightarrow> AList.update (ascii ''session_id'') (JStr s) metadata)"

definition read_ingress_filename :: "ingress_store \<Rightarrow> uuid \<Rightarrow> pystr option" where
  "read_ingress_filename fs k = (case fs k of None \<Rightarrow> None | Some (_, f) \<Rightarrow> f)"

definition read_ingress_bytes :: "ingress_store \<Rightarrow> uuid \<Rightarrow> nat list option" where
  "read_ingress_bytes fs k = map_option fst (fs k)"

subsection \<open>Step errors and resources\<close>

definition remember_dependency_error :: "step_exception + 'a" where
  "remember_dependency_error = Inl (Retryable_Step_Error ''REMEMBER_DEPENDENCY_UNAVAILABLE'' ''A Remember dependency was unavailable.'')"

definition remember_content_error :: "step_exception + 'a" where
  "remember_content_error = Inl (Permanent_Step_Error ''REMEMBER_CONTENT_REJECTED'' ''Remember content could not be processed.'')"

definition remember_url_error :: "step_exception + 'a" where
  "remember_url_error = Inl (Permanent_Step_Error ''REMEMBER_URL_REJECTED'' ''Remember URL could not be fetched.'')"

definition remember_scope_error :: "step_exception + 'a" where
  "remember_scope_error = Inl (Permanent_Step_Error ''REMEMBER_RUN_SCOPE_INVALID'' ''Remember run is not scoped to a dataset.'')"

definition remember_ingress_missing :: "step_exception + 'a" where
  "remember_ingress_missing = Inl (Permanent_Step_Error ''REMEMBER_INGRESS_MISSING''
     ''Remember durable ingress artifact is missing.'')"

definition remember_batch_missing :: "step_exception + 'a" where
  "remember_batch_missing = Inl (Permanent_Step_Error ''REMEMBER_PREPARED_STATE_MISSING''
     ''Remember prepared state is not available for this run.'')"

definition remember_target_missing :: "step_exception + 'a" where
  "remember_target_missing = Inl (Permanent_Step_Error ''REMEMBER_TARGET_MISSING'' ''Remember target no longer exists.'')"

definition remember_no_document :: "step_exception + 'a" where
  "remember_no_document = Inl (Permanent_Step_Error ''REMEMBER_TARGET_MISSING'' ''Stored source has no normalized document.'')"

definition remember_resource_missing :: "step_exception + 'a" where
  "remember_resource_missing = Inl (Permanent_Step_Error ''REMEMBER_RESOURCE_MISSING''
     ''Remember processing resources are not configured.'')"

text \<open>A storage error of the port is translated; any other exception stays what it is.\<close>

definition translate_storage_error :: "source_storage_error \<Rightarrow> step_exception + 'a" where
  "translate_storage_error e = (case e of
     Storage_Conflict \<Rightarrow> Inl (Permanent_Step_Error ''REMEMBER_STORAGE_CONTENT_CONFLICT''
       ''Remember final storage already holds different content.'')
   | Storage_Defect \<Rightarrow> Inl Other_Exception
   | _ \<Rightarrow> remember_dependency_error)"

text \<open>\<open>rr_storage\<close> is the injected storage or the router; \<open>rr_tree\<close> reads the local data directory out of the
  outside world; \<open>rr_fetch\<close> is \<open>fetch_https_url\<close>, answering the body and the file name.\<close>

record 'w remember_resources =
  rr_storage :: "'w source_storage"
  rr_backend :: storage_backend
  rr_fs :: fs_config
  rr_tree :: "'w \<Rightarrow> file_tree"
  rr_max_source_size_mb :: int
  rr_fetch :: "pystr \<Rightarrow> int \<Rightarrow> exn + (nat list \<times> pystr)"
  rr_cognify :: cognify_clients

record remember_env =
  rm_cognify :: cognify_env
  rm_repr :: "json \<Rightarrow> pystr"
  rm_now :: timestamp
  rm_source_id :: uuid
  rm_document_id :: uuid

subsection \<open>1. \<open>prepare_and_ingest\<close>\<close>

record prepared_ingest =
  pi_name :: "pystr option"
  pi_mime_type :: pystr
  pi_storage_extension :: pystr
  pi_text :: prepared_text

type_synonym ingest_cache = "uuid \<rightharpoonup> rat \<times> prepared_ingest"

record ingest_output =
  io_source_kind :: pystr
  io_content_sha256 :: string
  io_byte_size :: int
  io_mime_type :: pystr
  io_storage_extension :: pystr

record ingested =
  in_output :: ingest_output
  in_dataset_id :: uuid
  in_source_id :: uuid
  in_document_id :: uuid
  in_deduplicated :: bool
  in_version :: int

definition loader_step_error :: "loader_exn \<Rightarrow> step_exception + 'a" where
  "loader_step_error e = (case e of Text_File_Load_Error \<Rightarrow> remember_content_error | _ \<Rightarrow> Inl Other_Exception)"

definition prepare_file :: "remember_env \<Rightarrow> pystr \<Rightarrow> nat list \<Rightarrow> step_exception + prepared_ingest" where
  "prepare_file env filename bs =
     (case prepare_text_file_content (cg_loader (rm_cognify env)) (Some filename) bs of
        Inl e \<Rightarrow> loader_step_error e
      | Inr f \<Rightarrow> Inr \<lparr>pi_name = Some (pf_original_filename f), pi_mime_type = pf_mime_type f,
          pi_storage_extension = pf_storage_extension f, pi_text = pf_text f\<rparr>)"

definition prepare_text_ingest :: "remember_env \<Rightarrow> json \<Rightarrow> nat list \<Rightarrow> step_exception + prepared_ingest" where
  "prepare_text_ingest env inp bs =
     (case utf8_decode bs of
        None \<Rightarrow> Inl Other_Exception
      | Some content \<Rightarrow>
        (case prepare_text_content (cg_loader (rm_cognify env)) content of
           Inl _ \<Rightarrow> Inl Other_Exception
         | Inr t \<Rightarrow> Inr \<lparr>pi_name = optional_str (rm_repr env) inp ''name'', pi_mime_type = TEXT_MIME_TYPE,
             pi_storage_extension = TEXT_STORAGE_EXTENSION, pi_text = t\<rparr>))"

definition fetch_error :: "exn \<Rightarrow> step_exception + 'a" where
  "fetch_error e = (if e = dependency_unavailable_error then remember_dependency_error
     else if is_sofias_error e then remember_url_error else Inl Other_Exception)"

text \<open>The ingress artifact of a URL is written before anything else looks at the bytes.\<close>

definition acquire_url ::
  "remember_env \<Rightarrow> 'w remember_resources \<Rightarrow> pipeline_context \<Rightarrow> ingress_store \<Rightarrow> (step_exception + prepared_ingest) \<times> ingress_store" where
  "acquire_url env res c fs =
     (let k = ctx_run_id c;
          acquired = (if ingress_artifact_exists fs k then Inr fs
            else case rr_fetch res (str_get (rm_repr env) (ctx_run_input c) ''url'') (rr_max_source_size_mb res * 1024 * 1024) of
              Inl e \<Rightarrow> fetch_error e
            | Inr (body, filename) \<Rightarrow> Inr (write_ingress_bytes fs k body (Some filename)))
      in case acquired of
           Inl e \<Rightarrow> (Inl e, fs)
         | Inr fs1 \<Rightarrow>
           (case read_ingress_bytes fs1 k of
              None \<Rightarrow> (Inl Other_Exception, fs1)
            | Some bs \<Rightarrow>
                (prepare_file env (case read_ingress_filename fs1 k of Some (x # xs) \<Rightarrow> x # xs | _ \<Rightarrow> ascii ''remote'') bs, fs1)))"

definition acquire ::
  "remember_env \<Rightarrow> 'w remember_resources \<Rightarrow> pipeline_context \<Rightarrow> ingress_store \<Rightarrow> (step_exception + prepared_ingest) \<times> ingress_store" where
  "acquire env res c fs =
     (let inp = ctx_run_input c; kind = str_get (rm_repr env) inp ''source_kind'' in
      if kind = SOURCE_KIND_URL then acquire_url env res c fs
      else if kind = SOURCE_KIND_FILE then
        (case read_ingress_bytes fs (ctx_run_id c) of
           None \<Rightarrow> (remember_ingress_missing, fs)
         | Some bs \<Rightarrow> (prepare_file env (str_get (rm_repr env) inp ''filename'') bs, fs))
      else if kind = SOURCE_KIND_TEXT then
        (case read_ingress_bytes fs (ctx_run_id c) of
           None \<Rightarrow> (remember_ingress_missing, fs)
         | Some bs \<Rightarrow> (prepare_text_ingest env inp bs, fs))
      else (remember_scope_error, fs))"

definition evict_ingest :: "rat \<Rightarrow> ingest_cache \<Rightarrow> ingest_cache" where
  "evict_ingest now st = (\<lambda>k. case st k of None \<Rightarrow> None | Some (t, b) \<Rightarrow> if t < now - 900 then None else Some (t, b))"

definition ingest_output_of :: "pystr \<Rightarrow> prepared_ingest \<Rightarrow> ingest_output" where
  "ingest_output_of kind p = \<lparr>io_source_kind = kind, io_content_sha256 = pt_content_sha256 (pi_text p),
     io_byte_size = pt_byte_size (pi_text p), io_mime_type = pi_mime_type p, io_storage_extension = pi_storage_extension p\<rparr>"

definition prepare_and_ingest_execute ::
  "remember_env \<Rightarrow> 'w remember_resources option \<Rightarrow> rat \<Rightarrow> pipeline_context \<Rightarrow> ingest_cache \<Rightarrow> ingress_store \<Rightarrow>
   (step_exception + ingest_output) \<times> ingest_cache \<times> ingress_store" where
  "prepare_and_ingest_execute env resources now c st fs =
     (case resources of
        None \<Rightarrow> (remember_resource_missing, st, fs)
      | Some res \<Rightarrow>
        (case acquire env res c fs of
           (Inl e, fs1) \<Rightarrow> (Inl e, st, fs1)
         | (Inr p, fs1) \<Rightarrow> (Inr (ingest_output_of (str_get (rm_repr env) (ctx_run_input c) ''source_kind'') p),
             (evict_ingest now st)(ctx_run_id c \<mapsto> (now, p)), fs1)))"

text \<open>Repository queries and the insert of a source.\<close>

definition get_latest_by_content_hash :: "uuid \<Rightarrow> string \<Rightarrow> kdb \<Rightarrow> source option" where
  "get_latest_by_content_hash ds sha d =
     (case sort_key (\<lambda>s. (- src_version s, - src_created_at s, src_id s))
             (filter (\<lambda>s. src_dataset_id s = ds \<and> src_content_sha256 s = sha) (kb_sources d)) of
        [] \<Rightarrow> None | s # _ \<Rightarrow> Some s)"

definition list_documents_for_source :: "uuid \<Rightarrow> kdb \<Rightarrow> document list" where
  "list_documents_for_source k d = sort_key (\<lambda>x. (doc_generation x, doc_created_at x, doc_id x))
     (filter (\<lambda>x. doc_source_id x = k) (kb_documents d))"

definition source_insert :: "source \<Rightarrow> kdb \<Rightarrow> exn + kdb" where
  "source_insert s d =
     (if src_id s \<in> src_id ` set (kb_sources d) then Inl (Integrity_Error ''sources_pkey'')
      else if (src_dataset_id s, src_content_sha256 s, src_version s)
        \<in> (\<lambda>x. (src_dataset_id x, src_content_sha256 x, src_version x)) ` set (kb_sources d)
      then Inl (Integrity_Error ''uq_sources_dataset_id_content_sha256_version'')
      else Inr (d\<lparr>kb_sources := kb_sources d @ [s]\<rparr>))"

definition retry_source_reuse :: "pipeline_run \<Rightarrow> uuid \<Rightarrow> string \<Rightarrow> kdb \<Rightarrow> source option" where
  "retry_source_reuse run ds sha d =
     (case run_retry_of_run_id run of
        None \<Rightarrow> None
      | Some k \<Rightarrow>
        (case get_run k (kb_runtime d) of
           None \<Rightarrow> None
         | Some original \<Rightarrow>
           (case run_source_id original of
              None \<Rightarrow> None
            | Some sid \<Rightarrow>
              (case kb_source sid d of
                 None \<Rightarrow> None
               | Some s \<Rightarrow> if src_dataset_id s = ds \<and> src_content_sha256 s = sha then Some s else None))))"

definition parse_source_kind :: "pystr \<Rightarrow> source_kind option" where
  "parse_source_kind s = (if s = SOURCE_KIND_TEXT then Some Kind_TEXT else if s = SOURCE_KIND_FILE then Some Kind_FILE
     else if s = SOURCE_KIND_URL then Some Kind_URL else None)"

text \<open>The source a run reuses: that of the run it retries, or the latest of the same content unless forced.\<close>

definition reused_source :: "json \<Rightarrow> pipeline_run \<Rightarrow> uuid \<Rightarrow> string \<Rightarrow> kdb \<Rightarrow> source option" where
  "reused_source inp run ds sha d =
     (case retry_source_reuse run ds sha d of
        Some s \<Rightarrow> Some s
      | None \<Rightarrow> if truthy (jget inp ''force'') then None else get_latest_by_content_hash ds sha d)"

definition new_source :: "remember_env \<Rightarrow> json \<Rightarrow> prepared_ingest \<Rightarrow> source_kind \<Rightarrow> (pystr \<times> json) list \<Rightarrow> uuid \<Rightarrow> kdb \<Rightarrow> source" where
  "new_source env inp p kind metadata ds d =
     (let t = pi_text p in
      \<lparr>src_id = rm_source_id env, src_dataset_id = ds, src_kind = kind, src_name = source_name (pi_name p) (pt_content_sha256 t),
       src_mime_type = pi_mime_type p,
       src_original_uri = (if kind = Kind_URL then Some (str_get (rm_repr env) inp ''url'') else None),
       src_storage_uri = None, src_content_sha256 = pt_content_sha256 t, src_normalized_sha256 = Some (pt_normalized_sha256 t),
       src_byte_size = pt_byte_size t, src_metadata = metadata, src_status = Source_PENDING,
       src_version = (case get_latest_by_content_hash ds (pt_content_sha256 t) d of None \<Rightarrow> 1 | Some s \<Rightarrow> src_version s + 1),
       src_created_at = rm_now env\<rparr>)"

definition new_document ::
  "remember_env \<Rightarrow> json \<Rightarrow> prepared_ingest \<Rightarrow> (pystr \<times> json) list \<Rightarrow> dataset \<Rightarrow> uuid \<Rightarrow> document" where
  "new_document env inp p metadata ds k =
     (let t = pi_text p in
      \<lparr>doc_id = rm_document_id env, doc_dataset_id = dataset_id ds, doc_source_id = k,
       doc_generation = dataset_active_generation ds, doc_title = source_name (pi_name p) (pt_content_sha256 t),
       doc_language = UNDETERMINED_LANGUAGE, doc_normalized_text = pt_normalized_text t,
       doc_text_sha256 = pt_normalized_sha256 t, doc_token_count = UNTOKENIZED_SENTINEL,
       doc_metadata = document_metadata metadata (optional_str (rm_repr env) inp ''session_id''), doc_is_active = True,
       doc_created_at = rm_now env\<rparr>)"

definition ingest_body ::
  "remember_env \<Rightarrow> pipeline_context \<Rightarrow> prepared_ingest \<Rightarrow> ingest_output \<Rightarrow> kdb \<Rightarrow> step_exception + (ingested \<times> kdb)" where
  "ingest_body env c p out d =
     (case ctx_dataset_id c of
        None \<Rightarrow> remember_scope_error
      | Some k \<Rightarrow>
        (case kb_dataset k d of
           None \<Rightarrow> remember_target_missing
         | Some ds \<Rightarrow>
           if dataset_status ds \<noteq> Dataset_ACTIVE then remember_target_missing
           else (case get_run (ctx_run_id c) (kb_runtime d) of
              None \<Rightarrow> remember_target_missing
            | Some run \<Rightarrow>
              (let inp = ctx_run_input c; sha = pt_content_sha256 (pi_text p) in
               case (parse_source_kind (str_get (rm_repr env) inp ''source_kind''), metadata_member inp) of
                 (Some kind, Some metadata) \<Rightarrow>
                   bindE (case reused_source inp run k sha d of
                       Some s \<Rightarrow>
                         (let documents = list_documents_for_source (src_id s) d in
                          if documents = [] then remember_no_document
                          else Inr (s, doc_id (last documents), True, d))
                     | None \<Rightarrow>
                         (if kind = Kind_URL \<and> jget inp ''url'' = None then Inl Other_Exception
                          else let s = new_source env inp p kind metadata k d; x = new_document env inp p metadata ds (src_id s) in
                            lift_exn (bindE (source_insert s d) (\<lambda>d1. bindE (document_insert x d1) (\<lambda>d2.
                              Inr (s, doc_id x, False, d2)))))) (\<lambda>(s, document, deduplicated, d1).
                     Inr (\<lparr>in_output = out, in_dataset_id = k, in_source_id = src_id s, in_document_id = document,
                            in_deduplicated = deduplicated, in_version = src_version s\<rparr>,
                          put_kb_run (run\<lparr>run_source_id := Some (src_id s)\<rparr>) d1))
               | _ \<Rightarrow> Inl Other_Exception))))"

definition prepare_and_ingest_persist ::
  "remember_env \<Rightarrow> pipeline_context \<Rightarrow> ingest_output \<Rightarrow> ingest_cache \<Rightarrow> kdb \<Rightarrow>
   (step_exception + (ingested \<times> kdb)) \<times> ingest_cache" where
  "prepare_and_ingest_persist env c out st d =
     ((case st (ctx_run_id c) of
         None \<Rightarrow> remember_batch_missing
       | Some (_, p) \<Rightarrow> ingest_body env c p out d), st(ctx_run_id c := None))"

subsection \<open>2. \<open>finalize_storage\<close>\<close>

datatype storage_status = Skipped_Dedup | Already_Present | Written | Recovered_Legacy

record storage_output =
  fo_status :: storage_status
  fo_written :: bool
  fo_storage_uri :: "pystr option"

definition skipped_output :: storage_output where
  "skipped_output = \<lparr>fo_status = Skipped_Dedup, fo_written = False, fo_storage_uri = None\<rparr>"

text \<open>The legacy final object of an earlier filesystem backend, verified against the run's own identity.\<close>

definition locate_verified_legacy_final ::
  "'w remember_resources \<Rightarrow> uuid \<Rightarrow> uuid \<Rightarrow> pystr \<Rightarrow> int \<Rightarrow> string \<Rightarrow> 'w \<Rightarrow> step_exception + nat list option" where
  "locate_verified_legacy_final res ds s mime sz sha w =
     (case canonical_storage_extension_for_mime_type mime of
        Inl _ \<Rightarrow> Inr None
      | Inr ext \<Rightarrow>
        (let p = final_storage_path (fc_data_directory (rr_fs res)) ds s ext; t = rr_tree res w in
         if \<not> is_file p t then Inr None
         else case read_file p t of
             None \<Rightarrow> Inl Other_Exception
           | Some bs \<Rightarrow> Inr (if int (length bs) \<noteq> sz \<or> fc_sha256 (rr_fs res) bs \<noteq> sha then None else Some bs)))"

definition finalize_with ::
  "'w remember_resources \<Rightarrow> ingested \<Rightarrow> nat list \<Rightarrow> 'w \<Rightarrow> (step_exception + finalize_res) \<times> 'w" where
  "finalize_with res i bs w =
     (case st_finalize (rr_storage res) (in_dataset_id i) (in_source_id i) (io_storage_extension (in_output i)) bs w of
        (Inl e, w1) \<Rightarrow> (translate_storage_error e, w1)
      | (Inr r, w1) \<Rightarrow> (Inr r, w1))"

definition finalize_absent ::
  "'w remember_resources \<Rightarrow> ingested \<Rightarrow> 'w \<Rightarrow> (step_exception + storage_output) \<times> 'w" where
  "finalize_absent res i w =
     (if rr_backend res \<noteq> Backend_S3 then (remember_ingress_missing, w)
      else case locate_verified_legacy_final res (in_dataset_id i) (in_source_id i) (io_mime_type (in_output i))
             (io_byte_size (in_output i)) (io_content_sha256 (in_output i)) w of
          Inl e \<Rightarrow> (Inl e, w)
        | Inr None \<Rightarrow> (remember_ingress_missing, w)
        | Inr (Some bs) \<Rightarrow>
            (case finalize_with res i bs w of
               (Inl e, w1) \<Rightarrow> (Inl e, w1)
             | (Inr r, w1) \<Rightarrow> (Inr \<lparr>fo_status = Recovered_Legacy, fo_written = True, fo_storage_uri = Some (fz_storage_uri r)\<rparr>, w1)))"

definition finalize_storage_execute ::
  "'w remember_resources option \<Rightarrow> pipeline_context \<Rightarrow> ingested option \<Rightarrow> ingress_store \<Rightarrow> 'w \<Rightarrow>
   (step_exception + storage_output) \<times> ingress_store \<times> 'w" where
  "finalize_storage_execute resources c upstream fs w =
     (case resources of
        None \<Rightarrow> (remember_resource_missing, fs, w)
      | Some res \<Rightarrow>
        (case upstream of
           None \<Rightarrow> (remember_target_missing, fs, w)
         | Some i \<Rightarrow>
           if in_deduplicated i then (Inr skipped_output, fs, w)
           else (case st_deterministic_uri (rr_storage res) (in_dataset_id i) (in_source_id i)
                        (io_storage_extension (in_output i)) of
              Inl e \<Rightarrow> (Inl Other_Exception, fs, w)
            | Inr uri \<Rightarrow>
              (case st_verify (rr_storage res) (in_dataset_id i) (in_source_id i) uri (io_content_sha256 (in_output i)) w of
                 (Inl e, w1) \<Rightarrow> (translate_storage_error e, fs, w1)
               | (Inr True, w1) \<Rightarrow> (Inr \<lparr>fo_status = Already_Present, fo_written = False, fo_storage_uri = Some uri\<rparr>,
                   delete_ingress_artifact fs (ctx_run_id c), w1)
               | (Inr False, w1) \<Rightarrow>
                   (case read_ingress_bytes fs (ctx_run_id c) of
                      Some bs \<Rightarrow>
                        (case finalize_with res i bs w1 of
                           (Inl e, w2) \<Rightarrow> (Inl e, fs, w2)
                         | (Inr r, w2) \<Rightarrow>
                             (Inr \<lparr>fo_status = (if fz_already_present r then Already_Present else Written),
                                  fo_written = (\<not> fz_already_present r), fo_storage_uri = Some (fz_storage_uri r)\<rparr>,
                              delete_ingress_artifact fs (ctx_run_id c), w2))
                    | None \<Rightarrow> (case finalize_absent res i w1 of (r, w2) \<Rightarrow> (r, fs, w2)))))))"

definition finalize_storage_persist ::
  "ingested \<Rightarrow> storage_output \<Rightarrow> kdb \<Rightarrow> step_exception + kdb" where
  "finalize_storage_persist i out d =
     (if fo_status out = Skipped_Dedup then Inr d
      else case kb_source (in_source_id i) d of
          None \<Rightarrow> remember_target_missing
        | Some s \<Rightarrow>
          if src_storage_uri s \<noteq> None then Inr d
          else (case fo_storage_uri out of
                  Some (x # xs) \<Rightarrow> Inr (put_source (s\<lparr>src_storage_uri := Some (x # xs)\<rparr>) d)
                | _ \<Rightarrow> remember_target_missing))"

subsection \<open>3. \<open>cognify\<close>\<close>

record cognify_counts =
  cc_skipped :: bool
  cc_sources_processed :: nat
  cc_chunks :: nat
  cc_entities :: nat
  cc_relations :: nat

definition counts_of :: "process_outcome \<Rightarrow> cognify_counts" where
  "counts_of o1 = \<lparr>cc_skipped = False, cc_sources_processed = co_sources_processed o1, cc_chunks = co_chunks o1,
     cc_entities = co_entities o1, cc_relations = co_relations o1\<rparr>"

definition skipped_counts :: cognify_counts where
  "skipped_counts = \<lparr>cc_skipped = True, cc_sources_processed = 0, cc_chunks = 0, cc_entities = 0, cc_relations = 0\<rparr>"

definition composition_error :: "exn \<Rightarrow> step_exception + 'a" where
  "composition_error e = (if e = dependency_unavailable_error then remember_dependency_error
     else if is_sofias_error e then remember_content_error else Inl Other_Exception)"

definition cognify_composition_execute ::
  "remember_env \<Rightarrow> 'w remember_resources option \<Rightarrow> cognify_reads \<Rightarrow> rat \<Rightarrow> pipeline_context \<Rightarrow> ingested option \<Rightarrow> staged \<Rightarrow>
   (step_exception + cognify_counts) \<times> staged" where
  "cognify_composition_execute env resources reads now c upstream st =
     (if str_get (rm_repr env) (ctx_run_input c) ''mode'' \<noteq> MODE_FULL then (Inr skipped_counts, st)
      else case resources of
        None \<Rightarrow> (remember_resource_missing, st)
      | Some res \<Rightarrow>
        (case (upstream, ctx_dataset_id c) of
           (Some i, Some k) \<Rightarrow>
             (case prepare_batch (rm_cognify env) (rr_cognify res) reads k (Some [in_source_id i]) False of
                Inl e \<Rightarrow> (composition_error e, st)
              | Inr b \<Rightarrow> (Inr (counts_of (planned_outcome b)), (evict_abandoned now st)(ctx_run_id c \<mapsto> (now, b))))
         | _ \<Rightarrow> (remember_target_missing, st)))"

definition cognify_composition_persist ::
  "remember_env \<Rightarrow> 'w remember_resources option \<Rightarrow> pipeline_context \<Rightarrow> cognify_counts \<Rightarrow> staged \<Rightarrow> kdb \<Rightarrow>
   (step_exception + (cognify_counts \<times> kdb)) \<times> staged" where
  "cognify_composition_persist env resources c out st d =
     (if cc_skipped out then (Inr (out, d), st)
      else ((case st (ctx_run_id c) of
         None \<Rightarrow> remember_batch_missing
       | Some (_, b) \<Rightarrow>
         (case resources of
            None \<Rightarrow> remember_resource_missing
          | Some _ \<Rightarrow> bindE (lift_exn (persist_batch (rm_cognify env) b d)) (\<lambda>(o1, d1). Inr (counts_of o1, d1)))),
       st(ctx_run_id c := None)))"

subsection \<open>4. \<open>finalize_result\<close>\<close>

definition remember_result :: "ingested \<Rightarrow> cognify_counts \<Rightarrow> json" where
  "remember_result i cc = JObj
     [(ascii ''dataset_id'', JStr (uuid_text (in_dataset_id i))), (ascii ''source_id'', JStr (uuid_text (in_source_id i))),
      (ascii ''document_id'', JStr (uuid_text (in_document_id i))),
      (ascii ''content_hash'', json_str (io_content_sha256 (in_output i))),
      (ascii ''chunks'', jnat (cc_chunks cc)), (ascii ''entities'', jnat (cc_entities cc)),
      (ascii ''relations'', jnat (cc_relations cc)), (ascii ''deduplicated'', JBool (in_deduplicated i))]"

definition remember_finalize_result :: "pipeline_context \<Rightarrow> ingested \<Rightarrow> cognify_counts \<Rightarrow> kdb \<Rightarrow> step_exception + kdb" where
  "remember_finalize_result c i cc d =
     (case get_run (ctx_run_id c) (kb_runtime d) of
        None \<Rightarrow> remember_target_missing
      | Some run \<Rightarrow> Inr (put_kb_run (run\<lparr>run_metrics := set_member ''remember_result'' (remember_result i cc) (run_metrics run)\<rparr>) d))"

subsection \<open>Step inputs\<close>

definition members :: "(string \<times> json) list \<Rightarrow> json" where
  "members kvs = JObj (map (\<lambda>(k, v). (ascii k, v)) kvs)"

definition copied :: "json \<Rightarrow> string list \<Rightarrow> (string \<times> json) list" where
  "copied j keys = map (\<lambda>k. (k, or_null (jget j k))) keys"

definition prepare_and_ingest_input :: "json \<Rightarrow> (string \<Rightarrow> json option) \<Rightarrow> json option" where
  "prepare_and_ingest_input inp step_outputs = Some inp"

definition finalize_storage_input :: "json \<Rightarrow> (string \<Rightarrow> json option) \<Rightarrow> json option" where
  "finalize_storage_input inp step_outputs = map_option (\<lambda>u. members (copied u
     [''dataset_id'', ''source_id'', ''deduplicated'', ''storage_extension'', ''content_sha256'', ''mime_type'', ''byte_size'']))
     (step_outputs ''prepare_and_ingest'')"

definition cognify_step_input :: "json \<Rightarrow> (string \<Rightarrow> json option) \<Rightarrow> json option" where
  "cognify_step_input inp step_outputs = map_option (\<lambda>u. members (copied inp [''mode''] @ copied u [''source_id'']))
     (step_outputs ''prepare_and_ingest'')"

definition finalize_result_input :: "json \<Rightarrow> (string \<Rightarrow> json option) \<Rightarrow> json option" where
  "finalize_result_input inp step_outputs =
     (case (step_outputs ''prepare_and_ingest'', step_outputs ''finalize_storage'', step_outputs ''cognify'') of
        (Some a, Some b, Some c) \<Rightarrow> Some (members (copied a [''source_id''] @ copied b [''storage_status'']
          @ copied c [''chunks'', ''entities'', ''relations'']))
      | _ \<Rightarrow> None)"

subsection \<open>The pipeline\<close>

text \<open>A run of the four steps, each on the state the previous one committed and others changed; \<open>reads\<close> is what
  the composed Cognify phase reads.  A step that raises ends the run with nothing of its own committed.\<close>

record remember_outcome =
  ro_ingested :: ingested
  ro_storage :: storage_output
  ro_cognify :: cognify_counts

definition run_remember ::
  "remember_env \<Rightarrow> (nat \<Rightarrow> kdb \<Rightarrow> kdb) \<Rightarrow> 'w remember_resources \<Rightarrow> (kdb \<Rightarrow> cognify_reads) \<Rightarrow> rat \<Rightarrow> pipeline_context \<Rightarrow>
   ingress_store \<Rightarrow> kdb \<Rightarrow> 'w \<Rightarrow> (step_exception + remember_outcome) \<times> kdb \<times> ingress_store \<times> 'w" where
  "run_remember env interfere res reads now c fs d w =
     (let d0 = interfere 0 d in
      case prepare_and_ingest_execute env (Some res) now c (\<lambda>_. None) fs of
        (Inl e, _, fs1) \<Rightarrow> (Inl e, d0, fs1, w)
      | (Inr out, st, fs1) \<Rightarrow>
        (case fst (prepare_and_ingest_persist env c out st d0) of
           Inl e \<Rightarrow> (Inl e, d0, fs1, w)
         | Inr (i, d1) \<Rightarrow>
           (case finalize_storage_execute (Some res) c (Some i) fs1 w of
              (Inl e, fs2, w2) \<Rightarrow> (Inl e, d1, fs2, w2)
            | (Inr stored, fs2, w2) \<Rightarrow>
              (let d2 = interfere 1 d1 in
               case finalize_storage_persist i stored d2 of
                 Inl e \<Rightarrow> (Inl e, d2, fs2, w2)
               | Inr d3 \<Rightarrow>
                 (let d4 = interfere 2 d3 in
                  case cognify_composition_execute env (Some res) (reads d4) now c (Some i) (\<lambda>_. None) of
                    (Inl e, _) \<Rightarrow> (Inl e, d4, fs2, w2)
                  | (Inr planned, st4) \<Rightarrow>
                    (case fst (cognify_composition_persist env (Some res) c planned st4 d4) of
                       Inl e \<Rightarrow> (Inl e, d4, fs2, w2)
                     | Inr (cc, d5) \<Rightarrow>
                       (let d6 = interfere 3 d5 in
                        case remember_finalize_result c i cc d6 of
                          Inl e \<Rightarrow> (Inl e, d6, fs2, w2)
                        | Inr d7 \<Rightarrow> (Inr \<lparr>ro_ingested = i, ro_storage = stored, ro_cognify = cc\<rparr>, d7, fs2, w2))))))))"

end
