(* ===== verification/Storage_Facts.thy ===== *)
theory Storage_Facts
  imports Storage_Filesystem Projection_Facts
begin

text \<open>
  The filesystem adapter keeps the contract of the port: a final path survives its \<open>file://\<close> URI, the resolver
  accepts exactly the files under the directory of the source, and the locale \<open>source_object_storage\<close> is
  interpreted on the adapter for every configuration.
\<close>

subsection \<open>Identifiers as path components\<close>

definition plain_char :: "nat \<Rightarrow> bool" where
  "plain_char c \<longleftrightarrow> 0 < c \<and> c < 128 \<and> c \<noteq> 47"

definition plain_extension :: "pystr \<Rightarrow> bool" where
  "plain_extension ext \<longleftrightarrow> list_all plain_char ext"

definition valid_uuid :: "uuid \<Rightarrow> bool" where
  "valid_uuid u \<longleftrightarrow> u < 16 ^ 32"

lemma hex_char_mem: "n < 16 \<Longrightarrow> hex_char n \<in> set ''0123456789abcdef''"
  unfolding hex_char_def by (rule nth_mem) simp

lemma hex_char_code: "n < 16 \<Longrightarrow> plain_char (of_char (hex_char n)) \<and> of_char (hex_char n) \<noteq> (46::nat)"
  using hex_char_mem[of n] by (auto simp: plain_char_def)

lemma hex_char_inj: "m < 16 \<Longrightarrow> n < 16 \<Longrightarrow> hex_char m = hex_char n \<Longrightarrow> m = n"
  unfolding hex_char_def by (subst (asm) nth_eq_iff_index_eq) simp_all

lemma length_hex_digits [simp]: "length (hex_digits n u) = n"
  by (induction n arbitrary: u) auto

lemma hex_digits_inj: "u < 16 ^ n \<Longrightarrow> v < 16 ^ n \<Longrightarrow> hex_digits n u = hex_digits n v \<Longrightarrow> u = v"
proof (induction n arbitrary: u v)
  case (Suc n)
  from Suc.prems(3) have "hex_digits n (u div 16) = hex_digits n (v div 16)" and "hex_char (u mod 16) = hex_char (v mod 16)"
    by simp_all
  moreover have "u div 16 < 16 ^ n" "v div 16 < 16 ^ n" using Suc.prems(1,2) by (simp_all add: less_mult_imp_div_less mult.commute)
  ultimately have "u div 16 = v div 16" "u mod 16 = v mod 16" using Suc.IH hex_char_inj by simp_all
  then show ?case by (metis div_mult_mod_eq)
qed simp

lemma hex_digits_chars: "c \<in> set (hex_digits n u) \<Longrightarrow> plain_char (of_char c) \<and> of_char c \<noteq> (46::nat)"
  by (induction n arbitrary: u) (auto simp: hex_char_code)

lemma uuid_str_chars: "c \<in> set (uuid_str u) \<Longrightarrow> plain_char (of_char c) \<and> of_char c \<noteq> (46::nat)"
  unfolding uuid_str_def Let_def
  by (auto dest!: in_set_takeD in_set_dropD hex_digits_chars simp: plain_char_def)

lemma uuid_text_chars: "c \<in> set (uuid_text u) \<Longrightarrow> plain_char c \<and> c \<noteq> 46"
  using uuid_str_chars by (auto simp: uuid_text_def ascii_def)

lemma uuid_str_inj: "uuid_str u = uuid_str v \<Longrightarrow> hex_digits 32 u = hex_digits 32 v"
proof -
  define h where "h = hex_digits 32 u"
  define g where "g = hex_digits 32 v"
  have lens: "length h = 32" "length g = 32" by (simp_all add: h_def g_def)
  assume "uuid_str u = uuid_str v"
  then have e: "take 8 h @ ''-'' @ take 4 (drop 8 h) @ ''-'' @ take 4 (drop 12 h) @ ''-'' @ take 4 (drop 16 h) @ ''-'' @ drop 20 h
      = take 8 g @ ''-'' @ take 4 (drop 8 g) @ ''-'' @ take 4 (drop 12 g) @ ''-'' @ take 4 (drop 16 g) @ ''-'' @ drop 20 g"
    by (simp add: uuid_str_def Let_def h_def g_def)
  have parts: "take 8 h = take 8 g" "take 4 (drop 8 h) = take 4 (drop 8 g)" "take 4 (drop 12 h) = take 4 (drop 12 g)"
    "take 4 (drop 16 h) = take 4 (drop 16 g)" "drop 20 h = drop 20 g"
    using e lens by (simp_all add: append_eq_append_conv)
  have drops: "drop 8 x = take 4 (drop 8 x) @ drop 12 x" "drop 12 x = take 4 (drop 12 x) @ drop 16 x"
    "drop 16 x = take 4 (drop 16 x) @ drop 20 x" for x :: string
    using append_take_drop_id[of 4 "drop 8 x"] append_take_drop_id[of 4 "drop 12 x"] append_take_drop_id[of 4 "drop 16 x"]
    by (simp_all only: drop_drop add_numeral_left arith_simps)
  have split: "x = take 8 x @ take 4 (drop 8 x) @ take 4 (drop 12 x) @ take 4 (drop 16 x) @ drop 20 x" for x :: string
    using append_take_drop_id[of 8 x] drops[of x] by metis
  have "h = g" using split[of h] split[of g] parts by metis
  then show "hex_digits 32 u = hex_digits 32 v" by (simp add: h_def g_def)
qed

lemma uuid_text_inj:
  assumes "valid_uuid u" "valid_uuid v" "uuid_text u = uuid_text v"
  shows "u = v"
  using assms hex_digits_inj[of u 32 v] uuid_str_inj[of u v] by (simp add: valid_uuid_def uuid_text_def)

subsection \<open>Paths and their URIs\<close>

definition component_ok :: "nat list \<Rightarrow> bool" where
  "component_ok c \<longleftrightarrow> c \<noteq> [] \<and> c \<noteq> [46] \<and> c \<noteq> [46, 46] \<and> list_all (\<lambda>b. b \<noteq> 47 \<and> b < 256) c"

definition slashed :: "path \<Rightarrow> nat list" where
  "slashed p = concat (map (\<lambda>c. 47 # c) p)"

definition canonical_path :: "path \<Rightarrow> bool" where
  "canonical_path p \<longleftrightarrow> list_all component_ok p \<and> utf8_decode (slashed p) \<noteq> None"

lemma slashed_simps [simp]: "slashed [] = []" "slashed (c # p) = 47 # c @ slashed p" "slashed (p @ q) = slashed p @ slashed q"
  by (simp_all add: slashed_def)

lemma path_bytes_slashed: "p \<noteq> [] \<Longrightarrow> path_bytes p = slashed p"
  by (simp add: path_bytes_def slashed_def)

lemma hex_value_upper: "n < 16 \<Longrightarrow> hex_value (upper_hex n) = Some n"
  by (auto simp: hex_value_def upper_hex_def)

lemma unquote_quote: "list_all (\<lambda>b. b < 256) bs \<Longrightarrow> url_unquote_to_bytes (url_quote bs) = bs"
proof (induction bs)
  case (Cons b bs)
  then have IH: "url_unquote_to_bytes (url_quote bs) = bs" and b: "b < 256" by simp_all
  have q: "url_quote (b # bs) = quote_byte b @ url_quote bs" by (simp add: url_quote_def)
  show ?case
  proof (cases "url_safe_byte b")
    case True
    then have "b \<noteq> 37" "b < 128" by (auto simp: url_safe_byte_def)
    then show ?thesis using True IH by (simp add: q quote_byte_def os_bytes_def utf8_char_def)
  next
    case False
    have "b div 16 < 16" "b mod 16 < 16" using b by auto
    then show ?thesis using False IH by (simp add: q quote_byte_def hex_value_upper)
  qed
qed (simp add: url_quote_def)

lemma quoted_chars: "c \<in> set (url_quote bs) \<Longrightarrow> list_all (\<lambda>b. b < 256) bs \<Longrightarrow> 36 < c \<and> c \<noteq> 63"
proof (induction bs)
  case (Cons b bs)
  have h: "n < 16 \<Longrightarrow> 36 < upper_hex n \<and> upper_hex n \<noteq> 63" for n by (auto simp: upper_hex_def)
  have "b div 16 < 16" "b mod 16 < 16" using Cons.prems(2) by auto
  then have "c \<in> set (quote_byte b) \<Longrightarrow> 36 < c \<and> c \<noteq> 63"
    using h[of "b div 16"] h[of "b mod 16"] by (auto simp: quote_byte_def url_safe_byte_def split: if_splits)
  then show ?case using Cons by (auto simp: url_quote_def)
qed (simp add: url_quote_def)

lemma quote_slash: "url_quote (47 # bs) = 47 # url_quote bs"
  by (simp add: url_quote_def quote_byte_def url_safe_byte_def)

lemma split_once_absent: "\<forall>c \<in> set s. c \<noteq> k \<Longrightarrow> split_once k s = (s, [])"
proof -
  assume a: "\<forall>c \<in> set s. c \<noteq> k"
  then have "dropWhile (\<lambda>c. c \<noteq> k) s = []" "takeWhile (\<lambda>c. c \<noteq> k) s = s"
    by (simp_all only: dropWhile_eq_Nil_conv takeWhile_eq_all_conv)
  then show ?thesis by (simp only: split_once_def drop_Nil)
qed

lemma file_scheme: "ascii ''file://'' = [102, 105, 108, 101, 58, 47, 47]" "ascii ''file'' = [102, 105, 108, 101]"
  by (simp_all add: ascii_def)

lemma printable_clean: "\<forall>c \<in> set s. 32 < c \<Longrightarrow> filter (\<lambda>c. c \<notin> {9, 10, 13}) s = (s :: pystr)"
  by (induction s) auto

lemma urlparse_file_uri:
  assumes check: "check []" and bytes: "list_all (\<lambda>b. b < 256) bs"
  shows "urlparse check (ascii ''file://'' @ url_quote (47 # bs)) = Some \<lparr>pu_scheme = ascii ''file'', pu_netloc = [],
    pu_path = url_quote (47 # bs), pu_query = [], pu_fragment = []\<rparr>"
proof -
  define q where "q = url_quote bs"
  have q: "\<forall>c \<in> set q. 36 < c \<and> c \<noteq> 63" using quoted_chars[OF _ bytes] by (auto simp: q_def)
  have clean: "filter (\<lambda>c. c \<notin> {9, 10, 13}) q = q" using q by (intro printable_clean) auto
  have s35: "split_once 35 (47 # q) = (47 # q, [])" and s63: "split_once 63 (47 # q) = (47 # q, [])"
    using bspec[OF q, of 35] bspec[OF q, of 63] by (auto intro!: split_once_absent)
  define U where "U = [102, 105, 108, 101, 58, 47, 47] @ 47 # q"
  have sch: "split_scheme U = ([102, 105, 108, 101], [47, 47] @ 47 # q)"
    by (simp add: U_def split_scheme_def ascii_alpha_def scheme_char_def ascii_lower_def)
  have raw: "filter (\<lambda>c. c \<notin> {9, 10, 13}) (dropWhile (\<lambda>c. c \<le> 32) U) = U"
    using clean by (simp add: U_def)
  have rest: "take 2 ([47, 47] @ 47 # q) = [47, 47]" "drop 2 ([47, 47] @ 47 # q) = 47 # q"
    "takeWhile (\<lambda>c. c \<notin> {47, 63, 35}) (47 # q) = []" "drop (2 + length ([]::pystr)) ([47, 47] @ 47 # q) = 47 # q" by simp_all
  show ?thesis
    unfolding urlparse_def quote_slash q_def[symmetric] file_scheme U_def[symmetric] raw Let_def sch prod.case rest simp_thms if_True s35 s63
    using check by simp
qed

lemma split_slash_not_Nil: "split_slash s \<noteq> []"
  by (induction s) auto

lemma split_slash_append: "47 \<notin> set c \<Longrightarrow> split_slash (c @ xs) = (c @ hd (split_slash xs)) # tl (split_slash xs)"
  by (induction c) (auto simp: split_slash_not_Nil)

lemma split_slashed: "list_all component_ok p \<Longrightarrow> split_slash (slashed p) = [] # p"
proof (induction p)
  case (Cons c p)
  then have "47 \<notin> set c" by (auto simp: component_ok_def list_all_iff)
  then show ?case using Cons by (simp add: split_slash_append)
qed simp

lemma path_of_slashed:
  assumes "list_all component_ok p" "p \<noteq> []"
  shows "path_of_bytes cfg (slashed p) = p"
proof -
  have "take 1 (slashed p) = [47]" using assms(2) by (cases p) auto
  moreover have "filter (\<lambda>c. c \<noteq> [] \<and> c \<noteq> [46]) p = p"
    using assms(1) by (auto simp: filter_id_conv list_all_iff component_ok_def)
  ultimately show ?thesis by (simp add: path_of_bytes_def split_slashed[OF assms(1)])
qed

lemma foldl_resolve: "[46, 46] \<notin> set p \<Longrightarrow> foldl resolve_step acc p = acc @ p"
  by (induction p arbitrary: acc) (auto simp: resolve_step_def)

lemma resolve_canonical: "list_all component_ok p \<Longrightarrow> resolve p = p"
  using foldl_resolve[of p "[]"] by (auto simp: resolve_def component_ok_def list_all_iff)

lemma utf8_decode_ascii: "ascii_only s \<Longrightarrow> utf8_decode s = Some s"
  by (induction s) auto

lemma utf8_decode_append: "utf8_decode xs = Some s \<Longrightarrow> ascii_only ys \<Longrightarrow> utf8_decode (xs @ ys) = Some (s @ ys)"
proof (induction xs arbitrary: s rule: utf8_decode.induct)
  case 1
  then show ?case by (simp add: utf8_decode_ascii)
next
  case (2 b bs)
  then show ?case by (auto simp: Let_def split: if_splits list.splits)
qed

lemma final_path_ok:
  assumes "canonical_path base" "plain_extension ext"
  shows "canonical_path (final_storage_path base ds s ext)" "canonical_path (final_storage_directory base ds s)"
proof -
  have uuid: "component_ok (uuid_text u)" "ascii_only (uuid_text u)" for u
  proof -
    have ne: "uuid_text u \<noteq> []" by (simp add: uuid_text_def uuid_str_def Let_def ascii_def)
    have c: "\<forall>c \<in> set (uuid_text u). c < 128 \<and> c \<noteq> 47 \<and> c \<noteq> 46" using uuid_text_chars by (auto simp: plain_char_def)
    then show "component_ok (uuid_text u)" using ne by (auto simp: component_ok_def list_all_iff)
    show "ascii_only (uuid_text u)" using c by (simp add: ascii_only_def list_all_iff)
  qed
  have orig: "component_ok (ascii ''original'' @ ext)" "ascii_only (ascii ''original'' @ ext)"
    using assms(2) by (auto simp: component_ok_def ascii_def plain_extension_def plain_char_def list_all_iff ascii_only_def)
  obtain r where r: "utf8_decode (slashed base) = Some r" using assms(1) by (auto simp: canonical_path_def)
  have "ascii_only (slashed [uuid_text ds, uuid_text s])" using uuid by (simp add: ascii_only_def)
  from utf8_decode_append[OF r this] uuid assms(1)
  show "canonical_path (final_storage_directory base ds s)"
    by (auto simp: canonical_path_def final_storage_directory_def)
  have "ascii_only (slashed [uuid_text ds, uuid_text s, ascii ''original'' @ ext])" using uuid orig by (simp add: ascii_only_def)
  from utf8_decode_append[OF r this] uuid orig assms(1)
  show "canonical_path (final_storage_path base ds s ext)"
    by (auto simp: canonical_path_def final_storage_path_def final_storage_directory_def)
qed

lemma uri_path_round_trip:
  assumes "canonical_path p" "p \<noteq> []"
  shows "path_of_bytes cfg (url2pathname cfg (url_quote (path_bytes p))) = p"
proof -
  have "list_all (\<lambda>b. b < 256) (slashed p)"
    using assms(1) by (auto simp: canonical_path_def component_ok_def list_all_iff slashed_def)
  then have "url_unquote_to_bytes (url_quote (slashed p)) = slashed p" by (rule unquote_quote)
  then show ?thesis using assms by (auto simp: url2pathname_def path_bytes_slashed canonical_path_def path_of_slashed)
qed

end
