(* ===== verification/Storage_Contract.thy ===== *)
theory Storage_Contract
  imports Storage_Facts
begin

text \<open>
  The laws of the port for the filesystem adapter: what the resolver accepts, what a write changes, and the
  interpretation of \<open>source_object_storage\<close> on the adapter.
\<close>

subsection \<open>Trees\<close>

definition tree_closed :: "file_tree \<Rightarrow> bool" where
  "tree_closed w \<longleftrightarrow> (\<forall>p c. ft_nodes w (p @ [c]) \<noteq> None \<longrightarrow> p = [] \<or> ft_nodes w p = Some Dir_Node)"

definition fs_ready :: "fs_config \<Rightarrow> file_tree \<Rightarrow> bool" where
  "fs_ready cfg w \<longleftrightarrow> canonical_path (fc_data_directory cfg) \<and> fc_check_netloc cfg [] \<and> tree_closed w"

lemma closed_prefix: "tree_closed w \<Longrightarrow> ft_nodes w (p @ q) \<noteq> None \<Longrightarrow> q \<noteq> [] \<Longrightarrow> p = [] \<or> ft_nodes w p = Some Dir_Node"
proof (induction q rule: rev_induct)
  case (snoc c q)
  from snoc.prems(1,2) have up: "p @ q = [] \<or> ft_nodes w (p @ q) = Some Dir_Node"
    by (metis append_assoc tree_closed_def)
  then show ?case using snoc.IH[OF snoc.prems(1)] by (cases "q = []") auto
qed simp

lemma path_walk_closed:
  "tree_closed w \<Longrightarrow> [46, 46] \<notin> set cs \<Longrightarrow> path_walk w cur cs \<longleftrightarrow> cur @ cs = [] \<or> ft_nodes w (cur @ cs) \<noteq> None"
proof (induction cs arbitrary: cur)
  case (Cons c cs)
  then have IH: "path_walk w (cur @ [c]) cs \<longleftrightarrow> ft_nodes w ((cur @ [c]) @ cs) \<noteq> None" by simp
  have "ft_nodes w (cur @ c # cs) \<noteq> None \<Longrightarrow> cur = [] \<or> ft_nodes w cur = Some Dir_Node"
    using closed_prefix[OF Cons.prems(1), of cur "c # cs"] by simp
  then show ?case using IH Cons.prems(2) by auto
qed simp

lemma path_exists_closed: "tree_closed w \<Longrightarrow> canonical_path p \<Longrightarrow> p \<noteq> [] \<Longrightarrow> path_exists p w \<longleftrightarrow> ft_nodes w p \<noteq> None"
  using path_walk_closed[of w p "[]"] by (auto simp: path_exists_def canonical_path_def component_ok_def list_all_iff)

lemma set_node_simps [simp]:
  "ft_nodes (set_node p n w) = (ft_nodes w)(p := n)" "ft_denied (set_node p n w) = ft_denied w"
  by (simp_all add: set_node_def)

lemma closed_set_file:
  assumes "tree_closed w" "ft_nodes w d = Some Dir_Node" "ft_nodes w (d @ [c]) \<noteq> Some Dir_Node"
  shows "tree_closed (set_node (d @ [c]) (Some (File_Node bs)) w)"
  unfolding tree_closed_def
proof (intro allI impI)
  fix p x assume a: "ft_nodes (set_node (d @ [c]) (Some (File_Node bs)) w) (p @ [x]) \<noteq> None"
  show "p = [] \<or> ft_nodes (set_node (d @ [c]) (Some (File_Node bs)) w) p = Some Dir_Node"
  proof (cases "p = d")
    case False
    then have "ft_nodes w (p @ [x]) \<noteq> None" using a by simp
    then have "p = [] \<or> ft_nodes w p = Some Dir_Node" using assms(1) unfolding tree_closed_def by blast
    then show ?thesis using assms(3) by auto
  qed (use assms(2) in simp)
qed

lemma closed_set_none:
  assumes "tree_closed w" "ft_nodes w p \<noteq> Some Dir_Node"
  shows "tree_closed (set_node p None w)"
  using assms unfolding tree_closed_def by (auto split: if_splits)

fun chain :: "path \<Rightarrow> path list \<Rightarrow> bool" where
  "chain prev [] = True"
| "chain prev (p # ps) = (p \<noteq> [] \<and> butlast p = prev \<and> chain p ps)"

lemma chain_snoc: "chain prev (ps @ [q]) \<longleftrightarrow> chain prev ps \<and> q \<noteq> [] \<and> butlast q = (if ps = [] then prev else last ps)"
  by (induction ps arbitrary: prev) auto

lemma path_prefixes_snoc: "path_prefixes [] = []" "path_prefixes [c] = [[c]]" "path_prefixes (p @ [c]) = path_prefixes p @ [p @ [c]]"
  by (simp_all add: path_prefixes_def)

lemma chain_prefixes: "chain [] (path_prefixes p) \<and> (p \<noteq> [] \<longrightarrow> path_prefixes p \<noteq> [] \<and> last (path_prefixes p) = p)"
proof (induction p rule: rev_induct)
  case (snoc c p)
  then show ?case by (cases "p = []") (auto simp: path_prefixes_snoc chain_snoc)
qed (simp add: path_prefixes_snoc)

lemma prefixes_length: "q \<in> set (path_prefixes p) \<Longrightarrow> length q \<le> length p"
  by (auto simp: path_prefixes_def)

lemma make_directories_result:
  assumes "make_directories ps w = (ok, w1)" "tree_closed w" "chain prev ps" "prev = [] \<or> ft_nodes w prev = Some Dir_Node"
  shows "tree_closed w1 \<and> ft_denied w1 = ft_denied w \<and> (\<forall>q. q \<notin> set ps \<longrightarrow> ft_nodes w1 q = ft_nodes w q)
    \<and> (\<forall>q. ft_nodes w q \<noteq> None \<longrightarrow> ft_nodes w1 q = ft_nodes w q)
    \<and> (ok \<longrightarrow> (\<forall>p \<in> set ps. ft_nodes w1 p = Some Dir_Node))"
  using assms
proof (induction ps arbitrary: w prev)
  case (Cons p ps)
  show ?case
  proof (cases "ft_nodes w p")
    case None
    show ?thesis
    proof (cases "ft_denied w p")
      case False
      define w' where "w' = set_node p (Some Dir_Node) w"
      have step: "make_directories ps w' = (ok, w1)" using Cons.prems(1) None False by (simp add: w'_def)
      have p: "p = prev @ [last p]" using Cons.prems(3) by (metis append_butlast_last_id chain.simps(2))
      have closed: "tree_closed w'"
        using Cons.prems(2,4) unfolding w'_def tree_closed_def
        by (auto split: if_splits) (metis p append_same_eq butlast_snoc)+
      have "chain p ps" "p = [] \<or> ft_nodes w' p = Some Dir_Node" using Cons.prems(3) by (simp_all add: w'_def)
      from Cons.IH[OF step closed this] show ?thesis using None by (auto simp: w'_def)
    qed (use Cons.prems None in auto)
  next
    case (Some n)
    show ?thesis
    proof (cases n)
      case Dir_Node
      then have "make_directories ps w = (ok, w1)" "chain p ps" "ft_nodes w p = Some Dir_Node"
        using Cons.prems Some by simp_all
      with Cons.IH[OF this(1) Cons.prems(2) this(2)] show ?thesis by auto
    qed (use Cons.prems Some in auto)
  qed
qed auto

subsection \<open>The resolver\<close>

lemma is_relative_append [simp]: "is_relative_to (p @ q) p"
  by (simp add: is_relative_to_def)

lemma final_path_split: "final_storage_path base ds s ext = final_storage_directory base ds s @ [ascii ''original'' @ ext]"
  by (simp add: final_storage_path_def)

lemma resolve_final_uri:
  fixes ds s :: uuid
  assumes ready: "fs_ready cfg w" and ext: "plain_extension ext"
  defines "p \<equiv> final_storage_path (fc_data_directory cfg) ds s ext"
  shows "source_storage_path cfg ds s (final_storage_uri (fc_data_directory cfg) ds s ext) w =
    (case ft_nodes w p of None \<Rightarrow> Inr None | Some (File_Node _) \<Rightarrow> Inr (Some p) | Some Dir_Node \<Rightarrow> Inl Invalid_Storage_Uri)"
proof -
  have base: "canonical_path (fc_data_directory cfg)" and chk: "fc_check_netloc cfg []" and closed: "tree_closed w"
    using ready by (simp_all add: fs_ready_def)
  note ok = final_path_ok[OF base ext, of ds s]
  have p: "canonical_path p" "p \<noteq> []" using ok by (simp_all add: p_def final_storage_path_def)
  have res: "resolve (fc_data_directory cfg) = fc_data_directory cfg" "resolve p = p"
    "resolve (fc_data_directory cfg @ [uuid_text ds, uuid_text s]) = final_storage_directory (fc_data_directory cfg) ds s"
    using base p ok(2) by (simp_all add: canonical_path_def resolve_canonical final_storage_directory_def)
  obtain bs where bs: "slashed p = 47 # bs" using p(2) by (cases p) auto
  have "list_all (\<lambda>b. b < 256) (slashed p)" using p(1) by (auto simp: canonical_path_def component_ok_def list_all_iff slashed_def)
  with bs have "list_all (\<lambda>b. b < 256) bs" by simp
  from urlparse_file_uri[where check = "fc_check_netloc cfg", OF chk this]
  have url: "urlparse (fc_check_netloc cfg) (as_uri p) = Some \<lparr>pu_scheme = ascii ''file'', pu_netloc = [],
      pu_path = url_quote (path_bytes p), pu_query = [], pu_fragment = []\<rparr>"
    using p(2) bs by (simp add: as_uri_def path_bytes_slashed)
  have rel: "is_relative_to (final_storage_directory (fc_data_directory cfg) ds s) (fc_data_directory cfg)"
    "is_relative_to p (final_storage_directory (fc_data_directory cfg) ds s)"
    by (simp_all add: final_storage_directory_def p_def final_storage_path_def is_relative_to_def)
  show ?thesis
    unfolding source_storage_path_def final_storage_uri_def p_def[symmetric] url
    using res rel path_exists_closed[OF closed p] uri_path_round_trip[OF p, of cfg]
    by (simp add: Let_def is_file_def split: option.split node.split)
qed

text \<open>Whatever the stored URI spells, the resolver only yields a file below the directory of its source.\<close>

lemma resolver_contained:
  assumes "source_storage_path cfg ds s u w = Inr (Some p)"
  shows "is_relative_to p (resolve (resolve (fc_data_directory cfg) @ [uuid_text ds, uuid_text s]))" "is_file p w"
  using assms by (auto simp: source_storage_path_def Let_def split: option.splits if_splits)

subsection \<open>Writes\<close>

lemma write_final_result:
  assumes ready: "fs_ready cfg w" and ext: "plain_extension ext"
    and wr: "write_final_storage_bytes cfg ds s ext bs w = (r, w')"
  defines "d \<equiv> final_storage_directory (fc_data_directory cfg) ds s"
  defines "p \<equiv> final_storage_path (fc_data_directory cfg) ds s ext"
  assumes absent: "ft_nodes w p = None"
  shows "tree_closed w'" "ft_denied w' = ft_denied w"
    "\<And>q. q \<notin> set (path_prefixes d) \<Longrightarrow> \<not> is_relative_to q d \<Longrightarrow> ft_nodes w' q = ft_nodes w q"
    "\<And>u. r = Inr u \<Longrightarrow> u = final_storage_uri (fc_data_directory cfg) ds s ext \<and> ft_nodes w' p = Some (File_Node bs) \<and> \<not> ft_denied w p"
proof -
  define t where "t = d @ [ascii ''original'' @ ext @ ascii ''.tmp'']"
  have base: "canonical_path (fc_data_directory cfg)" and closed: "tree_closed w" using ready by (simp_all add: fs_ready_def)
  have d: "canonical_path d" "d \<noteq> []" using final_path_ok(2)[OF base ext] by (simp_all add: d_def final_storage_directory_def)
  have p: "p = d @ [ascii ''original'' @ ext]" by (simp add: p_def d_def final_path_split)
  have tp: "t \<noteq> p" by (simp add: t_def p ascii_def)
  have res: "resolve (fc_data_directory cfg) = fc_data_directory cfg" "resolve (fc_data_directory cfg @ [uuid_text ds, uuid_text s]) = d"
    using base d by (simp_all add: canonical_path_def resolve_canonical d_def final_storage_directory_def)
  have rel: "is_relative_to d (fc_data_directory cfg)" by (simp add: d_def final_storage_directory_def)
  obtain ok w1 where mk: "make_directories (path_prefixes d) w = (ok, w1)" by (cases "make_directories (path_prefixes d) w")
  have ch: "chain [] (path_prefixes d)" "d \<in> set (path_prefixes d)"
    using chain_prefixes[of d] d(2) last_in_set by metis+
  from make_directories_result[OF mk closed ch(1)] ch(2)
  have m: "tree_closed w1" "ft_denied w1 = ft_denied w" "\<And>q. q \<notin> set (path_prefixes d) \<Longrightarrow> ft_nodes w1 q = ft_nodes w q"
    "ok \<Longrightarrow> ft_nodes w1 d = Some Dir_Node" by auto
  have long: "q @ [c] \<notin> set (path_prefixes q)" for q :: path and c using prefixes_length by fastforce
  have sub: "is_relative_to t d" "is_relative_to p d" by (simp_all add: t_def p)
  have weq: "(r, w') = (if \<not> ok then (Inl Storage_Defect, w1)
      else case write_file t bs w1 of None \<Rightarrow> (Inl Storage_Defect, w1)
        | Some w2 \<Rightarrow> (case rename_file t p w2 of None \<Rightarrow> (Inl Storage_Defect, w2)
            | Some w3 \<Rightarrow> (Inr (final_storage_uri (fc_data_directory cfg) ds s ext), w3)))"
    using wr unfolding write_final_storage_bytes_def Let_def res t_def[symmetric] p[symmetric]
    by (simp add: rel mk split: bool.splits)
  have all: "tree_closed w' \<and> ft_denied w' = ft_denied w
    \<and> (\<forall>q. q \<notin> set (path_prefixes d) \<longrightarrow> \<not> is_relative_to q d \<longrightarrow> ft_nodes w' q = ft_nodes w q)
    \<and> (\<forall>u. r = Inr u \<longrightarrow> u = final_storage_uri (fc_data_directory cfg) ds s ext \<and> ft_nodes w' p = Some (File_Node bs) \<and> \<not> ft_denied w p)"
  proof (cases "ok \<and> \<not> ft_denied w t \<and> ft_nodes w1 t \<noteq> Some Dir_Node")
    case False
    then have "r = Inl Storage_Defect \<and> w' = w1" using weq m(2) by (auto simp: write_file_def split: if_splits)
    then show ?thesis using m by auto
  next
    case True
    then have okd: "ft_nodes w1 d = Some Dir_Node" using m(4) by simp
    define w2 where "w2 = set_node t (Some (File_Node bs)) w1"
    have c2: "tree_closed w2" using closed_set_file[OF m(1) okd] True unfolding w2_def t_def by simp
    have p1: "ft_nodes w1 p = None" using m(3)[of p] absent long[of d] by (simp add: p)
    have wr2: "write_file t bs w1 = Some w2" using True m(2) by (simp add: write_file_def w2_def)
    show ?thesis
    proof (cases "ft_denied w p")
      case denied: True
      then have "r = Inl Storage_Defect \<and> w' = w2" using weq wr2 True m(2) by (simp add: rename_file_def w2_def)
      then show ?thesis using m c2 sub by (auto simp: w2_def)
    next
      case False
      define w3 where "w3 = set_node p (Some (File_Node bs)) (set_node t None w2)"
      have "rename_file t p w2 = Some w3" using False m(2) p1 tp by (simp add: rename_file_def w2_def w3_def)
      then have "r = Inr (final_storage_uri (fc_data_directory cfg) ds s ext) \<and> w' = w3" using weq wr2 True by simp
      moreover have "tree_closed w3"
        using closed_set_file[OF closed_set_none[OF c2], of t d "ascii ''original'' @ ext" bs] okd p1 tp
        unfolding w3_def p by (auto simp: w2_def t_def)
      ultimately show ?thesis using m sub False by (auto simp: w2_def w3_def)
    qed
  qed
  show "tree_closed w'" "ft_denied w' = ft_denied w" using all by simp_all
  show "\<And>q. q \<notin> set (path_prefixes d) \<Longrightarrow> \<not> is_relative_to q d \<Longrightarrow> ft_nodes w' q = ft_nodes w q" using all by simp
  show "\<And>u. r = Inr u \<Longrightarrow> u = final_storage_uri (fc_data_directory cfg) ds s ext \<and> ft_nodes w' p = Some (File_Node bs) \<and> \<not> ft_denied w p"
    using all by simp
qed

subsection \<open>The laws\<close>

lemma fs_finalize_cases:
  assumes ready: "fs_ready cfg w" and ext: "plain_extension ext" and fin: "fs_finalize cfg ds s ext bs w = (r, w')"
  defines "p \<equiv> final_storage_path (fc_data_directory cfg) ds s ext"
  defines "u \<equiv> final_storage_uri (fc_data_directory cfg) ds s ext"
  obtains (present) b where "ft_nodes w p = Some (File_Node b)" "\<not> ft_denied w p" "fc_sha256 cfg b = fc_sha256 cfg bs"
      "r = Inr \<lparr>fz_storage_uri = u, fz_already_present = True\<rparr>" "w' = w"
    | (refused) e where "r = Inl e" "w' = w"
    | (written) x where "ft_nodes w p = None" "write_final_storage_bytes cfg ds s ext bs w = (x, w')"
      "r = (case x of Inl e \<Rightarrow> Inl e | Inr v \<Rightarrow> Inr \<lparr>fz_storage_uri = v, fz_already_present = False\<rparr>)"
proof -
  have closed: "tree_closed w" and base: "canonical_path (fc_data_directory cfg)" using ready by (simp_all add: fs_ready_def)
  have "p \<noteq> []" "canonical_path p" using final_path_ok(1)[OF base ext] by (simp_all add: p_def final_storage_path_def)
  then have ex: "path_exists p w \<longleftrightarrow> ft_nodes w p \<noteq> None" by (rule path_exists_closed[OF closed, rotated])
  have fin': "(r, w') = (case final_storage_content_matches cfg p (fc_sha256 cfg bs) w of
        Inl e \<Rightarrow> (Inl e, w)
      | Inr True \<Rightarrow> (Inr \<lparr>fz_storage_uri = u, fz_already_present = True\<rparr>, w)
      | Inr False \<Rightarrow> if path_exists p w then (Inl Storage_Conflict, w)
          else (case write_final_storage_bytes cfg ds s ext bs w of
                  (Inl e, w1) \<Rightarrow> (Inl e, w1)
                | (Inr v, w1) \<Rightarrow> (Inr \<lparr>fz_storage_uri = v, fz_already_present = False\<rparr>, w1)))"
    using fin unfolding fs_finalize_def Let_def p_def[symmetric] u_def[symmetric] by (rule sym)
  have matches: "final_storage_content_matches cfg p h w = (case ft_nodes w p of
      Some (File_Node b) \<Rightarrow> if ft_denied w p then Inl Storage_Defect else Inr (fc_sha256 cfg b = h) | _ \<Rightarrow> Inr False)" for h
    by (simp add: final_storage_content_matches_def is_file_def read_file_def split: option.split node.split)
  show ?thesis
  proof (cases "ft_nodes w p")
    case None
    obtain x w1 where wr: "write_final_storage_bytes cfg ds s ext bs w = (x, w1)" by fastforce
    have "(r, w') = (case x of Inl e \<Rightarrow> Inl e | Inr v \<Rightarrow> Inr \<lparr>fz_storage_uri = v, fz_already_present = False\<rparr>, w1)"
      using fin' None ex wr by (cases x) (simp_all add: matches)
    then show ?thesis using written[OF None, of x] wr by simp
  next
    case (Some n)
    then have e: "path_exists p w" using ex by simp
    show ?thesis
    proof (cases n)
      case (File_Node b)
      show ?thesis
      proof (cases "ft_denied w p \<or> fc_sha256 cfg b \<noteq> fc_sha256 cfg bs")
        case True
        then have "\<exists>e. r = Inl e \<and> w' = w" using fin' Some File_Node e by (auto simp: matches split: if_splits)
        then show ?thesis using refused by blast
      next
        case False
        then show ?thesis using fin' Some File_Node present[of b] by (simp add: matches)
      qed
    next
      case Dir_Node
      then have "r = Inl Storage_Conflict \<and> w' = w" using fin' Some e by (simp add: matches)
      then show ?thesis using refused by blast
    qed
  qed
qed

lemma fs_verify_final:
  assumes "fs_ready cfg w" "plain_extension ext"
  shows "fs_verify cfg ds s (final_storage_uri (fc_data_directory cfg) ds s ext) h w =
    (case ft_nodes w (final_storage_path (fc_data_directory cfg) ds s ext) of
       None \<Rightarrow> Inr False
     | Some (File_Node b) \<Rightarrow> if ft_denied w (final_storage_path (fc_data_directory cfg) ds s ext) then Inl Storage_Defect
         else Inr (fc_sha256 cfg b = h)
     | Some Dir_Node \<Rightarrow> Inl Invalid_Storage_Uri, w)"
  unfolding fs_verify_def resolve_final_uri[OF assms]
  by (auto simp: final_storage_content_matches_def is_file_def read_file_def split: option.split node.split)

lemma fs_finalize_ready:
  assumes "fs_ready cfg w" "plain_extension ext" "fs_finalize cfg ds s ext bs w = (r, w')"
  shows "fs_ready cfg w' \<and> ft_denied w' = ft_denied w"
  using assms
proof (cases rule: fs_finalize_cases)
  case (written x)
  then show ?thesis using write_final_result(1,2)[OF assms(1,2) written(2,1)] assms(1) by (simp add: fs_ready_def)
qed (use assms(1) in auto)

lemma fs_finalized:
  assumes "fs_ready cfg w" "plain_extension ext" "fs_finalize cfg ds s ext bs w = (Inr r, w')"
  shows "\<exists>b. ft_nodes w' (final_storage_path (fc_data_directory cfg) ds s ext) = Some (File_Node b)
    \<and> \<not> ft_denied w' (final_storage_path (fc_data_directory cfg) ds s ext) \<and> fc_sha256 cfg b = fc_sha256 cfg bs
    \<and> (\<not> fz_already_present r \<longrightarrow> b = bs) \<and> fz_storage_uri r = final_storage_uri (fc_data_directory cfg) ds s ext"
  using assms
proof (cases rule: fs_finalize_cases)
  case (written x)
  then obtain v where "x = Inr v" by (cases x) auto
  then show ?thesis using written write_final_result(2)[OF assms(1,2) written(2,1)] write_final_result(4)[OF assms(1,2) written(2,1)]
    by auto
qed auto

lemma other_path_untouched:
  assumes ids: "valid_uuid ds" "valid_uuid s" "valid_uuid ds'" "valid_uuid s'" "(ds', s') \<noteq> (ds, s)"
  shows "final_storage_path base ds' s' ext' \<notin> set (path_prefixes (final_storage_directory base ds s))"
    "\<not> is_relative_to (final_storage_path base ds' s' ext') (final_storage_directory base ds s)"
proof -
  show "final_storage_path base ds' s' ext' \<notin> set (path_prefixes (final_storage_directory base ds s))"
    by (auto dest!: prefixes_length simp: final_storage_path_def final_storage_directory_def)
  show "\<not> is_relative_to (final_storage_path base ds' s' ext') (final_storage_directory base ds s)"
    using ids uuid_text_inj[of ds' ds] uuid_text_inj[of s' s]
    by (auto simp: is_relative_to_def final_storage_path_def final_storage_directory_def)
qed

lemma fs_finalize_other:
  assumes "fs_ready cfg w" "plain_extension ext" "fs_finalize cfg ds s ext bs w = (r, w')"
    and ids: "valid_uuid ds" "valid_uuid s" "valid_uuid ds'" "valid_uuid s'" "(ds', s') \<noteq> (ds, s)"
  shows "ft_nodes w' (final_storage_path (fc_data_directory cfg) ds' s' ext') = ft_nodes w (final_storage_path (fc_data_directory cfg) ds' s' ext')"
  using assms(1-3)
proof (cases rule: fs_finalize_cases)
  case (written x)
  then show ?thesis using write_final_result(3)[OF assms(1,2) written(2,1)] other_path_untouched[OF ids] by blast
qed auto

interpretation filesystem: source_object_storage "filesystem_storage cfg" "fc_sha256 cfg" "fs_ready cfg" plain_extension valid_uuid
  for cfg :: fs_config
proof
  fix w ext ds s bs r w' assume "fs_ready cfg w" "plain_extension ext" "st_finalize (filesystem_storage cfg) ds s ext bs w = (r, w')"
  then show "fs_ready cfg w'" using fs_finalize_ready by (simp add: filesystem_storage_def)
next
  fix ds s ext bs w r w' assume "st_finalize (filesystem_storage cfg) ds s ext bs w = (Inr r, w')"
  then show "st_deterministic_uri (filesystem_storage cfg) ds s ext = Inr (fz_storage_uri r)"
    by (auto simp: filesystem_storage_def fs_finalize_def write_final_storage_bytes_def Let_def
        split: sum.splits bool.splits if_splits prod.splits option.splits)
next
  fix w ext ds s bs r w' assume a: "fs_ready cfg w" "plain_extension ext" "st_finalize (filesystem_storage cfg) ds s ext bs w = (Inr r, w')"
  then have f: "fs_finalize cfg ds s ext bs w = (Inr r, w')" by (simp add: filesystem_storage_def)
  note ready = fs_finalize_ready[OF a(1,2) f]
  show "st_verify (filesystem_storage cfg) ds s (fz_storage_uri r) (fc_sha256 cfg bs) w' = (Inr True, w')"
    using fs_finalized[OF a(1,2) f] fs_verify_final[OF conjunct1[OF ready] a(2), of ds s] by (auto simp: filesystem_storage_def)
next
  fix w ext ds s bs r w' assume a: "fs_ready cfg w" "plain_extension ext" "st_finalize (filesystem_storage cfg) ds s ext bs w = (Inr r, w')"
  then have f: "fs_finalize cfg ds s ext bs w = (Inr r, w')" by (simp add: filesystem_storage_def)
  show "st_finalize (filesystem_storage cfg) ds s ext bs w' = (Inr \<lparr>fz_storage_uri = fz_storage_uri r, fz_already_present = True\<rparr>, w')"
    using fs_finalized[OF a(1,2) f]
    by (auto simp: filesystem_storage_def fs_finalize_def final_storage_content_matches_def is_file_def read_file_def Let_def)
next
  fix w ext ds s bs r w' and max_bytes :: int
  assume a: "fs_ready cfg w" "plain_extension ext" "st_finalize (filesystem_storage cfg) ds s ext bs w = (Inr r, w')"
    and new: "\<not> fz_already_present r" "int (length bs) \<le> max_bytes"
  then have f: "fs_finalize cfg ds s ext bs w = (Inr r, w')" by (simp add: filesystem_storage_def)
  note ready = fs_finalize_ready[OF a(1,2) f]
  show "st_read (filesystem_storage cfg) ds s (fz_storage_uri r) (int (length bs)) (fc_sha256 cfg bs) max_bytes w' = (Inr bs, w')"
    using fs_finalized[OF a(1,2) f] new resolve_final_uri[OF conjunct1[OF ready] a(2), of ds s]
    by (auto simp: filesystem_storage_def fs_read_def read_file_def)
next
  fix ds s u sz h max_bytes w bs w' assume "st_read (filesystem_storage cfg) ds s u sz h max_bytes w = (Inr bs, w')"
  then show "w' = w \<and> fc_sha256 cfg bs = h \<and> int (length bs) = sz \<and> sz \<le> max_bytes"
    by (auto simp: filesystem_storage_def fs_read_def split: sum.splits option.splits if_splits)
next
  fix w ext ext' ds s ds' s' bs r w' u' h
  assume a: "fs_ready cfg w" "plain_extension ext" "plain_extension ext'"
    and ids: "valid_uuid ds" "valid_uuid s" "valid_uuid ds'" "valid_uuid s'" "(ds', s') \<noteq> (ds, s)"
    and f: "st_finalize (filesystem_storage cfg) ds s ext bs w = (r, w')"
    and u: "st_deterministic_uri (filesystem_storage cfg) ds' s' ext' = Inr u'"
  then have f: "fs_finalize cfg ds s ext bs w = (r, w')" and u: "u' = final_storage_uri (fc_data_directory cfg) ds' s' ext'"
    by (simp_all add: filesystem_storage_def)
  note ready = fs_finalize_ready[OF a(1,2) f]
  show "fst (st_verify (filesystem_storage cfg) ds' s' u' h w') = fst (st_verify (filesystem_storage cfg) ds' s' u' h w)"
    unfolding filesystem_storage_def u source_storage.simps fs_verify_final[OF conjunct1[OF ready] a(3)] fs_verify_final[OF a(1,3)]
      fs_finalize_other[OF a(1,2) f ids] conjunct2[OF ready] by simp
next
  fix w ext ds s u w' h
  assume a: "fs_ready cfg w" "plain_extension ext" "st_deterministic_uri (filesystem_storage cfg) ds s ext = Inr u"
    and d: "st_delete (filesystem_storage cfg) ds s (Some u) w = (Inr DELETED_NOW, w')"
  have u: "u = final_storage_uri (fc_data_directory cfg) ds s ext" using a(3) by (simp add: filesystem_storage_def)
  define p where "p = final_storage_path (fc_data_directory cfg) ds s ext"
  have "ft_nodes w p \<noteq> Some Dir_Node \<and> w' = set_node p None w"
    using d resolve_final_uri[OF a(1,2), of ds s]
    by (auto simp: filesystem_storage_def delete_source_storage_def u p_def[symmetric] split: option.splits node.splits if_splits)
  moreover from this have "fs_ready cfg w'" using a(1) closed_set_none[of w p] by (simp add: fs_ready_def)
  ultimately show "fs_ready cfg w' \<and> st_verify (filesystem_storage cfg) ds s u h w' = (Inr False, w')"
    using fs_verify_final[of cfg w' ext ds s h] a(2) by (simp add: filesystem_storage_def u p_def)
qed

subsection \<open>An undisturbed filesystem\<close>

text \<open>Room for a source's original: nothing denied, and nothing but directories on the way to its directory, which is
  empty.\<close>

definition storage_free :: "fs_config \<Rightarrow> uuid \<Rightarrow> uuid \<Rightarrow> file_tree \<Rightarrow> bool" where
  "storage_free cfg ds s w \<longleftrightarrow> (\<forall>q. \<not> ft_denied w q)
     \<and> (\<forall>q \<in> set (path_prefixes (final_storage_directory (fc_data_directory cfg) ds s)). ft_nodes w q \<in> {None, Some Dir_Node})
     \<and> (\<forall>name. ft_nodes w (final_storage_directory (fc_data_directory cfg) ds s @ [name]) = None)"

lemma make_directories_free:
  "\<forall>q. \<not> ft_denied w q \<Longrightarrow> \<forall>q \<in> set ps. ft_nodes w q \<in> {None, Some Dir_Node} \<Longrightarrow> fst (make_directories ps w)"
proof (induction ps arbitrary: w)
  case (Cons p ps)
  then show ?case using Cons.IH[of w] Cons.IH[of "set_node p (Some Dir_Node) w"] by (auto split: option.split node.split)
qed simp

lemma write_free:
  assumes ready: "fs_ready cfg w" and ext: "plain_extension ext" and free: "storage_free cfg ds s w"
  shows "\<exists>w'. write_final_storage_bytes cfg ds s ext bs w = (Inr (final_storage_uri (fc_data_directory cfg) ds s ext), w')"
proof -
  define d where "d = final_storage_directory (fc_data_directory cfg) ds s"
  have base: "canonical_path (fc_data_directory cfg)" and closed: "tree_closed w" using ready by (simp_all add: fs_ready_def)
  have d: "canonical_path d" "d \<noteq> []" using final_path_ok(2)[OF base ext] by (simp_all add: d_def final_storage_directory_def)
  have res: "resolve (fc_data_directory cfg) = fc_data_directory cfg" "resolve (fc_data_directory cfg @ [uuid_text ds, uuid_text s]) = d"
    using base d by (simp_all add: canonical_path_def resolve_canonical d_def final_storage_directory_def)
  have rel: "is_relative_to d (fc_data_directory cfg)" by (simp add: d_def final_storage_directory_def)
  obtain ok w1 where mk: "make_directories (path_prefixes d) w = (ok, w1)" by fastforce
  have ok: ok using make_directories_free[of w "path_prefixes d"] free mk by (simp add: storage_free_def d_def)
  have ch: "chain [] (path_prefixes d)" using chain_prefixes by blast
  have empty: "ft_nodes w1 (d @ [name]) = None" for name
  proof -
    have "d @ [name] \<notin> set (path_prefixes d)" using prefixes_length by fastforce
    then show ?thesis using make_directories_result[OF mk closed ch] free by (simp add: storage_free_def d_def)
  qed
  have deny: "\<not> ft_denied w1 q" for q using make_directories_result[OF mk closed ch] free by (simp add: storage_free_def)
  show ?thesis
    unfolding write_final_storage_bytes_def Let_def res
    using rel mk ok empty deny by (simp add: write_file_def rename_file_def ascii_def)
qed

lemma finalize_free:
  assumes ready: "fs_ready cfg w" and ext: "plain_extension ext" and free: "storage_free cfg ds s w"
  shows "\<exists>w'. fs_finalize cfg ds s ext bs w = (Inr \<lparr>fz_storage_uri = final_storage_uri (fc_data_directory cfg) ds s ext,
      fz_already_present = False\<rparr>, w')"
    "fs_verify cfg ds s (final_storage_uri (fc_data_directory cfg) ds s ext) h w = (Inr False, w)"
proof -
  have absent: "ft_nodes w (final_storage_path (fc_data_directory cfg) ds s ext) = None"
    using free by (simp add: storage_free_def final_path_split)
  have base: "canonical_path (fc_data_directory cfg)" and closed: "tree_closed w" using ready by (simp_all add: fs_ready_def)
  have "canonical_path (final_storage_path (fc_data_directory cfg) ds s ext)" "final_storage_path (fc_data_directory cfg) ds s ext \<noteq> []"
    using final_path_ok(1)[OF base ext] by (simp_all add: final_storage_path_def)
  note ex = path_exists_closed[OF closed this]
  obtain w' where "write_final_storage_bytes cfg ds s ext bs w = (Inr (final_storage_uri (fc_data_directory cfg) ds s ext), w')"
    using write_free[OF assms] by blast
  then show "\<exists>w'. fs_finalize cfg ds s ext bs w = (Inr \<lparr>fz_storage_uri = final_storage_uri (fc_data_directory cfg) ds s ext,
      fz_already_present = False\<rparr>, w')"
    using absent ex by (simp add: fs_finalize_def Let_def final_storage_content_matches_def is_file_def)
  show "fs_verify cfg ds s (final_storage_uri (fc_data_directory cfg) ds s ext) h w = (Inr False, w)"
    using absent by (simp add: fs_verify_final[OF ready ext])
qed

end
