(* ===== verification/Remember_Facts.thy ===== *)
theory Remember_Facts
  imports Remember_Pipeline Storage_Contract Loaders_Facts Cognify_Properties
begin

text \<open>
  Facts of the Remember steps: the versions of a content within a dataset, the ingest of a text, the storage step
  on an undisturbed filesystem, and the reading of S3 locations.
\<close>

subsection \<open>Versions of one content\<close>

definition versions_of :: "uuid \<Rightarrow> string \<Rightarrow> kdb \<Rightarrow> int list" where
  "versions_of ds sha d = map src_version (filter (\<lambda>s. src_dataset_id s = ds \<and> src_content_sha256 s = sha) (kb_sources d))"

text \<open>The versions of a content within a dataset are 1, 2, ... without a gap or a repetition.\<close>

definition versions_contiguous :: "kdb \<Rightarrow> bool" where
  "versions_contiguous d \<longleftrightarrow> (\<forall>ds sha. set (versions_of ds sha d) = {1..int (length (versions_of ds sha d))})"

lemma versions_append: "versions_of ds sha (d\<lparr>kb_sources := kb_sources d @ [s]\<rparr>) =
    versions_of ds sha d @ (if src_dataset_id s = ds \<and> src_content_sha256 s = sha then [src_version s] else [])"
  by (simp add: versions_of_def)

lemma versions_same_sources: "kb_sources d' = kb_sources d \<Longrightarrow> versions_of ds sha d' = versions_of ds sha d"
  by (simp add: versions_of_def)

lemma latest_version:
  assumes "versions_contiguous d"
  shows "case get_latest_by_content_hash ds sha d of
      None \<Rightarrow> versions_of ds sha d = []
    | Some s \<Rightarrow> src_version s = int (length (versions_of ds sha d)) \<and> versions_of ds sha d \<noteq> []
        \<and> s \<in> set (kb_sources d) \<and> src_dataset_id s = ds \<and> src_content_sha256 s = sha"
proof -
  define rows where "rows = filter (\<lambda>s. src_dataset_id s = ds \<and> src_content_sha256 s = sha) (kb_sources d)"
  define f where "f = (\<lambda>s :: source. (- src_version s, - src_created_at s, src_id s))"
  have vs: "versions_of ds sha d = map src_version rows" by (simp add: versions_of_def rows_def)
  have latest: "get_latest_by_content_hash ds sha d = (case sort_key f rows of [] \<Rightarrow> None | s # _ \<Rightarrow> Some s)"
    by (simp add: get_latest_by_content_hash_def rows_def f_def)
  show ?thesis
  proof (cases "sort_key f rows")
    case Nil
    then have "rows = []" by (metis length_sort length_0_conv)
    then show ?thesis by (simp add: latest vs)
  next
    case (Cons s ss)
    have "s \<in> set (sort_key f rows)" using Cons by simp
    then have s: "s \<in> set rows" by simp
    have top: "src_version x \<le> src_version s" if "x \<in> set rows" for x
    proof -
      have "f s \<le> f x" using hd_sort_key_min[OF that, of f] Cons by simp
      then show ?thesis by (auto simp: f_def less_eq_prod_def)
    qed
    have img: "src_version ` set rows = {1..int (length rows)}"
      using assms by (simp add: versions_contiguous_def vs[symmetric] flip: set_map) (simp add: vs)
    have "length rows > 0" using s by (cases rows) auto
    then have "int (length rows) \<in> src_version ` set rows" unfolding img by (cases rows) auto
    moreover have "src_version s \<in> {1..int (length rows)}" using s img by blast
    ultimately have "src_version s = int (length rows)" using top by fastforce
    then show ?thesis using Cons s by (auto simp: latest vs rows_def)
  qed
qed

lemma contiguous_next:
  assumes "versions_contiguous d" "src_version s = 1 + int (length (versions_of (src_dataset_id s) (src_content_sha256 s) d))"
  shows "versions_contiguous (d\<lparr>kb_sources := kb_sources d @ [s]\<rparr>)"
    "(src_dataset_id s, src_content_sha256 s, src_version s) \<notin> (\<lambda>x. (src_dataset_id x, src_content_sha256 x, src_version x)) ` set (kb_sources d)"
proof -
  have up: "insert (1 + int n) {1..int n} = {1..1 + int n}" for n by auto
  show "versions_contiguous (d\<lparr>kb_sources := kb_sources d @ [s]\<rparr>)"
    using assms by (auto simp: versions_contiguous_def versions_append up simp del: atLeastAtMost_iff)
  show "(src_dataset_id s, src_content_sha256 s, src_version s) \<notin> (\<lambda>x. (src_dataset_id x, src_content_sha256 x, src_version x)) ` set (kb_sources d)"
  proof
    assume "(src_dataset_id s, src_content_sha256 s, src_version s) \<in> (\<lambda>x. (src_dataset_id x, src_content_sha256 x, src_version x)) ` set (kb_sources d)"
    then have "src_version s \<in> set (versions_of (src_dataset_id s) (src_content_sha256 s) d)"
      by (auto simp: versions_of_def image_iff)
    then have "src_version s \<le> int (length (versions_of (src_dataset_id s) (src_content_sha256 s) d))"
      using assms(1) by (simp add: versions_contiguous_def)
    then show False using assms(2) by simp
  qed
qed

lemma reused_source_cases:
  assumes "versions_contiguous d"
  shows "reused_source inp run ds sha d = None \<Longrightarrow> truthy (jget inp ''force'') \<or> versions_of ds sha d = []"
    and "reused_source inp run ds sha d = Some s \<Longrightarrow> s \<in> set (kb_sources d) \<and> src_dataset_id s = ds \<and> src_content_sha256 s = sha"
proof -
  show "reused_source inp run ds sha d = None \<Longrightarrow> truthy (jget inp ''force'') \<or> versions_of ds sha d = []"
    using latest_version[OF assms, of ds sha] by (auto simp: reused_source_def split: option.splits if_splits)
  show "s \<in> set (kb_sources d) \<and> src_dataset_id s = ds \<and> src_content_sha256 s = sha" if r: "reused_source inp run ds sha d = Some s"
  proof (cases "retry_source_reuse run ds sha d")
    case None
    then have "get_latest_by_content_hash ds sha d = Some s" using r by (simp add: reused_source_def split: if_splits)
    then show ?thesis using latest_version[OF assms, of ds sha] by simp
  next
    case (Some x)
    then have "retry_source_reuse run ds sha d = Some s" using r by (simp add: reused_source_def)
    then show ?thesis
      by (auto simp: retry_source_reuse_def kb_source_def split: option.splits if_splits dest: row_get_SomeD)
  qed
qed

lemma new_source_fields [simp]:
  "src_id (new_source env inp p kind metadata ds d) = rm_source_id env"
  "src_dataset_id (new_source env inp p kind metadata ds d) = ds"
  "src_content_sha256 (new_source env inp p kind metadata ds d) = pt_content_sha256 (pi_text p)"
  "src_storage_uri (new_source env inp p kind metadata ds d) = None"
  "src_status (new_source env inp p kind metadata ds d) = Source_PENDING"
  by (simp_all add: new_source_def Let_def)

lemma new_source_version:
  assumes "versions_contiguous d"
  shows "src_version (new_source env inp p kind metadata ds d) = 1 + int (length (versions_of ds (pt_content_sha256 (pi_text p)) d))"
  using latest_version[OF assms, of ds "pt_content_sha256 (pi_text p)"]
  by (auto simp: new_source_def Let_def split: option.splits)

text \<open>What the ingest transaction commits.\<close>

lemma ingest_body_cases:
  assumes "ingest_body env c p out d = Inr (i, d')"
  obtains (reused) k run s where "ctx_dataset_id c = Some k" "get_run (ctx_run_id c) (kb_runtime d) = Some run"
      "reused_source (ctx_run_input c) run k (pt_content_sha256 (pi_text p)) d = Some s"
      "list_documents_for_source (src_id s) d \<noteq> []"
      "d' = put_kb_run (run\<lparr>run_source_id := Some (src_id s)\<rparr>) d"
      "i = \<lparr>in_output = out, in_dataset_id = k, in_source_id = src_id s,
         in_document_id = doc_id (last (list_documents_for_source (src_id s) d)), in_deduplicated = True, in_version = src_version s\<rparr>"
    | (added) k ds run kind metadata d1 d2 where "ctx_dataset_id c = Some k" "kb_dataset k d = Some ds" "dataset_status ds = Dataset_ACTIVE"
      "get_run (ctx_run_id c) (kb_runtime d) = Some run"
      "reused_source (ctx_run_input c) run k (pt_content_sha256 (pi_text p)) d = None"
      "source_insert (new_source env (ctx_run_input c) p kind metadata k d) d = Inr d1"
      "document_insert (new_document env (ctx_run_input c) p metadata ds (rm_source_id env)) d1 = Inr d2"
      "d' = put_kb_run (run\<lparr>run_source_id := Some (rm_source_id env)\<rparr>) d2"
      "i = \<lparr>in_output = out, in_dataset_id = k, in_source_id = rm_source_id env, in_document_id = rm_document_id env,
         in_deduplicated = False, in_version = src_version (new_source env (ctx_run_input c) p kind metadata k d)\<rparr>"
proof -
  have doc: "doc_id (new_document env (ctx_run_input c) p metadata ds k) = rm_document_id env" for metadata ds k
    by (simp add: new_document_def Let_def)
  obtain k ds run kind metadata where k: "ctx_dataset_id c = Some k" "kb_dataset k d = Some ds" "dataset_status ds = Dataset_ACTIVE"
      "get_run (ctx_run_id c) (kb_runtime d) = Some run"
      and parsed: "parse_source_kind (str_get (rm_repr env) (ctx_run_input c) ''source_kind'') = Some kind"
        "metadata_member (ctx_run_input c) = Some metadata"
    using assms unfolding ingest_body_def Let_def remember_scope_error_def remember_target_missing_def
    by (auto split: option.splits if_splits)
  show ?thesis
  proof (cases "reused_source (ctx_run_input c) run k (pt_content_sha256 (pi_text p)) d")
    case (Some s)
    then show ?thesis using assms k parsed reused[OF k(1,4) Some]
      by (auto simp: ingest_body_def Let_def remember_no_document_def split: if_splits)
  next
    case None
    then show ?thesis using assms k parsed added[OF k None]
      by (auto simp: ingest_body_def Let_def lift_exn_def bindE_eq_Inr_iff doc split: if_splits sum.splits)
  qed
qed

subsection \<open>A text on an undisturbed filesystem\<close>

lemma text_ingest:
  assumes "utf8 s = Some bs" "\<forall>c \<in> set s. c < 1114112"
  obtains t where "prepare_text_ingest env inp bs = Inr \<lparr>pi_name = optional_str (rm_repr env) inp ''name'',
      pi_mime_type = TEXT_MIME_TYPE, pi_storage_extension = TEXT_STORAGE_EXTENSION, pi_text = t\<rparr>"
    "pt_content_sha256 t = ld_sha256 (cg_loader (rm_cognify env)) bs" "pt_normalized_text t = normalize_newlines s"
    "pt_byte_size t = int (length bs)"
proof -
  obtain b where "utf8 (normalize_newlines s) = Some b" using utf8_normalized[OF assms(1)] by blast
  then obtain t where "prepare_text_bytes (cg_loader (rm_cognify env)) bs s = Inr t"
    by (simp add: prepare_text_bytes_def Let_def)
  then show ?thesis
    using that[of t] prepared_text_result[of "cg_loader (rm_cognify env)" bs s t] utf8_decode_utf8[OF assms] assms(1)
    by (simp add: prepare_text_ingest_def prepare_text_content_def)
qed

subsection \<open>Rows after an ingest\<close>

lemma row_get_app: "row_get key k (xs @ [x]) = (case row_get key k xs of Some y \<Rightarrow> Some y | None \<Rightarrow> if key x = k then Some x else None)"
  by (induction xs) (auto simp: row_get_def)

lemma source_insert_Inr:
  "source_insert s d = Inr d' \<longleftrightarrow> src_id s \<notin> src_id ` set (kb_sources d)
     \<and> (src_dataset_id s, src_content_sha256 s, src_version s) \<notin> (\<lambda>x. (src_dataset_id x, src_content_sha256 x, src_version x)) ` set (kb_sources d)
     \<and> d' = d\<lparr>kb_sources := kb_sources d @ [s]\<rparr>"
  by (auto simp: source_insert_def)

lemma kb_source_absent: "kb_source k d = None \<longleftrightarrow> k \<notin> src_id ` set (kb_sources d)"
  by (simp add: kb_source_def row_get_None_iff)

lemma kb_inserted [kb_simps]:
  "kb_documents (d\<lparr>kb_sources := xs\<rparr>) = kb_documents d" "kb_sources (d\<lparr>kb_documents := ys\<rparr>) = kb_sources d"
  "kb_dataset k (d\<lparr>kb_sources := xs\<rparr>) = kb_dataset k d" "kb_dataset k (d\<lparr>kb_documents := ys\<rparr>) = kb_dataset k d"
  "kb_source k (d\<lparr>kb_documents := ys\<rparr>) = kb_source k d"
  by (simp_all add: kb_dataset_def kb_source_def)

lemma sources_put_kb_run [kb_simps]: "kb_sources (put_kb_run r d) = kb_sources d" "kb_source k (put_kb_run r d) = kb_source k d"
  "kb_documents (put_kb_run r d) = kb_documents d" "kb_runtime (put_kb_run r d) = put_run r (kb_runtime d)"
  by (simp_all add: put_kb_run_def kb_source_def)

end
