(* ===== verification/Storage_S3_Facts.thy ===== *)
theory Storage_S3_Facts
  imports Storage_S3 Storage_Contract
begin

text \<open>
  The S3 adapter: its own locations are parsed back, a deletion is reported only on evidence, and what a client
  that does not answer does to each operation.
\<close>

subsection \<open>Locations\<close>

definition key_char :: "nat \<Rightarrow> bool" where
  "key_char c \<longleftrightarrow> 32 < c \<and> c \<noteq> 35 \<and> c \<noteq> 63"

definition segments_ok :: "pystr \<Rightarrow> bool" where
  "segments_ok s \<longleftrightarrow> list_all (\<lambda>x. x \<notin> {[], [46], [46, 46]}) (split_slash s)"

definition s3_location_ok :: "s3_config \<Rightarrow> bool" where
  "s3_location_ok cfg \<longleftrightarrow> s3_bucket cfg \<noteq> [] \<and> list_all (\<lambda>c. key_char c \<and> c \<noteq> 47) (s3_bucket cfg)
     \<and> s3_check_netloc cfg (s3_bucket cfg)
     \<and> (s3_prefix cfg \<noteq> [] \<longrightarrow> segments_ok (s3_prefix cfg) \<and> list_all key_char (s3_prefix cfg))"

definition key_extension :: "pystr \<Rightarrow> bool" where
  "key_extension ext \<longleftrightarrow> list_all (\<lambda>c. key_char c \<and> c \<noteq> 47) ext"

lemma split_slash_slash: "split_slash (a @ 47 # b) = split_slash a @ split_slash b"
proof (induction a)
  case (Cons c a)
  then show ?case by (simp add: split_slash_not_Nil)
qed simp

lemma segments_join: "segments_ok a \<Longrightarrow> segments_ok b \<Longrightarrow> segments_ok (a @ 47 # b)"
  by (simp add: segments_ok_def split_slash_slash)

lemma segments_single: "47 \<notin> set a \<Longrightarrow> a \<notin> {[], [46], [46, 46]} \<Longrightarrow> segments_ok a"
  using split_slash_append[of a "[]"] by (simp add: segments_ok_def)

lemma segments_first: "segments_ok s \<Longrightarrow> s \<noteq> [] \<and> hd s \<noteq> 47"
  by (cases s) (auto simp: segments_ok_def)

lemma uuid_segment: "segments_ok (uuid_text u)" "list_all key_char (uuid_text u)"
proof -
  have ne: "uuid_text u \<noteq> []" by (simp add: uuid_text_def uuid_str_def Let_def ascii_def)
  have c: "\<forall>c \<in> set (uuid_text u). c \<noteq> 47 \<and> c \<noteq> 46" using uuid_text_chars by (auto simp: plain_char_def)
  then have n47: "47 \<notin> set (uuid_text u)" by blast
  show "segments_ok (uuid_text u)" by (rule segments_single[OF n47]) (use ne c in auto)
  have hex: "n < 16 \<Longrightarrow> key_char (of_char (hex_char n))" for n
    using hex_char_mem[of n] by (auto simp: key_char_def)
  have "c \<in> set (hex_digits n v) \<Longrightarrow> key_char (of_char c)" for c n v
    by (induction n arbitrary: v) (auto simp: hex)
  then have "c \<in> set (uuid_str u) \<Longrightarrow> key_char (of_char c)" for c
    unfolding uuid_str_def Let_def by (auto dest!: in_set_takeD in_set_dropD simp: key_char_def)
  then show "list_all key_char (uuid_text u)" by (auto simp: uuid_text_def ascii_def list_all_iff)
qed

lemma s3_directory_ok:
  assumes "s3_location_ok cfg"
  shows "segments_ok (s3_directory (s3_prefix cfg) ds s)" "list_all key_char (s3_directory (s3_prefix cfg) ds s)"
proof -
  have det: "segments_ok DETERMINISTIC_KEY_ROOT" "list_all key_char DETERMINISTIC_KEY_ROOT"
    by (simp_all add: DETERMINISTIC_KEY_ROOT_def ascii_def segments_ok_def key_char_def)
  have k47: "key_char 47" by (simp add: key_char_def)
  note parts = det uuid_segment[of ds] uuid_segment[of s]
  have tail: "segments_ok (DETERMINISTIC_KEY_ROOT @ 47 # uuid_text ds @ 47 # uuid_text s)"
    using parts by (intro segments_join) simp_all
  show "segments_ok (s3_directory (s3_prefix cfg) ds s)"
    using tail assms segments_join[OF _ tail, of "s3_prefix cfg"]
    by (simp add: s3_directory_def normalized_prefix_segments_def s3_location_ok_def)
  show "list_all key_char (s3_directory (s3_prefix cfg) ds s)"
    using parts assms k47 by (simp add: s3_directory_def normalized_prefix_segments_def s3_location_ok_def)
qed

lemma urlparse_s3:
  assumes b: "list_all (\<lambda>c. key_char c \<and> c \<noteq> 47) bucket" and k: "list_all key_char key" and chk: "check bucket"
  shows "urlparse check (s3_object_uri bucket key) = Some \<lparr>pu_scheme = ascii ''s3'', pu_netloc = bucket,
    pu_path = 47 # key, pu_query = [], pu_fragment = []\<rparr>"
proof -
  have s3: "ascii ''s3://'' = [115, 51, 58, 47, 47]" "ascii ''s3'' = [115, 51]" by (simp_all add: ascii_def)
  have kc: "\<forall>c \<in> set key. 32 < c \<and> c \<noteq> 35 \<and> c \<noteq> 63" using k by (simp add: list_all_iff key_char_def)
  have bc: "\<forall>c \<in> set bucket. 32 < c \<and> c \<noteq> 35 \<and> c \<noteq> 63 \<and> c \<noteq> 47" using b by (auto simp: list_all_iff key_char_def)
  have clean: "filter (\<lambda>c. c \<notin> {9, 10, 13}) key = key" by (rule printable_clean) (use kc in blast)
  have cleanb: "filter (\<lambda>c. c \<notin> {9, 10, 13}) bucket = bucket" by (rule printable_clean) (use bc in blast)
  have net: "takeWhile (\<lambda>c. c \<notin> {47, 63, 35}) (bucket @ 47 # key) = bucket"
    using bc by (induction bucket) auto
  have s35: "split_once 35 (47 # key) = (47 # key, [])" and s63: "split_once 63 (47 # key) = (47 # key, [])"
    using bspec[OF kc, of 35] bspec[OF kc, of 63] by (auto intro!: split_once_absent)
  define U where "U = [115, 51, 58, 47, 47] @ bucket @ 47 # key"
  have sch: "split_scheme U = ([115, 51], [47, 47] @ bucket @ 47 # key)"
    by (simp add: U_def split_scheme_def ascii_alpha_def scheme_char_def ascii_lower_def)
  have raw: "filter (\<lambda>c. c \<notin> {9, 10, 13}) (dropWhile (\<lambda>c. c \<le> 32) U) = U"
    using clean cleanb by (simp add: U_def)
  have rest: "take 2 ([47, 47] @ bucket @ 47 # key) = [47, 47]" "drop 2 ([47, 47] @ bucket @ 47 # key) = bucket @ 47 # key"
    "drop (2 + length bucket) ([47, 47] @ bucket @ 47 # key) = 47 # key" by simp_all
  show ?thesis
    unfolding urlparse_def s3_object_uri_def s3 U_def[symmetric] raw Let_def sch prod.case rest simp_thms if_True net s35 s63
    using chk by simp
qed

lemma s3_uri_parses:
  assumes loc: "s3_location_ok cfg" and ext: "key_extension ext"
  shows "parse_s3_storage_uri cfg (s3_uri cfg ds s ext) ds s
    = Inr (s3_bucket cfg, s3_object_key (s3_prefix cfg) ds s ext)"
proof -
  define dir where "dir = s3_directory (s3_prefix cfg) ds s"
  define fname where "fname = FINAL_OBJECT_FILENAME_PREFIX @ ext"
  define key where "key = dir @ 47 # fname"
  have orig: "FINAL_OBJECT_FILENAME_PREFIX = [111, 114, 105, 103, 105, 110, 97, 108]"
    by (simp add: FINAL_OBJECT_FILENAME_PREFIX_def ascii_def)
  have e: "list_all key_char ext" "47 \<notin> set ext" using ext by (auto simp: key_extension_def list_all_iff)
  have f: "47 \<notin> set fname" "list_all key_char fname" "segments_ok fname"
    using e by (auto simp: fname_def orig key_char_def intro!: segments_single)
  note d = s3_directory_ok[OF loc, of ds s, folded dir_def]
  have k: "list_all key_char key" "segments_ok key"
    using d f by (auto simp: key_def key_char_def intro!: segments_join)
  have first: "dropWhile (\<lambda>c. c = 47) (47 # key) = key"
    using segments_first[OF k(2)] by (cases key) auto
  have seg: "\<not> list_ex (\<lambda>x. x \<in> {[], [46], [46, 46]}) (split_slash key)"
    using k(2) by (auto simp: segments_ok_def list_all_iff list_ex_iff)
  have st: "starts_with (dir @ [47]) key" "drop (length dir + 1) key = fname" "starts_with FINAL_OBJECT_FILENAME_PREFIX fname"
    by (simp_all add: starts_with_def key_def fname_def)
  have url: "urlparse (s3_check_netloc cfg) (s3_object_uri (s3_bucket cfg) key) = Some \<lparr>pu_scheme = ascii ''s3'',
      pu_netloc = s3_bucket cfg, pu_path = 47 # key, pu_query = [], pu_fragment = []\<rparr>"
    using loc k(1) by (intro urlparse_s3) (simp_all add: s3_location_ok_def)
  have uri: "s3_uri cfg ds s ext = s3_object_uri (s3_bucket cfg) key" "s3_object_key (s3_prefix cfg) ds s ext = key"
    by (simp_all add: s3_uri_def s3_object_key_def key_def dir_def fname_def)
  show ?thesis
    unfolding parse_s3_storage_uri_def uri url
    using loc first seg st f(1) segments_first[OF k(2)]
    by (simp add: Let_def s3_location_ok_def dir_def[symmetric] del: dropWhile.simps)
qed

subsection \<open>Deletion\<close>

lemma batches_concat: "concat (batches xs) = xs"
  by (induction xs rule: batches.induct) (auto simp: DELETE_BATCH_SIZE_def)

lemma batches_bounded: "b \<in> set (batches xs) \<Longrightarrow> b \<noteq> [] \<and> length b \<le> DELETE_BATCH_SIZE"
  by (induction xs rule: batches.induct) (auto simp: DELETE_BATCH_SIZE_def)

text \<open>The evidence a deletion is reported on: the last look at the key found nothing of it.\<close>

definition seen_absent :: "'w s3_client \<Rightarrow> pystr \<Rightarrow> pystr \<Rightarrow> 'w \<Rightarrow> bool" where
  "seen_absent cl bucket key w \<longleftrightarrow>
     (\<exists>w0. head_object_sync cl bucket key w0 = (Inr None, w) \<or> list_exact_key_versions_sync cl bucket key w0 = (Inr ([], []), w))"

lemma delete_evidence:
  assumes "delete_object_sync cl bucket key w = (st, w')" "st = DELETED_NOW \<or> st = ALREADY_ABSENT"
  shows "seen_absent cl bucket key w'"
  using assms unfolding delete_object_sync_def delete_all_versions_sync_def delete_unversioned_sync_def seen_absent_def
  by (auto split: prod.splits sum.splits option.splits if_splits bool.splits)


text \<open>A bucket with one object under its key and no versioning.\<close>

definition demo_s3 :: "nat list option s3_client" where
  "demo_s3 = \<lparr>sc_head_object = (\<lambda>b k w. (case w of None \<Rightarrow> Inl (Client_Error ''404'' None)
       | Some bs \<Rightarrow> Inr \<lparr>hr_content_length = Some (int (length bs)), hr_metadata = [(''Sofias-Memory-Sha256'', map char_of bs)]\<rparr>, w)),
     sc_put_object = (\<lambda>b k bs m w. (Inr (), Some bs)),
     sc_get_object = (\<lambda>b k w. (case w of None \<Rightarrow> Inl (Client_Error ''NoSuchKey'' None)
       | Some bs \<Rightarrow> Inr \<lparr>or_content_length = None, or_chunks = [bs]\<rparr>, w)),
     sc_delete_object = (\<lambda>b k w. (Inr (), None)), sc_bucket_versioning = (\<lambda>b w. (Inr None, w)),
     sc_list_versions = (\<lambda>b k w. (Inr [], w)), sc_delete_objects = (\<lambda>b vs w. (Inr False, w))\<rparr>"

definition demo_s3_config :: s3_config where
  "demo_s3_config = \<lparr>s3_bucket = [98], s3_prefix = [], s3_sha256 = (\<lambda>bs. map char_of bs), s3_check_netloc = (\<lambda>_. True)\<rparr>"

lemma demo_s3_location: "s3_location_ok demo_s3_config" "key_extension [46, 116]"
  by (simp_all add: s3_location_ok_def demo_s3_config_def key_char_def key_extension_def)


subsection \<open>A client that does not answer\<close>

definition s3_outage :: "'w s3_client \<Rightarrow> bool" where
  "s3_outage cl \<longleftrightarrow> (\<forall>b k w. sc_head_object cl b k w = (Inl Boto_Core_Error, w) \<and> sc_get_object cl b k w = (Inl Boto_Core_Error, w))"

lemma outage_answers:
  assumes out: "s3_outage cl" and loc: "s3_location_ok cfg" and ext: "key_extension ext"
  shows "st_verify (s3_storage cfg cl) ds s (s3_uri cfg ds s ext) h w = (Inr False, w)"
    "st_finalize (s3_storage cfg cl) ds s ext bs w = (Inl Storage_Defect, w)"
    "st_deterministic_uri (s3_storage cfg cl) ds s ext = Inr (s3_uri cfg ds s ext)"
  using out s3_uri_parses[OF loc ext, of ds s]
  by (simp_all add: s3_storage_def s3_verify_def verify_sync_def s3_finalize_def finalize_sync_def head_object_sync_def
      s3_outage_def as_port_error_def)

end
