(* ===== verification/Remember_Properties.thy ===== *)
theory Remember_Properties
  imports Remember_Facts Storage_Properties
begin

text \<open>
  The claims about Remember: the versions of a content, the completion of a text run, and three runs that cannot
  succeed although their content is there.
\<close>

subsection \<open>Versions\<close>

text \<open>C33: The versions of a content within a dataset stay 1, 2, ... without gap or repetition.  An ingest that succeeds
  either reuses a stored source of exactly the content and dataset, and writes no source and no document, or it
  adds one source, which is PENDING, not yet stored, and numbered directly after the versions already there,
  together with its document in the active generation; and it adds a version of a content already stored only when
  the request forces it.\<close>

theorem remember_versions_contiguous:
  assumes "versions_contiguous d" "ingest_body env c p out d = Inr (i, d')"
  shows "versions_contiguous d'
    \<and> (if in_deduplicated i
       then kb_sources d' = kb_sources d \<and> kb_documents d' = kb_documents d
         \<and> (\<exists>s \<in> set (kb_sources d). src_id s = in_source_id i \<and> src_dataset_id s = in_dataset_id i
              \<and> src_content_sha256 s = pt_content_sha256 (pi_text p) \<and> src_version s = in_version i)
       else (truthy (jget (ctx_run_input c) ''force'') \<or> versions_of (in_dataset_id i) (pt_content_sha256 (pi_text p)) d = [])
         \<and> (\<exists>s x ds. kb_sources d' = kb_sources d @ [s] \<and> kb_documents d' = kb_documents d @ [x]
              \<and> kb_dataset (in_dataset_id i) d = Some ds \<and> src_id s = in_source_id i \<and> src_dataset_id s = in_dataset_id i
              \<and> src_version s = 1 + int (length (versions_of (in_dataset_id i) (pt_content_sha256 (pi_text p)) d))
              \<and> src_status s = Source_PENDING \<and> src_storage_uri s = None \<and> doc_source_id x = src_id s
              \<and> doc_generation x = dataset_active_generation ds \<and> doc_is_active x))"
  using assms(2)
proof (cases rule: ingest_body_cases)
  case (reused k run s)
  have src: "kb_sources d' = kb_sources d" "kb_documents d' = kb_documents d" by (simp_all add: reused(5) kb_simps)
  have "versions_contiguous d'" using assms(1) by (simp add: versions_contiguous_def versions_same_sources[OF src(1)])
  then show ?thesis using src reused_source_cases(2)[OF assms(1) reused(3)] by (auto simp: reused(6))
next
  case (added k ds run kind metadata d1 d2)
  define s where "s = new_source env (ctx_run_input c) p kind metadata k d"
  define x where "x = new_document env (ctx_run_input c) p metadata ds (rm_source_id env)"
  have d1: "d1 = d\<lparr>kb_sources := kb_sources d @ [s]\<rparr>" using added(6) by (simp add: source_insert_Inr s_def)
  have d2: "d2 = d1\<lparr>kb_documents := kb_documents d1 @ [x]\<rparr>"
    using added(7) by (auto simp: document_insert_def x_def split: if_splits)
  have rows: "kb_sources d' = kb_sources d @ [s]" "kb_documents d' = kb_documents d @ [x]"
    by (simp_all add: added(8) d2 d1 kb_simps)
  have v: "src_version s = 1 + int (length (versions_of (src_dataset_id s) (src_content_sha256 s) d))"
    using new_source_version[OF assms(1)] by (simp add: s_def)
  have "versions_contiguous d'"
    using contiguous_next(1)[OF assms(1) v] rows(1) by (simp add: versions_contiguous_def versions_of_def)
  moreover have "doc_source_id x = src_id s" "doc_generation x = dataset_active_generation ds" "doc_is_active x"
    by (simp_all add: x_def s_def new_document_def Let_def)
  moreover have "src_storage_uri s = None" "src_status s = Source_PENDING" "src_id s = rm_source_id env" "src_dataset_id s = k"
    by (simp_all add: s_def)
  moreover have "src_version s = 1 + int (length (versions_of k (pt_content_sha256 (pi_text p)) d))"
    using v by (simp add: s_def)
  ultimately show ?thesis using rows reused_source_cases(1)[OF assms(1) added(5)] added(2) by (auto simp: added(9))
qed

subsection \<open>The steps of a run in ingest mode\<close>

lemma run_remember_ingest:
  assumes "acquire env res c fs = (Inr p, fs1)"
    "ingest_body env c p (ingest_output_of (str_get (rm_repr env) (ctx_run_input c) ''source_kind'') p) d = Inr (i, d1)"
    "finalize_storage_execute (Some res) c (Some i) fs1 w = (Inr stored, fs2, w2)"
    "finalize_storage_persist i stored d1 = Inr d3"
    "str_get (rm_repr env) (ctx_run_input c) ''mode'' \<noteq> MODE_FULL"
    "get_run (ctx_run_id c) (kb_runtime d3) = Some run"
  shows "run_remember env (\<lambda>_ x. x) res reads now c fs d w =
    (Inr \<lparr>ro_ingested = i, ro_storage = stored, ro_cognify = skipped_counts\<rparr>,
     put_kb_run (run\<lparr>run_metrics := set_member ''remember_result'' (remember_result i skipped_counts) (run_metrics run)\<rparr>) d3, fs2, w2)"
  using assms
  by (simp add: run_remember_def prepare_and_ingest_execute_def prepare_and_ingest_persist_def cognify_composition_execute_def
      cognify_composition_persist_def skipped_counts_def remember_finalize_result_def Let_def)

lemma acquire_text:
  assumes "str_get (rm_repr env) (ctx_run_input c) ''source_kind'' = SOURCE_KIND_TEXT" "fs (ctx_run_id c) = Some (bs, f)"
    "prepare_text_ingest env (ctx_run_input c) bs = Inr p"
  shows "acquire env res c fs = (Inr p, fs)"
  using assms by (simp add: acquire_def Let_def read_ingress_bytes_def SOURCE_KIND_TEXT_def SOURCE_KIND_URL_def SOURCE_KIND_FILE_def)

lemma get_run_put_kb: "get_run k (kb_runtime d) = Some r \<Longrightarrow> get_run k (kb_runtime (put_kb_run (r\<lparr>run_source_id := x\<rparr>) d)) = Some (r\<lparr>run_source_id := x\<rparr>)"
proof -
  assume r: "get_run k (kb_runtime d) = Some r"
  then have "run_id r = k" "k \<in> set (run_ids (kb_runtime d))" using get_run_SomeD get_run_in_ids by blast+
  then show ?thesis using get_run_put_run[of "r\<lparr>run_source_id := x\<rparr>" "kb_runtime d"] by (simp add: kb_simps)
qed

lemma kind_text: "parse_source_kind SOURCE_KIND_TEXT = Some Kind_TEXT"
  by (simp add: parse_source_kind_def)

lemma text_extension: "plain_extension TEXT_STORAGE_EXTENSION"
  by (simp add: TEXT_STORAGE_EXTENSION_def plain_extension_def plain_char_def ascii_def)

lemma final_uri_nonempty: "\<exists>x xs. final_storage_uri base ds s ext = x # xs"
  by (simp add: final_storage_uri_def as_uri_def ascii_def)

text \<open>The ingest of new content adds the source and its document.\<close>

lemma ingest_new:
  assumes ctx: "ctx_dataset_id c = Some k" "str_get (rm_repr env) (ctx_run_input c) ''source_kind'' = SOURCE_KIND_TEXT"
      "metadata_member (ctx_run_input c) = Some metadata"
    and rows: "kb_dataset k d = Some ds" "dataset_status ds = Dataset_ACTIVE" "get_run (ctx_run_id c) (kb_runtime d) = Some run"
      "versions_contiguous d" "kb_source (rm_source_id env) d = None" "kb_document (rm_document_id env) d = None"
    and new: "reused_source (ctx_run_input c) run k (pt_content_sha256 (pi_text p)) d = None"
  defines "s \<equiv> new_source env (ctx_run_input c) p Kind_TEXT metadata k d"
  defines "x \<equiv> new_document env (ctx_run_input c) p metadata ds (rm_source_id env)"
  shows "ingest_body env c p out d = Inr (\<lparr>in_output = out, in_dataset_id = k, in_source_id = rm_source_id env,
      in_document_id = rm_document_id env, in_deduplicated = False, in_version = src_version s\<rparr>,
    put_kb_run (run\<lparr>run_source_id := Some (rm_source_id env)\<rparr>)
      (d\<lparr>kb_sources := kb_sources d @ [s], kb_documents := kb_documents d @ [x]\<rparr>))"
proof -
  have ids: "src_id s = rm_source_id env" "doc_id x = rm_document_id env" by (simp_all add: s_def x_def new_document_def Let_def)
  have "src_version s = 1 + int (length (versions_of (src_dataset_id s) (src_content_sha256 s) d))"
    using new_source_version[OF rows(4)] by (simp add: s_def)
  from contiguous_next(2)[OF rows(4) this]
  have ins: "source_insert s d = Inr (d\<lparr>kb_sources := kb_sources d @ [s]\<rparr>)"
    using rows(5) ids(1) by (simp add: source_insert_def kb_source_absent)
  have doc: "document_insert x (d\<lparr>kb_sources := kb_sources d @ [s]\<rparr>)
      = Inr (d\<lparr>kb_sources := kb_sources d @ [s], kb_documents := kb_documents d @ [x]\<rparr>)"
    using rows(6) ids(2) by (auto simp: document_insert_def kb_document_def row_get_None_iff)
  show ?thesis
    using ctx rows(1-3) new ins doc ids
    by (simp add: ingest_body_def Let_def kind_text s_def[symmetric] x_def[symmetric] lift_exn_def)
qed

text \<open>What the storage step does for a new source on the filesystem, and what it commits.\<close>

lemma store_new_original:
  assumes storage: "rr_storage res = filesystem_storage (rr_fs res)" "fs_ready (rr_fs res) w" "storage_free (rr_fs res) (in_dataset_id i) (in_source_id i) w"
    and i: "\<not> in_deduplicated i" "plain_extension (io_storage_extension (in_output i))" "fs (ctx_run_id c) = Some (bs, f)"
  obtains w' u where "u = final_storage_uri (fc_data_directory (rr_fs res)) (in_dataset_id i) (in_source_id i) (io_storage_extension (in_output i))"
    "finalize_storage_execute (Some res) c (Some i) fs w = (Inr \<lparr>fo_status = Written, fo_written = True, fo_storage_uri = Some u\<rparr>,
       delete_ingress_artifact fs (ctx_run_id c), w')"
    "fst (fs_read (rr_fs res) (in_dataset_id i) (in_source_id i) u (int (length bs)) (fc_sha256 (rr_fs res) bs) (int (length bs)) w') = Inr bs"
proof -
  define ext where "ext = io_storage_extension (in_output i)"
  define u where "u = final_storage_uri (fc_data_directory (rr_fs res)) (in_dataset_id i) (in_source_id i) ext"
  note ext = i(2)[folded ext_def]
  obtain w' where w': "fs_finalize (rr_fs res) (in_dataset_id i) (in_source_id i) ext bs w
      = (Inr \<lparr>fz_storage_uri = u, fz_already_present = False\<rparr>, w')"
    using finalize_free(1)[OF storage(2) ext storage(3)] unfolding u_def by blast
  have "fs_verify (rr_fs res) (in_dataset_id i) (in_source_id i) u h w = (Inr False, w)" for h
    unfolding u_def by (rule finalize_free(2)[OF storage(2) ext storage(3)])
  then have "finalize_storage_execute (Some res) c (Some i) fs w = (Inr \<lparr>fo_status = Written, fo_written = True, fo_storage_uri = Some u\<rparr>,
       delete_ingress_artifact fs (ctx_run_id c), w')"
    using w' i(1,3) by (simp add: finalize_storage_execute_def ext_def[symmetric] storage(1) u_def[symmetric] read_ingress_bytes_def finalize_with_def)
  moreover have "fst (fs_read (rr_fs res) (in_dataset_id i) (in_source_id i) u (int (length bs)) (fc_sha256 (rr_fs res) bs) (int (length bs)) w') = Inr bs"
    using filesystem.finalize_written[of "rr_fs res" w ext "in_dataset_id i" "in_source_id i" bs _ w' "int (length bs)"] w' storage(2) ext by simp
  ultimately show ?thesis using that[of u w'] u_def ext_def by blast
qed

lemma persist_new_uri:
  assumes "kb_source (in_source_id i) d = Some s" "src_storage_uri s = None" "u = final_storage_uri base k sid ext"
  shows "finalize_storage_persist i \<lparr>fo_status = Written, fo_written = True, fo_storage_uri = Some u\<rparr> d
    = Inr (put_source (s\<lparr>src_storage_uri := Some u\<rparr>) d)"
  using assms final_uri_nonempty[of base k sid ext] by (auto simp: finalize_storage_persist_def)

text \<open>C32: A text run in ingest mode completes when nothing interferes.  For staged UTF-8 content that the dataset does not
  hold yet, an active dataset, fresh identifiers, and a filesystem with room for the original, the four steps end in
  success: the source row is there, PENDING, with the location of the finalized original, from which the staged
  bytes are read back under its own size and hash; its document holds the text with normalized line endings in the
  active generation; the staging artifact is gone; and the run names the source and carries the result.\<close>

theorem remember_text_completes:
  assumes ctx: "ctx_dataset_id c = Some k" "str_get (rm_repr env) (ctx_run_input c) ''source_kind'' = SOURCE_KIND_TEXT"
      "str_get (rm_repr env) (ctx_run_input c) ''mode'' \<noteq> MODE_FULL" "metadata_member (ctx_run_input c) = Some metadata"
    and rows: "kb_dataset k d = Some ds" "dataset_status ds = Dataset_ACTIVE" "get_run (ctx_run_id c) (kb_runtime d) = Some run"
      "versions_contiguous d" "kb_source (rm_source_id env) d = None" "kb_document (rm_document_id env) d = None"
    and new: "reused_source (ctx_run_input c) run k (ld_sha256 (cg_loader (rm_cognify env)) bs) d = None"
    and content: "fs (ctx_run_id c) = Some (bs, f)" "utf8 t = Some bs" "\<forall>x \<in> set t. x < 1114112"
    and storage: "rr_storage res = filesystem_storage (rr_fs res)" "fc_sha256 (rr_fs res) = ld_sha256 (cg_loader (rm_cognify env))"
      "fs_ready (rr_fs res) w" "storage_free (rr_fs res) k (rm_source_id env) w"
  shows "\<exists>out d' w' s x u. run_remember env (\<lambda>_ x. x) res reads now c fs d w = (Inr out, d', delete_ingress_artifact fs (ctx_run_id c), w')
    \<and> kb_source (rm_source_id env) d' = Some s \<and> src_status s = Source_PENDING \<and> src_storage_uri s = Some u
    \<and> fst (fs_read (rr_fs res) k (rm_source_id env) u (src_byte_size s) (src_content_sha256 s) (src_byte_size s) w') = Inr bs
    \<and> kb_document (rm_document_id env) d' = Some x \<and> doc_source_id x = rm_source_id env
    \<and> doc_normalized_text x = normalize_newlines t \<and> doc_generation x = dataset_active_generation ds \<and> doc_is_active x
    \<and> map_option run_source_id (get_run (ctx_run_id c) (kb_runtime d')) = Some (Some (rm_source_id env))
    \<and> map_option run_metrics (get_run (ctx_run_id c) (kb_runtime d'))
      = Some (set_member ''remember_result'' (remember_result (ro_ingested out) (ro_cognify out)) (run_metrics run))"
proof -
  define sid where "sid = rm_source_id env"
  obtain pt where prep: "prepare_text_ingest env (ctx_run_input c) bs = Inr \<lparr>pi_name = optional_str (rm_repr env) (ctx_run_input c) ''name'',
      pi_mime_type = TEXT_MIME_TYPE, pi_storage_extension = TEXT_STORAGE_EXTENSION, pi_text = pt\<rparr>"
    and pt: "pt_content_sha256 pt = ld_sha256 (cg_loader (rm_cognify env)) bs" "pt_normalized_text pt = normalize_newlines t"
      "pt_byte_size pt = int (length bs)"
    by (rule text_ingest[OF content(2,3)])
  define p where "p = \<lparr>pi_name = optional_str (rm_repr env) (ctx_run_input c) ''name'',
      pi_mime_type = TEXT_MIME_TYPE, pi_storage_extension = TEXT_STORAGE_EXTENSION, pi_text = pt\<rparr>"
  have pp: "pi_text p = pt" "pi_storage_extension p = TEXT_STORAGE_EXTENSION" by (simp_all add: p_def)
  note acq = acquire_text[where fs = fs and res = res, OF ctx(2) content(1) prep[folded p_def]]
  define out where "out = ingest_output_of (str_get (rm_repr env) (ctx_run_input c) ''source_kind'') p"
  define s where "s = new_source env (ctx_run_input c) p Kind_TEXT metadata k d"
  define x where "x = new_document env (ctx_run_input c) p metadata ds sid"
  define i where "i = \<lparr>in_output = out, in_dataset_id = k, in_source_id = sid, in_document_id = rm_document_id env,
    in_deduplicated = False, in_version = src_version s\<rparr>"
  define d1 where "d1 = put_kb_run (run\<lparr>run_source_id := Some sid\<rparr>)
      (d\<lparr>kb_sources := kb_sources d @ [s], kb_documents := kb_documents d @ [x]\<rparr>)"
  have step1: "ingest_body env c p out d = Inr (i, d1)"
    using ingest_new[OF ctx(1,2,4) rows, of p out] new
    by (simp add: pp pt i_def d1_def s_def x_def sid_def)
  have ii: "in_dataset_id i = k" "in_source_id i = sid" "io_storage_extension (in_output i) = TEXT_STORAGE_EXTENSION" "\<not> in_deduplicated i"
    by (simp_all add: i_def out_def ingest_output_of_def pp)
  obtain w' u where u: "u = final_storage_uri (fc_data_directory (rr_fs res)) k sid TEXT_STORAGE_EXTENSION"
    and step2: "finalize_storage_execute (Some res) c (Some i) fs w = (Inr \<lparr>fo_status = Written, fo_written = True, fo_storage_uri = Some u\<rparr>,
       delete_ingress_artifact fs (ctx_run_id c), w')"
    and read: "fst (fs_read (rr_fs res) k sid u (int (length bs)) (fc_sha256 (rr_fs res) bs) (int (length bs)) w') = Inr bs"
    by (rule store_new_original[where res = res and i = i and w = w and c = c and fs = fs and bs = bs and f = f, unfolded ii(1-3),
        OF storage(1,3) storage(4)[folded sid_def] ii(4) text_extension content(1)])
  have sid: "src_id s = sid" "src_storage_uri s = None" by (simp_all add: s_def sid_def)
  have at1: "kb_source sid d1 = Some s"
    using rows(5) by (simp add: d1_def kb_simps kb_source_def row_get_app sid sid_def[symmetric])
  define s' where "s' = s\<lparr>src_storage_uri := Some u\<rparr>"
  define d3 where "d3 = put_source s' d1"
  note step2p = persist_new_uri[of i d1 s u, unfolded ii(2), OF at1 sid(2) u, folded s'_def d3_def]
  have run1: "get_run (ctx_run_id c) (kb_runtime d3) = Some (run\<lparr>run_source_id := Some sid\<rparr>)"
    using get_run_put_kb[of "ctx_run_id c" "d\<lparr>kb_sources := kb_sources d @ [s], kb_documents := kb_documents d @ [x]\<rparr>" run "Some sid"] rows(3)
    by (simp add: d3_def d1_def kb_simps)
  define d4 where "d4 = put_kb_run (run\<lparr>run_source_id := Some sid,
      run_metrics := set_member ''remember_result'' (remember_result i skipped_counts) (run_metrics run)\<rparr>) d3"
  have whole: "run_remember env (\<lambda>_ x. x) res reads now c fs d w =
      (Inr \<lparr>ro_ingested = i, ro_storage = \<lparr>fo_status = Written, fo_written = True, fo_storage_uri = Some u\<rparr>,
         ro_cognify = skipped_counts\<rparr>, d4, delete_ingress_artifact fs (ctx_run_id c), w')"
    using run_remember_ingest[OF acq step1[unfolded out_def] step2 step2p ctx(3) run1] by (simp add: d4_def)
  have "kb_source (src_id s') d1 = Some s" using at1 sid by (simp add: s'_def)
  then have src: "kb_source sid d4 = Some s'"
    using kb_source_put_source[of s' d1 s sid] sid by (simp add: d4_def d3_def kb_simps s'_def)
  have "doc_id x = rm_document_id env" by (simp add: x_def new_document_def Let_def)
  then have doc: "kb_document (rm_document_id env) d4 = Some x"
    using rows(6) by (simp add: d4_def d3_def d1_def kb_document_def kb_simps row_get_app)
  have "get_run (ctx_run_id c) (kb_runtime d4) = Some (run\<lparr>run_source_id := Some sid,
      run_metrics := set_member ''remember_result'' (remember_result i skipped_counts) (run_metrics run)\<rparr>)"
    using run1 get_run_SomeD[OF run1] get_run_in_ids[OF run1]
      get_run_put_run[of "run\<lparr>run_source_id := Some sid, run_metrics := set_member ''remember_result'' (remember_result i skipped_counts) (run_metrics run)\<rparr>" "kb_runtime d3"]
    by (simp add: d4_def kb_simps)
  moreover have "fst (fs_read (rr_fs res) k sid u (src_byte_size s') (src_content_sha256 s') (src_byte_size s') w') = Inr bs"
    using read storage(2) by (simp add: s'_def s_def new_source_def Let_def pp pt)
  moreover have "src_status s' = Source_PENDING" "src_storage_uri s' = Some u" by (simp_all add: s'_def s_def)
  moreover have "doc_source_id x = sid" "doc_normalized_text x = normalize_newlines t" "doc_generation x = dataset_active_generation ds"
      "doc_is_active x" by (simp_all add: x_def new_document_def Let_def pp pt)
  ultimately show ?thesis using whole src doc unfolding sid_def by force
qed

subsection \<open>Runs that cannot succeed\<close>

text \<open>A text run that reuses a source ends with the source and its storage as they were.\<close>

lemma reuse_run:
  assumes ctx: "ctx_dataset_id c = Some k" "str_get (rm_repr env) (ctx_run_input c) ''source_kind'' = SOURCE_KIND_TEXT"
      "str_get (rm_repr env) (ctx_run_input c) ''mode'' \<noteq> MODE_FULL" "metadata_member (ctx_run_input c) = Some metadata"
    and rows: "kb_dataset k d = Some ds" "dataset_status ds = Dataset_ACTIVE" "get_run (ctx_run_id c) (kb_runtime d) = Some run"
    and reuse: "reused_source (ctx_run_input c) run k (ld_sha256 (cg_loader (rm_cognify env)) bs) d = Some s"
      "list_documents_for_source (src_id s) d \<noteq> []"
    and content: "fs (ctx_run_id c) = Some (bs, f)" "utf8 t = Some bs" "\<forall>x \<in> set t. x < 1114112"
  obtains out d' where "run_remember env (\<lambda>_ x. x) res reads now c fs d w = (Inr out, d', fs, w)"
    "in_deduplicated (ro_ingested out)" "in_source_id (ro_ingested out) = src_id s" "fo_status (ro_storage out) = Skipped_Dedup"
    "kb_sources d' = kb_sources d" "kb_documents d' = kb_documents d"
proof -
  obtain pt where prep: "prepare_text_ingest env (ctx_run_input c) bs = Inr \<lparr>pi_name = optional_str (rm_repr env) (ctx_run_input c) ''name'',
      pi_mime_type = TEXT_MIME_TYPE, pi_storage_extension = TEXT_STORAGE_EXTENSION, pi_text = pt\<rparr>"
    and pt: "pt_content_sha256 pt = ld_sha256 (cg_loader (rm_cognify env)) bs"
    by (rule text_ingest[OF content(2,3)])
  define p where "p = \<lparr>pi_name = optional_str (rm_repr env) (ctx_run_input c) ''name'',
      pi_mime_type = TEXT_MIME_TYPE, pi_storage_extension = TEXT_STORAGE_EXTENSION, pi_text = pt\<rparr>"
  note acq = acquire_text[where fs = fs and res = res, OF ctx(2) content(1) prep[folded p_def]]
  define out where "out = ingest_output_of (str_get (rm_repr env) (ctx_run_input c) ''source_kind'') p"
  define i where "i = \<lparr>in_output = out, in_dataset_id = k, in_source_id = src_id s,
    in_document_id = doc_id (last (list_documents_for_source (src_id s) d)), in_deduplicated = True, in_version = src_version s\<rparr>"
  define d1 where "d1 = put_kb_run (run\<lparr>run_source_id := Some (src_id s)\<rparr>) d"
  have reused: "reused_source (ctx_run_input c) run k (pt_content_sha256 (pi_text p)) d = Some s"
    using reuse(1) by (simp add: p_def pt)
  have step1: "ingest_body env c p out d = Inr (i, d1)"
    using ctx rows reused reuse(2) by (simp add: ingest_body_def Let_def kind_text i_def d1_def)
  have step2: "finalize_storage_execute (Some res) c (Some i) fs w = (Inr skipped_output, fs, w)"
    by (simp add: finalize_storage_execute_def i_def)
  have step2p: "finalize_storage_persist i skipped_output d1 = Inr d1"
    by (simp add: finalize_storage_persist_def skipped_output_def)
  have run1: "get_run (ctx_run_id c) (kb_runtime d1) = Some (run\<lparr>run_source_id := Some (src_id s)\<rparr>)"
    unfolding d1_def by (rule get_run_put_kb[OF rows(3)])
  note whole = run_remember_ingest[OF acq step1[unfolded out_def] step2 step2p ctx(3) run1, of reads now]
  from that[OF whole] show ?thesis by (simp add: i_def skipped_output_def d1_def kb_simps)
qed

text \<open>C38: A manual retry after a failed finalization never stores the original.  When the retried run had committed its
  source but not its storage location, the retry of a text in ingest mode reuses the source, reports it as
  deduplicated, skips the storage step and ends in success: the source keeps a NULL location, the storage is not
  touched whatever backend it is, and the staged bytes stay behind.\<close>

theorem retry_never_stores_original:
  assumes ctx: "ctx_dataset_id c = Some k" "str_get (rm_repr env) (ctx_run_input c) ''source_kind'' = SOURCE_KIND_TEXT"
      "str_get (rm_repr env) (ctx_run_input c) ''mode'' \<noteq> MODE_FULL" "metadata_member (ctx_run_input c) = Some metadata"
    and rows: "kb_dataset k d = Some ds" "dataset_status ds = Dataset_ACTIVE" "get_run (ctx_run_id c) (kb_runtime d) = Some run"
    and retried: "run_retry_of_run_id run = Some r0" "get_run r0 (kb_runtime d) = Some original"
      "run_source_id original = Some (src_id s)" "kb_source (src_id s) d = Some s" "src_dataset_id s = k"
      "src_content_sha256 s = ld_sha256 (cg_loader (rm_cognify env)) bs" "src_storage_uri s = None"
      "list_documents_for_source (src_id s) d \<noteq> []"
    and content: "fs (ctx_run_id c) = Some (bs, f)" "utf8 t = Some bs" "\<forall>x \<in> set t. x < 1114112"
  shows "\<exists>out d'. run_remember env (\<lambda>_ x. x) res reads now c fs d w = (Inr out, d', fs, w)
    \<and> in_deduplicated (ro_ingested out) \<and> fo_status (ro_storage out) = Skipped_Dedup
    \<and> kb_source (src_id s) d' = Some s \<and> src_storage_uri s = None \<and> fs (ctx_run_id c) = Some (bs, f)"
proof -
  have "retry_source_reuse run k (ld_sha256 (cg_loader (rm_cognify env)) bs) d = Some s"
    using retried by (simp add: retry_source_reuse_def)
  then have "reused_source (ctx_run_input c) run k (ld_sha256 (cg_loader (rm_cognify env)) bs) d = Some s"
    by (simp add: reused_source_def)
  from reuse_run[where fs = fs and c = c and env = env and s = s and res = res and reads = reads and now = now and w = w, OF ctx rows this retried(8) content]
  obtain out d' where "run_remember env (\<lambda>_ x. x) res reads now c fs d w = (Inr out, d', fs, w)"
    "in_deduplicated (ro_ingested out)" "fo_status (ro_storage out) = Skipped_Dedup" "kb_sources d' = kb_sources d" .
  then show ?thesis using retried(4,7) content(1) by (auto simp: kb_source_def)
qed

text \<open>C37: Content that was forgotten cannot be remembered again without \<open>force\<close>: the duplicate check looks at every
  source of the content, forgotten ones included, so a new run of the same text succeeds as a duplicate of the deleted
  source, stores nothing, adds neither a source nor a document, and every document of that source stays inactive.\<close>

theorem forgotten_content_not_restored:
  assumes ctx: "ctx_dataset_id c = Some k" "str_get (rm_repr env) (ctx_run_input c) ''source_kind'' = SOURCE_KIND_TEXT"
      "str_get (rm_repr env) (ctx_run_input c) ''mode'' \<noteq> MODE_FULL" "metadata_member (ctx_run_input c) = Some metadata"
    and rows: "kb_dataset k d = Some ds" "dataset_status ds = Dataset_ACTIVE" "get_run (ctx_run_id c) (kb_runtime d) = Some run"
    and fresh: "run_retry_of_run_id run = None" "\<not> truthy (jget (ctx_run_input c) ''force'')"
    and forgotten: "get_latest_by_content_hash k (ld_sha256 (cg_loader (rm_cognify env)) bs) d = Some s" "src_status s = Source_DELETED"
      "list_documents_for_source (src_id s) d \<noteq> []" "\<forall>x \<in> set (list_documents_for_source (src_id s) d). \<not> doc_is_active x"
    and content: "fs (ctx_run_id c) = Some (bs, f)" "utf8 t = Some bs" "\<forall>x \<in> set t. x < 1114112"
  shows "\<exists>out d'. run_remember env (\<lambda>_ x. x) res reads now c fs d w = (Inr out, d', fs, w)
    \<and> in_deduplicated (ro_ingested out) \<and> in_source_id (ro_ingested out) = src_id s \<and> fo_status (ro_storage out) = Skipped_Dedup
    \<and> kb_sources d' = kb_sources d \<and> kb_documents d' = kb_documents d \<and> src_status s = Source_DELETED
    \<and> list_ex (\<lambda>x. doc_is_active x) (list_documents_for_source (src_id s) d') = False"
proof -
  have "reused_source (ctx_run_input c) run k (ld_sha256 (cg_loader (rm_cognify env)) bs) d = Some s"
    using fresh forgotten(1) by (simp add: reused_source_def retry_source_reuse_def)
  from reuse_run[where fs = fs and c = c and env = env and s = s and res = res and reads = reads and now = now and w = w, OF ctx rows this forgotten(3) content]
  obtain out d' where out: "run_remember env (\<lambda>_ x. x) res reads now c fs d w = (Inr out, d', fs, w)"
    "in_deduplicated (ro_ingested out)" "in_source_id (ro_ingested out) = src_id s" "fo_status (ro_storage out) = Skipped_Dedup"
    "kb_sources d' = kb_sources d" "kb_documents d' = kb_documents d" .
  have "list_documents_for_source (src_id s) d' = list_documents_for_source (src_id s) d"
    by (simp add: list_documents_for_source_def out(6))
  then show ?thesis using out forgotten(2,4) by (auto simp: list_ex_iff)
qed

lemma remote_rejected:
  assumes "ld_lower L [] = []"
  shows "prepare_text_file_content L (Some (ascii ''remote'')) bs = Inl Text_File_Load_Error"
proof -
  have "sanitize_upload_filename (Some (ascii ''remote'')) = Inr (ascii ''remote'')"
    by (simp add: sanitize_upload_filename_def after_last_def ascii_def py_strip_def py_lstrip_def py_rstrip_def py_space_def)
  moreover have "path_suffix (ascii ''remote'') = []" by (simp add: path_suffix_def after_last_def ascii_def)
  moreover have "[] \<notin> set SUPPORTED_TEXT_FILE_EXTENSIONS" by (simp add: SUPPORTED_TEXT_FILE_EXTENSIONS_def ascii_def)
  ultimately show ?thesis using assms by (simp add: prepare_text_file_content_def Let_def)
qed

text \<open>C39: A manual retry of a URL run whose bytes had already left the staging area is always rejected.  The retry stages
  the bytes recovered from the source's storage, but not the file name the fetch had derived; the first step then
  falls back to the name \<open>remote\<close>, which has no supported extension, and the run fails permanently with
  REMEMBER_CONTENT_REJECTED, whatever the bytes, the resources and the tables are.\<close>

theorem url_retry_always_rejected:
  assumes "fs original_run = None" "fs (ctx_run_id c) = None" "sources sid = Some src"
    "sts_storage_uri src \<noteq> None" "sts_dataset_id src \<noteq> None" "sts_content_sha256 src \<noteq> None" "sts_byte_size src \<noteq> None"
    "stored sid src = Some bs" "str_get (rm_repr env) (ctx_run_input c) ''source_kind'' = SOURCE_KIND_URL"
    "ld_lower (cg_loader (rm_cognify env)) [] = []"
  shows "\<exists>fs'. prepare_remember_retry_ingress sources stored original_run (Some sid) (ctx_run_id c) SOURCE_KIND_URL fs = (True, fs')
    \<and> read_ingress_bytes fs' (ctx_run_id c) = Some bs
    \<and> run_remember env interfere res reads now c fs' d w
      = (Inl (Permanent_Step_Error ''REMEMBER_CONTENT_REJECTED'' ''Remember content could not be processed.''), interfere 0 d, fs', w)"
proof -
  define fs' where "fs' = fs(ctx_run_id c \<mapsto> (bs, None :: pystr option))"
  have staged: "prepare_remember_retry_ingress sources stored original_run (Some sid) (ctx_run_id c) SOURCE_KIND_URL fs = (True, fs')"
    using assms(1-8) by (simp add: prepare_remember_retry_ingress_def write_ingress_bytes_def fs'_def)
  have "acquire env res c fs' = (remember_content_error, fs')"
    using assms(9) remote_rejected[OF assms(10), of bs]
    by (simp add: acquire_def acquire_url_def Let_def ingress_artifact_exists_def read_ingress_bytes_def read_ingress_filename_def
        fs'_def prepare_file_def loader_step_error_def remember_content_error_def)
  then have "run_remember env interfere res reads now c fs' d w
      = (Inl (Permanent_Step_Error ''REMEMBER_CONTENT_REJECTED'' ''Remember content could not be processed.''), interfere 0 d, fs', w)"
    by (simp add: run_remember_def prepare_and_ingest_execute_def remember_content_error_def Let_def)
  then show ?thesis using staged by (simp add: fs'_def read_ingress_bytes_def)
qed

text \<open>C40: An S3 outage fails a Remember run for good.  While the client raises connection errors, the storage step of a
  source that is not deduplicated never raises the retryable error of an unavailable dependency: with the staged
  bytes at hand the unguarded HEAD of the finalization leaves the adapter raw, which the engine records as an
  unexpected, permanent failure; and after an earlier attempt had already stored the original and removed the
  staged bytes, the failed verification counts as an absent object and the step ends with the permanent
  REMEMBER_INGRESS_MISSING.\<close>

theorem s3_outage_is_permanent:
  assumes "s3_outage cl" "s3_location_ok cfg" "rr_storage res = s3_storage cfg cl" "rr_backend res = Backend_S3"
    "key_extension (io_storage_extension (in_output i))" "\<not> in_deduplicated i"
  shows "case fs (ctx_run_id c) of
      Some _ \<Rightarrow> finalize_storage_execute (Some res) c (Some i) fs w = (Inl Other_Exception, fs, w)
    | None \<Rightarrow> locate_verified_legacy_final res (in_dataset_id i) (in_source_id i) (io_mime_type (in_output i))
          (io_byte_size (in_output i)) (io_content_sha256 (in_output i)) w = Inr None \<longrightarrow>
        finalize_storage_execute (Some res) c (Some i) fs w
        = (Inl (Permanent_Step_Error ''REMEMBER_INGRESS_MISSING'' ''Remember durable ingress artifact is missing.''), fs, w)"
  using outage_answers[OF assms(1,2,5)] assms(3,4,6)
  by (auto simp: finalize_storage_execute_def read_ingress_bytes_def finalize_with_def translate_storage_error_def
      finalize_absent_def remember_ingress_missing_def split: option.split)

subsection \<open>Witnesses\<close>

definition demo_renv :: remember_env where
  "demo_renv = \<lparr>rm_cognify = demo_cenv\<lparr>cg_loader := demo_loader_env\<rparr>, rm_repr = (\<lambda>_. []), rm_now = 5, rm_source_id = 90,
     rm_document_id = 91\<rparr>"

definition demo_remember_resources :: "file_tree remember_resources" where
  "demo_remember_resources = \<lparr>rr_storage = filesystem_storage demo_fs, rr_backend = Backend_Filesystem, rr_fs = demo_fs,
     rr_tree = (\<lambda>w. w), rr_max_source_size_mb = 1, rr_fetch = (\<lambda>_ _. Inl dependency_unavailable_error), rr_cognify = demo_clients\<rparr>"

definition demo_remember_context :: pipeline_context where
  "demo_remember_context = \<lparr>ctx_run_id = 9, ctx_pipeline_type = REMEMBER, ctx_dataset_id = Some 7, ctx_source_id = None,
     ctx_run_input = remember_text_run_input [100] ''A'' None [] None MODE_INGEST False, ctx_step_outputs = (\<lambda>_. None)\<rparr>"

definition demo_remember_kdb :: "pipeline_run list \<Rightarrow> source list \<Rightarrow> kdb" where
  "demo_remember_kdb runs sources = demo_kdb\<lparr>kb_runtime := (demo_db runs)\<lparr>datasets := [demo_kdataset]\<rparr>, kb_sources := sources\<rparr>"

lemmas demo_input = demo_remember_context_def remember_text_run_input_def remember_options_def str_get_def optional_str_def
  metadata_member_def jget_def opt_text_def json_str_def or_null_def

lemma demo_remember_ctx:
  "ctx_dataset_id demo_remember_context = Some 7" "ctx_run_id demo_remember_context = 9"
  "str_get (rm_repr demo_renv) (ctx_run_input demo_remember_context) ''source_kind'' = SOURCE_KIND_TEXT"
  "str_get (rm_repr demo_renv) (ctx_run_input demo_remember_context) ''mode'' \<noteq> MODE_FULL"
  "metadata_member (ctx_run_input demo_remember_context) = Some []"
  by (simp_all add: demo_input MODE_INGEST_def MODE_FULL_def)

lemma demo_remember_rows:
  "kb_dataset 7 (demo_remember_kdb runs sources) = Some demo_kdataset" "dataset_status demo_kdataset = Dataset_ACTIVE"
  "kb_document 91 (demo_remember_kdb runs sources) = None"
  "get_run k (kb_runtime (demo_remember_kdb runs sources)) = row_get run_id k runs"
  "kb_source k (demo_remember_kdb runs sources) = row_get src_id k sources"
  by (simp_all add: demo_remember_kdb_def demo_kdb_def demo_kdataset_def demo_db_def kb_dataset_def get_dataset_def row_get_def
      kb_document_def get_run_def kb_source_def demo_document_def)

lemma demo_no_versions: "versions_contiguous (demo_remember_kdb runs [])"
  by (simp add: versions_contiguous_def versions_of_def demo_remember_kdb_def)

lemma demo_sha: "ld_sha256 (cg_loader (rm_cognify demo_renv)) bs = map char_of bs" "fc_sha256 demo_fs bs = map char_of bs"
  by (simp_all add: demo_renv_def demo_loader_env_def demo_fs_def)

lemma demo_new_run: "get_run (ctx_run_id demo_remember_context) (kb_runtime (demo_remember_kdb [demo_run 9 REMEMBER (Some 7)] []))
    = Some (demo_run 9 REMEMBER (Some 7))"
  "reused_source (ctx_run_input demo_remember_context) (demo_run 9 REMEMBER (Some 7)) 7 h
     (demo_remember_kdb [demo_run 9 REMEMBER (Some 7)] []) = None"
  by (simp_all add: demo_remember_rows demo_remember_ctx(2) row_get_def demo_run_def new_run_def reused_source_def
      retry_source_reuse_def get_latest_by_content_hash_def demo_remember_kdb_def get_run_def demo_db_def)

theorem remember_text_completes_witness:
  "\<exists>out d' w' s x u. run_remember demo_renv (\<lambda>_ x. x) demo_remember_resources reads_of 0 demo_remember_context [9 \<mapsto> ([65], None)]
        (demo_remember_kdb [demo_run 9 REMEMBER (Some 7)] []) empty_tree = (Inr out, d', delete_ingress_artifact [9 \<mapsto> ([65], None)] 9, w')
     \<and> kb_source 90 d' = Some s \<and> src_storage_uri s = Some u \<and> kb_document 91 d' = Some x \<and> doc_generation x = 1"
proof -
  have ids: "kb_source (rm_source_id demo_renv) (demo_remember_kdb [demo_run 9 REMEMBER (Some 7)] []) = None"
    "kb_document (rm_document_id demo_renv) (demo_remember_kdb [demo_run 9 REMEMBER (Some 7)] []) = None"
    by (simp_all add: demo_renv_def demo_remember_rows row_get_def)
  have content: "[9 \<mapsto> ([65], None :: pystr option)] (ctx_run_id demo_remember_context) = Some ([65 :: nat], None)" "utf8 [65 :: nat] = Some [65]"
    "\<forall>x \<in> set [65 :: nat]. x < 1114112" by (simp_all add: demo_remember_ctx utf8_char_def)
  have storage: "rr_storage demo_remember_resources = filesystem_storage (rr_fs demo_remember_resources)"
    "fc_sha256 (rr_fs demo_remember_resources) = ld_sha256 (cg_loader (rm_cognify demo_renv))"
    "fs_ready (rr_fs demo_remember_resources) empty_tree" "storage_free (rr_fs demo_remember_resources) 7 (rm_source_id demo_renv) empty_tree"
    using demo_fs_ready demo_free demo_sha by (simp_all add: demo_remember_resources_def fun_eq_iff)
  have gen: "dataset_active_generation demo_kdataset = 1" by (simp add: demo_kdataset_def)
  from remember_text_completes[where c = demo_remember_context and env = demo_renv and res = demo_remember_resources
      and fs = "[9 \<mapsto> ([65], None)]" and w = empty_tree and bs = "[65]" and t = "[65]" and reads = reads_of and now = 0, OF demo_remember_ctx(1,3,4,5) demo_remember_rows(1,2) demo_new_run(1) demo_no_versions ids
      demo_new_run(2) content storage]
  show ?thesis unfolding gen demo_remember_ctx(2) by (simp add: demo_renv_def) blast
qed

text \<open>The source a failed run left behind, and its retry.\<close>

definition demo_unstored :: source where
  "demo_unstored = demo_source 3\<lparr>src_content_sha256 := ''A'', src_storage_uri := None, src_version := 1\<rparr>"

definition demo_retry_runs :: "pipeline_run list" where
  "demo_retry_runs = [(demo_run 8 REMEMBER (Some 7))\<lparr>run_source_id := Some 3\<rparr>,
     (demo_run 9 REMEMBER (Some 7))\<lparr>run_retry_of_run_id := Some 8\<rparr>]"

lemma demo_retry_rows:
  "get_run (ctx_run_id demo_remember_context) (kb_runtime (demo_remember_kdb demo_retry_runs [demo_unstored]))
     = Some ((demo_run 9 REMEMBER (Some 7))\<lparr>run_retry_of_run_id := Some 8\<rparr>)"
  "get_run 8 (kb_runtime (demo_remember_kdb demo_retry_runs [demo_unstored])) = Some ((demo_run 8 REMEMBER (Some 7))\<lparr>run_source_id := Some 3\<rparr>)"
  "kb_source 3 (demo_remember_kdb demo_retry_runs [demo_unstored]) = Some demo_unstored" "src_id demo_unstored = 3"
  "list_documents_for_source 3 (demo_remember_kdb demo_retry_runs [demo_unstored]) \<noteq> []"
  "versions_contiguous (demo_remember_kdb demo_retry_runs [demo_unstored])"
  by (simp_all add: demo_remember_rows demo_remember_ctx(2) demo_retry_runs_def row_get_def demo_run_def new_run_def demo_unstored_def
      demo_source_def list_documents_for_source_def demo_remember_kdb_def demo_kdb_def demo_document_def versions_contiguous_def versions_of_def get_run_def demo_db_def kb_source_def)

theorem retry_never_stores_original_witness:
  "\<exists>out d'. run_remember demo_renv (\<lambda>_ x. x) demo_remember_resources reads_of 0 demo_remember_context [9 \<mapsto> ([65], None)]
        (demo_remember_kdb demo_retry_runs [demo_unstored]) empty_tree = (Inr out, d', [9 \<mapsto> ([65], None)], empty_tree)
     \<and> kb_source 3 d' = Some demo_unstored \<and> src_storage_uri demo_unstored = None"
proof -
  have content: "[9 \<mapsto> ([65], None :: pystr option)] (ctx_run_id demo_remember_context) = Some ([65 :: nat], None)" "utf8 [65 :: nat] = Some [65]"
    "\<forall>x \<in> set [65 :: nat]. x < 1114112" by (simp_all add: demo_remember_ctx utf8_char_def)
  have r: "run_retry_of_run_id ((demo_run 9 REMEMBER (Some 7))\<lparr>run_retry_of_run_id := Some 8\<rparr>) = Some 8"
    "run_source_id ((demo_run 8 REMEMBER (Some 7))\<lparr>run_source_id := Some 3\<rparr>) = Some (src_id demo_unstored)"
    "src_dataset_id demo_unstored = 7" "src_content_sha256 demo_unstored = ld_sha256 (cg_loader (rm_cognify demo_renv)) [65]"
    "src_storage_uri demo_unstored = None"
    by (simp_all add: demo_retry_rows(4) demo_sha char_65) (simp_all add: demo_unstored_def demo_source_def)
  from retry_never_stores_original[where c = demo_remember_context and env = demo_renv and res = demo_remember_resources
      and fs = "[9 \<mapsto> ([65], None)]" and w = empty_tree and bs = "[65]" and t = "[65]" and reads = reads_of and now = 0, OF demo_remember_ctx(1,3,4,5) demo_remember_rows(1,2) demo_retry_rows(1) r(1) demo_retry_rows(2) r(2)
      demo_retry_rows(3)[folded demo_retry_rows(4)] r(3-5) demo_retry_rows(5)[folded demo_retry_rows(4)] content]
  show ?thesis unfolding demo_retry_rows(4) by blast
qed

definition demo_forgotten_rows :: kdb where
  "demo_forgotten_rows = (demo_remember_kdb [demo_run 9 REMEMBER (Some 7)] [demo_unstored\<lparr>src_status := Source_DELETED\<rparr>])
     \<lparr>kb_documents := [(demo_document 11 3)\<lparr>doc_is_active := False\<rparr>]\<rparr>"

lemma demo_forgotten:
  "kb_dataset 7 demo_forgotten_rows = Some demo_kdataset"
  "get_run (ctx_run_id demo_remember_context) (kb_runtime demo_forgotten_rows) = Some (demo_run 9 REMEMBER (Some 7))"
  "get_latest_by_content_hash 7 ''A'' demo_forgotten_rows = Some (demo_unstored\<lparr>src_status := Source_DELETED\<rparr>)"
  "list_documents_for_source 3 demo_forgotten_rows = [(demo_document 11 3)\<lparr>doc_is_active := False\<rparr>]"
  "run_retry_of_run_id (demo_run 9 REMEMBER (Some 7)) = None" "src_id (demo_unstored\<lparr>src_status := Source_DELETED\<rparr>) = 3"
  "\<not> truthy (jget (ctx_run_input demo_remember_context) ''force'')"
  by (simp_all add: demo_forgotten_rows_def demo_remember_kdb_def demo_kdb_def demo_kdataset_def demo_db_def kb_dataset_def
      get_dataset_def get_run_def row_get_def demo_remember_ctx(2) demo_run_def new_run_def get_latest_by_content_hash_def
      demo_unstored_def demo_source_def list_documents_for_source_def demo_document_def)
    (simp add: demo_input)

theorem forgotten_content_not_restored_witness:
  "\<exists>out d'. run_remember demo_renv (\<lambda>_ x. x) demo_remember_resources reads_of 0 demo_remember_context [9 \<mapsto> ([65], None)]
        demo_forgotten_rows empty_tree = (Inr out, d', [9 \<mapsto> ([65], None)], empty_tree)
     \<and> in_deduplicated (ro_ingested out) \<and> in_source_id (ro_ingested out) = 3 \<and> kb_documents d' = kb_documents demo_forgotten_rows"
proof -
  have content: "[9 \<mapsto> ([65], None :: pystr option)] (ctx_run_id demo_remember_context) = Some ([65 :: nat], None)" "utf8 [65 :: nat] = Some [65]"
    "\<forall>x \<in> set [65 :: nat]. x < 1114112" by (simp_all add: demo_remember_ctx utf8_char_def)
  have gone: "get_latest_by_content_hash 7 (ld_sha256 (cg_loader (rm_cognify demo_renv)) [65]) demo_forgotten_rows
      = Some (demo_unstored\<lparr>src_status := Source_DELETED\<rparr>)" "src_status (demo_unstored\<lparr>src_status := Source_DELETED\<rparr>) = Source_DELETED"
    "list_documents_for_source (src_id (demo_unstored\<lparr>src_status := Source_DELETED\<rparr>)) demo_forgotten_rows \<noteq> []"
    "\<forall>x \<in> set (list_documents_for_source (src_id (demo_unstored\<lparr>src_status := Source_DELETED\<rparr>)) demo_forgotten_rows). \<not> doc_is_active x"
    unfolding demo_forgotten(6) demo_forgotten(4) by (simp_all add: demo_sha char_65 demo_forgotten(3))
  from forgotten_content_not_restored[where c = demo_remember_context and env = demo_renv and res = demo_remember_resources
      and fs = "[9 \<mapsto> ([65], None)]" and w = empty_tree and bs = "[65]" and t = "[65]" and reads = reads_of and now = 0,
      OF demo_remember_ctx(1,3,4,5) demo_forgotten(1) demo_remember_rows(2) demo_forgotten(2,5,7) gone content]
  show ?thesis unfolding demo_forgotten(6) by blast
qed

theorem remember_versions_contiguous_witness:
  "\<exists>p i d'. ingest_body demo_renv demo_remember_context p (ingest_output_of SOURCE_KIND_TEXT p)
        (demo_remember_kdb [demo_run 9 REMEMBER (Some 7)] []) = Inr (i, d') \<and> versions_contiguous d' \<and> length (kb_sources d') = 1"
proof -
  define p where "p = \<lparr>pi_name = None, pi_mime_type = [], pi_storage_extension = [],
    pi_text = \<lparr>pt_original_bytes = [65], pt_normalized_text = [65], pt_content_sha256 = ''A'', pt_normalized_sha256 = ''A'', pt_byte_size = 1\<rparr>\<rparr>"
  have ids: "kb_source (rm_source_id demo_renv) (demo_remember_kdb [demo_run 9 REMEMBER (Some 7)] []) = None"
    "kb_document (rm_document_id demo_renv) (demo_remember_kdb [demo_run 9 REMEMBER (Some 7)] []) = None"
    by (simp_all add: demo_renv_def demo_remember_rows row_get_def)
  note new = ingest_new[OF demo_remember_ctx(1,3,5) demo_remember_rows(1,2) demo_new_run(1) demo_no_versions ids demo_new_run(2), of p "ingest_output_of SOURCE_KIND_TEXT p"]
  then obtain i d' where ingest: "ingest_body demo_renv demo_remember_context p (ingest_output_of SOURCE_KIND_TEXT p)
      (demo_remember_kdb [demo_run 9 REMEMBER (Some 7)] []) = Inr (i, d')" and added: "\<not> in_deduplicated i"
    by simp
  have none: "kb_sources (demo_remember_kdb [demo_run 9 REMEMBER (Some 7)] []) = []" by (simp add: demo_remember_kdb_def)
  have "versions_contiguous d' \<and> length (kb_sources d') = 1"
    using remember_versions_contiguous[OF demo_no_versions ingest] added by (auto simp: none)
  then show ?thesis using ingest by blast
qed

definition demo_url_context :: pipeline_context where
  "demo_url_context = demo_remember_context\<lparr>ctx_run_input := remember_url_run_input [100] [104] [] None MODE_FULL False\<rparr>"

theorem url_retry_always_rejected_witness:
  "\<exists>fs'. prepare_remember_retry_ingress (\<lambda>_. Some \<lparr>sts_storage_uri = Some ''u'', sts_dataset_id = Some 7, sts_content_sha256 = Some ''A'',
        sts_byte_size = Some 1\<rparr>) (\<lambda>_ _. Some [65]) 8 (Some 3) 9 SOURCE_KIND_URL (\<lambda>_. None) = (True, fs')
     \<and> fst (run_remember demo_renv (\<lambda>_ x. x) demo_remember_resources reads_of 0 demo_url_context fs' demo_kdb empty_tree)
       = Inl (Permanent_Step_Error ''REMEMBER_CONTENT_REJECTED'' ''Remember content could not be processed.'')"
proof -
  have kind: "str_get (rm_repr demo_renv) (ctx_run_input demo_url_context) ''source_kind'' = SOURCE_KIND_URL"
    by (simp add: demo_url_context_def remember_url_run_input_def demo_input)
  have lower: "ld_lower (cg_loader (rm_cognify demo_renv)) [] = []" by (simp add: demo_renv_def demo_loader_env_def)
  have id: "ctx_run_id demo_url_context = 9" by (simp add: demo_url_context_def demo_remember_ctx(2))
  show ?thesis
    using url_retry_always_rejected[where fs = "\<lambda>_. None" and c = demo_url_context and sources = "\<lambda>_. Some \<lparr>sts_storage_uri = Some ''u'',
        sts_dataset_id = Some 7, sts_content_sha256 = Some ''A'', sts_byte_size = Some 1\<rparr>" and stored = "\<lambda>_ _. Some [65]"
        and original_run = 8 and sid = 3 and bs = "[65]" and res = demo_remember_resources and reads = reads_of and now = 0
        and interfere = "\<lambda>_ x. x" and d = demo_kdb and w = empty_tree, OF _ _ refl _ _ _ _ _ kind lower]
    unfolding id by auto
qed

definition demo_down :: "unit s3_client" where
  "demo_down = \<lparr>sc_head_object = (\<lambda>b k w. (Inl Boto_Core_Error, w)), sc_put_object = (\<lambda>b k bs m w. (Inl Boto_Core_Error, w)),
     sc_get_object = (\<lambda>b k w. (Inl Boto_Core_Error, w)), sc_delete_object = (\<lambda>b k w. (Inl Boto_Core_Error, w)),
     sc_bucket_versioning = (\<lambda>b w. (Inl Boto_Core_Error, w)), sc_list_versions = (\<lambda>b k w. (Inl Boto_Core_Error, w)),
     sc_delete_objects = (\<lambda>b vs w. (Inl Boto_Core_Error, w))\<rparr>"

definition demo_s3_resources :: "unit remember_resources" where
  "demo_s3_resources = \<lparr>rr_storage = s3_storage demo_s3_config demo_down, rr_backend = Backend_S3, rr_fs = demo_fs,
     rr_tree = (\<lambda>_. empty_tree), rr_max_source_size_mb = 1, rr_fetch = (\<lambda>_ _. Inl dependency_unavailable_error), rr_cognify = demo_clients\<rparr>"

definition demo_ingested :: ingested where
  "demo_ingested = \<lparr>in_output = \<lparr>io_source_kind = SOURCE_KIND_TEXT, io_content_sha256 = ''A'', io_byte_size = 1, io_mime_type = [],
       io_storage_extension = [46, 116]\<rparr>, in_dataset_id = 7, in_source_id = 3, in_document_id = 11, in_deduplicated = False, in_version = 1\<rparr>"

theorem s3_outage_is_permanent_witness:
  "finalize_storage_execute (Some demo_s3_resources) demo_remember_context (Some demo_ingested) [9 \<mapsto> ([65], None)] ()
    = (Inl Other_Exception, [9 \<mapsto> ([65], None)], ())"
proof -
  have out: "s3_outage demo_down" by (simp add: s3_outage_def demo_down_def)
  have res: "rr_storage demo_s3_resources = s3_storage demo_s3_config demo_down" "rr_backend demo_s3_resources = Backend_S3"
    by (simp_all add: demo_s3_resources_def)
  have ing: "key_extension (io_storage_extension (in_output demo_ingested))" "\<not> in_deduplicated demo_ingested"
    using demo_s3_location(2) by (simp_all add: demo_ingested_def)
  from s3_outage_is_permanent[where fs = "[9 \<mapsto> ([65], None)]" and c = demo_remember_context and w = "()",
      OF out demo_s3_location(1) res ing]
  show ?thesis by (simp add: demo_remember_ctx(2))
qed

end
