(* ===== verification/Spec2Isabelle.thy ===== *)
theory Spec2Isabelle
  imports End_To_End Graph_Outbox_Facts Memory_Truth Dataset_Delete_Facts Recall_Claims Chunking_Facts Loaders_Facts Cognify_Properties Remember_Properties
begin

text \<open>
  Sofia's Memory: a memory service whose writes are durable runs.

  The program is a FastAPI service over PostgreSQL, with Neo4j as a projection, an object store for
  originals and model providers for embeddings and answers.  Sources are remembered, cognified into
  chunks, entities and relations, recalled, and forgotten; beside this knowledge memory stand
  sessions and a cognitive memory of stated items.  Long writes are a \<open>PipelineRun\<close> with its
  \<open>PipelineStep\<close>s, submitted under an optional idempotency key, claimed by one in-process worker
  under PostgreSQL advisory locks, executed step by step by the engine, and recovered at startup when
  a worker died.  Short writes (sessions, memory items) are one transaction of a service.

  All paths below are under \<open>src/sofias_memory/\<close>.

  \<^bold>\<open>The pipeline runtime\<close>

  \<^item> \<open>Prelude\<close>: identifiers, time, JSON, errors as sums, tables as lists of rows with the locale
    \<open>row_store\<close>.  \<open>Domain_Enums\<close>: \<open>domain/enums.py\<close>, the public error codes of
    \<open>schemas/common.py\<close> and the exceptions.  \<open>Schema\<close>: \<open>infrastructure/postgres/models\<close>, with
    the CHECK constraints and unique indexes as \<open>db_ok\<close>.
  \<^item> \<open>Lifecycle\<close>: \<open>domain/pipeline_lifecycle.py\<close> and the transitions of
    \<open>services/pipeline_lifecycle.py\<close>; the locales \<open>transition_matrix\<close> and \<open>guarded_row\<close> state
    what a transition matrix promises and are interpreted on runs and steps.
  \<^item> \<open>Hashing\<close>: \<open>pipelines/hashing.py\<close> with Python's \<open>json.dumps\<close> and UTF-8.  \<open>Registry\<close>:
    \<open>pipelines/registry.py\<close>, \<open>retry_policy.py\<close>, and the creation of a run with its steps.
  \<^item> \<open>Run_Repository\<close>: every query of
    \<open>infrastructure/postgres/repositories/pipeline_runs.py\<close> as a function of the tables and the
    database clock.
  \<^item> \<open>Claimer\<close>: \<open>services/process_state.py\<close>, \<open>advisory_lock_keys.py\<close> and
    \<open>services/pipeline_queue_claimer.py\<close>, one transaction per candidate.  \<open>Claim_Concurrency\<close>:
    the same protocol statement by statement, as a step relation over any number of sessions, whose
    commit refines the atomic transaction.
  \<^item> \<open>Lease\<close>, \<open>Engine\<close>, \<open>Engine_Facts\<close>, \<open>Engine_Liveness\<close>: \<open>pipelines/engine.py\<close>.  Each phase
    (prepare, checkpoint, execute, commit) is a transaction body of type
    \<open>db \<Rightarrow> exn + (outcome \<times> db)\<close>; \<open>run_tx\<close> is the unit of work.  The locale \<open>fenced_lease\<close> states
    the fencing by worker id and attempt and is interpreted on the run row.
  \<^item> \<open>Recovery\<close>, \<open>Recovery_Facts\<close>: \<open>services/pipeline_recovery.py\<close>.
  \<^item> \<open>Submission\<close>, \<open>Submission_Facts\<close>: \<open>services/pipeline_submission.py\<close> and
    \<open>services/dataset_delete_barrier.py\<close>; the locale \<open>idempotent_ledger\<close> is the contract of a keyed
    resolve-or-create, interpreted on \<open>submit_work\<close>.
  \<^item> \<open>Run_Control\<close>, \<open>Run_Control_Facts\<close>: \<open>services/runs.py\<close>, \<open>run_control.py\<close>,
    \<open>dataset_delete.py\<close>, \<open>pipeline_waiter.py\<close> and the retry ingress of \<open>remember.py\<close>.
  \<^item> \<open>End_To_End\<close>: submission, claim and execution composed.

  \<^bold>\<open>The graph projection\<close>

  \<^item> \<open>Projection\<close>, \<open>Projection_Facts\<close>: the commands of \<open>ports/graph_projection.py\<close>, their payload
    and parser.
  \<^item> \<open>Graph_Outbox\<close>, \<open>Graph_Outbox_Facts\<close>: the outbox row and repository,
    \<open>services/graph_outbox_processor.py\<close> and \<open>graph_outbox_batch_processor.py\<close>.

  \<^bold>\<open>Text rules and the cognitive memory\<close>

  \<^item> \<open>Domain_Text\<close>, \<open>Domain_Text_Facts\<close>: the identifier, profile, tag and skill revision rules of
    \<open>domain/\<close>, and the canonical content hash.
  \<^item> \<open>Memory_Domain\<close>, \<open>Memory_Store\<close>, \<open>Memory_Service\<close>: \<open>domain/cognitive_memory*.py\<close>, the three
    tables with their constraints and repositories, and create, get, supersede, forget and recall of
    \<open>services/cognitive_memory*.py\<close> with the idempotency ledger.  \<open>Memory_Facts\<close>,
    \<open>Memory_Properties\<close> and \<open>Memory_Truth\<close>: the table invariant, lineages, exactly-once creation,
    and at which instants an item is current truth.

  \<^bold>\<open>Knowledge: remember, cognify, forget\<close>

  \<^item> \<open>Knowledge_Store\<close>: the rows of sources, documents, chunks, entities, mentions, relations,
    evidence and summaries (record \<open>kdb\<close>, which contains the run tables) and the repository queries
    over them.
  \<^item> \<open>Chunking\<close>, \<open>Chunking_Facts\<close>: \<open>pipelines/chunking.py\<close>.  \<open>Loaders\<close>, \<open>Loaders_Facts\<close>:
    \<open>loaders/text.py\<close>.  \<open>Knowledge_Extraction\<close>: \<open>schemas/knowledge.py\<close>.
  \<^item> \<open>Cognify_Prepare\<close>, \<open>Cognify_Resolve\<close>, \<open>Cognify_Writes\<close>, \<open>Cognify_Persist\<close>,
    \<open>Cognify_Sources\<close>, \<open>Cognify_Batch\<close>, \<open>Cognify_Pipeline\<close>: \<open>services/cognify.py\<close> and
    \<open>pipelines/steps/cognify.py\<close>, what a batch reads and asks of the providers and what it then
    writes in one transaction.  \<open>Cognify_Facts\<close>, \<open>Cognify_Properties\<close>: the graph stays supported.
  \<^item> \<open>Forget_Mutation\<close>, \<open>Forget_Pipeline\<close>, \<open>Forget_Facts\<close>, \<open>Forget_Properties\<close>:
    \<open>services/forget.py\<close> and \<open>pipelines/steps/forget.py\<close>.  \<open>Dataset_Delete_Pipeline\<close>,
    \<open>Dataset_Delete_Facts\<close>: \<open>pipelines/steps/dataset_delete.py\<close> with its convergence check.
  \<^item> \<open>Storage_Port\<close>: the port of \<open>infrastructure/storage/port.py\<close> as a record of operations and as
    the locale \<open>source_object_storage\<close>, its contract.  \<open>Storage_Filesystem\<close> with \<open>Storage_Facts\<close> and
    \<open>Storage_Contract\<close>: the filesystem adapter over a tree of nodes, with the percent encoding of its
    URIs, and the interpretation of the contract on it.  \<open>Storage_S3\<close>, \<open>Storage_S3_Facts\<close>: the S3
    adapter over a record of client calls, and the router.  \<open>Storage_Properties\<close>: round trip and
    containment.
  \<^item> \<open>Remember_Pipeline\<close>, \<open>Remember_Facts\<close>, \<open>Remember_Properties\<close>: the run inputs of
    \<open>services/remember.py\<close> and the four steps of \<open>pipelines/steps/remember.py\<close>.

  \<^bold>\<open>Sessions and recall\<close>

  \<^item> \<open>Session_Store\<close>, \<open>Session_Service\<close>, \<open>Session_Facts\<close>, \<open>Session_Properties\<close>: the session,
    entry and query tables and \<open>services/sessions.py\<close>, \<open>services/session_entries.py\<close>.
  \<^item> \<open>Recall_Store\<close>, \<open>Recall_Service\<close>, \<open>Recall_Call\<close>, \<open>Recall_Facts\<close>, \<open>Recall_Properties\<close>,
    \<open>Recall_Claims\<close>: the recall statements of the repositories and \<open>services/recall.py\<close>: rank
    fusion, graph hydration, references, answer context and the audit row.

  \<^bold>\<open>State and environment.\<close>  A database is the record \<open>db\<close> (runs, steps, datasets) or \<open>kdb\<close>.  A
  transaction is a function of it; what other sessions commit between two transactions of one
  operation is an arbitrary function of the environment records (\<open>env_interfere\<close>,
  \<open>eng_interfere\<close>, \<open>sub_interfere\<close>, \<open>ret_interfere\<close>, the \<open>interfere\<close> argument of the pipelines),
  and \<open>now()\<close>, row locks, advisory locks and fresh UUIDs are fields of the same records.  Safety
  theorems hold for every such environment or name what it must keep (\<open>keeps_runs\<close>); theorems named
  after an undisturbed or quiet environment are about an operation nobody interleaves with.

  \<^bold>\<open>Parameters.\<close>  Code outside the repository is an argument of the definitions that use it: SHA-256
  and HMAC, \<open>uuid5\<close>, the text of a float, the Unicode tables, the tokenizer, the parsers behind the
  loaders (JSON, CSV, HTML, PDF, DOCX), the embedding, extraction, summary and answer providers, the
  graph store, the vector distance, the full-text search and the JSONB containment of PostgreSQL, the
  boto3 client, the URL fetcher, the checks of \<open>urlsplit\<close> on a network location
  (\<open>fc_check_netloc\<close>) and the decoding of malformed UTF-8 (\<open>fc_lenient\<close>).  Scores, distances and
  confidences are exact rationals in place of floats.  The step code of a run is an argument of the
  engine; \<open>persist_contract\<close> and \<open>prepare_contract\<close> state what the engine and the submission rely on:
  a persist callback or preparation hook does not touch the run and step rows.  The deletion
  pipelines take the outbox drain and the storage deletion as functions.  The file tree has no
  symbolic links.

  \<^bold>\<open>Loops.\<close>  The recovery loop and the waiting loop run on fuel; their termination theorems give
  the fuel that is enough (operational runs plus one; poll intervals in the timeout plus one).
  Every other loop is structural or has its termination proof.

  \<^bold>\<open>What the theorems show.\<close>  Runs: exactly-once submission, exclusive claims, fencing, convergence
  of cancelling and recovery, and that a submitted run succeeds.  Projection: a drain settles its
  dataset.  Memory: exactly-once creation, permanent forgetting, linear lineages.  Knowledge:
  chunks put together are the document and respect the token bound, cognify and forget keep the
  graph supported, forget, deletion and remember runs complete, and a deletion is only reported with
  evidence.  Storage: an original survives other sources and no URI escapes its directory.  Recall:
  only current rows, within the bounds, audited once.  Seven theorems state behaviour a reader would
  not expect: an as-of instant with two current truths, a retried deletion that converges vacuously,
  an entity left behind by an interrupted rebuild, forgotten content that is not remembered again, a
  retry that never stores its original, a URL retry that is always rejected, and a storage outage
  that fails for good.

  \<^bold>\<open>Not modelled.\<close>  Logging, asyncio cancellation and shielding, the worker's polling loop, the
  interleaving of statements inside one transaction other than the claim's, the HTTP layer and its
  middleware, the improve pipeline, feedback, the agent and skill services, provenance and graph
  reads, the maintenance, rebuild and reconciliation of the projection, storage migration, the URL
  loader, metrics, configuration and start-up.
\<close>

end
